(* ===== verification/Js_Prelude.thy ===== *)
theory Js_Prelude
  imports Complex_Main
begin

text \<open>
  The prelude of the development: the JavaScript values, strings and errors that every component
  of the program works with, and the generic lemmas about them.

  A JavaScript string is a \<open>string\<close> whose characters are the UTF-16 code units below 256; longer
  code units do not occur in anything the program compares or matches. An \<open>unknown\<close> value, as
  \<open>JSON.parse\<close> returns it, is a \<open>json\<close> value; an object keeps its own properties in the order of
  \<open>Object.keys\<close>. A function that throws returns \<open>error + 'a\<close>; a validator, which returns nothing,
  returns \<open>error option\<close>: \<open>None\<close> when it returns and \<open>Some e\<close> when it throws \<open>e\<close>.
\<close>

section \<open>Errors\<close>

text \<open>One constructor per error class of the program; a coded error carries its code first.\<close>

datatype error =
    PlainError string
  | ProtocolError string
  | TaskContractError string
  | TaskTransportContractError string
  | TaskTransportRuntimeError string string
  | WorkspaceContractError string
  | AdapterContractError string string
  | HostChildAgentContractError string string
  | DelegationContractError string string
  | CallableTaskStateError string
  | InvalidFirstLaunchTransitionError string
  | WorkspaceStoreError string string
  | ApplicationProtocolError string
  | AiStatusProtocolError string
  | InvalidDisplayNameError string
  | LocalAccountPersistenceError string
  | NetworkClientError string string string
  | SidecarError string string
  | TypeError string

type_synonym 'a result = "error + 'a"

definition rbind :: "'a result \<Rightarrow> ('a \<Rightarrow> 'b result) \<Rightarrow> 'b result" where
  "rbind m f = (case m of Inl e \<Rightarrow> Inl e | Inr x \<Rightarrow> f x)"

definition throw_if :: "bool \<Rightarrow> error \<Rightarrow> error option" where
  "throw_if b e = (if b then Some e else None)"

text \<open>A sequence of checks throws the error of the first check that throws.\<close>

fun first_err :: "error option list \<Rightarrow> error option" where
  "first_err [] = None"
| "first_err (None # es) = first_err es"
| "first_err (Some e # es) = Some e"

definition guarded :: "error option \<Rightarrow> 'a result \<Rightarrow> 'a result" where
  "guarded c m = (case c of None \<Rightarrow> m | Some e \<Rightarrow> Inl e)"

named_theorems valid_simps "what it means that a validator returns"

lemma rbind_simps [simp]:
  "rbind (Inl e) f = Inl e"
  "rbind (Inr x) f = f x"
  by (simp_all add: rbind_def)

lemma rbind_Inr_conv: "rbind m f = Inr y \<longleftrightarrow> (\<exists>x. m = Inr x \<and> f x = Inr y)"
  by (cases m) auto

lemma guarded_simps [simp]:
  "guarded None m = m"
  "guarded (Some e) m = Inl e"
  by (simp_all add: guarded_def)

lemma guarded_Inr_conv: "guarded c m = Inr y \<longleftrightarrow> c = None \<and> m = Inr y"
  by (cases c) auto

lemma throw_if_simps [simp]:
  "throw_if True e = Some e"
  "throw_if False e = None"
  by (simp_all add: throw_if_def)

lemma throw_if_None [valid_simps]: "throw_if b e = None \<longleftrightarrow> \<not> b"
  by (simp add: throw_if_def)

lemma throw_if_Some: "throw_if b e = Some e' \<longleftrightarrow> b \<and> e' = e"
  by (auto simp: throw_if_def)

lemma first_err_Cons: "first_err (c # cs) = (case c of None \<Rightarrow> first_err cs | Some e \<Rightarrow> Some e)"
  by (cases c) simp_all

lemma first_err_None_Cons [valid_simps]:
  "first_err (c # cs) = None \<longleftrightarrow> c = None \<and> first_err cs = None"
  by (cases c) simp_all

lemma first_err_None: "first_err cs = None \<longleftrightarrow> (\<forall>c\<in>set cs. c = None)"
  by (induction cs) (auto simp: first_err_None_Cons)

lemma first_err_append:
  "first_err (xs @ ys) = (case first_err xs of None \<Rightarrow> first_err ys | Some e \<Rightarrow> Some e)"
  by (induction xs) (auto simp: first_err_Cons split: option.splits)

lemma first_err_Some_in: "first_err cs = Some e \<Longrightarrow> Some e \<in> set cs"
  by (induction cs) (auto simp: first_err_Cons split: option.splits)

lemma first_err_map_None:
  "first_err (map f xs) = None \<longleftrightarrow> (\<forall>x\<in>set xs. f x = None)"
  by (simp add: first_err_None)

section \<open>Values\<close>

text \<open>
  A number: an integer, a fraction with its ECMAScript rendering, or one of \<open>NaN\<close> and the
  infinities.
\<close>

datatype jsnum = NInt int | Frac rat string | NonFinite string

datatype json =
    JUndef
  | JNull
  | JBool bool
  | JNum jsnum
  | JStr string
  | JArr "json list"
  | JObj "(string \<times> json) list"

definition max_safe_integer :: int where
  "max_safe_integer = 9007199254740991"

text \<open>\<open>Number.isSafeInteger\<close> and \<open>Number.isInteger\<close> on numbers.\<close>

fun num_is_integer :: "jsnum \<Rightarrow> bool" where
  "num_is_integer (NInt i) = True"
| "num_is_integer _ = False"

fun num_is_safe :: "jsnum \<Rightarrow> bool" where
  "num_is_safe (NInt i) = (\<bar>i\<bar> \<le> max_safe_integer)"
| "num_is_safe _ = False"

text \<open>The integer an integral number stands for; only read where \<open>num_is_integer\<close> was checked.\<close>

fun num_int :: "jsnum \<Rightarrow> int" where
  "num_int (NInt i) = i"
| "num_int _ = 0"

fun is_safe_integer :: "json \<Rightarrow> bool" where
  "is_safe_integer (JNum n) = num_is_safe n"
| "is_safe_integer _ = False"

fun int_of :: "json \<Rightarrow> int" where
  "int_of (JNum n) = num_int n"
| "int_of _ = 0"

abbreviation jint :: "int \<Rightarrow> json" where
  "jint i \<equiv> JNum (NInt i)"

text \<open>A safe integer in \<open>[lo, hi]\<close>: the shape of most numeric checks of the program.\<close>

definition safe_int_in :: "int \<Rightarrow> int \<Rightarrow> json \<Rightarrow> bool" where
  "safe_int_in lo hi v \<longleftrightarrow> is_safe_integer v \<and> lo \<le> int_of v \<and> int_of v \<le> hi"

definition safe_int_from :: "int \<Rightarrow> json \<Rightarrow> bool" where
  "safe_int_from lo v \<longleftrightarrow> is_safe_integer v \<and> lo \<le> int_of v"

lemma is_safe_integer_conv:
  "is_safe_integer v \<longleftrightarrow> (\<exists>i. v = jint i \<and> \<bar>i\<bar> \<le> max_safe_integer)"
  by (cases v rule: is_safe_integer.cases; simp; metis jsnum.exhaust num_is_safe.simps
      jsnum.inject(1))

lemma safe_int_from_jint [simp]:
  "safe_int_from lo (jint i) \<longleftrightarrow> \<bar>i\<bar> \<le> max_safe_integer \<and> lo \<le> i"
  by (simp add: safe_int_from_def)

lemma safe_int_in_jint [simp]:
  "safe_int_in lo hi (jint i) \<longleftrightarrow> \<bar>i\<bar> \<le> max_safe_integer \<and> lo \<le> i \<and> i \<le> hi"
  by (simp add: safe_int_in_def)

text \<open>\<open>typeof v === "string"\<close> and the string; \<open>isRecord\<close>; \<open>Array.isArray\<close>.\<close>

fun is_string :: "json \<Rightarrow> bool" where
  "is_string (JStr s) = True"
| "is_string _ = False"

fun str_of :: "json \<Rightarrow> string" where
  "str_of (JStr s) = s"
| "str_of _ = []"

fun is_record :: "json \<Rightarrow> bool" where
  "is_record (JObj kvs) = True"
| "is_record _ = False"

fun is_array :: "json \<Rightarrow> bool" where
  "is_array (JArr xs) = True"
| "is_array _ = False"

fun items :: "json \<Rightarrow> json list" where
  "items (JArr xs) = xs"
| "items _ = []"

fun is_boolean :: "json \<Rightarrow> bool" where
  "is_boolean (JBool b) = True"
| "is_boolean _ = False"

text \<open>\<open>Object.keys(v)\<close>, \<open>key in v\<close> and \<open>v[key]\<close>.\<close>

fun keys_of :: "json \<Rightarrow> string list" where
  "keys_of (JObj kvs) = map fst kvs"
| "keys_of _ = []"

fun get :: "json \<Rightarrow> string \<Rightarrow> json" where
  "get (JObj kvs) k = (case map_of kvs k of None \<Rightarrow> JUndef | Some v \<Rightarrow> v)"
| "get _ k = JUndef"

lemma is_string_conv: "is_string v \<longleftrightarrow> (\<exists>s. v = JStr s)"
  by (cases v) auto

lemma JStr_str_of: "is_string v \<Longrightarrow> JStr (str_of v) = v"
  by (cases v) auto

lemma jint_int_of: "safe_int_from lo v \<Longrightarrow> jint (int_of v) = v"
  by (auto simp: safe_int_from_def is_safe_integer_conv)

lemma is_record_conv: "is_record v \<longleftrightarrow> (\<exists>kvs. v = JObj kvs)"
  by (cases v) auto

lemma is_array_conv: "is_array v \<longleftrightarrow> (\<exists>xs. v = JArr xs)"
  by (cases v) auto

lemma get_JObj_Nil [simp]: "get (JObj []) k = JUndef"
  by simp

lemma get_JObj_Cons [simp]:
  "get (JObj ((k', v) # kvs)) k = (if k = k' then v else get (JObj kvs) k)"
  by simp

declare get.simps(1) [simp del]

lemma get_not_key: "k \<notin> set (keys_of v) \<Longrightarrow> get v k = JUndef"
  by (cases v) (auto simp: get.simps image_iff dest!: map_of_SomeD split: option.splits)

text \<open>An optional TypeScript field: absent is \<open>undefined\<close>.\<close>

definition opt_json :: "('a \<Rightarrow> json) \<Rightarrow> 'a option \<Rightarrow> json" where
  "opt_json f x = (case x of None \<Rightarrow> JUndef | Some y \<Rightarrow> f y)"

text \<open>A nullable TypeScript field.\<close>

definition null_json :: "('a \<Rightarrow> json) \<Rightarrow> 'a option \<Rightarrow> json" where
  "null_json f x = (case x of None \<Rightarrow> JNull | Some y \<Rightarrow> f y)"

definition opt_field :: "string \<Rightarrow> ('a \<Rightarrow> json) \<Rightarrow> 'a option \<Rightarrow> (string \<times> json) list" where
  "opt_field k f x = (case x of None \<Rightarrow> [] | Some y \<Rightarrow> [(k, f y)])"

lemma opt_json_simps [simp]: "opt_json f None = JUndef" "opt_json f (Some y) = f y"
  by (simp_all add: opt_json_def)

lemma null_json_simps [simp]: "null_json f None = JNull" "null_json f (Some y) = f y"
  by (simp_all add: null_json_def)

lemma opt_field_simps [simp]: "opt_field k f None = []" "opt_field k f (Some y) = [(k, f y)]"
  by (simp_all add: opt_field_def)

lemma null_json_eq_JNull: "(\<And>y. f y \<noteq> JNull) \<Longrightarrow> null_json f x = JNull \<longleftrightarrow> x = None"
  by (cases x) auto

section \<open>Strings\<close>

definition cu :: "char \<Rightarrow> int" where
  "cu c = of_char c"

definition is_lower :: "char \<Rightarrow> bool" where
  "is_lower c \<longleftrightarrow> 97 \<le> cu c \<and> cu c \<le> 122"

definition is_upper :: "char \<Rightarrow> bool" where
  "is_upper c \<longleftrightarrow> 65 \<le> cu c \<and> cu c \<le> 90"

definition is_digit :: "char \<Rightarrow> bool" where
  "is_digit c \<longleftrightarrow> 48 \<le> cu c \<and> cu c \<le> 57"

definition is_lower_alnum :: "char \<Rightarrow> bool" where
  "is_lower_alnum c \<longleftrightarrow> is_lower c \<or> is_digit c"

definition is_alnum :: "char \<Rightarrow> bool" where
  "is_alnum c \<longleftrightarrow> is_lower c \<or> is_upper c \<or> is_digit c"

text \<open>White space of \<open>String.prototype.trim\<close> among the code units below 256.\<close>

definition is_space :: "char \<Rightarrow> bool" where
  "is_space c \<longleftrightarrow> (9 \<le> cu c \<and> cu c \<le> 13) \<or> cu c = 32 \<or> cu c = 160"

definition trim :: "string \<Rightarrow> string" where
  "trim s = rev (dropWhile is_space (rev (dropWhile is_space s)))"

definition lower_char :: "char \<Rightarrow> char" where
  "lower_char c = (if is_upper c \<or> (192 \<le> cu c \<and> cu c \<le> 222 \<and> cu c \<noteq> 215)
     then char_of (cu c + 32) else c)"

definition to_lower_case :: "string \<Rightarrow> string" where
  "to_lower_case s = map lower_char s"

text \<open>\<open>new TextEncoder().encode(s).byteLength\<close>.\<close>

definition utf8_size :: "string \<Rightarrow> int" where
  "utf8_size s = sum_list (map (\<lambda>c. if cu c < 128 then 1 else 2) s)"

definition starts_with :: "string \<Rightarrow> string \<Rightarrow> bool" where
  "starts_with p s \<longleftrightarrow> take (length p) s = p"

definition ends_with :: "string \<Rightarrow> string \<Rightarrow> bool" where
  "ends_with p s \<longleftrightarrow> starts_with (rev p) (rev s)"

text \<open>\<open>s.split(d)\<close>, for a separator given by a class of characters.\<close>

fun split_by :: "(char \<Rightarrow> bool) \<Rightarrow> string \<Rightarrow> string list" where
  "split_by d [] = [[]]"
| "split_by d (c # cs) =
     (if d c then [] # split_by d cs
      else (case split_by d cs of [] \<Rightarrow> [[c]] | w # ws \<Rightarrow> (c # w) # ws))"

definition split_on :: "char \<Rightarrow> string \<Rightarrow> string list" where
  "split_on d = split_by (\<lambda>c. c = d)"

fun join_with :: "string \<Rightarrow> string list \<Rightarrow> string" where
  "join_with d [] = []"
| "join_with d [w] = w"
| "join_with d (w # ws) = w @ d @ join_with d ws"

definition control_char :: "char \<Rightarrow> bool" where
  "control_char c \<longleftrightarrow> cu c \<le> 31 \<or> cu c = 127"

lemma cu_range: "0 \<le> cu c" "cu c < 256"
  using pos_mod_sign [of 256 "of_char c :: int"] pos_mod_bound [of 256 "of_char c :: int"]
  by (simp_all add: cu_def)

lemma utf8_size_bounds: "int (length s) \<le> utf8_size s" "utf8_size s \<le> 2 * int (length s)"
  by (induction s) (auto simp: utf8_size_def)

lemma utf8_size_append: "utf8_size (s @ t) = utf8_size s + utf8_size t"
  by (simp add: utf8_size_def)

lemma utf8_size_ascii: "list_all (\<lambda>c. cu c < 128) s \<Longrightarrow> utf8_size s = int (length s)"
  by (induction s) (auto simp: utf8_size_def)

lemma trim_eq_Nil: "trim s = [] \<longleftrightarrow> list_all is_space s"
proof
  assume "trim s = []"
  then have all: "\<forall>c\<in>set (dropWhile is_space s). is_space c"
    by (simp add: trim_def dropWhile_eq_Nil_conv)
  show "list_all is_space s"
  proof (cases "dropWhile is_space s")
    case Nil
    then show ?thesis by (simp add: dropWhile_eq_Nil_conv list_all_iff)
  next
    case (Cons c cs)
    then have "\<not> is_space c" by (metis dropWhile_eq_Cons_conv)
    with all Cons show ?thesis by simp
  qed
next
  assume "list_all is_space s"
  then show "trim s = []" by (simp add: trim_def list_all_iff dropWhile_eq_Nil_conv[THEN iffD2])
qed

text \<open>Decimal rendering of integers, as string templates and \<open>String(n)\<close> give it.\<close>

function string_of_nonneg :: "int \<Rightarrow> string" where
  "string_of_nonneg n =
     (if n < 10 then [char_of (48 + n)] else string_of_nonneg (n div 10) @ [char_of (48 + n mod 10)])"
  by pat_completeness auto
termination
  by (relation "measure nat") auto

declare string_of_nonneg.simps [simp del]

definition string_of_int :: "int \<Rightarrow> string" where
  "string_of_int i = (if i < 0 then CHR ''-'' # string_of_nonneg (- i) else string_of_nonneg i)"

text \<open>Different numbers have different decimal renderings.\<close>

lemma string_of_nonneg_nonempty: "string_of_nonneg n \<noteq> []"
  by (subst string_of_nonneg.simps) simp

lemma digit_char_inj:
  assumes "char_of (48 + m) = (char_of (48 + n) :: char)" and "0 \<le> m" "m < 10" "0 \<le> n" "n < (10 :: int)"
  shows "m = n"
proof -
  have "(of_char (char_of (48 + m)) :: int) = of_char (char_of (48 + n))" using assms(1) by simp
  then show ?thesis using assms(2-) by (simp add: of_char_of)
qed

lemma string_of_nonneg_inj:
  "string_of_nonneg m = string_of_nonneg n \<Longrightarrow> 0 \<le> m \<Longrightarrow> 0 \<le> n \<Longrightarrow> m = n"
proof (induction m arbitrary: n rule: string_of_nonneg.induct)
  case (1 m)
  have eq: "(if m < 10 then [char_of (48 + m)] else string_of_nonneg (m div 10) @ [char_of (48 + m mod 10)])
      = (if n < 10 then [char_of (48 + n)] else string_of_nonneg (n div 10) @ [char_of (48 + n mod 10)])"
    using "1.prems"(1) by (subst (asm) (1 2) string_of_nonneg.simps)
  show ?case
  proof (cases "m < 10")
    case True
    then have "n < 10" using eq string_of_nonneg_nonempty [of "n div 10"] by (auto split: if_splits)
    with True eq "1.prems"(2,3) digit_char_inj [of m n] show ?thesis by simp
  next
    case False
    then have n: "\<not> n < 10" using eq string_of_nonneg_nonempty [of "m div 10"] by (auto split: if_splits)
    with False eq have "string_of_nonneg (m div 10) = string_of_nonneg (n div 10)"
      and last: "char_of (48 + m mod 10) = (char_of (48 + n mod 10) :: char)" by auto
    with "1.IH" [OF False, of "n div 10"] False n have "m div 10 = n div 10" by simp
    moreover have "m mod 10 = n mod 10" using last by (rule digit_char_inj) simp_all
    ultimately show ?thesis by (metis div_mult_mod_eq)
  qed
qed

lemma string_of_int_nat_inj: "string_of_int (int m) = string_of_int (int n) \<Longrightarrow> m = n"
  using string_of_nonneg_inj [of "int m" "int n"] by (simp add: string_of_int_def)

section \<open>The regular expressions of the program\<close>

text \<open>\<open>/^[a-z0-9]+(?:[._-][a-z0-9]+)*$/\<close>, the slug pattern.\<close>

definition slug_sep :: "char \<Rightarrow> bool" where
  "slug_sep c \<longleftrightarrow> c = CHR ''.'' \<or> c = CHR ''_'' \<or> c = CHR ''-''"

fun slug_tail :: "bool \<Rightarrow> string \<Rightarrow> bool" where
  "slug_tail after_alnum [] = after_alnum"
| "slug_tail after_alnum (c # cs) =
     (if is_lower_alnum c then slug_tail True cs
      else after_alnum \<and> slug_sep c \<and> slug_tail False cs)"

definition slug_pattern :: "string \<Rightarrow> bool" where
  "slug_pattern s = slug_tail False s"

text \<open>\<open>/^[A-Za-z0-9][A-Za-z0-9._:-]{0,n}$/\<close>, the identifier pattern.\<close>

definition id_char :: "char \<Rightarrow> bool" where
  "id_char c \<longleftrightarrow> is_alnum c \<or> c = CHR ''.'' \<or> c = CHR ''_'' \<or> c = CHR '':'' \<or> c = CHR ''-''"

fun id_pattern :: "nat \<Rightarrow> string \<Rightarrow> bool" where
  "id_pattern n [] = False"
| "id_pattern n (c # cs) = (is_alnum c \<and> length cs \<le> n \<and> list_all id_char cs)"

text \<open>\<open>/^sha256:[a-f0-9]{64}$/\<close>.\<close>

definition is_hex :: "char \<Rightarrow> bool" where
  "is_hex c \<longleftrightarrow> is_digit c \<or> (97 \<le> cu c \<and> cu c \<le> 102)"

definition sha256_pattern :: "string \<Rightarrow> bool" where
  "sha256_pattern s \<longleftrightarrow>
     starts_with ''sha256:'' s \<and> length s = 71 \<and> list_all is_hex (drop 7 s)"

text \<open>\<open>/^[A-Z0-9_]{1,64}$/\<close>.\<close>

definition safe_code_pattern :: "string \<Rightarrow> bool" where
  "safe_code_pattern s \<longleftrightarrow> 1 \<le> length s \<and> length s \<le> 64
     \<and> list_all (\<lambda>c. is_upper c \<or> is_digit c \<or> c = CHR ''_'') s"

lemma id_pattern_length: "id_pattern n s \<Longrightarrow> 1 \<le> length s \<and> length s \<le> Suc n"
  by (cases s) auto

lemma id_pattern_mono: "id_pattern n s \<Longrightarrow> n \<le> m \<Longrightarrow> id_pattern m s"
  by (cases s) auto

lemma slug_tail_chars: "slug_tail b s \<Longrightarrow> list_all (\<lambda>c. is_lower_alnum c \<or> slug_sep c) s"
  by (induction b s rule: slug_tail.induct) (auto split: if_splits)

lemma slug_pattern_nonempty: "slug_pattern s \<Longrightarrow> s \<noteq> []"
  by (auto simp: slug_pattern_def)

text \<open>The language of the slug pattern: words of lower-case alphanumerics with single separators.\<close>

inductive slug_word :: "string \<Rightarrow> bool" where
  single: "w \<noteq> [] \<Longrightarrow> list_all is_lower_alnum w \<Longrightarrow> slug_word w"
| step: "slug_word s \<Longrightarrow> slug_sep d \<Longrightarrow> w \<noteq> [] \<Longrightarrow> list_all is_lower_alnum w
    \<Longrightarrow> slug_word (s @ d # w)"

lemma slug_word_snoc: "slug_word p \<Longrightarrow> is_lower_alnum c \<Longrightarrow> slug_word (p @ [c])"
proof (induction p rule: slug_word.induct)
  case (single w)
  then show ?case by (intro slug_word.single) auto
next
  case (step s d w)
  then have "slug_word (s @ d # (w @ [c]))" by (intro slug_word.step) auto
  then show ?case by simp
qed

lemma slug_tail_word:
  "slug_tail b s \<Longrightarrow> slug_word p \<Longrightarrow>
     (b \<longrightarrow> slug_word (p @ s)) \<and> (\<not> b \<longrightarrow> (\<forall>d. slug_sep d \<longrightarrow> slug_word (p @ d # s)))"
proof (induction b s arbitrary: p rule: slug_tail.induct)
  case (1 b)
  then show ?case by simp
next
  case (2 b c cs)
  show ?case
  proof (cases "is_lower_alnum c")
    case True
    then have tl: "slug_tail True cs" using "2.prems" by simp
    have word: "slug_word (q @ c # cs)" if "slug_word (q @ [c])" for q
      using "2.IH"(1) [OF True tl that] by simp
    have "slug_word (p @ [d] @ [c])" if "slug_sep d" for d
      using slug_word.step [OF "2.prems"(2) that, of "[c]"] True by simp
    then show ?thesis
      using word [of p] word [of "p @ [_]"] slug_word_snoc [OF "2.prems"(2) True] by simp
  next
    case False
    then have "b" "slug_sep c" "slug_tail False cs" using "2.prems"(1) by (auto split: if_splits)
    then show ?thesis using "2.IH"(2) [OF False _ "2.prems"(2)] by simp
  qed
qed

lemma slug_tail_append:
  "slug_tail b s \<Longrightarrow> slug_sep d \<Longrightarrow> w \<noteq> [] \<Longrightarrow> list_all is_lower_alnum w \<Longrightarrow> slug_tail b (s @ d # w)"
proof (induction b s rule: slug_tail.induct)
  case (1 b)
  have alnum: "slug_tail True w" if "list_all is_lower_alnum w" for w
    using that by (induction w) auto
  from "1.prems" obtain c cs where w: "w = c # cs" by (cases w) auto
  with "1.prems" alnum [of cs] have "slug_tail False w" "slug_tail True w" using alnum [of w] by auto
  then show ?case using "1.prems" by simp
qed (auto split: if_splits)

theorem slug_pattern_language: "slug_pattern s \<longleftrightarrow> slug_word s"
proof
  have alnum: "slug_tail True w" if "list_all is_lower_alnum w" for w
    using that by (induction w) auto
  {
    assume "slug_pattern s"
    then obtain c cs where s: "s = c # cs" "is_lower_alnum c" "slug_tail True cs"
      by (cases s) (auto simp: slug_pattern_def split: if_splits)
    have "slug_word [c]" using s by (intro slug_word.single) auto
    with slug_tail_word [OF s(3) this] s(1) show "slug_word s" by simp
  }
  assume "slug_word s"
  then show "slug_pattern s"
  proof (induction s rule: slug_word.induct)
    case (single w)
    then show ?case by (cases w) (auto simp: slug_pattern_def alnum)
  next
    case (step s d w)
    then show ?case by (simp add: slug_pattern_def slug_tail_append)
  qed
qed

section \<open>\<open>JSON.stringify\<close>\<close>

definition hex_digit :: "int \<Rightarrow> char" where
  "hex_digit n = (if n < 10 then char_of (48 + n) else char_of (87 + n))"

definition escape_char :: "char \<Rightarrow> string" where
  "escape_char c =
     (let n = cu c in
      if n = 34 then [CHR 0x5C, CHR 0x22]
      else if n = 92 then [CHR 0x5C, CHR 0x5C]
      else if n = 8 then [CHR 0x5C, CHR ''b'']
      else if n = 12 then [CHR 0x5C, CHR ''f'']
      else if n = 10 then [CHR 0x5C, CHR ''n'']
      else if n = 13 then [CHR 0x5C, CHR ''r'']
      else if n = 9 then [CHR 0x5C, CHR ''t'']
      else if n < 32 then [CHR 0x5C, CHR ''u'', CHR ''0'', CHR ''0'', hex_digit (n div 16), hex_digit (n mod 16)]
      else [c])"

definition quote_string :: "string \<Rightarrow> string" where
  "quote_string s = CHR 0x22 # concat (map escape_char s) @ [CHR 0x22]"

fun num_string :: "jsnum \<Rightarrow> string" where
  "num_string (NInt i) = string_of_int i"
| "num_string (Frac r s) = s"
| "num_string (NonFinite s) = ''null''"

text \<open>A property whose value is \<open>undefined\<close> is left out; an undefined array element is \<open>null\<close>.\<close>

fun stringify :: "json \<Rightarrow> string" where
  "stringify JUndef = ''null''"
| "stringify JNull = ''null''"
| "stringify (JBool b) = (if b then ''true'' else ''false'')"
| "stringify (JNum n) = num_string n"
| "stringify (JStr s) = quote_string s"
| "stringify (JArr xs) = CHR ''['' # join_with '','' (map stringify xs) @ '']''"
| "stringify (JObj kvs) =
     CHR ''{'' # join_with '',''
       (concat (map (\<lambda>(k, v). if v = JUndef then [] else [quote_string k @ '':'' @ stringify v]) kvs))
     @ ''}''"

text \<open>\<open>new TextEncoder().encode(JSON.stringify(v)).byteLength\<close>; \<open>undefined\<close> encodes as nothing.\<close>

definition encoded_size :: "json \<Rightarrow> int" where
  "encoded_size v = (if v = JUndef then 0 else utf8_size (stringify v))"

text \<open>\<open>String(v)\<close>.\<close>

fun js_string :: "json \<Rightarrow> string" where
  "js_string JUndef = ''undefined''"
| "js_string JNull = ''null''"
| "js_string (JBool b) = (if b then ''true'' else ''false'')"
| "js_string (JNum n) = (case n of NonFinite s \<Rightarrow> s | _ \<Rightarrow> num_string n)"
| "js_string (JStr s) = s"
| "js_string (JArr xs) = join_with '','' (map (\<lambda>x. if x = JUndef \<or> x = JNull then [] else js_string x) xs)"
| "js_string (JObj kvs) = ''[object Object]''"

text \<open>
  \<open>Number(v) >= k\<close>. A string is read as a decimal integer after trimming; other numeric literals
  (a fraction, an exponent, a radix prefix) do not occur where the program converts.
\<close>

fun digits_value :: "int \<Rightarrow> string \<Rightarrow> int option" where
  "digits_value n [] = Some n"
| "digits_value n (c # cs) = (if is_digit c then digits_value (10 * n + (cu c - 48)) cs else None)"

definition string_number_ge :: "int \<Rightarrow> string \<Rightarrow> bool" where
  "string_number_ge k s =
     (case trim s of
        [] \<Rightarrow> k \<le> 0
      | c # cs \<Rightarrow>
          (if c = CHR ''-'' \<and> cs \<noteq> [] then (case digits_value 0 cs of None \<Rightarrow> False | Some n \<Rightarrow> k \<le> - n)
           else (case digits_value 0 (c # cs) of None \<Rightarrow> False | Some n \<Rightarrow> k \<le> n)))"

fun number_ge :: "int \<Rightarrow> json \<Rightarrow> bool" where
  "number_ge k JUndef = False"
| "number_ge k JNull = (k \<le> 0)"
| "number_ge k (JBool b) = (k \<le> (if b then 1 else 0))"
| "number_ge k (JNum n) = (case n of NInt i \<Rightarrow> k \<le> i | Frac r s \<Rightarrow> of_int k \<le> r | NonFinite s \<Rightarrow> s = ''Infinity'')"
| "number_ge k v = string_number_ge k (js_string v)"

text \<open>
  \<open>JSON.parse(JSON.stringify(v))\<close>: undefined properties are dropped, undefined elements and the
  non-finite numbers become \<open>null\<close>. An object has each key once, so that \<open>map_of kvs k\<close> is the value
  of \<open>k\<close>. A value that has none of these is its own copy.
\<close>

fun json_clone :: "json \<Rightarrow> json" where
  "json_clone JUndef = JNull"
| "json_clone JNull = JNull"
| "json_clone (JBool b) = JBool b"
| "json_clone (JNum n) = (case n of NonFinite s \<Rightarrow> JNull | _ \<Rightarrow> JNum n)"
| "json_clone (JStr s) = JStr s"
| "json_clone (JArr xs) = JArr (map json_clone xs)"
| "json_clone (JObj kvs) =
     JObj (concat (map (\<lambda>(k, v). if v = JUndef then [] else [(k, json_clone v)]) kvs))"

fun json_clean :: "json \<Rightarrow> bool" where
  "json_clean JUndef = False"
| "json_clean (JNum n) = (case n of NonFinite s \<Rightarrow> False | _ \<Rightarrow> True)"
| "json_clean (JArr xs) = (\<forall>x\<in>set xs. json_clean x)"
| "json_clean (JObj kvs) = (\<forall>kv\<in>set kvs. json_clean (snd kv))"
| "json_clean v = True"

lemma json_clone_clean: "json_clean v \<Longrightarrow> json_clone v = v"
proof (induction v rule: json_clone.induct)
  case (4 n)
  then show ?case by (cases n) auto
next
  case (6 xs)
  then show ?case by (simp add: map_idI)
next
  case (7 kvs)
  have "concat (map (\<lambda>(k, v). if v = JUndef then [] else [(k, json_clone v)]) kvs)
      = concat (map (\<lambda>kv. [kv]) kvs)"
  proof (intro arg_cong [where f = concat] map_cong refl)
    fix kv assume kv: "kv \<in> set kvs"
    obtain k v where [simp]: "kv = (k, v)" by (cases kv)
    have "json_clean v" using "7.prems" kv by force
    moreover from this have "v \<noteq> JUndef" by auto
    ultimately have "v \<noteq> JUndef" "json_clone v = v" using "7.IH" [OF kv] by auto
    then show "(case kv of (k, v) \<Rightarrow> if v = JUndef then [] else [(k, json_clone v)]) = [kv]" by simp
  qed
  also have "\<dots> = kvs" by (induction kvs) auto
  finally show ?case by simp
qed auto

text \<open>A property of a clean object, and the spread \<open>{...v, ...patch}\<close>.\<close>

lemma json_clean_get: "json_clean v \<Longrightarrow> get v k \<noteq> JUndef \<Longrightarrow> json_clean (get v k)"
  by (cases v) (force simp: get.simps dest!: map_of_SomeD split: option.splits)+

definition spread :: "json \<Rightarrow> (string \<times> json) list \<Rightarrow> json" where
  "spread v patch = (case v of
       JObj kvs \<Rightarrow> JObj (map (\<lambda>(k, x). (k, case map_of patch k of None \<Rightarrow> x | Some y \<Rightarrow> y)) kvs
         @ filter (\<lambda>(k, x). k \<notin> fst ` set kvs) patch)
     | _ \<Rightarrow> JObj patch)"

lemma is_record_spread [simp]: "is_record (spread v patch)"
  by (cases v) (simp_all add: spread_def)

lemma map_of_filter_key: "Q k \<Longrightarrow> map_of (filter (\<lambda>(k, x). Q k) patch) k = map_of patch k"
  by (induction patch) auto

lemma get_spread:
  "get (spread v patch) k = (case map_of patch k of None \<Rightarrow> get v k | Some y \<Rightarrow> y)"
proof (cases v)
  case (JObj kvs)
  have map: "map_of (map (\<lambda>(k, x). (k, case map_of patch k of None \<Rightarrow> x | Some y \<Rightarrow> y)) kvs) k
      = map_option (\<lambda>x. case map_of patch k of None \<Rightarrow> x | Some y \<Rightarrow> y) (map_of kvs k)"
    by (induction kvs) (auto split: option.split)
  have filt: "k \<notin> fst ` set kvs \<Longrightarrow> map_of (filter (\<lambda>(k, x). k \<notin> fst ` set kvs) patch) k = map_of patch k"
    by (rule map_of_filter_key)
  show ?thesis
  proof (cases "map_of kvs k")
    case None
    then have "k \<notin> fst ` set kvs" by (simp add: map_of_eq_None_iff)
    with None show ?thesis
      by (simp add: JObj spread_def get.simps map_add_def map filt split: option.split)
  next
    case (Some x)
    then show ?thesis by (simp add: JObj spread_def get.simps map_add_def map split: option.split)
  qed
qed (simp_all add: spread_def get.simps split: option.split)

lemma json_clean_spread:
  "is_record v \<Longrightarrow> json_clean v \<Longrightarrow> \<forall>kx\<in>set patch. json_clean (snd kx) \<Longrightarrow> json_clean (spread v patch)"
  by (cases v) (fastforce simp: spread_def dest: map_of_SomeD split: option.splits)+

text \<open>
  Assignment \<open>v[k] = x\<close> and \<open>delete v[k]\<close> for some keys: like in the language, an assignment keeps the
  position of a key that is there and appends a new one.
\<close>

definition put :: "json \<Rightarrow> string \<Rightarrow> json \<Rightarrow> json" where
  "put v k x = spread v [(k, x)]"

definition del :: "json \<Rightarrow> string list \<Rightarrow> json" where
  "del v ks = (case v of JObj kvs \<Rightarrow> JObj (filter (\<lambda>(k, x). k \<notin> set ks) kvs) | _ \<Rightarrow> v)"

lemma get_put: "get (put v k x) k' = (if k' = k then x else get v k')"
  by (simp add: put_def get_spread)

lemma map_of_filter_keys: "map_of (filter (\<lambda>(k, x). k \<notin> K) kvs) k = (if k \<in> K then None else map_of kvs k)"
  by (induction kvs) auto

lemma get_del: "get (del v ks) k = (if k \<in> set ks then JUndef else get v k)"
  by (cases v) (simp_all add: del_def get.simps map_of_filter_keys split: option.split)

text \<open>\<open>v ?? d\<close>.\<close>

definition or_else :: "json \<Rightarrow> json \<Rightarrow> json" where
  "or_else v d = (if v = JUndef \<or> v = JNull then d else v)"

lemma or_else_simps [simp]: "or_else JUndef d = d" "or_else JNull d = d" "or_else (JStr s) d = JStr s"
  "or_else (JNum n) d = JNum n" "or_else (JObj kvs) d = JObj kvs"
  by (simp_all add: or_else_def)

text \<open>The truthy values, and \<open>a || b\<close>.\<close>

fun truthy :: "json \<Rightarrow> bool" where
  "truthy JUndef = False"
| "truthy JNull = False"
| "truthy (JBool b) = b"
| "truthy (JNum n) = (n \<noteq> NInt 0 \<and> n \<noteq> NonFinite ''NaN'')"
| "truthy (JStr s) = (s \<noteq> [])"
| "truthy v = True"

definition js_or :: "json \<Rightarrow> json \<Rightarrow> json" where
  "js_or a b = (if truthy a then a else b)"

text \<open>A file that is absent, that holds text which is not JSON, or a JSON value.\<close>

datatype json_file = NoFile | NotJson | JsonFile json

section \<open>Lists\<close>

text \<open>\<open>Array.prototype.find\<close>.\<close>

definition find_first :: "('a \<Rightarrow> bool) \<Rightarrow> 'a list \<Rightarrow> 'a option" where
  "find_first P xs = List.find P xs"

lemma find_first_simps [simp]:
  "find_first P [] = None"
  "find_first P (x # xs) = (if P x then Some x else find_first P xs)"
  by (simp_all add: find_first_def)

lemma find_first_Some: "find_first P xs = Some x \<Longrightarrow> x \<in> set xs \<and> P x"
  by (induction xs) (auto split: if_splits)

lemma find_first_None: "find_first P xs = None \<longleftrightarrow> (\<forall>x\<in>set xs. \<not> P x)"
  by (induction xs) auto

lemma find_first_append:
  "find_first P (xs @ ys) = (case find_first P xs of None \<Rightarrow> find_first P ys | Some x \<Rightarrow> Some x)"
  by (induction xs) simp_all

lemma find_first_unique:
  assumes "distinct (map f xs)" and "x \<in> set xs" and "f x = a"
  shows "find_first (\<lambda>y. f y = a) xs = Some x"
  using assms by (induction xs) (auto simp: image_iff)

lemma find_first_map: "find_first P (map f xs) = map_option f (find_first (\<lambda>x. P (f x)) xs)"
  by (induction xs) auto

text \<open>\<open>Array.prototype.findIndex\<close>, with \<open>None\<close> for -1.\<close>

fun find_index :: "('a \<Rightarrow> bool) \<Rightarrow> 'a list \<Rightarrow> nat option" where
  "find_index P [] = None"
| "find_index P (x # xs) = (if P x then Some 0 else map_option Suc (find_index P xs))"

lemma find_index_Some: "find_index P xs = Some i \<Longrightarrow> i < length xs \<and> P (xs ! i)"
  by (induction xs arbitrary: i) (auto split: if_splits)

lemma find_index_None: "find_index P xs = None \<longleftrightarrow> (\<forall>x\<in>set xs. \<not> P x)"
  by (induction xs) auto

lemma length_filter_eq: "length (filter P xs) = length xs \<longleftrightarrow> filter P xs = xs"
proof
  show "length (filter P xs) = length xs \<Longrightarrow> filter P xs = xs"
  proof (induction xs)
    case (Cons x xs)
    show ?case
    proof (cases "P x")
      case False
      then have "Suc (length xs) \<le> length xs" using Cons.prems length_filter_le [of P xs] by (metis filter.simps(2) length_Cons)
      then show ?thesis by simp
    qed (use Cons in simp)
  qed simp
qed simp

lemma find_index_update: "i < length xs \<Longrightarrow> P x = P (xs ! i) \<Longrightarrow> find_index P (xs[i := x]) = find_index P xs"
proof (induction xs arbitrary: i)
  case (Cons a xs)
  then show ?case by (cases i) auto
qed simp

lemma find_first_index: "find_first P xs = map_option (\<lambda>i. xs ! i) (find_index P xs)"
  by (induction xs) (auto simp: option.map_comp comp_def)

text \<open>The elements that satisfy a predicate with their position: \<open>forEach((x, index) => ...)\<close>.\<close>

definition with_index :: "'a list \<Rightarrow> (nat \<times> 'a) list" where
  "with_index xs = zip [0..<length xs] xs"

lemma with_index_nth: "(i, x) \<in> set (with_index xs) \<longleftrightarrow> i < length xs \<and> xs ! i = x"
proof
  assume "(i, x) \<in> set (with_index xs)"
  then show "i < length xs \<and> xs ! i = x"
    by (auto simp: with_index_def in_set_zip)
next
  assume "i < length xs \<and> xs ! i = x"
  then show "(i, x) \<in> set (with_index xs)"
    by (auto simp: with_index_def in_set_zip intro!: exI [of _ i])
qed

lemma with_index_simps [simp]:
  "length (with_index xs) = length xs"
  "map fst (with_index xs) = [0..<length xs]"
  "map snd (with_index xs) = xs"
  by (simp_all add: with_index_def)

lemma with_index_map:
  "with_index (map (\<lambda>(i, x). f i x) (with_index xs)) = map (\<lambda>(i, x). (i, f i x)) (with_index xs)"
  by (rule nth_equalityI) (auto simp: with_index_def)

text \<open>A stable sort by a comparison, as \<open>Array.prototype.sort\<close> is.\<close>

fun insert_by :: "('a \<Rightarrow> 'a \<Rightarrow> bool) \<Rightarrow> 'a \<Rightarrow> 'a list \<Rightarrow> 'a list" where
  "insert_by le x [] = [x]"
| "insert_by le x (y # ys) = (if le x y then x # y # ys else y # insert_by le x ys)"

definition sort_by :: "('a \<Rightarrow> 'a \<Rightarrow> bool) \<Rightarrow> 'a list \<Rightarrow> 'a list" where
  "sort_by le xs = foldr (insert_by le) xs []"

fun str_le :: "string \<Rightarrow> string \<Rightarrow> bool" where
  "str_le [] t = True"
| "str_le (c # cs) [] = False"
| "str_le (c # cs) (d # ds) = (cu c < cu d \<or> (cu c = cu d \<and> str_le cs ds))"

lemma set_insert_by [simp]: "set (insert_by le x ys) = insert x (set ys)"
  by (induction ys) auto

lemma length_insert_by [simp]: "length (insert_by le x ys) = Suc (length ys)"
  by (induction ys) auto

lemma set_sort_by [simp]: "set (sort_by le xs) = set xs"
  by (induction xs) (simp_all add: sort_by_def)

lemma length_sort_by [simp]: "length (sort_by le xs) = length xs"
  by (induction xs) (simp_all add: sort_by_def)

lemma distinct_insert_by: "distinct ys \<Longrightarrow> x \<notin> set ys \<Longrightarrow> distinct (insert_by le x ys)"
  by (induction ys) auto

lemma distinct_sort_by: "distinct xs \<Longrightarrow> distinct (sort_by le xs)"
proof (induction xs)
  case (Cons x xs)
  then show ?case
    using set_sort_by [of le xs] by (simp add: sort_by_def distinct_insert_by)
qed (simp add: sort_by_def)

lemma sorted_insert_by:
  assumes tot: "\<forall>x y. le x y \<or> le y x" and trans: "\<forall>x y z. le x y \<longrightarrow> le y z \<longrightarrow> le x z"
  shows "sorted_wrt le ys \<Longrightarrow> sorted_wrt le (insert_by le x ys)"
proof (induction ys)
  case (Cons y ys)
  then show ?case using tot trans by (auto; blast)
qed simp

lemma sorted_sort_by:
  assumes "\<forall>x y. le x y \<or> le y x" and "\<forall>x y z. le x y \<longrightarrow> le y z \<longrightarrow> le x z"
  shows "sorted_wrt le (sort_by le xs)"
proof (induction xs)
  case (Cons x xs)
  then show ?case using sorted_insert_by [OF assms] by (simp add: sort_by_def)
qed (simp add: sort_by_def)

lemma str_le_total: "str_le s t \<or> str_le t s"
proof (induction s t rule: str_le.induct)
  case (1 t)
  then show ?case by simp
qed auto

lemma str_le_trans: "str_le s t \<Longrightarrow> str_le t u \<Longrightarrow> str_le s u"
proof (induction s t arbitrary: u rule: str_le.induct)
  case (3 c cs d ds)
  then show ?case by (cases u) auto
qed auto

lemma str_le_antisym: "str_le s t \<Longrightarrow> str_le t s \<Longrightarrow> s = t"
  by (induction s t rule: str_le.induct) (auto simp: cu_def elim: str_le.elims)

text \<open>
  The allow-list checks that several components write out: the first own key outside the allowed
  ones is looked up with \<open>find\<close> and the check throws when that key is truthy, that is, a non-empty
  string. Each component passes its own error.
\<close>

definition truthy_key :: "string option \<Rightarrow> bool" where
  "truthy_key k = (case k of None \<Rightarrow> False | Some s \<Rightarrow> s \<noteq> [])"

lemma truthy_key_simps [simp]: "truthy_key None = False" "truthy_key (Some s) = (s \<noteq> [])"
  by (simp_all add: truthy_key_def)

definition has_extra_key :: "string list \<Rightarrow> json \<Rightarrow> bool" where
  "has_extra_key allowed v = truthy_key (find_first (\<lambda>k. k \<notin> set allowed) (keys_of v))"

definition has_missing_key :: "string list \<Rightarrow> json \<Rightarrow> bool" where
  "has_missing_key required v = truthy_key (find_first (\<lambda>k. k \<notin> set (keys_of v)) required)"

lemma has_missing_key_iff [valid_simps]:
  "[] \<notin> set required \<Longrightarrow> has_missing_key required v \<longleftrightarrow> \<not> set required \<subseteq> set (keys_of v)"
proof (cases "find_first (\<lambda>k. k \<notin> set (keys_of v)) required")
  case None
  then show ?thesis unfolding has_missing_key_def None using None by (auto simp: find_first_None)
next
  case (Some k)
  moreover assume "[] \<notin> set required"
  ultimately show ?thesis using find_first_Some [OF Some] by (auto simp: has_missing_key_def)
qed

lemma no_extra_key:
  "[] \<notin> set (keys_of v) \<Longrightarrow> \<not> has_extra_key allowed v \<longleftrightarrow> set (keys_of v) \<subseteq> set allowed"
proof (cases "find_first (\<lambda>k. k \<notin> set allowed) (keys_of v)")
  case None
  then show ?thesis unfolding has_extra_key_def None using None by (auto simp: find_first_None)
next
  case (Some k)
  moreover assume "[] \<notin> set (keys_of v)"
  ultimately show ?thesis using find_first_Some [OF Some] by (auto simp: has_extra_key_def)
qed

end
