(* ===== verification/Js_Date.thy ===== *)
theory Js_Date
  imports Js_Prelude
begin

text \<open>
  The part of JavaScript's \<open>Date\<close> that the program uses: \<open>Date.parse\<close> on the ISO form of ECMAScript
  and \<open>Date.prototype.toISOString\<close>. A time value is a number of milliseconds since 1970-01-01 UTC,
  an \<open>int\<close>. \<open>date_parse\<close> accepts a calendar date (UTC), or a date and a time with \<open>Z\<close> or a numeric
  offset; a day up to 31 rolls over into the next month, as V8 does. A string of another shape is
  \<open>NaN\<close> here; ECMAScript leaves those to the implementation, and times without an offset to
  the local time zone.
\<close>

section \<open>Calendar arithmetic\<close>

definition is_leap :: "int \<Rightarrow> bool" where
  "is_leap y \<longleftrightarrow> (y mod 4 = 0 \<and> y mod 100 \<noteq> 0) \<or> y mod 400 = 0"

text \<open>\<open>DayFromYear\<close> of ECMAScript.\<close>

definition day_from_year :: "int \<Rightarrow> int" where
  "day_from_year y =
     365 * (y - 1970) + (y - 1969) div 4 - (y - 1901) div 100 + (y - 1601) div 400"

definition days_in_year :: "int \<Rightarrow> int" where
  "days_in_year y = (if is_leap y then 366 else 365)"

definition month_start :: "bool \<Rightarrow> nat \<Rightarrow> int" where
  "month_start leap m =
     [0, 31, 59, 90, 120, 151, 181, 212, 243, 273, 304, 334] ! (m - 1)
       + (if leap \<and> 2 < m then 1 else 0)"

text \<open>\<open>YearFromTime\<close> and \<open>MonthFromTime\<close>, by an estimate that is off by at most one year.\<close>

definition year_of_day :: "int \<Rightarrow> int" where
  "year_of_day d =
     (let g = 1970 + (400 * d) div 146097 in
      if d < day_from_year g then g - 1
      else if day_from_year (g + 1) \<le> d then g + 1 else g)"

definition month_of_day :: "bool \<Rightarrow> int \<Rightarrow> nat" where
  "month_of_day leap doy = length (filter (\<lambda>m. month_start leap m \<le> doy) [1..<13])"

lemma div_step: "0 < k \<Longrightarrow> (x + 1) div k = x div k + (if (x + 1) mod k = 0 then 1 else 0)"
  for x k :: int
proof -
  assume k: "0 < k"
  have x: "x = k * (x div k) + x mod k" by simp
  have r: "0 \<le> x mod k" "x mod k < k" using k by simp_all
  show ?thesis
  proof (cases "x mod k + 1 < k")
    case True
    have "x + 1 = k * (x div k) + (x mod k + 1)" "0 \<le> x mod k + 1" using x r by linarith+
    then have "(x + 1) div k = x div k" "(x + 1) mod k = x mod k + 1"
      using int_div_pos_eq int_mod_pos_eq True by blast+
    then show ?thesis using r by simp
  next
    case False
    then have eq: "x mod k + 1 = k" using r by simp
    have "k * (x div k + 1) + 0 = k * (x div k) + k" by (simp add: distrib_left)
    then have "x + 1 = k * (x div k + 1) + 0" using x eq by linarith
    then have "(x + 1) div k = x div k + 1" "(x + 1) mod k = 0"
      using int_div_pos_eq int_mod_pos_eq k by blast+
    then show ?thesis by simp
  qed
qed

lemma mod_shift: "k dvd c \<Longrightarrow> (x - c) mod k = x mod k" for x k c :: int
  by (simp add: mod_eq_dvd_iff)

lemma day_from_year_Suc: "day_from_year (y + 1) = day_from_year y + days_in_year y"
proof -
  define a b c where "a = (y - 1969) div 4" and "b = (y - 1901) div 100" and "c = (y - 1601) div 400"
  have mods: "(y - 1968) mod 4 = y mod 4" "(y - 1900) mod 100 = y mod 100"
    "(y - 1600) mod 400 = y mod 400"
    by (rule mod_shift, simp)+
  have imps: "y mod 400 = 0 \<Longrightarrow> y mod 100 = 0" "y mod 100 = 0 \<Longrightarrow> y mod 4 = 0"
    using dvd_trans [of 100 400 y] dvd_trans [of 4 100 y] by (simp_all add: mod_eq_0_iff_dvd)
  have a: "(y - 1968) div 4 = a + (if y mod 4 = 0 then 1 else 0)"
    using div_step [of 4 "y - 1969"] mods(1) unfolding a_def by simp
  have b: "(y - 1900) div 100 = b + (if y mod 100 = 0 then 1 else 0)"
    using div_step [of 100 "y - 1901"] mods(2) unfolding b_def by simp
  have c: "(y - 1600) div 400 = c + (if y mod 400 = 0 then 1 else 0)"
    using div_step [of 400 "y - 1601"] mods(3) unfolding c_def by simp
  have eqs: "y + 1 - 1970 = y - 1970 + 1" "y + 1 - 1969 = y - 1968" "y + 1 - 1901 = y - 1900"
    "y + 1 - 1601 = y - 1600" by simp_all
  show ?thesis
    unfolding day_from_year_def days_in_year_def is_leap_def eqs a b c
    unfolding a_def [symmetric] b_def [symmetric] c_def [symmetric]
    using imps by (cases "y mod 4 = 0"; cases "y mod 100 = 0"; cases "y mod 400 = 0") simp_all
qed

lemma div_bounds: "0 < k \<Longrightarrow> k * (x div k) \<le> x" "0 < k \<Longrightarrow> x < k * (x div k) + k" for x k :: int
  using pos_mod_sign [of k x] pos_mod_bound [of k x] mult_div_mod_eq [of k x] by linarith+

lemma day_from_year_estimate:
  "146097 * (y - 1970) - 800 \<le> 400 * day_from_year y"
  "400 * day_from_year y \<le> 146097 * (y - 1970) + 800"
proof -
  define a b c where "a = (y - 1969) div 4" and "b = (y - 1901) div 100" and "c = (y - 1601) div 400"
  have "4 * a \<le> y - 1969" "y - 1969 < 4 * a + 4" "100 * b \<le> y - 1901" "y - 1901 < 100 * b + 100"
    "400 * c \<le> y - 1601" "y - 1601 < 400 * c + 400"
    unfolding a_def b_def c_def by (rule div_bounds; simp)+
  note bounds = this
  have eq: "day_from_year y = 365 * (y - 1970) + a - b + c"
    unfolding day_from_year_def a_def b_def c_def by simp
  show "146097 * (y - 1970) - 800 \<le> 400 * day_from_year y" using bounds eq by simp
  show "400 * day_from_year y \<le> 146097 * (y - 1970) + 800" using bounds eq by simp
qed

lemma year_of_day_bounds:
  "day_from_year (year_of_day d) \<le> d" "d < day_from_year (year_of_day d + 1)"
proof -
  define g where "g = 1970 + (400 * d) div 146097"
  have g: "146097 * (g - 1970) \<le> 400 * d" "400 * d < 146097 * (g - 1970) + 146097"
    using div_bounds [of 146097 "400 * d"] unfolding g_def by simp_all
  have "day_from_year (g - 1) \<le> d" "d < day_from_year (g + 2)"
    using day_from_year_estimate(2) [of "g - 1"] day_from_year_estimate(1) [of "g + 2"] g
    by (simp_all add: algebra_simps)
  then show "day_from_year (year_of_day d) \<le> d" "d < day_from_year (year_of_day d + 1)"
    unfolding year_of_day_def g_def [symmetric] Let_def by (auto simp: add.assoc)
qed

lemma day_of_year_bounds:
  "0 \<le> d - day_from_year (year_of_day d)"
  "d - day_from_year (year_of_day d) < days_in_year (year_of_day d)"
  using year_of_day_bounds [of d] by (simp_all add: day_from_year_Suc)

lemma upt_1_13: "[1..<13] = [1, 2, 3, 4, 5, 6, 7, 8, 9, 10, 11, 12 :: nat]"
  by (simp add: upt_rec)

lemma month_of_day_bounds:
  assumes "0 \<le> doy" and "doy < (if leap then 366 else 365)"
  shows "1 \<le> month_of_day leap doy" and "month_of_day leap doy \<le> 12"
    and "month_start leap (month_of_day leap doy) \<le> doy"
    and "doy - month_start leap (month_of_day leap doy) < 31"
  using assms unfolding month_of_day_def upt_1_13
  by (cases leap; simp add: month_start_def split: if_splits)+

section \<open>Rendering\<close>

definition digit :: "int \<Rightarrow> char" where
  "digit n = char_of (48 + n mod 10)"

definition pad2 :: "int \<Rightarrow> string" where
  "pad2 n = [digit (n div 10), digit n]"

definition pad3 :: "int \<Rightarrow> string" where
  "pad3 n = digit (n div 100) # pad2 n"

definition pad4 :: "int \<Rightarrow> string" where
  "pad4 n = digit (n div 1000) # pad3 n"

definition pad6 :: "int \<Rightarrow> string" where
  "pad6 n = digit (n div 100000) # digit (n div 10000) # pad4 n"

definition year_string :: "int \<Rightarrow> string" where
  "year_string y =
     (if 0 \<le> y \<and> y \<le> 9999 then pad4 y
      else if y < 0 then CHR ''-'' # pad6 (- y) else CHR ''+'' # pad6 y)"

text \<open>\<open>new Date(t).toISOString()\<close>.\<close>

definition to_iso :: "int \<Rightarrow> string" where
  "to_iso t =
     (let d = t div 86400000; r = t mod 86400000;
          y = year_of_day d; doy = d - day_from_year y;
          m = month_of_day (is_leap y) doy; dom = doy - month_start (is_leap y) m + 1
      in year_string y @ ''-'' @ pad2 (int m) @ ''-'' @ pad2 dom @ ''T''
         @ pad2 (r div 3600000) @ '':'' @ pad2 (r div 60000 mod 60) @ '':''
         @ pad2 (r div 1000 mod 60) @ ''.'' @ pad3 (r mod 1000) @ ''Z'')"

section \<open>Parsing\<close>

fun take_digits :: "nat \<Rightarrow> int \<Rightarrow> string \<Rightarrow> (int \<times> string) option" where
  "take_digits 0 acc s = Some (acc, s)"
| "take_digits (Suc n) acc [] = None"
| "take_digits (Suc n) acc (c # cs) =
     (if is_digit c then take_digits n (10 * acc + (cu c - 48)) cs else None)"

fun expect :: "char \<Rightarrow> string \<Rightarrow> string option" where
  "expect c [] = None"
| "expect c (d # cs) = (if c = d then Some cs else None)"

text \<open>A separator and a field of \<open>n\<close> digits.\<close>

definition sep_digits :: "char \<Rightarrow> nat \<Rightarrow> string \<Rightarrow> (int \<times> string) option" where
  "sep_digits c n s = Option.bind (expect c s) (take_digits n 0)"

text \<open>The fraction of a second: at least one digit, of which three count.\<close>

definition parse_fraction :: "string \<Rightarrow> (int \<times> string) option" where
  "parse_fraction s =
     (case expect (CHR ''.'') s of
        None \<Rightarrow> Some (0, s)
      | Some r \<Rightarrow>
          (let ds = takeWhile is_digit r;
               v = (\<lambda>i. if i < length ds then cu (ds ! i) - 48 else 0)
           in if ds = [] then None
              else Some (100 * v 0 + 10 * v 1 + v 2, dropWhile is_digit r)))"

text \<open>The offset in minutes.\<close>

definition parse_offset :: "string \<Rightarrow> int option" where
  "parse_offset s =
     (if s = ''Z'' then Some 0
      else case s of
        [] \<Rightarrow> None
      | c # r \<Rightarrow>
          if c \<noteq> CHR ''+'' \<and> c \<noteq> CHR ''-'' then None
          else Option.bind (take_digits 2 0 r) (\<lambda>(h, r1).
            Option.bind (sep_digits (CHR '':'') 2 r1) (\<lambda>(m, r2).
              if r2 = [] \<and> h \<le> 23 \<and> m \<le> 59
              then Some ((if c = CHR ''-'' then -1 else 1) * (60 * h + m)) else None)))"

text \<open>Hours, minutes, seconds and milliseconds with the offset, as milliseconds.\<close>

definition parse_time :: "string \<Rightarrow> int option" where
  "parse_time s =
     Option.bind (take_digits 2 0 s) (\<lambda>(h, r1).
     Option.bind (sep_digits (CHR '':'') 2 r1) (\<lambda>(mi, r2).
     Option.bind (case sep_digits (CHR '':'') 2 r2 of
         None \<Rightarrow> if expect (CHR '':'') r2 = None then Some ((0, 0), r2) else None
       | Some (sec, r3) \<Rightarrow> map_option (\<lambda>(ms, r4). ((sec, ms), r4)) (parse_fraction r3))
       (\<lambda>((sec, ms), r4).
     Option.bind (parse_offset r4) (\<lambda>off.
       if mi \<le> 59 \<and> sec \<le> 59 \<and> (h \<le> 23 \<or> (h = 24 \<and> mi = 0 \<and> sec = 0 \<and> ms = 0))
       then Some (((h * 60 + mi) * 60 + sec) * 1000 + ms - off * 60000) else None))))"

definition date_parse :: "string \<Rightarrow> int option" where
  "date_parse s =
     Option.bind (take_digits 4 0 s) (\<lambda>(y, r1).
     Option.bind (sep_digits (CHR ''-'') 2 r1) (\<lambda>(m, r2).
     Option.bind (sep_digits (CHR ''-'') 2 r2) (\<lambda>(d, r3).
       if 1 \<le> m \<and> m \<le> 12 \<and> 1 \<le> d \<and> d \<le> 31 then
         (let day = day_from_year y + month_start (is_leap y) (nat m) + d - 1 in
          if r3 = [] then Some (day * 86400000)
          else Option.bind (expect (CHR ''T'') r3) (\<lambda>r4.
            map_option (\<lambda>t. day * 86400000 + t) (parse_time r4)))
       else None)))"

text \<open>\<open>Number.isFinite(Date.parse(s))\<close>, and the parsed value where it is finite.\<close>

definition valid_date :: "string \<Rightarrow> bool" where
  "valid_date s \<longleftrightarrow> date_parse s \<noteq> None"

definition date_ms :: "string \<Rightarrow> int" where
  "date_ms s = (case date_parse s of None \<Rightarrow> 0 | Some t \<Rightarrow> t)"

section \<open>Round trip\<close>

lemma cu_digit: "cu (digit n) = 48 + n mod 10"
proof -
  have "0 \<le> n mod 10" "n mod 10 < 10" by simp_all
  then have "(48 + n mod 10) mod 256 = 48 + n mod 10" by (intro mod_pos_pos_trivial) linarith+
  then show ?thesis by (simp add: cu_def digit_def)
qed

lemma is_digit_digit [simp]: "is_digit (digit n)"
proof -
  have "0 \<le> n mod 10" "n mod 10 < 10" by simp_all
  then show ?thesis by (simp add: is_digit_def cu_digit)
qed

lemma take_digits_digit [simp]:
  "take_digits (Suc n) acc (digit k # cs) = take_digits n (10 * acc + k mod 10) cs"
  by (simp add: cu_digit)

lemma div_less: "0 \<le> x \<Longrightarrow> 0 < k \<Longrightarrow> x < k * n \<Longrightarrow> 0 \<le> x div k \<and> x div k < n" for x k n :: int
  using div_bounds(1) [of k x] by (simp add: pos_imp_zdiv_nonneg_iff)
    (metis linorder_not_less mult_le_cancel_left_pos order_trans)

lemma take_digits_pad2: "0 \<le> n \<Longrightarrow> n < 100 \<Longrightarrow> take_digits 2 0 (pad2 n @ r) = Some (n, r)"
  using div_less [of n 10 10] by (simp add: pad2_def numeral_2_eq_2 del: take_digits.simps(3))

lemma decimal3:
  fixes n :: int
  assumes "0 \<le> n" and "n < 1000"
  shows "10 * (10 * (n div 100 mod 10) + n div 10 mod 10) + n mod 10 = n"
proof -
  have "n div 100 = n div 10 div 10" by (simp add: zdiv_zmult2_eq [symmetric])
  then show ?thesis using div_less [of n 100 10] assms by simp
qed

lemma decimal4:
  fixes n :: int
  assumes "0 \<le> n" and "n < 10000"
  shows "10 * (10 * (10 * (n div 1000 mod 10) + n div 100 mod 10) + n div 10 mod 10) + n mod 10 = n"
proof -
  have "n div 1000 = n div 10 div 100" "n div 100 = n div 10 div 10"
    by (simp_all add: zdiv_zmult2_eq [symmetric])
  moreover have "10 * (10 * (n div 10 div 100 mod 10) + n div 10 div 10 mod 10) + n div 10 mod 10 = n div 10"
    using div_less [of n 10 1000] assms by (intro decimal3) simp_all
  ultimately have "10 * (10 * (n div 1000 mod 10) + n div 100 mod 10) + n div 10 mod 10 = n div 10"
    by (simp only:)
  then show ?thesis using mult_div_mod_eq [of 10 n] by (simp only:)
qed

lemma take_digits_pad4: "0 \<le> n \<Longrightarrow> n < 10000 \<Longrightarrow> take_digits 4 0 (pad4 n @ r) = Some (n, r)"
proof -
  assume n: "0 \<le> n" "n < 10000"
  have "take_digits 4 0 (pad4 n @ r) = take_digits (Suc (Suc (Suc (Suc 0)))) 0 (pad4 n @ r)"
    by (simp only: numeral_eq_Suc pred_numeral_simps Num.num.distinct Num.BitM.simps)
  also have "\<dots> = Some (n, r)"
    by (simp only: pad4_def pad3_def pad2_def append.simps take_digits_digit take_digits.simps(1)
        decimal4 [OF n] mult_zero_right add_0)
  finally show ?thesis .
qed

lemma sep_digits_pad2 [simp]:
  "0 \<le> n \<Longrightarrow> n < 100 \<Longrightarrow> sep_digits c 2 (c # pad2 n @ r) = Some (n, r)"
  by (simp add: sep_digits_def take_digits_pad2)

lemma parse_fraction_pad3:
  assumes "0 \<le> n" and "n < 1000"
  shows "parse_fraction (CHR ''.'' # pad3 n @ ''Z'') = Some (n, ''Z'')"
proof -
  have "\<not> is_digit (CHR ''Z'')" by (simp add: is_digit_def cu_def)
  then have "parse_fraction (CHR ''.'' # pad3 n @ ''Z'') =
      Some (100 * (n div 100 mod 10) + 10 * (n div 10 mod 10) + n mod 10, ''Z'')"
    by (simp add: parse_fraction_def pad3_def pad2_def cu_digit)
  moreover have eq: "10 * (10 * a + b) + c = 100 * a + 10 * b + c" for a b c :: int by simp
  have "100 * (n div 100 mod 10) + 10 * (n div 10 mod 10) + n mod 10 = n"
    using decimal3 [OF assms] by (simp only: eq)
  ultimately show ?thesis by (simp only:)
qed

lemma parse_time_iso:
  assumes "0 \<le> r" and "r < 86400000"
  shows "parse_time (pad2 (r div 3600000) @ '':'' @ pad2 (r div 60000 mod 60) @ '':''
         @ pad2 (r div 1000 mod 60) @ ''.'' @ pad3 (r mod 1000) @ ''Z'') = Some r"
proof -
  define h mi sec ms where "h = r div 3600000" and "mi = r div 60000 mod 60"
    and "sec = r div 1000 mod 60" and "ms = r mod 1000"
  have h: "0 \<le> h" "h \<le> 23" using div_less [of r 3600000 24] assms unfolding h_def by simp_all
  have mi: "0 \<le> mi" "mi \<le> 59" "0 \<le> sec" "sec \<le> 59" "0 \<le> ms" "ms < 1000"
    using pos_mod_bound [of 60 "r div 60000"] pos_mod_bound [of 60 "r div 1000"]
    unfolding mi_def sec_def ms_def by simp_all
  have "r div 60000 = r div 1000 div 60" "r div 3600000 = r div 1000 div 60 div 60"
    by (simp_all add: zdiv_zmult2_eq [symmetric])
  then have "((h * 60 + mi) * 60 + sec) * 1000 + ms = r"
    unfolding h_def mi_def sec_def ms_def by simp
  then show ?thesis
    using h mi unfolding h_def [symmetric] mi_def [symmetric] sec_def [symmetric] ms_def [symmetric]
    by (simp add: parse_time_def take_digits_pad2 parse_fraction_pad3 parse_offset_def)
qed

text \<open>The time values whose year has four digits.\<close>

definition iso_range :: "int \<Rightarrow> bool" where
  "iso_range t \<longleftrightarrow> 0 \<le> t \<and> t < 253402300800000"

lemma year_of_day_range:
  assumes "0 \<le> d" and "d < 2932897"
  shows "1970 \<le> year_of_day d" and "year_of_day d \<le> 9999"
proof -
  have mono: "day_from_year x \<le> day_from_year y" if "x \<le> y" for x y
    using that
  proof (induction rule: int_ge_induct)
    case (step i)
    then show ?case by (simp add: day_from_year_Suc days_in_year_def)
  qed simp
  have ends: "day_from_year 1970 = 0" "day_from_year 10000 = 2932897"
    by (simp_all add: day_from_year_def)
  show "1970 \<le> year_of_day d"
    using mono [of "year_of_day d + 1" 1970] year_of_day_bounds [of d] assms ends by linarith
  show "year_of_day d \<le> 9999"
    using mono [of 10000 "year_of_day d"] year_of_day_bounds [of d] assms ends by linarith
qed

theorem date_parse_to_iso:
  assumes "iso_range t"
  shows "date_parse (to_iso t) = Some t"
proof -
  define d r where "d = t div 86400000" and "r = t mod 86400000"
  define y doy where "y = year_of_day d" and "doy = d - day_from_year y"
  define m where "m = month_of_day (is_leap y) doy"
  define dom where "dom = doy - month_start (is_leap y) m + 1"
  have d: "0 \<le> d" "d < 2932897"
    using assms div_less [of t 86400000 2932897] unfolding d_def iso_range_def by simp_all
  have r: "0 \<le> r" "r < 86400000" unfolding r_def by simp_all
  have t: "d * 86400000 + r = t" unfolding d_def r_def by simp
  have y: "0 \<le> y" "y \<le> 9999" using year_of_day_range [OF d] unfolding y_def by simp_all
  have doy: "0 \<le> doy" "doy < (if is_leap y then 366 else 365)"
    using day_of_year_bounds [of d] unfolding doy_def y_def days_in_year_def by simp_all
  note m = month_of_day_bounds [OF doy, folded m_def]
  have dom: "1 \<le> dom" "dom \<le> 31"
    using m(3,4) unfolding dom_def by simp_all
  have iso: "to_iso t = pad4 y @ ''-'' @ pad2 (int m) @ ''-'' @ pad2 dom @ ''T''
         @ (pad2 (r div 3600000) @ '':'' @ pad2 (r div 60000 mod 60) @ '':''
         @ pad2 (r div 1000 mod 60) @ ''.'' @ pad3 (r mod 1000) @ ''Z'')"
    using y unfolding to_iso_def Let_def d_def [symmetric] r_def [symmetric] y_def [symmetric]
      doy_def [symmetric] m_def [symmetric] dom_def [symmetric] year_string_def by simp
  have "date_parse (to_iso t) =
      Some ((day_from_year y + month_start (is_leap y) m + dom - 1) * 86400000 + r)"
    unfolding iso date_parse_def
    using y m dom parse_time_iso [OF r] by (simp add: take_digits_pad4)
  then show ?thesis using t unfolding dom_def doy_def by simp
qed

lemma valid_date_to_iso [simp]: "iso_range t \<Longrightarrow> valid_date (to_iso t)"
  by (simp add: valid_date_def date_parse_to_iso)

lemma date_ms_to_iso [simp]: "iso_range t \<Longrightarrow> date_ms (to_iso t) = t"
  by (simp add: date_ms_def date_parse_to_iso)

end
