(* ===== verification/Public_Id.thy ===== *)
theory Public_Id
  imports Js_Date
begin

text \<open>
  Teti identifiers and Chatmail addresses (\<open>core/identity/public-id.ts\<close>): the patterns of canonical
  identifiers, the normalising functions, which throw an \<open>Error\<close>, and the predicates on them.
\<close>

section \<open>Patterns\<close>

definition public_id_code_pattern :: "string \<Rightarrow> bool" where
  "public_id_code_pattern s \<longleftrightarrow> length s = 9 \<and> list_all is_lower_alnum s"

definition public_id_pattern :: "string \<Rightarrow> bool" where
  "public_id_pattern s \<longleftrightarrow> take 5 s = ''teti_'' \<and> public_id_code_pattern (drop 5 s)"

definition chatmail_address_pattern :: "string \<Rightarrow> bool" where
  "chatmail_address_pattern s \<longleftrightarrow>
     public_id_code_pattern (take 9 s) \<and> drop 9 s = ''@mail.seep.im''"

definition mailbox_char :: "char \<Rightarrow> bool" where
  "mailbox_char c \<longleftrightarrow> is_lower_alnum c \<or> c \<in> set ''._+-''"

definition relay_mailbox_pattern :: "string \<Rightarrow> bool" where
  "relay_mailbox_pattern s \<longleftrightarrow>
     s \<noteq> [] \<and> is_lower_alnum (hd s) \<and>
     (tl s = [] \<or> (length s \<le> 64 \<and> list_all mailbox_char (tl s) \<and> is_lower_alnum (last s)))"

definition label_char :: "char \<Rightarrow> bool" where
  "label_char c \<longleftrightarrow> is_lower_alnum c \<or> c = CHR ''-''"

definition domain_label :: "string \<Rightarrow> bool" where
  "domain_label s \<longleftrightarrow>
     s \<noteq> [] \<and> is_lower_alnum (hd s) \<and>
     (tl s = [] \<or> (length s \<le> 63 \<and> list_all label_char (tl s) \<and> is_lower_alnum (last s)))"

definition relay_domain_pattern :: "string \<Rightarrow> bool" where
  "relay_domain_pattern s \<longleftrightarrow>
     1 \<le> length s \<and> length s \<le> 253 \<and>
     2 \<le> length (split_on (CHR ''.'') s) \<and> list_all domain_label (split_on (CHR ''.'') s)"

section \<open>Normalising functions and predicates\<close>

definition normalizeTetiPublicIdCode :: "json \<Rightarrow> string result" where
  "normalizeTetiPublicIdCode value =
     (case value of
        JStr s \<Rightarrow>
          (let normalized = to_lower_case (trim s) in
           if public_id_code_pattern normalized then Inr normalized
           else Inl (PlainError ''Teti public ID code must contain exactly 9 ASCII lowercase letters or numbers.''))
      | _ \<Rightarrow> Inl (PlainError ''Teti public ID code must be a string.''))"

definition normalizeTetiPublicId :: "json \<Rightarrow> string result" where
  "normalizeTetiPublicId value =
     (case value of
        JStr s \<Rightarrow>
          (let normalized = to_lower_case (trim s) in
           if public_id_pattern normalized then Inr normalized
           else Inl (PlainError ''Teti public ID must match teti_ followed by exactly 9 ASCII lowercase letters or numbers.''))
      | _ \<Rightarrow> Inl (PlainError ''Teti public ID must be a string.''))"

definition isCanonicalTetiPublicId :: "json \<Rightarrow> bool" where
  "isCanonicalTetiPublicId value = (case value of JStr s \<Rightarrow> public_id_pattern s | _ \<Rightarrow> False)"

definition normalizeTetiChatmailAddress :: "json \<Rightarrow> string result" where
  "normalizeTetiChatmailAddress value =
     (case value of
        JStr s \<Rightarrow>
          (let normalized = to_lower_case (trim s) in
           if chatmail_address_pattern normalized then Inr normalized
           else Inl (PlainError ''Teti Chatmail address must use a 9-character ASCII lowercase local part at mail.seep.im.''))
      | _ \<Rightarrow> Inl (PlainError ''Teti Chatmail address must be a string.''))"

definition isCanonicalTetiChatmailAddress :: "json \<Rightarrow> string option \<Rightarrow> bool" where
  "isCanonicalTetiChatmailAddress value publicId =
     (case value of
        JStr s \<Rightarrow>
          chatmail_address_pattern s
          \<and> (case publicId of None \<Rightarrow> True | Some p \<Rightarrow> ''teti_'' @ take 9 s = p)
      | _ \<Rightarrow> False)"

text \<open>The parts before and after the only \<open>@\<close>, which may not be the first character.\<close>

definition relay_address_ok :: "string \<Rightarrow> bool" where
  "relay_address_ok s \<longleftrightarrow>
     length s \<le> 320 \<and>
     (let mailbox = takeWhile (\<lambda>c. c \<noteq> CHR ''@'') s; rest = dropWhile (\<lambda>c. c \<noteq> CHR ''@'') s in
      rest \<noteq> [] \<and> mailbox \<noteq> [] \<and> CHR ''@'' \<notin> set (tl rest) \<and>
      relay_mailbox_pattern mailbox \<and> relay_domain_pattern (tl rest))"

definition normalizeTetiRelayChatmailAddress :: "json \<Rightarrow> string result" where
  "normalizeTetiRelayChatmailAddress value =
     (case value of
        JStr s \<Rightarrow>
          (let normalized = to_lower_case (trim s) in
           if \<not> relay_address_ok normalized
           then Inl (PlainError ''Teti Chatmail delivery address is not canonical.'')
           else Inr normalized)
      | _ \<Rightarrow> Inl (PlainError ''Teti Chatmail delivery address must be a string.''))"

definition isCanonicalTetiRelayChatmailAddress :: "json \<Rightarrow> bool" where
  "isCanonicalTetiRelayChatmailAddress value =
     (case value of
        JStr s \<Rightarrow> (case normalizeTetiRelayChatmailAddress value of Inl e \<Rightarrow> False | Inr t \<Rightarrow> t = s)
      | _ \<Rightarrow> False)"

definition isTetiRelayChatmailAddress :: "json \<Rightarrow> string \<Rightarrow> bool" where
  "isTetiRelayChatmailAddress value publicId =
     (if \<not> is_string value \<or> \<not> isCanonicalTetiPublicId (JStr publicId) then False
      else isCanonicalTetiRelayChatmailAddress value)"

definition tetiPublicIdFromAddress :: "json \<Rightarrow> string result" where
  "tetiPublicIdFromAddress address =
     rbind (normalizeTetiChatmailAddress address) (\<lambda>a. Inr (''teti_'' @ take 9 a))"

section \<open>Lemmas\<close>

text \<open>A plain character is one that trimming and lower-casing leave alone.\<close>

definition plain_char :: "char \<Rightarrow> bool" where
  "plain_char c \<longleftrightarrow> \<not> is_space c \<and> lower_char c = c"

lemma plain_lower_alnum: "is_lower_alnum c \<Longrightarrow> plain_char c"
  by (auto simp: plain_char_def is_lower_alnum_def is_lower_def is_digit_def is_space_def
      lower_char_def is_upper_def)

lemma plain_punct [simp]:
  "plain_char (CHR ''.'')" "plain_char (CHR ''_'')" "plain_char (CHR ''+'')"
  "plain_char (CHR ''-'')" "plain_char (CHR ''@'')"
  by (simp_all add: plain_char_def is_space_def lower_char_def is_upper_def cu_def)

lemma dropWhile_none: "\<forall>x\<in>set xs. \<not> P x \<Longrightarrow> dropWhile P xs = xs"
  by (cases xs) auto

lemma trim_plain: "list_all plain_char s \<Longrightarrow> trim s = s"
  by (simp add: trim_def plain_char_def list_all_iff dropWhile_none)

lemma normal_plain: "list_all plain_char s \<Longrightarrow> to_lower_case (trim s) = s"
  by (simp add: trim_plain to_lower_case_def map_idI list_all_iff plain_char_def)

lemma code_plain: "public_id_code_pattern s \<Longrightarrow> list_all plain_char s"
  by (auto simp: public_id_code_pattern_def list_all_iff plain_lower_alnum)

lemma public_id_plain: "public_id_pattern s \<Longrightarrow> list_all plain_char s"
proof -
  assume pat: "public_id_pattern s"
  then have "s = ''teti_'' @ drop 5 s" by (metis append_take_drop_id public_id_pattern_def)
  moreover have "list_all plain_char ''teti_''"
    by (simp add: plain_char_def is_space_def lower_char_def is_upper_def cu_def)
  ultimately show ?thesis
    using pat code_plain [of "drop 5 s"] by (metis list_all_append public_id_pattern_def)
qed

lemma chatmail_plain: "chatmail_address_pattern s \<Longrightarrow> list_all plain_char s"
proof -
  assume pat: "chatmail_address_pattern s"
  then have "s = take 9 s @ ''@mail.seep.im''" by (metis append_take_drop_id chatmail_address_pattern_def)
  moreover have "list_all plain_char ''@mail.seep.im''"
    by (simp add: plain_char_def is_space_def lower_char_def is_upper_def cu_def)
  ultimately show ?thesis
    using pat code_plain [of "take 9 s"] by (metis list_all_append chatmail_address_pattern_def)
qed

lemma mailbox_plain: "relay_mailbox_pattern s \<Longrightarrow> list_all plain_char s"
  by (cases s) (auto simp: relay_mailbox_pattern_def mailbox_char_def list_all_iff plain_lower_alnum)

lemma split_by_set: "\<Union> (set ` set (split_by d s)) = {c \<in> set s. \<not> d c}"
proof (induction s)
  case (Cons c cs)
  then show ?case by (cases "split_by d cs") (auto split: list.splits)
qed simp

lemma split_on_set: "\<Union> (set ` set (split_on d s)) = set s - {d}"
  by (auto simp: split_on_def split_by_set)

lemma label_plain: "domain_label s \<Longrightarrow> list_all plain_char s"
  by (cases s) (auto simp: domain_label_def label_char_def list_all_iff plain_lower_alnum)

lemma domain_plain:
  assumes "relay_domain_pattern s"
  shows "list_all plain_char s"
proof -
  have "plain_char c" if "c \<in> set s" for c
  proof (cases "c = CHR ''.''")
    case False
    with that split_on_set [of "CHR ''.''" s] obtain w where "w \<in> set (split_on (CHR ''.'') s)" "c \<in> set w"
      by blast
    then show ?thesis
      using assms label_plain [of w] by (auto simp: relay_domain_pattern_def list_all_iff)
  qed simp
  then show ?thesis by (simp add: list_all_iff)
qed

lemma relay_address_plain:
  assumes "relay_address_ok s"
  shows "list_all plain_char s"
proof -
  define mb rest where "mb = takeWhile (\<lambda>c. c \<noteq> CHR ''@'') s" and "rest = dropWhile (\<lambda>c. c \<noteq> CHR ''@'') s"
  have s: "s = mb @ rest" unfolding mb_def rest_def by simp
  have "rest \<noteq> []" "relay_mailbox_pattern mb" "relay_domain_pattern (tl rest)"
    using assms unfolding relay_address_ok_def mb_def rest_def by (auto simp: Let_def)
  moreover have "hd rest = CHR ''@''"
    using \<open>rest \<noteq> []\<close> hd_dropWhile [of "\<lambda>c. c \<noteq> CHR ''@''" s] unfolding rest_def by auto
  ultimately show ?thesis
    using mailbox_plain domain_plain s by (cases rest) auto
qed

lemma isCanonicalTetiPublicId_conv [valid_simps]:
  "isCanonicalTetiPublicId v \<longleftrightarrow> (\<exists>s. v = JStr s \<and> public_id_pattern s)"
  by (cases v) (auto simp: isCanonicalTetiPublicId_def)

lemma public_id_pattern_prefix [intro]:
  "public_id_code_pattern c \<Longrightarrow>
    public_id_pattern (CHR ''t'' # CHR ''e'' # CHR ''t'' # CHR ''i'' # CHR ''_'' # c)"
  by (simp add: public_id_pattern_def)

text \<open>A normalised value is canonical, and normalising is the identity on canonical values.\<close>

lemma normalizeTetiPublicId_canonical:
  "normalizeTetiPublicId v = Inr s \<Longrightarrow> isCanonicalTetiPublicId (JStr s)"
  by (auto simp: normalizeTetiPublicId_def isCanonicalTetiPublicId_def Let_def split: json.splits if_splits)

lemma normalizeTetiPublicId_fixes:
  "isCanonicalTetiPublicId (JStr s) \<Longrightarrow> normalizeTetiPublicId (JStr s) = Inr s"
  by (simp add: normalizeTetiPublicId_def isCanonicalTetiPublicId_def normal_plain public_id_plain)

lemma relay_canonical_iff:
  "isCanonicalTetiRelayChatmailAddress (JStr s) \<longleftrightarrow> relay_address_ok s"
  using normal_plain [OF relay_address_plain, of s]
  by (auto simp: isCanonicalTetiRelayChatmailAddress_def normalizeTetiRelayChatmailAddress_def Let_def
      split: if_splits)

lemma chatmail_address_id:
  "tetiPublicIdFromAddress (JStr s) = Inr p \<Longrightarrow> chatmail_address_pattern s \<Longrightarrow>
    isCanonicalTetiPublicId (JStr p) \<and> isCanonicalTetiChatmailAddress (JStr s) (Some p)"
  using normal_plain [OF chatmail_plain, of s]
  by (auto simp: tetiPublicIdFromAddress_def normalizeTetiChatmailAddress_def rbind_Inr_conv
      isCanonicalTetiPublicId_def isCanonicalTetiChatmailAddress_def chatmail_address_pattern_def)

section \<open>Properties\<close>

text \<open>
  Normalising a relay delivery address is a closure operator: what it returns is canonical, and
  a value is canonical exactly when normalising returns it unchanged.
\<close>

theorem relay_address_normal_form:
  "(case normalizeTetiRelayChatmailAddress (JStr s) of
      Inl e \<Rightarrow> \<not> isCanonicalTetiRelayChatmailAddress (JStr s)
    | Inr t \<Rightarrow> isCanonicalTetiRelayChatmailAddress (JStr t)
        \<and> normalizeTetiRelayChatmailAddress (JStr t) = Inr t
        \<and> (isCanonicalTetiRelayChatmailAddress (JStr s) \<longleftrightarrow> t = s))"
proof (cases "normalizeTetiRelayChatmailAddress (JStr s)")
  case (Inl e)
  then show ?thesis by (simp add: isCanonicalTetiRelayChatmailAddress_def)
next
  case (Inr t)
  then have t: "relay_address_ok t"
    by (auto simp: normalizeTetiRelayChatmailAddress_def Let_def split: if_splits)
  then have "normalizeTetiRelayChatmailAddress (JStr t) = Inr t"
    by (simp add: normalizeTetiRelayChatmailAddress_def normal_plain relay_address_plain)
  with Inr t show ?thesis
    using relay_canonical_iff [of t] by (simp add: isCanonicalTetiRelayChatmailAddress_def)
qed

end
