(* ===== verification/Workspace.thy ===== *)
theory Workspace
  imports Public_Id
begin

text \<open>
  The Workspace contract (\<open>core/workspace/types.ts\<close>, \<open>core/workspace/validation.ts\<close>) and the local
  path check it rests on (\<open>core/application/local-path.ts\<close>). Validators take the \<open>unknown\<close> value as
  \<open>json\<close> and return the error they throw.
\<close>

section \<open>Local paths\<close>

datatype local_platform = Macos | Windows

definition is_slash :: "char \<Rightarrow> bool" where
  "is_slash c \<longleftrightarrow> c = CHR ''/'' \<or> c = CHR 0x5C"

fun hasCanonicalSegments :: "string list \<Rightarrow> bool" where
  "hasCanonicalSegments [] = True"
| "hasCanonicalSegments (s # ss) =
     ((s \<noteq> [] \<or> ss = []) \<and> s \<noteq> ''.'' \<and> s \<noteq> ''..'' \<and> hasCanonicalSegments ss)"

text \<open>\<open>/^[A-Za-z]:[\\/](?![\\/])/\<close>\<close>

definition windows_drive_absolute :: "string \<Rightarrow> bool" where
  "windows_drive_absolute s =
     (case s of
        d # co # sl # rest \<Rightarrow>
          (is_lower d \<or> is_upper d) \<and> co = CHR '':'' \<and> is_slash sl
          \<and> (case rest of [] \<Rightarrow> True | c # _ \<Rightarrow> \<not> is_slash c)
      | _ \<Rightarrow> False)"

definition isSafeAbsoluteLocalPath :: "json \<Rightarrow> local_platform \<Rightarrow> bool" where
  "isSafeAbsoluteLocalPath v platform =
     (case v of
        JStr s \<Rightarrow>
          (if s = [] \<or> 4096 < length s \<or> list_ex control_char s \<or> trim s \<noteq> s then False
           else case platform of
             Windows \<Rightarrow>
               (if \<not> windows_drive_absolute s
                  \<or> starts_with [CHR 0x5C, CHR 0x5C] s \<or> starts_with ''//'' s
                  \<or> CHR '':'' \<in> set (drop 2 s) then False
                else hasCanonicalSegments (split_by is_slash (drop 3 s)))
           | Macos \<Rightarrow>
               (if \<not> starts_with ''/'' s \<or> starts_with ''//'' s \<or> CHR 0x5C \<in> set s then False
                else hasCanonicalSegments (split_on (CHR ''/'') (drop 1 s))))
      | _ \<Rightarrow> False)"

section \<open>Data\<close>

datatype workspace_access = Read | Write | CreateArtifact

fun access_string :: "workspace_access \<Rightarrow> string" where
  "access_string Read = ''read''"
| "access_string Write = ''write''"
| "access_string CreateArtifact = ''create_artifact''"

datatype workspace_mode = EphemeralTask | DurableCollaboration

fun mode_string :: "workspace_mode \<Rightarrow> string" where
  "mode_string EphemeralTask = ''ephemeral_task''"
| "mode_string DurableCollaboration = ''durable_collaboration''"

record workspace_quota =
  max_bytes :: int
  max_files :: int

text \<open>A Task's request for a Workspace; a path is not representable.\<close>

datatype task_workspace_request =
    TemporaryWorkspace "workspace_access list"
  | ReferenceWorkspace string int "workspace_access list"

fun task_workspace_json :: "task_workspace_request \<Rightarrow> json" where
  "task_workspace_json (TemporaryWorkspace acc) =
     JObj [(''kind'', JStr ''temporary''), (''access'', JArr (map (JStr \<circ> access_string) acc))]"
| "task_workspace_json (ReferenceWorkspace w r acc) =
     JObj [(''kind'', JStr ''reference''), (''workspaceId'', JStr w),
           (''workspaceRevision'', jint r), (''access'', JArr (map (JStr \<circ> access_string) acc))]"

definition max_participants :: nat where "max_participants = 16"
definition max_manifest_entries :: int where "max_manifest_entries = 16384"
definition max_workspace_bytes :: int where "max_workspace_bytes = 2 * 1024 * 1024 * 1024"
definition max_workspace_files :: int where "max_workspace_files = 16384"
definition max_relative_path_bytes :: int where "max_relative_path_bytes = 1024"

lemmas workspace_limits = max_participants_def max_manifest_entries_def max_workspace_bytes_def
  max_workspace_files_def max_relative_path_bytes_def

section \<open>Shared checks of the validator\<close>

definition ws_exactRecord :: "json \<Rightarrow> string list \<Rightarrow> string \<Rightarrow> error option" where
  "ws_exactRecord value keys label = first_err
     [throw_if (\<not> is_record value) (WorkspaceContractError (label @ '' must be an object.'')),
      throw_if (has_extra_key keys value) (WorkspaceContractError (label @ '' contains an unsupported field.'')),
      throw_if (has_missing_key keys value) (WorkspaceContractError (label @ '' is missing a required field.''))]"

definition ws_safeId :: "json \<Rightarrow> string \<Rightarrow> error option" where
  "ws_safeId value label =
     throw_if (\<not> is_string value \<or> \<not> id_pattern 127 (str_of value))
       (WorkspaceContractError (label @ '' is invalid.''))"

definition ws_canonicalTetiId :: "json \<Rightarrow> string \<Rightarrow> error option" where
  "ws_canonicalTetiId value label =
     throw_if (\<not> isCanonicalTetiPublicId value)
       (WorkspaceContractError (label @ '' must be a canonical lowercase Teti ID.''))"

definition ws_positiveInteger :: "json \<Rightarrow> string \<Rightarrow> error option" where
  "ws_positiveInteger value label =
     throw_if (\<not> is_safe_integer value \<or> int_of value \<le> 0)
       (WorkspaceContractError (label @ '' must be a positive integer.''))"

definition ws_timestamp :: "json \<Rightarrow> string \<Rightarrow> error option" where
  "ws_timestamp value label = first_err
     [throw_if (\<not> is_string value \<or> trim (str_of value) = [])
        (WorkspaceContractError (label @ '' is required.'')),
      throw_if (\<not> valid_date (str_of value)) (WorkspaceContractError (label @ '' is invalid.''))]"

section \<open>Access\<close>

definition access_order :: "json list" where
  "access_order = [JStr ''read'', JStr ''write'', JStr ''create_artifact'']"

definition validateWorkspaceAccess :: "json \<Rightarrow> error option" where
  "validateWorkspaceAccess value = first_err
     [throw_if (\<not> is_array value \<or> items value = [] \<or> length access_order < length (items value))
        (WorkspaceContractError ''Workspace access is invalid.''),
      throw_if (\<not> distinct (items value) \<or> list_ex (\<lambda>i. i \<notin> set access_order) (items value)
          \<or> hd (items value) \<noteq> JStr ''read'')
        (WorkspaceContractError ''Workspace access is invalid.''),
      throw_if (take (length (filter (\<lambda>i. i \<in> set (items value)) access_order)) (items value)
          \<noteq> filter (\<lambda>i. i \<in> set (items value)) access_order)
        (WorkspaceContractError ''Workspace access ordering is invalid.'')]"

section \<open>Quota, relative paths and the manifest\<close>

definition validateWorkspaceQuota :: "json \<Rightarrow> error option" where
  "validateWorkspaceQuota value = first_err
     [ws_exactRecord value [''maxBytes'', ''maxFiles''] ''Workspace quota'',
      ws_positiveInteger (get value ''maxBytes'') ''maxBytes'',
      ws_positiveInteger (get value ''maxFiles'') ''maxFiles'',
      throw_if (max_workspace_bytes < int_of (get value ''maxBytes'')
          \<or> max_workspace_files < int_of (get value ''maxFiles''))
        (WorkspaceContractError ''Workspace quota exceeds the supported limit.'')]"

definition validateWorkspaceRelativePath :: "json \<Rightarrow> error option" where
  "validateWorkspaceRelativePath value = first_err
     [throw_if (\<not> is_string value \<or> str_of value = [] \<or> starts_with ''/'' (str_of value)
          \<or> CHR 0x5C \<in> set (str_of value) \<or> CHR 0x00 \<in> set (str_of value)
          \<or> max_relative_path_bytes < utf8_size (str_of value))
        (WorkspaceContractError ''Workspace relative path is invalid.''),
      throw_if (list_ex (\<lambda>s. s = [] \<or> s = ''.'' \<or> s = ''..'' \<or> 255 < length s \<or> list_ex control_char s)
          (split_on (CHR ''/'') (str_of value)))
        (WorkspaceContractError ''Workspace relative path is invalid.'')]"

definition validate_manifest_entry :: "json list \<Rightarrow> int \<Rightarrow> json \<Rightarrow> error option" where
  "validate_manifest_entry paths sum_bytes entry = first_err
     [ws_exactRecord entry [''relativePath'', ''byteLength'', ''sha256'', ''updatedAt''] ''Workspace manifest entry'',
      validateWorkspaceRelativePath (get entry ''relativePath''),
      throw_if (get entry ''relativePath'' \<in> set paths)
        (WorkspaceContractError ''Workspace manifest paths must be unique.''),
      throw_if (\<not> is_safe_integer (get entry ''byteLength'') \<or> int_of (get entry ''byteLength'') < 0)
        (WorkspaceContractError ''Workspace manifest byte length is invalid.''),
      throw_if (\<not> is_string (get entry ''sha256'') \<or> \<not> sha256_pattern (str_of (get entry ''sha256'')))
        (WorkspaceContractError ''Workspace manifest digest is invalid.''),
      ws_timestamp (get entry ''updatedAt'') ''updatedAt'',
      throw_if (\<not> num_is_safe (NInt (sum_bytes + int_of (get entry ''byteLength''))))
        (WorkspaceContractError ''Workspace manifest size is invalid.'')]"

text \<open>The loop over the entries, with the paths seen and the total so far.\<close>

fun manifest_entries :: "json list \<Rightarrow> int \<Rightarrow> json list \<Rightarrow> int result" where
  "manifest_entries paths sum_bytes [] = Inr sum_bytes"
| "manifest_entries paths sum_bytes (entry # rest) =
     guarded (validate_manifest_entry paths sum_bytes entry)
       (manifest_entries (get entry ''relativePath'' # paths)
          (sum_bytes + int_of (get entry ''byteLength'')) rest)"

definition validateWorkspaceManifest :: "json \<Rightarrow> workspace_quota option \<Rightarrow> error option" where
  "validateWorkspaceManifest value quota = first_err
     [ws_exactRecord value [''entries'', ''totalBytes'', ''totalFiles''] ''Workspace manifest'',
      throw_if (\<not> is_array (get value ''entries'')
          \<or> max_manifest_entries < int (length (items (get value ''entries''))))
        (WorkspaceContractError ''Workspace manifest entries are invalid.''),
      (case manifest_entries [] 0 (items (get value ''entries'')) of
         Inl e \<Rightarrow> Some e
       | Inr sum_bytes \<Rightarrow> first_err
           [throw_if (get value ''totalFiles'' \<noteq> jint (int (length (items (get value ''entries''))))
               \<or> get value ''totalBytes'' \<noteq> jint sum_bytes)
              (WorkspaceContractError ''Workspace manifest totals are invalid.''),
            (case quota of
               None \<Rightarrow> None
             | Some q \<Rightarrow> throw_if (max_bytes q < sum_bytes
                 \<or> max_files q < int (length (items (get value ''entries''))))
                 (WorkspaceContractError ''Workspace quota is exceeded.''))])]"

section \<open>Participants, retention and the Workspace\<close>

fun participants_loop :: "string \<Rightarrow> json list \<Rightarrow> json list \<Rightarrow> error option" where
  "participants_loop owner seen [] = None"
| "participants_loop owner seen (item # rest) = first_err
     [ws_canonicalTetiId item ''participantTetiId'',
      throw_if (item = JStr owner \<or> item \<in> set seen)
        (WorkspaceContractError ''Workspace participants are invalid.''),
      participants_loop owner (item # seen) rest]"

definition validateParticipants :: "json \<Rightarrow> string \<Rightarrow> error option" where
  "validateParticipants value owner = first_err
     [throw_if (\<not> is_array value \<or> max_participants < length (items value))
        (WorkspaceContractError ''Workspace participants are invalid.''),
      participants_loop owner [] (items value),
      throw_if (sort_by str_le (map str_of (items value)) \<noteq> map str_of (items value))
        (WorkspaceContractError ''Workspace participants must be canonical and sorted.'')]"

definition validateRetention :: "json \<Rightarrow> json \<Rightarrow> error option" where
  "validateRetention value mode =
     (if \<not> is_record value then Some (WorkspaceContractError ''Workspace retention policy is invalid.'')
      else if mode = JStr ''ephemeral_task'' then first_err
        [ws_exactRecord value [''kind'', ''expiresAt''] ''Workspace retention policy'',
         throw_if (get value ''kind'' \<noteq> JStr ''ttl'')
           (WorkspaceContractError ''Ephemeral Workspace requires TTL retention.''),
         ws_timestamp (get value ''expiresAt'') ''expiresAt'']
      else first_err
        [ws_exactRecord value [''kind''] ''Workspace retention policy'',
         throw_if (get value ''kind'' \<noteq> JStr ''retain'')
           (WorkspaceContractError ''Durable Workspace requires retained storage.'')])"

definition valid_mode :: "json \<Rightarrow> bool" where
  "valid_mode v \<longleftrightarrow> v = JStr ''ephemeral_task'' \<or> v = JStr ''durable_collaboration''"

definition quota_of :: "json \<Rightarrow> workspace_quota" where
  "quota_of v = \<lparr>max_bytes = int_of (get v ''maxBytes''), max_files = int_of (get v ''maxFiles'')\<rparr>"

definition validateCollaborationWorkspace :: "json \<Rightarrow> error option" where
  "validateCollaborationWorkspace value = first_err
     [ws_exactRecord value
        [''schemaVersion'', ''workspaceId'', ''ownerTetiId'', ''participantTetiIds'', ''revision'',
         ''mode'', ''quota'', ''retentionPolicy'', ''manifest'', ''createdAt'', ''updatedAt''] ''Workspace'',
      throw_if (get value ''schemaVersion'' \<noteq> jint 1)
        (WorkspaceContractError ''Unsupported Workspace schema version.''),
      ws_safeId (get value ''workspaceId'') ''workspaceId'',
      ws_canonicalTetiId (get value ''ownerTetiId'') ''ownerTetiId'',
      validateParticipants (get value ''participantTetiIds'') (str_of (get value ''ownerTetiId'')),
      ws_positiveInteger (get value ''revision'') ''revision'',
      throw_if (\<not> valid_mode (get value ''mode'')) (WorkspaceContractError ''Workspace mode is invalid.''),
      validateWorkspaceQuota (get value ''quota''),
      validateRetention (get value ''retentionPolicy'') (get value ''mode''),
      validateWorkspaceManifest (get value ''manifest'') (Some (quota_of (get value ''quota''))),
      ws_timestamp (get value ''createdAt'') ''createdAt'',
      ws_timestamp (get value ''updatedAt'') ''updatedAt'',
      throw_if (date_ms (str_of (get value ''updatedAt'')) < date_ms (str_of (get value ''createdAt'')))
        (WorkspaceContractError ''Workspace timestamps are invalid.'')]"

section \<open>Task requests, bindings and snapshots\<close>

definition validateTaskWorkspaceRequest :: "json \<Rightarrow> error option" where
  "validateTaskWorkspaceRequest value =
     (if \<not> is_record value
      then Some (WorkspaceContractError ''Task Workspace request must be an object.'')
      else if get value ''kind'' = JStr ''temporary'' then first_err
        [ws_exactRecord value [''kind'', ''access''] ''Temporary Task Workspace request'',
         validateWorkspaceAccess (get value ''access'')]
      else if get value ''kind'' = JStr ''reference'' then first_err
        [ws_exactRecord value [''kind'', ''workspaceId'', ''workspaceRevision'', ''access'']
           ''Referenced Task Workspace request'',
         ws_safeId (get value ''workspaceId'') ''workspaceId'',
         ws_positiveInteger (get value ''workspaceRevision'') ''workspaceRevision'',
         validateWorkspaceAccess (get value ''access'')]
      else Some (WorkspaceContractError ''Task Workspace request kind is invalid.''))"

definition validateTaskWorkspaceBinding :: "json \<Rightarrow> error option" where
  "validateTaskWorkspaceBinding value = first_err
     [ws_exactRecord value [''workspaceId'', ''workspaceRevision'', ''mode'', ''access''] ''Task Workspace binding'',
      ws_safeId (get value ''workspaceId'') ''workspaceId'',
      ws_positiveInteger (get value ''workspaceRevision'') ''workspaceRevision'',
      throw_if (\<not> valid_mode (get value ''mode''))
        (WorkspaceContractError ''Task Workspace binding mode is invalid.''),
      validateWorkspaceAccess (get value ''access'')]"

definition validateWorkspaceSnapshot :: "json \<Rightarrow> local_platform \<Rightarrow> error option" where
  "validateWorkspaceSnapshot value platform = first_err
     [ws_exactRecord value
        [''schemaVersion'', ''snapshotId'', ''workspaceId'', ''workspaceRevision'', ''access'',
         ''snapshotPath'', ''createdAt''] ''Workspace Snapshot'',
      throw_if (get value ''schemaVersion'' \<noteq> jint 1)
        (WorkspaceContractError ''Unsupported Workspace Snapshot version.''),
      ws_safeId (get value ''snapshotId'') ''snapshotId'',
      ws_safeId (get value ''workspaceId'') ''workspaceId'',
      ws_positiveInteger (get value ''workspaceRevision'') ''workspaceRevision'',
      validateWorkspaceAccess (get value ''access''),
      throw_if (\<not> isSafeAbsoluteLocalPath (get value ''snapshotPath'') platform)
        (WorkspaceContractError ''Workspace Snapshot path is invalid.''),
      ws_timestamp (get value ''createdAt'') ''createdAt'']"

section \<open>Lemmas\<close>

lemmas ws_checks = ws_safeId_def ws_canonicalTetiId_def ws_positiveInteger_def ws_timestamp_def

lemma ws_positiveInteger_None [valid_simps]:
  "ws_positiveInteger v l = None \<longleftrightarrow> safe_int_from 1 v"
  by (auto simp: ws_positiveInteger_def safe_int_from_def valid_simps)

lemma ws_timestamp_None [valid_simps]:
  "ws_timestamp v l = None \<longleftrightarrow> is_string v \<and> trim (str_of v) \<noteq> [] \<and> valid_date (str_of v)"
  by (auto simp: ws_timestamp_def valid_simps)

lemma ws_safeId_None [valid_simps]:
  "ws_safeId v l = None \<longleftrightarrow> is_string v \<and> id_pattern 127 (str_of v)"
  by (auto simp: ws_safeId_def valid_simps)

lemma ws_canonicalTetiId_None [valid_simps]:
  "ws_canonicalTetiId v l = None \<longleftrightarrow> isCanonicalTetiPublicId v"
  by (auto simp: ws_canonicalTetiId_def throw_if_None)

lemma manifest_entries_sound:
  "manifest_entries paths t es = Inr sum_bytes \<Longrightarrow>
     sum_bytes = t + (\<Sum>e\<leftarrow>es. int_of (get e ''byteLength''))
     \<and> distinct (map (\<lambda>e. get e ''relativePath'') es)
     \<and> set (map (\<lambda>e. get e ''relativePath'') es) \<inter> set paths = {}
     \<and> (\<forall>e\<in>set es. validateWorkspaceRelativePath (get e ''relativePath'') = None
          \<and> 0 \<le> int_of (get e ''byteLength''))"
proof (induction es arbitrary: paths t)
  case (Cons e es)
  then have ok: "validate_manifest_entry paths t e = None"
    and rest: "manifest_entries (get e ''relativePath'' # paths) (t + int_of (get e ''byteLength'')) es = Inr sum_bytes"
    by (auto simp: guarded_Inr_conv)
  have "validateWorkspaceRelativePath (get e ''relativePath'') = None"
    "get e ''relativePath'' \<notin> set paths" "0 \<le> int_of (get e ''byteLength'')"
    using ok by (auto simp: validate_manifest_entry_def first_err_None_Cons throw_if_None)
  then show ?case using Cons.IH [OF rest] by auto
qed simp

lemma participants_loop_sound:
  "participants_loop owner seen ps = None \<Longrightarrow>
     distinct ps \<and> set ps \<inter> set seen = {} \<and> JStr owner \<notin> set ps
     \<and> (\<forall>p\<in>set ps. isCanonicalTetiPublicId p)"
proof (induction ps arbitrary: seen)
  case (Cons p ps)
  then have "participants_loop owner (p # seen) ps = None" "isCanonicalTetiPublicId p"
    "p \<noteq> JStr owner" "p \<notin> set seen"
    by (auto simp: first_err_None_Cons throw_if_None ws_canonicalTetiId_None)
  then show ?case using Cons.IH [of "p # seen"] by auto
qed simp

text \<open>
  What a joined path denotes: \<open>path.resolve\<close> drops empty segments and dots and lets \<open>..\<close> remove the
  segment before it. The first argument is the directory reached so far, innermost segment first.
\<close>

fun resolve_segments :: "string list \<Rightarrow> string list \<Rightarrow> string list" where
  "resolve_segments dir [] = rev dir"
| "resolve_segments dir (s # ss) =
     (if s = [] \<or> s = ''.'' then resolve_segments dir ss
      else if s = ''..'' then resolve_segments (tl dir) ss
      else resolve_segments (s # dir) ss)"

lemma resolve_plain:
  "list_all (\<lambda>s. s \<noteq> [] \<and> s \<noteq> ''.'' \<and> s \<noteq> ''..'') ss \<Longrightarrow> resolve_segments dir ss = rev dir @ ss"
  by (induction ss arbitrary: dir) auto

lemma split_by_nonempty [simp]: "split_by d s \<noteq> []"
  by (induction s) (auto split: list.splits)

lemma split_on_nonempty [simp]: "split_on d s \<noteq> []"
  by (simp add: split_on_def)

section \<open>Properties\<close>

text \<open>
  The access lists that the validator accepts are exactly the four canonical ones.
\<close>

theorem workspace_access_exact:
  "validateWorkspaceAccess v = None \<longleftrightarrow>
     v \<in> JArr ` {[JStr ''read''], [JStr ''read'', JStr ''write''], [JStr ''read'', JStr ''create_artifact''],
       [JStr ''read'', JStr ''write'', JStr ''create_artifact'']}"
proof
  assume ok: "validateWorkspaceAccess v = None"
  then obtain xs where v: "v = JArr xs"
    by (auto simp: validateWorkspaceAccess_def valid_simps is_array_conv)
  from ok v have len: "xs \<noteq> []" "length xs \<le> 3" and mem: "set xs \<subseteq> set access_order"
    by (auto simp: validateWorkspaceAccess_def valid_simps access_order_def list_ex_iff)
  from len consider x where "xs = [x]" | x y where "xs = [x, y]" | x y z where "xs = [x, y, z]"
    by (cases xs; cases "tl xs"; cases "tl (tl xs)") auto
  then show "v \<in> JArr ` {[JStr ''read''], [JStr ''read'', JStr ''write''],
      [JStr ''read'', JStr ''create_artifact''], [JStr ''read'', JStr ''write'', JStr ''create_artifact'']}"
    using ok v mem
    by cases (auto simp: validateWorkspaceAccess_def valid_simps access_order_def split: if_splits)
next
  assume "v \<in> JArr ` {[JStr ''read''], [JStr ''read'', JStr ''write''],
      [JStr ''read'', JStr ''create_artifact''], [JStr ''read'', JStr ''write'', JStr ''create_artifact'']}"
  then show "validateWorkspaceAccess v = None"
    by (auto simp: validateWorkspaceAccess_def valid_simps access_order_def)
qed

text \<open>
  An accepted relative path cannot leave the directory it is joined to: resolved against any
  root, it denotes the root's segments followed by its own, of which there is at least one.
\<close>

theorem relative_path_contained:
  assumes "validateWorkspaceRelativePath (JStr p) = None"
  shows "resolve_segments (rev base) (split_on (CHR ''/'') p) = base @ split_on (CHR ''/'') p
    \<and> split_on (CHR ''/'') p \<noteq> [] \<and> utf8_size p \<le> 1024"
proof -
  have "list_all (\<lambda>s. s \<noteq> [] \<and> s \<noteq> ''.'' \<and> s \<noteq> ''..'') (split_on (CHR ''/'') p)" "utf8_size p \<le> 1024"
    using assms
    by (auto simp: validateWorkspaceRelativePath_def valid_simps list_ex_iff list_all_iff
        max_relative_path_bytes_def)
  then show ?thesis by (simp add: resolve_plain)
qed

theorem relative_path_contained_witness:
  "resolve_segments (rev [''srv'', ''ws'']) (split_on (CHR ''/'') ''src/main.ts'')
     = [''srv'', ''ws''] @ split_on (CHR ''/'') ''src/main.ts''"
proof -
  have "validateWorkspaceRelativePath (JStr ''src/main.ts'') = None" by code_simp
  from relative_path_contained [OF this, of "[''srv'', ''ws'']"] show ?thesis by simp
qed

text \<open>
  An accepted Workspace respects its quota and its identities: the manifest's byte lengths sum to
  at most the quota's bytes and 2 GiB, its paths are distinct and each stays inside the Workspace,
  and its participants are distinct canonical Teti IDs other than the owner.
\<close>

theorem collaboration_workspace_sound:
  assumes "validateCollaborationWorkspace w = None"
  shows "let es = items (get (get w ''manifest'') ''entries''); ps = items (get w ''participantTetiIds'') in
    (\<Sum>e\<leftarrow>es. int_of (get e ''byteLength'')) \<le> max_bytes (quota_of (get w ''quota''))
    \<and> max_bytes (quota_of (get w ''quota'')) \<le> 2147483648
    \<and> get (get w ''manifest'') ''totalBytes'' = jint (\<Sum>e\<leftarrow>es. int_of (get e ''byteLength''))
    \<and> int (length es) \<le> max_files (quota_of (get w ''quota''))
    \<and> distinct (map (\<lambda>e. get e ''relativePath'') es)
    \<and> (\<forall>e\<in>set es. validateWorkspaceRelativePath (get e ''relativePath'') = None)
    \<and> distinct ps \<and> get w ''ownerTetiId'' \<notin> set ps \<and> (\<forall>p\<in>set ps. isCanonicalTetiPublicId p)"
proof -
  define es ps where "es = items (get (get w ''manifest'') ''entries'')"
    and "ps = items (get w ''participantTetiIds'')"
  have parts: "validateParticipants (get w ''participantTetiIds'') (str_of (get w ''ownerTetiId'')) = None"
    and owner: "isCanonicalTetiPublicId (get w ''ownerTetiId'')"
    and quota: "validateWorkspaceQuota (get w ''quota'') = None"
    and manifest: "validateWorkspaceManifest (get w ''manifest'') (Some (quota_of (get w ''quota''))) = None"
    using assms by (auto simp: validateCollaborationWorkspace_def first_err_None_Cons ws_canonicalTetiId_None)
  have "participants_loop (str_of (get w ''ownerTetiId'')) [] ps = None"
    using parts by (simp add: validateParticipants_def first_err_None_Cons ps_def)
  moreover have "get w ''ownerTetiId'' = JStr (str_of (get w ''ownerTetiId''))"
    using owner by (auto simp: isCanonicalTetiPublicId_conv)
  ultimately have P: "distinct ps" "get w ''ownerTetiId'' \<notin> set ps" "\<forall>p\<in>set ps. isCanonicalTetiPublicId p"
    using participants_loop_sound by metis+
  obtain sum_bytes where sum_bytes: "manifest_entries [] 0 es = Inr sum_bytes"
    using manifest by (auto simp: validateWorkspaceManifest_def first_err_None_Cons es_def split: sum.splits)
  then have "max_bytes (quota_of (get w ''quota'')) \<ge> sum_bytes"
    "max_files (quota_of (get w ''quota'')) \<ge> int (length es)"
    "get (get w ''manifest'') ''totalBytes'' = jint sum_bytes"
    using manifest by (auto simp: validateWorkspaceManifest_def first_err_None_Cons es_def throw_if_None)
  moreover have "max_bytes (quota_of (get w ''quota'')) \<le> 2147483648"
    using quota by (auto simp: validateWorkspaceQuota_def first_err_None_Cons throw_if_None quota_of_def
        max_workspace_bytes_def)
  ultimately show ?thesis
    using manifest_entries_sound [OF sum_bytes] P unfolding es_def [symmetric] ps_def [symmetric]
    by (auto simp: Let_def)
qed

definition example_workspace :: json where
  "example_workspace = JObj
     [(''schemaVersion'', jint 1), (''workspaceId'', JStr ''workspace:1''),
      (''ownerTetiId'', JStr ''teti_abcdefgh1''),
      (''participantTetiIds'', JArr [JStr ''teti_abcdefgh2'', JStr ''teti_abcdefgh3'']),
      (''revision'', jint 1), (''mode'', JStr ''durable_collaboration''),
      (''quota'', JObj [(''maxBytes'', jint 1000), (''maxFiles'', jint 4)]),
      (''retentionPolicy'', JObj [(''kind'', JStr ''retain'')]),
      (''manifest'', JObj
        [(''entries'', JArr [JObj [(''relativePath'', JStr ''notes/a.md''), (''byteLength'', jint 12),
            (''sha256'', JStr (''sha256:'' @ replicate 64 (CHR ''0''))),
            (''updatedAt'', JStr ''2026-07-01T00:00:00.000Z'')]]),
         (''totalBytes'', jint 12), (''totalFiles'', jint 1)]),
      (''createdAt'', JStr ''2026-07-01T00:00:00.000Z''), (''updatedAt'', JStr ''2026-07-01T00:00:00.000Z'')]"

theorem collaboration_workspace_sound_witness:
  "max_bytes (quota_of (get example_workspace ''quota'')) \<le> 2147483648
    \<and> get example_workspace ''ownerTetiId''
       \<notin> set (items (get example_workspace ''participantTetiIds''))"
proof -
  have "validateCollaborationWorkspace example_workspace = None" by code_simp
  from collaboration_workspace_sound [OF this] show ?thesis by (simp add: Let_def)
qed

end
