(* ===== verification/Execution.thy ===== *)
theory Execution
  imports Workspace
begin

text \<open>
  Execution handles (\<open>core/callability/execution.ts\<close>): the receiver-local record of one Task
  execution, its progress, and the validators that guard every load and save of it. A handle is a
  record; \<open>handle_json\<close> is the JavaScript object it stands for, \<open>handle_of\<close> reads it back, and
  \<open>handle_ok\<close> says on the record what the validator checks on the object.
\<close>

section \<open>Data\<close>

record exec_capabilities =
  supports_progress :: bool
  supports_pause :: bool
  supports_resume :: bool
  supports_checkpoint :: bool
  supports_cancel :: bool
  capability_extra_keys :: "string list"

datatype exec_semantics = WorkspacePureCompute | ExternalSideEffectsPossible

datatype progress_state =
  Queued | Running | Paused | Interrupted | Canceling | Canceled | Completed | Failed

fun progress_string :: "progress_state \<Rightarrow> string" where
  "progress_string Queued = ''queued''"
| "progress_string Running = ''running''"
| "progress_string Paused = ''paused''"
| "progress_string Interrupted = ''interrupted''"
| "progress_string Canceling = ''canceling''"
| "progress_string Canceled = ''canceled''"
| "progress_string Completed = ''completed''"
| "progress_string Failed = ''failed''"

record exec_progress =
  pr_state :: progress_state
  completed_units :: "int option"
  total_units :: "int option"
  pr_message :: "string option"
  pr_updated_at :: string

datatype resume_capability = NoResume | CheckpointRestart

fun resume_string :: "resume_capability \<Rightarrow> string" where
  "resume_string NoResume = ''none''"
| "resume_string CheckpointRestart = ''checkpoint_restart''"

record exec_handle =
  h_task_id :: string
  h_workspace_id :: string
  h_child_agent_id :: string
  h_connector_id :: string
  h_epoch :: int
  h_provider_id :: "string option"
  h_lease_expires_at :: string
  h_progress :: exec_progress
  h_checkpoint_ref :: "string option"
  h_resume :: resume_capability

definition execution_lease_ms :: int where "execution_lease_ms = 30000"

section \<open>Checks\<close>

definition ex_safeId :: "json \<Rightarrow> bool" where
  "ex_safeId v \<longleftrightarrow> is_string v \<and> id_pattern 191 (str_of v)"

definition ex_safeSlug :: "json \<Rightarrow> bool" where
  "ex_safeSlug v \<longleftrightarrow> is_string v \<and> slug_pattern (str_of v)"

definition provider_pattern :: "string \<Rightarrow> bool" where
  "provider_pattern s \<longleftrightarrow> s \<noteq> [] \<and> length s \<le> 256 \<and> \<not> list_ex (\<lambda>c. cu c = 13 \<or> cu c = 10 \<or> cu c = 0) s"

definition ex_safeProviderId :: "json \<Rightarrow> bool" where
  "ex_safeProviderId v \<longleftrightarrow> is_string v \<and> provider_pattern (str_of v)"

definition ex_validTimestamp :: "json \<Rightarrow> bool" where
  "ex_validTimestamp v \<longleftrightarrow> is_string v \<and> valid_date (str_of v)"

definition nullableUnit :: "json \<Rightarrow> bool" where
  "nullableUnit v \<longleftrightarrow> v = JNull \<or> safe_int_from 0 v"

text \<open>\<open>exactKeys\<close> compares the sorted keys with the sorted expected ones.\<close>

definition sorted_keys_differ :: "string list \<Rightarrow> string list \<Rightarrow> bool" where
  "sorted_keys_differ ks expected \<longleftrightarrow> sort_by str_le ks \<noteq> sort_by str_le expected"

definition ex_exactKeys :: "json \<Rightarrow> string list \<Rightarrow> string \<Rightarrow> error option" where
  "ex_exactKeys v expected label =
     throw_if (sorted_keys_differ (keys_of v) expected)
       (PlainError (label @ '' contains unsupported fields.''))"

definition capability_keys :: "string list" where
  "capability_keys =
     [''supportsProgress'', ''supportsPause'', ''supportsResume'', ''supportsCheckpoint'', ''supportsCancel'']"

definition validateConnectorExecutionCapabilities :: "exec_capabilities \<Rightarrow> error option" where
  "validateConnectorExecutionCapabilities c = first_err
     [throw_if (sorted_keys_differ (capability_keys @ capability_extra_keys c) capability_keys)
        (PlainError ''Connector execution capabilities contains unsupported fields.''),
      throw_if (supports_resume c \<and> \<not> supports_checkpoint c)
        (PlainError ''A resumable Connector must support explicit checkpoints.''),
      throw_if (supports_pause c \<and> \<not> supports_resume c)
        (PlainError ''A pausable Connector must support resume.'')]"

definition progress_keys :: "string list" where
  "progress_keys = [''state'', ''completedUnits'', ''totalUnits'', ''message'', ''updatedAt'']"

definition progress_states :: "string list" where
  "progress_states = [''queued'', ''running'', ''paused'', ''interrupted'', ''canceling'', ''canceled'',
     ''completed'', ''failed'']"

definition validateExecutionProgress :: "json \<Rightarrow> error option" where
  "validateExecutionProgress v = first_err
     [throw_if (\<not> is_record v) (PlainError ''Execution progress is invalid.''),
      ex_exactKeys v progress_keys ''Execution progress'',
      throw_if (\<not> (is_string (get v ''state'') \<and> str_of (get v ''state'') \<in> set progress_states)
          \<or> \<not> nullableUnit (get v ''completedUnits'')
          \<or> \<not> nullableUnit (get v ''totalUnits'')
          \<or> (get v ''completedUnits'' \<noteq> JNull \<and> get v ''totalUnits'' \<noteq> JNull
              \<and> int_of (get v ''totalUnits'') < int_of (get v ''completedUnits''))
          \<or> (get v ''message'' \<noteq> JNull
              \<and> (\<not> is_string (get v ''message'') \<or> 240 < length (str_of (get v ''message''))))
          \<or> \<not> ex_validTimestamp (get v ''updatedAt''))
        (PlainError ''Execution progress is invalid.'')]"

definition handle_keys :: "string list" where
  "handle_keys = [''schemaVersion'', ''taskId'', ''workspaceId'', ''childAgentId'', ''connectorId'',
     ''executionEpoch'', ''providerExecutionId'', ''leaseExpiresAt'', ''progress'', ''checkpointRef'',
     ''resumeCapability'']"

definition validateExecutionHandle :: "json \<Rightarrow> error option" where
  "validateExecutionHandle v = first_err
     [throw_if (\<not> is_record v) (PlainError ''Execution Handle is invalid.''),
      ex_exactKeys v handle_keys ''Execution Handle'',
      throw_if (get v ''schemaVersion'' \<noteq> jint 1
          \<or> \<not> ex_safeId (get v ''taskId'')
          \<or> \<not> ex_safeId (get v ''workspaceId'')
          \<or> \<not> ex_safeSlug (get v ''childAgentId'')
          \<or> \<not> ex_safeSlug (get v ''connectorId'')
          \<or> \<not> safe_int_from 1 (get v ''executionEpoch'')
          \<or> (get v ''providerExecutionId'' \<noteq> JNull \<and> \<not> ex_safeProviderId (get v ''providerExecutionId''))
          \<or> \<not> ex_validTimestamp (get v ''leaseExpiresAt'')
          \<or> (get v ''checkpointRef'' \<noteq> JNull
              \<and> (\<not> is_string (get v ''checkpointRef'') \<or> 2048 < length (str_of (get v ''checkpointRef''))))
          \<or> (get v ''resumeCapability'' \<noteq> JStr ''none''
              \<and> get v ''resumeCapability'' \<noteq> JStr ''checkpoint_restart''))
        (PlainError ''Execution Handle is invalid.''),
      validateExecutionProgress (get v ''progress''),
      throw_if (get v ''resumeCapability'' = JStr ''checkpoint_restart'' \<and> get v ''checkpointRef'' = JNull)
        (PlainError ''A resumable Execution Handle requires a checkpoint.'')]"

fun isTerminalExecutionProgress :: "progress_state \<Rightarrow> bool" where
  "isTerminalExecutionProgress Completed = True"
| "isTerminalExecutionProgress Failed = True"
| "isTerminalExecutionProgress Canceled = True"
| "isTerminalExecutionProgress _ = False"

section \<open>The JavaScript objects and the records\<close>

definition progress_json :: "exec_progress \<Rightarrow> json" where
  "progress_json p = JObj
     [(''state'', JStr (progress_string (pr_state p))),
      (''completedUnits'', null_json jint (completed_units p)),
      (''totalUnits'', null_json jint (total_units p)),
      (''message'', null_json JStr (pr_message p)),
      (''updatedAt'', JStr (pr_updated_at p))]"

definition handle_json :: "exec_handle \<Rightarrow> json" where
  "handle_json h = JObj
     [(''schemaVersion'', jint 1),
      (''taskId'', JStr (h_task_id h)),
      (''workspaceId'', JStr (h_workspace_id h)),
      (''childAgentId'', JStr (h_child_agent_id h)),
      (''connectorId'', JStr (h_connector_id h)),
      (''executionEpoch'', jint (h_epoch h)),
      (''providerExecutionId'', null_json JStr (h_provider_id h)),
      (''leaseExpiresAt'', JStr (h_lease_expires_at h)),
      (''progress'', progress_json (h_progress h)),
      (''checkpointRef'', null_json JStr (h_checkpoint_ref h)),
      (''resumeCapability'', JStr (resume_string (h_resume h)))]"

definition nullable :: "(json \<Rightarrow> 'a) \<Rightarrow> json \<Rightarrow> 'a option" where
  "nullable f v = (if v = JNull then None else Some (f v))"

definition progress_state_of :: "string \<Rightarrow> progress_state" where
  "progress_state_of s =
     (if s = ''queued'' then Queued else if s = ''running'' then Running
      else if s = ''paused'' then Paused else if s = ''interrupted'' then Interrupted
      else if s = ''canceling'' then Canceling else if s = ''canceled'' then Canceled
      else if s = ''completed'' then Completed else Failed)"

definition progress_of :: "json \<Rightarrow> exec_progress" where
  "progress_of v =
     \<lparr>pr_state = progress_state_of (str_of (get v ''state'')),
      completed_units = nullable int_of (get v ''completedUnits''),
      total_units = nullable int_of (get v ''totalUnits''),
      pr_message = nullable str_of (get v ''message''),
      pr_updated_at = str_of (get v ''updatedAt'')\<rparr>"

definition handle_of :: "json \<Rightarrow> exec_handle" where
  "handle_of v =
     \<lparr>h_task_id = str_of (get v ''taskId''),
      h_workspace_id = str_of (get v ''workspaceId''),
      h_child_agent_id = str_of (get v ''childAgentId''),
      h_connector_id = str_of (get v ''connectorId''),
      h_epoch = int_of (get v ''executionEpoch''),
      h_provider_id = nullable str_of (get v ''providerExecutionId''),
      h_lease_expires_at = str_of (get v ''leaseExpiresAt''),
      h_progress = progress_of (get v ''progress''),
      h_checkpoint_ref = nullable str_of (get v ''checkpointRef''),
      h_resume = (if get v ''resumeCapability'' = JStr ''checkpoint_restart'' then CheckpointRestart else NoResume)\<rparr>"

definition unit_ok :: "int option \<Rightarrow> bool" where
  "unit_ok u = (case u of None \<Rightarrow> True | Some n \<Rightarrow> 0 \<le> n \<and> n \<le> max_safe_integer)"

definition progress_ok :: "exec_progress \<Rightarrow> bool" where
  "progress_ok p \<longleftrightarrow>
     unit_ok (completed_units p) \<and> unit_ok (total_units p)
     \<and> (case (completed_units p, total_units p) of (Some c, Some t) \<Rightarrow> c \<le> t | _ \<Rightarrow> True)
     \<and> (case pr_message p of None \<Rightarrow> True | Some m \<Rightarrow> length m \<le> 240)
     \<and> valid_date (pr_updated_at p)"

definition handle_ok :: "exec_handle \<Rightarrow> bool" where
  "handle_ok h \<longleftrightarrow>
     id_pattern 191 (h_task_id h) \<and> id_pattern 191 (h_workspace_id h)
     \<and> slug_pattern (h_child_agent_id h) \<and> slug_pattern (h_connector_id h)
     \<and> 1 \<le> h_epoch h \<and> h_epoch h \<le> max_safe_integer
     \<and> (case h_provider_id h of None \<Rightarrow> True | Some p \<Rightarrow> provider_pattern p)
     \<and> valid_date (h_lease_expires_at h)
     \<and> (case h_checkpoint_ref h of None \<Rightarrow> True | Some r \<Rightarrow> length r \<le> 2048)
     \<and> progress_ok (h_progress h)
     \<and> (h_resume h = CheckpointRestart \<longrightarrow> h_checkpoint_ref h \<noteq> None)"

section \<open>Lemmas\<close>

lemma progress_keys_sorted: "\<not> sorted_keys_differ progress_keys progress_keys"
  by (simp add: sorted_keys_differ_def)

lemma keys_progress_json [simp]: "keys_of (progress_json p) = progress_keys"
  by (simp add: progress_json_def progress_keys_def)

lemma keys_handle_json [simp]: "keys_of (handle_json h) = handle_keys"
  by (simp add: handle_json_def handle_keys_def)

lemma get_progress_json [simp]:
  "get (progress_json p) ''state'' = JStr (progress_string (pr_state p))"
  "get (progress_json p) ''completedUnits'' = null_json jint (completed_units p)"
  "get (progress_json p) ''totalUnits'' = null_json jint (total_units p)"
  "get (progress_json p) ''message'' = null_json JStr (pr_message p)"
  "get (progress_json p) ''updatedAt'' = JStr (pr_updated_at p)"
  by (simp_all add: progress_json_def)

lemma get_handle_json [simp]:
  "get (handle_json h) ''schemaVersion'' = jint 1"
  "get (handle_json h) ''taskId'' = JStr (h_task_id h)"
  "get (handle_json h) ''workspaceId'' = JStr (h_workspace_id h)"
  "get (handle_json h) ''childAgentId'' = JStr (h_child_agent_id h)"
  "get (handle_json h) ''connectorId'' = JStr (h_connector_id h)"
  "get (handle_json h) ''executionEpoch'' = jint (h_epoch h)"
  "get (handle_json h) ''providerExecutionId'' = null_json JStr (h_provider_id h)"
  "get (handle_json h) ''leaseExpiresAt'' = JStr (h_lease_expires_at h)"
  "get (handle_json h) ''progress'' = progress_json (h_progress h)"
  "get (handle_json h) ''checkpointRef'' = null_json JStr (h_checkpoint_ref h)"
  "get (handle_json h) ''resumeCapability'' = JStr (resume_string (h_resume h))"
  by (simp_all add: handle_json_def)

lemma is_record_json [simp]: "is_record (progress_json p)" "is_record (handle_json h)"
  by (simp_all add: progress_json_def handle_json_def)

lemma progress_string_member [simp]: "progress_string s \<in> set progress_states"
  by (cases s) (simp_all add: progress_states_def)

lemma progress_state_of_string [simp]: "progress_state_of (progress_string s) = s"
  by (cases s) (simp_all add: progress_state_of_def)

lemma null_json_JStr [simp]:
  "null_json JStr x = JNull \<longleftrightarrow> x = None" "null_json jint y = JNull \<longleftrightarrow> y = None"
  by (cases x; simp) (cases y; simp)

lemma nullable_json [simp]:
  "nullable str_of (null_json JStr x) = x" "nullable int_of (null_json jint y) = y"
  by (cases x; simp add: nullable_def) (cases y; simp add: nullable_def)

lemma nullableUnit_json [simp]: "nullableUnit (null_json jint u) \<longleftrightarrow> unit_ok u"
  by (cases u) (auto simp: nullableUnit_def unit_ok_def safe_int_from_def)

lemma nullableUnit_simps [simp]:
  "nullableUnit JNull" "nullableUnit (jint i) \<longleftrightarrow> 0 \<le> i \<and> i \<le> max_safe_integer"
  by (auto simp: nullableUnit_def safe_int_from_def max_safe_integer_def)

lemma unit_ok_simps [simp]:
  "unit_ok None" "unit_ok (Some n) \<longleftrightarrow> 0 \<le> n \<and> n \<le> max_safe_integer"
  by (auto simp: unit_ok_def)

lemma resume_string_eq [simp]:
  "resume_string r = ''checkpoint_restart'' \<longleftrightarrow> r = CheckpointRestart"
  "resume_string r = ''none'' \<longleftrightarrow> r = NoResume"
  by (cases r; simp)+

lemma validateExecutionProgress_json:
  "validateExecutionProgress (progress_json p) = None \<longleftrightarrow> progress_ok p"
  unfolding validateExecutionProgress_def ex_exactKeys_def progress_ok_def
  by (cases "completed_units p"; cases "total_units p"; cases "pr_message p")
    (auto simp: valid_simps progress_keys_sorted ex_validTimestamp_def)

lemma validateExecutionHandle_json:
  "validateExecutionHandle (handle_json h) = None \<longleftrightarrow> handle_ok h"
  unfolding validateExecutionHandle_def ex_exactKeys_def handle_ok_def
  by (cases "h_provider_id h"; cases "h_checkpoint_ref h"; cases "h_resume h")
    (auto simp: valid_simps sorted_keys_differ_def validateExecutionProgress_json ex_validTimestamp_def
      ex_safeId_def ex_safeSlug_def ex_safeProviderId_def)

lemma progress_of_json [simp]: "progress_of (progress_json p) = p"
  by (simp add: progress_of_def)

lemma handle_of_json [simp]: "handle_of (handle_json h) = h"
  by (cases "h_resume h") (simp_all add: handle_of_def)

text \<open>Reading an accepted object and writing it again gives an object with the same fields.\<close>

lemma nullable_string_back:
  "v = JNull \<or> is_string v \<Longrightarrow> null_json JStr (nullable str_of v) = v"
  by (cases v) (auto simp: nullable_def)

lemma nullable_int_back:
  "nullableUnit v \<Longrightarrow> null_json jint (nullable int_of v) = v"
  by (auto simp: nullable_def nullableUnit_def safe_int_from_def is_safe_integer_conv)

lemma progress_state_back:
  "s \<in> set progress_states \<Longrightarrow> progress_string (progress_state_of s) = s"
  by (auto simp: progress_states_def progress_state_of_def)

lemma progress_fields_back:
  assumes "validateExecutionProgress v = None" and "k \<in> set progress_keys"
  shows "get (progress_json (progress_of v)) k = get v k"
proof -
  have "is_string (get v ''state'')" "str_of (get v ''state'') \<in> set progress_states"
    "nullableUnit (get v ''completedUnits'')" "nullableUnit (get v ''totalUnits'')"
    "get v ''message'' = JNull \<or> is_string (get v ''message'')" "is_string (get v ''updatedAt'')"
    using assms(1) by (auto simp: validateExecutionProgress_def valid_simps ex_validTimestamp_def)
  then show ?thesis
    using assms(2)
    by (auto simp: progress_keys_def progress_of_def progress_state_back nullable_string_back
        nullable_int_back JStr_str_of)
qed

lemma handle_fields_back:
  assumes "validateExecutionHandle v = None" and "k \<in> set handle_keys" and "k \<noteq> ''progress''"
  shows "get (handle_json (handle_of v)) k = get v k"
proof -
  have "get v ''schemaVersion'' = jint 1"
    "is_string (get v ''taskId'')" "is_string (get v ''workspaceId'')"
    "is_string (get v ''childAgentId'')" "is_string (get v ''connectorId'')"
    "safe_int_from 1 (get v ''executionEpoch'')"
    "get v ''providerExecutionId'' = JNull \<or> is_string (get v ''providerExecutionId'')"
    "is_string (get v ''leaseExpiresAt'')"
    "get v ''checkpointRef'' = JNull \<or> is_string (get v ''checkpointRef'')"
    "get v ''resumeCapability'' = JStr ''none'' \<or> get v ''resumeCapability'' = JStr ''checkpoint_restart''"
    using assms(1) by (auto simp: validateExecutionHandle_def valid_simps ex_validTimestamp_def
        ex_safeId_def ex_safeSlug_def ex_safeProviderId_def)
  note fields = this
  have "k \<in> {''schemaVersion'', ''taskId'', ''workspaceId'', ''childAgentId'', ''connectorId'',
      ''executionEpoch'', ''providerExecutionId'', ''leaseExpiresAt'', ''checkpointRef'', ''resumeCapability''}"
    using assms(2,3) by (simp add: handle_keys_def)
  then show ?thesis
    using fields
    by (elim insertE emptyE) (simp_all add: handle_of_def nullable_string_back JStr_str_of jint_int_of
        split del: if_split, auto)
qed

end
