(* ===== verification/Execution_Store.thy ===== *)
theory Execution_Store
  imports Execution
begin

text \<open>
  The durable execution registry
  (\<open>apps/desktop/lifecycle-sidecar/runtime/callable/execution-store.ts\<close>): the stored state with its
  validator, the two stores, and every operation of \<open>DurableExecutionRegistry\<close> as a function on the
  stored state, run by \<open>mutate\<close> between a load and a save. The clock is the argument \<open>now\<close>, in
  milliseconds; the file system is the argument \<open>digest\<close>, which gives the digest of a checkpoint file
  that lies inside the checkpoint root and can be read. The progress messages, which the program
  shows in Chinese, are represented by an English gloss.
\<close>

section \<open>State\<close>

record integrity_record =
  ir_task_id :: string
  ir_epoch :: int
  ir_checkpoint_ref :: string
  ir_sha256 :: json

record exec_store =
  handles :: "exec_handle list"
  integrity :: "integrity_record list"

definition max_execution_handles :: nat where "max_execution_handles = 512"

definition emptyExecutionHandleStoreState :: exec_store where
  "emptyExecutionHandleStoreState = \<lparr>handles = [], integrity = []\<rparr>"

definition integrity_json :: "integrity_record \<Rightarrow> json" where
  "integrity_json r = JObj
     [(''taskId'', JStr (ir_task_id r)), (''capturedExecutionEpoch'', jint (ir_epoch r)),
      (''checkpointRef'', JStr (ir_checkpoint_ref r)), (''sha256'', ir_sha256 r)]"

definition store_json :: "exec_store \<Rightarrow> json" where
  "store_json st = JObj
     [(''schemaVersion'', jint 2), (''handles'', JArr (map handle_json (handles st))),
      (''checkpointIntegrity'', JArr (map integrity_json (integrity st)))]"

definition integrity_of :: "json \<Rightarrow> integrity_record" where
  "integrity_of v =
     \<lparr>ir_task_id = str_of (get v ''taskId''), ir_epoch = int_of (get v ''capturedExecutionEpoch''),
      ir_checkpoint_ref = str_of (get v ''checkpointRef''), ir_sha256 = get v ''sha256''\<rparr>"

definition store_of :: "json \<Rightarrow> exec_store" where
  "store_of v = \<lparr>handles = map handle_of (items (get v ''handles'')),
     integrity = map integrity_of (items (get v ''checkpointIntegrity''))\<rparr>"

section \<open>Migration and validation\<close>

text \<open>\<open>Object.keys(value).sort().join(",")\<close> against a fixed string.\<close>

definition sorted_keys_are :: "string list \<Rightarrow> json \<Rightarrow> bool" where
  "sorted_keys_are ks v \<longleftrightarrow> join_with '','' (sort_by str_le (keys_of v)) = join_with '','' ks"

definition migrateExecutionHandleStoreState :: "json \<Rightarrow> json" where
  "migrateExecutionHandleStoreState v =
     (if \<not> is_record v \<or> get v ''schemaVersion'' \<noteq> jint 1
        \<or> \<not> sorted_keys_are [''handles'', ''schemaVersion''] v
      then v
      else JObj [(''schemaVersion'', jint 2), (''handles'', get v ''handles''), (''checkpointIntegrity'', JArr [])])"

fun validate_handles :: "string list \<Rightarrow> json list \<Rightarrow> error option" where
  "validate_handles taskIds [] = None"
| "validate_handles taskIds (h # hs) = first_err
     [validateExecutionHandle h,
      throw_if (str_of (get h ''taskId'') \<in> set taskIds)
        (PlainError ''Execution Handle task ID is duplicated.''),
      validate_handles (str_of (get h ''taskId'') # taskIds) hs]"

fun validate_integrity :: "json list \<Rightarrow> string list \<Rightarrow> json list \<Rightarrow> error option" where
  "validate_integrity hs taskIds [] = None"
| "validate_integrity hs taskIds (r # rs) = first_err
     [throw_if (\<not> is_record r
          \<or> \<not> sorted_keys_are [''capturedExecutionEpoch'', ''checkpointRef'', ''sha256'', ''taskId''] r
          \<or> \<not> is_string (get r ''taskId'')
          \<or> \<not> safe_int_from 1 (get r ''capturedExecutionEpoch'')
          \<or> \<not> is_string (get r ''checkpointRef'')
          \<or> \<not> sha256_pattern (js_string (get r ''sha256''))
          \<or> str_of (get r ''taskId'') \<in> set taskIds)
        (PlainError ''Execution checkpoint integrity state is invalid.''),
      throw_if (case find_first (\<lambda>h. get h ''taskId'' = get r ''taskId'') hs of
            None \<Rightarrow> True
          | Some h \<Rightarrow> get h ''checkpointRef'' \<noteq> get r ''checkpointRef''
              \<or> get h ''resumeCapability'' \<noteq> JStr ''checkpoint_restart'')
        (PlainError ''Execution checkpoint integrity state is orphaned.''),
      validate_integrity hs (str_of (get r ''taskId'') # taskIds) rs]"

definition validateExecutionHandleStoreState :: "json \<Rightarrow> error option" where
  "validateExecutionHandleStoreState v = first_err
     [throw_if (\<not> is_record v \<or> get v ''schemaVersion'' \<noteq> jint 2
          \<or> \<not> sorted_keys_are [''checkpointIntegrity'', ''handles'', ''schemaVersion''] v
          \<or> \<not> is_array (get v ''handles'')
          \<or> max_execution_handles < length (items (get v ''handles''))
          \<or> \<not> is_array (get v ''checkpointIntegrity'')
          \<or> max_execution_handles < length (items (get v ''checkpointIntegrity'')))
        (PlainError ''Execution Handle store is invalid.''),
      validate_handles [] (items (get v ''handles'')),
      validate_integrity (items (get v ''handles'')) [] (items (get v ''checkpointIntegrity''))]"

text \<open>What the validator checks, on the records.\<close>

definition integrity_ok :: "exec_handle list \<Rightarrow> integrity_record \<Rightarrow> bool" where
  "integrity_ok hs r \<longleftrightarrow>
     1 \<le> ir_epoch r \<and> ir_epoch r \<le> max_safe_integer \<and> sha256_pattern (js_string (ir_sha256 r))
     \<and> (\<exists>h\<in>set hs. h_task_id h = ir_task_id r \<and> h_checkpoint_ref h = Some (ir_checkpoint_ref r)
          \<and> h_resume h = CheckpointRestart)"

definition store_ok :: "exec_store \<Rightarrow> bool" where
  "store_ok st \<longleftrightarrow>
     length (handles st) \<le> max_execution_handles
     \<and> length (integrity st) \<le> max_execution_handles
     \<and> (\<forall>h\<in>set (handles st). handle_ok h)
     \<and> distinct (map h_task_id (handles st))
     \<and> distinct (map ir_task_id (integrity st))
     \<and> (\<forall>r\<in>set (integrity st). integrity_ok (handles st) r)"

section \<open>The stores\<close>

text \<open>
  \<open>MemoryExecutionHandleStore\<close>: the state is the stored value. \<open>FileExecutionHandleStore\<close>: the state
  is the file, absent, with text that is not JSON, or with a JSON value. The temporary file that is
  renamed makes a save atomic.
\<close>

definition memory_load :: "exec_store \<Rightarrow> exec_store result" where
  "memory_load s = Inr s"

definition memory_save :: "exec_store \<Rightarrow> exec_store \<Rightarrow> exec_store result" where
  "memory_save s st = guarded (validateExecutionHandleStoreState (store_json st)) (Inr st)"

definition memory_new :: "json \<Rightarrow> exec_store result" where
  "memory_new v =
     (let migrated = migrateExecutionHandleStoreState v in
      guarded (validateExecutionHandleStoreState migrated) (Inr (store_of migrated)))"

definition file_load :: "json_file \<Rightarrow> exec_store result" where
  "file_load f =
     (case f of
        NoFile \<Rightarrow> Inr emptyExecutionHandleStoreState
      | NotJson \<Rightarrow> Inl (PlainError ''SyntaxError'')
      | JsonFile j \<Rightarrow>
          (let v = migrateExecutionHandleStoreState j in
           guarded (validateExecutionHandleStoreState v) (Inr (store_of v))))"

definition file_save :: "json_file \<Rightarrow> exec_store \<Rightarrow> json_file result" where
  "file_save f st = guarded (validateExecutionHandleStoreState (store_json st)) (Inr (JsonFile (store_json st)))"

section \<open>Helpers of the registry\<close>

definition valid_lease_ms :: "int \<Rightarrow> bool" where
  "valid_lease_ms leaseMs \<longleftrightarrow> 1000 \<le> leaseMs \<and> leaseMs \<le> 5 * 60000"

definition leaseExpiry :: "int \<Rightarrow> int \<Rightarrow> string" where
  "leaseExpiry leaseMs now = to_iso (now + leaseMs)"

definition currentHandle :: "exec_store \<Rightarrow> string \<Rightarrow> int \<Rightarrow> exec_handle option" where
  "currentHandle st taskId epoch =
     find_first (\<lambda>h. h_task_id h = taskId \<and> h_epoch h = epoch) (handles st)"

text \<open>Assigning to the fields of a handle of the loaded state, which holds one per task.\<close>

definition put_handle :: "exec_handle \<Rightarrow> exec_store \<Rightarrow> exec_store" where
  "put_handle h st =
     st\<lparr>handles := map (\<lambda>x. if h_task_id x = h_task_id h then h else x) (handles st)\<rparr>"

fun prune_loop :: "exec_handle list \<Rightarrow> exec_handle list \<Rightarrow> exec_handle list" where
  "prune_loop [] hs = hs"
| "prune_loop (h # terminal) hs =
     (if length hs \<le> max_execution_handles then hs else prune_loop terminal (remove1 h hs))"

definition pruneHandles :: "exec_store \<Rightarrow> exec_store result" where
  "pruneHandles st =
     (if length (handles st) \<le> max_execution_handles then Inr st
      else
        (let terminal = sort_by (\<lambda>a b. date_ms (pr_updated_at (h_progress a)) \<le> date_ms (pr_updated_at (h_progress b)))
               (filter (\<lambda>h. isTerminalExecutionProgress (pr_state (h_progress h))) (handles st));
             hs = prune_loop terminal (handles st)
         in if max_execution_handles < length hs
            then Inl (PlainError ''Execution Handle store capacity is exhausted.'')
            else Inr \<lparr>handles = hs,
              integrity = filter (\<lambda>r. list_ex (\<lambda>h. h_task_id h = ir_task_id r
                  \<and> h_checkpoint_ref h = Some (ir_checkpoint_ref r) \<and> h_resume h = CheckpointRestart) hs)
                (integrity st)\<rparr>))"

definition safePathSegment :: "string \<Rightarrow> string" where
  "safePathSegment s =
     map (\<lambda>c. if is_alnum c \<or> c = CHR ''.'' \<or> c = CHR ''_'' \<or> c = CHR ''-'' then c else CHR ''_'') s"

definition safeCheckpointExtension :: "string \<Rightarrow> string" where
  "safeCheckpointExtension s =
     (case s of
        c # cs \<Rightarrow>
          (if c = CHR ''.'' \<and> 1 \<le> length cs \<and> length cs \<le> 10 \<and> list_all is_alnum cs
           then to_lower_case s else ''.bin'')
      | [] \<Rightarrow> ''.bin'')"

datatype finish_state = FinCompleted | FinFailed | FinCanceled

fun finish_progress :: "finish_state \<Rightarrow> progress_state" where
  "finish_progress FinCompleted = Completed"
| "finish_progress FinFailed = Failed"
| "finish_progress FinCanceled = Canceled"

fun terminalMessage :: "finish_state \<Rightarrow> string" where
  "terminalMessage FinCompleted = ''execution completed''"
| "terminalMessage FinCanceled = ''execution canceled''"
| "terminalMessage FinFailed = ''execution failed''"

definition isCheckpointIntact :: "(string \<Rightarrow> string option) \<Rightarrow> exec_store \<Rightarrow> exec_handle \<Rightarrow> bool" where
  "isCheckpointIntact digest st h =
     (case find_first (\<lambda>r. ir_task_id r = h_task_id h \<and> Some (ir_checkpoint_ref r) = h_checkpoint_ref h) (integrity st) of
        None \<Rightarrow> False
      | Some r \<Rightarrow> ir_checkpoint_ref r \<noteq> [] \<and> map_option JStr (digest (ir_checkpoint_ref r)) = Some (ir_sha256 r))"

section \<open>The operations on the loaded state\<close>

record prepare_input =
  pi_task_id :: string
  pi_workspace_id :: string
  pi_child_agent_id :: string
  pi_connector_id :: string
  pi_resume :: bool

definition resume_unavailable :: "exec_handle option \<Rightarrow> exec_capabilities \<Rightarrow> exec_semantics \<Rightarrow> bool" where
  "resume_unavailable previous caps sem =
     (case previous of
        None \<Rightarrow> True
      | Some p \<Rightarrow>
          h_resume p \<noteq> CheckpointRestart \<or> h_checkpoint_ref p = None
          \<or> pr_state (h_progress p) \<notin> {Interrupted, Failed}
          \<or> \<not> supports_resume caps \<or> \<not> supports_checkpoint caps \<or> sem \<noteq> WorkspacePureCompute)"

definition new_handle :: "int \<Rightarrow> int \<Rightarrow> prepare_input \<Rightarrow> exec_handle option \<Rightarrow> exec_handle" where
  "new_handle leaseMs now inp previous =
     \<lparr>h_task_id = pi_task_id inp, h_workspace_id = pi_workspace_id inp,
      h_child_agent_id = pi_child_agent_id inp, h_connector_id = pi_connector_id inp,
      h_epoch = (case previous of None \<Rightarrow> 0 | Some p \<Rightarrow> h_epoch p) + 1,
      h_provider_id = None, h_lease_expires_at = leaseExpiry leaseMs now,
      h_progress = \<lparr>pr_state = Queued, completed_units = None, total_units = None,
        pr_message = Some (if pi_resume inp then ''restarting from the explicit checkpoint''
                           else ''waiting for the local Child Agent''),
        pr_updated_at = to_iso now\<rparr>,
      h_checkpoint_ref = (case previous of None \<Rightarrow> None | Some p \<Rightarrow> h_checkpoint_ref p),
      h_resume = (case previous of None \<Rightarrow> NoResume | Some p \<Rightarrow> h_resume p)\<rparr>"

definition revoke_checkpoint :: "int \<Rightarrow> exec_handle \<Rightarrow> exec_handle" where
  "revoke_checkpoint now p =
     p\<lparr>h_checkpoint_ref := None, h_resume := NoResume,
       h_progress := (h_progress p)\<lparr>pr_message := Some ''checkpoint integrity failed, resume is forbidden'',
         pr_updated_at := to_iso now\<rparr>\<rparr>"

text \<open>
  \<open>prepare\<close>: the outcome is a handle, or the error that is thrown after the state was saved; an
  error that is thrown inside the operation (\<open>Inl\<close>) leaves the store as it was.
\<close>

definition prepare_op ::
  "int \<Rightarrow> int \<Rightarrow> (string \<Rightarrow> string option) \<Rightarrow> prepare_input \<Rightarrow> exec_capabilities \<Rightarrow> exec_semantics
    \<Rightarrow> exec_store \<Rightarrow> (exec_store \<times> exec_handle result) result" where
  "prepare_op leaseMs now digest inp caps sem st =
     (let previous = find_first (\<lambda>h. h_task_id h = pi_task_id inp) (handles st);
          h = new_handle leaseMs now inp previous in
      if pi_resume inp \<and> resume_unavailable previous caps sem
      then Inl (PlainError ''EXECUTION_RESUME_UNAVAILABLE'')
      else if pi_resume inp \<and> \<not> isCheckpointIntact digest st (the previous)
      then Inr ((put_handle (revoke_checkpoint now (the previous)) st)
                  \<lparr>integrity := filter (\<lambda>r. ir_task_id r \<noteq> pi_task_id inp) (integrity st)\<rparr>,
                Inl (PlainError ''EXECUTION_CHECKPOINT_INTEGRITY_FAILED''))
      else if \<not> pi_resume inp \<and> previous \<noteq> None
      then Inl (PlainError ''EXECUTION_HANDLE_EXISTS'')
      else guarded (validateExecutionHandle (handle_json h))
        (rbind (pruneHandles (if previous = None then st\<lparr>handles := handles st @ [h]\<rparr> else put_handle h st))
          (\<lambda>st'. Inr (st', Inr h))))"

definition transition_op ::
  "int \<Rightarrow> int \<Rightarrow> string \<Rightarrow> int \<Rightarrow> progress_state \<Rightarrow> string option option \<Rightarrow> string
    \<Rightarrow> exec_store \<Rightarrow> (exec_store \<times> bool) result" where
  "transition_op leaseMs now taskId epoch nxt providerId message st =
     (case currentHandle st taskId epoch of
        None \<Rightarrow> Inr (st, False)
      | Some h \<Rightarrow>
          if isTerminalExecutionProgress (pr_state (h_progress h)) then Inr (st, False)
          else Inr (put_handle
            (h\<lparr>h_provider_id := (case providerId of None \<Rightarrow> h_provider_id h | Some p \<Rightarrow> p),
               h_progress :=
                 \<lparr>pr_state = nxt,
                  completed_units = (if nxt = Completed then Some 1 else completed_units (h_progress h)),
                  total_units = (if nxt = Completed then Some 1 else total_units (h_progress h)),
                  pr_message = Some message, pr_updated_at = to_iso now\<rparr>,
               h_lease_expires_at :=
                 (if isTerminalExecutionProgress nxt then to_iso now else leaseExpiry leaseMs now)\<rparr>) st, True))"

definition markRunning_op ::
  "int \<Rightarrow> int \<Rightarrow> string \<Rightarrow> int \<Rightarrow> string option \<Rightarrow> exec_store \<Rightarrow> (exec_store \<times> bool) result" where
  "markRunning_op leaseMs now taskId epoch providerId =
     transition_op leaseMs now taskId epoch Running (Some providerId) ''the local Child Agent is running''"

definition finish_op ::
  "int \<Rightarrow> int \<Rightarrow> string \<Rightarrow> int \<Rightarrow> finish_state \<Rightarrow> string option \<Rightarrow> exec_store \<Rightarrow> (exec_store \<times> bool) result" where
  "finish_op leaseMs now taskId epoch f message =
     transition_op leaseMs now taskId epoch (finish_progress f) None
       (case message of None \<Rightarrow> terminalMessage f | Some m \<Rightarrow> m)"

definition renew_op ::
  "int \<Rightarrow> int \<Rightarrow> string \<Rightarrow> int \<Rightarrow> exec_store \<Rightarrow> (exec_store \<times> bool) result" where
  "renew_op leaseMs now taskId epoch st =
     (case currentHandle st taskId epoch of
        None \<Rightarrow> Inr (st, False)
      | Some h \<Rightarrow>
          if isTerminalExecutionProgress (pr_state (h_progress h)) then Inr (st, False)
          else Inr (put_handle (h\<lparr>h_lease_expires_at := leaseExpiry leaseMs now\<rparr>) st, True))"

text \<open>
  The checkpoint directory of a task and an epoch under the checkpoint root, and the operation that
  records a captured checkpoint once its file has been copied there with digest \<open>sha\<close>.
\<close>

definition checkpoint_path :: "string \<Rightarrow> string \<Rightarrow> int \<Rightarrow> string \<Rightarrow> string" where
  "checkpoint_path checkpointRoot taskId epoch ext =
     checkpointRoot @ ''/'' @ safePathSegment taskId @ ''/'' @ string_of_int epoch @ ''/checkpoint''
       @ safeCheckpointExtension ext"

definition captureCheckpoint_op ::
  "string \<Rightarrow> int \<Rightarrow> string \<Rightarrow> string \<Rightarrow> exec_store \<Rightarrow> (exec_store \<times> bool) result" where
  "captureCheckpoint_op taskId epoch destination sha st =
     (case currentHandle st taskId epoch of
        None \<Rightarrow> Inr (st, False)
      | Some h \<Rightarrow>
          if isTerminalExecutionProgress (pr_state (h_progress h)) then Inr (st, False)
          else Inr ((put_handle (h\<lparr>h_checkpoint_ref := Some destination, h_resume := CheckpointRestart\<rparr>) st)
            \<lparr>integrity := filter (\<lambda>r. ir_task_id r \<noteq> taskId) (integrity st)
               @ [\<lparr>ir_task_id = taskId, ir_epoch = epoch, ir_checkpoint_ref = destination, ir_sha256 = JStr sha\<rparr>]\<rparr>,
            True))"

definition cancel_op ::
  "int \<Rightarrow> string \<Rightarrow> int option \<Rightarrow> exec_store \<Rightarrow> (exec_store \<times> bool) result" where
  "cancel_op now taskId epoch st =
     (case find_first (\<lambda>h. h_task_id h = taskId) (handles st) of
        None \<Rightarrow> Inr (st, False)
      | Some h \<Rightarrow>
          if (epoch \<noteq> None \<and> Some (h_epoch h) \<noteq> epoch)
             \<or> isTerminalExecutionProgress (pr_state (h_progress h)) then Inr (st, False)
          else Inr (put_handle
            (h\<lparr>h_progress := \<lparr>pr_state = Canceled, completed_units = completed_units (h_progress h),
                 total_units = total_units (h_progress h), pr_message = Some ''execution canceled'',
                 pr_updated_at = to_iso now\<rparr>,
               h_lease_expires_at := to_iso now\<rparr>) st, True))"

definition interrupt_handle :: "int \<Rightarrow> exec_handle \<Rightarrow> exec_handle" where
  "interrupt_handle now h =
     h\<lparr>h_progress := \<lparr>pr_state = Interrupted, completed_units = completed_units (h_progress h),
         total_units = total_units (h_progress h),
         pr_message = Some (if h_resume h = CheckpointRestart
           then ''execution interrupted, it can restart from the explicit checkpoint''
           else ''execution interrupted, the Child Agent does not support resuming''),
         pr_updated_at = to_iso now\<rparr>,
       h_provider_id := None, h_lease_expires_at := to_iso now\<rparr>"

definition left_alone :: "string list \<Rightarrow> exec_handle \<Rightarrow> bool" where
  "left_alone active h \<longleftrightarrow>
     isTerminalExecutionProgress (pr_state (h_progress h)) \<or> h_task_id h \<in> set active"

definition reconcile_op ::
  "int \<Rightarrow> string list \<Rightarrow> exec_store \<Rightarrow> (exec_store \<times> exec_handle list) result" where
  "reconcile_op now active st =
     Inr (st\<lparr>handles := map (\<lambda>h. if left_alone active h then h else interrupt_handle now h) (handles st)\<rparr>,
          map (interrupt_handle now) (filter (\<lambda>h. \<not> left_alone active h) (handles st)))"

section \<open>The registry over a store\<close>

definition mutate ::
  "('s \<Rightarrow> exec_store result) \<Rightarrow> ('s \<Rightarrow> exec_store \<Rightarrow> 's result)
    \<Rightarrow> (exec_store \<Rightarrow> (exec_store \<times> 'a) result) \<Rightarrow> 's \<Rightarrow> ('s \<times> 'a) result" where
  "mutate load save operation s =
     rbind (load s) (\<lambda>st. rbind (operation st) (\<lambda>(st', r). rbind (save s st') (\<lambda>s'. Inr (s', r))))"

definition registry_get :: "('s \<Rightarrow> exec_store result) \<Rightarrow> string \<Rightarrow> 's \<Rightarrow> exec_handle option result" where
  "registry_get load taskId s =
     rbind (load s) (\<lambda>st. Inr (find_first (\<lambda>h. h_task_id h = taskId) (handles st)))"

definition registry_list :: "('s \<Rightarrow> exec_store result) \<Rightarrow> 's \<Rightarrow> exec_handle list result" where
  "registry_list load s = rbind (load s) (\<lambda>st. Inr (handles st))"

definition isCurrent :: "('s \<Rightarrow> exec_store result) \<Rightarrow> string \<Rightarrow> int \<Rightarrow> 's \<Rightarrow> bool result" where
  "isCurrent load taskId epoch s =
     rbind (load s) (\<lambda>st. Inr (case currentHandle st taskId epoch of
         None \<Rightarrow> False
       | Some h \<Rightarrow> \<not> isTerminalExecutionProgress (pr_state (h_progress h))))"

text \<open>
  \<open>captureCheckpoint\<close> around its state change: the file system resolves the two paths, tells whether
  the source lies in the Workspace, gives the extension of the source, and copies it; each of them
  may throw.
\<close>

record checkpoint_fs =
  fs_realpath :: "string \<Rightarrow> string result"
  fs_contained :: "string \<Rightarrow> string \<Rightarrow> bool"
  fs_extname :: "string \<Rightarrow> string"
  fs_copy :: "string \<Rightarrow> string \<Rightarrow> string result"

definition captureCheckpoint ::
  "('s \<Rightarrow> exec_store result) \<Rightarrow> ('s \<Rightarrow> exec_store \<Rightarrow> 's result) \<Rightarrow> checkpoint_fs \<Rightarrow> string
    \<Rightarrow> string \<Rightarrow> int \<Rightarrow> string \<Rightarrow> string \<Rightarrow> bool \<Rightarrow> 's \<Rightarrow> ('s \<times> bool) result" where
  "captureCheckpoint load save fs checkpointRoot taskId epoch sourcePath workspacePath resumeEligible s =
     (if \<not> resumeEligible then Inr (s, False)
      else rbind (fs_realpath fs workspacePath) (\<lambda>workspaceRoot.
        rbind (fs_realpath fs sourcePath) (\<lambda>source.
          if \<not> fs_contained fs workspaceRoot source then Inl (PlainError ''EXECUTION_CHECKPOINT_ESCAPE'')
          else
            (let destination = checkpoint_path checkpointRoot taskId epoch (fs_extname fs source) in
             rbind (fs_copy fs source destination) (\<lambda>sha.
               mutate load save (captureCheckpoint_op taskId epoch destination sha) s)))))"

section \<open>The stored form\<close>

lemma get_store_json [simp]:
  "get (store_json st) ''schemaVersion'' = jint 2"
  "get (store_json st) ''handles'' = JArr (map handle_json (handles st))"
  "get (store_json st) ''checkpointIntegrity'' = JArr (map integrity_json (integrity st))"
  by (simp_all add: store_json_def)

lemma get_integrity_json [simp]:
  "get (integrity_json r) ''taskId'' = JStr (ir_task_id r)"
  "get (integrity_json r) ''capturedExecutionEpoch'' = jint (ir_epoch r)"
  "get (integrity_json r) ''checkpointRef'' = JStr (ir_checkpoint_ref r)"
  "get (integrity_json r) ''sha256'' = ir_sha256 r"
  by (simp_all add: integrity_json_def)

lemma is_record_store [simp]: "is_record (store_json st)" "is_record (integrity_json r)"
  by (simp_all add: store_json_def integrity_json_def)

lemma sorted_keys_store [simp]:
  "sorted_keys_are [''checkpointIntegrity'', ''handles'', ''schemaVersion''] (store_json st)"
proof -
  have "sort_by str_le [''schemaVersion'', ''handles'', ''checkpointIntegrity'']
      = [''checkpointIntegrity'', ''handles'', ''schemaVersion'']" by code_simp
  then show ?thesis by (simp add: sorted_keys_are_def store_json_def)
qed

lemma sorted_keys_integrity [simp]:
  "sorted_keys_are [''capturedExecutionEpoch'', ''checkpointRef'', ''sha256'', ''taskId''] (integrity_json r)"
proof -
  have "sort_by str_le [''taskId'', ''capturedExecutionEpoch'', ''checkpointRef'', ''sha256'']
      = [''capturedExecutionEpoch'', ''checkpointRef'', ''sha256'', ''taskId'']" by code_simp
  then show ?thesis by (simp add: sorted_keys_are_def integrity_json_def)
qed

lemma validate_handles_json:
  "validate_handles ids (map handle_json hs) = None \<longleftrightarrow>
     (\<forall>h\<in>set hs. handle_ok h) \<and> distinct (map h_task_id hs) \<and> h_task_id ` set hs \<inter> set ids = {}"
  by (induction hs arbitrary: ids) (auto simp: valid_simps validateExecutionHandle_json)

lemma validate_integrity_json:
  assumes "distinct (map h_task_id hs)"
  shows "validate_integrity (map handle_json hs) ids (map integrity_json rs) = None \<longleftrightarrow>
     (\<forall>r\<in>set rs. integrity_ok hs r) \<and> distinct (map ir_task_id rs) \<and> ir_task_id ` set rs \<inter> set ids = {}"
proof (induction rs arbitrary: ids)
  case (Cons r rs)
  have owner: "(case find_first (\<lambda>h. get h ''taskId'' = JStr (ir_task_id r)) (map handle_json hs) of
            None \<Rightarrow> True
          | Some h \<Rightarrow> get h ''checkpointRef'' \<noteq> get (integrity_json r) ''checkpointRef''
              \<or> get h ''resumeCapability'' \<noteq> JStr ''checkpoint_restart'') \<longleftrightarrow>
        \<not> (\<exists>h\<in>set hs. h_task_id h = ir_task_id r \<and> h_checkpoint_ref h = Some (ir_checkpoint_ref r)
          \<and> h_resume h = CheckpointRestart)"
  proof (cases "find_first (\<lambda>h. h_task_id h = ir_task_id r) hs")
    case None
    then have "\<forall>h\<in>set hs. h_task_id h \<noteq> ir_task_id r" by (simp add: find_first_None)
    with None show ?thesis by (auto simp: find_first_map)
  next
    case (Some h)
    then have h: "h \<in> set hs" "h_task_id h = ir_task_id r" using find_first_Some by fast+
    have "(\<exists>h'\<in>set hs. h_task_id h' = ir_task_id r \<and> h_checkpoint_ref h' = Some (ir_checkpoint_ref r)
          \<and> h_resume h' = CheckpointRestart)
        \<longleftrightarrow> h_checkpoint_ref h = Some (ir_checkpoint_ref r) \<and> h_resume h = CheckpointRestart"
      using assms h by (auto simp: distinct_map inj_on_def)
    with Some show ?thesis by (cases "h_checkpoint_ref h") (auto simp: find_first_map)
  qed
  have "validate_integrity (map handle_json hs) ids (map integrity_json (r # rs)) = None \<longleftrightarrow>
      integrity_ok hs r \<and> ir_task_id r \<notin> set ids
      \<and> validate_integrity (map handle_json hs) (ir_task_id r # ids) (map integrity_json rs) = None"
    by (simp add: valid_simps owner integrity_ok_def max_safe_integer_def abs_le_iff)
      auto
  then show ?case unfolding Cons.IH by auto
qed simp

lemma validate_store_json:
  "validateExecutionHandleStoreState (store_json st) = None \<longleftrightarrow> store_ok st"
  unfolding validateExecutionHandleStoreState_def store_ok_def
  using validate_integrity_json [of "handles st" "[]" "integrity st"]
  by (cases "distinct (map h_task_id (handles st))") (auto simp: valid_simps validate_handles_json)

lemma integrity_of_json [simp]: "integrity_of (integrity_json r) = r"
  by (simp add: integrity_of_def)

lemma store_of_json [simp]: "store_of (store_json st) = st"
proof -
  have "map handle_of (map handle_json hs) = hs" for hs by (simp add: map_idI)
  moreover have "map integrity_of (map integrity_json rs) = rs" for rs by (simp add: map_idI)
  ultimately show ?thesis by (simp add: store_of_def)
qed

text \<open>An accepted value is read as a well-formed state.\<close>

lemma progress_of_ok: "validateExecutionProgress v = None \<Longrightarrow> progress_ok (progress_of v)"
  by (auto simp: validateExecutionProgress_def valid_simps progress_ok_def progress_of_def nullable_def
      nullableUnit_def safe_int_from_def is_safe_integer_conv ex_validTimestamp_def)

lemma handle_of_ok:
  assumes "validateExecutionHandle v = None"
  shows "handle_ok (handle_of v)"
proof -
  have "ex_safeId (get v ''taskId'')" "ex_safeId (get v ''workspaceId'')"
    "ex_safeSlug (get v ''childAgentId'')" "ex_safeSlug (get v ''connectorId'')"
    "safe_int_from 1 (get v ''executionEpoch'')"
    "get v ''providerExecutionId'' = JNull \<or> ex_safeProviderId (get v ''providerExecutionId'')"
    "ex_validTimestamp (get v ''leaseExpiresAt'')"
    "get v ''checkpointRef'' = JNull \<or> length (str_of (get v ''checkpointRef'')) \<le> 2048"
    "progress_ok (progress_of (get v ''progress''))"
    "get v ''resumeCapability'' = JStr ''checkpoint_restart'' \<Longrightarrow> get v ''checkpointRef'' \<noteq> JNull"
    using assms by (auto simp: validateExecutionHandle_def valid_simps progress_of_ok)
  then show ?thesis
    by (auto simp: handle_ok_def handle_of_def nullable_def ex_safeId_def ex_safeSlug_def
        ex_safeProviderId_def ex_validTimestamp_def safe_int_from_def is_safe_integer_conv)
qed

lemma validate_handles_sound:
  "validate_handles ids vs = None \<Longrightarrow>
     (\<forall>v\<in>set vs. validateExecutionHandle v = None) \<and> distinct (map (\<lambda>v. str_of (get v ''taskId'')) vs)
     \<and> (\<lambda>v. str_of (get v ''taskId'')) ` set vs \<inter> set ids = {}"
proof (induction vs arbitrary: ids)
  case (Cons v vs)
  then have "validate_handles (str_of (get v ''taskId'') # ids) vs = None"
    "validateExecutionHandle v = None" "str_of (get v ''taskId'') \<notin> set ids"
    by (auto simp: valid_simps)
  with Cons.IH [OF this(1)] show ?case by auto
qed simp

lemma validate_integrity_sound:
  assumes "\<forall>v\<in>set vs. validateExecutionHandle v = None"
  shows "validate_integrity vs ids rs = None \<Longrightarrow>
     (\<forall>r\<in>set rs. integrity_ok (map handle_of vs) (integrity_of r))
     \<and> distinct (map (\<lambda>r. str_of (get r ''taskId'')) rs)
     \<and> (\<lambda>r. str_of (get r ''taskId'')) ` set rs \<inter> set ids = {}"
proof (induction rs arbitrary: ids)
  case (Cons r rs)
  then have rest: "validate_integrity vs (str_of (get r ''taskId'') # ids) rs = None"
    and fields: "safe_int_from 1 (get r ''capturedExecutionEpoch'')" "is_string (get r ''checkpointRef'')"
      "sha256_pattern (js_string (get r ''sha256''))" "str_of (get r ''taskId'') \<notin> set ids"
    by (auto simp: valid_simps)
  from Cons.prems obtain h where h: "h \<in> set vs" "get h ''taskId'' = get r ''taskId''"
    "get h ''checkpointRef'' = get r ''checkpointRef''" "get h ''resumeCapability'' = JStr ''checkpoint_restart''"
    by (auto simp: valid_simps split: option.splits dest!: find_first_Some)
  have "integrity_ok (map handle_of vs) (integrity_of r)"
    using h fields
    by (auto simp: integrity_ok_def integrity_of_def handle_of_def nullable_def safe_int_from_def
        is_safe_integer_conv is_string_conv intro!: bexI [of _ h])
  then show ?case using Cons.IH [OF rest] fields by auto
qed simp

lemma store_of_ok:
  assumes "validateExecutionHandleStoreState v = None"
  shows "store_ok (store_of v)"
proof -
  have hs: "validate_handles [] (items (get v ''handles'')) = None"
    and rs: "validate_integrity (items (get v ''handles'')) [] (items (get v ''checkpointIntegrity'')) = None"
    and len: "length (items (get v ''handles'')) \<le> max_execution_handles"
      "length (items (get v ''checkpointIntegrity'')) \<le> max_execution_handles"
    using assms by (auto simp: validateExecutionHandleStoreState_def valid_simps)
  note H = validate_handles_sound [OF hs]
  note I = validate_integrity_sound [OF conjunct1 [OF H] rs]
  have "h_task_id \<circ> handle_of = (\<lambda>v. str_of (get v ''taskId''))"
    "ir_task_id \<circ> integrity_of = (\<lambda>v. str_of (get v ''taskId''))"
    by (simp_all add: fun_eq_iff handle_of_def integrity_of_def)
  then show ?thesis
    using H I len handle_of_ok by (auto simp: store_ok_def store_of_def)
qed

section \<open>The store interface\<close>

text \<open>
  What the registry relies on: a store in order loads a well-formed state; it accepts exactly the
  well-formed states, and after a save the next load returns what was saved.
\<close>

locale handle_store =
  fixes load :: "'s \<Rightarrow> exec_store result"
    and save :: "'s \<Rightarrow> exec_store \<Rightarrow> 's result"
    and good :: "'s \<Rightarrow> bool"
  assumes load_good: "good s \<Longrightarrow> \<exists>st. load s = Inr st \<and> store_ok st"
    and save_ok: "good s \<Longrightarrow> store_ok st \<Longrightarrow> \<exists>s'. save s st = Inr s' \<and> good s' \<and> load s' = Inr st"
    and save_bad: "good s \<Longrightarrow> \<not> store_ok st \<Longrightarrow> \<exists>e. save s st = Inl e"
begin

lemma mutate_commits:
  assumes "good s" and "load s = Inr st" and "operation st = Inr (st', r)" and "store_ok st'"
  shows "\<exists>s'. mutate load save operation s = Inr (s', r) \<and> good s' \<and> load s' = Inr st'"
  using assms save_ok [OF assms(1,4)] by (auto simp: mutate_def)

lemma mutate_Inr:
  assumes "good s" and "mutate load save operation s = Inr (s', r)"
  shows "\<exists>st st'. load s = Inr st \<and> operation st = Inr (st', r) \<and> load s' = Inr st' \<and> store_ok st' \<and> good s'"
proof -
  from assms(2) obtain st st' where st: "load s = Inr st" "operation st = Inr (st', r)" "save s st' = Inr s'"
    by (auto simp: mutate_def rbind_Inr_conv)
  then have "store_ok st'" using save_bad [OF assms(1)] by force
  with st save_ok [OF assms(1)] show ?thesis by fastforce
qed

lemma mutate_invariant:
  assumes "good s"
    and "\<And>st st' r. store_ok st \<Longrightarrow> operation st = Inr (st', r) \<Longrightarrow> store_ok st'"
    and "\<And>st. store_ok st \<Longrightarrow> \<exists>st' r. operation st = Inr (st', r)"
  shows "\<exists>s' r. mutate load save operation s = Inr (s', r) \<and> good s'"
  using load_good [OF assms(1)] assms(2,3) mutate_commits [OF assms(1)] by metis

end

definition good_memory :: "exec_store \<Rightarrow> bool" where
  "good_memory s \<longleftrightarrow> store_ok s"

text \<open>A file in order: none, or one whose content loads.\<close>

definition good_file :: "json_file \<Rightarrow> bool" where
  "good_file f \<longleftrightarrow> (case f of
       NoFile \<Rightarrow> True
     | NotJson \<Rightarrow> False
     | JsonFile j \<Rightarrow> validateExecutionHandleStoreState (migrateExecutionHandleStoreState j) = None)"

lemma migrate_store_json [simp]: "migrateExecutionHandleStoreState (store_json st) = store_json st"
  by (simp add: migrateExecutionHandleStoreState_def)

lemma validate_store_ok: "store_ok st \<Longrightarrow> validateExecutionHandleStoreState (store_json st) = None"
  by (simp add: validate_store_json)

lemma empty_store_ok [simp]: "store_ok emptyExecutionHandleStoreState"
  by (simp add: store_ok_def emptyExecutionHandleStoreState_def)

interpretation memstore: handle_store memory_load memory_save good_memory
  by unfold_locales
    (auto simp: memory_load_def memory_save_def good_memory_def guarded_def validate_store_json
      split: option.splits)

interpretation filestore: handle_store file_load file_save good_file
proof
  fix f assume "good_file f"
  then show "\<exists>st. file_load f = Inr st \<and> store_ok st"
    by (cases f) (auto simp: good_file_def file_load_def store_of_ok)
next
  fix f st assume "store_ok st"
  then show "\<exists>f'. file_save f st = Inr f' \<and> good_file f' \<and> file_load f' = Inr st"
    by (simp add: file_save_def good_file_def file_load_def validate_store_ok Let_def)
next
  fix f st assume "\<not> store_ok st"
  then show "\<exists>e. file_save f st = Inl e"
    by (auto simp: file_save_def guarded_def simp flip: validate_store_json)
qed

end
