(* ===== verification/Execution_Registry.thy ===== *)
theory Execution_Registry
  imports Execution_Store
begin

text \<open>
  What the durable execution registry guarantees
  (\<open>apps/desktop/lifecycle-sidecar/runtime/callable/execution-store.ts\<close>): its operations as one step
  relation on the stored state, the invariant that keeps every save accepted, the fencing of stale
  executors by their epoch, the finality of finished executions and the rules of a restart from a
  checkpoint.
\<close>

section \<open>Replacing a handle\<close>

lemma task_ids_put [simp]: "map h_task_id (handles (put_handle h st)) = map h_task_id (handles st)"
  by (induction "handles st") (auto simp: put_handle_def)

lemma put_handle_simps [simp]:
  "integrity (put_handle h st) = integrity st"
  "length (handles (put_handle h st)) = length (handles st)"
  by (simp_all add: put_handle_def)

lemma set_put_handle:
  "x \<in> set (handles (put_handle h st)) \<longleftrightarrow>
     (x = h \<and> (\<exists>g\<in>set (handles st). h_task_id g = h_task_id h)) \<or> (x \<in> set (handles st) \<and> h_task_id x \<noteq> h_task_id h)"
  by (auto simp: put_handle_def image_iff split: if_splits)

lemma currentHandle_Some:
  "currentHandle st t e = Some h \<Longrightarrow> h \<in> set (handles st) \<and> h_task_id h = t \<and> h_epoch h = e"
  unfolding currentHandle_def by (drule find_first_Some) simp

lemma same_task_same_handle:
  "store_ok st \<Longrightarrow> h \<in> set (handles st) \<Longrightarrow> h' \<in> set (handles st) \<Longrightarrow> h_task_id h = h_task_id h' \<Longrightarrow> h = h'"
  by (auto simp: store_ok_def distinct_map inj_on_def)

lemma find_task:
  assumes "store_ok st" and "h \<in> set (handles st)"
  shows "find_first (\<lambda>x. h_task_id x = h_task_id h) (handles st) = Some h"
  using assms find_first_unique [of h_task_id "handles st" h] by (simp add: store_ok_def)

text \<open>A handle may be replaced by a well-formed one that keeps its resume state.\<close>

lemma put_handle_ok:
  assumes ok: "store_ok st" and h: "h \<in> set (handles st)" and h': "handle_ok h'"
    and same: "h_task_id h' = h_task_id h" "h_checkpoint_ref h' = h_checkpoint_ref h" "h_resume h' = h_resume h"
  shows "store_ok (put_handle h' st)"
proof -
  have "integrity_ok (handles (put_handle h' st)) r" if r: "r \<in> set (integrity st)" for r
  proof -
    have "integrity_ok (handles st) r" using ok r by (simp add: store_ok_def)
    then obtain g where g: "g \<in> set (handles st)" "h_task_id g = ir_task_id r"
      "h_checkpoint_ref g = Some (ir_checkpoint_ref r)" "h_resume g = CheckpointRestart"
      and r_ok: "1 \<le> ir_epoch r" "ir_epoch r \<le> max_safe_integer" "sha256_pattern (js_string (ir_sha256 r))"
      by (auto simp: integrity_ok_def)
    show ?thesis
    proof (cases "g = h")
      case True
      with g same h have "h' \<in> set (handles (put_handle h' st))"
        by (auto simp: set_put_handle)
      then show ?thesis using g r_ok same True by (auto simp: integrity_ok_def)
    next
      case False
      then have "g \<in> set (handles (put_handle h' st))"
        using g same h same_task_same_handle [OF ok g(1) h] by (auto simp: set_put_handle)
      then show ?thesis using g r_ok by (auto simp: integrity_ok_def)
    qed
  qed
  then show ?thesis using ok h' by (auto simp: store_ok_def set_put_handle)
qed

text \<open>Or by one without a checkpoint, when the integrity records of its Task are dropped.\<close>

lemma put_and_drop_ok:
  assumes ok: "store_ok st" and h': "handle_ok h'"
  shows "store_ok ((put_handle h' st)\<lparr>integrity := filter (\<lambda>r. ir_task_id r \<noteq> h_task_id h') (integrity st)\<rparr>)"
proof -
  have "integrity_ok (handles (put_handle h' st)) r"
    if "r \<in> set (integrity st)" "ir_task_id r \<noteq> h_task_id h'" for r
    using ok that by (fastforce simp: store_ok_def integrity_ok_def set_put_handle)
  moreover have "length (filter (\<lambda>r. ir_task_id r \<noteq> h_task_id h') (integrity st)) \<le> max_execution_handles"
    using ok by (intro le_trans [OF length_filter_le]) (simp add: store_ok_def)
  ultimately show ?thesis
    using ok h' by (auto simp: store_ok_def set_put_handle distinct_map_filter)
qed

section \<open>Pruning\<close>

text \<open>\<open>prune_loop\<close> drops the first terminal handles, as many as are over the limit.\<close>

lemma remove1_filter: "distinct xs \<Longrightarrow> remove1 x (filter P xs) = filter (\<lambda>y. P y \<and> y \<noteq> x) xs"
  by (auto simp: distinct_remove1_removeAll removeAll_filter_not_eq intro: filter_cong)

lemma prune_loop_filter:
  assumes "distinct hs" and "distinct ts" and "set ts \<subseteq> set hs"
  shows "prune_loop ts hs = filter (\<lambda>h. h \<notin> set (take (length hs - max_execution_handles) ts)) hs"
  using assms
proof (induction ts arbitrary: hs)
  case (Cons t ts)
  show ?case
  proof (cases "length hs \<le> max_execution_handles")
    case False
    let ?k = "length hs - max_execution_handles"
    have k: "?k = Suc (?k - 1)" using False by simp
    have rem: "remove1 t hs = filter (\<lambda>h. h \<noteq> t) hs"
      using Cons.prems remove1_filter [of hs t "\<lambda>_. True"] by simp
    have len: "length (remove1 t hs) - max_execution_handles = ?k - 1"
      using Cons.prems by (simp add: length_remove1)
    have "prune_loop ts (remove1 t hs) = filter (\<lambda>h. h \<notin> set (take (?k - 1) ts)) (remove1 t hs)"
      using Cons.prems len by (subst Cons.IH) (auto simp: rem)
    moreover have "take ?k (t # ts) = t # take (?k - 1) ts" by (subst k) simp
    ultimately show ?thesis using False by (auto simp: rem intro: filter_cong)
  qed simp
qed simp

definition terminal_handle :: "exec_handle \<Rightarrow> bool" where
  "terminal_handle h \<longleftrightarrow> isTerminalExecutionProgress (pr_state (h_progress h))"

definition updated_ms :: "exec_handle \<Rightarrow> int" where
  "updated_ms h = date_ms (pr_updated_at (h_progress h))"

lemma pruned_handles:
  assumes "distinct (handles st)" and "pruneHandles st = Inr st'"
  shows "\<exists>old. handles st' = filter (\<lambda>h. h \<notin> set old) (handles st)
      \<and> (\<forall>h\<in>set old. h \<in> set (handles st) \<and> terminal_handle h)
      \<and> (\<forall>h\<in>set old. \<forall>g\<in>set (handles st'). terminal_handle g \<longrightarrow> updated_ms h \<le> updated_ms g)"
proof (cases "length (handles st) \<le> max_execution_handles")
  case True
  then show ?thesis using assms by (intro exI [of _ "[]"]) (auto simp: pruneHandles_def)
next
  case False
  define ts where "ts = sort_by (\<lambda>a b. updated_ms a \<le> updated_ms b) (filter terminal_handle (handles st))"
  define old where "old = take (length (handles st) - max_execution_handles) ts"
  have eq: "filter (\<lambda>h. isTerminalExecutionProgress (pr_state (h_progress h))) = filter terminal_handle"
    by (simp add: terminal_handle_def [abs_def])
  have ts: "distinct ts" "set ts = {h \<in> set (handles st). terminal_handle h}"
    using assms(1) by (auto simp: ts_def distinct_sort_by)
  have loop: "prune_loop ts (handles st) = filter (\<lambda>h. h \<notin> set old) (handles st)"
    unfolding old_def using assms(1) ts by (subst prune_loop_filter) auto
  then have st': "handles st' = filter (\<lambda>h. h \<notin> set old) (handles st)"
    using assms(2) False unfolding pruneHandles_def eq ts_def updated_ms_def
    by (auto simp: Let_def split: if_splits)
  have sorted: "sorted_wrt (\<lambda>a b. updated_ms a \<le> updated_ms b) ts"
    unfolding ts_def by (intro sorted_sort_by) auto
  have "updated_ms h \<le> updated_ms g" if "h \<in> set old" "g \<in> set ts" "g \<notin> set old" for h g
  proof -
    let ?k = "length (handles st) - max_execution_handles"
    have "g \<in> set (drop ?k ts)" using that append_take_drop_id [of ?k ts] unfolding old_def by (metis Un_iff set_append)
    with that(1) sorted show ?thesis
      unfolding old_def by (metis append_take_drop_id sorted_wrt_append)
  qed
  moreover have "set old \<subseteq> set ts" by (simp add: old_def set_take_subset)
  ultimately show ?thesis using st' ts by (intro exI [of _ old]) auto
qed

lemma prune_length: "pruneHandles st = Inr st' \<Longrightarrow> length (handles st') \<le> max_execution_handles"
  by (auto simp: pruneHandles_def Let_def split: if_splits)

lemma prune_ok:
  assumes hs: "\<forall>h\<in>set (handles st). handle_ok h" "distinct (map h_task_id (handles st))"
    and rs: "length (integrity st) \<le> max_execution_handles" "distinct (map ir_task_id (integrity st))"
      "\<forall>r\<in>set (integrity st). integrity_ok (handles st) r"
    and prune: "pruneHandles st = Inr st'"
  shows "store_ok st'"
proof (cases "length (handles st) \<le> max_execution_handles")
  case True
  then show ?thesis using assms by (auto simp: pruneHandles_def store_ok_def)
next
  case False
  have "distinct (handles st)" using hs by (simp add: distinct_map)
  then obtain old where old: "handles st' = filter (\<lambda>h. h \<notin> set old) (handles st)"
    using pruned_handles [OF _ prune] by blast
  have int: "integrity st' = filter (\<lambda>r. list_ex (\<lambda>h. h_task_id h = ir_task_id r
                  \<and> h_checkpoint_ref h = Some (ir_checkpoint_ref r) \<and> h_resume h = CheckpointRestart) (handles st'))
                (integrity st)"
    using prune False by (auto simp: pruneHandles_def Let_def split: if_splits)
  have "integrity_ok (handles st') r" if "r \<in> set (integrity st')" for r
    using that rs(3) by (auto simp: int integrity_ok_def list_ex_iff)
  moreover have "length (integrity st') \<le> max_execution_handles"
    unfolding int using rs(1) by (intro le_trans [OF length_filter_le])
  moreover have "distinct (map ir_task_id (integrity st'))"
    unfolding int using rs(2) by (rule distinct_map_filter)
  ultimately show ?thesis
    using hs prune_length [OF prune] by (auto simp: store_ok_def old distinct_map_filter)
qed

section \<open>The step relation\<close>

definition provider_ok :: "string option \<Rightarrow> bool" where
  "provider_ok p \<longleftrightarrow> (case p of None \<Rightarrow> True | Some s \<Rightarrow> provider_pattern s)"

text \<open>A reading of the clock and the lease that starts at it.\<close>

definition clock_ok :: "int \<Rightarrow> int \<Rightarrow> bool" where
  "clock_ok leaseMs now \<longleftrightarrow> valid_lease_ms leaseMs \<and> iso_range now \<and> iso_range (now + leaseMs)"

text \<open>
  One completed operation of the registry on the stored state. The side conditions are what the
  callers pass: a provider id of the shape the validator requires, a message of at most 240
  characters, the path of a checkpoint file of at most 2048 and its SHA-256 digest.
\<close>

inductive registry_step :: "int \<Rightarrow> exec_store \<Rightarrow> exec_store \<Rightarrow> bool" for leaseMs :: int where
  step_prepare: "clock_ok leaseMs now \<Longrightarrow> prepare_op leaseMs now digest inp caps sem st = Inr (st', r)
    \<Longrightarrow> registry_step leaseMs st st'"
| step_markRunning: "clock_ok leaseMs now \<Longrightarrow> provider_ok p
    \<Longrightarrow> markRunning_op leaseMs now taskId epoch p st = Inr (st', b) \<Longrightarrow> registry_step leaseMs st st'"
| step_finish: "clock_ok leaseMs now \<Longrightarrow> (\<forall>m. message = Some m \<longrightarrow> length m \<le> 240)
    \<Longrightarrow> finish_op leaseMs now taskId epoch f message st = Inr (st', b) \<Longrightarrow> registry_step leaseMs st st'"
| step_renew: "clock_ok leaseMs now \<Longrightarrow> renew_op leaseMs now taskId epoch st = Inr (st', b)
    \<Longrightarrow> registry_step leaseMs st st'"
| step_capture: "length destination \<le> 2048 \<Longrightarrow> sha256_pattern sha
    \<Longrightarrow> captureCheckpoint_op taskId epoch destination sha st = Inr (st', b) \<Longrightarrow> registry_step leaseMs st st'"
| step_cancel: "clock_ok leaseMs now \<Longrightarrow> cancel_op now taskId e st = Inr (st', b)
    \<Longrightarrow> registry_step leaseMs st st'"
| step_reconcile: "clock_ok leaseMs now \<Longrightarrow> reconcile_op now active st = Inr (st', hs)
    \<Longrightarrow> registry_step leaseMs st st'"

inductive_cases registry_stepE: "registry_step leaseMs st st'"

section \<open>Every operation keeps the state well-formed\<close>

lemma handle_parts_ok:
  "handle_ok h \<Longrightarrow> progress_ok (h_progress h)"
  by (simp add: handle_ok_def)

lemma leaseExpiry_valid: "clock_ok leaseMs now \<Longrightarrow> valid_date (leaseExpiry leaseMs now)"
  by (simp add: clock_ok_def leaseExpiry_def)

lemma now_valid: "clock_ok leaseMs now \<Longrightarrow> valid_date (to_iso now)"
  by (simp add: clock_ok_def)

text \<open>A new progress with a state, a short message and the current time.\<close>

lemma progress_update_ok:
  "progress_ok p \<Longrightarrow> clock_ok leaseMs now \<Longrightarrow> length m \<le> 240 \<Longrightarrow>
     progress_ok \<lparr>pr_state = s, completed_units = completed_units p, total_units = total_units p,
       pr_message = Some m, pr_updated_at = to_iso now\<rparr>"
  by (simp add: progress_ok_def now_valid)

lemma handle_update_ok:
  "handle_ok h \<Longrightarrow> progress_ok p \<Longrightarrow> valid_date l \<Longrightarrow> provider_ok q \<Longrightarrow>
     handle_ok (h\<lparr>h_provider_id := q, h_progress := p, h_lease_expires_at := l\<rparr>)"
  by (simp add: handle_ok_def provider_ok_def)

lemma handle_provider_ok: "handle_ok h \<Longrightarrow> provider_ok (h_provider_id h)"
  by (simp add: handle_ok_def provider_ok_def)

lemma stored_handle_ok: "store_ok st \<Longrightarrow> h \<in> set (handles st) \<Longrightarrow> handle_ok h"
  by (simp add: store_ok_def)

lemma transition_ok:
  assumes "store_ok st" and "clock_ok leaseMs now" and "length m \<le> 240"
    and "p \<noteq> None \<Longrightarrow> provider_ok (the p)"
    and "transition_op leaseMs now taskId epoch nxt p m st = Inr (st', b)"
  shows "store_ok st'"
proof (cases "currentHandle st taskId epoch")
  case None
  then show ?thesis using assms by (simp add: transition_op_def)
next
  case (Some h)
  have h: "h \<in> set (handles st)" using Some currentHandle_Some by blast
  note ok = stored_handle_ok [OF assms(1) h]
  let ?pr = "\<lparr>pr_state = nxt,
                  completed_units = (if nxt = Completed then Some 1 else completed_units (h_progress h)),
                  total_units = (if nxt = Completed then Some 1 else total_units (h_progress h)),
                  pr_message = Some m, pr_updated_at = to_iso now\<rparr>"
  have "progress_ok ?pr"
    using progress_update_ok [OF handle_parts_ok [OF ok] assms(2,3)] assms(3) now_valid [OF assms(2)]
    by (cases "nxt = Completed") (simp_all add: progress_ok_def max_safe_integer_def)
  moreover have "provider_ok (case p of None \<Rightarrow> h_provider_id h | Some p \<Rightarrow> p)"
    using assms(4) handle_provider_ok [OF ok] by (cases p) auto
  ultimately show ?thesis
    using assms(5) Some assms(1) put_handle_ok [OF assms(1) h handle_update_ok [OF ok]]
      leaseExpiry_valid [OF assms(2)] now_valid [OF assms(2)]
    by (auto simp: transition_op_def split: if_splits)
qed

lemma renew_ok:
  assumes "store_ok st" and "clock_ok leaseMs now" and "renew_op leaseMs now taskId epoch st = Inr (st', b)"
  shows "store_ok st'"
proof (cases "currentHandle st taskId epoch")
  case None
  then show ?thesis using assms by (simp add: renew_op_def)
next
  case (Some h)
  have h: "h \<in> set (handles st)" using Some currentHandle_Some by blast
  have "handle_ok (h\<lparr>h_lease_expires_at := leaseExpiry leaseMs now\<rparr>)"
    using stored_handle_ok [OF assms(1) h] leaseExpiry_valid [OF assms(2)] by (simp add: handle_ok_def)
  from put_handle_ok [OF assms(1) h this] show ?thesis
    using assms Some by (auto simp: renew_op_def split: if_splits)
qed

lemma cancel_ok:
  assumes "store_ok st" and "clock_ok leaseMs now" and "cancel_op now taskId e st = Inr (st', b)"
  shows "store_ok st'"
proof (cases "find_first (\<lambda>h. h_task_id h = taskId) (handles st)")
  case None
  then show ?thesis using assms by (simp add: cancel_op_def)
next
  case (Some h)
  have h: "h \<in> set (handles st)" using find_first_Some [OF Some] by blast
  note ok = stored_handle_ok [OF assms(1) h]
  have "handle_ok (h\<lparr>h_progress := \<lparr>pr_state = Canceled, completed_units = completed_units (h_progress h),
                 total_units = total_units (h_progress h), pr_message = Some ''execution canceled'',
                 pr_updated_at = to_iso now\<rparr>, h_lease_expires_at := to_iso now\<rparr>)"
    using ok progress_update_ok [OF handle_parts_ok [OF ok] assms(2)] now_valid [OF assms(2)]
    by (simp add: handle_ok_def)
  from put_handle_ok [OF assms(1) h this] show ?thesis
    using assms Some by (auto simp: cancel_op_def split: if_splits)
qed

lemma interrupt_handle_ok:
  "handle_ok h \<Longrightarrow> clock_ok leaseMs now \<Longrightarrow> handle_ok (interrupt_handle now h)"
  unfolding interrupt_handle_def
  using progress_update_ok [OF handle_parts_ok] now_valid by (simp add: handle_ok_def)

lemma interrupt_handle_simps [simp]:
  "h_task_id (interrupt_handle now h) = h_task_id h"
  "h_checkpoint_ref (interrupt_handle now h) = h_checkpoint_ref h"
  "h_resume (interrupt_handle now h) = h_resume h"
  "h_epoch (interrupt_handle now h) = h_epoch h"
  "h_provider_id (interrupt_handle now h) = None"
  "pr_state (h_progress (interrupt_handle now h)) = Interrupted"
  by (simp_all add: interrupt_handle_def)

lemma reconcile_ok:
  assumes "store_ok st" and "clock_ok leaseMs now" and "reconcile_op now active st = Inr (st', hs)"
  shows "store_ok st'"
proof -
  let ?f = "\<lambda>h. if left_alone active h then h else interrupt_handle now h"
  have "map h_task_id (map ?f xs) = map h_task_id xs" for xs by (induction xs) auto
  moreover have "integrity_ok (map ?f xs) r \<longleftrightarrow> integrity_ok xs r" for xs r
    by (auto simp: integrity_ok_def simp del: if_image_distrib)
  ultimately show ?thesis
    using assms interrupt_handle_ok by (auto simp: reconcile_op_def store_ok_def simp del: map_map)
qed

lemma capture_ok:
  assumes ok: "store_ok st" and d: "length d \<le> 2048" and sha: "sha256_pattern sha"
    and op: "captureCheckpoint_op taskId epoch d sha st = Inr (st', b)"
  shows "store_ok st'"
proof (cases "st' = st")
  case False
  then obtain h where cur: "currentHandle st taskId epoch = Some h"
    and st': "st' = (put_handle (h\<lparr>h_checkpoint_ref := Some d, h_resume := CheckpointRestart\<rparr>) st)
            \<lparr>integrity := filter (\<lambda>r. ir_task_id r \<noteq> taskId) (integrity st)
               @ [\<lparr>ir_task_id = taskId, ir_epoch = epoch, ir_checkpoint_ref = d, ir_sha256 = JStr sha\<rparr>]\<rparr>"
    using op by (auto simp: captureCheckpoint_op_def split: option.splits if_splits)
  let ?h = "h\<lparr>h_checkpoint_ref := Some d, h_resume := CheckpointRestart\<rparr>"
  have h: "h \<in> set (handles st)" "h_task_id h = taskId" "h_epoch h = epoch"
    using currentHandle_Some [OF cur] by auto
  have h_ok: "handle_ok h" using stored_handle_ok [OF ok h(1)] .
  then have h'_ok: "handle_ok ?h" using d by (simp add: handle_ok_def)
  have rest: "store_ok ((put_handle ?h st)\<lparr>integrity := filter (\<lambda>r. ir_task_id r \<noteq> taskId) (integrity st)\<rparr>)"
    using put_and_drop_ok [OF ok h'_ok] h(2) by simp
  have mem: "?h \<in> set (handles (put_handle ?h st))" using h by (auto simp: set_put_handle)
  have "length (filter (\<lambda>r. ir_task_id r \<noteq> taskId) (integrity st)) < max_execution_handles"
  proof -
    let ?rs = "filter (\<lambda>r. ir_task_id r \<noteq> taskId) (integrity st)"
    have "ir_task_id ` set ?rs \<subseteq> h_task_id ` set (handles st) - {taskId}"
      using ok by (force simp: store_ok_def integrity_ok_def)
    then have "card (ir_task_id ` set ?rs) \<le> card (h_task_id ` set (handles st) - {taskId})"
      by (intro card_mono) auto
    also have "\<dots> < card (h_task_id ` set (handles st))" using h by (intro psubset_card_mono) auto
    also have "\<dots> \<le> length (handles st)" using card_image_le [of "set (handles st)" h_task_id]
        card_length [of "handles st"] by simp
    also have "\<dots> \<le> max_execution_handles" using ok by (simp add: store_ok_def)
    also have "card (ir_task_id ` set ?rs) = length ?rs"
      using ok distinct_card [of "map ir_task_id ?rs"] by (simp add: store_ok_def distinct_map_filter)
    finally show ?thesis .
  qed
  moreover have "integrity_ok (handles (put_handle ?h st))
      \<lparr>ir_task_id = taskId, ir_epoch = epoch, ir_checkpoint_ref = d, ir_sha256 = JStr sha\<rparr>"
    using mem h h_ok sha by (auto simp: integrity_ok_def handle_ok_def intro!: bexI [of _ ?h])
  ultimately show ?thesis
    using rest by (auto simp: st' store_ok_def)
qed (simp add: ok)

lemma new_handle_simps [simp]:
  "h_task_id (new_handle leaseMs now inp prev) = pi_task_id inp"
  "h_epoch (new_handle leaseMs now inp prev) = (case prev of None \<Rightarrow> 0 | Some p \<Rightarrow> h_epoch p) + 1"
  "h_checkpoint_ref (new_handle leaseMs now inp (Some p)) = h_checkpoint_ref p"
  "h_resume (new_handle leaseMs now inp (Some p)) = h_resume p"
  by (simp_all add: new_handle_def)

lemma prepare_ok:
  assumes ok: "store_ok st" and clock: "clock_ok leaseMs now"
    and op: "prepare_op leaseMs now digest inp caps sem st = Inr (st', r)"
  shows "store_ok st'"
proof (cases "find_first (\<lambda>h. h_task_id h = pi_task_id inp) (handles st)")
  case None
  let ?h = "new_handle leaseMs now inp None"
  have "handle_ok ?h" "pruneHandles (st\<lparr>handles := handles st @ [?h]\<rparr>) = Inr st'"
    using op None by (auto simp: prepare_op_def Let_def guarded_Inr_conv rbind_Inr_conv
        validateExecutionHandle_json resume_unavailable_def split: if_splits)
  then show ?thesis
    using ok None
    by (intro prune_ok [of "st\<lparr>handles := handles st @ [?h]\<rparr>"])
      (auto simp: store_ok_def find_first_None integrity_ok_def)
next
  case (Some p)
  have p: "p \<in> set (handles st)" "h_task_id p = pi_task_id inp" using find_first_Some [OF Some] by auto
  have res: "pi_resume inp" using op Some by (auto simp: prepare_op_def Let_def split: if_splits)
  show ?thesis
  proof (cases "isCheckpointIntact digest st p")
    case True
    let ?h = "new_handle leaseMs now inp (Some p)"
    have h_ok: "handle_ok ?h" "pruneHandles (put_handle ?h st) = Inr st'"
      using op Some res True by (auto simp: prepare_op_def Let_def guarded_Inr_conv rbind_Inr_conv
          validateExecutionHandle_json split: if_splits)
    have "store_ok (put_handle ?h st)" using p by (intro put_handle_ok [OF ok p(1) h_ok(1)]) simp_all
    then show ?thesis using h_ok(2) by (auto simp: pruneHandles_def store_ok_def)
  next
    case False
    have "handle_ok (revoke_checkpoint now p)"
      using stored_handle_ok [OF ok p(1)] now_valid [OF clock]
      by (simp add: revoke_checkpoint_def handle_ok_def progress_ok_def)
    from put_and_drop_ok [OF ok this] show ?thesis
      using op Some res False p
      by (auto simp: prepare_op_def Let_def revoke_checkpoint_def split: if_splits)
  qed
qed

lemma registry_step_ok: "registry_step leaseMs st st' \<Longrightarrow> store_ok st \<Longrightarrow> store_ok st'"
proof (induction rule: registry_step.induct)
  case (step_markRunning now p taskId epoch st st' b)
  then show ?case
    using transition_ok [of st leaseMs now "''the local Child Agent is running''" "Some p"]
    by (simp add: markRunning_op_def)
next
  case (step_finish now message taskId epoch f st st' b)
  then have "length (case message of None \<Rightarrow> terminalMessage f | Some m \<Rightarrow> m) \<le> 240"
    by (cases message; cases f) auto
  then show ?case using step_finish transition_ok [of st leaseMs now _ None] by (auto simp: finish_op_def)
qed (blast intro: prepare_ok renew_ok capture_ok cancel_ok reconcile_ok)+

lemma registry_reachable_ok:
  "(registry_step leaseMs)\<^sup>*\<^sup>* st st' \<Longrightarrow> store_ok st \<Longrightarrow> store_ok st'"
  by (induction rule: rtranclp_induct) (auto intro: registry_step_ok)

section \<open>What the operations do\<close>

text \<open>The handle that an operation on a task and an epoch may change.\<close>

definition live_at :: "exec_store \<Rightarrow> string \<Rightarrow> int \<Rightarrow> bool" where
  "live_at st taskId epoch \<longleftrightarrow>
     (\<exists>h\<in>set (handles st). h_task_id h = taskId \<and> h_epoch h = epoch \<and> \<not> terminal_handle h)"

lemma not_live_current:
  "\<not> live_at st t e \<Longrightarrow> currentHandle st t e = Some h \<Longrightarrow> isTerminalExecutionProgress (pr_state (h_progress h))"
  using currentHandle_Some [of st t e h] by (auto simp: live_at_def terminal_handle_def)

lemma stale_transition: "\<not> live_at st t e \<Longrightarrow> transition_op leaseMs now t e nxt p m st = Inr (st, False)"
  using not_live_current by (auto simp: transition_op_def split: option.splits)

lemma stale_renew: "\<not> live_at st t e \<Longrightarrow> renew_op leaseMs now t e st = Inr (st, False)"
  using not_live_current by (auto simp: renew_op_def split: option.splits)

lemma stale_capture: "\<not> live_at st t e \<Longrightarrow> captureCheckpoint_op t e d sha st = Inr (st, False)"
  using not_live_current by (auto simp: captureCheckpoint_op_def split: option.splits)

lemma stale_cancel: "\<not> live_at st t e \<Longrightarrow> cancel_op now t (Some e) st = Inr (st, False)"
  by (auto simp: cancel_op_def live_at_def terminal_handle_def split: option.splits dest!: find_first_Some)

lemmas stale_ops = stale_transition stale_renew stale_capture stale_cancel

text \<open>How a handle of a Task looks after a step.\<close>

lemma after_put:
  assumes "store_ok st" and "h \<in> set (handles st)" and "h' \<in> set (handles (put_handle g st))"
    and "h_task_id h' = h_task_id h"
  shows "h' = h \<or> (h' = g \<and> h_task_id g = h_task_id h)"
  using assms same_task_same_handle [OF assms(1,2)] by (metis set_put_handle)

lemma prune_subset: "distinct (handles st) \<Longrightarrow> pruneHandles st = Inr st' \<Longrightarrow> set (handles st') \<subseteq> set (handles st)"
  using pruned_handles by fastforce

text \<open>The operations of an executor change one live handle, and keep its Task and epoch.\<close>

definition changes_live :: "exec_store \<Rightarrow> exec_store \<Rightarrow> bool" where
  "changes_live st st' \<longleftrightarrow> st' = st \<or>
     (\<exists>g. handles st' = handles (put_handle g st)
        \<and> (\<exists>p\<in>set (handles st). h_task_id g = h_task_id p \<and> h_epoch g = h_epoch p \<and> \<not> terminal_handle p))"

lemma changes_liveI:
  assumes "p \<in> set (handles st)" and "\<not> isTerminalExecutionProgress (pr_state (h_progress p))"
    and "handles st' = handles (put_handle g st)" and "h_task_id g = h_task_id p" and "h_epoch g = h_epoch p"
  shows "changes_live st st'"
  unfolding changes_live_def terminal_handle_def using assms by blast

lemma transition_changes:
  assumes "transition_op leaseMs now t e nxt p m st = Inr (st', b)"
  shows "changes_live st st'"
proof (cases "st' = st")
  case False
  with assms show ?thesis
    by (auto simp: transition_op_def split: option.splits if_splits dest!: currentHandle_Some
        intro!: changes_liveI)
qed (simp add: changes_live_def)

lemma renew_changes:
  assumes "renew_op leaseMs now t e st = Inr (st', b)"
  shows "changes_live st st'"
proof (cases "st' = st")
  case False
  with assms show ?thesis
    by (auto simp: renew_op_def split: option.splits if_splits dest!: currentHandle_Some intro!: changes_liveI)
qed (simp add: changes_live_def)

lemma capture_changes:
  assumes "captureCheckpoint_op t e d sha st = Inr (st', b)"
  shows "changes_live st st'"
proof (cases "st' = st")
  case False
  with assms show ?thesis
    by (auto simp: captureCheckpoint_op_def split: option.splits if_splits dest!: currentHandle_Some
        intro!: changes_liveI)
qed (simp add: changes_live_def)

lemma cancel_changes:
  assumes "cancel_op now t e st = Inr (st', b)"
  shows "changes_live st st'"
proof (cases "st' = st")
  case False
  with assms show ?thesis
    by (auto simp: cancel_op_def split: option.splits if_splits dest!: find_first_Some intro!: changes_liveI)
qed (simp add: changes_live_def)

lemma changes_live_handle:
  assumes ok: "store_ok st" and ch: "changes_live st st'"
    and h: "h \<in> set (handles st)" "h' \<in> set (handles st')" "h_task_id h' = h_task_id h"
  shows "h' = h \<or> (\<not> terminal_handle h \<and> h_epoch h' = h_epoch h)"
proof (cases "st' = st")
  case True
  then show ?thesis using same_task_same_handle [OF ok h(1)] h by metis
next
  case False
  then obtain g p where g: "handles st' = handles (put_handle g st)"
    and p: "p \<in> set (handles st)" "h_task_id g = h_task_id p" "h_epoch g = h_epoch p" "\<not> terminal_handle p"
    using ch by (auto simp: changes_live_def)
  from after_put [OF ok h(1) _ h(3)] h(2) g have "h' = h \<or> (h' = g \<and> h_task_id g = h_task_id h)" by auto
  then show ?thesis using p same_task_same_handle [OF ok h(1) p(1)] by metis
qed

text \<open>\<open>prepare\<close> on a Task that has a handle restarts it, or revokes its checkpoint.\<close>

lemma prepare_handle:
  assumes ok: "store_ok st" and op: "prepare_op leaseMs now digest inp caps sem st = Inr (st', r)"
    and h: "h \<in> set (handles st)" "h' \<in> set (handles st')" "h_task_id h' = h_task_id h"
  shows "h' = h \<or> (pr_state (h_progress h) \<in> {Interrupted, Failed}
      \<and> (h' = new_handle leaseMs now inp (Some h) \<or> h' = revoke_checkpoint now h))"
proof (cases "find_first (\<lambda>h. h_task_id h = pi_task_id inp) (handles st)")
  case None
  let ?h = "new_handle leaseMs now inp None"
  have prune: "pruneHandles (st\<lparr>handles := handles st @ [?h]\<rparr>) = Inr st'"
    using op None by (auto simp: prepare_op_def Let_def guarded_Inr_conv rbind_Inr_conv
        resume_unavailable_def split: if_splits)
  have "distinct (handles (st\<lparr>handles := handles st @ [?h]\<rparr>))"
    using ok None by (auto simp: store_ok_def distinct_map find_first_None)
  from prune_subset [OF this prune] h(2) have "h' = ?h \<or> h' \<in> set (handles st)" by auto
  moreover have "h_task_id h \<noteq> h_task_id ?h" using None h(1) by (auto simp: find_first_None)
  ultimately show ?thesis using same_task_same_handle [OF ok h(1)] h(3) by metis
next
  case (Some p)
  have p: "p \<in> set (handles st)" "h_task_id p = pi_task_id inp" using find_first_Some [OF Some] by auto
  have res: "pi_resume inp" "\<not> resume_unavailable (Some p) caps sem"
    using op Some by (auto simp: prepare_op_def Let_def split: if_splits)
  then have state: "pr_state (h_progress p) \<in> {Interrupted, Failed}" by (simp add: resume_unavailable_def)
  have "\<exists>g \<in> {new_handle leaseMs now inp (Some p), revoke_checkpoint now p}. h' \<in> set (handles (put_handle g st))"
  proof (cases "isCheckpointIntact digest st p")
    case True
    let ?g = "new_handle leaseMs now inp (Some p)"
    have "pruneHandles (put_handle ?g st) = Inr st'"
      using op Some res True by (auto simp: prepare_op_def Let_def guarded_Inr_conv rbind_Inr_conv split: if_splits)
    then have "st' = put_handle ?g st" using ok by (auto simp: pruneHandles_def store_ok_def)
    then show ?thesis using h(2) by blast
  next
    case False
    then show ?thesis using op Some res h(2) by (auto simp: prepare_op_def Let_def split: if_splits)
  qed
  then obtain g where g: "g = new_handle leaseMs now inp (Some p) \<or> g = revoke_checkpoint now p"
    and mem: "h' \<in> set (handles (put_handle g st))" by blast
  have "h_task_id g = h_task_id p" using g p(2) by (auto simp: revoke_checkpoint_def)
  then show ?thesis
    using after_put [OF ok h(1) mem h(3)] g state same_task_same_handle [OF ok h(1) p(1)] by auto
qed

lemma step_handle:
  assumes step: "registry_step leaseMs st st'" and ok: "store_ok st"
    and h: "h \<in> set (handles st)" "h' \<in> set (handles st')" "h_task_id h' = h_task_id h"
  shows "h_epoch h \<le> h_epoch h' \<and> (pr_state (h_progress h) \<in> {Completed, Canceled} \<longrightarrow> h' = h)"
  using step
proof (cases rule: registry_step.cases)
  case (step_prepare now digest inp caps sem r)
  then show ?thesis using prepare_handle [OF ok step_prepare(2) h] by (auto simp: revoke_checkpoint_def)
next
  case (step_reconcile now active hs)
  then obtain g where g: "g \<in> set (handles st)" "h' = (if left_alone active g then g else interrupt_handle now g)"
    using h(2) by (auto simp: reconcile_op_def simp del: if_image_distrib)
  then have "h_task_id g = h_task_id h" using h(3) by (auto split: if_splits)
  then have "g = h" using same_task_same_handle [OF ok h(1) g(1)] by simp
  then have "h' = h \<or> (\<not> terminal_handle h \<and> h_epoch h' = h_epoch h)"
    using g(2) by (auto simp: left_alone_def terminal_handle_def)
  then show ?thesis by (auto simp: terminal_handle_def)
qed (use changes_live_handle [OF ok _ h] in \<open>fastforce simp: terminal_handle_def markRunning_op_def finish_op_def
      dest: transition_changes renew_changes capture_changes cancel_changes\<close>)+

text \<open>A handle leaves the state only when a full store makes room for a new Task.\<close>

lemma changes_live_ids:
  "changes_live st st' \<Longrightarrow> h_task_id ` set (handles st') = h_task_id ` set (handles st)"
  by (auto simp: changes_live_def simp flip: set_map)

lemma step_evicts:
  assumes step: "registry_step leaseMs st st'" and ok: "store_ok st"
    and h: "h \<in> set (handles st)" "h_task_id h \<notin> h_task_id ` set (handles st')"
  shows "terminal_handle h \<and> length (handles st) = max_execution_handles
    \<and> (\<forall>g\<in>set (handles st'). terminal_handle g \<longrightarrow> updated_ms h \<le> updated_ms g)"
  using step
proof (cases rule: registry_step.cases)
  case (step_prepare now digest inp caps sem r)
  show ?thesis
  proof (cases "find_first (\<lambda>h. h_task_id h = pi_task_id inp) (handles st)")
    case None
    let ?st = "st\<lparr>handles := handles st @ [new_handle leaseMs now inp None]\<rparr>"
    have prune: "pruneHandles ?st = Inr st'"
      using step_prepare None by (auto simp: prepare_op_def Let_def guarded_Inr_conv rbind_Inr_conv
          resume_unavailable_def split: if_splits)
    have d: "distinct (handles ?st)"
      using ok None by (auto simp: store_ok_def distinct_map find_first_None)
    have "h \<notin> set (handles st')" using h by auto
    moreover have "h \<in> set (handles ?st)" using h by simp
    ultimately have "terminal_handle h \<and> (\<forall>g\<in>set (handles st'). terminal_handle g \<longrightarrow> updated_ms h \<le> updated_ms g)"
      using pruned_handles [OF d prune] by auto
    moreover have "\<not> length (handles ?st) \<le> max_execution_handles"
      using prune h by (auto simp: pruneHandles_def split: if_splits)
    ultimately show ?thesis using ok by (auto simp: store_ok_def)
  next
    case (Some p)
    have "pruneHandles (put_handle g st) = Inr (put_handle g st)" for g
      using ok by (auto simp: pruneHandles_def store_ok_def)
    then have "h_task_id ` set (handles st') = h_task_id ` set (handles st)"
      using step_prepare Some by (auto simp: prepare_op_def Let_def guarded_Inr_conv rbind_Inr_conv
          simp flip: set_map split: if_splits)
    then show ?thesis using h by auto
  qed
next
  case (step_reconcile now active hs)
  then show ?thesis using h
    by (auto simp: reconcile_op_def image_iff simp del: if_image_distrib split: if_splits)
qed (use h in \<open>auto simp: markRunning_op_def finish_op_def
      dest!: transition_changes renew_changes capture_changes cancel_changes changes_live_ids\<close>)

section \<open>Properties\<close>

text \<open>
  The file store is a faithful store: a save succeeds exactly for a well-formed state, and a load of
  the saved file gives back that state; a file that loads holds a well-formed state.\<close>

theorem file_store_roundtrip:
  "((\<exists>f'. file_save f st = Inr f' \<and> file_load f' = Inr st) \<longleftrightarrow> store_ok st)
   \<and> ((\<exists>f'. file_save f st = Inr f') \<longleftrightarrow> store_ok st)
   \<and> (\<exists>s. file_load f = Inr s \<and> store_ok s) = (\<exists>s. file_load f = Inr s)"
proof (intro conjI)
  have save: "file_save f st = (if store_ok st then Inr (JsonFile (store_json st)) else
      Inl (the (validateExecutionHandleStoreState (store_json st))))"
    using validate_store_json [of st] by (auto simp: file_save_def guarded_def split: option.splits)
  have load: "store_ok st \<Longrightarrow> file_load (JsonFile (store_json st)) = Inr st"
    by (simp add: file_load_def validate_store_ok)
  show "(\<exists>f'. file_save f st = Inr f' \<and> file_load f' = Inr st) \<longleftrightarrow> store_ok st"
    "(\<exists>f'. file_save f st = Inr f') \<longleftrightarrow> store_ok st"
    using save load by auto
  show "(\<exists>s. file_load f = Inr s \<and> store_ok s) = (\<exists>s. file_load f = Inr s)"
    by (cases f) (auto simp: file_load_def guarded_Inr_conv store_of_ok Let_def)
qed

text \<open>C24:
  Whatever sequence of operations runs, the stored state stays well-formed, so that the next
  operation's save is accepted and its load returns what was saved: an operation that succeeds on the
  state is committed to the file, with its result.\<close>

theorem registry_commits:
  assumes "(registry_step leaseMs)\<^sup>*\<^sup>* emptyExecutionHandleStoreState st"
    and "file_load f = Inr st"
    and "operation st = Inr (st', r)" and "registry_step leaseMs st st'"
  shows "\<exists>f'. mutate file_load file_save operation f = Inr (f', r) \<and> file_load f' = Inr st'"
proof -
  have "store_ok st'" using registry_reachable_ok [OF assms(1)] registry_step_ok [OF assms(4)] by simp
  moreover have "good_file f"
    using assms(2) by (cases f) (auto simp: good_file_def file_load_def guarded_Inr_conv Let_def)
  ultimately show ?thesis
    using filestore.mutate_commits [of f st operation st' r] assms(2,3) by blast
qed

definition sample_input :: prepare_input where
  "sample_input = \<lparr>pi_task_id = ''task-1'', pi_workspace_id = ''workspace:task-1'',
     pi_child_agent_id = ''local.agent'', pi_connector_id = ''codex'', pi_resume = False\<rparr>"

definition sample_caps :: exec_capabilities where
  "sample_caps = \<lparr>supports_progress = True, supports_pause = False, supports_resume = True,
     supports_checkpoint = True, supports_cancel = True, capability_extra_keys = []\<rparr>"

definition sample_store :: exec_store where
  "sample_store = \<lparr>handles = [new_handle 30000 0 sample_input None], integrity = []\<rparr>"

lemma sample_clock: "clock_ok 30000 0"
  by (simp add: clock_ok_def valid_lease_ms_def iso_range_def)

lemma sample_prepare:
  "prepare_op 30000 0 digest sample_input sample_caps WorkspacePureCompute emptyExecutionHandleStoreState
     = Inr (sample_store, Inr (new_handle 30000 0 sample_input None))"
proof -
  have "validateExecutionHandle (handle_json (new_handle 30000 0 sample_input None)) = None" by code_simp
  then show ?thesis
    by (simp add: prepare_op_def sample_input_def pruneHandles_def max_execution_handles_def
        emptyExecutionHandleStoreState_def sample_store_def Let_def)
qed

theorem registry_commits_witness:
  "\<exists>f'. mutate file_load file_save
       (prepare_op 30000 0 (\<lambda>_. None) sample_input sample_caps WorkspacePureCompute) NoFile
     = Inr (f', Inr (new_handle 30000 0 sample_input None)) \<and> file_load f' = Inr sample_store"
  using registry_commits [of 30000 emptyExecutionHandleStoreState NoFile
      "prepare_op 30000 0 (\<lambda>_. None) sample_input sample_caps WorkspacePureCompute" sample_store
      "Inr (new_handle 30000 0 sample_input None)"]
    registry_step.step_prepare [OF sample_clock sample_prepare] sample_prepare
  by (simp add: file_load_def)

text \<open>C25:
  A stale executor is fenced: when the state has no live handle of the Task with the executor's epoch,
  none of its reports (running, finished, renewed lease, captured checkpoint, cancelled) changes the
  state, and each of them answers \<open>false\<close>.\<close>

theorem stale_executor_fenced:
  assumes "\<not> (\<exists>h\<in>set (handles st). h_task_id h = taskId \<and> h_epoch h = epoch
      \<and> \<not> isTerminalExecutionProgress (pr_state (h_progress h)))"
  shows "markRunning_op leaseMs now taskId epoch provider st = Inr (st, False)
    \<and> finish_op leaseMs now taskId epoch outcome message st = Inr (st, False)
    \<and> renew_op leaseMs now taskId epoch st = Inr (st, False)
    \<and> captureCheckpoint_op taskId epoch destination sha st = Inr (st, False)
    \<and> cancel_op now taskId (Some epoch) st = Inr (st, False)"
proof -
  have "\<not> live_at st taskId epoch" using assms by (simp add: live_at_def terminal_handle_def)
  then show ?thesis by (simp add: markRunning_op_def finish_op_def stale_ops)
qed

theorem stale_executor_fenced_witness:
  "markRunning_op 30000 5 ''task-1'' 0 None sample_store = Inr (sample_store, False)
   \<and> renew_op 30000 5 ''task-1'' 1 sample_store \<noteq> Inr (sample_store, False)"
  using stale_executor_fenced [of sample_store "''task-1''" 0 30000 5 None FinFailed None "[]" "[]"]
  by (simp add: sample_store_def renew_op_def currentHandle_def new_handle_def sample_input_def)

text \<open>
  A restart is a new epoch over an intact checkpoint: when \<open>prepare\<close> with \<open>resume\<close> returns a handle,
  the Task had an interrupted or failed handle with a checkpoint, the stored digest of that checkpoint
  is the digest of the file now, the new handle keeps the checkpoint and has the next epoch, and every
  later report of the executor of the previous epoch is refused.\<close>

theorem resume_is_a_new_epoch:
  assumes "store_ok st" and "pi_resume inp"
    and "prepare_op leaseMs now digest inp caps sem st = Inr (st', Inr h)"
  shows "\<exists>p\<in>set (handles st). h_task_id p = pi_task_id inp
      \<and> pr_state (h_progress p) \<in> {Interrupted, Failed} \<and> h_resume p = CheckpointRestart
      \<and> (\<exists>r\<in>set (integrity st). ir_task_id r = pi_task_id inp \<and> h_checkpoint_ref p = Some (ir_checkpoint_ref r)
           \<and> map_option JStr (digest (ir_checkpoint_ref r)) = Some (ir_sha256 r))
      \<and> h_epoch h = h_epoch p + 1 \<and> h_checkpoint_ref h = h_checkpoint_ref p \<and> h \<in> set (handles st')
      \<and> finish_op leaseMs later (pi_task_id inp) (h_epoch p) outcome message st' = Inr (st', False)"
proof -
  obtain p where find: "find_first (\<lambda>h. h_task_id h = pi_task_id inp) (handles st) = Some p"
    and res: "\<not> resume_unavailable (Some p) caps sem"
    and intact: "isCheckpointIntact digest st p"
    and h: "h = new_handle leaseMs now inp (Some p)"
    and prune: "pruneHandles (put_handle h st) = Inr st'"
    using assms by (cases "find_first (\<lambda>h. h_task_id h = pi_task_id inp) (handles st)")
      (auto simp: prepare_op_def Let_def guarded_Inr_conv rbind_Inr_conv resume_unavailable_def
        split: if_splits)
  have p: "p \<in> set (handles st)" "h_task_id p = pi_task_id inp" using find_first_Some [OF find] by auto
  have st': "st' = put_handle h st" using prune assms(1) by (auto simp: pruneHandles_def store_ok_def)
  have mem: "h \<in> set (handles st')" using p by (auto simp: st' h set_put_handle)
  have "\<not> live_at st' (pi_task_id inp) (h_epoch p)"
    using p by (auto simp: live_at_def st' h set_put_handle)
  moreover obtain r where "r \<in> set (integrity st)" "ir_task_id r = pi_task_id inp"
      "h_checkpoint_ref p = Some (ir_checkpoint_ref r)"
      "map_option JStr (digest (ir_checkpoint_ref r)) = Some (ir_sha256 r)"
    using intact p(2)
    by (auto simp: isCheckpointIntact_def split: option.splits dest!: find_first_Some)
  ultimately show ?thesis
    using p res mem h by (intro bexI [of _ p])
      (auto simp: resume_unavailable_def finish_op_def stale_transition)
qed

definition interrupted_store :: exec_store where
  "interrupted_store = \<lparr>handles = [(interrupt_handle 0 (new_handle 30000 0 sample_input None))
       \<lparr>h_checkpoint_ref := Some ''/c/1'', h_resume := CheckpointRestart\<rparr>],
     integrity = [\<lparr>ir_task_id = ''task-1'', ir_epoch = 1, ir_checkpoint_ref = ''/c/1'',
       ir_sha256 = JStr (''sha256:'' @ replicate 64 (CHR ''a''))\<rparr>]\<rparr>"

definition sample_digest :: "string \<Rightarrow> string option" where
  "sample_digest path = Some (''sha256:'' @ replicate 64 (CHR ''a''))"

lemma interrupted_store_ok: "store_ok interrupted_store"
proof -
  have "validateExecutionHandleStoreState (store_json interrupted_store) = None" by code_simp
  then show ?thesis by (simp add: validate_store_json)
qed

lemma sample_resume:
  "prepare_op 30000 9 sample_digest (sample_input\<lparr>pi_resume := True\<rparr>) sample_caps WorkspacePureCompute
     interrupted_store
   = Inr (put_handle (new_handle 30000 9 (sample_input\<lparr>pi_resume := True\<rparr>)
         (Some (hd (handles interrupted_store)))) interrupted_store,
       Inr (new_handle 30000 9 (sample_input\<lparr>pi_resume := True\<rparr>) (Some (hd (handles interrupted_store)))))"
proof -
  have "validateExecutionHandle (handle_json (new_handle 30000 9 (sample_input\<lparr>pi_resume := True\<rparr>)
          (Some (hd (handles interrupted_store))))) = None"
    by code_simp
  moreover have "isCheckpointIntact sample_digest interrupted_store (hd (handles interrupted_store))"
    by code_simp
  ultimately show ?thesis
    by (simp add: prepare_op_def interrupted_store_def sample_input_def new_handle_def[of _ _ _ None]
        interrupt_handle_def resume_unavailable_def sample_caps_def pruneHandles_def
        max_execution_handles_def Let_def)
qed

theorem resume_is_a_new_epoch_witness:
  "\<exists>st' h. prepare_op 30000 9 sample_digest (sample_input\<lparr>pi_resume := True\<rparr>) sample_caps
       WorkspacePureCompute interrupted_store = Inr (st', Inr h)
     \<and> finish_op 30000 20 ''task-1'' 1 FinCompleted None st' = Inr (st', False)"
  using resume_is_a_new_epoch [where later = 20 and outcome = FinCompleted and message = None,
      OF interrupted_store_ok _ sample_resume]
    sample_resume
  by (simp add: interrupted_store_def sample_input_def interrupt_handle_def
      new_handle_def[of _ _ _ None])

text \<open>C26:
  A finished execution is final: whatever the operation and however full the store, a completed or cancelled handle
  that the store still has afterwards is unchanged, and the epoch of a Task does not go back while the store has its
  handle. A handle leaves the store only when the store held 512 handles, and only when it was terminal and no
  terminal handle that stays was updated before it.\<close>

theorem finished_execution_final:
  assumes "store_ok st" and "registry_step leaseMs st st'" and "h \<in> set (handles st)"
  shows "(\<forall>h'\<in>set (handles st'). h_task_id h' = h_task_id h \<longrightarrow>
        h_epoch h \<le> h_epoch h' \<and> (pr_state (h_progress h) \<in> {Completed, Canceled} \<longrightarrow> h' = h))
    \<and> (h_task_id h \<notin> h_task_id ` set (handles st') \<longrightarrow>
        isTerminalExecutionProgress (pr_state (h_progress h)) \<and> length (handles st) = 512
        \<and> (\<forall>g\<in>set (handles st'). isTerminalExecutionProgress (pr_state (h_progress g)) \<longrightarrow>
            date_ms (pr_updated_at (h_progress h)) \<le> date_ms (pr_updated_at (h_progress g))))"
proof (intro conjI ballI impI)
  show "h_epoch h \<le> h_epoch h'" if "h' \<in> set (handles st')" "h_task_id h' = h_task_id h" for h'
    using step_handle [OF assms(2,1,3) that] by blast
  show "h' = h" if "h' \<in> set (handles st')" "h_task_id h' = h_task_id h" "pr_state (h_progress h) \<in> {Completed, Canceled}" for h'
    using step_handle [OF assms(2,1,3) that(1,2)] that(3) by blast
next
  assume "h_task_id h \<notin> h_task_id ` set (handles st')"
  note out = step_evicts [OF assms(2,1,3) this, unfolded terminal_handle_def updated_ms_def max_execution_handles_def]
  show "isTerminalExecutionProgress (pr_state (h_progress h))" "length (handles st) = 512" using out by simp_all
  show "date_ms (pr_updated_at (h_progress h)) \<le> date_ms (pr_updated_at (h_progress g))"
    if "g \<in> set (handles st')" "isTerminalExecutionProgress (pr_state (h_progress g))" for g
    using out that by blast
qed

theorem finished_execution_final_witness:
  "\<exists>st'. finish_op 30000 5 ''task-1'' 1 FinCompleted None sample_store = Inr (st', True)
     \<and> (\<forall>h'\<in>set (handles st'). h_task_id h' = ''task-1'' \<longrightarrow> 1 \<le> h_epoch h')"
proof -
  have ok: "store_ok sample_store"
    using registry_step_ok [OF registry_step.step_prepare [OF sample_clock sample_prepare]] by simp
  obtain st' where fin: "finish_op 30000 5 ''task-1'' 1 FinCompleted None sample_store = Inr (st', True)"
    by (simp add: finish_op_def transition_op_def currentHandle_def sample_store_def new_handle_def
        sample_input_def)
  have "clock_ok 30000 5" by (simp add: clock_ok_def valid_lease_ms_def iso_range_def)
  from finished_execution_final [OF ok registry_step.step_finish [OF this _ fin],
      of "new_handle 30000 0 sample_input None"] fin
  show ?thesis by (auto simp: sample_store_def sample_input_def new_handle_def)
qed

lemma prune_live_bound:
  assumes "distinct (handles st)"
  shows "(\<exists>e. pruneHandles st = Inl e) \<longleftrightarrow> max_execution_handles < length (filter (\<lambda>h. \<not> terminal_handle h) (handles st))"
proof (cases "length (handles st) \<le> max_execution_handles")
  case True
  then show ?thesis
    using le_trans [OF length_filter_le [of "\<lambda>h. \<not> terminal_handle h" "handles st"]]
    by (simp add: pruneHandles_def not_less)
next
  case False
  define ts where "ts = sort_by (\<lambda>a b. updated_ms a \<le> updated_ms b) (filter terminal_handle (handles st))"
  let ?k = "length (handles st) - max_execution_handles"
  have ts: "distinct ts" "set ts = {h \<in> set (handles st). terminal_handle h}"
    "length ts = length (filter terminal_handle (handles st))"
    using assms by (auto simp: ts_def distinct_sort_by)
  have loop: "prune_loop ts (handles st) = filter (\<lambda>h. h \<notin> set (take ?k ts)) (handles st)"
    using assms ts by (subst prune_loop_filter) auto
  have "length (filter (\<lambda>h. h \<in> set (take ?k ts)) (handles st)) = min ?k (length ts)"
  proof -
    have "set (filter (\<lambda>h. h \<in> set (take ?k ts)) (handles st)) = set (take ?k ts)"
      using ts set_take_subset [of ?k ts] by auto
    then show ?thesis
      using distinct_card [of "filter (\<lambda>h. h \<in> set (take ?k ts)) (handles st)"]
        distinct_card [of "take ?k ts"] assms ts by simp
  qed
  then have len: "length (prune_loop ts (handles st)) = length (handles st) - min ?k (length ts)"
    using sum_length_filter_compl [of "\<lambda>h. h \<in> set (take ?k ts)" "handles st"] unfolding loop by linarith
  have eq: "(\<exists>e. pruneHandles st = Inl e) \<longleftrightarrow> max_execution_handles < length (prune_loop ts (handles st))"
    using False unfolding pruneHandles_def ts_def updated_ms_def terminal_handle_def [abs_def]
    by (simp add: Let_def)
  have "length (filter (\<lambda>h. \<not> terminal_handle h) (handles st)) + length ts = length (handles st)"
    using ts(3) sum_length_filter_compl [of terminal_handle "handles st"] by simp
  then show ?thesis unfolding eq len using False by auto
qed

text \<open>
  Pruning keeps the store within its limit without losing work: it fails exactly when more than 512
  handles are live; otherwise at most 512 remain, every live handle is kept in its place, and a
  terminal handle that was dropped was not updated after one that was kept.\<close>

theorem prune_keeps_live_handles:
  assumes "distinct (map h_task_id (handles st))"
  shows "(\<exists>e. pruneHandles st = Inl e
        \<and> max_execution_handles < length (filter (\<lambda>h. \<not> terminal_handle h) (handles st)))
    \<or> (\<exists>st' old. pruneHandles st = Inr st' \<and> length (handles st') \<le> max_execution_handles
        \<and> handles st' = filter (\<lambda>h. h \<notin> set old) (handles st)
        \<and> (\<forall>h\<in>set old. terminal_handle h)
        \<and> (\<forall>h\<in>set old. \<forall>g\<in>set (handles st'). terminal_handle g \<longrightarrow> updated_ms h \<le> updated_ms g))"
proof (cases "pruneHandles st")
  case (Inl e)
  then show ?thesis using assms prune_live_bound [of st] by (auto simp: distinct_map)
next
  case (Inr st')
  moreover have "distinct (handles st)" using assms by (simp add: distinct_map)
  ultimately show ?thesis using pruned_handles [of st st'] prune_length [OF Inr] by blast
qed

theorem prune_keeps_live_handles_witness:
  "pruneHandles sample_store = Inr sample_store
   \<and> (\<exists>old. handles sample_store = filter (\<lambda>h. h \<notin> set old) (handles sample_store)
        \<and> (\<forall>h\<in>set old. terminal_handle h))"
proof -
  have "pruneHandles sample_store = Inr sample_store"
    by (simp add: pruneHandles_def sample_store_def max_execution_handles_def)
  then show ?thesis
    using prune_keeps_live_handles [of sample_store] by (auto simp: sample_store_def)
qed

text \<open>
  A checkpoint that fails its integrity check is lost for good: \<open>prepare\<close> with \<open>resume\<close> reports the
  failure, the state it saves holds neither the checkpoint nor its integrity record, and no later
  \<open>prepare\<close> with \<open>resume\<close> of that Task succeeds on it, whatever the file system then says.\<close>

theorem broken_checkpoint_revoked:
  assumes "store_ok st"
    and "prepare_op leaseMs now digest inp caps sem st
      = Inr (st', Inl (PlainError ''EXECUTION_CHECKPOINT_INTEGRITY_FAILED''))"
  shows "(\<forall>h\<in>set (handles st'). h_task_id h = pi_task_id inp \<longrightarrow> h_checkpoint_ref h = None \<and> h_resume h = NoResume)
    \<and> (\<forall>r\<in>set (integrity st'). ir_task_id r \<noteq> pi_task_id inp)
    \<and> prepare_op leaseMs' now' digest' inp caps' sem' st' = Inl (PlainError ''EXECUTION_RESUME_UNAVAILABLE'')"
proof -
  obtain p where find: "find_first (\<lambda>h. h_task_id h = pi_task_id inp) (handles st) = Some p"
    and res: "pi_resume inp"
    and st': "st' = (put_handle (revoke_checkpoint now p) st)
        \<lparr>integrity := filter (\<lambda>r. ir_task_id r \<noteq> pi_task_id inp) (integrity st)\<rparr>"
    using assms(2) by (cases "find_first (\<lambda>h. h_task_id h = pi_task_id inp) (handles st)")
      (auto simp: prepare_op_def Let_def guarded_Inr_conv rbind_Inr_conv resume_unavailable_def
        split: if_splits)
  have p: "p \<in> set (handles st)" "h_task_id p = pi_task_id inp" using find_first_Some [OF find] by auto
  have gone: "\<forall>h\<in>set (handles st'). h_task_id h = pi_task_id inp \<longrightarrow>
      h_checkpoint_ref h = None \<and> h_resume h = NoResume"
    using p by (auto simp: st' set_put_handle revoke_checkpoint_def)
  have "resume_unavailable (find_first (\<lambda>h. h_task_id h = pi_task_id inp) (handles st')) caps' sem'"
    using gone by (auto simp: resume_unavailable_def split: option.splits dest!: find_first_Some)
  then show ?thesis using gone res by (simp add: prepare_op_def st' Let_def)
qed

theorem broken_checkpoint_revoked_witness:
  "prepare_op 30000 50 sample_digest (sample_input\<lparr>pi_resume := True\<rparr>) sample_caps WorkspacePureCompute
     (fst (projr (prepare_op 30000 9 (\<lambda>_. None) (sample_input\<lparr>pi_resume := True\<rparr>) sample_caps
        WorkspacePureCompute interrupted_store)))
   = Inl (PlainError ''EXECUTION_RESUME_UNAVAILABLE'')"
proof -
  have "\<not> isCheckpointIntact (\<lambda>_. None) interrupted_store (hd (handles interrupted_store))"
    by code_simp
  then obtain st' where op: "prepare_op 30000 9 (\<lambda>_. None) (sample_input\<lparr>pi_resume := True\<rparr>) sample_caps
        WorkspacePureCompute interrupted_store
      = Inr (st', Inl (PlainError ''EXECUTION_CHECKPOINT_INTEGRITY_FAILED''))"
    by (simp add: prepare_op_def interrupted_store_def sample_input_def new_handle_def[of _ _ _ None]
        interrupt_handle_def resume_unavailable_def sample_caps_def Let_def)
  with broken_checkpoint_revoked [OF interrupted_store_ok op] show ?thesis by simp
qed

text \<open>
  Reconciliation after a restart interrupts exactly the live executions that the new process does not
  run: their handles become interrupted and lose their provider process, all others are untouched, and
  the answer lists the interrupted handles as they are stored.\<close>

theorem reconcile_interrupts_orphans:
  "\<exists>st'. reconcile_op now active st
      = Inr (st', filter (\<lambda>h. h_task_id h \<notin> set active \<and> pr_state (h_progress h) = Interrupted) (handles st'))
    \<and> length (handles st') = length (handles st) \<and> integrity st' = integrity st
    \<and> list_all2 (\<lambda>h h'. if isTerminalExecutionProgress (pr_state (h_progress h)) \<or> h_task_id h \<in> set active
        then h' = h
        else h_task_id h' = h_task_id h \<and> h_epoch h' = h_epoch h \<and> h_provider_id h' = None
          \<and> pr_state (h_progress h') = Interrupted \<and> h_checkpoint_ref h' = h_checkpoint_ref h)
      (handles st) (handles st')"
proof -
  let ?f = "\<lambda>h. if left_alone active h then h else interrupt_handle now h"
  have "map (interrupt_handle now) (filter (\<lambda>h. \<not> left_alone active h) hs)
      = filter (\<lambda>h. h_task_id h \<notin> set active \<and> pr_state (h_progress h) = Interrupted) (map ?f hs)" for hs
    by (induction hs) (auto simp: left_alone_def)
  moreover have "list_all2 (\<lambda>h h'. if isTerminalExecutionProgress (pr_state (h_progress h)) \<or> h_task_id h \<in> set active
        then h' = h
        else h_task_id h' = h_task_id h \<and> h_epoch h' = h_epoch h \<and> h_provider_id h' = None
          \<and> pr_state (h_progress h') = Interrupted \<and> h_checkpoint_ref h' = h_checkpoint_ref h)
      hs (map ?f hs)" for hs
    by (induction hs) (auto simp: left_alone_def)
  ultimately show ?thesis by (simp add: reconcile_op_def)
qed

text \<open>
  Two Tasks can share one checkpoint directory: there are different valid Task ids whose checkpoint
  path is the same at every epoch, so that capturing the second overwrites the checkpoint file of the
  first.\<close>

theorem checkpoint_paths_collide:
  "\<exists>t1 t2. t1 \<noteq> t2 \<and> id_pattern 191 t1 \<and> id_pattern 191 t2
    \<and> (\<forall>root' epoch ext. checkpoint_path root' t1 epoch ext = checkpoint_path root' t2 epoch ext)"
proof (intro exI conjI allI)
  show "''a:b'' \<noteq> ''a_b''" by simp
  show "id_pattern 191 ''a:b''" by code_simp
  show "id_pattern 191 ''a_b''" by code_simp
  have "safePathSegment ''a:b'' = safePathSegment ''a_b''" by code_simp
  then show "checkpoint_path root' ''a:b'' epoch ext = checkpoint_path root' ''a_b'' epoch ext" for root' epoch ext
    by (simp add: checkpoint_path_def)
qed

end
