(* ===== verification/Adapter.thy ===== *)
theory Adapter
  imports Workspace
begin

text \<open>
  The Callable Adapter contract (\<open>core/callability/adapter.ts\<close>) and the Agent readiness projection
  (\<open>core/callability/types.ts\<close>). The TypeScript interfaces are records whose fields keep the checks of
  the code meaningful: a content mode and a kind are strings, a number that the code tests with
  \<open>Number.isInteger\<close> is a \<open>jsnum\<close>, an optional field is an \<open>option\<close>. The operating system, which
  \<open>currentLocalPathPlatform\<close> reads from the process, is an argument.
\<close>

section \<open>Limits\<close>

definition max_task_input_text_bytes :: int where "max_task_input_text_bytes = 24 * 1024"
definition max_task_image_parts :: nat where "max_task_image_parts = 4"
definition max_task_artifact_text_bytes :: int where "max_task_artifact_text_bytes = 56 * 1024"

definition minimum_timeout_ms :: int where "minimum_timeout_ms = 10"
definition maximum_timeout_ms :: int where "maximum_timeout_ms = 15 * 60 * 1000"
definition maximum_cancel_grace_ms :: int where "maximum_cancel_grace_ms = 5000"
definition minimum_output_bytes :: int where "minimum_output_bytes = 1024"
definition maximum_output_bytes :: int where "maximum_output_bytes = 4 * 1024 * 1024"
definition maximum_args :: nat where "maximum_args = 64"
definition maximum_arg_bytes :: int where "maximum_arg_bytes = 2 * 1024"
definition maximum_environment_entries :: nat where "maximum_environment_entries = 32"
definition maximum_environment_value_bytes :: int where "maximum_environment_value_bytes = 8 * 1024"

lemmas adapter_limits = minimum_timeout_ms_def maximum_timeout_ms_def maximum_cancel_grace_ms_def
  minimum_output_bytes_def maximum_output_bytes_def maximum_args_def maximum_arg_bytes_def
  maximum_environment_entries_def maximum_environment_value_bytes_def max_task_input_text_bytes_def
  max_task_image_parts_def max_task_artifact_text_bytes_def

section \<open>Data\<close>

datatype adapter_task_state = TSubmitted | TWorking | TCompleted | TFailed | TCanceled

fun task_state_string :: "adapter_task_state \<Rightarrow> string" where
  "task_state_string TSubmitted = ''submitted''"
| "task_state_string TWorking = ''working''"
| "task_state_string TCompleted = ''completed''"
| "task_state_string TFailed = ''failed''"
| "task_state_string TCanceled = ''canceled''"

datatype adapter_error_code =
    ADAPTER_PREPARE_FAILED | ADAPTER_LAUNCH_FAILED | ADAPTER_EXIT_NONZERO | ADAPTER_TIMEOUT
  | ADAPTER_CANCELED | ADAPTER_OUTPUT_LIMIT | ADAPTER_OUTPUT_INVALID | ADAPTER_AUTH_REQUIRED
  | ADAPTER_UPSTREAM_FAILED | ADAPTER_RUNTIME_UNAVAILABLE | ADAPTER_RUNTIME_UNTRUSTED
  | ADAPTER_RUNTIME_BUSY | ADAPTER_MODEL_UNAVAILABLE | ADAPTER_MODEL_LOAD_FAILED
  | ADAPTER_INSUFFICIENT_MEMORY | ADAPTER_STREAM_INVALID | ADAPTER_IMAGE_RESULT_MISSING
  | ADAPTER_IMAGE_RESULT_NOT_READY | ADAPTER_IMAGE_RESULT_INVALID | ADAPTER_IMAGE_SERVER_EXITED
  | ADAPTER_IMAGE_GENERATION_TIMEOUT | ADAPTER_IMAGE_PROTOCOL_LIMIT | ADAPTER_WORKSPACE_CONFLICT
  | ADAPTER_WORKSPACE_INVALID | ADAPTER_TASK_EXPIRED | ADAPTER_RUNTIME_SHUTDOWN | ADAPTER_INTERNAL_ERROR

record adapter_descriptor =
  ad_contract_version :: int
  ad_adapter_id :: string
  ad_adapter_revision :: jsnum
  ad_agent_id :: string
  ad_capability_ids :: "string list"
  ad_input_mode :: "string option"
  ad_output_mode :: "string option"
  ad_input_modes :: "string list option"
  ad_output_modes :: "string list option"
  ad_timeout_ms :: jsnum
  ad_cancel_grace_ms :: jsnum
  ad_max_output_bytes :: jsnum

record image_input =
  im_attachment_id :: string
  im_mime_type :: string
  im_path :: string

record adapter_request =
  ar_schema_version :: int
  ar_task_id :: string
  ar_adapter_id :: string
  ar_agent_id :: string
  ar_capability_id :: string
  ar_input_kind :: string
  ar_input_text :: string
  ar_input_images :: "image_input list option"
  ar_created_at :: string

record launch_spec =
  ls_executable :: string
  ls_args :: "string list"
  ls_environment :: "(string \<times> string) list option"

section \<open>Checks\<close>

definition adapter_safeSlug :: "string \<Rightarrow> string \<Rightarrow> error option" where
  "adapter_safeSlug s label = throw_if (128 < length s \<or> \<not> slug_pattern s)
     (AdapterContractError ''ADAPTER_IDENTIFIER'' (''Callable Adapter '' @ label @ '' is invalid.''))"

definition integerInRange :: "jsnum \<Rightarrow> int \<Rightarrow> int \<Rightarrow> string \<Rightarrow> error option" where
  "integerInRange n lo hi label = throw_if (\<not> num_is_integer n \<or> num_int n < lo \<or> hi < num_int n)
     (AdapterContractError ''ADAPTER_LIMIT'' (''Callable Adapter '' @ label @ '' is outside the allowed range.''))"

text \<open>\<open>/^[A-Z_][A-Z0-9_]*$/\<close>\<close>

definition environment_name_pattern :: "string \<Rightarrow> bool" where
  "environment_name_pattern s =
     (case s of [] \<Rightarrow> False
      | c # cs \<Rightarrow> (is_upper c \<or> c = CHR ''_'') \<and> list_all (\<lambda>d. is_upper d \<or> is_digit d \<or> d = CHR ''_'') cs)"

definition mode_error :: "string \<Rightarrow> error" where
  "mode_error message = AdapterContractError ''ADAPTER_CONTENT_MODE'' message"

definition descriptorModes :: "int \<Rightarrow> string option \<Rightarrow> string list option \<Rightarrow> string list result" where
  "descriptorModes version single values =
     (if version = 1
      then (if single \<noteq> Some ''text'' then Inl (mode_error ''Callable Adapter v1 must be text-only.'')
            else Inr [''text''])
      else (case values of
          None \<Rightarrow> Inl (mode_error ''Callable Adapter content modes are invalid.'')
        | Some vs \<Rightarrow>
            (if vs = [] \<or> 2 < length vs \<or> \<not> distinct vs
                \<or> list_ex (\<lambda>m. m \<noteq> ''text'' \<and> m \<noteq> ''image'') vs
             then Inl (mode_error ''Callable Adapter content modes are invalid.'')
             else Inr vs)))"

definition callableAdapterInputModes :: "adapter_descriptor \<Rightarrow> string list result" where
  "callableAdapterInputModes d = descriptorModes (ad_contract_version d) (ad_input_mode d) (ad_input_modes d)"

definition callableAdapterOutputModes :: "adapter_descriptor \<Rightarrow> string list result" where
  "callableAdapterOutputModes d = descriptorModes (ad_contract_version d) (ad_output_mode d) (ad_output_modes d)"

text \<open>A check of a value that may itself throw.\<close>

definition check_result :: "'a result \<Rightarrow> ('a \<Rightarrow> error option) \<Rightarrow> error option" where
  "check_result m f = (case m of Inl e \<Rightarrow> Some e | Inr x \<Rightarrow> f x)"

definition validateCallableAdapterDescriptor :: "adapter_descriptor \<Rightarrow> error option" where
  "validateCallableAdapterDescriptor d = first_err
     [throw_if (ad_contract_version d \<noteq> 1 \<and> ad_contract_version d \<noteq> 2)
        (AdapterContractError ''ADAPTER_CONTRACT_VERSION'' ''Unsupported Callable Adapter contract version.''),
      adapter_safeSlug (ad_adapter_id d) ''adapterId'',
      adapter_safeSlug (ad_agent_id d) ''agentId'',
      throw_if (\<not> num_is_integer (ad_adapter_revision d) \<or> num_int (ad_adapter_revision d) \<le> 0)
        (AdapterContractError ''ADAPTER_REVISION'' ''Callable Adapter revision must be positive.''),
      throw_if (ad_capability_ids d = [] \<or> 32 < length (ad_capability_ids d))
        (AdapterContractError ''ADAPTER_CAPABILITIES'' ''Callable Adapter capabilities are invalid.''),
      throw_if (\<not> distinct (ad_capability_ids d))
        (AdapterContractError ''ADAPTER_CAPABILITIES'' ''Callable Adapter capabilities must be unique.''),
      first_err (map (\<lambda>c. adapter_safeSlug c ''capabilityId'') (ad_capability_ids d)),
      check_result (callableAdapterInputModes d) (\<lambda>inputModes.
        check_result (callableAdapterOutputModes d) (\<lambda>outputModes.
          throw_if (''text'' \<notin> set inputModes \<or> ''text'' \<notin> set outputModes)
            (mode_error ''Callable Adapters must support bounded text.''))),
      integerInRange (ad_timeout_ms d) minimum_timeout_ms maximum_timeout_ms ''timeoutMs'',
      integerInRange (ad_cancel_grace_ms d) 0 maximum_cancel_grace_ms ''cancelGraceMs'',
      integerInRange (ad_max_output_bytes d) minimum_output_bytes maximum_output_bytes ''maxOutputBytes'']"

definition task_input_error :: "string \<Rightarrow> error" where
  "task_input_error message = AdapterContractError ''ADAPTER_TASK_INPUT'' message"

fun validate_images :: "local_platform \<Rightarrow> string list \<Rightarrow> image_input list \<Rightarrow> error option" where
  "validate_images platform seen [] = None"
| "validate_images platform seen (im # ims) = first_err
     [throw_if (\<not> id_pattern 127 (im_attachment_id im)
          \<or> (im_mime_type im \<noteq> ''image/jpeg'' \<and> im_mime_type im \<noteq> ''image/png'')
          \<or> \<not> isSafeAbsoluteLocalPath (JStr (im_path im)) platform
          \<or> im_attachment_id im \<in> set seen)
        (task_input_error ''Local Adapter task image is invalid.''),
      validate_images platform (im_attachment_id im # seen) ims]"

definition request_images :: "adapter_request \<Rightarrow> image_input list" where
  "request_images r = (case ar_input_images r of None \<Rightarrow> [] | Some ims \<Rightarrow> ims)"

definition validateCallableAdapterTaskRequest ::
  "adapter_request \<Rightarrow> adapter_descriptor \<Rightarrow> local_platform \<Rightarrow> error option" where
  "validateCallableAdapterTaskRequest r d platform = first_err
     [throw_if (ar_schema_version r \<noteq> 1 \<and> ar_schema_version r \<noteq> 2)
        (AdapterContractError ''ADAPTER_TASK_VERSION'' ''Unsupported local Adapter task version.''),
      throw_if (\<not> id_pattern 127 (ar_task_id r))
        (AdapterContractError ''ADAPTER_TASK_ID'' ''Local Adapter task ID is invalid.''),
      throw_if (ar_adapter_id r \<noteq> ad_adapter_id d \<or> ar_agent_id r \<noteq> ad_agent_id d)
        (AdapterContractError ''ADAPTER_TASK_TARGET'' ''Local Adapter task target does not match its Adapter.''),
      throw_if (ar_capability_id r \<notin> set (ad_capability_ids d))
        (AdapterContractError ''ADAPTER_TASK_CAPABILITY'' ''Local Adapter task capability is not supported.''),
      throw_if ((ar_input_kind r \<noteq> ''text'' \<and> ar_input_kind r \<noteq> ''parts'') \<or> trim (ar_input_text r) = [])
        (task_input_error ''Local Adapter task requires non-empty text input.''),
      throw_if (max_task_input_text_bytes < utf8_size (ar_input_text r))
        (task_input_error ''Local Adapter task input exceeds the allowed size.''),
      throw_if (max_task_image_parts < length (request_images r))
        (task_input_error ''Local Adapter task images are invalid.''),
      throw_if (ar_schema_version r = 1 \<and> (ar_input_kind r \<noteq> ''text'' \<or> request_images r \<noteq> []))
        (task_input_error ''Local Adapter task v1 is text-only.''),
      (if request_images r \<noteq> []
       then check_result (callableAdapterInputModes d) (\<lambda>modes. throw_if (''image'' \<notin> set modes)
         (task_input_error ''Local Adapter does not accept image input.''))
       else None),
      validate_images platform [] (request_images r),
      throw_if (trim (ar_created_at r) = [] \<or> \<not> valid_date (ar_created_at r))
        (AdapterContractError ''ADAPTER_TASK_TIMESTAMP'' ''Local Adapter task timestamp is invalid.'')]"

definition validateCallableAdapterLaunchSpec ::
  "launch_spec \<Rightarrow> string option \<Rightarrow> local_platform \<Rightarrow> error option" where
  "validateCallableAdapterLaunchSpec s expectedEntrypoint platform = first_err
     [throw_if (\<not> isSafeAbsoluteLocalPath (JStr (ls_executable s)) platform)
        (AdapterContractError ''ADAPTER_EXECUTABLE'' ''Callable Adapter executable must be an absolute local path.''),
      throw_if (expectedEntrypoint \<noteq> None \<and> Some (ls_executable s) \<noteq> expectedEntrypoint)
        (AdapterContractError ''ADAPTER_EXECUTABLE'' ''Callable Adapter executable does not match its fixed entrypoint.''),
      throw_if (maximum_args < length (ls_args s))
        (AdapterContractError ''ADAPTER_ARGS'' ''Callable Adapter arguments exceed the allowed count.''),
      first_err (map (\<lambda>a. throw_if (list_ex (\<lambda>c. cu c = 0) a \<or> maximum_arg_bytes < utf8_size a)
        (AdapterContractError ''ADAPTER_ARGS'' ''Callable Adapter argument is invalid.'')) (ls_args s)),
      (let entries = (case ls_environment s of None \<Rightarrow> [] | Some es \<Rightarrow> es) in first_err
        [throw_if (maximum_environment_entries < length entries)
           (AdapterContractError ''ADAPTER_ENVIRONMENT'' ''Callable Adapter environment exceeds the allowed count.''),
         first_err (map (\<lambda>(name, v). throw_if (\<not> environment_name_pattern name \<or> list_ex (\<lambda>c. cu c = 0) v
             \<or> maximum_environment_value_bytes < utf8_size v)
           (AdapterContractError ''ADAPTER_ENVIRONMENT'' ''Callable Adapter environment entry is invalid.'')) entries)])]"

definition validateCallableAdapterArtifactText :: "json \<Rightarrow> error option" where
  "validateCallableAdapterArtifactText v = first_err
     [throw_if (\<not> is_string v \<or> trim (str_of v) = [])
        (AdapterContractError ''ADAPTER_ARTIFACT'' ''Callable Adapter Artifact must contain text.''),
      throw_if (max_task_artifact_text_bytes < utf8_size (str_of v))
        (AdapterContractError ''ADAPTER_ARTIFACT'' ''Callable Adapter Artifact exceeds the allowed size.'')]"

section \<open>The readiness projection\<close>

record adapter_readiness =
  rd_schema_version :: int
  rd_agent_id :: string
  rd_adapter_id :: string
  rd_adapter_revision :: jsnum
  rd_state :: string
  rd_capability_ids :: "string list"
  rd_input_modes :: "string list"
  rd_output_modes :: "string list"
  rd_checked_at :: string
  rd_reason_code :: "string option"

record callable_agent =
  ca_agent_id :: string
  ca_adapter_id :: string
  ca_adapter_revision :: jsnum
  ca_capability_ids :: "string list"
  ca_input_modes :: "string list"
  ca_output_modes :: "string list"
  ca_ready_at :: string

definition uniqueSafeIds :: "string list \<Rightarrow> string list option" where
  "uniqueSafeIds values =
     (if 32 < length values then None
      else if \<not> distinct values \<or> list_ex (\<lambda>v. \<not> slug_pattern v) values then None
      else Some values)"

text \<open>The comparator of the sort: \<open>text\<close> comes first, other modes are compared as strings.\<close>

definition mode_le :: "string \<Rightarrow> string \<Rightarrow> bool" where
  "mode_le l r = (if l = ''text'' then True else if r = ''text'' then False else str_le l r)"

definition safeModes :: "string list \<Rightarrow> bool \<Rightarrow> string list option" where
  "safeModes values requireText =
     (if values = [] \<or> 2 < length values then None
      else if \<not> distinct values \<or> list_ex (\<lambda>v. v \<noteq> ''text'' \<and> v \<noteq> ''image'') values
         \<or> (requireText \<and> ''text'' \<notin> set values) then None
      else Some (sort_by mode_le values))"

definition isIsoTimestamp :: "string \<Rightarrow> bool" where
  "isIsoTimestamp s \<longleftrightarrow> trim s \<noteq> [] \<and> valid_date s"

definition projectCallableAgent :: "adapter_readiness \<Rightarrow> callable_agent option" where
  "projectCallableAgent r =
     (if rd_schema_version r \<noteq> 1 then None
      else if rd_state r \<noteq> ''ready'' then None
      else if \<not> slug_pattern (rd_agent_id r) \<or> \<not> slug_pattern (rd_adapter_id r)
        \<or> \<not> num_is_integer (rd_adapter_revision r) \<or> num_int (rd_adapter_revision r) \<le> 0 then None
      else case uniqueSafeIds (rd_capability_ids r) of
          None \<Rightarrow> None
        | Some capabilityIds \<Rightarrow>
            if capabilityIds = [] then None
            else case (safeModes (rd_input_modes r) True, safeModes (rd_output_modes r) True) of
                (Some inputModes, Some outputModes) \<Rightarrow>
                  if \<not> isIsoTimestamp (rd_checked_at r) then None
                  else Some \<lparr>ca_agent_id = rd_agent_id r, ca_adapter_id = rd_adapter_id r,
                    ca_adapter_revision = rd_adapter_revision r, ca_capability_ids = capabilityIds,
                    ca_input_modes = inputModes, ca_output_modes = outputModes, ca_ready_at = rd_checked_at r\<rparr>
              | _ \<Rightarrow> None)"

section \<open>Lemmas\<close>

lemma check_result_None [valid_simps]: "check_result m f = None \<longleftrightarrow> (\<exists>x. m = Inr x \<and> f x = None)"
  by (cases m) (simp_all add: check_result_def)

lemma adapter_safeSlug_None [valid_simps]: "adapter_safeSlug s l = None \<longleftrightarrow> length s \<le> 128 \<and> slug_pattern s"
  by (auto simp: adapter_safeSlug_def throw_if_def)

lemma integerInRange_None [valid_simps]:
  "integerInRange n lo hi l = None \<longleftrightarrow> (\<exists>i. n = NInt i \<and> lo \<le> i \<and> i \<le> hi)"
  by (cases n) (auto simp: integerInRange_def throw_if_def)

lemma list_ex_neither: "list_ex (\<lambda>m. m \<noteq> a \<and> m \<noteq> b) vs \<longleftrightarrow> \<not> set vs \<subseteq> {a, b}"
  by (auto simp: list_ex_iff)

lemma descriptorModes_Inr:
  "descriptorModes v s vs = Inr ms \<longleftrightarrow>
     (if v = 1 then s = Some ''text'' \<and> ms = [''text'']
      else vs = Some ms \<and> ms \<noteq> [] \<and> length ms \<le> 2 \<and> distinct ms \<and> set ms \<subseteq> {''text'', ''image''})"
  by (cases vs; cases "s = Some ''text''")
    (auto simp: descriptorModes_def list_ex_neither simp del: insert_subset)

lemma validate_images_None:
  "validate_images pl seen ims = None \<longleftrightarrow>
     (\<forall>im\<in>set ims. id_pattern 127 (im_attachment_id im)
        \<and> im_mime_type im \<in> {''image/jpeg'', ''image/png''}
        \<and> isSafeAbsoluteLocalPath (JStr (im_path im)) pl)
     \<and> distinct (map im_attachment_id ims) \<and> im_attachment_id ` set ims \<inter> set seen = {}"
proof (induction ims arbitrary: seen)
  case (Cons im ims)
  then show ?case by (simp add: valid_simps) blast
qed simp

lemma modes_perm:
  assumes "length ms \<le> 2" and "distinct ms" and "set ms \<subseteq> {''text'', ''image''}" and "''text'' \<in> set ms"
  shows "ms = [''text''] \<or> ms = [''text'', ''image''] \<or> ms = [''image'', ''text'']"
proof (cases ms)
  case Nil
  with assms show ?thesis by simp
next
  case (Cons a as)
  show ?thesis
  proof (cases as)
    case Nil
    with Cons assms show ?thesis by simp
  next
    case (Cons b bs)
    with \<open>ms = a # as\<close> assms(1) have "ms = [a, b]" by simp
    moreover have "a = ''text'' \<or> a = ''image''" "b = ''text'' \<or> b = ''image''"
      using assms(3) calculation by simp_all
    ultimately show ?thesis using assms(2,4) by auto
  qed
qed

lemma sort_modes:
  "sort_by mode_le [''text''] = [''text'']"
  "sort_by mode_le [''text'', ''image''] = [''text'', ''image'']"
  "sort_by mode_le [''image'', ''text''] = [''text'', ''image'']"
  by code_simp+

lemma safeModes_Some:
  assumes "safeModes vs True = Some ms"
  shows "set ms = set vs \<and> (ms = [''text''] \<or> ms = [''text'', ''image''])"
proof -
  have vs: "length vs \<le> 2" "distinct vs" "set vs \<subseteq> {''text'', ''image''}" "''text'' \<in> set vs" "ms = sort_by mode_le vs"
    using assms by (auto simp: safeModes_def list_ex_iff split: if_splits)
  show ?thesis using modes_perm [OF vs(1-4)] sort_modes vs(5) by auto
qed

section \<open>Properties\<close>

text \<open>
  An accepted local task stays within what its accepted Adapter declared: its Adapter, Agent and
  capability are safe slugs of the descriptor, its text has a visible character and at most 24 KiB,
  and it carries images only when the descriptor declares the image mode: at most four, with
  different ids and safe absolute paths.\<close>

theorem accepted_task_within_descriptor:
  assumes "validateCallableAdapterDescriptor d = None"
    and "validateCallableAdapterTaskRequest r d platform = None"
  shows "slug_pattern (ar_adapter_id r) \<and> slug_pattern (ar_agent_id r) \<and> slug_pattern (ar_capability_id r)
    \<and> \<not> list_all is_space (ar_input_text r) \<and> utf8_size (ar_input_text r) \<le> 24 * 1024
    \<and> length (request_images r) \<le> 4 \<and> distinct (map im_attachment_id (request_images r))
    \<and> (\<forall>im\<in>set (request_images r). isSafeAbsoluteLocalPath (JStr (im_path im)) platform)
    \<and> (request_images r \<noteq> [] \<longrightarrow> ar_schema_version r = 2 \<and> ad_contract_version d = 2
        \<and> (\<exists>ms. ad_input_modes d = Some ms \<and> set ms = {''text'', ''image''}))"
proof -
  have d: "slug_pattern (ad_adapter_id d)" "slug_pattern (ad_agent_id d)"
    "\<forall>c\<in>set (ad_capability_ids d). slug_pattern c"
    "\<exists>ms. callableAdapterInputModes d = Inr ms \<and> ''text'' \<in> set ms" "ad_contract_version d \<in> {1, 2}"
    using assms(1) by (auto simp: validateCallableAdapterDescriptor_def valid_simps first_err_None)
  have r: "ar_adapter_id r = ad_adapter_id d" "ar_agent_id r = ad_agent_id d"
    "ar_capability_id r \<in> set (ad_capability_ids d)" "trim (ar_input_text r) \<noteq> []"
    "utf8_size (ar_input_text r) \<le> max_task_input_text_bytes"
    "length (request_images r) \<le> max_task_image_parts"
    "ar_schema_version r \<in> {1, 2}" "ar_schema_version r = 1 \<longrightarrow> request_images r = []"
    "request_images r \<noteq> [] \<longrightarrow> (\<exists>ms. callableAdapterInputModes d = Inr ms \<and> ''image'' \<in> set ms)"
    "validate_images platform [] (request_images r) = None"
    using assms(2) unfolding validateCallableAdapterTaskRequest_def
    by (auto simp: valid_simps split: if_splits)
  have "ad_contract_version d = 2 \<and> (\<exists>ms. ad_input_modes d = Some ms \<and> set ms = {''text'', ''image''})"
    if "request_images r \<noteq> []"
  proof -
    from d(4) obtain ms where ms: "callableAdapterInputModes d = Inr ms" "''text'' \<in> set ms" by blast
    with that r(9) have im: "''image'' \<in> set ms" by simp
    have "ad_contract_version d \<noteq> 1"
      using ms(1) im unfolding callableAdapterInputModes_def descriptorModes_Inr by auto
    then have "ad_input_modes d = Some ms" "set ms \<subseteq> {''text'', ''image''}"
      using ms(1) unfolding callableAdapterInputModes_def descriptorModes_Inr by simp_all
    with ms(2) im d(5) \<open>ad_contract_version d \<noteq> 1\<close> show ?thesis by blast
  qed
  then show ?thesis
    using d r by (auto simp: trim_eq_Nil validate_images_None adapter_limits)
qed

definition sample_descriptor :: adapter_descriptor where
  "sample_descriptor = \<lparr>ad_contract_version = 2, ad_adapter_id = ''codex.cli'', ad_adapter_revision = NInt 1,
     ad_agent_id = ''codex'', ad_capability_ids = [''general-text-assistance''], ad_input_mode = None,
     ad_output_mode = None, ad_input_modes = Some [''text'', ''image''], ad_output_modes = Some [''text''],
     ad_timeout_ms = NInt 60000, ad_cancel_grace_ms = NInt 500, ad_max_output_bytes = NInt 65536\<rparr>"

definition sample_request :: adapter_request where
  "sample_request = \<lparr>ar_schema_version = 2, ar_task_id = ''task-1'', ar_adapter_id = ''codex.cli'',
     ar_agent_id = ''codex'', ar_capability_id = ''general-text-assistance'', ar_input_kind = ''parts'',
     ar_input_text = ''hello'', ar_input_images = Some [\<lparr>im_attachment_id = ''a1'',
       im_mime_type = ''image/png'', im_path = ''/tmp/a.png''\<rparr>],
     ar_created_at = ''2026-01-01T00:00:00.000Z''\<rparr>"

theorem accepted_task_within_descriptor_witness:
  "request_images sample_request \<noteq> [] \<and> length (request_images sample_request) \<le> 4
   \<and> isSafeAbsoluteLocalPath (JStr ''/tmp/a.png'') Macos"
proof -
  have "validateCallableAdapterDescriptor sample_descriptor = None" by code_simp
  moreover have "validateCallableAdapterTaskRequest sample_request sample_descriptor Macos = None" by code_simp
  ultimately show ?thesis
    using accepted_task_within_descriptor [of sample_descriptor sample_request Macos]
    by (simp add: sample_request_def request_images_def)
qed

text \<open>
  The Passport projection is fail-closed and canonical: a readiness record is projected only in state
  \<open>ready\<close>, and then carries the record's own ids, at most 32 different slugs as capabilities, a positive
  revision, and the same content modes in the canonical order, text first; nothing else of the record
  (the reason code in particular) reaches the projection.\<close>

theorem projection_fail_closed:
  "projectCallableAgent (r\<lparr>rd_reason_code := c\<rparr>) = projectCallableAgent r
   \<and> (case projectCallableAgent r of
        None \<Rightarrow> True
      | Some a \<Rightarrow> rd_state r = ''ready'' \<and> ca_agent_id a = rd_agent_id r \<and> ca_adapter_id a = rd_adapter_id r
          \<and> slug_pattern (ca_agent_id a) \<and> slug_pattern (ca_adapter_id a)
          \<and> (\<exists>n. ca_adapter_revision a = NInt n \<and> 0 < n)
          \<and> ca_capability_ids a = rd_capability_ids r \<and> distinct (ca_capability_ids a)
          \<and> 1 \<le> length (ca_capability_ids a) \<and> length (ca_capability_ids a) \<le> 32
          \<and> list_all slug_pattern (ca_capability_ids a)
          \<and> ca_input_modes a \<in> {[''text''], [''text'', ''image'']} \<and> set (ca_input_modes a) = set (rd_input_modes r)
          \<and> ca_output_modes a \<in> {[''text''], [''text'', ''image'']} \<and> set (ca_output_modes a) = set (rd_output_modes r)
          \<and> valid_date (ca_ready_at a))"
proof (intro conjI)
  show "projectCallableAgent (r\<lparr>rd_reason_code := c\<rparr>) = projectCallableAgent r"
    by (simp add: projectCallableAgent_def split: option.split)
  show "case projectCallableAgent r of
        None \<Rightarrow> True
      | Some a \<Rightarrow> rd_state r = ''ready'' \<and> ca_agent_id a = rd_agent_id r \<and> ca_adapter_id a = rd_adapter_id r
          \<and> slug_pattern (ca_agent_id a) \<and> slug_pattern (ca_adapter_id a)
          \<and> (\<exists>n. ca_adapter_revision a = NInt n \<and> 0 < n)
          \<and> ca_capability_ids a = rd_capability_ids r \<and> distinct (ca_capability_ids a)
          \<and> 1 \<le> length (ca_capability_ids a) \<and> length (ca_capability_ids a) \<le> 32
          \<and> list_all slug_pattern (ca_capability_ids a)
          \<and> ca_input_modes a \<in> {[''text''], [''text'', ''image'']} \<and> set (ca_input_modes a) = set (rd_input_modes r)
          \<and> ca_output_modes a \<in> {[''text''], [''text'', ''image'']} \<and> set (ca_output_modes a) = set (rd_output_modes r)
          \<and> valid_date (ca_ready_at a)"
  proof (cases "projectCallableAgent r")
    case (Some a)
    obtain n where n: "rd_adapter_revision r = NInt n" "0 < n"
      using Some by (cases "rd_adapter_revision r") (auto simp: projectCallableAgent_def split: if_splits)
    obtain im om where modes: "safeModes (rd_input_modes r) True = Some im" "safeModes (rd_output_modes r) True = Some om"
      "ca_input_modes a = im" "ca_output_modes a = om"
      using Some by (auto simp: projectCallableAgent_def split: if_splits option.splits)
    have "uniqueSafeIds (rd_capability_ids r) = Some (ca_capability_ids a)" "ca_capability_ids a \<noteq> []"
      "rd_state r = ''ready''" "ca_agent_id a = rd_agent_id r" "ca_adapter_id a = rd_adapter_id r"
      "slug_pattern (rd_agent_id r)" "slug_pattern (rd_adapter_id r)" "ca_adapter_revision a = rd_adapter_revision r"
      "valid_date (ca_ready_at a)"
      using Some by (auto simp: projectCallableAgent_def isIsoTimestamp_def split: if_splits option.splits)
    then show ?thesis
      using Some n modes safeModes_Some [OF modes(1)] safeModes_Some [OF modes(2)]
      by (auto simp: uniqueSafeIds_def list_all_iff list_ex_iff Suc_le_eq split: if_splits)
  qed simp
qed

end
