(* ===== verification/Task_Machine.thy ===== *)
theory Task_Machine
  imports Adapter
begin

text \<open>
  The execution state machine of one local Adapter task (\<open>core/callability/task-machine.ts\<close>): the
  snapshot, the four operations as functions that return the new snapshot or the error they throw, the
  step relation they generate, and what every snapshot of a run satisfies. The clock reading of an
  operation is the argument \<open>timestamp\<close>. An image part of an artifact is the parameter type \<open>'img\<close>.
\<close>

datatype 'img task_artifact = TextArtifact string | PartsArtifact string "'img list"

record 'img task_snapshot =
  sn_task_id :: string
  sn_adapter_id :: string
  sn_agent_id :: string
  sn_capability_id :: string
  sn_state :: adapter_task_state
  sn_submitted_at :: string
  sn_updated_at :: string
  sn_started_at :: "string option"
  sn_completed_at :: "string option"
  sn_artifact :: "'img task_artifact option"
  sn_safe_error_code :: "adapter_error_code option"

fun terminal_task_state :: "adapter_task_state \<Rightarrow> bool" where
  "terminal_task_state TCompleted = True"
| "terminal_task_state TFailed = True"
| "terminal_task_state TCanceled = True"
| "terminal_task_state _ = False"

definition new_task_machine :: "adapter_request \<Rightarrow> 'img task_snapshot" where
  "new_task_machine r = \<lparr>sn_task_id = ar_task_id r, sn_adapter_id = ar_adapter_id r,
     sn_agent_id = ar_agent_id r, sn_capability_id = ar_capability_id r, sn_state = TSubmitted,
     sn_submitted_at = ar_created_at r, sn_updated_at = ar_created_at r, sn_started_at = None,
     sn_completed_at = None, sn_artifact = None, sn_safe_error_code = None\<rparr>"

definition requireState :: "adapter_task_state \<Rightarrow> 'img task_snapshot \<Rightarrow> error option" where
  "requireState expected v = throw_if (sn_state v \<noteq> expected)
     (CallableTaskStateError (''Callable task cannot transition from '' @ task_state_string (sn_state v)
        @ ''; expected '' @ task_state_string expected @ ''.''))"

definition requireNonTerminal :: "'img task_snapshot \<Rightarrow> error option" where
  "requireNonTerminal v = throw_if (terminal_task_state (sn_state v))
     (CallableTaskStateError (''Callable task '' @ sn_task_id v @ '' is already terminal.''))"

definition withoutArtifact :: "'img task_snapshot \<Rightarrow> 'img task_snapshot" where
  "withoutArtifact v = v\<lparr>sn_artifact := None\<rparr>"

definition task_start :: "string \<Rightarrow> 'img task_snapshot \<Rightarrow> 'img task_snapshot result" where
  "task_start timestamp v = guarded (requireState TSubmitted v)
     (Inr (v\<lparr>sn_state := TWorking, sn_started_at := Some timestamp, sn_updated_at := timestamp\<rparr>))"

definition task_complete :: "string \<Rightarrow> 'img task_artifact \<Rightarrow> 'img task_snapshot \<Rightarrow> 'img task_snapshot result" where
  "task_complete timestamp artifact v = guarded (requireState TWorking v)
     (Inr (v\<lparr>sn_state := TCompleted, sn_updated_at := timestamp, sn_completed_at := Some timestamp,
        sn_artifact := Some artifact\<rparr>))"

definition task_fail :: "string \<Rightarrow> adapter_error_code \<Rightarrow> 'img task_snapshot \<Rightarrow> 'img task_snapshot result" where
  "task_fail timestamp code v = guarded (requireNonTerminal v)
     (Inr ((withoutArtifact v)\<lparr>sn_state := TFailed, sn_updated_at := timestamp,
        sn_completed_at := Some timestamp, sn_safe_error_code := Some code\<rparr>))"

text \<open>\<open>cancel\<close> takes one of two codes: whether the Runtime shuts down.\<close>

definition task_cancel :: "string \<Rightarrow> bool \<Rightarrow> 'img task_snapshot \<Rightarrow> 'img task_snapshot result" where
  "task_cancel timestamp shutdown v = guarded (requireNonTerminal v)
     (Inr ((withoutArtifact v)\<lparr>sn_state := TCanceled, sn_updated_at := timestamp,
        sn_completed_at := Some timestamp,
        sn_safe_error_code := Some (if shutdown then ADAPTER_RUNTIME_SHUTDOWN else ADAPTER_CANCELED)\<rparr>))"

section \<open>Runs\<close>

inductive task_step :: "'img task_snapshot \<Rightarrow> 'img task_snapshot \<Rightarrow> bool" where
  do_start: "task_start timestamp v = Inr v' \<Longrightarrow> task_step v v'"
| do_complete: "task_complete timestamp artifact v = Inr v' \<Longrightarrow> task_step v v'"
| do_fail: "task_fail timestamp code v = Inr v' \<Longrightarrow> task_step v v'"
| do_cancel: "task_cancel timestamp shutdown v = Inr v' \<Longrightarrow> task_step v v'"

inductive_cases task_stepE: "task_step v v'"

lemmas task_ops = task_start_def task_complete_def task_fail_def task_cancel_def requireState_def
  requireNonTerminal_def withoutArtifact_def

lemma task_op_Inr:
  "task_start t v = Inr v' \<longleftrightarrow> sn_state v = TSubmitted
     \<and> v' = v\<lparr>sn_state := TWorking, sn_started_at := Some t, sn_updated_at := t\<rparr>"
  "task_complete t a v = Inr v' \<longleftrightarrow> sn_state v = TWorking
     \<and> v' = v\<lparr>sn_state := TCompleted, sn_updated_at := t, sn_completed_at := Some t, sn_artifact := Some a\<rparr>"
  "task_fail t c v = Inr v' \<longleftrightarrow> \<not> terminal_task_state (sn_state v)
     \<and> v' = v\<lparr>sn_artifact := None, sn_state := TFailed, sn_updated_at := t, sn_completed_at := Some t,
          sn_safe_error_code := Some c\<rparr>"
  "task_cancel t s v = Inr v' \<longleftrightarrow> \<not> terminal_task_state (sn_state v)
     \<and> v' = v\<lparr>sn_artifact := None, sn_state := TCanceled, sn_updated_at := t, sn_completed_at := Some t,
          sn_safe_error_code := Some (if s then ADAPTER_RUNTIME_SHUTDOWN else ADAPTER_CANCELED)\<rparr>"
  by (auto simp: task_ops throw_if_def)

definition snapshot_ok :: "adapter_request \<Rightarrow> 'img task_snapshot \<Rightarrow> bool" where
  "snapshot_ok r v \<longleftrightarrow>
     sn_task_id v = ar_task_id r \<and> sn_adapter_id v = ar_adapter_id r \<and> sn_agent_id v = ar_agent_id r
     \<and> sn_capability_id v = ar_capability_id r \<and> sn_submitted_at v = ar_created_at r
     \<and> (sn_artifact v \<noteq> None \<longleftrightarrow> sn_state v = TCompleted)
     \<and> (sn_safe_error_code v \<noteq> None \<longleftrightarrow> sn_state v \<in> {TFailed, TCanceled})
     \<and> (sn_completed_at v \<noteq> None \<longleftrightarrow> terminal_task_state (sn_state v))
     \<and> (sn_state v = TSubmitted \<longrightarrow> sn_started_at v = None)
     \<and> (sn_state v \<in> {TWorking, TCompleted} \<longrightarrow> sn_started_at v \<noteq> None)
     \<and> (sn_completed_at v \<noteq> None \<longrightarrow> sn_completed_at v = Some (sn_updated_at v))"

lemma snapshot_ok_step: "task_step v v' \<Longrightarrow> snapshot_ok r v \<Longrightarrow> snapshot_ok r v'"
  by (erule task_stepE) (auto simp: task_op_Inr snapshot_ok_def)

lemma snapshot_ok_reachable: "task_step\<^sup>*\<^sup>* v v' \<Longrightarrow> snapshot_ok r v \<Longrightarrow> snapshot_ok r v'"
  by (induction rule: rtranclp_induct) (auto intro: snapshot_ok_step)

text \<open>The measure of a state: how many transitions may still follow it.\<close>

fun steps_left :: "adapter_task_state \<Rightarrow> nat" where
  "steps_left TSubmitted = 2"
| "steps_left TWorking = 1"
| "steps_left _ = 0"

lemma task_step_decreases: "task_step v v' \<Longrightarrow> steps_left (sn_state v') < steps_left (sn_state v)"
  by (erule task_stepE) (cases "sn_state v"; auto simp: task_op_Inr)+

section \<open>Properties\<close>

text \<open>
  Whatever operations run, in whatever order, a task keeps its identity and its snapshot is
  consistent: it has an artifact exactly when it completed, an error code exactly when it failed or
  was cancelled, an end time exactly when it is over, and a completed task has been started.\<close>

theorem task_snapshot_consistent:
  assumes "task_step\<^sup>*\<^sup>* (new_task_machine r) v"
  shows "sn_task_id v = ar_task_id r \<and> sn_adapter_id v = ar_adapter_id r
    \<and> sn_capability_id v = ar_capability_id r \<and> sn_submitted_at v = ar_created_at r
    \<and> (sn_artifact v \<noteq> None \<longleftrightarrow> sn_state v = TCompleted)
    \<and> (sn_safe_error_code v \<noteq> None \<longleftrightarrow> sn_state v \<in> {TFailed, TCanceled})
    \<and> (sn_completed_at v \<noteq> None \<longleftrightarrow> terminal_task_state (sn_state v))
    \<and> (sn_state v = TCompleted \<longrightarrow> sn_started_at v \<noteq> None)"
proof -
  have "snapshot_ok r (new_task_machine r)" by (simp add: snapshot_ok_def new_task_machine_def)
  from snapshot_ok_reachable [OF assms this] show ?thesis by (simp add: snapshot_ok_def)
qed

definition completed_run :: "nat task_snapshot" where
  "completed_run = (new_task_machine sample_request)\<lparr>sn_state := TCompleted, sn_started_at := Some ''t1'',
     sn_updated_at := ''t2'', sn_completed_at := Some ''t2'', sn_artifact := Some (TextArtifact ''done'')\<rparr>"

theorem task_snapshot_consistent_witness:
  "task_step\<^sup>*\<^sup>* (new_task_machine sample_request) completed_run \<and> sn_artifact completed_run \<noteq> None
   \<and> sn_safe_error_code completed_run = None"
proof -
  let ?s = "(new_task_machine sample_request :: nat task_snapshot)"
  let ?w = "?s\<lparr>sn_state := TWorking, sn_started_at := Some ''t1'', sn_updated_at := ''t1''\<rparr>"
  have "task_step ?s ?w" by (rule do_start [of "''t1''"]) (simp add: task_op_Inr new_task_machine_def)
  moreover have "task_step ?w completed_run"
    by (rule do_complete [of "''t2''" "TextArtifact ''done''"])
      (simp add: task_op_Inr completed_run_def new_task_machine_def)
  ultimately have run: "task_step\<^sup>*\<^sup>* ?s completed_run" by (meson converse_rtranclp_into_rtranclp rtranclp.rtrancl_refl)
  with task_snapshot_consistent [OF run] show ?thesis by (simp add: completed_run_def)
qed

text \<open>C40:
  A finished task is final and every run is short: in a terminal state all four operations throw and
  no step is possible, and a run makes at most two transitions.\<close>

theorem task_runs_end:
  "(terminal_task_state (sn_state v) \<longleftrightarrow> (\<forall>v'. \<not> task_step v v'))
   \<and> (terminal_task_state (sn_state v) = ((\<exists>e. task_fail t c v = Inl e) \<and> (\<exists>e. task_cancel t s v = Inl e)
        \<and> (\<exists>e. task_start t v = Inl e) \<and> (\<exists>e. task_complete t a v = Inl e)))
   \<and> (\<nexists>w. (task_step ^^ 3) v w)"
proof (intro conjI)
  show "terminal_task_state (sn_state v) \<longleftrightarrow> (\<forall>v'. \<not> task_step v v')"
  proof
    assume "terminal_task_state (sn_state v)"
    then show "\<forall>v'. \<not> task_step v v'" by (cases "sn_state v") (auto dest!: task_step_decreases)
  next
    assume "\<forall>v'. \<not> task_step v v'"
    then have "\<not> task_step v (v\<lparr>sn_artifact := None, sn_state := TFailed, sn_updated_at := [],
        sn_completed_at := Some [], sn_safe_error_code := Some ADAPTER_TIMEOUT\<rparr>)" by blast
    then show "terminal_task_state (sn_state v)"
      using do_fail [of "[]" ADAPTER_TIMEOUT v] by (auto simp: task_op_Inr)
  qed
  show "terminal_task_state (sn_state v) = ((\<exists>e. task_fail t c v = Inl e) \<and> (\<exists>e. task_cancel t s v = Inl e)
        \<and> (\<exists>e. task_start t v = Inl e) \<and> (\<exists>e. task_complete t a v = Inl e))"
    by (cases "sn_state v") (auto simp: task_ops throw_if_def)
  show "\<nexists>w. (task_step ^^ 3) v w"
  proof
    assume "\<exists>w. (task_step ^^ 3) v w"
    then obtain w x y where "task_step v x" "task_step x y" "task_step y w"
      by (auto simp: numeral_3_eq_3)
    then have "steps_left (sn_state w) + 3 \<le> steps_left (sn_state v)"
      by (auto dest!: task_step_decreases)
    moreover have "steps_left (sn_state v) \<le> 2" by (cases "sn_state v") auto
    ultimately show False by simp
  qed
qed

end
