(* ===== verification/First_Launch.thy ===== *)
theory First_Launch
  imports Js_Prelude
begin

text \<open>
  The first-launch state machine (\<open>apps/desktop/src/first-launch/state-machine.ts\<close>). The account that
  events carry is the parameter type \<open>'acc\<close>; the machine reads only its display name, through the
  argument \<open>display\<close>, \<open>None\<close> when it is undefined. \<open>reduce\<close> returns the next snapshot or the
  \<open>InvalidFirstLaunchTransitionError\<close> it throws, in which case \<open>transition\<close> keeps the snapshot.
\<close>

section \<open>Data\<close>

datatype fl_state = Booting | CheckingExistingAccount | Welcome | Naming | CreatingIdentity
  | SynchronizingNetworkIdentity | Ready | Idle | RecoverableError | FatalError

fun fl_state_string :: "fl_state \<Rightarrow> string" where
  "fl_state_string Booting = ''booting''"
| "fl_state_string CheckingExistingAccount = ''checking_existing_account''"
| "fl_state_string Welcome = ''welcome''"
| "fl_state_string Naming = ''naming''"
| "fl_state_string CreatingIdentity = ''creating_identity''"
| "fl_state_string SynchronizingNetworkIdentity = ''synchronizing_network_identity''"
| "fl_state_string Ready = ''ready''"
| "fl_state_string Idle = ''idle''"
| "fl_state_string RecoverableError = ''recoverable_error''"
| "fl_state_string FatalError = ''fatal_error''"

datatype fl_phase = Preparing | ProvisioningChatmail | PersistingAccount | RegisteringIdentity
  | VerifyingAccount | Finalizing

datatype fl_error_kind = InvalidName | TemporaryAccountLoadFailure | CorruptAccount | PartialAccount
  | ChatmailProvisioningFailure | LocalPersistenceFailure | NetworkIdentityFailure
  | LoadedAccountVerificationFailure | UnknownFailure | UnrecoverableInternalState

record fl_error =
  fe_kind :: fl_error_kind
  fe_recoverable :: bool
  fe_diagnostic_code :: string
  fe_validation_reason :: "string option"

record 'acc fl_snapshot =
  fl_state :: fl_state
  fl_name_input :: string
  fl_submitting :: bool
  fl_phase :: "fl_phase option"
  fl_account :: "'acc option"
  fl_error :: "fl_error option"

datatype 'acc fl_event =
    StartCheck
  | NoAccount
  | AccountLoaded 'acc
  | AccountRegistrationPending 'acc fl_error
  | LoadFailed fl_error
  | ShowNaming
  | UpdateName string
  | SubmitName string
  | CreationPhase fl_phase
  | CreationSucceeded 'acc
  | CreationFailed fl_error "'acc option"
  | RegistrationRetryStarted
  | RegistrationRetrySucceeded 'acc
  | RegistrationRetryFailed fl_error
  | CollapseToIdle
  | Fatal fl_error

fun fl_event_type :: "'acc fl_event \<Rightarrow> string" where
  "fl_event_type StartCheck = ''start_check''"
| "fl_event_type NoAccount = ''no_account''"
| "fl_event_type (AccountLoaded a) = ''account_loaded''"
| "fl_event_type (AccountRegistrationPending a e) = ''account_registration_pending''"
| "fl_event_type (LoadFailed e) = ''load_failed''"
| "fl_event_type ShowNaming = ''show_naming''"
| "fl_event_type (UpdateName v) = ''update_name''"
| "fl_event_type (SubmitName v) = ''submit_name''"
| "fl_event_type (CreationPhase p) = ''creation_phase''"
| "fl_event_type (CreationSucceeded a) = ''creation_succeeded''"
| "fl_event_type (CreationFailed e a) = ''creation_failed''"
| "fl_event_type RegistrationRetryStarted = ''registration_retry_started''"
| "fl_event_type (RegistrationRetrySucceeded a) = ''registration_retry_succeeded''"
| "fl_event_type (RegistrationRetryFailed e) = ''registration_retry_failed''"
| "fl_event_type CollapseToIdle = ''collapse_to_idle''"
| "fl_event_type (Fatal e) = ''fatal''"

definition initial_snapshot :: "'acc fl_snapshot" where
  "initial_snapshot = \<lparr>fl_state = Booting, fl_name_input = [], fl_submitting = False, fl_phase = None,
     fl_account = None, fl_error = None\<rparr>"

section \<open>The reducer\<close>

text \<open>A snapshot literal that names only the state and the name.\<close>

definition plain_snapshot :: "fl_state \<Rightarrow> string \<Rightarrow> 'acc fl_snapshot" where
  "plain_snapshot s name = \<lparr>fl_state = s, fl_name_input = name, fl_submitting = False, fl_phase = None,
     fl_account = None, fl_error = None\<rparr>"

definition assertState :: "'acc fl_snapshot \<Rightarrow> 'acc fl_event \<Rightarrow> fl_state list \<Rightarrow> error option" where
  "assertState current event allowed = throw_if (fl_state current \<notin> set allowed)
     (InvalidFirstLaunchTransitionError (''Cannot apply '' @ fl_event_type event @ '' while first launch is ''
        @ fl_state_string (fl_state current) @ ''.''))"

definition nullish :: "'a option \<Rightarrow> 'a \<Rightarrow> 'a" where
  "nullish x d = (case x of None \<Rightarrow> d | Some y \<Rightarrow> y)"

fun reduce :: "('acc \<Rightarrow> string option) \<Rightarrow> 'acc fl_snapshot \<Rightarrow> 'acc fl_event \<Rightarrow> 'acc fl_snapshot result" where
  "reduce display current StartCheck = guarded (assertState current StartCheck [Booting, FatalError])
     (Inr (plain_snapshot CheckingExistingAccount (fl_name_input current)))"
| "reduce display current NoAccount = guarded (assertState current NoAccount [CheckingExistingAccount])
     (Inr (plain_snapshot Welcome (fl_name_input current)))"
| "reduce display current (AccountLoaded a) = guarded (assertState current (AccountLoaded a)
       [CheckingExistingAccount, CreatingIdentity, SynchronizingNetworkIdentity, RecoverableError])
     (Inr ((plain_snapshot Idle (nullish (display a) (fl_name_input current)))\<lparr>fl_account := Some a\<rparr>))"
| "reduce display current (AccountRegistrationPending a e) =
     guarded (assertState current (AccountRegistrationPending a e) [CheckingExistingAccount])
     (Inr ((plain_snapshot RecoverableError (nullish (display a) (fl_name_input current)))
       \<lparr>fl_account := Some a, fl_error := Some e\<rparr>))"
| "reduce display current (LoadFailed e) =
     guarded (assertState current (LoadFailed e) [CheckingExistingAccount])
     (Inr ((plain_snapshot (if fe_recoverable e then RecoverableError else FatalError) (fl_name_input current))
       \<lparr>fl_error := Some e\<rparr>))"
| "reduce display current ShowNaming = guarded (assertState current ShowNaming [Welcome, RecoverableError])
     (Inr (plain_snapshot Naming (fl_name_input current)))"
| "reduce display current (UpdateName v) =
     guarded (assertState current (UpdateName v) [Welcome, Naming, RecoverableError])
     (Inr (current\<lparr>fl_state := (if fl_state current = Welcome then Naming else fl_state current),
        fl_name_input := v,
        fl_error := (if map_option fe_kind (fl_error current) = Some InvalidName then None
                     else fl_error current)\<rparr>))"
| "reduce display current (SubmitName v) =
     guarded (assertState current (SubmitName v) [Welcome, Naming, RecoverableError])
     (Inr ((plain_snapshot CreatingIdentity v)\<lparr>fl_submitting := True, fl_phase := Some Preparing\<rparr>))"
| "reduce display current (CreationPhase p) =
     guarded (assertState current (CreationPhase p) [CreatingIdentity])
     (Inr (current\<lparr>fl_phase := Some p, fl_submitting := True\<rparr>))"
| "reduce display current (CreationSucceeded a) =
     guarded (assertState current (CreationSucceeded a) [CreatingIdentity, SynchronizingNetworkIdentity])
     (Inr ((plain_snapshot Ready (nullish (display a) (fl_name_input current)))
       \<lparr>fl_phase := Some Finalizing, fl_account := Some a\<rparr>))"
| "reduce display current (CreationFailed e a) =
     guarded (assertState current (CreationFailed e a) [Welcome, Naming, CreatingIdentity, RecoverableError])
     (Inr ((plain_snapshot (if fe_recoverable e then RecoverableError else FatalError) (fl_name_input current))
       \<lparr>fl_account := a, fl_error := Some e\<rparr>))"
| "reduce display current RegistrationRetryStarted =
     guarded (assertState current RegistrationRetryStarted [RecoverableError])
     (Inr (current\<lparr>fl_state := SynchronizingNetworkIdentity, fl_submitting := True,
        fl_phase := Some RegisteringIdentity, fl_error := None\<rparr>))"
| "reduce display current (RegistrationRetrySucceeded a) =
     guarded (assertState current (RegistrationRetrySucceeded a) [SynchronizingNetworkIdentity])
     (Inr ((plain_snapshot Ready (nullish (display a) (fl_name_input current)))
       \<lparr>fl_phase := Some Finalizing, fl_account := Some a\<rparr>))"
| "reduce display current (RegistrationRetryFailed e) =
     guarded (assertState current (RegistrationRetryFailed e) [SynchronizingNetworkIdentity])
     (Inr ((plain_snapshot RecoverableError (fl_name_input current))
       \<lparr>fl_account := fl_account current, fl_error := Some e\<rparr>))"
| "reduce display current CollapseToIdle = guarded (assertState current CollapseToIdle [Ready])
     (Inr ((plain_snapshot Idle (fl_name_input current))\<lparr>fl_account := fl_account current\<rparr>))"
| "reduce display current (Fatal e) =
     Inr ((plain_snapshot FatalError (fl_name_input current))
       \<lparr>fl_account := fl_account current, fl_error := Some e\<rparr>)"

text \<open>\<open>transition\<close>: the snapshot after the event, with the error when it was refused.\<close>

definition fl_transition ::
  "('acc \<Rightarrow> string option) \<Rightarrow> 'acc fl_snapshot \<Rightarrow> 'acc fl_event \<Rightarrow> 'acc fl_snapshot \<times> error option" where
  "fl_transition display current event =
     (case reduce display current event of Inl e \<Rightarrow> (current, Some e) | Inr s \<Rightarrow> (s, None))"

fun defaultDiagnosticCode :: "fl_error_kind \<Rightarrow> string" where
  "defaultDiagnosticCode InvalidName = ''FL-NAME''"
| "defaultDiagnosticCode TemporaryAccountLoadFailure = ''FL-LOAD''"
| "defaultDiagnosticCode CorruptAccount = ''FL-CORRUPT''"
| "defaultDiagnosticCode PartialAccount = ''FL-PARTIAL''"
| "defaultDiagnosticCode ChatmailProvisioningFailure = ''FL-CHATMAIL''"
| "defaultDiagnosticCode LocalPersistenceFailure = ''FL-PERSIST''"
| "defaultDiagnosticCode NetworkIdentityFailure = ''FL-NETWORK''"
| "defaultDiagnosticCode LoadedAccountVerificationFailure = ''FL-VERIFY''"
| "defaultDiagnosticCode UnknownFailure = ''FL-UNKNOWN''"
| "defaultDiagnosticCode UnrecoverableInternalState = ''FL-INTERNAL''"

definition createFirstLaunchError ::
  "fl_error_kind \<Rightarrow> bool option \<Rightarrow> string option \<Rightarrow> string option \<Rightarrow> fl_error" where
  "createFirstLaunchError kind recoverable code reason =
     \<lparr>fe_kind = kind, fe_recoverable = nullish recoverable True,
      fe_diagnostic_code = nullish code (defaultDiagnosticCode kind),
      fe_validation_reason = (if reason = None \<or> reason = Some [] then None else reason)\<rparr>"

section \<open>Runs\<close>

inductive fl_step :: "('acc \<Rightarrow> string option) \<Rightarrow> 'acc fl_snapshot \<Rightarrow> 'acc fl_snapshot \<Rightarrow> bool"
  for display :: "'acc \<Rightarrow> string option" where
  accepted: "reduce display s event = Inr s' \<Longrightarrow> fl_step display s s'"

inductive_cases fl_stepE: "fl_step display s s'"

definition fl_ok :: "'acc fl_snapshot \<Rightarrow> bool" where
  "fl_ok s \<longleftrightarrow>
     (fl_submitting s \<longleftrightarrow> fl_state s \<in> {CreatingIdentity, SynchronizingNetworkIdentity})
     \<and> (fl_phase s \<noteq> None \<longleftrightarrow> fl_state s \<in> {CreatingIdentity, SynchronizingNetworkIdentity, Ready})
     \<and> (fl_state s \<in> {Ready, Idle} \<longrightarrow> fl_account s \<noteq> None)
     \<and> (fl_state s = FatalError \<longrightarrow> fl_error s \<noteq> None)
     \<and> (fl_error s \<noteq> None \<longrightarrow> fl_state s \<in> {RecoverableError, FatalError})
     \<and> (fl_state s \<in> {Booting, CheckingExistingAccount, Welcome, Naming, CreatingIdentity} \<longrightarrow> fl_account s = None)"

lemmas reduce_unfold = guarded_Inr_conv assertState_def throw_if_None fl_ok_def plain_snapshot_def

lemma reduce_ok:
  assumes r: "reduce display s event = Inr s'" and ok: "fl_ok s"
  shows "fl_ok s'"
proof (cases event)
  case (UpdateName v)
  then have st: "fl_state s \<in> {Welcome, Naming, RecoverableError}" 
    and s': "s' = s\<lparr>fl_state := (if fl_state s = Welcome then Naming else fl_state s), fl_name_input := v,
        fl_error := (if map_option fe_kind (fl_error s) = Some InvalidName then None else fl_error s)\<rparr>"
    using r by (auto simp: guarded_Inr_conv assertState_def throw_if_None)
  from st show ?thesis unfolding s' by (elim insertE emptyE) (use ok in \<open>simp_all add: fl_ok_def\<close>)
next
  case (CreationPhase p)
  then show ?thesis using r ok by (clarsimp simp: reduce_unfold)
next
  case RegistrationRetryStarted
  then show ?thesis using r ok by (clarsimp simp: reduce_unfold)
next
  case (RegistrationRetryFailed e)
  then show ?thesis using r ok by (clarsimp simp: reduce_unfold)
next
  case CollapseToIdle
  then show ?thesis using r ok by (clarsimp simp: reduce_unfold)
next
  case (Fatal e)
  then show ?thesis using r ok by (clarsimp simp: reduce_unfold)
qed (use r in \<open>clarsimp simp: reduce_unfold split: if_splits\<close>)+

lemma fl_reachable_ok: "(fl_step display)\<^sup>*\<^sup>* s s' \<Longrightarrow> fl_ok s \<Longrightarrow> fl_ok s'"
  by (induction rule: rtranclp_induct) (auto elim!: fl_stepE intro: reduce_ok)

text \<open>A run of events from a snapshot; a refused event leaves the snapshot as it was.\<close>

definition fl_run :: "('acc \<Rightarrow> string option) \<Rightarrow> 'acc fl_event list \<Rightarrow> 'acc fl_snapshot \<Rightarrow> 'acc fl_snapshot" where
  "fl_run display events s = fold (\<lambda>event s. fst (fl_transition display s event)) events s"

lemma fl_run_simps [simp]:
  "fl_run display [] s = s"
  "fl_run display (e # es) s = fl_run display es (fst (fl_transition display s e))"
  by (simp_all add: fl_run_def)

lemma fl_run_reachable: "(fl_step display)\<^sup>*\<^sup>* s (fl_run display events s)"
proof (induction events arbitrary: s)
  case (Cons e es)
  show ?case
  proof (cases "reduce display s e")
    case (Inr s')
    then have "fl_step display s s'" by (rule accepted)
    with Cons.IH [of s'] Inr show ?thesis
      by (simp add: fl_transition_def converse_rtranclp_into_rtranclp)
  qed (use Cons.IH [of s] in \<open>simp add: fl_transition_def\<close>)
qed simp

text \<open>The account an event carries.\<close>

fun event_account :: "'acc fl_event \<Rightarrow> 'acc option" where
  "event_account (AccountLoaded a) = Some a"
| "event_account (AccountRegistrationPending a e) = Some a"
| "event_account (CreationSucceeded a) = Some a"
| "event_account (CreationFailed e a) = a"
| "event_account (RegistrationRetrySucceeded a) = Some a"
| "event_account _ = None"

lemma reduce_account:
  "reduce display s event = Inr s' \<Longrightarrow> fl_account s' = Some a \<Longrightarrow> fl_account s = Some a \<or> event_account event = Some a"
  by (cases event) (auto simp: guarded_Inr_conv plain_snapshot_def)

lemma run_account:
  "fl_account (fl_run display events s) = Some a \<Longrightarrow> fl_account s = Some a \<or> (\<exists>e\<in>set events. event_account e = Some a)"
proof (induction events arbitrary: s)
  case (Cons e es)
  then have "fl_account (fst (fl_transition display s e)) = Some a \<or> (\<exists>e\<in>set es. event_account e = Some a)"
    by simp
  then show ?case
    using reduce_account [of display s e] by (auto simp: fl_transition_def split: sum.splits)
qed simp

section \<open>Properties\<close>

text \<open>
  Whatever events arrive in whatever order, the first-launch snapshot is consistent: it is submitting
  exactly while an identity is created or synchronised, it has a phase exactly then and when ready, it
  is ready or idle only with an account, that account was carried by one of the events, and a fatal
  state always has its error.\<close>

theorem first_launch_consistent:
  "let s = fl_run display events initial_snapshot in
     (fl_submitting s \<longleftrightarrow> fl_state s \<in> {CreatingIdentity, SynchronizingNetworkIdentity})
     \<and> (fl_phase s \<noteq> None \<longleftrightarrow> fl_state s \<in> {CreatingIdentity, SynchronizingNetworkIdentity, Ready})
     \<and> (fl_state s \<notin> {Ready, Idle} \<or> (\<exists>e\<in>set events. fl_account s \<noteq> None \<and> fl_account s = event_account e))
     \<and> (fl_state s = FatalError \<longrightarrow> fl_error s \<noteq> None)
     \<and> (fl_state s \<in> {Welcome, Naming, CreatingIdentity} \<longrightarrow> fl_account s = None \<and> fl_error s = None)"
proof -
  let ?s = "fl_run display events initial_snapshot"
  have "fl_ok (initial_snapshot :: 'a fl_snapshot)" by (simp add: fl_ok_def initial_snapshot_def)
  from fl_reachable_ok [OF fl_run_reachable this] have ok: "fl_ok ?s" .
  have "\<exists>e\<in>set events. fl_account ?s = event_account e" if "fl_account ?s \<noteq> None"
  proof -
    from that obtain a where a: "fl_account ?s = Some a" by auto
    from run_account [OF a] obtain e where "e \<in> set events" "event_account e = Some a"
      by (auto simp: initial_snapshot_def)
    with a show ?thesis by (intro bexI [of _ e]) simp
  qed
  then have "fl_account ?s \<noteq> None \<Longrightarrow> \<exists>e\<in>set events. fl_account ?s \<noteq> None \<and> fl_account ?s = event_account e"
    by blast
  with ok show ?thesis
    unfolding fl_ok_def Let_def by (cases "fl_state ?s"; simp)
qed

theorem first_launch_consistent_witness:
  "fl_account (fl_run (\<lambda>_. None) [StartCheck, NoAccount, SubmitName ''Ada'', CreationSucceeded (7::nat), CollapseToIdle]
     initial_snapshot) = Some 7"
proof -
  let ?es = "[StartCheck, NoAccount, SubmitName ''Ada'', CreationSucceeded (7::nat), CollapseToIdle]"
  have "fl_state (fl_run (\<lambda>_. None) ?es initial_snapshot) = Idle" by code_simp
  then show ?thesis
    using first_launch_consistent [of "\<lambda>_. None" ?es] by (simp add: Let_def) (elim exE conjE; simp)
qed

text \<open>The idle state is stable and always attainable: an idle machine refuses every event but a fatal
  one and keeps its snapshot, and from every snapshot at most three accepted, non-fatal events lead to
  idle.\<close>

theorem first_launch_idle:
  "(fl_state s = Idle \<longrightarrow> ((\<forall>e. event \<noteq> Fatal e) \<longleftrightarrow> (\<exists>err. fl_transition display s event = (s, Some err))))
   \<and> (\<exists>events. length events \<le> 3 \<and> (\<forall>e. Fatal e \<notin> set events) \<and> fl_state (fl_run display events s) = Idle)"
proof (intro conjI impI)
  assume "fl_state s = Idle"
  then show "(\<forall>e. event \<noteq> Fatal e) \<longleftrightarrow> (\<exists>err. fl_transition display s event = (s, Some err))"
    by (cases event) (simp_all add: fl_transition_def assertState_def)
next
  note defs = fl_transition_def assertState_def plain_snapshot_def
  fix a :: 'a
  show "\<exists>events. length events \<le> 3 \<and> (\<forall>e. Fatal e \<notin> set events) \<and> fl_state (fl_run display events s) = Idle"
  proof (cases "fl_state s")
    case Booting
    then show ?thesis by (intro exI [of _ "[StartCheck, AccountLoaded a]"]) (simp add: defs)
  next
    case CheckingExistingAccount
    then show ?thesis by (intro exI [of _ "[AccountLoaded a]"]) (simp add: defs)
  next
    case Welcome
    then show ?thesis by (intro exI [of _ "[SubmitName [], AccountLoaded a]"]) (simp add: defs)
  next
    case Naming
    then show ?thesis by (intro exI [of _ "[SubmitName [], AccountLoaded a]"]) (simp add: defs)
  next
    case CreatingIdentity
    then show ?thesis by (intro exI [of _ "[AccountLoaded a]"]) (simp add: defs)
  next
    case SynchronizingNetworkIdentity
    then show ?thesis by (intro exI [of _ "[AccountLoaded a]"]) (simp add: defs)
  next
    case Ready
    then show ?thesis by (intro exI [of _ "[CollapseToIdle]"]) (simp add: defs)
  next
    case Idle
    then show ?thesis by (intro exI [of _ "[]"]) simp
  next
    case RecoverableError
    then show ?thesis by (intro exI [of _ "[AccountLoaded a]"]) (simp add: defs)
  next
    case FatalError
    then show ?thesis by (intro exI [of _ "[StartCheck, AccountLoaded a]"]) (simp add: defs)
  qed
qed

theorem first_launch_idle_witness:
  "fl_transition (\<lambda>_::nat. None) (fl_run (\<lambda>_. None) [StartCheck, AccountLoaded 1] initial_snapshot) StartCheck
   \<noteq> (initial_snapshot, None)
   \<and> (\<exists>err. fl_transition (\<lambda>_::nat. None) (fl_run (\<lambda>_. None) [StartCheck, AccountLoaded 1] initial_snapshot) StartCheck
       = (fl_run (\<lambda>_. None) [StartCheck, AccountLoaded 1] initial_snapshot, Some err))"
proof -
  let ?s = "fl_run (\<lambda>_::nat. None) [StartCheck, AccountLoaded 1] initial_snapshot"
  have "fl_state ?s = Idle" by code_simp
  then have "\<exists>err. fl_transition (\<lambda>_::nat. None) ?s StartCheck = (?s, Some err)"
    using first_launch_idle [of ?s StartCheck "\<lambda>_. None"] by simp
  then show ?thesis by auto
qed

end
