(* ===== verification/Delegation.thy ===== *)
theory Delegation
  imports Workspace
begin

text \<open>
  Delegation Plans (\<open>core/delegation/types.ts\<close>, \<open>planner.ts\<close>, \<open>validation.ts\<close>): the receiver-local plan
  that runs one to four Child Agent steps in order and aggregates their artifacts. The validator takes
  the \<open>unknown\<close> value as \<open>json\<close>; the deterministic planner builds the plan as the JavaScript object it
  returns. The identifiers that the planner draws from its factory are arguments.
\<close>

section \<open>Limits and data\<close>

definition maximum_child_steps :: nat where "maximum_child_steps = 4"
definition maximum_artifacts :: nat where "maximum_artifacts = 8"
definition maximum_audit_events :: nat where "maximum_audit_events = 64"
definition maximum_step_timeout_ms :: int where "maximum_step_timeout_ms = 15 * 60 * 1000"
definition maximum_input_bytes :: int where "maximum_input_bytes = 24 * 1024"
definition maximum_step_output_bytes :: int where "maximum_step_output_bytes = 56 * 1024"

lemmas delegation_limits = maximum_child_steps_def maximum_artifacts_def maximum_audit_events_def
  maximum_step_timeout_ms_def maximum_input_bytes_def maximum_step_output_bytes_def

definition host_aggregation_resource_id :: string where
  "host_aggregation_resource_id = ''teti.host.artifact-aggregation.v1''"

datatype workspace_policy = SnapshotPolicy | BoundedContext | NoWorkspace

record delegation_target =
  dt_child_agent_id :: string
  dt_connector_id :: string
  dt_capability_id :: string
  dt_resource_binding_id :: string
  dt_workspace_policy :: workspace_policy
  dt_timeout_ms :: int
  dt_max_output_bytes :: int

record plan_input =
  pl_task_id :: string
  pl_workspace_revision :: int
  pl_workspace_access :: "workspace_access list"
  pl_targets :: "delegation_target list"

section \<open>Checks\<close>

definition dl_fail :: "string \<Rightarrow> string \<Rightarrow> error" where
  "dl_fail code message = DelegationContractError code message"

definition dl_exactKeysWithOptional :: "json \<Rightarrow> string list \<Rightarrow> string list \<Rightarrow> string \<Rightarrow> error option" where
  "dl_exactKeysWithOptional v required optional label =
     throw_if (\<not> set required \<subseteq> set (keys_of v) \<or> \<not> set (keys_of v) \<subseteq> set required \<union> set optional)
       (dl_fail ''DELEGATION_CONTRACT_KEYS'' (label @ '' fields are invalid.''))"

definition dl_exactKeys :: "json \<Rightarrow> string list \<Rightarrow> string \<Rightarrow> error option" where
  "dl_exactKeys v required label = dl_exactKeysWithOptional v required [] label"

definition dl_safeId :: "json \<Rightarrow> bool" where
  "dl_safeId v \<longleftrightarrow> is_string v \<and> id_pattern 191 (str_of v)"

definition dl_safeSlug :: "json \<Rightarrow> bool" where
  "dl_safeSlug v \<longleftrightarrow> is_string v \<and> slug_pattern (str_of v)"

definition dl_validTimestamp :: "json \<Rightarrow> bool" where
  "dl_validTimestamp v \<longleftrightarrow> is_string v \<and> valid_date (str_of v)"

definition dl_optionalTimestamp :: "json \<Rightarrow> error option" where
  "dl_optionalTimestamp v = throw_if (v \<noteq> JUndef \<and> \<not> dl_validTimestamp v)
     (dl_fail ''DELEGATION_TIMESTAMP_INVALID'' ''Delegation timestamp is invalid.'')"

definition dl_optionalSafeCode :: "json \<Rightarrow> error option" where
  "dl_optionalSafeCode v = throw_if (v \<noteq> JUndef \<and> (\<not> is_string v \<or> \<not> safe_code_pattern (str_of v)))
     (dl_fail ''DELEGATION_ERROR_INVALID'' ''Delegation safe error code is invalid.'')"

definition step_name :: "nat \<Rightarrow> string" where
  "step_name n = ''step:'' @ string_of_int (int n)"

definition step_states :: "string list" where
  "step_states = [''pending'', ''working'', ''completed'', ''failed'', ''canceled'', ''interrupted'']"

definition plan_phases :: "string list" where
  "plan_phases = [''pending_approval'', ''working'', ''aggregating'', ''completed'', ''failed'', ''canceled'', ''interrupted'']"

definition validateBudget :: "json \<Rightarrow> error option" where
  "validateBudget v = first_err
     [throw_if (\<not> is_record v) (dl_fail ''DELEGATION_BUDGET_INVALID'' ''Delegation step budget is invalid.''),
      dl_exactKeys v [''maxInputBytes'', ''maxOutputBytes'', ''timeoutMs''] ''Delegation step budget'',
      throw_if (\<not> safe_int_in 1 maximum_input_bytes (get v ''maxInputBytes'')
          \<or> \<not> safe_int_in 1 maximum_step_output_bytes (get v ''maxOutputBytes'')
          \<or> \<not> safe_int_in 10 maximum_step_timeout_ms (get v ''timeoutMs''))
        (dl_fail ''DELEGATION_BUDGET_INVALID'' ''Delegation step budget exceeds Host limits.'')]"

definition child_step_keys :: "string list" where
  "child_step_keys = [''kind'', ''stepId'', ''stepIndex'', ''dependsOnStepId'', ''childAgentId'', ''connectorId'',
     ''capabilityId'', ''resourceBindingId'', ''budget'', ''workspaceRevision'', ''workspaceAccess'',
     ''remoteAgentAccess'', ''instructionMode'', ''state'', ''executionTaskId'', ''artifactIds'']"

definition optional_step_keys :: "string list" where
  "optional_step_keys = [''startedAt'', ''completedAt'', ''safeErrorCode'']"

definition validate_child_step :: "nat \<times> json \<Rightarrow> error option" where
  "validate_child_step ix = (case ix of (index, step) \<Rightarrow> first_err
     [dl_exactKeysWithOptional step child_step_keys optional_step_keys ''Delegation Child step'',
      throw_if (get step ''stepId'' \<noteq> JStr (step_name (index + 1))
          \<or> get step ''stepIndex'' \<noteq> jint (int index + 1)
          \<or> get step ''dependsOnStepId'' \<noteq> (if index = 0 then JNull else JStr (step_name index))
          \<or> \<not> dl_safeSlug (get step ''childAgentId'')
          \<or> \<not> dl_safeSlug (get step ''connectorId'')
          \<or> \<not> dl_safeSlug (get step ''capabilityId'')
          \<or> \<not> dl_safeId (get step ''resourceBindingId'')
          \<or> get step ''remoteAgentAccess'' \<noteq> JStr ''deny''
          \<or> get step ''instructionMode'' \<noteq> JStr ''task_then_prior_artifacts''
          \<or> \<not> safe_int_from 1 (get step ''workspaceRevision'')
          \<or> js_string (get step ''state'') \<notin> set step_states
          \<or> (get step ''executionTaskId'' \<noteq> JNull \<and> \<not> dl_safeId (get step ''executionTaskId''))
          \<or> \<not> is_array (get step ''artifactIds'')
          \<or> 2 < length (items (get step ''artifactIds''))
          \<or> list_ex (\<lambda>i. \<not> dl_safeId i) (items (get step ''artifactIds'')))
        (dl_fail ''DELEGATION_STEP_INVALID'' ''Delegation Child step is invalid.''),
      validateBudget (get step ''budget''),
      throw_if (validateWorkspaceAccess (get step ''workspaceAccess'') \<noteq> None)
        (dl_fail ''DELEGATION_WORKSPACE_SCOPE'' ''Delegation Workspace access is invalid.''),
      dl_optionalTimestamp (get step ''startedAt''),
      dl_optionalTimestamp (get step ''completedAt''),
      dl_optionalSafeCode (get step ''safeErrorCode'')])"

text \<open>The loop over the child steps with the set of step ids seen so far.\<close>

fun validate_child_steps :: "string list \<Rightarrow> (nat \<times> json) list \<Rightarrow> error option" where
  "validate_child_steps stepIds [] = None"
| "validate_child_steps stepIds (ix # ixs) = first_err
     [validate_child_step ix,
      throw_if (js_string (get (snd ix) ''stepId'') \<in> set stepIds)
        (dl_fail ''DELEGATION_STEP_INVALID'' ''Delegation step IDs must be unique.''),
      validate_child_steps (js_string (get (snd ix) ''stepId'') # stepIds) ixs]"

definition aggregation_keys :: "string list" where
  "aggregation_keys = [''kind'', ''stepId'', ''stepIndex'', ''dependsOnStepIds'', ''resourceId'', ''strategy'',
     ''state'', ''artifactId'']"

definition validate_aggregation :: "nat \<Rightarrow> json \<Rightarrow> error option" where
  "validate_aggregation children v = first_err
     [dl_exactKeysWithOptional v aggregation_keys optional_step_keys ''Delegation aggregation step'',
      throw_if (get v ''stepId'' \<noteq> JStr ''step:aggregate''
          \<or> get v ''stepIndex'' \<noteq> jint (int children + 1)
          \<or> \<not> is_array (get v ''dependsOnStepIds'')
          \<or> length (items (get v ''dependsOnStepIds'')) \<noteq> children
          \<or> list_ex (\<lambda>(index, i). i \<noteq> JStr (step_name (index + 1))) (with_index (items (get v ''dependsOnStepIds'')))
          \<or> get v ''resourceId'' \<noteq> JStr host_aggregation_resource_id
          \<or> get v ''strategy'' \<noteq> JStr ''ordered_artifact_bundle''
          \<or> js_string (get v ''state'') \<notin> set step_states
          \<or> (get v ''artifactId'' \<noteq> JNull \<and> \<not> dl_safeId (get v ''artifactId'')))
        (dl_fail ''DELEGATION_AGGREGATION_INVALID'' ''Delegation aggregation step is invalid.''),
      dl_optionalTimestamp (get v ''startedAt''),
      dl_optionalTimestamp (get v ''completedAt''),
      dl_optionalSafeCode (get v ''safeErrorCode'')]"

definition validate_producer :: "string list \<Rightarrow> json \<Rightarrow> error option" where
  "validate_producer childStepIds raw =
     (let producer = get raw ''producer'' in
      if get producer ''kind'' = JStr ''child_agent'' then first_err
        [dl_exactKeys producer [''kind'', ''childAgentId'', ''connectorId'', ''resourceBindingId''] ''Child Artifact producer'',
         throw_if (js_string (get raw ''stepId'') \<notin> set childStepIds
             \<or> \<not> dl_safeSlug (get producer ''childAgentId'')
             \<or> \<not> dl_safeSlug (get producer ''connectorId'')
             \<or> \<not> dl_safeId (get producer ''resourceBindingId'')
             \<or> get raw ''role'' \<noteq> JStr ''intermediate'')
           (dl_fail ''DELEGATION_ARTIFACT_INVALID'' ''Child Artifact producer is invalid.'')]
      else first_err
        [dl_exactKeys producer [''kind'', ''resourceId''] ''Host Artifact producer'',
         throw_if (get producer ''kind'' \<noteq> JStr ''teti_host''
             \<or> get producer ''resourceId'' \<noteq> JStr host_aggregation_resource_id
             \<or> get raw ''stepId'' \<noteq> JStr ''step:aggregate''
             \<or> get raw ''role'' \<noteq> JStr ''final'')
           (dl_fail ''DELEGATION_ARTIFACT_INVALID'' ''Host Artifact producer is invalid.'')])"

fun artifacts_loop :: "string list \<Rightarrow> string list \<Rightarrow> json list \<Rightarrow> error option" where
  "artifacts_loop childStepIds artifactIds [] = None"
| "artifacts_loop childStepIds artifactIds (raw # raws) = first_err
     [throw_if (\<not> is_record raw)
        (dl_fail ''DELEGATION_ARTIFACT_INVALID'' ''Delegation Artifact provenance is invalid.''),
      dl_exactKeys raw [''artifactId'', ''stepId'', ''producer'', ''workspaceRevision'', ''role'', ''createdAt'']
        ''Delegation Artifact provenance'',
      throw_if (\<not> dl_safeId (get raw ''artifactId'') \<or> js_string (get raw ''artifactId'') \<in> set artifactIds
          \<or> \<not> safe_int_from 1 (get raw ''workspaceRevision'')
          \<or> (get raw ''role'' \<noteq> JStr ''intermediate'' \<and> get raw ''role'' \<noteq> JStr ''final'')
          \<or> \<not> dl_validTimestamp (get raw ''createdAt'')
          \<or> \<not> is_record (get raw ''producer''))
        (dl_fail ''DELEGATION_ARTIFACT_INVALID'' ''Delegation Artifact provenance is invalid.''),
      validate_producer childStepIds raw,
      artifacts_loop childStepIds (js_string (get raw ''artifactId'') # artifactIds) raws]"

definition dl_validateArtifacts :: "json \<Rightarrow> string list \<Rightarrow> error option" where
  "dl_validateArtifacts v childStepIds = first_err
     [throw_if (\<not> is_array v \<or> maximum_artifacts < length (items v))
        (dl_fail ''DELEGATION_ARTIFACT_LIMIT'' ''Delegation Artifact provenance is invalid.''),
      artifacts_loop childStepIds [] (items v)]"

definition audit_actions :: "string list" where
  "audit_actions = [''plan_created'', ''plan_approved'', ''step_started'', ''artifact_recorded'', ''step_completed'',
     ''step_failed'', ''aggregation_started'', ''plan_completed'', ''plan_canceled'', ''restart_reconciled'']"

definition validate_audit_event :: "string list \<Rightarrow> nat \<times> json \<Rightarrow> error option" where
  "validate_audit_event childStepIds ix = (case ix of (index, raw) \<Rightarrow> first_err
     [throw_if (\<not> is_record raw) (dl_fail ''DELEGATION_AUDIT_INVALID'' ''Delegation audit event is invalid.''),
      dl_exactKeysWithOptional raw [''eventId'', ''sequence'', ''action'', ''actor'', ''stepId'', ''timestamp'']
        [''artifactId'', ''safeErrorCode''] ''Delegation audit event'',
      throw_if (\<not> dl_safeId (get raw ''eventId'') \<or> get raw ''sequence'' \<noteq> jint (int index + 1)
          \<or> js_string (get raw ''action'') \<notin> set audit_actions
          \<or> js_string (get raw ''actor'') \<notin> {''host'', ''local_user'', ''child_agent''}
          \<or> (get raw ''stepId'' \<noteq> JNull \<and> get raw ''stepId'' \<noteq> JStr ''step:aggregate''
               \<and> js_string (get raw ''stepId'') \<notin> set childStepIds)
          \<or> \<not> dl_validTimestamp (get raw ''timestamp''))
        (dl_fail ''DELEGATION_AUDIT_INVALID'' ''Delegation audit event is invalid.''),
      throw_if (get raw ''artifactId'' \<noteq> JUndef \<and> \<not> dl_safeId (get raw ''artifactId''))
        (dl_fail ''DELEGATION_AUDIT_INVALID'' ''Delegation audit Artifact is invalid.''),
      dl_optionalSafeCode (get raw ''safeErrorCode'')])"

definition dl_validateAudit :: "json \<Rightarrow> string list \<Rightarrow> error option" where
  "dl_validateAudit v childStepIds = first_err
     [throw_if (\<not> is_array v \<or> items v = [] \<or> maximum_audit_events < length (items v))
        (dl_fail ''DELEGATION_AUDIT_LIMIT'' ''Delegation audit is invalid.''),
      first_err (map (validate_audit_event childStepIds) (with_index (items v))),
      throw_if (get (hd (items v)) ''action'' \<noteq> JStr ''plan_created'')
        (dl_fail ''DELEGATION_AUDIT_INVALID'' ''Delegation audit must start with plan creation.'')]"

section \<open>The relations between phase, steps and artifacts\<close>

definition in_state :: "string \<Rightarrow> json \<Rightarrow> bool" where
  "in_state s step \<longleftrightarrow> get step ''state'' = JStr s"

fun prefix_loop :: "bool \<Rightarrow> json list \<Rightarrow> error option" where
  "prefix_loop foundNonCompleted [] = None"
| "prefix_loop foundNonCompleted (step # steps) =
     (if in_state ''completed'' step then first_err
        [throw_if foundNonCompleted
           (dl_fail ''DELEGATION_PLAN_ORDER'' ''Completed Delegation steps must form one ordered prefix.''),
         prefix_loop foundNonCompleted steps]
      else first_err
        [throw_if (foundNonCompleted \<and> \<not> in_state ''pending'' step)
           (dl_fail ''DELEGATION_PLAN_ORDER'' ''Only one non-pending Delegation step may follow the completed prefix.''),
         prefix_loop True steps])"

definition produced_by :: "json list \<Rightarrow> json \<Rightarrow> json list" where
  "produced_by provenance step = filter (\<lambda>entry. get entry ''stepId'' = get step ''stepId'') provenance"

definition validate_step_artifacts :: "json list \<Rightarrow> json \<Rightarrow> error option" where
  "validate_step_artifacts provenance step =
     (let stepArtifacts = items (get step ''artifactIds''); produced = produced_by provenance step in first_err
     [throw_if (if in_state ''completed'' step then length stepArtifacts \<noteq> 1 else length stepArtifacts \<noteq> 0)
        (dl_fail ''DELEGATION_ARTIFACT_INVALID'' ''Delegation step Artifact state is inconsistent.''),
      throw_if (length produced \<noteq> length stepArtifacts
          \<or> list_ex (\<lambda>entry. JStr (js_string (get entry ''artifactId'')) \<notin> set stepArtifacts) produced)
        (dl_fail ''DELEGATION_ARTIFACT_INVALID'' ''Delegation step Artifact provenance is inconsistent.'')])"

definition validate_final_provenance :: "json list \<Rightarrow> json \<Rightarrow> error option" where
  "validate_final_provenance provenance aggregation =
     (let finals = produced_by provenance aggregation in
      if in_state ''completed'' aggregation
      then throw_if (\<not> is_string (get aggregation ''artifactId'') \<or> length finals \<noteq> 1
          \<or> get (hd finals) ''artifactId'' \<noteq> get aggregation ''artifactId'')
        (dl_fail ''DELEGATION_AGGREGATION_INVALID'' ''Completed Host aggregation requires exact final provenance.'')
      else throw_if (get aggregation ''artifactId'' \<noteq> JNull \<or> finals \<noteq> [])
        (dl_fail ''DELEGATION_AGGREGATION_INVALID'' ''Incomplete Host aggregation cannot publish final provenance.''))"

text \<open>The phase names one step: exactly one is in the state, and it is the current one.\<close>

definition not_the_current_one :: "json list \<Rightarrow> int \<Rightarrow> bool" where
  "not_the_current_one steps cur \<longleftrightarrow> length steps \<noteq> 1 \<or> jint cur \<noteq> get (hd steps) ''stepIndex''"

definition phase_inconsistent :: "string \<Rightarrow> int \<Rightarrow> json list \<Rightarrow> json \<Rightarrow> bool" where
  "phase_inconsistent phase cur childSteps aggregation =
     (let every = childSteps @ [aggregation];
          allChildrenCompleted = list_all (in_state ''completed'') childSteps in
        (phase = ''pending_approval'' \<and>
          (cur \<noteq> 0 \<or> list_ex (\<lambda>s. \<not> in_state ''pending'' s) childSteps \<or> \<not> in_state ''pending'' aggregation))
      \<or> (phase = ''working'' \<and> not_the_current_one (filter (in_state ''working'') every) cur)
      \<or> (phase = ''aggregating'' \<and>
          (\<not> allChildrenCompleted \<or> \<not> in_state ''working'' aggregation \<or> jint cur \<noteq> get aggregation ''stepIndex''))
      \<or> (phase = ''completed'' \<and>
          (\<not> allChildrenCompleted \<or> \<not> in_state ''completed'' aggregation \<or> jint cur \<noteq> get aggregation ''stepIndex''))
      \<or> (phase = ''failed'' \<and> not_the_current_one (filter (in_state ''failed'') every) cur)
      \<or> (phase = ''interrupted'' \<and> not_the_current_one (filter (in_state ''interrupted'') childSteps) cur)
      \<or> (phase = ''canceled'' \<and> not_the_current_one (filter (in_state ''canceled'') every) cur))"

definition validateStateRelations :: "json \<Rightarrow> json list \<Rightarrow> json \<Rightarrow> error option" where
  "validateStateRelations plan childSteps aggregation =
     (let provenance = items (get plan ''artifacts'') in first_err
     [prefix_loop False childSteps,
      first_err (map (validate_step_artifacts provenance) childSteps),
      validate_final_provenance provenance aggregation,
      throw_if (phase_inconsistent (js_string (get plan ''phase'')) (int_of (get plan ''currentStepIndex''))
          childSteps aggregation)
        (dl_fail ''DELEGATION_PLAN_STATE'' ''Delegation Plan phase and step states are inconsistent.'')])"

definition plan_keys :: "string list" where
  "plan_keys = [''schemaVersion'', ''planId'', ''taskId'', ''phase'', ''delegationDepth'', ''plannerMode'',
     ''source'', ''maximumChildCalls'', ''currentStepIndex'', ''steps'', ''artifacts'', ''audit'',
     ''createdAt'', ''updatedAt'']"

definition validateDelegationPlanState :: "json \<Rightarrow> error option" where
  "validateDelegationPlanState v =
     (let steps = items (get v ''steps''); childSteps = butlast steps; aggregation = last steps;
          stepIds = map (\<lambda>s. js_string (get s ''stepId'')) childSteps in first_err
     [throw_if (\<not> is_record v) (dl_fail ''DELEGATION_PLAN_INVALID'' ''Delegation Plan must be an object.''),
      dl_exactKeys v plan_keys ''Delegation Plan'',
      throw_if (get v ''schemaVersion'' \<noteq> jint 1
          \<or> \<not> dl_safeId (get v ''planId'')
          \<or> \<not> dl_safeId (get v ''taskId'')
          \<or> get v ''delegationDepth'' \<noteq> jint 1
          \<or> get v ''plannerMode'' \<noteq> JStr ''disabled''
          \<or> get v ''source'' \<noteq> JStr ''explicit_user''
          \<or> \<not> safe_int_in 1 (int maximum_child_steps) (get v ''maximumChildCalls'')
          \<or> \<not> safe_int_from 0 (get v ''currentStepIndex'')
          \<or> \<not> dl_validTimestamp (get v ''createdAt'')
          \<or> \<not> dl_validTimestamp (get v ''updatedAt'')
          \<or> js_string (get v ''phase'') \<notin> set plan_phases)
        (dl_fail ''DELEGATION_PLAN_INVALID'' ''Delegation Plan metadata is invalid.''),
      throw_if (\<not> is_array (get v ''steps'') \<or> length steps < 2 \<or> maximum_child_steps + 1 < length steps)
        (dl_fail ''DELEGATION_STEP_LIMIT'' ''Delegation Plan step count is invalid.''),
      throw_if (\<not> is_record aggregation \<or> get aggregation ''kind'' \<noteq> JStr ''artifact_aggregation''
          \<or> list_ex (\<lambda>s. \<not> is_record s \<or> get s ''kind'' \<noteq> JStr ''child_execution'') childSteps
          \<or> jint (int (length childSteps)) \<noteq> get v ''maximumChildCalls'')
        (dl_fail ''DELEGATION_PLAN_ORDER'' ''Delegation Plan must end with one Host aggregation step.''),
      validate_child_steps [] (with_index childSteps),
      validate_aggregation (length childSteps) aggregation,
      dl_validateArtifacts (get v ''artifacts'') stepIds,
      dl_validateAudit (get v ''audit'') stepIds,
      validateStateRelations v childSteps aggregation])"

definition isWorkspaceAccessSubset :: "string list \<Rightarrow> string list \<Rightarrow> bool" where
  "isWorkspaceAccessSubset requested granted \<longleftrightarrow> list_all (\<lambda>a. a \<in> set granted) requested"

section \<open>The planner\<close>

definition disabled_planner :: "json \<Rightarrow> json result" where
  "disabled_planner input = Inl (dl_fail ''DELEGATION_PLANNER_DISABLED''
     ''Autonomous Delegation Planner is disabled in Beta 0.3.1.'')"

definition delegationWorkspaceAccess ::
  "delegation_target \<Rightarrow> workspace_access list \<Rightarrow> workspace_access list result" where
  "delegationWorkspaceAccess target granted =
     (if Read \<notin> set granted
      then Inl (dl_fail ''DELEGATION_WORKSPACE_SCOPE'' ''Delegation requires read access.'')
      else if dt_workspace_policy target \<noteq> SnapshotPolicy then Inr [Read] else Inr granted)"

definition planned_step :: "plan_input \<Rightarrow> nat \<Rightarrow> delegation_target \<Rightarrow> workspace_access list \<Rightarrow> json" where
  "planned_step inp index t acc = JObj
     [(''kind'', JStr ''child_execution''),
      (''stepId'', JStr (step_name (index + 1))),
      (''stepIndex'', jint (int index + 1)),
      (''dependsOnStepId'', if index = 0 then JNull else JStr (step_name index)),
      (''childAgentId'', JStr (dt_child_agent_id t)),
      (''connectorId'', JStr (dt_connector_id t)),
      (''capabilityId'', JStr (dt_capability_id t)),
      (''resourceBindingId'', JStr (dt_resource_binding_id t)),
      (''budget'', JObj
         [(''maxInputBytes'', jint maximum_input_bytes),
          (''maxOutputBytes'', jint (min (dt_max_output_bytes t) maximum_step_output_bytes)),
          (''timeoutMs'', jint (min (dt_timeout_ms t) maximum_step_timeout_ms))]),
      (''workspaceRevision'', jint (pl_workspace_revision inp)),
      (''workspaceAccess'', JArr (map (JStr \<circ> access_string) acc)),
      (''remoteAgentAccess'', JStr ''deny''),
      (''instructionMode'', JStr ''task_then_prior_artifacts''),
      (''state'', JStr ''pending''),
      (''executionTaskId'', JNull),
      (''artifactIds'', JArr [])]"

fun planned_steps :: "plan_input \<Rightarrow> (nat \<times> delegation_target) list \<Rightarrow> json list result" where
  "planned_steps inp [] = Inr []"
| "planned_steps inp ((index, t) # its) =
     rbind (delegationWorkspaceAccess t (pl_workspace_access inp)) (\<lambda>acc.
       rbind (planned_steps inp its) (\<lambda>steps. Inr (planned_step inp index t acc # steps)))"

definition plan_object :: "plan_input \<Rightarrow> string \<Rightarrow> string \<Rightarrow> string \<Rightarrow> json list \<Rightarrow> json" where
  "plan_object inp timestamp planId eventId steps = JObj
     [(''schemaVersion'', jint 1),
      (''planId'', JStr planId),
      (''taskId'', JStr (pl_task_id inp)),
      (''phase'', JStr ''pending_approval''),
      (''delegationDepth'', jint 1),
      (''plannerMode'', JStr ''disabled''),
      (''source'', JStr ''explicit_user''),
      (''maximumChildCalls'', jint (int (length steps))),
      (''currentStepIndex'', jint 0),
      (''steps'', JArr (steps @ [JObj
         [(''kind'', JStr ''artifact_aggregation''),
          (''stepId'', JStr ''step:aggregate''),
          (''stepIndex'', jint (int (length steps) + 1)),
          (''dependsOnStepIds'', JArr (map (\<lambda>s. get s ''stepId'') steps)),
          (''resourceId'', JStr host_aggregation_resource_id),
          (''strategy'', JStr ''ordered_artifact_bundle''),
          (''state'', JStr ''pending''),
          (''artifactId'', JNull)]])),
      (''artifacts'', JArr []),
      (''audit'', JArr [JObj
         [(''eventId'', JStr eventId),
          (''sequence'', jint 1),
          (''action'', JStr ''plan_created''),
          (''actor'', JStr ''local_user''),
          (''stepId'', JNull),
          (''timestamp'', JStr timestamp)]]),
      (''createdAt'', JStr timestamp),
      (''updatedAt'', JStr timestamp)]"

definition createDeterministicDelegationPlan ::
  "plan_input \<Rightarrow> int \<Rightarrow> string \<Rightarrow> string \<Rightarrow> json result" where
  "createDeterministicDelegationPlan inp now planId eventId =
     (if length (pl_targets inp) < 1 \<or> maximum_child_steps < length (pl_targets inp)
      then Inl (dl_fail ''DELEGATION_STEP_LIMIT'' ''Select one to four Child Agent steps.'')
      else rbind (planned_steps inp (with_index (pl_targets inp))) (\<lambda>steps.
        (let plan = plan_object inp (to_iso now) planId eventId steps in
         guarded (validateDelegationPlanState plan) (Inr plan))))"

section \<open>What the checks mean\<close>

lemma step_name_inj [simp]: "step_name m = step_name n \<longleftrightarrow> m = n"
  using string_of_int_nat_inj by (auto simp: step_name_def)

lemma child_step_id: "validate_child_step (i, s) = None \<Longrightarrow> get s ''stepId'' = JStr (step_name (i + 1))"
  by (simp add: validate_child_step_def valid_simps)

lemma validate_child_steps_None:
  "validate_child_steps seen ixs = None \<longleftrightarrow>
     (\<forall>ix\<in>set ixs. validate_child_step ix = None)
     \<and> distinct (map (\<lambda>ix. js_string (get (snd ix) ''stepId'')) ixs)
     \<and> (\<lambda>ix. js_string (get (snd ix) ''stepId'')) ` set ixs \<inter> set seen = {}"
  by (induction ixs arbitrary: seen) (simp_all add: valid_simps, blast)

text \<open>The uniqueness check cannot fail once the steps are valid: the ids are the names of the positions.\<close>

lemma child_steps_None:
  "validate_child_steps [] (with_index steps) = None \<longleftrightarrow>
     (\<forall>ix\<in>set (with_index steps). validate_child_step ix = None)"
proof -
  have "map (\<lambda>ix. js_string (get (snd ix) ''stepId'')) (with_index steps)
      = map (\<lambda>ix. step_name (fst ix + 1)) (with_index steps)"
    if "\<forall>ix\<in>set (with_index steps). validate_child_step ix = None"
    using that child_step_id by (intro map_cong) auto
  moreover have "distinct (map (\<lambda>ix. step_name (fst ix + 1)) (with_index steps))"
  proof -
    have "distinct (map fst (with_index steps))" by simp
    then show ?thesis unfolding distinct_map by (simp add: inj_on_def)
  qed
  ultimately have "\<forall>ix\<in>set (with_index steps). validate_child_step ix = None \<Longrightarrow>
      distinct (map (\<lambda>ix. js_string (get (snd ix) ''stepId'')) (with_index steps))"
    by (simp only:)
  then show ?thesis unfolding validate_child_steps_None by (simp del: distinct_map) blast
qed

lemma ex_le_Suc: "(\<exists>k\<le>Suc n. Q k) \<longleftrightarrow> Q 0 \<or> (\<exists>k\<le>n. Q (Suc k))"
  using Ex_less_Suc2 [of "Suc n" Q] by (simp only: less_Suc_eq_le)

lemma prefix_loop_True: "prefix_loop True steps = None \<longleftrightarrow> (\<forall>s\<in>set steps. in_state ''pending'' s)"
  by (induction steps) (auto simp: valid_simps in_state_def)

text \<open>The steps are a completed prefix, at most one step in another state, and pending steps.\<close>

lemma prefix_loop_False:
  "prefix_loop False steps = None \<longleftrightarrow>
     (\<exists>k\<le>length steps. (\<forall>i<k. in_state ''completed'' (steps ! i))
        \<and> (k < length steps \<longrightarrow> \<not> in_state ''completed'' (steps ! k))
        \<and> (\<forall>i. k < i \<and> i < length steps \<longrightarrow> in_state ''pending'' (steps ! i)))"
proof (induction steps)
  case (Cons s steps)
  let ?P = "\<lambda>steps k. (\<forall>i<k. in_state ''completed'' (steps ! i))
        \<and> (k < length steps \<longrightarrow> \<not> in_state ''completed'' (steps ! k))
        \<and> (\<forall>i. k < i \<and> i < length steps \<longrightarrow> in_state ''pending'' (steps ! i))"
  show ?case
  proof (cases "in_state ''completed'' s")
    case True
    have "?P (s # steps) (Suc k) \<longleftrightarrow> ?P steps k" for k
      using True by (auto simp: less_Suc_eq_0_disj nth_Cons split: nat.splits)
    moreover have "\<not> ?P (s # steps) 0" using True by simp
    ultimately have "(\<exists>k\<le>length (s # steps). ?P (s # steps) k) \<longleftrightarrow> (\<exists>k\<le>length steps. ?P steps k)"
      unfolding list.size(4) add_Suc_right add_0_right ex_le_Suc by (simp only: simp_thms)
    moreover have "prefix_loop False (s # steps) = None \<longleftrightarrow> prefix_loop False steps = None"
      using True by (simp add: valid_simps)
    ultimately show ?thesis using Cons.IH by (simp only:)
  next
    case False
    have "?P (s # steps) 0 \<longleftrightarrow> (\<forall>x\<in>set steps. in_state ''pending'' x)"
      using False unfolding all_set_conv_all_nth by (auto simp: nth_Cons split: nat.splits)
    moreover have "\<not> ?P (s # steps) (Suc k)" for k using False by auto
    ultimately have "(\<exists>k\<le>length (s # steps). ?P (s # steps) k) \<longleftrightarrow> (\<forall>x\<in>set steps. in_state ''pending'' x)"
      unfolding list.size(4) add_Suc_right add_0_right ex_le_Suc by (simp only: simp_thms)
    moreover have "prefix_loop False (s # steps) = None \<longleftrightarrow> (\<forall>x\<in>set steps. in_state ''pending'' x)"
      using False by (simp add: valid_simps prefix_loop_True)
    ultimately show ?thesis by (simp only:)
  qed
qed simp

lemma exactly_one: "length xs = 1 \<longleftrightarrow> xs = [hd xs]"
  by (cases xs) auto

section \<open>The plan object\<close>

lemma planned_step_get [simp]:
  "get (planned_step inp i t acc) ''stepId'' = JStr (step_name (i + 1))"
  "get (planned_step inp i t acc) ''kind'' = JStr ''child_execution''"
  "get (planned_step inp i t acc) ''state'' = JStr ''pending''"
  "get (planned_step inp i t acc) ''artifactIds'' = JArr []"
  "is_record (planned_step inp i t acc)"
  by (simp_all add: planned_step_def)

definition target_ok :: "delegation_target \<Rightarrow> bool" where
  "target_ok t \<longleftrightarrow> slug_pattern (dt_child_agent_id t) \<and> slug_pattern (dt_connector_id t)
     \<and> slug_pattern (dt_capability_id t) \<and> id_pattern 191 (dt_resource_binding_id t)
     \<and> 10 \<le> dt_timeout_ms t \<and> 1 \<le> dt_max_output_bytes t"

definition step_access :: "plan_input \<Rightarrow> delegation_target \<Rightarrow> workspace_access list" where
  "step_access inp t = (if dt_workspace_policy t \<noteq> SnapshotPolicy then [Read] else pl_workspace_access inp)"

definition access_ok :: "workspace_access list \<Rightarrow> bool" where
  "access_ok acc \<longleftrightarrow> acc \<in> {[Read], [Read, Write], [Read, CreateArtifact], [Read, Write, CreateArtifact]}"

lemma access_ok_json: "access_ok acc \<Longrightarrow> validateWorkspaceAccess (JArr (map (JStr \<circ> access_string) acc)) = None"
  unfolding access_ok_def by (elim insertE emptyE; hypsubst; code_simp)

lemma planned_steps_Inr:
  "Read \<in> set (pl_workspace_access inp) \<Longrightarrow>
     planned_steps inp its = Inr (map (\<lambda>(i, t). planned_step inp i t (step_access inp t)) its)"
  by (induction its) (auto simp: delegationWorkspaceAccess_def step_access_def)

lemma planned_budget_ok:
  assumes "10 \<le> t" and "1 \<le> b"
  shows "validateBudget (JObj [(''maxInputBytes'', jint maximum_input_bytes),
     (''maxOutputBytes'', jint (min b maximum_step_output_bytes)),
     (''timeoutMs'', jint (min t maximum_step_timeout_ms))]) = None"
  using assms
  by (simp add: validateBudget_def valid_simps dl_exactKeys_def dl_exactKeysWithOptional_def delegation_limits
      max_safe_integer_def min_le_iff_disj)

lemma planned_step_keys: "keys_of (planned_step inp i t acc) = child_step_keys"
  by (simp add: planned_step_def child_step_keys_def)

lemma planned_step_ok:
  assumes t: "target_ok t" and acc: "access_ok acc"
    and rev: "1 \<le> pl_workspace_revision inp" "pl_workspace_revision inp \<le> max_safe_integer"
  shows "validate_child_step (i, planned_step inp i t acc) = None"
proof -
  have keys: "dl_exactKeysWithOptional (planned_step inp i t acc) child_step_keys optional_step_keys l = None" for l
    by (simp add: dl_exactKeysWithOptional_def planned_step_keys)
  have absent: "get (planned_step inp i t acc) ''startedAt'' = JUndef"
    "get (planned_step inp i t acc) ''completedAt'' = JUndef" "get (planned_step inp i t acc) ''safeErrorCode'' = JUndef"
    by (simp_all add: planned_step_def)
  have budget: "validateBudget (get (planned_step inp i t acc) ''budget'') = None"
    using planned_budget_ok t by (simp add: planned_step_def target_ok_def)
  have access: "validateWorkspaceAccess (get (planned_step inp i t acc) ''workspaceAccess'') = None"
    using access_ok_json [OF acc] by (simp add: planned_step_def)
  show ?thesis
    using t rev unfolding validate_child_step_def case_prod_conv first_err_None_Cons keys absent budget access
    by (simp add: valid_simps planned_step_def target_ok_def dl_safeSlug_def dl_safeId_def step_states_def
        dl_optionalTimestamp_def dl_optionalSafeCode_def)
qed

definition input_ok :: "plan_input \<Rightarrow> string \<Rightarrow> string \<Rightarrow> bool" where
  "input_ok inp planId eventId \<longleftrightarrow>
     1 \<le> length (pl_targets inp) \<and> length (pl_targets inp) \<le> 4
     \<and> id_pattern 191 (pl_task_id inp) \<and> id_pattern 191 planId \<and> id_pattern 191 eventId
     \<and> 1 \<le> pl_workspace_revision inp \<and> pl_workspace_revision inp \<le> max_safe_integer
     \<and> access_ok (pl_workspace_access inp) \<and> (\<forall>t\<in>set (pl_targets inp). target_ok t)"

lemma with_index_memD: "ix \<in> set (with_index xs) \<Longrightarrow> fst ix < length xs \<and> snd ix = xs ! fst ix"
  by (cases ix) (simp add: with_index_nth)

definition plan_steps :: "plan_input \<Rightarrow> json list" where
  "plan_steps inp = map (\<lambda>(i, t). planned_step inp i t (step_access inp t)) (with_index (pl_targets inp))"

lemma plan_steps_simps [simp]: "length (plan_steps inp) = length (pl_targets inp)"
  by (simp add: plan_steps_def)

lemma plan_steps_nth:
  "i < length (pl_targets inp) \<Longrightarrow>
     plan_steps inp ! i = planned_step inp i (pl_targets inp ! i) (step_access inp (pl_targets inp ! i))"
  by (simp add: plan_steps_def with_index_def)

lemma access_ok_Read: "access_ok acc \<Longrightarrow> Read \<in> set acc"
  by (auto simp: access_ok_def)

lemma step_access_ok: "access_ok (pl_workspace_access inp) \<Longrightarrow> access_ok (step_access inp t)"
  by (auto simp: step_access_def access_ok_def)

lemma in_plan_steps: "s \<in> set (plan_steps inp) \<Longrightarrow> \<exists>i t acc. s = planned_step inp i t acc"
  by (auto simp: plan_steps_def)

lemma plan_children_ok:
  assumes "input_ok inp planId eventId"
  shows "validate_child_steps [] (with_index (plan_steps inp)) = None"
proof -
  have "with_index (plan_steps inp)
      = map (\<lambda>(i, t). (i, planned_step inp i t (step_access inp t))) (with_index (pl_targets inp))"
    unfolding plan_steps_def by (rule with_index_map)
  then show ?thesis
    unfolding child_steps_None
    using assms step_access_ok by (auto simp: input_ok_def with_index_nth intro!: planned_step_ok)
qed

definition plan_aggregation :: "json list \<Rightarrow> json" where
  "plan_aggregation steps = JObj
         [(''kind'', JStr ''artifact_aggregation''),
          (''stepId'', JStr ''step:aggregate''),
          (''stepIndex'', jint (int (length steps) + 1)),
          (''dependsOnStepIds'', JArr (map (\<lambda>s. get s ''stepId'') steps)),
          (''resourceId'', JStr host_aggregation_resource_id),
          (''strategy'', JStr ''ordered_artifact_bundle''),
          (''state'', JStr ''pending''),
          (''artifactId'', JNull)]"

lemma plan_aggregation_ok:
  "validate_aggregation (length (pl_targets inp)) (plan_aggregation (plan_steps inp)) = None"
proof -
  have ids: "map (\<lambda>s. get s ''stepId'') (plan_steps inp) ! i = JStr (step_name (i + 1))"
    if "i < length (pl_targets inp)" for i
    using that by (simp add: plan_steps_nth)
  have "\<not> list_ex (\<lambda>(index, i). i \<noteq> JStr (step_name (index + 1)))
      (with_index (map (\<lambda>s. get s ''stepId'') (plan_steps inp)))"
    using ids by (auto simp: list_ex_iff with_index_nth)
  then show ?thesis
    by (simp add: validate_aggregation_def valid_simps plan_aggregation_def dl_exactKeysWithOptional_def
        aggregation_keys_def dl_optionalTimestamp_def dl_optionalSafeCode_def step_states_def)
qed

lemma plan_object_get [simp]:
  "get (plan_object inp ts p e steps) ''steps'' = JArr (steps @ [plan_aggregation steps])"
  "get (plan_object inp ts p e steps) ''artifacts'' = JArr []"
  "get (plan_object inp ts p e steps) ''phase'' = JStr ''pending_approval''"
  "get (plan_object inp ts p e steps) ''currentStepIndex'' = jint 0"
  "get (plan_object inp ts p e steps) ''maximumChildCalls'' = jint (int (length steps))"
  by (simp_all add: plan_object_def plan_aggregation_def)

lemma plan_relations_ok:
  "validateStateRelations (plan_object inp ts p e (plan_steps inp)) (plan_steps inp)
     (plan_aggregation (plan_steps inp)) = None"
proof -
  let ?agg = "plan_aggregation (plan_steps inp)"
  have pending: "\<forall>s\<in>set (plan_steps inp). in_state ''pending'' s \<and> \<not> in_state ''completed'' s
      \<and> items (get s ''artifactIds'') = []"
    using in_plan_steps by (fastforce simp: in_state_def)
  have agg: "in_state ''pending'' ?agg" "\<not> in_state ''completed'' ?agg" "get ?agg ''artifactId'' = JNull"
    by (simp_all add: plan_aggregation_def in_state_def)
  have "prefix_loop False (plan_steps inp) = None"
    using pending unfolding prefix_loop_False by (intro exI [of _ 0]) (simp add: all_set_conv_all_nth)
  moreover have "first_err (map (validate_step_artifacts []) (plan_steps inp)) = None"
    using pending unfolding first_err_map_None
    by (simp add: validate_step_artifacts_def valid_simps produced_by_def Let_def)
  moreover have "validate_final_provenance [] ?agg = None"
    using agg by (simp add: validate_final_provenance_def produced_by_def valid_simps)
  moreover have "\<not> phase_inconsistent ''pending_approval'' 0 (plan_steps inp) ?agg"
    using pending agg by (simp add: phase_inconsistent_def Let_def list_ex_iff)
  ultimately show ?thesis by (simp add: validateStateRelations_def valid_simps Let_def)
qed

lemma plan_metadata_ok:
  assumes "input_ok inp planId eventId" and "iso_range now"
  shows "validateDelegationPlanState (plan_object inp (to_iso now) planId eventId (plan_steps inp)) = None"
proof -
  let ?plan = "plan_object inp (to_iso now) planId eventId (plan_steps inp)"
  have steps: "butlast (items (get ?plan ''steps'')) = plan_steps inp"
    "last (items (get ?plan ''steps'')) = plan_aggregation (plan_steps inp)"
    "length (items (get ?plan ''steps'')) = Suc (length (pl_targets inp))" by simp_all
  have date: "valid_date (to_iso now)" using assms(2) by simp
  have ids: "id_pattern 191 (pl_task_id inp)" "id_pattern 191 planId" "id_pattern 191 eventId"
    and len: "pl_targets inp \<noteq> []" "length (pl_targets inp) \<le> 4"
    using assms(1) by (auto simp: input_ok_def)
  have keys: "dl_exactKeys ?plan plan_keys l = None" "is_record ?plan" for l
    by (simp_all add: plan_object_def dl_exactKeys_def dl_exactKeysWithOptional_def plan_keys_def throw_if_def)
  have meta: "get ?plan ''schemaVersion'' = jint 1" "dl_safeId (get ?plan ''planId'')"
    "dl_safeId (get ?plan ''taskId'')" "get ?plan ''delegationDepth'' = jint 1"
    "get ?plan ''plannerMode'' = JStr ''disabled''" "get ?plan ''source'' = JStr ''explicit_user''"
    "dl_validTimestamp (get ?plan ''createdAt'')" "dl_validTimestamp (get ?plan ''updatedAt'')"
    using ids date by (simp_all add: plan_object_def dl_safeId_def dl_validTimestamp_def)
  have artifacts: "dl_validateArtifacts (get ?plan ''artifacts'') sids = None" for sids
    by (simp add: dl_validateArtifacts_def valid_simps)
  have audit: "dl_validateAudit (get ?plan ''audit'') sids = None" for sids
    using ids date
    by (simp add: plan_object_def dl_validateAudit_def valid_simps validate_audit_event_def with_index_def
        dl_exactKeysWithOptional_def dl_safeId_def dl_validTimestamp_def audit_actions_def
        dl_optionalSafeCode_def delegation_limits)
  have kinds: "\<not> list_ex (\<lambda>s. \<not> is_record s \<or> get s ''kind'' \<noteq> JStr ''child_execution'') (plan_steps inp)"
    using in_plan_steps by (fastforce simp: list_ex_iff)
  have agg: "is_record (plan_aggregation (plan_steps inp))"
    "get (plan_aggregation (plan_steps inp)) ''kind'' = JStr ''artifact_aggregation''"
    by (simp_all add: plan_aggregation_def)
  show ?thesis
    unfolding validateDelegationPlanState_def Let_def steps first_err_None_Cons throw_if_None
    using keys meta artifacts audit kinds agg len plan_children_ok [OF assms(1)] plan_aggregation_ok [of inp]
      plan_relations_ok
    by (simp add: delegation_limits plan_phases_def max_safe_integer_def Suc_le_eq)
qed

lemma create_plan:
  assumes "input_ok inp planId eventId" and "iso_range now"
  shows "createDeterministicDelegationPlan inp now planId eventId
    = Inr (plan_object inp (to_iso now) planId eventId (plan_steps inp))"
proof -
  have "planned_steps inp (with_index (pl_targets inp)) = Inr (plan_steps inp)"
    using planned_steps_Inr access_ok_Read assms(1) by (simp add: input_ok_def plan_steps_def)
  moreover have "\<not> (length (pl_targets inp) < 1 \<or> maximum_child_steps < length (pl_targets inp))"
    using assms(1) by (auto simp: input_ok_def delegation_limits)
  ultimately show ?thesis
    using plan_metadata_ok [OF assms] by (simp add: createDeterministicDelegationPlan_def Let_def del: One_nat_def)
qed

section \<open>What an accepted plan satisfies\<close>

lemma accepted_relations:
  assumes "validateDelegationPlanState v = None"
  shows "validateStateRelations v (butlast (items (get v ''steps''))) (last (items (get v ''steps''))) = None"
  using assms unfolding validateDelegationPlanState_def Let_def first_err_None_Cons by blast


section \<open>Properties\<close>

text \<open>
  The deterministic planner keeps its promises: from one to four well-formed targets it builds a plan
  that the validator accepts, waiting for approval with nothing run; step \<open>i\<close> is bound to target \<open>i\<close>
  and depends on the step before it; its budget is within both the target's and the Host's limits, and
  its Workspace access is exactly \<open>read\<close> unless the target takes a snapshot, and never more than was
  granted.\<close>

theorem planner_least_privilege:
  assumes "input_ok inp planId eventId" and "iso_range now"
  shows "\<exists>plan. createDeterministicDelegationPlan inp now planId eventId = Inr plan
    \<and> validateDelegationPlanState plan = None
    \<and> get plan ''phase'' = JStr ''pending_approval'' \<and> get plan ''artifacts'' = JArr []
    \<and> length (items (get plan ''steps'')) = length (pl_targets inp) + 1
    \<and> (\<forall>i<length (pl_targets inp). let t = pl_targets inp ! i; s = items (get plan ''steps'') ! i in
         get s ''connectorId'' = JStr (dt_connector_id t)
         \<and> get s ''dependsOnStepId'' = (if i = 0 then JNull else get (items (get plan ''steps'') ! (i - 1)) ''stepId'')
         \<and> int_of (get (get s ''budget'') ''timeoutMs'') \<le> min (dt_timeout_ms t) 900000
         \<and> int_of (get (get s ''budget'') ''maxOutputBytes'') \<le> min (dt_max_output_bytes t) 57344
         \<and> set (items (get s ''workspaceAccess'')) \<subseteq> (JStr \<circ> access_string) ` set (pl_workspace_access inp)
         \<and> (dt_workspace_policy t \<noteq> SnapshotPolicy \<longrightarrow> get s ''workspaceAccess'' = JArr [JStr ''read'']))"
proof -
  let ?plan = "plan_object inp (to_iso now) planId eventId (plan_steps inp)"
  have step: "items (get ?plan ''steps'') ! i
      = planned_step inp i (pl_targets inp ! i) (step_access inp (pl_targets inp ! i))"
    if "i < length (pl_targets inp)" for i
    using that by (simp add: nth_append plan_steps_nth)
  have read: "Read \<in> set (pl_workspace_access inp)" using assms(1) access_ok_Read by (simp add: input_ok_def)
  have fields: "get (planned_step inp i t acc) ''connectorId'' = JStr (dt_connector_id t)"
    "get (planned_step inp i t acc) ''dependsOnStepId'' = (if i = 0 then JNull else JStr (step_name i))"
    "get (get (planned_step inp i t acc) ''budget'') ''timeoutMs'' = jint (min (dt_timeout_ms t) maximum_step_timeout_ms)"
    "get (get (planned_step inp i t acc) ''budget'') ''maxOutputBytes''
       = jint (min (dt_max_output_bytes t) maximum_step_output_bytes)"
    "get (planned_step inp i t acc) ''workspaceAccess'' = JArr (map (JStr \<circ> access_string) acc)" for i t acc
    by (simp_all add: planned_step_def)
  have "set (map (JStr \<circ> access_string) (step_access inp t)) \<subseteq> (JStr \<circ> access_string) ` set (pl_workspace_access inp)" for t
    using read by (auto simp: step_access_def intro!: rev_image_eqI [of Read])
  then have "\<forall>i<length (pl_targets inp). let t = pl_targets inp ! i; s = items (get ?plan ''steps'') ! i in
         get s ''connectorId'' = JStr (dt_connector_id t)
         \<and> get s ''dependsOnStepId'' = (if i = 0 then JNull else get (items (get ?plan ''steps'') ! (i - 1)) ''stepId'')
         \<and> int_of (get (get s ''budget'') ''timeoutMs'') \<le> min (dt_timeout_ms t) 900000
         \<and> int_of (get (get s ''budget'') ''maxOutputBytes'') \<le> min (dt_max_output_bytes t) 57344
         \<and> set (items (get s ''workspaceAccess'')) \<subseteq> (JStr \<circ> access_string) ` set (pl_workspace_access inp)
         \<and> (dt_workspace_policy t \<noteq> SnapshotPolicy \<longrightarrow> get s ''workspaceAccess'' = JArr [JStr ''read''])"
    unfolding Let_def using step
    by (simp add: fields delegation_limits step_access_def del: plan_object_get)
  then show ?thesis using create_plan [OF assms] plan_metadata_ok [OF assms] by simp
qed

definition sample_target :: delegation_target where
  "sample_target = \<lparr>dt_child_agent_id = ''codex'', dt_connector_id = ''codex.cli'',
     dt_capability_id = ''general-text-assistance'', dt_resource_binding_id = ''binding-1'',
     dt_workspace_policy = BoundedContext, dt_timeout_ms = 60000, dt_max_output_bytes = 100000\<rparr>"

definition sample_plan_input :: plan_input where
  "sample_plan_input = \<lparr>pl_task_id = ''task-1'', pl_workspace_revision = 1,
     pl_workspace_access = [Read, Write], pl_targets = [sample_target]\<rparr>"

lemma sample_input_ok: "input_ok sample_plan_input ''plan-1'' ''event-1''"
  by code_simp

theorem planner_least_privilege_witness:
  "\<exists>plan. createDeterministicDelegationPlan sample_plan_input 0 ''plan-1'' ''event-1'' = Inr plan
     \<and> get (items (get plan ''steps'') ! 0) ''workspaceAccess'' = JArr [JStr ''read'']"
  using planner_least_privilege [OF sample_input_ok, of 0]
  by (auto simp: iso_range_def sample_plan_input_def sample_target_def Let_def)



text \<open>The phase of an accepted plan tells what ran: a plan waiting for approval has only pending steps, a
  plan that works has exactly one working step and points at it, and a completed plan has completed
  every child step and its aggregation, whose artifact is the one final entry of the provenance.\<close>

theorem plan_phase_consistent:
  assumes "validateDelegationPlanState v = None"
  shows "let children = butlast (items (get v ''steps'')); aggregation = last (items (get v ''steps''));
      cur = int_of (get v ''currentStepIndex''); phase = js_string (get v ''phase'') in
    (phase = ''pending_approval'' \<longrightarrow> cur = 0 \<and> (\<forall>s\<in>set (children @ [aggregation]). in_state ''pending'' s))
    \<and> (phase = ''working'' \<longrightarrow> (\<exists>s. filter (in_state ''working'') (children @ [aggregation]) = [s]
         \<and> get s ''stepIndex'' = jint cur))
    \<and> (phase = ''completed'' \<longrightarrow> (\<forall>s\<in>set (children @ [aggregation]). in_state ''completed'' s)
         \<and> (\<exists>entry. produced_by (items (get v ''artifacts'')) aggregation = [entry]
              \<and> get entry ''artifactId'' = get aggregation ''artifactId''))"
proof -
  let ?cs = "butlast (items (get v ''steps''))" and ?agg = "last (items (get v ''steps''))"
  let ?cur = "int_of (get v ''currentStepIndex'')" and ?phase = "js_string (get v ''phase'')"
  note rel = accepted_relations [OF assms]
  have final: "validate_final_provenance (items (get v ''artifacts'')) ?agg = None"
    and phase: "\<not> phase_inconsistent ?phase ?cur ?cs ?agg"
    using rel unfolding validateStateRelations_def Let_def first_err_None_Cons throw_if_None by blast+
  have "?cur = 0 \<and> (\<forall>s\<in>set (?cs @ [?agg]). in_state ''pending'' s)" if "?phase = ''pending_approval''"
    using phase that by (auto simp: phase_inconsistent_def Let_def list_ex_iff)
  moreover have "\<exists>s. filter (in_state ''working'') (?cs @ [?agg]) = [s] \<and> get s ''stepIndex'' = jint ?cur"
    if "?phase = ''working''"
  proof -
    have "\<not> not_the_current_one (filter (in_state ''working'') (?cs @ [?agg])) ?cur"
      using phase that unfolding phase_inconsistent_def Let_def by blast
    then have "length (filter (in_state ''working'') (?cs @ [?agg])) = 1"
      "get (hd (filter (in_state ''working'') (?cs @ [?agg]))) ''stepIndex'' = jint ?cur"
      unfolding not_the_current_one_def by auto
    then show ?thesis unfolding exactly_one by blast
  qed
  moreover have "(\<forall>s\<in>set (?cs @ [?agg]). in_state ''completed'' s)
      \<and> (\<exists>entry. produced_by (items (get v ''artifacts'')) ?agg = [entry]
              \<and> get entry ''artifactId'' = get ?agg ''artifactId'')" if "?phase = ''completed''"
  proof -
    have finished: "list_all (in_state ''completed'') ?cs" "in_state ''completed'' ?agg"
      using phase that unfolding phase_inconsistent_def Let_def by blast+
    then have "length (produced_by (items (get v ''artifacts'')) ?agg) = 1"
      "get (hd (produced_by (items (get v ''artifacts'')) ?agg)) ''artifactId'' = get ?agg ''artifactId''"
      using final unfolding validate_final_provenance_def Let_def by (simp_all add: throw_if_None)
    then show ?thesis using finished unfolding exactly_one list_all_iff by auto
  qed
  ultimately show ?thesis unfolding Let_def by blast
qed

theorem plan_phase_consistent_witness:
  "\<exists>plan. createDeterministicDelegationPlan sample_plan_input 0 ''plan-1'' ''event-1'' = Inr plan
     \<and> (\<forall>s\<in>set (butlast (items (get plan ''steps'')) @ [last (items (get plan ''steps''))]). in_state ''pending'' s)"
proof -
  let ?plan = "plan_object sample_plan_input (to_iso 0) ''plan-1'' ''event-1'' (plan_steps sample_plan_input)"
  have range: "iso_range 0" by (simp add: iso_range_def)
  have "js_string (get ?plan ''phase'') = ''pending_approval''" by simp
  with plan_phase_consistent [OF plan_metadata_ok [OF sample_input_ok range]]
  have "\<forall>s\<in>set (butlast (items (get ?plan ''steps'')) @ [last (items (get ?plan ''steps''))]). in_state ''pending'' s"
    unfolding Let_def by blast
  then show ?thesis using create_plan [OF sample_input_ok range] by blast
qed

text \<open>An object with one field replaced.\<close>

fun with_field :: "string \<Rightarrow> json \<Rightarrow> json \<Rightarrow> json" where
  "with_field k v (JObj kvs) = JObj (map (\<lambda>(k', v'). if k' = k then (k, v) else (k', v')) kvs)"
| "with_field k v j = j"

definition premature_plan :: json where
  "premature_plan =
     (let plan = plan_object sample_plan_input (to_iso 0) ''plan-1'' ''event-1'' (plan_steps sample_plan_input);
          steps = plan_steps sample_plan_input @
            [with_field ''state'' (JStr ''working'') (plan_aggregation (plan_steps sample_plan_input))]
      in with_field ''phase'' (JStr ''working'') (with_field ''currentStepIndex'' (jint 2)
        (with_field ''steps'' (JArr steps) plan)))"

text \<open>
  The validator does not tie the aggregation to its dependencies: it accepts a plan in phase
  \<open>working\<close> whose Host aggregation is already working while the child step it depends on is still
  pending.\<close>

theorem aggregation_may_run_first:
  "validateDelegationPlanState premature_plan = None
   \<and> js_string (get premature_plan ''phase'') = ''working''
   \<and> in_state ''working'' (last (items (get premature_plan ''steps'')))
   \<and> list_all (in_state ''pending'') (butlast (items (get premature_plan ''steps'')))"
  by code_simp

end
