(* ===== verification/Connection.thy ===== *)
theory Connection
  imports Public_Id Js_Date
begin

text \<open>
  Connection messages and records (\<open>core/connection/types.ts\<close>, \<open>protocol.ts\<close> and the record validator
  of \<open>storage.ts\<close>). A connection record is the JavaScript object itself, a \<open>json\<close> value: the code
  spreads patches over records and reads them back from JSON, so that fields the interface does not
  name survive. Two parsed values are compared with \<open>===\<close> as values, which is what it means for the
  strings and numbers that these fields hold.
\<close>

section \<open>States and predicates\<close>

datatype connection_state = Requested | PendingApproval | Accepted | Confirmed | Rejected | Blocked

fun connection_state_string :: "connection_state \<Rightarrow> string" where
  "connection_state_string Requested = ''Requested''"
| "connection_state_string PendingApproval = ''PendingApproval''"
| "connection_state_string Accepted = ''Accepted''"
| "connection_state_string Confirmed = ''Confirmed''"
| "connection_state_string Rejected = ''Rejected''"
| "connection_state_string Blocked = ''Blocked''"

abbreviation jstate :: "connection_state \<Rightarrow> json" where
  "jstate s \<equiv> JStr (connection_state_string s)"

definition connection_states :: "json list" where
  "connection_states = map jstate [Requested, PendingApproval, Accepted, Confirmed, Rejected, Blocked]"

definition isTetiConnectionArchived :: "json \<Rightarrow> bool" where
  "isTetiConnectionArchived c \<longleftrightarrow> get (get c ''networkRelationship'') ''state'' = JStr ''revoked''"

definition isTetiConnectionConfirmed :: "json \<Rightarrow> bool" where
  "isTetiConnectionConfirmed c \<longleftrightarrow> get c ''state'' = jstate Confirmed \<and> \<not> isTetiConnectionArchived c"

definition isNetworkRelationshipConfirmed :: "json \<Rightarrow> bool" where
  "isNetworkRelationshipConfirmed c \<longleftrightarrow>
     isTetiConnectionConfirmed c \<and> get (get c ''networkRelationship'') ''state'' = JStr ''confirmed''"

section \<open>Validators of the messages\<close>

definition forbidden_fields :: "string list" where
  "forbidden_fields = [''privateKey'', ''secretKey'', ''password'', ''credentials'', ''chatmailPassword'',
     ''databasePath'', ''dbPath'', ''chatHistory'', ''messages'']"

definition rejectPrivateFields :: "json \<Rightarrow> string \<Rightarrow> error option" where
  "rejectPrivateFields v label = first_err (map (\<lambda>field. throw_if (get v field \<noteq> JUndef)
     (ProtocolError (label @ '' must not contain '' @ field @ ''.''))) forbidden_fields)"

definition requireCanonicalPublicId :: "json \<Rightarrow> string \<Rightarrow> error option" where
  "requireCanonicalPublicId v fieldName = throw_if (\<not> isCanonicalTetiPublicId v)
     (ProtocolError (fieldName @ '' must match teti_ followed by exactly 9 ASCII lowercase letters or numbers.''))"

definition requireNonEmptyString :: "json \<Rightarrow> string \<Rightarrow> error option" where
  "requireNonEmptyString v fieldName = throw_if (\<not> is_string v \<or> trim (str_of v) = [])
     (ProtocolError (''Connection request '' @ fieldName @ '' is required.''))"

definition validateConnectionRequest :: "json \<Rightarrow> error option" where
  "validateConnectionRequest v = first_err
     [throw_if (\<not> is_record v) (ProtocolError ''Connection request must be an object.''),
      rejectPrivateFields v ''Connection request'',
      throw_if (get v ''version'' \<noteq> jint 1) (ProtocolError ''Unsupported connection request version.''),
      requireNonEmptyString (get v ''requestId'') ''requestId'',
      requireCanonicalPublicId (get v ''fromTetiId'') ''fromTetiId'',
      requireNonEmptyString (get v ''fromAddress'') ''fromAddress'',
      requireNonEmptyString (get v ''createdAt'') ''createdAt'',
      requireNonEmptyString (get v ''nonce'') ''nonce'',
      throw_if (\<not> is_record (get v ''profile'')) (ProtocolError ''Connection request profile is required.''),
      rejectPrivateFields (get v ''profile'') ''Connection request profile'',
      throw_if (get v ''publicKey'' \<noteq> JUndef \<and> \<not> is_string (get v ''publicKey''))
        (ProtocolError ''Connection request publicKey must be a string.'')]"

definition validateConnectionAccept :: "json \<Rightarrow> error option" where
  "validateConnectionAccept v = first_err
     [throw_if (\<not> is_record v) (ProtocolError ''Connection accept must be an object.''),
      rejectPrivateFields v ''Connection accept'',
      throw_if (get v ''version'' \<noteq> jint 1) (ProtocolError ''Unsupported connection accept version.''),
      requireNonEmptyString (get v ''requestId'') ''requestId'',
      requireCanonicalPublicId (get v ''fromTetiId'') ''fromTetiId'',
      requireNonEmptyString (get v ''fromAddress'') ''fromAddress'',
      requireNonEmptyString (get v ''createdAt'') ''createdAt'',
      requireNonEmptyString (get v ''nonce'') ''nonce'']"

definition validateConnectionReject :: "json \<Rightarrow> error option" where
  "validateConnectionReject v = first_err
     [throw_if (\<not> is_record v) (ProtocolError ''Connection reject must be an object.''),
      rejectPrivateFields v ''Connection reject'',
      requireNonEmptyString (get v ''requestId'') ''requestId'',
      throw_if (get v ''reason'' \<noteq> JUndef \<and> \<not> is_string (get v ''reason''))
        (ProtocolError ''Connection reject reason must be a string.'')]"

definition supported_envelope_types :: "string list" where
  "supported_envelope_types = [''teti.connection.request'', ''teti.connection.accept'', ''teti.connection.reject'',
     ''teti.profile.update'']"

definition validateConnectionEnvelope :: "json \<Rightarrow> error option" where
  "validateConnectionEnvelope v = first_err
     [throw_if (\<not> is_record v) (ProtocolError ''Connection envelope must be an object.''),
      rejectPrivateFields v ''Connection envelope'',
      throw_if (get v ''version'' \<noteq> jint 1) (ProtocolError ''Unsupported connection envelope version.''),
      throw_if (\<not> is_string (get v ''type'') \<or> str_of (get v ''type'') \<notin> set supported_envelope_types)
        (ProtocolError ''Connection envelope type is invalid.''),
      throw_if (''payload'' \<notin> set (keys_of v)) (ProtocolError ''Connection envelope payload is required.''),
      (if get v ''type'' = JStr ''teti.connection.request'' then validateConnectionRequest (get v ''payload'') else None),
      (if get v ''type'' = JStr ''teti.connection.accept'' then validateConnectionAccept (get v ''payload'') else None),
      (if get v ''type'' = JStr ''teti.connection.reject'' then validateConnectionReject (get v ''payload'') else None)]"

section \<open>Building and parsing messages\<close>

text \<open>What the connection code reads of the local account.\<close>

record local_account =
  la_id :: string
  la_address :: string
  la_public_key :: "string option"
  la_public_profile :: json
  la_chatmail_account_id :: json

definition createConnectionRequest :: "local_account \<Rightarrow> string \<Rightarrow> string \<Rightarrow> string \<Rightarrow> json result" where
  "createConnectionRequest account requestId nonce createdAt =
     (let request = JObj
        ([(''version'', jint 1),
          (''requestId'', JStr requestId),
          (''fromTetiId'', JStr (la_id account)),
          (''fromAddress'', JStr (la_address account)),
          (''profile'', la_public_profile account),
          (''createdAt'', JStr createdAt),
          (''nonce'', JStr nonce)]
         @ (case la_public_key account of None \<Rightarrow> []
            | Some k \<Rightarrow> if k = [] then [] else [(''publicKey'', JStr k)]))
      in guarded (validateConnectionRequest request) (Inr request))"

definition createConnectionAccept :: "local_account \<Rightarrow> string \<Rightarrow> string \<Rightarrow> string \<Rightarrow> json result" where
  "createConnectionAccept account requestId nonce createdAt =
     (let accept = JObj
         [(''version'', jint 1),
          (''requestId'', JStr requestId),
          (''fromTetiId'', JStr (la_id account)),
          (''fromAddress'', JStr (la_address account)),
          (''createdAt'', JStr createdAt),
          (''nonce'', JStr nonce)]
      in guarded (validateConnectionAccept accept) (Inr accept))"

definition createConnectionReject :: "string \<Rightarrow> string option \<Rightarrow> json result" where
  "createConnectionReject requestId reason =
     (let reject = JObj ([(''requestId'', JStr requestId)]
         @ (case reason of None \<Rightarrow> [] | Some r \<Rightarrow> if r = [] then [] else [(''reason'', JStr r)]))
      in guarded (validateConnectionReject reject) (Inr reject))"

definition envelope_json :: "string \<Rightarrow> json \<Rightarrow> json" where
  "envelope_json type payload = JObj [(''type'', JStr type), (''version'', jint 1), (''payload'', payload)]"

definition createConnectionRequestEnvelope :: "json \<Rightarrow> json result" where
  "createConnectionRequestEnvelope request =
     guarded (validateConnectionRequest request) (Inr (envelope_json ''teti.connection.request'' request))"

definition createConnectionAcceptEnvelope :: "json \<Rightarrow> json result" where
  "createConnectionAcceptEnvelope accept =
     guarded (validateConnectionAccept accept) (Inr (envelope_json ''teti.connection.accept'' accept))"

definition createConnectionRejectEnvelope :: "json \<Rightarrow> json result" where
  "createConnectionRejectEnvelope reject =
     guarded (validateConnectionReject reject) (Inr (envelope_json ''teti.connection.reject'' reject))"

text \<open>
  The wire format. A raw message is what \<open>JSON.parse\<close> makes of it: \<open>None\<close> when it is not JSON, else
  the value. \<open>serializeConnectionEnvelope\<close> gives the message whose parse is the copy of the envelope.
\<close>

definition serializeConnectionEnvelope :: "json \<Rightarrow> json option result" where
  "serializeConnectionEnvelope envelope =
     guarded (validateConnectionEnvelope envelope) (Inr (Some (json_clone envelope)))"

definition parseConnectionEnvelope :: "json option \<Rightarrow> json result" where
  "parseConnectionEnvelope raw =
     (case raw of None \<Rightarrow> Inl (ProtocolError ''Connection message is not valid JSON.'')
      | Some v \<Rightarrow> guarded (validateConnectionEnvelope v) (Inr v))"

definition parse_payload :: "string \<Rightarrow> string \<Rightarrow> (json \<Rightarrow> error option) \<Rightarrow> json option \<Rightarrow> json result" where
  "parse_payload type message validate raw =
     rbind (parseConnectionEnvelope raw) (\<lambda>envelope.
       if get envelope ''type'' \<noteq> JStr type then Inl (ProtocolError message)
       else guarded (validate (get envelope ''payload'')) (Inr (get envelope ''payload'')))"

definition parseConnectionRequestEnvelope :: "json option \<Rightarrow> json result" where
  "parseConnectionRequestEnvelope =
     parse_payload ''teti.connection.request'' ''Connection message is not a request.'' validateConnectionRequest"

definition parseConnectionAcceptEnvelope :: "json option \<Rightarrow> json result" where
  "parseConnectionAcceptEnvelope =
     parse_payload ''teti.connection.accept'' ''Connection message is not an accept.'' validateConnectionAccept"

definition parseConnectionRejectEnvelope :: "json option \<Rightarrow> json result" where
  "parseConnectionRejectEnvelope =
     parse_payload ''teti.connection.reject'' ''Connection message is not a reject.'' validateConnectionReject"

section \<open>The record validator\<close>

definition base64url_char :: "char \<Rightarrow> bool" where
  "base64url_char c \<longleftrightarrow> is_alnum c \<or> c = CHR ''_'' \<or> c = CHR ''-''"

text \<open>\<open>/^rel_[A-Za-z0-9_-]{21}[AQgw]$/\<close> and \<open>/^[A-Za-z0-9_-]{43}$/\<close>\<close>

definition relationship_id_pattern :: "string \<Rightarrow> bool" where
  "relationship_id_pattern s \<longleftrightarrow>
     starts_with ''rel_'' s \<and> length s = 26 \<and> list_all base64url_char (drop 4 s) \<and> last s \<in> set ''AQgw''"

definition fingerprint_pattern :: "string \<Rightarrow> bool" where
  "fingerprint_pattern s \<longleftrightarrow> length s = 43 \<and> list_all base64url_char s"

definition relationship_invalid :: "json \<Rightarrow> json \<Rightarrow> bool" where
  "relationship_invalid connection r \<longleftrightarrow>
     get r ''schemaVersion'' \<noteq> jint 1
     \<or> \<not> relationship_id_pattern (js_string (get r ''id''))
     \<or> get r ''id'' \<noteq> get connection ''requestId''
     \<or> \<not> safe_int_from 1 (get r ''revision'')
     \<or> get r ''state'' \<notin> JStr ` {''requested'', ''confirmed'', ''rejected'', ''blocked'', ''revoked''}
     \<or> get r ''etag'' \<noteq> JStr (CHR 0x22 # ''relationship-r'' @ js_string (get r ''revision'') @ [CHR 0x22])
     \<or> get r ''blockedBy'' \<notin> {JStr ''self'', JStr ''peer'', JNull}
     \<or> (get r ''state'' = JStr ''blocked'') \<noteq> (get r ''blockedBy'' \<noteq> JNull)
     \<or> \<not> valid_date (js_string (get r ''stateChangedAt''))
     \<or> (get r ''documentFingerprint'' \<noteq> JUndef
          \<and> \<not> fingerprint_pattern (js_string (get r ''documentFingerprint'')))"

definition validateConnectionRecord :: "json \<Rightarrow> error option" where
  "validateConnectionRecord c = first_err
     [throw_if (c = JUndef \<or> c = JNull) (PlainError ''TypeError''),
      rejectPrivateFields c ''Teti connection record'',
      validateConnectionRequest (get c ''request''),
      throw_if (get c ''version'' \<noteq> jint 1) (PlainError ''Unsupported Teti connection record version.''),
      throw_if (get c ''state'' \<notin> set connection_states) (PlainError ''Teti connection state is invalid.''),
      throw_if (get c ''direction'' \<noteq> JStr ''incoming'' \<and> get c ''direction'' \<noteq> JStr ''outgoing'')
        (PlainError ''Teti connection direction is invalid.''),
      throw_if (\<not> truthy (get c ''requestId'') \<or> \<not> truthy (get c ''remoteTetiId'') \<or> \<not> truthy (get c ''remoteAddress''))
        (PlainError ''Teti connection record is missing required identity fields.''),
      throw_if (get c ''remotePublicKey'' \<noteq> JUndef
          \<and> (\<not> is_string (get c ''remotePublicKey'') \<or> trim (str_of (get c ''remotePublicKey'')) = []))
        (PlainError ''Teti connection remote public key must be a non-empty string.''),
      throw_if (get c ''networkRelationship'' \<noteq> JUndef \<and> relationship_invalid c (get c ''networkRelationship''))
        (PlainError ''Teti Network Relationship recovery metadata is invalid.'')]"

definition validateConnectionStore :: "json \<Rightarrow> error option" where
  "validateConnectionStore v = first_err
     [throw_if (v = JUndef \<or> v = JNull) (PlainError ''TypeError''),
      throw_if (get v ''version'' \<noteq> jint 1) (PlainError ''Unsupported Teti connection store version.''),
      throw_if (\<not> is_array (get v ''connections''))
        (PlainError ''Teti connection store connections must be an array.''),
      first_err (map validateConnectionRecord (items (get v ''connections'')))]"

section \<open>Lemmas\<close>

lemma rejectPrivateFields_None [valid_simps]:
  "rejectPrivateFields v l = None \<longleftrightarrow> (\<forall>f\<in>set forbidden_fields. get v f = JUndef)"
  by (simp add: rejectPrivateFields_def first_err_map_None throw_if_None)

lemma requireNonEmptyString_None [valid_simps]:
  "requireNonEmptyString v l = None \<longleftrightarrow> is_string v \<and> trim (str_of v) \<noteq> []"
  by (auto simp: requireNonEmptyString_def throw_if_None)

lemma requireCanonicalPublicId_None [valid_simps]:
  "requireCanonicalPublicId v l = None \<longleftrightarrow> isCanonicalTetiPublicId v"
  by (simp add: requireCanonicalPublicId_def throw_if_None)

lemma connection_state_string_inj [simp]:
  "connection_state_string s = connection_state_string t \<longleftrightarrow> s = t"
  by (cases s; cases t) simp_all

lemma in_connection_states: "v \<in> set connection_states \<longleftrightarrow> (\<exists>s. v = jstate s)"
proof -
  have all: "set [Requested, PendingApproval, Accepted, Confirmed, Rejected, Blocked] = UNIV"
    by (auto intro: connection_state.exhaust)
  have "set connection_states = jstate ` UNIV" unfolding connection_states_def set_map all ..
  then show ?thesis by auto
qed

definition mutable_fields :: "string set" where
  "mutable_fields = {''state'', ''remoteTetiId'', ''remoteAddress'', ''updatedAt'', ''acceptedAt'', ''rejectedAt'',
     ''confirmedAt''}"

text \<open>A record that differs from a valid one in the fields the handshake changes is valid.\<close>

lemma validateConnectionRecord_change:
  assumes valid: "validateConnectionRecord c = None" and rec: "is_record c'"
    and other: "\<And>k. k \<notin> mutable_fields \<Longrightarrow> get c' k = get c k"
    and state: "get c' ''state'' = jstate s"
    and ids: "truthy (get c' ''remoteTetiId'')" "truthy (get c' ''remoteAddress'')"
  shows "validateConnectionRecord c' = None"
proof -
  have other_fields: "get c' ''requestId'' = get c ''requestId''" "get c' ''request'' = get c ''request''"
    "get c' ''version'' = get c ''version''" "get c' ''direction'' = get c ''direction''"
    "get c' ''remotePublicKey'' = get c ''remotePublicKey''"
    "get c' ''networkRelationship'' = get c ''networkRelationship''"
    by (simp_all add: other mutable_fields_def)
  have "\<forall>f\<in>set forbidden_fields. get c' f = get c f"
    by (simp add: forbidden_fields_def other mutable_fields_def)
  then have no_private: "rejectPrivateFields c' l = None" for l
    using valid by (simp add: valid_simps validateConnectionRecord_def)
  have "relationship_invalid c' r = relationship_invalid c r" for r
    by (simp add: relationship_invalid_def other_fields)
  moreover have "c' \<noteq> JUndef" "c' \<noteq> JNull" using rec by auto
  ultimately show ?thesis
    using valid no_private ids state in_connection_states
    by (auto simp: validateConnectionRecord_def valid_simps other_fields)
qed

end
