(* ===== verification/Connection_Store.thy ===== *)
theory Connection_Store
  imports Connection
begin

text \<open>
  The connection storages (\<open>core/connection/storage.ts\<close>). A storage is a record of the interface's
  operations on its state: the file of \<open>FileTetiConnectionStorage\<close>, the list of
  \<open>MemoryTetiConnectionStorage\<close>. The locale states the contract that the handshake relies on, and both
  storages interpret it.
\<close>

section \<open>The interface\<close>

record 's conn_storage =
  cs_loadAll :: "'s \<Rightarrow> json list result"
  cs_saveAll :: "json list \<Rightarrow> 's \<Rightarrow> 's result"
  cs_upsert :: "json \<Rightarrow> 's \<Rightarrow> 's result"
  cs_update :: "string \<Rightarrow> (string \<times> json) list \<Rightarrow> 's \<Rightarrow> ('s \<times> json) result"
  cs_removeAll :: "'s \<Rightarrow> 's"

definition index_of_request :: "json \<Rightarrow> json list \<Rightarrow> nat option" where
  "index_of_request requestId connections = find_index (\<lambda>item. get item ''requestId'' = requestId) connections"

text \<open>The replacement at the found index, or the push at the end.\<close>

definition put_at :: "nat option \<Rightarrow> json \<Rightarrow> json list \<Rightarrow> json list" where
  "put_at i c connections = (case i of None \<Rightarrow> connections @ [c] | Some n \<Rightarrow> connections[n := c])"

definition no_such_request :: "string \<Rightarrow> error" where
  "no_such_request requestId = PlainError (''Teti connection request '' @ requestId @ '' does not exist.'')"

definition updated_record :: "json \<Rightarrow> (string \<times> json) list \<Rightarrow> string \<Rightarrow> json" where
  "updated_record existing patch requestId =
     spread (spread existing patch) [(''requestId'', JStr requestId)]"

section \<open>The file storage\<close>

definition conn_file_loadAll :: "json_file \<Rightarrow> json list result" where
  "conn_file_loadAll f =
     (case f of
        NoFile \<Rightarrow> Inr []
      | NotJson \<Rightarrow> Inl (PlainError ''SyntaxError'')
      | JsonFile v \<Rightarrow> guarded (validateConnectionStore v) (Inr (items (get v ''connections''))))"

definition conn_store_json :: "json list \<Rightarrow> json" where
  "conn_store_json connections = JObj [(''version'', jint 1), (''connections'', JArr connections)]"

definition conn_file_saveAll :: "json list \<Rightarrow> json_file \<Rightarrow> json_file result" where
  "conn_file_saveAll connections f =
     (let store = conn_store_json connections in
      guarded (validateConnectionStore store) (Inr (JsonFile (json_clone store))))"

definition conn_file_upsert :: "json \<Rightarrow> json_file \<Rightarrow> json_file result" where
  "conn_file_upsert c f =
     guarded (validateConnectionRecord c)
       (rbind (conn_file_loadAll f) (\<lambda>connections.
          conn_file_saveAll (put_at (index_of_request (get c ''requestId'') connections) c connections) f))"

definition conn_file_update :: "string \<Rightarrow> (string \<times> json) list \<Rightarrow> json_file \<Rightarrow> (json_file \<times> json) result" where
  "conn_file_update requestId patch f =
     rbind (conn_file_loadAll f) (\<lambda>connections.
       case index_of_request (JStr requestId) connections of
         None \<Rightarrow> Inl (no_such_request requestId)
       | Some i \<Rightarrow>
           (let updated = updated_record (connections ! i) patch requestId in
            guarded (validateConnectionRecord updated)
              (rbind (conn_file_saveAll (connections[i := updated]) f) (\<lambda>f'. Inr (f', updated)))))"

definition file_storage :: "json_file conn_storage" where
  "file_storage = \<lparr>cs_loadAll = conn_file_loadAll, cs_saveAll = conn_file_saveAll,
     cs_upsert = conn_file_upsert, cs_update = conn_file_update, cs_removeAll = (\<lambda>f. NoFile)\<rparr>"

section \<open>The memory storage\<close>

definition conn_memory_loadAll :: "json list \<Rightarrow> json list result" where
  "conn_memory_loadAll s = Inr (map json_clone s)"

definition conn_memory_saveAll :: "json list \<Rightarrow> json list \<Rightarrow> json list result" where
  "conn_memory_saveAll connections s =
     guarded (first_err (map validateConnectionRecord connections)) (Inr (map json_clone connections))"

definition conn_memory_upsert :: "json \<Rightarrow> json list \<Rightarrow> json list result" where
  "conn_memory_upsert c s =
     guarded (validateConnectionRecord c)
       (Inr (put_at (index_of_request (get c ''requestId'') s) (json_clone c) s))"

definition conn_memory_update :: "string \<Rightarrow> (string \<times> json) list \<Rightarrow> json list \<Rightarrow> (json list \<times> json) result" where
  "conn_memory_update requestId patch s =
     (case index_of_request (JStr requestId) s of
        None \<Rightarrow> Inl (no_such_request requestId)
      | Some i \<Rightarrow>
          (let updated = updated_record (s ! i) patch requestId in
           guarded (validateConnectionRecord updated) (Inr (s[i := json_clone updated], json_clone updated))))"

definition memory_storage :: "json list conn_storage" where
  "memory_storage = \<lparr>cs_loadAll = conn_memory_loadAll, cs_saveAll = conn_memory_saveAll,
     cs_upsert = conn_memory_upsert, cs_update = conn_memory_update, cs_removeAll = (\<lambda>s. [])\<rparr>"

section \<open>The contract\<close>

text \<open>A record in order: accepted by the validator, and free of undefined fields, as JSON values are.\<close>

definition conn_ok :: "json \<Rightarrow> bool" where
  "conn_ok c \<longleftrightarrow> validateConnectionRecord c = None \<and> json_clean c"

definition conns_ok :: "json list \<Rightarrow> bool" where
  "conns_ok cs \<longleftrightarrow> (\<forall>c\<in>set cs. conn_ok c)"

definition put_connection :: "json \<Rightarrow> json list \<Rightarrow> json list" where
  "put_connection c cs = put_at (index_of_request (get c ''requestId'') cs) c cs"

locale connection_storage =
  fixes store :: "'s conn_storage" and good :: "'s \<Rightarrow> bool"
  assumes load_good: "good s \<Longrightarrow> \<exists>cs. cs_loadAll store s = Inr cs \<and> conns_ok cs"
    and save_good: "good s \<Longrightarrow> conns_ok cs \<Longrightarrow>
      \<exists>s'. cs_saveAll store cs s = Inr s' \<and> good s' \<and> cs_loadAll store s' = Inr cs"
    and upsert_good: "good s \<Longrightarrow> cs_loadAll store s = Inr cs \<Longrightarrow> conn_ok c \<Longrightarrow>
      \<exists>s'. cs_upsert store c s = Inr s' \<and> good s' \<and> cs_loadAll store s' = Inr (put_connection c cs)"
    and upsert_bad: "good s \<Longrightarrow> validateConnectionRecord c \<noteq> None \<Longrightarrow> \<exists>e. cs_upsert store c s = Inl e"
    and update_good: "good s \<Longrightarrow> cs_loadAll store s = Inr cs \<Longrightarrow> index_of_request (JStr r) cs = Some i \<Longrightarrow>
      conn_ok (updated_record (cs ! i) patch r) \<Longrightarrow>
      \<exists>s'. cs_update store r patch s = Inr (s', updated_record (cs ! i) patch r) \<and> good s'
        \<and> cs_loadAll store s' = Inr (cs[i := updated_record (cs ! i) patch r])"
    and update_missing: "good s \<Longrightarrow> cs_loadAll store s = Inr cs \<Longrightarrow> index_of_request (JStr r) cs = None \<Longrightarrow>
      \<exists>e. cs_update store r patch s = Inl e"
begin

text \<open>A storage never loses what it was given: a saved list is loaded, then replaced record by record.\<close>

lemma save_then_upsert:
  assumes "good s" and "conns_ok cs" and "conn_ok c"
  shows "\<exists>s1 s2. cs_saveAll store cs s = Inr s1 \<and> cs_upsert store c s1 = Inr s2
    \<and> cs_loadAll store s2 = Inr (put_connection c cs) \<and> good s2"
  using save_good [OF assms(1,2)] upsert_good [OF _ _ assms(3)] by blast

end

section \<open>Both storages keep the contract\<close>

lemma conn_ok_clone: "conns_ok cs \<Longrightarrow> map json_clone cs = cs"
  by (simp add: conns_ok_def conn_ok_def map_idI json_clone_clean)

lemma conns_ok_put: "conns_ok cs \<Longrightarrow> conn_ok c \<Longrightarrow> conns_ok (put_connection c cs)"
  by (auto simp: conns_ok_def put_connection_def put_at_def split: option.splits dest!: set_update_subset_insert [THEN subsetD])

lemma conns_ok_update: "conns_ok cs \<Longrightarrow> conn_ok c \<Longrightarrow> conns_ok (cs[i := c])"
  by (auto simp: conns_ok_def dest!: set_update_subset_insert [THEN subsetD])

lemma validate_store_conns:
  "validateConnectionStore (conn_store_json cs) = None \<longleftrightarrow> (\<forall>c\<in>set cs. validateConnectionRecord c = None)"
  by (simp add: validateConnectionStore_def conn_store_json_def valid_simps first_err_map_None)

lemma conn_store_clone: "conns_ok cs \<Longrightarrow> json_clone (conn_store_json cs) = conn_store_json cs"
  by (simp add: conn_store_json_def conn_ok_clone)

definition good_conn_file :: "json_file \<Rightarrow> bool" where
  "good_conn_file f = (case f of NoFile \<Rightarrow> True | NotJson \<Rightarrow> False
     | JsonFile v \<Rightarrow> validateConnectionStore v = None \<and> json_clean v)"

lemma good_file_load: "good_conn_file f \<Longrightarrow> \<exists>cs. conn_file_loadAll f = Inr cs \<and> conns_ok cs"
proof (cases f)
  case (JsonFile v)
  assume "good_conn_file f"
  with JsonFile have v: "validateConnectionStore v = None" "json_clean v" by (auto simp: good_conn_file_def)
  have arr: "is_array (get v ''connections'')"
    and all: "\<forall>c\<in>set (items (get v ''connections'')). validateConnectionRecord c = None"
    using v(1) by (simp_all add: validateConnectionStore_def valid_simps first_err_map_None)
  then obtain xs where xs: "get v ''connections'' = JArr xs" by (auto simp: is_array_conv)
  with json_clean_get [OF v(2), of "''connections''"] have "\<forall>x\<in>set xs. json_clean x" by simp
  with all xs v JsonFile show ?thesis by (simp add: conn_file_loadAll_def conns_ok_def conn_ok_def)
qed (simp_all add: conn_file_loadAll_def good_conn_file_def conns_ok_def)

lemma file_save_ok:
  assumes "conns_ok cs"
  shows "conn_file_saveAll cs f = Inr (JsonFile (conn_store_json cs))"
    and "good_conn_file (JsonFile (conn_store_json cs))"
    and "conn_file_loadAll (JsonFile (conn_store_json cs)) = Inr cs"
proof -
  have valid: "validateConnectionStore (conn_store_json cs) = None"
    using assms by (simp add: validate_store_conns conns_ok_def conn_ok_def)
  then show "conn_file_saveAll cs f = Inr (JsonFile (conn_store_json cs))"
    by (simp add: conn_file_saveAll_def conn_store_clone [OF assms])
  show "good_conn_file (JsonFile (conn_store_json cs))"
    using valid assms by (simp add: good_conn_file_def conn_store_json_def conns_ok_def conn_ok_def)
  show "conn_file_loadAll (JsonFile (conn_store_json cs)) = Inr cs"
    using valid by (simp add: conn_file_loadAll_def) (simp add: conn_store_json_def)
qed

interpretation conn_file: connection_storage file_storage good_conn_file
proof
  fix s assume "good_conn_file s"
  then show "\<exists>cs. cs_loadAll file_storage s = Inr cs \<and> conns_ok cs"
    by (simp add: file_storage_def good_file_load)
next
  fix s cs assume "conns_ok cs"
  then show "\<exists>s'. cs_saveAll file_storage cs s = Inr s' \<and> good_conn_file s' \<and> cs_loadAll file_storage s' = Inr cs"
    by (simp add: file_storage_def file_save_ok)
next
  fix s cs c assume *: "good_conn_file s" "cs_loadAll file_storage s = Inr cs" "conn_ok c"
  then have "conns_ok cs" using good_file_load [of s] by (auto simp: file_storage_def)
  with * conns_ok_put [of cs c]
  show "\<exists>s'. cs_upsert file_storage c s = Inr s' \<and> good_conn_file s'
      \<and> cs_loadAll file_storage s' = Inr (put_connection c cs)"
    by (simp add: file_storage_def conn_file_upsert_def file_save_ok conn_ok_def flip: put_connection_def)
next
  fix s c assume "validateConnectionRecord c \<noteq> None"
  then show "\<exists>e. cs_upsert file_storage c s = Inl e" by (auto simp: file_storage_def conn_file_upsert_def)
next
  fix s cs r i patch
  assume *: "good_conn_file s" "cs_loadAll file_storage s = Inr cs" "index_of_request (JStr r) cs = Some i"
    "conn_ok (updated_record (cs ! i) patch r)"
  then have "conns_ok cs" using good_file_load [of s] by (auto simp: file_storage_def)
  with * conns_ok_update [of cs "updated_record (cs ! i) patch r" i]
  show "\<exists>s'. cs_update file_storage r patch s = Inr (s', updated_record (cs ! i) patch r) \<and> good_conn_file s'
        \<and> cs_loadAll file_storage s' = Inr (cs[i := updated_record (cs ! i) patch r])"
    by (simp add: file_storage_def conn_file_update_def file_save_ok conn_ok_def Let_def)
next
  fix s cs r patch
  assume "cs_loadAll file_storage s = Inr cs" "index_of_request (JStr r) cs = None"
  then show "\<exists>e. cs_update file_storage r patch s = Inl e"
    by (simp add: file_storage_def conn_file_update_def)
qed

interpretation conn_memory: connection_storage memory_storage conns_ok
proof
  fix s assume "conns_ok s"
  then show "\<exists>cs. cs_loadAll memory_storage s = Inr cs \<and> conns_ok cs"
    by (simp add: memory_storage_def conn_memory_loadAll_def conn_ok_clone)
next
  fix s cs assume "conns_ok cs"
  then show "\<exists>s'. cs_saveAll memory_storage cs s = Inr s' \<and> conns_ok s' \<and> cs_loadAll memory_storage s' = Inr cs"
    by (simp add: memory_storage_def conn_memory_loadAll_def conn_memory_saveAll_def conn_ok_clone
        guarded_def split: option.split) (auto simp: conns_ok_def conn_ok_def first_err_None dest: first_err_Some_in)
next
  fix s cs c assume *: "conns_ok s" "cs_loadAll memory_storage s = Inr cs" "conn_ok c"
  then have "cs = s" by (simp add: memory_storage_def conn_memory_loadAll_def conn_ok_clone)
  with * conns_ok_put [of s c]
  show "\<exists>s'. cs_upsert memory_storage c s = Inr s' \<and> conns_ok s'
      \<and> cs_loadAll memory_storage s' = Inr (put_connection c cs)"
    by (simp add: memory_storage_def conn_memory_upsert_def conn_memory_loadAll_def conn_ok_clone conn_ok_def
        json_clone_clean flip: put_connection_def)
next
  fix s c assume "validateConnectionRecord c \<noteq> None"
  then show "\<exists>e. cs_upsert memory_storage c s = Inl e" by (auto simp: memory_storage_def conn_memory_upsert_def)
next
  fix s cs r i patch
  assume *: "conns_ok s" "cs_loadAll memory_storage s = Inr cs" "index_of_request (JStr r) cs = Some i"
    "conn_ok (updated_record (cs ! i) patch r)"
  then have "cs = s" by (simp add: memory_storage_def conn_memory_loadAll_def conn_ok_clone)
  with * conns_ok_update [of s "updated_record (s ! i) patch r" i]
  show "\<exists>s'. cs_update memory_storage r patch s = Inr (s', updated_record (cs ! i) patch r) \<and> conns_ok s'
        \<and> cs_loadAll memory_storage s' = Inr (cs[i := updated_record (cs ! i) patch r])"
    by (simp add: memory_storage_def conn_memory_update_def conn_memory_loadAll_def conn_ok_clone conn_ok_def
        json_clone_clean Let_def)
next
  fix s cs r patch
  assume *: "conns_ok s" "cs_loadAll memory_storage s = Inr cs" "index_of_request (JStr r) cs = None"
  then have "cs = s" by (simp add: memory_storage_def conn_memory_loadAll_def conn_ok_clone)
  with * show "\<exists>e. cs_update memory_storage r patch s = Inl e"
    by (simp add: memory_storage_def conn_memory_update_def)
qed

end
