(* ===== verification/Handshake.thy ===== *)
theory Handshake
  imports Connection_Store
begin

text \<open>
  The connection handshake (\<open>core/connection/handshake.ts\<close>) and the manager that drives it
  (\<open>core/connection/manager.ts\<close>). An operation takes the storage and its state, and returns the new
  state, the messages that were delivered, and the record or the error: an operation that throws after
  its first effects keeps them. The messaging adapter is the argument \<open>deliver\<close>, the error of a send
  that fails; the local account, the identifiers and the clock readings are arguments.
\<close>

datatype sent_message =
    SendRequest json json json json
  | SendAccept json json json json
  | SendReject json json json json

type_synonym 's outcome = "'s \<times> sent_message list \<times> json result"

definition attempt :: "'s \<Rightarrow> sent_message list \<Rightarrow> 'a result \<Rightarrow> ('a \<Rightarrow> 's outcome) \<Rightarrow> 's outcome" where
  "attempt s out m f = (case m of Inl e \<Rightarrow> (s, out, Inl e) | Inr x \<Rightarrow> f x)"

definition no_account :: error where
  "no_account = PlainError ''A local Teti account is required before creating connections.''"

definition requireRequestId :: "json \<Rightarrow> error option" where
  "requireRequestId v = throw_if (\<not> is_string v \<or> trim (str_of v) = [])
     (PlainError ''Teti connection requestId is required.'')"

definition requireConnection :: "'s conn_storage \<Rightarrow> string \<Rightarrow> 's \<Rightarrow> json result" where
  "requireConnection store requestId s =
     rbind (cs_loadAll store s) (\<lambda>connections.
       case find_first (\<lambda>c. get c ''requestId'' = JStr requestId) connections of
         None \<Rightarrow> Inl (no_such_request requestId) | Some c \<Rightarrow> Inr c)"

record remote_identity =
  ri_id :: string
  ri_address :: string
  ri_public_key :: "string option"

definition outgoing_record :: "remote_identity \<Rightarrow> json \<Rightarrow> string \<Rightarrow> json" where
  "outgoing_record remote request timestamp = JObj
     [(''version'', jint 1),
      (''requestId'', get request ''requestId''),
      (''state'', jstate Requested),
      (''direction'', JStr ''outgoing''),
      (''remoteTetiId'', JStr (ri_id remote)),
      (''remoteAddress'', JStr (ri_address remote)),
      (''request'', request),
      (''createdAt'', JStr timestamp),
      (''updatedAt'', JStr timestamp)]"

definition createHandshakeRequest ::
  "'s conn_storage \<Rightarrow> (sent_message \<Rightarrow> error option) \<Rightarrow> local_account option \<Rightarrow> remote_identity
    \<Rightarrow> string \<Rightarrow> string \<Rightarrow> string \<Rightarrow> 's \<Rightarrow> 's outcome" where
  "createHandshakeRequest store deliver account remote requestId nonce timestamp s =
     (case account of
        None \<Rightarrow> (s, [], Inl no_account)
      | Some a \<Rightarrow> attempt s [] (createConnectionRequest a requestId nonce timestamp) (\<lambda>request.
          let m = SendRequest (la_chatmail_account_id a) (JStr (ri_address remote))
                (opt_json JStr (ri_public_key remote)) request in
          attempt s [] (guarded (deliver m) (Inr ())) (\<lambda>_.
            let record = outgoing_record remote request timestamp in
            attempt s [m] (cs_upsert store record s) (\<lambda>s'. (s', [m], Inr record)))))"

definition incoming_record :: "json \<Rightarrow> string \<Rightarrow> json" where
  "incoming_record request timestamp = JObj
     [(''version'', jint 1),
      (''requestId'', get request ''requestId''),
      (''state'', jstate PendingApproval),
      (''direction'', JStr ''incoming''),
      (''remoteTetiId'', get request ''fromTetiId''),
      (''remoteAddress'', get request ''fromAddress''),
      (''request'', request),
      (''createdAt'', get request ''createdAt''),
      (''updatedAt'', JStr timestamp)]"

definition handleIncomingRequest :: "'s conn_storage \<Rightarrow> json \<Rightarrow> string \<Rightarrow> 's \<Rightarrow> 's outcome" where
  "handleIncomingRequest store request timestamp s =
     attempt s [] (guarded (validateConnectionRequest request) (cs_loadAll store s)) (\<lambda>connections.
       case find_first (\<lambda>c. get c ''requestId'' = get request ''requestId'') connections of
         Some existing \<Rightarrow> (s, [], Inr existing)
       | None \<Rightarrow>
           (case find_first (\<lambda>c. isTetiConnectionConfirmed c \<and> get c ''remoteTetiId'' = get request ''fromTetiId'')
               connections of
             Some confirmedPeer \<Rightarrow> (s, [], Inr confirmedPeer)
           | None \<Rightarrow>
               (let record = incoming_record request timestamp in
                attempt s [] (cs_upsert store record s) (\<lambda>s'. (s', [], Inr record)))))"

text \<open>\<open>confirmPeerConnection\<close>: the confirmed record replaces every other record of its peers.\<close>

definition confirm_list :: "json list \<Rightarrow> nat \<Rightarrow> string \<Rightarrow> (string \<times> json) list \<Rightarrow> json list" where
  "confirm_list connections i requestId patch =
     (let existing = connections ! i; confirmed = updated_record existing patch requestId;
          peerIds = {get existing ''remoteTetiId'', get confirmed ''remoteTetiId''} in
      filter (\<lambda>c. get c ''requestId'' = JStr requestId \<or> get c ''remoteTetiId'' \<notin> peerIds)
        (connections[i := confirmed]))"

definition confirmPeerConnection ::
  "'s conn_storage \<Rightarrow> string \<Rightarrow> (string \<times> json) list \<Rightarrow> 's \<Rightarrow> ('s \<times> json) result" where
  "confirmPeerConnection store requestId patch s =
     rbind (cs_loadAll store s) (\<lambda>connections.
       case index_of_request (JStr requestId) connections of
         None \<Rightarrow> Inl (no_such_request requestId)
       | Some i \<Rightarrow> rbind (cs_saveAll store (confirm_list connections i requestId patch) s)
           (\<lambda>s'. Inr (s', updated_record (connections ! i) patch requestId)))"

definition acceptConnection ::
  "'s conn_storage \<Rightarrow> (sent_message \<Rightarrow> error option) \<Rightarrow> local_account option
    \<Rightarrow> string \<Rightarrow> string \<Rightarrow> string \<Rightarrow> string \<Rightarrow> 's \<Rightarrow> 's outcome" where
  "acceptConnection store deliver account requestId nonce acceptedAt confirmedAt s =
     attempt s [] (guarded (requireRequestId (JStr requestId)) (Inr ())) (\<lambda>_.
     case account of
       None \<Rightarrow> (s, [], Inl no_account)
     | Some a \<Rightarrow> attempt s [] (requireConnection store requestId s) (\<lambda>existing.
         if get existing ''state'' \<noteq> jstate PendingApproval
         then (s, [], Inl (PlainError (''Teti connection request '' @ requestId @ '' is not pending approval.'')))
         else attempt s [] (cs_update store requestId
             [(''state'', jstate Accepted), (''updatedAt'', JStr acceptedAt), (''acceptedAt'', JStr acceptedAt)] s) (\<lambda>(s1, _).
           attempt s1 [] (createConnectionAccept a requestId nonce acceptedAt) (\<lambda>accept.
             let m = SendAccept (la_chatmail_account_id a) (get existing ''remoteAddress'')
                   (get (get existing ''request'') ''publicKey'') accept in
             attempt s1 [] (guarded (deliver m) (Inr ())) (\<lambda>_.
               attempt s1 [m] (confirmPeerConnection store requestId
                   [(''state'', jstate Confirmed), (''updatedAt'', JStr confirmedAt), (''confirmedAt'', JStr confirmedAt)] s1)
                 (\<lambda>(s2, c). (s2, [m], Inr c)))))))"

definition reject_patch :: "string \<Rightarrow> (string \<times> json) list" where
  "reject_patch rejectedAt =
     [(''state'', jstate Rejected), (''updatedAt'', JStr rejectedAt), (''rejectedAt'', JStr rejectedAt)]"

definition rejectConnection ::
  "'s conn_storage \<Rightarrow> (sent_message \<Rightarrow> error option) \<Rightarrow> local_account option
    \<Rightarrow> string \<Rightarrow> string option \<Rightarrow> string \<Rightarrow> 's \<Rightarrow> 's outcome" where
  "rejectConnection store deliver account requestId reason rejectedAt s =
     attempt s [] (guarded (requireRequestId (JStr requestId)) (Inr ())) (\<lambda>_.
     case account of
       None \<Rightarrow> (s, [], Inl no_account)
     | Some a \<Rightarrow> attempt s [] (requireConnection store requestId s) (\<lambda>existing.
         attempt s [] (createConnectionReject requestId reason) (\<lambda>reject.
           let m = SendReject (la_chatmail_account_id a) (get existing ''remoteAddress'')
                 (get (get existing ''request'') ''publicKey'') reject in
           attempt s [] (guarded (deliver m) (Inr ())) (\<lambda>_.
             attempt s [m] (cs_update store requestId (reject_patch rejectedAt) s) (\<lambda>(s', c). (s', [m], Inr c))))))"

definition accept_patch :: "json \<Rightarrow> json \<Rightarrow> string \<Rightarrow> (string \<times> json) list" where
  "accept_patch accept existing now =
     (let confirmedAt = js_or (get accept ''createdAt'') (JStr now) in
     [(''state'', jstate Confirmed),
      (''remoteTetiId'', js_or (get accept ''fromTetiId'') (get existing ''remoteTetiId'')),
      (''remoteAddress'', js_or (get accept ''fromAddress'') (get existing ''remoteAddress'')),
      (''updatedAt'', confirmedAt),
      (''confirmedAt'', confirmedAt)])"

definition handleAccept :: "'s conn_storage \<Rightarrow> json \<Rightarrow> string \<Rightarrow> 's \<Rightarrow> 's outcome" where
  "handleAccept store accept now s =
     (let requestId = str_of (get accept ''requestId'') in
      attempt s [] (guarded (requireRequestId (get accept ''requestId'')) (requireConnection store requestId s)) (\<lambda>existing.
        if get existing ''state'' \<noteq> jstate Requested \<and> get existing ''state'' \<noteq> jstate Accepted
        then (s, [], Inl (PlainError (''Teti connection request '' @ requestId @ '' cannot be confirmed.'')))
        else attempt s [] (confirmPeerConnection store requestId (accept_patch accept existing now) s)
          (\<lambda>(s', c). (s', [], Inr c))))"

definition handleReject :: "'s conn_storage \<Rightarrow> json \<Rightarrow> string \<Rightarrow> 's \<Rightarrow> 's outcome" where
  "handleReject store reject now s =
     (let requestId = str_of (get reject ''requestId'') in
      attempt s [] (guarded (requireRequestId (get reject ''requestId'')) (requireConnection store requestId s)) (\<lambda>_.
        attempt s [] (cs_update store requestId (reject_patch now) s) (\<lambda>(s', c). (s', [], Inr c))))"

section \<open>Reconciliation of confirmed peers\<close>

text \<open>
  The map from a peer to its canonical record, filled in the order of the connections; \<open>lt\<close> is
  \<open>a.localeCompare(b) < 0\<close>, which depends on the locale of the host.
\<close>

definition has_relationship :: "json \<Rightarrow> bool" where
  "has_relationship c \<longleftrightarrow> truthy (get c ''networkRelationship'')"

definition better_canonical :: "(string \<Rightarrow> string \<Rightarrow> bool) \<Rightarrow> json \<Rightarrow> json option \<Rightarrow> bool" where
  "better_canonical lt c canonical =
     (case canonical of
        None \<Rightarrow> True
      | Some k \<Rightarrow> (has_relationship c \<and> \<not> has_relationship k)
          \<or> (has_relationship c = has_relationship k
              \<and> lt (str_of (get c ''requestId'')) (str_of (get k ''requestId''))))"

definition note_canonical :: "(string \<Rightarrow> string \<Rightarrow> bool) \<Rightarrow> json \<Rightarrow> (json \<rightharpoonup> json) \<Rightarrow> (json \<rightharpoonup> json)" where
  "note_canonical lt c m =
     (if isTetiConnectionConfirmed c \<and> better_canonical lt c (m (get c ''remoteTetiId''))
      then m(get c ''remoteTetiId'' \<mapsto> c) else m)"

definition canonicalByPeer :: "(string \<Rightarrow> string \<Rightarrow> bool) \<Rightarrow> json list \<Rightarrow> (json \<rightharpoonup> json)" where
  "canonicalByPeer lt connections = fold (note_canonical lt) connections Map.empty"

definition reconcile_list :: "(string \<Rightarrow> string \<Rightarrow> bool) \<Rightarrow> json list \<Rightarrow> json list" where
  "reconcile_list lt connections =
     (let canonical = canonicalByPeer lt connections in
      filter (\<lambda>c. \<not> isTetiConnectionArchived c
        \<and> (case canonical (get c ''remoteTetiId'') of None \<Rightarrow> True
            | Some k \<Rightarrow> get c ''requestId'' = get k ''requestId'')) connections)"

definition reconcileConfirmedPeerConnections ::
  "'s conn_storage \<Rightarrow> (string \<Rightarrow> string \<Rightarrow> bool) \<Rightarrow> 's \<Rightarrow> 's \<times> json list result" where
  "reconcileConfirmedPeerConnections store lt s =
     (case cs_loadAll store s of
        Inl e \<Rightarrow> (s, Inl e)
      | Inr connections \<Rightarrow>
          (let reconciled = reconcile_list lt connections;
               preservesNetworkRecovery = list_ex (\<lambda>c. has_relationship c \<or> isTetiConnectionArchived c) connections in
           if length reconciled \<noteq> length connections \<and> \<not> preservesNetworkRecovery
           then (case cs_saveAll store reconciled s of Inl e \<Rightarrow> (s, Inl e) | Inr s' \<Rightarrow> (s', Inr reconciled))
           else (s, Inr reconciled)))"

section \<open>The manager\<close>

text \<open>A received event with the time of its receipt, which replaces the clock when it is given.\<close>

datatype connection_event =
    RequestEvent json string
  | AcceptEvent json string
  | RejectEvent json string

definition event_time :: "string \<Rightarrow> string \<Rightarrow> string" where
  "event_time received now = (if received \<noteq> [] then received else now)"

fun handle_event :: "'s conn_storage \<Rightarrow> string \<Rightarrow> connection_event \<Rightarrow> 's \<Rightarrow> 's outcome" where
  "handle_event store now (RequestEvent r t) s = handleIncomingRequest store r (event_time t now) s"
| "handle_event store now (AcceptEvent a t) s = handleAccept store a (event_time t now) s"
| "handle_event store now (RejectEvent r t) s = handleReject store r (event_time t now) s"

text \<open>\<open>receiveEvents\<close> handles the events in order and stops at the first one that throws.\<close>

fun handle_events :: "'s conn_storage \<Rightarrow> string \<Rightarrow> connection_event list \<Rightarrow> 's \<Rightarrow> 's \<times> json list result" where
  "handle_events store now [] s = (s, Inr [])"
| "handle_events store now (e # es) s =
     (case handle_event store now e s of
        (s', _, Inl err) \<Rightarrow> (s', Inl err)
      | (s', _, Inr record) \<Rightarrow>
          (case handle_events store now es s' of
             (s'', Inl err) \<Rightarrow> (s'', Inl err)
           | (s'', Inr records) \<Rightarrow> (s'', Inr (record # records))))"

definition receiveEvents ::
  "'s conn_storage \<Rightarrow> local_account option \<Rightarrow> connection_event list result \<Rightarrow> string \<Rightarrow> 's \<Rightarrow> 's \<times> json list result" where
  "receiveEvents store account received now s =
     (case account of None \<Rightarrow> (s, Inl no_account)
      | Some a \<Rightarrow> (case received of Inl e \<Rightarrow> (s, Inl e) | Inr events \<Rightarrow> handle_events store now events s))"

definition receiveRequests ::
  "'s conn_storage \<Rightarrow> local_account option \<Rightarrow> (json \<times> string) list result \<Rightarrow> string \<Rightarrow> 's \<Rightarrow> 's \<times> json list result" where
  "receiveRequests store account received now s =
     (case account of None \<Rightarrow> (s, Inl no_account)
      | Some a \<Rightarrow> (case received of Inl e \<Rightarrow> (s, Inl e)
          | Inr requests \<Rightarrow> handle_events store now (map (\<lambda>(r, t). RequestEvent r t) requests) s))"

definition listConnections :: "'s conn_storage \<Rightarrow> 's \<Rightarrow> json list result" where
  "listConnections store s = cs_loadAll store s"

section \<open>Records the handshake writes\<close>

lemma attempt_simps [simp]:
  "attempt s out (Inl e) f = (s, out, Inl e)"
  "attempt s out (Inr x) f = f x"
  by (simp_all add: attempt_def)

lemma trim_truthy: "is_string v \<Longrightarrow> trim (str_of v) \<noteq> [] \<Longrightarrow> truthy v"
  by (cases v) (auto simp: trim_def)

lemma canonical_truthy: "isCanonicalTetiPublicId v \<Longrightarrow> truthy v"
  by (cases v) (auto simp: isCanonicalTetiPublicId_def public_id_pattern_def starts_with_def)

lemma incoming_record_ok:
  assumes "validateConnectionRequest request = None"
  shows "validateConnectionRecord (incoming_record request timestamp) = None"
proof -
  let ?r = "incoming_record request timestamp"
  have "truthy (get request ''requestId'')" "truthy (get request ''fromTetiId'')" "truthy (get request ''fromAddress'')"
    using assms trim_truthy canonical_truthy by (auto simp: validateConnectionRequest_def valid_simps)
  moreover have "\<forall>f\<in>set forbidden_fields. get ?r f = JUndef"
    by (simp add: forbidden_fields_def incoming_record_def)
  moreover have "jstate PendingApproval \<in> set connection_states" unfolding in_connection_states by blast
  ultimately show ?thesis
    using assms
    by (auto simp: validateConnectionRecord_def valid_simps) (auto simp: incoming_record_def)
qed

lemma incoming_record_clean:
  assumes "validateConnectionRequest request = None" and "json_clean request"
  shows "json_clean (incoming_record request timestamp)"
proof -
  have "json_clean (get request k)" if "k \<in> {''requestId'', ''fromTetiId'', ''fromAddress'', ''createdAt''}" for k
  proof (rule json_clean_get [OF assms(2)])
    show "get request k \<noteq> JUndef"
      using assms(1) that canonical_truthy [of "get request ''fromTetiId''"]
      by (auto simp: validateConnectionRequest_def valid_simps)
  qed
  then show ?thesis using assms(2) by (simp add: incoming_record_def)
qed

text \<open>The update of a well-formed record with a new state and strings is well-formed.\<close>

lemma get_updated:
  "get (updated_record c patch r) k = (if k = ''requestId'' then JStr r
     else case map_of patch k of None \<Rightarrow> get c k | Some v \<Rightarrow> v)"
  by (simp add: updated_record_def get_spread)

lemma updated_record_ok:
  assumes c: "conn_ok c" "get c ''requestId'' = JStr r"
    and patch: "fst ` set patch \<subseteq> mutable_fields" "\<forall>kv\<in>set patch. json_clean (snd kv)"
    and state: "map_of patch ''state'' = Some (jstate st)"
    and ids: "\<forall>v. map_of patch ''remoteTetiId'' = Some v \<longrightarrow> truthy v"
      "\<forall>v. map_of patch ''remoteAddress'' = Some v \<longrightarrow> truthy v"
  shows "conn_ok (updated_record c patch r)"
proof -
  have rec: "is_record c" using c(1) by (cases c) (auto simp: conn_ok_def validateConnectionRecord_def valid_simps)
  have "validateConnectionRecord (updated_record c patch r) = None"
  proof (rule validateConnectionRecord_change)
    show "validateConnectionRecord c = None" using c(1) by (simp add: conn_ok_def)
    show "is_record (updated_record c patch r)" by (simp add: updated_record_def)
    show "get (updated_record c patch r) k = get c k" if "k \<notin> mutable_fields" for k
    proof -
      have "map_of patch k = None" using patch(1) that by (auto simp: map_of_eq_None_iff)
      then show ?thesis using c(2) by (simp add: get_updated)
    qed
    show "get (updated_record c patch r) ''state'' = jstate st" using state by (simp add: get_updated)
    have "truthy (get c ''remoteTetiId'')" "truthy (get c ''remoteAddress'')"
      using c(1) by (simp_all add: conn_ok_def validateConnectionRecord_def valid_simps)
    then show "truthy (get (updated_record c patch r) ''remoteTetiId'')"
      "truthy (get (updated_record c patch r) ''remoteAddress'')"
      using ids by (simp_all add: get_updated split: option.split)
  qed
  moreover have "json_clean (updated_record c patch r)"
    unfolding updated_record_def using rec c(1) patch(2) by (intro json_clean_spread) (simp_all add: conn_ok_def)
  ultimately show ?thesis by (simp add: conn_ok_def)
qed

section \<open>One confirmed record per peer\<close>

definition peers_unique :: "json list \<Rightarrow> bool" where
  "peers_unique cs \<longleftrightarrow> distinct (map (\<lambda>c. get c ''requestId'') cs)
     \<and> (\<forall>c\<in>set cs. \<forall>d\<in>set cs. isTetiConnectionConfirmed c \<and> isTetiConnectionConfirmed d
          \<and> get c ''remoteTetiId'' = get d ''remoteTetiId'' \<longrightarrow> get c ''requestId'' = get d ''requestId'')"

lemma peers_unique_Nil [simp]: "peers_unique []"
  by (simp add: peers_unique_def)

lemma peers_unique_filter: "peers_unique cs \<Longrightarrow> peers_unique (filter P cs)"
  by (auto simp: peers_unique_def distinct_map_filter)

lemma index_of_request_Some:
  "index_of_request r cs = Some i \<Longrightarrow> i < length cs \<and> get (cs ! i) ''requestId'' = r"
  unfolding index_of_request_def by (drule find_index_Some) simp

lemma index_of_request_None:
  "index_of_request r cs = None \<longleftrightarrow> r \<notin> (\<lambda>c. get c ''requestId'') ` set cs"
  by (auto simp: index_of_request_def find_index_None)

lemma update_ids:
  "i < length cs \<Longrightarrow> get c ''requestId'' = get (cs ! i) ''requestId'' \<Longrightarrow>
     map (\<lambda>c. get c ''requestId'') (cs[i := c]) = map (\<lambda>c. get c ''requestId'') cs"
  by (simp add: map_update list_update_same_conv)

lemma peers_unique_update:
  assumes "peers_unique cs" and "i < length cs" and "get c ''requestId'' = get (cs ! i) ''requestId''"
    and "\<not> isTetiConnectionConfirmed c"
  shows "peers_unique (cs[i := c])"
proof -
  have "set (cs[i := c]) \<subseteq> insert c (set cs)" by (rule set_update_subset_insert)
  with assms show ?thesis unfolding peers_unique_def update_ids [OF assms(2,3)] by blast
qed

lemma peers_unique_put:
  assumes "peers_unique cs" and "\<not> isTetiConnectionConfirmed c"
  shows "peers_unique (put_connection c cs)"
proof (cases "index_of_request (get c ''requestId'') cs")
  case None
  then have "get c ''requestId'' \<notin> (\<lambda>c. get c ''requestId'') ` set cs" by (simp add: index_of_request_None)
  with assms(1) have "distinct (map (\<lambda>c. get c ''requestId'') (cs @ [c]))"
    unfolding peers_unique_def by simp
  moreover have "put_connection c cs = cs @ [c]" using None by (simp add: put_connection_def put_at_def)
  moreover have "set (cs @ [c]) = insert c (set cs)" by simp
  ultimately show ?thesis using assms unfolding peers_unique_def by (simp only:) blast
next
  case (Some i)
  with index_of_request_Some [OF Some] peers_unique_update [OF assms(1) _ _ assms(2), of i] show ?thesis
    by (simp add: put_connection_def put_at_def)
qed

lemma peers_unique_confirm:
  assumes "peers_unique cs" and "index_of_request (JStr r) cs = Some i"
  shows "peers_unique (confirm_list cs i r patch)"
proof -
  let ?n = "updated_record (cs ! i) patch r"
  let ?P = "\<lambda>c. get c ''requestId'' = JStr r
      \<or> get c ''remoteTetiId'' \<notin> {get (cs ! i) ''remoteTetiId'', get ?n ''remoteTetiId''}"
  have i: "i < length cs" "get (cs ! i) ''requestId'' = JStr r" using index_of_request_Some [OF assms(2)] by auto
  have n: "get ?n ''requestId'' = JStr r" by (simp add: get_updated)
  have ids: "map (\<lambda>c. get c ''requestId'') (cs[i := ?n]) = map (\<lambda>c. get c ''requestId'') cs"
    using i n by (intro update_ids) simp_all
  have eq: "confirm_list cs i r patch = filter ?P (cs[i := ?n])" by (simp add: confirm_list_def Let_def)
  have "distinct (map (\<lambda>c. get c ''requestId'') (cs[i := ?n]))"
    using assms(1) unfolding ids by (simp add: peers_unique_def)
  then have inj: "inj_on (\<lambda>c. get c ''requestId'') (set (cs[i := ?n]))"
    and "distinct (map (\<lambda>c. get c ''requestId'') (confirm_list cs i r patch))"
    unfolding eq by (simp add: distinct_map, rule distinct_map_filter)
  moreover have "get c ''requestId'' = get d ''requestId''"
    if c: "c \<in> set (confirm_list cs i r patch)" "isTetiConnectionConfirmed c"
      and d: "d \<in> set (confirm_list cs i r patch)" "isTetiConnectionConfirmed d"
      and same: "get c ''remoteTetiId'' = get d ''remoteTetiId''" for c d
  proof -
    have mem: "x = ?n \<or> x \<in> set cs" if "x \<in> set (confirm_list cs i r patch)" for x
      using that set_update_subset_insert [of cs i ?n] unfolding eq by auto
    have owner: "x = ?n" if "x \<in> set (confirm_list cs i r patch)" "get x ''requestId'' = JStr r" for x
    proof -
      have x: "x \<in> set (cs[i := ?n])" using that(1) unfolding eq by simp
      have "?n \<in> set (cs[i := ?n])" using i(1) by (rule set_update_memI)
      with inj x that(2) n show ?thesis unfolding inj_on_def by simp
    qed
    have P: "?P x" if "x \<in> set (confirm_list cs i r patch)" for x using that unfolding eq by simp
    show ?thesis
    proof (cases "get c ''requestId'' = JStr r \<or> get d ''requestId'' = JStr r")
      case True
      then show ?thesis
      proof
        assume r: "get c ''requestId'' = JStr r"
        with P [OF d(1)] same owner [OF c(1) r] show ?thesis by auto
      next
        assume r: "get d ''requestId'' = JStr r"
        with P [OF c(1)] same owner [OF d(1) r] show ?thesis by auto
      qed
    next
      case False
      then have "c \<in> set cs" "d \<in> set cs" using mem [OF c(1)] mem [OF d(1)] n by auto
      with c d same assms(1) show ?thesis unfolding peers_unique_def by blast
    qed
  qed
  ultimately show ?thesis unfolding peers_unique_def by blast
qed

section \<open>Every operation keeps the invariant\<close>

definition store_inv :: "'s conn_storage \<Rightarrow> ('s \<Rightarrow> bool) \<Rightarrow> 's \<Rightarrow> bool" where
  "store_inv store good s \<longleftrightarrow> good s \<and> (\<exists>cs. cs_loadAll store s = Inr cs \<and> peers_unique cs)"

lemma requireConnection_Inr:
  assumes "requireConnection store r s = Inr c"
  shows "\<exists>cs i. cs_loadAll store s = Inr cs \<and> index_of_request (JStr r) cs = Some i \<and> c = cs ! i"
  using assms
  by (auto simp: requireConnection_def rbind_Inr_conv find_first_index index_of_request_def split: option.splits)

text \<open>The patches of the handshake change mutable fields to clean values.\<close>

definition patch_ok :: "(string \<times> json) list \<Rightarrow> connection_state \<Rightarrow> bool" where
  "patch_ok patch st \<longleftrightarrow> fst ` set patch \<subseteq> mutable_fields \<and> (\<forall>kv\<in>set patch. json_clean (snd kv))
     \<and> map_of patch ''state'' = Some (jstate st)
     \<and> (\<forall>v. map_of patch ''remoteTetiId'' = Some v \<longrightarrow> truthy v)
     \<and> (\<forall>v. map_of patch ''remoteAddress'' = Some v \<longrightarrow> truthy v)"

lemma updated_record_patch:
  "patch_ok patch st \<Longrightarrow> conn_ok c \<Longrightarrow> get c ''requestId'' = JStr r \<Longrightarrow> conn_ok (updated_record c patch r)"
  unfolding patch_ok_def by (rule updated_record_ok) auto

lemma updated_record_state: "patch_ok patch st \<Longrightarrow> get (updated_record c patch r) ''state'' = jstate st"
  by (simp add: patch_ok_def get_updated)

lemma reject_patch_ok: "patch_ok (reject_patch t) Rejected"
  by (simp add: patch_ok_def reject_patch_def mutable_fields_def)

lemma accepted_patch_ok:
  "patch_ok [(''state'', jstate Accepted), (''updatedAt'', JStr t), (''acceptedAt'', JStr t)] Accepted"
  by (simp add: patch_ok_def mutable_fields_def)

lemma confirmed_patch_ok:
  "patch_ok [(''state'', jstate Confirmed), (''updatedAt'', JStr t), (''confirmedAt'', JStr t)] Confirmed"
  by (simp add: patch_ok_def mutable_fields_def)

lemma js_or_clean: "json_clean a \<or> a = JUndef \<Longrightarrow> json_clean b \<Longrightarrow> json_clean (js_or a b)"
  by (auto simp: js_or_def)

lemma js_or_truthy: "truthy b \<Longrightarrow> truthy (js_or a b)"
  by (simp add: js_or_def)

lemma get_clean_or_undef: "json_clean v \<Longrightarrow> json_clean (get v k) \<or> get v k = JUndef"
  using json_clean_get by blast

lemma accept_patch_ok:
  assumes "json_clean accept" and "conn_ok existing"
  shows "patch_ok (accept_patch accept existing now) Confirmed"
proof -
  have ids: "truthy (get existing ''remoteTetiId'')" "truthy (get existing ''remoteAddress'')"
    using assms(2) by (simp_all add: conn_ok_def validateConnectionRecord_def valid_simps)
  have "json_clean (get existing ''remoteTetiId'')" "json_clean (get existing ''remoteAddress'')"
    using ids assms(2) json_clean_get [of existing] by (force simp: conn_ok_def)+
  then show ?thesis
    using get_clean_or_undef [OF assms(1)] ids
    by (simp add: patch_ok_def accept_patch_def mutable_fields_def Let_def js_or_clean js_or_truthy)
qed

lemma confirm_list_ok:
  assumes "conns_ok cs" and "index_of_request (JStr r) cs = Some i" and "patch_ok patch st"
  shows "conns_ok (confirm_list cs i r patch)"
proof -
  have i: "i < length cs" "get (cs ! i) ''requestId'' = JStr r" using index_of_request_Some [OF assms(2)] by auto
  have "conn_ok (updated_record (cs ! i) patch r)"
    using assms(1,3) i by (intro updated_record_patch) (simp_all add: conns_ok_def)
  then have "conns_ok (cs[i := updated_record (cs ! i) patch r])" using conns_ok_update [OF assms(1)] by blast
  then show ?thesis by (simp add: confirm_list_def conns_ok_def Let_def)
qed

context connection_storage
begin

lemma attempt_inv:
  assumes "store_inv store good s" and "\<And>x. m = Inr x \<Longrightarrow> store_inv store good (fst (f x))"
  shows "store_inv store good (fst (attempt s out m f))"
  using assms by (cases m) simp_all

lemma upsert_inv:
  assumes "store_inv store good s" and "cs_upsert store c s = Inr s'"
    and "json_clean c" and "\<not> isTetiConnectionConfirmed c"
  shows "store_inv store good s'"
proof -
  obtain cs where s: "good s" "cs_loadAll store s = Inr cs" "peers_unique cs"
    using assms(1) by (auto simp: store_inv_def)
  have "validateConnectionRecord c = None" using upsert_bad [OF s(1), of c] assms(2) by (metis sum.distinct(1))
  then have "conn_ok c" using assms(3) by (simp add: conn_ok_def)
  from upsert_good [OF s(1,2) this] assms(2) peers_unique_put [OF s(3) assms(4)] show ?thesis
    by (auto simp: store_inv_def)
qed

lemma update_inv:
  assumes "store_inv store good s" and "cs_update store r patch s = Inr (s', c)"
    and "patch_ok patch st" and "st \<noteq> Confirmed"
  shows "store_inv store good s'"
proof -
  obtain cs where s: "good s" "cs_loadAll store s = Inr cs" "peers_unique cs" "conns_ok cs"
    using assms(1) load_good by (fastforce simp: store_inv_def)
  obtain i where i: "index_of_request (JStr r) cs = Some i"
    using update_missing [OF s(1,2), of r patch] assms(2) by fastforce
  let ?n = "updated_record (cs ! i) patch r"
  have ii: "i < length cs" "get (cs ! i) ''requestId'' = JStr r" using index_of_request_Some [OF i] by auto
  have n: "conn_ok ?n" using assms(3) s(4) ii by (intro updated_record_patch) (simp_all add: conns_ok_def)
  have "\<not> isTetiConnectionConfirmed ?n"
    using updated_record_state [OF assms(3)] assms(4)
    by (simp add: isTetiConnectionConfirmed_def flip: connection_state_string.simps(4))
  then have "peers_unique (cs[i := ?n])"
    using s(3) ii by (intro peers_unique_update) (simp_all add: get_updated)
  with update_good [OF s(1,2) i n] assms(2) show ?thesis by (auto simp: store_inv_def)
qed

lemma confirm_saves:
  assumes "good s" and "cs_loadAll store s = Inr cs" and "index_of_request (JStr r) cs = Some i"
    and "patch_ok patch st"
  shows "\<exists>s'. confirmPeerConnection store r patch s = Inr (s', updated_record (cs ! i) patch r)
    \<and> good s' \<and> cs_loadAll store s' = Inr (confirm_list cs i r patch)"
proof -
  have "conns_ok cs" using load_good [OF assms(1)] assms(2) by auto
  from save_good [OF assms(1) confirm_list_ok [OF this assms(3,4)]] show ?thesis
    using assms(2,3) by (auto simp: confirmPeerConnection_def)
qed

lemma confirm_inv:
  assumes "store_inv store good s" and "confirmPeerConnection store r patch s = Inr (s', c)"
    and "patch_ok patch st"
  shows "store_inv store good s'"
proof -
  obtain cs where s: "good s" "cs_loadAll store s = Inr cs" "peers_unique cs"
    using assms(1) by (auto simp: store_inv_def)
  obtain i where i: "index_of_request (JStr r) cs = Some i"
    using assms(2) s(2) by (auto simp: confirmPeerConnection_def split: option.splits)
  from confirm_saves [OF s(1,2) i assms(3)] assms(2) peers_unique_confirm [OF s(3) i] show ?thesis
    by (auto simp: store_inv_def)
qed

lemma attempt_update_inv:
  assumes "store_inv store good s" and "patch_ok patch st" and "st \<noteq> Confirmed"
    and "\<And>s' c. store_inv store good s' \<Longrightarrow> store_inv store good (fst (f s' c))"
  shows "store_inv store good (fst (attempt s out (cs_update store r patch s) (\<lambda>(s', c). f s' c)))"
  using assms update_inv [OF assms(1) _ assms(2,3)] by (cases "cs_update store r patch s") auto

lemma attempt_confirm_inv:
  assumes "store_inv store good s" and "patch_ok patch st"
    and "\<And>s' c. store_inv store good s' \<Longrightarrow> store_inv store good (fst (f s' c))"
  shows "store_inv store good (fst (attempt s out (confirmPeerConnection store r patch s) (\<lambda>(s', c). f s' c)))"
  using assms confirm_inv [OF assms(1) _ assms(2)] by (cases "confirmPeerConnection store r patch s") auto

lemma attempt_upsert_inv:
  assumes "store_inv store good s" and "json_clean c" and "\<not> isTetiConnectionConfirmed c"
    and "\<And>s'. store_inv store good s' \<Longrightarrow> store_inv store good (fst (f s'))"
  shows "store_inv store good (fst (attempt s out (cs_upsert store c s) f))"
  using assms upsert_inv [OF assms(1) _ assms(2,3)] by (cases "cs_upsert store c s") auto

lemma createHandshakeRequest_inv:
  assumes "store_inv store good s" and "\<forall>a. account = Some a \<longrightarrow> json_clean (la_public_profile a)"
  shows "store_inv store good (fst (createHandshakeRequest store deliver account remote requestId nonce t s))"
proof (cases account)
  case (Some a)
  have clean: "json_clean (outgoing_record remote request t) \<and> \<not> isTetiConnectionConfirmed (outgoing_record remote request t)"
    if "createConnectionRequest a requestId nonce t = Inr request" for request
    using that assms(2) Some
    by (auto simp: createConnectionRequest_def outgoing_record_def isTetiConnectionConfirmed_def Let_def
        guarded_Inr_conv split: option.splits if_splits)
  show ?thesis
    unfolding createHandshakeRequest_def Some option.case Let_def
    by (rule attempt_inv [OF assms(1)], rule attempt_inv [OF assms(1)], rule attempt_upsert_inv [OF assms(1)])
      (simp_all add: clean)
qed (simp add: createHandshakeRequest_def assms(1))

lemma handleIncomingRequest_inv:
  assumes "store_inv store good s" and "json_clean request"
  shows "store_inv store good (fst (handleIncomingRequest store request t s))"
  unfolding handleIncomingRequest_def Let_def
proof (rule attempt_inv [OF assms(1)])
  fix cs assume "guarded (validateConnectionRequest request) (cs_loadAll store s) = Inr cs"
  then have valid: "validateConnectionRequest request = None" by (simp add: guarded_Inr_conv)
  have "store_inv store good (fst (attempt s [] (cs_upsert store (incoming_record request t) s)
      (\<lambda>s'. (s', [], Inr (incoming_record request t)))))"
    by (rule attempt_upsert_inv [OF assms(1) incoming_record_clean [OF valid assms(2)]])
      (simp_all add: isTetiConnectionConfirmed_def incoming_record_def)
  then show "store_inv store good (fst (case find_first (\<lambda>c. get c ''requestId'' = get request ''requestId'') cs of
         Some existing \<Rightarrow> (s, [], Inr existing)
       | None \<Rightarrow>
           (case find_first (\<lambda>c. isTetiConnectionConfirmed c \<and> get c ''remoteTetiId'' = get request ''fromTetiId'') cs of
             Some confirmedPeer \<Rightarrow> (s, [], Inr confirmedPeer)
           | None \<Rightarrow> attempt s [] (cs_upsert store (incoming_record request t) s)
               (\<lambda>s'. (s', [], Inr (incoming_record request t))))))"
    by (simp add: assms(1) split: option.split)
qed

lemma acceptConnection_inv:
  assumes "store_inv store good s"
  shows "store_inv store good (fst (acceptConnection store deliver account r nonce t1 t2 s))"
proof (cases account)
  case None
  show ?thesis
    unfolding acceptConnection_def option.case None by (rule attempt_inv [OF assms]) (simp add: assms)
next
  case (Some a)
  show ?thesis
    unfolding acceptConnection_def Some option.case Let_def
    apply (rule attempt_inv [OF assms], rule attempt_inv [OF assms])
    apply (split if_split, intro conjI impI)
     apply (simp add: assms)
    apply (rule attempt_update_inv [OF assms accepted_patch_ok], simp)
    apply (rule attempt_inv, assumption, rule attempt_inv, assumption)
    apply (rule attempt_confirm_inv [OF _ confirmed_patch_ok], assumption, simp)
    done
qed

lemma rejectConnection_inv:
  assumes "store_inv store good s"
  shows "store_inv store good (fst (rejectConnection store deliver account r reason t s))"
proof (cases account)
  case None
  show ?thesis
    unfolding rejectConnection_def option.case None by (rule attempt_inv [OF assms]) (simp add: assms)
next
  case (Some a)
  show ?thesis
    unfolding rejectConnection_def Some option.case Let_def
    by (rule attempt_inv [OF assms], rule attempt_inv [OF assms], rule attempt_inv [OF assms],
        rule attempt_inv [OF assms], rule attempt_update_inv [OF assms reject_patch_ok]) simp_all
qed

lemma handleReject_inv:
  assumes "store_inv store good s"
  shows "store_inv store good (fst (handleReject store reject t s))"
  unfolding handleReject_def Let_def
  by (rule attempt_inv [OF assms], rule attempt_update_inv [OF assms reject_patch_ok]) simp_all

lemma required_conn_ok:
  assumes "good s" and "requireConnection store r s = Inr c"
  shows "conn_ok c"
proof -
  obtain cs i where cs: "cs_loadAll store s = Inr cs" "index_of_request (JStr r) cs = Some i" "c = cs ! i"
    using requireConnection_Inr [OF assms(2)] by blast
  have "conns_ok cs" using load_good [OF assms(1)] cs(1) by auto
  moreover have "i < length cs" using index_of_request_Some [OF cs(2)] by blast
  ultimately show ?thesis using cs(3) by (simp add: conns_ok_def)
qed

lemma handleAccept_inv:
  assumes "store_inv store good s" and "json_clean accept"
  shows "store_inv store good (fst (handleAccept store accept t s))"
  unfolding handleAccept_def Let_def
proof (rule attempt_inv [OF assms(1)])
  have good: "good s" using assms(1) by (simp add: store_inv_def)
  fix existing
  assume "guarded (requireRequestId (get accept ''requestId''))
      (requireConnection store (str_of (get accept ''requestId'')) s) = Inr existing"
  then have ok: "conn_ok existing" unfolding guarded_Inr_conv by (blast intro: required_conn_ok [OF good])
  have "store_inv store good (fst (attempt s [] (confirmPeerConnection store (str_of (get accept ''requestId''))
      (accept_patch accept existing t) s) (\<lambda>(s', c). (s', [], Inr c))))"
    by (rule attempt_confirm_inv [OF assms(1) accept_patch_ok [OF assms(2) ok]]) (simp only: fst_conv)
  then show "store_inv store good (fst (if get existing ''state'' \<noteq> jstate Requested \<and> get existing ''state'' \<noteq> jstate Accepted
        then (s, [], Inl (PlainError (''Teti connection request '' @ str_of (get accept ''requestId'') @ '' cannot be confirmed.'')))
        else attempt s [] (confirmPeerConnection store (str_of (get accept ''requestId''))
          (accept_patch accept existing t) s) (\<lambda>(s', c). (s', [], Inr c))))"
    using assms(1) by (simp del: connection_state_string.simps)
qed

lemma reconcile_inv:
  assumes "store_inv store good s"
  shows "store_inv store good (fst (reconcileConfirmedPeerConnections store lt s))"
proof -
  obtain cs where s: "good s" "cs_loadAll store s = Inr cs" "peers_unique cs"
    using assms by (auto simp: store_inv_def)
  have "conns_ok cs" using load_good [OF s(1)] s(2) by auto
  then have ok: "conns_ok (reconcile_list lt cs)" by (simp add: reconcile_list_def conns_ok_def Let_def)
  have uniq: "peers_unique (reconcile_list lt cs)"
    using peers_unique_filter [OF s(3)] by (simp add: reconcile_list_def Let_def)
  obtain s' where "cs_saveAll store (reconcile_list lt cs) s = Inr s'" "good s'"
    "cs_loadAll store s' = Inr (reconcile_list lt cs)"
    using save_good [OF s(1) ok] by blast
  then show ?thesis
    using uniq s assms by (simp add: reconcileConfirmedPeerConnections_def Let_def store_inv_def)
qed

end

end
