(* ===== verification/Connection_Guarantees.thy ===== *)
theory Connection_Guarantees
  imports Handshake
begin

text \<open>
  What the connection layer guarantees (\<open>core/connection/\<close>): the invariant of the stored records over
  every sequence of handshake operations, the agreement of the two storages, what each handshake
  operation does to the records and to the peer, and the reconciliation of confirmed peers.
\<close>

section \<open>Sequences of operations\<close>

definition event_clean :: "connection_event \<Rightarrow> bool" where
  "event_clean e = (case e of RequestEvent v t \<Rightarrow> json_clean v | AcceptEvent v t \<Rightarrow> json_clean v
     | RejectEvent v t \<Rightarrow> json_clean v)"

text \<open>One completed operation, successful or not; a received message is a JSON value.\<close>

inductive handshake_step :: "'s conn_storage \<Rightarrow> 's \<Rightarrow> 's \<Rightarrow> bool" for store :: "'s conn_storage" where
  hs_request: "(\<forall>a. account = Some a \<longrightarrow> json_clean (la_public_profile a)) \<Longrightarrow>
    createHandshakeRequest store deliver account remote requestId nonce t s = (s', out, r) \<Longrightarrow> handshake_step store s s'"
| hs_incoming: "json_clean request \<Longrightarrow> handleIncomingRequest store request t s = (s', out, r) \<Longrightarrow> handshake_step store s s'"
| hs_accept: "acceptConnection store deliver account requestId nonce t1 t2 s = (s', out, r) \<Longrightarrow> handshake_step store s s'"
| hs_reject: "rejectConnection store deliver account requestId reason t s = (s', out, r) \<Longrightarrow> handshake_step store s s'"
| hs_handle_accept: "json_clean accept \<Longrightarrow> handleAccept store accept t s = (s', out, r) \<Longrightarrow> handshake_step store s s'"
| hs_handle_reject: "handleReject store reject t s = (s', out, r) \<Longrightarrow> handshake_step store s s'"
| hs_events: "(\<forall>e\<in>set events. event_clean e) \<Longrightarrow> receiveEvents store account (Inr events) t s = (s', rs) \<Longrightarrow> handshake_step store s s'"
| hs_reconcile: "reconcileConfirmedPeerConnections store lt s = (s', rs) \<Longrightarrow> handshake_step store s s'"

inductive_cases handshake_stepE: "handshake_step store s s'"

text \<open>Approving a pending request.\<close>

abbreviation (input) accepted_patch :: "string \<Rightarrow> (string \<times> json) list" where
  "accepted_patch t \<equiv> [(''state'', jstate Accepted), (''updatedAt'', JStr t), (''acceptedAt'', JStr t)]"

abbreviation (input) confirmed_patch :: "string \<Rightarrow> (string \<times> json) list" where
  "confirmed_patch t \<equiv> [(''state'', jstate Confirmed), (''updatedAt'', JStr t), (''confirmedAt'', JStr t)]"

context connection_storage
begin

lemma handle_event_inv:
  "store_inv store good s \<Longrightarrow> event_clean e \<Longrightarrow> store_inv store good (fst (handle_event store t e s))"
  by (cases e) (simp_all add: event_clean_def handleIncomingRequest_inv handleAccept_inv handleReject_inv)

lemma handle_events_inv:
  "store_inv store good s \<Longrightarrow> \<forall>e\<in>set events. event_clean e \<Longrightarrow> store_inv store good (fst (handle_events store t events s))"
proof (induction events arbitrary: s)
  case (Cons e es)
  obtain s' out r where h: "handle_event store t e s = (s', out, r)" by (cases "handle_event store t e s")
  have "store_inv store good s'" using handle_event_inv [OF Cons.prems(1), of e t] Cons.prems(2) h by simp
  with Cons.IH [of s'] Cons.prems(2) h show ?case by (auto split: sum.split prod.split)
qed simp

lemma step_inv: "handshake_step store s s' \<Longrightarrow> store_inv store good s \<Longrightarrow> store_inv store good s'"
proof (induction rule: handshake_step.induct)
  case (hs_request account deliver remote requestId nonce t s s' out r)
  then show ?case using createHandshakeRequest_inv [of s account deliver remote requestId nonce t] by simp
next
  case (hs_incoming request t s s' out r)
  then show ?case using handleIncomingRequest_inv [of s request t] by simp
next
  case (hs_accept deliver account requestId nonce t1 t2 s s' out r)
  then show ?case using acceptConnection_inv [of s deliver account requestId nonce t1 t2] by simp
next
  case (hs_reject deliver account requestId reason t s s' out r)
  then show ?case using rejectConnection_inv [of s deliver account requestId reason t] by simp
next
  case (hs_handle_accept accept t s s' out r)
  then show ?case using handleAccept_inv [of s accept t] by simp
next
  case (hs_handle_reject reject t s s' out r)
  then show ?case using handleReject_inv [of s reject t] by simp
next
  case (hs_events events account t s s' rs)
  then show ?case using handle_events_inv [of s events t] by (cases account) (auto simp: receiveEvents_def)
next
  case (hs_reconcile lt s s' rs)
  then show ?case using reconcile_inv [of s lt] by simp
qed

lemma reach_inv: "(handshake_step store)\<^sup>*\<^sup>* s s' \<Longrightarrow> store_inv store good s \<Longrightarrow> store_inv store good s'"
  by (induction rule: rtranclp_induct) (auto intro: step_inv)

text \<open>What a single operation does, in terms of the loaded records.\<close>

lemma requireConnection_load:
  assumes "cs_loadAll store s = Inr cs"
  shows "requireConnection store r s = (case index_of_request (JStr r) cs of
      None \<Rightarrow> Inl (no_such_request r) | Some i \<Rightarrow> Inr (cs ! i))"
  using assms by (simp add: requireConnection_def find_first_index index_of_request_def split: option.split)

lemma reject_saves:
  assumes s: "good s" "cs_loadAll store s = Inr cs" and i: "index_of_request (JStr r) cs = Some i"
    and r: "trim r \<noteq> []" "get reject ''requestId'' = JStr r"
  shows "\<exists>s' c. handleReject store reject t s = (s', [], Inr c) \<and> good s'
    \<and> cs_loadAll store s' = Inr (cs[i := c]) \<and> get c ''state'' = jstate Rejected
    \<and> get c ''requestId'' = JStr r \<and> get c ''remoteTetiId'' = get (cs ! i) ''remoteTetiId''"
proof -
  let ?n = "updated_record (cs ! i) (reject_patch t) r"
  have ii: "i < length cs" "get (cs ! i) ''requestId'' = JStr r" using index_of_request_Some [OF i] by auto
  have "conns_ok cs" using load_good [OF s(1)] s(2) by auto
  then have "conn_ok ?n" using ii by (intro updated_record_patch [OF reject_patch_ok]) (simp_all add: conns_ok_def)
  from update_good [OF s i this] obtain s' where
    "cs_update store r (reject_patch t) s = Inr (s', ?n)" "good s'" "cs_loadAll store s' = Inr (cs[i := ?n])" by blast
  moreover have "get ?n ''state'' = jstate Rejected" "get ?n ''requestId'' = JStr r"
    "get ?n ''remoteTetiId'' = get (cs ! i) ''remoteTetiId''"
    by (simp_all add: get_updated reject_patch_def)
  ultimately show ?thesis
    using requireConnection_load [OF s(2), of r] i r
    by (simp add: handleReject_def requireRequestId_def Let_def del: connection_state_string.simps)
qed

text \<open>An incoming request: refused, already known, or appended as a pending record.\<close>

lemma incoming_cases:
  assumes s: "good s" "cs_loadAll store s = Inr cs" and "json_clean request"
    and valid: "validateConnectionRequest request = None"
  obtains (known) c where "c \<in> set cs" "handleIncomingRequest store request t s = (s, [], Inr c)"
      "get c ''requestId'' = get request ''requestId''
        \<or> isTetiConnectionConfirmed c \<and> get c ''remoteTetiId'' = get request ''fromTetiId''"
      "\<And>t'. handleIncomingRequest store request t' s = (s, [], Inr c)"
  | (new) s' where "handleIncomingRequest store request t s = (s', [], Inr (incoming_record request t))"
      "good s'" "cs_loadAll store s' = Inr (cs @ [incoming_record request t])"
      "get request ''requestId'' \<notin> (\<lambda>c. get c ''requestId'') ` set cs"
      "\<And>t'. handleIncomingRequest store request t' s' = (s', [], Inr (incoming_record request t))"
proof -
  let ?r = "incoming_record request t"
  let ?P = "\<lambda>c. get c ''requestId'' = get request ''requestId''"
  let ?Q = "\<lambda>c. isTetiConnectionConfirmed c \<and> get c ''remoteTetiId'' = get request ''fromTetiId''"
  have h: "handleIncomingRequest store request t' s = (case find_first ?P cs of Some c \<Rightarrow> (s, [], Inr c)
      | None \<Rightarrow> (case find_first ?Q cs of Some c \<Rightarrow> (s, [], Inr c)
          | None \<Rightarrow> attempt s [] (cs_upsert store (incoming_record request t') s)
              (\<lambda>s'. (s', [], Inr (incoming_record request t')))))" for t'
    using valid s(2) unfolding handleIncomingRequest_def Let_def by (simp add: guarded_def)
  show thesis
  proof (cases "find_first ?P cs")
    case (Some c)
    then show thesis using h find_first_Some [OF Some] by (intro known [of c]) simp_all
  next
    case none: None
    show thesis
    proof (cases "find_first ?Q cs")
      case (Some c)
      then show thesis using h none find_first_Some [OF Some] by (intro known [of c]) simp_all
    next
      case None
      have fresh: "get request ''requestId'' \<notin> (\<lambda>c. get c ''requestId'') ` set cs"
        using none by (auto simp: find_first_None)
      have id: "get ?r ''requestId'' = get request ''requestId''" by (simp add: incoming_record_def)
      then have "put_connection ?r cs = cs @ [?r]"
        using fresh index_of_request_None [of "get ?r ''requestId''" cs] by (simp add: put_connection_def put_at_def)
      moreover have "conn_ok ?r"
        using incoming_record_ok [OF valid] incoming_record_clean [OF valid assms(3)] by (simp add: conn_ok_def)
      ultimately obtain s' where s': "cs_upsert store ?r s = Inr s'" "good s'" "cs_loadAll store s' = Inr (cs @ [?r])"
        using upsert_good [OF s, of ?r] by auto
      have "find_first ?P (cs @ [?r]) = Some ?r" using none id by (simp add: find_first_append)
      then have "handleIncomingRequest store request t' s' = (s', [], Inr ?r)" for t'
        using valid s'(3) by (simp add: handleIncomingRequest_def guarded_def)
      with h [of t] none None s' fresh show thesis by (intro new [of s']) simp_all
    qed
  qed
qed

lemma accept_updates:
  assumes s: "good s" "cs_loadAll store s = Inr cs" and i: "index_of_request (JStr r) cs = Some i"
  shows "\<exists>s1. cs_update store r (accepted_patch t) s = Inr (s1, updated_record (cs ! i) (accepted_patch t) r)
    \<and> good s1 \<and> cs_loadAll store s1 = Inr (cs[i := updated_record (cs ! i) (accepted_patch t) r])
    \<and> index_of_request (JStr r) (cs[i := updated_record (cs ! i) (accepted_patch t) r]) = Some i"
proof -
  let ?n = "updated_record (cs ! i) (accepted_patch t) r"
  have ii: "i < length cs" "get (cs ! i) ''requestId'' = JStr r" using index_of_request_Some [OF i] by auto
  have "conns_ok cs" using load_good [OF s(1)] s(2) by auto
  then have "conn_ok ?n" using ii by (intro updated_record_patch [OF accepted_patch_ok]) (simp_all add: conns_ok_def)
  moreover have "index_of_request (JStr r) (cs[i := ?n]) = index_of_request (JStr r) cs"
    using ii unfolding index_of_request_def by (intro find_index_update) (simp_all add: get_updated)
  ultimately show ?thesis using update_good [OF s i] i by auto
qed

lemma accept_runs:
  assumes s: "good s" "cs_loadAll store s = Inr cs" and i: "index_of_request (JStr r) cs = Some i"
    and r: "trim r \<noteq> []" and pending: "get (cs ! i) ''state'' = jstate PendingApproval"
    and m: "createConnectionAccept a r nonce t1 = Inr accept"
      "m = SendAccept (la_chatmail_account_id a) (get (cs ! i) ''remoteAddress'')
         (get (get (cs ! i) ''request'') ''publicKey'') accept"
  shows "case deliver m of
      Some e \<Rightarrow> (\<exists>s1. acceptConnection store deliver (Some a) r nonce t1 t2 s = (s1, [], Inl e) \<and> good s1
        \<and> cs_loadAll store s1 = Inr (cs[i := updated_record (cs ! i) (accepted_patch t1) r]))
    | None \<Rightarrow> (\<exists>s2 c. acceptConnection store deliver (Some a) r nonce t1 t2 s = (s2, [m], Inr c) \<and> good s2
        \<and> c = updated_record (updated_record (cs ! i) (accepted_patch t1) r) (confirmed_patch t2) r
        \<and> cs_loadAll store s2 = Inr (confirm_list (cs[i := updated_record (cs ! i) (accepted_patch t1) r]) i r
            (confirmed_patch t2)))"
proof -
  let ?n = "updated_record (cs ! i) (accepted_patch t1) r"
  have ii: "i < length cs" using index_of_request_Some [OF i] by blast
  obtain s1 where s1: "cs_update store r (accepted_patch t1) s = Inr (s1, ?n)" "good s1"
    "cs_loadAll store s1 = Inr (cs[i := ?n])" "index_of_request (JStr r) (cs[i := ?n]) = Some i"
    using accept_updates [OF s i, of t1] by blast
  obtain s2 where s2: "confirmPeerConnection store r (confirmed_patch t2) s1
      = Inr (s2, updated_record ((cs[i := ?n]) ! i) (confirmed_patch t2) r)" "good s2"
    "cs_loadAll store s2 = Inr (confirm_list (cs[i := ?n]) i r (confirmed_patch t2))"
    using confirm_saves [OF s1(2,3,4) confirmed_patch_ok] by blast
  have "acceptConnection store deliver (Some a) r nonce t1 t2 s = attempt s1 [] (guarded (deliver m) (Inr ())) (\<lambda>_.
      attempt s1 [m] (confirmPeerConnection store r (confirmed_patch t2) s1) (\<lambda>(s2, c). (s2, [m], Inr c)))"
    unfolding acceptConnection_def Let_def using requireConnection_load [OF s(2), of r] i r pending m s1(1)
    by (simp add: requireRequestId_def del: connection_state_string.simps)
  with s1 s2 ii show ?thesis
    by (simp add: guarded_def split: option.split del: connection_state_string.simps)
qed

lemma accept_refused:
  assumes s: "cs_loadAll store s = Inr cs" and i: "index_of_request (JStr r) cs = Some i"
    and r: "trim r \<noteq> []" and "get (cs ! i) ''state'' \<noteq> jstate PendingApproval"
  shows "acceptConnection store deliver (Some a) r nonce t1 t2 s
    = (s, [], Inl (PlainError (''Teti connection request '' @ r @ '' is not pending approval.'')))"
  using assms requireConnection_load [OF s, of r]
  by (simp add: acceptConnection_def requireRequestId_def del: connection_state_string.simps)

text \<open>An accept message.\<close>

lemma handle_accept_runs:
  assumes s: "good s" "cs_loadAll store s = Inr cs" and i: "index_of_request (JStr r) cs = Some i"
    and r: "trim r \<noteq> []" "get accept ''requestId'' = JStr r" and "json_clean accept"
    and st: "get (cs ! i) ''state'' \<in> {jstate Requested, jstate Accepted}"
  shows "\<exists>s'. handleAccept store accept now s = (s', [], Inr (updated_record (cs ! i) (accept_patch accept (cs ! i) now) r))
    \<and> good s' \<and> cs_loadAll store s' = Inr (confirm_list cs i r (accept_patch accept (cs ! i) now))"
proof -
  have ii: "i < length cs" using index_of_request_Some [OF i] by blast
  have "conns_ok cs" using load_good [OF s(1)] s(2) by auto
  then have "conn_ok (cs ! i)" using ii by (simp add: conns_ok_def)
  from confirm_saves [OF s i accept_patch_ok [OF assms(6) this, of now]] obtain s' where
    "confirmPeerConnection store r (accept_patch accept (cs ! i) now) s
      = Inr (s', updated_record (cs ! i) (accept_patch accept (cs ! i) now) r)"
    "good s'" "cs_loadAll store s' = Inr (confirm_list cs i r (accept_patch accept (cs ! i) now))" by blast
  moreover have "\<not> (get (cs ! i) ''state'' \<noteq> jstate Requested \<and> get (cs ! i) ''state'' \<noteq> jstate Accepted)"
    using st by blast
  ultimately show ?thesis
    using requireConnection_load [OF s(2), of r] i r
    by (simp add: handleAccept_def requireRequestId_def Let_def del: connection_state_string.simps)
qed

end

text \<open>The canonical records.\<close>

lemma canonical_fold:
  assumes "canonical = fold (note_canonical lt) cs m"
    and "\<forall>p k. m p = Some k \<longrightarrow> k \<in> D \<and> isTetiConnectionConfirmed k \<and> get k ''remoteTetiId'' = p"
    and "\<forall>c\<in>D. isTetiConnectionConfirmed c \<longrightarrow> (\<exists>k. m (get c ''remoteTetiId'') = Some k \<and> (has_relationship c \<longrightarrow> has_relationship k))"
  shows "(\<forall>p k. canonical p = Some k \<longrightarrow> k \<in> D \<union> set cs \<and> isTetiConnectionConfirmed k \<and> get k ''remoteTetiId'' = p)
    \<and> (\<forall>c\<in>D \<union> set cs. isTetiConnectionConfirmed c \<longrightarrow>
        (\<exists>k. canonical (get c ''remoteTetiId'') = Some k \<and> (has_relationship c \<longrightarrow> has_relationship k)))"
  using assms
proof (induction cs arbitrary: m D)
  case (Cons c cs)
  let ?m = "note_canonical lt c m"
  have 1: "\<forall>p k. ?m p = Some k \<longrightarrow> k \<in> insert c D \<and> isTetiConnectionConfirmed k \<and> get k ''remoteTetiId'' = p"
    using Cons.prems(2) by (auto simp: note_canonical_def)
  have 2: "\<forall>d\<in>insert c D. isTetiConnectionConfirmed d \<longrightarrow>
      (\<exists>k. ?m (get d ''remoteTetiId'') = Some k \<and> (has_relationship d \<longrightarrow> has_relationship k))"
  proof (intro ballI impI)
    fix d assume d: "d \<in> insert c D" "isTetiConnectionConfirmed d"
    show "\<exists>k. ?m (get d ''remoteTetiId'') = Some k \<and> (has_relationship d \<longrightarrow> has_relationship k)"
    proof (cases "isTetiConnectionConfirmed c \<and> get d ''remoteTetiId'' = get c ''remoteTetiId''")
      case False
      then have "d \<in> D" using d by auto
      with False Cons.prems(3) d show ?thesis by (auto simp: note_canonical_def)
    next
      case True
      show ?thesis
      proof (cases "m (get c ''remoteTetiId'')")
        case None
        then have "d = c" using True d Cons.prems(3) by force
        with None True show ?thesis by (simp add: note_canonical_def better_canonical_def)
      next
        case (Some k)
        then have old: "d \<in> D \<longrightarrow> has_relationship d \<longrightarrow> has_relationship k" using True d Cons.prems(3) by fastforce
        show ?thesis
        proof (cases "better_canonical lt c (Some k)")
          case better: True
          then have "?m (get d ''remoteTetiId'') = Some c" using True Some by (simp add: note_canonical_def)
          moreover have "has_relationship d \<longrightarrow> has_relationship c"
            using better old d(1) by (auto simp: better_canonical_def)
          ultimately show ?thesis by blast
        next
          case worse: False
          then have "?m (get d ''remoteTetiId'') = Some k" using True Some by (simp add: note_canonical_def)
          moreover have "has_relationship c \<longrightarrow> has_relationship k"
            using worse by (auto simp: better_canonical_def)
          ultimately show ?thesis using old d(1) by blast
        qed
      qed
    qed
  qed
  have "canonical = fold (note_canonical lt) cs ?m" using Cons.prems(1) by simp
  from Cons.IH [OF this 1 2] show ?case by (simp add: Un_insert_left)
qed auto

lemma canonicalByPeer_Some:
  assumes "canonicalByPeer lt cs p = Some k"
  shows "k \<in> set cs \<and> isTetiConnectionConfirmed k \<and> get k ''remoteTetiId'' = p"
  using canonical_fold [of "canonicalByPeer lt cs" lt cs Map.empty "{}", OF canonicalByPeer_def] assms by auto

lemma canonicalByPeer_covers:
  assumes "c \<in> set cs" and "isTetiConnectionConfirmed c"
  shows "\<exists>k. canonicalByPeer lt cs (get c ''remoteTetiId'') = Some k \<and> (has_relationship c \<longrightarrow> has_relationship k)"
proof -
  have "\<forall>c\<in>{} \<union> set cs. isTetiConnectionConfirmed c \<longrightarrow>
      (\<exists>k. canonicalByPeer lt cs (get c ''remoteTetiId'') = Some k \<and> (has_relationship c \<longrightarrow> has_relationship k))"
    by (rule canonical_fold [of "canonicalByPeer lt cs" lt cs Map.empty "{}", OF canonicalByPeer_def, THEN conjunct2]) simp_all
  with assms show ?thesis by blast
qed

lemma in_reconcile_list:
  "c \<in> set (reconcile_list lt cs) \<longleftrightarrow> c \<in> set cs \<and> \<not> isTetiConnectionArchived c
     \<and> (\<forall>k. canonicalByPeer lt cs (get c ''remoteTetiId'') = Some k \<longrightarrow> get c ''requestId'' = get k ''requestId'')"
  by (auto simp: reconcile_list_def Let_def split: option.splits)

section \<open>Properties\<close>

text \<open>C27:
  Whatever sequence of handshake operations runs on the file storage, failed ones included, the file
  still loads, every record in it is valid, no two records share a request id, and a peer has at most
  one confirmed record.\<close>

theorem one_confirmed_record_per_peer:
  assumes "(handshake_step file_storage)\<^sup>*\<^sup>* NoFile f"
  shows "\<exists>cs. conn_file_loadAll f = Inr cs \<and> (\<forall>c\<in>set cs. validateConnectionRecord c = None)
    \<and> distinct (map (\<lambda>c. get c ''requestId'') cs)
    \<and> (\<forall>c\<in>set cs. \<forall>d\<in>set cs. isTetiConnectionConfirmed c \<and> isTetiConnectionConfirmed d
        \<and> get c ''remoteTetiId'' = get d ''remoteTetiId'' \<longrightarrow> c = d)"
proof -
  have "store_inv file_storage good_conn_file NoFile"
    by (simp add: store_inv_def good_conn_file_def file_storage_def conn_file_loadAll_def)
  from conn_file.reach_inv [OF assms this] obtain cs where
    cs: "good_conn_file f" "cs_loadAll file_storage f = Inr cs" "peers_unique cs"
    by (auto simp: store_inv_def)
  have ok: "conns_ok cs" using conn_file.load_good [OF cs(1)] cs(2) by auto
  have "inj_on (\<lambda>c. get c ''requestId'') (set cs)" using cs(3) by (simp add: peers_unique_def distinct_map)
  then have "\<forall>c\<in>set cs. \<forall>d\<in>set cs. isTetiConnectionConfirmed c \<and> isTetiConnectionConfirmed d
        \<and> get c ''remoteTetiId'' = get d ''remoteTetiId'' \<longrightarrow> c = d"
    using cs(3) unfolding peers_unique_def inj_on_def by blast
  then show ?thesis
    using cs(2,3) ok by (simp add: file_storage_def peers_unique_def conns_ok_def conn_ok_def)
qed

definition sample_connection_request :: "string \<Rightarrow> string \<Rightarrow> json" where
  "sample_connection_request requestId peer = JObj
     [(''version'', jint 1), (''requestId'', JStr requestId), (''fromTetiId'', JStr peer),
      (''fromAddress'', JStr ''peer@example.org''), (''profile'', JObj []),
      (''createdAt'', JStr ''2026-01-01T00:00:00.000Z''), (''nonce'', JStr ''n'')]"

theorem one_confirmed_record_per_peer_witness:
  "\<exists>cs. conn_file_loadAll (fst (handleIncomingRequest file_storage
       (sample_connection_request ''r1'' ''teti_abc123def'') ''t'' NoFile)) = Inr cs
     \<and> distinct (map (\<lambda>c. get c ''requestId'') cs)"
proof -
  let ?r = "sample_connection_request ''r1'' ''teti_abc123def''"
  obtain f out r where h: "handleIncomingRequest file_storage ?r ''t'' NoFile = (f, out, r)"
    by (metis prod.exhaust)
  have "json_clean ?r" by (simp add: sample_connection_request_def)
  then have "handshake_step file_storage NoFile f" using h by (rule hs_incoming)
  then have "(handshake_step file_storage)\<^sup>*\<^sup>* NoFile f" by blast
  from one_confirmed_record_per_peer [OF this] h show ?thesis by auto
qed

definition same_outcome :: "json_file result \<Rightarrow> json list result \<Rightarrow> bool" where
  "same_outcome x y = (case (x, y) of
       (Inl e, Inl e') \<Rightarrow> e = e'
     | (Inr f, Inr cs) \<Rightarrow> conn_file_loadAll f = Inr cs \<and> conn_memory_loadAll cs = Inr cs
     | _ \<Rightarrow> False)"

lemma same_saved: "conns_ok cs \<Longrightarrow> same_outcome (conn_file_saveAll cs f) (Inr cs)"
  by (simp add: same_outcome_def file_save_ok conn_memory_loadAll_def conn_ok_clone)

text \<open>C28:
  The two storages implement the same contract: started on the same records, an upsert, an update and a
  save fail with the same error on both, or succeed on both and leave the same records.\<close>

theorem storages_agree:
  assumes "good_conn_file f" and "conn_file_loadAll f = Inr cs" and "json_clean c"
    and "\<forall>d\<in>set ds. json_clean d" and "\<forall>kv\<in>set patch. json_clean (snd kv)"
  shows "same_outcome (conn_file_upsert c f) (conn_memory_upsert c cs)
    \<and> same_outcome (conn_file_saveAll ds f) (conn_memory_saveAll ds cs)
    \<and> same_outcome (map_sum id fst (conn_file_update r patch f)) (map_sum id fst (conn_memory_update r patch cs))
    \<and> map_sum id snd (conn_file_update r patch f) = map_sum id snd (conn_memory_update r patch cs)"
proof (intro conjI)
  have ok: "conns_ok cs" using good_file_load [OF assms(1)] assms(2) by auto
  show "same_outcome (conn_file_upsert c f) (conn_memory_upsert c cs)"
  proof (cases "validateConnectionRecord c")
    case None
    with assms(3) have "conns_ok (put_connection c cs)" by (intro conns_ok_put [OF ok]) (simp add: conn_ok_def)
    with None assms(2,3) show ?thesis
      using same_saved [of "put_connection c cs" f]
      by (simp add: conn_file_upsert_def conn_memory_upsert_def json_clone_clean put_connection_def)
  qed (simp add: conn_file_upsert_def conn_memory_upsert_def same_outcome_def)
  show "same_outcome (conn_file_saveAll ds f) (conn_memory_saveAll ds cs)"
  proof (cases "first_err (map validateConnectionRecord ds)")
    case None
    then have "conns_ok ds" using assms(4) by (simp add: first_err_map_None conns_ok_def conn_ok_def)
    then show ?thesis using None same_saved [of ds f] by (simp add: conn_memory_saveAll_def conn_ok_clone)
  next
    case (Some e)
    then have "validateConnectionStore (conn_store_json ds) = Some e"
      by (simp add: validateConnectionStore_def conn_store_json_def)
    then show ?thesis using Some by (simp add: conn_file_saveAll_def conn_memory_saveAll_def same_outcome_def Let_def)
  qed
  have update: "same_outcome (map_sum id fst (conn_file_update r patch f)) (map_sum id fst (conn_memory_update r patch cs))
      \<and> map_sum id snd (conn_file_update r patch f) = map_sum id snd (conn_memory_update r patch cs)"
  proof (cases "index_of_request (JStr r) cs")
    case None
    then show ?thesis using assms(2) by (simp add: conn_file_update_def conn_memory_update_def same_outcome_def)
  next
    case (Some i)
    let ?n = "updated_record (cs ! i) patch r"
    have i: "i < length cs" using index_of_request_Some [OF Some] by blast
    have old: "conn_ok (cs ! i)" using ok i by (simp add: conns_ok_def)
    then have "is_record (cs ! i)"
      by (cases "cs ! i") (auto simp: conn_ok_def validateConnectionRecord_def valid_simps)
    then have clean: "json_clean ?n"
      using old assms(5) unfolding updated_record_def by (intro json_clean_spread) (simp_all add: conn_ok_def)
    show ?thesis
    proof (cases "validateConnectionRecord ?n")
      case None
      then have "conns_ok (cs[i := ?n])" using clean by (intro conns_ok_update [OF ok]) (simp add: conn_ok_def)
      then show ?thesis
        using None Some assms(2) clean file_save_ok [of "cs[i := ?n]"] same_saved [of "cs[i := ?n]" f]
        by (simp add: conn_file_update_def conn_memory_update_def json_clone_clean Let_def)
    next
      case (Some e)
      with \<open>index_of_request (JStr r) cs = Some i\<close> assms(2) show ?thesis
        by (simp add: conn_file_update_def conn_memory_update_def same_outcome_def Let_def)
    qed
  qed
  then show "same_outcome (map_sum id fst (conn_file_update r patch f)) (map_sum id fst (conn_memory_update r patch cs))"
    "map_sum id snd (conn_file_update r patch f) = map_sum id snd (conn_memory_update r patch cs)"
    by blast+
qed

theorem storages_agree_witness:
  "same_outcome
     (conn_file_upsert (incoming_record (sample_connection_request ''r1'' ''teti_abc123def'') ''t'') NoFile)
     (conn_memory_upsert (incoming_record (sample_connection_request ''r1'' ''teti_abc123def'') ''t'') [])"
  using storages_agree [of NoFile "[]" "incoming_record (sample_connection_request ''r1'' ''teti_abc123def'') ''t''" "[]" "[]"]
  by (simp add: good_conn_file_def conn_file_loadAll_def incoming_record_def sample_connection_request_def)


text \<open>
  An incoming request never grants anything: it sends no message and leaves every stored record as it
  is; it is refused, or answered with a record already stored for that request or with the confirmed
  record of that peer, or added as one incoming record that waits for approval; and handling the same
  request again, at any time, changes nothing and gives the same answer.\<close>

theorem incoming_request_grants_nothing:
  assumes "good_conn_file f" and "conn_file_loadAll f = Inr cs" and "json_clean request"
    and "handleIncomingRequest file_storage request t f = (f', out, r)"
  shows "out = []
    \<and> (case r of
        Inl e \<Rightarrow> validateConnectionRequest request = Some e \<and> f' = f
      | Inr c \<Rightarrow>
          (c \<in> set cs \<and> f' = f
            \<or> c = incoming_record request t \<and> conn_file_loadAll f' = Inr (cs @ [c])
              \<and> get c ''state'' = jstate PendingApproval \<and> get c ''direction'' = JStr ''incoming''
              \<and> get c ''remoteTetiId'' = get request ''fromTetiId'')
          \<and> handleIncomingRequest file_storage request t2 f' = (f', [], Inr c))"
proof (cases "validateConnectionRequest request")
  case (Some e)
  with assms show ?thesis by (auto simp: handleIncomingRequest_def)
next
  case None
  have load: "cs_loadAll file_storage f = Inr cs" using assms(2) by (simp add: file_storage_def)
  show ?thesis
  proof (cases rule: conn_file.incoming_cases [OF assms(1) load assms(3) None, where t = t, case_names known new])
    case (known c)
    then have "f' = f" "out = []" "r = Inr c" using assms(4) by simp_all
    then show ?thesis using known by (simp only: sum.case) simp
  next
    case (new s')
    then have "f' = s'" "out = []" "r = Inr (incoming_record request t)" using assms(4) by simp_all
    then show ?thesis using new by (simp only: sum.case) (simp add: incoming_record_def file_storage_def)
  qed
qed

theorem incoming_request_grants_nothing_witness:
  "fst (snd (handleIncomingRequest file_storage (sample_connection_request ''r1'' ''teti_abc123def'') ''t'' NoFile)) = []"
proof -
  let ?r = "sample_connection_request ''r1'' ''teti_abc123def''"
  obtain f out r where h: "handleIncomingRequest file_storage ?r ''t'' NoFile = (f, out, r)"
    by (metis prod.exhaust)
  have "good_conn_file NoFile" "conn_file_loadAll NoFile = Inr []" "json_clean ?r"
    by (simp_all add: good_conn_file_def conn_file_loadAll_def sample_connection_request_def)
  from incoming_request_grants_nothing [OF this h, of "''t2''"] h show ?thesis by simp
qed

text \<open>
  Approving a pending request tells the peer and then confirms it: exactly one accept message goes to the
  address of the record, and when it is delivered the record is confirmed, no other record of that peer
  is left, and every record of another peer is kept as it was.\<close>

theorem approval_confirms_one_record:
  assumes "good_conn_file f" and "conn_file_loadAll f = Inr cs"
    and "index_of_request (JStr r) cs = Some i" and "trim r \<noteq> []"
    and "get (cs ! i) ''state'' = jstate PendingApproval"
    and "createConnectionAccept a r nonce t1 = Inr accept" and "deliver = (\<lambda>m. None)"
  shows "\<exists>f' c cs'. acceptConnection file_storage deliver (Some a) r nonce t1 t2 f
      = (f', [SendAccept (la_chatmail_account_id a) (get (cs ! i) ''remoteAddress'')
           (get (get (cs ! i) ''request'') ''publicKey'') accept], Inr c)
    \<and> conn_file_loadAll f' = Inr cs' \<and> c \<in> set cs' \<and> get c ''state'' = jstate Confirmed
    \<and> get c ''requestId'' = JStr r \<and> get c ''remoteTetiId'' = get (cs ! i) ''remoteTetiId''
    \<and> (\<forall>d\<in>set cs'. get d ''remoteTetiId'' = get c ''remoteTetiId'' \<longrightarrow> get d ''requestId'' = JStr r)
    \<and> (\<forall>d\<in>set cs. get d ''remoteTetiId'' \<noteq> get c ''remoteTetiId'' \<longrightarrow> d \<in> set cs')"
proof -
  define n where "n = updated_record (cs ! i) (accepted_patch t1) r"
  define c where "c = updated_record n (confirmed_patch t2) r"
  let ?cs = "cs[i := n]"
  have i: "i < length cs" using index_of_request_Some [OF assms(3)] by blast
  have peer: "get c ''remoteTetiId'' = get (cs ! i) ''remoteTetiId''" "get n ''remoteTetiId'' = get (cs ! i) ''remoteTetiId''"
    and id: "get c ''requestId'' = JStr r" and st: "get c ''state'' = jstate Confirmed"
    by (simp_all add: c_def n_def get_updated)
  have list: "confirm_list ?cs i r (confirmed_patch t2) = filter (\<lambda>d. get d ''requestId'' = JStr r
      \<or> get d ''remoteTetiId'' \<noteq> get c ''remoteTetiId'') (cs[i := c])"
    using i peer by (simp add: confirm_list_def Let_def flip: c_def del: connection_state_string.simps)
  have load: "cs_loadAll file_storage f = Inr cs" using assms(2) by (simp add: file_storage_def)
  from conn_file.accept_runs [OF assms(1) load assms(3,4,5,6) refl, of deliver t2] assms(7)
  obtain f' where run: "acceptConnection file_storage deliver (Some a) r nonce t1 t2 f
      = (f', [SendAccept (la_chatmail_account_id a) (get (cs ! i) ''remoteAddress'')
           (get (get (cs ! i) ''request'') ''publicKey'') accept], Inr c)"
    "conn_file_loadAll f' = Inr (confirm_list ?cs i r (confirmed_patch t2))"
    by (auto simp: file_storage_def n_def c_def simp del: connection_state_string.simps)
  have "c \<in> set (confirm_list ?cs i r (confirmed_patch t2))"
    unfolding list using i id by (simp add: set_update_memI)
  moreover have "\<forall>d\<in>set cs. get d ''remoteTetiId'' \<noteq> get c ''remoteTetiId'' \<longrightarrow> d \<in> set (confirm_list ?cs i r (confirmed_patch t2))"
  proof (intro ballI impI)
    fix d assume d: "d \<in> set cs" "get d ''remoteTetiId'' \<noteq> get c ''remoteTetiId''"
    then obtain j where j: "j < length cs" "d = cs ! j" by (auto simp: in_set_conv_nth)
    with d peer have "j \<noteq> i" by auto
    then have "d \<in> set (cs[i := c])" using j by (auto simp: in_set_conv_nth intro!: exI [of _ j])
    with d show "d \<in> set (confirm_list ?cs i r (confirmed_patch t2))" unfolding list by simp
  qed
  moreover have "\<forall>d\<in>set (confirm_list ?cs i r (confirmed_patch t2)).
      get d ''remoteTetiId'' = get c ''remoteTetiId'' \<longrightarrow> get d ''requestId'' = JStr r"
    unfolding list by auto
  ultimately show ?thesis using run peer id st by blast
qed


definition sample_pending :: json where
  "sample_pending = incoming_record (sample_connection_request ''r1'' ''teti_abc123def'') ''t''"

definition sample_account :: local_account where
  "sample_account = \<lparr>la_id = ''teti_me1234567'', la_address = ''me@example.org'', la_public_key = None,
     la_public_profile = JObj [], la_chatmail_account_id = jint 7\<rparr>"

definition sample_accept :: "local_account \<Rightarrow> json" where
  "sample_accept a = JObj
     [(''version'', jint 1), (''requestId'', JStr ''r1''), (''fromTetiId'', JStr (la_id a)),
      (''fromAddress'', JStr (la_address a)), (''createdAt'', JStr ''t1''), (''nonce'', JStr ''n'')]"

lemma sample_file:
  "good_conn_file (JsonFile (conn_store_json [sample_pending]))"
  "conn_file_loadAll (JsonFile (conn_store_json [sample_pending])) = Inr [sample_pending]"
proof -
  have "conns_ok [sample_pending]" unfolding conns_ok_def conn_ok_def by code_simp
  then show "good_conn_file (JsonFile (conn_store_json [sample_pending]))"
    "conn_file_loadAll (JsonFile (conn_store_json [sample_pending])) = Inr [sample_pending]"
    by (rule file_save_ok)+
qed

theorem approval_confirms_one_record_witness:
  "\<exists>f' m c. acceptConnection file_storage (\<lambda>m. None) (Some sample_account) ''r1'' ''n'' ''t1'' ''t2''
     (JsonFile (conn_store_json [sample_pending])) = (f', [m], Inr c) \<and> get c ''state'' = jstate Confirmed"
proof -
  have 1: "index_of_request (JStr ''r1'') [sample_pending] = Some 0" by code_simp
  have 2: "trim ''r1'' \<noteq> []" by code_simp
  have 3: "get ([sample_pending] ! 0) ''state'' = jstate PendingApproval" by code_simp
  have 4: "createConnectionAccept sample_account ''r1'' ''n'' ''t1'' = Inr (sample_accept sample_account)" by code_simp
  from approval_confirms_one_record [OF sample_file 1 2 3 4 refl, of "''t2''"] show ?thesis by blast
qed

text \<open>
  A failed delivery leaves an approval stuck: the record is stored as accepted before the accept message
  is sent, so when the send throws, the error is reported, the peer was told nothing, and every later
  approval of the same record throws and changes nothing.\<close>

theorem failed_approval_is_stuck:
  assumes "good_conn_file f" and "conn_file_loadAll f = Inr cs"
    and "index_of_request (JStr r) cs = Some i" and "trim r \<noteq> []"
    and "get (cs ! i) ''state'' = jstate PendingApproval"
    and "createConnectionAccept a r nonce t1 = Inr accept" and "deliver = (\<lambda>m. Some e)"
  shows "\<exists>f' c. acceptConnection file_storage deliver (Some a) r nonce t1 t2 f = (f', [], Inl e)
    \<and> conn_file_loadAll f' = Inr (cs[i := c]) \<and> get c ''state'' = jstate Accepted
    \<and> acceptConnection file_storage deliver2 (Some a2) r nonce2 t3 t4 f'
        = (f', [], Inl (PlainError (''Teti connection request '' @ r @ '' is not pending approval.'')))"
proof -
  define n where "n = updated_record (cs ! i) (accepted_patch t1) r"
  have load: "cs_loadAll file_storage f = Inr cs" using assms(2) by (simp add: file_storage_def)
  have i: "i < length cs" "get (cs ! i) ''requestId'' = JStr r" using index_of_request_Some [OF assms(3)] by auto
  from conn_file.accept_runs [OF assms(1) load assms(3,4,5,6) refl, of deliver t2] assms(7)
  obtain f' where run: "acceptConnection file_storage deliver (Some a) r nonce t1 t2 f = (f', [], Inl e)"
    "cs_loadAll file_storage f' = Inr (cs[i := n])"
    by (auto simp: n_def simp del: connection_state_string.simps)
  have "get n ''requestId'' = JStr r" and st: "get n ''state'' = jstate Accepted"
    by (simp_all add: n_def get_updated)
  then have "index_of_request (JStr r) (cs[i := n]) = index_of_request (JStr r) cs"
    using i unfolding index_of_request_def by (intro find_index_update) simp_all
  then have idx: "index_of_request (JStr r) (cs[i := n]) = Some i" using assms(3) by simp
  have "get (cs[i := n] ! i) ''state'' \<noteq> jstate PendingApproval" using st i(1) by simp
  from conn_file.accept_refused [OF run(2) idx assms(4) this, of deliver2 a2 nonce2 t3 t4] run st
  show ?thesis by (auto simp: file_storage_def simp del: connection_state_string.simps)
qed

theorem failed_approval_is_stuck_witness:
  "\<exists>f'. acceptConnection file_storage (\<lambda>m. Some no_account) (Some sample_account) ''r1'' ''n'' ''t1'' ''t2''
     (JsonFile (conn_store_json [sample_pending])) = (f', [], Inl no_account)
   \<and> (\<exists>e. acceptConnection file_storage (\<lambda>m. None) (Some sample_account) ''r1'' ''n'' ''t3'' ''t4'' f' = (f', [], Inl e))"
proof -
  have 1: "index_of_request (JStr ''r1'') [sample_pending] = Some 0" by code_simp
  have 2: "trim ''r1'' \<noteq> []" by code_simp
  have 3: "get ([sample_pending] ! 0) ''state'' = jstate PendingApproval" by code_simp
  have 4: "createConnectionAccept sample_account ''r1'' ''n'' ''t1'' = Inr (sample_accept sample_account)" by code_simp
  from failed_approval_is_stuck [OF sample_file 1 2 3 4 refl, of no_account "''t2''" "\<lambda>m. None" sample_account "''n''" "''t3''" "''t4''"]
  show ?thesis by blast
qed


text \<open>
  An accept message decides alone whom it connects: whoever the request was sent to, an accept that
  quotes its id is stored as a confirmed connection with the identity the accept names, and every other
  record of that identity and of the asked peer, confirmed ones included, is deleted.\<close>

theorem accept_message_names_the_peer:
  assumes "good_conn_file f" and "conn_file_loadAll f = Inr cs"
    and "index_of_request (JStr r) cs = Some i" and "trim r \<noteq> []"
    and "get accept ''requestId'' = JStr r" and "json_clean accept"
    and "get (cs ! i) ''state'' \<in> {jstate Requested, jstate Accepted}"
    and "get accept ''fromTetiId'' = JStr p" and "p \<noteq> []"
  shows "\<exists>f' c cs'. handleAccept file_storage accept now f = (f', [], Inr c) \<and> conn_file_loadAll f' = Inr cs'
    \<and> c \<in> set cs' \<and> get c ''state'' = jstate Confirmed \<and> get c ''requestId'' = JStr r \<and> get c ''remoteTetiId'' = JStr p
    \<and> (\<forall>d\<in>set cs'. get d ''requestId'' = JStr r
        \<or> get d ''remoteTetiId'' \<noteq> JStr p \<and> get d ''remoteTetiId'' \<noteq> get (cs ! i) ''remoteTetiId'')"
proof -
  define c where "c = updated_record (cs ! i) (accept_patch accept (cs ! i) now) r"
  have i: "i < length cs" using index_of_request_Some [OF assms(3)] by blast
  have load: "cs_loadAll file_storage f = Inr cs" using assms(2) by (simp add: file_storage_def)
  have peer: "get c ''remoteTetiId'' = JStr p"
    using assms(8,9) by (simp add: c_def get_updated accept_patch_def Let_def js_or_def)
  have st: "get c ''state'' = jstate Confirmed" and id: "get c ''requestId'' = JStr r"
    by (simp_all add: c_def get_updated accept_patch_def Let_def)
  have list: "confirm_list cs i r (accept_patch accept (cs ! i) now) = filter (\<lambda>d. get d ''requestId'' = JStr r
      \<or> get d ''remoteTetiId'' \<noteq> get (cs ! i) ''remoteTetiId'' \<and> get d ''remoteTetiId'' \<noteq> JStr p) (cs[i := c])"
    using peer by (simp add: confirm_list_def Let_def flip: c_def)
  from conn_file.handle_accept_runs [OF assms(1) load assms(3,4,5,6,7), of now] obtain f' where
    "handleAccept file_storage accept now f = (f', [], Inr c)"
    "conn_file_loadAll f' = Inr (confirm_list cs i r (accept_patch accept (cs ! i) now))"
    by (auto simp: file_storage_def c_def)
  moreover have "c \<in> set (cs[i := c])" using i by (simp add: set_update_memI)
  ultimately show ?thesis using peer st id
    by (intro exI [of _ f'] exI [of _ c] exI [of _ "confirm_list cs i r (accept_patch accept (cs ! i) now)"])
      (auto simp: list simp del: connection_state_string.simps)
qed

definition sample_requested :: json where
  "sample_requested = spread sample_pending [(''state'', jstate Requested), (''direction'', JStr ''outgoing'')]"

definition sample_confirmed :: json where
  "sample_confirmed = spread (incoming_record (sample_connection_request ''r2'' ''teti_me1234567'') ''t'')
     [(''state'', jstate Confirmed)]"

lemma sample_conns:
  "good_conn_file (JsonFile (conn_store_json [sample_requested, sample_confirmed]))"
  "conn_file_loadAll (JsonFile (conn_store_json [sample_requested, sample_confirmed])) = Inr [sample_requested, sample_confirmed]"
proof -
  have "conns_ok [sample_requested, sample_confirmed]" unfolding conns_ok_def conn_ok_def by code_simp
  then show "good_conn_file (JsonFile (conn_store_json [sample_requested, sample_confirmed]))"
    "conn_file_loadAll (JsonFile (conn_store_json [sample_requested, sample_confirmed])) = Inr [sample_requested, sample_confirmed]"
    by (rule file_save_ok)+
qed

text \<open>The request went to \<open>teti_abc123def\<close>, the accept names \<open>teti_me1234567\<close>, whose own record \<open>r2\<close> goes.\<close>

theorem accept_message_names_the_peer_witness:
  "\<exists>f' c cs'. handleAccept file_storage (sample_accept sample_account) ''now''
       (JsonFile (conn_store_json [sample_requested, sample_confirmed])) = (f', [], Inr c)
     \<and> conn_file_loadAll f' = Inr cs' \<and> get c ''remoteTetiId'' = JStr ''teti_me1234567''
     \<and> sample_confirmed \<notin> set cs'"
proof -
  let ?cs = "[sample_requested, sample_confirmed]"
  have 1: "index_of_request (JStr ''r1'') ?cs = Some 0" by code_simp
  have 2: "trim ''r1'' \<noteq> []" by code_simp
  have 3: "get (sample_accept sample_account) ''requestId'' = JStr ''r1''" "json_clean (sample_accept sample_account)"
    "get (sample_accept sample_account) ''fromTetiId'' = JStr ''teti_me1234567''"
    by (simp_all add: sample_accept_def sample_account_def)
  have 4: "get (?cs ! 0) ''state'' \<in> {jstate Requested, jstate Accepted}" by code_simp
  have 5: "get sample_confirmed ''requestId'' \<noteq> JStr ''r1''" "get sample_confirmed ''remoteTetiId'' = JStr ''teti_me1234567''"
    by code_simp+
  from accept_message_names_the_peer [OF sample_conns 1 2 3(1,2) 4 3(3), of "''now''"] 5 show ?thesis by blast
qed

text \<open>A reject message ends a connection in any state, also a confirmed one: the handler does not look at the
  state of the record, so the confirmed record of the peer becomes rejected.\<close>

theorem reject_message_downgrades_confirmed:
  assumes "good_conn_file f" and "conn_file_loadAll f = Inr cs"
    and "index_of_request (JStr r) cs = Some i" and "trim r \<noteq> []" and "get reject ''requestId'' = JStr r"
    and "isTetiConnectionConfirmed (cs ! i)"
  shows "\<exists>f' c. handleReject file_storage reject t f = (f', [], Inr c) \<and> conn_file_loadAll f' = Inr (cs[i := c])
    \<and> get c ''state'' = jstate Rejected \<and> \<not> isTetiConnectionConfirmed c
    \<and> get c ''remoteTetiId'' = get (cs ! i) ''remoteTetiId''"
proof -
  have load: "cs_loadAll file_storage f = Inr cs" using assms(2) by (simp add: file_storage_def)
  from conn_file.reject_saves [OF assms(1) load assms(3,4,5), of t] show ?thesis
    by (auto simp: file_storage_def isTetiConnectionConfirmed_def)
qed

theorem reject_message_downgrades_confirmed_witness:
  "\<exists>f' c. handleReject file_storage (JObj [(''requestId'', JStr ''r2'')]) ''t''
       (JsonFile (conn_store_json [sample_requested, sample_confirmed])) = (f', [], Inr c)
     \<and> get c ''state'' = jstate Rejected"
proof -
  have 1: "index_of_request (JStr ''r2'') [sample_requested, sample_confirmed] = Some 1" by code_simp
  have 2: "trim ''r2'' \<noteq> []" by code_simp
  have 3: "isTetiConnectionConfirmed ([sample_requested, sample_confirmed] ! 1)" by code_simp
  from reject_message_downgrades_confirmed [OF sample_conns 1 2 _ 3, of "JObj [(''requestId'', JStr ''r2'')]" "''t''"]
  show ?thesis by (auto simp del: connection_state_string.simps)
qed


text \<open>
  Reconciliation leaves one confirmed connection per peer and loses no peer: what it returns are stored
  records, none of them archived; two confirmed ones of the same peer are the same record; every
  peer that had a confirmed record still has one, one with Network metadata if there was any; and it
  writes the store only when no record carries Network metadata, so recovery data is never deleted.\<close>

theorem reconcile_keeps_every_peer:
  assumes "good_conn_file f" and "conn_file_loadAll f = Inr cs" and "distinct (map (\<lambda>c. get c ''requestId'') cs)"
  shows "\<exists>f' rs. reconcileConfirmedPeerConnections file_storage lt f = (f', Inr rs)
    \<and> set rs \<subseteq> set cs \<and> (\<forall>c\<in>set rs. \<not> isTetiConnectionArchived c)
    \<and> (\<forall>c\<in>set rs. \<forall>d\<in>set rs. isTetiConnectionConfirmed c \<and> isTetiConnectionConfirmed d
        \<and> get c ''remoteTetiId'' = get d ''remoteTetiId'' \<longrightarrow> c = d)
    \<and> (\<forall>c\<in>set cs. isTetiConnectionConfirmed c \<longrightarrow> (\<exists>k\<in>set rs. isTetiConnectionConfirmed k
        \<and> get k ''remoteTetiId'' = get c ''remoteTetiId'' \<and> (has_relationship c \<longrightarrow> has_relationship k)))
    \<and> (if \<exists>c\<in>set cs. has_relationship c then f' = f else conn_file_loadAll f' = Inr rs)"
proof -
  let ?rs = "reconcile_list lt cs"
  have load: "cs_loadAll file_storage f = Inr cs" using assms(2) by (simp add: file_storage_def)
  have "conns_ok cs" using good_file_load [OF assms(1)] assms(2) by auto
  then have ok: "conns_ok ?rs" by (auto simp: conns_ok_def in_reconcile_list)
  have sub: "set ?rs \<subseteq> set cs" by (auto simp: in_reconcile_list)
  have inj: "inj_on (\<lambda>c. get c ''requestId'') (set cs)" using assms(3) by (simp add: distinct_map)
  have one: "c = k" if "c \<in> set ?rs" "canonicalByPeer lt cs (get c ''remoteTetiId'') = Some k" for c k
    using that canonicalByPeer_Some [OF that(2)] inj by (auto simp: in_reconcile_list inj_on_def)
  have unique: "c = d" if p: "c \<in> set ?rs" "d \<in> set ?rs" "isTetiConnectionConfirmed c"
    "get c ''remoteTetiId'' = get d ''remoteTetiId''" for c d
  proof -
    obtain k where "canonicalByPeer lt cs (get c ''remoteTetiId'') = Some k"
      using canonicalByPeer_covers [of c cs lt] p sub by blast
    then show ?thesis using one [OF p(1)] one [OF p(2)] p(4) by (simp only:)
  qed
  have covers: "\<exists>k\<in>set ?rs. isTetiConnectionConfirmed k
        \<and> get k ''remoteTetiId'' = get c ''remoteTetiId'' \<and> (has_relationship c \<longrightarrow> has_relationship k)"
    if p: "c \<in> set cs" "isTetiConnectionConfirmed c" for c
  proof -
    obtain k where k: "canonicalByPeer lt cs (get c ''remoteTetiId'') = Some k" "has_relationship c \<longrightarrow> has_relationship k"
      using canonicalByPeer_covers [OF p] by blast
    from canonicalByPeer_Some [OF k(1)] k have "k \<in> set ?rs"
      by (auto simp: in_reconcile_list isTetiConnectionConfirmed_def)
    with canonicalByPeer_Some [OF k(1)] k(2) show ?thesis by blast
  qed
  have archived: "isTetiConnectionArchived c \<Longrightarrow> has_relationship c" for c
    by (cases "get c ''networkRelationship''") (auto simp: isTetiConnectionArchived_def has_relationship_def)
  have same: "length ?rs = length cs \<longleftrightarrow> ?rs = cs"
    unfolding reconcile_list_def Let_def by (rule length_filter_eq)
  from conn_file.save_good [OF assms(1) ok] obtain f1 where
    f1: "cs_saveAll file_storage ?rs f = Inr f1" "cs_loadAll file_storage f1 = Inr ?rs" by blast
  obtain f' where run: "reconcileConfirmedPeerConnections file_storage lt f = (f', Inr ?rs)"
    "if \<exists>c\<in>set cs. has_relationship c then f' = f else conn_file_loadAll f' = Inr ?rs"
  proof (cases "?rs \<noteq> cs \<and> \<not> (\<exists>c\<in>set cs. has_relationship c)")
    case True
    then have "reconcileConfirmedPeerConnections file_storage lt f = (f1, Inr ?rs)"
      using load f1(1) archived same by (auto simp: reconcileConfirmedPeerConnections_def Let_def list_ex_iff)
    then show thesis using True f1(2) by (intro that) (simp_all add: file_storage_def)
  next
    case False
    then have "reconcileConfirmedPeerConnections file_storage lt f = (f, Inr ?rs)"
      using load same by (auto simp: reconcileConfirmedPeerConnections_def Let_def list_ex_iff)
    then show thesis using False assms(2) by (intro that) (auto split: if_split)
  qed
  have "\<forall>c\<in>set ?rs. \<not> isTetiConnectionArchived c" by (simp add: in_reconcile_list)
  moreover have "\<forall>c\<in>set ?rs. \<forall>d\<in>set ?rs. isTetiConnectionConfirmed c \<and> isTetiConnectionConfirmed d
        \<and> get c ''remoteTetiId'' = get d ''remoteTetiId'' \<longrightarrow> c = d"
    using unique by blast
  moreover have "\<forall>c\<in>set cs. isTetiConnectionConfirmed c \<longrightarrow> (\<exists>k\<in>set ?rs. isTetiConnectionConfirmed k
        \<and> get k ''remoteTetiId'' = get c ''remoteTetiId'' \<and> (has_relationship c \<longrightarrow> has_relationship k))"
    using covers by blast
  ultimately show ?thesis using run sub by (intro exI [of _ f'] exI [of _ ?rs] conjI)
qed

theorem reconcile_keeps_every_peer_witness:
  "\<exists>f' rs. reconcileConfirmedPeerConnections file_storage (\<lambda>a b. length a < length b)
      (JsonFile (conn_store_json [sample_requested, sample_confirmed])) = (f', Inr rs)
    \<and> (\<exists>k\<in>set rs. isTetiConnectionConfirmed k \<and> get k ''remoteTetiId'' = get sample_confirmed ''remoteTetiId'')"
proof -
  have 1: "distinct (map (\<lambda>c. get c ''requestId'') [sample_requested, sample_confirmed])" by code_simp
  have 2: "isTetiConnectionConfirmed sample_confirmed" by code_simp
  from reconcile_keeps_every_peer [OF sample_conns 1, of "\<lambda>a b. length a < length b"] 2 show ?thesis by (auto 4 4)
qed

text \<open>
  A message survives the wire: a request, accept or reject is packed into an envelope exactly when its
  validator accepts it, the packed envelope serialises, parsing the text gives the very message back, and
  the parser of another kind of message refuses it.\<close>

theorem connection_message_roundtrip:
  assumes "json_clean m"
  shows "(case createConnectionRequestEnvelope m of
      Inl e \<Rightarrow> validateConnectionRequest m = Some e
    | Inr envelope \<Rightarrow> \<exists>raw. serializeConnectionEnvelope envelope = Inr raw
        \<and> parseConnectionRequestEnvelope raw = Inr m \<and> (\<exists>e. parseConnectionAcceptEnvelope raw = Inl e)
        \<and> (\<exists>e. parseConnectionRejectEnvelope raw = Inl e))
    \<and> (case createConnectionAcceptEnvelope m of
      Inl e \<Rightarrow> validateConnectionAccept m = Some e
    | Inr envelope \<Rightarrow> \<exists>raw. serializeConnectionEnvelope envelope = Inr raw
        \<and> parseConnectionAcceptEnvelope raw = Inr m \<and> (\<exists>e. parseConnectionRequestEnvelope raw = Inl e)
        \<and> (\<exists>e. parseConnectionRejectEnvelope raw = Inl e))
    \<and> (case createConnectionRejectEnvelope m of
      Inl e \<Rightarrow> validateConnectionReject m = Some e
    | Inr envelope \<Rightarrow> \<exists>raw. serializeConnectionEnvelope envelope = Inr raw
        \<and> parseConnectionRejectEnvelope raw = Inr m \<and> (\<exists>e. parseConnectionRequestEnvelope raw = Inl e)
        \<and> (\<exists>e. parseConnectionAcceptEnvelope raw = Inl e))"
proof -
  have valid: "validateConnectionEnvelope (envelope_json type m) = None"
    if "type \<in> set supported_envelope_types"
      "type = ''teti.connection.request'' \<longrightarrow> validateConnectionRequest m = None"
      "type = ''teti.connection.accept'' \<longrightarrow> validateConnectionAccept m = None"
      "type = ''teti.connection.reject'' \<longrightarrow> validateConnectionReject m = None" for type
    using that by (simp add: validateConnectionEnvelope_def valid_simps envelope_json_def forbidden_fields_def)
  have clone: "json_clone (envelope_json type m) = envelope_json type m" for type
    using assms by (intro json_clone_clean) (simp add: envelope_json_def)
  note defs = createConnectionRequestEnvelope_def createConnectionAcceptEnvelope_def createConnectionRejectEnvelope_def
    serializeConnectionEnvelope_def parseConnectionRequestEnvelope_def parseConnectionAcceptEnvelope_def
    parseConnectionRejectEnvelope_def parse_payload_def parseConnectionEnvelope_def guarded_def
  have parts: "get (envelope_json type m) ''type'' = JStr type" "get (envelope_json type m) ''payload'' = m" for type
    by (simp_all add: envelope_json_def)
  show ?thesis
    by (intro conjI; simp add: defs parts clone valid supported_envelope_types_def split: option.split)
qed

theorem connection_message_roundtrip_witness:
  "\<exists>envelope raw. createConnectionAcceptEnvelope (sample_accept sample_account) = Inr envelope
     \<and> serializeConnectionEnvelope envelope = Inr raw
     \<and> parseConnectionAcceptEnvelope raw = Inr (sample_accept sample_account)"
proof -
  have 1: "json_clean (sample_accept sample_account)" by (simp add: sample_accept_def sample_account_def)
  have "validateConnectionAccept (sample_accept sample_account) = None" by code_simp
  with connection_message_roundtrip [OF 1] show ?thesis
    by (auto simp: createConnectionAcceptEnvelope_def guarded_def)
qed

end
