(* ===== verification/Task_Contract.thy ===== *)
theory Task_Contract
  imports Workspace
begin

text \<open>
  The contracts of a collaboration task (\<open>core/task/types.ts\<close> and \<open>core/task/validation.ts\<close>): the
  request that crosses the network, the artifacts that come back, and the execution grant that a local
  approval issues. A validator takes the parsed JSON value.
\<close>

section \<open>Limits\<close>

definition max_task_request_bytes :: int where "max_task_request_bytes = 32 * 1024"
definition max_input_text_bytes :: int where "max_input_text_bytes = 24 * 1024"
definition max_task_input_parts :: nat where "max_task_input_parts = 5"
definition max_image_parts :: nat where "max_image_parts = 4"
definition max_task_image_bytes :: int where "max_task_image_bytes = 5 * 1024 * 1024"
definition max_task_image_total_bytes :: int where "max_task_image_total_bytes = 12 * 1024 * 1024"
definition max_task_image_dimension :: int where "max_task_image_dimension = 4096"
definition max_task_artifact_bytes :: int where "max_task_artifact_bytes = 64 * 1024"
definition max_artifact_text_bytes :: int where "max_artifact_text_bytes = 56 * 1024"
definition max_task_request_ttl_ms :: int where "max_task_request_ttl_ms = 24 * 60 * 60 * 1000"
definition max_execution_grant_ttl_ms :: int where "max_execution_grant_ttl_ms = 5 * 60 * 1000"

lemmas task_limits = max_task_request_bytes_def max_input_text_bytes_def max_task_input_parts_def
  max_image_parts_def max_task_image_bytes_def max_task_image_total_bytes_def max_task_image_dimension_def
  max_task_artifact_bytes_def max_artifact_text_bytes_def max_task_request_ttl_ms_def max_execution_grant_ttl_ms_def

section \<open>Fields\<close>

definition tc_exactRecord :: "json \<Rightarrow> string list \<Rightarrow> string \<Rightarrow> error option" where
  "tc_exactRecord value keys label = first_err
     [throw_if (\<not> is_record value) (TaskContractError (label @ '' must be an object.'')),
      throw_if (has_extra_key keys value) (TaskContractError (label @ '' contains an unsupported field.'')),
      throw_if (has_missing_key keys value) (TaskContractError (label @ '' is missing a required field.''))]"

definition tc_canonicalTetiId :: "json \<Rightarrow> string \<Rightarrow> error option" where
  "tc_canonicalTetiId value label =
     throw_if (\<not> isCanonicalTetiPublicId value)
       (TaskContractError (label @ '' must be a canonical lowercase Teti ID.''))"

definition tc_safeId :: "json \<Rightarrow> string \<Rightarrow> error option" where
  "tc_safeId value label =
     throw_if (\<not> is_string value \<or> \<not> id_pattern 127 (str_of value)) (TaskContractError (label @ '' is invalid.''))"

definition tc_safeSlug :: "json \<Rightarrow> string \<Rightarrow> error option" where
  "tc_safeSlug value label =
     throw_if (\<not> is_string value \<or> 128 < length (str_of value) \<or> \<not> slug_pattern (str_of value))
       (TaskContractError (label @ '' is invalid.''))"

definition tc_timestamp :: "json \<Rightarrow> string \<Rightarrow> error option" where
  "tc_timestamp value label = first_err
     [throw_if (\<not> is_string value \<or> trim (str_of value) = []) (TaskContractError (label @ '' is required.'')),
      throw_if (\<not> valid_date (str_of value)) (TaskContractError (label @ '' is invalid.''))]"

definition time_of :: "json \<Rightarrow> int" where
  "time_of value = date_ms (str_of value)"

section \<open>Parts\<close>

definition validateTextPart :: "json \<Rightarrow> int \<Rightarrow> string \<Rightarrow> error option" where
  "validateTextPart value maxBytes label = first_err
     [tc_exactRecord value [''kind'', ''text''] label,
      throw_if (get value ''kind'' \<noteq> JStr ''text'' \<or> \<not> is_string (get value ''text'')
          \<or> trim (str_of (get value ''text'')) = [])
        (TaskContractError (label @ '' must contain non-empty text.'')),
      throw_if (maxBytes < utf8_size (str_of (get value ''text'')))
        (TaskContractError (label @ '' text exceeds the allowed size.''))]"

definition validateTaskImagePart :: "json \<Rightarrow> string \<Rightarrow> error option" where
  "validateTaskImagePart value label = first_err
     [tc_exactRecord value
        [''kind'', ''attachmentId'', ''mimeType'', ''byteLength'', ''width'', ''height'', ''sha256''] label,
      throw_if (get value ''kind'' \<noteq> JStr ''image'') (TaskContractError (label @ '' kind is invalid.'')),
      tc_safeId (get value ''attachmentId'') ''attachmentId'',
      throw_if (get value ''mimeType'' \<noteq> JStr ''image/jpeg'' \<and> get value ''mimeType'' \<noteq> JStr ''image/png'')
        (TaskContractError (label @ '' MIME type is invalid.'')),
      throw_if (\<not> safe_int_in 1 max_task_image_bytes (get value ''byteLength''))
        (TaskContractError (label @ '' byte length is invalid.'')),
      throw_if (\<not> safe_int_in 1 max_task_image_dimension (get value ''width''))
        (TaskContractError (label @ '' dimensions are invalid.'')),
      throw_if (\<not> safe_int_in 1 max_task_image_dimension (get value ''height''))
        (TaskContractError (label @ '' dimensions are invalid.'')),
      throw_if (\<not> is_string (get value ''sha256'') \<or> \<not> sha256_pattern (str_of (get value ''sha256'')))
        (TaskContractError (label @ '' digest is invalid.''))]"

text \<open>The counters of the loop over the parts: texts, images, image bytes and the ids seen.\<close>

record part_counts =
  pc_texts :: nat
  pc_images :: nat
  pc_bytes :: int
  pc_ids :: "json list"

definition no_parts :: part_counts where
  "no_parts = \<lparr>pc_texts = 0, pc_images = 0, pc_bytes = 0, pc_ids = []\<rparr>"

definition validate_part :: "string \<Rightarrow> bool \<Rightarrow> int \<Rightarrow> nat \<Rightarrow> json \<Rightarrow> part_counts \<Rightarrow> part_counts result" where
  "validate_part label requireLeadingText maximumTextBytes index part n =
     guarded (throw_if (\<not> is_record part) (TaskContractError (label @ '' part is invalid.'')))
       (if get part ''kind'' = JStr ''text'' then
          guarded (first_err
            [validateTextPart part maximumTextBytes (label @ '' text part''),
             throw_if (requireLeadingText \<and> index \<noteq> 0)
               (TaskContractError (label @ '' text must be the first part.''))])
            (Inr (n\<lparr>pc_texts := pc_texts n + 1\<rparr>))
        else
          guarded (first_err
            [validateTaskImagePart part (label @ '' image part''),
             throw_if (get part ''attachmentId'' \<in> set (pc_ids n))
               (TaskContractError (label @ '' attachment IDs must be unique.''))])
            (Inr (n\<lparr>pc_images := pc_images n + 1, pc_bytes := pc_bytes n + int_of (get part ''byteLength''),
               pc_ids := get part ''attachmentId'' # pc_ids n\<rparr>)))"

fun parts_loop :: "string \<Rightarrow> bool \<Rightarrow> int \<Rightarrow> nat \<Rightarrow> json list \<Rightarrow> part_counts \<Rightarrow> part_counts result" where
  "parts_loop label requireLeadingText maximumTextBytes index [] n = Inr n"
| "parts_loop label requireLeadingText maximumTextBytes index (part # parts) n =
     rbind (validate_part label requireLeadingText maximumTextBytes index part n)
       (parts_loop label requireLeadingText maximumTextBytes (Suc index) parts)"

definition validateParts :: "json \<Rightarrow> string \<Rightarrow> bool \<Rightarrow> int \<Rightarrow> error option" where
  "validateParts value label requireLeadingText maximumTextBytes =
     (if \<not> is_array value \<or> items value = [] \<or> max_task_input_parts < length (items value)
      then Some (TaskContractError (label @ '' parts are invalid.''))
      else case parts_loop label requireLeadingText maximumTextBytes 0 (items value) no_parts of
        Inl e \<Rightarrow> Some e
      | Inr n \<Rightarrow> first_err
          [throw_if ((requireLeadingText \<and> pc_texts n \<noteq> 1) \<or> (\<not> requireLeadingText \<and> 1 < pc_texts n))
             (TaskContractError (label @ '' text part count is invalid.'')),
           throw_if (max_image_parts < pc_images n \<or> max_task_image_total_bytes < pc_bytes n)
             (TaskContractError (label @ '' images exceed the allowed limit.''))])"

definition validateMultipartInput :: "json \<Rightarrow> error option" where
  "validateMultipartInput value = first_err
     [tc_exactRecord value [''kind'', ''parts''] ''Task input'',
      throw_if (get value ''kind'' \<noteq> JStr ''parts'') (TaskContractError ''Task input must contain ordered parts.''),
      validateParts (get value ''parts'') ''Task input'' True max_input_text_bytes]"

section \<open>Requests, artifacts and grants\<close>

definition task_request_keys :: "json \<Rightarrow> string list" where
  "task_request_keys schemaVersion =
     [''schemaVersion'', ''taskId'', ''requesterTetiId'', ''targetTetiId'', ''offerId'', ''capabilityId'', ''input'']
     @ (if number_ge 5 schemaVersion then [''workspace''] else [])
     @ (if number_ge 6 schemaVersion then [''executionMode''] else [])
     @ [''createdAt'', ''expiresAt'']"

definition validateCollaborationTaskRequest :: "json \<Rightarrow> error option" where
  "validateCollaborationTaskRequest value =
     (let schemaVersion = get value ''schemaVersion'' in first_err
     [throw_if (max_task_request_bytes < encoded_size value) (TaskContractError ''Task request exceeds the allowed size.''),
      throw_if (\<not> is_record value) (TaskContractError ''Task request must be an object.''),
      tc_exactRecord value (task_request_keys schemaVersion) ''Task request'',
      throw_if (schemaVersion \<notin> jint ` {1..7}) (TaskContractError ''Unsupported Task request schema version.''),
      tc_safeId (get value ''taskId'') ''taskId'',
      tc_canonicalTetiId (get value ''requesterTetiId'') ''requesterTetiId'',
      tc_canonicalTetiId (get value ''targetTetiId'') ''targetTetiId'',
      throw_if (get value ''requesterTetiId'' = get value ''targetTetiId'')
        (TaskContractError ''Task requester and target must be different Tetis.''),
      tc_safeId (get value ''offerId'') ''offerId'',
      tc_safeSlug (get value ''capabilityId'') ''capabilityId'',
      (if schemaVersion = jint 1 then validateTextPart (get value ''input'') max_input_text_bytes ''Task input''
       else validateMultipartInput (get value ''input'')),
      (if number_ge 5 schemaVersion then validateTaskWorkspaceRequest (get value ''workspace'') else None),
      throw_if (number_ge 6 schemaVersion \<and> get value ''executionMode'' \<noteq> JStr ''single_stage''
          \<and> get value ''executionMode'' \<noteq> JStr ''long_horizon'')
        (TaskContractError ''Task execution mode is invalid.''),
      tc_timestamp (get value ''createdAt'') ''createdAt'',
      tc_timestamp (get value ''expiresAt'') ''expiresAt'',
      throw_if (time_of (get value ''expiresAt'') \<le> time_of (get value ''createdAt'')
          \<or> max_task_request_ttl_ms < time_of (get value ''expiresAt'') - time_of (get value ''createdAt''))
        (TaskContractError ''Task request expiry is invalid.'')])"

definition validateTaskTextArtifact :: "json \<Rightarrow> error option" where
  "validateTaskTextArtifact value = first_err
     [throw_if (max_task_artifact_bytes < encoded_size value) (TaskContractError ''Task artifact exceeds the allowed size.''),
      tc_exactRecord value [''schemaVersion'', ''taskId'', ''artifactId'', ''kind'', ''text'', ''createdAt''] ''Task artifact'',
      throw_if (get value ''schemaVersion'' \<noteq> jint 1) (TaskContractError ''Unsupported Task artifact schema version.''),
      tc_safeId (get value ''taskId'') ''taskId'',
      tc_safeId (get value ''artifactId'') ''artifactId'',
      validateTextPart (JObj [(''kind'', get value ''kind''), (''text'', get value ''text'')])
        max_artifact_text_bytes ''Task artifact'',
      tc_timestamp (get value ''createdAt'') ''createdAt'']"

definition validateTaskArtifactV2 :: "json \<Rightarrow> error option" where
  "validateTaskArtifactV2 value = first_err
     [throw_if (max_task_artifact_bytes < encoded_size value) (TaskContractError ''Task artifact exceeds the allowed size.''),
      tc_exactRecord value [''schemaVersion'', ''taskId'', ''artifactId'', ''parts'', ''createdAt''] ''Task artifact'',
      throw_if (get value ''schemaVersion'' \<noteq> jint 2) (TaskContractError ''Unsupported Task artifact schema version.''),
      tc_safeId (get value ''taskId'') ''taskId'',
      tc_safeId (get value ''artifactId'') ''artifactId'',
      validateParts (get value ''parts'') ''Task artifact'' False max_artifact_text_bytes,
      tc_timestamp (get value ''createdAt'') ''createdAt'']"

definition validateTaskArtifact :: "json \<Rightarrow> error option" where
  "validateTaskArtifact value =
     (if get value ''schemaVersion'' = jint 1 then validateTaskTextArtifact value else validateTaskArtifactV2 value)"

definition grant_keys :: "string list" where
  "grant_keys = [''schemaVersion'', ''grantId'', ''taskId'', ''requesterTetiId'', ''capabilityId'', ''agentId'',
     ''adapterId'', ''inputDigest'', ''issuedAt'', ''expiresAt'', ''singleUse'', ''workspaceId'', ''workspaceRevision'',
     ''workspaceAccess'', ''userFileAccess'', ''commandPolicy'', ''networkPolicy'']"

definition validateExecutionGrant :: "json \<Rightarrow> error option" where
  "validateExecutionGrant value = first_err
     [tc_exactRecord value grant_keys ''Execution Grant'',
      throw_if (get value ''schemaVersion'' \<noteq> jint 2) (TaskContractError ''Unsupported Execution Grant schema version.''),
      tc_safeId (get value ''grantId'') ''grantId'',
      tc_safeId (get value ''taskId'') ''taskId'',
      tc_canonicalTetiId (get value ''requesterTetiId'') ''requesterTetiId'',
      tc_safeSlug (get value ''capabilityId'') ''capabilityId'',
      tc_safeSlug (get value ''agentId'') ''agentId'',
      tc_safeSlug (get value ''adapterId'') ''adapterId'',
      throw_if (\<not> is_string (get value ''inputDigest'') \<or> \<not> sha256_pattern (str_of (get value ''inputDigest'')))
        (TaskContractError ''Execution Grant inputDigest is invalid.''),
      tc_timestamp (get value ''issuedAt'') ''issuedAt'',
      tc_timestamp (get value ''expiresAt'') ''expiresAt'',
      throw_if (time_of (get value ''expiresAt'') \<le> time_of (get value ''issuedAt'')
          \<or> max_execution_grant_ttl_ms < time_of (get value ''expiresAt'') - time_of (get value ''issuedAt''))
        (TaskContractError ''Execution Grant expiry is invalid.''),
      tc_safeId (get value ''workspaceId'') ''workspaceId'',
      throw_if (\<not> safe_int_from 1 (get value ''workspaceRevision''))
        (TaskContractError ''Execution Grant workspaceRevision is invalid.''),
      validateWorkspaceAccess (get value ''workspaceAccess''),
      throw_if (get value ''singleUse'' \<noteq> JBool True \<or> get value ''userFileAccess'' \<noteq> JStr ''none''
          \<or> get value ''commandPolicy'' \<noteq> JStr ''fixed_adapter_entrypoint''
          \<or> get value ''networkPolicy'' \<noteq> JStr ''agent_managed'')
        (TaskContractError ''Execution Grant scope is invalid.'')]"

section \<open>Readers of an input and an artifact\<close>

definition taskInputText :: "json \<Rightarrow> json" where
  "taskInputText input =
     (if get input ''kind'' = JStr ''text'' then get input ''text''
      else case find_first (\<lambda>part. get part ''kind'' = JStr ''text'') (items (get input ''parts'')) of
        None \<Rightarrow> JStr [] | Some part \<Rightarrow> if get part ''text'' \<in> {JUndef, JNull} then JStr [] else get part ''text'')"

definition taskInputImages :: "json \<Rightarrow> json list" where
  "taskInputImages input =
     (if get input ''kind'' = JStr ''text'' then []
      else filter (\<lambda>part. get part ''kind'' = JStr ''image'') (items (get input ''parts'')))"

definition taskArtifactImages :: "json \<Rightarrow> json list" where
  "taskArtifactImages artifact =
     (if get artifact ''schemaVersion'' = jint 1 then []
      else filter (\<lambda>part. get part ''kind'' = JStr ''image'') (items (get artifact ''parts'')))"

section \<open>What the validators accept\<close>

lemma tc_valid [valid_simps]:
  "tc_safeId v l = None \<longleftrightarrow> is_string v \<and> id_pattern 127 (str_of v)"
  "tc_safeSlug v l = None \<longleftrightarrow> is_string v \<and> length (str_of v) \<le> 128 \<and> slug_pattern (str_of v)"
  "tc_canonicalTetiId v l = None \<longleftrightarrow> isCanonicalTetiPublicId v"
  "tc_timestamp v l = None \<longleftrightarrow> is_string v \<and> trim (str_of v) \<noteq> [] \<and> valid_date (str_of v)"
  "tc_exactRecord v ks l = None \<longleftrightarrow> is_record v \<and> \<not> has_extra_key ks v \<and> \<not> has_missing_key ks v"
  by (auto simp: tc_safeId_def tc_safeSlug_def tc_canonicalTetiId_def tc_timestamp_def tc_exactRecord_def
      valid_simps simp del: has_missing_key_iff)

abbreviation is_text_part :: "json \<Rightarrow> bool" where
  "is_text_part p \<equiv> get p ''kind'' = JStr ''text''"

definition image_bytes :: "json list \<Rightarrow> int" where
  "image_bytes ps = sum_list (map (\<lambda>p. int_of (get p ''byteLength'')) ps)"

lemma validate_part_Inr:
  assumes "validate_part l b m i p n = Inr n'"
  shows "if is_text_part p then validateTextPart p m (l @ '' text part'') = None \<and> \<not> (b \<and> i \<noteq> 0)
        \<and> n' = n\<lparr>pc_texts := pc_texts n + 1\<rparr>
      else validateTaskImagePart p (l @ '' image part'') = None \<and> get p ''attachmentId'' \<notin> set (pc_ids n)
        \<and> n' = n\<lparr>pc_images := pc_images n + 1, pc_bytes := pc_bytes n + int_of (get p ''byteLength''),
             pc_ids := get p ''attachmentId'' # pc_ids n\<rparr>"
  using assms by (auto simp: validate_part_def guarded_Inr_conv first_err_None_Cons throw_if_None split: if_splits)

lemma parts_loop_Inr:
  assumes "parts_loop l b m i ps n = Inr n'"
  shows "pc_texts n' = pc_texts n + length (filter is_text_part ps)
    \<and> pc_images n' = pc_images n + length (filter (\<lambda>p. \<not> is_text_part p) ps)
    \<and> pc_bytes n' = pc_bytes n + image_bytes (filter (\<lambda>p. \<not> is_text_part p) ps)
    \<and> distinct (map (\<lambda>p. get p ''attachmentId'') (filter (\<lambda>p. \<not> is_text_part p) ps))
    \<and> (\<forall>p\<in>set ps. \<not> is_text_part p \<longrightarrow> get p ''attachmentId'' \<notin> set (pc_ids n))
    \<and> (\<forall>p\<in>set ps. if is_text_part p then validateTextPart p m (l @ '' text part'') = None
        else validateTaskImagePart p (l @ '' image part'') = None)
    \<and> (b \<longrightarrow> 0 < i \<longrightarrow> (\<forall>p\<in>set ps. \<not> is_text_part p))"
  using assms
proof (induction ps arbitrary: i n)
  case (Cons p ps)
  obtain n1 where n1: "validate_part l b m i p n = Inr n1" "parts_loop l b m (Suc i) ps n1 = Inr n'"
    using Cons.prems by (auto simp: rbind_Inr_conv)
  show ?case
  proof (cases "is_text_part p")
    case True
    then show ?thesis using Cons.IH [OF n1(2)] validate_part_Inr [OF n1(1)] by simp
  next
    case False
    then show ?thesis using Cons.IH [OF n1(2)] validate_part_Inr [OF n1(1)] by (auto simp: image_bytes_def)
  qed
qed (simp add: image_bytes_def)

lemma image_part_kind: "validateTaskImagePart p l = None \<Longrightarrow> get p ''kind'' = JStr ''image''"
  by (simp add: validateTaskImagePart_def valid_simps)

lemma image_filter:
  assumes "\<forall>p\<in>set ps. if is_text_part p then T p else validateTaskImagePart p (l p) = None"
  shows "filter (\<lambda>p. get p ''kind'' = JStr ''image'') ps = filter (\<lambda>p. \<not> is_text_part p) ps"
proof (rule filter_cong [OF refl])
  fix p assume "p \<in> set ps"
  with assms image_part_kind [of p] show "(get p ''kind'' = JStr ''image'') = (\<not> is_text_part p)" by force
qed

lemma validateParts_None:
  assumes "validateParts v l b m = None"
  defines "ps \<equiv> items v"
  shows "is_array v \<and> 1 \<le> length ps \<and> length ps \<le> 5
    \<and> length (filter (\<lambda>p. get p ''kind'' = JStr ''image'') ps) \<le> 4
    \<and> image_bytes (filter (\<lambda>p. get p ''kind'' = JStr ''image'') ps) \<le> 12582912
    \<and> distinct (map (\<lambda>p. get p ''attachmentId'') (filter (\<lambda>p. get p ''kind'' = JStr ''image'') ps))
    \<and> (\<forall>p\<in>set ps. if is_text_part p then validateTextPart p m (l @ '' text part'') = None
        else validateTaskImagePart p (l @ '' image part'') = None)
    \<and> (b \<longrightarrow> is_text_part (hd ps) \<and> (\<forall>p\<in>set (tl ps). get p ''kind'' = JStr ''image''))"
proof -
  have ps: "is_array v" "ps \<noteq> []" "length ps \<le> 5"
    using assms by (auto simp: validateParts_def max_task_input_parts_def split: if_splits)
  obtain n where n: "parts_loop l b m 0 ps no_parts = Inr n"
    and texts: "b \<longrightarrow> pc_texts n = 1" and imgs: "pc_images n \<le> 4" "pc_bytes n \<le> 12582912"
    using assms by (auto simp: validateParts_def valid_simps task_limits split: if_splits sum.splits)
  note loop = parts_loop_Inr [OF n]
  then have all: "\<forall>p\<in>set ps. if is_text_part p then validateTextPart p m (l @ '' text part'') = None
        else validateTaskImagePart p (l @ '' image part'') = None" by blast
  have eq: "filter (\<lambda>p. get p ''kind'' = JStr ''image'') ps = filter (\<lambda>p. \<not> is_text_part p) ps"
    using all by (rule image_filter)
  have lead: "is_text_part (hd ps) \<and> (\<forall>p\<in>set (tl ps). get p ''kind'' = JStr ''image'')" if b
  proof -
    obtain p qs where p: "ps = p # qs" using ps(2) by (cases ps) auto
    obtain n1 where "parts_loop l b m 1 qs n1 = Inr n"
      using n p by (auto simp: rbind_Inr_conv)
    from parts_loop_Inr [OF this] \<open>b\<close> have rest: "\<forall>q\<in>set qs. \<not> is_text_part q" by simp
    have "length (filter is_text_part ps) = 1" using loop texts \<open>b\<close> by (simp add: no_parts_def)
    then have "is_text_part p" using rest p by (auto simp: filter_empty_conv split: if_splits)
    moreover have "get q ''kind'' = JStr ''image''" if "q \<in> set qs" for q
      using that rest all p image_part_kind [of q] by auto
    ultimately show ?thesis using p by simp
  qed
  have "1 \<le> length ps" using ps(2) by (cases ps) auto
  then show ?thesis using ps loop imgs all lead unfolding eq by (auto simp: no_parts_def)
qed

section \<open>Properties\<close>

text \<open>
  An accepted task request is bounded and addressed: it is at most 32 KB of JSON of a known version, from
  one canonical identity to another, alive for more than zero and at most 24 hours; its text is not blank
  and at most 24 KB; and from version 2 on it is one leading text followed by at most four images with
  different ids and at most 12 MB together.\<close>

theorem accepted_task_request_bounded:
  assumes "validateCollaborationTaskRequest v = None"
  shows "encoded_size v \<le> 32768 \<and> get v ''schemaVersion'' \<in> jint ` {1..7}
    \<and> isCanonicalTetiPublicId (get v ''requesterTetiId'') \<and> isCanonicalTetiPublicId (get v ''targetTetiId'')
    \<and> get v ''requesterTetiId'' \<noteq> get v ''targetTetiId''
    \<and> 0 < time_of (get v ''expiresAt'') - time_of (get v ''createdAt'')
    \<and> time_of (get v ''expiresAt'') - time_of (get v ''createdAt'') \<le> 86400000
    \<and> trim (str_of (taskInputText (get v ''input''))) \<noteq> []
    \<and> utf8_size (str_of (taskInputText (get v ''input''))) \<le> 24576
    \<and> length (taskInputImages (get v ''input'')) \<le> 4
    \<and> distinct (map (\<lambda>p. get p ''attachmentId'') (taskInputImages (get v ''input'')))
    \<and> image_bytes (taskInputImages (get v ''input'')) \<le> 12582912
    \<and> (get v ''schemaVersion'' \<noteq> jint 1 \<longrightarrow>
        items (get (get v ''input'') ''parts'') = hd (items (get (get v ''input'') ''parts'')) # taskInputImages (get v ''input''))"
proof -
  let ?i = "get v ''input''"
  have v: "encoded_size v \<le> 32768" "get v ''schemaVersion'' \<in> jint ` {1..7}"
    "isCanonicalTetiPublicId (get v ''requesterTetiId'')" "isCanonicalTetiPublicId (get v ''targetTetiId'')"
    "get v ''requesterTetiId'' \<noteq> get v ''targetTetiId''"
    "0 < time_of (get v ''expiresAt'') - time_of (get v ''createdAt'')"
    "time_of (get v ''expiresAt'') - time_of (get v ''createdAt'') \<le> 86400000"
    and input: "if get v ''schemaVersion'' = jint 1 then validateTextPart ?i max_input_text_bytes ''Task input'' = None
       else validateMultipartInput ?i = None"
    using assms by (auto simp: validateCollaborationTaskRequest_def Let_def task_limits valid_simps split: if_splits
        simp del: has_missing_key_iff)
  show ?thesis
  proof (cases "get v ''schemaVersion'' = jint 1")
    case True
    then have "get ?i ''kind'' = JStr ''text''" "trim (str_of (get ?i ''text'')) \<noteq> []"
      "utf8_size (str_of (get ?i ''text'')) \<le> 24576"
      using input by (simp_all add: validateTextPart_def valid_simps task_limits)
    with v True show ?thesis by (simp add: taskInputText_def taskInputImages_def image_bytes_def)
  next
    case False
    let ?ps = "items (get ?i ''parts'')"
    have parts: "get ?i ''kind'' = JStr ''parts''" "validateParts (get ?i ''parts'') ''Task input'' True max_input_text_bytes = None"
      using input False by (simp_all add: validateMultipartInput_def valid_simps)
    note facts = validateParts_None [OF parts(2)]
    obtain p qs where ps: "?ps = p # qs" using facts by (cases ?ps) auto
    have lead: "is_text_part p" and rest: "\<forall>q\<in>set qs. get q ''kind'' = JStr ''image''" using facts ps by auto
    have p: "validateTextPart p max_input_text_bytes (''Task input'' @ '' text part'') = None" using facts ps lead by auto
    then have "is_string (get p ''text'')" "trim (str_of (get p ''text'')) \<noteq> []"
      "utf8_size (str_of (get p ''text'')) \<le> 24576"
      by (simp_all add: validateTextPart_def valid_simps task_limits)
    moreover have "taskInputText ?i = get p ''text''"
      using parts(1) ps lead calculation(1) by (auto simp: taskInputText_def is_string_conv)
    moreover have "taskInputImages ?i = qs"
      using parts(1) ps lead rest by (simp add: taskInputImages_def)
    moreover have "filter (\<lambda>p. get p ''kind'' = JStr ''image'') ?ps = qs" using ps lead rest by simp
    ultimately show ?thesis using v facts ps by simp
  qed
qed

definition sample_task_request :: json where
  "sample_task_request = JObj
     [(''schemaVersion'', jint 7), (''taskId'', JStr ''task-1''), (''requesterTetiId'', JStr ''teti_abc123def''),
      (''targetTetiId'', JStr ''teti_me1234567''), (''offerId'', JStr ''offer-1''), (''capabilityId'', JStr ''text.write''),
      (''input'', JObj [(''kind'', JStr ''parts''),
         (''parts'', JArr [JObj [(''kind'', JStr ''text''), (''text'', JStr ''Hello'')]])]),
      (''workspace'', JObj [(''kind'', JStr ''temporary''), (''access'', JArr [JStr ''read''])]),
      (''executionMode'', JStr ''single_stage''),
      (''createdAt'', JStr ''2026-01-01T00:00:00.000Z''), (''expiresAt'', JStr ''2026-01-01T01:00:00.000Z'')]"

theorem accepted_task_request_bounded_witness:
  "encoded_size sample_task_request \<le> 32768
   \<and> taskInputText (get sample_task_request ''input'') = JStr ''Hello''"
proof -
  have "validateCollaborationTaskRequest sample_task_request = None" by code_simp
  from accepted_task_request_bounded [OF this] have "encoded_size sample_task_request \<le> 32768" by blast
  then show ?thesis by (simp add: sample_task_request_def taskInputText_def)
qed

end
