(* ===== verification/Long_Horizon.thy ===== *)
theory Long_Horizon
  imports Execution
begin

text \<open>
  The validator of a long-horizon task session (\<open>core/task/long-horizon-validation.ts\<close>): the state that
  the receiving side keeps of a task with several stages, as it is stored in the task record.
\<close>

section \<open>Fields\<close>

definition maximum_stages :: int where "maximum_stages = 16"
definition maximum_lh_artifacts :: int where "maximum_lh_artifacts = 32"
definition maximum_lh_audit_events :: int where "maximum_lh_audit_events = 256"
definition maximum_instruction_bytes :: int where "maximum_instruction_bytes = 8 * 1024"
definition maximum_renewals :: int where "maximum_renewals = 8"

lemmas lh_limits = maximum_stages_def maximum_lh_artifacts_def maximum_lh_audit_events_def
  maximum_instruction_bytes_def maximum_renewals_def

definition len :: "'a list \<Rightarrow> int" where
  "len xs = int (length xs)"

definition lh_exactOptional :: "json \<Rightarrow> string list \<Rightarrow> string list \<Rightarrow> string \<Rightarrow> error option" where
  "lh_exactOptional value required optional label = first_err
     [throw_if (\<not> is_record value) (PlainError (label @ '' is invalid.'')),
      throw_if (\<not> set required \<subseteq> set (keys_of value) \<or> \<not> set (keys_of value) \<subseteq> set (required @ optional))
        (PlainError (label @ '' contains unsupported fields.''))]"

definition lh_exact :: "json \<Rightarrow> string list \<Rightarrow> string \<Rightarrow> error option" where
  "lh_exact value required label = lh_exactOptional value required [] label"

definition lh_safe_id :: "json \<Rightarrow> bool" where
  "lh_safe_id value \<longleftrightarrow> is_string value \<and> id_pattern 191 (str_of value)"

definition lh_id :: "json \<Rightarrow> string \<Rightarrow> error option" where
  "lh_id value label = throw_if (\<not> lh_safe_id value) (PlainError (label @ '' is invalid.''))"

definition lh_slug :: "json \<Rightarrow> string \<Rightarrow> error option" where
  "lh_slug value label =
     throw_if (\<not> is_string value \<or> \<not> slug_pattern (str_of value)) (PlainError (label @ '' is invalid.''))"

definition lh_timestamp :: "json \<Rightarrow> string \<Rightarrow> error option" where
  "lh_timestamp value label =
     throw_if (\<not> is_string value \<or> \<not> valid_date (str_of value)) (PlainError (label @ '' is invalid.''))"

definition lh_safeCode :: "json \<Rightarrow> error option" where
  "lh_safeCode value =
     throw_if (value \<noteq> JUndef \<and> (\<not> is_string value \<or> \<not> safe_code_pattern (str_of value)))
       (PlainError ''Long-horizon safe error code is invalid.'')"

definition lh_digest :: "json \<Rightarrow> bool" where
  "lh_digest value \<longleftrightarrow> is_string value \<and> sha256_pattern (str_of value)"

definition positive :: "json \<Rightarrow> bool" where
  "positive value = safe_int_from 1 value"

definition positiveOrZero :: "json \<Rightarrow> bool" where
  "positiveOrZero value = safe_int_from 0 value"

text \<open>A check that only applies to a value that is present, and one for a value that is not null.\<close>

definition unless_undef :: "json \<Rightarrow> error option \<Rightarrow> error option" where
  "unless_undef value check = (if value = JUndef then None else check)"

definition unless_null :: "json \<Rightarrow> error option \<Rightarrow> error option" where
  "unless_null value check = (if value = JNull then None else check)"

lemma unless_None [valid_simps]:
  "unless_undef v c = None \<longleftrightarrow> v = JUndef \<or> c = None"
  "unless_null v c = None \<longleftrightarrow> v = JNull \<or> c = None"
  by (auto simp: unless_undef_def unless_null_def)

definition validateIdArray :: "json \<Rightarrow> int \<Rightarrow> string \<Rightarrow> error option" where
  "validateIdArray value maximum label =
     throw_if (\<not> is_array value \<or> maximum < len (items value) \<or> \<not> list_all lh_safe_id (items value)
         \<or> \<not> distinct (items value))
       (PlainError (''Long-horizon '' @ label @ '' are invalid.''))"

section \<open>Parts of the session\<close>

definition validateLongHorizonInput :: "json \<Rightarrow> error option" where
  "validateLongHorizonInput value = first_err
     [lh_exactOptional value [''inputId'', ''instruction'', ''instructionDigest'', ''source'', ''createdAt'']
        [''consumedAt''] ''Long-horizon input'',
      lh_id (get value ''inputId'') ''inputId'',
      throw_if (\<not> is_string (get value ''instruction'') \<or> trim (str_of (get value ''instruction'')) = []
          \<or> maximum_instruction_bytes < utf8_size (str_of (get value ''instruction''))
          \<or> \<not> lh_digest (get value ''instructionDigest'')
          \<or> (get value ''source'' \<noteq> JStr ''remote_requester'' \<and> get value ''source'' \<noteq> JStr ''local_user''))
        (PlainError ''Long-horizon input is invalid.''),
      lh_timestamp (get value ''createdAt'') ''createdAt'',
      unless_undef (get value ''consumedAt'') (lh_timestamp (get value ''consumedAt'') ''consumedAt'')]"

definition validateInputRequest :: "json \<Rightarrow> error option" where
  "validateInputRequest value = first_err
     [lh_exact value [''requestId'', ''prompt'', ''createdAt''] ''Long-horizon input request'',
      lh_id (get value ''requestId'') ''requestId'',
      throw_if (\<not> is_string (get value ''prompt'') \<or> trim (str_of (get value ''prompt'')) = []
          \<or> 240 < length (str_of (get value ''prompt'')))
        (PlainError ''Long-horizon input request is invalid.''),
      lh_timestamp (get value ''createdAt'') ''createdAt'']"

definition target_key :: "json \<Rightarrow> string" where
  "target_key target = js_string (get target ''childAgentId'') @ '':'' @ js_string (get target ''connectorId'')"

fun validate_targets :: "string list \<Rightarrow> json list \<Rightarrow> error option" where
  "validate_targets targets [] = None"
| "validate_targets targets (target # rest) = first_err
     [lh_exact target [''childAgentId'', ''connectorId''] ''Long-horizon Child target'',
      lh_slug (get target ''childAgentId'') ''childAgentId'',
      lh_slug (get target ''connectorId'') ''connectorId'',
      throw_if (target_key target \<in> set targets) (PlainError ''Long-horizon Child targets are duplicated.''),
      validate_targets (target_key target # targets) rest]"

definition stage_states :: "string list" where
  "stage_states = [''queued'', ''working'', ''completed'', ''failed'', ''canceled'', ''interrupted'']"

definition stage_keys :: "string list" where
  "stage_keys = [''stageId'', ''stageIndex'', ''executionTaskId'', ''childAgentId'', ''connectorId'', ''state'',
     ''workspaceRevision'', ''workspaceMutation'', ''inputId'', ''instructionDigest'', ''progress'', ''artifactIds'',
     ''checkpointAvailable'', ''startedAt'', ''updatedAt'']"

text \<open>A stage index that passed the check is a positive integer; \<open>indexes\<close> holds those seen.\<close>

definition validate_stage :: "json list \<Rightarrow> json \<Rightarrow> error option" where
  "validate_stage indexes stage = first_err
     [lh_exactOptional stage stage_keys [''completedAt'', ''safeErrorCode''] ''Long-horizon stage'',
      lh_id (get stage ''stageId'') ''stageId'',
      lh_id (get stage ''executionTaskId'') ''executionTaskId'',
      lh_slug (get stage ''childAgentId'') ''childAgentId'',
      lh_slug (get stage ''connectorId'') ''connectorId'',
      throw_if (\<not> positive (get stage ''stageIndex'')
          \<or> maximum_stages < int_of (get stage ''stageIndex'')
          \<or> get stage ''stageIndex'' \<in> set indexes
          \<or> js_string (get stage ''state'') \<notin> set stage_states
          \<or> \<not> positive (get stage ''workspaceRevision'')
          \<or> (get stage ''workspaceMutation'' \<noteq> JStr ''none'' \<and> get stage ''workspaceMutation'' \<noteq> JStr ''snapshot_commit'')
          \<or> (get stage ''inputId'' \<noteq> JNull \<and> \<not> id_pattern 191 (js_string (get stage ''inputId'')))
          \<or> \<not> lh_digest (get stage ''instructionDigest'')
          \<or> \<not> is_boolean (get stage ''checkpointAvailable''))
        (PlainError ''Long-horizon stage is invalid.''),
      validateExecutionProgress (get stage ''progress''),
      validateIdArray (get stage ''artifactIds'') maximum_lh_artifacts ''stage artifact IDs'',
      lh_timestamp (get stage ''startedAt'') ''startedAt'',
      lh_timestamp (get stage ''updatedAt'') ''updatedAt'',
      unless_undef (get stage ''completedAt'') (lh_timestamp (get stage ''completedAt'') ''completedAt''),
      lh_safeCode (get stage ''safeErrorCode'')]"

fun stages_loop :: "json list \<Rightarrow> json list \<Rightarrow> error option" where
  "stages_loop indexes [] = None"
| "stages_loop indexes (stage # stages) = first_err
     [validate_stage indexes stage, stages_loop (get stage ''stageIndex'' # indexes) stages]"

definition validateStages :: "json \<Rightarrow> json \<Rightarrow> error option" where
  "validateStages value currentStageIndex = first_err
     [throw_if (\<not> is_array value \<or> maximum_stages < len (items value)) (PlainError ''Long-horizon stages are invalid.''),
      stages_loop [] (items value),
      throw_if (items value \<noteq> [] \<and> currentStageIndex \<notin> (\<lambda>stage. get stage ''stageIndex'') ` set (items value))
        (PlainError ''Long-horizon current stage is unavailable.'')]"

definition validate_checkpoint :: "json \<Rightarrow> error option" where
  "validate_checkpoint checkpoint = first_err
     [lh_exact checkpoint
        [''checkpointId'', ''stageIndex'', ''workspaceRevision'', ''artifactIds'', ''digest'', ''createdAt'']
        ''Long-horizon checkpoint'',
      lh_id (get checkpoint ''checkpointId'') ''checkpointId'',
      throw_if (\<not> positive (get checkpoint ''stageIndex'') \<or> \<not> positive (get checkpoint ''workspaceRevision'')
          \<or> \<not> lh_digest (get checkpoint ''digest''))
        (PlainError ''Long-horizon checkpoint is invalid.''),
      validateIdArray (get checkpoint ''artifactIds'') maximum_lh_artifacts ''checkpoint artifact IDs'',
      lh_timestamp (get checkpoint ''createdAt'') ''createdAt'']"

definition validateCheckpoints :: "json \<Rightarrow> error option" where
  "validateCheckpoints value = first_err
     [throw_if (\<not> is_array value \<or> maximum_stages < len (items value))
        (PlainError ''Long-horizon checkpoints are invalid.''),
      first_err (map validate_checkpoint (items value))]"

fun artifact_entries_loop :: "string list \<Rightarrow> json list \<Rightarrow> error option" where
  "artifact_entries_loop ids [] = None"
| "artifact_entries_loop ids (artifact # rest) = first_err
     [lh_exact artifact [''artifactId'', ''stageIndex'', ''role'', ''createdAt''] ''Long-horizon Artifact entry'',
      lh_id (get artifact ''artifactId'') ''artifactId'',
      throw_if (js_string (get artifact ''artifactId'') \<in> set ids \<or> \<not> positive (get artifact ''stageIndex'')
          \<or> maximum_stages < int_of (get artifact ''stageIndex'')
          \<or> (get artifact ''role'' \<noteq> JStr ''intermediate'' \<and> get artifact ''role'' \<noteq> JStr ''final''))
        (PlainError ''Long-horizon Artifact entry is invalid.''),
      lh_timestamp (get artifact ''createdAt'') ''createdAt'',
      artifact_entries_loop (js_string (get artifact ''artifactId'') # ids) rest]"

definition validateLongHorizonArtifactEntries :: "json \<Rightarrow> error option" where
  "validateLongHorizonArtifactEntries value = first_err
     [throw_if (\<not> is_array value \<or> maximum_lh_artifacts < len (items value))
        (PlainError ''Long-horizon Artifact entries are invalid.''),
      artifact_entries_loop [] (items value),
      throw_if (1 < len (filter (\<lambda>item. get item ''role'' = JStr ''final'') (items value)))
        (PlainError ''Long-horizon Task has multiple final Artifacts.'')]"

definition lh_audit_actions :: "string list" where
  "lh_audit_actions = [''session_created'', ''stage_started'', ''progress_updated'', ''artifact_published'',
     ''checkpoint_created'', ''input_requested'', ''input_received'', ''pause_requested'', ''paused'', ''resumed'',
     ''child_selected'', ''stage_failed'', ''renewed'', ''completed'', ''canceled'', ''expired'', ''restart_reconciled'']"

definition lh_audit_actors :: "string list" where
  "lh_audit_actors = [''host'', ''local_user'', ''remote_peer'', ''child_agent'']"

definition validate_lh_audit_event :: "nat \<times> json \<Rightarrow> error option" where
  "validate_lh_audit_event ie = (case ie of (index, event) \<Rightarrow> first_err
     [lh_exactOptional event [''eventId'', ''sequence'', ''action'', ''actor'', ''stageIndex'', ''timestamp'']
        [''childAgentId'', ''artifactId'', ''inputId'', ''workspaceRevision'', ''safeErrorCode'']
        ''Long-horizon audit event'',
      lh_id (get event ''eventId'') ''eventId'',
      throw_if (get event ''sequence'' \<noteq> jint (int index + 1)
          \<or> js_string (get event ''action'') \<notin> set lh_audit_actions
          \<or> js_string (get event ''actor'') \<notin> set lh_audit_actors
          \<or> (get event ''stageIndex'' \<noteq> JNull \<and> \<not> positive (get event ''stageIndex'')))
        (PlainError ''Long-horizon audit event is invalid.''),
      lh_timestamp (get event ''timestamp'') ''timestamp'',
      unless_undef (get event ''childAgentId'') (lh_slug (get event ''childAgentId'') ''childAgentId''),
      unless_undef (get event ''artifactId'') (lh_id (get event ''artifactId'') ''artifactId''),
      unless_undef (get event ''inputId'') (lh_id (get event ''inputId'') ''inputId''),
      unless_undef (get event ''workspaceRevision'')
        (throw_if (\<not> positive (get event ''workspaceRevision''))
          (PlainError ''Long-horizon audit Workspace revision is invalid.'')),
      lh_safeCode (get event ''safeErrorCode'')])"

definition validateLongHorizonAudit :: "json \<Rightarrow> error option" where
  "validateLongHorizonAudit value = first_err
     [throw_if (\<not> is_array value \<or> items value = [] \<or> maximum_lh_audit_events < len (items value))
        (PlainError ''Long-horizon audit is invalid.''),
      first_err (map validate_lh_audit_event (with_index (items value)))]"

section \<open>The session\<close>

definition lh_phases :: "string list" where
  "lh_phases = [''pending_approval'', ''working'', ''input_required'', ''paused'', ''completed'', ''failed'',
     ''canceled'', ''expired'']"

definition session_keys :: "string list" where
  "session_keys = [''schemaVersion'', ''phase'', ''currentStageIndex'', ''workspaceRevision'', ''progress'',
     ''continuationExpiresAt'', ''renewalCount'', ''pauseRequested'', ''pendingInput'', ''inputRequest'',
     ''availableChildAgents'', ''stages'', ''checkpoints'', ''artifacts'', ''audit'', ''updatedAt'']"

definition validateLongHorizonTaskState :: "json \<Rightarrow> error option" where
  "validateLongHorizonTaskState value = first_err
     [lh_exact value session_keys ''Long-horizon Task'',
      throw_if (get value ''schemaVersion'' \<noteq> jint 1
          \<or> js_string (get value ''phase'') \<notin> set lh_phases
          \<or> \<not> positiveOrZero (get value ''currentStageIndex'')
          \<or> \<not> positive (get value ''workspaceRevision'')
          \<or> \<not> positiveOrZero (get value ''renewalCount'')
          \<or> maximum_renewals < int_of (get value ''renewalCount'')
          \<or> \<not> is_boolean (get value ''pauseRequested''))
        (PlainError ''Long-horizon Task state is invalid.''),
      validateExecutionProgress (get value ''progress''),
      lh_timestamp (get value ''continuationExpiresAt'') ''continuationExpiresAt'',
      lh_timestamp (get value ''updatedAt'') ''updatedAt'',
      unless_null (get value ''pendingInput'') (validateLongHorizonInput (get value ''pendingInput'')),
      unless_null (get value ''inputRequest'') (validateInputRequest (get value ''inputRequest'')),
      throw_if (\<not> is_array (get value ''availableChildAgents'') \<or> 32 < len (items (get value ''availableChildAgents'')))
        (PlainError ''Long-horizon Child targets are invalid.''),
      validate_targets [] (items (get value ''availableChildAgents'')),
      validateStages (get value ''stages'') (get value ''currentStageIndex''),
      validateCheckpoints (get value ''checkpoints''),
      validateLongHorizonArtifactEntries (get value ''artifacts''),
      validateLongHorizonAudit (get value ''audit'')]"

end
