(* ===== verification/Task_Transport.thy ===== *)
theory Task_Transport
  imports Task_Contract Long_Horizon
begin

text \<open>
  The messages that carry a task between two Tetis (\<open>core/task/transport.ts\<close> and
  \<open>core/task/transport-validation.ts\<close>): their validators, the choice of the protocol version, and the
  canonical rendering of a request that retries and digests are compared by.
\<close>

section \<open>Fields\<close>

definition tt_exactOptionalRecord :: "json \<Rightarrow> string list \<Rightarrow> string list \<Rightarrow> string \<Rightarrow> error option" where
  "tt_exactOptionalRecord value required optional label = first_err
     [throw_if (\<not> is_record value) (TaskTransportContractError (label @ '' must be an object.'')),
      throw_if (has_extra_key (required @ optional) value)
        (TaskTransportContractError (label @ '' contains an unsupported field.'')),
      throw_if (has_missing_key required value)
        (TaskTransportContractError (label @ '' is missing a required field.''))]"

definition tt_exactRecord :: "json \<Rightarrow> string list \<Rightarrow> string \<Rightarrow> error option" where
  "tt_exactRecord value keys label = first_err
     [throw_if (\<not> is_record value) (TaskTransportContractError (label @ '' must be an object.'')),
      throw_if (has_extra_key keys value) (TaskTransportContractError (label @ '' contains an unsupported field.'')),
      throw_if (has_missing_key keys value)
        (TaskTransportContractError (label @ '' is missing a required field.''))]"

definition tt_canonicalTetiId :: "json \<Rightarrow> string \<Rightarrow> error option" where
  "tt_canonicalTetiId value label =
     throw_if (\<not> isCanonicalTetiPublicId value)
       (TaskTransportContractError (label @ '' must be a canonical lowercase Teti ID.''))"

definition tt_safeId :: "json \<Rightarrow> string \<Rightarrow> error option" where
  "tt_safeId value label =
     throw_if (\<not> is_string value \<or> \<not> id_pattern 127 (str_of value))
       (TaskTransportContractError (label @ '' is invalid.''))"

definition tt_timestamp :: "json \<Rightarrow> string \<Rightarrow> error option" where
  "tt_timestamp value label = first_err
     [throw_if (\<not> is_string value \<or> trim (str_of value) = [])
        (TaskTransportContractError (label @ '' is required.'')),
      throw_if (\<not> valid_date (str_of value)) (TaskTransportContractError (label @ '' is invalid.''))]"

definition same_teti :: error where
  "same_teti = TaskTransportContractError ''Task requester and target must be different Tetis.''"

definition taskIdentity :: "json \<Rightarrow> error option" where
  "taskIdentity value = first_err
     [tt_safeId (get value ''taskId'') ''taskId'',
      tt_canonicalTetiId (get value ''requesterTetiId'') ''requesterTetiId'',
      tt_canonicalTetiId (get value ''targetTetiId'') ''targetTetiId'',
      throw_if (get value ''requesterTetiId'' = get value ''targetTetiId'') same_teti]"

definition tt_version :: "json \<Rightarrow> string \<Rightarrow> error option" where
  "tt_version value label =
     throw_if (get value ''schemaVersion'' \<noteq> jint 1) (TaskTransportContractError (''Unsupported '' @ label @ '' version.''))"

definition identity_keys :: "string list" where
  "identity_keys = [''schemaVersion'', ''taskId'', ''requesterTetiId'', ''targetTetiId'']"

section \<open>Messages\<close>

fun versions_loop :: "json list \<Rightarrow> json list \<Rightarrow> error option" where
  "versions_loop seen [] = None"
| "versions_loop seen (version # versions) = first_err
     [throw_if (\<not> safe_int_in 1 255 version \<or> version \<in> set seen)
        (TaskTransportContractError ''Task protocol versions are invalid.''),
      versions_loop (version # seen) versions]"

definition validateTaskProtocolVersions :: "json \<Rightarrow> error option" where
  "validateTaskProtocolVersions value = first_err
     [throw_if (\<not> is_array value \<or> items value = [] \<or> 8 < len (items value))
        (TaskTransportContractError ''Task protocol versions are invalid.''),
      versions_loop [] (items value)]"

definition receipt_statuses :: "string list" where
  "receipt_statuses = [''received'', ''duplicate'', ''expired'', ''conflict'', ''rejected'']"

definition validateTaskReceiptPayload :: "json \<Rightarrow> error option" where
  "validateTaskReceiptPayload value = first_err
     [tt_exactRecord value (identity_keys @ [''status'', ''receivedAt'', ''supportedTaskVersions'']) ''Task receipt'',
      throw_if (get value ''schemaVersion'' \<noteq> jint 1)
        (TaskTransportContractError ''Unsupported Task receipt schema version.''),
      taskIdentity value,
      throw_if (\<not> is_string (get value ''status'') \<or> str_of (get value ''status'') \<notin> set receipt_statuses)
        (TaskTransportContractError ''Task receipt status is invalid.''),
      tt_timestamp (get value ''receivedAt'') ''receivedAt'',
      validateTaskProtocolVersions (get value ''supportedTaskVersions'')]"

definition validate_purpose :: "json \<Rightarrow> string \<Rightarrow> error option" where
  "validate_purpose value label =
     throw_if (get value ''purpose'' \<noteq> JStr ''input'' \<and> get value ''purpose'' \<noteq> JStr ''artifact'')
       (TaskTransportContractError (label @ '' purpose is invalid.''))"

definition validate_attachment_artifact :: "json \<Rightarrow> string \<Rightarrow> error option" where
  "validate_attachment_artifact value label = first_err
     [(if get value ''purpose'' = JStr ''artifact'' then tt_safeId (get value ''artifactId'') ''artifactId'' else None),
      throw_if (get value ''purpose'' = JStr ''input'' \<and> get value ''artifactId'' \<noteq> JUndef)
        (TaskTransportContractError (label @ '' cannot name an Artifact.''))]"

definition validateTaskAttachmentPayload :: "json \<Rightarrow> error option" where
  "validateTaskAttachmentPayload value = first_err
     [tt_exactOptionalRecord value (identity_keys @ [''purpose'', ''part'', ''createdAt'', ''expiresAt''])
        [''artifactId'', ''deliveryReceiptRequested''] ''Task attachment'',
      tt_version value ''Task attachment'',
      taskIdentity value,
      validate_purpose value ''Task attachment'',
      validate_attachment_artifact value ''Task input attachment'',
      throw_if (get value ''deliveryReceiptRequested'' \<noteq> JUndef \<and> get value ''deliveryReceiptRequested'' \<noteq> JBool True)
        (TaskTransportContractError ''Task attachment receipt request is invalid.''),
      validateTaskImagePart (get value ''part'') ''Task image part'',
      tt_timestamp (get value ''createdAt'') ''createdAt'',
      tt_timestamp (get value ''expiresAt'') ''expiresAt'',
      throw_if (time_of (get value ''expiresAt'') \<le> time_of (get value ''createdAt''))
        (TaskTransportContractError ''Task attachment expiry is invalid.'')]"

definition validateTaskAttachmentReceiptPayload :: "json \<Rightarrow> error option" where
  "validateTaskAttachmentReceiptPayload value = first_err
     [tt_exactOptionalRecord value (identity_keys @ [''purpose'', ''attachmentId'', ''receivedAt'']) [''artifactId'']
        ''Task attachment receipt'',
      tt_version value ''Task attachment receipt'',
      taskIdentity value,
      validate_purpose value ''Task attachment receipt'',
      tt_safeId (get value ''attachmentId'') ''attachmentId'',
      validate_attachment_artifact value ''Task input attachment receipt'',
      tt_timestamp (get value ''receivedAt'') ''receivedAt'']"

definition lh_status_phases :: "string list" where
  "lh_status_phases = [''working'', ''input_required'', ''paused'', ''completed'', ''failed'', ''canceled'', ''expired'']"

definition validateLongHorizonStatus :: "json \<Rightarrow> error option" where
  "validateLongHorizonStatus value = first_err
     [tt_exactOptionalRecord value
        [''schemaVersion'', ''phase'', ''currentStageIndex'', ''workspaceRevision'', ''completedUnits'', ''totalUnits'',
         ''progressMessage'', ''continuationExpiresAt''] [''inputRequestId'', ''finalArtifactId'']
        ''Long-horizon Task status'',
      throw_if (get value ''schemaVersion'' \<noteq> jint 1
          \<or> js_string (get value ''phase'') \<notin> set lh_status_phases
          \<or> \<not> safe_int_from 0 (get value ''currentStageIndex'')
          \<or> \<not> safe_int_from 1 (get value ''workspaceRevision'')
          \<or> \<not> nullableUnit (get value ''completedUnits'')
          \<or> \<not> nullableUnit (get value ''totalUnits'')
          \<or> (get value ''progressMessage'' \<noteq> JNull
              \<and> (\<not> is_string (get value ''progressMessage'') \<or> 240 < length (str_of (get value ''progressMessage'')))))
        (TaskTransportContractError ''Long-horizon Task status is invalid.''),
      tt_timestamp (get value ''continuationExpiresAt'') ''continuationExpiresAt'',
      unless_undef (get value ''inputRequestId'') (tt_safeId (get value ''inputRequestId'') ''inputRequestId''),
      unless_undef (get value ''finalArtifactId'') (tt_safeId (get value ''finalArtifactId'') ''finalArtifactId'')]"

definition task_update_states :: "string list" where
  "task_update_states = [''working'', ''input_required'', ''auth_required'', ''completed'', ''failed'', ''canceled'',
     ''rejected'']"

definition validateTaskStatusPayload :: "json \<Rightarrow> error option" where
  "validateTaskStatusPayload value = first_err
     [tt_exactOptionalRecord value (identity_keys @ [''revision'', ''state'', ''updatedAt''])
        (''safeErrorCode'' # (if get value ''schemaVersion'' = jint 2 then [''longHorizon''] else [])) ''Task status'',
      throw_if (get value ''schemaVersion'' \<noteq> jint 1 \<and> get value ''schemaVersion'' \<noteq> jint 2)
        (TaskTransportContractError ''Unsupported Task status version.''),
      taskIdentity value,
      throw_if (\<not> safe_int_from 1 (get value ''revision''))
        (TaskTransportContractError ''Task status revision is invalid.''),
      throw_if (\<not> is_string (get value ''state'') \<or> str_of (get value ''state'') \<notin> set task_update_states)
        (TaskTransportContractError ''Task status state is invalid.''),
      tt_timestamp (get value ''updatedAt'') ''updatedAt'',
      throw_if (get value ''safeErrorCode'' \<noteq> JUndef
          \<and> (\<not> is_string (get value ''safeErrorCode'') \<or> \<not> safe_code_pattern (str_of (get value ''safeErrorCode''))))
        (TaskTransportContractError ''Task status safe error code is invalid.''),
      (if get value ''schemaVersion'' = jint 2 then validateLongHorizonStatus (get value ''longHorizon'') else None)]"

definition validateTaskInputPayload :: "json \<Rightarrow> error option" where
  "validateTaskInputPayload value = first_err
     [tt_exactRecord value (identity_keys @ [''inputId'', ''expectedStageIndex'', ''instruction'', ''createdAt''])
        ''Task supplemental input'',
      tt_version value ''Task input'',
      taskIdentity value,
      tt_safeId (get value ''inputId'') ''inputId'',
      throw_if (\<not> safe_int_from 1 (get value ''expectedStageIndex''))
        (TaskTransportContractError ''Task input stage is invalid.''),
      throw_if (\<not> is_string (get value ''instruction'') \<or> trim (str_of (get value ''instruction'')) = []
          \<or> 8192 < utf8_size (str_of (get value ''instruction'')))
        (TaskTransportContractError ''Task supplemental instruction is invalid.''),
      tt_timestamp (get value ''createdAt'') ''createdAt'']"

definition validateTaskCancelPayload :: "json \<Rightarrow> error option" where
  "validateTaskCancelPayload value = first_err
     [tt_exactRecord value (identity_keys @ [''controlId'', ''requestedAt'']) ''Task cancel'',
      tt_version value ''Task cancel'',
      taskIdentity value,
      tt_safeId (get value ''controlId'') ''controlId'',
      tt_timestamp (get value ''requestedAt'') ''requestedAt'']"

definition validateTaskApplicationReceiptPayload :: "json \<Rightarrow> error option" where
  "validateTaskApplicationReceiptPayload value = first_err
     [tt_exactRecord value (identity_keys @ [''kind'', ''referenceId'', ''receivedAt'']) ''Task application receipt'',
      tt_version value ''Task application receipt'',
      taskIdentity value,
      throw_if (get value ''kind'' \<notin> JStr ` {''status'', ''input'', ''control''})
        (TaskTransportContractError ''Task application receipt kind is invalid.''),
      tt_safeId (get value ''referenceId'') ''referenceId'',
      throw_if (get value ''kind'' = JStr ''status''
          \<and> (\<not> list_all is_digit (str_of (get value ''referenceId'')) \<or> \<not> number_ge 1 (get value ''referenceId'')))
        (TaskTransportContractError ''Task status receipt reference is invalid.''),
      tt_timestamp (get value ''receivedAt'') ''receivedAt'']"

definition stage_metadata_invalid :: "json \<Rightarrow> bool" where
  "stage_metadata_invalid value \<longleftrightarrow> \<not> safe_int_from 1 (get value ''stageIndex'')
     \<or> (get value ''role'' \<noteq> JStr ''intermediate'' \<and> get value ''role'' \<noteq> JStr ''final'')"

definition validateTaskArtifactPayload :: "json \<Rightarrow> error option" where
  "validateTaskArtifactPayload value = first_err
     [tt_exactOptionalRecord value (identity_keys @ [''artifact'', ''createdAt''])
        (if get value ''schemaVersion'' = jint 2 then [''stageIndex'', ''role''] else []) ''Task Artifact payload'',
      throw_if (get value ''schemaVersion'' \<noteq> jint 1 \<and> get value ''schemaVersion'' \<noteq> jint 2)
        (TaskTransportContractError ''Unsupported Task Artifact payload version.''),
      taskIdentity value,
      validateTaskArtifact (get value ''artifact''),
      throw_if (get (get value ''artifact'') ''taskId'' \<noteq> get value ''taskId'')
        (TaskTransportContractError ''Task Artifact identity is invalid.''),
      tt_timestamp (get value ''createdAt'') ''createdAt'',
      throw_if (get value ''schemaVersion'' = jint 2 \<and> stage_metadata_invalid value)
        (TaskTransportContractError ''Task Artifact stage metadata is invalid.'')]"

definition validateTaskArtifactFilePayload :: "json \<Rightarrow> error option" where
  "validateTaskArtifactFilePayload value = first_err
     [tt_exactOptionalRecord value
        (identity_keys @ [''artifactId'', ''byteLength'', ''sha256'', ''createdAt'', ''expiresAt'', ''deliveryReceiptRequested''])
        (if get value ''schemaVersion'' = jint 2 then [''stageIndex'', ''role''] else []) ''Task Artifact file'',
      throw_if (get value ''schemaVersion'' \<noteq> jint 1 \<and> get value ''schemaVersion'' \<noteq> jint 2)
        (TaskTransportContractError ''Unsupported Task Artifact file version.''),
      taskIdentity value,
      tt_safeId (get value ''artifactId'') ''artifactId'',
      throw_if (\<not> safe_int_in 1 65536 (get value ''byteLength'')
          \<or> \<not> lh_digest (get value ''sha256'')
          \<or> get value ''deliveryReceiptRequested'' \<noteq> JBool True)
        (TaskTransportContractError ''Task Artifact file integrity metadata is invalid.''),
      tt_timestamp (get value ''createdAt'') ''createdAt'',
      tt_timestamp (get value ''expiresAt'') ''expiresAt'',
      throw_if (time_of (get value ''expiresAt'') \<le> time_of (get value ''createdAt''))
        (TaskTransportContractError ''Task Artifact file expiry is invalid.''),
      throw_if (get value ''schemaVersion'' = jint 2 \<and> stage_metadata_invalid value)
        (TaskTransportContractError ''Task Artifact file stage metadata is invalid.'')]"

definition validateTaskArtifactReceiptPayload :: "json \<Rightarrow> error option" where
  "validateTaskArtifactReceiptPayload value = first_err
     [tt_exactRecord value (identity_keys @ [''artifactId'', ''sha256'', ''receivedAt'']) ''Task Artifact receipt'',
      tt_version value ''Task Artifact receipt'',
      taskIdentity value,
      tt_safeId (get value ''artifactId'') ''artifactId'',
      throw_if (\<not> lh_digest (get value ''sha256''))
        (TaskTransportContractError ''Task Artifact receipt digest is invalid.''),
      tt_timestamp (get value ''receivedAt'') ''receivedAt'']"

section \<open>The protocol version and the canonical request\<close>

definition supported_task_versions :: "int list" where
  "supported_task_versions = [7]"

definition selectTaskProtocolVersion :: "json list option \<Rightarrow> int option" where
  "selectTaskProtocolVersion remoteVersions =
     (case remoteVersions of None \<Rightarrow> None
      | Some vs \<Rightarrow> find_first (\<lambda>version. jint version \<in> set vs) (sort_by (\<ge>) supported_task_versions))"

definition canonicalWorkspace :: "json \<Rightarrow> json" where
  "canonicalWorkspace workspace =
     (if get workspace ''kind'' = JStr ''temporary''
      then JObj [(''kind'', JStr ''temporary''), (''access'', JArr (items (get workspace ''access'')))]
      else JObj [(''kind'', JStr ''reference''), (''workspaceId'', get workspace ''workspaceId''),
        (''workspaceRevision'', get workspace ''workspaceRevision''), (''access'', JArr (items (get workspace ''access'')))])"

definition canonicalTextPart :: "json \<Rightarrow> json" where
  "canonicalTextPart part = JObj [(''kind'', JStr ''text''), (''text'', get part ''text'')]"

definition canonicalImagePart :: "json \<Rightarrow> json" where
  "canonicalImagePart part = JObj
     [(''kind'', JStr ''image''), (''attachmentId'', get part ''attachmentId''), (''mimeType'', get part ''mimeType''),
      (''byteLength'', get part ''byteLength''), (''width'', get part ''width''), (''height'', get part ''height''),
      (''sha256'', get part ''sha256'')]"

definition canonicalInput :: "json \<Rightarrow> json" where
  "canonicalInput input =
     (if get input ''kind'' = JStr ''text'' then JObj [(''kind'', JStr ''text''), (''text'', get input ''text'')]
      else JObj [(''kind'', JStr ''parts''),
        (''parts'', JArr (map (\<lambda>part. if get part ''kind'' = JStr ''text'' then canonicalTextPart part
           else canonicalImagePart part) (items (get input ''parts''))))])"

definition canonical_request :: "json \<Rightarrow> json" where
  "canonical_request value = JObj
     ([(''schemaVersion'', get value ''schemaVersion''), (''taskId'', get value ''taskId''),
       (''requesterTetiId'', get value ''requesterTetiId''), (''targetTetiId'', get value ''targetTetiId''),
       (''offerId'', get value ''offerId''), (''capabilityId'', get value ''capabilityId''),
       (''input'', canonicalInput (get value ''input''))]
      @ (if truthy (get value ''workspace'') then [(''workspace'', canonicalWorkspace (get value ''workspace''))] else [])
      @ (if truthy (get value ''executionMode'') then [(''executionMode'', get value ''executionMode'')] else [])
      @ [(''createdAt'', get value ''createdAt''), (''expiresAt'', get value ''expiresAt'')])"

definition canonicalTaskRequestJson :: "json \<Rightarrow> string" where
  "canonicalTaskRequestJson value = stringify (canonical_request value)"

end
