(* ===== verification/Task_Store.thy ===== *)
theory Task_Store
  imports Task_Transport Delegation
begin

text \<open>
  The store of the task transport (\<open>lifecycle-sidecar/runtime/tasks/store.ts\<close>): the validator of a task
  record, which binds together all the contracts a record carries, the migration of older stores, and
  the file and memory stores.
\<close>

section \<open>Fields\<close>

definition ts_requireTimestamp :: "json \<Rightarrow> string \<Rightarrow> error option" where
  "ts_requireTimestamp value label =
     throw_if (\<not> is_string value \<or> \<not> valid_date (str_of value)) (PlainError (label @ '' is invalid.''))"

definition rejectUnknownKeys :: "json \<Rightarrow> string list \<Rightarrow> string \<Rightarrow> error option" where
  "rejectUnknownKeys value allowed label =
     throw_if (\<not> set (keys_of value) \<subseteq> set allowed) (PlainError (label @ '' contains an unsupported field.''))"

definition opt_boolean :: "json \<Rightarrow> string \<Rightarrow> error option" where
  "opt_boolean value message = throw_if (value \<noteq> JUndef \<and> \<not> is_boolean value) (PlainError message)"

definition opt_nonneg :: "json \<Rightarrow> string \<Rightarrow> error option" where
  "opt_nonneg value message = throw_if (value \<noteq> JUndef \<and> \<not> safe_int_from 0 value) (PlainError message)"

definition opt_timestamp :: "json \<Rightarrow> string \<Rightarrow> error option" where
  "opt_timestamp value label = unless_undef value (ts_requireTimestamp value label)"

definition opt_safe_code :: "json \<Rightarrow> string \<Rightarrow> error option" where
  "opt_safe_code value message =
     throw_if (value \<noteq> JUndef \<and> (\<not> is_string value \<or> \<not> safe_code_pattern (str_of value))) (PlainError message)"

text \<open>\<open>Number(value ?? 0)\<close> of a field that is absent or a checked integer.\<close>

definition or_zero :: "json \<Rightarrow> int" where
  "or_zero value = int_of value"

definition nonblank :: "json \<Rightarrow> bool" where
  "nonblank value \<longleftrightarrow> is_string value \<and> trim (str_of value) \<noteq> []"

definition validateStringArray :: "json \<Rightarrow> string \<Rightarrow> error option" where
  "validateStringArray value label = unless_undef value
     (throw_if (\<not> is_array value \<or> 16 < len (items value) \<or> \<not> list_all nonblank (items value)
         \<or> \<not> distinct (items value))
       (PlainError (label @ '' is invalid.'')))"

definition opt_string_list :: "json \<Rightarrow> string \<Rightarrow> error option" where
  "opt_string_list value message =
     throw_if (value \<noteq> JUndef \<and> (\<not> is_array value \<or> \<not> list_all is_string (items value))) (PlainError message)"

section \<open>Delivery bookkeeping\<close>

text \<open>
  The loops over the delivery attempts, failures and diagnostics have the same shape: every item is a
  record with known keys, a key that was not seen yet, and its own checks.
\<close>

fun keyed_loop :: "(string list \<Rightarrow> json \<Rightarrow> error option) \<Rightarrow> (json \<Rightarrow> string) \<Rightarrow> string list \<Rightarrow> json list \<Rightarrow> error option" where
  "keyed_loop check key seen [] = None"
| "keyed_loop check key seen (item # rest) = first_err [check seen item, keyed_loop check key (key item # seen) rest]"

definition validate_delivery_attempt :: "string \<Rightarrow> string list \<Rightarrow> json \<Rightarrow> error option" where
  "validate_delivery_attempt label seen item = first_err
     [throw_if (\<not> is_record item) (PlainError (label @ '' are invalid.'')),
      rejectUnknownKeys item [''attachmentId'', ''attempts'', ''lastSentAt'', ''nextRetryAt''] label,
      throw_if (\<not> nonblank (get item ''attachmentId'') \<or> str_of (get item ''attachmentId'') \<in> set seen
          \<or> \<not> safe_int_from 1 (get item ''attempts''))
        (PlainError (label @ '' are invalid.'')),
      ts_requireTimestamp (get item ''lastSentAt'') (label @ '' lastSentAt''),
      ts_requireTimestamp (get item ''nextRetryAt'') (label @ '' nextRetryAt'')]"

definition validateDeliveryAttempts :: "json \<Rightarrow> string \<Rightarrow> error option" where
  "validateDeliveryAttempts value label = unless_undef value (first_err
     [throw_if (\<not> is_array value \<or> 16 < len (items value)) (PlainError (label @ '' are invalid.'')),
      keyed_loop (validate_delivery_attempt label) (\<lambda>item. str_of (get item ''attachmentId'')) [] (items value)])"

definition validate_artifact_attempt :: "string list \<Rightarrow> json \<Rightarrow> error option" where
  "validate_artifact_attempt seen item = first_err
     [throw_if (\<not> is_record item) (PlainError ''Teti Task Artifact delivery attempts are invalid.''),
      rejectUnknownKeys item [''artifactId'', ''attempts'', ''lastSentAt'', ''nextRetryAt'']
        ''Teti Task Artifact delivery attempt'',
      throw_if (\<not> nonblank (get item ''artifactId'') \<or> str_of (get item ''artifactId'') \<in> set seen
          \<or> \<not> safe_int_from 1 (get item ''attempts''))
        (PlainError ''Teti Task Artifact delivery attempts are invalid.''),
      ts_requireTimestamp (get item ''lastSentAt'') ''Teti Task Artifact attempt lastSentAt'',
      ts_requireTimestamp (get item ''nextRetryAt'') ''Teti Task Artifact attempt nextRetryAt'']"

definition validateArtifactDeliveryAttempts :: "json \<Rightarrow> error option" where
  "validateArtifactDeliveryAttempts value = unless_undef value (first_err
     [throw_if (\<not> is_array value \<or> 32 < len (items value))
        (PlainError ''Teti Task Artifact delivery attempts are invalid.''),
      keyed_loop validate_artifact_attempt (\<lambda>item. str_of (get item ''artifactId'')) [] (items value)])"

definition isApplicationDeliveryKind :: "json \<Rightarrow> bool" where
  "isApplicationDeliveryKind value \<longleftrightarrow> value = JStr ''status'' \<or> value = JStr ''input'' \<or> value = JStr ''control''"

definition application_key :: "json \<Rightarrow> string" where
  "application_key item = js_string (get item ''kind'') @ '':'' @ js_string (get item ''referenceId'')"

definition validate_application_attempt :: "string list \<Rightarrow> json \<Rightarrow> error option" where
  "validate_application_attempt seen item = first_err
     [throw_if (\<not> is_record item) (PlainError ''Teti Task application delivery attempts are invalid.''),
      rejectUnknownKeys item [''kind'', ''referenceId'', ''attempts'', ''lastSentAt'', ''nextRetryAt'']
        ''Teti Task application delivery attempt'',
      throw_if (\<not> isApplicationDeliveryKind (get item ''kind'')
          \<or> \<not> is_string (get item ''referenceId'') \<or> \<not> id_pattern 127 (str_of (get item ''referenceId''))
          \<or> application_key item \<in> set seen
          \<or> \<not> safe_int_from 1 (get item ''attempts''))
        (PlainError ''Teti Task application delivery attempts are invalid.''),
      ts_requireTimestamp (get item ''lastSentAt'') ''Teti Task application attempt lastSentAt'',
      ts_requireTimestamp (get item ''nextRetryAt'') ''Teti Task application attempt nextRetryAt'']"

definition validateApplicationDeliveryAttempts :: "json \<Rightarrow> error option" where
  "validateApplicationDeliveryAttempts value = unless_undef value (first_err
     [throw_if (\<not> is_array value \<or> 8 < len (items value))
        (PlainError ''Teti Task application delivery attempts are invalid.''),
      keyed_loop validate_application_attempt application_key [] (items value)])"

definition validate_application_failure :: "string list \<Rightarrow> json \<Rightarrow> error option" where
  "validate_application_failure seen item = first_err
     [throw_if (\<not> is_record item) (PlainError ''Teti Task application delivery failures are invalid.''),
      rejectUnknownKeys item [''kind'', ''referenceId'', ''failedAt'', ''safeErrorCode'']
        ''Teti Task application delivery failure'',
      throw_if ((get item ''kind'' \<noteq> JStr ''request'' \<and> \<not> isApplicationDeliveryKind (get item ''kind''))
          \<or> \<not> is_string (get item ''referenceId'') \<or> \<not> id_pattern 127 (str_of (get item ''referenceId''))
          \<or> application_key item \<in> set seen
          \<or> \<not> is_string (get item ''safeErrorCode'') \<or> \<not> safe_code_pattern (str_of (get item ''safeErrorCode'')))
        (PlainError ''Teti Task application delivery failures are invalid.''),
      ts_requireTimestamp (get item ''failedAt'') ''Teti Task application failure failedAt'']"

definition validateApplicationDeliveryFailures :: "json \<Rightarrow> error option" where
  "validateApplicationDeliveryFailures value = unless_undef value (first_err
     [throw_if (\<not> is_array value \<or> 8 < len (items value))
        (PlainError ''Teti Task application delivery failures are invalid.''),
      keyed_loop validate_application_failure application_key [] (items value)])"

definition diagnostic_keys :: "string list" where
  "diagnostic_keys = [''attachmentId'', ''purpose'', ''ordinal'', ''expectedCount'', ''byteLength'', ''sha256'',
     ''attempts'', ''state'', ''firstSentAt'', ''lastSentAt'', ''storedAt'', ''receiptReceivedAt'', ''safeErrorCode'']"

definition diagnostic_key :: "json \<Rightarrow> string" where
  "diagnostic_key item = js_string (get item ''purpose'') @ '':'' @ js_string (get item ''attachmentId'')"

definition validate_diagnostic :: "string list \<Rightarrow> json \<Rightarrow> error option" where
  "validate_diagnostic seen item = first_err
     ([throw_if (\<not> is_record item) (PlainError ''Teti Task attachment diagnostics are invalid.''),
      rejectUnknownKeys item diagnostic_keys ''Teti Task attachment diagnostic'',
      throw_if (\<not> nonblank (get item ''attachmentId'')
          \<or> (get item ''purpose'' \<noteq> JStr ''input'' \<and> get item ''purpose'' \<noteq> JStr ''artifact'')
          \<or> diagnostic_key item \<in> set seen
          \<or> \<not> safe_int_from 1 (get item ''ordinal'') \<or> \<not> safe_int_from 1 (get item ''expectedCount'')
          \<or> int_of (get item ''expectedCount'') < int_of (get item ''ordinal'')
          \<or> \<not> safe_int_from 1 (get item ''byteLength'') \<or> \<not> lh_digest (get item ''sha256'')
          \<or> \<not> safe_int_from 0 (get item ''attempts'')
          \<or> js_string (get item ''state'') \<notin>
              {''expected'', ''sent'', ''stored'', ''acknowledged'', ''expired'', ''failed''})
        (PlainError ''Teti Task attachment diagnostics are invalid.'')]
     @ map (\<lambda>k. opt_timestamp (get item k) (''Attachment diagnostic '' @ k))
         [''firstSentAt'', ''lastSentAt'', ''storedAt'', ''receiptReceivedAt'']
     @ [opt_safe_code (get item ''safeErrorCode'') ''Teti Task attachment diagnostic error is invalid.''])"

definition validateAttachmentDiagnostics :: "json \<Rightarrow> error option" where
  "validateAttachmentDiagnostics value = unless_undef value (first_err
     [throw_if (\<not> is_array value \<or> 32 < len (items value))
        (PlainError ''Teti Task attachment diagnostics are invalid.''),
      keyed_loop validate_diagnostic diagnostic_key [] (items value)])"

definition attention_kinds :: "string list" where
  "attention_kinds = [''status_updated'', ''delivery_failed'', ''delivery_recovered'', ''input_received'',
     ''stage_started'', ''stage_completed'', ''stage_failed'', ''pause_requested'', ''cancel_requested'', ''paused'',
     ''resumed'', ''renewed'', ''completed'', ''failed'', ''rejected'', ''canceled'', ''expired'']"

definition validateLatestAttentionChange :: "json \<Rightarrow> int \<Rightarrow> error option" where
  "validateLatestAttentionChange value attentionRevision = unless_undef value (first_err
     [throw_if (\<not> is_record value) (PlainError ''Teti Task latest attention change is invalid.''),
      rejectUnknownKeys value [''revision'', ''kind'', ''occurredAt'', ''stageIndex'', ''safeErrorCode'']
        ''Teti Task latest attention change'',
      throw_if (\<not> safe_int_in 0 attentionRevision (get value ''revision'')
          \<or> js_string (get value ''kind'') \<notin> set attention_kinds)
        (PlainError ''Teti Task latest attention change is invalid.''),
      ts_requireTimestamp (get value ''occurredAt'') ''Teti Task latest attention occurredAt'',
      throw_if (get value ''stageIndex'' \<noteq> JUndef \<and> \<not> safe_int_in 1 maximum_stages (get value ''stageIndex''))
        (PlainError ''Teti Task latest attention stage is invalid.''),
      opt_safe_code (get value ''safeErrorCode'') ''Teti Task latest attention error is invalid.''])"

section \<open>The record\<close>

definition record_keys :: "string list" where
  "record_keys = [''schemaVersion'', ''direction'', ''peerTetiId'', ''protocolVersion'', ''envelopeMessageId'',
     ''chatmailMessageId'', ''sentAttachmentIds'', ''sentArtifactAttachmentIds'', ''acknowledgedAttachmentIds'',
     ''acknowledgedArtifactAttachmentIds'', ''attachmentDeliveryAttempts'', ''artifactAttachmentDeliveryAttempts'',
     ''attachmentDiagnostics'', ''workspaceBinding'', ''request'', ''state'', ''approval'', ''delivery'', ''createdAt'',
     ''updatedAt'', ''receipt'', ''receiptPending'', ''statusRevision'', ''statusPending'', ''statusAcknowledgedRevision'',
     ''cancelPending'', ''cancelControlId'', ''cancelRequestedAt'', ''cancelSentAt'', ''cancelAcknowledgedAt'',
     ''applicationDeliveryAttempts'', ''applicationDeliveryFailures'', ''applicationReceiptOutbox'', ''artifactPending'',
     ''sentArtifactIds'', ''acknowledgedArtifactIds'', ''artifactDeliveryAttempts'', ''artifactAttachmentsReady'',
     ''attachmentsReady'', ''artifacts'', ''longHorizon'', ''delegationPlan'', ''peerLongHorizon'', ''peerArtifactMetadata'',
     ''inputPending'', ''inputSentAt'', ''inputAcknowledgedAt'', ''viewedStageResultIndex'', ''attentionRevision'',
     ''viewedAttentionRevision'', ''latestAttentionChange'', ''safeErrorCode'']"

definition task_states :: "string list" where
  "task_states = [''unknown'', ''submitted'', ''working'', ''input_required'', ''auth_required'', ''completed'',
     ''failed'', ''canceled'', ''rejected'']"

definition approval_states :: "string list" where
  "approval_states = [''pending'', ''approved_once'', ''rejected'', ''expired'', ''consumed'']"

definition delivery_states :: "string list" where
  "delivery_states = [''queued'', ''sent'', ''send_failed'', ''received'', ''acknowledged'', ''expired'', ''conflict'',
     ''rejected'']"

definition incoming :: "json \<Rightarrow> bool" where
  "incoming r \<longleftrightarrow> get r ''direction'' = JStr ''incoming''"

definition outgoing :: "json \<Rightarrow> bool" where
  "outgoing r \<longleftrightarrow> get r ''direction'' = JStr ''outgoing''"

definition long_horizon_task :: "json \<Rightarrow> bool" where
  "long_horizon_task r \<longleftrightarrow> get (get r ''request'') ''executionMode'' = JStr ''long_horizon''"

text \<open>\<open>artifactId\<close> names an artifact of the record.\<close>

definition has_artifact :: "json \<Rightarrow> json \<Rightarrow> bool" where
  "has_artifact r artifactId \<longleftrightarrow> list_ex (\<lambda>a. get a ''artifactId'' = artifactId) (items (get r ''artifacts''))"

definition validate_delegation_ownership :: "json \<Rightarrow> error option" where
  "validate_delegation_ownership r =
     (let plan = get r ''delegationPlan''; binding = get r ''workspaceBinding'' in unless_undef plan (first_err
     [validateDelegationPlanState plan,
      throw_if (get plan ''taskId'' \<noteq> get (get r ''request'') ''taskId'' \<or> \<not> incoming r \<or> \<not> long_horizon_task r
          \<or> get r ''longHorizon'' = JUndef)
        (PlainError ''Teti Task Delegation Plan ownership boundary is invalid.''),
      throw_if (truthy binding \<and> list_ex (\<lambda>step. get step ''kind'' = JStr ''child_execution''
            \<and> (\<not> isWorkspaceAccessSubset (map str_of (items (get step ''workspaceAccess'')))
                   (map str_of (items (get binding ''access'')))
               \<or> int_of (get binding ''workspaceRevision'') < int_of (get step ''workspaceRevision'')))
          (items (get plan ''steps'')))
        (PlainError ''Teti Task Delegation Plan expanded Workspace authority.''),
      throw_if (list_ex (\<lambda>entry. \<not> has_artifact r (get entry ''artifactId'')) (items (get plan ''artifacts'')))
        (PlainError ''Teti Task Delegation Artifact provenance is orphaned.'')]))"

definition peer_status_payload :: "json \<Rightarrow> json" where
  "peer_status_payload r = JObj
     [(''schemaVersion'', jint 2), (''taskId'', get (get r ''request'') ''taskId''),
      (''requesterTetiId'', get (get r ''request'') ''requesterTetiId''),
      (''targetTetiId'', get (get r ''request'') ''targetTetiId''), (''revision'', jint 1),
      (''state'', if get r ''state'' = JStr ''submitted'' then JStr ''working'' else get r ''state''),
      (''updatedAt'', get r ''updatedAt''), (''longHorizon'', get r ''peerLongHorizon'')]"

definition validate_peer_projection :: "json \<Rightarrow> error option" where
  "validate_peer_projection r = first_err
     [unless_undef (get r ''peerLongHorizon'') (first_err
        [throw_if (get r ''state'' = JStr ''unknown'') (PlainError ''Teti Task peer status state is invalid.''),
         validateTaskStatusPayload (peer_status_payload r)]),
      unless_undef (get r ''peerArtifactMetadata'') (first_err
        [validateLongHorizonArtifactEntries (get r ''peerArtifactMetadata''),
         throw_if (len (items (get r ''peerArtifactMetadata'')) \<noteq> len (items (get r ''artifacts''))
             \<or> list_ex (\<lambda>entry. \<not> has_artifact r (get entry ''artifactId'')) (items (get r ''peerArtifactMetadata'')))
           (PlainError ''Teti Task peer Artifact metadata is incomplete.'')])]"

definition long_horizon_ownership_invalid :: "json \<Rightarrow> bool" where
  "long_horizon_ownership_invalid r \<longleftrightarrow>
     (get r ''longHorizon'' \<noteq> JUndef \<and> (\<not> incoming r \<or> \<not> long_horizon_task r))
     \<or> (get r ''peerLongHorizon'' \<noteq> JUndef \<and> (\<not> outgoing r \<or> \<not> long_horizon_task r))
     \<or> (get r ''peerArtifactMetadata'' \<noteq> JUndef \<and> (\<not> outgoing r \<or> \<not> long_horizon_task r))
     \<or> (get r ''longHorizon'' \<noteq> JUndef \<and> get r ''peerLongHorizon'' \<noteq> JUndef)
     \<or> (get r ''inputPending'' \<noteq> JUndef \<and> (\<not> outgoing r \<or> \<not> long_horizon_task r))"

definition application_ownership_invalid :: "json \<Rightarrow> bool" where
  "application_ownership_invalid r \<longleftrightarrow>
     list_ex (\<lambda>item. if get item ''kind'' = JStr ''status'' then \<not> incoming r else \<not> outgoing r)
       (items (get r ''applicationDeliveryAttempts''))
     \<or> list_ex (\<lambda>item. if get item ''kind'' = JStr ''request'' then \<not> outgoing r
           else if get item ''kind'' = JStr ''status'' then \<not> incoming r else \<not> outgoing r)
       (items (get r ''applicationDeliveryFailures''))
     \<or> list_ex (\<lambda>receipt. get receipt ''taskId'' \<noteq> get (get r ''request'') ''taskId''
           \<or> get receipt ''requesterTetiId'' \<noteq> get (get r ''request'') ''requesterTetiId''
           \<or> get receipt ''targetTetiId'' \<noteq> get (get r ''request'') ''targetTetiId''
           \<or> (if get receipt ''kind'' = JStr ''status'' then \<not> outgoing r else \<not> incoming r))
       (items (get r ''applicationReceiptOutbox''))
     \<or> (get r ''statusAcknowledgedRevision'' \<noteq> JUndef \<and> \<not> incoming r)
     \<or> (get r ''inputAcknowledgedAt'' \<noteq> JUndef \<and> \<not> outgoing r)
     \<or> ((get r ''cancelControlId'' \<noteq> JUndef \<or> get r ''cancelRequestedAt'' \<noteq> JUndef
           \<or> get r ''cancelAcknowledgedAt'' \<noteq> JUndef) \<and> \<not> outgoing r)"

definition validateApplicationDeliveryOwnership :: "json \<Rightarrow> error option" where
  "validateApplicationDeliveryOwnership r =
     throw_if (application_ownership_invalid r)
       (PlainError ''Teti Task application delivery ownership boundary is invalid.'')"

definition validate_record_identity :: "json \<Rightarrow> error option" where
  "validate_record_identity r = first_err
     [throw_if (\<not> is_record r \<or> get r ''schemaVersion'' \<noteq> jint 1)
        (PlainError ''Teti Task transport record version is invalid.''),
      rejectUnknownKeys r record_keys ''Task transport record'',
      throw_if (\<not> incoming r \<and> \<not> outgoing r) (PlainError ''Teti Task transport record direction is invalid.''),
      throw_if (\<not> isCanonicalTetiPublicId (get r ''peerTetiId'') \<or> get r ''protocolVersion'' \<notin> jint ` {1..7})
        (PlainError ''Teti Task transport record peer is invalid.''),
      throw_if (get r ''envelopeMessageId'' \<noteq> JUndef \<and> \<not> nonblank (get r ''envelopeMessageId''))
        (PlainError ''Teti Task transport envelope message ID is invalid.''),
      opt_nonneg (get r ''chatmailMessageId'') ''Teti Task transport Chatmail message ID is invalid.'',
      validateCollaborationTaskRequest (get r ''request''),
      throw_if (get (get r ''request'') ''schemaVersion'' \<noteq> get r ''protocolVersion'')
        (PlainError ''Teti Task transport request version does not match its record.''),
      throw_if (js_string (get r ''state'') \<notin> set task_states) (PlainError ''Teti Task transport state is invalid.''),
      throw_if (js_string (get r ''approval'') \<notin> set approval_states)
        (PlainError ''Teti Task transport approval is invalid.''),
      throw_if (js_string (get r ''delivery'') \<notin> set delivery_states)
        (PlainError ''Teti Task transport delivery state is invalid.''),
      ts_requireTimestamp (get r ''createdAt'') ''Task record createdAt'',
      ts_requireTimestamp (get r ''updatedAt'') ''Task record updatedAt'']"

definition validate_record_delivery :: "json \<Rightarrow> error option" where
  "validate_record_delivery r = first_err
     [unless_undef (get r ''receipt'') (validateTaskReceiptPayload (get r ''receipt'')),
      opt_boolean (get r ''receiptPending'') ''Teti Task transport receipt state is invalid.'',
      opt_string_list (get r ''sentAttachmentIds'') ''Teti Task sent attachment state is invalid.'',
      opt_string_list (get r ''sentArtifactAttachmentIds'') ''Teti Task sent Artifact attachment state is invalid.'',
      validateStringArray (get r ''acknowledgedAttachmentIds'') ''Teti Task acknowledged attachment state'',
      validateStringArray (get r ''acknowledgedArtifactAttachmentIds'')
        ''Teti Task acknowledged Artifact attachment state'',
      validateDeliveryAttempts (get r ''attachmentDeliveryAttempts'') ''Teti Task attachment delivery attempts'',
      validateDeliveryAttempts (get r ''artifactAttachmentDeliveryAttempts'')
        ''Teti Task Artifact attachment delivery attempts'',
      validateAttachmentDiagnostics (get r ''attachmentDiagnostics''),
      unless_undef (get r ''workspaceBinding'') (validateTaskWorkspaceBinding (get r ''workspaceBinding'')),
      opt_nonneg (get r ''statusRevision'') ''Teti Task status revision is invalid.'',
      throw_if (get r ''statusAcknowledgedRevision'' \<noteq> JUndef
          \<and> \<not> safe_int_in 0 (or_zero (get r ''statusRevision'')) (get r ''statusAcknowledgedRevision''))
        (PlainError ''Teti Task acknowledged status revision is invalid.''),
      opt_boolean (get r ''cancelPending'') ''Teti Task cancel state is invalid.'',
      throw_if (get r ''cancelControlId'' \<noteq> JUndef
          \<and> (\<not> is_string (get r ''cancelControlId'') \<or> \<not> id_pattern 127 (str_of (get r ''cancelControlId''))))
        (PlainError ''Teti Task cancel control ID is invalid.''),
      opt_timestamp (get r ''cancelRequestedAt'') ''Teti Task cancel requestedAt'',
      opt_timestamp (get r ''cancelSentAt'') ''Teti Task cancel sentAt'',
      opt_timestamp (get r ''cancelAcknowledgedAt'') ''Teti Task cancel acknowledgedAt'',
      validateApplicationDeliveryAttempts (get r ''applicationDeliveryAttempts''),
      validateApplicationDeliveryFailures (get r ''applicationDeliveryFailures''),
      unless_undef (get r ''applicationReceiptOutbox'') (first_err
        [throw_if (\<not> is_array (get r ''applicationReceiptOutbox'') \<or> 16 < len (items (get r ''applicationReceiptOutbox'')))
           (PlainError ''Teti Task application receipt outbox is invalid.''),
         first_err (map validateTaskApplicationReceiptPayload (items (get r ''applicationReceiptOutbox'')))])]"

definition validate_record_content :: "json \<Rightarrow> error option" where
  "validate_record_content r = first_err
     [opt_boolean (get r ''statusPending'') ''Teti Task status outbox state is invalid.'',
      opt_boolean (get r ''artifactPending'') ''Teti Task Artifact outbox state is invalid.'',
      validateStringArray (get r ''sentArtifactIds'') ''Teti Task sent Artifact IDs'',
      validateStringArray (get r ''acknowledgedArtifactIds'') ''Teti Task acknowledged Artifact IDs'',
      validateArtifactDeliveryAttempts (get r ''artifactDeliveryAttempts''),
      opt_boolean (get r ''artifactAttachmentsReady'') ''Teti Task Artifact attachment readiness is invalid.'',
      opt_boolean (get r ''attachmentsReady'') ''Teti Task attachment readiness is invalid.'',
      unless_undef (get r ''artifacts'') (first_err
        [throw_if (\<not> is_array (get r ''artifacts'') \<or> 32 < len (items (get r ''artifacts'')))
           (PlainError ''Teti Task artifacts are invalid.''),
         first_err (map validateTaskArtifact (items (get r ''artifacts'')))]),
      unless_undef (get r ''longHorizon'') (validateLongHorizonTaskState (get r ''longHorizon'')),
      validate_delegation_ownership r,
      validate_peer_projection r,
      unless_undef (get r ''inputPending'') (validateTaskInputPayload (get r ''inputPending'')),
      opt_timestamp (get r ''inputSentAt'') ''Task input sentAt'',
      opt_timestamp (get r ''inputAcknowledgedAt'') ''Task input acknowledgedAt'',
      throw_if (get r ''viewedStageResultIndex'' \<noteq> JUndef
          \<and> \<not> safe_int_in 0 maximum_stages (get r ''viewedStageResultIndex''))
        (PlainError ''Teti Task viewed stage result index is invalid.''),
      opt_nonneg (get r ''attentionRevision'') ''Teti Task attentionRevision is invalid.'',
      opt_nonneg (get r ''viewedAttentionRevision'') ''Teti Task viewedAttentionRevision is invalid.'',
      throw_if (or_zero (get r ''attentionRevision'') < or_zero (get r ''viewedAttentionRevision''))
        (PlainError ''Teti Task viewed attention revision exceeds the latest revision.''),
      validateLatestAttentionChange (get r ''latestAttentionChange'') (or_zero (get r ''attentionRevision'')),
      opt_safe_code (get r ''safeErrorCode'') ''Teti Task transport safe error code is invalid.'',
      throw_if (long_horizon_ownership_invalid r)
        (PlainError ''Teti Task long-horizon ownership boundary is invalid.''),
      validateApplicationDeliveryOwnership r,
      throw_if (list_ex (\<lambda>i. \<not> has_artifact r i) (items (get r ''sentArtifactIds'')))
        (PlainError ''Teti Task sent Artifact identity is invalid.''),
      throw_if (list_ex (\<lambda>i. \<not> has_artifact r i) (items (get r ''acknowledgedArtifactIds'')))
        (PlainError ''Teti Task acknowledged Artifact identity is invalid.'')]"

definition validateRecord :: "json \<Rightarrow> error option" where
  "validateRecord r = first_err [validate_record_identity r, validate_record_delivery r, validate_record_content r]"

section \<open>The store\<close>

definition max_task_transport_records :: int where "max_task_transport_records = 512"

definition validate_peer_capability :: "json \<Rightarrow> error option" where
  "validate_peer_capability peer = first_err
     [throw_if (\<not> is_record peer \<or> \<not> isCanonicalTetiPublicId (get peer ''tetiId''))
        (PlainError ''Teti Task transport peer capability is invalid.''),
      rejectUnknownKeys peer [''tetiId'', ''supportedVersions'', ''observedAt''] ''Task peer capability'',
      validateTaskProtocolVersions (get peer ''supportedVersions''),
      ts_requireTimestamp (get peer ''observedAt'') ''Task peer observedAt'']"

definition validateTaskTransportStoreState :: "json \<Rightarrow> error option" where
  "validateTaskTransportStoreState value = first_err
     [throw_if (\<not> is_record value \<or> get value ''schemaVersion'' \<noteq> jint 5)
        (PlainError ''Unsupported Teti Task transport store.''),
      rejectUnknownKeys value [''schemaVersion'', ''records'', ''peers''] ''Teti Task transport store'',
      throw_if (\<not> is_array (get value ''records'') \<or> max_task_transport_records < len (items (get value ''records'')))
        (PlainError ''Teti Task transport records are invalid.''),
      throw_if (\<not> is_array (get value ''peers'') \<or> max_task_transport_records < len (items (get value ''peers'')))
        (PlainError ''Teti Task transport peer capabilities are invalid.''),
      first_err (map validateRecord (items (get value ''records''))),
      first_err (map validate_peer_capability (items (get value ''peers'')))]"

definition migrateTaskStoreState :: "json \<Rightarrow> json" where
  "migrateTaskStoreState value =
     (if is_record value \<and> get value ''schemaVersion'' \<in> {jint 2, jint 3, jint 4}
      then spread value [(''schemaVersion'', jint 5)] else value)"

definition emptyTaskTransportStoreState :: json where
  "emptyTaskTransportStoreState = JObj [(''schemaVersion'', jint 5), (''records'', JArr []), (''peers'', JArr [])]"

definition task_file_load :: "json_file \<Rightarrow> json result" where
  "task_file_load f = (case f of
       NoFile \<Rightarrow> Inr emptyTaskTransportStoreState
     | NotJson \<Rightarrow> Inl (PlainError ''SyntaxError'')
     | JsonFile v \<Rightarrow> (let state = migrateTaskStoreState v in
         guarded (validateTaskTransportStoreState state) (Inr state)))"

definition task_file_save :: "json \<Rightarrow> json_file \<Rightarrow> json_file result" where
  "task_file_save state f =
     guarded (validateTaskTransportStoreState state) (Inr (JsonFile (json_clone state)))"

definition task_memory_load :: "json \<Rightarrow> json result" where
  "task_memory_load m = Inr m"

definition task_memory_save :: "json \<Rightarrow> json \<Rightarrow> json result" where
  "task_memory_save state m =
     (let migrated = migrateTaskStoreState state in
      guarded (validateTaskTransportStoreState migrated) (Inr migrated))"

definition task_memory_new :: "json \<Rightarrow> json result" where
  "task_memory_new state = task_memory_save state JNull"

section \<open>What a stored record satisfies\<close>

lemma record_parts:
  "validateRecord r = None \<longleftrightarrow>
     validate_record_identity r = None \<and> validate_record_delivery r = None \<and> validate_record_content r = None"
  by (simp add: validateRecord_def valid_simps)

lemma stored_records:
  assumes "validateTaskTransportStoreState st = None"
  shows "is_record st" "get st ''schemaVersion'' = jint 5" "is_array (get st ''records'')"
    "len (items (get st ''records'')) \<le> 512" "\<forall>r\<in>set (items (get st ''records'')). validateRecord r = None"
    "\<forall>p\<in>set (items (get st ''peers'')). validate_peer_capability p = None"
  using assms
  by (simp_all add: validateTaskTransportStoreState_def valid_simps first_err_map_None max_task_transport_records_def
      del: first_err.simps(2,3))

lemma migrated_current: "get st ''schemaVersion'' = jint 5 \<Longrightarrow> migrateTaskStoreState st = st"
  by (simp add: migrateTaskStoreState_def)

lemma task_file_save_conv:
  "task_file_save st f = Inr f' \<longleftrightarrow> validateTaskTransportStoreState st = None \<and> f' = JsonFile (json_clone st)"
  by (auto simp: task_file_save_def guarded_Inr_conv)

lemma task_file_load_saved:
  "validateTaskTransportStoreState st = None \<Longrightarrow> task_file_load (JsonFile st) = Inr st"
  by (simp add: task_file_load_def migrated_current stored_records(2))

lemma empty_task_store_valid: "validateTaskTransportStoreState emptyTaskTransportStoreState = None"
  by code_simp

section \<open>Properties\<close>

lemma keys_of_migrated: "is_record st \<Longrightarrow> set (keys_of (spread st [(k, v)])) = insert k (set (keys_of st))"
  by (cases st) (auto simp: spread_def case_prod_beta image_image)

lemma migrated_valid:
  "validateTaskTransportStoreState (spread st [(''schemaVersion'', jint 5)]) = None \<longleftrightarrow>
    set (keys_of (spread st [(''schemaVersion'', jint 5)])) \<subseteq> {''schemaVersion'', ''records'', ''peers''}
    \<and> is_array (get (spread st [(''schemaVersion'', jint 5)]) ''records'')
    \<and> len (items (get (spread st [(''schemaVersion'', jint 5)]) ''records'')) \<le> 512
    \<and> is_array (get (spread st [(''schemaVersion'', jint 5)]) ''peers'')
    \<and> len (items (get (spread st [(''schemaVersion'', jint 5)]) ''peers'')) \<le> 512
    \<and> (\<forall>r\<in>set (items (get (spread st [(''schemaVersion'', jint 5)]) ''records'')). validateRecord r = None)
    \<and> (\<forall>p\<in>set (items (get (spread st [(''schemaVersion'', jint 5)]) ''peers'')). validate_peer_capability p = None)"
  by (simp add: validateTaskTransportStoreState_def valid_simps first_err_map_None max_task_transport_records_def
      rejectUnknownKeys_def get_spread not_less del: first_err.simps(2,3))

text \<open>C33:
  The task store is written only when its state is valid, and whatever is loaded from a file is valid. A state of JSON
  data that is saved is read back unchanged, by the file store and by the memory store. A file of version 2, 3 or 4 is
  accepted exactly when it has no other fields and its at most 512 records and 512 peers are valid by the present rules; it
  is then read as the same records and peers at version 5, a state that is saved and read back unchanged.\<close>

theorem task_store_roundtrip:
  assumes "json_clean st"
  shows "((\<exists>f'. task_file_save st f = Inr f') \<longleftrightarrow> validateTaskTransportStoreState st = None)
    \<and> (task_file_load f = Inr st \<longrightarrow> validateTaskTransportStoreState st = None)
    \<and> (task_file_save st f = Inr f' \<longrightarrow> task_file_load f' = Inr st \<and> task_memory_new st = Inr st)
    \<and> (get st ''schemaVersion'' \<in> {jint 2, jint 3, jint 4} \<longrightarrow>
        (if set (keys_of st) \<subseteq> {''schemaVersion'', ''records'', ''peers''}
            \<and> is_array (get st ''records'') \<and> len (items (get st ''records'')) \<le> 512
            \<and> is_array (get st ''peers'') \<and> len (items (get st ''peers'')) \<le> 512
            \<and> (\<forall>r\<in>set (items (get st ''records'')). validateRecord r = None)
            \<and> (\<forall>p\<in>set (items (get st ''peers'')). validate_peer_capability p = None)
         then \<exists>migrated. task_file_load (JsonFile st) = Inr migrated \<and> get migrated ''schemaVersion'' = jint 5
           \<and> get migrated ''records'' = get st ''records'' \<and> get migrated ''peers'' = get st ''peers''
           \<and> task_file_save migrated f = Inr (JsonFile migrated) \<and> task_file_load (JsonFile migrated) = Inr migrated
         else \<exists>e. task_file_load (JsonFile st) = Inl e))"
proof (intro conjI impI)
  show "(\<exists>f'. task_file_save st f = Inr f') \<longleftrightarrow> validateTaskTransportStoreState st = None"
    by (simp add: task_file_save_conv)
  show "validateTaskTransportStoreState st = None" if "task_file_load f = Inr st"
    using that empty_task_store_valid
    by (auto simp: task_file_load_def guarded_Inr_conv Let_def split: json_file.splits)
  assume "task_file_save st f = Inr f'"
  then have ok: "validateTaskTransportStoreState st = None" "f' = JsonFile st"
    using json_clone_clean [OF assms] by (auto simp: task_file_save_conv)
  show "task_file_load f' = Inr st" using ok task_file_load_saved by simp
  show "task_memory_new st = Inr st"
    using ok(1) by (simp add: task_memory_new_def task_memory_save_def migrated_current stored_records(2))
next
  let ?m = "spread st [(''schemaVersion'', jint 5)]"
  let ?ok = "set (keys_of st) \<subseteq> {''schemaVersion'', ''records'', ''peers''}
    \<and> is_array (get st ''records'') \<and> len (items (get st ''records'')) \<le> 512
    \<and> is_array (get st ''peers'') \<and> len (items (get st ''peers'')) \<le> 512
    \<and> (\<forall>r\<in>set (items (get st ''records'')). validateRecord r = None)
    \<and> (\<forall>p\<in>set (items (get st ''peers'')). validate_peer_capability p = None)"
  assume old: "get st ''schemaVersion'' \<in> {jint 2, jint 3, jint 4}"
  then have r: "is_record st" by (cases st) auto
  have get: "get ?m ''schemaVersion'' = jint 5" "get ?m ''records'' = get st ''records''" "get ?m ''peers'' = get st ''peers''"
    by (simp_all add: get_spread)
  have valid: "validateTaskTransportStoreState ?m = None \<longleftrightarrow> ?ok"
    unfolding migrated_valid get using keys_of_migrated [OF r, of _ "jint 5"] by auto
  have load: "task_file_load (JsonFile st) = guarded (validateTaskTransportStoreState ?m) (Inr ?m)"
    using old r by (simp add: task_file_load_def migrateTaskStoreState_def Let_def)
  have clean: "json_clean ?m" by (rule json_clean_spread [OF r assms]) simp
  have "task_file_load (JsonFile st) = Inr ?m \<and> task_file_save ?m f = Inr (JsonFile ?m) \<and> task_file_load (JsonFile ?m) = Inr ?m"
    if "validateTaskTransportStoreState ?m = None"
    using that load json_clone_clean [OF clean] task_file_load_saved [OF that] by (simp add: task_file_save_conv)
  moreover have "\<exists>e. task_file_load (JsonFile st) = Inl e" if "validateTaskTransportStoreState ?m \<noteq> None"
    using that load by auto
  ultimately show "if ?ok then \<exists>migrated. task_file_load (JsonFile st) = Inr migrated \<and> get migrated ''schemaVersion'' = jint 5
           \<and> get migrated ''records'' = get st ''records'' \<and> get migrated ''peers'' = get st ''peers''
           \<and> task_file_save migrated f = Inr (JsonFile migrated) \<and> task_file_load (JsonFile migrated) = Inr migrated
         else \<exists>e. task_file_load (JsonFile st) = Inl e"
    unfolding valid [symmetric] using get by auto
qed

text \<open>C34:
  A stored task record keeps its authority boundaries. It belongs to one direction and its version is that
  of its request. A delegation plan and a long-horizon session only exist on the receiving side of a
  long-horizon task, the plan is for this task, and when the task is bound to a Workspace no child step
  may do more there than the binding grants, nor refer to a later revision; what was learnt from the peer and pending
  input only exist on the sending side. An acknowledged revision was issued, a viewed change happened, every
  receipt in the outbox (at most 16) is about this task and its two parties, and only artifacts of the record are
  recorded as sent or acknowledged.\<close>

theorem stored_record_boundaries:
  assumes "validateRecord r = None"
  shows "incoming r = (\<not> outgoing r) \<and> get (get r ''request'') ''schemaVersion'' = get r ''protocolVersion''
    \<and> (get r ''delegationPlan'' \<noteq> JUndef \<longrightarrow> incoming r \<and> long_horizon_task r \<and> get r ''longHorizon'' \<noteq> JUndef
        \<and> get (get r ''delegationPlan'') ''taskId'' = get (get r ''request'') ''taskId''
        \<and> (truthy (get r ''workspaceBinding'') \<longrightarrow>
            (\<forall>step\<in>set (items (get (get r ''delegationPlan'') ''steps'')). get step ''kind'' = JStr ''child_execution'' \<longrightarrow>
              str_of ` set (items (get step ''workspaceAccess''))
                \<subseteq> str_of ` set (items (get (get r ''workspaceBinding'') ''access''))
              \<and> int_of (get step ''workspaceRevision'') \<le> int_of (get (get r ''workspaceBinding'') ''workspaceRevision''))))
    \<and> (get r ''longHorizon'' \<noteq> JUndef \<longrightarrow> incoming r \<and> long_horizon_task r)
    \<and> (get r ''peerLongHorizon'' \<noteq> JUndef \<or> get r ''peerArtifactMetadata'' \<noteq> JUndef \<or> get r ''inputPending'' \<noteq> JUndef
        \<longrightarrow> outgoing r \<and> long_horizon_task r)
    \<and> (get r ''statusAcknowledgedRevision'' \<noteq> JUndef \<longrightarrow>
        int_of (get r ''statusAcknowledgedRevision'') \<le> int_of (get r ''statusRevision''))
    \<and> int_of (get r ''viewedAttentionRevision'') \<le> int_of (get r ''attentionRevision'')
    \<and> (get r ''applicationReceiptOutbox'' \<noteq> JUndef \<longrightarrow> length (items (get r ''applicationReceiptOutbox'')) \<le> 16)
    \<and> (\<forall>receipt\<in>set (items (get r ''applicationReceiptOutbox'')). \<forall>k\<in>{''taskId'', ''requesterTetiId'', ''targetTetiId''}.
        get receipt k = get (get r ''request'') k)
    \<and> (\<forall>i\<in>set (items (get r ''sentArtifactIds'')) \<union> set (items (get r ''acknowledgedArtifactIds'')). has_artifact r i)"
proof -
  have ident: "incoming r \<or> outgoing r" "get (get r ''request'') ''schemaVersion'' = get r ''protocolVersion''"
    using assms by (simp_all only: record_parts validate_record_identity_def first_err_None_Cons throw_if_None) blast+
  have delivery: "get r ''statusAcknowledgedRevision'' \<noteq> JUndef \<longrightarrow>
        safe_int_in 0 (or_zero (get r ''statusRevision'')) (get r ''statusAcknowledgedRevision'')"
    "get r ''applicationReceiptOutbox'' \<noteq> JUndef \<longrightarrow> \<not> 16 < len (items (get r ''applicationReceiptOutbox''))"
    using assms by (simp_all only: record_parts validate_record_delivery_def first_err_None_Cons throw_if_None unless_None) blast+
  have content: "validate_delegation_ownership r = None" "\<not> or_zero (get r ''attentionRevision'') < or_zero (get r ''viewedAttentionRevision'')"
    "\<not> long_horizon_ownership_invalid r" "\<not> application_ownership_invalid r"
    "\<not> list_ex (\<lambda>i. \<not> has_artifact r i) (items (get r ''sentArtifactIds''))"
    "\<not> list_ex (\<lambda>i. \<not> has_artifact r i) (items (get r ''acknowledgedArtifactIds''))"
    using assms by (simp_all only: record_parts validate_record_content_def validateApplicationDeliveryOwnership_def
        first_err_None_Cons throw_if_None) blast+
  have plan: "incoming r" "long_horizon_task r" "get r ''longHorizon'' \<noteq> JUndef"
      "get (get r ''delegationPlan'') ''taskId'' = get (get r ''request'') ''taskId''"
      "truthy (get r ''workspaceBinding'') \<longrightarrow>
        (\<forall>step\<in>set (items (get (get r ''delegationPlan'') ''steps'')). get step ''kind'' = JStr ''child_execution'' \<longrightarrow>
          str_of ` set (items (get step ''workspaceAccess'')) \<subseteq> str_of ` set (items (get (get r ''workspaceBinding'') ''access''))
          \<and> int_of (get step ''workspaceRevision'') \<le> int_of (get (get r ''workspaceBinding'') ''workspaceRevision''))"
    if "get r ''delegationPlan'' \<noteq> JUndef"
  proof -
    have "\<not> (get (get r ''delegationPlan'') ''taskId'' \<noteq> get (get r ''request'') ''taskId'' \<or> \<not> incoming r
        \<or> \<not> long_horizon_task r \<or> get r ''longHorizon'' = JUndef)"
      and steps: "\<not> (truthy (get r ''workspaceBinding'') \<and> list_ex (\<lambda>step. get step ''kind'' = JStr ''child_execution''
            \<and> (\<not> isWorkspaceAccessSubset (map str_of (items (get step ''workspaceAccess'')))
                   (map str_of (items (get (get r ''workspaceBinding'') ''access'')))
               \<or> int_of (get (get r ''workspaceBinding'') ''workspaceRevision'') < int_of (get step ''workspaceRevision'')))
          (items (get (get r ''delegationPlan'') ''steps'')))"
      using content(1) that
      by (simp_all only: validate_delegation_ownership_def Let_def unless_None first_err_None_Cons throw_if_None) blast+
    then show "incoming r" "long_horizon_task r" "get r ''longHorizon'' \<noteq> JUndef"
      "get (get r ''delegationPlan'') ''taskId'' = get (get r ''request'') ''taskId''" by blast+
    have access: "isWorkspaceAccessSubset (map str_of xs) (map str_of ys) \<longleftrightarrow> str_of ` set xs \<subseteq> str_of ` set ys" for xs ys
      by (auto simp: isWorkspaceAccessSubset_def list_all_iff)
    show "truthy (get r ''workspaceBinding'') \<longrightarrow>
        (\<forall>step\<in>set (items (get (get r ''delegationPlan'') ''steps'')). get step ''kind'' = JStr ''child_execution'' \<longrightarrow>
          str_of ` set (items (get step ''workspaceAccess'')) \<subseteq> str_of ` set (items (get (get r ''workspaceBinding'') ''access''))
          \<and> int_of (get step ''workspaceRevision'') \<le> int_of (get (get r ''workspaceBinding'') ''workspaceRevision''))"
      using steps unfolding list_ex_iff access by (meson not_less)
  qed
  have excl: "\<not> (incoming r \<and> outgoing r)" by (simp add: incoming_def outgoing_def)
  have receipts: "\<forall>receipt\<in>set (items (get r ''applicationReceiptOutbox'')).
      \<forall>k\<in>{''taskId'', ''requesterTetiId'', ''targetTetiId''}. get receipt k = get (get r ''request'') k"
    using content(4) unfolding application_ownership_invalid_def list_ex_iff by blast
  have direction: "incoming r = (\<not> outgoing r)" using ident(1) excl by blast
  have side: "get r ''longHorizon'' \<noteq> JUndef \<longrightarrow> incoming r \<and> long_horizon_task r"
    "get r ''peerLongHorizon'' \<noteq> JUndef \<or> get r ''peerArtifactMetadata'' \<noteq> JUndef \<or> get r ''inputPending'' \<noteq> JUndef
        \<longrightarrow> outgoing r \<and> long_horizon_task r"
    using content(3) unfolding long_horizon_ownership_invalid_def by blast+
  have revision: "get r ''statusAcknowledgedRevision'' \<noteq> JUndef \<longrightarrow>
      int_of (get r ''statusAcknowledgedRevision'') \<le> int_of (get r ''statusRevision'')"
    "int_of (get r ''viewedAttentionRevision'') \<le> int_of (get r ''attentionRevision'')"
    "get r ''applicationReceiptOutbox'' \<noteq> JUndef \<longrightarrow> length (items (get r ''applicationReceiptOutbox'')) \<le> 16"
    using delivery content(2) by (simp_all add: or_zero_def safe_int_in_def len_def not_less)
  have sent: "\<forall>i\<in>set (items (get r ''sentArtifactIds'')) \<union> set (items (get r ''acknowledgedArtifactIds'')). has_artifact r i"
    using content(5,6) unfolding list_ex_iff by blast
  show ?thesis
    by (intro conjI direction ident(2) side revision receipts sent) (use plan in blast)
qed

definition sample_plan :: json where
  "sample_plan = (case createDeterministicDelegationPlan sample_plan_input 0 ''plan-1'' ''event-1'' of Inr p \<Rightarrow> p | Inl e \<Rightarrow> JNull)"
definition sample_time :: json where "sample_time = JStr ''2026-01-01T00:00:00.000Z''"
definition sample_progress :: json where
  "sample_progress = JObj [(''state'', JStr ''queued''), (''completedUnits'', JNull), (''totalUnits'', JNull), (''message'', JNull), (''updatedAt'', sample_time)]"

definition sample_session :: json where
  "sample_session = JObj
     [(''schemaVersion'', jint 1), (''phase'', JStr ''pending_approval''), (''currentStageIndex'', jint 0),
      (''workspaceRevision'', jint 1), (''progress'', sample_progress), (''continuationExpiresAt'', sample_time),
      (''renewalCount'', jint 0), (''pauseRequested'', JBool False), (''pendingInput'', JNull), (''inputRequest'', JNull),
      (''availableChildAgents'', JArr []), (''stages'', JArr []), (''checkpoints'', JArr []), (''artifacts'', JArr []),
      (''audit'', JArr [JObj [(''eventId'', JStr ''event-1''), (''sequence'', jint 1), (''action'', JStr ''session_created''),
         (''actor'', JStr ''host''), (''stageIndex'', JNull), (''timestamp'', sample_time)]]), (''updatedAt'', sample_time)]"

definition sample_long_request :: json where
  "sample_long_request = spread sample_task_request [(''executionMode'', JStr ''long_horizon'')]"

definition sample_record :: json where
  "sample_record = JObj
     [(''schemaVersion'', jint 1), (''direction'', JStr ''incoming''), (''peerTetiId'', JStr ''teti_abc123def''),
      (''protocolVersion'', jint 7), (''request'', sample_long_request), (''state'', JStr ''submitted''),
      (''approval'', JStr ''pending''), (''delivery'', JStr ''received''), (''longHorizon'', sample_session),
      (''delegationPlan'', sample_plan),
      (''createdAt'', sample_time), (''updatedAt'', sample_time)]"
theorem stored_record_boundaries_witness:
  "validateRecord sample_record = None \<and> incoming sample_record \<and> long_horizon_task sample_record
   \<and> get (get sample_record ''delegationPlan'') ''taskId'' = JStr ''task-1''"
proof -
  have v: "validateRecord sample_record = None" by code_simp
  have p: "get sample_record ''delegationPlan'' \<noteq> JUndef" by code_simp
  have t: "get (get sample_record ''request'') ''taskId'' = JStr ''task-1''"
    by (simp add: sample_record_def sample_long_request_def sample_task_request_def get_spread)
  from stored_record_boundaries [OF v] p
  have "incoming sample_record \<and> long_horizon_task sample_record
    \<and> get (get sample_record ''delegationPlan'') ''taskId'' = get (get sample_record ''request'') ''taskId''" by blast
  then show ?thesis using v t by simp
qed

text \<open>A file of version 4 with one record.\<close>

definition old_task_file :: json where
  "old_task_file = JObj [(''schemaVersion'', jint 4), (''records'', JArr [sample_record]), (''peers'', JArr [])]"

theorem task_store_roundtrip_witness:
  "\<exists>migrated. task_file_load (JsonFile old_task_file) = Inr migrated \<and> get migrated ''schemaVersion'' = jint 5
     \<and> get migrated ''records'' = JArr [sample_record] \<and> task_file_save migrated NoFile = Inr (JsonFile migrated)
     \<and> task_file_load (JsonFile migrated) = Inr migrated"
proof -
  have clean: "json_clean old_task_file" by code_simp
  have v: "validateRecord sample_record = None" by code_simp
  have "len [sample_record] \<le> 512" "len ([] :: json list) \<le> 512" by (simp_all add: len_def)
  with task_store_roundtrip [OF clean, where f = NoFile] v show ?thesis
    by (auto simp: old_task_file_def)
qed

end
