(* ===== verification/Task_Records.thy ===== *)
theory Task_Records
  imports Task_Store
begin

text \<open>
  The pure part of the task service (\<open>lifecycle-sidecar/runtime/tasks/service.ts\<close>, from line 3539 on): what
  its helper functions do to one task record and to the list of records. A record is the JSON object the
  store keeps; a function of the source that changes its record in place returns the changed record here.
  The clock, the generated identifiers, the digest and the collation of strings are arguments. Texts that
  the source has in Chinese are replaced by an English gloss.
\<close>

section \<open>Readers\<close>

definition one_of :: "string list \<Rightarrow> json \<Rightarrow> bool" where
  "one_of names v = list_ex (\<lambda>name. v = JStr name) names"

lemma one_of_iff: "one_of names v \<longleftrightarrow> v \<in> JStr ` set names"
  by (auto simp: one_of_def list_ex_iff)

text \<open>\<open>Date.parse(v) <= t\<close>, and \<open>Date.parse(v) > Date.parse(w)\<close>: false when a date does not parse.\<close>

definition parsed :: "json \<Rightarrow> int option" where
  "parsed v = (case v of JStr s \<Rightarrow> date_parse s | _ \<Rightarrow> None)"

definition due_by :: "json \<Rightarrow> int \<Rightarrow> bool" where
  "due_by v t = (case parsed v of None \<Rightarrow> False | Some d \<Rightarrow> d \<le> t)"

definition parses_after :: "json \<Rightarrow> json \<Rightarrow> bool" where
  "parses_after v w = (case (parsed v, parsed w) of (Some d, Some e) \<Rightarrow> e < d | _ \<Rightarrow> False)"

definition iso :: "int \<Rightarrow> json" where
  "iso t = JStr (to_iso t)"

definition or_null :: "json \<Rightarrow> json" where
  "or_null v = (if truthy v then v else JNull)"

text \<open>A field that is only present when its value is truthy, and an array that is dropped when it is empty.\<close>

definition if_truthy :: "string \<Rightarrow> json \<Rightarrow> (string \<times> json) list" where
  "if_truthy k v = (if truthy v then [(k, v)] else [])"

definition put_items :: "json \<Rightarrow> string \<Rightarrow> json list \<Rightarrow> json" where
  "put_items r k xs = (if xs = [] then del r [k] else put r k (JArr xs))"

text \<open>\<open>Number(s)\<close> of a reference: the program writes decimal numerals.\<close>

definition number_of :: "json \<Rightarrow> int option" where
  "number_of v = (case v of JStr (c # cs) \<Rightarrow> digits_value 0 (c # cs) | _ \<Rightarrow> None)"

definition max_safe_int :: int where
  "max_safe_int = 9007199254740991"

definition terminal_states :: "string list" where
  "terminal_states = [''completed'', ''failed'', ''canceled'', ''rejected'']"

definition isTerminalTaskState :: "json \<Rightarrow> bool" where
  "isTerminalTaskState state = one_of terminal_states state"

definition isRemoteTransitionAllowed :: "json \<Rightarrow> json \<Rightarrow> bool" where
  "isRemoteTransitionAllowed current next \<longleftrightarrow>
     \<not> isTerminalTaskState current
     \<and> (if current = JStr ''submitted''
        then one_of [''working'', ''completed'', ''rejected'', ''failed'', ''canceled'', ''auth_required'',
               ''input_required''] next
        else one_of [''working'', ''auth_required'', ''input_required''] current
          \<and> one_of [''working'', ''completed'', ''failed'', ''canceled'', ''rejected'', ''auth_required'',
               ''input_required''] next)"

definition networkTaskState :: "json \<Rightarrow> json" where
  "networkTaskState state =
     (if one_of [''working'', ''input_required'', ''auth_required'', ''completed'', ''failed'', ''canceled'',
        ''rejected''] state then state else JStr ''failed'')"

definition effectiveTaskExpiry :: "json \<Rightarrow> json" where
  "effectiveTaskExpiry r =
     or_else (get (get r ''longHorizon'') ''continuationExpiresAt'')
       (or_else (get (get r ''peerLongHorizon'') ''continuationExpiresAt'') (get (get r ''request'') ''expiresAt''))"

definition currentExecutionTaskId :: "json \<Rightarrow> json" where
  "currentExecutionTaskId r =
     (let session = get r ''longHorizon'' in
      if \<not> truthy session \<or> get session ''currentStageIndex'' = jint 0 then JNull
      else case find_first (\<lambda>stage. get stage ''stageIndex'' = get session ''currentStageIndex'')
                  (items (get session ''stages'')) of
             None \<Rightarrow> JNull | Some stage \<Rightarrow> or_else (get stage ''executionTaskId'') JNull)"

definition taskArtifactText :: "json \<Rightarrow> json" where
  "taskArtifactText artifact =
     (if get artifact ''schemaVersion'' = jint 1 then get artifact ''text''
      else case find_first (\<lambda>part. get part ''kind'' = JStr ''text'') (items (get artifact ''parts'')) of
             None \<Rightarrow> JStr [] | Some part \<Rightarrow> or_else (get part ''text'') (JStr []))"

definition task_clock_skew_ms :: int where "task_clock_skew_ms = 300000"

definition validTimestampOrNow :: "json \<Rightarrow> int \<Rightarrow> int" where
  "validTimestampOrNow value now =
     (if \<not> truthy value then now
      else case parsed value of None \<Rightarrow> now | Some t \<Rightarrow> if t \<le> now + task_clock_skew_ms then t else now)"

section \<open>The attention clock\<close>

text \<open>\<open>TaskAttentionChangeInput\<close>: an absent optional field is \<open>undefined\<close>.\<close>

record attention_change =
  ac_kind :: string
  ac_stage :: json
  ac_code :: json
  ac_at :: json

definition change :: "string \<Rightarrow> attention_change" where
  "change kind = \<lparr>ac_kind = kind, ac_stage = JUndef, ac_code = JUndef, ac_at = JUndef\<rparr>"

definition setLatestTaskChange :: "json \<Rightarrow> attention_change \<Rightarrow> json" where
  "setLatestTaskChange r c = put r ''latestAttentionChange'' (JObj
     ([(''revision'', or_else (get r ''attentionRevision'') (jint 0)), (''kind'', JStr (ac_kind c)),
       (''occurredAt'', or_else (ac_at c) (get r ''updatedAt''))]
      @ if_truthy ''stageIndex'' (ac_stage c) @ if_truthy ''safeErrorCode'' (ac_code c)))"

definition markTaskAttention :: "json \<Rightarrow> attention_change \<Rightarrow> json" where
  "markTaskAttention r c =
     setLatestTaskChange (put r ''attentionRevision'' (jint (min max_safe_int (int_of (get r ''attentionRevision'') + 1)))) c"

definition current_stage :: "json \<Rightarrow> json" where
  "current_stage r = or_else (get (get r ''longHorizon'') ''currentStageIndex'')
     (or_else (get (get r ''peerLongHorizon'') ''currentStageIndex'') (jint 0))"

definition terminalAttentionChange :: "json \<Rightarrow> attention_change" where
  "terminalAttentionChange r =
     \<lparr>ac_kind =
        (if get r ''safeErrorCode'' = JStr ''TASK_EXPIRED'' \<or> get (get r ''longHorizon'') ''phase'' = JStr ''expired''
            \<or> get (get r ''peerLongHorizon'') ''phase'' = JStr ''expired'' then ''expired''
         else if get r ''state'' = JStr ''completed'' then ''completed''
         else if get r ''state'' = JStr ''canceled'' then ''canceled''
         else if get r ''state'' = JStr ''rejected'' then ''rejected'' else ''failed''),
      ac_stage = (if 0 < int_of (current_stage r) then current_stage r else JUndef),
      ac_code = get r ''safeErrorCode'', ac_at = JUndef\<rparr>"

definition inferTaskAttentionChange :: "json \<Rightarrow> attention_change" where
  "inferTaskAttentionChange r =
     (if one_of [''completed'', ''failed'', ''rejected'', ''canceled''] (get r ''state'')
          \<or> get r ''safeErrorCode'' = JStr ''TASK_EXPIRED'' then terminalAttentionChange r
      else if get r ''delivery'' = JStr ''send_failed''
        then (change ''delivery_failed'')\<lparr>ac_code := get r ''safeErrorCode''\<rparr>
      else (change ''status_updated'')\<lparr>ac_code := get r ''safeErrorCode''\<rparr>)"

record attention_snapshot =
  as_state :: json
  as_delivery :: json
  as_code :: json
  as_stage :: int
  as_phase :: json
  as_expires :: json

definition taskAttentionSnapshot :: "json \<Rightarrow> attention_snapshot" where
  "taskAttentionSnapshot r = (let peer = get r ''peerLongHorizon'' in
     \<lparr>as_state = get r ''state'', as_delivery = get r ''delivery'',
      as_code = (if truthy (get r ''safeErrorCode'') then get r ''safeErrorCode'' else JUndef),
      as_stage = int_of (get peer ''currentStageIndex''),
      as_phase = (if truthy (get peer ''phase'') then get peer ''phase'' else JUndef),
      as_expires = (if truthy (get peer ''continuationExpiresAt'') then get peer ''continuationExpiresAt'' else JUndef)\<rparr>)"

definition attention_changed :: "json \<Rightarrow> attention_snapshot \<Rightarrow> bool" where
  "attention_changed r previous \<longleftrightarrow> as_state previous \<noteq> get r ''state'' \<or> as_delivery previous \<noteq> get r ''delivery''
     \<or> as_code previous \<noteq> get r ''safeErrorCode''"

definition markTaskAttentionIfChanged :: "json \<Rightarrow> attention_snapshot \<Rightarrow> json" where
  "markTaskAttentionIfChanged r previous =
     (if attention_changed r previous then markTaskAttention r (inferTaskAttentionChange r) else r)"

definition mark_when :: "bool \<Rightarrow> attention_change \<Rightarrow> json \<Rightarrow> json" where
  "mark_when b c r = (if b then markTaskAttention r c else r)"

definition markRemoteTaskAttentionIfChanged :: "json \<Rightarrow> attention_snapshot \<Rightarrow> json" where
  "markRemoteTaskAttentionIfChanged r previous =
     (if get (get r ''request'') ''executionMode'' \<noteq> JStr ''long_horizon'' then markTaskAttentionIfChanged r previous
      else (let peer = get r ''peerLongHorizon''; stage = get peer ''currentStageIndex''; phase = get peer ''phase'';
          code = get r ''safeErrorCode'';
          terminal = (as_state previous \<noteq> get r ''state''
            \<and> one_of [''completed'', ''failed'', ''rejected'', ''canceled''] (get r ''state''));
          started = as_stage previous < int_of stage;
          paused = (phase = JStr ''paused'' \<and> as_phase previous \<noteq> JStr ''paused'');
          resumed = (phase = JStr ''working'' \<and> as_phase previous = JStr ''paused'');
          renewed = (truthy (get peer ''continuationExpiresAt'')
            \<and> parses_after (get peer ''continuationExpiresAt'') (as_expires previous));
          failure = (truthy code \<and> code \<noteq> as_code previous \<and> one_of [''input_required'', ''failed''] (get r ''state''))
        in if terminal then markTaskAttention r (terminalAttentionChange r)
           else mark_when renewed ((change ''renewed'')\<lparr>ac_stage := stage\<rparr>)
             (mark_when paused ((change ''paused'')\<lparr>ac_stage := stage\<rparr>)
             (mark_when (started \<or> resumed)
                ((change (if 1 < int_of stage then ''resumed'' else ''stage_started''))\<lparr>ac_stage := stage\<rparr>)
             (mark_when failure ((change ''stage_failed'')\<lparr>ac_stage := stage, ac_code := code\<rparr>) r)))))"

section \<open>Delivery of application messages\<close>

definition retry_delays_ms :: "int list" where
  "retry_delays_ms = [15000, 30000, 60000, 120000, 300000]"

definition retry_delay :: "int \<Rightarrow> int" where
  "retry_delay attempts = retry_delays_ms ! nat (min (attempts - 1) (len retry_delays_ms - 1))"

definition names_delivery :: "string \<Rightarrow> json \<Rightarrow> json \<Rightarrow> bool" where
  "names_delivery kind ref item \<longleftrightarrow> get item ''kind'' = JStr kind \<and> get item ''referenceId'' = ref"

definition shouldSendApplicationMessage :: "json \<Rightarrow> string \<Rightarrow> json \<Rightarrow> int \<Rightarrow> bool" where
  "shouldSendApplicationMessage r kind ref now =
     (case find_first (names_delivery kind ref) (items (get r ''applicationDeliveryAttempts'')) of
        None \<Rightarrow> True | Some attempt \<Rightarrow> due_by (get attempt ''nextRetryAt'') now)"

definition recordApplicationDeliveryAttempt :: "json \<Rightarrow> string \<Rightarrow> json \<Rightarrow> int \<Rightarrow> json" where
  "recordApplicationDeliveryAttempt r kind ref now =
     (let old = items (get r ''applicationDeliveryAttempts'');
          attempts = (case find_first (names_delivery kind ref) old of None \<Rightarrow> 0 | Some a \<Rightarrow> int_of (get a ''attempts'')) + 1
      in put r ''applicationDeliveryAttempts'' (JArr (filter (\<lambda>a. get a ''kind'' \<noteq> JStr kind) old
           @ [JObj [(''kind'', JStr kind), (''referenceId'', ref), (''attempts'', jint attempts), (''lastSentAt'', iso now),
                (''nextRetryAt'', iso (now + retry_delay attempts))]])))"

definition removeApplicationDeliveryAttempt :: "json \<Rightarrow> string \<Rightarrow> json \<Rightarrow> json" where
  "removeApplicationDeliveryAttempt r kind ref = put_items r ''applicationDeliveryAttempts''
     (filter (\<lambda>a. \<not> names_delivery kind ref a) (items (get r ''applicationDeliveryAttempts'')))"

definition removeApplicationDeliveryState :: "json \<Rightarrow> string \<Rightarrow> json" where
  "removeApplicationDeliveryState r kind =
     (let other = filter (\<lambda>a. get a ''kind'' \<noteq> JStr kind);
          r' = put_items r ''applicationDeliveryAttempts'' (other (items (get r ''applicationDeliveryAttempts'')))
      in put_items r' ''applicationDeliveryFailures'' (other (items (get r ''applicationDeliveryFailures''))))"

definition delivery_known :: "json \<Rightarrow> string \<Rightarrow> json \<Rightarrow> bool" where
  "delivery_known r kind ref \<longleftrightarrow>
     list_ex (names_delivery kind ref) (items (get r ''applicationDeliveryAttempts''))
     \<or> list_ex (names_delivery kind ref) (items (get r ''applicationDeliveryFailures''))"

definition hasApplicationDeliveryReference :: "json \<Rightarrow> string \<Rightarrow> json \<Rightarrow> bool" where
  "hasApplicationDeliveryReference r kind ref =
     (if kind = ''status'' then (case number_of ref of None \<Rightarrow> False | Some revision \<Rightarrow>
          1 \<le> revision \<and> revision \<le> max_safe_int \<and> revision \<le> int_of (get r ''statusRevision'')
          \<and> (revision \<le> int_of (get r ''statusAcknowledgedRevision'') \<or> delivery_known r kind ref))
      else if kind = ''input''
        then get (get r ''inputPending'') ''inputId'' = ref \<and> (truthy (get r ''inputAcknowledgedAt'') \<or> delivery_known r kind ref)
      else get r ''cancelControlId'' = ref \<and> (truthy (get r ''cancelAcknowledgedAt'') \<or> delivery_known r kind ref))"

definition recordApplicationDeliveryFailure :: "json \<Rightarrow> string \<Rightarrow> json \<Rightarrow> string \<Rightarrow> json \<Rightarrow> json" where
  "recordApplicationDeliveryFailure r kind ref code failedAt =
     (let old = items (get r ''applicationDeliveryFailures'') in
      if (case find_first (names_delivery kind ref) old of None \<Rightarrow> False | Some e \<Rightarrow> get e ''safeErrorCode'' = JStr code) then r
      else markTaskAttention
        (put r ''applicationDeliveryFailures'' (JArr (filter (\<lambda>a. get a ''kind'' \<noteq> JStr kind) old
           @ [JObj [(''kind'', JStr kind), (''referenceId'', ref), (''failedAt'', failedAt), (''safeErrorCode'', JStr code)]])))
        ((change ''delivery_failed'')\<lparr>ac_code := JStr code, ac_at := failedAt\<rparr>))"

definition failure_recovered :: "string \<Rightarrow> json \<Rightarrow> json \<Rightarrow> bool" where
  "failure_recovered kind ref item \<longleftrightarrow> get item ''kind'' = JStr kind
     \<and> (get item ''referenceId'' = ref
        \<or> (kind = ''status'' \<and> (case (number_of (get item ''referenceId''), number_of ref) of
             (Some m, Some n) \<Rightarrow> m \<le> n | _ \<Rightarrow> False)))"

text \<open>The record, and whether a failure was recovered.\<close>

definition recoverApplicationDeliveryFailure :: "json \<Rightarrow> string \<Rightarrow> json \<Rightarrow> json \<Rightarrow> json \<times> bool" where
  "recoverApplicationDeliveryFailure r kind ref recoveredAt =
     (let failures = items (get r ''applicationDeliveryFailures'') in
      if \<not> list_ex (failure_recovered kind ref) failures then (r, False)
      else (markTaskAttention
              (put_items r ''applicationDeliveryFailures'' (filter (\<lambda>a. \<not> failure_recovered kind ref a) failures))
              ((change ''delivery_recovered'')\<lparr>ac_at := recoveredAt\<rparr>), True))"

definition clearCancelDeliveryState :: "json \<Rightarrow> json" where
  "clearCancelDeliveryState r =
     removeApplicationDeliveryState
       (del (put r ''cancelPending'' (JBool False))
         [''cancelControlId'', ''cancelRequestedAt'', ''cancelSentAt'', ''cancelAcknowledgedAt''])
       ''control''"

section \<open>Receipts\<close>

definition createApplicationReceipt :: "json \<Rightarrow> string \<Rightarrow> json \<Rightarrow> json \<Rightarrow> json" where
  "createApplicationReceipt payload kind ref receivedAt = JObj
     [(''schemaVersion'', jint 1), (''taskId'', get payload ''taskId''),
      (''requesterTetiId'', get payload ''requesterTetiId''), (''targetTetiId'', get payload ''targetTetiId''),
      (''kind'', JStr kind), (''referenceId'', ref), (''receivedAt'', receivedAt)]"

definition applicationReceiptKey :: "json \<Rightarrow> string" where
  "applicationReceiptKey receipt = js_string (get receipt ''kind'') @ '':'' @ js_string (get receipt ''referenceId'')"

definition outbox_limit :: nat where "outbox_limit = 16"

definition take_last :: "nat \<Rightarrow> 'a list \<Rightarrow> 'a list" where
  "take_last n xs = drop (length xs - n) xs"

definition enqueueApplicationReceipt :: "json \<Rightarrow> json \<Rightarrow> json" where
  "enqueueApplicationReceipt r receipt =
     (let old = items (get r ''applicationReceiptOutbox''); key = applicationReceiptKey receipt;
          entry = (case find_first (\<lambda>c. applicationReceiptKey c = key) old of None \<Rightarrow> receipt | Some e \<Rightarrow> e)
      in put r ''applicationReceiptOutbox''
           (JArr (take_last outbox_limit (filter (\<lambda>c. applicationReceiptKey c \<noteq> key) old @ [entry]))))"

definition createAttachmentReceipt :: "json \<Rightarrow> json \<Rightarrow> json" where
  "createAttachmentReceipt payload receivedAt = JObj
     ([(''schemaVersion'', jint 1), (''taskId'', get payload ''taskId''),
       (''requesterTetiId'', get payload ''requesterTetiId''), (''targetTetiId'', get payload ''targetTetiId''),
       (''purpose'', get payload ''purpose'')]
      @ if_truthy ''artifactId'' (get payload ''artifactId'')
      @ [(''attachmentId'', get (get payload ''part'') ''attachmentId''), (''receivedAt'', receivedAt)])"

definition createReceipt :: "json \<Rightarrow> string \<Rightarrow> string \<Rightarrow> json \<Rightarrow> json" where
  "createReceipt request localTetiId status receivedAt = JObj
     [(''schemaVersion'', jint 1), (''taskId'', get request ''taskId''),
      (''requesterTetiId'', get request ''requesterTetiId''), (''targetTetiId'', JStr localTetiId),
      (''status'', JStr status), (''receivedAt'', receivedAt),
      (''supportedTaskVersions'', JArr (map jint supported_task_versions))]"

end
