(* ===== verification/Task_Lifecycle.thy ===== *)
theory Task_Lifecycle
  imports Task_Records
begin

text \<open>
  The life of a task record in the task service (\<open>lifecycle-sidecar/runtime/tasks/service.ts\<close>): the
  bookkeeping of attachments and artifacts, the audit of a long-horizon session and of a delegation plan,
  receipts, expiry, completion by a verified artifact, and the checks that guard an operation.
\<close>

section \<open>Attachments and artifacts\<close>

text \<open>
  The attempts to deliver an attachment, keyed by \<open>attachmentId\<close>, and an artifact, keyed by
  \<open>artifactId\<close>, are recorded by the same code; \<open>attempts\<close> is the field, \<open>undefined\<close> when it is absent.
\<close>

definition removeDeliveryAttempt :: "string \<Rightarrow> json \<Rightarrow> json \<Rightarrow> json" where
  "removeDeliveryAttempt key attempts i =
     (let remaining = filter (\<lambda>a. get a key \<noteq> i) (items attempts) in if remaining = [] then JUndef else JArr remaining)"

definition recordDeliveryAttempt :: "string \<Rightarrow> json \<Rightarrow> json \<Rightarrow> int \<Rightarrow> json" where
  "recordDeliveryAttempt key attempts i now =
     (let n = (case find_first (\<lambda>a. get a key = i) (items attempts) of None \<Rightarrow> 0 | Some a \<Rightarrow> int_of (get a ''attempts'')) + 1
      in JArr (filter (\<lambda>a. get a key \<noteq> i) (items attempts)
           @ [JObj [(key, i), (''attempts'', jint n), (''lastSentAt'', iso now), (''nextRetryAt'', iso (now + retry_delay n))]]))"

definition appendUnique :: "json \<Rightarrow> json \<Rightarrow> json" where
  "appendUnique values v = (if v \<in> set (items values) then values else JArr (items values @ [v]))"

definition retry_due :: "string \<Rightarrow> json \<Rightarrow> json \<Rightarrow> int \<Rightarrow> bool" where
  "retry_due key attempts i now =
     (case find_first (\<lambda>a. get a key = i) (items attempts) of None \<Rightarrow> True | Some a \<Rightarrow> due_by (get a ''nextRetryAt'') now)"

definition shouldSendArtifact :: "json \<Rightarrow> json \<Rightarrow> int \<Rightarrow> bool" where
  "shouldSendArtifact r artifactId now \<longleftrightarrow> artifactId \<notin> set (items (get r ''acknowledgedArtifactIds''))
     \<and> retry_due ''artifactId'' (get r ''artifactDeliveryAttempts'') artifactId now"

definition shouldSendAttachment :: "json \<Rightarrow> json \<Rightarrow> string \<Rightarrow> int \<Rightarrow> bool" where
  "shouldSendAttachment r attachmentId purpose now =
     (if int_of (get r ''protocolVersion'') < 4
      then attachmentId \<notin> set (items (get r (if purpose = ''input'' then ''sentAttachmentIds'' else ''sentArtifactAttachmentIds'')))
      else attachmentId \<notin> set (items (get r (if purpose = ''input'' then ''acknowledgedAttachmentIds''
               else ''acknowledgedArtifactAttachmentIds'')))
        \<and> retry_due ''attachmentId'' (get r (if purpose = ''input'' then ''attachmentDeliveryAttempts''
               else ''artifactAttachmentDeliveryAttempts'')) attachmentId now)"

definition sameImagePart :: "json \<Rightarrow> json \<Rightarrow> bool" where
  "sameImagePart left right \<longleftrightarrow> list_all (\<lambda>k. get left k = get right k)
     [''attachmentId'', ''mimeType'', ''byteLength'', ''width'', ''height'', ''sha256'']"

definition attachment_diagnostic :: "string \<Rightarrow> nat \<Rightarrow> json \<times> nat \<Rightarrow> json" where
  "attachment_diagnostic purpose count indexed = (case indexed of (part, index) \<Rightarrow> JObj
     [(''attachmentId'', get part ''attachmentId''), (''purpose'', JStr purpose), (''ordinal'', jint (int index + 1)),
      (''expectedCount'', jint (int count)), (''byteLength'', get part ''byteLength''), (''sha256'', get part ''sha256''),
      (''attempts'', jint 0), (''state'', JStr ''expected'')])"

definition createAttachmentDiagnostics :: "string \<Rightarrow> json list \<Rightarrow> json list" where
  "createAttachmentDiagnostics purpose parts =
     map (attachment_diagnostic purpose (length parts)) (zip parts [0..<length parts])"

definition names_diagnostic :: "string \<Rightarrow> json \<Rightarrow> json \<Rightarrow> bool" where
  "names_diagnostic purpose i d \<longleftrightarrow> get d ''purpose'' = JStr purpose \<and> get d ''attachmentId'' = i"

definition last_match :: "('a \<Rightarrow> bool) \<Rightarrow> 'a list \<Rightarrow> 'a option" where
  "last_match P xs = find_first P (rev xs)"

definition initialized_diagnostic :: "json list \<Rightarrow> string \<Rightarrow> nat \<Rightarrow> json \<times> nat \<Rightarrow> json" where
  "initialized_diagnostic old purpose count indexed = (case indexed of (part, index) \<Rightarrow>
     spread (case last_match (names_diagnostic purpose (get part ''attachmentId'')) old of
         None \<Rightarrow> attachment_diagnostic purpose 1 (part, 0) | Some prior \<Rightarrow> prior)
       [(''attachmentId'', get part ''attachmentId''), (''purpose'', JStr purpose), (''ordinal'', jint (int index + 1)),
        (''expectedCount'', jint (int count)), (''byteLength'', get part ''byteLength''), (''sha256'', get part ''sha256'')])"

definition initializeAttachmentDiagnostics :: "json \<Rightarrow> string \<Rightarrow> json list \<Rightarrow> json" where
  "initializeAttachmentDiagnostics r purpose parts =
     (let old = items (get r ''attachmentDiagnostics'') in
      put r ''attachmentDiagnostics'' (JArr (filter (\<lambda>d. get d ''purpose'' \<noteq> JStr purpose) old
        @ map (initialized_diagnostic old purpose (length parts)) (zip parts [0..<length parts]))))"

definition ensureSingleAttachmentDiagnostic :: "json \<Rightarrow> string \<Rightarrow> json \<Rightarrow> json" where
  "ensureSingleAttachmentDiagnostic r purpose part =
     (let old = items (get r ''attachmentDiagnostics'') in
      if list_ex (names_diagnostic purpose (get part ''attachmentId'')) old then r
      else put r ''attachmentDiagnostics'' (JArr (old @ createAttachmentDiagnostics purpose [part])))"

text \<open>The first element that satisfies a test is changed in place.\<close>

fun update_first :: "('a \<Rightarrow> bool) \<Rightarrow> ('a \<Rightarrow> 'a) \<Rightarrow> 'a list \<Rightarrow> 'a list" where
  "update_first P f [] = []"
| "update_first P f (x # xs) = (if P x then f x # xs else x # update_first P f xs)"

definition update_diagnostic :: "json \<Rightarrow> string \<Rightarrow> json \<Rightarrow> (json \<Rightarrow> json) \<Rightarrow> json" where
  "update_diagnostic r purpose i f =
     (if list_ex (names_diagnostic purpose i) (items (get r ''attachmentDiagnostics''))
      then put r ''attachmentDiagnostics'' (JArr (update_first (names_diagnostic purpose i) f (items (get r ''attachmentDiagnostics''))))
      else r)"

definition markAttachmentSent :: "json \<Rightarrow> string \<Rightarrow> json \<Rightarrow> json \<Rightarrow> json" where
  "markAttachmentSent r purpose part timestamp =
     update_diagnostic (ensureSingleAttachmentDiagnostic r purpose part) purpose (get part ''attachmentId'')
       (\<lambda>d. spread d ([(''attempts'', jint (int_of (get d ''attempts'') + 1)),
            (''firstSentAt'', or_else (get d ''firstSentAt'') timestamp), (''lastSentAt'', timestamp)]
          @ (if one_of [''acknowledged'', ''stored''] (get d ''state'') then [] else [(''state'', JStr ''sent'')])))"

definition markAttachmentStored :: "json \<Rightarrow> string \<Rightarrow> json \<Rightarrow> json \<Rightarrow> json" where
  "markAttachmentStored r purpose part timestamp =
     update_diagnostic (ensureSingleAttachmentDiagnostic r purpose part) purpose (get part ''attachmentId'')
       (\<lambda>d. del (spread d ((''storedAt'', or_else (get d ''storedAt'') timestamp)
            # (if get d ''state'' = JStr ''acknowledged'' then [] else [(''state'', JStr ''stored'')])))
          [''safeErrorCode''])"

definition markAttachmentAcknowledged :: "json \<Rightarrow> string \<Rightarrow> json \<Rightarrow> json \<Rightarrow> json" where
  "markAttachmentAcknowledged r purpose attachmentId timestamp =
     update_diagnostic r purpose attachmentId
       (\<lambda>d. del (spread d [(''receiptReceivedAt'', timestamp), (''state'', JStr ''acknowledged'')]) [''safeErrorCode''])"

text \<open>
  The attachment store as an operation sees it: whether it takes a file, and whether it has the image of a
  task, a purpose and a part. There may be none.
\<close>

record attachment_store =
  at_ingest :: "error option"
  at_has :: "json \<Rightarrow> string \<Rightarrow> json \<Rightarrow> bool"

text \<open>The images that are there are marked as stored; the answer tells whether all are there.\<close>

definition images_ready :: "attachment_store option \<Rightarrow> string \<Rightarrow> int \<Rightarrow> json list \<Rightarrow> json \<Rightarrow> json \<times> bool" where
  "images_ready store purpose now images r =
     (if images = [] then (r, True)
      else case store of
        None \<Rightarrow> (r, False)
      | Some store \<Rightarrow> (let has = at_has store (get (get r ''request'') ''taskId'') purpose in
          (foldl (\<lambda>r part. if has part then markAttachmentStored r purpose part (iso now) else r) r images, list_all has images)))"

definition areInputAttachmentsReady :: "attachment_store option \<Rightarrow> int \<Rightarrow> json \<Rightarrow> json \<times> bool" where
  "areInputAttachmentsReady store now r = images_ready store ''input'' now (taskInputImages (get (get r ''request'') ''input'')) r"

definition areArtifactAttachmentsReady :: "attachment_store option \<Rightarrow> int \<Rightarrow> json \<Rightarrow> json \<times> bool" where
  "areArtifactAttachmentsReady store now r =
     images_ready store ''artifact'' now (concat (map taskArtifactImages (items (get r ''artifacts'')))) r"

definition put_ready :: "string \<Rightarrow> json \<times> bool \<Rightarrow> json" where
  "put_ready field answer = put (fst answer) field (JBool (snd answer))"

section \<open>Audits\<close>

text \<open>\<open>event\<close> holds the fields that the caller passes; the generated identifier is an argument.\<close>

definition audit_entry :: "string \<Rightarrow> json list \<Rightarrow> (string \<times> json) list \<Rightarrow> json \<Rightarrow> json" where
  "audit_entry eventId audit event timestamp =
     JObj ([(''eventId'', JStr eventId), (''sequence'', jint (len audit + 1))] @ event @ [(''timestamp'', timestamp)])"

definition append_audit :: "int \<Rightarrow> error \<Rightarrow> string \<Rightarrow> json \<Rightarrow> (string \<times> json) list \<Rightarrow> json \<Rightarrow> json result" where
  "append_audit limit e eventId session event timestamp =
     (let audit = items (get session ''audit'') in
      if limit \<le> len audit then Inl e
      else Inr (spread session [(''audit'', JArr (audit @ [audit_entry eventId audit event timestamp])), (''updatedAt'', timestamp)]))"

definition audit_limit_error :: error where
  "audit_limit_error = TaskTransportRuntimeError ''TASK_AUDIT_LIMIT'' ''Long-horizon audit capacity was reached.''"

definition appendLongHorizonAudit :: "string \<Rightarrow> json \<Rightarrow> (string \<times> json) list \<Rightarrow> json \<Rightarrow> json result" where
  "appendLongHorizonAudit = append_audit maximum_lh_audit_events audit_limit_error"

definition appendDelegationAudit :: "string \<Rightarrow> json \<Rightarrow> (string \<times> json) list \<Rightarrow> json \<Rightarrow> json result" where
  "appendDelegationAudit = append_audit (int maximum_audit_events)
     (TaskTransportRuntimeError ''TASK_DELEGATION_AUDIT_LIMIT'' ''Delegation audit capacity was reached.'')"

definition task_progress :: "string \<Rightarrow> json \<Rightarrow> json \<Rightarrow> string \<Rightarrow> json \<Rightarrow> json" where
  "task_progress state completed maximum message updatedAt = JObj
     [(''state'', JStr state), (''completedUnits'', completed), (''totalUnits'', maximum), (''message'', JStr message),
      (''updatedAt'', updatedAt)]"

definition createLongHorizonState :: "string \<Rightarrow> json \<Rightarrow> int \<Rightarrow> json result" where
  "createLongHorizonState eventId request now =
     appendLongHorizonAudit eventId
       (JObj [(''schemaVersion'', jint 1), (''phase'', JStr ''pending_approval''), (''currentStageIndex'', jint 0),
          (''workspaceRevision'', jint 1),
          (''progress'', task_progress ''queued'' (jint 0) (jint maximum_stages) ''Waiting for the receiver to approve'' (iso now)),
          (''continuationExpiresAt'', get request ''expiresAt''), (''renewalCount'', jint 0),
          (''pauseRequested'', JBool False), (''pendingInput'', JNull), (''inputRequest'', JNull),
          (''availableChildAgents'', JArr []), (''stages'', JArr []), (''checkpoints'', JArr []), (''artifacts'', JArr []),
          (''audit'', JArr []), (''updatedAt'', iso now)])
       [(''action'', JStr ''session_created''), (''actor'', JStr ''host''), (''stageIndex'', JNull), (''workspaceRevision'', jint 1)]
       (iso now)"

section \<open>Expiry\<close>

definition bump_status :: "json \<Rightarrow> json" where
  "bump_status r = spread r [(''statusRevision'', jint (int_of (get r ''statusRevision'') + 1)), (''statusPending'', JBool True)]"

definition in_working :: "json \<Rightarrow> bool" where
  "in_working step \<longleftrightarrow> get step ''state'' = JStr ''working''"

text \<open>The end of a session, and of a plan together with its working step, for a reason and at a time.\<close>

definition expire_session :: "string \<Rightarrow> json \<Rightarrow> json \<Rightarrow> json result" where
  "expire_session eventId session timestamp =
     appendLongHorizonAudit eventId
       (spread session [(''phase'', JStr ''expired''), (''pauseRequested'', JBool False), (''inputRequest'', JNull),
          (''pendingInput'', JNull),
          (''progress'', task_progress ''canceled'' JNull JNull ''The continuation of the collaboration expired'' timestamp)])
       [(''action'', JStr ''expired''), (''actor'', JStr ''host''), (''stageIndex'', or_null (get session ''currentStageIndex'')),
        (''safeErrorCode'', JStr ''TASK_EXPIRED'')] timestamp"

definition cancel_plan :: "string \<Rightarrow> string \<Rightarrow> string \<Rightarrow> json \<Rightarrow> json \<Rightarrow> json result" where
  "cancel_plan eventId actor code plan timestamp =
     (let steps = items (get plan ''steps'');
          active = find_first in_working steps;
          stop = (\<lambda>step. spread step [(''state'', JStr ''canceled''), (''completedAt'', timestamp), (''safeErrorCode'', JStr code)])
      in appendDelegationAudit eventId
           (spread plan ([(''phase'', JStr ''canceled''), (''updatedAt'', timestamp)]
              @ (if active = None then [] else [(''steps'', JArr (update_first in_working stop steps))])))
           [(''action'', JStr ''plan_canceled''), (''actor'', JStr actor),
            (''stepId'', case active of None \<Rightarrow> JNull | Some step \<Rightarrow> or_else (get step ''stepId'') JNull),
            (''safeErrorCode'', JStr code)] timestamp)"

definition expire_diagnostic :: "json \<Rightarrow> json" where
  "expire_diagnostic d =
     (if one_of [''acknowledged'', ''stored''] (get d ''state'') then d
      else spread d [(''state'', JStr ''expired''), (''safeErrorCode'', JStr ''TASK_EXPIRED'')])"

definition expire_diagnostics :: "json \<Rightarrow> json" where
  "expire_diagnostics r =
     (if items (get r ''attachmentDiagnostics'') = [] then r
      else put r ''attachmentDiagnostics'' (JArr (map expire_diagnostic (items (get r ''attachmentDiagnostics'')))))"

definition drop_pending_input :: "json \<Rightarrow> json" where
  "drop_pending_input r =
     removeApplicationDeliveryState (del r [''inputPending'', ''inputSentAt'', ''inputAcknowledgedAt'']) ''input''"

text \<open>What \<open>expireRecord\<close> does after the session and the plan were ended.\<close>

definition expire_delivery :: "json \<Rightarrow> json \<Rightarrow> json" where
  "expire_delivery r timestamp =
     (let r1 = expire_diagnostics (clearCancelDeliveryState (drop_pending_input (put r ''receiptPending'' (JBool False))));
          r2 = (if incoming r1 then bump_status r1 else r1)
      in put r2 ''updatedAt'' timestamp)"

definition expire_flags :: "json \<Rightarrow> json" where
  "expire_flags r = spread r [(''delivery'', JStr ''expired''), (''state'', JStr ''rejected''), (''approval'', JStr ''expired''),
     (''safeErrorCode'', JStr ''TASK_EXPIRED'')]"

definition plan_ended :: "json \<Rightarrow> bool" where
  "plan_ended plan = one_of [''completed'', ''failed'', ''canceled''] (get plan ''phase'')"

text \<open>\<open>uuid 0\<close> and \<open>uuid 1\<close> are the identifiers drawn for the session and for the plan.\<close>

definition expireRecord :: "(nat \<Rightarrow> string) \<Rightarrow> json \<Rightarrow> json \<Rightarrow> json result" where
  "expireRecord uuid r timestamp =
     (let previous = taskAttentionSnapshot r; r1 = expire_flags r;
          session = get r ''longHorizon''; plan = get r ''delegationPlan'' in
      rbind (if truthy session \<and> get session ''phase'' \<noteq> JStr ''expired''
             then rbind (expire_session (uuid 0) session timestamp) (\<lambda>s. Inr (put r1 ''longHorizon'' s)) else Inr r1) (\<lambda>r2.
      rbind (if truthy plan \<and> \<not> plan_ended plan
             then rbind (cancel_plan (uuid 1) ''host'' ''TASK_EXPIRED'' plan timestamp) (\<lambda>p. Inr (put r2 ''delegationPlan'' p)) else Inr r2) (\<lambda>r3.
      (let r4 = expire_delivery r3 timestamp in
       Inr (if attention_changed r4 previous
            then markTaskAttention r4 ((change ''expired'')\<lparr>ac_code := JStr ''TASK_EXPIRED'', ac_at := timestamp\<rparr>) else r4)))))"

definition completes_from_artifact :: "json \<Rightarrow> bool" where
  "completes_from_artifact r \<longleftrightarrow> outgoing r \<and> 7 \<le> int_of (get r ''protocolVersion'') \<and> \<not> long_horizon_task r
     \<and> items (get r ''artifacts'') \<noteq> []
     \<and> (one_of [''completed'', ''submitted'', ''working'', ''auth_required'', ''input_required''] (get r ''state'')
        \<or> (get r ''state'' = JStr ''rejected'' \<and> get r ''safeErrorCode'' = JStr ''TASK_EXPIRED''))
     \<and> (get r ''state'' \<noteq> JStr ''completed'' \<or> get r ''approval'' \<noteq> JStr ''approved_once''
        \<or> get r ''delivery'' \<noteq> JStr ''acknowledged'' \<or> get r ''cancelPending'' = JBool True
        \<or> get r ''cancelSentAt'' \<noteq> JUndef \<or> get r ''safeErrorCode'' \<noteq> JUndef)"

definition completeOutgoingSingleStageFromVerifiedArtifact :: "json \<Rightarrow> json \<Rightarrow> json" where
  "completeOutgoingSingleStageFromVerifiedArtifact r observedAt =
     (if completes_from_artifact r
      then markTaskAttention
        (put (del (clearCancelDeliveryState (spread r [(''state'', JStr ''completed''), (''approval'', JStr ''approved_once''),
             (''delivery'', JStr ''acknowledged'')])) [''safeErrorCode'']) ''updatedAt'' observedAt)
        ((change ''completed'')\<lparr>ac_at := observedAt\<rparr>)
      else r)"

definition expiry_due :: "int \<Rightarrow> json \<Rightarrow> bool" where
  "expiry_due now r \<longleftrightarrow>
     (\<not> isTerminalTaskState (get r ''state'') \<or> get r ''delivery'' = JStr ''queued'' \<or> get r ''delivery'' = JStr ''send_failed'')
     \<and> due_by (effectiveTaskExpiry r) now"

fun expire_due :: "(nat \<Rightarrow> nat \<Rightarrow> string) \<Rightarrow> int \<Rightarrow> nat \<Rightarrow> json list \<Rightarrow> json list result" where
  "expire_due uuids now i [] = Inr []"
| "expire_due uuids now i (r # rs) =
     rbind (if expiry_due now r then expireRecord (uuids i) r (iso now) else Inr r) (\<lambda>r'.
     rbind (expire_due uuids now (Suc i) rs) (\<lambda>rs'. Inr (r' # rs')))"

definition reconcileVerifiedSingleStageCompletions :: "json list \<Rightarrow> json \<Rightarrow> json list" where
  "reconcileVerifiedSingleStageCompletions rs observedAt =
     map (\<lambda>r. completeOutgoingSingleStageFromVerifiedArtifact r observedAt) rs"

text \<open>Also returns whether a record changed. The record at position \<open>i\<close> draws its identifiers from \<open>uuids i\<close>.\<close>

definition expireDueRecords :: "(nat \<Rightarrow> nat \<Rightarrow> string) \<Rightarrow> int \<Rightarrow> json list \<Rightarrow> (json list \<times> bool) result" where
  "expireDueRecords uuids now rs =
     (let reconciled = reconcileVerifiedSingleStageCompletions rs (iso now) in
      rbind (expire_due uuids now 0 reconciled) (\<lambda>rs'.
        Inr (rs', list_ex completes_from_artifact rs \<or> list_ex (expiry_due now) reconciled)))"

section \<open>Receipts\<close>

definition shouldApplyReceipt :: "json \<Rightarrow> json \<Rightarrow> bool" where
  "shouldApplyReceipt r receipt =
     (if one_of [''conflict'', ''rejected'', ''expired''] (get r ''delivery'') then False
      else (let old = get r ''receipt'';
                order = time_of (get receipt ''receivedAt'') - time_of (get old ''receivedAt'') in
        if truthy old \<and> order < 0 then False
        else if truthy old \<and> order = 0 then stringify receipt = stringify old
        else one_of [''received'', ''duplicate''] (get receipt ''status'') \<or> get r ''state'' = JStr ''submitted''))"

definition applyReceipt :: "(nat \<Rightarrow> string) \<Rightarrow> json \<Rightarrow> json \<Rightarrow> json \<Rightarrow> json result" where
  "applyReceipt uuid r receipt observedAt =
     (let r1 = spread r [(''receipt'', receipt), (''updatedAt'', observedAt)]; status = get receipt ''status'' in
      if one_of [''received'', ''duplicate''] status
      then (let r2 = put r1 ''delivery'' (JStr ''acknowledged'') in
        Inr (if get r2 ''state'' = JStr ''submitted''
                \<and> one_of [''TASK_CHATMAIL_SEND_FAILED'', ''TASK_CONNECTION_UNAVAILABLE''] (or_else (get r2 ''safeErrorCode'') (JStr []))
             then del r2 [''safeErrorCode''] else r2))
      else if status = JStr ''expired'' then expireRecord uuid r1 observedAt
      else Inr (spread r1 [(''delivery'', status),
        (''state'', if status = JStr ''conflict'' then JStr ''failed'' else JStr ''rejected''), (''approval'', JStr ''rejected''),
        (''safeErrorCode'', if status = JStr ''conflict'' then JStr ''TASK_ID_CONFLICT'' else JStr ''TASK_REJECTED'')]))"

section \<open>Incoming records\<close>

definition incoming_record_fields :: "json \<Rightarrow> json \<Rightarrow> json \<Rightarrow> json \<Rightarrow> string \<Rightarrow> json" where
  "incoming_record_fields envelope connection chatmailId receivedAt delivery =
     (let request = get envelope ''payload''; ok = (delivery = ''received'') in JObj
       ([(''schemaVersion'', jint 1), (''direction'', JStr ''incoming''), (''peerTetiId'', get connection ''remoteTetiId''),
         (''protocolVersion'', get request ''schemaVersion''), (''envelopeMessageId'', get envelope ''messageId'')]
        @ (if chatmailId = JUndef then [] else [(''chatmailMessageId'', chatmailId)])
        @ [(''request'', request), (''state'', JStr (if ok then ''submitted'' else ''rejected'')),
           (''approval'', JStr (if ok then ''pending'' else if delivery = ''expired'' then ''expired'' else ''rejected'')),
           (''delivery'', JStr delivery), (''createdAt'', receivedAt), (''updatedAt'', receivedAt),
           (''attachmentsReady'', JBool (taskInputImages (get request ''input'') = [])),
           (''attachmentDiagnostics'', JArr (createAttachmentDiagnostics ''input'' (taskInputImages (get request ''input''))))]
        @ (if delivery = ''expired'' then [(''safeErrorCode'', JStr ''TASK_EXPIRED'')]
           else if delivery = ''rejected'' then [(''safeErrorCode'', JStr ''TASK_CREATED_AT_FUTURE'')] else [])))"

text \<open>\<open>receivedAt\<close> is the parsed time of reception.\<close>

definition incomingRecord :: "string \<Rightarrow> json \<Rightarrow> json \<Rightarrow> json \<Rightarrow> int \<Rightarrow> string \<Rightarrow> json result" where
  "incomingRecord eventId envelope connection chatmailId receivedAt delivery =
     (let r = incoming_record_fields envelope connection chatmailId (iso receivedAt) delivery; request = get envelope ''payload'' in
      if get request ''executionMode'' = JStr ''long_horizon''
      then rbind (createLongHorizonState eventId request receivedAt) (\<lambda>s. Inr (put r ''longHorizon'' s))
      else Inr r)"

section \<open>Peers, capacity and guards\<close>

definition insert_version :: "int \<Rightarrow> int list \<Rightarrow> int list" where
  "insert_version v vs = (if v \<in> set vs then vs else insert_by (\<le>) v vs)"

definition normalized_versions :: "int list \<Rightarrow> int list" where
  "normalized_versions vs = foldr insert_version vs []"

definition of_peer :: "json \<Rightarrow> json \<Rightarrow> bool" where
  "of_peer tetiId peer \<longleftrightarrow> get peer ''tetiId'' = tetiId"

definition rememberPeerVersions :: "json list \<Rightarrow> json \<Rightarrow> json list \<Rightarrow> json \<Rightarrow> bool \<Rightarrow> json list" where
  "rememberPeerVersions peers tetiId versions observedAt merge =
     (case find_first (of_peer tetiId) peers of
        Some existing \<Rightarrow>
          (let vs = normalized_versions (map int_of ((if merge then items (get existing ''supportedVersions'') else []) @ versions)) in
           if parses_after (get existing ''observedAt'') observedAt then peers
           else update_first (of_peer tetiId)
             (\<lambda>p. spread p [(''supportedVersions'', JArr (map jint vs)), (''observedAt'', observedAt)]) peers)
      | None \<Rightarrow> peers @ [JObj [(''tetiId'', tetiId),
          (''supportedVersions'', JArr (map jint (normalized_versions (map int_of versions)))), (''observedAt'', observedAt)]])"

text \<open>\<open>None\<close> when there is no room; \<open>le\<close> is the collation order of \<open>localeCompare\<close>.\<close>

definition ensureCapacity :: "(string \<Rightarrow> string \<Rightarrow> bool) \<Rightarrow> int \<Rightarrow> json list \<Rightarrow> json list option" where
  "ensureCapacity le now rs =
     (if len rs < max_task_transport_records then Some rs
      else (let retained = sort_by (\<lambda>a b. le (str_of (get a ''updatedAt'')) (str_of (get b ''updatedAt'')))
              (filter (\<lambda>r. case parsed (get (get r ''request'') ''expiresAt'') of None \<Rightarrow> False | Some t \<Rightarrow> now < t) rs) in
        if max_task_transport_records \<le> len retained then None else Some retained))"

definition is_task :: "string \<Rightarrow> json \<Rightarrow> json \<Rightarrow> json \<Rightarrow> bool" where
  "is_task direction requesterTetiId taskId r \<longleftrightarrow> get r ''direction'' = JStr direction
     \<and> get (get r ''request'') ''requesterTetiId'' = requesterTetiId \<and> get (get r ''request'') ''taskId'' = taskId"

definition findTaskRecord :: "json list \<Rightarrow> string \<Rightarrow> json \<Rightarrow> json \<Rightarrow> json option" where
  "findTaskRecord rs direction requesterTetiId taskId = find_first (is_task direction requesterTetiId taskId) rs"

definition identity_mismatch :: "string \<Rightarrow> error" where
  "identity_mismatch message = TaskTransportRuntimeError ''TASK_IDENTITY_MISMATCH'' message"

definition requireInboundTaskIdentity :: "json \<Rightarrow> json \<Rightarrow> string \<Rightarrow> json \<Rightarrow> error option" where
  "requireInboundTaskIdentity envelope connection localTetiId payload =
     throw_if (get envelope ''fromTetiId'' \<noteq> get payload ''requesterTetiId''
         \<or> get connection ''remoteTetiId'' \<noteq> get payload ''requesterTetiId''
         \<or> get payload ''targetTetiId'' \<noteq> JStr localTetiId)
       (identity_mismatch ''Task identity binding is invalid.'')"

definition requireOutboundTaskIdentity :: "json \<Rightarrow> json \<Rightarrow> string \<Rightarrow> json \<Rightarrow> error option" where
  "requireOutboundTaskIdentity envelope connection localTetiId payload =
     throw_if (get envelope ''fromTetiId'' \<noteq> get payload ''targetTetiId''
         \<or> get connection ''remoteTetiId'' \<noteq> get payload ''targetTetiId''
         \<or> get payload ''requesterTetiId'' \<noteq> JStr localTetiId)
       (identity_mismatch ''Task identity binding is invalid.'')"

definition incoming_task :: "string \<Rightarrow> json \<Rightarrow> bool" where
  "incoming_task taskId r \<longleftrightarrow> incoming r \<and> get (get r ''request'') ''taskId'' = JStr taskId"

definition runtime_error :: "string \<Rightarrow> string \<Rightarrow> error" where
  "runtime_error code message = TaskTransportRuntimeError code message"

text \<open>
  The checks of \<open>requireMutableIncomingTask\<close> and \<open>requireIncomingLongHorizon\<close> on the record they find. Both
  expire an overdue record before they throw; the caller then saves nothing, so only the error is left.
\<close>

definition requireMutableIncomingTask :: "(nat \<Rightarrow> string) \<Rightarrow> json list \<Rightarrow> string \<Rightarrow> int \<Rightarrow> (nat \<times> json) result" where
  "requireMutableIncomingTask uuid rs taskId now =
     (if \<not> id_pattern 127 taskId then Inl (runtime_error ''TASK_INPUT_INVALID'' ''Task ID is invalid.'')
      else case find_index (incoming_task taskId) rs of
        None \<Rightarrow> Inl (runtime_error ''TASK_NOT_FOUND'' ''Task was not found.'')
      | Some i \<Rightarrow> (let r = rs ! i in
          if get r ''protocolVersion'' \<notin> jint ` set supported_task_versions
          then Inl (runtime_error ''TASK_PROTOCOL_UPGRADE_REQUIRED'' ''Task was created by an unsupported collaboration protocol.'')
          else if due_by (get (get r ''request'') ''expiresAt'') now
          then rbind (expireRecord uuid r (iso now)) (\<lambda>_. Inl (runtime_error ''TASK_EXPIRED'' ''Task approval has expired.''))
          else if get r ''approval'' \<noteq> JStr ''pending''
              \<or> (get r ''state'' \<noteq> JStr ''submitted'' \<and> get r ''state'' \<noteq> JStr ''auth_required'')
          then Inl (runtime_error ''TASK_NOT_PENDING'' ''Task no longer awaits approval.'')
          else Inr (i, r)))"

definition session_ended :: "json \<Rightarrow> bool" where
  "session_ended session = one_of [''completed'', ''failed'', ''canceled'', ''expired''] (get session ''phase'')"

definition requireIncomingLongHorizon :: "(nat \<Rightarrow> string) \<Rightarrow> json list \<Rightarrow> string \<Rightarrow> int \<Rightarrow> (nat \<times> json) result" where
  "requireIncomingLongHorizon uuid rs taskId now =
     (if \<not> id_pattern 127 taskId then Inl (runtime_error ''TASK_INPUT_INVALID'' ''Task ID is invalid.'')
      else case find_index (incoming_task taskId) rs of
        None \<Rightarrow> Inl (runtime_error ''TASK_NOT_FOUND'' ''Long-horizon collaboration was not found.'')
      | Some i \<Rightarrow> (let r = rs ! i; session = get r ''longHorizon'' in
          if \<not> truthy session then Inl (runtime_error ''TASK_NOT_FOUND'' ''Long-horizon collaboration was not found.'')
          else if due_by (get session ''continuationExpiresAt'') now
          then rbind (expireRecord uuid r (iso now))
            (\<lambda>_. Inl (runtime_error ''TASK_EXPIRED'' ''The collaboration continuation lease has expired.''))
          else if session_ended session
          then Inl (runtime_error ''TASK_TERMINAL'' ''Long-horizon collaboration is already terminal.'')
          else Inr (i, r)))"

end
