(* ===== verification/Task_Service.thy ===== *)
theory Task_Service
  imports Task_Lifecycle Connection
begin

text \<open>
  The operations of the task service (\<open>lifecycle-sidecar/runtime/tasks/service.ts\<close>, class
  \<open>TaskTransportRuntime\<close>) that move tasks: sending, the messages that arrive from the peer, and the
  commands of the local user. Every operation loads the store, changes the records in memory and saves
  them, or leaves without saving; it is a function of the loaded state to an \<open>outcome\<close>, the state it saves,
  if any, and its answer or error. \<open>run\<close> composes an operation with the load and the save of the file. What
  an operation reads of the world is an argument: the account, the instant \<open>now\<close> of the operation, the
  identifiers it draws, the executor, the attachment store and the success of each message it sends.
\<close>

section \<open>State and outcomes\<close>

record task_store =
  ts_records :: "json list"
  ts_peers :: "json list"

definition task_store_of :: "json \<Rightarrow> task_store" where
  "task_store_of v = \<lparr>ts_records = items (get v ''records''), ts_peers = items (get v ''peers'')\<rparr>"

definition task_store_json :: "task_store \<Rightarrow> json" where
  "task_store_json s = JObj [(''schemaVersion'', jint 5), (''records'', JArr (ts_records s)), (''peers'', JArr (ts_peers s))]"

type_synonym 'a outcome = "task_store option \<times> 'a result"

definition fails :: "error \<Rightarrow> 'a outcome" where "fails e = (None, Inl e)"
definition returns :: "'a \<Rightarrow> 'a outcome" where "returns a = (None, Inr a)"
definition saves :: "task_store \<Rightarrow> 'a \<Rightarrow> 'a outcome" where "saves s a = (Some s, Inr a)"
definition saves_fails :: "task_store \<Rightarrow> error \<Rightarrow> 'a outcome" where "saves_fails s e = (Some s, Inl e)"

definition after :: "'b result \<Rightarrow> ('b \<Rightarrow> 'a outcome) \<Rightarrow> 'a outcome" where
  "after m f = (case m of Inl e \<Rightarrow> fails e | Inr x \<Rightarrow> f x)"

definition check :: "error option \<Rightarrow> 'a outcome \<Rightarrow> 'a outcome" where
  "check c m = (case c of None \<Rightarrow> m | Some e \<Rightarrow> fails e)"

definition run :: "(task_store \<Rightarrow> 'a outcome) \<Rightarrow> json_file \<Rightarrow> json_file \<times> 'a result" where
  "run op f = (case task_file_load f of
       Inl e \<Rightarrow> (f, Inl e)
     | Inr v \<Rightarrow> (case op (task_store_of v) of
         (None, r) \<Rightarrow> (f, r)
       | (Some s, r) \<Rightarrow> (case task_file_save (task_store_json s) f of Inl e \<Rightarrow> (f, Inl e) | Inr f' \<Rightarrow> (f', r))))"

lemma after_simps [simp]: "after (Inl e) f = fails e" "after (Inr x) f = f x"
  by (simp_all add: after_def)

lemma check_simps [simp]: "check None m = m" "check (Some e) m = fails e"
  by (simp_all add: check_def)

definition set_record :: "nat \<Rightarrow> json \<Rightarrow> task_store \<Rightarrow> task_store" where
  "set_record i r s = s\<lparr>ts_records := (ts_records s)[i := r]\<rparr>"

definition account_required :: error where
  "account_required = runtime_error ''TASK_ACCOUNT_REQUIRED'' ''A local Teti account is required.''"

definition with_account :: "string option \<Rightarrow> (string \<Rightarrow> 'a outcome) \<Rightarrow> 'a outcome" where
  "with_account account f = (case account of None \<Rightarrow> fails account_required | Some i \<Rightarrow> f i)"

text \<open>
  A message: its envelope, the connection it came over, the time of reception that the caller reports, and
  the transport's number of it.
\<close>

record message =
  m_envelope :: json
  m_connection :: json
  m_received :: json
  m_chatmail :: json

definition m_payload :: "message \<Rightarrow> json" where
  "m_payload m = get (m_envelope m) ''payload''"

definition received_at :: "message \<Rightarrow> int \<Rightarrow> json" where
  "received_at m now = iso (validTimestampOrNow (m_received m) now)"

definition inbound :: "message \<Rightarrow> string \<Rightarrow> error option" where
  "inbound m account = requireInboundTaskIdentity (m_envelope m) (m_connection m) account (m_payload m)"

definition outbound :: "message \<Rightarrow> string \<Rightarrow> error option" where
  "outbound m account = requireOutboundTaskIdentity (m_envelope m) (m_connection m) account (m_payload m)"

definition index_of_task :: "task_store \<Rightarrow> string \<Rightarrow> json \<Rightarrow> json \<Rightarrow> nat option" where
  "index_of_task s direction requesterTetiId taskId = find_index (is_task direction requesterTetiId taskId) (ts_records s)"

definition dependency_pending :: "string \<Rightarrow> error" where
  "dependency_pending message = runtime_error ''TASK_DEPENDENCY_PENDING'' message"

section \<open>Reading and marking\<close>

definition latestAvailableLongHorizonStageResultIndex :: "json \<Rightarrow> int" where
  "latestAvailableLongHorizonStageResultIndex r =
     (if \<not> long_horizon_task r then 0
      else foldl (\<lambda>latest entry. if has_artifact r (get entry ''artifactId'') then max latest (int_of (get entry ''stageIndex'')) else latest) 0
        (items (if incoming r then get (get r ''longHorizon'') ''artifacts'' else get r ''peerArtifactMetadata'')))"

definition viewed :: "json \<Rightarrow> json" where
  "viewed r =
     (let latest = latestAvailableLongHorizonStageResultIndex r;
          r1 = (if int_of (get r ''viewedStageResultIndex'') < latest then put r ''viewedStageResultIndex'' (jint latest) else r)
      in if int_of (get r1 ''viewedAttentionRevision'') < int_of (get r1 ''attentionRevision'')
         then put r1 ''viewedAttentionRevision'' (get r1 ''attentionRevision'') else r1)"

definition any_task :: "string \<Rightarrow> json \<Rightarrow> bool" where
  "any_task taskId r \<longleftrightarrow> get (get r ''request'') ''taskId'' = JStr taskId"

definition not_found :: error where
  "not_found = runtime_error ''TASK_NOT_FOUND'' ''Task was not found.''"

definition markAttentionViewed :: "string \<Rightarrow> task_store \<Rightarrow> json outcome" where
  "markAttentionViewed taskId s =
     (if \<not> id_pattern 127 taskId then fails (runtime_error ''TASK_INPUT_INVALID'' ''Task ID is invalid.'')
      else case find_index (any_task taskId) (ts_records s) of
        None \<Rightarrow> fails not_found
      | Some i \<Rightarrow> (let r = ts_records s ! i; r' = viewed r in
          if r' = r then returns r else saves (set_record i r' s) r'))"

definition observePeerVersions :: "json \<Rightarrow> json \<Rightarrow> json \<Rightarrow> task_store \<Rightarrow> unit outcome" where
  "observePeerVersions tetiId versions observedAt s =
     (if \<not> isCanonicalTetiPublicId tetiId then returns ()
      else check (validateTaskProtocolVersions versions)
        (if parsed observedAt = None then returns ()
         else saves (s\<lparr>ts_peers := rememberPeerVersions (ts_peers s) tetiId (items versions) observedAt False\<rparr>) ()))"

definition migrateLegacyLongHorizonAttention :: "json list \<Rightarrow> json list" where
  "migrateLegacyLongHorizonAttention rs = map (\<lambda>r.
     if \<not> long_horizon_task r \<or> get r ''attentionRevision'' \<noteq> JUndef then r
     else spread r [(''attentionRevision'', jint (if int_of (get r ''viewedStageResultIndex'') < latestAvailableLongHorizonStageResultIndex r
            then 1 else 0)), (''viewedAttentionRevision'', jint 0)]) rs"

section \<open>Sending\<close>

definition input_invalid :: "string \<Rightarrow> error" where
  "input_invalid message = runtime_error ''TASK_INPUT_INVALID'' message"

definition default_task_ttl_ms :: int where "default_task_ttl_ms = 3600000"

definition default_workspace :: json where
  "default_workspace = JObj [(''kind'', JStr ''temporary''), (''access'', JArr (map JStr [''read'', ''write'', ''create_artifact'']))]"

definition attachments_valid :: "json list \<Rightarrow> bool" where
  "attachments_valid parts \<longleftrightarrow> list_all (\<lambda>p. validateTaskImagePart p ''Task image part'' = None) parts
     \<and> distinct (map (\<lambda>p. get p ''attachmentId'') parts)"

definition send_checks :: "json \<Rightarrow> json \<Rightarrow> json list \<Rightarrow> json \<Rightarrow> json \<Rightarrow> error option list" where
  "send_checks inp ttl attachments workspace mode =
     [throw_if (\<not> is_string (get inp ''connectionRequestId'') \<or> trim (str_of (get inp ''connectionRequestId'')) = []
          \<or> 120 < length (str_of (get inp ''connectionRequestId'')))
        (input_invalid ''Task connection request ID is invalid.''),
      throw_if (get inp ''taskId'' \<noteq> JUndef \<and> \<not> id_pattern 127 (js_string (get inp ''taskId''))) (input_invalid ''Task ID is invalid.''),
      throw_if (get inp ''offerId'' \<noteq> JUndef \<and> \<not> id_pattern 127 (js_string (get inp ''offerId'')))
        (input_invalid ''Task offer ID is invalid.''),
      throw_if (\<not> is_string (get inp ''capabilityId'') \<or> 128 < length (str_of (get inp ''capabilityId''))
          \<or> \<not> slug_pattern (str_of (get inp ''capabilityId'')))
        (input_invalid ''Task Capability ID is invalid.''),
      throw_if (\<not> is_string (get inp ''text'') \<or> trim (str_of (get inp ''text'')) = []
          \<or> max_input_text_bytes < utf8_size (str_of (get inp ''text'')))
        (input_invalid ''Task text is invalid or too large.''),
      throw_if (\<not> safe_int_in 1 max_task_request_ttl_ms ttl) (input_invalid ''Task TTL is invalid.''),
      throw_if (\<not> is_array (or_else (get inp ''attachments'') (JArr [])) \<or> \<not> attachments_valid attachments)
        (input_invalid ''Task attachments are invalid.''),
      throw_if (4 < length attachments \<or> max_task_image_total_bytes < image_bytes attachments)
        (input_invalid ''Task attachments exceed the allowed size.''),
      throw_if (mode \<noteq> JStr ''single_stage'' \<and> mode \<noteq> JStr ''long_horizon'') (input_invalid ''Task execution mode is invalid.''),
      throw_if (mode = JStr ''long_horizon'' \<and> (attachments \<noteq> [] \<or> get inp ''capabilityId'' = JStr ''image-editing''))
        (runtime_error ''TASK_LONG_HORIZON_TEXT_ONLY''
          ''Long-horizon collaboration accepts text-only capabilities in Beta 0.4.0.''),
      throw_if (validateTaskWorkspaceRequest workspace \<noteq> None) (input_invalid ''Task Workspace request is invalid.'')]"

definition if_present :: "string \<Rightarrow> json \<Rightarrow> (string \<times> json) list" where
  "if_present k v = (if v = JUndef then [] else [(k, v)])"

definition validateSendInput :: "json \<Rightarrow> json result" where
  "validateSendInput inp =
     (let ttl = or_else (get inp ''ttlMs'') (jint default_task_ttl_ms); attachments = items (or_else (get inp ''attachments'') (JArr []));
          workspace = or_else (get inp ''workspace'') default_workspace;
          mode = or_else (get inp ''executionMode'') (JStr ''single_stage'') in
      guarded (first_err (throw_if (\<not> (is_record inp \<or> is_array inp)) (input_invalid ''Task input is invalid.'')
          # send_checks inp ttl attachments workspace mode))
        (Inr (JObj ([(''connectionRequestId'', JStr (trim (str_of (get inp ''connectionRequestId'')))),
            (''capabilityId'', get inp ''capabilityId''), (''text'', get inp ''text''), (''attachments'', JArr attachments),
            (''workspace'', workspace), (''ttlMs'', ttl), (''executionMode'', mode)]
          @ if_present ''taskId'' (get inp ''taskId'') @ if_present ''offerId'' (get inp ''offerId'')))))"

definition requireMatchingRetry :: "json \<Rightarrow> json \<Rightarrow> json \<Rightarrow> error option" where
  "requireMatchingRetry r connection inp = (let request = get r ''request'' in
     throw_if (get r ''peerTetiId'' \<noteq> get connection ''remoteTetiId''
         \<or> get request ''capabilityId'' \<noteq> get inp ''capabilityId''
         \<or> taskInputText (get request ''input'') \<noteq> get inp ''text''
         \<or> stringify (JArr (taskInputImages (get request ''input''))) \<noteq> stringify (get inp ''attachments'')
         \<or> stringify (get request ''workspace'') \<noteq> stringify (get inp ''workspace'')
         \<or> get request ''executionMode'' \<noteq> get inp ''executionMode''
         \<or> time_of (get request ''expiresAt'') - time_of (get request ''createdAt'') \<noteq> int_of (get inp ''ttlMs'')
         \<or> (get inp ''offerId'' \<noteq> JUndef \<and> get request ''offerId'' \<noteq> get inp ''offerId''))
       (runtime_error ''TASK_ID_CONFLICT'' ''The Task ID is already bound to different immutable content.''))"

definition taskInputForVersion :: "int \<Rightarrow> json \<Rightarrow> json list \<Rightarrow> json" where
  "taskInputForVersion version t attachments =
     (let part = [(''kind'', JStr ''text''), (''text'', t)] in
      if version = 1 then JObj part else JObj [(''kind'', JStr ''parts''), (''parts'', JArr (JObj part # attachments))])"

text \<open>
  The network of a send: the confirmed connection of the peer, if any, whether each image is handed over,
  and the answer of the transport to the request, the identifiers of the message or the safe code of the error.
\<close>

record network =
  n_connected :: bool
  n_image :: "json \<Rightarrow> bool"
  n_request :: "string + (json \<times> json)"

text \<open>The record after the images, and whether all that were due were handed over.\<close>

fun send_images :: "network \<Rightarrow> int \<Rightarrow> json list \<Rightarrow> json \<Rightarrow> json \<times> bool" where
  "send_images net now [] r = (r, True)"
| "send_images net now (part # parts) r =
     (if \<not> shouldSendAttachment r (get part ''attachmentId'') ''input'' now then send_images net now parts r
      else if \<not> n_image net part then (r, False)
      else (let i = get part ''attachmentId'';
                r1 = put r ''sentAttachmentIds'' (appendUnique (get r ''sentAttachmentIds'') i);
                r2 = (if 4 \<le> int_of (get r1 ''protocolVersion'')
                  then put r1 ''attachmentDeliveryAttempts''
                    (recordDeliveryAttempt ''attachmentId'' (get r1 ''attachmentDeliveryAttempts'') i now) else r1)
            in send_images net now parts (put (markAttachmentSent r2 ''input'' part (iso now)) ''updatedAt'' (iso now))))"

definition trySendInputAttachments :: "network \<Rightarrow> int \<Rightarrow> json \<Rightarrow> json \<times> bool" where
  "trySendInputAttachments net now r =
     (if \<not> outgoing r \<or> isTerminalTaskState (get r ''state'') \<or> due_by (get (get r ''request'') ''expiresAt'') now
      then (r, True) else send_images net now (taskInputImages (get (get r ''request'') ''input'')) r)"

definition send_failed :: "string \<Rightarrow> json \<Rightarrow> json \<Rightarrow> json" where
  "send_failed code timestamp r =
     recordApplicationDeliveryFailure
       (spread r [(''delivery'', JStr ''send_failed''), (''safeErrorCode'', JStr code)])
       ''request'' (get (get r ''request'') ''taskId'') code timestamp"

definition trySendStoredRecord :: "network \<Rightarrow> (nat \<Rightarrow> string) \<Rightarrow> int \<Rightarrow> json \<Rightarrow> json result" where
  "trySendStoredRecord net uuid now r =
     (if due_by (get (get r ''request'') ''expiresAt'') now then expireRecord uuid r (iso now)
      else if \<not> n_connected net
      then Inr (recordApplicationDeliveryFailure
        (spread r [(''delivery'', JStr ''send_failed''), (''safeErrorCode'', JStr ''TASK_CONNECTION_UNAVAILABLE''), (''updatedAt'', iso now)])
        ''request'' (get (get r ''request'') ''taskId'') ''TASK_CONNECTION_UNAVAILABLE'' (iso now))
      else (case trySendInputAttachments net now r of (r1, images) \<Rightarrow>
        Inr (put (if \<not> images then send_failed ''TASK_CHATMAIL_SEND_FAILED'' (iso now) r1
          else case n_request net of
            Inl code \<Rightarrow> send_failed code (iso now) r1
          | Inr (messageId, chatmailId) \<Rightarrow> del (spread r1 [(''delivery'', JStr ''sent''), (''envelopeMessageId'', messageId),
              (''chatmailMessageId'', chatmailId)]) [''safeErrorCode'']) ''updatedAt'' (iso now))))"

definition send_failure :: "json \<Rightarrow> error" where
  "send_failure r =
     (if get r ''safeErrorCode'' = JStr ''TASK_NETWORK_AUTHORIZATION_FAILED''
      then runtime_error ''TASK_NETWORK_AUTHORIZATION_FAILED'' ''Teti Network could not authorize this collaboration.''
      else runtime_error ''TASK_SEND_FAILED'' ''Chatmail could not queue the Task yet.'')"

definition sendStoredRecord :: "network \<Rightarrow> (nat \<Rightarrow> string) \<Rightarrow> int \<Rightarrow> nat \<Rightarrow> task_store \<Rightarrow> json outcome" where
  "sendStoredRecord net uuid now i s =
     after (trySendStoredRecord net uuid now (ts_records s ! i)) (\<lambda>r.
       if get r ''delivery'' = JStr ''send_failed'' then saves_fails (set_record i r s) (send_failure r)
       else saves (set_record i r s) r)"

definition send_request :: "int \<Rightarrow> string \<Rightarrow> json \<Rightarrow> json \<Rightarrow> json \<Rightarrow> int \<Rightarrow> json" where
  "send_request version account connection taskId inp now = JObj
     [(''schemaVersion'', jint version), (''taskId'', taskId), (''requesterTetiId'', JStr account),
      (''targetTetiId'', get connection ''remoteTetiId''),
      (''offerId'', or_else (get inp ''offerId'') (JStr (''capability:'' @ str_of (get inp ''capabilityId'')))),
      (''capabilityId'', get inp ''capabilityId''),
      (''input'', taskInputForVersion version (get inp ''text'') (items (get inp ''attachments''))),
      (''workspace'', get inp ''workspace''), (''executionMode'', get inp ''executionMode''),
      (''createdAt'', iso now), (''expiresAt'', iso (now + int_of (get inp ''ttlMs'')))]"

definition sent_record :: "int \<Rightarrow> json \<Rightarrow> json \<Rightarrow> json" where
  "sent_record version connection request = JObj
     [(''schemaVersion'', jint 1), (''direction'', JStr ''outgoing''), (''peerTetiId'', get connection ''remoteTetiId''),
      (''protocolVersion'', jint version), (''request'', request), (''state'', JStr ''submitted''),
      (''approval'', JStr ''pending''), (''delivery'', JStr ''queued''), (''createdAt'', get request ''createdAt''),
      (''updatedAt'', get request ''createdAt''), (''attachmentsReady'', JBool True),
      (''attachmentDiagnostics'', JArr (createAttachmentDiagnostics ''input'' (taskInputImages (get request ''input''))))]"

definition version_supports :: "json \<Rightarrow> int \<Rightarrow> error option" where
  "version_supports inp version = first_err
     [throw_if (items (get inp ''attachments'') \<noteq> [] \<and> version < 2)
        (runtime_error ''TASK_PEER_IMAGE_UNSUPPORTED'' ''The confirmed Teti has not advertised image Task support yet.''),
      throw_if (get inp ''capabilityId'' = JStr ''image-editing'' \<and> version < 3)
        (runtime_error ''TASK_PEER_IMAGE_RESULT_UNSUPPORTED'' ''The confirmed Teti has not advertised image result support yet.'')]"

definition send_new :: "(string \<Rightarrow> string \<Rightarrow> bool) \<Rightarrow> network \<Rightarrow> (nat \<Rightarrow> string) \<Rightarrow> int \<Rightarrow> string \<Rightarrow> json \<Rightarrow> json \<Rightarrow> json
    \<Rightarrow> task_store \<Rightarrow> json outcome" where
  "send_new le net uuid now account connection taskId inp s =
     (let remote = find_first (of_peer (get connection ''remoteTetiId'')) (ts_peers s) in
      case selectTaskProtocolVersion (map_option (\<lambda>p. items (get p ''supportedVersions'')) remote) of
        None \<Rightarrow> fails (runtime_error ''TASK_PEER_UNSUPPORTED'' ''The confirmed Teti does not support a compatible Task version.'')
      | Some version \<Rightarrow> check (version_supports inp version)
          (case ensureCapacity le now (ts_records s) of
             None \<Rightarrow> fails (runtime_error ''TASK_STORE_CAPACITY'' ''The local Task queue is full.'')
           | Some rs \<Rightarrow> (let request = send_request version account connection taskId inp now in
               check (validateCollaborationTaskRequest request)
                 (sendStoredRecord net uuid now (length rs) (s\<lparr>ts_records := rs @ [sent_record version connection request]\<rparr>)))))"

definition confirmed_connection :: "json list \<Rightarrow> json \<Rightarrow> json result" where
  "confirmed_connection connections requestId =
     (case find_first (\<lambda>c. get c ''requestId'' = requestId) connections of
        None \<Rightarrow> Inl (runtime_error ''TASK_CONNECTION_REQUIRED'' ''A Confirmed Teti connection is required.'')
      | Some c \<Rightarrow> if isTetiConnectionConfirmed c then Inr c
          else Inl (runtime_error ''TASK_CONNECTION_REQUIRED'' ''A Confirmed Teti connection is required.''))"

definition send_task :: "(string \<Rightarrow> string \<Rightarrow> bool) \<Rightarrow> network \<Rightarrow> (nat \<Rightarrow> nat \<Rightarrow> string) \<Rightarrow> string \<Rightarrow> int \<Rightarrow> string option
    \<Rightarrow> json list \<Rightarrow> json \<Rightarrow> task_store \<Rightarrow> json outcome" where
  "send_task le net uuids freshId now account connections inp s =
     after (validateSendInput inp) (\<lambda>normalized. with_account account (\<lambda>me.
     after (confirmed_connection connections (get normalized ''connectionRequestId'')) (\<lambda>connection.
     after (expireDueRecords uuids now (ts_records s)) (\<lambda>(rs, _).
       let s1 = s\<lparr>ts_records := rs\<rparr>; taskId = or_else (get normalized ''taskId'') (JStr freshId) in
       case find_index (is_task ''outgoing'' (JStr me) taskId) rs of
         Some i \<Rightarrow> check (requireMatchingRetry (rs ! i) connection normalized)
           (if one_of [''queued'', ''send_failed''] (get (rs ! i) ''delivery'')
            then sendStoredRecord net (uuids (length rs)) now i s1 else returns (rs ! i))
       | None \<Rightarrow> send_new le net (uuids (length rs)) now me connection taskId normalized s1))))"

end
