(* ===== verification/Task_Messages.thy ===== *)
theory Task_Messages
  imports Task_Service
begin

text \<open>
  What the task service does with the messages of the peer
  (\<open>lifecycle-sidecar/runtime/tasks/service.ts\<close>, the \<open>receive...\<close> methods of \<open>TaskTransportRuntime\<close>):
  requests and their receipts, status updates and application receipts, artifacts and their receipts, image
  attachments, cancellation and supplemental input.
\<close>

section \<open>Requests and receipts\<close>

definition future_dated :: "json \<Rightarrow> int \<Rightarrow> bool" where
  "future_dated v now \<longleftrightarrow> (case parsed v of None \<Rightarrow> False | Some t \<Rightarrow> now + task_clock_skew_ms < t)"

definition add_incoming :: "(string \<Rightarrow> string \<Rightarrow> bool) \<Rightarrow> string \<Rightarrow> int \<Rightarrow> message \<Rightarrow> string \<Rightarrow> json list \<Rightarrow> json list option result" where
  "add_incoming le eventId now m delivery rs =
     (case ensureCapacity le now rs of
        None \<Rightarrow> Inr None
      | Some rs' \<Rightarrow> rbind (incomingRecord eventId (m_envelope m) (m_connection m) (m_chatmail m)
            (validTimestampOrNow (m_received m) now) delivery) (\<lambda>r. Inr (Some (rs' @ [r]))))"

text \<open>
  The answer to a new request, which is also the delivery state of its record; and the status of a request with the
  records after it was stored. A request that finds no room is rejected without a record.
\<close>

definition admission :: "json \<Rightarrow> int \<Rightarrow> string" where
  "admission request now =
     (if get request ''schemaVersion'' \<notin> jint ` set supported_task_versions then ''rejected''
      else if future_dated (get request ''createdAt'') now then ''rejected''
      else if due_by (get request ''expiresAt'') now then ''expired'' else ''received'')"

definition admit_request :: "(string \<Rightarrow> string \<Rightarrow> bool) \<Rightarrow> string \<Rightarrow> int \<Rightarrow> message \<Rightarrow> json list \<Rightarrow> (string \<times> json list) result" where
  "admit_request le eventId now m rs =
     (let request = m_payload m in
      case findTaskRecord rs ''incoming'' (get request ''requesterTetiId'') (get request ''taskId'') of
        Some r \<Rightarrow> Inr (if canonicalTaskRequestJson (get r ''request'') = canonicalTaskRequestJson request
          then ''duplicate'' else ''conflict'', rs)
      | None \<Rightarrow> (let status = admission request now in
          rbind (add_incoming le eventId now m status rs) (\<lambda>added. Inr (case added of
            None \<Rightarrow> (if status = ''received'' then ''rejected'' else status, rs) | Some rs' \<Rightarrow> (status, rs')))))"

definition with_receipt :: "json \<Rightarrow> json \<Rightarrow> json \<Rightarrow> json" where
  "with_receipt receipt receivedAt r = spread r [(''receipt'', receipt), (''receiptPending'', JBool True), (''updatedAt'', receivedAt)]"

definition receiveRequest :: "(string \<Rightarrow> string \<Rightarrow> bool) \<Rightarrow> (nat \<Rightarrow> nat \<Rightarrow> string) \<Rightarrow> int \<Rightarrow> string option \<Rightarrow> message
    \<Rightarrow> task_store \<Rightarrow> json outcome" where
  "receiveRequest le uuids now account m s = with_account account (\<lambda>me.
     let request = m_payload m; requester = get request ''requesterTetiId''; receivedAt = received_at m now in
     check (first_err [validateCollaborationTaskRequest request, inbound m me])
       (after (expireDueRecords uuids now (ts_records s)) (\<lambda>(rs, _).
          let peers = rememberPeerVersions (ts_peers s) requester [get request ''schemaVersion''] receivedAt True in
          after (admit_request le (uuids (length rs) 0) now m rs) (\<lambda>(status, rs').
            let receipt = createReceipt request me status receivedAt in
            saves \<lparr>ts_records = (if status = ''conflict'' then rs'
                else update_first (is_task ''incoming'' requester (get request ''taskId'')) (with_receipt receipt receivedAt) rs'),
              ts_peers = peers\<rparr> receipt))))"

definition apply_receipt :: "(nat \<Rightarrow> string) \<Rightarrow> json \<Rightarrow> json \<Rightarrow> json \<Rightarrow> json result" where
  "apply_receipt uuid r receipt observedAt =
     (let previous = taskAttentionSnapshot r in
      rbind (applyReceipt uuid r receipt observedAt) (\<lambda>r1.
        case recoverApplicationDeliveryFailure r1 ''request'' (get (get r1 ''request'') ''taskId'') observedAt of
          (r2, recovered) \<Rightarrow> Inr (if recovered then r2 else markTaskAttentionIfChanged r2 previous)))"

definition is_receipt_of :: "json \<Rightarrow> json \<Rightarrow> bool" where
  "is_receipt_of receipt r \<longleftrightarrow> is_task ''outgoing'' (get receipt ''requesterTetiId'') (get receipt ''taskId'') r
     \<and> get (get r ''request'') ''targetTetiId'' = get receipt ''targetTetiId''"

definition receiveReceipt :: "(nat \<Rightarrow> string) \<Rightarrow> int \<Rightarrow> string option \<Rightarrow> message \<Rightarrow> task_store \<Rightarrow> unit outcome" where
  "receiveReceipt uuid now account m s = with_account account (\<lambda>me.
     let receipt = m_payload m; observedAt = received_at m now in
     check (first_err
       [throw_if (get (m_envelope m) ''fromTetiId'' \<noteq> get receipt ''targetTetiId''
            \<or> get (m_connection m) ''remoteTetiId'' \<noteq> get receipt ''targetTetiId''
            \<or> get receipt ''requesterTetiId'' \<noteq> JStr me)
          (identity_mismatch ''Task receipt identity binding is invalid.''),
        throw_if (future_dated (get receipt ''receivedAt'') now)
          (runtime_error ''TASK_CLOCK_SKEW'' ''Task receipt timestamp is too far in the future.'')])
     (let s1 = s\<lparr>ts_peers := rememberPeerVersions (ts_peers s) (get receipt ''targetTetiId'')
            (items (get receipt ''supportedTaskVersions'')) observedAt False\<rparr> in
      case find_index (is_receipt_of receipt) (ts_records s) of
        None \<Rightarrow> saves s1 ()
      | Some i \<Rightarrow> if shouldApplyReceipt (ts_records s ! i) receipt
          then after (apply_receipt uuid (ts_records s ! i) receipt observedAt) (\<lambda>r. saves (set_record i r s1) ())
          else saves s1 ()))"

definition markReceiptSent :: "int \<Rightarrow> json \<Rightarrow> json \<Rightarrow> task_store \<Rightarrow> unit outcome" where
  "markReceiptSent now taskId requesterTetiId s =
     (case index_of_task s ''incoming'' requesterTetiId taskId of
        None \<Rightarrow> returns ()
      | Some i \<Rightarrow> saves (set_record i (spread (ts_records s ! i) [(''receiptPending'', JBool False), (''updatedAt'', iso now)]) s) ())"

section \<open>Status and application receipts\<close>

definition status_mode_ok :: "json \<Rightarrow> json \<Rightarrow> bool" where
  "status_mode_ok r payload \<longleftrightarrow> (if long_horizon_task r then get payload ''schemaVersion'' = jint 2
     else get payload ''schemaVersion'' = jint 1)"

definition input_superseded :: "json \<Rightarrow> json \<Rightarrow> bool" where
  "input_superseded r status \<longleftrightarrow> truthy (get r ''inputPending'')
     \<and> (int_of (get (get r ''inputPending'') ''expectedStageIndex'') < int_of (get status ''currentStageIndex'')
        \<or> one_of [''completed'', ''failed'', ''canceled'', ''expired''] (get status ''phase''))"

definition approval_after :: "json \<Rightarrow> json \<Rightarrow> json" where
  "approval_after state approval =
     (if state = JStr ''rejected'' then JStr ''rejected''
      else if one_of [''working'', ''completed'', ''failed'', ''auth_required'', ''input_required''] state
        then JStr ''approved_once'' else approval)"

definition apply_status :: "json \<Rightarrow> json \<Rightarrow> json \<Rightarrow> json" where
  "apply_status r payload receivedAt =
     (let state = get payload ''state'';
          r1 = spread r [(''statusRevision'', get payload ''revision''), (''state'', state)];
          r2 = (if isTerminalTaskState state then clearCancelDeliveryState r1 else r1);
          r3 = spread r2 [(''approval'', approval_after state (get r2 ''approval'')), (''updatedAt'', receivedAt)];
          status = get payload ''longHorizon'';
          r4 = (if get payload ''schemaVersion'' = jint 2 \<and> truthy status \<and> long_horizon_task r
            then (let p = put r3 ''peerLongHorizon'' status in if input_superseded p status then drop_pending_input p else p)
            else r3)
      in if truthy (get payload ''safeErrorCode'') then put r4 ''safeErrorCode'' (get payload ''safeErrorCode'')
         else del r4 [''safeErrorCode''])"

definition receiveStatus :: "int \<Rightarrow> string option \<Rightarrow> message \<Rightarrow> task_store \<Rightarrow> json outcome" where
  "receiveStatus now account m s = with_account account (\<lambda>me.
     let payload = m_payload m; receivedAt = received_at m now in
     check (outbound m me)
       (case index_of_task s ''outgoing'' (JStr me) (get payload ''taskId'') of
          None \<Rightarrow> fails (dependency_pending ''Task status is waiting for its local Task record.'')
        | Some i \<Rightarrow> (let r = ts_records s ! i;
              receipt = createApplicationReceipt payload ''status'' (JStr (js_string (get payload ''revision''))) receivedAt in
            if \<not> status_mode_ok r payload
            then fails (runtime_error ''TASK_STATUS_MODE_CONFLICT'' ''Task status mode does not match its request.'')
            else if int_of (get payload ''revision'') \<le> int_of (get r ''statusRevision'')
                \<or> \<not> isRemoteTransitionAllowed (get r ''state'') (get payload ''state'')
            then saves (set_record i (enqueueApplicationReceipt r receipt) s) receipt
            else saves (set_record i (enqueueApplicationReceipt
                (markRemoteTaskAttentionIfChanged (apply_status r payload receivedAt) (taskAttentionSnapshot r)) receipt) s) receipt)))"

definition acknowledge_delivery :: "json \<Rightarrow> string \<Rightarrow> json \<Rightarrow> json \<Rightarrow> json" where
  "acknowledge_delivery r kind ref observedAt =
     (let r1 = removeApplicationDeliveryAttempt r kind ref;
          r2 = (if kind = ''status''
            then (let acked = max (int_of (get r1 ''statusAcknowledgedRevision'')) (case number_of ref of None \<Rightarrow> 0 | Some n \<Rightarrow> n) in
              spread r1 [(''statusAcknowledgedRevision'', jint acked),
                (''statusPending'', JBool (acked < int_of (get r1 ''statusRevision'')))])
            else if kind = ''input'' then put r1 ''inputAcknowledgedAt'' observedAt
            else put r1 ''cancelAcknowledgedAt'' observedAt)
      in put (fst (recoverApplicationDeliveryFailure r2 kind ref observedAt)) ''updatedAt'' observedAt)"

definition receiveApplicationReceipt :: "int \<Rightarrow> string option \<Rightarrow> message \<Rightarrow> task_store \<Rightarrow> unit outcome" where
  "receiveApplicationReceipt now account m s = with_account account (\<lambda>me.
     let receipt = m_payload m; kind = str_of (get receipt ''kind''); ref = get receipt ''referenceId'' in
     check (if kind = ''status'' then inbound m me else outbound m me)
       (case index_of_task s (if kind = ''status'' then ''incoming'' else ''outgoing'') (get receipt ''requesterTetiId'')
               (get receipt ''taskId'') of
          None \<Rightarrow> returns ()
        | Some i \<Rightarrow> if \<not> hasApplicationDeliveryReference (ts_records s ! i) kind ref then returns ()
            else saves (set_record i (acknowledge_delivery (ts_records s ! i) kind ref (received_at m now)) s) ()))"

definition receipt_sent :: "json \<Rightarrow> json \<Rightarrow> json" where
  "receipt_sent r receipt = put_items r ''applicationReceiptOutbox''
     (filter (\<lambda>c. applicationReceiptKey c \<noteq> applicationReceiptKey receipt) (items (get r ''applicationReceiptOutbox'')))"

definition markApplicationReceiptSent :: "json \<Rightarrow> task_store \<Rightarrow> unit outcome" where
  "markApplicationReceiptSent receipt s =
     (case index_of_task s (if get receipt ''kind'' = JStr ''status'' then ''outgoing'' else ''incoming'')
             (get receipt ''requesterTetiId'') (get receipt ''taskId'') of
        None \<Rightarrow> returns ()
      | Some i \<Rightarrow> saves (set_record i (receipt_sent (ts_records s ! i) receipt) s) ())"

section \<open>Artifacts\<close>

definition artifact_conflict :: "string \<Rightarrow> error" where
  "artifact_conflict message = runtime_error ''TASK_ARTIFACT_CONFLICT'' message"

definition named_artifact :: "json \<Rightarrow> json \<Rightarrow> json option" where
  "named_artifact r artifactId = find_first (\<lambda>a. get a ''artifactId'' = artifactId) (items (get r ''artifacts''))"

definition artifact_metadata :: "json \<Rightarrow> json \<Rightarrow> json" where
  "artifact_metadata payload artifactId = JObj
     [(''artifactId'', artifactId), (''stageIndex'', get payload ''stageIndex''), (''role'', get payload ''role''),
      (''createdAt'', get payload ''createdAt'')]"

definition add_artifact :: "json \<Rightarrow> json \<Rightarrow> json result" where
  "add_artifact r artifact =
     (case named_artifact r (get artifact ''artifactId'') of
        Some old \<Rightarrow> if stringify old \<noteq> stringify artifact
          then Inl (artifact_conflict ''Task Artifact conflicts with the stored result.'') else Inr r
      | None \<Rightarrow> if \<not> long_horizon_task r \<and> items (get r ''artifacts'') \<noteq> []
          then Inl (artifact_conflict ''A single-stage Task cannot publish more than one result Artifact.'')
          else Inr (put r ''artifacts'' (JArr (items (get r ''artifacts'') @ [artifact]))))"

definition add_metadata :: "json \<Rightarrow> json \<Rightarrow> json \<Rightarrow> json result" where
  "add_metadata r payload artifactId =
     (let old = items (get r ''peerArtifactMetadata''); entry = artifact_metadata payload artifactId in
      if get payload ''schemaVersion'' \<noteq> jint 2 then Inr r
      else case find_first (\<lambda>e. get e ''artifactId'' = artifactId) old of
        Some e \<Rightarrow> if stringify e \<noteq> stringify entry
          then Inl (artifact_conflict ''Task Artifact stage metadata conflicts with the stored result.'') else Inr r
      | None \<Rightarrow> Inr (put r ''peerArtifactMetadata'' (JArr (old @ [entry]))))"

definition store_artifact :: "attachment_store option \<Rightarrow> int \<Rightarrow> json \<Rightarrow> json \<Rightarrow> json \<Rightarrow> json \<Rightarrow> json \<Rightarrow> json result" where
  "store_artifact store now r payload artifactId artifact receivedAt =
     rbind (add_artifact r artifact) (\<lambda>r1.
     rbind (add_metadata r1 payload artifactId) (\<lambda>r2.
     let r3 = initializeAttachmentDiagnostics r2 ''artifact'' (taskArtifactImages artifact);
         r4 = put_ready ''artifactAttachmentsReady'' (areArtifactAttachmentsReady store now r3);
         r5 = completeOutgoingSingleStageFromVerifiedArtifact r4 receivedAt;
         r6 = (if named_artifact r (get artifact ''artifactId'') = None \<and> \<not> completes_from_artifact r4
           then markTaskAttention r5 ((change ''stage_completed'')\<lparr>ac_stage := get payload ''stageIndex'', ac_at := receivedAt\<rparr>)
           else r5)
     in Inr (put r6 ''updatedAt'' receivedAt)))"

definition receiveArtifact :: "attachment_store option \<Rightarrow> int \<Rightarrow> string option \<Rightarrow> message \<Rightarrow> task_store \<Rightarrow> unit outcome" where
  "receiveArtifact store now account m s = with_account account (\<lambda>me.
     let payload = m_payload m; artifact = get payload ''artifact'' in
     check (first_err [outbound m me, validateTaskArtifact artifact])
       (case index_of_task s ''outgoing'' (JStr me) (get payload ''taskId'') of
          None \<Rightarrow> if default_task_ttl_ms < now - time_of (get payload ''createdAt'') then returns ()
            else fails (dependency_pending ''Task Artifact is waiting for its local Task record.'')
        | Some i \<Rightarrow> (let r = ts_records s ! i in
            if one_of [''failed'', ''canceled'', ''rejected''] (get r ''state'') then returns ()
            else if \<not> status_mode_ok r payload
            then fails (runtime_error ''TASK_ARTIFACT_MODE_CONFLICT'' ''Task Artifact mode does not match its request.'')
            else if taskArtifactImages artifact \<noteq> [] \<and> int_of (get r ''protocolVersion'') < 3
            then fails (runtime_error ''TASK_ARTIFACT_UNSUPPORTED'' ''Peer sent image output without Task v3.'')
            else after (store_artifact store now r payload (get artifact ''artifactId'') artifact (received_at m now))
              (\<lambda>r'. saves (set_record i r' s) ()))))"

definition artifact_receipt :: "json \<Rightarrow> json \<Rightarrow> json" where
  "artifact_receipt payload receivedAt = JObj
     [(''schemaVersion'', jint 1), (''taskId'', get payload ''taskId''), (''requesterTetiId'', get payload ''requesterTetiId''),
      (''targetTetiId'', get payload ''targetTetiId''), (''artifactId'', get payload ''artifactId''),
      (''sha256'', get payload ''sha256''), (''receivedAt'', receivedAt)]"

text \<open>\<open>read\<close> is the document that the attachment store reads and verifies against the message.\<close>

definition receiveArtifactFile :: "attachment_store option \<Rightarrow> (json \<Rightarrow> json result) \<Rightarrow> int \<Rightarrow> string option \<Rightarrow> message \<Rightarrow> task_store
    \<Rightarrow> json outcome" where
  "receiveArtifactFile store read now account m s = with_account account (\<lambda>me.
     let payload = m_payload m in
     check (first_err [throw_if (store = None)
         (runtime_error ''TASK_ATTACHMENTS_UNAVAILABLE'' ''Task Artifact files are unavailable.''), outbound m me])
       (case index_of_task s ''outgoing'' (JStr me) (get payload ''taskId'') of
          None \<Rightarrow> if due_by (get payload ''expiresAt'') now
            then fails (runtime_error ''TASK_ARTIFACT_EXPIRED'' ''Task Artifact file has expired.'')
            else fails (dependency_pending ''Task Artifact file is waiting for its local Task record.'')
        | Some i \<Rightarrow> (let r = ts_records s ! i in
            if int_of (get r ''protocolVersion'') < 7
            then fails (runtime_error ''TASK_ARTIFACT_UNSUPPORTED'' ''Task Artifact files require Task v7.'')
            else after (read payload) (\<lambda>artifact.
              after (store_artifact store now r payload (get payload ''artifactId'') artifact (received_at m now)) (\<lambda>r'.
                saves (set_record i r' s) (artifact_receipt payload (received_at m now)))))))"

definition acknowledge_artifact :: "json \<Rightarrow> json \<Rightarrow> json \<Rightarrow> json" where
  "acknowledge_artifact r artifactId receivedAt =
     (let acked = appendUnique (get r ''acknowledgedArtifactIds'') artifactId in
      spread r [(''acknowledgedArtifactIds'', acked),
        (''artifactDeliveryAttempts'', removeDeliveryAttempt ''artifactId'' (get r ''artifactDeliveryAttempts'') artifactId),
        (''artifactPending'', JBool (list_ex (\<lambda>a. get a ''artifactId'' \<notin> set (items acked)) (items (get r ''artifacts'')))),
        (''updatedAt'', receivedAt)])"

text \<open>\<open>digest\<close> is the SHA-256 digest of a rendered artifact.\<close>

definition receiveArtifactReceipt :: "(string \<Rightarrow> json) \<Rightarrow> int \<Rightarrow> string option \<Rightarrow> message \<Rightarrow> task_store \<Rightarrow> unit outcome" where
  "receiveArtifactReceipt digest now account m s = with_account account (\<lambda>me.
     let receipt = m_payload m in
     check (inbound m me)
       (case index_of_task s ''incoming'' (get receipt ''requesterTetiId'') (get receipt ''taskId'') of
          None \<Rightarrow> returns ()
        | Some i \<Rightarrow> (let r = ts_records s ! i in
            if int_of (get r ''protocolVersion'') < 7 then returns ()
            else case named_artifact r (get receipt ''artifactId'') of
              None \<Rightarrow> fails (runtime_error ''TASK_ARTIFACT_RECEIPT_MISMATCH'' ''Task Artifact receipt is invalid.'')
            | Some a \<Rightarrow> if digest (stringify a) \<noteq> get receipt ''sha256''
                then fails (runtime_error ''TASK_ARTIFACT_RECEIPT_MISMATCH'' ''Task Artifact receipt is invalid.'')
                else saves (set_record i (acknowledge_artifact r (get receipt ''artifactId'') (received_at m now)) s) ())))"

section \<open>Image attachments\<close>

definition receipt_if_requested :: "json \<Rightarrow> json \<Rightarrow> json" where
  "receipt_if_requested payload receivedAt =
     (if truthy (get payload ''deliveryReceiptRequested'') then createAttachmentReceipt payload receivedAt else JNull)"

definition declares :: "json list \<Rightarrow> json \<Rightarrow> bool" where
  "declares images part = (case find_first (\<lambda>p. get p ''attachmentId'' = get part ''attachmentId'') images of
     None \<Rightarrow> False | Some p \<Rightarrow> sameImagePart p part)"

definition attachment_conflict :: "string \<Rightarrow> error" where
  "attachment_conflict message = runtime_error ''TASK_ATTACHMENT_CONFLICT'' message"

definition receive_artifact_image :: "attachment_store \<Rightarrow> int \<Rightarrow> string \<Rightarrow> message \<Rightarrow> task_store \<Rightarrow> json outcome" where
  "receive_artifact_image store now me m s = (let payload = m_payload m; part = get payload ''part''; receivedAt = received_at m now in
     check (outbound m me)
       (case index_of_task s ''outgoing'' (JStr me) (get payload ''taskId'') of
          None \<Rightarrow> fails (dependency_pending ''Task Artifact attachment is waiting for its local Task record.'')
        | Some i \<Rightarrow> (let r = ts_records s ! i; artifact = named_artifact r (get payload ''artifactId'');
              r1 = markAttachmentStored r ''artifact'' part receivedAt;
              r2 = (if artifact = None then r1
                else put_ready ''artifactAttachmentsReady'' (areArtifactAttachmentsReady (Some store) now r1)) in
            if int_of (get r ''protocolVersion'') < 3 \<or> one_of [''failed'', ''canceled'', ''rejected''] (get r ''state'')
            then returns JNull
            else if (case artifact of None \<Rightarrow> False | Some a \<Rightarrow> \<not> declares (taskArtifactImages a) part)
            then fails (attachment_conflict ''Task Artifact attachment does not match its immutable manifest.'')
            else check (at_ingest store) (saves (set_record i (put r2 ''updatedAt'' receivedAt) s)
              (receipt_if_requested payload receivedAt)))))"

definition receive_input_image :: "attachment_store \<Rightarrow> int \<Rightarrow> string \<Rightarrow> message \<Rightarrow> task_store \<Rightarrow> json outcome" where
  "receive_input_image store now me m s = (let payload = m_payload m; part = get payload ''part''; receivedAt = received_at m now in
     check (inbound m me)
       (case index_of_task s ''incoming'' (get payload ''requesterTetiId'') (get payload ''taskId'') of
          None \<Rightarrow> check (at_ingest store) (returns (receipt_if_requested payload receivedAt))
        | Some i \<Rightarrow> (let r = ts_records s ! i;
              r1 = put_ready ''attachmentsReady''
                (areInputAttachmentsReady (Some store) now (markAttachmentStored r ''input'' part receivedAt)) in
            if \<not> declares (taskInputImages (get (get r ''request'') ''input'')) part
            then fails (attachment_conflict ''Task attachment does not match the immutable request.'')
            else if isTerminalTaskState (get r ''state'')
            then returns (if at_has store (get payload ''taskId'') ''input'' part then receipt_if_requested payload receivedAt else JNull)
            else check (at_ingest store) (saves (set_record i (put r1 ''updatedAt'' receivedAt) s)
              (receipt_if_requested payload receivedAt)))))"

definition receiveAttachment :: "attachment_store option \<Rightarrow> int \<Rightarrow> string option \<Rightarrow> message \<Rightarrow> task_store \<Rightarrow> json outcome" where
  "receiveAttachment attachments now account m s =
     (case attachments of
        None \<Rightarrow> fails (runtime_error ''TASK_ATTACHMENTS_UNAVAILABLE'' ''Task image attachments are unavailable.'')
      | Some store \<Rightarrow> with_account account (\<lambda>me.
          if due_by (get (m_payload m) ''expiresAt'') now then returns JNull
          else if get (m_payload m) ''purpose'' = JStr ''artifact'' then receive_artifact_image store now me m s
          else receive_input_image store now me m s))"

definition has_image :: "json list \<Rightarrow> json \<Rightarrow> bool" where
  "has_image images i = list_ex (\<lambda>p. get p ''attachmentId'' = i) images"

definition receiveAttachmentReceipt :: "int \<Rightarrow> string option \<Rightarrow> message \<Rightarrow> task_store \<Rightarrow> unit outcome" where
  "receiveAttachmentReceipt now account m s = with_account account (\<lambda>me.
     let receipt = m_payload m; i = get receipt ''attachmentId''; from = get (m_envelope m) ''fromTetiId'';
         remote = get (m_connection m) ''remoteTetiId''; inp = (get receipt ''purpose'' = JStr ''input'') in
     case index_of_task s (if inp then ''outgoing'' else ''incoming'') (if inp then JStr me else get receipt ''requesterTetiId'')
            (get receipt ''taskId'') of
       None \<Rightarrow> returns ()
     | Some n \<Rightarrow> (let r = ts_records s ! n; request = get r ''request'' in
         if int_of (get r ''protocolVersion'') < 4 then returns ()
         else if inp then
           check (throw_if (from \<noteq> get receipt ''targetTetiId'' \<or> remote \<noteq> get receipt ''targetTetiId''
               \<or> get receipt ''requesterTetiId'' \<noteq> JStr me \<or> get request ''targetTetiId'' \<noteq> get receipt ''targetTetiId''
               \<or> \<not> has_image (taskInputImages (get request ''input'')) i)
             (identity_mismatch ''Task attachment receipt binding is invalid.''))
           (saves (set_record n (put (markAttachmentAcknowledged
               (spread r [(''acknowledgedAttachmentIds'', appendUnique (get r ''acknowledgedAttachmentIds'') i),
                  (''attachmentDeliveryAttempts'', removeDeliveryAttempt ''attachmentId'' (get r ''attachmentDeliveryAttempts'') i)])
               ''input'' i (get receipt ''receivedAt'')) ''updatedAt'' (received_at m now)) s) ())
         else
           check (throw_if (from \<noteq> get receipt ''requesterTetiId'' \<or> remote \<noteq> get receipt ''requesterTetiId''
               \<or> get receipt ''targetTetiId'' \<noteq> JStr me \<or> get request ''requesterTetiId'' \<noteq> get receipt ''requesterTetiId''
               \<or> (case named_artifact r (get receipt ''artifactId'') of None \<Rightarrow> True | Some a \<Rightarrow> \<not> has_image (taskArtifactImages a) i))
             (identity_mismatch ''Task Artifact receipt binding is invalid.''))
           (saves (set_record n (put (markAttachmentAcknowledged
               (spread r [(''acknowledgedArtifactAttachmentIds'', appendUnique (get r ''acknowledgedArtifactAttachmentIds'') i),
                  (''artifactAttachmentDeliveryAttempts'',
                   removeDeliveryAttempt ''attachmentId'' (get r ''artifactAttachmentDeliveryAttempts'') i)])
               ''artifact'' i (get receipt ''receivedAt'')) ''updatedAt'' (received_at m now)) s) ())))"

section \<open>Cancellation and supplemental input\<close>

definition cancel_session :: "string \<Rightarrow> string \<Rightarrow> string \<Rightarrow> json \<Rightarrow> (string \<times> json) list \<Rightarrow> json \<Rightarrow> json \<Rightarrow> json result" where
  "cancel_session eventId message actor stage code session timestamp =
     appendLongHorizonAudit eventId
       (spread session [(''phase'', JStr ''canceled''), (''progress'', task_progress ''canceled'' JNull JNull message timestamp)])
       ([(''action'', JStr ''canceled''), (''actor'', JStr actor), (''stageIndex'', stage)] @ code) timestamp"

text \<open>A record whose session, when it has one, is changed by a step that may throw.\<close>

definition with_session :: "(json \<Rightarrow> json result) \<Rightarrow> json \<Rightarrow> json result" where
  "with_session f r =
     (if truthy (get r ''longHorizon'')
      then rbind (f (get r ''longHorizon'')) (\<lambda>session. Inr (put r ''longHorizon'' session)) else Inr r)"

definition canceled_by_requester :: "json \<Rightarrow> json \<Rightarrow> json" where
  "canceled_by_requester r receivedAt =
     markTaskAttention (spread (bump_status (spread r [(''state'', JStr ''canceled''),
         (''approval'', if get r ''approval'' = JStr ''pending'' then JStr ''rejected'' else get r ''approval'')]))
       [(''updatedAt'', receivedAt), (''safeErrorCode'', JStr ''TASK_CANCELED_BY_REQUESTER'')]) (change ''canceled'')"

definition receiveCancel :: "string \<Rightarrow> int \<Rightarrow> string option \<Rightarrow> message \<Rightarrow> task_store \<Rightarrow> json outcome" where
  "receiveCancel eventId now account m s = with_account account (\<lambda>me.
     let payload = m_payload m; receivedAt = received_at m now;
         receipt = createApplicationReceipt payload ''control'' (get payload ''controlId'') receivedAt in
     check (inbound m me)
       (case index_of_task s ''incoming'' (get payload ''requesterTetiId'') (get payload ''taskId'') of
          None \<Rightarrow> fails (dependency_pending ''Task control is waiting for its local Task record.'')
        | Some i \<Rightarrow> (let r = ts_records s ! i in
            if isTerminalTaskState (get r ''state'') then saves (set_record i (enqueueApplicationReceipt r receipt) s) receipt
            else after (with_session (\<lambda>session. cancel_session eventId ''The requester canceled the collaboration'' ''remote_peer''
                  (or_null (get session ''currentStageIndex'')) [] session receivedAt) (canceled_by_requester r receivedAt))
              (\<lambda>r'. saves (set_record i (enqueueApplicationReceipt r' receipt) s) receipt))))"

definition maximum_inputs :: int where "maximum_inputs = 15"

definition input_received :: "json \<Rightarrow> json \<Rightarrow> bool" where
  "input_received session inputId \<longleftrightarrow>
     list_ex (\<lambda>e. get e ''action'' = JStr ''input_received'' \<and> get e ''inputId'' = inputId) (items (get session ''audit''))"

definition accept_input :: "(string \<Rightarrow> json) \<Rightarrow> string \<Rightarrow> json \<Rightarrow> json \<Rightarrow> json \<Rightarrow> json result" where
  "accept_input digest eventId session payload receivedAt =
     appendLongHorizonAudit eventId
       (put session ''pendingInput'' (JObj [(''inputId'', get payload ''inputId''), (''instruction'', get payload ''instruction''),
          (''instructionDigest'', digest (str_of (get payload ''instruction''))), (''source'', JStr ''remote_requester''),
          (''createdAt'', get payload ''createdAt'')]))
       [(''action'', JStr ''input_received''), (''actor'', JStr ''remote_peer''), (''stageIndex'', get session ''currentStageIndex''),
        (''inputId'', get payload ''inputId'')] receivedAt"

definition input_not_required :: error where
  "input_not_required = runtime_error ''TASK_INPUT_NOT_REQUIRED'' ''The collaboration is not waiting for input.''"

definition continuation_expired :: error where
  "continuation_expired = runtime_error ''TASK_EXPIRED'' ''The collaboration continuation lease has expired.''"

definition input_limit :: error where
  "input_limit = runtime_error ''TASK_STAGE_LIMIT'' ''The collaboration reached its bounded supplemental-instruction limit.''"

text \<open>The branch in which the record waits for input.\<close>

definition receive_input_at :: "(string \<Rightarrow> json) \<Rightarrow> (nat \<Rightarrow> string) \<Rightarrow> int \<Rightarrow> json \<Rightarrow> json \<Rightarrow> json \<Rightarrow> nat \<Rightarrow> task_store \<Rightarrow> json outcome" where
  "receive_input_at digest uuid now payload receipt receivedAt i s =
     (let r = ts_records s ! i; session = get r ''longHorizon''; stage = get session ''currentStageIndex'' in
      if due_by (get session ''continuationExpiresAt'') now
      then after (expireRecord uuid r (iso now)) (\<lambda>r'. saves_fails (set_record i r' s) continuation_expired)
      else if maximum_inputs \<le> int_of stage - 1 then fails input_limit
      else if get payload ''expectedStageIndex'' \<noteq> stage
      then fails (runtime_error ''TASK_INPUT_STAGE_CONFLICT'' ''Supplemental input targets a stale stage.'')
      else if get (get session ''pendingInput'') ''inputId'' = get payload ''inputId''
      then saves (set_record i (enqueueApplicationReceipt r receipt) s) receipt
      else if truthy (get session ''pendingInput'')
      then fails (runtime_error ''TASK_INPUT_CONFLICT'' ''Another supplemental input is already pending.'')
      else after (accept_input digest (uuid 0) session payload receivedAt) (\<lambda>session'.
        saves (set_record i (enqueueApplicationReceipt (markTaskAttention
            (spread r [(''longHorizon'', put session' ''updatedAt'' receivedAt), (''updatedAt'', receivedAt)])
            ((change ''input_received'')\<lparr>ac_stage := stage\<rparr>)) receipt) s) receipt))"

definition receiveLongHorizonInput :: "(string \<Rightarrow> json) \<Rightarrow> (nat \<Rightarrow> string) \<Rightarrow> int \<Rightarrow> string option \<Rightarrow> message \<Rightarrow> task_store
    \<Rightarrow> json outcome" where
  "receiveLongHorizonInput digest uuid now account m s = with_account account (\<lambda>me.
     let payload = m_payload m; receivedAt = received_at m now;
         receipt = createApplicationReceipt payload ''input'' (get payload ''inputId'') receivedAt in
     check (inbound m me)
       (case index_of_task s ''incoming'' (get payload ''requesterTetiId'') (get payload ''taskId'') of
          None \<Rightarrow> fails input_not_required
        | Some i \<Rightarrow> (let r = ts_records s ! i; session = get r ''longHorizon'' in
            if truthy session \<and> input_received session (get payload ''inputId'')
            then saves (set_record i (enqueueApplicationReceipt r receipt) s) receipt
            else if \<not> truthy session \<or> get r ''state'' \<noteq> JStr ''input_required''
                \<or> \<not> one_of [''input_required'', ''paused''] (get session ''phase'')
            then fails input_not_required
            else receive_input_at digest uuid now payload receipt receivedAt i s)))"

end
