(* ===== verification/Task_Commands.thy ===== *)
theory Task_Commands
  imports Task_Messages
begin

text \<open>
  What the local user does with a task (\<open>lifecycle-sidecar/runtime/tasks/service.ts\<close>): reject and cancel,
  the commands of a long-horizon collaboration, and the approval that binds a Workspace and starts an
  execution. The messages that a command sends after its save are the business of the outbox.
\<close>

section \<open>Reject and cancel\<close>

definition reject_task :: "(nat \<Rightarrow> string) \<Rightarrow> int \<Rightarrow> string \<Rightarrow> task_store \<Rightarrow> json outcome" where
  "reject_task uuid now taskId s =
     after (requireMutableIncomingTask uuid (ts_records s) taskId now) (\<lambda>(i, r).
       let code = JStr ''TASK_REJECTED_BY_USER'';
           r1 = spread (bump_status (spread r [(''approval'', JStr ''rejected''), (''state'', JStr ''rejected'')]))
             [(''safeErrorCode'', code), (''updatedAt'', iso now)] in
       after (with_session (\<lambda>session. cancel_session (uuid 0) ''The receiver rejected the collaboration'' ''local_user'' JNull
           [(''safeErrorCode'', code)] session (iso now)) r1) (\<lambda>r2.
         let r3 = markTaskAttention r2 ((change ''rejected'')\<lparr>ac_code := code\<rparr>) in saves (set_record i r3 s) r3))"

definition cancel_incoming :: "(nat \<Rightarrow> string) \<Rightarrow> int \<Rightarrow> json \<Rightarrow> json result" where
  "cancel_incoming uuid now r =
     (let code = ''TASK_CANCELED_BY_USER'';
          r1 = put (bump_status (put r ''state'' (JStr ''canceled''))) ''safeErrorCode'' (JStr code) in
      rbind (with_session (\<lambda>session. cancel_session (uuid 0) ''The collaboration was canceled'' ''local_user''
          (or_null (get session ''currentStageIndex'')) [] session (iso now)) r1) (\<lambda>r2.
      rbind (if truthy (get r2 ''delegationPlan'')
             then rbind (cancel_plan (uuid 1) ''local_user'' code (get r2 ''delegationPlan'') (iso now))
               (\<lambda>plan. Inr (put r2 ''delegationPlan'' plan)) else Inr r2) (\<lambda>r3.
      Inr (markTaskAttention (put r3 ''updatedAt'' (iso now)) ((change ''canceled'')\<lparr>ac_code := JStr code\<rparr>)))))"

definition cancel_outgoing :: "string \<Rightarrow> int \<Rightarrow> json \<Rightarrow> json" where
  "cancel_outgoing controlId now r =
     (let r1 = (if truthy (get r ''cancelPending'') then r
        else removeApplicationDeliveryState
          (del (spread r [(''cancelControlId'', JStr controlId), (''cancelRequestedAt'', iso now)]) [''cancelAcknowledgedAt''])
          ''control'')
      in markTaskAttention (spread r1 [(''cancelPending'', JBool True), (''updatedAt'', iso now)]) (change ''cancel_requested''))"

definition cancel_task :: "(nat \<Rightarrow> string) \<Rightarrow> int \<Rightarrow> string \<Rightarrow> task_store \<Rightarrow> json outcome" where
  "cancel_task uuid now taskId s =
     (case find_index (any_task taskId) (ts_records s) of
        None \<Rightarrow> fails not_found
      | Some i \<Rightarrow> (let r = ts_records s ! i in
          if isTerminalTaskState (get r ''state'') then returns r
          else after (if incoming r then cancel_incoming uuid now r else Inr (cancel_outgoing (uuid 0) now r))
            (\<lambda>r'. saves (set_record i r' s) r')))"

section \<open>Long-horizon collaboration\<close>

definition outgoing_task :: "string \<Rightarrow> json \<Rightarrow> bool" where
  "outgoing_task taskId r \<longleftrightarrow> outgoing r \<and> get (get r ''request'') ''taskId'' = JStr taskId"

definition supplemental_input :: "string \<Rightarrow> int \<Rightarrow> string \<Rightarrow> string \<Rightarrow> json \<Rightarrow> json" where
  "supplemental_input inputId now taskId instruction r = JObj
     [(''schemaVersion'', jint 1), (''taskId'', JStr taskId), (''requesterTetiId'', get (get r ''request'') ''requesterTetiId''),
      (''targetTetiId'', get (get r ''request'') ''targetTetiId''), (''inputId'', JStr inputId),
      (''expectedStageIndex'', get (get r ''peerLongHorizon'') ''currentStageIndex''), (''instruction'', JStr instruction),
      (''createdAt'', iso now)]"

definition submitLongHorizonInput :: "(nat \<Rightarrow> string) \<Rightarrow> int \<Rightarrow> string \<Rightarrow> string \<Rightarrow> task_store \<Rightarrow> json outcome" where
  "submitLongHorizonInput uuid now taskId instruction s =
     (case find_index (outgoing_task taskId) (ts_records s) of
        None \<Rightarrow> fails input_not_required
      | Some i \<Rightarrow> (let r = ts_records s ! i; peer = get r ''peerLongHorizon''; t = trim instruction in
          if \<not> truthy peer \<or> get r ''state'' \<noteq> JStr ''input_required'' then fails input_not_required
          else if t = [] \<or> maximum_instruction_bytes < utf8_size t
          then fails (input_invalid ''Supplemental instruction is invalid or too large.'')
          else if due_by (get peer ''continuationExpiresAt'') now
          then after (expireRecord uuid r (iso now)) (\<lambda>r'. saves_fails (set_record i r' s) continuation_expired)
          else if maximum_inputs \<le> int_of (get peer ''currentStageIndex'') - 1 then fails input_limit
          else if truthy (get r ''inputPending'')
          then fails (runtime_error ''TASK_INPUT_PENDING'' ''A supplemental instruction is already pending delivery.'')
          else (let r' = put (removeApplicationDeliveryState
                    (del (put r ''inputPending'' (supplemental_input (uuid 0) now taskId t r)) [''inputSentAt'', ''inputAcknowledgedAt''])
                    ''input'') ''updatedAt'' (iso now)
                in saves (set_record i r' s) r')))"

definition stage_or_absent :: "json \<Rightarrow> json" where
  "stage_or_absent session = (if 0 < int_of (get session ''currentStageIndex'') then get session ''currentStageIndex'' else JUndef)"

definition pause_session :: "string \<Rightarrow> json \<Rightarrow> json \<Rightarrow> json result" where
  "pause_session eventId session timestamp =
     (let entry = (\<lambda>action. [(''action'', JStr action), (''actor'', JStr ''local_user''), (''stageIndex'', get session ''currentStageIndex'')]) in
      rbind (if get session ''phase'' = JStr ''working''
             then appendLongHorizonAudit eventId (put session ''pauseRequested'' (JBool True)) (entry ''pause_requested'') timestamp
             else if get session ''phase'' = JStr ''input_required''
             then appendLongHorizonAudit eventId (put session ''phase'' (JStr ''paused'')) (entry ''paused'') timestamp
             else if get session ''phase'' \<noteq> JStr ''paused''
             then Inl (runtime_error ''TASK_PAUSE_UNAVAILABLE'' ''The collaboration cannot be paused now.'')
             else Inr session)
        (\<lambda>session'. Inr (put session' ''updatedAt'' timestamp)))"

definition pauseLongHorizon :: "(nat \<Rightarrow> string) \<Rightarrow> int \<Rightarrow> string \<Rightarrow> task_store \<Rightarrow> json outcome" where
  "pauseLongHorizon uuid now taskId s =
     after (requireIncomingLongHorizon uuid (ts_records s) taskId now) (\<lambda>(i, r).
     after (pause_session (uuid 0) (get r ''longHorizon'') (iso now)) (\<lambda>session.
       let r1 = put (bump_status (put r ''longHorizon'' session)) ''updatedAt'' (iso now);
           r2 = setLatestTaskChange r1
             ((change (if get session ''phase'' = JStr ''paused'' then ''paused'' else ''pause_requested''))\<lparr>ac_stage := stage_or_absent session\<rparr>)
       in saves (set_record i r2 s) r2))"

definition complete_session :: "string \<Rightarrow> json \<Rightarrow> json \<Rightarrow> json result" where
  "complete_session eventId session timestamp =
     (let artifacts = items (get session ''artifacts''); final = last artifacts; stage = get session ''currentStageIndex'' in
      appendLongHorizonAudit eventId
        (spread session [(''artifacts'', JArr (butlast artifacts @ [put final ''role'' (JStr ''final'')])),
           (''phase'', JStr ''completed''), (''inputRequest'', JNull),
           (''progress'', task_progress ''completed'' stage stage ''The collaboration is complete'' timestamp)])
        [(''action'', JStr ''completed''), (''actor'', JStr ''local_user''), (''stageIndex'', stage),
         (''artifactId'', get final ''artifactId''), (''workspaceRevision'', get session ''workspaceRevision'')] timestamp)"

definition at_stage_boundary :: "json \<Rightarrow> bool" where
  "at_stage_boundary session = one_of [''input_required'', ''paused''] (get session ''phase'')"

definition completeLongHorizon :: "(nat \<Rightarrow> string) \<Rightarrow> int \<Rightarrow> string \<Rightarrow> task_store \<Rightarrow> json outcome" where
  "completeLongHorizon uuid now taskId s =
     after (requireIncomingLongHorizon uuid (ts_records s) taskId now) (\<lambda>(i, r).
       let session = get r ''longHorizon'' in
       if \<not> at_stage_boundary session \<or> truthy (get session ''pendingInput'') \<or> items (get session ''artifacts'') = []
       then fails (runtime_error ''TASK_COMPLETE_UNAVAILABLE'' ''The collaboration cannot be completed now.'')
       else after (complete_session (uuid 0) session (iso now)) (\<lambda>session'.
         let r' = markTaskAttention (del (put (bump_status (spread r [(''longHorizon'', session'), (''state'', JStr ''completed'')]))
               ''updatedAt'' (iso now)) [''safeErrorCode'']) ((change ''completed'')\<lparr>ac_stage := get session ''currentStageIndex''\<rparr>)
         in saves (set_record i r' s) r'))"

definition maximum_renewal_ms :: int where "maximum_renewal_ms = 86400000"
definition maximum_lifetime_ms :: int where "maximum_lifetime_ms = 604800000"

definition renewal_limit :: "string \<Rightarrow> error" where
  "renewal_limit message = runtime_error ''TASK_RENEWAL_LIMIT'' message"

definition renewLongHorizon :: "(nat \<Rightarrow> string) \<Rightarrow> int \<Rightarrow> string \<Rightarrow> json \<Rightarrow> task_store \<Rightarrow> json outcome" where
  "renewLongHorizon uuid now taskId ttlMs s =
     after (requireIncomingLongHorizon uuid (ts_records s) taskId now) (\<lambda>(i, r).
       let session = get r ''longHorizon'';
           nextExpiry = max now (time_of (get session ''continuationExpiresAt'')) + int_of ttlMs in
       if \<not> at_stage_boundary session
       then fails (runtime_error ''TASK_RENEWAL_UNAVAILABLE'' ''A collaboration can be renewed only at a stage boundary.'')
       else if \<not> safe_int_in 60000 maximum_renewal_ms ttlMs \<or> maximum_renewals \<le> int_of (get session ''renewalCount'')
       then fails (renewal_limit ''Task renewal exceeds the bounded policy.'')
       else if time_of (get (get r ''request'') ''createdAt'') + maximum_lifetime_ms < nextExpiry
       then fails (renewal_limit ''Task renewal would exceed the bounded collaboration lifetime.'')
       else after (appendLongHorizonAudit (uuid 0)
           (spread session [(''continuationExpiresAt'', iso nextExpiry),
              (''renewalCount'', jint (int_of (get session ''renewalCount'') + 1))])
           [(''action'', JStr ''renewed''), (''actor'', JStr ''local_user''), (''stageIndex'', or_null (get session ''currentStageIndex''))]
           (iso now)) (\<lambda>session'.
         let r' = setLatestTaskChange (put (bump_status (put r ''longHorizon'' session')) ''updatedAt'' (iso now))
               ((change ''renewed'')\<lparr>ac_stage := stage_or_absent session\<rparr>)
         in saves (set_record i r' s) r'))"

section \<open>Approval\<close>

definition local_text_compute_offer :: string where
  "local_text_compute_offer = ''local.compute.general-text-assistance.v1''"

definition default_access :: json where
  "default_access = JArr (map JStr [''read'', ''write'', ''create_artifact''])"

definition workspace_binding :: "json \<Rightarrow> json \<Rightarrow> json \<Rightarrow> json \<Rightarrow> json" where
  "workspace_binding workspaceId revision mode access = JObj
     [(''workspaceId'', workspaceId), (''workspaceRevision'', revision), (''mode'', mode), (''access'', access)]"

text \<open>
  The Workspace store, when there is one: the Workspace it creates for an owner, participants, a mode and
  a retention policy, and the Workspace of an identifier.
\<close>

record workspace_store =
  ws_create :: "string \<Rightarrow> json \<Rightarrow> string \<Rightarrow> json \<Rightarrow> json result"
  ws_get :: "json \<Rightarrow> json option"

definition store_binding :: "json \<Rightarrow> json \<Rightarrow> json" where
  "store_binding workspace access =
     workspace_binding (get workspace ''workspaceId'') (get workspace ''revision'') (get workspace ''mode'') access"

definition reference_binding :: "workspace_store \<Rightarrow> json \<Rightarrow> json \<Rightarrow> string \<Rightarrow> json result" where
  "reference_binding store request ws me =
     (case ws_get store (get ws ''workspaceId'') of
        None \<Rightarrow> Inl (runtime_error ''TASK_WORKSPACE_REVISION_UNAVAILABLE''
          ''The confirmed Collaboration Workspace revision is unavailable.'')
      | Some workspace \<Rightarrow>
          if get workspace ''revision'' \<noteq> get ws ''workspaceRevision''
          then Inl (runtime_error ''TASK_WORKSPACE_REVISION_UNAVAILABLE''
            ''The confirmed Collaboration Workspace revision is unavailable.'')
          else (let members = get workspace ''ownerTetiId'' # items (get workspace ''participantTetiIds'') in
            if JStr me \<notin> set members \<or> get request ''requesterTetiId'' \<notin> set members
            then Inl (runtime_error ''TASK_WORKSPACE_ACCESS_DENIED''
              ''The Collaboration Workspace is not confirmed for both Tetis.'')
            else Inr (store_binding workspace (get ws ''access''))))"

definition temporary_binding :: "workspace_store \<Rightarrow> int \<Rightarrow> json \<Rightarrow> json \<Rightarrow> string \<Rightarrow> json result" where
  "temporary_binding store now request ws me =
     (if get request ''executionMode'' = JStr ''long_horizon''
      then rbind (ws_create store me (get request ''requesterTetiId'') ''durable_collaboration'' (JObj [(''kind'', JStr ''retain'')]))
        (\<lambda>workspace. Inr (store_binding workspace (get ws ''access'')))
      else rbind (ws_create store me (get request ''requesterTetiId'') ''ephemeral_task''
          (JObj [(''kind'', JStr ''ttl''), (''expiresAt'', iso (min (time_of (get request ''expiresAt'')) (now + 86400000)))]))
        (\<lambda>workspace. Inr (store_binding workspace (get ws ''access''))))"

definition resolveWorkspaceBinding :: "workspace_store option \<Rightarrow> int \<Rightarrow> json \<Rightarrow> string \<Rightarrow> json result" where
  "resolveWorkspaceBinding store now request me =
     (if get request ''offerId'' = JStr local_text_compute_offer
      then if get (get request ''workspace'') ''kind'' = JStr ''reference''
        then Inl (runtime_error ''TASK_COMPUTE_WORKSPACE_UNSUPPORTED''
          ''Receiver-local compute cannot access a Collaboration Workspace.'')
        else Inr (workspace_binding (JStr (''workspace:none.'' @ js_string (get request ''taskId''))) (jint 1)
          (JStr ''ephemeral_task'') (JArr [JStr ''read'']))
      else case store of
        None \<Rightarrow> Inr (workspace_binding (JStr (''workspace:'' @ js_string (get request ''taskId''))) (jint 1)
          (JStr (if get request ''executionMode'' = JStr ''long_horizon'' then ''durable_collaboration'' else ''ephemeral_task''))
          (or_else (get (get request ''workspace'') ''access'') default_access))
      | Some store \<Rightarrow> (let ws = or_else (get request ''workspace'') default_workspace in
          if get ws ''kind'' = JStr ''temporary'' then temporary_binding store now request ws me
          else reference_binding store request ws me))"

definition execution_grant_ttl_ms :: int where "execution_grant_ttl_ms = 120000"

text \<open>\<open>execution\<close> is the request to the agent when the grant is for one stage; \<open>digest\<close> is the SHA-256 digest.\<close>

definition createExecutionGrant :: "(string \<Rightarrow> json) \<Rightarrow> string \<Rightarrow> int \<Rightarrow> json \<Rightarrow> json \<Rightarrow> json \<Rightarrow> json option \<Rightarrow> json \<Rightarrow> json" where
  "createExecutionGrant digest grantId now request target binding execution access = JObj
     [(''schemaVersion'', jint 2), (''grantId'', JStr grantId),
      (''taskId'', case execution of None \<Rightarrow> get request ''taskId'' | Some e \<Rightarrow> or_else (get e ''taskId'') (get request ''taskId'')),
      (''requesterTetiId'', get request ''requesterTetiId''),
      (''capabilityId'', case execution of None \<Rightarrow> get request ''capabilityId''
         | Some e \<Rightarrow> or_else (get e ''capabilityId'') (get request ''capabilityId'')),
      (''agentId'', get target ''childAgentId''), (''adapterId'', get target ''connectorId''),
      (''inputDigest'', case execution of None \<Rightarrow> digest (canonicalTaskRequestJson request)
         | Some e \<Rightarrow> digest (stringify (get e ''input''))),
      (''issuedAt'', iso now), (''expiresAt'', iso (now + execution_grant_ttl_ms)), (''singleUse'', JBool True),
      (''workspaceId'', get binding ''workspaceId''), (''workspaceRevision'', get binding ''workspaceRevision''),
      (''workspaceAccess'', access), (''userFileAccess'', JStr ''none''),
      (''commandPolicy'', JStr ''fixed_adapter_entrypoint''), (''networkPolicy'', JStr ''agent_managed'')]"

text \<open>
  What an approval reads of the world: the network's authorisation of the peer, the attachment store, the
  executor with the target it resolves for an offer, a capability and input modes and the handle it
  prepares, the Workspace store and the digest. A field that is \<open>None\<close> is a part that is not there.
\<close>

record approval_env =
  ap_authorize :: "json \<Rightarrow> error option"
  ap_attachments :: "attachment_store option"
  ap_executor :: bool
  ap_target :: "json \<Rightarrow> json \<Rightarrow> string list \<Rightarrow> json option"
  ap_prepare :: "(json \<Rightarrow> json result) option"
  ap_workspace :: "workspace_store option"
  ap_digest :: "string \<Rightarrow> json"

definition input_modes :: "json \<Rightarrow> string list" where
  "input_modes r = (if taskInputImages (get (get r ''request'') ''input'') \<noteq> [] then [''text'', ''image''] else [''text''])"

definition resolved_target :: "approval_env \<Rightarrow> json \<Rightarrow> json option" where
  "resolved_target env r = ap_target env (get (get r ''request'') ''offerId'') (get (get r ''request'') ''capabilityId'') (input_modes r)"

definition images_pending :: "string \<Rightarrow> error" where
  "images_pending message = runtime_error ''TASK_ATTACHMENTS_PENDING'' message"

definition images_available :: "attachment_store option \<Rightarrow> json \<Rightarrow> bool" where
  "images_available attachments r \<longleftrightarrow> (case attachments of
       None \<Rightarrow> taskInputImages (get (get r ''request'') ''input'') = []
     | Some store \<Rightarrow> list_all (at_has store (get (get r ''request'') ''taskId'') ''input'') (taskInputImages (get (get r ''request'') ''input'')))"

text \<open>The checks of an approval before the Workspace is bound, in the order of the code, and the target.\<close>

definition approval_target :: "approval_env \<Rightarrow> int \<Rightarrow> json \<Rightarrow> json result" where
  "approval_target env now r =
     guarded (first_err
       [ap_authorize env (get r ''peerTetiId''),
        throw_if (\<not> snd (areInputAttachmentsReady (ap_attachments env) now r)) (images_pending ''Task images have not finished downloading.''),
        throw_if (\<not> ap_executor env) (runtime_error ''TASK_EXECUTOR_UNAVAILABLE'' ''No callable Agent Runtime is available.'')])
     (case resolved_target env r of
        None \<Rightarrow> Inl (runtime_error ''TASK_CAPABILITY_UNAVAILABLE'' ''No local callable Agent can run this capability.'')
      | Some target \<Rightarrow> guarded (first_err
          [throw_if (truthy (get r ''longHorizon'') \<and> JStr ''image'' \<in> set (items (get target ''outputModes'')))
             (runtime_error ''TASK_LONG_HORIZON_TEXT_ONLY''
               ''The selected Child Agent does not have a text-only long-horizon output contract.''),
           throw_if (\<not> images_available (ap_attachments env) r) (images_pending ''Task images are unavailable.'')])
         (Inr target))"

definition task_prepare_input :: "json \<Rightarrow> json \<Rightarrow> json \<Rightarrow> bool \<Rightarrow> json" where
  "task_prepare_input taskId binding target resume = JObj
     [(''taskId'', taskId), (''workspaceId'', get binding ''workspaceId''), (''childAgentId'', get target ''childAgentId''),
      (''connectorId'', get target ''connectorId''), (''resume'', JBool resume)]"

definition prepared :: "approval_env \<Rightarrow> json \<Rightarrow> json result" where
  "prepared env input = (case ap_prepare env of None \<Rightarrow> Inr JUndef | Some prepare \<Rightarrow> prepare input)"

definition start_working :: "json \<Rightarrow> int \<Rightarrow> json" where
  "start_working r now = del (put (bump_status (put r ''state'' (JStr ''working''))) ''updatedAt'' (iso now)) [''safeErrorCode'']"

definition bound_record :: "approval_env \<Rightarrow> int \<Rightarrow> json \<Rightarrow> json \<Rightarrow> json" where
  "bound_record env now r binding =
     put (put_ready ''attachmentsReady'' (areInputAttachmentsReady (ap_attachments env) now r)) ''workspaceBinding'' binding"

definition approval_grant :: "approval_env \<Rightarrow> string \<Rightarrow> int \<Rightarrow> json \<Rightarrow> json \<Rightarrow> json \<Rightarrow> json" where
  "approval_grant env grantId now r target binding =
     createExecutionGrant (ap_digest env) grantId now (get r ''request'') target binding None (get binding ''access'')"

text \<open>The approval of a task of one stage: what is saved, and the grant it issues with the record it returns.\<close>

definition approve_single :: "approval_env \<Rightarrow> string \<Rightarrow> int \<Rightarrow> json \<Rightarrow> json \<Rightarrow> json \<Rightarrow> (json \<times> json) result" where
  "approve_single env grantId now r target binding =
     rbind (prepared env (task_prepare_input (get (get r ''request'') ''taskId'') binding target False)) (\<lambda>handle.
     let grant = approval_grant env grantId now r target binding in
     guarded (validateExecutionGrant grant)
       (Inr (setLatestTaskChange (start_working (put (bound_record env now r binding) ''approval'' (JStr ''consumed'')) now)
          (change ''stage_started''), grant)))"

end
