(* ===== verification/Task_Guarantees.thy ===== *)
theory Task_Guarantees
  imports Task_Commands
begin

text \<open>
  What the operations of the task service guarantee: which fields of a record a helper leaves alone, what
  expiry does, and what a message or a command of the user can change.
\<close>

section \<open>Fields that a helper leaves alone\<close>

named_theorems frame "the fields of a record that a helper of the service does not change"

lemma get_setLatestTaskChange [frame]:
  "k \<noteq> ''latestAttentionChange'' \<Longrightarrow> get (setLatestTaskChange r c) k = get r k"
  by (simp add: setLatestTaskChange_def get_put)

lemma get_markTaskAttention [frame]:
  "k \<noteq> ''latestAttentionChange'' \<Longrightarrow> k \<noteq> ''attentionRevision'' \<Longrightarrow> get (markTaskAttention r c) k = get r k"
  by (simp add: markTaskAttention_def get_put frame)

lemma get_mark_when [frame]:
  "k \<noteq> ''latestAttentionChange'' \<Longrightarrow> k \<noteq> ''attentionRevision'' \<Longrightarrow> get (mark_when b c r) k = get r k"
  by (simp add: mark_when_def frame)

lemma get_markTaskAttentionIfChanged [frame]:
  "k \<noteq> ''latestAttentionChange'' \<Longrightarrow> k \<noteq> ''attentionRevision'' \<Longrightarrow> get (markTaskAttentionIfChanged r p) k = get r k"
  by (simp add: markTaskAttentionIfChanged_def frame)

lemma get_markRemoteTaskAttentionIfChanged [frame]:
  "k \<noteq> ''latestAttentionChange'' \<Longrightarrow> k \<noteq> ''attentionRevision'' \<Longrightarrow> get (markRemoteTaskAttentionIfChanged r p) k = get r k"
  by (simp add: markRemoteTaskAttentionIfChanged_def Let_def frame)

lemma get_put_items [frame]: "k' \<noteq> k \<Longrightarrow> get (put_items r k xs) k' = get r k'"
  by (simp add: put_items_def get_put get_del)

lemma get_removeApplicationDeliveryState [frame]:
  "k \<noteq> ''applicationDeliveryAttempts'' \<Longrightarrow> k \<noteq> ''applicationDeliveryFailures'' \<Longrightarrow>
     get (removeApplicationDeliveryState r kind) k = get r k"
  by (simp add: removeApplicationDeliveryState_def Let_def frame)

lemma get_clearCancelDeliveryState [frame]:
  "k \<notin> {''cancelPending'', ''cancelControlId'', ''cancelRequestedAt'', ''cancelSentAt'', ''cancelAcknowledgedAt'',
      ''applicationDeliveryAttempts'', ''applicationDeliveryFailures''} \<Longrightarrow> get (clearCancelDeliveryState r) k = get r k"
  by (simp add: clearCancelDeliveryState_def frame get_del get_put)

lemma get_drop_pending_input [frame]:
  "k \<notin> {''inputPending'', ''inputSentAt'', ''inputAcknowledgedAt'', ''applicationDeliveryAttempts'',
      ''applicationDeliveryFailures''} \<Longrightarrow> get (drop_pending_input r) k = get r k"
  by (simp add: drop_pending_input_def frame get_del)

lemma get_enqueueApplicationReceipt [frame]:
  "k \<noteq> ''applicationReceiptOutbox'' \<Longrightarrow> get (enqueueApplicationReceipt r receipt) k = get r k"
  by (simp add: enqueueApplicationReceipt_def Let_def get_put)

lemma get_expire_diagnostics [frame]: "k \<noteq> ''attachmentDiagnostics'' \<Longrightarrow> get (expire_diagnostics r) k = get r k"
  by (simp add: expire_diagnostics_def get_put)

lemma get_bump_status: "get (bump_status r) k = (if k = ''statusRevision'' then jint (int_of (get r ''statusRevision'') + 1)
    else if k = ''statusPending'' then JBool True else get r k)"
  by (simp add: bump_status_def get_spread)

lemma truthy_put: "truthy (put v k x)"
  by (cases v) (simp_all add: put_def spread_def)

lemmas assign = get_put get_del get_spread get_bump_status

section \<open>Expiry\<close>

text \<open>The fields that tell whether a record is live, and that expiry sets.\<close>

lemma get_expire_delivery [frame]:
  "k \<notin> {''receiptPending'', ''inputPending'', ''inputSentAt'', ''inputAcknowledgedAt'', ''applicationDeliveryAttempts'',
      ''applicationDeliveryFailures'', ''cancelPending'', ''cancelControlId'', ''cancelRequestedAt'', ''cancelSentAt'',
      ''cancelAcknowledgedAt'', ''attachmentDiagnostics'', ''statusRevision'', ''statusPending'', ''updatedAt''} \<Longrightarrow>
     get (expire_delivery r t) k = get r k"
  by (simp add: expire_delivery_def Let_def frame assign)

lemma append_audit_Inr:
  "append_audit limit e i session event t = Inr s \<longleftrightarrow>
     len (items (get session ''audit'')) < limit
     \<and> s = spread session [(''audit'', JArr (items (get session ''audit'') @ [audit_entry i (items (get session ''audit'')) event t])),
         (''updatedAt'', t)]"
  by (auto simp: append_audit_def Let_def not_less)

lemma cancel_plan_ends: "cancel_plan i actor code plan t = Inr p \<Longrightarrow> plan_ended p"
  unfolding cancel_plan_def appendDelegationAudit_def Let_def append_audit_Inr plan_ended_def
  by (elim conjE) (simp only: get_spread; simp add: one_of_def)

lemma expireRecord_Inr:
  assumes "expireRecord uuid r t = Inr r'"
  shows "get r' ''state'' = JStr ''rejected''" "get r' ''delivery'' = JStr ''expired''"
    "get r' ''approval'' = JStr ''expired''" "get r' ''request'' = get r ''request''"
    "get r' ''direction'' = get r ''direction''"
    "truthy (get r ''longHorizon'') \<Longrightarrow> get (get r' ''longHorizon'') ''phase'' = JStr ''expired''"
    "truthy (get r ''delegationPlan'') \<Longrightarrow> plan_ended (get r' ''delegationPlan'')"
proof -
  let ?r1 = "expire_flags r" and ?session = "get r ''longHorizon''" and ?plan = "get r ''delegationPlan''"
  obtain r2 where r2: "(if truthy ?session \<and> get ?session ''phase'' \<noteq> JStr ''expired''
      then rbind (expire_session (uuid 0) ?session t) (\<lambda>s. Inr (put ?r1 ''longHorizon'' s)) else Inr ?r1) = Inr r2"
    and "rbind (if truthy ?plan \<and> \<not> plan_ended ?plan
             then rbind (cancel_plan (uuid 1) ''host'' ''TASK_EXPIRED'' ?plan t) (\<lambda>p. Inr (put r2 ''delegationPlan'' p)) else Inr r2)
      (\<lambda>r3. let r4 = expire_delivery r3 t in Inr (if attention_changed r4 (taskAttentionSnapshot r)
            then markTaskAttention r4 ((change ''expired'')\<lparr>ac_code := JStr ''TASK_EXPIRED'', ac_at := t\<rparr>) else r4)) = Inr r'"
    using assms unfolding expireRecord_def Let_def rbind_Inr_conv by blast
  then obtain r3 where r3: "(if truthy ?plan \<and> \<not> plan_ended ?plan
             then rbind (cancel_plan (uuid 1) ''host'' ''TASK_EXPIRED'' ?plan t) (\<lambda>p. Inr (put r2 ''delegationPlan'' p)) else Inr r2) = Inr r3"
    and r': "r' = (if attention_changed (expire_delivery r3 t) (taskAttentionSnapshot r)
       then markTaskAttention (expire_delivery r3 t) ((change ''expired'')\<lparr>ac_code := JStr ''TASK_EXPIRED'', ac_at := t\<rparr>)
       else expire_delivery r3 t)"
    unfolding Let_def rbind_Inr_conv by blast
  have flags: "get r3 k = get ?r1 k" if "k \<noteq> ''longHorizon''" "k \<noteq> ''delegationPlan''" for k
    using r2 r3 that by (auto simp: rbind_Inr_conv get_put split: if_splits)
  have out: "get r' k = get r3 k" if "k \<in> {''state'', ''delivery'', ''approval'', ''request'', ''direction'', ''longHorizon'', ''delegationPlan''}" for k
    using that unfolding r' by (auto simp: frame)
  show "get r' ''state'' = JStr ''rejected''" "get r' ''delivery'' = JStr ''expired''"
    "get r' ''approval'' = JStr ''expired''" "get r' ''request'' = get r ''request''" "get r' ''direction'' = get r ''direction''"
    by (simp_all add: out flags expire_flags_def get_spread)
  have session: "get r3 ''longHorizon'' = get r2 ''longHorizon''"
    using r3 by (auto simp: rbind_Inr_conv get_put split: if_splits)
  show "get (get r' ''longHorizon'') ''phase'' = JStr ''expired''" if live: "truthy ?session"
  proof (cases "get ?session ''phase'' = JStr ''expired''")
    case True
    then show ?thesis using r2 by (auto simp: out session expire_flags_def get_spread)
  next
    case False
    then obtain s where s: "expire_session (uuid 0) ?session t = Inr s" "r2 = put ?r1 ''longHorizon'' s"
      using r2 live by (auto simp: rbind_Inr_conv)
    have "get s ''phase'' = JStr ''expired''"
      using s(1) unfolding expire_session_def appendLongHorizonAudit_def append_audit_Inr
      by (elim conjE) (simp only: get_spread; simp)
    then show ?thesis using s(2) by (simp add: out session get_put)
  qed
  show "plan_ended (get r' ''delegationPlan'')" if live: "truthy ?plan"
  proof (cases "plan_ended ?plan")
    case True
    then show ?thesis using r2 r3 by (auto simp: out expire_flags_def get_spread get_put rbind_Inr_conv split: if_splits)
  next
    case False
    then obtain p where p: "cancel_plan (uuid 1) ''host'' ''TASK_EXPIRED'' ?plan t = Inr p" "r3 = put r2 ''delegationPlan'' p"
      using r3 live by (auto simp: rbind_Inr_conv)
    then show ?thesis using cancel_plan_ends [OF p(1)] by (simp add: out get_put)
  qed
qed

lemma expireRecord_succeeds:
  assumes "len (items (get (get r ''longHorizon'') ''audit'')) < maximum_lh_audit_events" "get r ''delegationPlan'' = JUndef"
  shows "\<exists>r'. expireRecord uuid r t = Inr r'"
  using assms
  by (simp add: expireRecord_def Let_def expire_session_def appendLongHorizonAudit_def append_audit_def get_spread)

lemma expired_not_due: "expireRecord uuid r t = Inr r' \<Longrightarrow> \<not> expiry_due now r'"
  using expireRecord_Inr(1,2) [of uuid r t r']
  by (simp add: expiry_due_def isTerminalTaskState_def one_of_def terminal_states_def)

definition expired_or_same :: "(nat \<Rightarrow> nat \<Rightarrow> string) \<Rightarrow> int \<Rightarrow> json \<Rightarrow> json \<Rightarrow> bool" where
  "expired_or_same uuids now r r' \<longleftrightarrow>
     (if expiry_due now r then \<exists>j. expireRecord (uuids j) r (iso now) = Inr r' else r' = r)"

lemma expire_due_Inr: "expire_due uuids now i rs = Inr rs' \<Longrightarrow> list_all2 (expired_or_same uuids now) rs rs'"
proof (induction rs arbitrary: i rs')
  case (Cons r rs)
  then obtain r' rest where step: "(if expiry_due now r then expireRecord (uuids i) r (iso now) else Inr r) = Inr r'"
    "expire_due uuids now (Suc i) rs = Inr rest" "rs' = r' # rest"
    by (auto simp: rbind_Inr_conv)
  have "expired_or_same uuids now r r'" using step(1) by (auto simp: expired_or_same_def split: if_splits)
  then show ?case using Cons.IH [OF step(2)] step(3) by simp
qed simp

lemma expire_due_Inl:
  assumes "r \<in> set rs" "expiry_due now r" "\<And>uuid. \<exists>e. expireRecord uuid r (iso now) = Inl e"
  shows "\<exists>e. expire_due uuids now i rs = Inl e"
  using assms(1)
proof (induction rs arbitrary: i)
  case (Cons x xs)
  show ?case
  proof (cases "x = r")
    case True
    obtain e where "expireRecord (uuids i) r (iso now) = Inl e" using assms(3) by blast
    then show ?thesis using True assms(2) by simp
  next
    case False
    then obtain e where "expire_due uuids now (Suc i) xs = Inl e" using Cons by auto
    then show ?thesis by (cases "if expiry_due now x then expireRecord (uuids i) x (iso now) else Inr x") auto
  qed
qed simp

lemma completed_fields:
  assumes "completes_from_artifact r"
  shows "get (completeOutgoingSingleStageFromVerifiedArtifact r t) ''state'' = JStr ''completed''"
    "get (completeOutgoingSingleStageFromVerifiedArtifact r t) ''approval'' = JStr ''approved_once''"
    "get (completeOutgoingSingleStageFromVerifiedArtifact r t) ''delivery'' = JStr ''acknowledged''"
    "get (completeOutgoingSingleStageFromVerifiedArtifact r t) ''request'' = get r ''request''"
    "get (completeOutgoingSingleStageFromVerifiedArtifact r t) ''artifacts'' = get r ''artifacts''"
  using assms by (simp_all add: completeOutgoingSingleStageFromVerifiedArtifact_def frame assign)

lemma completed_not_due:
  "completes_from_artifact r \<Longrightarrow> \<not> expiry_due now (completeOutgoingSingleStageFromVerifiedArtifact r t)"
  by (simp add: expiry_due_def isTerminalTaskState_def one_of_def terminal_states_def completed_fields)

lemma not_completed: "\<not> completes_from_artifact r \<Longrightarrow> completeOutgoingSingleStageFromVerifiedArtifact r t = r"
  by (simp add: completeOutgoingSingleStageFromVerifiedArtifact_def)

text \<open>What \<open>expireDueRecords\<close> makes of one record.\<close>

definition settled :: "(nat \<Rightarrow> nat \<Rightarrow> string) \<Rightarrow> int \<Rightarrow> json \<Rightarrow> json \<Rightarrow> bool" where
  "settled uuids now r r' \<longleftrightarrow>
     (if completes_from_artifact r then r' = completeOutgoingSingleStageFromVerifiedArtifact r (iso now)
      else expired_or_same uuids now r r')"

lemma expireDueRecords_Inr:
  assumes "expireDueRecords uuids now rs = Inr (rs', changed)"
  shows "list_all2 (settled uuids now) rs rs'" "changed \<longleftrightarrow> list_ex (\<lambda>r. completes_from_artifact r \<or> expiry_due now r) rs"
proof -
  let ?f = "\<lambda>r. completeOutgoingSingleStageFromVerifiedArtifact r (iso now)"
  have due: "expire_due uuids now 0 (map ?f rs) = Inr rs'"
    and c: "changed \<longleftrightarrow> list_ex completes_from_artifact rs \<or> list_ex (expiry_due now) (map ?f rs)"
    using assms by (auto simp: expireDueRecords_def Let_def rbind_Inr_conv reconcileVerifiedSingleStageCompletions_def)
  have "settled uuids now r r'" if "expired_or_same uuids now (?f r) r'" for r r'
    using that completed_not_due [of r now "iso now"] not_completed [of r "iso now"]
    by (auto simp: settled_def expired_or_same_def)
  then show "list_all2 (settled uuids now) rs rs'"
    using expire_due_Inr [OF due] by (auto simp: list_all2_map1 elim: list_all2_mono)
  have "expiry_due now (?f r) \<longleftrightarrow> \<not> completes_from_artifact r \<and> expiry_due now r" for r
    using completed_not_due [of r now "iso now"] not_completed [of r "iso now"] by (cases "completes_from_artifact r") auto
  then show "changed \<longleftrightarrow> list_ex (\<lambda>r. completes_from_artifact r \<or> expiry_due now r) rs"
    unfolding c by (auto simp: list_ex_iff)
qed

lemma settled_not_due: "settled uuids now r r' \<Longrightarrow> \<not> expiry_due now r'"
  by (auto simp: settled_def expired_or_same_def completed_not_due expired_not_due split: if_splits)

lemma settled_request: "settled uuids now r r' \<Longrightarrow> get r' ''request'' = get r ''request''"
  by (auto simp: settled_def expired_or_same_def completed_fields expireRecord_Inr(4) split: if_splits)

text \<open>C30:
  Expiry settles every record: afterwards no record is due, none was lost and no request changed. A
  finished single-stage task whose verified artifact is there is completed rather than expired; every other record that
  was due is rejected and expired, its session is expired and its delegation plan ended; the rest is as it
  was, and the answer `nothing changed' means that.\<close>

theorem expiry_settles_every_record:
  assumes "expireDueRecords uuids now rs = Inr (rs', changed)"
  shows "length rs' = length rs \<and> list_all (\<lambda>r. \<not> expiry_due now r) rs'
    \<and> map (\<lambda>r. get r ''request'') rs' = map (\<lambda>r. get r ''request'') rs
    \<and> list_all2 (\<lambda>r r'.
        if completes_from_artifact r
        then get r' ''state'' = JStr ''completed'' \<and> get r' ''delivery'' = JStr ''acknowledged''
          \<and> get r' ''artifacts'' = get r ''artifacts''
        else if expiry_due now r
        then get r' ''state'' = JStr ''rejected'' \<and> get r' ''delivery'' = JStr ''expired'' \<and> get r' ''approval'' = JStr ''expired''
          \<and> (truthy (get r ''longHorizon'') \<longrightarrow> get (get r' ''longHorizon'') ''phase'' = JStr ''expired'')
          \<and> (truthy (get r ''delegationPlan'') \<longrightarrow> plan_ended (get r' ''delegationPlan''))
        else r' = r) rs rs'
    \<and> (\<not> changed \<longrightarrow> rs' = rs)"
proof -
  note all = expireDueRecords_Inr(1) [OF assms]
  have len: "length rs' = length rs" using all by (simp add: list_all2_lengthD)
  have nth: "settled uuids now (rs ! i) (rs' ! i)" if "i < length rs" for i using all that by (simp add: list_all2_nthD)
  have due: "list_all (\<lambda>r. \<not> expiry_due now r) rs'"
    using settled_not_due [OF nth] len by (auto simp: list_all_length)
  have req: "map (\<lambda>r. get r ''request'') rs' = map (\<lambda>r. get r ''request'') rs"
    using nth len by (auto intro!: nth_equalityI settled_request)
  have same: "rs' = rs" if no: "\<not> changed"
  proof (rule nth_equalityI [OF len])
    fix i assume "i < length rs'"
    then show "rs' ! i = rs ! i"
      using nth [of i] len no expireDueRecords_Inr(2) [OF assms]
      by (auto simp: settled_def expired_or_same_def list_ex_length split: if_splits)
  qed
  have "list_all2 (\<lambda>r r'.
        if completes_from_artifact r
        then get r' ''state'' = JStr ''completed'' \<and> get r' ''delivery'' = JStr ''acknowledged''
          \<and> get r' ''artifacts'' = get r ''artifacts''
        else if expiry_due now r
        then get r' ''state'' = JStr ''rejected'' \<and> get r' ''delivery'' = JStr ''expired'' \<and> get r' ''approval'' = JStr ''expired''
          \<and> (truthy (get r ''longHorizon'') \<longrightarrow> get (get r' ''longHorizon'') ''phase'' = JStr ''expired'')
          \<and> (truthy (get r ''delegationPlan'') \<longrightarrow> plan_ended (get r' ''delegationPlan''))
        else r' = r) rs rs'"
    using all
  proof (rule list_all2_mono)
    fix r r' assume s: "settled uuids now r r'"
    show "if completes_from_artifact r
        then get r' ''state'' = JStr ''completed'' \<and> get r' ''delivery'' = JStr ''acknowledged''
          \<and> get r' ''artifacts'' = get r ''artifacts''
        else if expiry_due now r
        then get r' ''state'' = JStr ''rejected'' \<and> get r' ''delivery'' = JStr ''expired'' \<and> get r' ''approval'' = JStr ''expired''
          \<and> (truthy (get r ''longHorizon'') \<longrightarrow> get (get r' ''longHorizon'') ''phase'' = JStr ''expired'')
          \<and> (truthy (get r ''delegationPlan'') \<longrightarrow> plan_ended (get r' ''delegationPlan''))
        else r' = r"
      using s expireRecord_Inr [of _ r "iso now" r']
      by (auto simp: settled_def expired_or_same_def completed_fields split: if_splits)
  qed
  then show ?thesis using len due req same by blast
qed

definition sample_open_record :: json where
  "sample_open_record = JObj
     [(''schemaVersion'', jint 1), (''direction'', JStr ''incoming''), (''peerTetiId'', JStr ''teti_abc123def''),
      (''protocolVersion'', jint 7), (''request'', sample_long_request), (''state'', JStr ''submitted''),
      (''approval'', JStr ''pending''), (''delivery'', JStr ''received''), (''longHorizon'', sample_session),
      (''createdAt'', sample_time), (''updatedAt'', sample_time)]"

lemma sample_session_fields:
  "truthy sample_session" "get sample_session ''phase'' = JStr ''pending_approval''"
  "get sample_session ''continuationExpiresAt'' = sample_time" "len (items (get sample_session ''audit'')) = 1"
  by (simp_all add: sample_session_def len_def)

lemma sample_time_due: "due_by sample_time 1800000000000"
  by code_simp

lemma sample_open_live:
  "expiry_due 1800000000000 sample_open_record" "\<not> completes_from_artifact sample_open_record"
  by (simp_all add: expiry_due_def isTerminalTaskState_def one_of_def terminal_states_def sample_open_record_def
      effectiveTaskExpiry_def completes_from_artifact_def outgoing_def sample_session_fields sample_time_due or_else_def
      del: One_nat_def) (simp add: sample_time_def)+

theorem expiry_settles_every_record_witness:
  "\<exists>r. expireDueRecords (\<lambda>i j. ''event-2'') 1800000000000 [sample_open_record] = Inr ([r], True)
     \<and> get r ''state'' = JStr ''rejected'' \<and> get (get r ''longHorizon'') ''phase'' = JStr ''expired''"
proof -
  have "\<exists>r. expireRecord uuid sample_open_record t = Inr r" for uuid t
    by (rule expireRecord_succeeds) (simp_all add: sample_open_record_def sample_session_fields maximum_lh_audit_events_def)
  then obtain r where "expireRecord (\<lambda>j. ''event-2'') sample_open_record (iso 1800000000000) = Inr r" by blast
  then have e: "expireDueRecords (\<lambda>i j. ''event-2'') 1800000000000 [sample_open_record] = Inr ([r], True)"
    using sample_open_live by (simp add: expireDueRecords_def reconcileVerifiedSingleStageCompletions_def not_completed)
  have "truthy (get sample_open_record ''longHorizon'')" by (simp add: sample_open_record_def sample_session_fields)
  then show ?thesis using expiry_settles_every_record [OF e] sample_open_live e by simp
qed

text \<open>C35:
  A session whose audit is full blocks the service: \<open>expireRecord\<close> appends to the audit, which throws at 256
  events, so once such a live record is due, every operation that expires records first fails before it
  saves anything. Then no request is received and no task sent, from and to any peer.\<close>

theorem full_audit_blocks_service:
  assumes "r \<in> set (ts_records s)" and "incoming r" and "expiry_due now r"
    and "truthy (get r ''longHorizon'')" and "get (get r ''longHorizon'') ''phase'' \<noteq> JStr ''expired''"
    and "256 \<le> length (items (get (get r ''longHorizon'') ''audit''))"
  shows "(\<exists>e. receiveRequest le uuids now account m s = (None, Inl e))
    \<and> (\<exists>e. send_task le net uuids freshId now account connections inp s = (None, Inl e))"
proof -
  have "\<exists>e. expireRecord uuid r (iso now) = Inl e" for uuid
    using assms(4-6) by (simp add: expireRecord_def Let_def expire_session_def appendLongHorizonAudit_def append_audit_def get_spread
        maximum_lh_audit_events_def len_def)
  moreover have "completeOutgoingSingleStageFromVerifiedArtifact r (iso now) = r"
    using assms(2) by (intro not_completed) (simp add: completes_from_artifact_def incoming_def outgoing_def)
  then have "r \<in> set (reconcileVerifiedSingleStageCompletions (ts_records s) (iso now))"
    using assms(1) by (auto simp: reconcileVerifiedSingleStageCompletions_def intro: rev_image_eqI)
  ultimately obtain e where "expire_due uuids now 0 (reconcileVerifiedSingleStageCompletions (ts_records s) (iso now)) = Inl e"
    using expire_due_Inl [of r _ now uuids] assms(3) by blast
  then have e: "expireDueRecords uuids now (ts_records s) = Inl e" by (simp add: expireDueRecords_def Let_def)
  have "\<exists>e. receiveRequest le uuids now account m s = (None, Inl e)"
    by (auto simp: receiveRequest_def with_account_def check_def Let_def e fails_def split: option.split)
  moreover have "\<exists>e. send_task le net uuids freshId now account connections inp s = (None, Inl e)"
    by (auto simp: send_task_def with_account_def after_def Let_def e fails_def split: option.split sum.split)
  ultimately show ?thesis ..
qed

definition sample_full_record :: json where
  "sample_full_record = put sample_open_record ''longHorizon''
     (put sample_session ''audit'' (JArr (replicate 256 (hd (items (get sample_session ''audit''))))))"

theorem full_audit_blocks_service_witness:
  "\<exists>e. receiveRequest str_le (\<lambda>i j. ''event'') 1800000000000 (Some ''teti_me1234567'')
     \<lparr>m_envelope = JNull, m_connection = JNull, m_received = JUndef, m_chatmail = JUndef\<rparr>
     \<lparr>ts_records = [sample_full_record], ts_peers = []\<rparr> = (None, Inl e)"
proof -
  have session: "get sample_full_record k = get sample_open_record k" if "k \<noteq> ''longHorizon''" for k
    using that by (simp add: sample_full_record_def get_put)
  have audit: "256 \<le> length (items (get (get sample_full_record ''longHorizon'') ''audit''))"
    "get (get sample_full_record ''longHorizon'') ''phase'' = JStr ''pending_approval''"
    "get (get sample_full_record ''longHorizon'') ''continuationExpiresAt'' = sample_time"
    "truthy (get sample_full_record ''longHorizon'')"
    by (simp_all add: sample_full_record_def get_put sample_session_fields truthy_put)
  have live: "incoming sample_full_record" "expiry_due 1800000000000 sample_full_record"
    using sample_open_live(1) audit(3)
    by (simp_all add: incoming_def expiry_due_def effectiveTaskExpiry_def session sample_open_record_def sample_session_fields)
  show ?thesis
    by (rule full_audit_blocks_service [of sample_full_record, THEN conjunct1]) (use live audit in simp_all)
qed

section \<open>Status of the peer\<close>

lemma get_apply_status [frame]:
  "k \<notin> {''statusRevision'', ''state'', ''cancelPending'', ''cancelControlId'', ''cancelRequestedAt'', ''cancelSentAt'',
      ''cancelAcknowledgedAt'', ''applicationDeliveryAttempts'', ''applicationDeliveryFailures'', ''approval'', ''updatedAt'',
      ''peerLongHorizon'', ''inputPending'', ''inputSentAt'', ''inputAcknowledgedAt'', ''safeErrorCode''} \<Longrightarrow>
     get (apply_status r payload t) k = get r k"
  by (simp add: apply_status_def Let_def frame assign)

lemma apply_status_fields:
  "get (apply_status r payload t) ''state'' = get payload ''state''"
  "get (apply_status r payload t) ''statusRevision'' = get payload ''revision''"
  by (simp_all add: apply_status_def Let_def frame assign)


lemma index_of_task_Some:
  "index_of_task s d q t = Some i \<Longrightarrow> i < length (ts_records s) \<and> is_task d q t (ts_records s ! i)"
  by (auto simp: index_of_task_def dest: find_index_Some)





definition sample_sent_record :: json where
  "sample_sent_record = JObj
     [(''schemaVersion'', jint 1), (''direction'', JStr ''outgoing''), (''peerTetiId'', JStr ''teti_me1234567''),
      (''protocolVersion'', jint 7), (''request'', sample_task_request), (''state'', JStr ''submitted''),
      (''approval'', JStr ''pending''), (''delivery'', JStr ''sent''), (''createdAt'', sample_time), (''updatedAt'', sample_time)]"



text \<open>
  Nothing compares the target that a status message names with the target of the request: another confirmed peer that
  knows the identifier of a task and names itself as the target settles a task that was sent to somebody else.
\<close>

theorem stranger_settles_the_task:
  assumes task: "index_of_task s ''outgoing'' (JStr me) (get (m_payload m) ''taskId'') = Some i"
    and stranger: "get (m_payload m) ''targetTetiId'' = JStr other" "get (get (ts_records s ! i) ''request'') ''targetTetiId'' \<noteq> JStr other"
      "get (m_envelope m) ''fromTetiId'' = JStr other" "get (m_connection m) ''remoteTetiId'' = JStr other"
    and named: "get (m_payload m) ''requesterTetiId'' = JStr me" "status_mode_ok (ts_records s ! i) (m_payload m)"
    and newer: "int_of (get (ts_records s ! i) ''statusRevision'') < int_of (get (m_payload m) ''revision'')"
      "isRemoteTransitionAllowed (get (ts_records s ! i) ''state'') (get (m_payload m) ''state'')"
  shows "\<exists>s' receipt. receiveStatus now (Some me) m s = (Some s', Inr receipt)
    \<and> get (ts_records s' ! i) ''state'' = get (m_payload m) ''state''
    \<and> get (ts_records s' ! i) ''statusRevision'' = get (m_payload m) ''revision''"
proof -
  have "i < length (ts_records s)" using index_of_task_Some [OF task] by simp
  moreover have "outbound m me = None"
    using stranger named by (simp add: outbound_def requireOutboundTaskIdentity_def)
  ultimately show ?thesis
    using task named(2) newer
    by (auto simp: receiveStatus_def with_account_def Let_def saves_def set_record_def frame apply_status_fields)
qed

definition stranger_status :: message where
  "stranger_status = \<lparr>m_envelope = JObj [(''fromTetiId'', JStr ''teti_xyz456uvw''), (''payload'', JObj
       [(''schemaVersion'', jint 1), (''taskId'', JStr ''task-1''), (''requesterTetiId'', JStr ''teti_abc123def''),
        (''targetTetiId'', JStr ''teti_xyz456uvw''), (''revision'', jint 1), (''state'', JStr ''failed''), (''updatedAt'', sample_time)])],
     m_connection = JObj [(''remoteTetiId'', JStr ''teti_xyz456uvw'')], m_received = JUndef, m_chatmail = JUndef\<rparr>"

theorem stranger_settles_the_task_witness:
  "\<exists>s' receipt. receiveStatus 0 (Some ''teti_abc123def'') stranger_status \<lparr>ts_records = [sample_sent_record], ts_peers = []\<rparr>
      = (Some s', Inr receipt) \<and> get (ts_records s' ! 0) ''state'' = JStr ''failed''"
proof -
  let ?s = "\<lparr>ts_records = [sample_sent_record], ts_peers = []\<rparr>" and ?p = "m_payload stranger_status"
  have i: "index_of_task ?s ''outgoing'' (JStr ''teti_abc123def'') (get ?p ''taskId'') = Some 0" by code_simp
  have r: "ts_records ?s ! 0 = sample_sent_record" by simp
  have "get (get sample_sent_record ''request'') ''targetTetiId'' \<noteq> JStr ''teti_xyz456uvw''"
    "status_mode_ok sample_sent_record ?p"
    "int_of (get sample_sent_record ''statusRevision'') < int_of (get ?p ''revision'')"
    "isRemoteTransitionAllowed (get sample_sent_record ''state'') (get ?p ''state'')" by code_simp+
  moreover have "get ?p ''targetTetiId'' = JStr ''teti_xyz456uvw''" "get (m_envelope stranger_status) ''fromTetiId'' = JStr ''teti_xyz456uvw''"
    "get (m_connection stranger_status) ''remoteTetiId'' = JStr ''teti_xyz456uvw''" "get ?p ''requesterTetiId'' = JStr ''teti_abc123def''"
    "get ?p ''state'' = JStr ''failed''"
    by (simp_all add: m_payload_def stranger_status_def)
  ultimately show ?thesis using stranger_settles_the_task [OF i] unfolding r by metis
qed

section \<open>Requests\<close>

lemma update_first_none: "\<forall>x\<in>set xs. \<not> P x \<Longrightarrow> update_first P f (xs @ ys) = xs @ update_first P f ys"
  by (induction xs) simp_all

lemma update_first_id: "\<forall>x\<in>set xs. \<not> P x \<Longrightarrow> update_first P f xs = xs"
  using update_first_none [of xs P f "[]"] by simp

lemma length_update_first [simp]: "length (update_first P f xs) = length xs"
  by (induction xs) simp_all

lemma in_update_first: "y \<in> set (update_first P f xs) \<Longrightarrow> y \<in> set xs \<or> (\<exists>x\<in>set xs. y = f x)"
  by (induction xs) (auto split: if_splits)

lemma ensureCapacity_Some:
  "ensureCapacity le now rs = Some rs' \<Longrightarrow> set rs' \<subseteq> set rs \<and> len rs' < max_task_transport_records"
  by (auto simp: ensureCapacity_def Let_def not_le split: if_splits)

lemma incomingRecord_other:
  assumes "incomingRecord i e c n t d = Inr r" and "k \<noteq> ''longHorizon''"
  shows "get r k = get (incoming_record_fields e c n (iso t) d) k"
  using assms by (auto simp: incomingRecord_def Let_def rbind_Inr_conv get_put split: if_splits)

lemma get_incoming_record:
  assumes r: "incomingRecord i e c n t d = Inr r"
  shows "get r ''request'' = get e ''payload''" "get r ''direction'' = JStr ''incoming''" "get r ''delivery'' = JStr d"
    "get r ''state'' = JStr (if d = ''received'' then ''submitted'' else ''rejected'')"
    "get r ''approval'' = JStr (if d = ''received'' then ''pending'' else if d = ''expired'' then ''expired'' else ''rejected'')"
  by (simp_all add: incomingRecord_other [OF r] incoming_record_fields_def Let_def)

text \<open>How a request is answered, and what is added.\<close>

lemma admission_values: "admission request now \<in> {''received'', ''rejected'', ''expired''}"
  by (simp add: admission_def)

lemma admit_request_cases:
  assumes "admit_request le i now m rs = Inr (status, rs')"
  obtains (known) r where "r \<in> set rs" "is_task ''incoming'' (get (m_payload m) ''requesterTetiId'') (get (m_payload m) ''taskId'') r"
      "status \<in> {''duplicate'', ''conflict''}" "rs' = rs"
  | (full) "status \<in> {''rejected'', ''expired''}" "rs' = rs"
      "\<forall>r\<in>set rs. \<not> is_task ''incoming'' (get (m_payload m) ''requesterTetiId'') (get (m_payload m) ''taskId'') r"
  | (added) kept r where "ensureCapacity le now rs = Some kept" "rs' = kept @ [r]" "status = admission (m_payload m) now"
      "incomingRecord i (m_envelope m) (m_connection m) (m_chatmail m) (validTimestampOrNow (m_received m) now) status = Inr r"
      "\<forall>r\<in>set rs. \<not> is_task ''incoming'' (get (m_payload m) ''requesterTetiId'') (get (m_payload m) ''taskId'') r"
proof -
  let ?P = "is_task ''incoming'' (get (m_payload m) ''requesterTetiId'') (get (m_payload m) ''taskId'')"
    and ?d = "admission (m_payload m) now"
  show ?thesis
  proof (cases "find_first ?P rs")
    case (Some r)
    then have r: "r \<in> set rs" "?P r" by (auto dest: find_first_Some)
    have "status = (if canonicalTaskRequestJson (get r ''request'') = canonicalTaskRequestJson (m_payload m) then ''duplicate'' else ''conflict'')"
      "rs' = rs"
      using assms unfolding admit_request_def Let_def findTaskRecord_def Some option.case sum.inject prod.inject by blast+
    then show ?thesis using known [OF r] by (simp split: if_splits)
  next
    case None
    then have none: "\<forall>r\<in>set rs. \<not> ?P r" by (simp add: find_first_None)
    have a: "rbind (add_incoming le i now m ?d rs) (\<lambda>added. Inr (case added of
            None \<Rightarrow> (if ?d = ''received'' then ''rejected'' else ?d, rs) | Some rs' \<Rightarrow> (?d, rs'))) = Inr (status, rs')"
      using assms unfolding admit_request_def Let_def findTaskRecord_def None option.case .
    show ?thesis
    proof (cases "ensureCapacity le now rs")
      case None
      then have "status = (if ?d = ''received'' then ''rejected'' else ?d)" "rs' = rs" using a by (simp_all add: add_incoming_def)
      moreover have "status \<in> {''rejected'', ''expired''}"
        using calculation(1) admission_values [of "m_payload m" now] by (auto split: if_splits)
      ultimately show ?thesis using full none by blast
    next
      case (Some kept)
      then obtain r where "incomingRecord i (m_envelope m) (m_connection m) (m_chatmail m) (validTimestampOrNow (m_received m) now) ?d = Inr r"
        "rs' = kept @ [r]" "status = ?d"
        using a by (auto simp: add_incoming_def rbind_Inr_conv)
      then show ?thesis using added Some none by blast
    qed
  qed
qed

text \<open>
  A received request grants nothing. It is stored only when it is valid, comes from its requester over a
  connection with that requester and names this account. A new request that is in time is stored as submitted and
  pending and waits for the user; a repeated or conflicting one adds no record; every other record is one
  that was there after expiry, with the same request, state and approval. The store never grows past 512
  records.\<close>

theorem received_request_waits:
  assumes "receiveRequest le uuids now account m s = (Some s', Inr receipt)"
  shows "\<exists>me rs changed. account = Some me \<and> validateCollaborationTaskRequest (m_payload m) = None
    \<and> get (m_envelope m) ''fromTetiId'' = get (m_payload m) ''requesterTetiId''
    \<and> get (m_connection m) ''remoteTetiId'' = get (m_payload m) ''requesterTetiId''
    \<and> get (m_payload m) ''targetTetiId'' = JStr me
    \<and> expireDueRecords uuids now (ts_records s) = Inr (rs, changed)
    \<and> (get receipt ''status'' = JStr ''received'' \<longrightarrow> (\<exists>kept r. ts_records s' = kept @ [r] \<and> set kept \<subseteq> set rs
          \<and> get r ''request'' = m_payload m \<and> get r ''state'' = JStr ''submitted'' \<and> get r ''approval'' = JStr ''pending''
          \<and> get r ''receipt'' = receipt))
    \<and> (get receipt ''status'' \<in> {JStr ''duplicate'', JStr ''conflict''} \<longrightarrow> length (ts_records s') = length rs)
    \<and> (\<forall>r'\<in>set (ts_records s').
        (\<exists>r\<in>set rs. \<forall>k\<in>{''request'', ''state'', ''approval''}. get r' k = get r k)
        \<or> get r' ''request'' = m_payload m \<and> get r' ''approval'' \<in> JStr ` {''pending'', ''expired'', ''rejected''})
    \<and> (length (ts_records s) \<le> 512 \<longrightarrow> length (ts_records s') \<le> 512)"
proof -
  let ?p = "m_payload m" and ?t = "received_at m now"
  let ?P = "is_task ''incoming'' (get ?p ''requesterTetiId'') (get ?p ''taskId'')"
  obtain me where me: "account = Some me" using assms by (cases account) (auto simp: receiveRequest_def with_account_def fails_def)
  have ok: "first_err [validateCollaborationTaskRequest ?p, inbound m me] = None"
    using assms by (cases "first_err [validateCollaborationTaskRequest ?p, inbound m me]")
      (auto simp: receiveRequest_def with_account_def me Let_def fails_def)
  obtain rs changed where rs: "expireDueRecords uuids now (ts_records s) = Inr (rs, changed)"
    using assms ok by (cases "expireDueRecords uuids now (ts_records s)") (auto simp: receiveRequest_def with_account_def me Let_def fails_def)
  obtain status rs' where adm: "admit_request le (uuids (length rs) 0) now m rs = Inr (status, rs')"
    using assms ok rs by (cases "admit_request le (uuids (length rs) 0) now m rs")
      (auto simp: receiveRequest_def with_account_def me Let_def fails_def)
  define up where "up = with_receipt receipt ?t"
  have receipt: "receipt = createReceipt ?p me status ?t"
    and s': "ts_records s' = (if status = ''conflict'' then rs' else update_first ?P up rs')"
    using assms ok rs adm by (auto simp: receiveRequest_def with_account_def me Let_def saves_def up_def)
  have status: "get receipt ''status'' = JStr status" by (simp add: receipt createReceipt_def)
  have up: "get (up r) k = get r k" if "k \<in> {''request'', ''state'', ''approval''}" for r k
    using that by (auto simp: up_def with_receipt_def get_spread)
  have len: "length rs = length (ts_records s)" using expireDueRecords_Inr(1) [OF rs] by (simp add: list_all2_lengthD)
  have ident: "validateCollaborationTaskRequest ?p = None" "get (m_envelope m) ''fromTetiId'' = get ?p ''requesterTetiId''"
    "get (m_connection m) ''remoteTetiId'' = get ?p ''requesterTetiId''" "get ?p ''targetTetiId'' = JStr me"
    using ok by (simp_all add: inbound_def requireInboundTaskIdentity_def valid_simps)
  have old: "\<exists>r\<in>set rs. \<forall>k\<in>{''request'', ''state'', ''approval''}. get r' k = get r k"
    if "r' \<in> set (update_first ?P up rs) \<or> r' \<in> set rs" for r'
    using that in_update_first [of r' ?P up rs] up by blast
  from adm show ?thesis
  proof (cases rule: admit_request_cases)
    case (known r)
    then have "status \<noteq> ''received''" "length (ts_records s') = length rs"
      "ts_records s' = rs \<or> ts_records s' = update_first ?P up rs" using s' by auto
    with me ident rs status len old show ?thesis by (intro exI [of _ me] exI [of _ rs] exI [of _ changed]) auto
  next
    case full
    then have "status \<noteq> ''received''" "length (ts_records s') = length rs"
      "ts_records s' = rs \<or> ts_records s' = update_first ?P up rs" using s' by auto
    with me ident rs status len old show ?thesis by (intro exI [of _ me] exI [of _ rs] exI [of _ changed]) auto
  next
    case (added kept r)
    note new = get_incoming_record [OF added(4)] and cap = ensureCapacity_Some [OF added(1)]
    have isP: "?P r" using new by (simp add: is_task_def m_payload_def)
    have none: "\<forall>x\<in>set kept. \<not> ?P x" using added(5) cap by blast
    have st: "status \<in> {''received'', ''rejected'', ''expired''}" using added(3) admission_values by simp
    then have "status \<noteq> ''conflict''" "status \<noteq> ''duplicate''" by auto
    then have recs: "ts_records s' = kept @ [up r]" using s' added(2) isP update_first_none [OF none, of up "[r]"] by simp
    have req: "get (up r) ''request'' = ?p" "get (up r) ''approval'' \<in> JStr ` {''pending'', ''expired'', ''rejected''}"
      using st by (auto simp: up new m_payload_def)
    have sub: "status = ''received'' \<Longrightarrow> get (up r) ''state'' = JStr ''submitted'' \<and> get (up r) ''approval'' = JStr ''pending''
        \<and> get (up r) ''receipt'' = receipt"
      by (simp add: up new up_def with_receipt_def get_spread)
    have "length (ts_records s') \<le> 512" using cap recs by (simp add: max_task_transport_records_def len_def)
    moreover have "status \<noteq> ''duplicate'' \<and> status \<noteq> ''conflict''" using st by auto
    moreover have "\<forall>r'\<in>set (ts_records s'). (\<exists>r\<in>set rs. \<forall>k\<in>{''request'', ''state'', ''approval''}. get r' k = get r k)
        \<or> get r' ''request'' = ?p \<and> get r' ''approval'' \<in> JStr ` {''pending'', ''expired'', ''rejected''}"
      using recs req old cap by auto
    ultimately show ?thesis using me ident rs status recs req sub cap
      by (intro exI [of _ me] exI [of _ rs] exI [of _ changed]) auto
  qed
qed

definition sample_request_message :: message where
  "sample_request_message = \<lparr>m_envelope = JObj [(''messageId'', JStr ''m-1''), (''fromTetiId'', JStr ''teti_abc123def''),
       (''payload'', sample_task_request)],
     m_connection = JObj [(''remoteTetiId'', JStr ''teti_abc123def'')], m_received = JUndef, m_chatmail = JUndef\<rparr>"

theorem received_request_waits_witness:
  "\<exists>s' receipt. receiveRequest str_le (\<lambda>i j. ''event'') 1767225600000 (Some ''teti_me1234567'') sample_request_message
      \<lparr>ts_records = [], ts_peers = []\<rparr> = (Some s', Inr receipt) \<and> get receipt ''status'' = JStr ''received''
    \<and> get (last (ts_records s')) ''approval'' = JStr ''pending''"
proof -
  let ?o = "receiveRequest str_le (\<lambda>i j. ''event'') 1767225600000 (Some ''teti_me1234567'') sample_request_message
      \<lparr>ts_records = [], ts_peers = []\<rparr>"
  have "(case ?o of (Some s', Inr r) \<Rightarrow> get r ''status'' = JStr ''received'' | _ \<Rightarrow> False)" by code_simp
  then obtain s' r where o: "?o = (Some s', Inr r)" "get r ''status'' = JStr ''received''"
    by (auto split: prod.splits option.splits sum.splits)
  from received_request_waits [OF o(1)] o(2)
  obtain kept x where "ts_records s' = kept @ [x]" "get x ''approval'' = JStr ''pending''" by blast
  with o show ?thesis by simp
qed

section \<open>Commands of the user\<close>

lemma required_session:
  assumes "requireIncomingLongHorizon uuid rs taskId now = Inr (i, r)"
  shows "i < length rs" "r = rs ! i" "incoming_task taskId r" "truthy (get r ''longHorizon'')"
    "\<not> due_by (get (get r ''longHorizon'') ''continuationExpiresAt'') now" "\<not> session_ended (get r ''longHorizon'')"
  using assms find_index_Some [of "incoming_task taskId" rs]
  by (auto simp: requireIncomingLongHorizon_def Let_def rbind_Inr_conv split: if_splits option.splits)

text \<open>C31:
  A collaboration is renewed within bounds: only at a stage boundary of a collaboration that has neither ended
  nor expired, for at least a minute and at most a day, at most eight times, and never past seven days after the request was
  made. The new expiry is the old one or now, whichever is later, plus the time asked for; request, state and
  approval stay.\<close>

theorem renewal_is_bounded:
  assumes "renewLongHorizon uuid now taskId ttlMs s = (Some s', Inr r')"
  shows "\<exists>i. i < length (ts_records s) \<and> ts_records s' = (ts_records s)[i := r'] \<and> ts_peers s' = ts_peers s
    \<and> (let r = ts_records s ! i; session = get r ''longHorizon'';
           expiry = max now (time_of (get session ''continuationExpiresAt'')) + int_of ttlMs in
        incoming r \<and> one_of [''input_required'', ''paused''] (get session ''phase'')
        \<and> \<not> due_by (get session ''continuationExpiresAt'') now
        \<and> 60000 \<le> int_of ttlMs \<and> int_of ttlMs \<le> 86400000
        \<and> expiry \<le> time_of (get (get r ''request'') ''createdAt'') + 604800000
        \<and> get (get r' ''longHorizon'') ''continuationExpiresAt'' = iso expiry
        \<and> get (get r' ''longHorizon'') ''renewalCount'' = jint (int_of (get session ''renewalCount'') + 1)
        \<and> int_of (get session ''renewalCount'') + 1 \<le> 8
        \<and> (\<forall>k\<in>{''request'', ''state'', ''approval''}. get r' k = get r k))"
proof -
  obtain i r where req: "requireIncomingLongHorizon uuid (ts_records s) taskId now = Inr (i, r)"
    using assms by (cases "requireIncomingLongHorizon uuid (ts_records s) taskId now") (auto simp: renewLongHorizon_def fails_def)
  note r = required_session [OF req]
  let ?session = "get r ''longHorizon''"
  let ?expiry = "max now (time_of (get ?session ''continuationExpiresAt'')) + int_of ttlMs"
  have guards: "at_stage_boundary ?session" "safe_int_in 60000 maximum_renewal_ms ttlMs"
    "\<not> maximum_renewals \<le> int_of (get ?session ''renewalCount'')"
    "\<not> time_of (get (get r ''request'') ''createdAt'') + maximum_lifetime_ms < ?expiry"
    using assms req by (auto simp: renewLongHorizon_def Let_def fails_def split: if_splits)
  obtain session' where session: "appendLongHorizonAudit (uuid 0)
       (spread ?session [(''continuationExpiresAt'', iso ?expiry), (''renewalCount'', jint (int_of (get ?session ''renewalCount'') + 1))])
       [(''action'', JStr ''renewed''), (''actor'', JStr ''local_user''), (''stageIndex'', or_null (get ?session ''currentStageIndex''))]
       (iso now) = Inr session'"
    and s': "r' = setLatestTaskChange (put (bump_status (put r ''longHorizon'' session')) ''updatedAt'' (iso now))
               ((change ''renewed'')\<lparr>ac_stage := stage_or_absent ?session\<rparr>)" "s' = set_record i r' s"
    using assms req guards by (auto simp: renewLongHorizon_def Let_def fails_def after_def saves_def split: sum.splits)
  have fields: "get (get r' ''longHorizon'') ''continuationExpiresAt'' = iso ?expiry"
    "get (get r' ''longHorizon'') ''renewalCount'' = jint (int_of (get ?session ''renewalCount'') + 1)"
    using session unfolding appendLongHorizonAudit_def append_audit_Inr
    by (simp_all add: s'(1) frame assign)
  have same: "\<forall>k\<in>{''request'', ''state'', ''approval''}. get r' k = get r k" by (simp add: s'(1) frame assign)
  have bounds: "60000 \<le> int_of ttlMs" "int_of ttlMs \<le> 86400000" "int_of (get ?session ''renewalCount'') + 1 \<le> 8"
    "?expiry \<le> time_of (get (get r ''request'') ''createdAt'') + 604800000"
    using guards(2-4) by (simp_all add: safe_int_in_def maximum_renewal_ms_def maximum_renewals_def maximum_lifetime_ms_def)
  show ?thesis
    unfolding Let_def using r fields bounds same guards(1) s'(2)
    by (intro exI [of _ i] conjI) (simp_all add: set_record_def at_stage_boundary_def incoming_task_def)
qed

definition sample_boundary_record :: json where
  "sample_boundary_record = JObj
     [(''schemaVersion'', jint 1), (''direction'', JStr ''incoming''), (''peerTetiId'', JStr ''teti_abc123def''),
      (''protocolVersion'', jint 7), (''request'', sample_long_request), (''state'', JStr ''input_required''),
      (''approval'', JStr ''consumed''), (''delivery'', JStr ''received''),
      (''longHorizon'', spread sample_session [(''phase'', JStr ''input_required''), (''currentStageIndex'', jint 1),
         (''continuationExpiresAt'', JStr ''2026-01-01T01:00:00.000Z'')]),
      (''createdAt'', sample_time), (''updatedAt'', sample_time)]"

theorem renewal_is_bounded_witness:
  "\<exists>s' r. renewLongHorizon (\<lambda>i. ''event'') 1767225600000 ''task-1'' (jint 3600000)
      \<lparr>ts_records = [sample_boundary_record], ts_peers = []\<rparr> = (Some s', Inr r)
    \<and> get (get r ''longHorizon'') ''renewalCount'' = jint 1"
proof -
  let ?o = "renewLongHorizon (\<lambda>i. ''event'') 1767225600000 ''task-1'' (jint 3600000) \<lparr>ts_records = [sample_boundary_record], ts_peers = []\<rparr>"
  have "(case ?o of (Some s', Inr r) \<Rightarrow> True | _ \<Rightarrow> False)" by code_simp
  then obtain s' r where o: "?o = (Some s', Inr r)" by (auto split: prod.splits option.splits sum.splits)
  have "get (get sample_boundary_record ''longHorizon'') ''renewalCount'' = jint 0"
    by (simp add: sample_boundary_record_def get_spread sample_session_def)
  with o renewal_is_bounded [OF o] show ?thesis by (auto simp: Let_def)
qed

text \<open>
  A cancellation by the requester leaves the delegation plan of the task as it was: the record is canceled
  and its session too, but a plan that was working stays working, with its working step. A cancellation by
  the local user ends the plan.\<close>

theorem remote_cancel_keeps_the_plan:
  assumes "receiveCancel eventId now account m s = (Some s', Inr receipt)"
  shows "\<exists>i. i < length (ts_records s) \<and> get (ts_records s' ! i) ''delegationPlan'' = get (ts_records s ! i) ''delegationPlan''
    \<and> isTerminalTaskState (get (ts_records s' ! i) ''state'')
    \<and> (\<forall>uuid r'. truthy (get (ts_records s ! i) ''delegationPlan'') \<longrightarrow> cancel_incoming uuid now (ts_records s ! i) = Inr r' \<longrightarrow>
        plan_ended (get r' ''delegationPlan''))"
proof -
  obtain me where me: "account = Some me" using assms by (cases account) (auto simp: receiveCancel_def with_account_def fails_def)
  have ok: "inbound m me = None"
    using assms by (cases "inbound m me") (auto simp: receiveCancel_def with_account_def me Let_def fails_def)
  let ?p = "m_payload m" and ?t = "received_at m now"
  obtain i where i: "index_of_task s ''incoming'' (get ?p ''requesterTetiId'') (get ?p ''taskId'') = Some i"
    using assms ok by (cases "index_of_task s ''incoming'' (get ?p ''requesterTetiId'') (get ?p ''taskId'')")
      (auto simp: receiveCancel_def with_account_def me Let_def fails_def)
  let ?r = "ts_records s ! i"
  obtain r' where r': "s' = set_record i (enqueueApplicationReceipt r' receipt) s"
    and cases: "isTerminalTaskState (get ?r ''state'') \<and> r' = ?r \<or>
      with_session (\<lambda>session. cancel_session eventId ''The requester canceled the collaboration'' ''remote_peer''
        (or_null (get session ''currentStageIndex'')) [] session ?t) (canceled_by_requester ?r ?t) = Inr r'"
    using assms ok i by (auto simp: receiveCancel_def with_account_def me Let_def fails_def saves_def after_def split: if_splits sum.splits)
  have len: "i < length (ts_records s)" using index_of_task_Some [OF i] by simp
  have canceled: "get (canceled_by_requester ?r ?t) ''delegationPlan'' = get ?r ''delegationPlan''"
    "get (canceled_by_requester ?r ?t) ''state'' = JStr ''canceled''"
    by (simp_all add: canceled_by_requester_def frame assign)
  have "get r' ''delegationPlan'' = get ?r ''delegationPlan'' \<and> isTerminalTaskState (get r' ''state'')"
    using cases canceled
    by (auto simp: with_session_def rbind_Inr_conv get_put isTerminalTaskState_def one_of_def terminal_states_def split: if_splits)
  moreover have "ts_records s' ! i = enqueueApplicationReceipt r' receipt" using r' len by (simp add: set_record_def)
  moreover have "plan_ended (get x ''delegationPlan'')"
    if plan: "truthy (get ?r ''delegationPlan'')" and x: "cancel_incoming uuid now ?r = Inr x" for uuid x
  proof -
    let ?r1 = "put (bump_status (put ?r ''state'' (JStr ''canceled''))) ''safeErrorCode'' (JStr ''TASK_CANCELED_BY_USER'')"
    obtain r2 r3 where r2: "with_session (\<lambda>session. cancel_session (uuid 0) ''The collaboration was canceled'' ''local_user''
          (or_null (get session ''currentStageIndex'')) [] session (iso now)) ?r1 = Inr r2"
      and r3: "(if truthy (get r2 ''delegationPlan'')
             then rbind (cancel_plan (uuid 1) ''local_user'' ''TASK_CANCELED_BY_USER'' (get r2 ''delegationPlan'') (iso now))
               (\<lambda>plan. Inr (put r2 ''delegationPlan'' plan)) else Inr r2) = Inr r3"
      and x3: "get x ''delegationPlan'' = get r3 ''delegationPlan''"
      using x by (auto simp: cancel_incoming_def Let_def rbind_Inr_conv frame assign)
    have "get r2 ''delegationPlan'' = get ?r ''delegationPlan''"
      using r2 by (auto simp: with_session_def rbind_Inr_conv assign split: if_splits)
    then show ?thesis using r3 x3 plan cancel_plan_ends by (auto simp: rbind_Inr_conv get_put)
  qed
  ultimately show ?thesis using len by (intro exI [of _ i]) (simp add: frame)
qed

definition sample_cancel :: message where
  "sample_cancel = \<lparr>m_envelope = JObj [(''fromTetiId'', JStr ''teti_abc123def''), (''payload'', JObj
       [(''schemaVersion'', jint 1), (''taskId'', JStr ''task-1''), (''requesterTetiId'', JStr ''teti_abc123def''),
        (''targetTetiId'', JStr ''teti_me1234567''), (''controlId'', JStr ''control-1''), (''requestedAt'', sample_time)])],
     m_connection = JObj [(''remoteTetiId'', JStr ''teti_abc123def'')], m_received = JUndef, m_chatmail = JUndef\<rparr>"

theorem remote_cancel_keeps_the_plan_witness:
  "\<exists>s' r. receiveCancel ''event'' 1767225600000 (Some ''teti_me1234567'') sample_cancel
      \<lparr>ts_records = [sample_record], ts_peers = []\<rparr> = (Some s', Inr r)
    \<and> get (ts_records s' ! 0) ''delegationPlan'' = get sample_record ''delegationPlan''"
proof -
  let ?o = "receiveCancel ''event'' 1767225600000 (Some ''teti_me1234567'') sample_cancel \<lparr>ts_records = [sample_record], ts_peers = []\<rparr>"
  have "(case ?o of (Some s', Inr r) \<Rightarrow> True | _ \<Rightarrow> False)" by code_simp
  then obtain s' r where o: "?o = (Some s', Inr r)" by (auto split: prod.splits option.splits sum.splits)
  with remote_cancel_keeps_the_plan [OF o] show ?thesis by auto
qed

text \<open>
  A task is bound to a Workspace with no more access than it asked for: exactly the access of its request, or
  the default when it names no Workspace, and only `read' on a Workspace of its own for the receiver's local
  compute, which takes no shared Workspace. A shared Workspace is bound only at the revision that the request names, and only
  when both the requester and the local account belong to it.\<close>

theorem workspace_binding_is_least:
  assumes "resolveWorkspaceBinding store now request me = Inr binding"
    and "get request ''workspace'' = JUndef \<or> is_array (get (get request ''workspace'') ''access'')"
  shows "get binding ''access'' = (if get request ''offerId'' = JStr local_text_compute_offer then JArr [JStr ''read'']
        else if get request ''workspace'' = JUndef then default_access else get (get request ''workspace'') ''access'')
    \<and> (get request ''offerId'' = JStr local_text_compute_offer \<longrightarrow>
        get (get request ''workspace'') ''kind'' \<noteq> JStr ''reference''
        \<and> get binding ''workspaceId'' = JStr (''workspace:none.'' @ js_string (get request ''taskId'')))
    \<and> (get (get request ''workspace'') ''kind'' = JStr ''reference'' \<longrightarrow> (case store of None \<Rightarrow> True | Some st \<Rightarrow>
        \<exists>w. ws_get st (get (get request ''workspace'') ''workspaceId'') = Some w
          \<and> get w ''revision'' = get (get request ''workspace'') ''workspaceRevision''
          \<and> {JStr me, get request ''requesterTetiId''} \<subseteq> insert (get w ''ownerTetiId'') (set (items (get w ''participantTetiIds'')))
          \<and> get binding ''workspaceId'' = get w ''workspaceId'' \<and> get binding ''workspaceRevision'' = get w ''revision''))"
proof -
  let ?ws = "get request ''workspace''"
  have array: "is_array v \<Longrightarrow> or_else v d = v" for v d by (cases v) (simp_all add: or_else_def)
  have none: "get default_workspace ''access'' = default_access" "get default_workspace ''kind'' = JStr ''temporary''"
    by (simp_all add: default_workspace_def default_access_def)
  have undef: "get JUndef k = JUndef" "get JNull k = JUndef" for k by simp_all
  have present: "or_else ?ws default_workspace = (if ?ws = JUndef then default_workspace else ?ws)"
    using assms(2) by (cases ?ws) (simp_all add: or_else_def)
  show ?thesis
  proof (cases "get request ''offerId'' = JStr local_text_compute_offer")
    case True
    then show ?thesis using assms(1) by (auto simp: resolveWorkspaceBinding_def workspace_binding_def split: if_splits)
  next
    case False
    show ?thesis
    proof (cases store)
      case None
      then show ?thesis using assms False
        by (auto simp: resolveWorkspaceBinding_def workspace_binding_def array undef)
    next
      case (Some st)
      let ?w = "or_else ?ws default_workspace"
      have b: "(if get ?w ''kind'' = JStr ''temporary'' then temporary_binding st now request ?w me
          else reference_binding st request ?w me) = Inr binding"
        using assms(1) False Some by (simp add: resolveWorkspaceBinding_def Let_def)
      have access: "get binding ''access'' = get ?w ''access''"
        using b by (auto simp: temporary_binding_def reference_binding_def store_binding_def workspace_binding_def Let_def
            rbind_Inr_conv split: if_splits option.splits)
      have "\<exists>w. ws_get st (get ?ws ''workspaceId'') = Some w \<and> get w ''revision'' = get ?ws ''workspaceRevision''
          \<and> {JStr me, get request ''requesterTetiId''} \<subseteq> insert (get w ''ownerTetiId'') (set (items (get w ''participantTetiIds'')))
          \<and> get binding ''workspaceId'' = get w ''workspaceId'' \<and> get binding ''workspaceRevision'' = get w ''revision''"
        if reference: "get ?ws ''kind'' = JStr ''reference''"
      proof -
        have "?ws \<noteq> JUndef" using reference by auto
        then have "reference_binding st request ?ws me = Inr binding" using b reference present by simp
        then show ?thesis
          by (auto simp: reference_binding_def store_binding_def workspace_binding_def Let_def split: option.splits if_splits)
      qed
      then show ?thesis using False Some access present none by auto
    qed
  qed
qed

definition sample_workspace_store :: workspace_store where
  "sample_workspace_store = \<lparr>ws_create = (\<lambda>owner requester mode retention. Inr (JObj [(''workspaceId'', JStr ''workspace:1''),
       (''revision'', jint 1), (''mode'', JStr mode)])), ws_get = (\<lambda>i. None)\<rparr>"

theorem workspace_binding_is_least_witness:
  "\<exists>b. resolveWorkspaceBinding (Some sample_workspace_store) 1767225600000 sample_task_request ''teti_me1234567'' = Inr b
     \<and> get b ''access'' = JArr [JStr ''read'']"
proof -
  let ?b = "resolveWorkspaceBinding (Some sample_workspace_store) 1767225600000 sample_task_request ''teti_me1234567''"
  have "\<exists>b. ?b = Inr b"
    by (simp add: resolveWorkspaceBinding_def sample_task_request_def local_text_compute_offer_def temporary_binding_def
        sample_workspace_store_def)
  then obtain b where b: "?b = Inr b" by blast
  have "is_array (get (get sample_task_request ''workspace'') ''access'')" by (simp add: sample_task_request_def)
  with workspace_binding_is_least [OF b] b show ?thesis
    by (auto simp: sample_task_request_def local_text_compute_offer_def)
qed

text \<open>
  When the store is full, room is made by the expiry of the requests: exactly the records whose request has
  not expired are kept, in the order of their last change, and there is room only if they are fewer than 512. A
  collaboration that was renewed past the expiry of its request is dropped although it is alive.\<close>

theorem capacity_counts_request_expiry:
  assumes "ensureCapacity le now rs = Some rs'"
  shows "length rs' < 512
    \<and> (if length rs < 512 then rs' = rs
       else set rs' = {r \<in> set rs. \<exists>t. parsed (get (get r ''request'') ''expiresAt'') = Some t \<and> now < t})"
  using assms
  by (auto simp: ensureCapacity_def Let_def max_task_transport_records_def len_def not_le split: if_splits option.splits)

definition sample_renewed_record :: json where
  "sample_renewed_record = put sample_boundary_record ''longHorizon''
     (put (get sample_boundary_record ''longHorizon'') ''continuationExpiresAt'' (JStr ''2026-01-02T00:00:00.000Z''))"

theorem capacity_counts_request_expiry_witness:
  "ensureCapacity str_le 1767230000000 (replicate 512 sample_renewed_record) = Some []
   \<and> \<not> expiry_due 1767230000000 sample_renewed_record \<and> \<not> isTerminalTaskState (get sample_renewed_record ''state'')"
proof -
  have live: "\<not> expiry_due 1767230000000 sample_renewed_record" "\<not> isTerminalTaskState (get sample_renewed_record ''state'')"
    and past: "parsed (get (get sample_renewed_record ''request'') ''expiresAt'') = Some 1767229200000" by code_simp+
  then obtain rs' where e: "ensureCapacity str_le 1767230000000 (replicate 512 sample_renewed_record) = Some rs'"
    by (simp add: ensureCapacity_def max_task_transport_records_def len_def filter_replicate sort_by_def)
  have "set rs' = {}" using capacity_counts_request_expiry [OF e] past by auto
  with e live show ?thesis by simp
qed

end
