(* ===== verification/Agent_Core.thy ===== *)
theory Agent_Core
  imports Execution Task_Machine Delegation
begin

text \<open>
  The contract between the Host and its local Agents (\<open>core/callability/agent-core.ts\<close>): connectors with
  their descriptor, resource binding and compute offer, the execution specification a connector returns, and
  the authority that permits one execution. The interfaces are records; a field \<open>_keys\<close> holds the own
  property names of the object, which \<open>exactKeys\<close> compares with the allowed ones. The URL parser of the
  platform, the operating system, the digest and the clock are arguments.
\<close>

section \<open>Data\<close>

record agent_descriptor =
  cd_keys :: "string list"
  cd_contract_version :: int
  cd_connector_id :: string
  cd_connector_revision :: jsnum
  cd_child_agent_id :: string
  cd_capability_ids :: "string list"
  cd_input_modes :: "string list"
  cd_output_modes :: "string list"
  cd_transport_kind :: string
  cd_origin :: "string option"
  cd_workspace_policy :: "string option"
  cd_max_concurrent :: "jsnum option"
  cd_max_queued :: "jsnum option"
  cd_capabilities :: exec_capabilities
  cd_semantics :: string
  cd_timeout_ms :: jsnum
  cd_cancel_grace_ms :: jsnum
  cd_max_output_bytes :: jsnum

record compute_offer =
  of_keys :: "string list"
  of_offer_id :: string
  of_capability :: string
  of_resource_class :: string
  of_execution_location :: string
  of_input_modes :: "string list"
  of_output_modes :: "string list"
  of_concurrency :: jsnum
  of_approval :: string

record resource_binding =
  rb_keys :: "string list"
  rb_schema_version :: int
  rb_binding_id :: string
  rb_child_agent_id :: string
  rb_connector_id :: string
  rb_transport_kind :: string
  rb_capability_ids :: "string list"

text \<open>\<open>cn_resolves_checkpoint\<close> tells whether the connector has the handler \<open>resolveCheckpoint\<close>.\<close>

record connector =
  cn_descriptor :: agent_descriptor
  cn_binding :: resource_binding
  cn_offer :: "compute_offer option"
  cn_entrypoint :: "string option"
  cn_resolves_checkpoint :: bool

record local_child_agent =
  lc_child_agent_id :: string
  lc_origin :: string
  lc_workspace_policy :: string
  lc_max_concurrent :: "jsnum option"
  lc_connector_ids :: "string list"
  lc_binding_ids :: "string list"
  lc_capability_ids :: "string list"
  lc_input_modes :: "string list"
  lc_output_modes :: "string list"

record loopback_spec =
  lo_endpoint :: string
  lo_request_id :: string
  lo_runtime_id :: string
  lo_model :: string
  lo_listener_pid :: jsnum
  lo_code_hash :: string

record osaurus_spec = loopback_spec +
  os_agent_id :: string
  os_configuration_digest :: string
  os_authority_keys :: "string list"
  os_tools :: string
  os_memory :: string
  os_host_workspace :: string
  os_autonomous_exec :: string

datatype execution_spec =
    ProcessSpec "string list" launch_spec
  | FakeSpec "string list" string
  | LoopbackSpec "string list" loopback_spec
  | OsaurusSpec "string list" osaurus_spec

record execution_authority =
  ea_keys :: "string list"
  ea_schema_version :: int
  ea_authority_id :: string
  ea_task_id :: string
  ea_connector_id :: string
  ea_child_agent_id :: string
  ea_capability_id :: string
  ea_input_digest :: string
  ea_issued_at :: string
  ea_expires_at :: string
  ea_deadline_at :: string
  ea_single_use :: bool
  ea_workspace_id :: string
  ea_workspace_revision :: jsnum
  ea_workspace_access :: json
  ea_user_file_access :: string
  ea_command_policy :: string
  ea_network_policy :: string
  ea_epoch :: jsnum

section \<open>Checks\<close>

definition agent_error :: "string \<Rightarrow> string \<Rightarrow> error" where
  "agent_error code message = HostChildAgentContractError code message"

definition agent_keys :: "string list \<Rightarrow> string list \<Rightarrow> string list \<Rightarrow> string \<Rightarrow> error option" where
  "agent_keys ks required allowed label =
     throw_if (truthy_key (find_first (\<lambda>k. k \<notin> set allowed) ks) \<or> truthy_key (find_first (\<lambda>k. k \<notin> set ks) required))
       (agent_error ''AGENT_CORE_FIELDS'' (label @ '' fields are invalid.''))"

definition agent_exactKeys :: "string list \<Rightarrow> string list \<Rightarrow> string \<Rightarrow> bool \<Rightarrow> error option" where
  "agent_exactKeys ks allowed label optionalLast =
     agent_keys ks (if optionalLast then butlast allowed else allowed) allowed label"

definition exactKeysWithOptional :: "string list \<Rightarrow> string list \<Rightarrow> string list \<Rightarrow> string \<Rightarrow> error option" where
  "exactKeysWithOptional ks required optional label = agent_keys ks required (required @ optional) label"

definition agent_safeSlug :: "string \<Rightarrow> string \<Rightarrow> error option" where
  "agent_safeSlug s label = throw_if (128 < length s \<or> \<not> slug_pattern s)
     (agent_error ''AGENT_CORE_IDENTIFIER'' (''Host/Child Agent '' @ label @ '' is invalid.''))"

definition agent_safeId :: "string \<Rightarrow> string \<Rightarrow> error option" where
  "agent_safeId s label = throw_if (\<not> id_pattern 127 s)
     (agent_error ''AGENT_CORE_IDENTIFIER'' (''Host/Child Agent '' @ label @ '' is invalid.''))"

definition transport_kinds :: "string list" where
  "transport_kinds = [''process'', ''fake'', ''loopback_http'', ''osaurus_agent'']"

section \<open>Connectors\<close>

definition connectorDescriptorAsAdapterDescriptor :: "agent_descriptor \<Rightarrow> adapter_descriptor" where
  "connectorDescriptorAsAdapterDescriptor d =
     \<lparr>ad_contract_version = 2, ad_adapter_id = cd_connector_id d, ad_adapter_revision = cd_connector_revision d,
      ad_agent_id = cd_child_agent_id d, ad_capability_ids = cd_capability_ids d, ad_input_mode = None,
      ad_output_mode = None, ad_input_modes = Some (cd_input_modes d), ad_output_modes = Some (cd_output_modes d),
      ad_timeout_ms = cd_timeout_ms d, ad_cancel_grace_ms = cd_cancel_grace_ms d,
      ad_max_output_bytes = cd_max_output_bytes d\<rparr>"

definition origin_of :: "agent_descriptor \<Rightarrow> string" where
  "origin_of d = (case cd_origin d of None \<Rightarrow> ''native_agent'' | Some x \<Rightarrow> x)"

definition policy_of :: "agent_descriptor \<Rightarrow> string" where
  "policy_of d = (case cd_workspace_policy d of None \<Rightarrow> ''snapshot'' | Some x \<Rightarrow> x)"

definition descriptor_required_keys :: "string list" where
  "descriptor_required_keys = [''contractVersion'', ''connectorId'', ''connectorRevision'', ''childAgentId'', ''capabilityIds'',
     ''inputModes'', ''outputModes'', ''transportKind'', ''timeoutMs'', ''cancelGraceMs'', ''maxOutputBytes'',
     ''executionCapabilities'', ''executionSemantics'']"

definition descriptor_optional_keys :: "string list" where
  "descriptor_optional_keys = [''origin'', ''workspacePolicy'', ''maxConcurrentExecutions'', ''maxQueuedExecutions'']"

text \<open>An optional limit of at most 32.\<close>

definition bad_limit :: "jsnum option \<Rightarrow> bool" where
  "bad_limit n = (case n of None \<Rightarrow> False | Some k \<Rightarrow> \<not> num_is_integer k \<or> num_int k < 1 \<or> 32 < num_int k)"

definition transport_checks :: "agent_descriptor \<Rightarrow> error option list" where
  "transport_checks d =
     [throw_if (cd_transport_kind d \<notin> set transport_kinds)
        (agent_error ''CONNECTOR_TRANSPORT'' ''Agent Connector transport kind is invalid.''),
      throw_if (origin_of d \<noteq> ''native_agent'' \<and> origin_of d \<noteq> ''runtime_facade'')
        (agent_error ''CONNECTOR_ORIGIN'' ''Agent Connector origin is invalid.''),
      throw_if (policy_of d \<notin> {''snapshot'', ''bounded_context'', ''none''})
        (agent_error ''CONNECTOR_WORKSPACE'' ''Agent Connector Workspace policy is invalid.''),
      throw_if (cd_transport_kind d = ''process'' \<and> policy_of d \<noteq> ''snapshot'')
        (agent_error ''CONNECTOR_WORKSPACE'' ''Process Connectors require a Host Workspace Snapshot.''),
      throw_if (cd_transport_kind d = ''loopback_http'' \<and> (origin_of d \<noteq> ''runtime_facade'' \<or> policy_of d \<noteq> ''none''))
        (agent_error ''CONNECTOR_RUNTIME_FACADE'' ''Loopback HTTP Connectors must be Workspace-free Runtime facades.''),
      throw_if (cd_transport_kind d = ''osaurus_agent'' \<and> (origin_of d \<noteq> ''native_agent'' \<or> policy_of d \<noteq> ''bounded_context''))
        (agent_error ''CONNECTOR_NATIVE_AGENT''
          ''Osaurus Agent Connectors require a bounded Host-selected context and native Agent origin.''),
      throw_if (bad_limit (cd_max_concurrent d)) (agent_error ''CONNECTOR_CONCURRENCY'' ''Agent Connector concurrency limit is invalid.''),
      throw_if (bad_limit (cd_max_queued d)) (agent_error ''CONNECTOR_QUEUE'' ''Agent Connector queue limit is invalid.''),
      throw_if (supports_checkpoint (cd_capabilities d) \<and> cd_workspace_policy d \<noteq> Some ''snapshot'')
        (agent_error ''CONNECTOR_CHECKPOINT_WORKSPACE'' ''Checkpoint-capable Connectors require a Host Workspace Snapshot.'')]"

definition validateAgentConnectorDescriptor :: "agent_descriptor \<Rightarrow> error option" where
  "validateAgentConnectorDescriptor d = first_err
     ([exactKeysWithOptional (cd_keys d) descriptor_required_keys descriptor_optional_keys ''Agent Connector descriptor'',
      throw_if (cd_contract_version d \<noteq> 2) (agent_error ''CONNECTOR_VERSION'' ''Unsupported Agent Connector contract version.''),
      validateConnectorExecutionCapabilities (cd_capabilities d),
      throw_if (cd_semantics d \<noteq> ''workspace_pure_compute'' \<and> cd_semantics d \<noteq> ''external_side_effects_possible'')
        (agent_error ''CONNECTOR_EXECUTION_SEMANTICS'' ''Connector execution semantics are invalid.''),
      throw_if ((supports_resume (cd_capabilities d) \<or> supports_checkpoint (cd_capabilities d))
          \<and> cd_semantics d \<noteq> ''workspace_pure_compute'')
        (agent_error ''CONNECTOR_RESUME_SIDE_EFFECTS'' ''Only Workspace-pure Connectors may declare checkpoint resume.''),
      validateCallableAdapterDescriptor (connectorDescriptorAsAdapterDescriptor d)]
     @ transport_checks d)"

definition binding_keys :: "string list" where
  "binding_keys = [''schemaVersion'', ''bindingId'', ''childAgentId'', ''connectorId'', ''transportKind'', ''capabilityIds'']"

definition validateAgentResourceBinding :: "resource_binding \<Rightarrow> agent_descriptor option \<Rightarrow> error option" where
  "validateAgentResourceBinding b descriptor = first_err
     [agent_exactKeys (rb_keys b) binding_keys ''Agent Resource Binding'' False,
      throw_if (rb_schema_version b \<noteq> 1)
        (agent_error ''RESOURCE_BINDING_VERSION'' ''Unsupported Agent Resource Binding version.''),
      agent_safeId (rb_binding_id b) ''bindingId'',
      agent_safeSlug (rb_child_agent_id b) ''childAgentId'',
      agent_safeSlug (rb_connector_id b) ''connectorId'',
      throw_if (rb_transport_kind b \<notin> set transport_kinds)
        (agent_error ''RESOURCE_BINDING_TRANSPORT'' ''Agent Resource Binding transport is invalid.''),
      throw_if (rb_capability_ids b = [] \<or> \<not> distinct (rb_capability_ids b))
        (agent_error ''RESOURCE_BINDING_CAPABILITY'' ''Agent Resource Binding capabilities are invalid.''),
      first_err (map (\<lambda>c. agent_safeSlug c ''capabilityId'') (rb_capability_ids b)),
      (case descriptor of None \<Rightarrow> None | Some d \<Rightarrow>
         throw_if (rb_child_agent_id b \<noteq> cd_child_agent_id d \<or> rb_connector_id b \<noteq> cd_connector_id d
             \<or> rb_transport_kind b \<noteq> cd_transport_kind d \<or> rb_capability_ids b \<noteq> cd_capability_ids d)
           (agent_error ''RESOURCE_BINDING_MISMATCH'' ''Agent Resource Binding does not match its Connector.''))]"

definition offer_keys :: "string list" where
  "offer_keys = [''offerId'', ''capability'', ''resourceClass'', ''executionLocation'', ''inputModes'', ''outputModes'',
     ''concurrency'', ''approval'']"

definition validateAgentComputeOffer :: "compute_offer \<Rightarrow> agent_descriptor \<Rightarrow> error option" where
  "validateAgentComputeOffer f d = first_err
     [agent_exactKeys (of_keys f) offer_keys ''Agent Compute Offer'' False,
      agent_safeSlug (of_offer_id f) ''offerId'',
      throw_if (of_capability f \<noteq> ''general-text-assistance''
          \<or> (of_resource_class f \<noteq> ''local_model'' \<and> of_resource_class f \<noteq> ''native_agent'')
          \<or> of_execution_location f \<noteq> ''receiver_local'' \<or> of_input_modes f \<noteq> [''text''] \<or> of_output_modes f \<noteq> [''text'']
          \<or> of_concurrency f \<noteq> NInt 1 \<or> of_approval f \<noteq> ''allow_once'' \<or> cd_max_concurrent d \<noteq> Some (of_concurrency f)
          \<or> of_capability f \<notin> set (cd_capability_ids d) \<or> \<not> set (of_input_modes f) \<subseteq> set (cd_input_modes d)
          \<or> \<not> set (of_output_modes f) \<subseteq> set (cd_output_modes d))
        (agent_error ''CONNECTOR_COMPUTE_OFFER'' ''Agent Compute Offer does not match its local Connector.''),
      throw_if ((of_resource_class f = ''local_model''
            \<and> (cd_origin d \<noteq> Some ''runtime_facade'' \<or> cd_workspace_policy d \<noteq> Some ''none''))
          \<or> (of_resource_class f = ''native_agent''
            \<and> (cd_origin d \<noteq> Some ''native_agent'' \<or> cd_workspace_policy d \<noteq> Some ''bounded_context'')))
        (agent_error ''CONNECTOR_COMPUTE_OFFER'' ''Agent Compute Offer authority does not match its Connector.'')]"

definition validateAgentConnector :: "local_platform \<Rightarrow> connector \<Rightarrow> error option" where
  "validateAgentConnector platform c = (let d = cn_descriptor c in first_err
     [validateAgentConnectorDescriptor d,
      validateAgentResourceBinding (cn_binding c) (Some d),
      (case cn_offer c of None \<Rightarrow> None | Some f \<Rightarrow> validateAgentComputeOffer f d),
      throw_if (supports_checkpoint (cd_capabilities d) \<noteq> cn_resolves_checkpoint c)
        (agent_error ''CONNECTOR_CHECKPOINT_HANDLER'' ''Connector checkpoint capability must match its checkpoint handler.''),
      (if cd_transport_kind d = ''process''
       then (case cn_entrypoint c of
            None \<Rightarrow> Some (agent_error ''CONNECTOR_ENTRYPOINT'' ''Process Connector requires a fixed local entrypoint.'')
          | Some e \<Rightarrow> if e = [] then Some (agent_error ''CONNECTOR_ENTRYPOINT'' ''Process Connector requires a fixed local entrypoint.'')
              else validateCallableAdapterLaunchSpec \<lparr>ls_executable = e, ls_args = [], ls_environment = None\<rparr> None platform)
       else throw_if (cn_entrypoint c \<noteq> None)
         (agent_error ''CONNECTOR_ENTRYPOINT'' ''Only Process Connectors may declare an entrypoint.''))])"

section \<open>Execution specifications\<close>

text \<open>What \<open>isLoopbackHttpEndpoint\<close> reads of \<open>new URL(value)\<close>; \<open>None\<close> when the constructor throws.\<close>

record url_parts =
  url_protocol :: string
  url_hostname :: string
  url_username :: string
  url_password :: string
  url_search :: string
  url_hash :: string
  url_pathname :: string
  url_port :: string

definition isLoopbackHttpEndpoint :: "(string \<Rightarrow> url_parts option) \<Rightarrow> string \<Rightarrow> bool" where
  "isLoopbackHttpEndpoint url s \<longleftrightarrow> length s \<le> 512
     \<and> (case url s of None \<Rightarrow> False
        | Some u \<Rightarrow> url_protocol u = ''http:'' \<and> url_hostname u = ''127.0.0.1'' \<and> url_username u = [] \<and> url_password u = []
            \<and> url_search u = [] \<and> url_hash u = [] \<and> url_pathname u = ''/v1/chat/completions'' \<and> url_port u \<noteq> [])"

text \<open>\<open>/^[A-Za-z0-9][A-Za-z0-9._/-]{0,191}$/\<close>\<close>

definition model_id_pattern :: "string \<Rightarrow> bool" where
  "model_id_pattern s = (case s of [] \<Rightarrow> False
     | c # cs \<Rightarrow> is_alnum c \<and> length cs \<le> 191 \<and> list_all (\<lambda>d. is_alnum d \<or> d \<in> set ''._/-'') cs)"

fun has_two_dots :: "string \<Rightarrow> bool" where
  "has_two_dots (c # d # cs) = ((c = CHR ''.'' \<and> d = CHR ''.'') \<or> has_two_dots (d # cs))"
| "has_two_dots _ = False"

definition model_id_ok :: "string \<Rightarrow> bool" where
  "model_id_ok s \<longleftrightarrow> model_id_pattern s \<and> \<not> has_two_dots s \<and> \<not> ends_with ''/'' s"

text \<open>\<open>/^[0-9a-f]{8}-[0-9a-f]{4}-[1-5][0-9a-f]{3}-[89ab][0-9a-f]{3}-[0-9a-f]{12}$/i\<close>\<close>

definition uuid_pattern :: "string \<Rightarrow> bool" where
  "uuid_pattern s \<longleftrightarrow> length s = 36
     \<and> list_all (\<lambda>(i, c). if i \<in> {8, 13, 18, 23} then c = CHR ''-''
          else if i = 14 then c \<in> set ''12345'' else if i = 19 then lower_char c \<in> set ''89ab'' else is_hex (lower_char c)) (with_index s)"

definition isProviderToggleState :: "string \<Rightarrow> bool" where
  "isProviderToggleState s \<longleftrightarrow> s = ''enabled'' \<or> s = ''disabled''"

definition positive_safe :: "jsnum \<Rightarrow> bool" where
  "positive_safe n \<longleftrightarrow> num_is_safe n \<and> 0 < num_int n"

definition loopback_ok :: "(string \<Rightarrow> url_parts option) \<Rightarrow> 'a loopback_spec_scheme \<Rightarrow> bool" where
  "loopback_ok url s \<longleftrightarrow> id_pattern 127 (lo_request_id s) \<and> id_pattern 127 (lo_runtime_id s)
     \<and> isLoopbackHttpEndpoint url (lo_endpoint s) \<and> model_id_ok (lo_model s) \<and> positive_safe (lo_listener_pid s)
     \<and> sha256_pattern (lo_code_hash s)"

definition osaurus_ok :: "(string \<Rightarrow> url_parts option) \<Rightarrow> osaurus_spec \<Rightarrow> bool" where
  "osaurus_ok url s \<longleftrightarrow> loopback_ok url s \<and> uuid_pattern (os_agent_id s) \<and> sha256_pattern (os_configuration_digest s)
     \<and> isProviderToggleState (os_tools s) \<and> isProviderToggleState (os_memory s) \<and> os_host_workspace s = ''disabled''
     \<and> isProviderToggleState (os_autonomous_exec s)"

fun spec_kind :: "execution_spec \<Rightarrow> string" where
  "spec_kind (ProcessSpec _ _) = ''process''"
| "spec_kind (FakeSpec _ _) = ''fake''"
| "spec_kind (LoopbackSpec _ _) = ''loopback_http''"
| "spec_kind (OsaurusSpec _ _) = ''osaurus_agent''"

definition loopback_keys :: "string list" where
  "loopback_keys = [''kind'', ''endpoint'', ''requestId'', ''runtimeInstanceId'', ''model'', ''listenerPid'', ''codeIdentityHash'']"

definition osaurus_keys :: "string list" where
  "osaurus_keys = [''kind'', ''endpoint'', ''requestId'', ''runtimeInstanceId'', ''agentId'', ''effectiveModel'', ''listenerPid'',
     ''codeIdentityHash'', ''agentConfigurationDigest'', ''providerAuthority'']"

fun spec_checks :: "(string \<Rightarrow> url_parts option) \<Rightarrow> local_platform \<Rightarrow> string option \<Rightarrow> execution_spec \<Rightarrow> error option list" where
  "spec_checks url platform entrypoint (ProcessSpec ks s) =
     [agent_exactKeys ks [''kind'', ''executable'', ''args'', ''environment''] ''Process execution specification'' True,
      validateCallableAdapterLaunchSpec s entrypoint platform]"
| "spec_checks url platform entrypoint (FakeSpec ks scenarioId) =
     [agent_exactKeys ks [''kind'', ''scenarioId''] ''Fake execution specification'' False, agent_safeId scenarioId ''scenarioId'']"
| "spec_checks url platform entrypoint (LoopbackSpec ks s) =
     [agent_exactKeys ks loopback_keys ''Loopback HTTP execution specification'' False,
      throw_if (\<not> loopback_ok url s)
        (agent_error ''EXECUTION_SPEC_LOOPBACK'' ''Loopback HTTP execution specification is invalid.'')]"
| "spec_checks url platform entrypoint (OsaurusSpec ks s) =
     [agent_exactKeys ks osaurus_keys ''Osaurus Agent execution specification'' False,
      agent_exactKeys (os_authority_keys s) [''tools'', ''memory'', ''hostWorkspace'', ''autonomousExec'']
        ''Osaurus Agent provider authority'' False,
      throw_if (\<not> osaurus_ok url s)
        (agent_error ''EXECUTION_SPEC_OSAURUS_AGENT'' ''Osaurus Agent execution specification is invalid.'')]"

definition validateExecutionSpec ::
  "(string \<Rightarrow> url_parts option) \<Rightarrow> local_platform \<Rightarrow> execution_spec \<Rightarrow> connector \<Rightarrow> error option" where
  "validateExecutionSpec url platform s c = first_err
     (throw_if (spec_kind s \<noteq> cd_transport_kind (cn_descriptor c))
        (agent_error ''EXECUTION_SPEC_TRANSPORT'' ''Execution specification does not match its Connector transport.'')
      # spec_checks url platform (cn_entrypoint c) s)"

section \<open>Authorities\<close>

definition image_json :: "image_input \<Rightarrow> json" where
  "image_json im = JObj [(''attachmentId'', JStr (im_attachment_id im)), (''mimeType'', JStr (im_mime_type im)),
     (''path'', JStr (im_path im))]"

definition canonical_input :: "adapter_request \<Rightarrow> json" where
  "canonical_input r = JObj
     [(''schemaVersion'', jint (ar_schema_version r)), (''taskId'', JStr (ar_task_id r)), (''connectorId'', JStr (ar_adapter_id r)),
      (''childAgentId'', JStr (ar_agent_id r)), (''capabilityId'', JStr (ar_capability_id r)),
      (''input'', JObj [(''kind'', JStr (ar_input_kind r)), (''text'', JStr (ar_input_text r)),
        (''images'', JArr (map image_json (request_images r)))])]"

text \<open>\<open>hex\<close> is the hexadecimal SHA-256 digest of a text.\<close>

definition digestHostAgentTaskInput :: "(string \<Rightarrow> string) \<Rightarrow> adapter_request \<Rightarrow> string" where
  "digestHostAgentTaskInput hex r = ''sha256:'' @ hex (stringify (canonical_input r))"

definition authority_keys :: "string list" where
  "authority_keys = [''schemaVersion'', ''authorityId'', ''taskId'', ''connectorId'', ''childAgentId'', ''capabilityId'',
     ''inputDigest'', ''issuedAt'', ''expiresAt'', ''executionDeadlineAt'', ''singleUse'', ''workspaceId'', ''workspaceRevision'',
     ''workspaceAccess'', ''userFileAccess'', ''commandPolicy'', ''networkPolicy'', ''executionEpoch'']"

definition authority_ttl_ms :: int where "authority_ttl_ms = 5 * 60 * 1000"
definition execution_limit_ms :: int where "execution_limit_ms = 24 * 60 * 60 * 1000"
definition issue_skew_ms :: int where "issue_skew_ms = 30000"

text \<open>The times of an authority are in order and it can be used at the instant \<open>now\<close>.\<close>

definition authority_times_ok :: "execution_authority \<Rightarrow> int \<Rightarrow> bool" where
  "authority_times_ok a now = (case (date_parse (ea_issued_at a), date_parse (ea_expires_at a), date_parse (ea_deadline_at a)) of
       (Some issued, Some expires, Some deadline) \<Rightarrow>
         issued < expires \<and> expires - issued \<le> authority_ttl_ms \<and> now \<le> expires
         \<and> issued < deadline \<and> deadline - issued \<le> execution_limit_ms \<and> now < deadline \<and> issued \<le> now + issue_skew_ms
     | _ \<Rightarrow> False)"

definition validateExecutionAuthority ::
  "(string \<Rightarrow> string) \<Rightarrow> execution_authority \<Rightarrow> adapter_request \<Rightarrow> connector \<Rightarrow> int \<Rightarrow> error option" where
  "validateExecutionAuthority hex a r c now = first_err
     [agent_exactKeys (ea_keys a) authority_keys ''Execution Authority'' False,
      throw_if (ea_schema_version a \<noteq> 4)
        (agent_error ''EXECUTION_AUTHORITY_VERSION'' ''Unsupported Execution Authority version.''),
      throw_if (\<not> positive_safe (ea_epoch a)) (agent_error ''EXECUTION_AUTHORITY_EPOCH'' ''Execution Authority epoch is invalid.''),
      agent_safeId (ea_authority_id a) ''authorityId'', agent_safeId (ea_task_id a) ''taskId'',
      agent_safeSlug (ea_connector_id a) ''connectorId'', agent_safeSlug (ea_child_agent_id a) ''childAgentId'',
      agent_safeSlug (ea_capability_id a) ''capabilityId'', agent_safeId (ea_workspace_id a) ''workspaceId'',
      throw_if (\<not> positive_safe (ea_workspace_revision a))
        (agent_error ''EXECUTION_AUTHORITY_WORKSPACE'' ''Execution Authority Workspace revision is invalid.''),
      throw_if (validateWorkspaceAccess (ea_workspace_access a) \<noteq> None)
        (agent_error ''EXECUTION_AUTHORITY_WORKSPACE'' ''Execution Authority Workspace access is invalid.''),
      throw_if (ea_task_id a \<noteq> ar_task_id r \<or> ea_connector_id a \<noteq> cd_connector_id (cn_descriptor c)
          \<or> ea_child_agent_id a \<noteq> cd_child_agent_id (cn_descriptor c) \<or> ea_capability_id a \<noteq> ar_capability_id r)
        (agent_error ''EXECUTION_AUTHORITY_TARGET'' ''Execution Authority target does not match the local task.''),
      throw_if (\<not> sha256_pattern (ea_input_digest a) \<or> ea_input_digest a \<noteq> digestHostAgentTaskInput hex r)
        (agent_error ''EXECUTION_AUTHORITY_INPUT'' ''Execution Authority input digest does not match the local task.''),
      throw_if (\<not> authority_times_ok a now)
        (agent_error ''EXECUTION_AUTHORITY_EXPIRY'' ''Execution Authority is expired or invalid.''),
      throw_if (\<not> ea_single_use a \<or> ea_user_file_access a \<noteq> ''none''
          \<or> ea_command_policy a \<noteq> ''fixed_connector_entrypoint'' \<or> ea_network_policy a \<noteq> ''child_agent_managed'')
        (agent_error ''EXECUTION_AUTHORITY_SCOPE'' ''Execution Authority scope is invalid.'')]"

text \<open>The options of \<open>issueExecutionAuthority\<close>; \<open>io_fresh\<close> is the identifier it draws when none is given.\<close>

record issue_options =
  io_fresh :: string
  io_now :: int
  io_authority_id :: "string option"
  io_issued_at :: "string option"
  io_expires_at :: "string option"
  io_deadline_at :: "string option"
  io_ttl_ms :: "int option"
  io_workspace_id :: "string option"
  io_workspace_revision :: "jsnum option"
  io_workspace_access :: "json option"
  io_epoch :: "jsnum option"

definition given_or :: "'a option \<Rightarrow> 'a \<Rightarrow> 'a" where
  "given_or x d = (case x of None \<Rightarrow> d | Some y \<Rightarrow> y)"

definition issueExecutionAuthority :: "(string \<Rightarrow> string) \<Rightarrow> adapter_request \<Rightarrow> issue_options \<Rightarrow> execution_authority" where
  "issueExecutionAuthority hex r o1 =
     \<lparr>ea_keys = authority_keys, ea_schema_version = 4, ea_authority_id = given_or (io_authority_id o1) (io_fresh o1),
      ea_task_id = ar_task_id r, ea_connector_id = ar_adapter_id r, ea_child_agent_id = ar_agent_id r,
      ea_capability_id = ar_capability_id r, ea_input_digest = digestHostAgentTaskInput hex r,
      ea_issued_at = given_or (io_issued_at o1) (to_iso (io_now o1)),
      ea_expires_at = given_or (io_expires_at o1) (to_iso (io_now o1 + given_or (io_ttl_ms o1) 120000)),
      ea_deadline_at = given_or (io_deadline_at o1) (to_iso (io_now o1 + 900000)), ea_single_use = True,
      ea_workspace_id = given_or (io_workspace_id o1) (''workspace:'' @ ar_task_id r),
      ea_workspace_revision = given_or (io_workspace_revision o1) (NInt 1),
      ea_workspace_access = given_or (io_workspace_access o1) (JArr [JStr ''read'', JStr ''write'', JStr ''create_artifact'']),
      ea_user_file_access = ''none'', ea_command_policy = ''fixed_connector_entrypoint'',
      ea_network_policy = ''child_agent_managed'', ea_epoch = given_or (io_epoch o1) (NInt 1)\<rparr>"

section \<open>Child Agents\<close>

definition uniqueSorted :: "string list \<Rightarrow> string list" where
  "uniqueSorted xs = sort_by str_le (remdups xs)"

definition concurrency_limits :: "connector list \<Rightarrow> jsnum list" where
  "concurrency_limits cs = map the (filter (\<lambda>n. n \<noteq> None) (map (cd_max_concurrent \<circ> cn_descriptor) cs))"

definition localChildAgentFromConnectors :: "string \<Rightarrow> connector list \<Rightarrow> local_child_agent result" where
  "localChildAgentFromConnectors childAgentId cs =
     (let ds = map cn_descriptor cs; origins = uniqueSorted (map origin_of ds); policies = uniqueSorted (map policy_of ds);
          limits = uniqueSorted (map num_string (concurrency_limits cs)) in
      if length origins \<noteq> 1 \<or> length policies \<noteq> 1 \<or> 1 < length limits
      then Inl (agent_error ''CHILD_AGENT_CONTRACT_MISMATCH''
        ''Connectors for one Child Agent must share origin, Workspace policy, and concurrency.'')
      else Inr \<lparr>lc_child_agent_id = childAgentId, lc_origin = hd origins, lc_workspace_policy = hd policies,
        lc_max_concurrent = (case concurrency_limits cs of [] \<Rightarrow> None | n # _ \<Rightarrow> Some n),
        lc_connector_ids = sort_by str_le (map cd_connector_id ds),
        lc_binding_ids = sort_by str_le (map (rb_binding_id \<circ> cn_binding) cs),
        lc_capability_ids = uniqueSorted (concat (map cd_capability_ids ds)),
        lc_input_modes = uniqueSorted (concat (map cd_input_modes ds)),
        lc_output_modes = uniqueSorted (concat (map cd_output_modes ds))\<rparr>)"

end
