(* ===== verification/Host_Kernel.thy ===== *)
theory Host_Kernel
  imports Agent_Core "HOL-Library.AList"
begin

text \<open>
  The Host Agent kernel (\<open>lifecycle-sidecar/runtime/callable/kernel.ts\<close>, class \<open>TetiHostAgentKernel\<close>): the
  registered connectors, the admission of executions under a concurrency limit with a bounded queue for each
  child Agent, cancelation, shutdown, and the release of a finished execution. A \<open>Map\<close> is an association list
  in insertion order: \<open>AList.update\<close> is \<open>set\<close>, \<open>AList.delete\<close> is \<open>delete\<close>. The task machines are shared
  objects: they live in the list \<open>kn_machines\<close> and the maps hold their positions. The cancelations that the
  kernel sends to the handle registry without waiting are logged in \<open>kn_cancels\<close>. An instant is an integer and
  \<open>collate\<close> is the order of \<open>localeCompare\<close>.
\<close>

section \<open>State\<close>

datatype stop_reason = TermCancel | TermTimeout | TermOutputLimit | TermShutdown

record control =
  ct_machine :: nat
  ct_reason :: "stop_reason option"

record queued_execution =
  qu_connector :: connector
  qu_request :: adapter_request
  qu_authority :: execution_authority
  qu_machine :: nat

record kernel_config =
  kc_max_concurrent :: nat
  kc_max_retained :: nat
  kc_transports :: "string list"

record 'img kernel =
  kn_connectors :: "(string \<times> connector) list"
  kn_callable :: "(string \<times> callable_agent) list"
  kn_machines :: "'img task_snapshot list"
  kn_tasks :: "(string \<times> nat) list"
  kn_active :: "(string \<times> control) list"
  kn_queued :: "(string \<times> queued_execution) list"
  kn_queues :: "(string \<times> string list) list"
  kn_consumed :: "(string \<times> int) list"
  kn_cancels :: "(string \<times> jsnum option) list"
  kn_accepting :: bool

definition empty_kernel :: "'img kernel" where
  "empty_kernel = \<lparr>kn_connectors = [], kn_callable = [], kn_machines = [], kn_tasks = [], kn_active = [], kn_queued = [],
     kn_queues = [], kn_consumed = [], kn_cancels = [], kn_accepting = True\<rparr>"

definition machine :: "'img kernel \<Rightarrow> nat \<Rightarrow> 'img task_snapshot" where
  "machine k m = kn_machines k ! m"

definition host_error :: "string \<Rightarrow> string \<Rightarrow> error" where
  "host_error code message = HostChildAgentContractError code message"

section \<open>Connectors\<close>

definition readiness_of :: "connector \<Rightarrow> string \<Rightarrow> adapter_readiness" where
  "readiness_of c readyAt = (let d = cn_descriptor c in
     \<lparr>rd_schema_version = 1, rd_agent_id = cd_child_agent_id d, rd_adapter_id = cd_connector_id d,
      rd_adapter_revision = cd_connector_revision d, rd_state = ''ready'', rd_capability_ids = cd_capability_ids d,
      rd_input_modes = cd_input_modes d, rd_output_modes = cd_output_modes d, rd_checked_at = readyAt, rd_reason_code = None\<rparr>)"

definition registerConnector ::
  "kernel_config \<Rightarrow> local_platform \<Rightarrow> string \<Rightarrow> connector \<Rightarrow> 'img kernel \<Rightarrow> ('img kernel \<times> agent_descriptor) result" where
  "registerConnector cfg platform readyAt c k = (let d = cn_descriptor c in
     guarded (first_err
       [throw_if (\<not> kn_accepting k) (host_error ''HOST_AGENT_STOPPED'' ''Teti Host Agent is stopping.''),
        validateAgentConnector platform c,
        throw_if (cd_transport_kind d \<notin> set (kc_transports cfg))
          (host_error ''HOST_TRANSPORT_UNAVAILABLE'' (''Execution Transport is unavailable: '' @ cd_transport_kind d)),
        throw_if (map_of (kn_connectors k) (cd_connector_id d) \<noteq> None)
          (host_error ''CONNECTOR_DUPLICATE'' (''Duplicate Agent Connector ID: '' @ cd_connector_id d))])
     (case projectCallableAgent (readiness_of c readyAt) of
        None \<Rightarrow> Inl (host_error ''CONNECTOR_CALLABILITY_INVALID''
          ''Agent Connector could not be projected into a safe Passport identity.'')
      | Some agent \<Rightarrow> Inr (k\<lparr>kn_connectors := AList.update (cd_connector_id d) c (kn_connectors k),
          kn_callable := AList.update (cd_connector_id d) agent (kn_callable k)\<rparr>, d)))"

definition getCallableAgents :: "(string \<Rightarrow> string \<Rightarrow> bool) \<Rightarrow> 'img kernel \<Rightarrow> callable_agent list" where
  "getCallableAgents collate k = sort_by (\<lambda>l r. collate (ca_agent_id l) (ca_agent_id r)) (map snd (kn_callable k))"

definition getComputeOffers :: "(string \<Rightarrow> string \<Rightarrow> bool) \<Rightarrow> 'img kernel \<Rightarrow> compute_offer list" where
  "getComputeOffers collate k = sort_by (\<lambda>l r. collate (of_offer_id l) (of_offer_id r))
     (concat (map (\<lambda>(i, c). case cn_offer c of None \<Rightarrow> [] | Some f \<Rightarrow> [f]) (kn_connectors k)))"

fun result_list :: "'a result list \<Rightarrow> 'a list result" where
  "result_list [] = Inr []"
| "result_list (m # ms) = rbind m (\<lambda>x. rbind (result_list ms) (\<lambda>xs. Inr (x # xs)))"

definition getLocalChildAgents :: "'img kernel \<Rightarrow> local_child_agent list result" where
  "getLocalChildAgents k = (let cs = map snd (kn_connectors k); child = (\<lambda>c. cd_child_agent_id (cn_descriptor c)) in
     result_list (map (\<lambda>i. localChildAgentFromConnectors i (filter (\<lambda>c. child c = i) cs)) (uniqueSorted (map child cs))))"

record host_target =
  ht_connector_id :: string
  ht_child_agent_id :: string
  ht_capability_id :: string
  ht_workspace_policy :: string
  ht_output_modes :: "string list"

definition offers :: "string \<Rightarrow> string \<Rightarrow> connector \<Rightarrow> bool" where
  "offers offerId capabilityId c = (case cn_offer c of
       Some f \<Rightarrow> of_offer_id f = offerId \<and> of_capability f = capabilityId
     | None \<Rightarrow> offerId = ''capability:'' @ capabilityId)"

definition host_target_of :: "string \<Rightarrow> connector \<Rightarrow> host_target" where
  "host_target_of capabilityId c = (let d = cn_descriptor c in
     \<lparr>ht_connector_id = cd_connector_id d, ht_child_agent_id = cd_child_agent_id d, ht_capability_id = capabilityId,
      ht_workspace_policy = policy_of d, ht_output_modes = cd_output_modes d\<rparr>)"

definition listTargets ::
  "(string \<Rightarrow> string \<Rightarrow> bool) \<Rightarrow> string \<Rightarrow> string \<Rightarrow> string list \<Rightarrow> 'img kernel \<Rightarrow> host_target list" where
  "listTargets collate offerId capabilityId modes k =
     map (host_target_of capabilityId)
       (sort_by (\<lambda>l r. collate (cd_connector_id (cn_descriptor l)) (cd_connector_id (cn_descriptor r)))
         (filter (\<lambda>c. offers offerId capabilityId c \<and> capabilityId \<in> set (cd_capability_ids (cn_descriptor c))
             \<and> list_all (\<lambda>m. m \<in> set (cd_input_modes (cn_descriptor c))) modes)
           (map snd (kn_connectors k))))"

definition resolveTarget ::
  "(string \<Rightarrow> string \<Rightarrow> bool) \<Rightarrow> string \<Rightarrow> string \<Rightarrow> string list \<Rightarrow> 'img kernel \<Rightarrow> host_target option" where
  "resolveTarget collate offerId capabilityId modes k =
     (case listTargets collate offerId capabilityId modes k of [] \<Rightarrow> None | t # _ \<Rightarrow> Some t)"

record delegation_option =
  do_child_agent_id :: string
  do_connector_id :: string
  do_capability_id :: string
  do_resource_binding_id :: string
  do_workspace_policy :: string
  do_input_modes :: "string list"
  do_output_modes :: "string list"
  do_timeout_ms :: jsnum
  do_max_output_bytes :: jsnum

definition delegation_options :: "connector \<Rightarrow> delegation_option list" where
  "delegation_options c = (let d = cn_descriptor c in map (\<lambda>capabilityId.
     \<lparr>do_child_agent_id = cd_child_agent_id d, do_connector_id = cd_connector_id d, do_capability_id = capabilityId,
      do_resource_binding_id = rb_binding_id (cn_binding c), do_workspace_policy = policy_of d,
      do_input_modes = cd_input_modes d, do_output_modes = cd_output_modes d, do_timeout_ms = cd_timeout_ms d,
      do_max_output_bytes = cd_max_output_bytes d\<rparr>) (cd_capability_ids d))"

definition option_key :: "delegation_option \<Rightarrow> string" where
  "option_key t = do_child_agent_id t @ '':'' @ do_connector_id t @ '':'' @ do_capability_id t"

definition kernelDelegationTargets :: "(string \<Rightarrow> string \<Rightarrow> bool) \<Rightarrow> 'img kernel \<Rightarrow> delegation_option list" where
  "kernelDelegationTargets collate k =
     sort_by (\<lambda>l r. collate (option_key l) (option_key r)) (concat (map (delegation_options \<circ> snd) (kn_connectors k)))"

definition resolveDelegationTarget ::
  "(string \<Rightarrow> string \<Rightarrow> bool) \<Rightarrow> string \<Rightarrow> string \<Rightarrow> string \<Rightarrow> 'img kernel \<Rightarrow> delegation_option option" where
  "resolveDelegationTarget collate childAgentId connectorId capabilityId k =
     find_first (\<lambda>t. do_child_agent_id t = childAgentId \<and> do_connector_id t = connectorId \<and> do_capability_id t = capabilityId)
       (kernelDelegationTargets collate k)"

section \<open>Queues and history\<close>

definition child_limit :: "kernel_config \<Rightarrow> connector \<Rightarrow> nat" where
  "child_limit cfg c = (case cd_max_concurrent (cn_descriptor c) of None \<Rightarrow> kc_max_concurrent cfg | Some n \<Rightarrow> nat (num_int n))"

definition queue_limit :: "connector \<Rightarrow> nat" where
  "queue_limit c = (case cd_max_queued (cn_descriptor c) of None \<Rightarrow> 0 | Some n \<Rightarrow> nat (num_int n))"

definition child_of :: "connector \<Rightarrow> string" where
  "child_of c = cd_child_agent_id (cn_descriptor c)"

definition queue_of :: "'img kernel \<Rightarrow> string \<Rightarrow> string list" where
  "queue_of k child = (case map_of (kn_queues k) child of None \<Rightarrow> [] | Some q \<Rightarrow> q)"

definition active_for_child :: "'img kernel \<Rightarrow> string \<Rightarrow> nat" where
  "active_for_child k child = length (filter (\<lambda>(t, c). sn_agent_id (machine k (ct_machine c)) = child) (kn_active k))"

definition put_queue :: "string \<Rightarrow> string list \<Rightarrow> 'img kernel \<Rightarrow> 'img kernel" where
  "put_queue child q k =
     k\<lparr>kn_queues := (if q = [] then AList.delete child (kn_queues k) else AList.update child q (kn_queues k))\<rparr>"

definition removeQueued :: "string \<Rightarrow> string \<Rightarrow> 'img kernel \<Rightarrow> 'img kernel" where
  "removeQueued taskId child k = (let k' = k\<lparr>kn_queued := AList.delete taskId (kn_queued k)\<rparr> in
     case map_of (kn_queues k') child of None \<Rightarrow> k' | Some q \<Rightarrow> put_queue child (remove1 taskId q) k')"

definition set_machine :: "nat \<Rightarrow> 'img task_snapshot \<Rightarrow> 'img kernel \<Rightarrow> 'img kernel" where
  "set_machine m v k = k\<lparr>kn_machines := (kn_machines k)[m := v]\<rparr>"

text \<open>A transition of the task machine that throws leaves the machine as it was.\<close>

definition move_machine :: "('img task_snapshot \<Rightarrow> 'img task_snapshot result) \<Rightarrow> nat \<Rightarrow> 'img kernel \<Rightarrow> 'img kernel" where
  "move_machine f m k = (case f (machine k m) of Inl e \<Rightarrow> k | Inr v \<Rightarrow> set_machine m v k)"

fun prune_tasks :: "'img kernel \<Rightarrow> nat \<Rightarrow> (string \<times> nat) list \<Rightarrow> (string \<times> nat) list \<Rightarrow> (string \<times> nat) list" where
  "prune_tasks k retained [] ts = ts"
| "prune_tasks k retained ((t, m) # rest) ts =
     (if length ts \<le> retained then ts
      else prune_tasks k retained rest
        (if terminal_task_state (sn_state (machine k m)) \<and> map_of (kn_active k) t = None then AList.delete t ts else ts))"

definition pruneHistory :: "kernel_config \<Rightarrow> 'img kernel \<Rightarrow> 'img kernel" where
  "pruneHistory cfg k = k\<lparr>kn_tasks := prune_tasks k (kc_max_retained cfg) (kn_tasks k) (kn_tasks k)\<rparr>"

definition log_cancel :: "string \<Rightarrow> jsnum option \<Rightarrow> 'img kernel \<Rightarrow> 'img kernel" where
  "log_cancel taskId epoch k = k\<lparr>kn_cancels := kn_cancels k @ [(taskId, epoch)]\<rparr>"

section \<open>Executions\<close>

text \<open>The synchronous start of \<open>run\<close>, with the control entered in the map of active executions.\<close>

definition start_run :: "int \<Rightarrow> string \<Rightarrow> nat \<Rightarrow> 'img kernel \<Rightarrow> 'img kernel" where
  "start_run now taskId m k =
     (move_machine (task_start (to_iso now)) m k)
       \<lparr>kn_active := AList.update taskId \<lparr>ct_machine = m, ct_reason = None\<rparr> (kn_active k)\<rparr>"

definition drain_child :: "kernel_config \<Rightarrow> int \<Rightarrow> 'img kernel \<Rightarrow> string \<Rightarrow> 'img kernel" where
  "drain_child cfg now k child =
     (if kc_max_concurrent cfg \<le> length (kn_active k) then k
      else case queue_of k child of
        [] \<Rightarrow> put_queue child [] k
      | t # rest \<Rightarrow> (case map_of (kn_queued k) t of
            None \<Rightarrow> put_queue child rest k
          | Some q \<Rightarrow> if child_limit cfg (qu_connector q) \<le> active_for_child k child then k
              else start_run now t (qu_machine q) (removeQueued t child k)))"

definition drainQueues :: "kernel_config \<Rightarrow> int \<Rightarrow> 'img kernel \<Rightarrow> 'img kernel" where
  "drainQueues cfg now k =
     (if \<not> kn_accepting k \<or> kc_max_concurrent cfg \<le> length (kn_active k) then k
      else foldl (drain_child cfg now) k (map fst (kn_queues k)))"

definition requestTermination :: "stop_reason \<Rightarrow> string \<Rightarrow> 'img kernel \<Rightarrow> 'img kernel" where
  "requestTermination reason taskId k = (case map_of (kn_active k) taskId of None \<Rightarrow> k | Some c \<Rightarrow>
     if ct_reason c \<noteq> None \<or> terminal_task_state (sn_state (machine k (ct_machine c))) then k
     else k\<lparr>kn_active := AList.update taskId (c\<lparr>ct_reason := Some reason\<rparr>) (kn_active k)\<rparr>)"

definition finishTermination :: "int \<Rightarrow> stop_reason \<Rightarrow> 'img task_snapshot \<Rightarrow> 'img task_snapshot result" where
  "finishTermination now reason v =
     (if terminal_task_state (sn_state v) then Inr v
      else case reason of
        TermCancel \<Rightarrow> task_cancel (to_iso now) False v
      | TermShutdown \<Rightarrow> task_cancel (to_iso now) True v
      | TermTimeout \<Rightarrow> task_fail (to_iso now) ADAPTER_TIMEOUT v
      | TermOutputLimit \<Rightarrow> task_fail (to_iso now) ADAPTER_OUTPUT_LIMIT v)"

definition kernel_cancel :: "kernel_config \<Rightarrow> int \<Rightarrow> string \<Rightarrow> 'img kernel \<Rightarrow> 'img kernel \<times> bool" where
  "kernel_cancel cfg now taskId k =
     (case map_of (kn_queued k) taskId of
        Some q \<Rightarrow> (pruneHistory cfg (log_cancel taskId (Some (ea_epoch (qu_authority q)))
            (move_machine (task_cancel (to_iso now) False) (qu_machine q) (removeQueued taskId (child_of (qu_connector q)) k))), True)
      | None \<Rightarrow> (case map_of (kn_active k) taskId of
            None \<Rightarrow> (k, False)
          | Some c \<Rightarrow> if terminal_task_state (sn_state (machine k (ct_machine c))) then (k, False)
              else (requestTermination TermCancel taskId (log_cancel taskId None k), True)))"

definition unregisterConnector :: "kernel_config \<Rightarrow> int \<Rightarrow> string \<Rightarrow> 'img kernel \<Rightarrow> 'img kernel \<times> bool" where
  "unregisterConnector cfg now connectorId k =
     (if map_of (kn_connectors k) connectorId = None then (k, False)
      else (let k1 = k\<lparr>kn_connectors := AList.delete connectorId (kn_connectors k),
                  kn_callable := AList.delete connectorId (kn_callable k)\<rparr>;
                waiting = map (\<lambda>(t, q). ar_task_id (qu_request q))
                  (filter (\<lambda>(t, q). cd_connector_id (cn_descriptor (qu_connector q)) = connectorId) (kn_queued k1));
                k2 = foldl (\<lambda>k t. fst (kernel_cancel cfg now t k)) k1 waiting;
                running = map (\<lambda>(t, c). sn_task_id (machine k2 (ct_machine c)))
                  (filter (\<lambda>(t, c). sn_adapter_id (machine k2 (ct_machine c)) = connectorId) (kn_active k2))
            in (foldl (\<lambda>k t. fst (kernel_cancel cfg now t k)) k2 running, True)))"

definition shutdown_queued :: "int \<Rightarrow> 'img kernel \<Rightarrow> string \<times> queued_execution \<Rightarrow> 'img kernel" where
  "shutdown_queued now k entry = (case entry of (taskId, q) \<Rightarrow>
     move_machine (task_cancel (to_iso now) True) (qu_machine q)
       (log_cancel taskId (Some (ea_epoch (qu_authority q))) (removeQueued taskId (child_of (qu_connector q)) k)))"

definition shutdown_active :: "'img kernel \<Rightarrow> string \<times> control \<Rightarrow> 'img kernel" where
  "shutdown_active k entry = (case entry of (taskId, c) \<Rightarrow>
     requestTermination TermShutdown taskId (log_cancel (sn_task_id (machine k (ct_machine c))) None k))"

text \<open>A second call returns the promise of the first one.\<close>

definition kernel_shutdown :: "int \<Rightarrow> 'img kernel \<Rightarrow> 'img kernel" where
  "kernel_shutdown now k =
     (if \<not> kn_accepting k then k
      else (let k1 = foldl (shutdown_queued now) (k\<lparr>kn_accepting := False\<rparr>) (kn_queued k)
            in foldl shutdown_active k1 (kn_active k1)))"

section \<open>Admission\<close>

datatype admit_answer = Started | Waiting

definition forget_expired :: "int \<Rightarrow> (string \<times> int) list \<Rightarrow> (string \<times> int) list" where
  "forget_expired now consumed = filter (\<lambda>(i, expiresAt). now \<le> expiresAt) consumed"

definition busy_error :: "bool \<Rightarrow> nat \<Rightarrow> error" where
  "busy_error child_full limit = host_error (if child_full then ''HOST_CHILD_AGENT_BUSY'' else ''HOST_AGENT_BUSY'')
     (if 0 < limit then ''The selected Child Agent queue is full.''
      else ''The selected Child Agent has reached its local concurrency limit.'')"

text \<open>What \<open>execute\<close> does with an execution that no check refused: it starts or waits in the queue.\<close>

definition admit ::
  "int \<Rightarrow> bool \<Rightarrow> connector \<Rightarrow> adapter_request \<Rightarrow> execution_authority \<Rightarrow> 'img kernel \<Rightarrow> 'img kernel \<times> admit_answer" where
  "admit now canStart c r a k =
     (let t = ar_task_id r; m = length (kn_machines k);
          k1 = k\<lparr>kn_consumed := AList.update (ea_authority_id a) (date_ms (ea_expires_at a)) (kn_consumed k),
            kn_machines := kn_machines k @ [new_task_machine r], kn_tasks := AList.update t m (kn_tasks k)\<rparr> in
      if canStart then (start_run now t m k1, Started)
      else (put_queue (child_of c) (queue_of k1 (child_of c) @ [t])
          (k1\<lparr>kn_queued := AList.update t \<lparr>qu_connector = c, qu_request = r, qu_authority = a, qu_machine = m\<rparr> (kn_queued k1)\<rparr>),
        Waiting))"

text \<open>\<open>epoch <= 1\<close> on numbers; the rest of the infinities compare false.\<close>

definition first_epoch :: "jsnum \<Rightarrow> bool" where
  "first_epoch n = (case n of NInt i \<Rightarrow> i \<le> 1 | Frac r s \<Rightarrow> r \<le> 1 | NonFinite s \<Rightarrow> s = ''-Infinity'')"

text \<open>
  \<open>execute\<close> answers with the state it leaves, also when it throws: by then it may have dropped the terminal
  machine of the Task from the history and the expired authorities. It reads the clock again and again: at
  \<open>checked\<close> it checks the authority, at \<open>swept\<close> it forgets the expired authorities, at \<open>started\<close> the execution
  starts.
\<close>

definition execute ::
  "kernel_config \<Rightarrow> (string \<Rightarrow> string) \<Rightarrow> local_platform \<Rightarrow> int \<Rightarrow> int \<Rightarrow> int \<Rightarrow> adapter_request \<Rightarrow> execution_authority
    \<Rightarrow> 'img kernel \<Rightarrow> 'img kernel \<times> admit_answer result" where
  "execute cfg hex platform checked swept started r a k =
     (if \<not> kn_accepting k then (k, Inl (host_error ''HOST_AGENT_STOPPED'' ''Teti Host Agent is stopping.''))
      else case map_of (kn_connectors k) (ar_adapter_id r) of
        None \<Rightarrow> (k, Inl (host_error ''CONNECTOR_NOT_FOUND'' ''Agent Connector is not registered.''))
      | Some c \<Rightarrow> (case validateCallableAdapterTaskRequest r (connectorDescriptorAsAdapterDescriptor (cn_descriptor c)) platform of
          Some e \<Rightarrow> (k, Inl e)
        | None \<Rightarrow> (let previous = map_of (kn_tasks k) (ar_task_id r) in
            if (case previous of None \<Rightarrow> False
                | Some m \<Rightarrow> \<not> terminal_task_state (sn_state (machine k m)) \<or> first_epoch (ea_epoch a))
            then (k, Inl (host_error ''HOST_TASK_DUPLICATE'' ''Host Agent task ID already exists.''))
            else (let k1 = k\<lparr>kn_tasks := AList.delete (ar_task_id r) (kn_tasks k)\<rparr>; child = child_of c;
                      child_full = child_limit cfg c \<le> active_for_child k1 child;
                      canStart = (length (kn_active k1) < kc_max_concurrent cfg \<and> \<not> child_full) in
              if \<not> canStart \<and> queue_limit c \<le> length (queue_of k1 child) then (k1, Inl (busy_error child_full (queue_limit c)))
              else case validateExecutionAuthority hex a r c checked of
                Some e \<Rightarrow> (k1, Inl e)
              | None \<Rightarrow> (let k2 = k1\<lparr>kn_consumed := forget_expired swept (kn_consumed k1)\<rparr> in
                  if map_of (kn_consumed k2) (ea_authority_id a) \<noteq> None
                  then (k2, Inl (host_error ''EXECUTION_AUTHORITY_CONSUMED'' ''Execution Authority has already been consumed.''))
                  else (case admit started canStart c r a k2 of (k3, answer) \<Rightarrow> (k3, Inr answer)))))))"

text \<open>The end of \<open>run\<close>: the machine settles, and later, after the clean-up, the execution is released.\<close>

definition settle_run :: "('img task_snapshot \<Rightarrow> 'img task_snapshot result) \<Rightarrow> nat \<Rightarrow> 'img kernel \<Rightarrow> 'img kernel" where
  "settle_run f m k = move_machine f m k"

definition release_run :: "kernel_config \<Rightarrow> int \<Rightarrow> string \<Rightarrow> 'img kernel \<Rightarrow> 'img kernel" where
  "release_run cfg now taskId k =
     drainQueues cfg now (pruneHistory cfg (k\<lparr>kn_active := AList.delete taskId (kn_active k)\<rparr>))"

end
