(* ===== verification/Kernel_Guarantees.thy ===== *)
theory Kernel_Guarantees
  imports Host_Kernel
begin

text \<open>
  What the Host Agent kernel guarantees over every sequence of its operations: the limits on concurrency and
  queues hold, no execution is lost, waiting executions start as soon as they can and in order, and an
  authority is used once. \<open>slots\<close> and \<open>waits\<close> give, for each child Agent, the concurrency limit and the queue
  limit that its connectors share.
\<close>

section \<open>Maps and primitives\<close>

abbreviation active_of :: "'img kernel \<Rightarrow> string \<Rightarrow> control option" where
  "active_of k \<equiv> map_of (kn_active k)"

abbreviation queued_of :: "'img kernel \<Rightarrow> string \<Rightarrow> queued_execution option" where
  "queued_of k \<equiv> map_of (kn_queued k)"

abbreviation task_of :: "'img kernel \<Rightarrow> string \<Rightarrow> nat option" where
  "task_of k \<equiv> map_of (kn_tasks k)"

definition running_for :: "'img kernel \<Rightarrow> string \<Rightarrow> string set" where
  "running_for k child = {t. \<exists>c. active_of k t = Some c \<and> sn_agent_id (machine k (ct_machine c)) = child}"

lemma queue_of_put_queue: "queue_of (put_queue ch q k) ch' = (if ch' = ch then q else queue_of k ch')"
  by (auto simp: queue_of_def put_queue_def AList.update_conv' AList.delete_conv')

lemma put_queue_simps [simp]:
  "kn_active (put_queue ch q k) = kn_active k" "kn_queued (put_queue ch q k) = kn_queued k"
  "kn_machines (put_queue ch q k) = kn_machines k" "kn_tasks (put_queue ch q k) = kn_tasks k"
  "kn_connectors (put_queue ch q k) = kn_connectors k" "kn_accepting (put_queue ch q k) = kn_accepting k"
  "kn_consumed (put_queue ch q k) = kn_consumed k"
  by (simp_all add: put_queue_def)

lemma put_queue_keys: "distinct (map fst (kn_queues k)) \<Longrightarrow> distinct (map fst (kn_queues (put_queue ch q k)))"
  by (simp add: put_queue_def distinct_update distinct_delete)

lemma removeQueued_simps [simp]:
  "kn_active (removeQueued t ch k) = kn_active k" "kn_queued (removeQueued t ch k) = AList.delete t (kn_queued k)"
  "kn_machines (removeQueued t ch k) = kn_machines k" "kn_tasks (removeQueued t ch k) = kn_tasks k"
  "kn_connectors (removeQueued t ch k) = kn_connectors k" "kn_accepting (removeQueued t ch k) = kn_accepting k"
  "kn_consumed (removeQueued t ch k) = kn_consumed k"
  by (simp_all add: removeQueued_def Let_def split: option.splits)

lemma queue_of_removeQueued:
  "queue_of (removeQueued t ch k) ch' = (if ch' = ch then remove1 t (queue_of k ch) else queue_of k ch')"
proof (cases "map_of (kn_queues k) ch")
  case None
  then show ?thesis by (simp add: removeQueued_def Let_def queue_of_def)
next
  case (Some q)
  then show ?thesis by (auto simp: removeQueued_def Let_def queue_of_put_queue) (auto simp: queue_of_def)
qed

lemma removeQueued_keys:
  "distinct (map fst (kn_queues k)) \<Longrightarrow> distinct (map fst (kn_queues (removeQueued t ch k)))"
  by (auto simp: removeQueued_def Let_def put_queue_keys split: option.splits)

lemma set_machine_simps [simp]:
  "kn_active (set_machine m v k) = kn_active k" "kn_queued (set_machine m v k) = kn_queued k"
  "kn_tasks (set_machine m v k) = kn_tasks k" "kn_connectors (set_machine m v k) = kn_connectors k"
  "kn_accepting (set_machine m v k) = kn_accepting k" "kn_consumed (set_machine m v k) = kn_consumed k"
  "kn_queues (set_machine m v k) = kn_queues k" "length (kn_machines (set_machine m v k)) = length (kn_machines k)"
  by (simp_all add: set_machine_def)

lemma queue_of_set_machine [simp]: "queue_of (set_machine m v k) = queue_of k"
  by (rule ext) (simp add: queue_of_def)

lemma machine_set_machine:
  "m < length (kn_machines k) \<Longrightarrow> machine (set_machine m v k) m' = (if m' = m then v else machine k m')"
  by (simp add: machine_def set_machine_def nth_list_update)

lemma log_cancel_simps [simp]:
  "kn_active (log_cancel t e k) = kn_active k" "kn_queued (log_cancel t e k) = kn_queued k"
  "kn_machines (log_cancel t e k) = kn_machines k" "kn_tasks (log_cancel t e k) = kn_tasks k"
  "kn_connectors (log_cancel t e k) = kn_connectors k" "kn_accepting (log_cancel t e k) = kn_accepting k"
  "kn_consumed (log_cancel t e k) = kn_consumed k" "kn_queues (log_cancel t e k) = kn_queues k"
  by (simp_all add: log_cancel_def)

lemma queue_of_log [simp]: "queue_of (log_cancel t e k) = queue_of k"
  by (rule ext) (simp add: queue_of_def)

lemma pruneHistory_simps [simp]:
  "kn_active (pruneHistory cfg k) = kn_active k" "kn_queued (pruneHistory cfg k) = kn_queued k"
  "kn_machines (pruneHistory cfg k) = kn_machines k" "kn_connectors (pruneHistory cfg k) = kn_connectors k"
  "kn_accepting (pruneHistory cfg k) = kn_accepting k" "kn_consumed (pruneHistory cfg k) = kn_consumed k"
  "kn_queues (pruneHistory cfg k) = kn_queues k"
  by (simp_all add: pruneHistory_def)

lemma prune_tasks_sub:
  "map_of (prune_tasks k n xs ts) t = Some m \<Longrightarrow> map_of ts t = Some m"
  by (induction k n xs ts rule: prune_tasks.induct) (auto simp: AList.delete_conv' split: if_splits)

text \<open>Pruning only forgets terminal machines of executions that are not active.\<close>

lemma prune_tasks_keeps:
  assumes "map_of ts t = Some m" and "\<forall>m'. (t, m') \<in> set xs \<longrightarrow> m' = m"
    and "\<not> terminal_task_state (sn_state (machine k m)) \<or> active_of k t \<noteq> None"
  shows "map_of (prune_tasks k n xs ts) t = Some m"
  using assms
proof (induction k n xs ts rule: prune_tasks.induct)
  case (2 k retained ta ma rest ts)
  have "t = ta \<Longrightarrow> ma = m" using 2(3) by auto
  then show ?case using 2 by (cases "t = ta") (auto simp: AList.delete_conv')
qed simp

section \<open>The invariant\<close>

text \<open>Every entry of the maps fits its machine, and no unfinished machine is outside the maps.\<close>

definition active_ok :: "'img kernel \<Rightarrow> string \<Rightarrow> control \<Rightarrow> bool" where
  "active_ok k t c \<longleftrightarrow> ct_machine c < length (kn_machines k) \<and> sn_task_id (machine k (ct_machine c)) = t
     \<and> sn_state (machine k (ct_machine c)) \<noteq> TSubmitted \<and> task_of k t = Some (ct_machine c)"

definition queued_ok :: "kernel_config \<Rightarrow> (string \<Rightarrow> nat) \<Rightarrow> 'img kernel \<Rightarrow> string \<Rightarrow> queued_execution \<Rightarrow> bool" where
  "queued_ok cfg slots k t q \<longleftrightarrow> qu_machine q < length (kn_machines k) \<and> sn_task_id (machine k (qu_machine q)) = t
     \<and> sn_state (machine k (qu_machine q)) = TSubmitted \<and> sn_agent_id (machine k (qu_machine q)) = child_of (qu_connector q)
     \<and> task_of k t = Some (qu_machine q) \<and> active_of k t = None \<and> ar_task_id (qu_request q) = t
     \<and> child_limit cfg (qu_connector q) = slots (child_of (qu_connector q))
     \<and> t \<in> set (queue_of k (child_of (qu_connector q)))"

definition queue_ok :: "(string \<Rightarrow> nat) \<Rightarrow> 'img kernel \<Rightarrow> string \<Rightarrow> bool" where
  "queue_ok waits k ch \<longleftrightarrow> distinct (queue_of k ch) \<and> length (queue_of k ch) \<le> waits ch
     \<and> (\<forall>t\<in>set (queue_of k ch). \<exists>q. queued_of k t = Some q \<and> child_of (qu_connector q) = ch)"

definition tracked :: "'img kernel \<Rightarrow> nat \<Rightarrow> bool" where
  "tracked k m \<longleftrightarrow>
     (sn_state (machine k m) = TWorking \<longrightarrow> (\<exists>t c. active_of k t = Some c \<and> ct_machine c = m))
     \<and> (sn_state (machine k m) = TSubmitted \<longrightarrow> (\<exists>t q. queued_of k t = Some q \<and> qu_machine q = m))"

definition connector_ok :: "kernel_config \<Rightarrow> (string \<Rightarrow> nat) \<Rightarrow> (string \<Rightarrow> nat) \<Rightarrow> connector \<Rightarrow> bool" where
  "connector_ok cfg slots waits c \<longleftrightarrow> child_limit cfg c = slots (child_of c) \<and> queue_limit c = waits (child_of c)"

definition keys_ok :: "'img kernel \<Rightarrow> bool" where
  "keys_ok k \<longleftrightarrow> distinct (map fst (kn_active k)) \<and> distinct (map fst (kn_queued k)) \<and> distinct (map fst (kn_queues k))
     \<and> distinct (map fst (kn_tasks k)) \<and> distinct (map fst (kn_connectors k))"

definition kernel_core :: "kernel_config \<Rightarrow> (string \<Rightarrow> nat) \<Rightarrow> (string \<Rightarrow> nat) \<Rightarrow> 'img kernel \<Rightarrow> bool" where
  "kernel_core cfg slots waits k \<longleftrightarrow> keys_ok k
     \<and> (\<forall>t c. active_of k t = Some c \<longrightarrow> active_ok k t c)
     \<and> (\<forall>t q. queued_of k t = Some q \<longrightarrow> queued_ok cfg slots k t q)
     \<and> (\<forall>ch. queue_ok waits k ch) \<and> (\<forall>m < length (kn_machines k). tracked k m)
     \<and> (\<forall>i c. map_of (kn_connectors k) i = Some c \<longrightarrow> cd_connector_id (cn_descriptor c) = i \<and> connector_ok cfg slots waits c)
     \<and> (\<forall>t m. task_of k t = Some m \<longrightarrow> m < length (kn_machines k) \<and> sn_task_id (machine k m) = t)
     \<and> card (dom (active_of k)) \<le> kc_max_concurrent cfg \<and> (\<forall>ch. card (running_for k ch) \<le> slots ch)"

text \<open>A child Agent that cannot start another execution now.\<close>

definition saturated :: "kernel_config \<Rightarrow> (string \<Rightarrow> nat) \<Rightarrow> 'img kernel \<Rightarrow> string \<Rightarrow> bool" where
  "saturated cfg slots k ch \<longleftrightarrow> kc_max_concurrent cfg \<le> card (dom (active_of k)) \<or> slots ch \<le> card (running_for k ch)"

definition work_conserving :: "kernel_config \<Rightarrow> (string \<Rightarrow> nat) \<Rightarrow> 'img kernel \<Rightarrow> bool" where
  "work_conserving cfg slots k \<longleftrightarrow> (\<forall>ch. queue_of k ch \<noteq> [] \<longrightarrow> saturated cfg slots k ch)"

lemmas kernel_parts = kernel_core_def active_ok_def queued_ok_def queue_ok_def tracked_def keys_ok_def

lemma length_active:
  assumes "keys_ok k"
  shows "length (kn_active k) = card (dom (active_of k))"
proof -
  have "distinct (map fst (kn_active k))" using assms by (simp add: keys_ok_def)
  from distinct_card [OF this] show ?thesis by (simp add: dom_map_of_conv_image_fst)
qed

lemma running_for_sub: "running_for k ch \<subseteq> dom (active_of k)"
  by (auto simp: running_for_def)

lemma finite_running [simp]: "finite (running_for k ch)"
  by (rule finite_subset [OF running_for_sub]) (simp add: finite_dom_map_of)

lemma length_active_for_child:
  assumes "keys_ok k"
  shows "active_for_child k ch = card (running_for k ch)"
proof -
  let ?f = "filter (\<lambda>(t, c). sn_agent_id (machine k (ct_machine c)) = ch) (kn_active k)"
  have d: "distinct (map fst (kn_active k))" using assms by (simp add: keys_ok_def)
  have "distinct (map fst ?f)" using d by (simp add: distinct_map_filter)
  then have "length ?f = card (fst ` set ?f)" using distinct_card [of "map fst ?f"] by simp
  moreover have "fst ` set ?f = running_for k ch"
    using d by (force simp: running_for_def map_of_eq_Some_iff image_iff)
  ultimately show ?thesis by (simp add: active_for_child_def)
qed


lemma kernel_core_facts:
  assumes "kernel_core cfg slots waits k"
  shows core_keys: "keys_ok k"
    and core_active: "active_of k t = Some c \<Longrightarrow> active_ok k t c"
    and core_queued: "queued_of k t = Some q \<Longrightarrow> queued_ok cfg slots k t q"
    and core_queue: "queue_ok waits k ch"
    and core_tracked: "m < length (kn_machines k) \<Longrightarrow> tracked k m"
    and core_connector: "map_of (kn_connectors k) i = Some cn
      \<Longrightarrow> cd_connector_id (cn_descriptor cn) = i \<and> connector_ok cfg slots waits cn"
    and core_task: "task_of k t = Some m \<Longrightarrow> m < length (kn_machines k) \<and> sn_task_id (machine k m) = t"
    and core_total: "card (dom (active_of k)) \<le> kc_max_concurrent cfg"
    and core_child: "card (running_for k ch) \<le> slots ch"
  using assms unfolding kernel_core_def by blast+

lemma kernel_coreI:
  assumes "keys_ok k" and "\<And>t c. active_of k t = Some c \<Longrightarrow> active_ok k t c"
    and "\<And>t q. queued_of k t = Some q \<Longrightarrow> queued_ok cfg slots k t q" and "\<And>ch. queue_ok waits k ch"
    and "\<And>m. m < length (kn_machines k) \<Longrightarrow> tracked k m"
    and "\<And>i c. map_of (kn_connectors k) i = Some c \<Longrightarrow> cd_connector_id (cn_descriptor c) = i \<and> connector_ok cfg slots waits c"
    and "\<And>t m. task_of k t = Some m \<Longrightarrow> m < length (kn_machines k) \<and> sn_task_id (machine k m) = t"
    and "card (dom (active_of k)) \<le> kc_max_concurrent cfg" and "\<And>ch. card (running_for k ch) \<le> slots ch"
  shows "kernel_core cfg slots waits k"
  using assms unfolding kernel_core_def by blast

section \<open>Preservation\<close>

text \<open>A change that keeps the executions, the queues and the connectors, and only forgets finished tasks.\<close>

definition same_executions :: "'img kernel \<Rightarrow> 'img kernel \<Rightarrow> bool" where
  "same_executions k k' \<longleftrightarrow> kn_active k' = kn_active k \<and> kn_queued k' = kn_queued k \<and> kn_machines k' = kn_machines k
     \<and> queue_of k' = queue_of k \<and> (distinct (map fst (kn_queues k)) \<longrightarrow> distinct (map fst (kn_queues k')))
     \<and> distinct (map fst (kn_tasks k'))
     \<and> (\<forall>i c. map_of (kn_connectors k') i = Some c \<longrightarrow> map_of (kn_connectors k) i = Some c)
     \<and> distinct (map fst (kn_connectors k'))
     \<and> (\<forall>t m. task_of k' t = Some m \<longrightarrow> task_of k t = Some m)
     \<and> (\<forall>t m. task_of k t = Some m \<and> (\<not> terminal_task_state (sn_state (machine k m)) \<or> active_of k t \<noteq> None)
          \<longrightarrow> task_of k' t = Some m)"

lemma same_executions_view:
  assumes "same_executions k k'"
  shows "machine k' = machine k" "queue_of k' = queue_of k" "running_for k' = running_for k" "kn_active k' = kn_active k"
    "kn_queued k' = kn_queued k" "kn_machines k' = kn_machines k"
  using assms by (simp_all add: same_executions_def machine_def running_for_def fun_eq_iff)

lemma same_executions_facts:
  assumes "same_executions k k'"
  shows same_task: "task_of k' t = Some m \<Longrightarrow> task_of k t = Some m"
    and same_keeps: "task_of k t = Some m \<Longrightarrow> \<not> terminal_task_state (sn_state (machine k m)) \<or> active_of k t \<noteq> None
      \<Longrightarrow> task_of k' t = Some m"
    and same_connector: "map_of (kn_connectors k') i = Some c \<Longrightarrow> map_of (kn_connectors k) i = Some c"
    and same_keys: "keys_ok k \<Longrightarrow> keys_ok k'"
  using assms unfolding same_executions_def keys_ok_def by (blast, blast, blast, simp)

lemma same_executions_core:
  assumes same: "same_executions k k'" and core: "kernel_core cfg slots waits k"
  shows "kernel_core cfg slots waits k'"
proof (rule kernel_coreI)
  note view = same_executions_view [OF same]
  show "keys_ok k'" by (rule same_keys [OF same core_keys [OF core]])
  show "active_ok k' t c" if "active_of k' t = Some c" for t c
    using core_active [OF core that [unfolded view]] same_keeps [OF same, of t "ct_machine c"] that
    by (simp add: active_ok_def view)
  show "queued_ok cfg slots k' t q" if "queued_of k' t = Some q" for t q
    using core_queued [OF core that [unfolded view]] same_keeps [OF same, of t "qu_machine q"]
    by (simp add: queued_ok_def view)
  show "queue_ok waits k' ch" for ch using core_queue [OF core] by (simp add: queue_ok_def view)
  show "tracked k' m" if "m < length (kn_machines k')" for m
    using core_tracked [OF core that [unfolded view]] by (simp add: tracked_def view)
  show "cd_connector_id (cn_descriptor c) = i \<and> connector_ok cfg slots waits c" if "map_of (kn_connectors k') i = Some c" for i c
    by (rule core_connector [OF core same_connector [OF same that]])
  show "m < length (kn_machines k') \<and> sn_task_id (machine k' m) = t" if "task_of k' t = Some m" for t m
    using core_task [OF core same_task [OF same that]] by (simp add: view)
  show "card (dom (active_of k')) \<le> kc_max_concurrent cfg" using core_total [OF core] by (simp add: view)
  show "card (running_for k' ch) \<le> slots ch" for ch using core_child [OF core] by (simp add: view)
qed

lemma same_executions_conserving:
  assumes "same_executions k k'" and "work_conserving cfg slots k"
  shows "work_conserving cfg slots k'"
  using assms(2) unfolding work_conserving_def saturated_def same_executions_view [OF assms(1)] .

lemma prune_same:
  assumes "keys_ok k"
  shows "same_executions k (pruneHistory cfg k)"
proof -
  have d: "distinct (map fst (kn_tasks k))" and c: "distinct (map fst (kn_connectors k))"
    using assms by (simp_all add: keys_ok_def)
  have "distinct (map fst (prune_tasks k n xs ts))" if "distinct (map fst ts)" for n xs ts
    using that by (induction k n xs ts rule: prune_tasks.induct) (auto simp: distinct_delete)
  moreover have "map_of (prune_tasks k n (kn_tasks k) (kn_tasks k)) t = Some m"
    if t: "task_of k t = Some m" "\<not> terminal_task_state (sn_state (machine k m)) \<or> active_of k t \<noteq> None" for t m n
  proof (rule prune_tasks_keeps [OF t(1) _ t(2)])
    show "\<forall>m'. (t, m') \<in> set (kn_tasks k) \<longrightarrow> m' = m" using map_of_SomeD [OF t(1)] eq_key_imp_eq_value [OF d] by blast
  qed
  moreover have "kn_tasks (pruneHistory cfg k) = prune_tasks k (kc_max_retained cfg) (kn_tasks k) (kn_tasks k)"
    by (simp add: pruneHistory_def)
  moreover note prune_tasks_sub [of k "kc_max_retained cfg" "kn_tasks k" "kn_tasks k"]
  moreover have "queue_of (pruneHistory cfg k) = queue_of k" by (simp add: fun_eq_iff queue_of_def)
  ultimately show ?thesis using d c unfolding same_executions_def pruneHistory_simps by metis
qed

lemma log_same: "keys_ok k \<Longrightarrow> same_executions k (log_cancel t e k)"
  by (simp add: same_executions_def keys_ok_def)


text \<open>A waiting execution leaves the queue, and starts or is canceled.\<close>

lemma queued_machines_differ:
  assumes "kernel_core cfg slots waits k" and "queued_of k t = Some q" and "queued_of k t' = Some q'"
    and "qu_machine q' = qu_machine q"
  shows "t' = t"
  using core_queued [OF assms(1,2)] core_queued [OF assms(1,3)] assms(4) by (simp add: queued_ok_def)

lemma in_queue_of:
  assumes "kernel_core cfg slots waits k" and "t \<in> set (queue_of k ch)"
  obtains q where "queued_of k t = Some q" "child_of (qu_connector q) = ch"
  using core_queue [OF assms(1), of ch] assms(2) unfolding queue_ok_def by blast

lemma core_in_queue:
  "kernel_core cfg slots waits k \<Longrightarrow> \<forall>t q. queued_of k t = Some q \<longrightarrow> t \<in> set (queue_of k (child_of (qu_connector q)))"
  using core_queued by (fastforce simp: queued_ok_def)

lemma queue_after_remove:
  assumes old: "\<And>ch. queue_ok waits k ch"
    and inq: "\<forall>t q. queued_of k t = Some q \<longrightarrow> t \<in> set (queue_of k (child_of (qu_connector q)))"
    and q: "queued_of k t = Some q" and kq: "kn_queued k' = AList.delete t (kn_queued k)"
    and queues: "queue_of k' = queue_of (removeQueued t (child_of (qu_connector q)) k)"
  shows "queue_ok waits k' ch" "queued_of k' t' = Some q' \<Longrightarrow> t' \<noteq> t \<and> queued_of k t' = Some q'
    \<and> t' \<in> set (queue_of k' (child_of (qu_connector q')))"
proof -
  have entry: "\<exists>q. queued_of k t' = Some q \<and> child_of (qu_connector q) = ch" if "t' \<in> set (queue_of k ch)" for t' ch
    using old [of ch] that unfolding queue_ok_def by blast
  have gone: "t \<notin> set (queue_of k' ch)" for ch
  proof
    assume t: "t \<in> set (queue_of k' ch)"
    then have "t \<in> set (queue_of k ch)" using set_remove1_subset by (fastforce simp: queues queue_of_removeQueued split: if_splits)
    then have "child_of (qu_connector q) = ch" using q entry [of t ch] by auto
    then show False using t old [of ch] by (simp add: queues queue_of_removeQueued queue_ok_def)
  qed
  have sub: "set (queue_of k' ch) \<subseteq> set (queue_of k ch)" for ch
    by (simp add: queues queue_of_removeQueued set_remove1_subset)
  have "length (queue_of k' ch) \<le> waits ch" "distinct (queue_of k' ch)"
    using old [of ch] by (auto simp: queues queue_of_removeQueued queue_ok_def length_remove1)
  moreover have "\<exists>q. queued_of k' t' = Some q \<and> child_of (qu_connector q) = ch" if "t' \<in> set (queue_of k' ch)" for t'
    using gone [of ch] sub [of ch] that entry [of t' ch] by (auto simp: kq AList.delete_conv')
  ultimately show "queue_ok waits k' ch" by (simp add: queue_ok_def)
  assume "queued_of k' t' = Some q'"
  then have t': "t' \<noteq> t" "queued_of k t' = Some q'" by (auto simp: kq AList.delete_conv' split: if_splits)
  then show "t' \<noteq> t \<and> queued_of k t' = Some q' \<and> t' \<in> set (queue_of k' (child_of (qu_connector q')))"
    using inq [rule_format, OF t'(2)] t' by (auto simp: queues queue_of_removeQueued)
qed


definition start_now :: "int \<Rightarrow> string \<Rightarrow> nat \<Rightarrow> 'img kernel \<Rightarrow> 'img kernel" where
  "start_now now t m k = (set_machine m ((machine k m)\<lparr>sn_state := TWorking, sn_started_at := Some (to_iso now),
       sn_updated_at := to_iso now\<rparr>) k)\<lparr>kn_active := AList.update t \<lparr>ct_machine = m, ct_reason = None\<rparr> (kn_active k)\<rparr>"

lemma start_run_submitted:
  "sn_state (machine k m) = TSubmitted \<Longrightarrow> start_run now t m k = start_now now t m k"
  by (simp add: start_run_def start_now_def move_machine_def task_start_def requireState_def)

lemma dequeue_start:
  assumes core: "kernel_core cfg slots waits k" and q: "queued_of k t = Some q"
    and free: "card (dom (active_of k)) < kc_max_concurrent cfg"
      "card (running_for k (child_of (qu_connector q))) < slots (child_of (qu_connector q))"
    and k': "k' = start_run now t (qu_machine q) (removeQueued t (child_of (qu_connector q)) k)"
  shows "kernel_core cfg slots waits k'"
    and "dom (active_of k') = insert t (dom (active_of k))" and "t \<notin> dom (active_of k)"
    and "running_for k' ch = (if ch = child_of (qu_connector q) then insert t (running_for k ch) else running_for k ch)"
    and "queue_of k' ch = (if ch = child_of (qu_connector q) then remove1 t (queue_of k ch) else queue_of k ch)"
    and "kn_accepting k' = kn_accepting k"
proof -
  let ?m = "qu_machine q" and ?ch = "child_of (qu_connector q)" and ?c = "\<lparr>ct_machine = qu_machine q, ct_reason = None\<rparr>"
  let ?v = "(machine k ?m)\<lparr>sn_state := TWorking, sn_started_at := Some (to_iso now), sn_updated_at := to_iso now\<rparr>"
  have qok: "queued_ok cfg slots k t q" by (rule core_queued [OF core q])
  have m: "?m < length (kn_machines k)" using qok by (simp add: queued_ok_def)
  have view: "k' = start_now now t ?m (removeQueued t ?ch k)"
    unfolding k' using qok by (intro start_run_submitted) (simp add: queued_ok_def machine_def)
  have machine: "machine k' m' = (if m' = ?m then ?v else machine k m')" for m'
    using m by (simp add: view start_now_def machine_def set_machine_def nth_list_update)
  have keys: "kn_active k' = AList.update t ?c (kn_active k)" "kn_queues k' = kn_queues (removeQueued t ?ch k)"
    by (simp_all add: view start_now_def)
  have simps: "kn_queued k' = AList.delete t (kn_queued k)"
    "kn_tasks k' = kn_tasks k" "kn_connectors k' = kn_connectors k" "length (kn_machines k') = length (kn_machines k)"
    by (simp_all add: view start_now_def)
  have active: "active_of k' = (active_of k)(t \<mapsto> ?c)" by (simp add: keys AList.update_conv')
  have queue: "queue_of k' = queue_of (removeQueued t ?ch k)" by (rule ext) (simp add: view start_now_def queue_of_def)
  note rest = queue_after_remove [OF core_queue [OF core] core_in_queue [OF core] q simps(1) queue]
  have fresh: "active_of k t = None" using qok by (simp add: queued_ok_def)
  show dom: "dom (active_of k') = insert t (dom (active_of k))" "t \<notin> dom (active_of k)"
    using fresh by (auto simp: active)
  have same: "ct_machine c \<noteq> ?m" if "active_of k t' = Some c" for t' c
    using core_active [OF core that] qok by (auto simp: active_ok_def queued_ok_def)
  show running: "running_for k' ch = (if ch = ?ch then insert t (running_for k ch) else running_for k ch)" for ch
    using qok same fresh by (auto simp: running_for_def active machine queued_ok_def split: if_splits)
  show "queue_of k' ch = (if ch = ?ch then remove1 t (queue_of k ch) else queue_of k ch)"
    by (simp add: queue queue_of_removeQueued)
  show "kn_accepting k' = kn_accepting k" by (simp add: view start_now_def)
  show "kernel_core cfg slots waits k'"
  proof (rule kernel_coreI)
    show "keys_ok k'" using core_keys [OF core] removeQueued_keys [of k t ?ch]
      by (simp add: keys_ok_def simps keys distinct_update distinct_delete)
    show "active_ok k' t' c" if "active_of k' t' = Some c" for t' c
      using that core_active [OF core, of t' c] qok same [of t' c]
      by (auto simp: active_ok_def queued_ok_def active machine simps split: if_splits)
    show "queued_ok cfg slots k' t' q'" if q': "queued_of k' t' = Some q'" for t' q'
    proof -
      have old: "t' \<noteq> t" "queued_of k t' = Some q'" "t' \<in> set (queue_of k' (child_of (qu_connector q')))"
        using rest(2) [OF q'] by simp_all
      then have "qu_machine q' \<noteq> ?m" using queued_machines_differ [OF core q old(2)] by blast
      then show ?thesis using core_queued [OF core old(2)] old by (simp add: queued_ok_def active machine simps)
    qed
    show "queue_ok waits k' ch" for ch by (rule rest(1))
    show "tracked k' m'" if m': "m' < length (kn_machines k')" for m'
    proof (cases "m' = ?m")
      case True
      then show ?thesis by (auto simp: tracked_def machine active)
    next
      case False
      have "tracked k m'" using core_tracked [OF core] m' by (simp add: simps)
      moreover have "active_of k' t' = Some c" if "active_of k t' = Some c" for t' c using that fresh by (auto simp: active)
      moreover have "queued_of k' t' = Some q'" if "queued_of k t' = Some q'" "qu_machine q' = m'" for t' q'
        using that False q by (auto simp: simps AList.delete_conv')
      ultimately show ?thesis using False by (simp add: tracked_def machine) blast
    qed
    show "cd_connector_id (cn_descriptor c) = i \<and> connector_ok cfg slots waits c" if "map_of (kn_connectors k') i = Some c" for i c
      using core_connector [OF core that [unfolded simps]] .
    show "m' < length (kn_machines k') \<and> sn_task_id (machine k' m') = t'" if "task_of k' t' = Some m'" for t' m'
      using core_task [OF core that [unfolded simps]] by (auto simp: simps machine)
    show "card (dom (active_of k')) \<le> kc_max_concurrent cfg" using free dom by (simp add: finite_dom_map_of)
    show "card (running_for k' ch) \<le> slots ch" for ch
      using free core_child [OF core, of ch] card_insert_le_m1 [of "slots ch" "running_for k ch" t]
      by (auto simp: running card_insert_if)
  qed
qed


lemma dequeue_finish:
  assumes core: "kernel_core cfg slots waits k" and q: "queued_of k t = Some q"
    and v: "sn_task_id v = t" "terminal_task_state (sn_state v)"
    and k': "k' = set_machine (qu_machine q) v (removeQueued t (child_of (qu_connector q)) k)"
  shows "kernel_core cfg slots waits k'" and "running_for k' = running_for k"
proof -
  let ?m = "qu_machine q" and ?ch = "child_of (qu_connector q)"
  have qok: "queued_ok cfg slots k t q" by (rule core_queued [OF core q])
  have m: "?m < length (kn_machines k)" using qok by (simp add: queued_ok_def)
  have machine: "machine k' m' = (if m' = ?m then v else machine k m')" for m'
    using m by (simp add: k' machine_def set_machine_def nth_list_update)
  have simps: "kn_active k' = kn_active k" "kn_queued k' = AList.delete t (kn_queued k)" "kn_tasks k' = kn_tasks k"
    "kn_connectors k' = kn_connectors k" "length (kn_machines k') = length (kn_machines k)"
    "kn_queues k' = kn_queues (removeQueued t ?ch k)"
    by (simp_all add: k')
  have queue: "queue_of k' = queue_of (removeQueued t ?ch k)" by (simp add: k')
  note rest = queue_after_remove [OF core_queue [OF core] core_in_queue [OF core] q simps(2) queue]
  have same: "ct_machine c \<noteq> ?m" if "active_of k t' = Some c" for t' c
    using core_active [OF core that] qok by (auto simp: active_ok_def queued_ok_def)
  show running: "running_for k' = running_for k"
    using same by (auto simp: fun_eq_iff running_for_def simps machine)
  show "kernel_core cfg slots waits k'"
  proof (rule kernel_coreI)
    show "keys_ok k'" using core_keys [OF core] removeQueued_keys [of k t ?ch]
      by (simp add: keys_ok_def simps distinct_delete)
    show "active_ok k' t' c" if "active_of k' t' = Some c" for t' c
      using core_active [OF core that [unfolded simps]] same [OF that [unfolded simps]] by (simp add: active_ok_def machine simps)
    show "queued_ok cfg slots k' t' q'" if q': "queued_of k' t' = Some q'" for t' q'
    proof -
      have old: "t' \<noteq> t" "queued_of k t' = Some q'" "t' \<in> set (queue_of k' (child_of (qu_connector q')))"
        using rest(2) [OF q'] by simp_all
      then have "qu_machine q' \<noteq> ?m" using queued_machines_differ [OF core q old(2)] by blast
      then show ?thesis using core_queued [OF core old(2)] old by (simp add: queued_ok_def machine simps)
    qed
    show "queue_ok waits k' ch" for ch by (rule rest(1))
    show "tracked k' m'" if m': "m' < length (kn_machines k')" for m'
    proof (cases "m' = ?m")
      case True
      then show ?thesis using v(2) by (auto simp: tracked_def machine)
    next
      case False
      have "tracked k m'" using core_tracked [OF core] m' by (simp add: simps)
      moreover have "queued_of k' t' = Some q'" if "queued_of k t' = Some q'" "qu_machine q' = m'" for t' q'
        using that False q by (auto simp: simps AList.delete_conv')
      ultimately show ?thesis using False by (simp add: tracked_def machine simps(1)) blast
    qed
    show "cd_connector_id (cn_descriptor c) = i \<and> connector_ok cfg slots waits c" if "map_of (kn_connectors k') i = Some c" for i c
      using core_connector [OF core that [unfolded simps]] .
    show "m' < length (kn_machines k') \<and> sn_task_id (machine k' m') = t'" if "task_of k' t' = Some m'" for t' m'
      using core_task [OF core that [unfolded simps]] qok v(1) by (auto simp: simps machine queued_ok_def)
    show "card (dom (active_of k')) \<le> kc_max_concurrent cfg" using core_total [OF core] by (simp add: simps)
    show "card (running_for k' ch) \<le> slots ch" for ch using core_child [OF core] by (simp add: running)
  qed
qed

text \<open>A running machine moves, or the control of an active execution gets a reason to stop.\<close>

lemma active_update:
  assumes core: "kernel_core cfg slots waits k" and c: "active_of k t = Some c"
    and v: "sn_task_id v = t" "sn_agent_id v = sn_agent_id (machine k (ct_machine c))" "sn_state v \<noteq> TSubmitted"
    and k': "k' = (set_machine (ct_machine c) v k)\<lparr>kn_active := AList.update t (c\<lparr>ct_reason := reason\<rparr>) (kn_active k)\<rparr>"
  shows "kernel_core cfg slots waits k'" "dom (active_of k') = dom (active_of k)" "running_for k' = running_for k"
    "queue_of k' = queue_of k" "kn_accepting k' = kn_accepting k"
proof -
  let ?m = "ct_machine c"
  have cok: "active_ok k t c" by (rule core_active [OF core c])
  have m: "?m < length (kn_machines k)" using cok by (simp add: active_ok_def)
  have machine: "machine k' m' = (if m' = ?m then v else machine k m')" for m'
    using m by (simp add: k' machine_def set_machine_def nth_list_update)
  have simps: "kn_queued k' = kn_queued k" "kn_tasks k' = kn_tasks k" "kn_connectors k' = kn_connectors k"
    "length (kn_machines k') = length (kn_machines k)" "kn_queues k' = kn_queues k"
    by (simp_all add: k')
  show queue: "queue_of k' = queue_of k" by (rule ext) (simp add: queue_of_def simps)
  show "kn_accepting k' = kn_accepting k" by (simp add: k')
  have active: "active_of k' = (active_of k)(t \<mapsto> c\<lparr>ct_reason := reason\<rparr>)" by (simp add: k' AList.update_conv')
  show dom: "dom (active_of k') = dom (active_of k)" using c by (auto simp: active)
  have alone: "t' = t" if "active_of k t' = Some c'" "ct_machine c' = ?m" for t' c'
    using core_active [OF core that(1)] cok that(2) by (simp add: active_ok_def)
  have waiting: "qu_machine q \<noteq> ?m" if "queued_of k t' = Some q" for t' q
    using core_queued [OF core that] cok by (auto simp: active_ok_def queued_ok_def)
  have agents: "sn_agent_id (machine k' (ct_machine c')) = sn_agent_id (machine k (ct_machine c'))" for c'
    using v(2) by (simp add: machine)
  show running: "running_for k' = running_for k"
  proof (intro ext set_eqI)
    show "t' \<in> running_for k' ch \<longleftrightarrow> t' \<in> running_for k ch" for ch t'
      by (cases "t' = t") (simp_all add: running_for_def agents, simp_all add: active c agents)
  qed
  show "kernel_core cfg slots waits k'"
  proof (rule kernel_coreI)
    show "keys_ok k'" using core_keys [OF core] by (simp add: keys_ok_def k' distinct_update)
    show "active_ok k' t' c'" if "active_of k' t' = Some c'" for t' c'
      using that core_active [OF core, of t' c'] cok v alone [of t' c']
      by (auto simp: active_ok_def active machine simps split: if_splits)
    show "queued_ok cfg slots k' t' q" if q: "queued_of k' t' = Some q" for t' q
      using core_queued [OF core q [unfolded simps]] waiting [OF q [unfolded simps]] c
      by (auto simp: queued_ok_def active machine simps queue)
    show "queue_ok waits k' ch" for ch using core_queue [OF core] by (simp add: queue_ok_def queue simps)
    show "tracked k' m'" if m': "m' < length (kn_machines k')" for m'
    proof (cases "m' = ?m")
      case True
      then show ?thesis using v(3) by (auto simp: tracked_def machine active)
    next
      case False
      have "tracked k m'" using core_tracked [OF core] m' by (simp add: simps)
      moreover have "\<exists>t c. active_of k' t = Some c \<and> ct_machine c = m'" if "active_of k t' = Some c'" "ct_machine c' = m'" for t' c'
        using that False c by (intro exI [of _ t']) (auto simp: active)
      ultimately show ?thesis using False by (auto simp: tracked_def machine simps)
    qed
    show "cd_connector_id (cn_descriptor c) = i \<and> connector_ok cfg slots waits c" if "map_of (kn_connectors k') i = Some c" for i c
      using core_connector [OF core that [unfolded simps]] .
    show "m' < length (kn_machines k') \<and> sn_task_id (machine k' m') = t'" if "task_of k' t' = Some m'" for t' m'
      using core_task [OF core that [unfolded simps]] cok v(1) by (auto simp: simps machine active_ok_def)
    show "card (dom (active_of k')) \<le> kc_max_concurrent cfg" using core_total [OF core] by (simp add: dom)
    show "card (running_for k' ch) \<le> slots ch" for ch using core_child [OF core] by (simp add: running)
  qed
qed


lemma release_active:
  assumes core: "kernel_core cfg slots waits k" and c: "active_of k t = Some c"
    and "terminal_task_state (sn_state (machine k (ct_machine c)))"
    and k': "k' = k\<lparr>kn_active := AList.delete t (kn_active k)\<rparr>"
  shows "kernel_core cfg slots waits k'" "dom (active_of k') = dom (active_of k) - {t}"
    "running_for k' ch = running_for k ch - {t}" "queue_of k' = queue_of k"
proof -
  have machine: "machine k' = machine k" by (simp add: fun_eq_iff k' machine_def)
  have simps: "kn_queued k' = kn_queued k" "kn_tasks k' = kn_tasks k" "kn_connectors k' = kn_connectors k"
    "kn_machines k' = kn_machines k" "kn_queues k' = kn_queues k"
    by (simp_all add: k')
  show queue: "queue_of k' = queue_of k" by (rule ext) (simp add: queue_of_def simps)
  have active: "active_of k' = (active_of k)(t := None)" by (simp add: k' AList.delete_conv')
  show dom: "dom (active_of k') = dom (active_of k) - {t}" by (auto simp: active)
  show running: "running_for k' ch = running_for k ch - {t}" for ch
    by (auto simp: running_for_def active machine split: if_splits)
  have old: "active_of k t' = Some c' \<and> t' \<noteq> t" if "active_of k' t' = Some c'" for t' c'
    using that by (auto simp: active split: if_splits)
  show "kernel_core cfg slots waits k'"
  proof (rule kernel_coreI)
    show "keys_ok k'" using core_keys [OF core] by (simp add: keys_ok_def k' distinct_delete)
    show "active_ok k' t' c'" if "active_of k' t' = Some c'" for t' c'
      using core_active [OF core, of t' c'] old [OF that] by (simp add: active_ok_def machine simps)
    show "queued_ok cfg slots k' t' q" if "queued_of k' t' = Some q" for t' q
      using core_queued [OF core that [unfolded simps]] by (simp add: queued_ok_def active machine simps queue)
    show "queue_ok waits k' ch" for ch using core_queue [OF core] by (simp add: queue_ok_def queue simps)
    show "tracked k' m" if m: "m < length (kn_machines k')" for m
    proof -
      have "tracked k m" using core_tracked [OF core] m by (simp add: simps)
      moreover have "active_of k' t' = Some c'"
        if "active_of k t' = Some c'" "ct_machine c' = m" "sn_state (machine k m) = TWorking" for t' c'
        using that c assms(3) by (auto simp: active)
      ultimately show ?thesis by (simp add: tracked_def machine simps) blast
    qed
    show "cd_connector_id (cn_descriptor c) = i \<and> connector_ok cfg slots waits c" if "map_of (kn_connectors k') i = Some c" for i c
      using core_connector [OF core that [unfolded simps]] .
    show "m < length (kn_machines k') \<and> sn_task_id (machine k' m) = t'" if "task_of k' t' = Some m" for t' m
      using core_task [OF core that [unfolded simps]] by (simp add: simps machine)
    show "card (dom (active_of k')) \<le> kc_max_concurrent cfg"
      using core_total [OF core] card_Diff1_le [of "dom (active_of k)" t] by (simp add: dom)
    show "card (running_for k' ch) \<le> slots ch" for ch
      using core_child [OF core, of ch] card_Diff1_le [of "running_for k ch" t] by (simp add: running)
  qed
qed

section \<open>Draining the queues\<close>

text \<open>At most one slot, in total or for a child Agent with a queue, is free.\<close>

definition nearly_saturated :: "kernel_config \<Rightarrow> (string \<Rightarrow> nat) \<Rightarrow> 'img kernel \<Rightarrow> bool" where
  "nearly_saturated cfg slots k \<longleftrightarrow> kc_max_concurrent cfg \<le> Suc (card (dom (active_of k)))
     \<or> (\<forall>ch. queue_of k ch \<noteq> [] \<longrightarrow> slots ch \<le> Suc (card (running_for k ch)))"

definition grows :: "'img kernel \<Rightarrow> 'img kernel \<Rightarrow> bool" where
  "grows k k' \<longleftrightarrow> dom (active_of k) \<subseteq> dom (active_of k') \<and> (\<forall>ch. running_for k ch \<subseteq> running_for k' ch)
     \<and> (\<forall>ch. queue_of k ch = [] \<longrightarrow> queue_of k' ch = []) \<and> kn_accepting k' = kn_accepting k"

lemma grows_refl: "grows k k" by (simp add: grows_def)

lemma grows_trans: "grows k k' \<Longrightarrow> grows k' k'' \<Longrightarrow> grows k k''"
  unfolding grows_def by blast

lemma grows_card:
  assumes "grows k k'"
  shows "card (dom (active_of k)) \<le> card (dom (active_of k'))" "card (running_for k ch) \<le> card (running_for k' ch)"
  using assms by (auto simp: grows_def intro!: card_mono finite_dom_map_of)

lemma grows_saturated:
  "grows k k' \<Longrightarrow> saturated cfg slots k ch \<Longrightarrow> saturated cfg slots k' ch"
  using grows_card [of k k'] unfolding saturated_def by (meson le_trans)

lemma grows_nearly:
  assumes "grows k k'" and "nearly_saturated cfg slots k"
  shows "nearly_saturated cfg slots k'"
proof (cases "kc_max_concurrent cfg \<le> Suc (card (dom (active_of k)))")
  case True
  then show ?thesis using grows_card(1) [OF assms(1)] by (simp add: nearly_saturated_def)
next
  case False
  have "slots ch \<le> Suc (card (running_for k' ch))" if "queue_of k' ch \<noteq> []" for ch
  proof -
    have "queue_of k ch \<noteq> []" using assms(1) that unfolding grows_def by blast
    then have "slots ch \<le> Suc (card (running_for k ch))" using assms(2) False unfolding nearly_saturated_def by blast
    then show ?thesis using grows_card(2) [OF assms(1), of ch] by simp
  qed
  then show ?thesis unfolding nearly_saturated_def by blast
qed

lemma drain_child_step:
  assumes core: "kernel_core cfg slots waits k" and k': "k' = drain_child cfg now k ch"
  shows "kernel_core cfg slots waits k'" "grows k k'"
    "nearly_saturated cfg slots k \<Longrightarrow> queue_of k' ch \<noteq> [] \<Longrightarrow> saturated cfg slots k' ch"
proof -
  note keys = core_keys [OF core]
  have "kernel_core cfg slots waits k' \<and> grows k k'
    \<and> (nearly_saturated cfg slots k \<longrightarrow> queue_of k' ch \<noteq> [] \<longrightarrow> saturated cfg slots k' ch)"
  proof (cases "kc_max_concurrent cfg \<le> length (kn_active k)")
    case True
    then show ?thesis using core by (simp add: k' drain_child_def grows_refl saturated_def length_active [OF keys])
  next
    case free: False
    show ?thesis
    proof (cases "queue_of k ch")
      case Nil
      have eq: "queue_of k' = queue_of k" using free Nil by (auto simp: fun_eq_iff k' drain_child_def queue_of_put_queue)
      have "same_executions k k'"
        using keys put_queue_keys [of k ch "[]"] free Nil eq by (simp add: same_executions_def keys_ok_def k' drain_child_def)
      then have "kernel_core cfg slots waits k'" by (rule same_executions_core [OF _ core])
      moreover have "grows k k'" using free Nil eq by (simp add: k' drain_child_def grows_def running_for_def machine_def)
      ultimately show ?thesis using eq Nil by simp
    next
      case (Cons t rest)
      then obtain q where q: "queued_of k t = Some q" "child_of (qu_connector q) = ch" 
        using in_queue_of [OF core, of t ch] by (metis list.set_intros(1))
      then have limit: "child_limit cfg (qu_connector q) = slots ch" using core_queued [OF core q(1)] by (simp add: queued_ok_def)
      show ?thesis
      proof (cases "slots ch \<le> card (running_for k ch)")
        case True
        then have "k' = k" using free Cons q limit by (simp add: k' drain_child_def length_active_for_child [OF keys])
        then show ?thesis using core True by (simp add: grows_refl saturated_def)
      next
        case False
        then have eq: "k' = start_run now t (qu_machine q) (removeQueued t (child_of (qu_connector q)) k)"
          using free Cons q limit by (simp add: k' drain_child_def length_active_for_child [OF keys])
        have "card (dom (active_of k)) < kc_max_concurrent cfg" using free by (simp add: length_active [OF keys])
        note start = dequeue_start [OF core q(1) this _ eq, unfolded q(2)]
        have less: "card (running_for k ch) < slots ch" using False by simp
        have dom: "dom (active_of k') = insert t (dom (active_of k))" "t \<notin> dom (active_of k)" using start(2,3) less by simp_all
        have running: "running_for k' ch' = (if ch' = ch then insert t (running_for k ch') else running_for k ch')" for ch'
          using start(4) less by simp
        have "t \<notin> running_for k ch" using dom(2) running_for_sub by blast
        then have "card (running_for k' ch) = Suc (card (running_for k ch))" by (simp add: running)
        moreover have "card (dom (active_of k')) = Suc (card (dom (active_of k)))" using dom by (simp add: finite_dom_map_of)
        ultimately have "nearly_saturated cfg slots k \<longrightarrow> saturated cfg slots k' ch"
          using Cons by (auto simp: nearly_saturated_def saturated_def)
        moreover have "grows k k'" using start(5,6) less dom(1) Cons by (auto simp: grows_def running)
        ultimately show ?thesis using start(1) less by blast
      qed
    qed
  qed
  then show "kernel_core cfg slots waits k'" "grows k k'"
    "nearly_saturated cfg slots k \<Longrightarrow> queue_of k' ch \<noteq> [] \<Longrightarrow> saturated cfg slots k' ch" by blast+
qed

lemma drain_fold:
  assumes "kernel_core cfg slots waits k"
  shows "kernel_core cfg slots waits (foldl (drain_child cfg now) k chs)"
    and "grows k (foldl (drain_child cfg now) k chs)"
    and "nearly_saturated cfg slots k \<Longrightarrow> ch \<in> set chs \<Longrightarrow> queue_of (foldl (drain_child cfg now) k chs) ch \<noteq> []
      \<Longrightarrow> saturated cfg slots (foldl (drain_child cfg now) k chs) ch"
proof -
  have "kernel_core cfg slots waits (foldl (drain_child cfg now) k chs) \<and> grows k (foldl (drain_child cfg now) k chs)
    \<and> (nearly_saturated cfg slots k \<longrightarrow> (\<forall>ch\<in>set chs. queue_of (foldl (drain_child cfg now) k chs) ch \<noteq> []
        \<longrightarrow> saturated cfg slots (foldl (drain_child cfg now) k chs) ch))"
    using assms
  proof (induction chs arbitrary: k)
    case Nil
    then show ?case by (simp add: grows_refl)
  next
    case (Cons c chs)
    let ?k1 = "drain_child cfg now k c" and ?k2 = "foldl (drain_child cfg now) (drain_child cfg now k c) chs"
    note step = drain_child_step [OF Cons.prems refl, of now c]
    note rest = Cons.IH [OF step(1)]
    have "saturated cfg slots ?k2 c" if "nearly_saturated cfg slots k" "queue_of ?k2 c \<noteq> []"
    proof -
      have "queue_of ?k1 c \<noteq> []" using that(2) rest unfolding grows_def by blast
      then show ?thesis using step(3) that(1) rest grows_saturated by blast
    qed
    then show ?case using rest step(1,2) grows_trans [OF step(2)] grows_nearly [OF step(2)] by auto
  qed
  then show "kernel_core cfg slots waits (foldl (drain_child cfg now) k chs)" "grows k (foldl (drain_child cfg now) k chs)"
    "nearly_saturated cfg slots k \<Longrightarrow> ch \<in> set chs \<Longrightarrow> queue_of (foldl (drain_child cfg now) k chs) ch \<noteq> []
      \<Longrightarrow> saturated cfg slots (foldl (drain_child cfg now) k chs) ch" by blast+
qed


definition kernel_ok :: "kernel_config \<Rightarrow> (string \<Rightarrow> nat) \<Rightarrow> (string \<Rightarrow> nat) \<Rightarrow> 'img kernel \<Rightarrow> bool" where
  "kernel_ok cfg slots waits k \<longleftrightarrow> kernel_core cfg slots waits k \<and> work_conserving cfg slots k
     \<and> (\<not> kn_accepting k \<longrightarrow> kn_queued k = [])"

lemma no_queue:
  assumes "kernel_core cfg slots waits k" and "kn_queued k = []"
  shows "queue_of k ch = []"
  using core_queue [OF assms(1), of ch] assms(2) by (cases "queue_of k ch") (auto simp: queue_ok_def)

lemma same_executions_ok:
  assumes "same_executions k k'" and "kernel_ok cfg slots waits k" and "kn_accepting k' = kn_accepting k"
  shows "kernel_ok cfg slots waits k'"
  using same_executions_core [OF assms(1)] same_executions_conserving [OF assms(1)] same_executions_view [OF assms(1)] assms(2,3)
  by (simp add: kernel_ok_def)

lemma release_run_ok:
  assumes ok: "kernel_ok cfg slots waits k" and c: "active_of k t = Some c"
    and stop: "terminal_task_state (sn_state (machine k (ct_machine c)))"
  shows "kernel_ok cfg slots waits (release_run cfg now t k)"
proof -
  let ?k1 = "k\<lparr>kn_active := AList.delete t (kn_active k)\<rparr>" and ?k2 = "pruneHistory cfg (k\<lparr>kn_active := AList.delete t (kn_active k)\<rparr>)"
  have core: "kernel_core cfg slots waits k" and busy: "work_conserving cfg slots k" using ok by (simp_all add: kernel_ok_def)
  note k1 = release_active [OF core c stop refl]
  note same = prune_same [OF core_keys [OF k1(1)], of cfg]
  have core2: "kernel_core cfg slots waits ?k2" by (rule same_executions_core [OF same k1(1)])
  note view = same_executions_view [OF same, unfolded k1(4)]
  have dom: "dom (active_of ?k2) = dom (active_of k) - {t}" "running_for ?k2 ch = running_for k ch - {t}" for ch
    using k1(2,3) view by simp_all
  have queue: "queue_of ?k2 = queue_of k" by (rule view)
  have nearly: "nearly_saturated cfg slots ?k2"
  proof (cases "kc_max_concurrent cfg \<le> card (dom (active_of k))")
    case True
    moreover have "card (dom (active_of k)) \<le> Suc (card (dom (active_of k) - {t}))"
      by (simp add: card_Diff_singleton_if) arith
    ultimately show ?thesis unfolding nearly_saturated_def dom(1) by linarith
  next
    case False
    then have "slots ch \<le> card (running_for k ch)" if "queue_of k ch \<noteq> []" for ch
      using busy that by (simp add: work_conserving_def saturated_def)
    moreover have "card (running_for k ch) \<le> Suc (card (running_for k ch - {t}))" for ch
      by (simp add: card_Diff_singleton_if) arith
    ultimately show ?thesis by (auto simp: nearly_saturated_def dom queue intro: le_trans)
  qed
  show ?thesis
  proof (cases "kn_accepting k \<and> length (kn_active ?k2) < kc_max_concurrent cfg")
    case True
    let ?chs = "map fst (kn_queues ?k2)" and ?k3 = "foldl (drain_child cfg now) ?k2 (map fst (kn_queues ?k2))"
    have eq: "release_run cfg now t k = ?k3" using True by (simp add: release_run_def drainQueues_def)
    note fold = drain_fold [OF core2, where now = now and chs = ?chs]
    have "saturated cfg slots ?k3 ch" if "queue_of ?k3 ch \<noteq> []" for ch
    proof -
      have "queue_of ?k2 ch \<noteq> []" using fold(2) that unfolding grows_def by blast
      then have "ch \<in> set ?chs" by (force simp: queue_of_def dest: map_of_SomeD split: option.splits)
      then show ?thesis using fold(3) [OF nearly] that by blast
    qed
    moreover have "kn_accepting ?k3" using fold(2) True by (simp add: grows_def)
    ultimately show ?thesis using fold(1) by (simp add: kernel_ok_def work_conserving_def eq)
  next
    case False
    then have eq: "release_run cfg now t k = ?k2" by (auto simp: release_run_def drainQueues_def)
    have "work_conserving cfg slots ?k2"
    proof (cases "kn_accepting k")
      case True
      then show ?thesis using False length_active [OF core_keys [OF core2]] by (simp add: work_conserving_def saturated_def)
    next
      case False
      then have "kn_queued ?k2 = []" using ok by (simp add: kernel_ok_def)
      then show ?thesis using no_queue [OF core2] by (simp add: work_conserving_def)
    qed
    then show ?thesis using core2 ok by (simp add: kernel_ok_def eq)
  qed
qed

section \<open>Admission\<close>

text \<open>A change that may also forget a finished task whose execution is still active.\<close>

definition same_waiting :: "'img kernel \<Rightarrow> 'img kernel \<Rightarrow> bool" where
  "same_waiting k k' \<longleftrightarrow> kn_active k' = kn_active k \<and> kn_queued k' = kn_queued k \<and> kn_machines k' = kn_machines k
     \<and> queue_of k' = queue_of k \<and> (keys_ok k \<longrightarrow> keys_ok k')
     \<and> (\<forall>i c. map_of (kn_connectors k') i = Some c \<longrightarrow> map_of (kn_connectors k) i = Some c)
     \<and> (\<forall>t m. task_of k' t = Some m \<longrightarrow> task_of k t = Some m)
     \<and> (\<forall>t m. task_of k t = Some m \<and> \<not> terminal_task_state (sn_state (machine k m)) \<longrightarrow> task_of k' t = Some m)"

lemma same_waiting_refl [simp]: "same_waiting k k"
  by (simp add: same_waiting_def)

lemma same_executions_waiting: "same_executions k k' \<Longrightarrow> same_waiting k k'"
  using same_keys [of k k'] unfolding same_executions_def same_waiting_def by blast

lemma request_target:
  assumes "validateCallableAdapterTaskRequest r (connectorDescriptorAsAdapterDescriptor (cn_descriptor c)) platform = None"
  shows "ar_agent_id r = child_of c" "ar_adapter_id r = cd_connector_id (cn_descriptor c)"
  using assms
  by (simp_all add: validateCallableAdapterTaskRequest_def valid_simps connectorDescriptorAsAdapterDescriptor_def child_of_def)

lemma new_machine_simps [simp]:
  "sn_task_id (new_task_machine r) = ar_task_id r" "sn_agent_id (new_task_machine r) = ar_agent_id r"
  "sn_state (new_task_machine r) = TSubmitted"
  by (simp_all add: new_task_machine_def)

lemma unknown_task:
  assumes "kernel_core cfg slots waits k" and "task_of k t = None"
  shows "active_of k t = None" "queued_of k t = None"
proof -
  show "active_of k t = None"
  proof (rule ccontr)
    assume "active_of k t \<noteq> None"
    then obtain c where "active_of k t = Some c" by blast
    then show False using core_active [OF assms(1)] assms(2) by (simp add: active_ok_def)
  qed
  show "queued_of k t = None"
  proof (rule ccontr)
    assume "queued_of k t \<noteq> None"
    then obtain q where "queued_of k t = Some q" by blast
    then show False using core_queued [OF assms(1)] assms(2) by (simp add: queued_ok_def)
  qed
qed

lemma admit_start:
  assumes core: "kernel_core cfg slots waits k" and new: "task_of k (ar_task_id r) = None"
    and agent: "ar_agent_id r = child_of c"
    and free: "card (dom (active_of k)) < kc_max_concurrent cfg" "card (running_for k (child_of c)) < slots (child_of c)"
    and k': "admit now True c r a k = (k', answer)"
  shows "kernel_core cfg slots waits k'" "grows k k'" "queue_of k' = queue_of k" "kn_queued k' = kn_queued k" "answer = Started"
    "running_for k' ch = (if ch = child_of c then insert (ar_task_id r) (running_for k ch) else running_for k ch)"
proof -
  let ?t = "ar_task_id r" and ?m = "length (kn_machines k)"
  let ?v = "(new_task_machine r)\<lparr>sn_state := TWorking, sn_started_at := Some (to_iso now), sn_updated_at := to_iso now\<rparr>"
  let ?c = "\<lparr>ct_machine = ?m, ct_reason = None\<rparr>"
  let ?k1 = "k\<lparr>kn_consumed := AList.update (ea_authority_id a) (date_ms (ea_expires_at a)) (kn_consumed k),
            kn_machines := kn_machines k @ [new_task_machine r], kn_tasks := AList.update ?t ?m (kn_tasks k)\<rparr>"
  have view: "k' = start_now now ?t ?m ?k1" "answer = Started"
    using k' start_run_submitted [of ?k1 ?m now ?t] by (simp_all add: admit_def Let_def machine_def)
  have machine: "machine k' m = (if m = ?m then ?v else machine k m)" if "m \<le> ?m" for m
    using that by (auto simp: view start_now_def machine_def set_machine_def nth_append)
  have simps: "kn_queued k' = kn_queued k" "kn_connectors k' = kn_connectors k" "length (kn_machines k') = Suc ?m"
    "kn_queues k' = kn_queues k"
    by (simp_all add: view start_now_def)
  have maps: "active_of k' = (active_of k)(?t \<mapsto> ?c)" "task_of k' = (task_of k)(?t \<mapsto> ?m)"
    by (simp_all add: view start_now_def AList.update_conv')
  have queue: "queue_of k' = queue_of k" by (rule ext) (simp add: queue_of_def simps)
  note unknown = unknown_task [OF core new]
  have aok: "active_ok k t c" if "active_of k t = Some c" for t c by (rule core_active [OF core that])
  have running: "running_for k' ch = (if ch = child_of c then insert ?t (running_for k ch) else running_for k ch)" for ch
  proof (rule set_eqI)
    fix t
    show "t \<in> running_for k' ch \<longleftrightarrow> t \<in> (if ch = child_of c then insert ?t (running_for k ch) else running_for k ch)"
    proof (cases "t = ?t")
      case True
      then show ?thesis using agent unknown(1) by (auto simp: running_for_def maps machine)
    next
      case False
      have "machine k' (ct_machine c') = machine k (ct_machine c')" if "active_of k t = Some c'" for c'
        using aok [OF that] by (simp add: machine active_ok_def)
      then show ?thesis using False by (auto simp: running_for_def maps)
    qed
  qed
  show "queue_of k' = queue_of k" by (rule queue)
  show "running_for k' ch = (if ch = child_of c then insert ?t (running_for k ch) else running_for k ch)" by (rule running)
  show "kn_queued k' = kn_queued k" by (rule simps)
  show "answer = Started" by (rule view)
  show "grows k k'" by (auto simp: grows_def maps running queue) (simp_all add: view start_now_def)
  show "kernel_core cfg slots waits k'"
  proof (rule kernel_coreI)
    show "keys_ok k'" using core_keys [OF core] by (simp add: keys_ok_def view start_now_def distinct_update)
    show "active_ok k' t c'" if "active_of k' t = Some c'" for t c'
      using that aok [of t c'] by (auto simp: active_ok_def maps machine simps split: if_splits)
    show "queued_ok cfg slots k' t q" if "queued_of k' t = Some q" for t q
      using core_queued [OF core that [unfolded simps]] new by (auto simp: queued_ok_def maps machine simps queue)
    show "queue_ok waits k' ch" for ch using core_queue [OF core] by (simp add: queue_ok_def queue simps)
    show "tracked k' m" if "m < length (kn_machines k')" for m
    proof (cases "m = ?m")
      case True
      then show ?thesis by (auto simp: tracked_def machine maps)
    next
      case False
      then have "tracked k m" "m < ?m" using core_tracked [OF core] that by (simp_all add: simps)
      moreover have "active_of k' t = Some c'" if "active_of k t = Some c'" for t c' using that unknown(1) by (auto simp: maps)
      ultimately show ?thesis by (simp add: tracked_def machine simps) blast
    qed
    show "cd_connector_id (cn_descriptor c) = i \<and> connector_ok cfg slots waits c" if "map_of (kn_connectors k') i = Some c" for i c
      using core_connector [OF core that [unfolded simps]] .
    show "m < length (kn_machines k') \<and> sn_task_id (machine k' m) = t" if "task_of k' t = Some m" for t m
      using that core_task [OF core, of t m] by (auto simp: simps maps machine split: if_splits)
    show "card (dom (active_of k')) \<le> kc_max_concurrent cfg"
      using free(1) by (simp add: maps card_insert_if finite_dom_map_of)
    show "card (running_for k' ch) \<le> slots ch" for ch
      using free(2) core_child [OF core, of ch] by (auto simp: running card_insert_if)
  qed
qed


lemma admit_wait:
  assumes core: "kernel_core cfg slots waits k" and new: "task_of k (ar_task_id r) = None"
    and agent: "ar_agent_id r = child_of c" and limits: "connector_ok cfg slots waits c"
    and room: "length (queue_of k (child_of c)) < waits (child_of c)"
    and k': "admit now False c r a k = (k', answer)"
  shows "kernel_core cfg slots waits k'" "kn_active k' = kn_active k" "running_for k' = running_for k"
    "queue_of k' ch = (if ch = child_of c then queue_of k ch @ [ar_task_id r] else queue_of k ch)"
    "kn_accepting k' = kn_accepting k" "answer = Waiting"
proof -
  let ?t = "ar_task_id r" and ?m = "length (kn_machines k)" and ?ch = "child_of c"
  let ?q = "\<lparr>qu_connector = c, qu_request = r, qu_authority = a, qu_machine = ?m\<rparr>"
  let ?k1 = "k\<lparr>kn_consumed := AList.update (ea_authority_id a) (date_ms (ea_expires_at a)) (kn_consumed k),
            kn_machines := kn_machines k @ [new_task_machine r], kn_tasks := AList.update ?t ?m (kn_tasks k)\<rparr>"
  let ?k2 = "?k1\<lparr>kn_queued := AList.update ?t ?q (kn_queued k)\<rparr>"
  have q1: "queue_of ?k1 = queue_of k" "queue_of ?k2 = queue_of k" by (simp_all add: fun_eq_iff queue_of_def)
  have view: "k' = put_queue ?ch (queue_of k ?ch @ [?t]) ?k2" and answer: "answer = Waiting"
    using k' by (simp_all add: admit_def Let_def q1)
  have machine: "machine k' m = (if m = ?m then new_task_machine r else machine k m)" if "m \<le> ?m" for m
    using that by (auto simp: view machine_def nth_append)
  have simps: "kn_active k' = kn_active k" "kn_connectors k' = kn_connectors k" "length (kn_machines k') = Suc ?m"
    by (simp_all add: view)
  have maps: "queued_of k' = (queued_of k)(?t \<mapsto> ?q)" "task_of k' = (task_of k)(?t \<mapsto> ?m)"
    by (simp_all add: view AList.update_conv')
  have queue: "queue_of k' ch = (if ch = ?ch then queue_of k ch @ [?t] else queue_of k ch)" for ch
    by (simp add: view queue_of_put_queue q1(2))
  note unknown = unknown_task [OF core new]
  have aok: "active_ok k t c" if "active_of k t = Some c" for t c by (rule core_active [OF core that])
  have same: "machine k' (ct_machine c') = machine k (ct_machine c')" if "active_of k t = Some c'" for t c'
    using aok [OF that] by (simp add: machine active_ok_def)
  have unused: "?t \<notin> set (queue_of k ch)" for ch using in_queue_of [OF core] unknown(2) by (metis option.distinct(1))
  show "kn_active k' = kn_active k" by (rule simps)
  show running: "running_for k' = running_for k" using same by (auto simp: fun_eq_iff running_for_def simps)
  show "queue_of k' ch = (if ch = ?ch then queue_of k ch @ [?t] else queue_of k ch)" by (rule queue)
  show "kn_accepting k' = kn_accepting k" by (simp add: view)
  show "answer = Waiting" by (rule answer)
  show "kernel_core cfg slots waits k'"
  proof (rule kernel_coreI)
    show "keys_ok k'" using core_keys [OF core] put_queue_keys [of ?k2 ?ch "queue_of k ?ch @ [?t]"]
      by (simp add: keys_ok_def view distinct_update)
    show "active_ok k' t c'" if "active_of k' t = Some c'" for t c'
      using aok [OF that [unfolded simps]] same [OF that [unfolded simps]] new by (auto simp: active_ok_def maps simps)
    show "queued_ok cfg slots k' t q" if q: "queued_of k' t = Some q" for t q
    proof (cases "t = ?t")
      case True
      then have "q = ?q" using q by (simp add: maps)
      then show ?thesis using True agent limits unknown(1)
        by (simp add: queued_ok_def machine maps simps queue connector_ok_def)
    next
      case False
      then have "queued_of k t = Some q" using q by (simp add: maps)
      then show ?thesis using False core_queued [OF core, of t q] by (auto simp: queued_ok_def machine maps simps queue)
    qed
    show "queue_ok waits k' ch" for ch
    proof -
      have old: "queue_ok waits k ch" by (rule core_queue [OF core])
      have "\<exists>q. queued_of k' t = Some q \<and> child_of (qu_connector q) = ch" if "t \<in> set (queue_of k' ch)" for t
      proof (cases "t = ?t")
        case True
        then have "ch = ?ch" using that unused by (auto simp: queue split: if_splits)
        then show ?thesis using True by (simp add: maps)
      next
        case False
        then have "t \<in> set (queue_of k ch)" using that by (auto simp: queue split: if_splits)
        then show ?thesis using False in_queue_of [OF core] by (metis fun_upd_other maps(1))
      qed
      moreover have "distinct (queue_of k' ch)" "length (queue_of k' ch) \<le> waits ch"
        using old unused room by (auto simp: queue queue_ok_def)
      ultimately show ?thesis by (simp add: queue_ok_def)
    qed
    show "tracked k' m" if "m < length (kn_machines k')" for m
    proof (cases "m = ?m")
      case True
      then show ?thesis by (auto simp: tracked_def machine maps)
    next
      case False
      then have "tracked k m" "m < ?m" using core_tracked [OF core] that by (simp_all add: simps)
      moreover have "queued_of k' t = Some q" if "queued_of k t = Some q" for t q using that unknown(2) by (auto simp: maps)
      ultimately show ?thesis by (simp add: tracked_def machine simps(1)) blast
    qed
    show "cd_connector_id (cn_descriptor c) = i \<and> connector_ok cfg slots waits c" if "map_of (kn_connectors k') i = Some c" for i c
      using core_connector [OF core that [unfolded simps]] .
    show "m < length (kn_machines k') \<and> sn_task_id (machine k' m) = t" if "task_of k' t = Some m" for t m
      using that core_task [OF core, of t m] by (auto simp: simps maps machine split: if_splits)
    show "card (dom (active_of k')) \<le> kc_max_concurrent cfg" using core_total [OF core] by (simp add: simps)
    show "card (running_for k' ch) \<le> slots ch" for ch using core_child [OF core, of ch] by (simp add: running)
  qed
qed


text \<open>The checks of \<open>execute\<close>: what holds when it admits the execution, and what it forgets when it does not.\<close>

definition can_start :: "kernel_config \<Rightarrow> connector \<Rightarrow> 'img kernel \<Rightarrow> bool" where
  "can_start cfg c k \<longleftrightarrow> length (kn_active k) < kc_max_concurrent cfg \<and> active_for_child k (child_of c) < child_limit cfg c"

definition admitted ::
  "kernel_config \<Rightarrow> (string \<Rightarrow> string) \<Rightarrow> local_platform \<Rightarrow> int \<Rightarrow> int \<Rightarrow> adapter_request \<Rightarrow> execution_authority
    \<Rightarrow> 'img kernel \<Rightarrow> connector \<Rightarrow> 'img kernel \<Rightarrow> bool" where
  "admitted cfg hex platform checked swept r a k c k2 \<longleftrightarrow> kn_accepting k \<and> map_of (kn_connectors k) (ar_adapter_id r) = Some c
     \<and> validateCallableAdapterTaskRequest r (connectorDescriptorAsAdapterDescriptor (cn_descriptor c)) platform = None
     \<and> validateExecutionAuthority hex a r c checked = None
     \<and> same_waiting k k2 \<and> (active_of k (ar_task_id r) = None \<longrightarrow> same_executions k k2) \<and> task_of k2 (ar_task_id r) = None \<and> kn_accepting k2 = kn_accepting k
     \<and> kn_connectors k2 = kn_connectors k \<and> kn_consumed k2 = forget_expired swept (kn_consumed k)
     \<and> map_of (kn_consumed k2) (ea_authority_id a) = None
     \<and> (\<not> can_start cfg c k2 \<longrightarrow> length (queue_of k2 (child_of c)) < queue_limit c)"

lemma execute_cases:
  assumes run: "execute cfg hex platform checked swept started r a k = (k', result)" and keys: "keys_ok k"
  obtains (refused) e where "result = Inl e" "same_waiting k k'" "active_of k (ar_task_id r) = None \<longrightarrow> same_executions k k'"
      "kn_connectors k' = kn_connectors k" "kn_accepting k' = kn_accepting k"
      "kn_consumed k' = kn_consumed k \<or> kn_consumed k' = forget_expired swept (kn_consumed k)"
  | (admitted) c k2 answer where "result = Inr answer" "admitted cfg hex platform checked swept r a k c k2"
      "admit started (can_start cfg c k2) c r a k2 = (k', answer)"
proof -
  let ?t = "ar_task_id r"
  let ?k1 = "k\<lparr>kn_tasks := AList.delete (ar_task_id r) (kn_tasks k)\<rparr>"
  let ?k2 = "?k1\<lparr>kn_consumed := forget_expired swept (kn_consumed k)\<rparr>"
  have refl: "same_executions k k" using keys by (simp add: same_executions_def keys_ok_def)
  have drop: "active_of k ?t = None \<longrightarrow> same_executions k ?k1" "active_of k ?t = None \<longrightarrow> same_executions k ?k2"
    "same_waiting k ?k1" "same_waiting k ?k2" if "\<forall>m. task_of k ?t = Some m \<longrightarrow> terminal_task_state (sn_state (machine k m))"
    using that keys by (auto simp: same_executions_def same_waiting_def keys_ok_def AList.delete_conv' distinct_delete fun_eq_iff queue_of_def)
  have view: "active_for_child ?k1 = active_for_child k" "queue_of ?k1 = queue_of k" "queue_of ?k2 = queue_of k"
    "active_for_child ?k2 = active_for_child k"
    by (simp_all add: fun_eq_iff active_for_child_def queue_of_def machine_def)
  consider (stopped) "\<not> kn_accepting k" | (missing) "kn_accepting k" "map_of (kn_connectors k) (ar_adapter_id r) = None"
    | (found) c where "kn_accepting k" "map_of (kn_connectors k) (ar_adapter_id r) = Some c" by blast
  then show thesis
  proof cases
    case (found c)
    show thesis
    proof (cases "validateCallableAdapterTaskRequest r (connectorDescriptorAsAdapterDescriptor (cn_descriptor c)) platform")
      case (Some e)
      then show thesis using run found refl by (intro refused [of e]) (auto simp: execute_def)
    next
      case valid: None
      show thesis
      proof (cases "case task_of k ?t of None \<Rightarrow> False
          | Some m \<Rightarrow> \<not> terminal_task_state (sn_state (machine k m)) \<or> first_epoch (ea_epoch a)")
        case True
        then show thesis using run found valid refl
          by (intro refused [of "host_error ''HOST_TASK_DUPLICATE'' ''Host Agent task ID already exists.''"]) (auto simp: execute_def Let_def)
      next
        case False
        then have finished: "\<forall>m. task_of k ?t = Some m \<longrightarrow> terminal_task_state (sn_state (machine k m))" by auto
        note same = drop [OF finished]
        have start: "can_start cfg c ?k2 \<longleftrightarrow> length (kn_active k) < kc_max_concurrent cfg
            \<and> \<not> child_limit cfg c \<le> active_for_child k (child_of c)"
          by (auto simp: can_start_def view)
        show thesis
        proof (cases "\<not> can_start cfg c ?k2 \<and> queue_limit c \<le> length (queue_of k (child_of c))")
          case True
          then have "(k', result) = (?k1, Inl (busy_error (child_limit cfg c \<le> active_for_child k (child_of c)) (queue_limit c)))"
            using run False by (auto simp: start found valid execute_def Let_def view)
          then show thesis using same by (intro refused) auto
        next
          case room: False
          show thesis
          proof (cases "validateExecutionAuthority hex a r c checked")
            case (Some e)
            then have "(k', result) = (?k1, Inl e)" using run False room by (auto simp: start found valid execute_def Let_def view)
            then show thesis using same by (intro refused) auto
          next
            case ok: None
            show thesis
            proof (cases "map_of (forget_expired swept (kn_consumed k)) (ea_authority_id a)")
              case (Some t)
              then have "(k', result) = (?k2, Inl (host_error ''EXECUTION_AUTHORITY_CONSUMED'' ''Execution Authority has already been consumed.''))"
                using run False room ok by (auto simp: start found valid execute_def Let_def view)
              then show thesis using same by (intro refused) auto
            next
              case None
              obtain k3 answer where k3: "admit started (can_start cfg c ?k2) c r a ?k2 = (k3, answer)" by force
              then have "(k', result) = (k3, Inr answer)"
                using run False room ok None by (auto simp: start found valid execute_def Let_def view)
              moreover have "admitted cfg hex platform checked swept r a k c ?k2"
                using found valid ok None same room
                by (auto simp: admitted_def AList.delete_conv' view)
              ultimately show thesis using k3 by (intro admitted) auto
            qed
          qed
        qed
      qed
    qed
  qed (use run refl in \<open>auto simp: execute_def intro: refused\<close>)
qed


section \<open>Every operation keeps the invariant\<close>

lemma execute_ok:
  assumes run: "execute cfg hex platform checked swept started r a k = (k', result)" and ok: "kernel_ok cfg slots waits k"
    and idle: "active_of k (ar_task_id r) = None"
  shows "kernel_ok cfg slots waits k'"
proof -
  have core: "kernel_core cfg slots waits k" using ok by (simp add: kernel_ok_def)
  from run core_keys [OF core] show ?thesis
  proof (cases rule: execute_cases)
    case (refused e)
    then show ?thesis using same_executions_ok ok idle by blast
  next
    case (admitted c k2 answer)
    have ok2: "kernel_ok cfg slots waits k2"
      using same_executions_ok [OF _ ok] admitted(2) idle by (auto simp: admitted_def)
    then have core2: "kernel_core cfg slots waits k2" and busy: "work_conserving cfg slots k2" by (simp_all add: kernel_ok_def)
    have agent: "ar_agent_id r = child_of c" using admitted(2) by (auto simp: admitted_def request_target)
    have new: "task_of k2 (ar_task_id r) = None" using admitted(2) by (simp add: admitted_def)
    have limits: "connector_ok cfg slots waits c"
      using core_connector [OF core] admitted(2) by (auto simp: admitted_def)
    have start: "can_start cfg c k2 \<longleftrightarrow> card (dom (active_of k2)) < kc_max_concurrent cfg
        \<and> card (running_for k2 (child_of c)) < slots (child_of c)"
      using limits by (simp add: can_start_def connector_ok_def length_active [OF core_keys [OF core2]]
          length_active_for_child [OF core_keys [OF core2]])
    show ?thesis
    proof (cases "can_start cfg c k2")
      case True
      have free: "card (dom (active_of k2)) < kc_max_concurrent cfg" "card (running_for k2 (child_of c)) < slots (child_of c)"
        using True start by simp_all
      have "admit started True c r a k2 = (k', answer)" using admitted(3) True by simp
      note s = admit_start [OF core2 new agent free this]
      have "work_conserving cfg slots k'"
        using busy s(3) grows_saturated [OF s(2)] by (simp add: work_conserving_def)
      then show ?thesis using s(1,2,4) ok2 by (auto simp: kernel_ok_def grows_def)
    next
      case False
      have room: "length (queue_of k2 (child_of c)) < waits (child_of c)"
        using admitted(2) False limits by (simp add: admitted_def connector_ok_def)
      have "admit started False c r a k2 = (k', answer)" using admitted(3) False by simp
      note w = admit_wait [OF core2 new agent limits room this]
      have "saturated cfg slots k' (child_of c)" using False start by (auto simp: saturated_def w(2,3))
      moreover have "saturated cfg slots k' ch" if "queue_of k2 ch \<noteq> []" for ch
        using busy that by (simp add: work_conserving_def saturated_def w(2,3))
      ultimately have "work_conserving cfg slots k'" by (auto simp: work_conserving_def w(4))
      moreover have "kn_accepting k'" using admitted(2) w(5) by (simp add: admitted_def)
      ultimately show ?thesis using w(1) by (simp add: kernel_ok_def)
    qed
  qed
qed

lemma requestTermination_ok:
  assumes ok: "kernel_ok cfg slots waits k"
  shows "kernel_ok cfg slots waits (requestTermination reason t k)"
    and "kn_queued (requestTermination reason t k) = kn_queued k" "kn_accepting (requestTermination reason t k) = kn_accepting k"
    and "machine (requestTermination reason t k) = machine k"
    and "dom (active_of (requestTermination reason t k)) = dom (active_of k)"
proof -
  let ?k' = "requestTermination reason t k"
  have core: "kernel_core cfg slots waits k" and busy: "work_conserving cfg slots k" using ok by (simp_all add: kernel_ok_def)
  show "kn_queued ?k' = kn_queued k" "kn_accepting ?k' = kn_accepting k" "machine ?k' = machine k"
    by (simp_all add: requestTermination_def fun_eq_iff machine_def split: option.splits)
  have "kernel_ok cfg slots waits ?k' \<and> dom (active_of ?k') = dom (active_of k)"
  proof (cases "\<exists>c. active_of k t = Some c \<and> ct_reason c = None \<and> \<not> terminal_task_state (sn_state (machine k (ct_machine c)))")
    case True
    then obtain c where c: "active_of k t = Some c" "ct_reason c = None" "\<not> terminal_task_state (sn_state (machine k (ct_machine c)))"
      by blast
    have cok: "active_ok k t c" by (rule core_active [OF core c(1)])
    have "set_machine (ct_machine c) (machine k (ct_machine c)) k = k"
      using cok by (simp add: set_machine_def machine_def active_ok_def)
    then have eq: "?k' = (set_machine (ct_machine c) (machine k (ct_machine c)) k)
        \<lparr>kn_active := AList.update t (c\<lparr>ct_reason := Some reason\<rparr>) (kn_active k)\<rparr>"
      using c by (simp add: requestTermination_def)
    have v: "sn_task_id (machine k (ct_machine c)) = t" "sn_state (machine k (ct_machine c)) \<noteq> TSubmitted"
      using cok by (simp_all add: active_ok_def)
    note u = active_update [OF core c(1) v(1) refl v(2) eq]
    show ?thesis using u busy ok by (simp add: kernel_ok_def work_conserving_def saturated_def) (simp add: eq)
  next
    case False
    then have "?k' = k" by (auto simp: requestTermination_def split: option.splits)
    then show ?thesis using ok by simp
  qed
  then show "kernel_ok cfg slots waits ?k'" "dom (active_of ?k') = dom (active_of k)" by simp_all
qed

lemma log_ok: "kernel_ok cfg slots waits k \<Longrightarrow> kernel_ok cfg slots waits (log_cancel t e k)"
  using same_executions_ok [OF log_same] core_keys by (fastforce simp: kernel_ok_def)

lemma prune_ok_kernel: "kernel_ok cfg slots waits k \<Longrightarrow> kernel_ok cfg slots waits (pruneHistory cfg' k)"
  using same_executions_ok [OF prune_same] core_keys by (fastforce simp: kernel_ok_def)

definition stopped :: "int \<Rightarrow> bool \<Rightarrow> 'img task_snapshot \<Rightarrow> 'img task_snapshot" where
  "stopped now shutdown v = v\<lparr>sn_artifact := None, sn_state := TCanceled, sn_updated_at := to_iso now,
     sn_completed_at := Some (to_iso now), sn_safe_error_code := Some (if shutdown then ADAPTER_RUNTIME_SHUTDOWN else ADAPTER_CANCELED)\<rparr>"

lemma stopped_simps [simp]:
  "sn_task_id (stopped now b v) = sn_task_id v" "sn_state (stopped now b v) = TCanceled"
  by (simp_all add: stopped_def)

lemma dequeue_stop:
  assumes core: "kernel_core cfg slots waits k" and q: "queued_of k t = Some q"
  shows "move_machine (task_cancel (to_iso now) b) (qu_machine q) (removeQueued t ch k)
    = set_machine (qu_machine q) (stopped now b (machine k (qu_machine q))) (removeQueued t ch k)"
  using core_queued [OF core q]
  by (simp add: move_machine_def queued_ok_def machine_def task_cancel_def requireNonTerminal_def withoutArtifact_def stopped_def)

lemma kernel_cancel_ok:
  assumes ok: "kernel_ok cfg slots waits k"
  shows "kernel_ok cfg slots waits (fst (kernel_cancel cfg now t k))"
proof (cases "queued_of k t")
  case None
  show ?thesis
  proof (cases "active_of k t")
    case c: (Some c)
    then show ?thesis
      using ok requestTermination_ok(1) [OF log_ok [OF ok, of t None], of TermCancel t] None
      by (simp add: kernel_cancel_def)
  qed (use ok None in \<open>simp add: kernel_cancel_def\<close>)
next
  case q: (Some q)
  have core: "kernel_core cfg slots waits k" and busy: "work_conserving cfg slots k" using ok by (simp_all add: kernel_ok_def)
  let ?k1 = "set_machine (qu_machine q) (stopped now False (machine k (qu_machine q))) (removeQueued t (child_of (qu_connector q)) k)"
  have v: "sn_task_id (stopped now False (machine k (qu_machine q))) = t"
    "terminal_task_state (sn_state (stopped now False (machine k (qu_machine q))))"
    using core_queued [OF core q] by (simp_all add: queued_ok_def)
  note d = dequeue_finish [OF core q v refl]
  have "queue_of k ch \<noteq> []" if "queue_of ?k1 ch \<noteq> []" for ch
    using that by (auto simp: queue_of_removeQueued split: if_splits)
  then have "work_conserving cfg slots ?k1" using busy by (simp add: work_conserving_def saturated_def d(2))
  moreover have "\<not> kn_accepting k \<longrightarrow> kn_queued ?k1 = []" using ok by (simp add: kernel_ok_def)
  ultimately have ok1: "kernel_ok cfg slots waits ?k1" using d(1) by (simp add: kernel_ok_def)
  show ?thesis
    using prune_ok_kernel [OF log_ok [OF ok1]] by (simp add: kernel_cancel_def q dequeue_stop [OF core q])
qed

lemma cancels_ok:
  "kernel_ok cfg slots waits k \<Longrightarrow> kernel_ok cfg slots waits (foldl (\<lambda>k t. fst (kernel_cancel cfg now t k)) k ts)"
  by (induction ts arbitrary: k) (simp_all add: kernel_cancel_ok)

lemma unregister_ok:
  assumes "kernel_ok cfg slots waits k"
  shows "kernel_ok cfg slots waits (fst (unregisterConnector cfg now i k))"
proof -
  let ?k1 = "k\<lparr>kn_connectors := AList.delete i (kn_connectors k), kn_callable := AList.delete i (kn_callable k)\<rparr>"
  have "keys_ok k" using assms core_keys by (auto simp: kernel_ok_def)
  then have "same_executions k ?k1"
    by (auto simp: same_executions_def keys_ok_def distinct_delete AList.delete_conv' fun_eq_iff queue_of_def split: if_splits)
  then have "kernel_ok cfg slots waits ?k1" by (rule same_executions_ok [OF _ assms]) simp
  then show ?thesis using assms by (simp add: unregisterConnector_def Let_def cancels_ok)
qed


lemma move_machine_log: "move_machine f m (log_cancel t e k) = log_cancel t e (move_machine f m k)"
  by (simp add: move_machine_def machine_def set_machine_def log_cancel_def split: sum.splits)

lemma shutdown_queue:
  assumes "kernel_core cfg slots waits k" and "\<forall>(t, q)\<in>set xs. queued_of k t = Some q" and "distinct (map fst xs)"
  shows "kernel_core cfg slots waits (foldl (shutdown_queued now) k xs)
    \<and> (\<forall>t. queued_of (foldl (shutdown_queued now) k xs) t = (if t \<in> fst ` set xs then None else queued_of k t))
    \<and> kn_accepting (foldl (shutdown_queued now) k xs) = kn_accepting k"
  using assms
proof (induction xs arbitrary: k)
  case (Cons x xs)
  obtain t q where x: "x = (t, q)" by force
  have q: "queued_of k t = Some q" using Cons.prems(2) by (simp add: x)
  let ?k1 = "log_cancel t (Some (ea_epoch (qu_authority q))) (removeQueued t (child_of (qu_connector q)) k)"
  let ?k2 = "set_machine (qu_machine q) (stopped now True (machine k (qu_machine q))) (removeQueued t (child_of (qu_connector q)) k)"
  have v: "sn_task_id (stopped now True (machine k (qu_machine q))) = t"
    "terminal_task_state (sn_state (stopped now True (machine k (qu_machine q))))"
    using core_queued [OF Cons.prems(1) q] by (simp_all add: queued_ok_def)
  have core2: "kernel_core cfg slots waits ?k2" by (rule dequeue_finish(1) [OF Cons.prems(1) q v refl])
  have eq: "shutdown_queued now k x = log_cancel t (Some (ea_epoch (qu_authority q))) ?k2"
    using dequeue_stop [OF Cons.prems(1) q, of now True "child_of (qu_connector q)"]
    by (simp add: shutdown_queued_def x move_machine_log)
  have core3: "kernel_core cfg slots waits (shutdown_queued now k x)"
    unfolding eq by (rule same_executions_core [OF log_same [OF core_keys [OF core2]] core2])
  have queued: "queued_of (shutdown_queued now k x) t' = (if t' = t then None else queued_of k t')" for t'
    by (simp add: eq AList.delete_conv')
  have "\<forall>(t', q')\<in>set xs. queued_of (shutdown_queued now k x) t' = Some q'"
  proof (clarify)
    fix t' q'
    assume in_xs: "(t', q') \<in> set xs"
    then have "t' \<noteq> t" using Cons.prems(3) by (auto simp: x image_iff)
    moreover have "queued_of k t' = Some q'" using Cons.prems(2) in_xs by auto
    ultimately show "queued_of (shutdown_queued now k x) t' = Some q'" by (simp add: queued)
  qed
  moreover have "kn_accepting (shutdown_queued now k x) = kn_accepting k" "fst x = t" by (simp_all only: eq) (simp_all add: x)
  ultimately show ?case using Cons.IH [OF core3] Cons.prems(3) by (simp add: queued)
qed simp

lemma no_entries:
  assumes "\<And>t. map_of xs t = None"
  shows "xs = []"
proof (cases xs)
  case (Cons x ys)
  then have "map_of xs (fst x) = Some (snd x)" by simp
  then show ?thesis using assms by simp
qed

lemma shutdown_actives:
  "kernel_ok cfg slots waits k \<Longrightarrow> kernel_ok cfg slots waits (foldl shutdown_active k xs)"
proof (induction xs arbitrary: k)
  case (Cons x xs)
  then show ?case
    using requestTermination_ok(1) [OF log_ok [OF Cons.prems]] by (simp add: shutdown_active_def split: prod.splits)
qed simp

lemma shutdown_queued_ok:
  assumes ok: "kernel_ok cfg slots waits k"
  shows "kernel_ok cfg slots waits (foldl (shutdown_queued now) (k\<lparr>kn_accepting := False\<rparr>) (kn_queued k))"
proof -
  let ?k0 = "k\<lparr>kn_accepting := False\<rparr>"
  let ?k1 = "foldl (shutdown_queued now) ?k0 (kn_queued k)"
  have core: "kernel_core cfg slots waits k" using ok by (simp add: kernel_ok_def)
  have keys: "keys_ok k" by (rule core_keys [OF core])
  have "queue_of ?k0 = queue_of k" by (simp add: fun_eq_iff queue_of_def)
  then have "same_executions k ?k0" using keys by (simp add: same_executions_def keys_ok_def)
  then have core0: "kernel_core cfg slots waits ?k0" by (rule same_executions_core [OF _ core])
  have "\<forall>(t, q)\<in>set (kn_queued k). queued_of ?k0 t = Some q" "distinct (map fst (kn_queued k))"
    using keys by (auto simp: keys_ok_def)
  from shutdown_queue [OF core0 this, of now]
  have k1: "kernel_core cfg slots waits ?k1" "\<not> kn_accepting ?k1"
    "\<forall>t. queued_of ?k1 t = (if t \<in> fst ` set (kn_queued k) then None else queued_of k t)" by simp_all
  have "queued_of ?k1 t = None" for t using k1(3) by (simp add: map_of_eq_None_iff)
  then have none: "kn_queued ?k1 = []" by (intro no_entries)
  have "work_conserving cfg slots ?k1" using no_queue [OF k1(1) none] by (simp add: work_conserving_def)
  then show ?thesis using k1(1) none by (simp add: kernel_ok_def)
qed

lemma shutdown_ok:
  assumes ok: "kernel_ok cfg slots waits k"
  shows "kernel_ok cfg slots waits (kernel_shutdown now k)"
  using shutdown_actives [OF shutdown_queued_ok [OF ok, of now]] ok by (simp add: kernel_shutdown_def Let_def)

lemma register_ok:
  assumes run: "registerConnector cfg platform readyAt c k = Inr (k', d)" and ok: "kernel_ok cfg slots waits k"
    and limits: "connector_ok cfg slots waits c"
  shows "kernel_ok cfg slots waits k'"
proof -
  let ?i = "cd_connector_id (cn_descriptor c)"
  obtain agent where new: "map_of (kn_connectors k) ?i = None"
    and k': "k' = k\<lparr>kn_connectors := AList.update ?i c (kn_connectors k), kn_callable := AList.update ?i agent (kn_callable k)\<rparr>"
    using run by (auto simp: registerConnector_def Let_def guarded_Inr_conv valid_simps split: option.splits)
  have core: "kernel_core cfg slots waits k" using ok by (simp add: kernel_ok_def)
  have view: "machine k' = machine k" "queue_of k' = queue_of k" "running_for k' = running_for k" "kn_active k' = kn_active k"
    "kn_queued k' = kn_queued k" "kn_tasks k' = kn_tasks k" "kn_machines k' = kn_machines k" "kn_accepting k' = kn_accepting k"
    "kn_queues k' = kn_queues k"
    by (simp_all add: k' fun_eq_iff machine_def queue_of_def running_for_def)
  have conn: "map_of (kn_connectors k') = (map_of (kn_connectors k))(?i \<mapsto> c)" by (simp add: k' AList.update_conv')
  have "keys_ok k'" using core_keys [OF core] by (simp add: keys_ok_def view) (simp add: k' distinct_update)
  then have "kernel_core cfg slots waits k'"
    using core limits unfolding kernel_core_def active_ok_def queued_ok_def queue_ok_def tracked_def view conn by auto
  then show ?thesis using ok by (simp add: kernel_ok_def work_conserving_def saturated_def view)
qed

lemma settle_ok:
  assumes ok: "kernel_ok cfg slots waits k" and c: "active_of k t = Some c"
    and f: "f (machine k (ct_machine c)) = Inr v" and step: "task_step (machine k (ct_machine c)) v"
  shows "kernel_ok cfg slots waits (settle_run f (ct_machine c) k)"
proof -
  have core: "kernel_core cfg slots waits k" using ok by (simp add: kernel_ok_def)
  have cok: "active_ok k t c" by (rule core_active [OF core c])
  have same: "AList.update t (c\<lparr>ct_reason := ct_reason c\<rparr>) (kn_active k) = kn_active k"
    using c by (simp add: AList.update_triv)
  then have eq: "settle_run f (ct_machine c) k
      = (set_machine (ct_machine c) v k)\<lparr>kn_active := AList.update t (c\<lparr>ct_reason := ct_reason c\<rparr>) (kn_active k)\<rparr>"
    using f by (simp add: settle_run_def move_machine_def)
  have v: "sn_task_id v = t" "sn_agent_id v = sn_agent_id (machine k (ct_machine c))" "sn_state v \<noteq> TSubmitted"
    using step cok by (auto elim!: task_stepE simp: task_op_Inr active_ok_def)
  note u = active_update [OF core c v eq]
  have "kn_queued (settle_run f (ct_machine c) k) = kn_queued k" using f by (simp add: settle_run_def move_machine_def)
  then show ?thesis using u ok by (simp add: kernel_ok_def work_conserving_def saturated_def)
qed

section \<open>Orderly runs\<close>

text \<open>
  One operation of the kernel, when its callers keep two rules that the kernel does not enforce: a Task is
  executed again only after its previous execution was released (otherwise the call is refused and changes
  nothing), and the connectors of a child Agent agree on their limits.
\<close>

inductive orderly_step ::
  "kernel_config \<Rightarrow> (string \<Rightarrow> string) \<Rightarrow> local_platform \<Rightarrow> (string \<Rightarrow> nat) \<Rightarrow> (string \<Rightarrow> nat)
    \<Rightarrow> 'img kernel \<Rightarrow> 'img kernel \<Rightarrow> bool"
  for cfg hex platform slots waits where
  orderly_register: "registerConnector cfg platform readyAt c k = Inr (k', d) \<Longrightarrow> connector_ok cfg slots waits c
      \<Longrightarrow> orderly_step cfg hex platform slots waits k k'"
| orderly_unregister: "unregisterConnector cfg now i k = (k', b) \<Longrightarrow> orderly_step cfg hex platform slots waits k k'"
| orderly_execute: "execute cfg hex platform checked swept started r a k = (k', result)
      \<Longrightarrow> active_of k (ar_task_id r) = None \<or> k' = k \<Longrightarrow> orderly_step cfg hex platform slots waits k k'"
| orderly_cancel: "kernel_cancel cfg now t k = (k', b) \<Longrightarrow> orderly_step cfg hex platform slots waits k k'"
| orderly_shutdown: "orderly_step cfg hex platform slots waits k (kernel_shutdown now k)"
| orderly_stop: "orderly_step cfg hex platform slots waits k (requestTermination reason t k)"
| orderly_settle: "active_of k t = Some c \<Longrightarrow> f (machine k (ct_machine c)) = Inr v \<Longrightarrow> task_step (machine k (ct_machine c)) v
      \<Longrightarrow> orderly_step cfg hex platform slots waits k (settle_run f (ct_machine c) k)"
| orderly_release: "active_of k t = Some c \<Longrightarrow> terminal_task_state (sn_state (machine k (ct_machine c)))
      \<Longrightarrow> orderly_step cfg hex platform slots waits k (release_run cfg now t k)"

lemma orderly_step_ok:
  assumes "orderly_step cfg hex platform slots waits k k'" and "kernel_ok cfg slots waits k"
  shows "kernel_ok cfg slots waits k'"
  using assms
proof cases
  case (orderly_unregister now i b)
  then show ?thesis using unregister_ok [OF assms(2), of now i] by simp
next
  case (orderly_cancel now t b)
  then show ?thesis using kernel_cancel_ok [OF assms(2), of now t] by simp
next
  case (orderly_execute checked swept started r a result)
  then show ?thesis using execute_ok [OF orderly_execute(1) assms(2)] assms(2) by blast
qed (use assms(2) in \<open>auto intro: register_ok shutdown_ok requestTermination_ok(1) settle_ok release_run_ok\<close>)

lemma empty_kernel_ok: "kernel_ok cfg slots waits empty_kernel"
proof -
  have "queue_of (empty_kernel :: 'a kernel) ch = []" "running_for (empty_kernel :: 'a kernel) ch = {}" for ch
    by (simp_all add: queue_of_def empty_kernel_def running_for_def)
  then show ?thesis
    by (simp add: kernel_ok_def work_conserving_def kernel_core_def keys_ok_def queue_ok_def) (simp add: empty_kernel_def)
qed

lemma orderly_run_ok:
  assumes "(orderly_step cfg hex platform slots waits)\<^sup>*\<^sup>* empty_kernel k"
  shows "kernel_ok cfg slots waits k"
  using assms by induction (auto simp: empty_kernel_ok intro: orderly_step_ok)

end
