(* ===== verification/Kernel_Limits.thy ===== *)
theory Kernel_Limits
  imports Kernel_Guarantees
begin

text \<open>
  The runs of the Host Agent kernel, with nothing assumed of its callers: any connector may be registered, a Task
  may be executed again while its previous execution is still active, and executions are released in any order.
  Beside the kernel, a run keeps the calls of \<open>run\<close> that have not passed their \<open>finally\<close> block, the connectors that
  were ever registered, and whether executions of one Task overlapped. The limits hold over every run.
\<close>

section \<open>Runs\<close>

definition entries :: "'img kernel \<Rightarrow> (string \<times> nat) set" where
  "entries k = {(t, m). \<exists>c. active_of k t = Some c \<and> ct_machine c = m}"

record 'img host =
  ho_kernel :: "'img kernel"
  ho_runs :: "(string \<times> nat) set"
  ho_registered :: "connector set"
  ho_overlap :: bool

definition empty_host :: "'img host" where
  "empty_host = \<lparr>ho_kernel = empty_kernel, ho_runs = {}, ho_registered = {}, ho_overlap = False\<rparr>"

definition moved :: "'img host \<Rightarrow> 'img kernel \<Rightarrow> 'img host" where
  "moved h k = h\<lparr>ho_kernel := k, ho_runs := ho_runs h \<union> entries k\<rparr>"

text \<open>
  One operation of the kernel between two instants. Executions overlap when \<open>execute\<close> changes the kernel for a
  Task of which an execution is active. An execution is released by the end of its own \<open>run\<close>, whose control may no
  longer be the one in the map.
\<close>

inductive kernel_step ::
  "kernel_config \<Rightarrow> (string \<Rightarrow> string) \<Rightarrow> local_platform \<Rightarrow> int \<Rightarrow> int \<Rightarrow> 'img host \<Rightarrow> 'img host \<Rightarrow> bool"
  for cfg hex platform before now h where
  step_register: "registerConnector cfg platform readyAt c (ho_kernel h) = Inr (k', d)
      \<Longrightarrow> kernel_step cfg hex platform before now h ((moved h k')\<lparr>ho_registered := insert c (ho_registered h)\<rparr>)"
| step_unregister: "unregisterConnector cfg now i (ho_kernel h) = (k', b)
      \<Longrightarrow> kernel_step cfg hex platform before now h (moved h k')"
| step_execute: "execute cfg hex platform checked swept started r a (ho_kernel h) = (k', result)
      \<Longrightarrow> before \<le> checked \<Longrightarrow> checked \<le> swept \<Longrightarrow> swept \<le> started \<Longrightarrow> started \<le> now
      \<Longrightarrow> overlap = (ho_overlap h \<or> active_of (ho_kernel h) (ar_task_id r) \<noteq> None \<and> k' \<noteq> ho_kernel h)
      \<Longrightarrow> kernel_step cfg hex platform before now h ((moved h k')\<lparr>ho_overlap := overlap\<rparr>)"
| step_cancel: "kernel_cancel cfg now t (ho_kernel h) = (k', b) \<Longrightarrow> kernel_step cfg hex platform before now h (moved h k')"
| step_shutdown: "kernel_step cfg hex platform before now h (moved h (kernel_shutdown now (ho_kernel h)))"
| step_stop: "kernel_step cfg hex platform before now h (moved h (requestTermination reason t (ho_kernel h)))"
| step_settle: "(t, m) \<in> ho_runs h \<Longrightarrow> f (machine (ho_kernel h) m) = Inr v \<Longrightarrow> task_step (machine (ho_kernel h) m) v
      \<Longrightarrow> kernel_step cfg hex platform before now h (moved h (settle_run f m (ho_kernel h)))"
| step_release: "(t, m) \<in> ho_runs h \<Longrightarrow> terminal_task_state (sn_state (machine (ho_kernel h) m))
      \<Longrightarrow> kernel_step cfg hex platform before now h
        (moved (h\<lparr>ho_runs := ho_runs h - {(t, m)}\<rparr>) (release_run cfg now t (ho_kernel h)))"

text \<open>A run from one instant to a later one, with a clock that does not go back.\<close>

inductive kernel_run ::
  "kernel_config \<Rightarrow> (string \<Rightarrow> string) \<Rightarrow> local_platform \<Rightarrow> int \<Rightarrow> 'img host \<Rightarrow> int \<Rightarrow> 'img host \<Rightarrow> bool"
  for cfg hex platform begun h where
  run_here: "kernel_run cfg hex platform begun h begun h"
| run_on: "kernel_run cfg hex platform begun h before h' \<Longrightarrow> before \<le> now
      \<Longrightarrow> kernel_step cfg hex platform before now h' h'' \<Longrightarrow> kernel_run cfg hex platform begun h now h''"

lemma moved_simps [simp]:
  "ho_kernel (moved h k) = k" "ho_registered (moved h k) = ho_registered h" "ho_overlap (moved h k) = ho_overlap h"
  "ho_runs (moved h k) = ho_runs h \<union> entries k"
  by (simp_all add: moved_def)

section \<open>The invariant\<close>

text \<open>
  \<open>slots\<close> and \<open>waits\<close> bound the limits of the connectors of each child Agent. \<open>calm\<close>: no executions of one Task
  overlapped. The machine \<open>x\<close> is being moved and is in no map.
\<close>

definition limits_within :: "kernel_config \<Rightarrow> (string \<Rightarrow> nat) \<Rightarrow> (string \<Rightarrow> nat) \<Rightarrow> connector \<Rightarrow> bool" where
  "limits_within cfg slots waits c \<longleftrightarrow> child_limit cfg c \<le> slots (child_of c) \<and> queue_limit c \<le> waits (child_of c)"

definition waiting_ok :: "kernel_config \<Rightarrow> (string \<Rightarrow> nat) \<Rightarrow> 'img kernel \<Rightarrow> string \<Rightarrow> queued_execution \<Rightarrow> bool" where
  "waiting_ok cfg slots k t q \<longleftrightarrow> qu_machine q < length (kn_machines k) \<and> sn_task_id (machine k (qu_machine q)) = t
     \<and> sn_state (machine k (qu_machine q)) = TSubmitted \<and> sn_agent_id (machine k (qu_machine q)) = child_of (qu_connector q)
     \<and> task_of k t = Some (qu_machine q) \<and> child_limit cfg (qu_connector q) \<le> slots (child_of (qu_connector q))
     \<and> t \<in> set (queue_of k (child_of (qu_connector q)))"

definition run_ok :: "'img kernel \<Rightarrow> string \<Rightarrow> nat \<Rightarrow> bool" where
  "run_ok k t m \<longleftrightarrow> m < length (kn_machines k) \<and> sn_task_id (machine k m) = t \<and> sn_state (machine k m) \<noteq> TSubmitted"

definition followed :: "(string \<times> nat) set \<Rightarrow> nat option \<Rightarrow> 'img kernel \<Rightarrow> nat \<Rightarrow> bool" where
  "followed R x k m \<longleftrightarrow> (sn_state (machine k m) = TWorking \<longrightarrow> (\<exists>t. (t, m) \<in> R))
     \<and> (sn_state (machine k m) = TSubmitted \<longrightarrow> x \<noteq> Some m \<longrightarrow> (\<exists>t q. queued_of k t = Some q \<and> qu_machine q = m))"

definition calm_ok :: "(string \<times> nat) set \<Rightarrow> 'img kernel \<Rightarrow> bool" where
  "calm_ok R k \<longleftrightarrow> R = entries k \<and> (\<forall>t. queued_of k t \<noteq> None \<longrightarrow> active_of k t = None)"

definition bounded ::
  "kernel_config \<Rightarrow> (string \<Rightarrow> nat) \<Rightarrow> (string \<Rightarrow> nat) \<Rightarrow> bool \<Rightarrow> nat option \<Rightarrow> (string \<times> nat) set \<Rightarrow> 'img kernel \<Rightarrow> bool" where
  "bounded cfg slots waits calm x R k \<longleftrightarrow> keys_ok k \<and> entries k \<subseteq> R
     \<and> (\<forall>t m. (t, m) \<in> R \<longrightarrow> run_ok k t m)
     \<and> (\<forall>t q. queued_of k t = Some q \<longrightarrow> waiting_ok cfg slots k t q)
     \<and> (\<forall>ch. queue_ok waits k ch)
     \<and> (\<forall>m<length (kn_machines k). followed R x k m)
     \<and> (\<forall>i c. map_of (kn_connectors k) i = Some c \<longrightarrow> limits_within cfg slots waits c)
     \<and> (\<forall>t m. task_of k t = Some m \<longrightarrow> m < length (kn_machines k))
     \<and> card (dom (active_of k)) \<le> kc_max_concurrent cfg \<and> (\<forall>ch. card (running_for k ch) \<le> slots ch)
     \<and> (calm \<longrightarrow> calm_ok R k)"

lemma bounded_facts:
  assumes "bounded cfg slots waits calm x R k"
  shows b_keys: "keys_ok k" and b_entries: "entries k \<subseteq> R"
    and b_run: "(t, m) \<in> R \<Longrightarrow> run_ok k t m"
    and b_waiting: "queued_of k t = Some q \<Longrightarrow> waiting_ok cfg slots k t q"
    and b_queue: "queue_ok waits k ch"
    and b_followed: "m < length (kn_machines k) \<Longrightarrow> followed R x k m"
    and b_connector: "map_of (kn_connectors k) i = Some c \<Longrightarrow> limits_within cfg slots waits c"
    and b_task: "task_of k t = Some m \<Longrightarrow> m < length (kn_machines k)"
    and b_total: "card (dom (active_of k)) \<le> kc_max_concurrent cfg"
    and b_child: "card (running_for k ch) \<le> slots ch"
    and b_calm: "calm \<Longrightarrow> calm_ok R k"
  using assms unfolding bounded_def by blast+

lemma boundedI:
  assumes "keys_ok k" and "entries k \<subseteq> R" and "\<And>t m. (t, m) \<in> R \<Longrightarrow> run_ok k t m"
    and "\<And>t q. queued_of k t = Some q \<Longrightarrow> waiting_ok cfg slots k t q" and "\<And>ch. queue_ok waits k ch"
    and "\<And>m. m < length (kn_machines k) \<Longrightarrow> followed R x k m"
    and "\<And>i c. map_of (kn_connectors k) i = Some c \<Longrightarrow> limits_within cfg slots waits c"
    and "\<And>t m. task_of k t = Some m \<Longrightarrow> m < length (kn_machines k)"
    and "card (dom (active_of k)) \<le> kc_max_concurrent cfg" and "\<And>ch. card (running_for k ch) \<le> slots ch"
    and "calm \<Longrightarrow> calm_ok R k"
  shows "bounded cfg slots waits calm x R k"
  using assms unfolding bounded_def by blast

lemma b_in_queue:
  "bounded cfg slots waits calm x R k
    \<Longrightarrow> \<forall>t q. queued_of k t = Some q \<longrightarrow> t \<in> set (queue_of k (child_of (qu_connector q)))"
  using b_waiting by (fastforce simp: waiting_ok_def)

lemma b_queue_entry:
  assumes "bounded cfg slots waits calm x R k" and "t \<in> set (queue_of k ch)"
  obtains q where "queued_of k t = Some q" "child_of (qu_connector q) = ch"
  using b_queue [OF assms(1), of ch] assms(2) unfolding queue_ok_def by blast

lemma entry_run: "entries k \<subseteq> R \<Longrightarrow> active_of k t = Some c \<Longrightarrow> (t, ct_machine c) \<in> R"
  by (auto simp: entries_def)

lemma waiting_no_run:
  assumes "bounded cfg slots waits calm x R k" and "queued_of k t = Some q" and "(t', m) \<in> R"
  shows "m \<noteq> qu_machine q"
  using b_waiting [OF assms(1,2)] b_run [OF assms(1,3)] by (auto simp: waiting_ok_def run_ok_def)

section \<open>Preservation\<close>

lemma bounded_same:
  assumes same: "same_waiting k k'" and b: "bounded cfg slots waits calm x R k"
  shows "bounded cfg slots waits calm x R k'"
proof -
  have view: "kn_active k' = kn_active k" "kn_queued k' = kn_queued k" "kn_machines k' = kn_machines k"
    "queue_of k' = queue_of k"
    using same by (simp_all add: same_waiting_def)
  have machine: "machine k' = machine k" by (rule ext) (simp add: machine_def view(3))
  have running: "running_for k' = running_for k" by (rule ext) (simp only: running_for_def view(1) machine)
  have entries: "entries k' = entries k" by (simp only: entries_def view(1))
  note view = view machine running entries
  have keep: "task_of k' t = Some m" if "task_of k t = Some m" "\<not> terminal_task_state (sn_state (machine k m))" for t m
    using same that unfolding same_waiting_def by blast
  show ?thesis
  proof (rule boundedI)
    show "keys_ok k'" using same b_keys [OF b] by (simp add: same_waiting_def)
    show "waiting_ok cfg slots k' t q" if "queued_of k' t = Some q" for t q
      using b_waiting [OF b that [unfolded view]] keep [of t "qu_machine q"] by (simp add: waiting_ok_def view)
    show "limits_within cfg slots waits c" if "map_of (kn_connectors k') i = Some c" for i c
      using b_connector [OF b] that same unfolding same_waiting_def by blast
    show "m < length (kn_machines k')" if "task_of k' t = Some m" for t m
      using b_task [OF b] that same unfolding same_waiting_def view by blast
  qed (use b_entries [OF b] b_run [OF b] b_queue [OF b] b_followed [OF b] b_total [OF b] b_child [OF b] b_calm [OF b]
      in \<open>simp_all add: view run_ok_def queue_ok_def followed_def calm_ok_def\<close>)
qed

lemma bounded_remove:
  assumes b: "bounded cfg slots waits calm None R k" and q: "queued_of k t = Some q"
    and k': "k' = removeQueued t (child_of (qu_connector q)) k"
  shows "bounded cfg slots waits calm (Some (qu_machine q)) R k'" and "queued_of k' t = None"
proof -
  have view: "kn_active k' = kn_active k" "kn_queued k' = AList.delete t (kn_queued k)" "kn_machines k' = kn_machines k"
    "kn_tasks k' = kn_tasks k" "kn_connectors k' = kn_connectors k" "machine k' = machine k"
    "running_for k' = running_for k" "entries k' = entries k"
    by (simp_all add: k' machine_def fun_eq_iff running_for_def entries_def)
  note rest = queue_after_remove [OF b_queue [OF b] b_in_queue [OF b] q view(2) arg_cong [OF k', of queue_of]]
  show "queued_of k' t = None" by (simp add: view AList.delete_conv')
  show "bounded cfg slots waits calm (Some (qu_machine q)) R k'"
  proof (rule boundedI)
    show "keys_ok k'" using b_keys [OF b] removeQueued_keys [of k t] by (simp add: keys_ok_def view distinct_delete) (simp add: k')
    show "waiting_ok cfg slots k' t' q'" if "queued_of k' t' = Some q'" for t' q'
      using rest(2) [OF that] b_waiting [OF b, of t' q'] by (simp add: waiting_ok_def view)
    show "queue_ok waits k' ch" for ch by (rule rest(1))
    show "followed R (Some (qu_machine q)) k' m" if "m < length (kn_machines k')" for m
    proof -
      have "queued_of k' t' = Some q'" if "queued_of k t' = Some q'" "qu_machine q' = m" "qu_machine q \<noteq> m" for t' q'
        using that q by (auto simp: view AList.delete_conv')
      then show ?thesis using b_followed [OF b, of m] that unfolding followed_def view by blast
    qed
    show "calm_ok R k'" if calm
      using b_calm [OF b that] by (auto simp: calm_ok_def view AList.delete_conv')
  qed (use b_entries [OF b] b_run [OF b] b_connector [OF b] b_task [OF b] b_total [OF b] b_child [OF b]
      in \<open>simp_all add: view run_ok_def\<close>)
qed

text \<open>The machine of an execution that was taken out of the queue, or is new, ends.\<close>

lemma bounded_finish:
  assumes b: "bounded cfg slots waits calm (Some m) R k" and m: "m < length (kn_machines k)" "sn_state (machine k m) = TSubmitted"
    and t: "sn_task_id (machine k m) = t" "queued_of k t = None" and v: "terminal_task_state (sn_state v)"
  shows "bounded cfg slots waits calm None R (set_machine m v k)"
proof -
  let ?k = "set_machine m v k"
  have machine: "machine ?k m' = (if m' = m then v else machine k m')" for m' by (rule machine_set_machine [OF m(1)])
  have run: "m' \<noteq> m" if "(t', m') \<in> R" for t' m' using b_run [OF b that] m(2) by (auto simp: run_ok_def)
  have active: "ct_machine c \<noteq> m" if "active_of k t' = Some c" for t' c
    by (rule run [OF entry_run [OF b_entries [OF b] that]])
  have wait: "qu_machine q \<noteq> m" if "queued_of k t' = Some q" for t' q
    using b_waiting [OF b that] t that by (auto simp: waiting_ok_def)
  have entries: "entries ?k = entries k" by (simp add: entries_def)
  have running: "running_for ?k = running_for k" using active by (auto simp: fun_eq_iff running_for_def machine)
  show ?thesis
  proof (rule boundedI)
    show "keys_ok ?k" using b_keys [OF b] by (simp add: keys_ok_def)
    show "run_ok ?k t' m'" if "(t', m') \<in> R" for t' m' using b_run [OF b that] run [OF that] by (simp add: run_ok_def machine)
    show "waiting_ok cfg slots ?k t' q" if "queued_of ?k t' = Some q" for t' q
      using b_waiting [OF b, of t' q] wait [of t' q] that by (simp add: waiting_ok_def machine)
    show "followed R None ?k m'" if "m' < length (kn_machines ?k)" for m'
      using b_followed [OF b, of m'] that v by (auto simp: followed_def machine)
  qed (use b_entries [OF b] b_queue [OF b] b_connector [OF b] b_task [OF b] b_total [OF b] b_child [OF b] b_calm [OF b]
      in \<open>simp_all add: entries running queue_ok_def calm_ok_def\<close>)
qed

text \<open>It starts when there is room for it.\<close>

lemma bounded_start:
  assumes b: "bounded cfg slots waits calm (Some m) R k" and m: "m < length (kn_machines k)" "sn_state (machine k m) = TSubmitted"
    and t: "sn_task_id (machine k m) = t" "queued_of k t = None" and idle: "calm \<Longrightarrow> active_of k t = None"
    and free: "card (dom (active_of k)) < kc_max_concurrent cfg"
      "card (running_for k (sn_agent_id (machine k m))) < slots (sn_agent_id (machine k m))"
    and k': "k' = start_run now t m k"
  shows "bounded cfg slots waits calm None (R \<union> entries k') k'" and "calm \<Longrightarrow> entries k \<subseteq> entries k'"
proof -
  let ?v = "(machine k m)\<lparr>sn_state := TWorking, sn_started_at := Some (to_iso now), sn_updated_at := to_iso now\<rparr>"
  let ?ch = "sn_agent_id (machine k m)"
  have eq: "k' = start_now now t m k" unfolding k' by (rule start_run_submitted [OF m(2)])
  have machine: "machine k' m' = (if m' = m then ?v else machine k m')" for m'
    using m(1) by (simp add: eq start_now_def machine_def set_machine_def nth_list_update)
  have view: "kn_queued k' = kn_queued k" "kn_tasks k' = kn_tasks k" "kn_connectors k' = kn_connectors k"
    "length (kn_machines k') = length (kn_machines k)" "queue_of k' = queue_of k"
    by (simp_all add: eq start_now_def fun_eq_iff queue_of_def)
  have active: "active_of k' = (active_of k)(t \<mapsto> \<lparr>ct_machine = m, ct_reason = None\<rparr>)"
    by (simp add: eq start_now_def AList.update_conv')
  have run: "m' \<noteq> m" if "(t', m') \<in> R" for t' m' using b_run [OF b that] m(2) by (auto simp: run_ok_def)
  have old: "ct_machine c \<noteq> m" if "active_of k t' = Some c" for t' c
    by (rule run [OF entry_run [OF b_entries [OF b] that]])
  have wait: "qu_machine q \<noteq> m" if "queued_of k t' = Some q" for t' q
    using b_waiting [OF b that] t that by (auto simp: waiting_ok_def)
  have entries: "entries k' \<subseteq> insert (t, m) R" "(t, m) \<in> entries k'"
    using entry_run [OF b_entries [OF b]] by (auto simp: entries_def active split: if_splits)
  have running: "running_for k' ch \<subseteq> (if ch = ?ch then insert t (running_for k ch) else running_for k ch)" for ch
    using old by (auto simp: running_for_def active machine split: if_splits)
  show grow: "entries k \<subseteq> entries k'" if calm
    using idle [OF that] by (auto simp: entries_def active)
  show "bounded cfg slots waits calm None (R \<union> entries k') k'"
  proof (rule boundedI)
    show "keys_ok k'" using b_keys [OF b] by (simp add: keys_ok_def eq start_now_def distinct_update)
    show "run_ok k' t' m'" if "(t', m') \<in> R \<union> entries k'" for t' m'
    proof (cases "(t', m') \<in> R")
      case True
      then show ?thesis using b_run [OF b True] run [OF True] by (simp add: run_ok_def machine view)
    next
      case False
      then have "t' = t" "m' = m" using that entries(1) by auto
      then show ?thesis using m(1) t(1) by (simp add: run_ok_def machine view)
    qed
    show "waiting_ok cfg slots k' t' q" if "queued_of k' t' = Some q" for t' q
      using b_waiting [OF b, of t' q] wait [of t' q] that by (simp add: waiting_ok_def machine view)
    show "queue_ok waits k' ch" for ch using b_queue [OF b] by (simp add: queue_ok_def view)
    show "followed (R \<union> entries k') None k' m'" if "m' < length (kn_machines k')" for m'
      using b_followed [OF b, of m'] that entries(2) by (auto simp: followed_def machine view)
    show "card (dom (active_of k')) \<le> kc_max_concurrent cfg"
      using free(1) by (simp add: active card_insert_if finite_dom_map_of)
    show "card (running_for k' ch) \<le> slots ch" for ch
    proof -
      have "card (running_for k' ch) \<le> card (if ch = ?ch then insert t (running_for k ch) else running_for k ch)"
        by (intro card_mono running) simp
      also have "\<dots> \<le> slots ch" using free(2) b_child [OF b, of ch] by (auto simp: card_insert_if)
      finally show ?thesis .
    qed
    show "calm_ok (R \<union> entries k') k'" if calm
      using b_calm [OF b that] grow [OF that] t(2) by (auto simp: calm_ok_def active view)
  qed (use b_connector [OF b] b_task [OF b] in \<open>simp_all add: view\<close>)
qed


text \<open>A new execution gets a machine, and waits when it cannot start.\<close>

lemma bounded_weaken: "bounded cfg slots waits calm x R k \<Longrightarrow> (calm' \<Longrightarrow> calm) \<Longrightarrow> bounded cfg slots waits calm' x R k"
  unfolding bounded_def by blast

lemma bounded_append:
  assumes b: "bounded cfg slots waits calm None R k" and new: "task_of k (ar_task_id r) = None"
    and k': "k' = k\<lparr>kn_consumed := cs, kn_machines := kn_machines k @ [new_task_machine r],
      kn_tasks := AList.update (ar_task_id r) (length (kn_machines k)) (kn_tasks k)\<rparr>"
  shows "bounded cfg slots waits calm (Some (length (kn_machines k))) R k'" and "queued_of k' (ar_task_id r) = None"
proof -
  let ?t = "ar_task_id r" and ?m = "length (kn_machines k)"
  have machine: "machine k' m = (if m = ?m then new_task_machine r else machine k m)" if "m \<le> ?m" for m
    using that by (auto simp: k' machine_def nth_append)
  have view: "kn_active k' = kn_active k" "kn_queued k' = kn_queued k" "kn_connectors k' = kn_connectors k"
    "length (kn_machines k') = Suc ?m" "queue_of k' = queue_of k" "entries k' = entries k"
    by (simp_all add: k' fun_eq_iff queue_of_def entries_def)
  have task: "task_of k' = (task_of k)(?t \<mapsto> ?m)" by (simp add: k' AList.update_conv')
  have known: "queued_of k t = Some q \<Longrightarrow> t \<noteq> ?t" for t q using b_waiting [OF b, of t q] new by (auto simp: waiting_ok_def)
  then show "queued_of k' ?t = None" by (cases "queued_of k ?t") (auto simp: view)
  have old: "machine k' (ct_machine c) = machine k (ct_machine c)" if "active_of k t = Some c" for t c
    using b_run [OF b entry_run [OF b_entries [OF b] that]] by (simp add: run_ok_def machine)
  have running: "running_for k' = running_for k"
    by (auto simp: fun_eq_iff running_for_def view old)
  show "bounded cfg slots waits calm (Some ?m) R k'"
  proof (rule boundedI)
    show "keys_ok k'" using b_keys [OF b] by (simp add: keys_ok_def k' distinct_update)
    show "run_ok k' t m" if "(t, m) \<in> R" for t m using b_run [OF b that] by (auto simp: run_ok_def machine view)
    show "waiting_ok cfg slots k' t q" if "queued_of k' t = Some q" for t q
      using b_waiting [OF b, of t q] known [of t q] that by (auto simp: waiting_ok_def machine view task)
    show "followed R (Some ?m) k' m" if "m < length (kn_machines k')" for m
      using b_followed [OF b, of m] that by (auto simp: followed_def machine view)
    show "m < length (kn_machines k')" if "task_of k' t = Some m" for t m
      using that b_task [OF b, of t m] by (auto simp: task view split: if_splits)
  qed (use b_entries [OF b] b_queue [OF b] b_connector [OF b] b_total [OF b] b_child [OF b] b_calm [OF b]
      in \<open>simp_all add: view running queue_ok_def calm_ok_def\<close>)
qed

lemma bounded_enqueue:
  assumes b: "bounded cfg slots waits calm (Some m) R k" and m: "m < length (kn_machines k)" "sn_state (machine k m) = TSubmitted"
    and t: "sn_task_id (machine k m) = t" "queued_of k t = None" "task_of k t = Some m" "sn_agent_id (machine k m) = child_of c"
    and idle: "calm \<Longrightarrow> active_of k t = None" and c: "limits_within cfg slots waits c"
    and room: "length (queue_of k (child_of c)) < queue_limit c" and q: "qu_connector q = c" "qu_machine q = m"
    and k': "k' = put_queue (child_of c) (queue_of k (child_of c) @ [t]) (k\<lparr>kn_queued := AList.update t q (kn_queued k)\<rparr>)"
  shows "bounded cfg slots waits calm None R k'"
proof -
  let ?ch = "child_of c"
  let ?k2 = "k\<lparr>kn_queued := AList.update t q (kn_queued k)\<rparr>"
  have machine: "machine k' = machine k" by (rule ext) (simp add: k' machine_def)
  have view: "kn_active k' = kn_active k" "kn_machines k' = kn_machines k" "kn_connectors k' = kn_connectors k"
    "kn_tasks k' = kn_tasks k" "entries k' = entries k" "running_for k' = running_for k"
    by (simp_all add: fun_eq_iff entries_def running_for_def machine) (simp_all add: k')
  have queued: "queued_of k' = (queued_of k)(t \<mapsto> q)" by (simp add: k' AList.update_conv')
  have "queue_of ?k2 = queue_of k" by (simp add: fun_eq_iff queue_of_def)
  then have queue: "queue_of k' ch = (if ch = ?ch then queue_of k ch @ [t] else queue_of k ch)" for ch
    by (simp add: k' queue_of_put_queue)
  have unused: "t \<notin> set (queue_of k ch)" for ch using b_queue_entry [OF b] t(2) by (metis option.distinct(1))
  show ?thesis
  proof (rule boundedI)
    show "keys_ok k'" using b_keys [OF b] put_queue_keys [of ?k2 ?ch "queue_of k ?ch @ [t]"]
      by (simp add: keys_ok_def k' distinct_update)
    show "waiting_ok cfg slots k' t' q'" if "queued_of k' t' = Some q'" for t' q'
    proof (cases "t' = t")
      case True
      then have "q' = q" using that by (simp add: queued)
      then show ?thesis using True m t c q by (simp add: waiting_ok_def machine view queue limits_within_def)
    next
      case False
      then have "queued_of k t' = Some q'" using that by (simp add: queued)
      from b_waiting [OF b this] show ?thesis by (auto simp: waiting_ok_def machine view queue)
    qed
    show "queue_ok waits k' ch" for ch
    proof -
      have old: "queue_ok waits k ch" by (rule b_queue [OF b])
      have "\<exists>q. queued_of k' t' = Some q \<and> child_of (qu_connector q) = ch" if "t' \<in> set (queue_of k' ch)" for t'
      proof (cases "t' = t")
        case True
        then have "ch = ?ch" using that unused by (auto simp: queue split: if_splits)
        then show ?thesis using True q by (simp add: queued)
      next
        case False
        then have "t' \<in> set (queue_of k ch)" using that by (auto simp: queue split: if_splits)
        then show ?thesis using False b_queue_entry [OF b] by (metis fun_upd_other queued)
      qed
      moreover have "distinct (queue_of k' ch)" "length (queue_of k' ch) \<le> waits ch"
        using old unused room c by (auto simp: queue queue_ok_def limits_within_def)
      ultimately show ?thesis by (simp add: queue_ok_def)
    qed
    show "followed R None k' m'" if "m' < length (kn_machines k')" for m'
    proof -
      have "queued_of k' t' = Some q'" if "queued_of k t' = Some q'" for t' q' using that t(2) by (auto simp: queued)
      moreover have "queued_of k' t = Some q" by (simp add: queued)
      ultimately show ?thesis using b_followed [OF b, of m'] that q(2) unfolding followed_def view machine by blast
    qed
    show "calm_ok R k'" if calm using b_calm [OF b that] idle [OF that] by (auto simp: calm_ok_def view queued)
  qed (use b_entries [OF b] b_run [OF b] b_connector [OF b] b_task [OF b] b_total [OF b] b_child [OF b]
      in \<open>simp_all add: view run_ok_def machine\<close>)
qed

text \<open>A running machine moves; the control of an active execution gets a reason to stop; an execution is released.\<close>

lemma bounded_settle:
  assumes b: "bounded cfg slots waits calm None R k" and run: "(t, m) \<in> R"
    and v: "sn_task_id v = t" "sn_agent_id v = sn_agent_id (machine k m)" "sn_state v \<noteq> TSubmitted"
  shows "bounded cfg slots waits calm None R (set_machine m v k)"
proof -
  let ?k = "set_machine m v k"
  have m: "m < length (kn_machines k)" using b_run [OF b run] by (simp add: run_ok_def)
  have machine: "machine ?k m' = (if m' = m then v else machine k m')" for m' by (rule machine_set_machine [OF m])
  have same: "t' = t" if "(t', m) \<in> R" for t' using b_run [OF b that] b_run [OF b run] by (simp add: run_ok_def)
  have wait: "qu_machine q \<noteq> m" if "queued_of k t' = Some q" for t' q
    using waiting_no_run [OF b that run] by blast
  have view: "entries ?k = entries k" "running_for ?k = running_for k"
    using v(2) by (auto simp: entries_def fun_eq_iff running_for_def machine)
  show ?thesis
  proof (rule boundedI)
    show "keys_ok ?k" using b_keys [OF b] by (simp add: keys_ok_def)
    show "run_ok ?k t' m'" if "(t', m') \<in> R" for t' m'
      using b_run [OF b that] same [of t'] that v m by (auto simp: run_ok_def machine)
    show "waiting_ok cfg slots ?k t' q" if "queued_of ?k t' = Some q" for t' q
      using b_waiting [OF b, of t' q] wait [of t' q] that by (simp add: waiting_ok_def machine)
    show "followed R None ?k m'" if "m' < length (kn_machines ?k)" for m'
      using b_followed [OF b, of m'] that v(3) run by (auto simp: followed_def machine)
  qed (use b_entries [OF b] b_queue [OF b] b_connector [OF b] b_task [OF b] b_total [OF b] b_child [OF b] b_calm [OF b]
      in \<open>simp_all add: view queue_ok_def calm_ok_def\<close>)
qed

lemma request_view:
  "map_option ct_machine (active_of (requestTermination reason t k) x) = map_option ct_machine (active_of k x)"
  "machine (requestTermination reason t k) = machine k" "queue_of (requestTermination reason t k) = queue_of k"
  "kn_queued (requestTermination reason t k) = kn_queued k" "kn_machines (requestTermination reason t k) = kn_machines k"
  "kn_tasks (requestTermination reason t k) = kn_tasks k" "kn_connectors (requestTermination reason t k) = kn_connectors k"
  "keys_ok (requestTermination reason t k) \<longleftrightarrow> keys_ok k"
  by (simp_all add: requestTermination_def AList.update_conv' fun_eq_iff machine_def queue_of_def keys_ok_def split: option.splits)
    (auto simp: distinct_update update_keys split: option.splits)

lemma entries_map: "entries k = {(t, m). map_option ct_machine (active_of k t) = Some m}"
  by (auto simp: entries_def)

lemma running_map:
  "running_for k ch = {t. \<exists>m. map_option ct_machine (active_of k t) = Some m \<and> sn_agent_id (machine k m) = ch}"
  by (auto simp: running_for_def)

lemma dom_map: "dom (active_of k) = {t. map_option ct_machine (active_of k t) \<noteq> None}"
  by auto

lemma bounded_request:
  assumes b: "bounded cfg slots waits calm x R k"
  shows "bounded cfg slots waits calm x R (requestTermination reason t k)"
proof -
  let ?k = "requestTermination reason t k"
  have view: "entries ?k = entries k" "dom (active_of ?k) = dom (active_of k)" "running_for ?k = running_for k"
    by (simp_all only: entries_map dom_map request_view) (rule ext, simp only: running_map request_view)
  have idle: "active_of ?k t' = None \<longleftrightarrow> active_of k t' = None" for t' using request_view(1) [of reason t k t'] by auto
  show ?thesis
    by (rule boundedI)
      (use b_entries [OF b] b_run [OF b] b_waiting [OF b] b_keys [OF b] b_queue [OF b] b_followed [OF b] b_connector [OF b]
          b_task [OF b] b_total [OF b] b_child [OF b] b_calm [OF b]
        in \<open>simp_all add: view request_view idle run_ok_def waiting_ok_def queue_ok_def followed_def calm_ok_def\<close>)
qed


lemma bounded_release:
  assumes b: "bounded cfg slots waits calm None R k" and run: "(t, m) \<in> R"
    and stop: "terminal_task_state (sn_state (machine k m))" and k': "k' = k\<lparr>kn_active := AList.delete t (kn_active k)\<rparr>"
  shows "bounded cfg slots waits calm None (R - {(t, m)}) k'"
proof -
  have view: "kn_queued k' = kn_queued k" "kn_machines k' = kn_machines k" "kn_connectors k' = kn_connectors k"
    "kn_tasks k' = kn_tasks k" "machine k' = machine k" "queue_of k' = queue_of k"
    by (simp_all add: k' fun_eq_iff machine_def queue_of_def)
  have active: "active_of k' = (active_of k)(t := None)" by (simp add: k' AList.delete_conv')
  have entries: "entries k' = {e \<in> entries k. fst e \<noteq> t}" by (auto simp: entries_def active split: if_splits)
  have sub: "dom (active_of k') \<subseteq> dom (active_of k)" "running_for k' ch \<subseteq> running_for k ch" for ch
    by (auto simp: active running_for_def view split: if_splits)
  show ?thesis
  proof (rule boundedI)
    show "keys_ok k'" using b_keys [OF b] by (simp add: keys_ok_def k' distinct_delete)
    show "followed (R - {(t, m)}) None k' m'" if "m' < length (kn_machines k')" for m'
      using b_followed [OF b, of m'] that stop by (auto simp: followed_def view)
    show "calm_ok (R - {(t, m)}) k'" if calm
    proof -
      have eq: "R = entries k" using b_calm [OF b that] by (simp add: calm_ok_def)
      have alone: "m' = m" if "(t, m') \<in> R" for m' using that run unfolding eq by (auto simp: entries_def)
      have "e \<in> R - {(t, m)} \<longleftrightarrow> e \<in> {e \<in> R. fst e \<noteq> t}" for e using alone by (cases e) auto
      then have "R - {(t, m)} = {e \<in> R. fst e \<noteq> t}" by (rule set_eqI)
      then have "R - {(t, m)} = entries k'" by (simp only: entries eq)
      moreover have "active_of k' t' = None" if "queued_of k' t' \<noteq> None" for t'
        using b_calm [OF b \<open>calm\<close>] that by (simp add: calm_ok_def active view)
      ultimately show ?thesis unfolding calm_ok_def by blast
    qed
    show "card (dom (active_of k')) \<le> kc_max_concurrent cfg"
      using card_mono [OF _ sub(1)] b_total [OF b] by (simp add: finite_dom_map_of order_trans)
    show "card (running_for k' ch) \<le> slots ch" for ch
      using card_mono [OF finite_running sub(2) [of ch]] b_child [OF b, of ch] by linarith
    show "entries k' \<subseteq> R - {(t, m)}" using b_entries [OF b] by (auto simp: entries)
    show "run_ok k' t' m'" if "(t', m') \<in> R - {(t, m)}" for t' m' using b_run [OF b, of t' m'] that by (simp add: run_ok_def view)
  qed (use b_waiting [OF b] b_queue [OF b] b_connector [OF b] b_task [OF b]
      in \<open>simp_all add: view waiting_ok_def queue_ok_def\<close>)
qed

section \<open>Draining\<close>

text \<open>What drainage adds to the active executions leaves the queue, and nothing that does not wait is touched.\<close>

definition drained :: "'img kernel \<Rightarrow> 'img kernel \<Rightarrow> bool" where
  "drained k k' \<longleftrightarrow> (\<forall>t. queued_of k' t \<noteq> None \<longrightarrow> queued_of k t \<noteq> None)
     \<and> (\<forall>t m. (t, m) \<in> entries k \<and> queued_of k t = None \<longrightarrow> (t, m) \<in> entries k')
     \<and> (\<forall>t m. (t, m) \<in> entries k' \<longrightarrow> (t, m) \<in> entries k \<or> queued_of k' t = None)"

lemma drained_refl: "drained k k"
  by (simp add: drained_def)

lemma bounded_drain_child:
  assumes b: "bounded cfg slots waits calm None R k" and k': "k' = drain_child cfg now k ch"
  shows "bounded cfg slots waits calm None (R \<union> entries k') k' \<and> drained k k'"
proof -
  note keys = b_keys [OF b]
  have R: "R \<union> entries k = R" using b_entries [OF b] by blast
  consider (idle) "k' = k" | (clean) "queue_of k ch = []" "k' = put_queue ch [] k"
    | (start) t rest q where "queue_of k ch = t # rest" "queued_of k t = Some q" "child_of (qu_connector q) = ch"
        "length (kn_active k) < kc_max_concurrent cfg" "active_for_child k ch < child_limit cfg (qu_connector q)"
        "k' = start_run now t (qu_machine q) (removeQueued t ch k)"
  proof (cases "queue_of k ch")
    case (Cons t rest)
    then obtain q where q: "queued_of k t = Some q" "child_of (qu_connector q) = ch"
      using b_queue_entry [OF b, of t ch] by (metis list.set_intros(1))
    show ?thesis
    proof (cases "kc_max_concurrent cfg \<le> length (kn_active k) \<or> child_limit cfg (qu_connector q) \<le> active_for_child k ch")
      case True
      then have "k' = k" using q Cons by (auto simp: k' drain_child_def)
      then show ?thesis by (rule idle)
    next
      case False
      then have "k' = start_run now t (qu_machine q) (removeQueued t ch k)" using q Cons by (simp add: k' drain_child_def)
      then show ?thesis using False by (intro start [OF Cons q]) simp_all
    qed
  next
    case Nil
    show ?thesis
    proof (cases "kc_max_concurrent cfg \<le> length (kn_active k)")
      case True
      then show ?thesis by (intro idle) (simp add: k' drain_child_def)
    next
      case False
      then show ?thesis using Nil by (intro clean) (simp_all add: k' drain_child_def)
    qed
  qed
  then show ?thesis
  proof cases
    case idle
    then show ?thesis using b by (simp add: R drained_refl)
  next
    case clean
    have "queue_of k' = queue_of k" using clean(1) by (auto simp: fun_eq_iff clean(2) queue_of_put_queue)
    then have "same_waiting k k'"
      using put_queue_keys [of k ch "[]"] by (simp add: same_waiting_def keys_ok_def) (simp add: clean(2))
    moreover have "entries k' = entries k" "kn_queued k' = kn_queued k" by (simp_all add: clean(2) entries_def)
    ultimately show ?thesis using bounded_same [OF _ b] by (simp add: R drained_def)
  next
    case (start t rest q)
    let ?k1 = "removeQueued t ch k"
    have b1: "bounded cfg slots waits calm (Some (qu_machine q)) R ?k1" and gone: "queued_of ?k1 t = None"
      using bounded_remove [OF b start(2) refl] unfolding start(3) by simp_all
    have w: "waiting_ok cfg slots k t q" by (rule b_waiting [OF b start(2)])
    have machine: "machine ?k1 = machine k" by (simp add: fun_eq_iff machine_def)
    have view: "entries ?k1 = entries k" "running_for ?k1 = running_for k" by (simp_all add: entries_def fun_eq_iff running_for_def machine)
    have idle: "active_of ?k1 t = None" if calm
      using b_calm [OF b that] start(2) by (simp add: calm_ok_def)
    have free: "card (dom (active_of ?k1)) < kc_max_concurrent cfg"
      "card (running_for ?k1 (sn_agent_id (machine ?k1 (qu_machine q)))) < slots (sn_agent_id (machine ?k1 (qu_machine q)))"
      using start(4,5) w by (simp_all add: view machine waiting_ok_def start(3) length_active [OF keys, symmetric]
          length_active_for_child [OF keys, symmetric])
    have m: "qu_machine q < length (kn_machines ?k1)" "sn_state (machine ?k1 (qu_machine q)) = TSubmitted"
      "sn_task_id (machine ?k1 (qu_machine q)) = t"
      using w by (simp_all add: waiting_ok_def machine)
    have after: "bounded cfg slots waits calm None (R \<union> entries k') k'"
      by (rule bounded_start(1) [OF b1 m gone idle free start(6)])
    have act: "active_of k' = (active_of k)(t \<mapsto> \<lparr>ct_machine = qu_machine q, ct_reason = None\<rparr>)" "kn_queued k' = kn_queued ?k1"
      unfolding start(6) start_run_submitted [OF m(2)] by (simp_all add: start_now_def AList.update_conv')
    have "drained k k'"
      using start(2) gone by (auto simp: drained_def act entries_def AList.delete_conv' split: if_splits)
    then show ?thesis using after by blast
  qed
qed

lemma bounded_drain_fold:
  assumes "bounded cfg slots waits calm None (R \<union> entries k) k"
    and "\<forall>t m. (t, m) \<in> entries k \<longrightarrow> (t, m) \<in> R \<or> queued_of k t = None"
  shows "bounded cfg slots waits calm None (R \<union> entries (foldl (drain_child cfg now) k chs)) (foldl (drain_child cfg now) k chs)"
  using assms
proof (induction chs arbitrary: k)
  case (Cons ch chs)
  let ?k = "drain_child cfg now k ch"
  have step: "bounded cfg slots waits calm None (R \<union> entries k \<union> entries ?k) ?k" "drained k ?k"
    using bounded_drain_child [OF Cons.prems(1) refl, of now ch] by simp_all
  have "e \<in> R \<union> entries ?k" if "e \<in> entries k" for e
    using step(2) Cons.prems(2) that unfolding drained_def by (cases e) blast
  then have "R \<union> entries k \<union> entries ?k = R \<union> entries ?k" by blast
  moreover have "\<forall>t m. (t, m) \<in> entries ?k \<longrightarrow> (t, m) \<in> R \<or> queued_of ?k t = None"
    using step(2) Cons.prems(2) unfolding drained_def by metis
  ultimately show ?case using Cons.IH [of ?k] step(1) by simp
qed simp

lemma bounded_release_run:
  assumes b: "bounded cfg slots waits calm None R k" and run: "(t, m) \<in> R"
    and stop: "terminal_task_state (sn_state (machine k m))" and k': "k' = release_run cfg now t k"
  shows "bounded cfg slots waits calm None (R - {(t, m)} \<union> entries k') k'"
proof -
  let ?k1 = "k\<lparr>kn_active := AList.delete t (kn_active k)\<rparr>"
  have b1: "bounded cfg slots waits calm None (R - {(t, m)}) ?k1" by (rule bounded_release [OF b run stop refl])
  have b2: "bounded cfg slots waits calm None (R - {(t, m)}) (pruneHistory cfg ?k1)"
    by (rule bounded_same [OF same_executions_waiting [OF prune_same [OF b_keys [OF b1]]] b1])
  have sub: "R - {(t, m)} \<union> entries (pruneHistory cfg ?k1) = R - {(t, m)}" using b_entries [OF b2] by blast
  have "bounded cfg slots waits calm None (R - {(t, m)} \<union> entries (foldl (drain_child cfg now) (pruneHistory cfg ?k1) chs))
      (foldl (drain_child cfg now) (pruneHistory cfg ?k1) chs)" for chs
    using bounded_drain_fold [of cfg slots waits calm "R - {(t, m)}" "pruneHistory cfg ?k1"] b2 b_entries [OF b2]
    by (simp only: sub) blast
  then show ?thesis using b2 by (simp add: k' release_run_def drainQueues_def sub)
qed


section \<open>Every operation\<close>

lemma bounded_dequeue_stop:
  assumes b: "bounded cfg slots waits calm None R k" and q: "queued_of k t = Some q"
    and k': "k' = move_machine (task_cancel (to_iso now) stop) (qu_machine q) (removeQueued t (child_of (qu_connector q)) k)"
  shows "bounded cfg slots waits calm None R k'" and "kn_active k' = kn_active k" and "kn_queued k' = AList.delete t (kn_queued k)"
proof -
  let ?k1 = "removeQueued t (child_of (qu_connector q)) k"
  have w: "waiting_ok cfg slots k t q" by (rule b_waiting [OF b q])
  have machine: "machine ?k1 = machine k" by (simp add: fun_eq_iff machine_def)
  have eq: "k' = set_machine (qu_machine q) (stopped now stop (machine ?k1 (qu_machine q))) ?k1"
    using w by (simp add: k' move_machine_def machine waiting_ok_def task_cancel_def requireNonTerminal_def withoutArtifact_def stopped_def)
  note b1 = bounded_remove [OF b q refl]
  show "bounded cfg slots waits calm None R k'"
    unfolding eq by (rule bounded_finish [OF b1(1) _ _ _ b1(2)]) (use w in \<open>simp_all add: waiting_ok_def machine\<close>)
  show "kn_active k' = kn_active k" "kn_queued k' = AList.delete t (kn_queued k)" by (simp_all add: eq)
qed

lemma entries_active: "kn_active k' = kn_active k \<Longrightarrow> entries k' = entries k"
  by (simp add: entries_def)

lemma entries_request [simp]: "entries (requestTermination reason t k) = entries k"
  by (simp only: entries_map request_view)

lemma bounded_log: "bounded cfg slots waits calm x R k \<Longrightarrow> bounded cfg slots waits calm x R (log_cancel t e k)"
  by (rule bounded_same [OF same_executions_waiting [OF log_same [OF b_keys]]])

lemma bounded_prune: "bounded cfg slots waits calm x R k \<Longrightarrow> bounded cfg slots waits calm x R (pruneHistory cfg' k)"
  by (rule bounded_same [OF same_executions_waiting [OF prune_same [OF b_keys]]])

lemma bounded_cancel:
  assumes b: "bounded cfg slots waits calm None R k"
  shows "bounded cfg slots waits calm None R (fst (kernel_cancel cfg now t k))"
    and "entries (fst (kernel_cancel cfg now t k)) = entries k"
proof -
  have "bounded cfg slots waits calm None R (fst (kernel_cancel cfg now t k))
    \<and> entries (fst (kernel_cancel cfg now t k)) = entries k"
  proof (cases "queued_of k t")
    case None
    then show ?thesis
      using b bounded_request [OF bounded_log [OF b]] entries_active [of "log_cancel t None k" k]
      by (simp add: kernel_cancel_def split: option.splits)
  next
    case (Some q)
    note d = bounded_dequeue_stop [OF b Some refl, of now False]
    show ?thesis
      using bounded_prune [OF bounded_log [OF d(1)]] entries_active [OF d(2)]
      by (simp add: kernel_cancel_def Some) (simp add: entries_def)
  qed
  then show "bounded cfg slots waits calm None R (fst (kernel_cancel cfg now t k))"
    and "entries (fst (kernel_cancel cfg now t k)) = entries k" by simp_all
qed

lemma bounded_cancels:
  assumes "bounded cfg slots waits calm None R k"
  shows "bounded cfg slots waits calm None R (foldl (\<lambda>k t. fst (kernel_cancel cfg now t k)) k ts)
    \<and> entries (foldl (\<lambda>k t. fst (kernel_cancel cfg now t k)) k ts) = entries k"
  using assms by (induction ts arbitrary: k) (simp_all add: bounded_cancel)

lemma bounded_unregister:
  assumes b: "bounded cfg slots waits calm None R k"
  shows "bounded cfg slots waits calm None R (fst (unregisterConnector cfg now i k))
    \<and> entries (fst (unregisterConnector cfg now i k)) = entries k"
proof -
  let ?k1 = "k\<lparr>kn_connectors := AList.delete i (kn_connectors k), kn_callable := AList.delete i (kn_callable k)\<rparr>"
  have "same_waiting k ?k1"
    by (auto simp: same_waiting_def keys_ok_def distinct_delete AList.delete_conv' fun_eq_iff queue_of_def split: if_splits)
  then have b1: "bounded cfg slots waits calm None R ?k1" by (rule bounded_same [OF _ b])
  have "entries ?k1 = entries k" by (simp add: entries_def)
  then show ?thesis
    using b b1 bounded_cancels [OF b1] bounded_cancels [OF conjunct1 [OF bounded_cancels [OF b1]]]
    by (simp add: unregisterConnector_def Let_def)
qed

lemma bounded_shutdown_queue:
  assumes "bounded cfg slots waits calm None R k" and "\<forall>(t, q)\<in>set xs. queued_of k t = Some q" and "distinct (map fst xs)"
  shows "bounded cfg slots waits calm None R (foldl (shutdown_queued now) k xs)
    \<and> entries (foldl (shutdown_queued now) k xs) = entries k"
  using assms
proof (induction xs arbitrary: k)
  case (Cons x xs)
  obtain t q where x: "x = (t, q)" by force
  have q: "queued_of k t = Some q" using Cons.prems(2) by (simp add: x)
  note d = bounded_dequeue_stop [OF Cons.prems(1) q refl, of now True]
  have eq: "shutdown_queued now k x = log_cancel t (Some (ea_epoch (qu_authority q)))
      (move_machine (task_cancel (to_iso now) True) (qu_machine q) (removeQueued t (child_of (qu_connector q)) k))"
    by (simp add: shutdown_queued_def x move_machine_log)
  have "bounded cfg slots waits calm None R (shutdown_queued now k x)" unfolding eq by (rule bounded_log [OF d(1)])
  moreover have "\<forall>(t', q')\<in>set xs. queued_of (shutdown_queued now k x) t' = Some q'"
  proof clarify
    fix t' q'
    assume in_xs: "(t', q') \<in> set xs"
    then have "t' \<noteq> t" using Cons.prems(3) by (auto simp: x image_iff)
    moreover have "queued_of k t' = Some q'" using Cons.prems(2) in_xs by auto
    ultimately show "queued_of (shutdown_queued now k x) t' = Some q'" by (simp add: eq d(3) AList.delete_conv')
  qed
  moreover have "entries (shutdown_queued now k x) = entries k" by (rule entries_active) (simp add: eq d(2))
  ultimately show ?case using Cons.IH [of "shutdown_queued now k x"] Cons.prems(3) by simp
qed simp

lemma bounded_shutdown_active:
  "bounded cfg slots waits calm None R k \<Longrightarrow> bounded cfg slots waits calm None R (foldl shutdown_active k xs)
    \<and> entries (foldl shutdown_active k xs) = entries k"
proof (induction xs arbitrary: k)
  case (Cons x xs)
  have "entries (log_cancel t e k) = entries k" for t e by (rule entries_active) simp
  then show ?case
    using Cons.IH [OF bounded_request [OF bounded_log [OF Cons.prems]]] by (simp add: shutdown_active_def split: prod.splits)
qed simp

lemma bounded_shutdown:
  assumes b: "bounded cfg slots waits calm None R k"
  shows "bounded cfg slots waits calm None R (kernel_shutdown now k) \<and> entries (kernel_shutdown now k) = entries k"
proof -
  let ?k0 = "k\<lparr>kn_accepting := False\<rparr>"
  have "queue_of ?k0 = queue_of k" by (simp add: fun_eq_iff queue_of_def)
  then have "same_waiting k ?k0" by (simp add: same_waiting_def keys_ok_def)
  then have b0: "bounded cfg slots waits calm None R ?k0" by (rule bounded_same [OF _ b])
  have "\<forall>(t, q)\<in>set (kn_queued k). queued_of ?k0 t = Some q" "distinct (map fst (kn_queued k))"
    using b_keys [OF b] by (auto simp: keys_ok_def)
  note q = bounded_shutdown_queue [OF b0 this, of now]
  have "entries ?k0 = entries k" by (simp add: entries_def)
  then show ?thesis using b q bounded_shutdown_active [OF conjunct1 [OF q]] by (simp add: kernel_shutdown_def Let_def)
qed

lemma bounded_register:
  assumes run: "registerConnector cfg platform readyAt c k = Inr (k', d)" and b: "bounded cfg slots waits calm None R k"
    and limits: "limits_within cfg slots waits c"
  shows "bounded cfg slots waits calm None R k' \<and> entries k' = entries k"
proof -
  let ?i = "cd_connector_id (cn_descriptor c)"
  obtain agent where k': "k' = k\<lparr>kn_connectors := AList.update ?i c (kn_connectors k), kn_callable := AList.update ?i agent (kn_callable k)\<rparr>"
    using run by (auto simp: registerConnector_def Let_def guarded_Inr_conv valid_simps split: option.splits)
  have view: "machine k' = machine k" "queue_of k' = queue_of k" "kn_active k' = kn_active k" "kn_queued k' = kn_queued k"
    "kn_tasks k' = kn_tasks k" "kn_machines k' = kn_machines k"
    by (simp_all add: k' fun_eq_iff machine_def queue_of_def)
  have views: "entries k' = entries k" "running_for k' = running_for k"
    by (simp_all only: entries_def running_for_def view fun_eq_iff) simp
  show ?thesis
  proof (intro conjI boundedI)
    show "keys_ok k'" using b_keys [OF b] by (simp add: keys_ok_def k' distinct_update)
    show "limits_within cfg slots waits c'" if "map_of (kn_connectors k') i = Some c'" for i c'
      using that limits b_connector [OF b, of i c'] by (auto simp: k' AList.update_conv' split: if_splits)
  qed (use b_entries [OF b] b_run [OF b] b_waiting [OF b] b_queue [OF b] b_followed [OF b] b_task [OF b] b_total [OF b]
      b_child [OF b] b_calm [OF b]
      in \<open>simp_all add: view views run_ok_def waiting_ok_def queue_ok_def followed_def calm_ok_def\<close>)
qed

lemma bounded_execute:
  assumes run: "execute cfg hex platform checked swept started r a k = (k', result)" and b: "bounded cfg slots waits calm None R k"
    and calm': "calm' \<Longrightarrow> calm \<and> active_of k (ar_task_id r) = None"
  shows "bounded cfg slots waits calm' None (R \<union> entries k') k' \<and> (calm' \<longrightarrow> entries k \<subseteq> entries k')"
proof -
  let ?t = "ar_task_id r"
  have b': "bounded cfg slots waits calm' None R k" by (rule bounded_weaken [OF b]) (use calm' in blast)
  from run b_keys [OF b] show ?thesis
  proof (cases rule: execute_cases)
    case (refused e)
    note b1 = bounded_same [OF refused(2) b']
    have "kn_active k' = kn_active k" using refused(2) by (simp add: same_waiting_def)
    moreover have "R \<union> entries k' = R" using b_entries [OF b1] by blast
    ultimately show ?thesis using b1 entries_active [of k' k] by simp
  next
    case (admitted c k2 answer)
    have same: "same_waiting k k2" and new: "task_of k2 ?t = None" and agent: "ar_agent_id r = child_of c"
      and c: "map_of (kn_connectors k) (ar_adapter_id r) = Some c"
      and room: "\<not> can_start cfg c k2 \<longrightarrow> length (queue_of k2 (child_of c)) < queue_limit c"
      using admitted(2) by (auto simp: admitted_def request_target)
    have active: "kn_active k2 = kn_active k" using same by (simp add: same_waiting_def)
    note b2 = bounded_same [OF same b']
    let ?m = "length (kn_machines k2)"
    define k3 where "k3 = k2\<lparr>kn_consumed := AList.update (ea_authority_id a) (date_ms (ea_expires_at a)) (kn_consumed k2),
      kn_machines := kn_machines k2 @ [new_task_machine r], kn_tasks := AList.update ?t ?m (kn_tasks k2)\<rparr>"
    note b3 = bounded_append [OF b2 new k3_def]
    have m: "?m < length (kn_machines k3)" "sn_state (machine k3 ?m) = TSubmitted" "sn_task_id (machine k3 ?m) = ?t"
      "sn_agent_id (machine k3 ?m) = child_of c" "task_of k3 ?t = Some ?m"
      using agent by (simp_all add: k3_def machine_def AList.update_conv')
    have idle: "active_of k3 ?t = None" if calm' using calm' [OF that] by (simp add: k3_def active)
    have entries: "entries k3 = entries k" by (rule entries_active) (simp add: k3_def active)
    have limits: "limits_within cfg slots waits c" by (rule b_connector [OF b c])
    show ?thesis
    proof (cases "can_start cfg c k2")
      case True
      have old: "machine k3 (ct_machine ctl) = machine k2 (ct_machine ctl)" if "active_of k2 t = Some ctl" for t ctl
        using b_run [OF b2 entry_run [OF b_entries [OF b2] that]] by (simp add: run_ok_def k3_def machine_def nth_append)
      have "running_for k3 = running_for k2"
        using old by (auto simp: fun_eq_iff running_for_def k3_def)
      then have free: "card (dom (active_of k3)) < kc_max_concurrent cfg"
        "card (running_for k3 (sn_agent_id (machine k3 ?m))) < slots (sn_agent_id (machine k3 ?m))"
        using True limits unfolding m(4)
        by (simp_all add: can_start_def limits_within_def length_active [OF b_keys [OF b2]]
            length_active_for_child [OF b_keys [OF b2]]) (simp add: k3_def)
      have eq: "k' = start_run started ?t ?m k3" using admitted(3) True by (simp add: admit_def Let_def k3_def)
      note s = bounded_start [OF b3(1) m(1,2,3) b3(2) idle free eq]
      then show ?thesis using entries by auto
    next
      case False
      let ?q = "\<lparr>qu_connector = c, qu_request = r, qu_authority = a, qu_machine = ?m\<rparr>"
      have "queue_of k3 = queue_of k2" by (simp add: fun_eq_iff queue_of_def k3_def)
      moreover have eq: "k' = put_queue (child_of c) (queue_of k3 (child_of c) @ [?t])
          (k3\<lparr>kn_queued := AList.update ?t ?q (kn_queued k3)\<rparr>)"
        using admitted(3) False by (simp add: admit_def Let_def k3_def)
      ultimately have b4: "bounded cfg slots waits calm' None R k'"
        using room False by (intro bounded_enqueue [OF b3(1) m(1,2,3) b3(2) m(5,4) idle limits _ _ _ eq]) simp_all
      have "entries k' = entries k" unfolding entries [symmetric] by (rule entries_active) (simp add: eq)
      moreover have "R \<union> entries k' = R" using b_entries [OF b4] by blast
      ultimately show ?thesis using b4 by simp
    qed
  qed
qed


section \<open>Every run\<close>

definition host_ok :: "kernel_config \<Rightarrow> (string \<Rightarrow> nat) \<Rightarrow> (string \<Rightarrow> nat) \<Rightarrow> 'img host \<Rightarrow> bool" where
  "host_ok cfg slots waits h \<longleftrightarrow> bounded cfg slots waits (\<not> ho_overlap h) None (ho_runs h) (ho_kernel h)"

lemma host_ok_moved:
  assumes "bounded cfg slots waits (\<not> ho_overlap h) None (ho_runs h) k" and "entries k = entries (ho_kernel h)"
    and "host_ok cfg slots waits h"
  shows "host_ok cfg slots waits (moved h k)"
proof -
  have "ho_runs h \<union> entries k = ho_runs h" using assms(2,3) b_entries unfolding host_ok_def by fastforce
  then show ?thesis using assms(1) by (simp add: host_ok_def)
qed

lemma kernel_step_host_ok:
  assumes step: "kernel_step cfg hex platform before now h h'" and ok: "host_ok cfg slots waits h"
    and limits: "\<forall>c\<in>ho_registered h'. limits_within cfg slots waits c"
  shows "host_ok cfg slots waits h'"
proof -
  have b: "bounded cfg slots waits (\<not> ho_overlap h) None (ho_runs h) (ho_kernel h)" using ok by (simp add: host_ok_def)
  from step show ?thesis
  proof cases
    case (step_register readyAt c k' d)
    have "limits_within cfg slots waits c" using limits by (simp add: step_register(1))
    note r = bounded_register [OF step_register(2) b this]
    have "host_ok cfg slots waits (moved h k')" by (rule host_ok_moved [OF conjunct1 [OF r] conjunct2 [OF r] ok])
    then show ?thesis by (simp add: step_register(1) host_ok_def)
  next
    case (step_unregister i k' b')
    then have "k' = fst (unregisterConnector cfg now i (ho_kernel h))" by simp
    then show ?thesis unfolding step_unregister(1)
      using host_ok_moved [OF conjunct1 [OF bounded_unregister [OF b]] conjunct2 [OF bounded_unregister [OF b]] ok] by simp
  next
    case (step_execute checked swept started r a k' result overlap)
    show ?thesis
    proof (cases "k' = ho_kernel h")
      case True
      have "host_ok cfg slots waits (moved h (ho_kernel h))" by (rule host_ok_moved [OF b refl ok])
      then show ?thesis by (simp add: step_execute(1,7) host_ok_def True)
    next
      case False
      from bounded_execute [OF step_execute(2) b, of "\<not> overlap"] show ?thesis
        using False by (simp add: step_execute(1,7) host_ok_def)
    qed
  next
    case (step_cancel t k' b')
    then have "k' = fst (kernel_cancel cfg now t (ho_kernel h))" by simp
    then show ?thesis unfolding step_cancel(1) using host_ok_moved [OF bounded_cancel [OF b] ok] by simp
  next
    case step_shutdown
    show ?thesis unfolding step_shutdown
      by (rule host_ok_moved [OF conjunct1 [OF bounded_shutdown [OF b]] conjunct2 [OF bounded_shutdown [OF b]] ok])
  next
    case (step_stop reason t)
    show ?thesis unfolding step_stop by (rule host_ok_moved [OF bounded_request [OF b] entries_request ok])
  next
    case (step_settle t m f v)
    have "sn_task_id (machine (ho_kernel h) m) = t" "sn_state (machine (ho_kernel h) m) \<noteq> TSubmitted"
      using b_run [OF b step_settle(2)] by (simp_all add: run_ok_def)
    then have v: "sn_task_id v = t" "sn_agent_id v = sn_agent_id (machine (ho_kernel h) m)" "sn_state v \<noteq> TSubmitted"
      using step_settle(4) by (auto elim!: task_stepE simp: task_op_Inr)
    have eq: "settle_run f m (ho_kernel h) = set_machine m v (ho_kernel h)"
      using step_settle(3) by (simp add: settle_run_def move_machine_def)
    have "entries (set_machine m v (ho_kernel h)) = entries (ho_kernel h)" by (rule entries_active) simp
    then show ?thesis using bounded_settle [OF b step_settle(2) v] host_ok_moved ok by (simp add: step_settle(1) eq)
  next
    case (step_release t m)
    from bounded_release_run [OF b step_release(2,3) refl] show ?thesis by (simp add: step_release(1) host_ok_def)
  qed
qed

lemma registered_grow:
  "kernel_step cfg hex platform before now h h' \<Longrightarrow> ho_registered h \<subseteq> ho_registered h'"
  "kernel_step cfg hex platform before now h h' \<Longrightarrow> ho_overlap h \<Longrightarrow> ho_overlap h'"
  by (auto elim!: kernel_step.cases simp: moved_def)

lemma empty_host_ok: "host_ok cfg slots waits empty_host"
proof -
  have "queue_of (empty_kernel :: 'a kernel) ch = []" "running_for (empty_kernel :: 'a kernel) ch = {}"
    "entries (empty_kernel :: 'a kernel) = {}" for ch
    by (simp_all add: queue_of_def empty_kernel_def running_for_def entries_def)
  then show ?thesis
    by (simp add: host_ok_def empty_host_def bounded_def keys_ok_def queue_ok_def calm_ok_def) (simp add: empty_kernel_def)
qed

lemma kernel_run_host_ok:
  assumes "kernel_run cfg hex platform begun empty_host now h" and "\<forall>c\<in>ho_registered h. limits_within cfg slots waits c"
  shows "host_ok cfg slots waits h"
  using assms
proof induction
  case (run_on before h' now h'')
  then show ?case using registered_grow(1) kernel_step_host_ok by blast
qed (simp add: empty_host_ok)

text \<open>
  When no executions of one Task overlapped and the connectors of a child Agent agree on their limits, a run is
  an orderly one.
\<close>

lemma connector_ok_within: "connector_ok cfg slots waits c \<Longrightarrow> limits_within cfg slots waits c"
  by (simp add: connector_ok_def limits_within_def)

lemma kernel_step_orderly:
  assumes step: "kernel_step cfg hex platform before now h h'" and ok: "host_ok cfg slots waits h"
    and calm: "\<not> ho_overlap h'" and limits: "\<forall>c\<in>ho_registered h'. connector_ok cfg slots waits c"
  shows "orderly_step cfg hex platform slots waits (ho_kernel h) (ho_kernel h')"
proof -
  have "\<not> ho_overlap h" using registered_grow(2) [OF step] calm by blast
  then have runs: "ho_runs h = entries (ho_kernel h)"
    using b_calm ok unfolding host_ok_def calm_ok_def by fastforce
  from step show ?thesis
  proof cases
    case (step_register readyAt c k' d)
    then show ?thesis using limits by (auto intro: orderly_register)
  next
    case (step_execute checked swept started r a k' result overlap)
    then have "active_of (ho_kernel h) (ar_task_id r) = None \<or> k' = ho_kernel h" using calm by auto
    then show ?thesis using orderly_execute [OF step_execute(2)] by (simp add: step_execute(1))
  next
    case (step_settle t m f v)
    then obtain c where "active_of (ho_kernel h) t = Some c" "ct_machine c = m" by (auto simp: runs entries_def)
    then show ?thesis using step_settle orderly_settle [of "ho_kernel h" t c f v] by auto
  next
    case (step_release t m)
    then obtain c where "active_of (ho_kernel h) t = Some c" "ct_machine c = m" by (auto simp: runs entries_def)
    then show ?thesis using step_release orderly_release [of "ho_kernel h" t c] by auto
  qed (auto intro: orderly_unregister orderly_cancel orderly_shutdown orderly_stop)
qed

lemma kernel_run_orderly:
  assumes "kernel_run cfg hex platform begun empty_host now h" and "\<not> ho_overlap h"
    and "\<forall>c\<in>ho_registered h. connector_ok cfg slots waits c"
  shows "(orderly_step cfg hex platform slots waits)\<^sup>*\<^sup>* empty_kernel (ho_kernel h)"
  using assms
proof induction
  case (run_on before h' now h'')
  have "\<not> ho_overlap h'" "\<forall>c\<in>ho_registered h'. connector_ok cfg slots waits c"
    using registered_grow [OF run_on.hyps(3)] run_on.prems by blast+
  note before = this
  have "\<forall>c\<in>ho_registered h'. limits_within cfg slots waits c" using before(2) connector_ok_within by blast
  from kernel_run_host_ok [OF run_on.hyps(1) this] have "host_ok cfg slots waits h'" .
  from kernel_step_orderly [OF run_on.hyps(3) this run_on.prems] run_on.IH [OF before]
  show ?case by (rule rtranclp.rtrancl_into_rtrancl [rotated])
qed (simp add: empty_host_def)

end
