(* ===== verification/Json_Text.thy ===== *)
theory Json_Text
  imports Js_Prelude
begin

text \<open>
  \<open>JSON.stringify\<close> is injective: the text of a value determines it, when the value has no \<open>undefined\<close> part and
  its numbers are integers. Digests of canonical JSON texts rest on it.
\<close>

fun plain_json :: "json \<Rightarrow> bool" where
  "plain_json JUndef = False"
| "plain_json (JNum n) = (case n of NInt i \<Rightarrow> True | _ \<Rightarrow> False)"
| "plain_json (JArr xs) = list_all plain_json xs"
| "plain_json (JObj kvs) = list_all (\<lambda>(k, v). plain_json v) kvs"
| "plain_json _ = True"

section \<open>Strings\<close>

text \<open>Reading one escaped character back.\<close>

definition hex_value :: "char \<Rightarrow> int" where
  "hex_value c = (if cu c < 58 then cu c - 48 else cu c - 87)"

fun unescape :: "string \<Rightarrow> (char \<times> string) option" where
  "unescape [] = None"
| "unescape (c # cs) =
     (if c \<noteq> CHR 0x5C then Some (c, cs)
      else case cs of
        [] \<Rightarrow> None
      | d # ds \<Rightarrow>
          if d = CHR ''u'' then Some (char_of (16 * hex_value (ds ! 2) + hex_value (ds ! 3)), drop 4 ds)
          else Some (if d = CHR ''b'' then CHR 0x08 else if d = CHR ''f'' then CHR 0x0C else if d = CHR ''n'' then CHR 0x0A
            else if d = CHR ''r'' then CHR 0x0D else if d = CHR ''t'' then CHR 0x09 else d, ds))"

lemma hex_value_digit [simp]: "0 \<le> n \<Longrightarrow> n < 16 \<Longrightarrow> hex_value (hex_digit n) = n"
  by (simp add: hex_value_def hex_digit_def cu_def of_char_of)

lemma char_of_cu [simp]: "char_of (cu c) = c"
  by (simp add: cu_def)

lemma cu_eq_iff: "cu c = cu d \<longleftrightarrow> c = d"
  by (metis char_of_cu)

lemma cu_special:
  "cu c = 34 \<longleftrightarrow> c = CHR 0x22" "cu c = 92 \<longleftrightarrow> c = CHR 0x5C" "cu c = 8 \<longleftrightarrow> c = CHR 0x08" "cu c = 12 \<longleftrightarrow> c = CHR 0x0C"
  "cu c = 10 \<longleftrightarrow> c = CHR 0x0A" "cu c = 13 \<longleftrightarrow> c = CHR 0x0D" "cu c = 9 \<longleftrightarrow> c = CHR 0x09"
  by (simp_all add: cu_eq_iff [symmetric]) (simp_all add: cu_def)

lemma unescape_escape [simp]: "unescape (escape_char c @ r) = Some (c, r)"
proof -
  have "16 * (cu c div 16) + cu c mod 16 = cu c" by simp
  moreover have "0 \<le> cu c div 16" "cu c div 16 < 16" using cu_range [of c] by simp_all
  ultimately show ?thesis by (simp add: escape_char_def Let_def cu_special)
qed

lemma escape_char_inj: "escape_char c @ r = escape_char d @ s \<Longrightarrow> c = d \<and> r = s"
  by (metis Pair_inject option.inject unescape_escape)

lemma escape_char_not_quote: "escape_char c @ r \<noteq> CHR 0x22 # s"
  by (simp add: escape_char_def Let_def cu_special)

lemma quote_body_inj:
  "concat (map escape_char s) @ CHR 0x22 # r = concat (map escape_char t) @ CHR 0x22 # q \<Longrightarrow> s = t \<and> r = q"
proof (induction s arbitrary: t)
  case Nil
  then show ?case by (cases t) (simp_all add: escape_char_not_quote [symmetric])
next
  case (Cons c s)
  show ?case
  proof (cases t)
    case Nil
    then show ?thesis using Cons.prems escape_char_not_quote by auto
  next
    case (Cons d t')
    then show ?thesis using Cons.prems Cons.IH escape_char_inj [of c _ d] by auto
  qed
qed

lemma quote_string_inj: "quote_string s @ r = quote_string t @ q \<Longrightarrow> s = t \<and> r = q"
  by (rule quote_body_inj) (simp add: quote_string_def)

section \<open>Numbers\<close>

lemma digit_is_digit: "(0 :: int) \<le> m \<Longrightarrow> m < 10 \<Longrightarrow> is_digit (char_of (48 + m))"
  by (simp add: is_digit_def cu_def of_char_of)

lemma nonneg_chars: "0 \<le> n \<Longrightarrow> list_all is_digit (string_of_nonneg n)"
proof (induction n rule: string_of_nonneg.induct)
  case (1 n)
  have digits: "is_digit (char_of (48 + n mod 10))" "n < 10 \<Longrightarrow> is_digit (char_of (48 + n))"
    by (rule digit_is_digit; simp) (rule digit_is_digit [OF "1.prems"])
  show ?case
  proof (cases "n < 10")
    case True
    then show ?thesis using digits by (subst string_of_nonneg.simps) simp
  next
    case False
    then show ?thesis using digits "1.IH" "1.prems" by (subst string_of_nonneg.simps) simp
  qed
qed

definition number_char :: "char \<Rightarrow> bool" where
  "number_char c \<longleftrightarrow> is_digit c \<or> c = CHR ''-''"

lemma int_chars: "list_all number_char (string_of_int i)"
  using nonneg_chars [of i] nonneg_chars [of "- i"] by (auto simp: string_of_int_def number_char_def list_all_iff)

lemma int_head: "\<exists>c cs. string_of_int i = c # cs \<and> number_char c"
  using int_chars [of i] string_of_nonneg_nonempty by (cases "string_of_int i") (auto simp: string_of_int_def split: if_splits)

lemma string_of_int_inj: "string_of_int i = string_of_int j \<Longrightarrow> i = j"
proof -
  have minus: "string_of_nonneg n \<noteq> CHR ''-'' # s" if "0 \<le> n" for n s
    using nonneg_chars [OF that] by (auto simp: is_digit_def cu_def)
  show "string_of_int i = string_of_int j \<Longrightarrow> i = j"
    using string_of_nonneg_inj [of i j] string_of_nonneg_inj [of "- i" "- j"] minus [of i] minus [of j]
    by (auto simp: string_of_int_def split: if_splits dest: sym)
qed

text \<open>What may follow a value within a JSON text.\<close>

definition stops :: "string \<Rightarrow> bool" where
  "stops r \<longleftrightarrow> (case r of [] \<Rightarrow> True | c # cs \<Rightarrow> c \<in> set '',]}'')"

lemma stops_simps [simp]: "stops []" "stops (c # cs) \<longleftrightarrow> c = CHR '','' \<or> c = CHR '']'' \<or> c = CHR ''}''"
  by (simp_all add: stops_def)

lemma int_text_inj:
  assumes "string_of_int i @ r = string_of_int j @ q" and "stops r" and "stops q"
  shows "i = j \<and> r = q"
proof -
  have "takeWhile number_char (string_of_int n @ s) = string_of_int n" if "stops s" for n s
    using that int_chars [of n] by (cases s) (auto simp: takeWhile_append list_all_iff number_char_def is_digit_def cu_def)
  then have "string_of_int i = string_of_int j" using assms by metis
  then show ?thesis using assms(1) string_of_int_inj by auto
qed

section \<open>Values\<close>

lemma json_head: "plain_json x \<Longrightarrow> \<exists>c cs. stringify x = c # cs \<and> c \<notin> set '',]}''"
proof (cases x)
  case (JNum n)
  assume "plain_json x"
  then obtain i where "n = NInt i" using JNum by (auto split: jsnum.splits)
  then show ?thesis using JNum int_head [of i] by (auto simp: number_char_def is_digit_def cu_def)
qed (auto simp: quote_string_def)

text \<open>The elements of an array and the members of an object, after their opening bracket.\<close>

lemma elements_inj:
  assumes "\<And>x r y q. x \<in> set xs \<Longrightarrow> good y \<Longrightarrow> stops r \<Longrightarrow> stops q \<Longrightarrow> render x @ r = render y @ q \<Longrightarrow> x = y \<and> r = q"
    and "\<And>x. x \<in> set xs \<Longrightarrow> good x" and "\<And>y. y \<in> set ys \<Longrightarrow> good y"
    and nonempty: "\<And>x. good x \<Longrightarrow> \<exists>c cs. render x = c # cs \<and> c \<noteq> d" and "d = CHR '']'' \<or> d = CHR ''}''"
    and "join_with '','' (map render xs) @ d # r = join_with '','' (map render ys) @ d # q"
  shows "xs = ys \<and> r = q"
  using assms(1-3,6)
proof (induction xs arbitrary: ys)
  case Nil
  then show ?case
  proof (cases ys)
    case (Cons y ys')
    then have "good y" using Nil.prems(3) by simp
    then obtain c cs where y: "render y = c # cs" "c \<noteq> d" using nonempty by blast
    have "\<exists>zs. join_with '','' (map render ys) @ d # q = c # zs" by (cases ys') (simp_all add: Cons y)
    then show ?thesis using Nil.prems(4) y(2) by auto
  qed simp
next
  case (Cons x xs)
  have "good x" using Cons.prems(2) by simp
  then obtain c cs where x: "render x = c # cs" "c \<noteq> d" using nonempty by blast
  show ?case
  proof (cases ys)
    case Nil
    have "\<exists>zs. join_with '','' (map render (x # xs)) @ d # r = c # zs" by (cases xs) (simp_all add: x)
    then show ?thesis using Cons.prems(4) x(2) Nil by auto
  next
    case ys: (Cons y ys')
    define after where "after zs s = (case zs of [] \<Rightarrow> d # s | _ \<Rightarrow> CHR '','' # join_with '','' (map render zs) @ d # s)" for zs s
    have split: "join_with '','' (map render (z # zs)) @ d # s = render z @ after zs s" for z zs s
      by (cases zs) (simp_all add: after_def)
    have stop: "stops (after zs s)" for zs s using assms(5) by (cases zs) (auto simp: after_def)
    have "x = y \<and> after xs r = after ys' q"
      using Cons.prems(1) [of x y "after xs r" "after ys' q"] Cons.prems(3,4) ys stop by (simp only: split) simp
    then have "x = y" "after xs r = after ys' q" by simp_all
    moreover have "xs = ys' \<and> r = q"
    proof (cases "xs = [] \<or> ys' = []")
      case True
      then show ?thesis using \<open>after xs r = after ys' q\<close> assms(5) by (auto simp: after_def split: list.splits)
    next
      case False
      then have eq: "join_with '','' (map render xs) @ d # r = join_with '','' (map render ys') @ d # q"
        using \<open>after xs r = after ys' q\<close> by (auto simp: after_def split: list.splits)
      show ?thesis
      proof (rule Cons.IH [OF _ _ _ eq])
        show "x' = y' \<and> r' = q'"
          if "x' \<in> set xs" "good y'" "stops r'" "stops q'" "render x' @ r' = render y' @ q'" for x' r' y' q'
          using Cons.prems(1) [OF _ that(2-5)] that(1) by simp
        show "good x'" if "x' \<in> set xs" for x' using Cons.prems(2) that by simp
        show "good y'" if "y' \<in> set ys'" for y' using Cons.prems(3) that ys by simp
      qed
    qed
    ultimately show ?thesis using ys by simp
  qed
qed

definition member_text :: "string \<times> json \<Rightarrow> string" where
  "member_text m = (case m of (k, v) \<Rightarrow> quote_string k @ '':'' @ stringify v)"

lemma stringify_members:
  "list_all (\<lambda>(k, v). plain_json v) kvs
    \<Longrightarrow> stringify (JObj kvs) = CHR ''{'' # join_with '','' (map member_text kvs) @ ''}''"
proof -
  assume plain: "list_all (\<lambda>(k, v). plain_json v) kvs"
  then have "concat (map (\<lambda>(k, v). if v = JUndef then [] else [quote_string k @ '':'' @ stringify v]) kvs) = map member_text kvs"
    by (induction kvs) (auto simp: member_text_def)
  then show ?thesis by simp
qed

lemma number_head:
  "(case n of NInt i \<Rightarrow> True | Frac r t \<Rightarrow> False | NonFinite t \<Rightarrow> False) \<Longrightarrow> c # s = num_string n @ q \<Longrightarrow> number_char c"
  using int_head by (auto split: jsnum.splits) (metis append_Cons list.inject)

lemma not_number_chars [simp]:
  "\<not> number_char CHR ''n''" "\<not> number_char CHR ''t''" "\<not> number_char CHR ''f''" "\<not> number_char CHR ''[''"
  "\<not> number_char CHR ''{''" "\<not> number_char CHR 0x22"
  by (simp_all add: number_char_def is_digit_def cu_def)

lemma stringify_delimited:
  "plain_json x \<Longrightarrow> plain_json y \<Longrightarrow> stops r \<Longrightarrow> stops q \<Longrightarrow> stringify x @ r = stringify y @ q \<Longrightarrow> x = y \<and> r = q"
proof (induction x arbitrary: y r q)
  case (JNum n)
  obtain i where n: "n = NInt i" using JNum.prems(1) by (auto split: jsnum.splits)
  then obtain c cs where head: "string_of_int i = c # cs" "number_char c" using int_head by blast
  then obtain j where y: "y = JNum (NInt j)"
    using JNum.prems(2,5) n by (cases y) (auto simp: number_char_def is_digit_def cu_def quote_string_def split: if_splits jsnum.splits)
  then show ?case using int_text_inj [of i r j q] JNum.prems n by simp
next
  case (JStr s)
  then obtain t where y: "y = JStr t"
    by (cases y) (auto simp: quote_string_def dest: number_head split: if_splits)
  then show ?case using quote_string_inj [of s r t q] JStr.prems by simp
next
  case (JArr xs)
  then obtain ys where y: "y = JArr ys"
    by (cases y) (auto simp: quote_string_def dest: number_head split: if_splits)
  have "xs = ys \<and> r = q"
  proof (rule elements_inj [where good = plain_json and render = stringify and d = "CHR '']''"])
    show "\<exists>c cs. stringify x = c # cs \<and> c \<noteq> CHR '']''" if "plain_json x" for x using json_head [OF that] by auto
    show "x = y' \<and> r' = q'" if "x \<in> set xs" "plain_json y'" "stops r'" "stops q'" "stringify x @ r' = stringify y' @ q'" for x r' y' q'
      using JArr.IH [OF that(1) _ that(2-5)] JArr.prems(1) that(1) by (simp add: list_all_iff)
  qed (use JArr.prems y in \<open>auto simp: list_all_iff\<close>)
  then show ?case using y by simp
next
  case (JObj kvs)
  then obtain kvs' where y: "y = JObj kvs'"
    by (cases y) (auto simp: quote_string_def dest: number_head split: if_splits)
  have plain: "list_all (\<lambda>(k, v). plain_json v) kvs" "list_all (\<lambda>(k, v). plain_json v) kvs'"
    using JObj.prems(1,2) y by simp_all
  have "kvs = kvs' \<and> r = q"
  proof (rule elements_inj [where good = "plain_json \<circ> snd" and render = member_text and d = "CHR ''}''"])
    show "m = m' \<and> r' = q'"
      if m: "m \<in> set kvs" "(plain_json \<circ> snd) m'" "stops r'" "stops q'" "member_text m @ r' = member_text m' @ q'" for m r' m' q'
    proof -
      obtain k v k' v' where pairs: "m = (k, v)" "m' = (k', v')" by force
      have "k = k' \<and> stringify v @ r' = stringify v' @ q'"
        using m(5) quote_string_inj [of k "CHR '':'' # stringify v @ r'" k' "CHR '':'' # stringify v' @ q'"]
        by (simp add: pairs member_text_def)
      moreover have "v \<in> Basic_BNFs.snds m" by (simp add: pairs)
      ultimately show ?thesis
        using JObj.IH [OF m(1), of v v' r' q'] m plain(1) by (auto simp: pairs list_all_iff)
    qed
    show "join_with '','' (map member_text kvs) @ CHR ''}'' # r = join_with '','' (map member_text kvs') @ CHR ''}'' # q"
      using JObj.prems(5) by (simp only: y stringify_members [OF plain(1)] stringify_members [OF plain(2)]) simp
  qed (use plain in \<open>auto simp: list_all_iff member_text_def quote_string_def\<close>)
  then show ?case using y by simp
next
  case JNull
  then show ?case by (cases y) (auto simp: quote_string_def dest: number_head split: if_splits)
next
  case (JBool b)
  then show ?case by (cases y; cases b) (auto simp: quote_string_def dest: number_head split: if_splits)
qed simp

theorem stringify_inj:
  assumes "plain_json x" and "plain_json y" and "stringify x = stringify y"
  shows "x = y"
  using stringify_delimited [OF assms(1,2), of "[]" "[]"] assms(3) by simp

end
