(* ===== verification/Agent_Guarantees.thy ===== *)
theory Agent_Guarantees
  imports Agent_Core Json_Text
begin

text \<open>What the contract of the local Agents guarantees: an authority permits one request and no other.\<close>

section \<open>The input digest\<close>

lemma plain_request: "plain_json (canonical_input r)"
  by (simp add: canonical_input_def image_json_def list_all_iff)

text \<open>The digest function has no collision on two texts.\<close>

definition no_collision :: "(string \<Rightarrow> string) \<Rightarrow> string \<Rightarrow> string \<Rightarrow> bool" where
  "no_collision hex s t \<longleftrightarrow> (hex s = hex t \<longrightarrow> s = t)"

lemma image_json_inj: "image_json x = image_json y \<Longrightarrow> x = y"
  by (simp add: image_json_def)

lemma canonical_request_inj:
  assumes "canonical_input r = canonical_input r'"
  shows "r' = r\<lparr>ar_input_images := ar_input_images r', ar_created_at := ar_created_at r'\<rparr>"
    and "request_images r' = request_images r"
proof -
  have "map image_json (request_images r) = map image_json (request_images r')"
    using assms by (simp add: canonical_input_def)
  then show "request_images r' = request_images r" using image_json_inj by (auto dest!: map_injective intro: injI)
  show "r' = r\<lparr>ar_input_images := ar_input_images r', ar_created_at := ar_created_at r'\<rparr>"
    using assms by (simp add: canonical_input_def)
qed

text \<open>
  An execution authority permits one request: two requests that one authority is valid for differ in nothing but
  the time of their creation, unless their texts are a collision of the digest. In particular the connector, the
  child Agent, the capability, the text and the images cannot be exchanged after the authority was issued.\<close>

theorem authority_binds_the_request:
  assumes "validateExecutionAuthority hex a r c now = None" and "validateExecutionAuthority hex a r' c' now' = None"
    and "no_collision hex (stringify (canonical_input r)) (stringify (canonical_input r'))"
  shows "r' = r\<lparr>ar_input_images := ar_input_images r', ar_created_at := ar_created_at r'\<rparr>
    \<and> request_images r' = request_images r
    \<and> cd_connector_id (cn_descriptor c') = cd_connector_id (cn_descriptor c)
    \<and> cd_child_agent_id (cn_descriptor c') = cd_child_agent_id (cn_descriptor c)"
proof -
  have "hex (stringify (canonical_input r)) = hex (stringify (canonical_input r'))"
    using assms(1,2) by (simp add: validateExecutionAuthority_def valid_simps digestHostAgentTaskInput_def)
  then have "canonical_input r = canonical_input r'"
    using assms(3) stringify_inj [OF plain_request plain_request] by (simp add: no_collision_def)
  note canonical_request_inj [OF this]
  then show ?thesis using assms(1,2) by (simp add: validateExecutionAuthority_def valid_simps)
qed

section \<open>A sample\<close>

definition sample_connector :: connector where
  "sample_connector =
     \<lparr>cn_descriptor = \<lparr>cd_keys = descriptor_required_keys @ descriptor_optional_keys, cd_contract_version = 2,
        cd_connector_id = ''fake-connector'', cd_connector_revision = NInt 1, cd_child_agent_id = ''child-agent'',
        cd_capability_ids = [''summarize''], cd_input_modes = [''text''], cd_output_modes = [''text''], cd_transport_kind = ''fake'',
        cd_origin = Some ''native_agent'', cd_workspace_policy = Some ''snapshot'', cd_max_concurrent = Some (NInt 1),
        cd_max_queued = Some (NInt 2), cd_capabilities = \<lparr>supports_progress = False, supports_pause = False,
          supports_resume = False, supports_checkpoint = False, supports_cancel = True, capability_extra_keys = []\<rparr>,
        cd_semantics = ''workspace_pure_compute'', cd_timeout_ms = NInt 1000, cd_cancel_grace_ms = NInt 100,
        cd_max_output_bytes = NInt 4096\<rparr>,
      cn_binding = \<lparr>rb_keys = binding_keys, rb_schema_version = 1, rb_binding_id = ''binding-1'', rb_child_agent_id = ''child-agent'',
        rb_connector_id = ''fake-connector'', rb_transport_kind = ''fake'', rb_capability_ids = [''summarize'']\<rparr>,
      cn_offer = None, cn_entrypoint = None, cn_resolves_checkpoint = False\<rparr>"

definition kernel_request :: "string \<Rightarrow> adapter_request" where
  "kernel_request t = \<lparr>ar_schema_version = 1, ar_task_id = t, ar_adapter_id = ''fake-connector'', ar_agent_id = ''child-agent'',
     ar_capability_id = ''summarize'', ar_input_kind = ''text'', ar_input_text = ''hello'', ar_input_images = None,
     ar_created_at = ''2026-01-01T00:00:00.000Z''\<rparr>"

definition zero_digest :: "string \<Rightarrow> string" where "zero_digest s = replicate 64 CHR ''0''"

definition kernel_authority :: "string \<Rightarrow> execution_authority" where
  "kernel_authority t = issueExecutionAuthority zero_digest (kernel_request t)
     \<lparr>io_fresh = ''authority-'' @ t, io_now = 0, io_authority_id = None, io_issued_at = None, io_expires_at = None,
      io_deadline_at = None, io_ttl_ms = None, io_workspace_id = None, io_workspace_revision = None,
      io_workspace_access = None, io_epoch = None\<rparr>"

theorem authority_binds_the_request_witness:
  "request_images (kernel_request ''task-1'') = []
   \<and> (kernel_request ''task-1'')\<lparr>ar_created_at := ''2026-01-02T00:00:00.000Z''\<rparr>
     = (kernel_request ''task-1'')\<lparr>ar_input_images := None, ar_created_at := ''2026-01-02T00:00:00.000Z''\<rparr>"
proof -
  let ?r = "kernel_request ''task-1''" and ?a = "kernel_authority ''task-1''"
  let ?r' = "?r\<lparr>ar_created_at := ''2026-01-02T00:00:00.000Z''\<rparr>"
  have "validateExecutionAuthority zero_digest ?a ?r sample_connector 10 = None" by code_simp
  moreover have "validateExecutionAuthority zero_digest ?a ?r' sample_connector 20 = None" by code_simp
  moreover have "no_collision zero_digest (stringify (canonical_input ?r)) (stringify (canonical_input ?r'))"
    by (simp add: no_collision_def canonical_input_def request_images_def)
  ultimately show ?thesis
    using authority_binds_the_request [of zero_digest ?a ?r sample_connector 10 ?r' sample_connector 20]
    by (simp add: kernel_request_def request_images_def)
qed

end
