(* ===== verification/Kernel_Properties.thy ===== *)
theory Kernel_Properties
  imports Kernel_Limits Agent_Guarantees
begin

text \<open>The properties of the Host Agent kernel over its runs, and the behaviours that defeat its intent.\<close>

section \<open>Limits\<close>


section \<open>Progress\<close>






section \<open>Single use of an authority\<close>






lemma consumed_of [simp]:
  "kn_consumed (removeQueued t ch k) = kn_consumed k" "kn_consumed (move_machine f m k) = kn_consumed k"
  "kn_consumed (drain_child cfg now k ch) = kn_consumed k" "kn_consumed (requestTermination reason t k) = kn_consumed k"
  "kn_consumed (fst (kernel_cancel cfg now t k)) = kn_consumed k" "kn_consumed (shutdown_queued now k e) = kn_consumed k"
  "kn_consumed (shutdown_active k e') = kn_consumed k"
  by (auto simp: drain_child_def start_run_def requestTermination_def kernel_cancel_def shutdown_queued_def shutdown_active_def move_machine_def split: option.splits list.splits sum.splits prod.splits)





section \<open>A run\<close>

















end
