(* ===== verification/Kernel_Refinement.thy ===== *)
theory Kernel_Refinement
  imports Kernel_Properties
begin

text \<open>
  What the Host Agent kernel promises as a scheduler, and that it implements it. The abstract scheduler knows
  only which Tasks run and which wait for each child Agent; it starts an execution at once only when none waits
  before it, serves every queue in order, and never exceeds its limits.
\<close>

section \<open>Simulation\<close>


section \<open>The abstract scheduler\<close>

record sched =
  sc_running :: "string \<Rightarrow> string set"
  sc_waiting :: "string \<Rightarrow> string list"

definition sc_all :: "sched \<Rightarrow> string set" where
  "sc_all s = (\<Union>ch. sc_running s ch)"



definition kernel_view :: "'img kernel \<Rightarrow> sched" where
  "kernel_view k = \<lparr>sc_running = running_for k, sc_waiting = queue_of k\<rparr>"

lemma view_simps [simp]:
  "sc_running (kernel_view k) = running_for k" "sc_waiting (kernel_view k) = queue_of k"
  "sc_all (kernel_view k) = dom (active_of k)"
  by (auto simp: kernel_view_def sc_all_def running_for_def)


lemma view_eqI: "running_for k' = running_for k \<Longrightarrow> queue_of k' = queue_of k \<Longrightarrow> kernel_view k' = kernel_view k"
  by (simp add: kernel_view_def)



lemma running_iff:
  "t \<in> running_for k ch \<longleftrightarrow> (\<exists>m. map_option ct_machine (active_of k t) = Some m \<and> sn_agent_id (machine k m) = ch)"
  by (auto simp: running_for_def)


section \<open>Every operation is simulated\<close>



lemma requestTermination_view [simp]: "kernel_view (requestTermination reason t k) = kernel_view k"
proof (rule view_eqI)
  let ?k = "requestTermination reason t k"
  show "queue_of ?k = queue_of k"
    by (simp add: requestTermination_def fun_eq_iff queue_of_def split: option.splits)
  have "map_option ct_machine (active_of ?k x) = map_option ct_machine (active_of k x)" for x
    by (simp add: requestTermination_def AList.update_conv' split: option.splits)
  moreover have "machine ?k = machine k"
    by (simp add: requestTermination_def fun_eq_iff machine_def split: option.splits)
  ultimately show "running_for ?k = running_for k" by (intro ext set_eqI) (simp add: running_iff)
qed

lemma log_view [simp]: "kernel_view (log_cancel t e k) = kernel_view k"
  by (rule view_eqI) (simp_all add: fun_eq_iff running_for_def machine_def)

lemma prune_view [simp]: "kernel_view (pruneHistory cfg k) = kernel_view k"
  by (rule view_eqI) (simp_all add: fun_eq_iff running_for_def machine_def queue_of_def)










section \<open>The kernel implements the scheduler\<close>






end
