(* ===== verification/Kernel_Run.thy ===== *)
theory Kernel_Run
  imports Host_Kernel Execution_Store
begin

text \<open>
  One execution of the Host Agent kernel from its start to its end (\<open>kernel.ts\<close>: \<open>run\<close>,
  \<open>ensurePreparedExecution\<close>, \<open>persistImageArtifact\<close>), and what it feeds to and reads from a child Agent
  (\<open>createBoundedWorkspaceContext\<close>, \<open>BoundedProcessOutput\<close>). What the awaited calls answer is an argument: the
  record \<open>run_world\<close>. Bytes are characters, and the UTF-8 decoder of the platform is an argument.
\<close>

section \<open>What ends an execution\<close>

text \<open>
  The thrown errors that \<open>run\<close> tells apart: \<open>CallableAdapterContractError\<close>, \<open>WorkspaceStoreError\<close> with its
  code, \<open>CallableAdapterOutputError\<close> with its safe code, and the others.
\<close>

datatype run_throw = ContractThrow | WorkspaceThrow string | OutputThrow adapter_error_code | OtherThrow

datatype 'img run_end = EndFail adapter_error_code | EndCancel | EndStop stop_reason | EndComplete "'img task_artifact"

definition workspaceSafeErrorCode :: "run_throw \<Rightarrow> adapter_error_code" where
  "workspaceSafeErrorCode e = (case e of WorkspaceThrow code \<Rightarrow>
       if code = ''WORKSPACE_REVISION_CONFLICT'' then ADAPTER_WORKSPACE_CONFLICT else ADAPTER_WORKSPACE_INVALID
     | _ \<Rightarrow> ADAPTER_WORKSPACE_INVALID)"

definition output_code :: "run_throw \<Rightarrow> adapter_error_code \<Rightarrow> adapter_error_code" where
  "output_code e other = (case e of OutputThrow code \<Rightarrow> code | _ \<Rightarrow> other)"

text \<open>The transition of the task machine that the end stands for.\<close>

fun end_transition :: "int \<Rightarrow> 'img run_end \<Rightarrow> 'img task_snapshot \<Rightarrow> 'img task_snapshot result" where
  "end_transition now (EndFail code) v = task_fail (to_iso now) code v"
| "end_transition now EndCancel v = task_cancel (to_iso now) False v"
| "end_transition now (EndStop reason) v = finishTermination now reason v"
| "end_transition now (EndComplete artifact) v = task_complete (to_iso now) artifact v"

section \<open>The execution handle\<close>

text \<open>\<open>existing\<close> is the answer of \<open>get\<close> and \<open>prepared\<close> the one of \<open>prepare\<close>; without a registry nothing is checked.\<close>

definition ensurePreparedExecution ::
  "bool \<Rightarrow> (run_throw + exec_handle option) \<Rightarrow> (run_throw + exec_handle) \<Rightarrow> execution_authority \<Rightarrow> connector \<Rightarrow> run_throw option" where
  "ensurePreparedExecution registry existing prepared a c =
     (if \<not> registry then None
      else case existing of
        Inl e \<Rightarrow> Some e
      | Inr None \<Rightarrow> (case prepared of
            Inl e \<Rightarrow> Some e
          | Inr h \<Rightarrow> if NInt (h_epoch h) \<noteq> ea_epoch a then Some OtherThrow else None)
      | Inr (Some h) \<Rightarrow>
          if NInt (h_epoch h) \<noteq> ea_epoch a \<or> h_workspace_id h \<noteq> ea_workspace_id a
              \<or> h_connector_id h \<noteq> cd_connector_id (cn_descriptor c) \<or> h_child_agent_id h \<noteq> child_of c
              \<or> pr_state (h_progress h) \<noteq> Queued
          then Some OtherThrow else None)"

section \<open>Image artifacts\<close>

text \<open>What is observed for one image: whether the execution is current before and after it is stored.\<close>

record 'img image_step =
  is_current_before :: bool
  is_inside :: bool
  is_ingested :: "run_throw + 'img"
  is_current_after :: bool

datatype 'img persisted = Persisted "'img list" | Superseded "'img list" | PersistThrow run_throw "'img list"

text \<open>
  The loop of \<open>persistImageArtifact\<close> with the images stored so far. A superseded execution discards them; a
  thrown error leaves them in the store.
\<close>

fun persist_images :: "bool \<Rightarrow> 'img list \<Rightarrow> 'img image_step list \<Rightarrow> 'img persisted" where
  "persist_images registry images [] = Persisted images"
| "persist_images registry images (s # ss) =
     (if registry \<and> \<not> is_current_before s then Superseded images
      else if \<not> is_inside s then PersistThrow (OutputThrow ADAPTER_OUTPUT_INVALID) images
      else case is_ingested s of
        Inl e \<Rightarrow> PersistThrow e images
      | Inr part \<Rightarrow>
          if registry \<and> \<not> is_current_after s then Superseded (images @ [part])
          else persist_images registry (images @ [part]) ss)"

definition persistImageArtifact ::
  "bool \<Rightarrow> bool \<Rightarrow> connector \<Rightarrow> string \<Rightarrow> 'img image_step list \<Rightarrow> 'img persisted" where
  "persistImageArtifact registry store c caption steps =
     (if validateCallableAdapterArtifactText (JStr caption) \<noteq> None then PersistThrow ContractThrow []
      else if ''image'' \<notin> set (cd_output_modes (cn_descriptor c)) \<or> steps = [] \<or> 4 < length steps \<or> \<not> store
      then PersistThrow (OutputThrow ADAPTER_OUTPUT_INVALID) []
      else persist_images registry [] steps)"

text \<open>The images that stay in the store after the call.\<close>

definition kept_images :: "'img persisted \<Rightarrow> 'img list" where
  "kept_images p = (case p of Persisted images \<Rightarrow> images | Superseded images \<Rightarrow> [] | PersistThrow e images \<Rightarrow> images)"

text \<open>\<open>relative(workspace, output)\<close> on real paths, given by their components.\<close>

definition isWorkspaceOutputPath :: "string list \<Rightarrow> string list \<Rightarrow> bool" where
  "isWorkspaceOutputPath workspace output \<longleftrightarrow> length workspace < length output \<and> take (length workspace) output = workspace
     \<and> \<not> starts_with ''..'' (join_with ''/'' (drop (length workspace) output))"

definition staged_path :: "string \<Rightarrow> nat \<Rightarrow> image_input \<Rightarrow> string" where
  "staged_path staging index im = staging @ ''/input-image-'' @ string_of_int (int index + 1)
     @ (if im_mime_type im = ''image/png'' then ''.png'' else ''.jpg'')"

text \<open>The images that \<open>stageTaskImages\<close> copies into the directory it makes, and that the connector sees.\<close>

definition stageTaskImages :: "string \<Rightarrow> adapter_request \<Rightarrow> image_input list" where
  "stageTaskImages staging r =
     map (\<lambda>(i, im). im\<lparr>im_path := staged_path staging i im\<rparr>) (with_index (request_images r))"

fun providerExecutionId :: "execution_spec \<Rightarrow> int option \<Rightarrow> string option" where
  "providerExecutionId (ProcessSpec ks s) pid = map_option (\<lambda>p. ''pid:'' @ string_of_int p) pid"
| "providerExecutionId (LoopbackSpec ks s) pid = Some (''loopback:'' @ lo_runtime_id s @ '':'' @ lo_request_id s)"
| "providerExecutionId (OsaurusSpec ks s) pid = Some (''osaurus-agent:'' @ lo_runtime_id s @ '':'' @ lo_request_id s)"
| "providerExecutionId (FakeSpec ks scenarioId) pid = Some (''fake:'' @ scenarioId)"

section \<open>The run\<close>

datatype 'img decoded = DecText string | DecParts string "'img image_step list"

datatype launch_outcome = LaunchThrows run_throw | LaunchFails run_throw | LaunchStopped stop_reason | LaunchSpec execution_spec

text \<open>
  How \<open>commitSnapshot\<close> or \<open>discardSnapshot\<close> ends. A commit that throws may have published the new revision before:
  the flag tells whether the index that names it was in place.
\<close>

datatype settled = Settled | SettleThrows bool run_throw

datatype process_outcome = ProcExit "int option" | ProcError | ProcStopped stop_reason

text \<open>
  The awaited answers of one run in their order. \<open>rw_memory\<close> is \<open>None\<close> without a memory provider and tells whether
  the selection is valid; \<open>rw_started\<close> whether the transport exists, starts and the registry marks the handle as
  running; \<open>rw_reason_exit\<close> and \<open>rw_reason_catch\<close> are the requested termination when the process has exited and when
  an error is caught; \<open>rw_classified\<close> is what \<open>classifyFailure\<close> returns, and \<open>None\<close> when there is none or it throws.
\<close>

record 'img run_world =
  rw_registry :: bool
  rw_workspace_store :: bool
  rw_image_store :: bool
  rw_existing :: "run_throw + exec_handle option"
  rw_prepared :: "run_throw + exec_handle"
  rw_snapshot :: "run_throw option"
  rw_context :: "run_throw option"
  rw_tempdir :: "run_throw option"
  rw_staging :: "run_throw option"
  rw_handle_read :: "run_throw option"
  rw_memory :: "bool option"
  rw_launch :: launch_outcome
  rw_started :: bool
  rw_input :: "run_throw option"
  rw_process :: process_outcome
  rw_reason_exit :: "stop_reason option"
  rw_current_exit :: "run_throw + bool"
  rw_now_exit :: int
  rw_stdout :: "string option"
  rw_classified :: "adapter_error_code option"
  rw_decoded :: "(run_throw + 'img decoded) option"
  rw_current_artifact :: "run_throw + bool"
  rw_now_artifact :: int
  rw_unstage :: "run_throw option"
  rw_settled :: settled
  rw_reason_catch :: "stop_reason option"

text \<open>
  A part of the run goes on, throws, or ends the run; the flag tells whether the workspace snapshot was published as a revision.
\<close>

datatype 'img flow = Goes | Throws run_throw | Ends bool "'img run_end"

fun in_order :: "'img flow list \<Rightarrow> 'img flow" where
  "in_order [] = Goes"
| "in_order (f # fs) = (case f of Goes \<Rightarrow> in_order fs | _ \<Rightarrow> f)"

definition awaits :: "run_throw option \<Rightarrow> 'img flow" where
  "awaits x = (case x of None \<Rightarrow> Goes | Some e \<Rightarrow> Throws e)"

definition ends_if :: "bool \<Rightarrow> 'img run_end \<Rightarrow> 'img flow" where
  "ends_if b e = (if b then Ends False e else Goes)"

definition uses_workspace :: "connector \<Rightarrow> bool" where
  "uses_workspace c \<longleftrightarrow> policy_of (cn_descriptor c) = ''snapshot'' \<or> policy_of (cn_descriptor c) = ''bounded_context''"

definition has_path :: "connector \<Rightarrow> bool" where
  "has_path c \<longleftrightarrow> policy_of (cn_descriptor c) = ''snapshot''"

definition workspace_part :: "connector \<Rightarrow> 'img run_world \<Rightarrow> 'img flow" where
  "workspace_part c w =
     (if \<not> uses_workspace c then Goes
      else if rw_workspace_store w then in_order [awaits (rw_snapshot w), if has_path c then Goes else awaits (rw_context w)]
      else if \<not> has_path c then Ends False (EndFail ADAPTER_WORKSPACE_INVALID)
      else awaits (rw_tempdir w))"

definition launch_part ::
  "(string \<Rightarrow> url_parts option) \<Rightarrow> local_platform \<Rightarrow> connector \<Rightarrow> 'img run_world \<Rightarrow> 'img flow" where
  "launch_part url platform c w = (case rw_launch w of
       LaunchThrows e \<Rightarrow> Throws e
     | LaunchStopped reason \<Rightarrow> Ends False (EndStop reason)
     | LaunchFails e \<Rightarrow> Ends False (EndFail (output_code e ADAPTER_PREPARE_FAILED))
     | LaunchSpec spec \<Rightarrow>
         ends_if (validateExecutionSpec url platform spec c \<noteq> None \<or> \<not> rw_started w) (EndFail ADAPTER_LAUNCH_FAILED))"

definition prepare_part ::
  "(string \<Rightarrow> url_parts option) \<Rightarrow> local_platform \<Rightarrow> connector \<Rightarrow> adapter_request \<Rightarrow> execution_authority
    \<Rightarrow> 'img run_world \<Rightarrow> 'img flow" where
  "prepare_part url platform c r a w = in_order
     [awaits (ensurePreparedExecution (rw_registry w) (rw_existing w) (rw_prepared w) a c),
      workspace_part c w,
      if has_path c then awaits (rw_staging w) else Goes,
      ends_if (\<not> has_path c \<and> request_images r \<noteq> []) (EndFail ADAPTER_PREPARE_FAILED),
      if rw_registry w then awaits (rw_handle_read w) else Goes,
      ends_if (rw_memory w = Some False) (EndFail ADAPTER_PREPARE_FAILED),
      launch_part url platform c w,
      awaits (rw_input w)]"

definition current_part :: "bool \<Rightarrow> (run_throw + bool) \<Rightarrow> 'img flow" where
  "current_part registry current =
     (if \<not> registry then Goes
      else case current of Inl e \<Rightarrow> Throws e | Inr yes \<Rightarrow> ends_if (\<not> yes) EndCancel)"

definition deadline_part :: "execution_authority \<Rightarrow> int \<Rightarrow> 'img flow" where
  "deadline_part a now = ends_if (date_ms (ea_deadline_at a) \<le> now) (EndFail ADAPTER_TASK_EXPIRED)"

definition exit_part :: "execution_authority \<Rightarrow> 'img run_world \<Rightarrow> int option \<Rightarrow> 'img flow" where
  "exit_part a w code = in_order
     [case rw_reason_exit w of None \<Rightarrow> Goes | Some reason \<Rightarrow> Ends False (EndStop reason),
      current_part (rw_registry w) (rw_current_exit w),
      deadline_part a (rw_now_exit w),
      ends_if (rw_stdout w = None) (EndFail ADAPTER_OUTPUT_INVALID),
      ends_if (code \<noteq> Some 0) (EndFail (given_or (rw_classified w) ADAPTER_EXIT_NONZERO))]"

definition process_part :: "execution_authority \<Rightarrow> 'img run_world \<Rightarrow> 'img flow" where
  "process_part a w = (case rw_process w of
       ProcStopped reason \<Rightarrow> Ends False (EndStop reason)
     | ProcError \<Rightarrow> Ends False (EndFail ADAPTER_LAUNCH_FAILED)
     | ProcExit code \<Rightarrow> exit_part a w code)"

text \<open>The artifact, or how the run ends without one.\<close>

definition decoded_artifact :: "connector \<Rightarrow> 'img run_world \<Rightarrow> 'img flow + 'img task_artifact" where
  "decoded_artifact c w = (case given_or (rw_decoded w) (Inr (DecText (given_or (rw_stdout w) []))) of
       Inl e \<Rightarrow> Inl (Throws e)
     | Inr (DecText s) \<Rightarrow>
         if validateCallableAdapterArtifactText (JStr s) \<noteq> None then Inl (Throws ContractThrow) else Inr (TextArtifact s)
     | Inr (DecParts caption steps) \<Rightarrow>
         if \<not> has_path c then Inl (Throws (OutputThrow ADAPTER_OUTPUT_INVALID))
         else (case persistImageArtifact (rw_registry w) (rw_image_store w) c caption steps of
             Persisted images \<Rightarrow> Inr (PartsArtifact caption images)
           | Superseded images \<Rightarrow> Inl (Ends False EndCancel)
           | PersistThrow e images \<Rightarrow> Inl (Throws e)))"

definition may_commit :: "connector \<Rightarrow> execution_authority \<Rightarrow> bool" where
  "may_commit c a \<longleftrightarrow> has_path c
     \<and> (JStr ''write'' \<in> set (items (ea_workspace_access a)) \<or> JStr ''create_artifact'' \<in> set (items (ea_workspace_access a)))"

definition settle_part :: "connector \<Rightarrow> execution_authority \<Rightarrow> 'img run_world \<Rightarrow> 'img task_artifact \<Rightarrow> 'img flow" where
  "settle_part c a w artifact =
     (if uses_workspace c \<and> rw_workspace_store w
      then (case rw_settled w of
          SettleThrows published e \<Rightarrow> Ends (may_commit c a \<and> published) (EndFail (workspaceSafeErrorCode e))
        | Settled \<Rightarrow> Ends (may_commit c a) (EndComplete artifact))
      else Ends False (EndComplete artifact))"

definition artifact_part :: "connector \<Rightarrow> execution_authority \<Rightarrow> adapter_request \<Rightarrow> 'img run_world \<Rightarrow> 'img flow" where
  "artifact_part c a r w =
     (case (case decoded_artifact c w of
          Inl f \<Rightarrow> f
        | Inr artifact \<Rightarrow> in_order
            [current_part (rw_registry w) (rw_current_artifact w), deadline_part a (rw_now_artifact w),
             if has_path c \<and> request_images r \<noteq> [] then awaits (rw_unstage w) else Goes,
             settle_part c a w artifact]) of
        Throws e \<Rightarrow> Ends False (EndFail (output_code e ADAPTER_OUTPUT_INVALID))
      | f \<Rightarrow> f)"

definition caught :: "'img run_world \<Rightarrow> run_throw \<Rightarrow> 'img run_end" where
  "caught w e = (case rw_reason_catch w of
       Some reason \<Rightarrow> EndStop reason
     | None \<Rightarrow> EndFail (case e of
           ContractThrow \<Rightarrow> ADAPTER_PREPARE_FAILED
         | WorkspaceThrow code \<Rightarrow> workspaceSafeErrorCode e
         | _ \<Rightarrow> ADAPTER_INTERNAL_ERROR))"

definition run_parts ::
  "(string \<Rightarrow> url_parts option) \<Rightarrow> local_platform \<Rightarrow> connector \<Rightarrow> adapter_request \<Rightarrow> execution_authority
    \<Rightarrow> 'img run_world \<Rightarrow> 'img flow" where
  "run_parts url platform c r a w = in_order [prepare_part url platform c r a w, process_part a w, artifact_part c a r w]"

text \<open>\<open>run\<close>: whether a revision of the workspace was published, and the end of the execution.\<close>

definition run_result ::
  "(string \<Rightarrow> url_parts option) \<Rightarrow> local_platform \<Rightarrow> connector \<Rightarrow> adapter_request \<Rightarrow> execution_authority
    \<Rightarrow> 'img run_world \<Rightarrow> bool \<times> 'img run_end" where
  "run_result url platform c r a w = (case run_parts url platform c r a w of
       Ends committed e \<Rightarrow> (committed, e)
     | Throws e \<Rightarrow> (False, caught w e)
     | Goes \<Rightarrow> (False, caught w OtherThrow))"

text \<open>The \<open>finally\<close> block: what the registry learns, and the release of the execution.\<close>

definition finish_state_of :: "adapter_task_state \<Rightarrow> finish_state" where
  "finish_state_of s = (case s of TCompleted \<Rightarrow> FinCompleted | TCanceled \<Rightarrow> FinCanceled | _ \<Rightarrow> FinFailed)"

definition captures_checkpoint :: "connector \<Rightarrow> bool \<Rightarrow> adapter_task_state \<Rightarrow> bool" where
  "captures_checkpoint c prepared s \<longleftrightarrow> prepared \<and> has_path c \<and> supports_checkpoint (cd_capabilities (cn_descriptor c))
     \<and> cn_resolves_checkpoint c \<and> s \<noteq> TCompleted"

definition resume_eligible :: "connector \<Rightarrow> bool" where
  "resume_eligible c \<longleftrightarrow> supports_resume (cd_capabilities (cn_descriptor c))
     \<and> cd_semantics (cn_descriptor c) = ''workspace_pure_compute''"

definition finish_run :: "kernel_config \<Rightarrow> int \<Rightarrow> string \<Rightarrow> 'img run_end \<Rightarrow> 'img kernel \<Rightarrow> 'img kernel" where
  "finish_run cfg now taskId e k = (case map_of (kn_active k) taskId of
       None \<Rightarrow> k
     | Some c \<Rightarrow> release_run cfg now taskId (settle_run (end_transition now e) (ct_machine c) k))"

end
