(* ===== verification/Child_Memory.thy ===== *)
theory Child_Memory
  imports Execution
begin

text \<open>
  The memory of the local child Agents: its contract (\<open>core/memory/types.ts\<close>, \<open>validation.ts\<close>), the two stores and
  the operations of \<open>ChildMemoryService\<close> (\<open>lifecycle-sidecar/runtime/memory/service.ts\<close>). Records and
  authorizations are the parsed objects; the store object is the record \<open>memory_state\<close> of its two lists. The
  digest, the generated identifier, the clock and the order of \<open>localeCompare\<close> are arguments.
\<close>

section \<open>Contract\<close>

definition maximum_records :: nat where "maximum_records = 32"
definition maximum_authorizations :: nat where "maximum_authorizations = 64"
definition maximum_content_bytes :: int where "maximum_content_bytes = 4 * 1024"
definition maximum_context_records :: nat where "maximum_context_records = 4"
definition maximum_context_bytes :: int where "maximum_context_bytes = 8 * 1024"
definition maximum_preview_characters :: nat where "maximum_preview_characters = 240"
definition default_retention_ms :: int where "default_retention_ms = 90 * 24 * 60 * 60 * 1000"

lemmas memory_limits = maximum_records_def maximum_authorizations_def maximum_content_bytes_def
  maximum_context_records_def maximum_context_bytes_def

definition mem_safeId :: "json \<Rightarrow> bool" where
  "mem_safeId v \<longleftrightarrow> is_string v \<and> id_pattern 191 (str_of v)"

definition mem_safeChildAgentId :: "json \<Rightarrow> bool" where
  "mem_safeChildAgentId v \<longleftrightarrow> is_string v \<and> slug_pattern (str_of v)"

definition mem_validTimestamp :: "json \<Rightarrow> bool" where
  "mem_validTimestamp v \<longleftrightarrow> is_string v \<and> valid_date (str_of v)"

definition mem_digest_ok :: "json \<Rightarrow> bool" where
  "mem_digest_ok v \<longleftrightarrow> is_string v \<and> sha256_pattern (str_of v)"

definition mem_exactKeys :: "json \<Rightarrow> string list \<Rightarrow> string \<Rightarrow> error option" where
  "mem_exactKeys v expected label =
     throw_if (sorted_keys_differ (keys_of v) expected) (PlainError (label @ '' contains unsupported fields.''))"

definition mem_error :: "string \<Rightarrow> error" where
  "mem_error what = PlainError (what @ '' is invalid.'')"

definition validateMemoryProvenance :: "json \<Rightarrow> error option" where
  "validateMemoryProvenance v = first_err
     [throw_if (\<not> is_record v) (mem_error ''Memory provenance''),
      mem_exactKeys v [''kind'', ''actor'', ''sourceArtifactId'', ''authorizedAt''] ''Memory provenance'',
      throw_if (get v ''kind'' \<noteq> JStr ''task_artifact_user_saved'' \<or> get v ''actor'' \<noteq> JStr ''local_user''
          \<or> \<not> mem_safeId (get v ''sourceArtifactId'') \<or> \<not> mem_validTimestamp (get v ''authorizedAt''))
        (mem_error ''Memory provenance'')]"

definition memory_record_keys :: "string list" where
  "memory_record_keys = [''schemaVersion'', ''memoryId'', ''scope'', ''workspaceId'', ''childAgentId'', ''sourceTaskId'',
     ''sourcePeerId'', ''content'', ''contentDigest'', ''createdAt'', ''expiresAt'', ''provenance'']"

text \<open>The fields that a record and its summary share, apart from the scope and the content.\<close>

definition shared_fields_ok :: "json \<Rightarrow> bool" where
  "shared_fields_ok v \<longleftrightarrow> get v ''schemaVersion'' = jint 1 \<and> mem_safeId (get v ''memoryId'')
     \<and> mem_safeId (get v ''workspaceId'') \<and> mem_safeChildAgentId (get v ''childAgentId'')
     \<and> mem_safeId (get v ''sourceTaskId'') \<and> mem_safeId (get v ''sourcePeerId'') \<and> mem_digest_ok (get v ''contentDigest'')
     \<and> mem_validTimestamp (get v ''createdAt'') \<and> mem_validTimestamp (get v ''expiresAt'')
     \<and> date_ms (str_of (get v ''createdAt'')) < date_ms (str_of (get v ''expiresAt''))"

definition validateMemoryRecord :: "json \<Rightarrow> error option" where
  "validateMemoryRecord v = first_err
     [throw_if (\<not> is_record v) (mem_error ''Memory Record''),
      mem_exactKeys v memory_record_keys ''Memory Record'',
      throw_if (\<not> shared_fields_ok v \<or> js_string (get v ''scope'') \<notin> {''task'', ''workspace'', ''child_agent''}
          \<or> \<not> is_string (get v ''content'') \<or> trim (str_of (get v ''content'')) = []
          \<or> maximum_content_bytes < utf8_size (str_of (get v ''content'')))
        (mem_error ''Memory Record''),
      validateMemoryProvenance (get v ''provenance'')]"

definition summary_keys :: "string list" where
  "summary_keys = [''schemaVersion'', ''memoryId'', ''scope'', ''workspaceId'', ''childAgentId'', ''sourceTaskId'',
     ''sourcePeerId'', ''contentPreview'', ''contentDigest'', ''createdAt'', ''expiresAt'', ''provenance'']"

definition durable_scope :: "json \<Rightarrow> bool" where
  "durable_scope v \<longleftrightarrow> v = JStr ''workspace'' \<or> v = JStr ''child_agent''"

definition validateMemoryRecordSummary :: "json \<Rightarrow> error option" where
  "validateMemoryRecordSummary v = first_err
     [throw_if (\<not> is_record v) (mem_error ''Memory Record summary''),
      mem_exactKeys v summary_keys ''Memory Record summary'',
      throw_if (\<not> shared_fields_ok v \<or> \<not> durable_scope (get v ''scope'') \<or> \<not> is_string (get v ''contentPreview'')
          \<or> maximum_preview_characters < length (str_of (get v ''contentPreview'')))
        (mem_error ''Memory Record summary''),
      validateMemoryProvenance (get v ''provenance'')]"

definition validateMemoryAuthorization :: "json \<Rightarrow> error option" where
  "validateMemoryAuthorization v = first_err
     [throw_if (\<not> is_record v) (mem_error ''Memory authorization''),
      mem_exactKeys v [''schemaVersion'', ''scope'', ''workspaceId'', ''childAgentId'', ''authorizedAt''] ''Memory authorization'',
      throw_if (get v ''schemaVersion'' \<noteq> jint 1 \<or> \<not> durable_scope (get v ''scope'')
          \<or> \<not> (if get v ''scope'' = JStr ''workspace'' then mem_safeId (get v ''workspaceId'') else get v ''workspaceId'' = JNull)
          \<or> \<not> mem_safeChildAgentId (get v ''childAgentId'') \<or> \<not> mem_validTimestamp (get v ''authorizedAt''))
        (mem_error ''Memory authorization'')]"

definition authorizationKey :: "json \<Rightarrow> string" where
  "authorizationKey v = str_of (get v ''scope'') @ '':''
     @ (if get v ''workspaceId'' = JNull \<or> get v ''workspaceId'' = JUndef then ''none'' else str_of (get v ''workspaceId''))
     @ '':'' @ str_of (get v ''childAgentId'')"

text \<open>Each element passes a check, and no key occurs twice.\<close>

fun all_distinct :: "(json \<Rightarrow> error option) \<Rightarrow> (json \<Rightarrow> string) \<Rightarrow> error \<Rightarrow> string list \<Rightarrow> json list \<Rightarrow> error option" where
  "all_distinct check key e seen [] = None"
| "all_distinct check key e seen (v # vs) = first_err
     [check v, throw_if (key v \<in> set seen) e, all_distinct check key e (key v # seen) vs]"

definition memory_id :: "json \<Rightarrow> string" where
  "memory_id v = str_of (get v ''memoryId'')"

definition validateChildMemorySnapshot :: "json \<Rightarrow> error option" where
  "validateChildMemorySnapshot v = first_err
     [throw_if (\<not> is_record v) (mem_error ''Child Memory snapshot''),
      mem_exactKeys v [''schemaVersion'', ''generatedAt'', ''records'', ''authorizations''] ''Child Memory snapshot'',
      throw_if (get v ''schemaVersion'' \<noteq> jint 1 \<or> \<not> mem_validTimestamp (get v ''generatedAt'') \<or> \<not> is_array (get v ''records'')
          \<or> \<not> is_array (get v ''authorizations'') \<or> maximum_records < length (items (get v ''records''))
          \<or> maximum_authorizations < length (items (get v ''authorizations'')))
        (mem_error ''Child Memory snapshot''),
      all_distinct validateMemoryRecordSummary memory_id (PlainError ''Child Memory snapshot contains duplicate records.'')
        [] (items (get v ''records'')),
      all_distinct validateMemoryAuthorization authorizationKey
        (PlainError ''Child Memory snapshot contains duplicate authorizations.'') [] (items (get v ''authorizations''))]"

text \<open>A record that the service gives to a child Agent.\<close>

record context_record =
  cx_memory_id :: string
  cx_scope :: string
  cx_digest :: string
  cx_content :: string

record context_selection =
  cs_schema_version :: int
  cs_records :: "context_record list"
  cs_byte_length :: jsnum

definition context_record_ok :: "context_record \<Rightarrow> bool" where
  "context_record_ok x \<longleftrightarrow> id_pattern 191 (cx_memory_id x) \<and> (cx_scope x = ''workspace'' \<or> cx_scope x = ''child_agent'')
     \<and> sha256_pattern (cx_digest x) \<and> trim (cx_content x) \<noteq> [] \<and> utf8_size (cx_content x) \<le> maximum_content_bytes"

definition validateMemoryContextSelection :: "context_selection \<Rightarrow> error option" where
  "validateMemoryContextSelection s = first_err
     [throw_if (cs_schema_version s \<noteq> 1 \<or> maximum_context_records < length (cs_records s) \<or> \<not> num_is_safe (cs_byte_length s)
          \<or> num_int (cs_byte_length s) < 0 \<or> maximum_context_bytes < num_int (cs_byte_length s))
        (mem_error ''Memory context selection''),
      throw_if (\<not> list_all context_record_ok (cs_records s)) (mem_error ''Memory context selection''),
      throw_if (sum_list (map (utf8_size \<circ> cx_content) (cs_records s)) \<noteq> num_int (cs_byte_length s))
        (mem_error ''Memory context byte length'')]"

section \<open>Stores\<close>

record memory_state =
  ms_records :: "json list"
  ms_authorizations :: "json list"

definition emptyState :: memory_state where
  "emptyState = \<lparr>ms_records = [], ms_authorizations = []\<rparr>"

definition memory_json :: "memory_state \<Rightarrow> json" where
  "memory_json st = JObj [(''schemaVersion'', jint 1), (''records'', JArr (ms_records st)),
     (''authorizations'', JArr (ms_authorizations st))]"

definition memory_of :: "json \<Rightarrow> memory_state" where
  "memory_of v = \<lparr>ms_records = items (get v ''records''), ms_authorizations = items (get v ''authorizations'')\<rparr>"

definition stored_record_check :: "(string \<Rightarrow> string) \<Rightarrow> json \<Rightarrow> error option" where
  "stored_record_check digest v = first_err
     [validateMemoryRecord v,
      throw_if (get v ''contentDigest'' \<noteq> JStr (digest (str_of (get v ''content''))))
        (PlainError ''Memory content digest does not match the stored content.'')]"

definition validateStoreState :: "(string \<Rightarrow> string) \<Rightarrow> json \<Rightarrow> error option" where
  "validateStoreState digest v = first_err
     [throw_if (\<not> is_record v \<or> get v ''schemaVersion'' \<noteq> jint 1
          \<or> sorted_keys_differ (keys_of v) [''authorizations'', ''records'', ''schemaVersion'']
          \<or> \<not> is_array (get v ''records'') \<or> \<not> is_array (get v ''authorizations'')
          \<or> maximum_records < length (items (get v ''records''))
          \<or> maximum_authorizations < length (items (get v ''authorizations'')))
        (mem_error ''Child Memory store''),
      all_distinct (stored_record_check digest) memory_id (PlainError ''Memory ID is duplicated.'') [] (items (get v ''records'')),
      all_distinct validateMemoryAuthorization authorizationKey (PlainError ''Memory authorization is duplicated.'') []
        (items (get v ''authorizations''))]"

definition memory_file_load :: "(string \<Rightarrow> string) \<Rightarrow> json_file \<Rightarrow> memory_state result" where
  "memory_file_load digest f = (case f of
       NoFile \<Rightarrow> Inr emptyState
     | NotJson \<Rightarrow> Inl (PlainError ''JSON.parse'')
     | JsonFile v \<Rightarrow> guarded (validateStoreState digest v) (Inr (memory_of v)))"

definition memory_file_save :: "(string \<Rightarrow> string) \<Rightarrow> memory_state \<Rightarrow> json_file \<Rightarrow> json_file result" where
  "memory_file_save digest st f =
     guarded (validateStoreState digest (memory_json st)) (Inr (JsonFile (json_clone (memory_json st))))"

definition memory_cell_load :: "memory_state \<Rightarrow> memory_state result" where
  "memory_cell_load st = Inr st"

definition memory_cell_save :: "(string \<Rightarrow> string) \<Rightarrow> memory_state \<Rightarrow> memory_state \<Rightarrow> memory_state result" where
  "memory_cell_save digest st old = guarded (validateStoreState digest (memory_json st)) (Inr st)"

section \<open>The service\<close>

definition memory_error :: "string \<Rightarrow> string \<Rightarrow> error" where
  "memory_error code message = HostChildAgentContractError code message"

definition not_expired :: "int \<Rightarrow> json \<Rightarrow> bool" where
  "not_expired now v \<longleftrightarrow> now < date_ms (str_of (get v ''expiresAt''))"

text \<open>An operation maps the state to its answer and the state it leaves; \<open>mutate\<close> drops the expired records before.\<close>

definition memory_mutate ::
  "('s \<Rightarrow> memory_state result) \<Rightarrow> (memory_state \<Rightarrow> 's \<Rightarrow> 's result) \<Rightarrow> int
    \<Rightarrow> (memory_state \<Rightarrow> (memory_state \<times> 'a) result) \<Rightarrow> 's \<Rightarrow> ('s \<times> 'a) result" where
  "memory_mutate load save now op s = rbind (load s) (\<lambda>st.
     rbind (op (st\<lparr>ms_records := filter (not_expired now) (ms_records st)\<rparr>)) (\<lambda>(st', answer).
       rbind (save st' s) (\<lambda>s'. Inr (s', answer))))"

text \<open>\<open>{ content, ...summary }\<close> with the preview of the content.\<close>

definition toSummary :: "json \<Rightarrow> json" where
  "toSummary v = (case v of JObj kvs \<Rightarrow>
       JObj (filter (\<lambda>(k, x). k \<noteq> ''content'') kvs
         @ [(''contentPreview'', JStr (take maximum_preview_characters (str_of (get v ''content''))))])
     | _ \<Rightarrow> v)"

definition newest_first :: "json \<Rightarrow> json \<Rightarrow> bool" where
  "newest_first l r \<longleftrightarrow> date_ms (str_of (get r ''createdAt'')) \<le> date_ms (str_of (get l ''createdAt''))"

definition snapshotFromState :: "(string \<Rightarrow> string \<Rightarrow> bool) \<Rightarrow> int \<Rightarrow> memory_state \<Rightarrow> json" where
  "snapshotFromState collate now st = JObj
     [(''schemaVersion'', jint 1), (''generatedAt'', JStr (to_iso now)),
      (''records'', JArr (sort_by newest_first (map toSummary (ms_records st)))),
      (''authorizations'', JArr (sort_by (\<lambda>l r. collate (authorizationKey l) (authorizationKey r)) (ms_authorizations st)))]"

definition memory_list :: "(string \<Rightarrow> string \<Rightarrow> bool) \<Rightarrow> int \<Rightarrow> memory_state \<Rightarrow> (memory_state \<times> json) result" where
  "memory_list collate now st = Inr (st, snapshotFromState collate now st)"

record authorization_input =
  ai_scope :: string
  ai_workspace_id :: "string option"
  ai_child_agent_id :: string
  ai_enabled :: bool

definition requireAuthorizationInput :: "authorization_input \<Rightarrow> error option" where
  "requireAuthorizationInput i = throw_if
     ((ai_scope i \<noteq> ''workspace'' \<and> ai_scope i \<noteq> ''child_agent'') \<or> \<not> slug_pattern (ai_child_agent_id i)
       \<or> (if ai_scope i = ''workspace'' then (case ai_workspace_id i of None \<Rightarrow> True | Some w \<Rightarrow> \<not> id_pattern 191 w)
          else ai_workspace_id i \<noteq> None))
     (memory_error ''MEMORY_AUTHORIZATION_INVALID'' ''Memory authorization is invalid.'')"

definition authorizationInputKey :: "authorization_input \<Rightarrow> string" where
  "authorizationInputKey i = ai_scope i @ '':''
     @ (if ai_scope i = ''workspace'' then (case ai_workspace_id i of None \<Rightarrow> ''null'' | Some w \<Rightarrow> w) else ''none'')
     @ '':'' @ ai_child_agent_id i"

definition authorization_json :: "int \<Rightarrow> authorization_input \<Rightarrow> json" where
  "authorization_json now i = JObj
     [(''schemaVersion'', jint 1), (''scope'', JStr (ai_scope i)),
      (''workspaceId'', if ai_scope i = ''workspace'' then null_json JStr (ai_workspace_id i) else JNull),
      (''childAgentId'', JStr (ai_child_agent_id i)), (''authorizedAt'', JStr (to_iso now))]"

definition setAuthorization ::
  "(string \<Rightarrow> string \<Rightarrow> bool) \<Rightarrow> int \<Rightarrow> authorization_input \<Rightarrow> memory_state \<Rightarrow> (memory_state \<times> json) result" where
  "setAuthorization collate now i st = guarded (requireAuthorizationInput i)
     (let others = filter (\<lambda>a. authorizationKey a \<noteq> authorizationInputKey i) (ms_authorizations st);
          st' = st\<lparr>ms_authorizations := others @ (if ai_enabled i then [authorization_json now i] else [])\<rparr>
      in Inr (st', snapshotFromState collate now st'))"

definition hasAuthorization :: "json list \<Rightarrow> string \<Rightarrow> json \<Rightarrow> string \<Rightarrow> bool" where
  "hasAuthorization as scope workspaceId childAgentId \<longleftrightarrow> list_ex (\<lambda>a. get a ''scope'' = JStr scope
     \<and> get a ''workspaceId'' = workspaceId \<and> get a ''childAgentId'' = JStr childAgentId) as"

definition memory_artifactText :: "json \<Rightarrow> string" where
  "memory_artifactText a = (if get a ''schemaVersion'' = jint 1 then str_of (get a ''text'')
     else join_with [CHR 0x0A] (map (\<lambda>p. str_of (get p ''text''))
       (filter (\<lambda>p. get p ''kind'' = JStr ''text'') (items (get a ''parts'')))))"

text \<open>The mark of a shortened content; a gloss with the same number of bytes as the text of the source.\<close>

definition truncation_mark :: string where
  "truncation_mark = CHR 0x0A # ''[... cut at the Child Memory v1 limit .]''"

fun bounded_prefix :: "int \<Rightarrow> string \<Rightarrow> string \<Rightarrow> string" where
  "bounded_prefix limit acc [] = acc"
| "bounded_prefix limit acc (c # cs) = (if limit < utf8_size (acc @ [c]) then acc else bounded_prefix limit (acc @ [c]) cs)"

definition boundedContent :: "string \<Rightarrow> string result" where
  "boundedContent value = (let s = trim value in
     if s = [] then Inl (memory_error ''MEMORY_SOURCE_INVALID'' ''Memory content is empty.'')
     else if utf8_size s \<le> maximum_content_bytes then Inr s
     else Inr (bounded_prefix (maximum_content_bytes - utf8_size truncation_mark) [] s @ truncation_mark))"

text \<open>The operation \<open>saveFromTask\<close> of a task record, its execution handle and the scope; \<open>fresh\<close> is the new identifier.\<close>

definition save_checks :: "json \<Rightarrow> exec_handle \<Rightarrow> string \<Rightarrow> bool \<Rightarrow> memory_state \<Rightarrow> error option" where
  "save_checks task h scope confirmed st = (let workspace = get task ''workspaceBinding'' in first_err
     [throw_if (\<not> confirmed \<or> get task ''direction'' \<noteq> JStr ''incoming'' \<or> get task ''state'' \<noteq> JStr ''completed''
          \<or> get (get task ''request'') ''taskId'' \<noteq> JStr (h_task_id h))
        (memory_error ''MEMORY_WRITE_NOT_AUTHORIZED'' ''Only an explicitly confirmed, completed local execution can be saved.''),
      throw_if (\<not> truthy workspace \<or> get workspace ''workspaceId'' \<noteq> JStr (h_workspace_id h))
        (memory_error ''MEMORY_SOURCE_INVALID'' ''Task Workspace binding is unavailable.''),
      throw_if (scope = ''workspace'' \<and> get workspace ''mode'' \<noteq> JStr ''durable_collaboration'')
        (memory_error ''MEMORY_WORKSPACE_NOT_DURABLE'' ''Workspace Memory requires a durable Collaboration Workspace.''),
      throw_if (\<not> hasAuthorization (ms_authorizations st) scope
          (if scope = ''workspace'' then get workspace ''workspaceId'' else JNull) (h_child_agent_id h))
        (memory_error ''MEMORY_SCOPE_DISABLED'' ''The selected long-term Memory scope is disabled.'')])"

definition new_record :: "(string \<Rightarrow> string) \<Rightarrow> string \<Rightarrow> int \<Rightarrow> json \<Rightarrow> exec_handle \<Rightarrow> string \<Rightarrow> json \<Rightarrow> string \<Rightarrow> json" where
  "new_record digest fresh now task h scope artifact content = JObj
     [(''schemaVersion'', jint 1), (''memoryId'', JStr fresh), (''scope'', JStr scope),
      (''workspaceId'', get (get task ''workspaceBinding'') ''workspaceId''), (''childAgentId'', JStr (h_child_agent_id h)),
      (''sourceTaskId'', get (get task ''request'') ''taskId''), (''sourcePeerId'', get task ''peerTetiId''),
      (''content'', JStr content), (''contentDigest'', JStr (digest content)), (''createdAt'', JStr (to_iso now)),
      (''expiresAt'', JStr (to_iso (now + default_retention_ms))),
      (''provenance'', JObj [(''kind'', JStr ''task_artifact_user_saved''), (''actor'', JStr ''local_user''),
        (''sourceArtifactId'', get artifact ''artifactId''), (''authorizedAt'', JStr (to_iso now))])]"

definition saveFromTask ::
  "(string \<Rightarrow> string) \<Rightarrow> string \<Rightarrow> int \<Rightarrow> json \<Rightarrow> exec_handle \<Rightarrow> string \<Rightarrow> bool \<Rightarrow> memory_state
    \<Rightarrow> (memory_state \<times> json) result" where
  "saveFromTask digest fresh now task h scope confirmed st =
     guarded (save_checks task h scope confirmed st)
     (case find_first (\<lambda>a. trim (memory_artifactText a) \<noteq> []) (rev (items (get task ''artifacts''))) of
        None \<Rightarrow> Inl (memory_error ''MEMORY_SOURCE_INVALID'' ''Task has no completed text Artifact.'')
      | Some artifact \<Rightarrow> rbind (boundedContent (memory_artifactText artifact)) (\<lambda>content.
          case find_first (\<lambda>m. get m ''scope'' = JStr scope \<and> get m ''sourceTaskId'' = get (get task ''request'') ''taskId''
              \<and> get m ''childAgentId'' = JStr (h_child_agent_id h)
              \<and> get (get m ''provenance'') ''sourceArtifactId'' = get artifact ''artifactId'') (ms_records st) of
            Some m \<Rightarrow> Inr (st, m)
          | None \<Rightarrow>
              if maximum_records \<le> length (ms_records st)
              then Inl (memory_error ''MEMORY_STORE_FULL'' ''Child Memory store is full.'')
              else (let m = new_record digest fresh now task h scope artifact content in
                guarded (validateMemoryRecord m) (Inr (st\<lparr>ms_records := ms_records st @ [m]\<rparr>, m)))))"

definition memory_delete :: "string \<Rightarrow> memory_state \<Rightarrow> (memory_state \<times> bool) result" where
  "memory_delete memoryId st =
     (if \<not> id_pattern 191 memoryId then Inl (memory_error ''MEMORY_ID_INVALID'' ''Memory ID is invalid.'')
      else (let rest = filter (\<lambda>m. get m ''memoryId'' \<noteq> JStr memoryId) (ms_records st)
            in Inr (st\<lparr>ms_records := rest\<rparr>, length rest \<noteq> length (ms_records st))))"

definition requireSelectionInput :: "string \<Rightarrow> string \<Rightarrow> string \<Rightarrow> error option" where
  "requireSelectionInput taskId workspaceId childAgentId = throw_if
     (\<not> id_pattern 191 taskId \<or> \<not> id_pattern 191 workspaceId \<or> \<not> slug_pattern childAgentId)
     (memory_error ''MEMORY_QUERY_INVALID'' ''Memory context query is invalid.'')"

definition eligible :: "string \<Rightarrow> string \<Rightarrow> json list \<Rightarrow> json \<Rightarrow> bool" where
  "eligible workspaceId childAgentId as m \<longleftrightarrow> get m ''childAgentId'' = JStr childAgentId
     \<and> (if get m ''scope'' = JStr ''child_agent'' then hasAuthorization as ''child_agent'' JNull childAgentId
        else get m ''scope'' = JStr ''workspace'' \<and> get m ''workspaceId'' = JStr workspaceId
          \<and> hasAuthorization as ''workspace'' (JStr workspaceId) childAgentId)"

definition context_record_of :: "json \<Rightarrow> context_record" where
  "context_record_of m = \<lparr>cx_memory_id = memory_id m, cx_scope = str_of (get m ''scope''),
     cx_digest = str_of (get m ''contentDigest''), cx_content = str_of (get m ''content'')\<rparr>"

fun take_context :: "context_record list \<Rightarrow> int \<Rightarrow> json list \<Rightarrow> context_record list \<times> int" where
  "take_context taken bytes [] = (taken, bytes)"
| "take_context taken bytes (m # ms) =
     (let size_m = utf8_size (str_of (get m ''content'')) in
      if maximum_context_records \<le> length taken \<or> maximum_context_bytes < bytes + size_m then take_context taken bytes ms
      else take_context (taken @ [context_record_of m]) (bytes + size_m) ms)"

definition selectContext ::
  "string \<Rightarrow> string \<Rightarrow> string \<Rightarrow> memory_state \<Rightarrow> (memory_state \<times> context_selection) result" where
  "selectContext taskId workspaceId childAgentId st = guarded (requireSelectionInput taskId workspaceId childAgentId)
     (case take_context [] 0 (sort_by newest_first (filter (eligible workspaceId childAgentId (ms_authorizations st)) (ms_records st))) of
        (taken, bytes) \<Rightarrow> (let s = \<lparr>cs_schema_version = 1, cs_records = taken, cs_byte_length = NInt bytes\<rparr> in
          guarded (validateMemoryContextSelection s) (Inr (st, s))))"

text \<open>\<open>export\<close>: the name of the file and the text it holds.\<close>

definition export_name :: "int \<Rightarrow> string" where
  "export_name now = ''teti-child-memory-'' @ map (\<lambda>c. if c = CHR '':'' \<or> c = CHR ''.'' then CHR ''-'' else c) (to_iso now) @ ''.json''"

definition memory_export :: "int \<Rightarrow> memory_state \<Rightarrow> (memory_state \<times> string \<times> json) result" where
  "memory_export now st = Inr (st, export_name now, JObj
     [(''schemaVersion'', jint 1), (''exportedAt'', JStr (to_iso now)), (''records'', JArr (ms_records st)),
      (''authorizations'', JArr (ms_authorizations st))])"

end
