(* ===== verification/Memory_Guarantees.thy ===== *)
theory Memory_Guarantees
  imports Child_Memory
begin

text \<open>
  What the memory of the child Agents guarantees: only authorized records that are still kept reach a child Agent,
  within the limits, and a revoked scope stays closed until it is opened again.
\<close>

section \<open>Valid states\<close>

lemma all_distinct_None:
  "all_distinct check key e seen vs = None \<longleftrightarrow> (\<forall>v\<in>set vs. check v = None) \<and> distinct (map key vs) \<and> set (map key vs) \<inter> set seen = {}"
  by (induction vs arbitrary: seen) (auto simp: valid_simps)

definition memory_ok :: "(string \<Rightarrow> string) \<Rightarrow> memory_state \<Rightarrow> bool" where
  "memory_ok digest st \<longleftrightarrow> validateStoreState digest (memory_json st) = None \<and> json_clean (memory_json st)"

lemma memory_of_json [simp]: "memory_of (memory_json st) = st"
  by (simp add: memory_of_def memory_json_def)

lemma validateStoreState_memory_of:
  assumes "validateStoreState digest v = None"
  shows "validateStoreState digest (memory_json (memory_of v)) = None"
proof -
  have "sorted_keys_differ [''schemaVersion'', ''records'', ''authorizations''] [''authorizations'', ''records'', ''schemaVersion''] = False"
    by code_simp
  then show ?thesis using assms by (simp add: validateStoreState_def valid_simps memory_json_def memory_of_def)
qed

lemma clean_items: "json_clean v \<Longrightarrow> x \<in> set (items v) \<Longrightarrow> json_clean x"
  by (cases v) auto

lemma clean_get: "json_clean v \<Longrightarrow> get v k \<noteq> JUndef \<Longrightarrow> json_clean (get v k)"
  by (cases v) (auto simp: get.simps dest!: map_of_SomeD split: option.splits)

lemma clean_memory_json:
  "json_clean (memory_json st) \<longleftrightarrow> (\<forall>m\<in>set (ms_records st). json_clean m) \<and> (\<forall>a\<in>set (ms_authorizations st). json_clean a)"
  by (auto simp: memory_json_def)

lemma clean_memory_of: "json_clean v \<Longrightarrow> json_clean (memory_json (memory_of v))"
  by (cases "get v ''records'' = JUndef"; cases "get v ''authorizations'' = JUndef")
    (auto simp: clean_memory_json memory_of_def intro: clean_items clean_get)

lemma memory_ok_records:
  assumes "memory_ok digest st" and "m \<in> set (ms_records st)"
  shows "validateMemoryRecord m = None" "get m ''contentDigest'' = JStr (digest (str_of (get m ''content'')))"
  using assms by (simp_all add: memory_ok_def validateStoreState_def valid_simps memory_json_def all_distinct_None stored_record_check_def)

section \<open>The interface of a store\<close>

locale child_memory_store =
  fixes load :: "'s \<Rightarrow> memory_state result" and save :: "memory_state \<Rightarrow> 's \<Rightarrow> 's result"
    and good :: "'s \<Rightarrow> bool" and digest :: "string \<Rightarrow> string"
  assumes load_ok: "good s \<Longrightarrow> load s = Inr st \<Longrightarrow> memory_ok digest st"
    and save_load: "json_clean (memory_json st) \<Longrightarrow> save st s = Inr s' \<Longrightarrow> good s' \<and> load s' = Inr st"
begin

text \<open>An operation that keeps the values of JSON leaves a store that loads again, with what the operation left.\<close>

lemma mutate_good:
  assumes "memory_mutate load save now op s = Inr (s', x)" and "good s"
    and "\<And>st st' x. json_clean (memory_json st) \<Longrightarrow> op st = Inr (st', x) \<Longrightarrow> json_clean (memory_json st')"
  obtains st st' where "load s = Inr st" "memory_ok digest st"
    "op (st\<lparr>ms_records := filter (not_expired now) (ms_records st)\<rparr>) = Inr (st', x)"
    "good s'" "load s' = Inr st'" "memory_ok digest st'"
proof -
  obtain st st' where st: "load s = Inr st" and op: "op (st\<lparr>ms_records := filter (not_expired now) (ms_records st)\<rparr>) = Inr (st', x)"
    and save: "save st' s = Inr s'"
    using assms(1) by (auto simp: memory_mutate_def rbind_Inr_conv)
  have ok: "memory_ok digest st" by (rule load_ok [OF assms(2) st])
  then have "json_clean (memory_json (st\<lparr>ms_records := filter (not_expired now) (ms_records st)\<rparr>))"
    by (simp add: memory_ok_def clean_memory_json)
  then have "json_clean (memory_json st')" using assms(3) op by blast
  note after = save_load [OF this save]
  show thesis using that [OF st ok op] after load_ok by blast
qed

end

definition good_memory_file :: "json_file \<Rightarrow> bool" where
  "good_memory_file f \<longleftrightarrow> (\<forall>v. f = JsonFile v \<longrightarrow> json_clean v)"

interpretation memory_file: child_memory_store "memory_file_load digest" "memory_file_save digest" good_memory_file digest
  for digest
proof
  show "memory_ok digest st" if "good_memory_file s" "memory_file_load digest s = Inr st" for s st
  proof (cases s)
    case NoFile
    have "validateStoreState digest (memory_json emptyState) = None"
      using validateStoreState_memory_of [of digest "memory_json emptyState"] 
      by (simp add: validateStoreState_def memory_json_def emptyState_def sorted_keys_differ_def memory_limits) code_simp
    then show ?thesis using that NoFile by (auto simp: memory_file_load_def memory_ok_def memory_json_def emptyState_def)
  next
    case (JsonFile v)
    then show ?thesis using that
      by (auto simp: memory_file_load_def guarded_Inr_conv memory_ok_def good_memory_file_def validateStoreState_memory_of clean_memory_of)
  qed (use that in \<open>simp add: memory_file_load_def\<close>)
  show "good_memory_file s' \<and> memory_file_load digest s' = Inr st"
    if "json_clean (memory_json st)" "memory_file_save digest st s = Inr s'" for st s s'
    using that by (auto simp: memory_file_save_def guarded_Inr_conv json_clone_clean good_memory_file_def memory_file_load_def)
qed

interpretation memory_cell: child_memory_store memory_cell_load "memory_cell_save digest" "memory_ok digest" digest
  for digest
  by unfold_locales (auto simp: memory_cell_load_def memory_cell_save_def guarded_Inr_conv memory_ok_def)

section \<open>Selection\<close>

lemma take_context_fst:
  assumes "take_context taken bytes ms = (taken', bytes')"
  shows "\<exists>ms'. set ms' \<subseteq> set ms \<and> taken' = taken @ map context_record_of ms'"
  using assms
proof (induction taken bytes ms rule: take_context.induct)
  case (1 taken bytes)
  then show ?case by (intro exI [of _ "[]"]) simp
next
  case (2 taken bytes m ms)
  show ?case
  proof (cases "maximum_context_records \<le> length taken \<or> maximum_context_bytes < bytes + utf8_size (str_of (get m ''content''))")
    case True
    then show ?thesis using 2 by (auto simp: Let_def)
  next
    case False
    then obtain ms' where "set ms' \<subseteq> set ms" "taken' = (taken @ [context_record_of m]) @ map context_record_of ms'"
      using 2 by (auto simp: Let_def)
    then show ?thesis by (intro exI [of _ "m # ms'"]) auto
  qed
qed

lemma selection_facts:
  assumes run: "memory_mutate (memory_file_load digest) (memory_file_save digest) now (selectContext taskId workspaceId childAgentId) f
      = Inr (f', s)" and good: "good_memory_file f" and st: "memory_file_load digest f = Inr st"
  shows "length (cs_records s) \<le> 4 \<and> sum_list (map (utf8_size \<circ> cx_content) (cs_records s)) \<le> 8 * 1024
    \<and> (\<forall>x\<in>set (cs_records s). \<exists>m\<in>set (ms_records st). x = context_record_of m \<and> now < date_ms (str_of (get m ''expiresAt''))
        \<and> get m ''childAgentId'' = JStr childAgentId \<and> cx_digest x = digest (cx_content x)
        \<and> (get m ''scope'' = JStr ''child_agent'' \<and> hasAuthorization (ms_authorizations st) ''child_agent'' JNull childAgentId
           \<or> get m ''scope'' = JStr ''workspace'' \<and> get m ''workspaceId'' = JStr workspaceId
             \<and> hasAuthorization (ms_authorizations st) ''workspace'' (JStr workspaceId) childAgentId))"
proof -
  let ?st = "st\<lparr>ms_records := filter (not_expired now) (ms_records st)\<rparr>"
  have clean: "json_clean (memory_json st'')" if "json_clean (memory_json st')" "selectContext taskId workspaceId childAgentId st' = Inr (st'', x)"
    for st' st'' x using that by (auto simp: selectContext_def guarded_Inr_conv Let_def split: prod.splits)
  obtain st' where ok: "memory_ok digest st" and select: "selectContext taskId workspaceId childAgentId ?st = Inr (st', s)"
    by (rule memory_file.mutate_good [OF run good], erule (1) clean) (use st in auto)
  let ?eligible = "eligible workspaceId childAgentId (ms_authorizations st)"
  obtain taken bytes where taken: "take_context [] 0 (sort_by newest_first (filter ?eligible (ms_records ?st))) = (taken, bytes)" by force
  then have s: "s = \<lparr>cs_schema_version = 1, cs_records = taken, cs_byte_length = NInt bytes\<rparr>"
    and valid: "validateMemoryContextSelection s = None"
    using select by (auto simp: selectContext_def guarded_Inr_conv Let_def)
  obtain ms where ms: "set ms \<subseteq> set (filter ?eligible (ms_records ?st))" "taken = map context_record_of ms"
    using take_context_fst [OF taken] by auto
  have "\<exists>m\<in>set (ms_records st). x = context_record_of m \<and> now < date_ms (str_of (get m ''expiresAt''))
        \<and> get m ''childAgentId'' = JStr childAgentId \<and> cx_digest x = digest (cx_content x)
        \<and> (get m ''scope'' = JStr ''child_agent'' \<and> hasAuthorization (ms_authorizations st) ''child_agent'' JNull childAgentId
           \<or> get m ''scope'' = JStr ''workspace'' \<and> get m ''workspaceId'' = JStr workspaceId
             \<and> hasAuthorization (ms_authorizations st) ''workspace'' (JStr workspaceId) childAgentId)"
    if x: "x \<in> set (cs_records s)" for x
  proof -
    obtain m where m: "m \<in> set (ms_records st)" "not_expired now m" "?eligible m" "x = context_record_of m"
      using x ms by (auto simp: s)
    have "cx_digest x = digest (cx_content x)"
      using memory_ok_records(2) [OF ok m(1)] by (simp add: m(4) context_record_of_def)
    then show ?thesis using m by (intro bexI [of _ m]) (auto simp: not_expired_def eligible_def split: if_splits)
  qed
  then show ?thesis
    using valid by (auto simp: validateMemoryContextSelection_def valid_simps s maximum_context_records_def maximum_context_bytes_def)
qed

text \<open>C11:
  A child Agent only sees the memory that the local user opened to it: every record of a selected context is a kept
  record of that child Agent, not expired, whose content has the digest it was stored with, and whose scope is
  authorized for the child Agent, in that workspace if it is a record of a workspace. A context has at most four
  records and eight KiB.\<close>

theorem selected_memory_authorized:
  assumes run: "memory_mutate (memory_file_load digest) (memory_file_save digest) now (selectContext taskId workspaceId childAgentId) f
      = Inr (f', s)" and good: "good_memory_file f" and st: "memory_file_load digest f = Inr st"
  shows "length (cs_records s) \<le> 4 \<and> sum_list (map (utf8_size \<circ> cx_content) (cs_records s)) \<le> 8 * 1024
    \<and> (\<forall>x\<in>set (cs_records s). \<exists>m\<in>set (ms_records st). x = context_record_of m \<and> now < date_ms (str_of (get m ''expiresAt''))
        \<and> get m ''childAgentId'' = JStr childAgentId \<and> cx_digest x = digest (cx_content x)
        \<and> (get m ''scope'' = JStr ''child_agent'' \<and> hasAuthorization (ms_authorizations st) ''child_agent'' JNull childAgentId
           \<or> get m ''scope'' = JStr ''workspace'' \<and> get m ''workspaceId'' = JStr workspaceId
             \<and> hasAuthorization (ms_authorizations st) ''workspace'' (JStr workspaceId) childAgentId))"
  using selection_facts [OF run good st] .

section \<open>Operations over time\<close>

lemma clean_new_record:
  assumes "validateMemoryRecord (new_record digest fresh now task h scope artifact content) = None"
  shows "json_clean (new_record digest fresh now task h scope artifact content)"
  using assms
  by (auto simp: validateMemoryRecord_def valid_simps new_record_def shared_fields_ok_def mem_safeId_def is_string_conv
      validateMemoryProvenance_def)

text \<open>
  One operation of the service on the file, at an instant; the flag of \<open>authorize\<close> excludes that the key \<open>key\<close> is
  authorized again.
\<close>

inductive memory_step :: "(string \<Rightarrow> string) \<Rightarrow> string \<Rightarrow> json_file \<Rightarrow> json_file \<Rightarrow> bool" for digest key where
  step_list: "memory_mutate (memory_file_load digest) (memory_file_save digest) now (memory_list collate now) f = Inr (f', x)
    \<Longrightarrow> memory_step digest key f f'"
| step_authorize: "memory_mutate (memory_file_load digest) (memory_file_save digest) now (setAuthorization collate now i) f = Inr (f', x)
    \<Longrightarrow> \<not> (ai_enabled i \<and> authorizationInputKey i = key) \<Longrightarrow> memory_step digest key f f'"
| step_save: "memory_mutate (memory_file_load digest) (memory_file_save digest) now
      (saveFromTask digest fresh now task h scope confirmed) f = Inr (f', y) \<Longrightarrow> memory_step digest key f f'"
| step_delete: "memory_mutate (memory_file_load digest) (memory_file_save digest) now (memory_delete memoryId) f = Inr (f', b)
    \<Longrightarrow> memory_step digest key f f'"
| step_select: "memory_mutate (memory_file_load digest) (memory_file_save digest) now (selectContext taskId workspaceId childAgentId) f
      = Inr (f', s) \<Longrightarrow> memory_step digest key f f'"
| step_export: "memory_mutate (memory_file_load digest) (memory_file_save digest) now (memory_export now) f = Inr (f', e)
    \<Longrightarrow> memory_step digest key f f'"

text \<open>What an operation may do to the state: keep it clean, and authorize no new key but the given one.\<close>

definition op_clean :: "(memory_state \<Rightarrow> (memory_state \<times> 'a) result) \<Rightarrow> bool" where
  "op_clean op \<longleftrightarrow> (\<forall>st st' x. json_clean (memory_json st) \<longrightarrow> op st = Inr (st', x) \<longrightarrow> json_clean (memory_json st'))"

definition op_keeps_closed :: "string \<Rightarrow> (memory_state \<Rightarrow> (memory_state \<times> 'a) result) \<Rightarrow> bool" where
  "op_keeps_closed key op \<longleftrightarrow> (\<forall>st st' x. key \<notin> authorizationKey ` set (ms_authorizations st) \<longrightarrow> op st = Inr (st', x)
     \<longrightarrow> key \<notin> authorizationKey ` set (ms_authorizations st'))"

lemma authorizationKey_json [simp]: "requireAuthorizationInput i = None \<Longrightarrow> authorizationKey (authorization_json now i) = authorizationInputKey i"
  by (auto simp: authorizationKey_def authorization_json_def authorizationInputKey_def requireAuthorizationInput_def valid_simps
      split: if_splits option.splits)

lemmas memory_ops = memory_list_def setAuthorization_def saveFromTask_def memory_delete_def selectContext_def memory_export_def

lemma ops_clean:
  "op_clean (memory_list collate now)" "op_clean (setAuthorization collate now i)"
  "op_clean (saveFromTask digest fresh now task h scope confirmed)" "op_clean (memory_delete memoryId)"
  "op_clean (selectContext taskId workspaceId childAgentId)" "op_clean (memory_export now)"
  by (auto simp: op_clean_def memory_ops guarded_Inr_conv rbind_Inr_conv clean_memory_json Let_def authorization_json_def
      clean_new_record null_json_def split: option.splits prod.splits if_splits)

lemma ops_keep_closed:
  "op_keeps_closed key (memory_list collate now)"
  "\<not> (ai_enabled i \<and> authorizationInputKey i = key) \<Longrightarrow> op_keeps_closed key (setAuthorization collate now i)"
  "op_keeps_closed key (saveFromTask digest fresh now task h scope confirmed)" "op_keeps_closed key (memory_delete memoryId)"
  "op_keeps_closed key (selectContext taskId workspaceId childAgentId)" "op_keeps_closed key (memory_export now)"
  by (auto simp: op_keeps_closed_def memory_ops guarded_Inr_conv rbind_Inr_conv Let_def
      split: option.splits prod.splits if_splits)

definition closed :: "(string \<Rightarrow> string) \<Rightarrow> string \<Rightarrow> json_file \<Rightarrow> bool" where
  "closed digest key f \<longleftrightarrow> good_memory_file f
     \<and> (\<forall>st. memory_file_load digest f = Inr st \<longrightarrow> key \<notin> authorizationKey ` set (ms_authorizations st))"

lemma mutate_closed:
  assumes run: "memory_mutate (memory_file_load digest) (memory_file_save digest) now op f = Inr (f', x)"
    and "op_clean op" and "op_keeps_closed key op" and "closed digest key f"
  shows "closed digest key f'"
proof -
  have good: "good_memory_file f" using assms(4) by (simp add: closed_def)
  show ?thesis
  proof (rule memory_file.mutate_good [OF run good])
    show "json_clean (memory_json st')" if "json_clean (memory_json st)" "op st = Inr (st', x)" for st st' x
      using that assms(2) unfolding op_clean_def by blast
    show ?thesis if "memory_file_load digest f = Inr st" "op (st\<lparr>ms_records := filter (not_expired now) (ms_records st)\<rparr>) = Inr (st', x)"
      "good_memory_file f'" "memory_file_load digest f' = Inr st'" for st st'
    proof -
      have "key \<notin> authorizationKey ` set (ms_authorizations (st\<lparr>ms_records := filter (not_expired now) (ms_records st)\<rparr>))"
        using assms(4) that(1) by (simp add: closed_def)
      then have "key \<notin> authorizationKey ` set (ms_authorizations st')" using assms(3) that(2) unfolding op_keeps_closed_def by blast
      then show ?thesis using that(3,4) by (simp add: closed_def)
    qed
  qed
qed

lemma step_closed:
  assumes "memory_step digest key f f'" and "closed digest key f"
  shows "closed digest key f'"
  using assms(1)
proof cases
  case (step_list now collate x)
  from mutate_closed [OF this ops_clean(1) ops_keep_closed(1) assms(2)] show ?thesis .
next
  case (step_authorize now collate i x)
  from mutate_closed [OF this(1) ops_clean(2) ops_keep_closed(2) [OF this(2)] assms(2)] show ?thesis .
next
  case (step_save now fresh task h scope confirmed y)
  from mutate_closed [OF this ops_clean(3) ops_keep_closed(3) assms(2)] show ?thesis .
next
  case (step_delete now memoryId b)
  from mutate_closed [OF this ops_clean(4) ops_keep_closed(4) assms(2)] show ?thesis .
next
  case (step_select now taskId workspaceId childAgentId s)
  from mutate_closed [OF this ops_clean(5) ops_keep_closed(5) assms(2)] show ?thesis .
next
  case (step_export now e)
  from mutate_closed [OF this ops_clean(6) ops_keep_closed(6) assms(2)] show ?thesis .
qed

lemma authorization_key_of:
  assumes "hasAuthorization auths scope w childAgentId" and "w = JNull \<or> is_string w"
  shows "scope @ '':'' @ (if w = JNull then ''none'' else str_of w) @ '':'' @ childAgentId \<in> authorizationKey ` set auths"
proof -
  obtain a where a: "a \<in> set auths" "get a ''scope'' = JStr scope" "get a ''workspaceId'' = w" "get a ''childAgentId'' = JStr childAgentId"
    using assms(1) by (auto simp: hasAuthorization_def list_ex_iff)
  then have "authorizationKey a = scope @ '':'' @ (if w = JNull then ''none'' else str_of w) @ '':'' @ childAgentId"
    using assms(2) by (auto simp: authorizationKey_def is_string_conv)
  then show ?thesis using a(1) by (metis imageI)
qed

text \<open>
  A revocation holds: after the local user disabled a scope of memory for a child Agent, no context that is selected
  for it later contains a record of that scope, whatever else was done with the memory meanwhile, until the same
  scope is enabled again.\<close>

theorem revoked_scope_stays_closed:
  assumes revoke: "memory_mutate (memory_file_load digest) (memory_file_save digest) now (setAuthorization collate now i) f = Inr (f1, snap)"
    and "good_memory_file f" and "\<not> ai_enabled i"
    and run: "(memory_step digest (authorizationInputKey i))\<^sup>*\<^sup>* f1 f2"
    and select: "memory_mutate (memory_file_load digest) (memory_file_save digest) later
      (selectContext taskId workspaceId (ai_child_agent_id i)) f2 = Inr (f3, s)"
    and "ai_scope i = ''workspace'' \<Longrightarrow> ai_workspace_id i = Some workspaceId"
  shows "ai_scope i \<notin> set (map cx_scope (cs_records s))"
proof
  let ?key = "authorizationInputKey i"
  have "closed digest ?key f1"
  proof (rule memory_file.mutate_good [OF revoke assms(2)])
    show "json_clean (memory_json st')" if "json_clean (memory_json st)" "setAuthorization collate now i st = Inr (st', x)" for st st' x
      using that ops_clean(2) unfolding op_clean_def by blast
    show ?thesis if "setAuthorization collate now i (st\<lparr>ms_records := filter (not_expired now) (ms_records st)\<rparr>) = Inr (st', snap)"
      "good_memory_file f1" "memory_file_load digest f1 = Inr st'" for st st'
    proof -
      have "?key \<notin> authorizationKey ` set (ms_authorizations st')"
        using that(1) assms(3) by (auto simp: setAuthorization_def guarded_Inr_conv Let_def)
      then show ?thesis using that(2,3) by (simp add: closed_def)
    qed
  qed
  with run have "closed digest ?key f2" by induction (auto intro: step_closed)
  then obtain st where good: "good_memory_file f2" and st: "memory_file_load digest f2 = Inr st"
    and shut: "?key \<notin> authorizationKey ` set (ms_authorizations st)"
    using select by (auto simp: closed_def memory_mutate_def rbind_Inr_conv)
  have input: "ai_scope i = ''workspace'' \<or> ai_scope i = ''child_agent''"
    using revoke by (auto simp: memory_mutate_def rbind_Inr_conv setAuthorization_def guarded_Inr_conv requireAuthorizationInput_def valid_simps)
  assume "ai_scope i \<in> set (map cx_scope (cs_records s))"
  then obtain x where x: "x \<in> set (cs_records s)" "cx_scope x = ai_scope i" by auto
  then obtain m where m: "x = context_record_of m"
    "get m ''scope'' = JStr ''child_agent'' \<and> hasAuthorization (ms_authorizations st) ''child_agent'' JNull (ai_child_agent_id i)
       \<or> get m ''scope'' = JStr ''workspace'' \<and> hasAuthorization (ms_authorizations st) ''workspace'' (JStr workspaceId) (ai_child_agent_id i)"
    using selection_facts [OF select good st] by blast
  then have "?key \<in> authorizationKey ` set (ms_authorizations st)"
    using x(2) input assms(6) authorization_key_of [of "ms_authorizations st" "''child_agent''" JNull "ai_child_agent_id i"]
      authorization_key_of [of "ms_authorizations st" "''workspace''" "JStr workspaceId" "ai_child_agent_id i"]
    by (auto simp: context_record_of_def authorizationInputKey_def)
  then show False using shut by simp
qed

section \<open>A sample\<close>

definition const_digest :: "string \<Rightarrow> string" where
  "const_digest s = ''sha256:'' @ replicate 64 CHR ''0''"

definition sample_memory :: json where
  "sample_memory = JObj
     [(''schemaVersion'', jint 1), (''memoryId'', JStr ''memory-1''), (''scope'', JStr ''child_agent''),
      (''workspaceId'', JStr ''workspace-1''), (''childAgentId'', JStr ''codex''), (''sourceTaskId'', JStr ''task-1''),
      (''sourcePeerId'', JStr ''peer-1''), (''content'', JStr ''remember''), (''contentDigest'', JStr (const_digest [])),
      (''createdAt'', JStr ''2026-01-01T00:00:00.000Z''), (''expiresAt'', JStr ''2026-04-01T00:00:00.000Z''),
      (''provenance'', JObj [(''kind'', JStr ''task_artifact_user_saved''), (''actor'', JStr ''local_user''),
        (''sourceArtifactId'', JStr ''artifact-1''), (''authorizedAt'', JStr ''2026-01-01T00:00:00.000Z'')])]"

definition sample_authorization :: authorization_input where
  "sample_authorization = \<lparr>ai_scope = ''child_agent'', ai_workspace_id = None, ai_child_agent_id = ''codex'', ai_enabled = True\<rparr>"

definition sample_memory_file :: json_file where
  "sample_memory_file = JsonFile (memory_json \<lparr>ms_records = [sample_memory], ms_authorizations = [authorization_json 0 sample_authorization]\<rparr>)"

abbreviation sample_selection :: "json_file \<Rightarrow> (json_file \<times> context_selection) result" where
  "sample_selection \<equiv> memory_mutate (memory_file_load const_digest) (memory_file_save const_digest) 0
     (selectContext ''task-2'' ''workspace-2'' ''codex'')"

lemma sample_memory_good: "good_memory_file sample_memory_file"
  by (simp add: good_memory_file_def sample_memory_file_def memory_json_def sample_memory_def authorization_json_def sample_authorization_def)

lemma sample_selected:
  "(case sample_selection sample_memory_file of Inl e \<Rightarrow> [] | Inr (f, s) \<Rightarrow> map cx_memory_id (cs_records s)) = [''memory-1'']"
  by code_simp

theorem selected_memory_authorized_witness:
  "\<exists>f s. sample_selection sample_memory_file = Inr (f, s) \<and> cs_records s \<noteq> []
    \<and> (\<forall>x\<in>set (cs_records s). cx_digest x = const_digest (cx_content x))"
proof -
  obtain f s where run: "sample_selection sample_memory_file = Inr (f, s)" and some: "cs_records s \<noteq> []"
    using sample_selected by (auto split: sum.splits)
  obtain st where "memory_file_load const_digest sample_memory_file = Inr st"
    using run by (auto simp: memory_mutate_def rbind_Inr_conv)
  from selected_memory_authorized [OF run sample_memory_good this] show ?thesis using run some by blast
qed

text \<open>The user revokes the authorization, and the same query selects nothing of its scope.\<close>

definition sample_revocation :: "(json_file \<times> json) result" where
  "sample_revocation = memory_mutate (memory_file_load const_digest) (memory_file_save const_digest) 0
     (setAuthorization str_le 0 (sample_authorization\<lparr>ai_enabled := False\<rparr>)) sample_memory_file"

lemma sample_revoked:
  "(case sample_revocation of Inl e \<Rightarrow> False
    | Inr (f, x) \<Rightarrow> (case sample_selection f of Inl e \<Rightarrow> False | Inr (f', s) \<Rightarrow> True))"
  by code_simp

theorem revoked_scope_stays_closed_witness:
  "\<exists>f x f' s. sample_revocation = Inr (f, x) \<and> sample_selection f = Inr (f', s)
    \<and> ''child_agent'' \<notin> set (map cx_scope (cs_records s))"
proof -
  obtain f x f' s where revoke: "sample_revocation = Inr (f, x)" and run: "sample_selection f = Inr (f', s)"
    using sample_revoked by (auto split: sum.splits)
  have "ai_scope (sample_authorization\<lparr>ai_enabled := False\<rparr>) \<notin> set (map cx_scope (cs_records s))"
  proof (rule revoked_scope_stays_closed [OF revoke [unfolded sample_revocation_def] sample_memory_good])
    show "memory_mutate (memory_file_load const_digest) (memory_file_save const_digest) 0
        (selectContext ''task-2'' ''workspace-2'' (ai_child_agent_id (sample_authorization\<lparr>ai_enabled := False\<rparr>))) f = Inr (f', s)"
      using run by (simp add: sample_authorization_def)
  qed (simp_all add: sample_authorization_def)
  then show ?thesis using revoke run by (auto simp: sample_authorization_def)
qed

section \<open>Bounded contents\<close>

lemma bounded_prefix_conv:
  "\<exists>n. bounded_prefix limit acc s = acc @ take n s \<and> (utf8_size acc \<le> limit \<longrightarrow> utf8_size (acc @ take n s) \<le> limit)
    \<and> (n < length s \<longrightarrow> limit < utf8_size (acc @ take (Suc n) s))"
proof (induction limit acc s rule: bounded_prefix.induct)
  case (1 limit acc)
  then show ?case by (intro exI [of _ 0]) simp
next
  case (2 limit acc c cs)
  show ?case
  proof (cases "limit < utf8_size (acc @ [c])")
    case True
    then show ?thesis by (intro exI [of _ 0]) simp
  next
    case False
    then obtain n where "bounded_prefix limit (acc @ [c]) cs = (acc @ [c]) @ take n cs"
      "utf8_size ((acc @ [c]) @ take n cs) \<le> limit" "n < length cs \<longrightarrow> limit < utf8_size ((acc @ [c]) @ take (Suc n) cs)"
      using 2 by auto
    then show ?thesis using False by (intro exI [of _ "Suc n"]) simp
  qed
qed

text \<open>
  A content that is too long is cut to the longest prefix that leaves room for the mark; the result never exceeds
  the limit of a record.
\<close>

lemma bounded_content:
  assumes "boundedContent s = Inr r"
  shows "utf8_size r \<le> maximum_content_bytes
    \<and> (r = trim s \<or> (\<exists>n. r = take n (trim s) @ truncation_mark
        \<and> (n < length (trim s) \<longrightarrow> maximum_content_bytes < utf8_size (take (Suc n) (trim s) @ truncation_mark))))"
proof -
  let ?limit = "maximum_content_bytes - utf8_size truncation_mark"
  have mark: "utf8_size truncation_mark = 41" by code_simp
  obtain n where n: "bounded_prefix ?limit [] (trim s) = take n (trim s)" "utf8_size (take n (trim s)) \<le> ?limit"
    "n < length (trim s) \<longrightarrow> ?limit < utf8_size (take (Suc n) (trim s))"
  proof -
    have "utf8_size [] \<le> ?limit" unfolding mark by (simp add: maximum_content_bytes_def utf8_size_def)
    then show thesis using bounded_prefix_conv [of ?limit "[]" "trim s"] that by auto
  qed
  then show ?thesis using assms by (auto simp: boundedContent_def Let_def utf8_size_append split: if_splits intro!: exI [of _ n])
qed

end
