(* ===== verification/Workspace_Store.thy ===== *)
theory Workspace_Store
  imports Child_Input
begin

text \<open>
  The store of the collaboration Workspaces (\<open>lifecycle-sidecar/runtime/workspaces/store.ts\<close>, class
  \<open>FileCollaborationWorkspaceStore\<close>). The directory of the store is the record \<open>ws_disk\<close>: the index file, the
  content of every published revision, the unpublished revision of a Workspace and the snapshots; a Workspace is
  the parsed object of the index. An operation answers with the list of the changes it makes on the disk, in their
  order, so that a crash between two of them is a prefix of the list. A file is its bytes; the digest, the
  modification time, the clock, the generated identifier and the order of \<open>localeCompare\<close> are arguments.
\<close>

section \<open>Paths\<close>

definition ws_error :: "string \<Rightarrow> string \<Rightarrow> error" where
  "ws_error code message = WorkspaceStoreError code message"

definition ws_requireSafeId :: "json \<Rightarrow> string \<Rightarrow> error option" where
  "ws_requireSafeId v label = throw_if (\<not> is_string v \<or> \<not> id_pattern 127 (str_of v))
     (ws_error ''WORKSPACE_ID_INVALID'' (label @ '' is invalid.''))"

text \<open>\<open>isWindowsSafeStorageSegment\<close>; \<open>split(".", 1)[0]\<close> is the part before the first dot.\<close>

definition windows_reserved :: "string list" where
  "windows_reserved = [''CON'', ''PRN'', ''AUX'', ''NUL'']
     @ map (\<lambda>d. ''COM'' @ [d]) ''123456789'' @ map (\<lambda>d. ''LPT'' @ [d]) ''123456789''"

definition upper_char :: "char \<Rightarrow> char" where
  "upper_char c = (if is_lower c then char_of (cu c - 32) else c)"

definition isWindowsSafeStorageSegment :: "string \<Rightarrow> bool" where
  "isWindowsSafeStorageSegment s \<longleftrightarrow>
     \<not> (list_ex (\<lambda>c. c \<in> set ''<>:\"/|?*'' \<or> c = CHR 0x5C \<or> cu c \<le> 31) s
        \<or> (s \<noteq> [] \<and> (last s = CHR '' '' \<or> last s = CHR ''.'')))
     \<and> map upper_char (hd (split_on (CHR ''.'') s)) \<notin> set windows_reserved"

text \<open>\<open>b64\<close> is the base64url encoding of the platform.\<close>

definition storageSegment :: "(string \<Rightarrow> string) \<Rightarrow> local_platform \<Rightarrow> string \<Rightarrow> string" where
  "storageSegment b64 platform s =
     (if platform \<noteq> Windows \<or> isWindowsSafeStorageSegment s then s else CHR ''~'' # b64 s)"

text \<open>\<open>path.relative\<close> on the segments of two absolute paths.\<close>

fun relative_segments :: "string list \<Rightarrow> string list \<Rightarrow> string list" where
  "relative_segments [] ps = ps"
| "relative_segments (b # bs) [] = map (\<lambda>_. ''..'') (b # bs)"
| "relative_segments (b # bs) (p # ps) =
     (if b = p then relative_segments bs ps else map (\<lambda>_. ''..'') (b # bs) @ p # ps)"

definition path_segments :: "string \<Rightarrow> string list" where
  "path_segments s = resolve_segments [] (split_on (CHR ''/'') s)"

definition resolve_path :: "string \<Rightarrow> string" where
  "resolve_path s = CHR ''/'' # join_with ''/'' (path_segments s)"

definition scopedPath :: "string \<Rightarrow> string list \<Rightarrow> string result" where
  "scopedPath base segments =
     (let path = base @ CHR ''/'' # join_with ''/'' segments;
          child = join_with ''/'' (relative_segments (path_segments base) (path_segments path)) in
      if child = [] \<or> starts_with ''..'' child
      then Inl (ws_error ''WORKSPACE_PATH_ESCAPE'' ''Workspace path escapes its controlled root.'')
      else Inr (resolve_path path))"

definition workspaceRoot :: "(string \<Rightarrow> string) \<Rightarrow> local_platform \<Rightarrow> string \<Rightarrow> string \<Rightarrow> string result" where
  "workspaceRoot b64 platform workspacesRoot workspaceId =
     guarded (ws_requireSafeId (JStr workspaceId) ''workspaceId'')
       (scopedPath workspacesRoot [storageSegment b64 platform workspaceId])"

definition revisionContentPath ::
  "(string \<Rightarrow> string) \<Rightarrow> local_platform \<Rightarrow> string \<Rightarrow> string \<Rightarrow> int \<Rightarrow> string result" where
  "revisionContentPath b64 platform workspacesRoot workspaceId revision =
     (if max_safe_integer < \<bar>revision\<bar> \<or> revision \<le> 0
      then Inl (ws_error ''WORKSPACE_REVISION_INVALID'' ''Workspace revision is invalid.'')
      else rbind (workspaceRoot b64 platform workspacesRoot workspaceId) (\<lambda>base.
        scopedPath base [''revisions'', string_of_int revision, ''content'']))"

definition snapshotPath :: "(string \<Rightarrow> string) \<Rightarrow> local_platform \<Rightarrow> string \<Rightarrow> string \<Rightarrow> string result" where
  "snapshotPath b64 platform snapshotsRoot snapshotId =
     guarded (ws_requireSafeId (JStr snapshotId) ''snapshotId'')
       (scopedPath snapshotsRoot [storageSegment b64 platform snapshotId])"

section \<open>Trees\<close>

text \<open>\<open>relative(root, path).split("\").join("/")\<close>\<close>

definition unify_slashes :: "string \<Rightarrow> string" where
  "unify_slashes = map (\<lambda>c. if c = CHR 0x5C then CHR ''/'' else c)"

record scan_state =
  sn_entries :: "json list"
  sn_bytes :: int
  sn_visited :: int

definition manifest_entry :: "(string \<Rightarrow> string) \<Rightarrow> (string \<Rightarrow> int) \<Rightarrow> string \<Rightarrow> string \<Rightarrow> json" where
  "manifest_entry sha stamp path data = JObj
     [(''relativePath'', JStr path), (''byteLength'', jint (int (length data))), (''sha256'', JStr (''sha256:'' @ sha data)),
      (''updatedAt'', JStr (to_iso (stamp path)))]"

definition quota_error :: "string \<Rightarrow> error" where
  "quota_error what = ws_error ''WORKSPACE_QUOTA_EXCEEDED'' (''Workspace '' @ what @ '' quota is exceeded.'')"

definition symlink_error :: error where
  "symlink_error = ws_error ''WORKSPACE_SYMLINK_FORBIDDEN'' ''Workspace cannot contain symbolic links.''"

definition file_type_error :: error where
  "file_type_error = ws_error ''WORKSPACE_FILE_TYPE_FORBIDDEN'' ''Workspace contains an unsupported file type.''"

text \<open>\<open>visit\<close> of \<open>scanWorkspaceTree\<close>, with the path of the directory and its entries.\<close>

fun scan_dir ::
  "(string \<Rightarrow> string) \<Rightarrow> (string \<Rightarrow> int) \<Rightarrow> workspace_quota \<Rightarrow> string \<Rightarrow> ws_entry list \<Rightarrow> scan_state \<Rightarrow> scan_state result" where
  "scan_dir sha stamp q dir [] st = Inr st"
| "scan_dir sha stamp q dir (e # es) st =
     (if max_manifest_entries < sn_visited st + 1 then Inl (quota_error ''entry'')
      else (let st1 = st\<lparr>sn_visited := sn_visited st + 1\<rparr>; path = unify_slashes (dir @ entry_name e) in
        case validateWorkspaceRelativePath (JStr path) of
          Some x \<Rightarrow> Inl x
        | None \<Rightarrow> (case e of
            LinkEntry n \<Rightarrow> Inl symlink_error
          | OtherEntry n \<Rightarrow> Inl file_type_error
          | DirEntry n ds \<Rightarrow> (case scan_dir sha stamp q (dir @ n @ ''/'') ds st1 of
                Inl x \<Rightarrow> Inl x
              | Inr st2 \<Rightarrow> scan_dir sha stamp q dir es st2)
          | FileEntry n data \<Rightarrow>
              if max_files q < int (length (sn_entries st1)) + 1 then Inl (quota_error ''file'')
              else if max_bytes q < sn_bytes st1 + int (length data) then Inl (quota_error ''byte'')
              else scan_dir sha stamp q dir es
                (st1\<lparr>sn_entries := sn_entries st1 @ [manifest_entry sha stamp path data],
                     sn_bytes := sn_bytes st1 + int (length data)\<rparr>))))"

definition scan_start :: scan_state where
  "scan_start = \<lparr>sn_entries = [], sn_bytes = 0, sn_visited = 0\<rparr>"

definition entry_path :: "json \<Rightarrow> string" where
  "entry_path e = str_of (get e ''relativePath'')"

definition manifest_json :: "json list \<Rightarrow> int \<Rightarrow> json" where
  "manifest_json es bytes = JObj [(''entries'', JArr es), (''totalBytes'', jint bytes), (''totalFiles'', jint (int (length es)))]"

definition scanWorkspaceTree ::
  "(string \<Rightarrow> string \<Rightarrow> bool) \<Rightarrow> (string \<Rightarrow> string) \<Rightarrow> (string \<Rightarrow> int) \<Rightarrow> workspace_quota \<Rightarrow> ws_entry list \<Rightarrow> json result" where
  "scanWorkspaceTree collate sha stamp q es = rbind (scan_dir sha stamp q [] es scan_start) (\<lambda>st.
     Inr (manifest_json (sort_by (\<lambda>l r. collate (entry_path l) (entry_path r)) (sn_entries st)) (sn_bytes st)))"

fun copyTreeNoSymlinks :: "ws_entry list \<Rightarrow> ws_entry list result" where
  "copyTreeNoSymlinks [] = Inr []"
| "copyTreeNoSymlinks (e # es) = (case e of
       LinkEntry n \<Rightarrow> Inl symlink_error
     | OtherEntry n \<Rightarrow> Inl file_type_error
     | FileEntry n data \<Rightarrow> (case copyTreeNoSymlinks es of Inl x \<Rightarrow> Inl x | Inr es' \<Rightarrow> Inr (FileEntry n data # es'))
     | DirEntry n ds \<Rightarrow> (case copyTreeNoSymlinks ds of
           Inl x \<Rightarrow> Inl x
         | Inr ds' \<Rightarrow> (case copyTreeNoSymlinks es of Inl x \<Rightarrow> Inl x | Inr es' \<Rightarrow> Inr (DirEntry n ds' # es'))))"

definition same_entry :: "json \<Rightarrow> json \<Rightarrow> bool" where
  "same_entry l r \<longleftrightarrow> get r ''relativePath'' = get l ''relativePath'' \<and> get r ''byteLength'' = get l ''byteLength''
     \<and> get r ''sha256'' = get l ''sha256''"

definition sameManifestContent :: "json \<Rightarrow> json \<Rightarrow> bool" where
  "sameManifestContent l r \<longleftrightarrow> get l ''totalBytes'' = get r ''totalBytes'' \<and> get l ''totalFiles'' = get r ''totalFiles''
     \<and> length (items (get l ''entries'')) = length (items (get r ''entries''))
     \<and> list_all2 same_entry (items (get l ''entries'')) (items (get r ''entries''))"

section \<open>The disk\<close>

record ws_disk =
  dk_index :: json_file
  dk_revisions :: "string \<times> int \<Rightarrow> ws_entry list option"
  dk_partial :: "string \<Rightarrow> ws_entry list option"
  dk_snapshots :: "string \<Rightarrow> ws_entry list option"

datatype disk_write =
    PutIndex json
  | MakeRevision string int
  | StartRevision string "ws_entry list"
  | PublishRevision string int
  | DropPartial string
  | DropRevision string int
  | TrimRevisions string int
  | DropWorkspace string
  | PutSnapshot string "ws_entry list"
  | DropSnapshot string
  | DropSnapshots

text \<open>A \<open>PublishRevision\<close> renames the unpublished revision; \<open>TrimRevisions\<close> is \<open>removeUncommittedRevisions\<close>.\<close>

fun disk_apply :: "disk_write \<Rightarrow> ws_disk \<Rightarrow> ws_disk" where
  "disk_apply (PutIndex v) d = d\<lparr>dk_index := JsonFile v\<rparr>"
| "disk_apply (MakeRevision w n) d = d\<lparr>dk_revisions := (dk_revisions d)((w, n) := Some
     (case dk_revisions d (w, n) of None \<Rightarrow> [] | Some es \<Rightarrow> es))\<rparr>"
| "disk_apply (StartRevision w es) d = d\<lparr>dk_partial := (dk_partial d)(w := Some es)\<rparr>"
| "disk_apply (PublishRevision w n) d =
     d\<lparr>dk_revisions := (dk_revisions d)((w, n) := dk_partial d w), dk_partial := (dk_partial d)(w := None)\<rparr>"
| "disk_apply (DropPartial w) d = d\<lparr>dk_partial := (dk_partial d)(w := None)\<rparr>"
| "disk_apply (DropRevision w n) d = d\<lparr>dk_revisions := (dk_revisions d)((w, n) := None)\<rparr>"
| "disk_apply (TrimRevisions w n) d =
     d\<lparr>dk_revisions := (\<lambda>(w', m). if w' = w \<and> n < m then None else dk_revisions d (w', m)),
       dk_partial := (dk_partial d)(w := None)\<rparr>"
| "disk_apply (DropWorkspace w) d =
     d\<lparr>dk_revisions := (\<lambda>(w', m). if w' = w then None else dk_revisions d (w', m)),
       dk_partial := (dk_partial d)(w := None)\<rparr>"
| "disk_apply (PutSnapshot s es) d = d\<lparr>dk_snapshots := (dk_snapshots d)(s := Some es)\<rparr>"
| "disk_apply (DropSnapshot s) d = d\<lparr>dk_snapshots := (dk_snapshots d)(s := None)\<rparr>"
| "disk_apply DropSnapshots d = d\<lparr>dk_snapshots := (\<lambda>_. None)\<rparr>"

definition disk_after :: "disk_write list \<Rightarrow> ws_disk \<Rightarrow> ws_disk" where
  "disk_after ws d = fold disk_apply ws d"

section \<open>The index\<close>

definition ws_id :: "json \<Rightarrow> json" where
  "ws_id w = get w ''workspaceId''"

fun unique_workspaces :: "json list \<Rightarrow> json list \<Rightarrow> error option" where
  "unique_workspaces seen [] = None"
| "unique_workspaces seen (w # ws) = first_err
     [validateCollaborationWorkspace w,
      throw_if (ws_id w \<in> set seen) (ws_error ''WORKSPACE_INDEX_INVALID'' ''Workspace IDs must be unique.''),
      unique_workspaces (ws_id w # seen) ws]"

definition validateIndex :: "json \<Rightarrow> error option" where
  "validateIndex v = first_err
     [throw_if (\<not> is_record v \<or> get v ''schemaVersion'' \<noteq> jint 1 \<or> \<not> is_array (get v ''workspaces'')
          \<or> list_ex (\<lambda>k. k \<notin> {''schemaVersion'', ''workspaces''}) (keys_of v))
        (ws_error ''WORKSPACE_INDEX_INVALID'' ''Workspace index is invalid.''),
      unique_workspaces [] (items (get v ''workspaces''))]"

definition index_json :: "json list \<Rightarrow> json" where
  "index_json ws = JObj [(''schemaVersion'', jint 1), (''workspaces'', JArr ws)]"

definition loadIndex :: "ws_disk \<Rightarrow> json list result" where
  "loadIndex d = (case dk_index d of
       NoFile \<Rightarrow> Inr []
     | NotJson \<Rightarrow> Inl (PlainError ''JSON.parse'')
     | JsonFile v \<Rightarrow> guarded (validateIndex v) (Inr (items (get v ''workspaces''))))"

text \<open>\<open>saveIndex\<close>: the change of the disk, or the error of the validation.\<close>

definition saveIndex :: "json list \<Rightarrow> disk_write result" where
  "saveIndex ws = guarded (validateIndex (index_json ws)) (Inr (PutIndex (index_json ws)))"

definition isExpired :: "json \<Rightarrow> int \<Rightarrow> bool" where
  "isExpired w now \<longleftrightarrow> get (get w ''retentionPolicy'') ''kind'' = JStr ''ttl''
     \<and> date_ms (str_of (get (get w ''retentionPolicy'') ''expiresAt'')) \<le> now"

definition ws_revision :: "json \<Rightarrow> int" where
  "ws_revision w = int_of (get w ''revision'')"

definition ws_name :: "json \<Rightarrow> string" where
  "ws_name w = str_of (ws_id w)"

definition ws_quota :: "json \<Rightarrow> workspace_quota" where
  "ws_quota w = quota_of (get w ''quota'')"

section \<open>Operations\<close>

record ws_env =
  we_b64 :: "string \<Rightarrow> string"
  we_platform :: local_platform
  we_workspaces :: string
  we_snapshots :: string
  we_collate :: "string \<Rightarrow> string \<Rightarrow> bool"
  we_sha :: "string \<Rightarrow> string"
  we_stamp :: "string \<Rightarrow> int"

text \<open>The memory of the store: \<open>activeSnapshots\<close> keeps the snapshot object under its identifier.\<close>

record ws_memory =
  wm_initialized :: bool
  wm_active :: "(string \<times> json) list"

type_synonym 'a ws_answer = "disk_write list \<times> (ws_memory \<times> 'a) result"

definition fresh_memory :: ws_memory where
  "fresh_memory = \<lparr>wm_initialized = False, wm_active = []\<rparr>"

definition thrown :: "error \<Rightarrow> 'a ws_answer" where
  "thrown e = ([], Inl e)"

text \<open>An operation that goes on after a check or a computation that may throw.\<close>

definition on_ok :: "'b result \<Rightarrow> ('b \<Rightarrow> 'a ws_answer) \<Rightarrow> 'a ws_answer" where
  "on_ok x f = (case x of Inl e \<Rightarrow> thrown e | Inr y \<Rightarrow> f y)"

definition require :: "error option \<Rightarrow> 'a ws_answer \<Rightarrow> 'a ws_answer" where
  "require c m = (case c of None \<Rightarrow> m | Some e \<Rightarrow> thrown e)"

definition requireInitialized :: "ws_memory \<Rightarrow> error option" where
  "requireInitialized m = throw_if (\<not> wm_initialized m)
     (ws_error ''WORKSPACE_STORE_NOT_INITIALIZED'' ''Workspace Store is not initialized.'')"

definition root_check :: "ws_env \<Rightarrow> string \<Rightarrow> error option" where
  "root_check env w = (case workspaceRoot (we_b64 env) (we_platform env) (we_workspaces env) w of
       Inl e \<Rightarrow> Some e | Inr p \<Rightarrow> None)"

definition content_check :: "ws_env \<Rightarrow> string \<Rightarrow> int \<Rightarrow> error option" where
  "content_check env w n = (case revisionContentPath (we_b64 env) (we_platform env) (we_workspaces env) w n of
       Inl e \<Rightarrow> Some e | Inr p \<Rightarrow> None)"

definition not_found_error :: error where
  "not_found_error = PlainError ''ENOENT''"

definition read_content :: "ws_disk \<Rightarrow> string \<Rightarrow> int \<Rightarrow> ws_entry list result" where
  "read_content d w n = (case dk_revisions d (w, n) of None \<Rightarrow> Inl not_found_error | Some es \<Rightarrow> Inr es)"

definition scan_content :: "ws_env \<Rightarrow> json \<Rightarrow> ws_entry list \<Rightarrow> json result" where
  "scan_content env w es = scanWorkspaceTree (we_collate env) (we_sha env) (we_stamp env) (ws_quota w) es"

definition verifyPersistedWorkspace :: "ws_env \<Rightarrow> ws_disk \<Rightarrow> json \<Rightarrow> error option" where
  "verifyPersistedWorkspace env d w = first_err
     [validateCollaborationWorkspace w,
      content_check env (ws_name w) (ws_revision w),
      (case rbind (read_content d (ws_name w) (ws_revision w)) (scan_content env w) of
         Inl e \<Rightarrow> Some e
       | Inr actual \<Rightarrow> throw_if (\<not> sameManifestContent actual (get w ''manifest''))
           (ws_error ''WORKSPACE_MANIFEST_MISMATCH'' ''Durable Workspace content does not match its committed Manifest.''))]"

definition has_revisions :: "ws_disk \<Rightarrow> string \<Rightarrow> int \<Rightarrow> bool" where
  "has_revisions d w n \<longleftrightarrow> dk_revisions d (w, n) \<noteq> None \<or> dk_partial d w \<noteq> None"

definition ephemeral :: "json \<Rightarrow> bool" where
  "ephemeral w \<longleftrightarrow> get w ''mode'' = JStr ''ephemeral_task''"

text \<open>
  The loop of \<open>initialize\<close>: the changes, and the Workspaces that are kept. Listing a directory of revisions that is
  not there throws; a store that has the current revision has the directory.
\<close>

fun init_loop :: "ws_env \<Rightarrow> ws_disk \<Rightarrow> json list \<Rightarrow> disk_write list \<times> json list result" where
  "init_loop env d [] = ([], Inr [])"
| "init_loop env d (w # ws) =
     (if ephemeral w then (case root_check env (ws_name w) of
          Some e \<Rightarrow> ([], Inl e)
        | None \<Rightarrow> (case init_loop env (disk_apply (DropWorkspace (ws_name w)) d) ws of
              (cs, r) \<Rightarrow> (DropWorkspace (ws_name w) # cs, r)))
      else (case content_check env (ws_name w) (ws_revision w) of
          Some e \<Rightarrow> ([], Inl e)
        | None \<Rightarrow> if \<not> has_revisions d (ws_name w) (ws_revision w) then ([], Inl not_found_error)
          else (let trim = TrimRevisions (ws_name w) (ws_revision w); d1 = disk_apply trim d in
            case verifyPersistedWorkspace env d1 w of
              Some e \<Rightarrow> ([trim], Inl e)
            | None \<Rightarrow> (case init_loop env d1 ws of
                (cs, Inl e) \<Rightarrow> (trim # cs, Inl e)
              | (cs, Inr kept) \<Rightarrow> (trim # cs, Inr (w # kept))))))"

definition initialize :: "ws_env \<Rightarrow> ws_memory \<Rightarrow> ws_disk \<Rightarrow> unit ws_answer" where
  "initialize env m d =
     (if wm_initialized m then ([], Inr (m, ()))
      else (case loadIndex d of
        Inl e \<Rightarrow> ([DropSnapshots], Inl e)
      | Inr ws \<Rightarrow> (case init_loop env (disk_apply DropSnapshots d) ws of
          (cs, Inl e) \<Rightarrow> (DropSnapshots # cs, Inl e)
        | (cs, Inr kept) \<Rightarrow>
            if list_ex ephemeral ws
            then (case saveIndex kept of
                Inl e \<Rightarrow> (DropSnapshots # cs, Inl e)
              | Inr c \<Rightarrow> (DropSnapshots # cs @ [c], Inr (m\<lparr>wm_initialized := True\<rparr>, ())))
            else (DropSnapshots # cs, Inr (m\<lparr>wm_initialized := True\<rparr>, ())))))"

section \<open>Creating and reading\<close>

record create_input =
  ci_workspace_id :: "string option"
  ci_owner :: string
  ci_participants :: "string list"
  ci_mode :: string
  ci_quota :: "json option"
  ci_retention :: "json option"

definition maximum_ephemeral_ttl_ms :: int where "maximum_ephemeral_ttl_ms = 24 * 60 * 60 * 1000"

definition quota_json :: "int \<Rightarrow> int \<Rightarrow> json" where
  "quota_json bytes files = JObj [(''maxBytes'', jint bytes), (''maxFiles'', jint files)]"

definition default_ephemeral_quota :: json where
  "default_ephemeral_quota = quota_json (64 * 1024 * 1024) 512"

definition default_durable_quota :: json where
  "default_durable_quota = quota_json (512 * 1024 * 1024) 4096"

definition retention_policy :: "create_input \<Rightarrow> int \<Rightarrow> json" where
  "retention_policy i now = given_or (ci_retention i)
     (if ci_mode i = ''ephemeral_task''
      then JObj [(''kind'', JStr ''ttl''), (''expiresAt'', JStr (to_iso (now + 60 * 60 * 1000)))]
      else JObj [(''kind'', JStr ''retain'')])"

definition ttl_check :: "json \<Rightarrow> int \<Rightarrow> error option" where
  "ttl_check policy now =
     (if get policy ''kind'' = JStr ''ttl''
      then (let expiry = str_of (get policy ''expiresAt'') in
        throw_if (\<not> valid_date expiry \<or> date_ms expiry \<le> now \<or> maximum_ephemeral_ttl_ms < date_ms expiry - now)
          (ws_error ''WORKSPACE_TTL_INVALID'' ''Ephemeral Workspace TTL is invalid.''))
      else None)"

definition emptyWorkspaceManifest :: json where
  "emptyWorkspaceManifest = manifest_json [] 0"

definition new_workspace :: "create_input \<Rightarrow> string \<Rightarrow> int \<Rightarrow> json" where
  "new_workspace i fresh now = JObj
     [(''schemaVersion'', jint 1), (''workspaceId'', JStr (given_or (ci_workspace_id i) (''ws_'' @ fresh))),
      (''ownerTetiId'', JStr (ci_owner i)),
      (''participantTetiIds'', JArr (map JStr (sort_by str_le (ci_participants i)))),
      (''revision'', jint 1), (''mode'', JStr (ci_mode i)),
      (''quota'', given_or (ci_quota i)
         (if ci_mode i = ''ephemeral_task'' then default_ephemeral_quota else default_durable_quota)),
      (''retentionPolicy'', retention_policy i now), (''manifest'', emptyWorkspaceManifest),
      (''createdAt'', JStr (to_iso now)), (''updatedAt'', JStr (to_iso now))]"

definition ws_create :: "ws_env \<Rightarrow> string \<Rightarrow> int \<Rightarrow> create_input \<Rightarrow> ws_memory \<Rightarrow> ws_disk \<Rightarrow> json ws_answer" where
  "ws_create env fresh now i m d = require (requireInitialized m) (require (ttl_check (retention_policy i now) now)
     (let w = new_workspace i fresh now in require (validateCollaborationWorkspace w)
       (on_ok (loadIndex d) (\<lambda>ws.
         if list_ex (\<lambda>x. ws_id x = ws_id w) ws
         then thrown (ws_error ''WORKSPACE_DUPLICATE'' ''Workspace ID already exists.'')
         else require (content_check env (ws_name w) 1) (case saveIndex (ws @ [w]) of
             Inl e \<Rightarrow> ([MakeRevision (ws_name w) 1, DropWorkspace (ws_name w)], Inl e)
           | Inr c \<Rightarrow> ([MakeRevision (ws_name w) 1, c], Inr (m, w)))))))"

definition find_workspace :: "string \<Rightarrow> json list \<Rightarrow> json option" where
  "find_workspace w ws = find_first (\<lambda>x. ws_id x = JStr w) ws"

text \<open>The answer of \<open>removeFromIndex\<close> followed by \<open>null\<close>.\<close>

definition removeFromIndex :: "ws_env \<Rightarrow> json list \<Rightarrow> json \<Rightarrow> ws_memory \<Rightarrow> json option ws_answer" where
  "removeFromIndex env ws w m = require (root_check env (ws_name w))
     (case saveIndex (filter (\<lambda>x. ws_id x \<noteq> ws_id w) ws) of
        Inl e \<Rightarrow> ([DropWorkspace (ws_name w)], Inl e)
      | Inr c \<Rightarrow> ([DropWorkspace (ws_name w), c], Inr (m, None)))"

definition ws_get :: "ws_env \<Rightarrow> int \<Rightarrow> string \<Rightarrow> ws_memory \<Rightarrow> ws_disk \<Rightarrow> json option ws_answer" where
  "ws_get env now workspaceId m d = require (requireInitialized m)
     (require (ws_requireSafeId (JStr workspaceId) ''workspaceId'') (on_ok (loadIndex d) (\<lambda>ws.
        case find_workspace workspaceId ws of
          None \<Rightarrow> ([], Inr (m, None))
        | Some w \<Rightarrow> if isExpired w now then removeFromIndex env ws w m else ([], Inr (m, Some w)))))"

section \<open>Snapshots\<close>

definition snapshot_json :: "string \<Rightarrow> json \<Rightarrow> json \<Rightarrow> string \<Rightarrow> int \<Rightarrow> json" where
  "snapshot_json snapshotId w acc path now = JObj
     [(''schemaVersion'', jint 1), (''snapshotId'', JStr snapshotId), (''workspaceId'', ws_id w),
      (''workspaceRevision'', get w ''revision''), (''access'', acc), (''snapshotPath'', JStr path),
      (''createdAt'', JStr (to_iso now))]"

definition revision_conflict :: error where
  "revision_conflict = ws_error ''WORKSPACE_REVISION_CONFLICT'' ''Workspace revision has changed.''"

definition ws_unavailable :: error where
  "ws_unavailable = ws_error ''WORKSPACE_NOT_FOUND'' ''Workspace is unavailable.''"

definition createSnapshot ::
  "ws_env \<Rightarrow> string \<Rightarrow> int \<Rightarrow> string \<Rightarrow> json \<Rightarrow> json \<Rightarrow> ws_memory \<Rightarrow> ws_disk \<Rightarrow> json ws_answer" where
  "createSnapshot env fresh now workspaceId revision acc m d = require (requireInitialized m)
     (require (ws_requireSafeId (JStr workspaceId) ''workspaceId'') (require (validateWorkspaceAccess acc)
       (on_ok (loadIndex d) (\<lambda>ws. case find_workspace workspaceId ws of
          None \<Rightarrow> thrown ws_unavailable
        | Some w \<Rightarrow>
            if isExpired w now then thrown ws_unavailable
            else if get w ''revision'' \<noteq> revision then thrown revision_conflict
            else (let sid = ''snapshot:'' @ fresh in
              on_ok (snapshotPath (we_b64 env) (we_platform env) (we_snapshots env) sid) (\<lambda>path.
                case rbind (read_content d (ws_name w) (ws_revision w)) copyTreeNoSymlinks of
                  Inl e \<Rightarrow> ([PutSnapshot sid [], DropSnapshot sid], Inl e)
                | Inr es \<Rightarrow> (let snapshot = snapshot_json sid w acc path now in
                    ([PutSnapshot sid es], Inr (m\<lparr>wm_active := AList.update sid snapshot (wm_active m)\<rparr>, snapshot)))))))))"

definition snapshot_invalid_error :: error where
  "snapshot_invalid_error = ws_error ''WORKSPACE_SNAPSHOT_INVALID'' ''Workspace Snapshot identity is invalid.''"

definition same_snapshot :: "json \<Rightarrow> json \<Rightarrow> bool" where
  "same_snapshot active snapshot \<longleftrightarrow> get active ''workspaceId'' = get snapshot ''workspaceId''
     \<and> get active ''workspaceRevision'' = get snapshot ''workspaceRevision''
     \<and> resolve_path (str_of (get snapshot ''snapshotPath'')) = str_of (get active ''snapshotPath'')"

definition requireActiveSnapshot :: "json \<Rightarrow> ws_memory \<Rightarrow> json result" where
  "requireActiveSnapshot snapshot m = (case map_of (wm_active m) (str_of (get snapshot ''snapshotId'')) of
       None \<Rightarrow> Inl snapshot_invalid_error
     | Some active \<Rightarrow>
         if \<not> same_snapshot active snapshot \<or> stringify (get active ''access'') \<noteq> stringify (get snapshot ''access'')
         then Inl snapshot_invalid_error else Inr active)"

definition active_id :: "json \<Rightarrow> string" where
  "active_id active = str_of (get active ''snapshotId'')"

definition forget_snapshot :: "json \<Rightarrow> ws_memory \<Rightarrow> ws_memory" where
  "forget_snapshot active m = m\<lparr>wm_active := AList.delete (active_id active) (wm_active m)\<rparr>"

definition discardSnapshot :: "json \<Rightarrow> ws_memory \<Rightarrow> unit ws_answer" where
  "discardSnapshot snapshot m = (case map_of (wm_active m) (str_of (get snapshot ''snapshotId'')) of
       None \<Rightarrow> ([], Inr (m, ()))
     | Some active \<Rightarrow>
         if \<not> same_snapshot active snapshot then thrown snapshot_invalid_error
         else ([DropSnapshot (active_id active)], Inr (forget_snapshot active m, ())))"

definition may_write :: "json \<Rightarrow> bool" where
  "may_write active \<longleftrightarrow> JStr ''write'' \<in> set (items (get active ''access''))
     \<or> JStr ''create_artifact'' \<in> set (items (get active ''access''))"

definition next_workspace :: "json \<Rightarrow> json \<Rightarrow> int \<Rightarrow> json" where
  "next_workspace w manifest now = spread w
     [(''revision'', jint (ws_revision w + 1)), (''manifest'', manifest), (''updatedAt'', JStr (to_iso now))]"

definition replace_workspace :: "json \<Rightarrow> json list \<Rightarrow> json list" where
  "replace_workspace w ws = map (\<lambda>x. if ws_id x = ws_id w then w else x) ws"

text \<open>
  The part of \<open>commitSnapshot\<close> after the revision directory is made, with the copied tree: its changes and the new
  Workspace. A revision that is already there cannot be renamed over.
\<close>

definition publish :: "ws_env \<Rightarrow> int \<Rightarrow> json list \<Rightarrow> json \<Rightarrow> ws_entry list \<Rightarrow> ws_disk \<Rightarrow> disk_write list \<times> json result" where
  "publish env now ws w es d = (let name = ws_name w; n = ws_revision w + 1 in
     case rbind (scan_content env w es) (\<lambda>manifest.
         guarded (validateWorkspaceManifest manifest (Some (ws_quota w))) (Inr manifest)) of
       Inl e \<Rightarrow> ([StartRevision name es, DropPartial name], Inl e)
     | Inr manifest \<Rightarrow>
         if dk_revisions d (name, n) \<noteq> None
         then ([StartRevision name es, DropPartial name], Inl (PlainError ''ENOTEMPTY''))
         else (let w' = next_workspace w manifest now in
           case rbind (guarded (validateCollaborationWorkspace w') (Inr w')) (\<lambda>x. saveIndex (replace_workspace x ws)) of
             Inl e \<Rightarrow> ([StartRevision name es, PublishRevision name n, DropPartial name, DropRevision name n], Inl e)
           | Inr c \<Rightarrow> ([StartRevision name es, PublishRevision name n, c], Inr w')))"

text \<open>\<open>seen\<close> is the content of the snapshot when it is scanned first, \<open>content\<close> when it is copied.\<close>

definition commitSnapshot ::
  "ws_env \<Rightarrow> int \<Rightarrow> ws_entry list \<Rightarrow> ws_entry list \<Rightarrow> json \<Rightarrow> ws_memory \<Rightarrow> ws_disk \<Rightarrow> json ws_answer" where
  "commitSnapshot env now seen content snapshot m d = require (requireInitialized m)
     (on_ok (requireActiveSnapshot snapshot m) (\<lambda>active.
       if \<not> may_write active then thrown (ws_error ''WORKSPACE_ACCESS_DENIED'' ''Workspace Snapshot is read-only.'')
       else on_ok (loadIndex d) (\<lambda>ws. case find_first (\<lambda>x. ws_id x = get active ''workspaceId'') ws of
          None \<Rightarrow> thrown ws_unavailable
        | Some w \<Rightarrow>
            if get w ''revision'' \<noteq> get active ''workspaceRevision'' then thrown revision_conflict
            else on_ok (scan_content env w seen) (\<lambda>_. require (content_check env (ws_name w) (ws_revision w + 1))
              (case copyTreeNoSymlinks content of
                 Inl e \<Rightarrow> ([StartRevision (ws_name w) [], DropPartial (ws_name w)], Inl e)
               | Inr es \<Rightarrow> (case publish env now ws w es d of
                     (cs, Inl e) \<Rightarrow> (cs, Inl e)
                   | (cs, Inr w') \<Rightarrow> (cs @ [DropSnapshot (active_id active)], Inr (forget_snapshot active m, w'))))))))"

definition ws_cleanup :: "ws_env \<Rightarrow> int \<Rightarrow> ws_memory \<Rightarrow> ws_disk \<Rightarrow> unit ws_answer" where
  "ws_cleanup env now m d = require (requireInitialized m) (on_ok (loadIndex d) (\<lambda>ws.
     let expired = filter (\<lambda>w. isExpired w now) ws; drops = map (\<lambda>w. DropWorkspace (ws_name w)) expired in
     if expired = [] then ([], Inr (m, ()))
     else require (first_err (map (\<lambda>w. root_check env (ws_name w)) expired))
       (case saveIndex (filter (\<lambda>w. ws_id w \<notin> ws_id ` set expired) ws) of
          Inl e \<Rightarrow> (drops, Inl e)
        | Inr c \<Rightarrow> (drops @ [c], Inr (m, ())))))"

end
