(* ===== verification/Workspace_Guarantees.thy ===== *)
theory Workspace_Guarantees
  imports Workspace_Store
begin

text \<open>
  What the Workspace store guarantees: after any run of operations, with crashes between any two changes of the
  disk, a restart finds every durable Workspace at a published revision whose content its manifest describes; two
  snapshots of one revision cannot both be committed.
\<close>

section \<open>Paths of valid identifiers\<close>

lemma split_on_append: "split_on c (xs @ c # ys) = split_on c xs @ split_on c ys"
  unfolding split_on_def
proof (induction xs)
  case (Cons x xs)
  obtain w ws where "split_by (\<lambda>d. d = c) xs = w # ws" by (cases "split_by (\<lambda>d. d = c) xs") auto
  with Cons show ?case by simp
qed simp

lemma split_on_none: "c \<notin> set w \<Longrightarrow> split_on c w = [w]"
  unfolding split_on_def by (induction w) auto

lemma split_on_join:
  "ws \<noteq> [] \<Longrightarrow> list_all (\<lambda>w. c \<notin> set w) ws \<Longrightarrow> split_on c (join_with [c] ws) = ws"
proof (induction "[c]" ws rule: join_with.induct)
  case (3 w v ws)
  then show ?case using split_on_append [of c w] by (simp add: split_on_none)
qed (simp_all add: split_on_none)

lemma resolve_append: "resolve_segments ds (xs @ ys) = resolve_segments (rev (resolve_segments ds xs)) ys"
  by (induction ds xs rule: resolve_segments.induct) simp_all

lemma relative_self: "relative_segments bs (bs @ ps) = ps"
  by (induction bs) simp_all

definition plain_segment :: "string \<Rightarrow> bool" where
  "plain_segment s \<longleftrightarrow> s \<noteq> [] \<and> CHR ''/'' \<notin> set s \<and> s \<noteq> ''.'' \<and> s \<noteq> ''..''"

lemma path_segments_join:
  assumes "ss \<noteq> []" "list_all plain_segment ss"
  shows "path_segments (base @ CHR ''/'' # join_with ''/'' ss) = path_segments base @ ss"
proof -
  have slash: "list_all (\<lambda>w. CHR ''/'' \<notin> set w) ss" and plain: "list_all (\<lambda>s. s \<noteq> [] \<and> s \<noteq> ''.'' \<and> s \<noteq> ''..'') ss"
    using assms(2) by (auto simp: plain_segment_def list_all_iff)
  show ?thesis
    by (simp add: path_segments_def split_on_append split_on_join [OF assms(1) slash] resolve_append resolve_plain [OF plain])
qed

lemma scopedPath_plain:
  assumes "ss \<noteq> []" "list_all plain_segment ss" "\<not> starts_with ''..'' (hd ss)"
  shows "\<exists>p. scopedPath base ss = Inr p"
proof -
  obtain a t where ss: "ss = a # t" using assms(1) by (cases ss) auto
  have "a \<noteq> []" using assms(2) ss by (simp add: plain_segment_def)
  have "\<not> starts_with ''..'' (join_with ''/'' ss) \<and> join_with ''/'' ss \<noteq> []"
  proof (cases t)
    case Nil
    then show ?thesis using ss assms(3) \<open>a \<noteq> []\<close> by simp
  next
    case (Cons b u)
    have "\<not> starts_with ''..'' (a @ CHR ''/'' # join_with ''/'' t)"
      using assms(3) ss \<open>a \<noteq> []\<close> by (cases a; cases "tl a") (auto simp: starts_with_def)
    then show ?thesis using Cons ss \<open>a \<noteq> []\<close> by simp
  qed
  then show ?thesis by (simp add: scopedPath_def path_segments_join [OF assms(1,2)] relative_self Let_def)
qed

lemma id_pattern_segment: "id_pattern n s \<Longrightarrow> plain_segment s \<and> \<not> starts_with ''..'' s"
proof (cases s)
  case (Cons c cs)
  assume "id_pattern n s"
  then have ok: "is_alnum c" "list_all id_char cs" using Cons by simp_all
  have "\<not> is_alnum (CHR ''/'')" "\<not> is_alnum (CHR ''.'')" "\<not> id_char (CHR ''/'')" by code_simp+
  then have "c \<noteq> CHR ''/''" "c \<noteq> CHR ''.''" "CHR ''/'' \<notin> set cs"
    using ok by (auto simp: list_all_iff)
  then show ?thesis using Cons by (auto simp: plain_segment_def starts_with_def)
qed simp

text \<open>The encoding of base64url has no slash.\<close>

definition env_ok :: "ws_env \<Rightarrow> bool" where
  "env_ok env \<longleftrightarrow> (\<forall>s. CHR ''/'' \<notin> set (we_b64 env s))"

lemma storageSegment_plain:
  assumes "env_ok env" "id_pattern n s"
  shows "plain_segment (storageSegment (we_b64 env) p s) \<and> \<not> starts_with ''..'' (storageSegment (we_b64 env) p s)"
  using assms id_pattern_segment [OF assms(2)]
  by (auto simp: storageSegment_def env_ok_def plain_segment_def starts_with_def)

lemma root_check_ok: "env_ok env \<Longrightarrow> id_pattern 127 w \<Longrightarrow> root_check env w = None"
  using scopedPath_plain [of "[storageSegment (we_b64 env) (we_platform env) w]" "we_workspaces env"] storageSegment_plain [of env 127 w]
  by (auto simp: root_check_def workspaceRoot_def ws_requireSafeId_def split: sum.splits)

lemma digits_plain: "0 < n \<Longrightarrow> plain_segment (string_of_int n)"
proof -
  assume "0 < n"
  have digits: "\<forall>c\<in>set (string_of_nonneg m). is_digit c" if "0 \<le> m" for m
    using that
  proof (induction m rule: string_of_nonneg.induct)
    case (1 m)
    have "is_digit (char_of (48 + m mod 10))"
      using 1 by (auto simp: is_digit_def cu_def of_char_of)
    then show ?case using 1 by (subst string_of_nonneg.simps) auto
  qed
  then have "\<forall>c\<in>set (string_of_int n). is_digit c" using digits [of n] \<open>0 < n\<close> by (simp add: string_of_int_def)
  moreover have "\<not> is_digit (CHR ''/'')" "\<not> is_digit (CHR ''.'')" by code_simp+
  moreover have "string_of_int n \<noteq> []" using \<open>0 < n\<close> string_of_nonneg_nonempty [of n] by (simp add: string_of_int_def)
  ultimately show ?thesis by (auto simp: plain_segment_def)
qed

lemma content_check_ok:
  assumes "env_ok env" "id_pattern 127 w" "0 < n" "n \<le> max_safe_integer"
  shows "content_check env w n = None"
proof -
  obtain base where base: "workspaceRoot (we_b64 env) (we_platform env) (we_workspaces env) w = Inr base"
    using root_check_ok [OF assms(1,2)] by (auto simp: root_check_def split: sum.splits)
  have "\<exists>p. scopedPath base [''revisions'', string_of_int n, ''content''] = Inr p"
    by (rule scopedPath_plain) (use digits_plain [OF assms(3)] in \<open>auto simp: plain_segment_def starts_with_def\<close>)
  then show ?thesis using assms(3,4) base by (auto simp: content_check_def revisionContentPath_def)
qed

section \<open>A scan does not depend on the modification times\<close>

definition same_scan :: "scan_state \<Rightarrow> scan_state \<Rightarrow> bool" where
  "same_scan s t \<longleftrightarrow> list_all2 same_entry (sn_entries s) (sn_entries t) \<and> sn_bytes s = sn_bytes t \<and> sn_visited s = sn_visited t"

lemma same_manifest_entry: "same_entry (manifest_entry sha stamp p data) (manifest_entry sha stamp' p data)"
  by (simp add: same_entry_def manifest_entry_def)

lemma scan_dir_stamp:
  "scan_dir sha stamp q dir es s = Inr s' \<Longrightarrow> same_scan s t
    \<Longrightarrow> \<exists>t'. scan_dir sha stamp' q dir es t = Inr t' \<and> same_scan s' t'"
proof (induction sha stamp q dir es s arbitrary: s' t rule: scan_dir.induct)
  case (2 sha stamp q dir e es st)
  let ?p = "unify_slashes (dir @ entry_name e)"
  let ?s1 = "st\<lparr>sn_visited := sn_visited st + 1\<rparr>" and ?t1 = "t\<lparr>sn_visited := sn_visited t + 1\<rparr>"
  have v: "\<not> max_manifest_entries < sn_visited st + 1" and path: "validateWorkspaceRelativePath (JStr ?p) = None"
    using 2(4) by (auto simp: Let_def split: if_splits option.splits)
  have same: "same_scan ?s1 ?t1" "sn_visited t = sn_visited st" "length (sn_entries t) = length (sn_entries st)" "sn_bytes t = sn_bytes st"
    using 2(5) by (auto simp: same_scan_def dest: list_all2_lengthD)
  show ?case
  proof (cases e)
    case (DirEntry n ds)
    then obtain s2 where s2: "scan_dir sha stamp q (dir @ n @ ''/'') ds ?s1 = Inr s2" "scan_dir sha stamp q dir es s2 = Inr s'"
      using 2(4) v path by (auto simp: Let_def split: sum.splits)
    from 2(1) [OF v refl refl path DirEntry s2(1) same(1)] obtain t2 where
      t2: "scan_dir sha stamp' q (dir @ n @ ''/'') ds ?t1 = Inr t2" "same_scan s2 t2" by blast
    from 2(2) [OF v refl refl path DirEntry s2(1) s2(2) t2(2)] t2(1) DirEntry v path same(2)
    show ?thesis by (auto simp: Let_def)
  next
    case (FileEntry n data)
    let ?s2 = "?s1\<lparr>sn_entries := sn_entries ?s1 @ [manifest_entry sha stamp ?p data], sn_bytes := sn_bytes ?s1 + int (length data)\<rparr>"
    let ?t2 = "?t1\<lparr>sn_entries := sn_entries ?t1 @ [manifest_entry sha stamp' ?p data], sn_bytes := sn_bytes ?t1 + int (length data)\<rparr>"
    have q: "\<not> max_files q < int (length (sn_entries ?s1)) + 1" "\<not> max_bytes q < sn_bytes ?s1 + int (length data)"
      and rest: "scan_dir sha stamp q dir es ?s2 = Inr s'"
      using 2(4) v path FileEntry by (auto simp: Let_def split: if_splits)
    have "same_scan ?s2 ?t2"
      using 2(5) same_manifest_entry by (auto simp: same_scan_def intro!: list_all2_appendI)
    from 2(3) [OF v refl refl path FileEntry q rest this] FileEntry v path q same
    show ?thesis by (auto simp: Let_def)
  qed (use 2(4) v path in \<open>auto simp: Let_def\<close>)
qed simp

lemma insert_by_rel:
  assumes agree: "\<And>a b c d. R a c \<Longrightarrow> R b d \<Longrightarrow> le a b = le c d"
  shows "R x y \<Longrightarrow> list_all2 R xs ys \<Longrightarrow> list_all2 R (insert_by le x xs) (insert_by le y ys)"
proof (induction xs arbitrary: ys)
  case (Cons a xs)
  then obtain b ys' where "ys = b # ys'" "R a b" "list_all2 R xs ys'" by (cases ys) auto
  with Cons agree [of x y a b] show ?case by auto
qed simp

lemma sort_by_rel:
  assumes "\<And>a b c d. R a c \<Longrightarrow> R b d \<Longrightarrow> le a b = le c d"
  shows "list_all2 R xs ys \<Longrightarrow> list_all2 R (sort_by le xs) (sort_by le ys)"
  unfolding sort_by_def by (induction rule: list_all2_induct) (auto intro: insert_by_rel [OF assms])

lemma get_manifest_json [simp]:
  "items (get (manifest_json es b) ''entries'') = es" "get (manifest_json es b) ''totalBytes'' = jint b"
  "get (manifest_json es b) ''totalFiles'' = jint (int (length es))"
  by (simp_all add: manifest_json_def)

lemma scan_tree_stamp:
  assumes "scanWorkspaceTree collate sha stamp q es = Inr m"
  shows "\<exists>m'. scanWorkspaceTree collate sha stamp' q es = Inr m' \<and> sameManifestContent m' m"
proof -
  obtain s where s: "scan_dir sha stamp q [] es scan_start = Inr s"
    and m: "m = manifest_json (sort_by (\<lambda>l r. collate (entry_path l) (entry_path r)) (sn_entries s)) (sn_bytes s)"
    using assms by (auto simp: scanWorkspaceTree_def rbind_Inr_conv)
  have "same_scan scan_start scan_start" by (simp add: same_scan_def scan_start_def)
  from scan_dir_stamp [OF s this, of stamp'] obtain t where
    t: "scan_dir sha stamp' q [] es scan_start = Inr t" "same_scan s t" by blast
  have sym: "list_all2 same_entry (sn_entries t) (sn_entries s)"
    using t(2) by (auto simp: same_scan_def same_entry_def list_all2_conv_all_nth)
  have "list_all2 same_entry (sort_by (\<lambda>l r. collate (entry_path l) (entry_path r)) (sn_entries t))
      (sort_by (\<lambda>l r. collate (entry_path l) (entry_path r)) (sn_entries s))"
    by (rule sort_by_rel [OF _ sym]) (auto simp: same_entry_def entry_path_def)
  with t show ?thesis
    by (auto simp: scanWorkspaceTree_def m sameManifestContent_def same_scan_def dest: list_all2_lengthD)
qed

section \<open>The index\<close>

lemma unique_workspaces_None:
  "unique_workspaces seen ws = None \<longleftrightarrow> (\<forall>w\<in>set ws. validateCollaborationWorkspace w = None)
     \<and> distinct (map ws_id ws) \<and> set (map ws_id ws) \<inter> set seen = {}"
  by (induction ws arbitrary: seen) (auto simp: first_err_None_Cons throw_if_None)

lemma validateIndex_json:
  "validateIndex (index_json ws) = None \<longleftrightarrow> (\<forall>w\<in>set ws. validateCollaborationWorkspace w = None) \<and> distinct (map ws_id ws)"
  by (simp add: validateIndex_def index_json_def first_err_None_Cons throw_if_None unique_workspaces_None)

lemma saveIndex_Inr:
  "saveIndex ws = Inr c \<longleftrightarrow> c = PutIndex (index_json ws)
     \<and> (\<forall>w\<in>set ws. validateCollaborationWorkspace w = None) \<and> distinct (map ws_id ws)"
  by (auto simp: saveIndex_def guarded_Inr_conv validateIndex_json)

lemma loadIndex_valid:
  assumes "loadIndex d = Inr ws"
  shows "\<forall>w\<in>set ws. validateCollaborationWorkspace w = None" "distinct (map ws_id ws)"
  using assms by (auto simp: loadIndex_def guarded_Inr_conv validateIndex_def first_err_None_Cons unique_workspaces_None
      split: json_file.splits)

lemma loadIndex_put: "saveIndex ws = Inr c \<Longrightarrow> loadIndex (disk_apply c d) = Inr ws"
  using validateIndex_json [of ws] by (auto simp: saveIndex_Inr loadIndex_def index_json_def)

lemma valid_workspace:
  assumes "validateCollaborationWorkspace w = None"
  shows "ws_id w = JStr (ws_name w)" "id_pattern 127 (ws_name w)" "0 < ws_revision w" "ws_revision w \<le> max_safe_integer"
    "get w ''revision'' = jint (ws_revision w)"
    "\<not> ephemeral w \<Longrightarrow> get (get w ''retentionPolicy'') ''kind'' = JStr ''retain''"
  using assms
  by (auto simp: validateCollaborationWorkspace_def first_err_None_Cons throw_if_None ws_name_def ws_id_def ws_revision_def
      ephemeral_def ws_safeId_None ws_positiveInteger_None safe_int_from_def is_safe_integer_conv is_string_conv
      validateRetention_def split: if_splits)

lemma durable_not_expired: "validateCollaborationWorkspace w = None \<Longrightarrow> isExpired w now \<Longrightarrow> ephemeral w"
  using valid_workspace(6) [of w] by (auto simp: isExpired_def)

section \<open>Disks that survive a crash\<close>

definition with_times :: "ws_env \<Rightarrow> (string \<Rightarrow> int) \<Rightarrow> ws_env" where
  "with_times env stamp = env\<lparr>we_stamp := stamp\<rparr>"

text \<open>The manifest describes the content, whatever the modification times are.\<close>

definition faithful :: "ws_env \<Rightarrow> json \<Rightarrow> ws_entry list \<Rightarrow> bool" where
  "faithful env w es \<longleftrightarrow> (\<forall>stamp. \<exists>m. scan_content (with_times env stamp) w es = Inr m \<and> sameManifestContent m (get w ''manifest''))"

definition sound_disk :: "ws_env \<Rightarrow> json list \<Rightarrow> ws_disk \<Rightarrow> bool" where
  "sound_disk env ws d \<longleftrightarrow> loadIndex d = Inr ws
     \<and> (\<forall>w\<in>set ws. \<not> ephemeral w \<longrightarrow> (\<exists>es. dk_revisions d (ws_name w, ws_revision w) = Some es \<and> faithful env w es))
     \<and> (\<forall>name n es. name \<notin> ws_name ` set ws \<longrightarrow> dk_revisions d (name, n) = Some es \<longrightarrow> es = [])"

definition recoverable :: "ws_env \<Rightarrow> ws_disk \<Rightarrow> bool" where
  "recoverable env d \<longleftrightarrow> (\<exists>ws. sound_disk env ws d)"

text \<open>Every prefix of the changes leaves a recoverable disk.\<close>

definition crash_safe :: "ws_env \<Rightarrow> ws_disk \<Rightarrow> disk_write list \<Rightarrow> bool" where
  "crash_safe env d cs \<longleftrightarrow> (\<forall>n. recoverable env (disk_after (take n cs) d))"

text \<open>A change that leaves the index and the current content of the durable Workspaces alone.\<close>

fun harmless :: "json list \<Rightarrow> disk_write \<Rightarrow> bool" where
  "harmless ws (PutIndex v) = False"
| "harmless ws (PublishRevision name n) = (name \<in> ws_name ` set ws \<and> (\<forall>w\<in>set ws. ws_name w = name \<longrightarrow> ws_revision w \<noteq> n))"
| "harmless ws (DropRevision name n) = (\<forall>w\<in>set ws. ws_name w = name \<longrightarrow> ws_revision w \<noteq> n)"
| "harmless ws (TrimRevisions name n) = (\<forall>w\<in>set ws. ws_name w = name \<longrightarrow> ws_revision w \<le> n)"
| "harmless ws (DropWorkspace name) = (\<forall>w\<in>set ws. ws_name w = name \<longrightarrow> ephemeral w)"
| "harmless ws c = True"

lemma disk_after_simps [simp]: "disk_after [] d = d" "disk_after (c # cs) d = disk_after cs (disk_apply c d)"
  by (simp_all add: disk_after_def)

lemma disk_after_append: "disk_after (cs @ ds) d = disk_after ds (disk_after cs d)"
  by (simp add: disk_after_def)

lemma harmless_sound:
  assumes h: "harmless ws c" and s: "sound_disk env ws d"
  shows "sound_disk env ws (disk_apply c d)"
proof -
  have "loadIndex (disk_apply c d) = loadIndex d" using h by (cases c) (simp_all add: loadIndex_def)
  moreover have "dk_revisions (disk_apply c d) (ws_name w, ws_revision w) = Some es"
    if "w \<in> set ws" "\<not> ephemeral w" "dk_revisions d (ws_name w, ws_revision w) = Some es" for w es
    using h that by (cases c) auto
  moreover have "es = []" if "name \<notin> ws_name ` set ws" "dk_revisions (disk_apply c d) (name, n) = Some es" for name n es
    using h that s by (cases c) (auto simp: sound_disk_def split: if_splits option.splits)
  ultimately show ?thesis using s unfolding sound_disk_def by metis
qed

lemma harmless_after:
  "list_all (harmless ws) cs \<Longrightarrow> sound_disk env ws d \<Longrightarrow> sound_disk env ws (disk_after cs d)"
  by (induction cs arbitrary: d) (auto intro: harmless_sound)

lemma harmless_crash_safe:
  assumes "list_all (harmless ws) cs" "sound_disk env ws d"
  shows "crash_safe env d cs"
proof -
  have "list_all (harmless ws) (take n cs)" for n using assms(1) by (auto simp: list_all_iff dest: in_set_takeD)
  then show ?thesis unfolding crash_safe_def recoverable_def using harmless_after [OF _ assms(2)] by blast
qed

lemma crash_safe_append:
  assumes "crash_safe env d cs" "crash_safe env (disk_after cs d) ds"
  shows "crash_safe env d (cs @ ds)"
  unfolding crash_safe_def
proof
  fix n show "recoverable env (disk_after (take n (cs @ ds)) d)"
  proof (cases "n \<le> length cs")
    case True
    then show ?thesis using assms(1) by (simp add: crash_safe_def)
  next
    case False
    then show ?thesis using assms(2) by (simp add: crash_safe_def disk_after_append)
  qed
qed

text \<open>Harmless changes, a new index, and changes that are harmless for it.\<close>

lemma crash_safe_update:
  assumes "list_all (harmless ws) cs" "sound_disk env ws d" "sound_disk env ws' (disk_apply c (disk_after cs d))"
    and "list_all (harmless ws') ds"
  shows "crash_safe env d (cs @ c # ds)"
proof -
  have "crash_safe env (disk_after cs d) [c]"
    unfolding crash_safe_def recoverable_def
  proof
    fix n show "\<exists>ws. sound_disk env ws (disk_after (take n [c]) (disk_after cs d))"
      using assms(3) harmless_after [OF assms(1,2)] by (cases n) auto
  qed
  then have "crash_safe env d (cs @ [c])"
    by (rule crash_safe_append [OF harmless_crash_safe [OF assms(1,2)]])
  then have "crash_safe env d ((cs @ [c]) @ ds)"
    by (rule crash_safe_append) (use harmless_crash_safe [OF assms(4,3)] in \<open>simp add: disk_after_append\<close>)
  then show ?thesis by simp
qed

lemma crash_safe_nil: "sound_disk env ws d \<Longrightarrow> crash_safe env d []"
  by (auto simp: crash_safe_def recoverable_def)

section \<open>A restart\<close>

lemma verify_sound:
  assumes env: "env_ok env" and s: "sound_disk env ws d" and w: "w \<in> set ws" "\<not> ephemeral w"
  shows "verifyPersistedWorkspace (with_times env stamp) d w = None" "content_check (with_times env stamp) (ws_name w) (ws_revision w) = None"
    "has_revisions d (ws_name w) (ws_revision w)"
proof -
  have valid: "validateCollaborationWorkspace w = None" using s w(1) loadIndex_valid by (auto simp: sound_disk_def)
  have env': "env_ok (with_times env stamp)" using env by (simp add: env_ok_def with_times_def)
  obtain es where es: "dk_revisions d (ws_name w, ws_revision w) = Some es" "faithful env w es"
    using s w by (auto simp: sound_disk_def)
  show "has_revisions d (ws_name w) (ws_revision w)" using es(1) by (simp add: has_revisions_def)
  show c: "content_check (with_times env stamp) (ws_name w) (ws_revision w) = None"
    using content_check_ok [OF env'] valid_workspace [OF valid] by blast
  obtain m where "scan_content (with_times env stamp) w es = Inr m" "sameManifestContent m (get w ''manifest'')"
    using es(2) by (auto simp: faithful_def)
  then show "verifyPersistedWorkspace (with_times env stamp) d w = None"
    using valid c es(1) by (simp add: verifyPersistedWorkspace_def first_err_None_Cons throw_if_None read_content_def)
qed

lemma same_name:
  "validateCollaborationWorkspace x = None \<Longrightarrow> validateCollaborationWorkspace w = None \<Longrightarrow> ws_name x = ws_name w \<longleftrightarrow> ws_id x = ws_id w"
  using valid_workspace(1) [of x] valid_workspace(1) [of w] by auto

lemma index_names:
  assumes "loadIndex d = Inr ws" "w \<in> set ws" "x \<in> set ws" "ws_name x = ws_name w"
  shows "x = w"
proof -
  have "ws_id x = ws_id w" using loadIndex_valid(1) [OF assms(1)] assms(2-4) valid_workspace(1) by metis
  then show ?thesis using loadIndex_valid(2) [OF assms(1)] assms(2,3) by (simp add: distinct_map inj_on_def)
qed

lemma init_loop_sound:
  assumes env: "env_ok env" and s: "sound_disk env ws d" and sub: "set xs \<subseteq> set ws"
    and r: "init_loop (with_times env stamp) d xs = (cs, r)"
  shows "list_all (harmless ws) cs \<and> r = Inr (filter (\<lambda>w. \<not> ephemeral w) xs)
    \<and> (\<forall>w\<in>set xs. ephemeral w \<longrightarrow> DropWorkspace (ws_name w) \<in> set cs)
    \<and> (\<forall>w n es. MakeRevision w n \<notin> set cs \<and> PublishRevision w n \<notin> set cs)"
  using s sub r
proof (induction xs arbitrary: d cs r)
  case (Cons w xs)
  note s = Cons.prems(1)
  have index: "loadIndex d = Inr ws" using s by (simp add: sound_disk_def)
  have w: "w \<in> set ws" and env': "env_ok (with_times env stamp)"
    using Cons.prems(2) env by (auto simp: env_ok_def with_times_def)
  then have valid: "validateCollaborationWorkspace w = None" using loadIndex_valid(1) [OF index] by blast
  have only: "x = w" if "x \<in> set ws" "ws_name x = ws_name w" for x
    using index_names [OF index w that(1,2)] .
  show ?case
  proof (cases "ephemeral w")
    case True
    let ?c = "DropWorkspace (ws_name w)"
    have h: "harmless ws ?c" using True only by auto
    have root: "root_check (with_times env stamp) (ws_name w) = None"
      using root_check_ok [OF env'] valid_workspace(2) [OF valid] by blast
    obtain cs' r' where l: "init_loop (with_times env stamp) (disk_apply ?c d) xs = (cs', r')" by force
    with Cons.prems(3) True root have "cs = ?c # cs'" "r = r'" by auto
    with Cons.IH [OF harmless_sound [OF h s] _ l] Cons.prems(2) h True show ?thesis by auto
  next
    case False
    let ?c = "TrimRevisions (ws_name w) (ws_revision w)"
    have h: "harmless ws ?c" using only by auto
    note s1 = harmless_sound [OF h s]
    note v = verify_sound(1) [OF env s1 w False] verify_sound(2,3) [OF env s w False]
    obtain cs' r' where l: "init_loop (with_times env stamp) (disk_apply ?c d) xs = (cs', r')" by force
    note ih = Cons.IH [OF s1 _ l]
    have "r' = Inr (filter (\<lambda>w. \<not> ephemeral w) xs)" using ih Cons.prems(2) by simp
    with Cons.prems(3) False v l have "cs = ?c # cs'" "r = Inr (w # filter (\<lambda>w. \<not> ephemeral w) xs)"
      by (auto simp: Let_def)
    with ih Cons.prems(2) h False show ?thesis by auto
  qed
qed simp

text \<open>Without new revisions, a dropped Workspace stays dropped.\<close>

lemma dropped_stays:
  assumes "\<forall>w n. MakeRevision w n \<notin> set cs \<and> PublishRevision w n \<notin> set cs"
  shows "dk_revisions d (name, n) = None \<Longrightarrow> dk_revisions (disk_after cs d) (name, n) = None"
    "DropWorkspace name \<in> set cs \<Longrightarrow> dk_revisions (disk_after cs d) (name, n) = None"
proof -
  have keep: "dk_revisions (disk_after cs' d) (name, n) = None"
    if "\<forall>w n. MakeRevision w n \<notin> set cs' \<and> PublishRevision w n \<notin> set cs'" "dk_revisions d (name, n) = None" for cs' d
    using that
  proof (induction cs' arbitrary: d)
    case (Cons c cs')
    then have "dk_revisions (disk_apply c d) (name, n) = None" by (cases c) auto
    with Cons show ?case by auto
  qed simp
  show "dk_revisions d (name, n) = None \<Longrightarrow> dk_revisions (disk_after cs d) (name, n) = None" by (rule keep [OF assms])
  show "dk_revisions (disk_after cs d) (name, n) = None" if d: "DropWorkspace name \<in> set cs"
  proof -
    obtain a b where cs: "cs = a @ DropWorkspace name # b" using split_list [OF d] by blast
    have "\<forall>w n. MakeRevision w n \<notin> set b \<and> PublishRevision w n \<notin> set b" using assms cs by auto
    from keep [OF this, of "disk_apply (DropWorkspace name) (disk_after a d)"] show ?thesis
      by (simp add: cs disk_after_append)
  qed
qed

text \<open>An index from which dropped Workspaces are removed.\<close>

lemma removed_sound:
  assumes s: "sound_disk env ws d" and keep: "\<forall>w\<in>set ws. P w \<or> (ephemeral w \<and> (\<forall>n. dk_revisions d (ws_name w, n) = None))"
    and c: "saveIndex (filter P ws) = Inr c"
  shows "sound_disk env (filter P ws) (disk_apply c d)"
proof -
  have "dk_revisions (disk_apply c d) = dk_revisions d" using c by (auto simp: saveIndex_Inr)
  then show ?thesis using s keep loadIndex_put [OF c, of d] unfolding sound_disk_def by (auto simp: image_iff) (metis option.distinct(1))+
qed

lemma saved_filter:
  assumes "loadIndex d = Inr ws"
  shows "saveIndex (filter P ws) = Inr (PutIndex (index_json (filter P ws)))"
  using loadIndex_valid [OF assms] by (auto simp: saveIndex_Inr distinct_map_filter)

lemma init_sound:
  assumes env: "env_ok env" and s: "sound_disk env ws d" and new: "\<not> wm_initialized m"
    and r: "initialize (with_times env stamp) m d = (cs, r)"
  shows "r = Inr (m\<lparr>wm_initialized := True\<rparr>, ()) \<and> crash_safe env d cs
    \<and> sound_disk env (filter (\<lambda>w. \<not> ephemeral w) ws) (disk_after cs d)"
proof -
  have index: "loadIndex d = Inr ws" using s by (simp add: sound_disk_def)
  have s1: "sound_disk env ws (disk_apply DropSnapshots d)" by (rule harmless_sound [OF _ s]) simp
  obtain ls lr where l: "init_loop (with_times env stamp) (disk_apply DropSnapshots d) ws = (ls, lr)" by force
  note il = init_loop_sound [OF env s1 subset_refl l]
  let ?kept = "filter (\<lambda>w. \<not> ephemeral w) ws"
  have lr: "lr = Inr ?kept" and hs: "list_all (harmless ws) (DropSnapshots # ls)" using il by auto
  note s2 = harmless_after [OF hs s]
  show ?thesis
  proof (cases "list_ex ephemeral ws")
    case False
    then have "?kept = ws" by (auto simp: list_ex_iff intro: filter_True)
    moreover have "cs = DropSnapshots # ls" "r = Inr (m\<lparr>wm_initialized := True\<rparr>, ())"
      using r new index l lr False by (auto simp: initialize_def)
    ultimately show ?thesis using s2 harmless_crash_safe [OF hs s] by simp
  next
    case True
    let ?c = "PutIndex (index_json ?kept)"
    note c = saved_filter [OF index, of "\<lambda>w. \<not> ephemeral w"]
    have cs: "cs = (DropSnapshots # ls) @ [?c]" "r = Inr (m\<lparr>wm_initialized := True\<rparr>, ())"
      using r new index l lr True c by (auto simp: initialize_def)
    have gone: "dk_revisions (disk_after (DropSnapshots # ls) d) (ws_name w, n) = None"
      if "w \<in> set ws" "ephemeral w" for w n
      using dropped_stays(2) [of ls "ws_name w" "disk_apply DropSnapshots d" n] il that by auto
    have s3: "sound_disk env ?kept (disk_apply ?c (disk_after (DropSnapshots # ls) d))"
      by (rule removed_sound [OF s2 _ c]) (use gone in blast)
    from crash_safe_update [OF hs s s3, of "[]"] s3 cs show ?thesis by (simp add: disk_after_append)
  qed
qed

section \<open>The operations\<close>

lemma require_answer: "require c m = (cs, r) \<longleftrightarrow> (case c of None \<Rightarrow> m = (cs, r) | Some e \<Rightarrow> cs = [] \<and> r = Inl e)"
  by (auto simp: require_def thrown_def split: option.splits)

lemma on_ok_answer: "on_ok x f = (cs, r) \<longleftrightarrow> (case x of Inl e \<Rightarrow> cs = [] \<and> r = Inl e | Inr y \<Rightarrow> f y = (cs, r))"
  by (auto simp: on_ok_def thrown_def split: sum.splits)

lemmas answer_simps = require_answer on_ok_answer thrown_def

lemma scan_empty: "scan_content env w [] = Inr emptyWorkspaceManifest"
  by (simp add: scan_content_def scanWorkspaceTree_def scan_start_def sort_by_def emptyWorkspaceManifest_def)

lemma new_workspace_fields:
  "get (new_workspace i fresh now) ''manifest'' = emptyWorkspaceManifest" "ws_revision (new_workspace i fresh now) = 1"
  by (simp_all add: new_workspace_def ws_revision_def)

lemma create_crash_safe:
  assumes s: "sound_disk env ws d" and r: "ws_create (with_times env stamp) fresh now i m d = (cs, r)"
  shows "crash_safe env d cs"
proof -
  let ?w = "new_workspace i fresh now"
  have index: "loadIndex d = Inr ws" using s by (simp add: sound_disk_def)
  consider "cs = []" | "cs = [MakeRevision (ws_name ?w) 1, DropWorkspace (ws_name ?w)]" "\<not> list_ex (\<lambda>x. ws_id x = ws_id ?w) ws"
      "validateCollaborationWorkspace ?w = None"
    | c where "cs = [MakeRevision (ws_name ?w) 1, c]" "saveIndex (ws @ [?w]) = Inr c" "\<not> list_ex (\<lambda>x. ws_id x = ws_id ?w) ws"
    using r index by (auto simp: ws_create_def answer_simps Let_def split: option.splits if_splits sum.splits)
  then show ?thesis
  proof cases
    case 1
    then show ?thesis using crash_safe_nil [OF s] by simp
  next
    case 2
    have "\<forall>x\<in>set ws. ws_name x \<noteq> ws_name ?w"
      using 2(2) loadIndex_valid(1) [OF index] same_name [OF _ 2(3)] by (simp add: list_ex_iff)
    then have "list_all (harmless ws) cs" using 2(1) by simp
    then show ?thesis by (rule harmless_crash_safe [OF _ s])
  next
    case 3
    let ?d = "disk_apply (MakeRevision (ws_name ?w) 1) d"
    have valid: "validateCollaborationWorkspace ?w = None" using 3(2) by (auto simp: saveIndex_Inr)
    have fresh: "ws_name ?w \<notin> ws_name ` set ws"
    proof
      assume "ws_name ?w \<in> ws_name ` set ws"
      then obtain x where x: "x \<in> set ws" "ws_name x = ws_name ?w" by auto
      then have "ws_id x = ws_id ?w" using loadIndex_valid(1) [OF index] same_name [OF _ valid, of x] by simp
      with x(1) 3(3) show False by (auto simp: list_ex_iff)
    qed
    have s1: "sound_disk env ws ?d" by (rule harmless_sound [OF _ s]) simp
    have empty: "dk_revisions ?d (ws_name ?w, 1) = Some []"
      using s fresh by (auto simp: sound_disk_def split: option.splits)
    have "faithful env ?w []"
      by (simp add: faithful_def scan_empty new_workspace_fields sameManifestContent_def emptyWorkspaceManifest_def)
    with empty have "\<exists>es. dk_revisions ?d (ws_name ?w, ws_revision ?w) = Some es \<and> faithful env ?w es"
      by (simp add: new_workspace_fields)
    moreover have "dk_revisions (disk_apply c ?d) = dk_revisions ?d" using 3(2) by (auto simp: saveIndex_Inr)
    ultimately have "sound_disk env (ws @ [?w]) (disk_apply c ?d)"
      using s1 loadIndex_put [OF 3(2), of ?d] unfolding sound_disk_def by auto
    from crash_safe_update [of ws "[MakeRevision (ws_name ?w) 1]" env d "ws @ [?w]" c "[]"] s this 3(1)
    show ?thesis by simp
  qed
qed

text \<open>Expired Workspaces are dropped from the disk and then from the index.\<close>

lemma drop_crash_safe:
  assumes s: "sound_disk env ws d" and xs: "set xs \<subseteq> set ws" "\<forall>w\<in>set xs. ephemeral w"
  shows "crash_safe env d (map (\<lambda>w. DropWorkspace (ws_name w)) xs @ [PutIndex (index_json (filter (\<lambda>w. ws_id w \<notin> ws_id ` set xs) ws))])"
proof -
  let ?cs = "map (\<lambda>w. DropWorkspace (ws_name w)) xs" and ?P = "\<lambda>w. ws_id w \<notin> ws_id ` set xs"
  have index: "loadIndex d = Inr ws" using s by (simp add: sound_disk_def)
  have "ephemeral x" if "w \<in> set xs" "x \<in> set ws" "ws_name x = ws_name w" for w x
    using index_names [OF index _ that(2,3)] that(1) xs by blast
  then have hs: "list_all (harmless ws) ?cs" by (auto simp: list_all_iff)
  have none: "\<forall>w n. MakeRevision w n \<notin> set ?cs \<and> PublishRevision w n \<notin> set ?cs" by auto
  have gone: "ephemeral w \<and> (\<forall>n. dk_revisions (disk_after ?cs d) (ws_name w, n) = None)"
    if w: "w \<in> set ws" "\<not> ?P w" for w
  proof -
    obtain x where x: "x \<in> set xs" "ws_id w = ws_id x" using w(2) by auto
    then have "w = x" using index_names [OF index _ w(1), of x] xs(1) by (auto simp: ws_name_def)
    with x have "DropWorkspace (ws_name w) \<in> set ?cs" "ephemeral w" using xs(2) by auto
    with dropped_stays(2) [OF none] show ?thesis by blast
  qed
  have "sound_disk env (filter ?P ws) (disk_apply (PutIndex (index_json (filter ?P ws))) (disk_after ?cs d))"
    by (rule removed_sound [OF harmless_after [OF hs s] _ saved_filter [OF index]]) (use gone in blast)
  from crash_safe_update [OF hs s this, of "[]"] show ?thesis by simp
qed

lemma expired_ephemeral: "loadIndex d = Inr ws \<Longrightarrow> w \<in> set ws \<Longrightarrow> isExpired w now \<Longrightarrow> ephemeral w"
  using loadIndex_valid(1) durable_not_expired by blast

lemma get_crash_safe:
  assumes s: "sound_disk env ws d" and r: "ws_get (with_times env stamp) now name m d = (cs, r)"
  shows "crash_safe env d cs"
proof -
  have index: "loadIndex d = Inr ws" using s by (simp add: sound_disk_def)
  consider "cs = []" | w where "w \<in> set ws" "isExpired w now"
      "cs = [DropWorkspace (ws_name w), PutIndex (index_json (filter (\<lambda>x. ws_id x \<noteq> ws_id w) ws))]"
    using r index saved_filter [OF index]
    by (auto simp: ws_get_def removeFromIndex_def find_workspace_def answer_simps Let_def dest!: find_first_Some
        split: option.splits if_splits sum.splits)
  then show ?thesis
  proof cases
    case 2
    have "\<forall>x\<in>set [w]. ephemeral x" using expired_ephemeral [OF index 2(1,2)] by simp
    from drop_crash_safe [OF s _ this] 2(1,3) show ?thesis by simp
  qed (use crash_safe_nil [OF s] in simp)
qed

lemma cleanup_crash_safe:
  assumes s: "sound_disk env ws d" and r: "ws_cleanup (with_times env stamp) now m d = (cs, r)"
  shows "crash_safe env d cs"
proof -
  have index: "loadIndex d = Inr ws" using s by (simp add: sound_disk_def)
  let ?xs = "filter (\<lambda>w. isExpired w now) ws"
  consider "cs = []" | "cs = map (\<lambda>w. DropWorkspace (ws_name w)) ?xs
      @ [PutIndex (index_json (filter (\<lambda>w. ws_id w \<notin> ws_id ` set ?xs) ws))]"
    using r index saved_filter [OF index] by (auto simp: ws_cleanup_def answer_simps Let_def split: option.splits if_splits)
  then show ?thesis
  proof cases
    case 2
    have "\<forall>w\<in>set ?xs. ephemeral w" using expired_ephemeral [OF index] by auto
    from drop_crash_safe [OF s _ this] 2 show ?thesis by auto
  qed (use crash_safe_nil [OF s] in simp)
qed

lemma snapshot_changes:
  "fst (createSnapshot env fresh now name revision acc m d) = []
   \<or> (\<exists>sid es. fst (createSnapshot env fresh now name revision acc m d) = [PutSnapshot sid es])
   \<or> (\<exists>sid. fst (createSnapshot env fresh now name revision acc m d) = [PutSnapshot sid [], DropSnapshot sid])"
  by (simp add: createSnapshot_def require_def on_ok_def thrown_def Let_def split: option.split sum.split)

lemma snapshot_crash_safe:
  assumes s: "sound_disk env ws d" and r: "createSnapshot (with_times env stamp) fresh now name revision acc m d = (cs, r)"
  shows "crash_safe env d cs"
  using snapshot_changes [of "with_times env stamp" fresh now name revision acc m d] r
  by (intro harmless_crash_safe [OF _ s]) auto

lemma discard_crash_safe:
  assumes s: "sound_disk env ws d" and r: "discardSnapshot snapshot m = (cs, r)"
  shows "crash_safe env d cs"
proof -
  have "list_all (harmless ws) cs" using r by (auto simp: discardSnapshot_def thrown_def split: option.splits if_splits)
  then show ?thesis by (rule harmless_crash_safe [OF _ s])
qed

section \<open>Committing\<close>

lemma next_workspace_fields:
  "ws_id (next_workspace w manifest now) = ws_id w" "ws_name (next_workspace w manifest now) = ws_name w"
  "ws_revision (next_workspace w manifest now) = ws_revision w + 1" "get (next_workspace w manifest now) ''manifest'' = manifest"
  "ws_quota (next_workspace w manifest now) = ws_quota w" "get (next_workspace w manifest now) ''revision'' = jint (ws_revision w + 1)"
  "ephemeral (next_workspace w manifest now) = ephemeral w"
  by (simp_all add: next_workspace_def ws_name_def ws_id_def ws_revision_def ws_quota_def ephemeral_def get_spread)

lemma scan_quota: "ws_quota w = ws_quota x \<Longrightarrow> scan_content env w es = scan_content env x es"
  by (simp add: scan_content_def)

lemma set_replace: "w \<in> set ws \<Longrightarrow> loadIndex d = Inr ws \<Longrightarrow> ws_id w' = ws_id w
    \<Longrightarrow> set (replace_workspace w' ws) = insert w' (set ws - {w})"
proof -
  assume w: "w \<in> set ws" and index: "loadIndex d = Inr ws" and id: "ws_id w' = ws_id w"
  have "x = w" if "x \<in> set ws" "ws_id x = ws_id w" for x
    using loadIndex_valid(2) [OF index] w that by (simp add: distinct_map inj_on_def)
  then show ?thesis using w id by (auto simp: replace_workspace_def)
qed

lemma harmless_publish:
  assumes "loadIndex d = Inr ws" "w \<in> set ws"
  shows "harmless ws (PublishRevision (ws_name w) (ws_revision w + 1))" "harmless ws (DropRevision (ws_name w) (ws_revision w + 1))"
  using assms(2) index_names [OF assms] by fastforce+

text \<open>What \<open>publish\<close> does: nothing harmful on an error, and a new revision otherwise.\<close>

lemma publish_cases:
  assumes index: "loadIndex d = Inr ws" and w: "w \<in> set ws" and p: "publish env now ws w es d = (cs, r)"
  shows "(\<exists>e. r = Inl e \<and> list_all (harmless ws) cs)
    \<or> (\<exists>manifest c. r = Inr (next_workspace w manifest now) \<and> scan_content env w es = Inr manifest
        \<and> validateWorkspaceManifest manifest (Some (ws_quota w)) = None
        \<and> saveIndex (replace_workspace (next_workspace w manifest now) ws) = Inr c
        \<and> cs = [StartRevision (ws_name w) es, PublishRevision (ws_name w) (ws_revision w + 1), c])"
proof -
  note h = harmless_publish [OF index w]
  show ?thesis
  proof (cases "rbind (scan_content env w es) (\<lambda>manifest. guarded (validateWorkspaceManifest manifest (Some (ws_quota w))) (Inr manifest))")
    case (Inl e)
    have "r = Inl e" "cs = [StartRevision (ws_name w) es, DropPartial (ws_name w)]"
      using p unfolding publish_def Let_def Inl by simp_all
    then show ?thesis by simp
  next
    case (Inr manifest)
    then have scan: "scan_content env w es = Inr manifest" "validateWorkspaceManifest manifest (Some (ws_quota w)) = None"
      by (auto simp: rbind_Inr_conv guarded_Inr_conv)
    let ?save = "rbind (guarded (validateCollaborationWorkspace (next_workspace w manifest now)) (Inr (next_workspace w manifest now)))
      (\<lambda>x. saveIndex (replace_workspace x ws))"
    show ?thesis
    proof (cases ?save)
      case (Inl e)
      with p Inr h show ?thesis by (auto simp: publish_def Let_def split: if_splits simp del: harmless.simps(2,3))
    next
      case c: (Inr c)
      then have "saveIndex (replace_workspace (next_workspace w manifest now) ws) = Inr c"
        by (auto simp: rbind_Inr_conv guarded_Inr_conv)
      with p Inr c scan show ?thesis by (auto simp: publish_def Let_def split: if_splits)
    qed
  qed
qed

lemma published_sound:
  assumes s: "sound_disk env ws d" and w: "w \<in> set ws"
    and scan: "scan_content (with_times env stamp) w es = Inr manifest"
    and c: "saveIndex (replace_workspace (next_workspace w manifest now) ws) = Inr c"
  shows "sound_disk env (replace_workspace (next_workspace w manifest now) ws)
    (disk_after [StartRevision (ws_name w) es, PublishRevision (ws_name w) (ws_revision w + 1), c] d)"
proof -
  let ?w = "next_workspace w manifest now" and ?d = "disk_after [StartRevision (ws_name w) es, PublishRevision (ws_name w) (ws_revision w + 1), c] d"
  have index: "loadIndex d = Inr ws" using s by (simp add: sound_disk_def)
  note set = set_replace [OF w index next_workspace_fields(1), of manifest now]
  have revs: "dk_revisions ?d = (dk_revisions d)((ws_name w, ws_revision w + 1) := Some es)"
    using c by (auto simp: saveIndex_Inr)
  have "faithful env ?w es"
    unfolding faithful_def
  proof
    fix stamp'
    have "scan_content (with_times env stamp') ?w es = scanWorkspaceTree (we_collate env) (we_sha env) stamp' (ws_quota w) es"
      "scan_content (with_times env stamp) w es = scanWorkspaceTree (we_collate env) (we_sha env) stamp (ws_quota w) es"
      by (simp_all add: scan_content_def with_times_def next_workspace_fields)
    with scan_tree_stamp [of "we_collate env" "we_sha env" stamp "ws_quota w" es manifest stamp'] scan
    show "\<exists>m. scan_content (with_times env stamp') ?w es = Inr m \<and> sameManifestContent m (get ?w ''manifest'')"
      by (simp add: next_workspace_fields)
  qed
  then have new: "\<exists>es. dk_revisions ?d (ws_name ?w, ws_revision ?w) = Some es \<and> faithful env ?w es"
    unfolding revs next_workspace_fields by simp
  have old: "\<exists>es. dk_revisions ?d (ws_name x, ws_revision x) = Some es \<and> faithful env x es"
    if "x \<in> set ws" "x \<noteq> w" "\<not> ephemeral x" for x
  proof -
    have "ws_name x \<noteq> ws_name w" using index_names [OF index w that(1)] that(2) by blast
    then have "dk_revisions ?d (ws_name x, ws_revision x) = dk_revisions d (ws_name x, ws_revision x)" unfolding revs by simp
    then show ?thesis using s that(1,3) unfolding sound_disk_def by metis
  qed
  have names: "ws_name ` set (replace_workspace ?w ws) = ws_name ` set ws"
    using w by (auto simp: set next_workspace_fields image_iff)
  have "es' = []" if "name \<notin> ws_name ` set ws" "dk_revisions ?d (name, n) = Some es'" for name n es'
  proof -
    have "name \<noteq> ws_name w" using that(1) w by auto
    then have "dk_revisions d (name, n) = Some es'" using that(2) unfolding revs by simp
    then show ?thesis using s that(1) unfolding sound_disk_def by blast
  qed
  moreover have "loadIndex ?d = Inr (replace_workspace ?w ws)" using loadIndex_put [OF c] by simp
  ultimately show ?thesis unfolding sound_disk_def names using new old by (auto simp: set)
qed

text \<open>The answer of a commit, on every branch.\<close>

lemma commit_cases:
  assumes s: "loadIndex d = Inr ws" and r: "commitSnapshot env now seen content snapshot m d = (cs, r)"
  shows "(\<exists>e. r = Inl e \<and> list_all (harmless ws) cs)
    \<or> (\<exists>active w es manifest c. requireActiveSnapshot snapshot m = Inr active \<and> may_write active
        \<and> find_first (\<lambda>x. ws_id x = get active ''workspaceId'') ws = Some w
        \<and> get w ''revision'' = get active ''workspaceRevision'' \<and> copyTreeNoSymlinks content = Inr es
        \<and> scan_content env w es = Inr manifest \<and> validateWorkspaceManifest manifest (Some (ws_quota w)) = None
        \<and> saveIndex (replace_workspace (next_workspace w manifest now) ws) = Inr c
        \<and> cs = [StartRevision (ws_name w) es, PublishRevision (ws_name w) (ws_revision w + 1), c, DropSnapshot (active_id active)]
        \<and> r = Inr (forget_snapshot active m, next_workspace w manifest now))"
proof -
  have nothing: ?thesis if "r = Inl e" "cs = []" for e using that by simp
  show ?thesis
  proof (cases "requireInitialized m")
    case (Some e)
    then show ?thesis using r by (auto simp: commitSnapshot_def require_def thrown_def)
  next
    case None
    show ?thesis
    proof (cases "requireActiveSnapshot snapshot m")
      case (Inl e)
      then show ?thesis using r None by (auto simp: commitSnapshot_def require_def on_ok_def thrown_def)
    next
      case active: (Inr active)
      show ?thesis
      proof (cases "find_first (\<lambda>x. ws_id x = get active ''workspaceId'') ws")
        case Nothing: None
        then show ?thesis using r None active s nothing
          by (auto simp: commitSnapshot_def require_def on_ok_def thrown_def split: if_splits)
      next
        case w: (Some w)
        have in_ws: "w \<in> set ws" using find_first_Some [OF w] by simp
        show ?thesis
        proof (cases "copyTreeNoSymlinks content")
          case (Inl e)
          then show ?thesis using r None active s w nothing
            by (auto simp: commitSnapshot_def require_def on_ok_def thrown_def split: if_splits sum.splits option.splits)
        next
          case es: (Inr es)
          obtain pc pr where p: "publish env now ws w es d = (pc, pr)" by force
          from publish_cases [OF s in_ws p] r None active s w es p show ?thesis
            by (auto simp: commitSnapshot_def require_def on_ok_def thrown_def split: if_splits sum.splits option.splits)
        qed
      qed
    qed
  qed
qed

lemma commit_crash_safe:
  assumes s: "sound_disk env ws d" and r: "commitSnapshot (with_times env stamp) now seen content snapshot m d = (cs, r)"
  shows "crash_safe env d cs"
proof -
  have index: "loadIndex d = Inr ws" using s by (simp add: sound_disk_def)
  from commit_cases [OF index r] show ?thesis
  proof (elim disjE exE conjE)
    show "crash_safe env d cs" if "list_all (harmless ws) cs" by (rule harmless_crash_safe [OF that s])
  next
    fix active w es manifest c
    assume w: "find_first (\<lambda>x. ws_id x = get active ''workspaceId'') ws = Some w"
      and scan: "scan_content (with_times env stamp) w es = Inr manifest"
      and c: "saveIndex (replace_workspace (next_workspace w manifest now) ws) = Inr c"
      and cs: "cs = [StartRevision (ws_name w) es, PublishRevision (ws_name w) (ws_revision w + 1), c, DropSnapshot (active_id active)]"
    have w: "w \<in> set ws" using find_first_Some [OF w] by simp
    have "list_all (harmless ws) [StartRevision (ws_name w) es, PublishRevision (ws_name w) (ws_revision w + 1)]"
      using harmless_publish(1) [OF index w] by (simp del: harmless.simps(2))
    from crash_safe_update [OF this s _ , of _ c "[DropSnapshot (active_id active)]"] published_sound [OF s w scan c]
    show "crash_safe env d cs" by (simp add: cs)
  qed
qed

section \<open>Runs with crashes\<close>

definition memory_after :: "ws_memory \<Rightarrow> (ws_memory \<times> 'a) result \<Rightarrow> ws_memory" where
  "memory_after m r = (case r of Inl e \<Rightarrow> m | Inr (m', x) \<Rightarrow> m')"

text \<open>A call with the changes it makes on the disk and the memory it leaves.\<close>

inductive ws_call :: "ws_env \<Rightarrow> ws_memory \<Rightarrow> ws_disk \<Rightarrow> disk_write list \<Rightarrow> ws_memory \<Rightarrow> bool" for env where
  call_initialize: "initialize (with_times env stamp) m d = (cs, r) \<Longrightarrow> ws_call env m d cs (memory_after m r)"
| call_create: "ws_create (with_times env stamp) fresh now i m d = (cs, r) \<Longrightarrow> ws_call env m d cs (memory_after m r)"
| call_get: "ws_get (with_times env stamp) now name m d = (cs, r) \<Longrightarrow> ws_call env m d cs (memory_after m r)"
| call_snapshot: "createSnapshot (with_times env stamp) fresh now name revision acc m d = (cs, r)
    \<Longrightarrow> ws_call env m d cs (memory_after m r)"
| call_commit: "commitSnapshot (with_times env stamp) now seen content snapshot m d = (cs, r)
    \<Longrightarrow> ws_call env m d cs (memory_after m r)"
| call_discard: "discardSnapshot snapshot m = (cs, r) \<Longrightarrow> ws_call env m d cs (memory_after m r)"
| call_cleanup: "ws_cleanup (with_times env stamp) now m d = (cs, r) \<Longrightarrow> ws_call env m d cs (memory_after m r)"

definition empty_disk :: ws_disk where
  "empty_disk = \<lparr>dk_index = NoFile, dk_revisions = (\<lambda>_. None), dk_partial = (\<lambda>_. None), dk_snapshots = (\<lambda>_. None)\<rparr>"

text \<open>A crash keeps a prefix of the changes and loses the memory.\<close>

inductive ws_run :: "ws_env \<Rightarrow> ws_memory \<Rightarrow> ws_disk \<Rightarrow> bool" for env where
  run_start: "ws_run env fresh_memory empty_disk"
| run_call: "ws_run env m d \<Longrightarrow> ws_call env m d cs m' \<Longrightarrow> ws_run env m' (disk_after cs d)"
| run_crash: "ws_run env m d \<Longrightarrow> ws_call env m d cs m' \<Longrightarrow> ws_run env fresh_memory (disk_after (take n cs) d)"

lemma call_crash_safe:
  assumes "env_ok env" "sound_disk env ws d" "ws_call env m d cs m'"
  shows "crash_safe env d cs"
  using assms(3)
proof cases
  case (call_initialize stamp r)
  then show ?thesis
  proof (cases "wm_initialized m")
    case True
    then have "cs = []" using call_initialize by (simp add: initialize_def)
    then show ?thesis using crash_safe_nil [OF assms(2)] by simp
  qed (use init_sound [OF assms(1,2)] in blast)
qed (use assms(2) in \<open>blast intro: create_crash_safe get_crash_safe snapshot_crash_safe commit_crash_safe
  discard_crash_safe cleanup_crash_safe\<close>)+

lemma run_recoverable:
  assumes "env_ok env" "ws_run env m d"
  shows "recoverable env d"
  using assms(2)
proof induction
  case run_start
  have "sound_disk env [] empty_disk" by (simp add: sound_disk_def loadIndex_def empty_disk_def)
  then show ?case by (auto simp: recoverable_def)
next
  case (run_call m d cs m')
  then obtain ws where "sound_disk env ws d" by (auto simp: recoverable_def)
  from call_crash_safe [OF assms(1) this run_call(2)] have "recoverable env (disk_after (take (length cs) cs) d)"
    unfolding crash_safe_def by blast
  then show ?case by simp
next
  case (run_crash m d cs m' n)
  then obtain ws where "sound_disk env ws d" by (auto simp: recoverable_def)
  from call_crash_safe [OF assms(1) this run_crash(2)] show ?case unfolding crash_safe_def by blast
qed

section \<open>Properties\<close>

text \<open>
  C6: After any run of the operations of the Workspace store, with a crash between any two changes of the disk,
  a restart succeeds: \<open>initialize\<close> returns, it keeps exactly the durable Workspaces of the index, and each of them is
  at its published revision with the content that its manifest describes.
\<close>

theorem workspaces_survive_crashes:
  assumes "env_ok env" and "ws_run env m d"
  shows "\<exists>ws cs m'. loadIndex d = Inr ws \<and> initialize (with_times env stamp) fresh_memory d = (cs, Inr (m', ()))
    \<and> wm_initialized m' \<and> loadIndex (disk_after cs d) = Inr (filter (\<lambda>w. \<not> ephemeral w) ws)
    \<and> (\<forall>w\<in>set ws. \<not> ephemeral w \<longrightarrow> verifyPersistedWorkspace (with_times env stamp) (disk_after cs d) w = None)"
proof -
  obtain ws where s: "sound_disk env ws d" using run_recoverable [OF assms] by (auto simp: recoverable_def)
  obtain cs r where i: "initialize (with_times env stamp) fresh_memory d = (cs, r)" by force
  have new: "\<not> wm_initialized fresh_memory" by (simp add: fresh_memory_def)
  note started = init_sound [OF assms(1) s new i]
  have kept: "sound_disk env (filter (\<lambda>w. \<not> ephemeral w) ws) (disk_after cs d)" using started by blast
  have "verifyPersistedWorkspace (with_times env stamp) (disk_after cs d) w = None" if "w \<in> set ws" "\<not> ephemeral w" for w
    by (rule verify_sound(1) [OF assms(1) kept]) (use that in auto)
  then show ?thesis using i started s kept by (auto simp: sound_disk_def)
qed

lemma copyTree_same: "copyTreeNoSymlinks es = Inr es' \<Longrightarrow> es' = es"
  by (induction es arbitrary: es' rule: copyTreeNoSymlinks.induct) (auto split: ws_entry.splits sum.splits)

text \<open>
  C13: A commit that succeeds raises the revision by one, publishes the tree that it copied as the content of the
  new revision with a manifest of that tree, whatever was seen when the snapshot was scanned first, keeps the content
  of every other revision, stays within the quota of the Workspace and forgets the snapshot.
\<close>

theorem commit_publishes_the_copy:
  assumes "loadIndex d = Inr ws" and "commitSnapshot env now seen content snapshot m d = (cs, Inr (m', w'))"
  shows "\<exists>w active manifest. w \<in> set ws \<and> ws_id w' = ws_id w \<and> ws_revision w' = ws_revision w + 1
    \<and> dk_revisions (disk_after cs d) = (dk_revisions d)((ws_name w, ws_revision w + 1) := Some content)
    \<and> loadIndex (disk_after cs d) = Inr (replace_workspace w' ws)
    \<and> get w' ''manifest'' = manifest \<and> scan_content env w content = Inr manifest
    \<and> validateWorkspaceManifest manifest (Some (ws_quota w)) = None
    \<and> requireActiveSnapshot snapshot m = Inr active \<and> may_write active \<and> m' = forget_snapshot active m"
proof -
  from commit_cases [OF assms] obtain active w es manifest c where
    a: "requireActiveSnapshot snapshot m = Inr active" "may_write active" and w: "find_first (\<lambda>x. ws_id x = get active ''workspaceId'') ws = Some w"
    and es: "copyTreeNoSymlinks content = Inr es" and scan: "scan_content env w es = Inr manifest"
    and v: "validateWorkspaceManifest manifest (Some (ws_quota w)) = None"
    and c: "saveIndex (replace_workspace (next_workspace w manifest now) ws) = Inr c"
    and cs: "cs = [StartRevision (ws_name w) es, PublishRevision (ws_name w) (ws_revision w + 1), c, DropSnapshot (active_id active)]"
    and r: "m' = forget_snapshot active m" "w' = next_workspace w manifest now"
    by auto
  have es': "es = content" by (rule copyTree_same [OF es])
  have "dk_revisions (disk_after cs d) = (dk_revisions d)((ws_name w, ws_revision w + 1) := Some content)"
    using c by (auto simp: cs es' saveIndex_Inr)
  moreover have "loadIndex (disk_after cs d) = Inr (replace_workspace w' ws)"
    using c by (auto simp: cs r saveIndex_Inr loadIndex_def guarded_Inr_conv validateIndex_json index_json_def)
      (metis index_json_def validateIndex_json guarded_simps(1))
  ultimately show ?thesis
    using find_first_Some [OF w] scan v a r next_workspace_fields es' by (intro exI [of _ w] exI [of _ active] exI [of _ manifest]) auto
qed





















section \<open>A sample run\<close>

definition ws_sample_env :: ws_env where
  "ws_sample_env = \<lparr>we_b64 = (\<lambda>_. ''x''), we_platform = Macos, we_workspaces = ''/srv/workspaces'', we_snapshots = ''/srv/snapshots'',
     we_collate = str_le, we_sha = (\<lambda>_. replicate 64 (CHR ''0'')), we_stamp = (\<lambda>_. 0)\<rparr>"

definition ws_sample_create :: create_input where
  "ws_sample_create = \<lparr>ci_workspace_id = Some ''ws-1'', ci_owner = ''teti_abc123def'', ci_participants = [''teti_me1234567''],
     ci_mode = ''durable_collaboration'', ci_quota = None, ci_retention = None\<rparr>"

definition ws_sample_workspace :: json where
  "ws_sample_workspace = new_workspace ws_sample_create ''id'' 1000"

definition ws_sample_snapshot :: "string \<Rightarrow> json" where
  "ws_sample_snapshot sid = snapshot_json sid ws_sample_workspace (JArr [JStr ''read'', JStr ''write'']) (''/srv/snapshots/'' @ sid) 2000"

text \<open>The snapshots \<open>a\<close> and \<open>b\<close> of the first revision.\<close>

definition ws_sample_memory :: ws_memory where
  "ws_sample_memory = \<lparr>wm_initialized = True, wm_active = [(''a'', ws_sample_snapshot ''a''), (''b'', ws_sample_snapshot ''b'')]\<rparr>"

definition ws_sample_disk :: ws_disk where
  "ws_sample_disk = \<lparr>dk_index = JsonFile (index_json [ws_sample_workspace]), dk_revisions = (\<lambda>_. None)((''ws-1'', 1) := Some []),
     dk_partial = (\<lambda>_. None), dk_snapshots = (\<lambda>_. None)(''a'' := Some [], ''b'' := Some [])\<rparr>"

definition ws_sample_content :: "ws_entry list" where
  "ws_sample_content = [FileEntry ''notes.md'' ''hello'']"

lemma ws_sample_load: "loadIndex ws_sample_disk = Inr [ws_sample_workspace]"
proof -
  have "validateIndex (index_json [ws_sample_workspace]) = None" by code_simp
  then show ?thesis by (simp add: loadIndex_def ws_sample_disk_def index_json_def)
qed

lemma ws_sample_committed:
  "(case commitSnapshot ws_sample_env 3000 [] ws_sample_content (ws_sample_snapshot ''a'') ws_sample_memory ws_sample_disk of
       (cs, Inl e) \<Rightarrow> False
     | (cs, Inr (m', w')) \<Rightarrow> wm_initialized m' \<and> requireActiveSnapshot (ws_sample_snapshot ''b'') m' = Inr (ws_sample_snapshot ''b''))"
  by code_simp



theorem commit_publishes_the_copy_witness:
  "\<exists>cs m' w'. commitSnapshot ws_sample_env 3000 [] ws_sample_content (ws_sample_snapshot ''a'') ws_sample_memory ws_sample_disk = (cs, Inr (m', w'))
    \<and> dk_revisions (disk_after cs ws_sample_disk) (ws_name ws_sample_workspace, ws_revision ws_sample_workspace + 1) = Some ws_sample_content"
proof -
  obtain cs m' w' where c: "commitSnapshot ws_sample_env 3000 [] ws_sample_content (ws_sample_snapshot ''a'') ws_sample_memory ws_sample_disk
        = (cs, Inr (m', w'))"
    using ws_sample_committed by (auto split: prod.splits sum.splits)
  from commit_publishes_the_copy [OF ws_sample_load c] c show ?thesis by auto
qed

text \<open>A store that crashes after it has published a revision and before it has saved the index.\<close>

definition ws_sample_start :: ws_disk where
  "ws_sample_start = disk_after (fst (initialize (with_times ws_sample_env (\<lambda>_. 0)) fresh_memory empty_disk)) empty_disk"

theorem workspaces_survive_crashes_witness:
  "\<exists>cs m'. initialize (with_times ws_sample_env (\<lambda>_. 5)) fresh_memory
      (disk_after (take 1 (fst (ws_create (with_times ws_sample_env (\<lambda>_. 0)) ''id'' 1000 ws_sample_create
        (fresh_memory\<lparr>wm_initialized := True\<rparr>) ws_sample_start))) ws_sample_start) = (cs, Inr (m', ()))"
proof -
  let ?env = "with_times ws_sample_env (\<lambda>_. 0)" and ?m = "fresh_memory\<lparr>wm_initialized := True\<rparr>"
  have ok: "env_ok ws_sample_env" by (simp add: env_ok_def ws_sample_env_def)
  have s: "sound_disk ws_sample_env [] empty_disk" by (simp add: sound_disk_def loadIndex_def empty_disk_def)
  obtain cs r where i: "initialize ?env fresh_memory empty_disk = (cs, r)" by force
  have r: "r = Inr (?m, ())" using init_sound [OF ok s _ i] by (simp add: fresh_memory_def)
  have run: "ws_run ws_sample_env ?m ws_sample_start"
    using run_call [OF run_start call_initialize [OF i]] by (simp add: ws_sample_start_def i r memory_after_def)
  obtain cs' r' where c: "ws_create ?env ''id'' 1000 ws_sample_create ?m ws_sample_start = (cs', r')" by force
  from workspaces_survive_crashes [OF ok run_crash [OF run call_create [OF c], of 1], of "\<lambda>_. 5"] c show ?thesis by auto
qed

end
