(* ===== verification/Release_Policy.thy ===== *)
theory Release_Policy
  imports Js_Date Json_Text "HOL-Library.Product_Lexorder" "HOL-Library.List_Lexorder"
begin

text \<open>
  The release policy (\<open>core/release/policy.ts\<close>) and the service that keeps it
  (\<open>lifecycle-sidecar/runtime/release/service.ts\<close>): the order of version numbers, the validator of a policy, and
  the status of the local build under the policy that the network or the cache file gave last. A policy is a
  record, a value that was parsed is a \<open>json\<close>. The answer of the network, the clock and whether the cache could be
  written are arguments.
\<close>

section \<open>Version numbers\<close>

text \<open>One number of a version, and one identifier of its prerelease part, as \<open>isTetiVersion\<close> has them.\<close>

definition numeric_identifier :: "string \<Rightarrow> bool" where
  "numeric_identifier s \<longleftrightarrow> s = ''0'' \<or> (s \<noteq> [] \<and> hd s \<noteq> CHR ''0'' \<and> list_all is_digit s)"

definition prerelease_identifier :: "string \<Rightarrow> bool" where
  "prerelease_identifier s \<longleftrightarrow> numeric_identifier s
     \<or> (list_all (\<lambda>c. is_alnum c \<or> c = CHR ''-'') s \<and> list_ex (\<lambda>c. \<not> is_digit c) s)"

text \<open>The text before the first \<open>-\<close>, and the text after it.\<close>

definition core_text :: "string \<Rightarrow> string" where
  "core_text s = takeWhile (\<lambda>c. c \<noteq> CHR ''-'') s"

definition prerelease_text :: "string \<Rightarrow> string option" where
  "prerelease_text s = (case dropWhile (\<lambda>c. c \<noteq> CHR ''-'') s of [] \<Rightarrow> None | _ # r \<Rightarrow> Some r)"

definition isTetiVersion :: "json \<Rightarrow> bool" where
  "isTetiVersion v \<longleftrightarrow> is_string v
     \<and> length (split_on (CHR ''.'') (core_text (str_of v))) = 3
     \<and> list_all numeric_identifier (split_on (CHR ''.'') (core_text (str_of v)))
     \<and> (case prerelease_text (str_of v) of None \<Rightarrow> True
        | Some p \<Rightarrow> list_all prerelease_identifier (split_on (CHR ''.'') p))"

text \<open>
  \<open>Number\<close> of a string of digits: the nearest double, ties to even. \<open>excess_bits\<close> is the number of bits that do not
  fit into the mantissa.
\<close>

function excess_bits :: "int \<Rightarrow> nat" where
  "excess_bits n = (if n < 2 ^ 53 then 0 else Suc (excess_bits (n div 2)))"
  by auto
termination by (relation "measure nat") auto

declare excess_bits.simps [simp del]

definition round_double :: "int \<Rightarrow> int" where
  "round_double n = (let k = excess_bits n; q = n div 2 ^ k; r = 2 * (n mod 2 ^ k) in
     (if 2 ^ k < r \<or> (r = 2 ^ k \<and> odd q) then q + 1 else q) * 2 ^ k)"

definition digits_number :: "string \<Rightarrow> jsnum" where
  "digits_number s = (case digits_value 0 s of
       None \<Rightarrow> NonFinite ''NaN''
     | Some n \<Rightarrow> if 2 ^ 1024 \<le> round_double n then NonFinite ''Infinity'' else NInt (round_double n))"

text \<open>\<open><\<close> on such numbers.\<close>

fun number_less :: "jsnum \<Rightarrow> jsnum \<Rightarrow> bool" where
  "number_less (NInt i) (NInt j) = (i < j)"
| "number_less (NInt i) (NonFinite s) = (s = ''Infinity'')"
| "number_less _ _ = False"

record teti_version =
  tv_core :: "int list"
  tv_prerelease :: "string list"

definition version_error :: error where
  "version_error = PlainError ''Teti version must use semantic versioning.''"

definition parseTetiVersion :: "json \<Rightarrow> teti_version result" where
  "parseTetiVersion v =
     (if \<not> isTetiVersion v then Inl version_error
      else (let parts = map digits_number (split_on (CHR ''.'') (core_text (str_of v))) in
        if list_ex (\<lambda>n. \<not> num_is_safe n) parts then Inl (PlainError ''Teti version component is invalid.'')
        else Inr \<lparr>tv_core = map num_int parts,
          tv_prerelease = (case prerelease_text (str_of v) of None \<Rightarrow> []
             | Some p \<Rightarrow> if p = [] then [] else split_on (CHR ''.'') p)\<rparr>))"

definition requireTetiVersion :: "json \<Rightarrow> string result" where
  "requireTetiVersion v = rbind (parseTetiVersion v) (\<lambda>_. Inr (str_of v))"

fun compare_core :: "int list \<Rightarrow> int list \<Rightarrow> int" where
  "compare_core (a # as) (b # bs) = (if a \<noteq> b then (if a < b then -1 else 1) else compare_core as bs)"
| "compare_core _ _ = 0"

definition digits_only :: "string \<Rightarrow> bool" where
  "digits_only s \<longleftrightarrow> s \<noteq> [] \<and> list_all is_digit s"

definition compare_part :: "string \<Rightarrow> string \<Rightarrow> int" where
  "compare_part l r =
     (if digits_only l \<and> digits_only r then (if number_less (digits_number l) (digits_number r) then -1 else 1)
      else if digits_only l \<noteq> digits_only r then (if digits_only l then -1 else 1)
      else if str_le l r \<and> l \<noteq> r then -1 else 1)"

fun compare_parts :: "string list \<Rightarrow> string list \<Rightarrow> int" where
  "compare_parts [] [] = 0"
| "compare_parts [] (r # rs) = -1"
| "compare_parts (l # ls) [] = 1"
| "compare_parts (l # ls) (r # rs) = (if l = r then compare_parts ls rs else compare_part l r)"

definition compare_parsed :: "teti_version \<Rightarrow> teti_version \<Rightarrow> int" where
  "compare_parsed a b =
     (let c = compare_core (tv_core a) (tv_core b); p = tv_prerelease a; q = tv_prerelease b in
      if c \<noteq> 0 then c
      else if p = [] \<or> q = [] then (if length p = length q then 0 else if p = [] then 1 else -1)
      else compare_parts p q)"

definition compareTetiVersions :: "string \<Rightarrow> string \<Rightarrow> int result" where
  "compareTetiVersions l r = rbind (parseTetiVersion (JStr l)) (\<lambda>a.
     rbind (parseTetiVersion (JStr r)) (\<lambda>b. Inr (compare_parsed a b)))"

section \<open>Policies\<close>

record release_policy =
  rp_version :: int
  rp_minimum :: string
  rp_effective :: string

definition policy_json :: "release_policy \<Rightarrow> json" where
  "policy_json p = JObj [(''schemaVersion'', jint 1), (''policyVersion'', jint (rp_version p)), (''channel'', JStr ''beta''),
     (''minimumSupportedVersion'', JStr (rp_minimum p)), (''effectiveAt'', JStr (rp_effective p))]"

definition requireIsoTimestamp :: "json \<Rightarrow> string \<Rightarrow> string result" where
  "requireIsoTimestamp v label =
     (if \<not> is_string v \<or> \<not> valid_date (str_of v) then Inl (PlainError (label @ '' is invalid.''))
      else Inr (to_iso (date_ms (str_of v))))"

definition policy_checks :: "json \<Rightarrow> error option" where
  "policy_checks v = first_err
     [throw_if (\<not> is_record v) (PlainError ''Release Policy must be an object.''),
      throw_if (get v ''schemaVersion'' \<noteq> jint 1) (PlainError ''Release Policy schema is unsupported.''),
      throw_if (\<not> safe_int_from 1 (get v ''policyVersion'')) (PlainError ''Release Policy version is invalid.''),
      throw_if (get v ''channel'' \<noteq> JStr ''beta'') (PlainError ''Release Policy channel is unsupported.'')]"

definition validateTetiReleasePolicy :: "json \<Rightarrow> release_policy result" where
  "validateTetiReleasePolicy v = guarded (policy_checks v)
     (rbind (requireTetiVersion (get v ''minimumSupportedVersion'')) (\<lambda>minimum.
       rbind (requireIsoTimestamp (get v ''effectiveAt'') ''Release Policy effective time'') (\<lambda>effective.
         Inr \<lparr>rp_version = int_of (get v ''policyVersion''), rp_minimum = minimum, rp_effective = effective\<rparr>)))"

datatype release_state = Checking | Supported | UpdateRequired | TemporarilyUnavailable

definition releaseStateForPolicy :: "string \<Rightarrow> release_policy \<Rightarrow> int \<Rightarrow> release_state result" where
  "releaseStateForPolicy current p now = rbind (requireTetiVersion (JStr current)) (\<lambda>version.
     if now < date_ms (rp_effective p) then Inr Supported
     else rbind (compareTetiVersions version (rp_minimum p)) (\<lambda>c.
       Inr (if c < 0 then UpdateRequired else Supported)))"

section \<open>The service\<close>

datatype release_source = NoSource | FromCache | FromNetwork

datatype release_diagnostic = PolicyUnavailable | PolicyInvalid

record release_status =
  rl_state :: release_state
  rl_current :: string
  rl_build :: string
  rl_source :: release_source
  rl_checked :: "string option"
  rl_minimum :: "string option"
  rl_policy_version :: "int option"
  rl_effective :: "string option"
  rl_diagnostic :: "release_diagnostic option"

record release_service =
  rv_current :: string
  rv_build :: string
  rv_cached :: "(release_policy \<times> string) option"
  rv_status :: release_status

definition baseStatus :: "string \<Rightarrow> string \<Rightarrow> release_state \<Rightarrow> release_source \<Rightarrow> release_status" where
  "baseStatus current build state src = \<lparr>rl_state = state, rl_current = current, rl_build = build, rl_source = src,
     rl_checked = None, rl_minimum = None, rl_policy_version = None, rl_effective = None, rl_diagnostic = None\<rparr>"

definition new_service :: "string \<Rightarrow> string \<Rightarrow> release_service" where
  "new_service current build =
     \<lparr>rv_current = current, rv_build = build, rv_cached = None, rv_status = baseStatus current build Checking NoSource\<rparr>"

definition statusFromPolicy ::
  "release_service \<Rightarrow> int \<Rightarrow> release_policy \<Rightarrow> release_source \<Rightarrow> string \<Rightarrow> release_status result" where
  "statusFromPolicy s now p src checkedAt = rbind (releaseStateForPolicy (rv_current s) p now) (\<lambda>state.
     Inr ((baseStatus (rv_current s) (rv_build s) state src)\<lparr>rl_checked := Some checkedAt, rl_minimum := Some (rp_minimum p),
       rl_policy_version := Some (rp_version p), rl_effective := Some (rp_effective p)\<rparr>))"

definition cached_json :: "release_policy \<Rightarrow> string \<Rightarrow> json" where
  "cached_json p checkedAt =
     JObj [(''schemaVersion'', jint 1), (''policy'', policy_json p), (''checkedAt'', JStr checkedAt)]"

definition validateCachedReleasePolicy :: "json \<Rightarrow> (release_policy \<times> string) result" where
  "validateCachedReleasePolicy v = guarded (first_err
     [throw_if (\<not> is_record v \<or> get v ''schemaVersion'' \<noteq> jint 1) (PlainError ''Cached Release Policy schema is unsupported.''),
      throw_if (\<not> is_string (get v ''checkedAt'') \<or> \<not> valid_date (str_of (get v ''checkedAt'')))
        (PlainError ''Cached Release Policy timestamp is invalid.'')])
     (rbind (validateTetiReleasePolicy (get v ''policy'')) (\<lambda>p. Inr (p, to_iso (date_ms (str_of (get v ''checkedAt''))))))"

text \<open>\<open>FileReleasePolicyStore.load\<close>: \<open>null\<close> when there is no file.\<close>

definition release_store_load :: "json_file \<Rightarrow> json result" where
  "release_store_load f = (case f of NoFile \<Rightarrow> Inr JNull | NotJson \<Rightarrow> Inl (PlainError ''JSON.parse'') | JsonFile v \<Rightarrow> Inr v)"

definition invalid_cache_status :: "release_service \<Rightarrow> release_status" where
  "invalid_cache_status s = (baseStatus (rv_current s) (rv_build s) Checking NoSource)\<lparr>rl_diagnostic := Some PolicyInvalid\<rparr>"

text \<open>\<open>initialize\<close>; the cached policy is assigned before its status is computed, which may throw.\<close>

definition release_initialize :: "int \<Rightarrow> json_file \<Rightarrow> release_service \<Rightarrow> release_service" where
  "release_initialize now f s = (case release_store_load f of
       Inl e \<Rightarrow> s\<lparr>rv_status := invalid_cache_status s\<rparr>
     | Inr v \<Rightarrow>
         if \<not> truthy v then s
         else (case validateCachedReleasePolicy v of
             Inl e \<Rightarrow> s\<lparr>rv_status := invalid_cache_status s\<rparr>
           | Inr (p, checkedAt) \<Rightarrow> (let s' = s\<lparr>rv_cached := Some (p, checkedAt)\<rparr> in
               case statusFromPolicy s now p FromCache checkedAt of
                 Inl e \<Rightarrow> s'\<lparr>rv_status := invalid_cache_status s\<rparr>
               | Inr st \<Rightarrow> s'\<lparr>rv_status := st\<rparr>)))"

definition acceptPolicy :: "release_policy option \<Rightarrow> release_policy \<Rightarrow> release_policy result" where
  "acceptPolicy current incoming = (case current of
       None \<Rightarrow> Inr incoming
     | Some p \<Rightarrow>
         if rp_version incoming < rp_version p then Inl (PlainError ''Release Policy version regressed.'')
         else if rp_version incoming = rp_version p \<and> stringify (policy_json incoming) \<noteq> stringify (policy_json p)
         then Inl (PlainError ''Release Policy changed without a version increment.'')
         else Inr incoming)"

fun diagnosticCode :: "error \<Rightarrow> release_diagnostic" where
  "diagnosticCode (TypeError m) = PolicyUnavailable"
| "diagnosticCode (NetworkClientError code op m) =
     (if code \<noteq> ''NETWORK_INVALID_RESPONSE'' \<and> code \<noteq> ''PROTOCOL_UNSUPPORTED'' then PolicyUnavailable else PolicyInvalid)"
| "diagnosticCode _ = PolicyInvalid"

text \<open>An operation answers with the service, and the error it throws.\<close>

definition handleRefreshFailure :: "int \<Rightarrow> error \<Rightarrow> release_service \<Rightarrow> release_service \<times> error option" where
  "handleRefreshFailure now e s = (case rv_cached s of
       None \<Rightarrow> (s\<lparr>rv_status := (baseStatus (rv_current s) (rv_build s) TemporarilyUnavailable NoSource)
                 \<lparr>rl_diagnostic := Some (diagnosticCode e)\<rparr>\<rparr>, None)
     | Some (p, checkedAt) \<Rightarrow> (case statusFromPolicy s now p FromCache checkedAt of
           Inl e' \<Rightarrow> (s, Some e')
         | Inr st \<Rightarrow> (s\<lparr>rv_status := (if rl_state st = UpdateRequired then st
               else st\<lparr>rl_state := TemporarilyUnavailable, rl_diagnostic := Some (diagnosticCode e)\<rparr>)\<rparr>, None)))"

text \<open>\<open>getPolicy\<close> of the bootstrap client, on the release policy of the bootstrap.\<close>

definition getPolicy :: "json result \<Rightarrow> release_policy result" where
  "getPolicy answer = rbind answer validateTetiReleasePolicy"

definition accepted_policy :: "json result \<Rightarrow> release_service \<Rightarrow> release_policy result" where
  "accepted_policy answer s = rbind (getPolicy answer) (\<lambda>p. rbind (validateTetiReleasePolicy (policy_json p)) (\<lambda>incoming.
     acceptPolicy (map_option fst (rv_cached s)) incoming))"

text \<open>\<open>refresh\<close>: the service, the error, and the value it writes to the file.\<close>

definition release_refresh ::
  "int \<Rightarrow> json result \<Rightarrow> bool \<Rightarrow> release_service \<Rightarrow> release_service \<times> error option \<times> json option" where
  "release_refresh now answer writable s = (case accepted_policy answer s of
       Inl e \<Rightarrow> (case handleRefreshFailure now e s of (s', err) \<Rightarrow> (s', err, None))
     | Inr p \<Rightarrow> (let checkedAt = to_iso now; s1 = s\<lparr>rv_cached := Some (p, checkedAt)\<rparr> in
         case statusFromPolicy s1 now p FromNetwork checkedAt of
           Inl e \<Rightarrow> (s1, Some e, None)
         | Inr st \<Rightarrow>
             if writable then (s1\<lparr>rv_status := st\<rparr>, None, Some (cached_json p checkedAt))
             else (s1\<lparr>rv_status := st\<lparr>rl_diagnostic := Some PolicyInvalid\<rparr>\<rparr>, None, None)))"

text \<open>The requests that \<open>handler.ts\<close> answers while an update is required.\<close>

definition isReleaseLockExemptMethod :: "string \<Rightarrow> bool" where
  "isReleaseLockExemptMethod m \<longleftrightarrow> m = ''lifecycle.health'' \<or> m = ''release.status'' \<or> m = ''account.load'' \<or> m = ''account.status''"

definition release_gate :: "string \<Rightarrow> release_status option \<Rightarrow> error option" where
  "release_gate m status =
     (if isReleaseLockExemptMethod m then None
      else case status of None \<Rightarrow> None
        | Some st \<Rightarrow> throw_if (rl_state st = UpdateRequired) (SidecarError ''LocalAppUpdateRequiredError'' (rl_current st)))"

end
