(* ===== verification/Release_Guarantees.thy ===== *)
theory Release_Guarantees
  imports Release_Policy
begin

text \<open>
  What the release policy guarantees: version numbers are compared by the precedence of semantic versioning, which is
  a linear order on them; the policy in the cache file is never replaced by an older one; and a build that must be
  updated stays locked when the network fails.
\<close>

section \<open>Precedence\<close>

text \<open>An identifier of a prerelease: numbers come before words, numbers by value, words by their code units.\<close>

datatype semver_id = Numeric int | Word string

fun id_key :: "semver_id \<Rightarrow> bool \<times> int \<times> int list" where
  "id_key (Numeric n) = (False, n, [])"
| "id_key (Word s) = (True, 0, map cu s)"

lemma cu_inj: "cu c = cu d \<Longrightarrow> c = d"
  by (simp add: cu_def)

lemma id_key_inj: "id_key a = id_key b \<Longrightarrow> a = b"
  by (cases a; cases b) (auto dest: map_injective intro: injI cu_inj)

instantiation semver_id :: linorder
begin

definition less_eq_semver_id :: "semver_id \<Rightarrow> semver_id \<Rightarrow> bool" where
  "less_eq_semver_id a b \<longleftrightarrow> id_key a \<le> id_key b"

definition less_semver_id :: "semver_id \<Rightarrow> semver_id \<Rightarrow> bool" where
  "less_semver_id a b \<longleftrightarrow> id_key a < id_key b"

instance
  by standard (auto simp: less_eq_semver_id_def less_semver_id_def intro: id_key_inj)

end

definition digits_int :: "string \<Rightarrow> int" where
  "digits_int s = (case digits_value 0 s of None \<Rightarrow> 0 | Some n \<Rightarrow> n)"

definition identifier_of :: "string \<Rightarrow> semver_id" where
  "identifier_of s = (if digits_only s then Numeric (digits_int s) else Word s)"

definition core_parts :: "string \<Rightarrow> string list" where
  "core_parts s = split_on (CHR ''.'') (core_text s)"

definition prerelease_parts :: "string \<Rightarrow> string list" where
  "prerelease_parts s = (case prerelease_text s of None \<Rightarrow> [] | Some p \<Rightarrow> split_on (CHR ''.'') p)"

text \<open>A version without a prerelease part comes after the versions with one.\<close>

definition precedence :: "string \<Rightarrow> int list \<times> bool \<times> semver_id list" where
  "precedence s = (map digits_int (core_parts s), prerelease_parts s = [], map identifier_of (prerelease_parts s))"

text \<open>Every number of the version is a safe integer.\<close>

definition small_numbers :: "string \<Rightarrow> bool" where
  "small_numbers s \<longleftrightarrow> list_all (\<lambda>p. digits_only p \<longrightarrow> digits_int p \<le> max_safe_integer) (core_parts s @ prerelease_parts s)"

section \<open>Numbers\<close>

fun digits_sum :: "string \<Rightarrow> int" where
  "digits_sum [] = 0"
| "digits_sum (c # cs) = (cu c - 48) * 10 ^ length cs + digits_sum cs"

lemma digits_value_sum: "list_all is_digit s \<Longrightarrow> digits_value a s = Some (a * 10 ^ length s + digits_sum s)"
  by (induction s arbitrary: a) (auto simp: algebra_simps)

lemma digits_int_sum: "list_all is_digit s \<Longrightarrow> digits_int s = digits_sum s"
  by (simp add: digits_int_def digits_value_sum)

lemma digits_sum_bounds: "list_all is_digit s \<Longrightarrow> 0 \<le> digits_sum s \<and> digits_sum s < 10 ^ length s"
proof (induction s)
  case (Cons c cs)
  then have d: "0 \<le> cu c - 48" "cu c - 48 \<le> 9" and r: "0 \<le> digits_sum cs" "digits_sum cs < 10 ^ length cs"
    by (auto simp: is_digit_def)
  have "(cu c - 48) * 10 ^ length cs \<le> 9 * (10 :: int) ^ length cs" using d by (intro mult_right_mono) auto
  moreover have "0 \<le> (cu c - 48) * (10 :: int) ^ length cs" using d by simp
  moreover have "digits_sum (c # cs) = (cu c - 48) * 10 ^ length cs + digits_sum cs" "(10 :: int) ^ length (c # cs) = 10 * 10 ^ length cs"
    by simp_all
  ultimately show ?case using r by linarith
qed simp

lemma digits_sum_inj:
  "list_all is_digit s \<Longrightarrow> list_all is_digit t \<Longrightarrow> length s = length t \<Longrightarrow> digits_sum s = digits_sum t \<Longrightarrow> s = t"
proof (induction s arbitrary: t)
  case (Cons c cs)
  then obtain d ds where t: "t = d # ds" by (cases t) auto
  let ?k = "(10 :: int) ^ length cs" and ?a = "cu c - 48" and ?b = "cu d - 48"
  have len: "length ds = length cs" and dig: "list_all is_digit cs" "list_all is_digit ds" using Cons.prems t by auto
  have b: "0 \<le> digits_sum cs" "digits_sum cs < ?k" "0 \<le> digits_sum ds" "digits_sum ds < ?k"
    using digits_sum_bounds [OF dig(1)] digits_sum_bounds [OF dig(2)] len by auto
  have eq: "?a * ?k + digits_sum cs = ?b * ?k + digits_sum ds" using Cons.prems(4) t len by simp
  have "(?a * ?k + digits_sum cs) div ?k = ?a" "(?b * ?k + digits_sum ds) div ?k = ?b" using b by simp_all
  with eq have ab: "?a = ?b" by metis
  then have "digits_sum cs = digits_sum ds" using eq by simp
  with Cons.IH [OF dig] len ab t show ?case using cu_inj by simp
qed simp

lemma numeric_digits: "numeric_identifier s \<Longrightarrow> s \<noteq> [] \<and> list_all is_digit s"
  by (auto simp: numeric_identifier_def is_digit_def cu_def)

lemma numeric_lower:
  assumes "numeric_identifier s" and "s \<noteq> ''0''"
  shows "10 ^ (length s - 1) \<le> digits_sum s"
proof -
  obtain c cs where s: "s = c # cs" "c \<noteq> CHR ''0''" "is_digit c" "list_all is_digit cs"
    using assms by (cases s) (auto simp: numeric_identifier_def)
  have "cu c \<noteq> 48" using cu_inj [of c "CHR ''0''"] s(2) by (auto simp: cu_def)
  then have "1 \<le> cu c - 48" using s(3) by (simp add: is_digit_def)
  then have le: "1 * (10 :: int) ^ length cs \<le> (cu c - 48) * 10 ^ length cs" by (intro mult_right_mono) auto
  have sum: "digits_sum s = (cu c - 48) * 10 ^ length cs + digits_sum cs" and len: "length s - 1 = length cs"
    using s(1) by simp_all
  show ?thesis unfolding sum len using le digits_sum_bounds [OF s(4)] by linarith
qed

lemma numeric_inj:
  assumes n: "numeric_identifier s" "numeric_identifier t" and eq: "digits_int s = digits_int t"
  shows "s = t"
proof -
  have d: "list_all is_digit s" "list_all is_digit t" and ne: "s \<noteq> []" "t \<noteq> []" using n numeric_digits by auto
  have sum: "digits_sum s = digits_sum t" using eq d by (simp add: digits_int_sum)
  have zero: "digits_sum ''0'' = 0" by (simp add: cu_def)
  have pos: "0 < digits_sum u" if "numeric_identifier u" "u \<noteq> ''0''" for u
    using numeric_lower [OF that] by (meson less_le_trans zero_less_numeral zero_less_power)
  have len: "length u \<le> length w" if "numeric_identifier u" "numeric_identifier w" "u \<noteq> ''0''" "digits_sum u = digits_sum w" for u w
  proof -
    have "(10 :: int) ^ (length u - 1) \<le> digits_sum w" using numeric_lower [OF that(1,3)] that(4) by metis
    also have "\<dots> < 10 ^ length w" using digits_sum_bounds numeric_digits [OF that(2)] by blast
    finally have "length u - 1 < length w" by (rule power_less_imp_less_exp [rotated]) simp
    then show ?thesis by simp
  qed
  show ?thesis
  proof (cases "s = ''0'' \<or> t = ''0''")
    case True
    then show ?thesis using pos [OF n(1)] pos [OF n(2)] sum zero by fastforce
  next
    case False
    then have "length s = length t" using len [OF n(1,2)] len [OF n(2,1)] sum by (simp add: le_antisym)
    then show ?thesis using digits_sum_inj [OF d _ sum] by blast
  qed
qed

lemma small_round: "n \<le> max_safe_integer \<Longrightarrow> round_double n = n"
  by (simp add: round_double_def excess_bits.simps max_safe_integer_def)

lemma digits_number_small:
  assumes "list_all is_digit s" and "digits_int s \<le> max_safe_integer"
  shows "digits_number s = NInt (digits_int s)"
proof -
  have "digits_int s < 2 ^ 1024"
    using assms(2) by (rule le_less_trans) (simp add: max_safe_integer_def)
  then show ?thesis
    using small_round [OF assms(2)] assms(1) by (simp add: digits_number_def digits_int_def digits_value_sum)
qed


section \<open>Comparison\<close>

lemma join_split: "join_with [d] (split_on d s) = s"
proof -
  have "join_with [d] (split_by (\<lambda>c. c = d) s) = s \<and> split_by (\<lambda>c. c = d) s \<noteq> []"
  proof (induction s)
    case (Cons c cs)
    then show ?case by (cases "split_by (\<lambda>c. c = d) cs"; cases "tl (split_by (\<lambda>c. c = d) cs)") auto
  qed simp
  then show ?thesis by (simp add: split_on_def)
qed

lemma version_text: "s = core_text s @ (case prerelease_text s of None \<Rightarrow> [] | Some p \<Rightarrow> CHR ''-'' # p)"
proof (cases "dropWhile (\<lambda>c. c \<noteq> CHR ''-'') s")
  case Nil
  then have "takeWhile (\<lambda>c. c \<noteq> CHR ''-'') s = s"
    using takeWhile_dropWhile_id [of "\<lambda>c. c \<noteq> CHR ''-''" s] by (metis append_Nil2)
  then show ?thesis unfolding core_text_def prerelease_text_def Nil by (simp only: list.case option.case append_Nil2)
next
  case (Cons c cs)
  then have "c = CHR ''-''" using hd_dropWhile [of "\<lambda>c. c \<noteq> CHR ''-''" s] by auto
  then show ?thesis
    using takeWhile_dropWhile_id [of "\<lambda>c. c \<noteq> CHR ''-''" s] Cons by (simp add: core_text_def prerelease_text_def)
qed

lemma split_not_empty: "split_on d s \<noteq> []"
  by (induction s) (auto simp: split_on_def split: list.split)

lemma version_parts:
  assumes "core_parts l = core_parts r" and "prerelease_parts l = prerelease_parts r"
  shows "l = r"
proof -
  have c: "core_text l = core_text r" using assms(1) by (metis core_parts_def join_split)
  have p: "prerelease_text l = prerelease_text r"
    using assms(2) by (cases "prerelease_text l"; cases "prerelease_text r")
      (simp_all add: prerelease_parts_def split_not_empty split_not_empty [symmetric], metis join_split)
  show ?thesis using version_text [of l] version_text [of r] c p by simp
qed

lemma version_shape:
  assumes "isTetiVersion (JStr s)"
  shows "length (core_parts s) = 3" and "list_all numeric_identifier (core_parts s)"
    and "list_all prerelease_identifier (prerelease_parts s)"
  using assms by (auto simp: isTetiVersion_def core_parts_def prerelease_parts_def split: option.splits)

lemma parse_version:
  assumes v: "isTetiVersion (JStr s)" and small: "small_numbers s"
  shows "parseTetiVersion (JStr s) = Inr \<lparr>tv_core = map digits_int (core_parts s), tv_prerelease = prerelease_parts s\<rparr>"
proof -
  have n: "digits_number p = NInt (digits_int p) \<and> num_is_safe (NInt (digits_int p))" if "p \<in> set (core_parts s)" for p
  proof -
    have d: "list_all is_digit p" "p \<noteq> []" using that version_shape(2) [OF v] numeric_digits by (auto simp: list_all_iff)
    then have "digits_int p \<le> max_safe_integer" "0 \<le> digits_int p"
      using small that digits_sum_bounds [OF d(1)] digits_int_sum [OF d(1)]
      by (auto simp: small_numbers_def list_all_iff digits_only_def)
    then show ?thesis using digits_number_small [OF d(1)] by simp
  qed
  have "map digits_number (core_parts s) = map (\<lambda>p. NInt (digits_int p)) (core_parts s)" using n by simp
  moreover have "prerelease_text s \<noteq> Some []"
  proof
    assume "prerelease_text s = Some []"
    then show False using version_shape(3) [OF v]
      by (simp add: prerelease_parts_def split_on_def prerelease_identifier_def numeric_identifier_def)
  qed
  ultimately show ?thesis
    using v n by (auto simp: parseTetiVersion_def core_parts_def [symmetric] prerelease_parts_def list_ex_iff comp_def
      simp del: num_is_safe.simps split: option.split)
qed


text \<open>The three-valued comparison of a linear order.\<close>

definition three_way :: "'a :: linorder \<Rightarrow> 'a \<Rightarrow> int" where
  "three_way a b = (if a < b then -1 else if a = b then 0 else 1)"

lemma compare_core_three_way: "length xs = length ys \<Longrightarrow> compare_core xs ys = three_way xs ys"
  by (induction xs ys rule: compare_core.induct) (auto simp: three_way_def)

lemma str_le_map: "str_le s t \<longleftrightarrow> map cu s \<le> map cu t"
  by (induction s t rule: str_le.induct) auto

lemma digits_only_numeric: "prerelease_identifier p \<Longrightarrow> digits_only p \<Longrightarrow> numeric_identifier p"
  by (auto simp: prerelease_identifier_def digits_only_def list_ex_iff list_all_iff)

definition small_part :: "string \<Rightarrow> bool" where
  "small_part p \<longleftrightarrow> prerelease_identifier p \<and> (digits_only p \<longrightarrow> digits_int p \<le> max_safe_integer)"

lemma identifier_of_inj: "small_part l \<Longrightarrow> small_part r \<Longrightarrow> identifier_of l = identifier_of r \<Longrightarrow> l = r"
  by (auto simp: identifier_of_def small_part_def split: if_splits intro: numeric_inj digits_only_numeric)

lemma compare_part_three_way:
  assumes "small_part l" and "small_part r" and "l \<noteq> r"
  shows "compare_part l r = three_way (identifier_of l) (identifier_of r)"
proof -
  have ne: "identifier_of l \<noteq> identifier_of r" using identifier_of_inj assms by blast
  have num: "digits_number p = NInt (digits_int p)" if "small_part p" "digits_only p" for p
    using that digits_number_small by (simp add: small_part_def digits_only_def)
  have words: "str_le l r \<and> l \<noteq> r \<longleftrightarrow> map cu l < map cu r"
    using assms(3) by (auto simp: str_le_map less_le dest: map_injective intro: injI cu_inj)
  show ?thesis
    using ne words num [OF assms(1)] num [OF assms(2)]
    by (auto simp: compare_part_def three_way_def identifier_of_def less_semver_id_def assms(3))
qed

lemma compare_parts_three_way:
  "list_all small_part ls \<Longrightarrow> list_all small_part rs
    \<Longrightarrow> compare_parts ls rs = three_way (map identifier_of ls) (map identifier_of rs)"
proof (induction ls rs rule: compare_parts.induct)
  case (4 l ls r rs)
  then show ?case
    using compare_part_three_way [of l r] identifier_of_inj [of l r] by (auto simp: three_way_def)
qed (simp_all add: three_way_def)

text \<open>
  C16: Two versions of the form the program accepts, whose numbers are safe integers, are compared by the precedence of
  semantic versioning, a linear order: first the three numbers, then a release after its prereleases, then the
  identifiers of the prerelease from left to right, numbers before words. Only equal texts compare as equal.
\<close>

theorem versions_follow_precedence:
  assumes "isTetiVersion (JStr l)" and "isTetiVersion (JStr r)" and "small_numbers l" and "small_numbers r"
  shows "compareTetiVersions l r = Inr (three_way (precedence l) (precedence r))
    \<and> (precedence l = precedence r \<longleftrightarrow> l = r)"
proof (intro conjI)
  have parts: "list_all small_part (prerelease_parts s)" "list_all numeric_identifier (core_parts s)" "length (core_parts s) = 3"
    if "isTetiVersion (JStr s)" "small_numbers s" for s
    using version_shape [OF that(1)] that(2) by (auto simp: small_numbers_def small_part_def list_all_iff)
  note l = parts [OF assms(1,3)] and r = parts [OF assms(2,4)]
  have core: "map digits_int (core_parts l) = map digits_int (core_parts r) \<Longrightarrow> core_parts l = core_parts r"
    using l(2) r(2) by (auto simp: list_all_iff intro!: map_inj_on [of digits_int] inj_onI numeric_inj)
  have pre: "map identifier_of (prerelease_parts l) = map identifier_of (prerelease_parts r) \<Longrightarrow> prerelease_parts l = prerelease_parts r"
    using l(1) r(1) by (auto simp: list_all_iff intro!: map_inj_on [of identifier_of] inj_onI identifier_of_inj)
  show "precedence l = precedence r \<longleftrightarrow> l = r"
    using core pre version_parts by (auto simp: precedence_def)
  have "compare_core (map digits_int (core_parts l)) (map digits_int (core_parts r))
      = three_way (map digits_int (core_parts l)) (map digits_int (core_parts r))"
    using l(3) r(3) by (intro compare_core_three_way) simp
  then show "compareTetiVersions l r = Inr (three_way (precedence l) (precedence r))"
    using compare_parts_three_way [OF l(1) r(1)]
    by (auto simp: compareTetiVersions_def parse_version assms compare_parsed_def precedence_def three_way_def Let_def)
qed

theorem versions_follow_precedence_witness:
  "compareTetiVersions ''0.4.0-beta.2'' ''0.4.0-beta.10'' = Inr (three_way (precedence ''0.4.0-beta.2'') (precedence ''0.4.0-beta.10''))
    \<and> compareTetiVersions ''0.4.0-beta.2'' ''0.4.0-beta.10'' = Inr (-1)"
proof -
  have "isTetiVersion (JStr ''0.4.0-beta.2'')" "isTetiVersion (JStr ''0.4.0-beta.10'')"
    "small_numbers ''0.4.0-beta.2''" "small_numbers ''0.4.0-beta.10''" by code_simp+
  from versions_follow_precedence [OF this] show ?thesis by (simp add: eq_commute) code_simp
qed

text \<open>Above the safe integers the conversion rounds, and two versions are each greater than the other.\<close>

lemma large_numbers_break_the_order:
  "compareTetiVersions ''1.0.0-9007199254740993'' ''1.0.0-9007199254740992'' = Inr 1
    \<and> compareTetiVersions ''1.0.0-9007199254740992'' ''1.0.0-9007199254740993'' = Inr 1"
  by (intro conjI) code_simp+

section \<open>The cache\<close>

text \<open>A policy as the validator gives it.\<close>

definition policy_ok :: "release_policy \<Rightarrow> bool" where
  "policy_ok p \<longleftrightarrow> validateTetiReleasePolicy (policy_json p) = Inr p"

definition answer_in_range :: "json result \<Rightarrow> bool" where
  "answer_in_range a = (case a of Inl e \<Rightarrow> True | Inr v \<Rightarrow> iso_range (date_ms (str_of (get v ''effectiveAt''))))"

lemma policy_json_fields [simp]:
  "get (policy_json p) ''schemaVersion'' = jint 1" "get (policy_json p) ''policyVersion'' = jint (rp_version p)"
  "get (policy_json p) ''channel'' = JStr ''beta''" "get (policy_json p) ''minimumSupportedVersion'' = JStr (rp_minimum p)"
  "get (policy_json p) ''effectiveAt'' = JStr (rp_effective p)" "is_record (policy_json p)"
  by (simp_all add: policy_json_def)

lemma stringify_policy: "stringify (policy_json p) = stringify (policy_json q) \<longleftrightarrow> p = q"
proof
  assume "stringify (policy_json p) = stringify (policy_json q)"
  then have "policy_json p = policy_json q" by (rule stringify_inj [rotated 2]) (simp_all add: policy_json_def)
  then show "p = q" by (simp add: policy_json_def release_policy.equality)
qed simp

lemma validated_policy:
  assumes "validateTetiReleasePolicy v = Inr p" and "iso_range (date_ms (str_of (get v ''effectiveAt'')))"
  shows "policy_ok p"
proof -
  from assms(1) have v: "policy_checks v = None" "requireTetiVersion (get v ''minimumSupportedVersion'') = Inr (rp_minimum p)"
      "rp_version p = int_of (get v ''policyVersion'')" "rp_effective p = to_iso (date_ms (str_of (get v ''effectiveAt'')))"
    by (auto simp: validateTetiReleasePolicy_def guarded_def rbind_def requireIsoTimestamp_def split: option.splits sum.splits if_splits)
  from v(2) obtain w where w: "parseTetiVersion (get v ''minimumSupportedVersion'') = Inr w"
    and m: "rp_minimum p = str_of (get v ''minimumSupportedVersion'')"
    by (auto simp: requireTetiVersion_def rbind_def split: sum.splits)
  have "is_string (get v ''minimumSupportedVersion'')"
    using w by (auto simp: parseTetiVersion_def isTetiVersion_def split: if_splits)
  then have min: "requireTetiVersion (JStr (rp_minimum p)) = Inr (rp_minimum p)"
    using w by (simp add: m JStr_str_of requireTetiVersion_def)
  have n: "safe_int_from 1 (jint (rp_version p))"
  proof -
    have "safe_int_from 1 (get v ''policyVersion'')" using v(1) by (auto simp: policy_checks_def throw_if_def split: if_splits)
    then show ?thesis by (simp only: v(3) jint_int_of)
  qed
  have "validateTetiReleasePolicy (policy_json p)
      = Inr \<lparr>rp_version = rp_version p, rp_minimum = rp_minimum p, rp_effective = rp_effective p\<rparr>"
    using n min assms(2) v(4)
    by (auto simp: validateTetiReleasePolicy_def policy_checks_def throw_if_def requireIsoTimestamp_def)
  then show ?thesis by (simp add: policy_ok_def)
qed

lemma accepted_policy_ok:
  assumes "accepted_policy answer s = Inr p" and "answer_in_range answer"
  shows "policy_ok p" and "acceptPolicy (map_option fst (rv_cached s)) p = Inr p"
proof -
  from assms(1) obtain v q where v: "answer = Inr v" "validateTetiReleasePolicy v = Inr q"
    and q: "rbind (validateTetiReleasePolicy (policy_json q)) (\<lambda>i. acceptPolicy (map_option fst (rv_cached s)) i) = Inr p"
    by (auto simp: accepted_policy_def getPolicy_def rbind_def split: sum.splits)
  have ok: "policy_ok q" using validated_policy [OF v(2)] assms(2) v(1) by (simp add: answer_in_range_def)
  then have a: "acceptPolicy (map_option fst (rv_cached s)) q = Inr p" using q by (simp add: policy_ok_def)
  then have "p = q" by (auto simp: acceptPolicy_def split: option.splits if_splits)
  with ok a show "policy_ok p" "acceptPolicy (map_option fst (rv_cached s)) p = Inr p" by simp_all
qed

text \<open>The order of policies: a newer version, or the same policy.\<close>

definition supersedes :: "release_policy \<Rightarrow> release_policy \<Rightarrow> bool" where
  "supersedes q p \<longleftrightarrow> rp_version p < rp_version q \<or> q = p"

lemma supersedes_trans: "supersedes r q \<Longrightarrow> supersedes q p \<Longrightarrow> supersedes r p"
  by (auto simp: supersedes_def)

lemma acceptPolicy_supersedes: "acceptPolicy (Some p) q = Inr r \<Longrightarrow> supersedes q p"
  by (auto simp: acceptPolicy_def supersedes_def stringify_policy split: if_splits)

lemma cached_valid:
  assumes "policy_ok p" and "iso_range t"
  shows "validateCachedReleasePolicy (cached_json p (to_iso t)) = Inr (p, to_iso t)"
  using assms by (simp add: validateCachedReleasePolicy_def cached_json_def throw_if_def policy_ok_def)

section \<open>Runs\<close>

record release_host =
  rh_file :: json_file
  rh_service :: release_service

definition saved_file :: "json option \<Rightarrow> json_file \<Rightarrow> json_file" where
  "saved_file w f = (case w of None \<Rightarrow> f | Some v \<Rightarrow> JsonFile v)"

text \<open>A start of the runtime, of any build; and a refresh, at any time with any answer.\<close>

inductive release_step :: "release_host \<Rightarrow> release_host \<Rightarrow> bool" where
  start: "release_step h (h\<lparr>rh_service := release_initialize now (rh_file h) (new_service current build)\<rparr>)"
| refresh: "iso_range now \<Longrightarrow> answer_in_range answer \<Longrightarrow> release_refresh now answer writable (rh_service h) = (s', err, w)
    \<Longrightarrow> release_step h \<lparr>rh_file = saved_file w (rh_file h), rh_service = s'\<rparr>"

definition first_host :: "string \<Rightarrow> string \<Rightarrow> release_host" where
  "first_host current build = \<lparr>rh_file = NoFile, rh_service = new_service current build\<rparr>"

text \<open>The policy that the next start reads from the file.\<close>

definition stored_policy :: "json_file \<Rightarrow> release_policy option" where
  "stored_policy f = (case release_store_load f of
       Inl e \<Rightarrow> None
     | Inr v \<Rightarrow> (case validateCachedReleasePolicy v of Inl e \<Rightarrow> None | Inr (p, t) \<Rightarrow> Some p))"

definition host_ok :: "release_host \<Rightarrow> bool" where
  "host_ok h \<longleftrightarrow> (rh_file h = NoFile \<or> (\<exists>p t. rh_file h = JsonFile (cached_json p (to_iso t)) \<and> policy_ok p \<and> iso_range t))
     \<and> (\<forall>p. stored_policy (rh_file h) = Some p \<longrightarrow> (\<exists>q t. rv_cached (rh_service h) = Some (q, t) \<and> supersedes q p))"

lemma stored_NoFile [simp]: "stored_policy NoFile = None"
  by (simp add: stored_policy_def release_store_load_def validateCachedReleasePolicy_def throw_if_def)

lemma stored_cached [simp]: "policy_ok p \<Longrightarrow> iso_range t \<Longrightarrow> stored_policy (JsonFile (cached_json p (to_iso t))) = Some p"
  by (simp add: stored_policy_def release_store_load_def cached_valid)

lemma initialize_cached:
  assumes "policy_ok p" and "iso_range t"
  shows "rv_cached (release_initialize now (JsonFile (cached_json p (to_iso t))) (new_service current build)) = Some (p, to_iso t)"
proof -
  have "truthy (cached_json p (to_iso t))" by (simp add: cached_json_def)
  then show ?thesis
    using cached_valid [OF assms] by (simp add: release_initialize_def release_store_load_def Let_def split: sum.split)
qed

lemma refresh_cases:
  assumes "release_refresh now answer writable s = (s', err, w)" and "iso_range now" and "answer_in_range answer"
  shows "(rv_cached s' = rv_cached s \<and> w = None)
    \<or> (\<exists>p. policy_ok p \<and> rv_cached s' = Some (p, to_iso now) \<and> (w = None \<or> w = Some (cached_json p (to_iso now)))
        \<and> (\<forall>q t. rv_cached s = Some (q, t) \<longrightarrow> supersedes p q))"
proof (cases "accepted_policy answer s")
  case (Inl e)
  then show ?thesis
    using assms(1) by (auto simp: release_refresh_def handleRefreshFailure_def split: option.splits sum.splits)
next
  case (Inr p)
  have cached: "rv_cached s' = Some (p, to_iso now)" "w = None \<or> w = Some (cached_json p (to_iso now))"
    using assms(1) Inr by (auto simp: release_refresh_def Let_def split: sum.splits if_splits)
  have "\<forall>q t. rv_cached s = Some (q, t) \<longrightarrow> supersedes p q"
    using accepted_policy_ok(2) [OF Inr assms(3)] acceptPolicy_supersedes by auto
  then show ?thesis using cached accepted_policy_ok(1) [OF Inr assms(3)] by blast
qed

lemma step_ok: "release_step h h' \<Longrightarrow> host_ok h \<Longrightarrow> host_ok h'
  \<and> (\<forall>p. stored_policy (rh_file h) = Some p \<longrightarrow> (\<exists>q. stored_policy (rh_file h') = Some q \<and> supersedes q p))"
proof (induction rule: release_step.induct)
  case (start h now current build)
  then show ?case by (auto simp: host_ok_def initialize_cached supersedes_def)
next
  case (refresh now answer writable h s' err w)
  have newer: "\<exists>q t. rv_cached (rh_service h) = Some (q, t) \<and> supersedes q x" if "stored_policy (rh_file h) = Some x" for x
    using refresh(4) that by (auto simp: host_ok_def)
  from refresh_cases [OF refresh(3,1,2)] show ?case
  proof (elim disjE exE conjE)
    assume "rv_cached s' = rv_cached (rh_service h)" "w = None"
    then show ?thesis using refresh(4) by (auto simp: host_ok_def saved_file_def supersedes_def)
  next
    fix p assume p: "policy_ok p" "rv_cached s' = Some (p, to_iso now)" "w = None"
      and sup: "\<forall>q t. rv_cached (rh_service h) = Some (q, t) \<longrightarrow> supersedes p q"
    have "supersedes p x" if x: "stored_policy (rh_file h) = Some x" for x
      using newer [OF x] sup supersedes_trans by blast
    then show ?thesis using refresh(4) p by (auto simp: host_ok_def saved_file_def supersedes_def)
  next
    fix p assume p: "policy_ok p" "rv_cached s' = Some (p, to_iso now)" "w = Some (cached_json p (to_iso now))"
      and sup: "\<forall>q t. rv_cached (rh_service h) = Some (q, t) \<longrightarrow> supersedes p q"
    have "supersedes p x" if x: "stored_policy (rh_file h) = Some x" for x
      using newer [OF x] sup supersedes_trans by blast
    then show ?thesis using p refresh(1) by (auto simp: host_ok_def saved_file_def supersedes_def)
  qed
qed

lemma steps_ok: "release_step\<^sup>*\<^sup>* h h' \<Longrightarrow> host_ok h \<Longrightarrow> host_ok h'
  \<and> (\<forall>p. stored_policy (rh_file h) = Some p \<longrightarrow> (\<exists>q. stored_policy (rh_file h') = Some q \<and> supersedes q p))"
proof (induction rule: rtranclp_induct)
  case base
  then show ?case by (auto simp: supersedes_def)
next
  case (step y z)
  then show ?case using step_ok [OF step(2)] supersedes_trans by blast
qed

lemma first_ok: "host_ok (first_host current build)"
  by (simp add: host_ok_def first_host_def)

text \<open>
  C7: Once a policy is in the cache file, every later state has a policy in it, which is that policy or one with a greater
  version number: no sequence of starts and refreshes, with any answers of the network, any clock and failing writes,
  brings an older policy back or changes one without a new number. The clock and the effective time of a policy lie
  between the years 1970 and 9999.
\<close>

theorem policy_never_rolls_back:
  assumes "release_step\<^sup>*\<^sup>* (first_host current build) h" and "release_step\<^sup>*\<^sup>* h h'"
    and "stored_policy (rh_file h) = Some p"
  shows "\<exists>q. stored_policy (rh_file h') = Some q \<and> (rp_version p < rp_version q \<or> q = p)"
  using steps_ok [OF assms(2)] steps_ok [OF assms(1) first_ok] assms(3) by (auto simp: supersedes_def)

section \<open>The lock\<close>

lemma status_of_state:
  "releaseStateForPolicy (rv_current s) p now = Inr x \<Longrightarrow> \<exists>st. statusFromPolicy s now p src t = Inr st \<and> rl_state st = x"
  by (simp add: statusFromPolicy_def baseStatus_def)

text \<open>
  C15: While the policy in use is in force and puts the build below its minimum version, a refresh leaves the build locked,
  whether the network fails, answers with an invalid or an older policy or with the same one, and every request outside
  the four exempt methods is refused; only a policy with a greater version number can lift the lock.
\<close>

theorem lock_survives_outages:
  assumes locked: "rv_cached s = Some (p, t)" "releaseStateForPolicy (rv_current s) p now = Inr UpdateRequired"
    and refresh: "release_refresh now answer writable s = (s', err, w)" "answer_in_range answer" "iso_range now"
    and old: "\<not> (\<exists>q t'. rv_cached s' = Some (q, t') \<and> rp_version p < rp_version q)"
  shows "rl_state (rv_status s') = UpdateRequired \<and> err = None
    \<and> (\<not> isReleaseLockExemptMethod m \<longrightarrow> release_gate m (Some (rv_status s')) \<noteq> None)"
proof -
  have state: "rl_state (rv_status s') = UpdateRequired \<and> err = None"
  proof (cases "accepted_policy answer s")
    case (Inl e)
    from status_of_state [OF locked(2)] obtain st where "statusFromPolicy s now p FromCache t = Inr st" "rl_state st = UpdateRequired"
      by blast
    then show ?thesis using refresh(1) Inl locked(1) by (auto simp: release_refresh_def handleRefreshFailure_def)
  next
    case (Inr q)
    have "rv_cached s' = Some (q, to_iso now)"
      using refresh(1) Inr by (auto simp: release_refresh_def Let_def split: sum.splits if_splits)
    moreover have "supersedes q p" using accepted_policy_ok(2) [OF Inr refresh(2)] locked(1) acceptPolicy_supersedes by simp
    ultimately have "q = p" using old by (auto simp: supersedes_def)
    moreover obtain st where "statusFromPolicy (s\<lparr>rv_cached := Some (p, to_iso now)\<rparr>) now p FromNetwork (to_iso now) = Inr st"
        "rl_state st = UpdateRequired"
      using status_of_state [of "s\<lparr>rv_cached := Some (p, to_iso now)\<rparr>" p now UpdateRequired] locked(2) by auto
    ultimately show ?thesis using refresh(1) Inr by (auto simp: release_refresh_def Let_def split: if_splits)
  qed
  then show ?thesis by (simp add: release_gate_def throw_if_def)
qed

section \<open>A sample run\<close>

definition sample_policy :: release_policy where
  "sample_policy = \<lparr>rp_version = 3, rp_minimum = ''0.5.0'', rp_effective = ''1970-01-01T00:00:00.000Z''\<rparr>"

lemma sample_policy_ok: "policy_ok sample_policy"
  unfolding policy_ok_def by code_simp

definition sample_service :: release_service where
  "sample_service = (new_service ''0.4.0'' ''build'')\<lparr>rv_cached := Some (sample_policy, to_iso 1000)\<rparr>"

definition sample_outage :: "json result" where
  "sample_outage = Inl (NetworkClientError ''NETWORK_TIMEOUT'' ''bootstrap'' ''timeout'')"

theorem lock_survives_outages_witness:
  "\<exists>s' w. release_refresh 2000 sample_outage True sample_service = (s', None, w)
    \<and> release_gate ''task.send'' (Some (rv_status s')) \<noteq> None"
proof -
  obtain s' err w where r: "release_refresh 2000 sample_outage True sample_service = (s', err, w)" by (metis prod_cases3)
  have lock: "releaseStateForPolicy (rv_current sample_service) sample_policy 2000 = Inr UpdateRequired" by code_simp
  have cached: "rv_cached sample_service = Some (sample_policy, to_iso 1000)" by (simp add: sample_service_def)
  have same: "rv_cached s' = rv_cached sample_service"
    using r by (auto simp: release_refresh_def accepted_policy_def getPolicy_def handleRefreshFailure_def sample_outage_def
        split: option.splits sum.splits)
  have "err = None \<and> (\<not> isReleaseLockExemptMethod ''task.send'' \<longrightarrow> release_gate ''task.send'' (Some (rv_status s')) \<noteq> None)"
    using lock_survives_outages [OF cached lock r, of "''task.send''"] same cached
    by (simp add: answer_in_range_def iso_range_def sample_outage_def)
  then show ?thesis using r by (auto simp: isReleaseLockExemptMethod_def)
qed

lemma sample_refresh:
  "\<exists>s'. release_refresh 1000 (Inr (policy_json sample_policy)) True (new_service ''0.4.0'' ''build'')
      = (s', None, Some (cached_json sample_policy (to_iso 1000)))"
proof -
  have "releaseStateForPolicy ''0.4.0'' sample_policy 1000 = Inr UpdateRequired" by code_simp
  then show ?thesis
    using sample_policy_ok
    by (simp add: release_refresh_def accepted_policy_def getPolicy_def policy_ok_def acceptPolicy_def statusFromPolicy_def
        new_service_def Let_def)
qed

theorem policy_never_rolls_back_witness:
  "\<exists>h h'. release_step\<^sup>*\<^sup>* (first_host ''0.4.0'' ''build'') h \<and> release_step h h'
    \<and> (\<exists>q. stored_policy (rh_file h') = Some q \<and> (3 < rp_version q \<or> q = sample_policy))"
proof -
  obtain s' where r: "release_refresh 1000 (Inr (policy_json sample_policy)) True (new_service ''0.4.0'' ''build'')
      = (s', None, Some (cached_json sample_policy (to_iso 1000)))" using sample_refresh by blast
  let ?h = "\<lparr>rh_file = JsonFile (cached_json sample_policy (to_iso 1000)), rh_service = s'\<rparr>"
  have eff: "date_ms (rp_effective sample_policy) = 0" by code_simp
  have "release_step (first_host ''0.4.0'' ''build'') ?h"
    using release_step.refresh [of 1000 "Inr (policy_json sample_policy)" True "first_host ''0.4.0'' ''build''"] r eff
    by (simp add: first_host_def answer_in_range_def iso_range_def saved_file_def)
  then have one: "release_step\<^sup>*\<^sup>* (first_host ''0.4.0'' ''build'') ?h" by blast
  have two: "release_step ?h (?h\<lparr>rh_service := release_initialize 5 (rh_file ?h) (new_service ''0.5.0'' ''build'')\<rparr>)"
    by (rule release_step.start)
  have "stored_policy (rh_file ?h) = Some sample_policy" using sample_policy_ok by (simp add: iso_range_def)
  from policy_never_rolls_back [OF one _ this] two
  have "\<exists>q. stored_policy (rh_file (?h\<lparr>rh_service := release_initialize 5 (rh_file ?h) (new_service ''0.5.0'' ''build'')\<rparr>)) = Some q
      \<and> (3 < rp_version q \<or> q = sample_policy)" by (fastforce simp: sample_policy_def)
  with one two show ?thesis by blast
qed

end
