(* ===== verification/Ai_Status.thy ===== *)
theory Ai_Status
  imports Task_Transport
begin

text \<open>
  The status of the local tools and Agents that a peer may see (\<open>core/ai-status/protocol.ts\<close>, \<open>negotiation.ts\<close>,
  \<open>agent-projection.ts\<close>): the validator of a received status in its four schemas, the choice of a schema for a peer,
  and the projection of a local Agent. A status is the parsed \<open>json\<close>.
\<close>

section \<open>Fields\<close>

definition as_fail :: "bool \<Rightarrow> string \<Rightarrow> error option" where
  "as_fail b message = throw_if b (AiStatusProtocolError message)"

definition as_record :: "json \<Rightarrow> string \<Rightarrow> error option" where
  "as_record v label = as_fail (\<not> is_record v) (label @ '' must be an object.'')"

definition as_exactKeys :: "json \<Rightarrow> string list \<Rightarrow> string \<Rightarrow> error option" where
  "as_exactKeys v allowed label = first_err
     [as_fail (has_extra_key allowed v) (label @ '' contains an unsupported field.''),
      as_fail (has_missing_key allowed v) (label @ '' is missing a required field.'')]"

definition as_object :: "json \<Rightarrow> string list \<Rightarrow> string \<Rightarrow> error option" where
  "as_object v allowed label = first_err [as_record v label, as_exactKeys v allowed label]"

definition shortString :: "json \<Rightarrow> string \<Rightarrow> nat \<Rightarrow> error option" where
  "shortString v label maxLength =
     as_fail (\<not> is_string v \<or> trim (str_of v) = [] \<or> maxLength < length (str_of v)) (label @ '' is invalid.'')"

definition as_slug :: "json \<Rightarrow> string \<Rightarrow> nat \<Rightarrow> error option" where
  "as_slug v label maxLength = first_err
     [shortString v label maxLength, as_fail (\<not> slug_pattern (str_of v)) (label @ '' is invalid.'')]"

definition shortKey :: "json \<Rightarrow> string \<Rightarrow> error option" where
  "shortKey v label = as_slug v label 32"

definition safeLabel :: "json \<Rightarrow> string \<Rightarrow> nat \<Rightarrow> error option" where
  "safeLabel v label maxLength = first_err
     [shortString v label maxLength, as_fail (list_ex control_char (str_of v)) (label @ '' is invalid.'')]"

text \<open>The search for a whole word, without regard to the case of the letters.\<close>

definition word_char :: "char \<Rightarrow> bool" where
  "word_char c \<longleftrightarrow> is_alnum c \<or> c = CHR ''_''"

definition has_word :: "string \<Rightarrow> string \<Rightarrow> bool" where
  "has_word w s = list_ex (\<lambda>i. take (length w) (drop i s) = w
     \<and> (i = 0 \<or> \<not> word_char (s ! (i - 1)))
     \<and> (length s \<le> i + length w \<or> \<not> word_char (s ! (i + length w)))) [0..<length s]"

definition secret_words :: "string list" where
  "secret_words = [''token'', ''cookie'', ''credential'', ''password'', ''apikey'', ''api_key'', ''api key'', ''api-key'']"

definition safeVersion :: "json \<Rightarrow> error option" where
  "safeVersion v = first_err
     [safeLabel v ''Agent version'' 160,
      as_fail (list_ex (\<lambda>c. c = CHR 0x5C \<or> c = CHR ''/'' \<or> c = CHR ''@'') (str_of v)
          \<or> list_ex (\<lambda>w. has_word w (map lower_char (str_of v))) secret_words)
        ''AI Agent version is invalid.'']"

definition safeIdArray :: "json \<Rightarrow> string \<Rightarrow> nat \<Rightarrow> error option" where
  "safeIdArray v label maximum = first_err
     (as_fail (\<not> is_array v \<or> maximum < length (items v) \<or> \<not> distinct (items v)) (label @ '' are invalid.'')
      # map (\<lambda>i. as_slug i label 64) (items v))"

definition contentModeArray :: "json \<Rightarrow> string \<Rightarrow> error option" where
  "contentModeArray v label =
     as_fail (\<not> is_array v \<or> items v = [] \<or> 2 < length (items v) \<or> hd (items v) \<noteq> JStr ''text''
         \<or> \<not> distinct (items v) \<or> list_ex (\<lambda>m. m \<noteq> JStr ''text'' \<and> m \<noteq> JStr ''image'') (items v))
       (label @ '' are invalid.'')"

definition as_timestamp :: "json \<Rightarrow> string \<Rightarrow> error option" where
  "as_timestamp v label = first_err
     [as_fail (\<not> is_string v \<or> trim (str_of v) = []) (''AI status '' @ label @ '' is required.''),
      as_fail (\<not> valid_date (str_of v)) (''AI status '' @ label @ '' is invalid.'')]"

text \<open>A finite number between two bounds; a finite number above zero; an integer between two bounds.\<close>

fun num_between :: "int \<Rightarrow> int \<Rightarrow> json \<Rightarrow> bool" where
  "num_between lo hi (JNum (NInt i)) = (lo \<le> i \<and> i \<le> hi)"
| "num_between lo hi (JNum (Frac r s)) = (of_int lo \<le> r \<and> r \<le> of_int hi)"
| "num_between lo hi _ = False"

fun num_positive :: "json \<Rightarrow> bool" where
  "num_positive (JNum (NInt i)) = (0 < i)"
| "num_positive (JNum (Frac r s)) = (0 < r)"
| "num_positive _ = False"

fun int_between :: "int \<Rightarrow> int \<Rightarrow> json \<Rightarrow> bool" where
  "int_between lo hi (JNum (NInt i)) = (lo \<le> i \<and> i \<le> hi)"
| "int_between lo hi _ = False"

definition as_one_of :: "string list \<Rightarrow> json \<Rightarrow> bool" where
  "as_one_of xs v \<longleftrightarrow> is_string v \<and> str_of v \<in> set xs"

section \<open>Tools and Agents\<close>

definition quota_keys :: "string list" where
  "quota_keys = [''period'', ''remainingPercent'', ''resetAt'', ''windowSeconds'', ''identification'']"

definition validateQuota :: "json \<Rightarrow> error option" where
  "validateQuota v = first_err
     [as_object v quota_keys ''AI tool quota'',
      shortKey (get v ''period'') ''quota period'',
      as_fail (\<not> num_between 0 100 (get v ''remainingPercent'')) ''AI tool quota remainingPercent is invalid.'',
      (if get v ''resetAt'' \<noteq> JNull then as_timestamp (get v ''resetAt'') ''resetAt'' else None),
      as_fail (get v ''windowSeconds'' \<noteq> JNull \<and> \<not> num_positive (get v ''windowSeconds''))
        ''AI tool quota windowSeconds is invalid.'',
      as_fail (get v ''identification'' \<noteq> JStr ''exact'' \<and> get v ''identification'' \<noteq> JStr ''inferred'')
        ''AI tool quota identification is invalid.'']"

text \<open>\<open>TOOL_ID_PATTERN\<close> has no underscore.\<close>

definition tool_id_pattern :: "string \<Rightarrow> bool" where
  "tool_id_pattern s \<longleftrightarrow> slug_pattern s \<and> CHR ''_'' \<notin> set s"

definition validateTool :: "json \<Rightarrow> error option" where
  "validateTool v = first_err
     ([as_object v [''toolId'', ''status'', ''plan'', ''quotas'', ''observedAt''] ''AI tool status'',
       shortString (get v ''toolId'') ''toolId'' 64,
       as_fail (\<not> tool_id_pattern (str_of (get v ''toolId''))) ''AI tool status toolId is invalid.'',
       as_fail (\<not> as_one_of [''ready'', ''stale'', ''unavailable''] (get v ''status'')) ''AI tool status state is invalid.'',
       as_timestamp (get v ''observedAt'') ''observedAt'',
       as_object (get v ''plan'') [''key'', ''membershipVerified''] ''AI tool plan'',
       (if get (get v ''plan'') ''key'' \<noteq> JNull then shortKey (get (get v ''plan'') ''key'') ''plan key'' else None),
       as_fail (\<not> is_boolean (get (get v ''plan'') ''membershipVerified''))
         ''AI tool plan membershipVerified must be boolean.'',
       as_fail (\<not> is_array (get v ''quotas'') \<or> 8 < length (items (get v ''quotas'')))
         ''AI tool quotas must be a bounded array.'']
      @ map validateQuota (items (get v ''quotas'')))"

definition agent_types :: "string list" where
  "agent_types = [''cli'', ''desktop'', ''ide_extension'', ''local_service'']"

definition agent_status_keys :: "string list" where
  "agent_status_keys = [''agentId'', ''name'', ''provider'', ''type'', ''surfaces'', ''installationStatus'', ''detectionSource'',
     ''version'', ''runtimeStatus'', ''processCount'', ''confidence'', ''lastSeenAt'', ''observedAt'']"

definition validateAgent :: "json \<Rightarrow> error option" where
  "validateAgent v = first_err
     [as_object v agent_status_keys ''AI Agent status'',
      as_slug (get v ''agentId'') ''Agent ID'' 64,
      safeLabel (get v ''name'') ''Agent name'' 80,
      (if get v ''provider'' \<noteq> JNull then as_slug (get v ''provider'') ''Agent provider'' 64 else None),
      as_fail (\<not> as_one_of agent_types (get v ''type'')) ''AI Agent type is invalid.'',
      as_fail (\<not> is_array (get v ''surfaces'') \<or> items (get v ''surfaces'') = [] \<or> 4 < length (items (get v ''surfaces''))
          \<or> list_ex (\<lambda>s. \<not> as_one_of agent_types s) (items (get v ''surfaces'')) \<or> \<not> distinct (items (get v ''surfaces'')))
        ''AI Agent surfaces are invalid.'',
      as_fail (\<not> as_one_of [''installed'', ''not_installed'', ''unknown''] (get v ''installationStatus''))
        ''AI Agent installation status is invalid.'',
      as_fail (get v ''detectionSource'' \<noteq> JNull \<and> \<not> as_one_of [''command'', ''application'', ''process''] (get v ''detectionSource''))
        ''AI Agent detection source is invalid.'',
      (if get v ''version'' \<noteq> JNull then safeVersion (get v ''version'') else None),
      as_fail (\<not> as_one_of [''running'', ''not_running'', ''unknown''] (get v ''runtimeStatus''))
        ''AI Agent runtime status is invalid.'',
      as_fail (get v ''processCount'' \<noteq> JNull \<and> \<not> int_between 0 1024 (get v ''processCount''))
        ''AI Agent process count is invalid.'',
      as_fail (get v ''confidence'' \<noteq> JNull \<and> \<not> as_one_of [''low'', ''medium'', ''high''] (get v ''confidence''))
        ''AI Agent confidence is invalid.'',
      (if get v ''lastSeenAt'' \<noteq> JNull then as_timestamp (get v ''lastSeenAt'') ''Agent lastSeenAt'' else None),
      as_timestamp (get v ''observedAt'') ''Agent observedAt'']"

definition callable_agent_keys :: "string list" where
  "callable_agent_keys = [''id'', ''name'', ''provider'', ''capabilityIds'', ''inputModes'', ''outputModes'', ''availability'', ''observedAt'']"

definition validateCallableAgent :: "json \<Rightarrow> error option" where
  "validateCallableAgent v = first_err
     [as_object v callable_agent_keys ''Callable Passport Agent'',
      as_slug (get v ''id'') ''Callable Agent ID'' 64,
      safeLabel (get v ''name'') ''Callable Agent name'' 80,
      safeLabel (get v ''provider'') ''Callable Agent provider'' 64,
      safeIdArray (get v ''capabilityIds'') ''Callable Agent capability IDs'' 32,
      as_fail (items (get v ''capabilityIds'') = []) ''Callable Agent capability IDs are invalid.'',
      contentModeArray (get v ''inputModes'') ''Callable Agent input modes'',
      contentModeArray (get v ''outputModes'') ''Callable Agent output modes'',
      as_fail (get v ''availability'' \<noteq> JStr ''available'') ''Callable Agent availability is invalid.'',
      as_timestamp (get v ''observedAt'') ''Callable Agent observedAt'']"

definition as_validateCapability :: "json \<Rightarrow> error option" where
  "as_validateCapability v = first_err
     [as_object v [''id'', ''name'', ''category'', ''description'', ''availability'', ''observedAt''] ''Callable Passport capability'',
      as_slug (get v ''id'') ''Capability ID'' 64,
      safeLabel (get v ''name'') ''Capability name'' 80,
      as_slug (get v ''category'') ''Capability category'' 64,
      safeLabel (get v ''description'') ''Capability description'' 240,
      as_fail (get v ''availability'' \<noteq> JStr ''available'') ''Capability availability is invalid.'',
      as_timestamp (get v ''observedAt'') ''Capability observedAt'']"

definition validateBinding :: "json \<Rightarrow> error option" where
  "validateBinding v = first_err
     [as_object v [''capabilityId'', ''agentIds'', ''resourceIds''] ''Callable Passport binding'',
      as_slug (get v ''capabilityId'') ''Binding capability ID'' 64,
      safeIdArray (get v ''agentIds'') ''Binding Agent IDs'' 64,
      safeIdArray (get v ''resourceIds'') ''Binding Resource IDs'' 8]"

definition singleTextMode :: "json \<Rightarrow> bool" where
  "singleTextMode v \<longleftrightarrow> v = JArr [JStr ''text'']"

definition as_offer_keys :: "string list" where
  "as_offer_keys = [''offerId'', ''capability'', ''resourceClass'', ''executionLocation'', ''inputModes'', ''outputModes'',
     ''concurrency'', ''approval'', ''observedAt'']"

definition as_validateComputeOffer :: "json \<Rightarrow> error option" where
  "as_validateComputeOffer v = first_err
     [as_object v as_offer_keys ''Compute Offer'',
      as_slug (get v ''offerId'') ''Compute Offer ID'' 128,
      as_fail (get v ''capability'' \<noteq> JStr ''general-text-assistance''
          \<or> (get v ''resourceClass'' \<noteq> JStr ''local_model'' \<and> get v ''resourceClass'' \<noteq> JStr ''native_agent'')
          \<or> get v ''executionLocation'' \<noteq> JStr ''receiver_local''
          \<or> \<not> singleTextMode (get v ''inputModes'') \<or> \<not> singleTextMode (get v ''outputModes'')
          \<or> get v ''concurrency'' \<noteq> jint 1 \<or> get v ''approval'' \<noteq> JStr ''allow_once'')
        ''Compute Offer contract is invalid.'',
      as_timestamp (get v ''observedAt'') ''Compute Offer observedAt'']"

section \<open>References between the parts\<close>

definition members :: "json \<Rightarrow> string \<Rightarrow> json list" where
  "members v k = items (get v k)"

definition named :: "string \<Rightarrow> json list \<Rightarrow> json list" where
  "named k vs = map (\<lambda>v. get v k) vs"

definition binding_error :: error where
  "binding_error = AiStatusProtocolError ''Callable Passport binding references are invalid.''"

text \<open>The loop over the bindings; \<open>seen\<close> is \<open>boundCapabilities\<close>.\<close>

definition binding_ok :: "json list \<Rightarrow> json list \<Rightarrow> json list \<Rightarrow> json list \<Rightarrow> json \<Rightarrow> bool" where
  "binding_ok tools agents capabilities seen b \<longleftrightarrow>
     get b ''capabilityId'' \<in> set (named ''id'' capabilities)
     \<and> members b ''agentIds'' \<noteq> []
     \<and> list_all (\<lambda>i. i \<in> set (named ''id'' agents)) (members b ''agentIds'')
     \<and> list_all (\<lambda>i. i \<in> set (named ''toolId'' tools)) (members b ''resourceIds'')
     \<and> get b ''capabilityId'' \<notin> set seen"

definition agent_declares :: "json list \<Rightarrow> json \<Rightarrow> json \<Rightarrow> bool" where
  "agent_declares agents capabilityId agentId = (case find_first (\<lambda>a. get a ''id'' = agentId) agents of
       None \<Rightarrow> False | Some a \<Rightarrow> capabilityId \<in> set (members a ''capabilityIds''))"

fun bindings_loop :: "json list \<Rightarrow> json list \<Rightarrow> json list \<Rightarrow> json list \<Rightarrow> json list \<Rightarrow> error option" where
  "bindings_loop tools agents capabilities seen [] = None"
| "bindings_loop tools agents capabilities seen (b # bs) = first_err
     [throw_if (\<not> binding_ok tools agents capabilities seen b) binding_error,
      throw_if (\<not> list_all (agent_declares agents (get b ''capabilityId'')) (members b ''agentIds'')) binding_error,
      bindings_loop tools agents capabilities (get b ''capabilityId'' # seen) bs]"

text \<open>\<open>bindingByCapability.get(c)\<close>.\<close>

definition binding_for :: "json list \<Rightarrow> json \<Rightarrow> json option" where
  "binding_for bindings c = find_first (\<lambda>b. get b ''capabilityId'' = c) bindings"

definition bound_to :: "json list \<Rightarrow> json \<Rightarrow> json \<Rightarrow> bool" where
  "bound_to bindings agentId c = (case binding_for bindings c of
       None \<Rightarrow> False | Some b \<Rightarrow> agentId \<in> set (members b ''agentIds''))"

definition serves_modes :: "json \<Rightarrow> json \<Rightarrow> bool" where
  "serves_modes offer agent \<longleftrightarrow>
     list_all (\<lambda>m. m \<in> set (members agent ''inputModes'')) (members offer ''inputModes'')
     \<and> list_all (\<lambda>m. m \<in> set (members agent ''outputModes'')) (members offer ''outputModes'')"

definition offer_ok :: "json list \<Rightarrow> json list \<Rightarrow> json list \<Rightarrow> json list \<Rightarrow> json \<Rightarrow> bool" where
  "offer_ok agents capabilities bindings seen offer \<longleftrightarrow>
     get offer ''offerId'' \<notin> set seen
     \<and> get offer ''capability'' \<in> set (named ''id'' capabilities)
     \<and> binding_for bindings (get offer ''capability'') \<noteq> None
     \<and> list_ex (serves_modes offer) (filter (\<lambda>a. bound_to bindings (get a ''id'') (get offer ''capability'')) agents)"

fun offers_loop :: "json list \<Rightarrow> json list \<Rightarrow> json list \<Rightarrow> json list \<Rightarrow> json list \<Rightarrow> error option" where
  "offers_loop agents capabilities bindings seen [] = None"
| "offers_loop agents capabilities bindings seen (offer # offers) = first_err
     [as_fail (\<not> offer_ok agents capabilities bindings seen offer) ''Compute Offer references are invalid.'',
      offers_loop agents capabilities bindings (get offer ''offerId'' # seen) offers]"

definition validateCallableReferences :: "json \<Rightarrow> bool \<Rightarrow> error option" where
  "validateCallableReferences p withOffers =
     (let tools = members p ''tools''; agents = members p ''agents''; capabilities = members p ''capabilities'';
          bindings = members p ''bindings''; offers = (if withOffers then members p ''computeOffers'' else []) in
      first_err
       [as_fail (\<not> distinct (named ''toolId'' tools) \<or> \<not> distinct (named ''id'' agents) \<or> \<not> distinct (named ''id'' capabilities))
          ''Callable Passport entity IDs must be unique.'',
        bindings_loop tools agents capabilities [] bindings,
        first_err (map (\<lambda>a. as_fail (list_ex (\<lambda>c. c \<notin> set (named ''id'' capabilities) \<or> \<not> bound_to bindings (get a ''id'') c)
            (members a ''capabilityIds'')) ''Callable Agent capability reference is invalid.'') agents),
        as_fail (card (set (named ''capabilityId'' bindings)) \<noteq> card (set (named ''id'' capabilities)))
          ''Every Callable Passport capability must have one binding.'',
        offers_loop agents capabilities bindings [] offers])"

section \<open>The status\<close>

definition status_keys :: "int \<Rightarrow> string list" where
  "status_keys n = [''schemaVersion'', ''sharing'', ''generatedAt'', ''expiresAt'', ''tools'']
     @ (if 2 \<le> n then [''agents''] else [])
     @ (if 3 \<le> n then [''capabilities'', ''bindings''] else [])
     @ (if 4 \<le> n then [''computeOffers''] else [])"

text \<open>A list of the status: bounded, and empty when the sharing is disabled.\<close>

definition bounded_list :: "json \<Rightarrow> string \<Rightarrow> nat \<Rightarrow> string \<Rightarrow> error option" where
  "bounded_list p k maximum message = as_fail (\<not> is_array (get p k) \<or> maximum < length (members p k)) message"

definition disabled_empty :: "json \<Rightarrow> string list \<Rightarrow> string \<Rightarrow> error option" where
  "disabled_empty p ks message = as_fail (get p ''sharing'' = JStr ''disabled'' \<and> list_ex (\<lambda>k. members p k \<noteq> []) ks) message"

definition status_header :: "json \<Rightarrow> int \<Rightarrow> error option" where
  "status_header p n = first_err
     [as_exactKeys p (status_keys n) ''AI status payload'',
      as_fail (get p ''sharing'' \<noteq> JStr ''enabled'' \<and> get p ''sharing'' \<noteq> JStr ''disabled'') ''AI status sharing state is invalid.'',
      as_timestamp (get p ''generatedAt'') ''generatedAt'',
      as_timestamp (get p ''expiresAt'') ''expiresAt'',
      as_fail (time_of (get p ''expiresAt'') \<le> time_of (get p ''generatedAt'')) ''AI status expiresAt must be after generatedAt.'',
      as_fail (60 * 60 * 1000 < time_of (get p ''expiresAt'') - time_of (get p ''generatedAt''))
        ''AI status expiry exceeds the allowed TTL.'']"

definition status_tools :: "json \<Rightarrow> error option" where
  "status_tools p = first_err
     ([bounded_list p ''tools'' 8 ''AI status tools must be a bounded array.'',
       disabled_empty p [''tools''] ''A disabled AI status payload cannot contain tools.'']
      @ map validateTool (members p ''tools''))"

definition status_agents :: "json \<Rightarrow> int \<Rightarrow> error option" where
  "status_agents p n = first_err
     ([bounded_list p ''agents'' 64 ''AI status agents must be a bounded array.'',
       disabled_empty p [''agents''] ''A disabled AI status payload cannot contain agents.'']
      @ map (if 3 \<le> n then validateCallableAgent else validateAgent) (members p ''agents''))"

definition status_offers :: "json \<Rightarrow> error option" where
  "status_offers p = first_err
     ([bounded_list p ''computeOffers'' 32 ''Compute Offers must be a bounded array.'',
       disabled_empty p [''computeOffers''] ''A disabled AI status payload cannot contain Compute Offers.'']
      @ map as_validateComputeOffer (members p ''computeOffers''))"

definition status_capabilities :: "json \<Rightarrow> int \<Rightarrow> error option" where
  "status_capabilities p n = first_err
     ([bounded_list p ''capabilities'' 64 ''AI status capabilities must be a bounded array.'',
       bounded_list p ''bindings'' 64 ''AI status bindings must be a bounded array.'',
       disabled_empty p [''capabilities'', ''bindings''] ''A disabled AI status payload cannot contain capabilities.'']
      @ map as_validateCapability (members p ''capabilities'') @ map validateBinding (members p ''bindings'')
      @ [if 4 \<le> n then status_offers p else None, validateCallableReferences p (4 \<le> n)])"

definition as_schema :: "json \<Rightarrow> int" where
  "as_schema p = int_of (get p ''schemaVersion'')"

definition validateAiStatusSyncPayload :: "json \<Rightarrow> error option" where
  "validateAiStatusSyncPayload v = first_err
     [as_fail (64 * 1024 < encoded_size v) ''AI status payload exceeds the allowed size.'',
      as_record v ''AI status payload'',
      as_fail (get v ''schemaVersion'' \<notin> {jint 4, jint 3, jint 2, jint 1}) ''Unsupported AI status schema version.'',
      status_header v (as_schema v),
      status_tools v,
      (if 2 \<le> as_schema v then status_agents v (as_schema v) else None),
      (if 3 \<le> as_schema v then status_capabilities v (as_schema v) else None)]"

section \<open>Negotiation and projection\<close>

definition supported_passport_schemas :: "int list" where
  "supported_passport_schemas = [4]"

definition selectAiStatusSchemaForPeer :: "int list option \<Rightarrow> int option" where
  "selectAiStatusSchemaForPeer remote = (case remote of
       None \<Rightarrow> None
     | Some vs \<Rightarrow> find_first (\<lambda>v. v \<in> set vs) (sort_by (\<lambda>l r. r \<le> l) supported_passport_schemas))"

fun passport_versions_loop :: "json list \<Rightarrow> json list \<Rightarrow> error option" where
  "passport_versions_loop seen [] = None"
| "passport_versions_loop seen (v # vs) = first_err
     [throw_if (\<not> safe_int_in 1 255 v \<or> v \<in> set seen) (PlainError ''Passport schema versions are invalid.''),
      passport_versions_loop (v # seen) vs]"

definition validatePassportSchemaVersions :: "json \<Rightarrow> error option" where
  "validatePassportSchemaVersions v = first_err
     [throw_if (\<not> is_array v \<or> items v = [] \<or> 8 < length (items v)) (PlainError ''Passport schema versions are invalid.''),
      passport_versions_loop [] (items v)]"

definition createShareableAgentStatus :: "json \<Rightarrow> json" where
  "createShareableAgentStatus a = JObj
     [(''agentId'', get a ''id''), (''name'', get a ''name''), (''provider'', or_else (get a ''provider'') JNull),
      (''type'', get a ''type''), (''surfaces'', or_else (get a ''surfaces'') (JArr [get a ''type''])),
      (''installationStatus'', get a ''installationStatus''), (''detectionSource'', or_else (get a ''detectionSource'') JNull),
      (''version'', or_else (get a ''version'') JNull), (''runtimeStatus'', or_else (get a ''runtimeStatus'') (JStr ''unknown'')),
      (''processCount'', or_else (get a ''processCount'') JNull), (''confidence'', or_else (get a ''confidence'') JNull),
      (''lastSeenAt'', or_else (get a ''lastSeenAt'') JNull), (''observedAt'', get a ''observedAt'')]"

end
