(* ===== verification/App_Protocol.thy ===== *)
theory App_Protocol
  imports Ai_Status Connection Agent_Core
begin

text \<open>
  The envelope of the messages between two peers (\<open>core/protocol/types.ts\<close>, \<open>validator.ts\<close>, \<open>envelope.ts\<close>) and what
  a received envelope stands for (\<open>core/application/handlers.ts\<close>). A text that arrives is either no JSON or the JSON
  of a value: \<open>wire\<close>. \<open>JSON.parse\<close> of a text that \<open>JSON.stringify\<close> made is the value itself, see \<open>Json_Text\<close>.
\<close>

section \<open>Fields\<close>

definition ap_fail :: "bool \<Rightarrow> string \<Rightarrow> error option" where
  "ap_fail b message = throw_if b (ApplicationProtocolError message)"

definition ap_requireBoundedString :: "json \<Rightarrow> string \<Rightarrow> int \<Rightarrow> error option" where
  "ap_requireBoundedString v fieldName maximumBytes =
     ap_fail (\<not> is_string v \<or> trim (str_of v) = [] \<or> maximumBytes < utf8_size (str_of v)) (fieldName @ '' is required.'')"

definition ap_requireTimestamp :: "json \<Rightarrow> string \<Rightarrow> error option" where
  "ap_requireTimestamp v fieldName = first_err
     [ap_requireBoundedString v fieldName 64, ap_fail (\<not> valid_date (str_of v)) (fieldName @ '' must be a valid timestamp.'')]"

definition requireStringArray :: "json \<Rightarrow> string \<Rightarrow> nat \<Rightarrow> int \<Rightarrow> error option" where
  "requireStringArray v fieldName maximumItems maximumItemBytes = first_err
     [ap_fail (\<not> is_array v \<or> items v = [] \<or> maximumItems < length (items v)) (fieldName @ '' must be a non-empty string array.''),
      ap_fail (list_ex (\<lambda>i. \<not> is_string i \<or> trim (str_of i) = [] \<or> maximumItemBytes < utf8_size (str_of i)) (items v))
        (fieldName @ '' must contain only non-empty strings.'')]"

definition ap_rejectUnknownKeys :: "json \<Rightarrow> string list \<Rightarrow> string \<Rightarrow> error option" where
  "ap_rejectUnknownKeys v allowed label =
     ap_fail (list_ex (\<lambda>k. k \<notin> set allowed) (keys_of v)) (label @ '' contains an unsupported field.'')"

definition private_fields :: "string list" where
  "private_fields = [''privateKey'', ''secretKey'', ''password'', ''credentials'', ''chatmailPassword'', ''databasePath'', ''dbPath'',
     ''chatHistory'', ''messages'']"

definition ap_rejectPrivateFields :: "json \<Rightarrow> string \<Rightarrow> error option" where
  "ap_rejectPrivateFields v label = first_err
     (map (\<lambda>f. ap_fail (get v f \<noteq> JUndef) (label @ '' must not contain '' @ f @ ''.'')) private_fields)"

definition lower_hex64 :: "string \<Rightarrow> bool" where
  "lower_hex64 s \<longleftrightarrow> length s = 64 \<and> list_all is_hex s"

section \<open>Payloads\<close>

text \<open>\<open>try { ... } catch { throw new TetiApplicationProtocolError(message) }\<close>\<close>

definition rethrow :: "error option \<Rightarrow> string \<Rightarrow> error option" where
  "rethrow c message = ap_fail (c \<noteq> None) message"

definition profile_payload :: "json \<Rightarrow> error option" where
  "profile_payload p = first_err
     [ap_rejectUnknownKeys p [''displayName'', ''platform'', ''aiEnvironment''] ''Profile sync payload'',
      ap_fail (get p ''displayName'' \<noteq> JUndef \<and> \<not> is_string (get p ''displayName'')) ''Profile sync displayName must be a string.'',
      ap_fail (is_string (get p ''displayName'') \<and> 256 < utf8_size (str_of (get p ''displayName'')))
        ''Profile sync displayName is too large.'',
      ap_requireBoundedString (get p ''platform'') ''platform'' 64,
      requireStringArray (get p ''aiEnvironment'') ''aiEnvironment'' 64 128]"

definition capability_payload :: "json \<Rightarrow> error option" where
  "capability_payload p = first_err
     [ap_rejectUnknownKeys p [''capabilities''] ''Capability offer payload'',
      requireStringArray (get p ''capabilities'') ''capabilities'' 64 128]"

definition presence_keys :: "string list" where
  "presence_keys = [''status'', ''timestamp'', ''collaborationProtocolEpoch'', ''taskProtocolVersions'', ''passportSchemaVersions'',
     ''passportLease'', ''passportRefreshRequestedAt'']"

definition lease_payload :: "json \<Rightarrow> error option" where
  "lease_payload l = first_err
     [ap_fail (\<not> is_record l) ''Presence Passport lease is invalid.'',
      ap_rejectUnknownKeys l [''schemaVersion'', ''contentHash'', ''checkedAt'', ''validForSeconds''] ''Presence Passport lease'',
      ap_fail (get l ''schemaVersion'' \<noteq> jint 1 \<or> \<not> is_string (get l ''contentHash'')
          \<or> \<not> lower_hex64 (str_of (get l ''contentHash'')) \<or> get l ''validForSeconds'' \<noteq> jint 300)
        ''Presence Passport lease is invalid.'',
      ap_requireTimestamp (get l ''checkedAt'') ''passportLease.checkedAt'']"

definition presence_payload :: "json \<Rightarrow> error option" where
  "presence_payload p = first_err
     [ap_rejectUnknownKeys p presence_keys ''Presence payload'',
      ap_requireBoundedString (get p ''status'') ''status'' 64,
      ap_requireTimestamp (get p ''timestamp'') ''timestamp'',
      ap_fail (get p ''collaborationProtocolEpoch'' \<noteq> jint 2) ''Presence collaboration protocol epoch is invalid.'',
      rethrow (first_err [validateTaskProtocolVersions (get p ''taskProtocolVersions''),
          throw_if (items (get p ''taskProtocolVersions'') \<noteq> [jint 7]) (PlainError ''Beta 0.4.0 requires Task protocol v7.'')])
        ''Presence task protocol versions are invalid.'',
      rethrow (first_err [validatePassportSchemaVersions (get p ''passportSchemaVersions''),
          throw_if (items (get p ''passportSchemaVersions'') \<noteq> [jint 4]) (PlainError ''0.2.4 requires Passport schema 4.'')])
        ''Presence Passport schema versions are invalid.'',
      (if get p ''passportLease'' \<noteq> JUndef then lease_payload (get p ''passportLease'') else None),
      (if get p ''passportRefreshRequestedAt'' \<noteq> JUndef
       then ap_requireTimestamp (get p ''passportRefreshRequestedAt'') ''passportRefreshRequestedAt'' else None)]"

definition status_payload :: "json \<Rightarrow> error option" where
  "status_payload p = rethrow (first_err
     [throw_if (get p ''schemaVersion'' \<noteq> jint 4) (PlainError ''0.2.4 requires Compute Passport schema 4.''),
      validateAiStatusSyncPayload p]) ''AI status sync payload is invalid.''"

definition request_payload :: "json \<Rightarrow> error option" where
  "request_payload p = rethrow (first_err
     [throw_if (get p ''schemaVersion'' \<noteq> jint 7) (PlainError ''Beta 0.4.0 requires Task protocol v7.''),
      validateCollaborationTaskRequest p]) ''Task request payload is invalid.''"

text \<open>The payload validators by the type of the message.\<close>

definition payload_validators :: "(string \<times> (json \<Rightarrow> error option)) list" where
  "payload_validators =
     [(''teti.profile.sync'', profile_payload), (''teti.capability.offer'', capability_payload),
      (''teti.presence'', presence_payload), (''teti.ai.status.sync'', status_payload), (''teti.task.request'', request_payload),
      (''teti.task.receipt'', \<lambda>p. rethrow (validateTaskReceiptPayload p) ''Task receipt payload is invalid.'')]
     @ map (\<lambda>(t, f). (t, \<lambda>p. rethrow (f p) ''Task application payload is invalid.''))
        [(''teti.task.attachment'', validateTaskAttachmentPayload),
         (''teti.task.attachment.receipt'', validateTaskAttachmentReceiptPayload),
         (''teti.task.status'', validateTaskStatusPayload), (''teti.task.cancel'', validateTaskCancelPayload),
         (''teti.task.input'', validateTaskInputPayload),
         (''teti.task.application.receipt'', validateTaskApplicationReceiptPayload),
         (''teti.task.artifact'', validateTaskArtifactPayload), (''teti.task.artifact.file'', validateTaskArtifactFilePayload),
         (''teti.task.artifact.receipt'', validateTaskArtifactReceiptPayload)]"

definition isSupportedApplicationType :: "string \<Rightarrow> bool" where
  "isSupportedApplicationType t \<longleftrightarrow> t \<in> set
     [''teti.profile.sync'', ''teti.capability.offer'', ''teti.presence'', ''teti.ai.status.sync'', ''teti.task.request'',
      ''teti.task.receipt'', ''teti.task.attachment'', ''teti.task.attachment.receipt'', ''teti.task.status'', ''teti.task.cancel'',
      ''teti.task.input'', ''teti.task.application.receipt'', ''teti.task.artifact'', ''teti.task.artifact.file'',
      ''teti.task.artifact.receipt'']"

definition validatePayload :: "string \<Rightarrow> json \<Rightarrow> error option" where
  "validatePayload t p = (case map_of payload_validators t of None \<Rightarrow> None | Some f \<Rightarrow> f p)"

section \<open>Envelopes\<close>

definition max_application_envelope_bytes :: int where
  "max_application_envelope_bytes = 128 * 1024"

definition envelope_keys :: "string list" where
  "envelope_keys = [''version'', ''type'', ''messageId'', ''fromTetiId'', ''createdAt'', ''payload'']"

definition validateApplicationEnvelope :: "json \<Rightarrow> error option" where
  "validateApplicationEnvelope v = first_err
     [ap_fail (max_application_envelope_bytes < encoded_size v) ''Teti application envelope exceeds the allowed size.'',
      ap_fail (\<not> is_record v) ''Teti application envelope must be an object.'',
      ap_rejectPrivateFields v ''Teti application envelope'',
      ap_rejectUnknownKeys v envelope_keys ''Teti application envelope'',
      ap_fail (get v ''version'' \<noteq> jint 2) ''Unsupported Teti application envelope version.'',
      ap_fail (\<not> is_string (get v ''type'') \<or> \<not> isSupportedApplicationType (str_of (get v ''type'')))
        ''Teti application envelope type is invalid.'',
      ap_requireBoundedString (get v ''messageId'') ''messageId'' 128,
      ap_fail (\<not> isCanonicalTetiPublicId (get v ''fromTetiId''))
        ''fromTetiId must match teti_ followed by exactly 9 ASCII lowercase letters or numbers.'',
      ap_requireTimestamp (get v ''createdAt'') ''createdAt'',
      ap_fail (\<not> is_record (get v ''payload'')) ''Teti application envelope payload is required.'',
      ap_rejectPrivateFields (get v ''payload'') ''Teti application payload'',
      validatePayload (str_of (get v ''type'')) (get v ''payload'')]"

definition application_envelope :: "string \<Rightarrow> string \<Rightarrow> json \<Rightarrow> string \<Rightarrow> string \<Rightarrow> json" where
  "application_envelope t sender payload messageId createdAt = JObj
     [(''version'', jint 2), (''type'', JStr t), (''messageId'', JStr messageId), (''fromTetiId'', JStr sender),
      (''createdAt'', JStr createdAt), (''payload'', payload)]"

text \<open>\<open>fresh\<close> and \<open>now\<close> stand for the generated identifier and the clock.\<close>

definition createApplicationEnvelope ::
  "string \<Rightarrow> string \<Rightarrow> string \<Rightarrow> string \<Rightarrow> json \<Rightarrow> string option \<Rightarrow> string option \<Rightarrow> json result" where
  "createApplicationEnvelope fresh now t sender payload messageId createdAt =
     (let e = application_envelope t sender payload (given_or messageId fresh) (given_or createdAt now) in
      guarded (validateApplicationEnvelope e) (Inr e))"

definition serializeApplicationEnvelope :: "json \<Rightarrow> string result" where
  "serializeApplicationEnvelope e = guarded (validateApplicationEnvelope e) (Inr (stringify e))"

text \<open>A text, with the result of \<open>JSON.parse\<close>.\<close>

datatype wire = Wire string "json option"

fun wire_text :: "wire \<Rightarrow> string" where "wire_text (Wire s v) = s"

fun wire_json :: "wire \<Rightarrow> json option" where "wire_json (Wire s v) = v"

definition sent_wire :: "json \<Rightarrow> wire" where
  "sent_wire v = Wire (stringify v) (Some (json_clone v))"

definition parseApplicationEnvelope :: "wire \<Rightarrow> json result" where
  "parseApplicationEnvelope w =
     (if max_application_envelope_bytes < utf8_size (wire_text w)
      then Inl (ApplicationProtocolError ''Teti application envelope exceeds the allowed size.'')
      else case wire_json w of
        None \<Rightarrow> Inl (ApplicationProtocolError ''Teti application message is not valid JSON.'')
      | Some v \<Rightarrow> guarded (validateApplicationEnvelope v) (Inr v))"

record envelope_header =
  eh_version :: int
  eh_sender :: string
  eh_message_id :: "string option"

definition inspectApplicationEnvelopeHeader :: "wire \<Rightarrow> envelope_header option" where
  "inspectApplicationEnvelopeHeader w =
     (if max_application_envelope_bytes < utf8_size (wire_text w) then None
      else case wire_json w of
        None \<Rightarrow> None
      | Some v \<Rightarrow>
          if \<not> is_record v then None
          else if \<not> is_safe_integer (get v ''version'') \<or> \<not> isCanonicalTetiPublicId (get v ''fromTetiId'') then None
          else Some \<lparr>eh_version = int_of (get v ''version''), eh_sender = str_of (get v ''fromTetiId''),
            eh_message_id = (if is_string (get v ''messageId'') \<and> trim (str_of (get v ''messageId'')) \<noteq> []
               then Some (str_of (get v ''messageId'')) else None)\<rparr>)"

section \<open>Handlers\<close>

text \<open>The type of the result and the name of its content, by the type of the message; the last line of the code is the default.\<close>

definition handler_names :: "(string \<times> string \<times> string) list" where
  "handler_names =
     [(''teti.profile.sync'', ''profile.sync'', ''profile''), (''teti.presence'', ''presence'', ''presence''),
      (''teti.ai.status.sync'', ''ai.status.sync'', ''status''), (''teti.task.request'', ''task.request'', ''request''),
      (''teti.task.receipt'', ''task.receipt'', ''receipt''), (''teti.task.attachment'', ''task.attachment'', ''attachment''),
      (''teti.task.attachment.receipt'', ''task.attachment.receipt'', ''receipt''),
      (''teti.task.status'', ''task.status'', ''status''), (''teti.task.cancel'', ''task.cancel'', ''cancel''),
      (''teti.task.input'', ''task.input'', ''input''), (''teti.task.application.receipt'', ''task.application.receipt'', ''receipt''),
      (''teti.task.artifact.file'', ''task.artifact.file'', ''artifact''),
      (''teti.task.artifact.receipt'', ''task.artifact.receipt'', ''receipt'')]"

definition handler_result :: "json \<Rightarrow> string \<Rightarrow> string \<Rightarrow> json \<Rightarrow> json" where
  "handler_result e t k content = JObj
     [(''type'', JStr t), (''messageId'', get e ''messageId''), (''fromTetiId'', get e ''fromTetiId''), (k, content)]"

definition handleApplicationEnvelope :: "json \<Rightarrow> json" where
  "handleApplicationEnvelope e =
     (if get e ''type'' = JStr ''teti.capability.offer''
      then handler_result e ''capability.offer'' ''capabilities'' (get (get e ''payload'') ''capabilities'')
      else case map_of handler_names (str_of (get e ''type'')) of
          Some (t, k) \<Rightarrow> handler_result e t k (get e ''payload'')
        | None \<Rightarrow> handler_result e ''task.artifact'' ''artifact'' (get e ''payload''))"

end
