(* ===== verification/App_Manager.thy ===== *)
theory App_Manager
  imports App_Protocol Connection_Store
begin

text \<open>
  Sending and receiving of application messages (\<open>core/application/manager.ts\<close>). The message tracker is a record of
  the operations of \<open>TetiMessageTracker\<close> over its state; the locale says what the manager relies on, and both
  trackers of the file are interpreted. The account, the connections, the authorization of a peer and the transport
  are arguments.
\<close>

section \<open>Message trackers\<close>

record 't message_tracker =
  mt_has :: "string \<Rightarrow> 't \<Rightarrow> bool result"
  mt_mark :: "string \<Rightarrow> 't \<Rightarrow> 't result"
  mt_clear :: "'t \<Rightarrow> 't"

definition validateMessageStore :: "json \<Rightarrow> error option" where
  "validateMessageStore v = first_err
     [throw_if (v = JNull) (TypeError ''Cannot read properties of null''),
      throw_if (get v ''version'' \<noteq> jint 2) (PlainError ''Unsupported Teti message store version.''),
      throw_if (\<not> is_array (get v ''messageIds'')) (PlainError ''Teti message store messageIds must be an array.''),
      throw_if (list_ex (\<lambda>i. \<not> is_string i \<or> trim (str_of i) = []) (items (get v ''messageIds'')))
        (PlainError ''Teti message store contains an invalid messageId.'')]"

definition empty_message_store :: json where
  "empty_message_store = JObj [(''version'', jint 2), (''messageIds'', JArr [])]"

definition tracker_load :: "json_file \<Rightarrow> json result" where
  "tracker_load f = (case f of
       NoFile \<Rightarrow> Inr empty_message_store
     | NotJson \<Rightarrow> Inl (PlainError ''JSON.parse'')
     | JsonFile v \<Rightarrow> guarded (validateMessageStore v) (Inr v))"

definition tracker_save :: "json \<Rightarrow> json_file result" where
  "tracker_save v = guarded (validateMessageStore v) (Inr (JsonFile v))"

definition file_has :: "string \<Rightarrow> json_file \<Rightarrow> bool result" where
  "file_has i f = rbind (tracker_load f) (\<lambda>v. Inr (JStr i \<in> set (items (get v ''messageIds''))))"

definition file_mark :: "string \<Rightarrow> json_file \<Rightarrow> json_file result" where
  "file_mark i f = rbind (tracker_load f) (\<lambda>v.
     if JStr i \<in> set (items (get v ''messageIds'')) then Inr f
     else tracker_save (spread v [(''messageIds'', JArr (items (get v ''messageIds'') @ [JStr i]))]))"

definition file_tracker :: "json_file message_tracker" where
  "file_tracker = \<lparr>mt_has = file_has, mt_mark = file_mark, mt_clear = (\<lambda>_. NoFile)\<rparr>"

definition memory_tracker :: "string list message_tracker" where
  "memory_tracker = \<lparr>mt_has = (\<lambda>i ids. Inr (i \<in> set ids)), mt_mark = (\<lambda>i ids. Inr (List.insert i ids)), mt_clear = (\<lambda>_. [])\<rparr>"

section \<open>Sending\<close>

record app_env =
  ae_account :: "local_account option result"
  ae_connections :: "json list result"
  ae_authorize :: "string \<Rightarrow> error option"
  ae_message_id :: "string option"
  ae_fresh :: string
  ae_now :: string

definition requireLocalAccount :: "app_env \<Rightarrow> local_account result" where
  "requireLocalAccount env = rbind (ae_account env) (\<lambda>a. case a of
       None \<Rightarrow> Inl (PlainError ''A local Teti account is required before sending application messages.'')
     | Some account \<Rightarrow> Inr account)"

definition requireConfirmedConnection :: "app_env \<Rightarrow> string \<Rightarrow> json result" where
  "requireConfirmedConnection env requestId = rbind (ae_connections env) (\<lambda>cs.
     case find_first (\<lambda>c. get c ''requestId'' = JStr requestId) cs of
       None \<Rightarrow> Inl (PlainError (''Teti connection '' @ requestId @ '' does not exist.''))
     | Some c \<Rightarrow>
         if \<not> isTetiConnectionConfirmed c then Inl (PlainError ''Teti application messages require a Confirmed connection.'')
         else Inr c)"

text \<open>What is handed to the transport.\<close>

record chat_message =
  cm_account :: json
  cm_peer_address :: json
  cm_peer_key :: "json option"
  cm_text :: wire
  cm_attachment :: "json option"

definition sendApplicationEnvelope ::
  "app_env \<Rightarrow> string \<Rightarrow> string \<Rightarrow> json \<Rightarrow> json option \<Rightarrow> (json \<times> chat_message) result" where
  "sendApplicationEnvelope env requestId t payload attachment =
     rbind (requireLocalAccount env) (\<lambda>account.
     rbind (requireConfirmedConnection env requestId) (\<lambda>c.
     guarded (ae_authorize env (str_of (get c ''remoteTetiId'')))
       (rbind (createApplicationEnvelope (ae_fresh env) (ae_now env) t (la_id account) payload (ae_message_id env) (Some (ae_now env)))
         (\<lambda>e. rbind (serializeApplicationEnvelope e) (\<lambda>_.
            Inr (e, \<lparr>cm_account = la_chatmail_account_id account, cm_peer_address = get c ''remoteAddress'',
              cm_peer_key = (if truthy (get c ''remotePublicKey'') then Some (get c ''remotePublicKey'') else None),
              cm_text = sent_wire e, cm_attachment = attachment\<rparr>))))))"

definition sendProfileSync where
  "sendProfileSync env c p = sendApplicationEnvelope env c ''teti.profile.sync'' p None"

definition sendCapabilityOffer where
  "sendCapabilityOffer env c p = sendApplicationEnvelope env c ''teti.capability.offer'' p None"

definition sendPresence where
  "sendPresence env c p = sendApplicationEnvelope env c ''teti.presence'' p None"

definition sendAiStatusSync where
  "sendAiStatusSync env c p = sendApplicationEnvelope env c ''teti.ai.status.sync'' p None"

definition sendTaskRequest where
  "sendTaskRequest env c p = sendApplicationEnvelope env c ''teti.task.request'' p None"

definition sendTaskReceipt where
  "sendTaskReceipt env c p = sendApplicationEnvelope env c ''teti.task.receipt'' p None"

definition sendTaskAttachment where
  "sendTaskAttachment env c p a = sendApplicationEnvelope env c ''teti.task.attachment'' p (Some a)"

definition sendTaskAttachmentReceipt where
  "sendTaskAttachmentReceipt env c p = sendApplicationEnvelope env c ''teti.task.attachment.receipt'' p None"

definition sendTaskStatus where
  "sendTaskStatus env c p = sendApplicationEnvelope env c ''teti.task.status'' p None"

definition sendTaskCancel where
  "sendTaskCancel env c p = sendApplicationEnvelope env c ''teti.task.cancel'' p None"

definition sendTaskInput where
  "sendTaskInput env c p = sendApplicationEnvelope env c ''teti.task.input'' p None"

definition sendTaskApplicationReceipt where
  "sendTaskApplicationReceipt env c p = sendApplicationEnvelope env c ''teti.task.application.receipt'' p None"

definition sendTaskArtifact where
  "sendTaskArtifact env c p = sendApplicationEnvelope env c ''teti.task.artifact'' p None"

definition sendTaskArtifactFile where
  "sendTaskArtifactFile env c p a = sendApplicationEnvelope env c ''teti.task.artifact.file'' p (Some a)"

definition sendTaskArtifactReceipt where
  "sendTaskArtifactReceipt env c p = sendApplicationEnvelope env c ''teti.task.artifact.receipt'' p None"

section \<open>Receiving\<close>

record incoming_message =
  im_text :: "wire option"
  im_from :: "string option"
  im_id :: int

record received_envelope =
  re_envelope :: json
  re_result :: json
  re_connection :: json
  re_message_id :: int

definition has_text :: "incoming_message \<Rightarrow> bool" where
  "has_text m = (case im_text m of None \<Rightarrow> False | Some w \<Rightarrow> wire_text w \<noteq> [])"

definition matches_envelope :: "json \<Rightarrow> string option \<Rightarrow> json \<Rightarrow> bool" where
  "matches_envelope e from c \<longleftrightarrow> isTetiConnectionConfirmed c \<and> get c ''remoteTetiId'' = get e ''fromTetiId''
     \<and> (case from of None \<Rightarrow> True | Some a \<Rightarrow> a = [] \<or> get c ''remoteAddress'' = JStr a)"

definition findConfirmedConnectionForEnvelope :: "json list \<Rightarrow> json \<Rightarrow> string option \<Rightarrow> json option" where
  "findConfirmedConnectionForEnvelope cs e from = find_first (matches_envelope e from) cs"

fun is_application_error :: "error \<Rightarrow> bool" where
  "is_application_error (ApplicationProtocolError m) = True"
| "is_application_error _ = False"

text \<open>One message: skipped, refused with an error, or received with the new state of the tracker.\<close>

datatype 't step_answer = Skipped | Failed error | Received "'t" received_envelope

definition envelope_id :: "json \<Rightarrow> string" where
  "envelope_id e = str_of (get e ''messageId'')"

definition receive_one :: "'t message_tracker \<Rightarrow> app_env \<Rightarrow> incoming_message \<Rightarrow> 't \<Rightarrow> 't step_answer" where
  "receive_one tracker env m t =
     (if \<not> has_text m then Skipped
      else case parseApplicationEnvelope (the (im_text m)) of
        Inl e \<Rightarrow> if is_application_error e then Skipped else Failed e
      | Inr e \<Rightarrow> (case ae_connections env of
          Inl x \<Rightarrow> Failed x
        | Inr cs \<Rightarrow> (case findConfirmedConnectionForEnvelope cs e (im_from m) of
            None \<Rightarrow> Skipped
          | Some c \<Rightarrow> (case ae_authorize env (str_of (get c ''remoteTetiId'')) of
              Some x \<Rightarrow> Failed x
            | None \<Rightarrow> (case mt_has tracker (envelope_id e) t of
                Inl x \<Rightarrow> Failed x
              | Inr True \<Rightarrow> Skipped
              | Inr False \<Rightarrow> (case mt_mark tracker (envelope_id e) t of
                  Inl x \<Rightarrow> Failed x
                | Inr t' \<Rightarrow> Received t' \<lparr>re_envelope = e, re_result = handleApplicationEnvelope e, re_connection = c,
                    re_message_id = im_id m\<rparr>))))))"

fun receive_loop :: "'t message_tracker \<Rightarrow> app_env \<Rightarrow> incoming_message list \<Rightarrow> 't \<Rightarrow> received_envelope list
    \<Rightarrow> 't \<times> received_envelope list result" where
  "receive_loop tracker env [] t acc = (t, Inr acc)"
| "receive_loop tracker env (m # ms) t acc = (case receive_one tracker env m t of
       Skipped \<Rightarrow> receive_loop tracker env ms t acc
     | Failed e \<Rightarrow> (t, Inl e)
     | Received t' r \<Rightarrow> receive_loop tracker env ms t' (acc @ [r]))"

text \<open>\<open>messages\<close> is the answer of the transport. The tracker keeps what it was told before an error.\<close>

definition receiveApplicationEnvelopes ::
  "'t message_tracker \<Rightarrow> app_env \<Rightarrow> incoming_message list result \<Rightarrow> 't \<Rightarrow> 't \<times> received_envelope list result" where
  "receiveApplicationEnvelopes tracker env messages t = (case requireLocalAccount env of
       Inl e \<Rightarrow> (t, Inl e)
     | Inr account \<Rightarrow> (case messages of Inl e \<Rightarrow> (t, Inl e) | Inr ms \<Rightarrow> receive_loop tracker env ms t []))"

end
