(* ===== verification/App_Guarantees.thy ===== *)
theory App_Guarantees
  imports App_Manager
begin

text \<open>
  What the application layer guarantees: a message is delivered at most once and only from a confirmed peer, a batch
  that fails loses what it had marked, a peer receives what was sent, and a received status of tools and Agents has
  closed references and nothing in it when its sharing is disabled.
\<close>

section \<open>Trackers\<close>

text \<open>
  What the manager relies on: \<open>good\<close> states of a tracker answer and remember, and \<open>seen\<close> is the set of the identifiers.
\<close>

definition delivered_id :: "received_envelope \<Rightarrow> string" where
  "delivered_id r = envelope_id (re_envelope r)"

locale remembering_tracker =
  fixes tracker :: "'t message_tracker" and good :: "'t \<Rightarrow> bool" and seen :: "'t \<Rightarrow> string set" and valid_id :: "string \<Rightarrow> bool"
  assumes has_seen: "good t \<Longrightarrow> mt_has tracker i t = Inr (i \<in> seen t)"
    and mark_seen: "good t \<Longrightarrow> valid_id i \<Longrightarrow> \<exists>t'. mt_mark tracker i t = Inr t' \<and> good t' \<and> seen t' = insert i (seen t)"
    and envelope_ids: "validateApplicationEnvelope e = None \<Longrightarrow> valid_id (envelope_id e)"
begin

lemma one_cases:
  assumes "good t" and "receive_one tracker env m t = Received t' r"
  shows "good t' \<and> delivered_id r \<notin> seen t \<and> seen t' = insert (delivered_id r) (seen t)"
proof -
  from assms obtain e where e: "parseApplicationEnvelope (the (im_text m)) = Inr e" "re_envelope r = e"
    and t: "mt_has tracker (envelope_id e) t = Inr False" "mt_mark tracker (envelope_id e) t = Inr t'"
    by (auto simp: receive_one_def split: if_splits sum.splits option.splits bool.splits)
  from e(1) have "validateApplicationEnvelope e = None"
    by (auto simp: parseApplicationEnvelope_def guarded_def split: if_splits option.splits)
  then have "valid_id (envelope_id e)" by (rule envelope_ids)
  then obtain t2 where "mt_mark tracker (envelope_id e) t = Inr t2" "good t2" "seen t2 = insert (envelope_id e) (seen t)"
    using mark_seen [OF assms(1)] by blast
  with t(2) have "good t'" "seen t' = insert (envelope_id e) (seen t)" by simp_all
  moreover have "envelope_id e \<notin> seen t" using t(1) has_seen [OF assms(1)] by simp
  ultimately show ?thesis using e(2) by (simp add: delivered_id_def)
qed

text \<open>The identifiers a call delivers are new and different, and marked; those it marked without an answer are marked too.\<close>

lemma loop_marks:
  assumes "receive_loop tracker env ms t acc = (t', r)" and "good t" and "distinct (map delivered_id acc)"
    and "delivered_id ` set acc \<subseteq> seen t" and "delivered_id ` set acc \<inter> old = {}" and "old \<subseteq> seen t"
  shows "good t' \<and> seen t \<subseteq> seen t' \<and> (\<forall>rs. r = Inr rs \<longrightarrow> distinct (map delivered_id rs)
    \<and> delivered_id ` set rs \<subseteq> seen t' \<and> delivered_id ` set rs \<inter> old = {})"
  using assms
proof (induction ms arbitrary: t acc)
  case (Cons m ms)
  show ?case
  proof (cases "receive_one tracker env m t")
    case Skipped
    then have "receive_loop tracker env ms t acc = (t', r)" using Cons.prems(1) by simp
    from Cons.IH [OF this Cons.prems(2-6)] show ?thesis .
  next
    case (Failed e)
    then show ?thesis using Cons.prems by auto
  next
    case (Received t2 x)
    note x = one_cases [OF Cons.prems(2) Received]
    have run: "receive_loop tracker env ms t2 (acc @ [x]) = (t', r)" using Cons.prems(1) Received by simp
    have new: "delivered_id x \<notin> delivered_id ` set acc" "delivered_id x \<notin> old" using x Cons.prems(4,6) by blast+
    have acc: "distinct (map delivered_id (acc @ [x]))" "delivered_id ` set (acc @ [x]) \<subseteq> seen t2"
        "delivered_id ` set (acc @ [x]) \<inter> old = {}" "old \<subseteq> seen t2"
      using Cons.prems(3-6) new x by auto
    have "good t2" "seen t \<subseteq> seen t2" using x by auto
    with Cons.IH [OF run _ acc] show ?thesis by blast
  qed
qed auto

end

lemma wire_message_id: "validateApplicationEnvelope e = None \<Longrightarrow> trim (envelope_id e) \<noteq> []"
  by (auto simp: validateApplicationEnvelope_def ap_requireBoundedString_def ap_fail_def throw_if_def envelope_id_def first_err_None
      split: if_splits)

interpretation in_memory: remembering_tracker memory_tracker "\<lambda>_. True" set "\<lambda>_. True"
  by unfold_locales (auto simp: memory_tracker_def)

definition good_tracker_file :: "json_file \<Rightarrow> bool" where
  "good_tracker_file f \<longleftrightarrow> (\<exists>v. tracker_load f = Inr v)"

definition file_ids :: "json_file \<Rightarrow> string set" where
  "file_ids f = (case tracker_load f of Inl e \<Rightarrow> {} | Inr v \<Rightarrow> {i. JStr i \<in> set (items (get v ''messageIds''))})"

lemma tracker_load_valid: "tracker_load f = Inr v \<Longrightarrow> validateMessageStore v = None"
  by (auto simp: tracker_load_def guarded_def validateMessageStore_def throw_if_def empty_message_store_def
      split: json_file.splits option.splits if_splits)

lemma file_mark_good:
  assumes "tracker_load f = Inr v" and "trim i \<noteq> []"
  shows "\<exists>f'. file_mark i f = Inr f' \<and> good_tracker_file f' \<and> file_ids f' = insert i (file_ids f)"
proof (cases "JStr i \<in> set (items (get v ''messageIds''))")
  case True
  then show ?thesis using assms(1) by (auto simp: file_mark_def good_tracker_file_def file_ids_def)
next
  case False
  let ?w = "spread v [(''messageIds'', JArr (items (get v ''messageIds'') @ [JStr i]))]"
  have "validateMessageStore v = None" by (rule tracker_load_valid [OF assms(1)])
  moreover have "?w \<noteq> JNull" using is_record_spread by (metis is_record.simps(3))
  ultimately have "validateMessageStore ?w = None"
    using assms(2) by (auto simp: validateMessageStore_def throw_if_def get_spread split: if_splits)
  then show ?thesis
    using assms(1) False by (auto simp: file_mark_def tracker_save_def good_tracker_file_def file_ids_def tracker_load_def get_spread)
qed

interpretation in_file: remembering_tracker file_tracker good_tracker_file file_ids "\<lambda>i. trim i \<noteq> []"
proof unfold_locales
  fix t i assume "good_tracker_file t"
  then show "mt_has file_tracker i t = Inr (i \<in> file_ids t)"
    by (auto simp: good_tracker_file_def file_tracker_def file_has_def file_ids_def)
next
  fix t i assume "good_tracker_file t" and "trim i \<noteq> []"
  then show "\<exists>t'. mt_mark file_tracker i t = Inr t' \<and> good_tracker_file t' \<and> file_ids t' = insert i (file_ids t)"
    using file_mark_good by (auto simp: good_tracker_file_def file_tracker_def)
qed (rule wire_message_id)

section \<open>Calls\<close>

text \<open>A sequence of calls with their environments and messages; a call that throws delivers nothing.\<close>

definition delivered_of :: "received_envelope list result \<Rightarrow> received_envelope list" where
  "delivered_of r = (case r of Inl e \<Rightarrow> [] | Inr rs \<Rightarrow> rs)"

fun app_calls :: "'t message_tracker \<Rightarrow> (app_env \<times> incoming_message list result) list \<Rightarrow> 't \<Rightarrow> 't \<times> received_envelope list" where
  "app_calls tracker [] t = (t, [])"
| "app_calls tracker ((env, ms) # cs) t = (case receiveApplicationEnvelopes tracker env ms t of
     (t1, r) \<Rightarrow> (case app_calls tracker cs t1 of (t2, ds) \<Rightarrow> (t2, delivered_of r @ ds)))"

definition delivered_from :: "app_env \<Rightarrow> received_envelope \<Rightarrow> bool" where
  "delivered_from env r \<longleftrightarrow> (\<exists>cs. ae_connections env = Inr cs \<and> re_connection r \<in> set cs)
     \<and> isTetiConnectionConfirmed (re_connection r)
     \<and> get (re_connection r) ''remoteTetiId'' = get (re_envelope r) ''fromTetiId''
     \<and> ae_authorize env (str_of (get (re_connection r) ''remoteTetiId'')) = None
     \<and> validateApplicationEnvelope (re_envelope r) = None
     \<and> re_result r = handleApplicationEnvelope (re_envelope r)"

lemma one_delivered: "receive_one tracker env m t = Received t' r \<Longrightarrow> delivered_from env r"
  by (auto simp: receive_one_def delivered_from_def parseApplicationEnvelope_def guarded_def findConfirmedConnectionForEnvelope_def
      matches_envelope_def split: if_splits sum.splits option.splits bool.splits dest!: find_first_Some)

lemma loop_delivered:
  "receive_loop tracker env ms t acc = (t', Inr rs) \<Longrightarrow> \<forall>r\<in>set acc. delivered_from env r \<Longrightarrow> \<forall>r\<in>set rs. delivered_from env r"
proof (induction ms arbitrary: t acc)
  case (Cons m ms)
  show ?case
  proof (cases "receive_one tracker env m t")
    case (Received t2 r)
    then have "receive_loop tracker env ms t2 (acc @ [r]) = (t', Inr rs)" using Cons.prems(1) by simp
    moreover have "\<forall>x\<in>set (acc @ [r]). delivered_from env x" using Cons.prems(2) one_delivered [OF Received] by simp
    ultimately show ?thesis by (rule Cons.IH)
  qed (use Cons in simp_all)
qed simp

lemma call_delivered: "receiveApplicationEnvelopes tracker env ms t = (t', r) \<Longrightarrow> \<forall>x\<in>set (delivered_of r). delivered_from env x"
  using loop_delivered [of tracker env _ t "[]"]
  by (auto simp: receiveApplicationEnvelopes_def delivered_of_def split: sum.splits)

lemma calls_delivered:
  "app_calls tracker cs t = (t', ds) \<Longrightarrow> r \<in> set ds \<Longrightarrow> \<exists>(env, ms)\<in>set cs. delivered_from env r"
proof (induction tracker cs t arbitrary: ds rule: app_calls.induct)
  case (2 tracker env ms cs t)
  obtain t1 q where c: "receiveApplicationEnvelopes tracker env ms t = (t1, q)" by force
  obtain ds' where d: "app_calls tracker cs t1 = (t', ds')" "ds = delivered_of q @ ds'"
    using "2.prems"(1) c by (auto split: prod.splits)
  then show ?case using "2.IH" [OF c [symmetric] d(1)] call_delivered [OF c] "2.prems"(2) by auto
qed simp

context remembering_tracker begin

lemma call_marks:
  assumes "receiveApplicationEnvelopes tracker env ms t = (t', r)" and "good t"
  shows "good t' \<and> seen t \<subseteq> seen t' \<and> distinct (map delivered_id (delivered_of r))
    \<and> delivered_id ` set (delivered_of r) \<subseteq> seen t' - seen t"
proof (cases "\<exists>ms'. receive_loop tracker env ms' t [] = (t', r)")
  case True
  then obtain ms' where "receive_loop tracker env ms' t [] = (t', r)" by blast
  from loop_marks [OF this assms(2), of "seen t"] show ?thesis by (cases r) (auto simp: delivered_of_def)
next
  case False
  then have "t' = t \<and> (\<exists>e. r = Inl e)" using assms(1) by (auto simp: receiveApplicationEnvelopes_def split: sum.splits)
  then show ?thesis using assms(2) by (auto simp: delivered_of_def)
qed

lemma calls_once:
  "app_calls tracker cs t = (t', ds) \<Longrightarrow> good t \<Longrightarrow>
    good t' \<and> seen t \<subseteq> seen t' \<and> distinct (map delivered_id ds) \<and> delivered_id ` set ds \<subseteq> seen t' - seen t"
proof (induction cs arbitrary: t ds)
  case (Cons c cs)
  obtain env ms where e: "c = (env, ms)" by force
  obtain t1 q where q: "receiveApplicationEnvelopes tracker env ms t = (t1, q)" by force
  obtain ds' where d: "app_calls tracker cs t1 = (t', ds')" "ds = delivered_of q @ ds'"
    using Cons.prems(1) q e by (auto split: prod.splits)
  note m = call_marks [OF q Cons.prems(2)]
  from Cons.IH [OF d(1)] m d(2) show ?case by (auto simp: subset_iff)
qed auto

end

text \<open>
  C8: Whatever calls are made with the file of processed messages, in whatever batches, each message identifier is
  delivered at most once, never one that the file had before; and what is delivered is a valid envelope of a peer whose
  connection is confirmed, whose identifier is the sender's and who was authorized at that call.
\<close>

theorem messages_delivered_once:
  assumes "good_tracker_file f" and "app_calls file_tracker cs f = (f', ds)"
  shows "distinct (map delivered_id ds) \<and> (\<forall>r\<in>set ds. delivered_id r \<notin> file_ids f \<and> (\<exists>(env, ms)\<in>set cs. delivered_from env r))"
  using in_file.calls_once [OF assms(2,1)] calls_delivered [OF assms(2)] by blast

text \<open>
  C23: A batch in which the authorization of one peer fails throws after it has marked the messages before that one; they
  are never delivered, by this call or by any later one.
\<close>

theorem failed_batch_is_lost:
  assumes good: "good_tracker_file f" and account: "requireLocalAccount env = Inr account"
    and before: "receive_loop file_tracker env ms f [] = (f1, Inr rs)" and fails: "receive_one file_tracker env m f1 = Failed e"
    and call: "receiveApplicationEnvelopes file_tracker env (Inr (ms @ m # ms')) f = (f2, r)" and later: "app_calls file_tracker cs f2 = (f3, ds)"
  shows "r = Inl e \<and> delivered_id ` set rs \<inter> delivered_id ` set ds = {}"
proof -
  have split: "receive_loop file_tracker env (xs @ m # ms') t acc = (f1, Inl e)"
    if "receive_loop file_tracker env xs t acc = (f1, Inr rs)" for xs t acc
    using that
  proof (induction xs arbitrary: t acc)
    case Nil
    then show ?case using fails by simp
  next
    case (Cons x xs)
    then show ?case by (cases "receive_one file_tracker env x t") auto
  qed
  have f: "f2 = f1" "r = Inl e" using split [OF before] call account by (auto simp: receiveApplicationEnvelopes_def)
  have "good_tracker_file f1" "delivered_id ` set rs \<subseteq> file_ids f1" using in_file.loop_marks [OF before good, of "{}"] by auto
  moreover have "delivered_id ` set ds \<subseteq> file_ids f3 - file_ids f1"
    using in_file.calls_once [OF later] calculation(1) f(1) by simp
  ultimately show ?thesis using f(2) by blast
qed

section \<open>From one peer to the other\<close>

lemma application_envelope_fields [simp]:
  "get (application_envelope t sender p i c) ''type'' = JStr t" "get (application_envelope t sender p i c) ''payload'' = p"
  "get (application_envelope t sender p i c) ''messageId'' = JStr i" "get (application_envelope t sender p i c) ''fromTetiId'' = JStr sender"
  "envelope_id (application_envelope t sender p i c) = i" "is_record (application_envelope t sender p i c)"
  by (simp_all add: application_envelope_def envelope_id_def)




section \<open>The status of tools and Agents\<close>

text \<open>
  A status whose sharing is disabled shows nothing: every list of an accepted payload is empty, in each of the four
  schemas.
\<close>

theorem disabled_status_shows_nothing:
  assumes "validateAiStatusSyncPayload p = None" and "get p ''sharing'' = JStr ''disabled''"
  shows "list_all (\<lambda>k. members p k = []) (tl (tl (tl (tl (status_keys (as_schema p))))))"
proof -
  have v: "status_tools p = None" "2 \<le> as_schema p \<Longrightarrow> status_agents p (as_schema p) = None"
      "3 \<le> as_schema p \<Longrightarrow> status_capabilities p (as_schema p) = None"
    using assms(1) by (auto simp: validateAiStatusSyncPayload_def first_err_None split: if_splits)
  have tools: "members p ''tools'' = []"
    using v(1) assms(2) by (auto simp: status_tools_def first_err_None disabled_empty_def as_fail_def throw_if_def split: if_splits)
  have agents: "members p ''agents'' = []" if "2 \<le> as_schema p"
    using v(2) [OF that] assms(2)
    by (auto simp: status_agents_def first_err_None disabled_empty_def as_fail_def throw_if_def split: if_splits)
  have caps: "members p ''capabilities'' = [] \<and> members p ''bindings'' = [] \<and> (4 \<le> as_schema p \<longrightarrow> members p ''computeOffers'' = [])"
    if "3 \<le> as_schema p"
    using v(3) [OF that] assms(2)
    by (auto simp: status_capabilities_def status_offers_def first_err_None disabled_empty_def as_fail_def throw_if_def split: if_splits)
  show ?thesis using tools agents caps by (auto simp: status_keys_def)
qed

lemma bindings_loop_None:
  "bindings_loop tools agents capabilities seen bs = None \<Longrightarrow>
    distinct (named ''capabilityId'' bs) \<and> set (named ''capabilityId'' bs) \<inter> set seen = {}
    \<and> (\<forall>b\<in>set bs. binding_ok tools agents capabilities [] b
        \<and> list_all (agent_declares agents (get b ''capabilityId'')) (members b ''agentIds''))"
proof (induction bs arbitrary: seen)
  case (Cons b bs)
  then have b: "binding_ok tools agents capabilities seen b" "list_all (agent_declares agents (get b ''capabilityId'')) (members b ''agentIds'')"
    and r: "bindings_loop tools agents capabilities (get b ''capabilityId'' # seen) bs = None"
    by (auto simp: first_err_None throw_if_def split: if_splits)
  show ?case using Cons.IH [OF r] b by (auto simp: named_def binding_ok_def)
qed (simp add: named_def)

lemma binding_for_unique:
  assumes "distinct (named ''capabilityId'' bs)" and "b \<in> set bs"
  shows "binding_for bs (get b ''capabilityId'') = Some b"
proof (cases "binding_for bs (get b ''capabilityId'')")
  case None
  then show ?thesis using assms(2) by (auto simp: binding_for_def find_first_None)
next
  case (Some b')
  then have "b' \<in> set bs" "get b' ''capabilityId'' = get b ''capabilityId''" by (auto simp: binding_for_def dest: find_first_Some)
  then have "b' = b" using assms by (auto simp: named_def distinct_map inj_on_def)
  then show ?thesis using Some by simp
qed

lemma offers_loop_None:
  assumes "offers_loop as cs bs seen offers = None"
  shows "distinct (named ''offerId'' offers) \<and> (\<forall>offer\<in>set offers. get offer ''offerId'' \<notin> set seen \<and> offer_ok as cs bs [] offer)"
  using assms
proof (induction offers arbitrary: seen)
  case (Cons offer offers)
  then have "offer_ok as cs bs seen offer" "offers_loop as cs bs (get offer ''offerId'' # seen) offers = None"
    by (auto simp: first_err_None as_fail_def throw_if_def split: if_splits)
  with Cons.IH [of "get offer ''offerId'' # seen"] show ?case by (auto simp: offer_ok_def named_def)
qed (simp add: named_def)

text \<open>
  C38: In an accepted status with callable Agents the references are closed and agree in both directions: each capability
  has exactly one binding and each binding a capability; an Agent lists a capability if and only if the binding of the
  capability lists the Agent; and the tools of a binding are tools of the status. In a status with compute offers (schema 4)
  the offers have different identifiers, and each is for a capability of the status and is served by an Agent that is bound
  to this capability and takes its modes.
\<close>

theorem status_references_closed:
  assumes valid: "validateAiStatusSyncPayload p = None" and schema: "3 \<le> as_schema p"
  shows "set (named ''capabilityId'' (members p ''bindings'')) = set (named ''id'' (members p ''capabilities''))
    \<and> distinct (named ''capabilityId'' (members p ''bindings''))
    \<and> (\<forall>a\<in>set (members p ''agents''). \<forall>b\<in>set (members p ''bindings'').
        get b ''capabilityId'' \<in> set (members a ''capabilityIds'') \<longleftrightarrow> get a ''id'' \<in> set (members b ''agentIds''))
    \<and> (\<forall>b\<in>set (members p ''bindings''). members b ''agentIds'' \<noteq> []
        \<and> set (members b ''agentIds'') \<subseteq> set (named ''id'' (members p ''agents''))
        \<and> set (members b ''resourceIds'') \<subseteq> set (named ''toolId'' (members p ''tools'')))
    \<and> (4 \<le> as_schema p \<longrightarrow> distinct (named ''offerId'' (members p ''computeOffers''))
        \<and> (\<forall>offer\<in>set (members p ''computeOffers''). get offer ''capability'' \<in> set (named ''id'' (members p ''capabilities''))
             \<and> (\<exists>a\<in>set (members p ''agents''). bound_to (members p ''bindings'') (get a ''id'') (get offer ''capability'')
                  \<and> serves_modes offer a)))"
proof -
  let ?as = "members p ''agents''" and ?cs = "members p ''capabilities''" and ?bs = "members p ''bindings''" and ?ts = "members p ''tools''"
  have "validateCallableReferences p (4 \<le> as_schema p) = None"
    using valid schema by (auto simp: validateAiStatusSyncPayload_def status_capabilities_def first_err_None split: if_splits)
  then have dist: "distinct (named ''id'' ?as)" "distinct (named ''id'' ?cs)" and loop: "bindings_loop ?ts ?as ?cs [] ?bs = None"
    and agents: "\<forall>a\<in>set ?as. \<forall>c\<in>set (members a ''capabilityIds''). bound_to ?bs (get a ''id'') c"
    and card: "card (set (named ''capabilityId'' ?bs)) = card (set (named ''id'' ?cs))"
    and offered: "4 \<le> as_schema p \<Longrightarrow> offers_loop ?as ?cs ?bs [] (members p ''computeOffers'') = None"
    by (auto simp: validateCallableReferences_def Let_def first_err_None as_fail_def throw_if_def list_ex_iff split: if_splits)
  note b = bindings_loop_None [OF loop]
  have "set (named ''capabilityId'' ?bs) \<subseteq> set (named ''id'' ?cs)" using b by (auto simp: binding_ok_def named_def)
  then have same: "set (named ''capabilityId'' ?bs) = set (named ''id'' ?cs)" using card by (metis List.finite_set card_subset_eq)
  have both: "get b ''capabilityId'' \<in> set (members a ''capabilityIds'') \<longleftrightarrow> get a ''id'' \<in> set (members b ''agentIds'')"
    if a: "a \<in> set ?as" and bb: "b \<in> set ?bs" for a b
  proof
    assume "get b ''capabilityId'' \<in> set (members a ''capabilityIds'')"
    then have "bound_to ?bs (get a ''id'') (get b ''capabilityId'')" using agents a by blast
    then show "get a ''id'' \<in> set (members b ''agentIds'')" using binding_for_unique [of ?bs b] b bb by (simp add: bound_to_def)
  next
    assume "get a ''id'' \<in> set (members b ''agentIds'')"
    then have "agent_declares ?as (get b ''capabilityId'') (get a ''id'')" using b bb by (auto simp: list_all_iff)
    then obtain a' where "a' \<in> set ?as" "get a' ''id'' = get a ''id''" "get b ''capabilityId'' \<in> set (members a' ''capabilityIds'')"
      by (auto simp: agent_declares_def split: option.splits dest: find_first_Some)
    moreover have "a' = a" using calculation(1,2) a dist(1) by (auto simp: named_def distinct_map inj_on_def)
    ultimately show "get b ''capabilityId'' \<in> set (members a ''capabilityIds'')" by simp
  qed
  moreover have "distinct (named ''offerId'' (members p ''computeOffers''))
      \<and> (\<forall>offer\<in>set (members p ''computeOffers''). offer_ok ?as ?cs ?bs [] offer)" if "4 \<le> as_schema p"
    using offers_loop_None [OF offered [OF that]] by simp
  ultimately show ?thesis using same b by (auto simp: binding_ok_def offer_ok_def list_all_iff list_ex_iff)
qed

section \<open>A sample exchange\<close>

definition sample_sender :: local_account where
  "sample_sender = \<lparr>la_id = ''teti_abc123def'', la_address = ''a@relay'', la_public_key = None, la_public_profile = JNull,
     la_chatmail_account_id = jint 1\<rparr>"

definition sample_receiver :: local_account where
  "sample_receiver = \<lparr>la_id = ''teti_xyz456uvw'', la_address = ''b@relay'', la_public_key = None, la_public_profile = JNull,
     la_chatmail_account_id = jint 2\<rparr>"

definition sample_peer :: "string \<Rightarrow> local_account \<Rightarrow> json" where
  "sample_peer requestId peer = JObj [(''requestId'', JStr requestId), (''state'', jstate Confirmed),
     (''remoteTetiId'', JStr (la_id peer)), (''remoteAddress'', JStr (la_address peer))]"

text \<open>The sender is not authorized when \<open>blocked\<close> is \<open>Some\<close> of its identifier.\<close>

definition sample_app_env :: "local_account \<Rightarrow> local_account \<Rightarrow> string option \<Rightarrow> string \<Rightarrow> app_env" where
  "sample_app_env account peer blocked messageId = \<lparr>ae_account = Inr (Some account), ae_connections = Inr [sample_peer ''r1'' peer],
     ae_authorize = (\<lambda>p. if Some p = blocked then Some (PlainError ''blocked'') else None), ae_message_id = Some messageId,
     ae_fresh = ''fresh'', ae_now = ''2026-01-01T00:00:00.000Z''\<rparr>"

definition sample_offer :: json where
  "sample_offer = JObj [(''capabilities'', JArr [JStr ''text''])]"

definition sample_envelope :: "string \<Rightarrow> json" where
  "sample_envelope messageId = application_envelope ''teti.capability.offer'' ''teti_abc123def'' sample_offer messageId ''2026-01-01T00:00:00.000Z''"

definition sample_mail :: "string \<Rightarrow> incoming_message" where
  "sample_mail messageId = \<lparr>im_text = Some (sent_wire (sample_envelope messageId)), im_from = Some ''a@relay'', im_id = 7\<rparr>"

lemma sample_app_file: "good_tracker_file NoFile" "file_ids NoFile = {}"
  by (simp_all add: good_tracker_file_def file_ids_def tracker_load_def empty_message_store_def)

lemma sample_calls: "map delivered_id (snd (app_calls file_tracker
    [(sample_app_env sample_receiver sample_sender None ''x'', Inr [sample_mail ''m1'', sample_mail ''m1'']),
     (sample_app_env sample_receiver sample_sender None ''x'', Inr [sample_mail ''m2'', sample_mail ''m1''])] NoFile)) = [''m1'', ''m2'']"
  by code_simp

theorem messages_delivered_once_witness:
  "\<exists>f ds. app_calls file_tracker
      [(sample_app_env sample_receiver sample_sender None ''x'', Inr [sample_mail ''m1'', sample_mail ''m1'']),
       (sample_app_env sample_receiver sample_sender None ''x'', Inr [sample_mail ''m2'', sample_mail ''m1''])] NoFile = (f, ds)
    \<and> map delivered_id ds = [''m1'', ''m2''] \<and> distinct (map delivered_id ds)"
proof -
  obtain f ds where c: "app_calls file_tracker
      [(sample_app_env sample_receiver sample_sender None ''x'', Inr [sample_mail ''m1'', sample_mail ''m1'']),
       (sample_app_env sample_receiver sample_sender None ''x'', Inr [sample_mail ''m2'', sample_mail ''m1''])] NoFile = (f, ds)" by force
  then show ?thesis using messages_delivered_once [OF sample_app_file(1) c] sample_calls by auto
qed



text \<open>The second message of the batch is of a peer that is not authorized.\<close>

definition sample_other :: local_account where
  "sample_other = sample_sender\<lparr>la_id := ''teti_bad000000'', la_address := ''c@relay''\<rparr>"

definition sample_batch_env :: app_env where
  "sample_batch_env = (sample_app_env sample_receiver sample_sender (Some ''teti_bad000000'') ''x'')
     \<lparr>ae_connections := Inr [sample_peer ''r1'' sample_sender, sample_peer ''r2'' sample_other]\<rparr>"

definition sample_bad_mail :: incoming_message where
  "sample_bad_mail = \<lparr>im_text = Some (sent_wire (application_envelope ''teti.capability.offer'' ''teti_bad000000'' sample_offer ''m9''
     ''2026-01-01T00:00:00.000Z'')), im_from = Some ''c@relay'', im_id = 8\<rparr>"

lemma sample_batch:
  "case receive_loop file_tracker sample_batch_env [sample_mail ''m1''] NoFile [] of
      (f, Inl e) \<Rightarrow> False
    | (f, Inr rs) \<Rightarrow> map delivered_id rs = [''m1''] \<and> receive_one file_tracker sample_batch_env sample_bad_mail f = Failed (PlainError ''blocked'')"
  by code_simp

theorem failed_batch_is_lost_witness:
  "\<exists>f ds. receiveApplicationEnvelopes file_tracker sample_batch_env (Inr [sample_mail ''m1'', sample_bad_mail]) NoFile = (f, Inl (PlainError ''blocked''))
    \<and> ds = snd (app_calls file_tracker [(sample_app_env sample_receiver sample_sender None ''x'', Inr [sample_mail ''m1''])] f)
    \<and> ''m1'' \<notin> delivered_id ` set ds"
proof -
  obtain f1 rs where b: "receive_loop file_tracker sample_batch_env [sample_mail ''m1''] NoFile [] = (f1, Inr rs)"
      "map delivered_id rs = [''m1'']" "receive_one file_tracker sample_batch_env sample_bad_mail f1 = Failed (PlainError ''blocked'')"
    using sample_batch by (auto split: prod.splits sum.splits)
  have account: "requireLocalAccount sample_batch_env = Inr sample_receiver"
    by (simp add: requireLocalAccount_def sample_batch_env_def sample_app_env_def)
  obtain f2 r where c: "receiveApplicationEnvelopes file_tracker sample_batch_env (Inr ([sample_mail ''m1''] @ sample_bad_mail # [])) NoFile = (f2, r)"
    by force
  obtain f3 ds where l: "app_calls file_tracker [(sample_app_env sample_receiver sample_sender None ''x'', Inr [sample_mail ''m1''])] f2 = (f3, ds)"
    by force
  have "''m1'' \<in> delivered_id ` set rs" using b(2) by (metis list.set_intros(1) set_map)
  then show ?thesis using failed_batch_is_lost [OF sample_app_file(1) account b(1,3) c l] c l by auto
qed

section \<open>A sample status\<close>

definition sample_ai_status :: "string \<Rightarrow> json list \<Rightarrow> json list \<Rightarrow> json list \<Rightarrow> json list \<Rightarrow> json" where
  "sample_ai_status sharing agents capabilities bindings offers = JObj
     [(''schemaVersion'', jint 4), (''sharing'', JStr sharing), (''generatedAt'', JStr ''2026-01-01T00:00:00.000Z''),
      (''expiresAt'', JStr ''2026-01-01T00:30:00.000Z''), (''tools'', JArr []), (''agents'', JArr agents),
      (''capabilities'', JArr capabilities), (''bindings'', JArr bindings), (''computeOffers'', JArr offers)]"

definition sample_status_agent :: json where
  "sample_status_agent = JObj
     [(''id'', JStr ''codex''), (''name'', JStr ''Codex''), (''provider'', JStr ''OpenAI''), (''capabilityIds'', JArr [JStr ''general-text-assistance'']),
      (''inputModes'', JArr [JStr ''text'']), (''outputModes'', JArr [JStr ''text'']), (''availability'', JStr ''available''),
      (''observedAt'', JStr ''2026-01-01T00:00:00.000Z'')]"

definition sample_status_capability :: json where
  "sample_status_capability = JObj
     [(''id'', JStr ''general-text-assistance''), (''name'', JStr ''Text''), (''category'', JStr ''general''), (''description'', JStr ''Text''),
      (''availability'', JStr ''available''), (''observedAt'', JStr ''2026-01-01T00:00:00.000Z'')]"

definition sample_status_binding :: json where
  "sample_status_binding = JObj [(''capabilityId'', JStr ''general-text-assistance''), (''agentIds'', JArr [JStr ''codex'']), (''resourceIds'', JArr [])]"

theorem disabled_status_shows_nothing_witness:
  "members (sample_ai_status ''disabled'' [] [] [] []) ''agents'' = [] \<and> validateAiStatusSyncPayload (sample_ai_status ''disabled'' [] [] [] []) = None"
proof -
  have v: "validateAiStatusSyncPayload (sample_ai_status ''disabled'' [] [] [] []) = None" by code_simp
  from disabled_status_shows_nothing [OF v] show ?thesis using v by (simp add: sample_ai_status_def as_schema_def status_keys_def)
qed

definition sample_status_offer :: json where
  "sample_status_offer = JObj
     [(''offerId'', JStr ''codex-offer''), (''capability'', JStr ''general-text-assistance''), (''resourceClass'', JStr ''local_model''),
      (''executionLocation'', JStr ''receiver_local''), (''inputModes'', JArr [JStr ''text'']), (''outputModes'', JArr [JStr ''text'']),
      (''concurrency'', jint 1), (''approval'', JStr ''allow_once''), (''observedAt'', JStr ''2026-01-01T00:00:00.000Z'')]"

theorem status_references_closed_witness:
  "set (named ''capabilityId'' [sample_status_binding]) = set (named ''id'' [sample_status_capability])
   \<and> bound_to [sample_status_binding] (get sample_status_agent ''id'') (get sample_status_offer ''capability'')"
proof -
  let ?p = "sample_ai_status ''enabled'' [sample_status_agent] [sample_status_capability] [sample_status_binding] [sample_status_offer]"
  have v: "validateAiStatusSyncPayload ?p = None" by code_simp
  have "3 \<le> as_schema ?p" "4 \<le> as_schema ?p" by (simp_all add: as_schema_def sample_ai_status_def)
  with status_references_closed [OF v] show ?thesis by (simp add: sample_ai_status_def members_def)
qed

end
