(* ===== verification/Account.thy ===== *)
theory Account
  imports Connection
begin

text \<open>
  The local account (\<open>core/account/display-name.ts\<close>, \<open>model.ts\<close>, \<open>storage.ts\<close>, \<open>manager.ts\<close>) and the public profile
  of the host (\<open>core/environment/scanner.ts\<close> without the detection itself). An account is the JavaScript object, a
  \<open>json\<close>; the storages are records of operations, and the locale says what the manager relies on. The Chatmail
  provisioner, the scan of the host and the callback of the stages are arguments.
\<close>

section \<open>Display names\<close>

text \<open>
  A string of code units below 256 is its own NFC form, and each unit is one character of \<open>Array.from\<close>.
\<close>

datatype name_reason = NameEmpty | NameTooLong | NameControl

datatype name_result = NameOk string nat | NameBad name_reason nat

definition countUnicodeCharacters :: "string \<Rightarrow> nat" where
  "countUnicodeCharacters s = length s"

definition hasControlCharacter :: "string \<Rightarrow> bool" where
  "hasControlCharacter s = list_ex (\<lambda>c. cu c \<le> 31 \<or> (127 \<le> cu c \<and> cu c \<le> 159)) s"

definition validateTetiDisplayName :: "string \<Rightarrow> name_result" where
  "validateTetiDisplayName input = (let v = trim input; n = countUnicodeCharacters v in
     if n < 1 then NameBad NameEmpty n
     else if 10 < n then NameBad NameTooLong n
     else if hasControlCharacter v then NameBad NameControl n
     else NameOk v n)"

definition truncateTetiDisplayName :: "string \<Rightarrow> string" where
  "truncateTetiDisplayName s = take 10 s"

fun name_reason_string :: "name_reason \<Rightarrow> string" where
  "name_reason_string NameEmpty = ''empty''"
| "name_reason_string NameTooLong = ''too_long''"
| "name_reason_string NameControl = ''control_character''"

definition requireDisplayName :: "string option \<Rightarrow> string result" where
  "requireDisplayName name = (case validateTetiDisplayName (case name of None \<Rightarrow> [] | Some s \<Rightarrow> s) of
       NameOk v n \<Rightarrow> Inr v
     | NameBad r n \<Rightarrow> Inl (InvalidDisplayNameError (name_reason_string r)))"

section \<open>The public profile\<close>

definition sanitizeSmallString :: "json \<Rightarrow> string option" where
  "sanitizeSmallString v =
     (if \<not> is_string v then None
      else (let t = trim (str_of v) in if t \<noteq> [] \<and> length t \<le> 64 then Some t else None))"

definition small_or :: "json \<Rightarrow> string \<Rightarrow> json" where
  "small_or v d = JStr (case sanitizeSmallString v of None \<Rightarrow> d | Some s \<Rightarrow> s)"

definition small_field :: "string \<Rightarrow> json \<Rightarrow> (string \<times> json) list" where
  "small_field k v = (case sanitizeSmallString v of None \<Rightarrow> [] | Some s \<Rightarrow> [(k, JStr s)])"

text \<open>\<open>arch\<close> and \<open>release\<close> are the architecture and the release of the operating system.\<close>

definition sanitizeDeviceMetadata :: "string \<Rightarrow> json \<Rightarrow> json" where
  "sanitizeDeviceMetadata arch d = JObj
     [(''os'', JObj [(''name'', small_or (get (get d ''os'') ''name'') ''unknown''),
        (''version'', small_or (get (get d ''os'') ''version'') ''unknown'')]),
      (''hardware'', JObj (small_field ''vendor'' (get (get d ''hardware'') ''vendor'')
         @ small_field ''model'' (get (get d ''hardware'') ''model'')
         @ [(''architecture'', small_or (get (get d ''hardware'') ''architecture'') arch)]))]"

definition createUnknownDeviceMetadata :: "string \<Rightarrow> string \<Rightarrow> json \<Rightarrow> json" where
  "createUnknownDeviceMetadata arch release platform = JObj
     [(''os'', JObj [(''name'', platform), (''version'', JStr release)]), (''hardware'', JObj [(''architecture'', JStr arch)])]"

definition sanitizeLocation :: "json \<Rightarrow> json" where
  "sanitizeLocation l =
     (if \<not> truthy l then JUndef
      else (let kvs = small_field ''country'' (get l ''country'') @ small_field ''city'' (get l ''city'') in
        if kvs = [] then JUndef else JObj kvs))"

definition small_strings :: "json list \<Rightarrow> json list" where
  "small_strings vs = take 20 (map JStr (List.map_filter sanitizeSmallString vs))"

definition with_location :: "(string \<times> json) list \<Rightarrow> json \<Rightarrow> json" where
  "with_location kvs l = JObj (kvs @ (if truthy l then [(''location'', l)] else []))"

definition environmentScanToPublicProfile :: "string \<Rightarrow> string \<Rightarrow> json \<Rightarrow> json" where
  "environmentScanToPublicProfile arch release scan = with_location
     [(''platform'', small_or (get scan ''platform'') ''unknown''),
      (''device'', sanitizeDeviceMetadata arch
         (or_else (get scan ''device'') (createUnknownDeviceMetadata arch release (get scan ''platform'')))),
      (''aiEnvironment'', JArr (small_strings (map (\<lambda>t. get t ''name'') (items (get scan ''aiTools''))))),
      (''lastSeen'', get scan ''timestamp'')]
     (sanitizeLocation (get scan ''location''))"

definition private_environment_fields :: "string list" where
  "private_environment_fields = [''ip'', ''ipAddress'', ''mac'', ''macAddress'', ''hostname'', ''username'', ''user'', ''serialNumber'',
     ''filesystemPath'', ''path'', ''apiKey'', ''credentials'', ''password'', ''prompts'', ''sourceCode'', ''documents'', ''files'']"

lemma size_with_index: "(i, v) \<in> set (with_index vs) \<Longrightarrow> size v < Suc (size_list size vs)"
  by (rule le_imp_less_Suc, rule size_list_estimation' [OF _ order_refl]) (auto simp: with_index_def dest: set_zip_rightD)

text \<open>\<open>rejectPrivateEnvironmentFields\<close>; the message has the path of the first field found.\<close>

function rejectPrivateEnvironmentFields :: "json \<Rightarrow> string \<Rightarrow> error option" where
  "rejectPrivateEnvironmentFields (JArr vs) path =
     first_err (map (\<lambda>(i, v). rejectPrivateEnvironmentFields v (path @ ''['' @ string_of_int (int i) @ '']'')) (with_index vs))"
| "rejectPrivateEnvironmentFields (JObj kvs) path = first_err (map (\<lambda>(k, v).
     if k \<in> set private_environment_fields then Some (PlainError (path @ ''.'' @ k @ '' must not be published.''))
     else rejectPrivateEnvironmentFields v (path @ ''.'' @ k)) kvs)"
| "rejectPrivateEnvironmentFields JUndef path = None"
| "rejectPrivateEnvironmentFields JNull path = None"
| "rejectPrivateEnvironmentFields (JBool b) path = None"
| "rejectPrivateEnvironmentFields (JNum n) path = None"
| "rejectPrivateEnvironmentFields (JStr s) path = None"
  by pat_completeness auto
termination
proof (relation "measure (size \<circ> fst)", goal_cases)
  case (2 vs path x i v)
  then show ?case using size_with_index [of i v vs] by simp
next
  case (3 kvs path x k v)
  then have "size_prod (\<lambda>_. 0) size (k, v) \<le> size_list (size_prod (\<lambda>_. 0) size) kvs"
    by (intro size_list_estimation') auto
  then show ?case by simp
qed simp

definition filterPublicEnvironmentProfile :: "string \<Rightarrow> string \<Rightarrow> string \<Rightarrow> json \<Rightarrow> json result" where
  "filterPublicEnvironmentProfile arch release now v = guarded (rejectPrivateEnvironmentFields v ''environment'')
     (let platform = small_or (get v ''platform'') ''unknown'' in
      Inr (with_location
        [(''platform'', platform),
         (''device'', sanitizeDeviceMetadata arch (if is_record (get v ''device'') then get v ''device''
             else createUnknownDeviceMetadata arch release platform)),
         (''aiEnvironment'', JArr (small_strings (items (get v ''aiEnvironment'')))),
         (''lastSeen'', small_or (get v ''lastSeen'') now)]
        (if is_record (get v ''location'') then sanitizeLocation (get v ''location'') else JUndef)))"

text \<open>\<open>host\<close> is \<open>detectPlatform()\<close> of the account model.\<close>

definition detectPlatform :: "string \<Rightarrow> string" where
  "detectPlatform process_platform =
     (if process_platform = ''darwin'' then ''macOS'' else if process_platform = ''win32'' then ''Windows''
      else if process_platform = ''linux'' then ''Linux'' else process_platform)"

definition truthy_field :: "json \<Rightarrow> string \<Rightarrow> (string \<times> json) list" where
  "truthy_field v k = (if truthy (get v k) then [(k, get v k)] else [])"

definition createDefaultPublicProfile :: "string \<Rightarrow> json \<Rightarrow> json" where
  "createDefaultPublicProfile host i = JObj
     ([(''platform'', or_else (get i ''platform'') (JStr host)),
       (''category'', or_else (get i ''category'') (JArr [JStr ''developer''])),
       (''aiEnvironment'', or_else (get i ''aiEnvironment'') (JArr [JStr ''Claude Code'', JStr ''Cursor'']))]
      @ truthy_field i ''lastSeen'' @ truthy_field i ''device'' @ truthy_field i ''location'')"

definition getTetiId :: "json \<Rightarrow> string result" where
  "getTetiId account = normalizeTetiPublicId (get account ''id'')"

definition getTetiIdFromAddress :: "string \<Rightarrow> string result" where
  "getTetiIdFromAddress address = tetiPublicIdFromAddress (JStr address)"

section \<open>Storages\<close>

definition ed25519_key_pattern :: "string \<Rightarrow> bool" where
  "ed25519_key_pattern s \<longleftrightarrow> starts_with ''ed25519:'' s \<and> length s = 51 \<and> list_all base64url_char (drop 8 s)"

definition client_instance_pattern :: "string \<Rightarrow> bool" where
  "client_instance_pattern s \<longleftrightarrow> starts_with ''ci_'' s \<and> length s = 25 \<and> list_all base64url_char (drop 3 s)"

definition binding_invalid :: "json \<Rightarrow> bool" where
  "binding_invalid b \<longleftrightarrow> get b ''schemaVersion'' \<noteq> jint 1
     \<or> get b ''mode'' \<notin> {JStr ''register'', JStr ''adopt''}
     \<or> get b ''state'' \<notin> {JStr ''pending'', JStr ''active'', JStr ''revoked'', JStr ''conflict''}
     \<or> get b ''environment'' \<notin> {JUndef, JStr ''production'', JStr ''local_development''}
     \<or> (get b ''identityPublicKey'' \<noteq> JUndef \<and> \<not> ed25519_key_pattern (js_string (get b ''identityPublicKey'')))
     \<or> (get b ''clientInstanceId'' \<noteq> JUndef \<and> \<not> client_instance_pattern (js_string (get b ''clientInstanceId'')))
     \<or> (get b ''lastVerifiedAt'' \<noteq> JUndef \<and> \<not> valid_date (js_string (get b ''lastVerifiedAt'')))"

definition identity_binding_check :: "json \<Rightarrow> error option" where
  "identity_binding_check b =
     (if b = JUndef then None
      else first_err
       [throw_if (b = JNull) (TypeError ''Cannot read properties of null''),
        throw_if (binding_invalid b) (PlainError ''Teti account Network identity binding is invalid.''),
        throw_if (get b ''state'' = JStr ''active'' \<and> (\<not> truthy (get b ''identityPublicKey'') \<or> \<not> truthy (get b ''clientInstanceId'')
            \<or> \<not> truthy (get b ''lastVerifiedAt''))) (PlainError ''Active Teti Network identity binding is incomplete.'')])"

fun is_number :: "json \<Rightarrow> bool" where
  "is_number (JNum n) = True"
| "is_number _ = False"

definition validateStoredAccount :: "json \<Rightarrow> error option" where
  "validateStoredAccount a = first_err
     [throw_if (get a ''privateKey'' \<noteq> JUndef) (PlainError ''Teti account storage must not contain privateKey.''),
      throw_if (get a ''password'' \<noteq> JUndef \<or> get a ''chatmailPassword'' \<noteq> JUndef)
        (PlainError ''Teti account storage must not contain chatmail credentials.''),
      throw_if (get a ''databasePath'' \<noteq> JUndef \<or> get a ''dbPath'' \<noteq> JUndef)
        (PlainError ''Teti account storage must not contain local database paths.''),
      throw_if (get a ''version'' \<noteq> jint 1) (PlainError ''Unsupported Teti account version.''),
      throw_if (\<not> isCanonicalTetiPublicId (get a ''id''))
        (PlainError ''Teti account id must be a canonical lowercase public ID.''),
      throw_if (\<not> isCanonicalTetiRelayChatmailAddress (get a ''address''))
        (PlainError ''Teti account Chatmail address must be canonical lowercase.''),
      throw_if (\<not> is_number (get a ''chatmailAccountId'')) (PlainError ''Teti account chatmailAccountId is required.''),
      identity_binding_check (get a ''networkIdentity'')]"

record 's account_storage =
  as_load :: "'s \<Rightarrow> json option result"
  as_save :: "json \<Rightarrow> 's \<Rightarrow> 's result"
  as_remove :: "'s \<Rightarrow> 's"

definition account_exists :: "'s account_storage \<Rightarrow> 's \<Rightarrow> bool result" where
  "account_exists st s = rbind (as_load st s) (\<lambda>a. Inr (a \<noteq> None))"

text \<open>The file: the address and the identifier are normalized before the object is validated.\<close>

definition account_file_load :: "json_file \<Rightarrow> json option result" where
  "account_file_load f = (case f of
       NoFile \<Rightarrow> Inr None
     | NotJson \<Rightarrow> Inl (PlainError ''JSON.parse'')
     | JsonFile v \<Rightarrow>
         if \<not> is_record v then Inl (TypeError ''account'')
         else rbind (normalizeTetiRelayChatmailAddress (get v ''address'')) (\<lambda>address.
           let v1 = put v ''address'' (JStr address) in
           rbind (getTetiId v1) (\<lambda>i. let v2 = put v1 ''id'' (JStr i) in
             guarded (validateStoredAccount v2) (Inr (Some v2)))))"

definition account_file_save :: "json \<Rightarrow> json_file \<Rightarrow> json_file result" where
  "account_file_save a f = guarded (validateStoredAccount a) (Inr (JsonFile (json_clone a)))"

definition account_file_storage :: "json_file account_storage" where
  "account_file_storage = \<lparr>as_load = account_file_load, as_save = account_file_save, as_remove = (\<lambda>_. NoFile)\<rparr>"

definition account_memory_load :: "json option \<Rightarrow> json option result" where
  "account_memory_load a = Inr (map_option json_clone a)"

definition account_memory_save :: "json \<Rightarrow> json option \<Rightarrow> json option result" where
  "account_memory_save a s = guarded (validateStoredAccount a) (Inr (Some (json_clone a)))"

definition account_memory_storage :: "json option account_storage" where
  "account_memory_storage = \<lparr>as_load = account_memory_load, as_save = account_memory_save, as_remove = (\<lambda>_. None)\<rparr>"

section \<open>The manager\<close>

record chatmail_identity =
  ci_account_id :: int
  ci_address :: string
  ci_display_name :: "string option"
  ci_public_key :: "string option"
  ci_fingerprint :: "string option"

record account_input =
  ai_name :: "string option"
  ai_display_name :: "string option"
  ai_address :: "string option"
  ai_password :: "string option"
  ai_qr :: "string option"
  ai_profile :: "(string \<times> json) list"

text \<open>\<open>am_provisioner\<close> is there when the manager uses a provisioner; else the adapter creates the identity.\<close>

record account_env =
  am_provisioner :: "(string \<Rightarrow> string option \<Rightarrow> chatmail_identity result) option"
  am_adapter :: "string option \<Rightarrow> string option \<Rightarrow> string option \<Rightarrow> string option \<Rightarrow> chatmail_identity result"
  am_delete :: "json \<Rightarrow> error option"
  am_scan :: "json result"
  am_arch :: string
  am_release :: string
  am_platform :: string
  am_suffix :: "string option"
  am_provisional_id :: string
  am_stage :: "string \<Rightarrow> error option"
  am_now :: string

text \<open>What an operation did outside: identities that were created and accounts that were deleted at Chatmail.\<close>

datatype account_effect = IdentityCreated chatmail_identity | AccountDeleted json

type_synonym ('s, 'a) account_outcome = "'s \<times> account_effect list \<times> 'a result"

definition createIdentity :: "account_env \<Rightarrow> account_input \<Rightarrow> string option \<Rightarrow> chatmail_identity result" where
  "createIdentity env i displayName = (case am_provisioner env of
       Some p \<Rightarrow> rbind (requireDisplayName displayName) (\<lambda>name. p name (ai_qr i))
     | None \<Rightarrow> am_adapter env (ai_address i) (ai_password i) displayName (ai_qr i))"

definition assertAddressMatchesRelay :: "string \<Rightarrow> string option \<Rightarrow> error option" where
  "assertAddressMatchesRelay address suffix = (case suffix of
       None \<Rightarrow> None
     | Some s \<Rightarrow> throw_if (s \<noteq> [] \<and> \<not> ends_with (to_lower_case s) (to_lower_case address))
         (PlainError (''Chatmail address must end in '' @ s @ ''.'')))"

definition given_json :: "string option \<Rightarrow> json" where
  "given_json x = opt_json JStr x"

definition host_profile :: "account_env \<Rightarrow> json \<Rightarrow> json" where
  "host_profile env scan = environmentScanToPublicProfile (am_arch env) (am_release env) scan"

definition profile_fields :: "json \<Rightarrow> (string \<times> json) list" where
  "profile_fields p = map (\<lambda>k. (k, get p k)) [''platform'', ''aiEnvironment'', ''lastSeen'', ''device'', ''location'']"

definition new_account :: "account_env \<Rightarrow> account_input \<Rightarrow> chatmail_identity \<Rightarrow> string \<Rightarrow> string \<Rightarrow> json \<Rightarrow> string option \<Rightarrow> json" where
  "new_account env i identity address tetiId scan displayName = JObj
     ([(''version'', jint 1), (''id'', JStr tetiId), (''address'', JStr address),
       (''chatmailAccountId'', jint (ci_account_id identity)), (''publicKey'', given_json (ci_public_key identity)),
       (''fingerprint'', given_json (ci_fingerprint identity)),
       (''publicProfile'', createDefaultPublicProfile (detectPlatform (am_platform env))
          (spread (JObj (profile_fields (host_profile env scan))) (ai_profile i))),
       (''networkIdentity'', JObj [(''schemaVersion'', jint 1), (''mode'', JStr ''register''), (''state'', JStr ''pending'')]),
       (''createdAt'', JStr (am_now env))]
      @ (case (case ci_display_name identity of None \<Rightarrow> displayName | Some n \<Rightarrow> Some n) of
           None \<Rightarrow> [] | Some n \<Rightarrow> if n = [] then [] else [(''displayName'', JStr n)]))"

text \<open>The steps between the creation of the identity and the account that is saved.\<close>

definition build_account :: "account_env \<Rightarrow> account_input \<Rightarrow> chatmail_identity \<Rightarrow> string option \<Rightarrow> json result" where
  "build_account env i identity displayName = guarded (assertAddressMatchesRelay (ci_address identity) (am_suffix env))
     (rbind (normalizeTetiRelayChatmailAddress (JStr (ci_address identity))) (\<lambda>address.
      rbind (am_scan env) (\<lambda>scan.
      rbind (normalizeTetiPublicId (JStr (am_provisional_id env))) (\<lambda>tetiId.
        Inr (new_account env i identity address tetiId scan displayName)))))"

definition save_account :: "'s account_storage \<Rightarrow> account_env \<Rightarrow> json \<Rightarrow> 's \<Rightarrow> 's \<times> json result" where
  "save_account st env account s = (case first_err [am_stage env ''identity_created'', am_stage env ''persisting''] of
       Some e \<Rightarrow> (s, Inl e)
     | None \<Rightarrow> (case as_save st account s of
         Inl e \<Rightarrow> (s, Inl (LocalAccountPersistenceError ''Teti could not persist its local identity.''))
       | Inr s' \<Rightarrow> (case first_err [am_stage env ''persisted'', am_stage env ''complete''] of
           Some e \<Rightarrow> (s', Inl e)
         | None \<Rightarrow> (s', Inr account))))"

definition createTetiAccount :: "'s account_storage \<Rightarrow> account_env \<Rightarrow> account_input \<Rightarrow> 's \<Rightarrow> ('s, json) account_outcome" where
  "createTetiAccount st env i s = (case as_load st s of
       Inl e \<Rightarrow> (s, [], Inl e)
     | Inr (Some account) \<Rightarrow> (s, [], Inr account)
     | Inr None \<Rightarrow> (let displayName = (case ai_display_name i of None \<Rightarrow> ai_name i | Some n \<Rightarrow> Some n) in
         case createIdentity env i displayName of
           Inl e \<Rightarrow> (s, [], Inl e)
         | Inr identity \<Rightarrow> (case build_account env i identity displayName of
             Inl e \<Rightarrow> (s, [IdentityCreated identity], Inl e)
           | Inr account \<Rightarrow> (case save_account st env account s of
               (s', r) \<Rightarrow> (s', [IdentityCreated identity], r)))))"

definition localNetworkIdentityStatus :: "json \<Rightarrow> json" where
  "localNetworkIdentityStatus account = (let b = get account ''networkIdentity'' in
     if \<not> truthy b then JObj [(''state'', JStr ''unknown'')]
     else JObj ([(''state'', get b ''state'')]
       @ (if truthy (get b ''lastVerifiedAt'') then [(''checkedAt'', get b ''lastVerifiedAt'')] else [])
       @ (if truthy (get b ''errorCode'') then [(''errorCode'', get b ''errorCode'')] else [])))"

definition getTetiStatus :: "'s account_storage \<Rightarrow> 's \<Rightarrow> json result" where
  "getTetiStatus st s = rbind (as_load st s) (\<lambda>a. Inr (case a of
       None \<Rightarrow> JObj [(''exists'', JBool False), (''networkIdentity'', JObj [(''state'', JStr ''unknown'')]),
                 (''onlineStatus'', JStr ''unknown'')]
     | Some account \<Rightarrow> JObj [(''exists'', JBool True), (''address'', get account ''address''),
         (''networkIdentity'', localNetworkIdentityStatus account), (''onlineStatus'', JStr ''unknown'')]))"

definition deleteTetiAccount :: "'s account_storage \<Rightarrow> account_env \<Rightarrow> 's \<Rightarrow> ('s, unit) account_outcome" where
  "deleteTetiAccount st env s = (case as_load st s of
       Inl e \<Rightarrow> (s, [], Inl e)
     | Inr None \<Rightarrow> (s, [], Inr ())
     | Inr (Some account) \<Rightarrow> (case am_delete env (get account ''chatmailAccountId'') of
         Some e \<Rightarrow> (s, [], Inl e)
       | None \<Rightarrow> (as_remove st s, [AccountDeleted (get account ''chatmailAccountId'')], Inr ())))"

definition refreshed_account :: "account_env \<Rightarrow> json \<Rightarrow> json \<Rightarrow> json" where
  "refreshed_account env account scan = put account ''publicProfile''
     (createDefaultPublicProfile (detectPlatform (am_platform env))
       (spread (get account ''publicProfile'') (profile_fields (host_profile env scan))))"

definition refreshTetiEnvironment :: "'s account_storage \<Rightarrow> account_env \<Rightarrow> 's \<Rightarrow> ('s, json) account_outcome" where
  "refreshTetiEnvironment st env s = (case as_load st s of
       Inl e \<Rightarrow> (s, [], Inl e)
     | Inr None \<Rightarrow> (s, [], Inl (PlainError ''A local Teti account is required before refreshing environment discovery.''))
     | Inr (Some account) \<Rightarrow> (case am_scan env of
         Inl e \<Rightarrow> (s, [], Inl e)
       | Inr scan \<Rightarrow> (let updated = refreshed_account env account scan in
           case as_save st updated s of Inl e \<Rightarrow> (s, [], Inl e) | Inr s' \<Rightarrow> (s', [], Inr updated))))"

end
