(* ===== verification/Account_Guarantees.thy ===== *)
theory Account_Guarantees
  imports Account
begin

text \<open>
  What the account manager guarantees: the file storage and the memory storage answer every sequence of operations
  alike, a stored account is created once, and the public profile of a host passes the filter of private fields.
\<close>

section \<open>Copies\<close>

lemma json_clone_is_clean: "json_clean (json_clone v)"
proof (induction v rule: json_clone.induct)
  case (4 n)
  then show ?case by (cases n) auto
next
  case (7 kvs)
  then show ?case by (fastforce split: if_splits)
qed auto

lemma map_of_clone:
  "distinct (map fst kvs) \<Longrightarrow> map_of (concat (map (\<lambda>(k, v). if v = JUndef then [] else [(k, json_clone v)]) kvs)) k
    = (case map_of kvs k of None \<Rightarrow> None | Some v \<Rightarrow> if v = JUndef then None else Some (json_clone v))"
proof (induction kvs)
  case (Cons kv kvs)
  obtain a v where kv: "kv = (a, v)" by force
  have IH: "map_of (concat (map (\<lambda>(k, v). if v = JUndef then [] else [(k, json_clone v)]) kvs)) k
    = (case map_of kvs k of None \<Rightarrow> None | Some v \<Rightarrow> if v = JUndef then None else Some (json_clone v))"
    using Cons by simp
  show ?case
  proof (cases "k = a")
    case True
    then have "map_of kvs k = None" using Cons.prems kv by (simp add: map_of_eq_None_iff)
    then show ?thesis using True IH kv by simp
  next
    case False
    then show ?thesis using IH kv by simp
  qed
qed simp

lemma get_clone:
  "is_record v \<Longrightarrow> distinct (keys_of v) \<Longrightarrow> get (json_clone v) k = (if get v k = JUndef then JUndef else json_clone (get v k))"
  by (cases v) (auto simp: get.simps map_of_clone split: option.split)

lemma clone_keys: "is_record v \<Longrightarrow> distinct (keys_of v) \<Longrightarrow> is_record (json_clone v) \<and> distinct (keys_of (json_clone v))"
proof (cases v)
  case (JObj kvs)
  assume "distinct (keys_of v)"
  then have "distinct (map fst kvs)" by (simp add: JObj)
  then have "distinct (map fst (concat (map (\<lambda>(k, v). if v = JUndef then [] else [(k, json_clone v)]) kvs)))"
    by (induction kvs) (auto split: if_splits intro: rev_image_eqI)
  then show ?thesis by (simp add: JObj)
qed auto

lemma put_same: "is_record v \<Longrightarrow> distinct (keys_of v) \<Longrightarrow> get v k = x \<Longrightarrow> x \<noteq> JUndef \<Longrightarrow> put v k x = v"
proof (cases v)
  case (JObj kvs)
  assume d: "distinct (keys_of v)" "get v k = x" "x \<noteq> JUndef"
  then have m: "map_of kvs k = Some x" by (auto simp: JObj get.simps split: option.splits)
  have "map (\<lambda>(k', y). (k', if k' = k then x else y)) kvs = kvs"
    using d(1) map_of_SomeD [OF m] by (intro map_idI) (auto simp: JObj dest: eq_key_imp_eq_value)
  moreover have "k \<in> fst ` set kvs" using m by (metis map_of_eq_None_iff option.distinct(1))
  moreover have "(\<lambda>(k', y). (k', case map_of [(k, x)] k' of None \<Rightarrow> y | Some z \<Rightarrow> z)) = (\<lambda>(k', y). (k', if k' = k then x else y))"
    by (auto simp: fun_eq_iff)
  ultimately show ?thesis unfolding put_def spread_def JObj json.case by (simp del: map_of.simps)
qed auto

lemma put_keys: "is_record v \<Longrightarrow> distinct (keys_of v) \<Longrightarrow> is_record (put v k x) \<and> distinct (keys_of (put v k x))"
  by (cases v) (auto simp: put_def spread_def comp_def case_prod_beta)

section \<open>Accounts that can be stored\<close>

definition storable :: "json \<Rightarrow> bool" where
  "storable a \<longleftrightarrow> is_record a \<and> distinct (keys_of a) \<and> validateStoredAccount a = None \<and> validateStoredAccount (json_clone a) = None"

lemma storable_clone: "storable a \<Longrightarrow> storable (json_clone a)"
  using clone_keys [of a] json_clone_clean [OF json_clone_is_clean] by (simp add: storable_def)

text \<open>The fields that the validator reads.\<close>

definition validated_fields :: "string list" where
  "validated_fields = [''privateKey'', ''password'', ''chatmailPassword'', ''databasePath'', ''dbPath'', ''version'', ''id'', ''address'',
     ''chatmailAccountId'', ''networkIdentity'']"

lemma validate_cong: "(\<And>k. k \<in> set validated_fields \<Longrightarrow> get a k = get b k) \<Longrightarrow> validateStoredAccount a = validateStoredAccount b"
  by (simp add: validateStoredAccount_def validated_fields_def)

lemma storable_put:
  assumes "storable a" and "json_clean a" and "k \<notin> set validated_fields"
  shows "storable (put a k x)"
proof -
  have r: "is_record a" "distinct (keys_of a)" "validateStoredAccount a = None" using assms(1) by (auto simp: storable_def)
  have p: "is_record (put a k x)" "distinct (keys_of (put a k x))" using put_keys [OF r(1,2)] by auto
  have same: "get (put a k x) f = get a f" if "f \<in> set validated_fields" for f using assms(3) that by (auto simp: get_put)
  have "get (json_clone (put a k x)) f = get a f" if "f \<in> set validated_fields" for f
    using same [OF that] get_clone [OF p, of f] json_clone_clean [OF json_clean_get [OF assms(2)], of f] by auto
  then show ?thesis
    using p r(3) validate_cong [of "put a k x" a] validate_cong [of "json_clone (put a k x)" a] same by (simp add: storable_def)
qed

lemma storable_new:
  assumes "isCanonicalTetiRelayChatmailAddress (JStr address)" and "isCanonicalTetiPublicId (JStr tetiId)"
  shows "storable (new_account env i identity address tetiId scan displayName)"
proof -
  let ?a = "new_account env i identity address tetiId scan displayName"
  have r: "is_record ?a" "distinct (keys_of ?a)"
    by (auto simp: new_account_def split: option.splits)
  have g: "get ?a ''version'' = jint 1" "get ?a ''id'' = JStr tetiId" "get ?a ''address'' = JStr address"
      "get ?a ''chatmailAccountId'' = jint (ci_account_id identity)"
      "get ?a ''networkIdentity'' = JObj [(''schemaVersion'', jint 1), (''mode'', JStr ''register''), (''state'', JStr ''pending'')]"
    by (simp_all add: new_account_def)
  have u: "get ?a k = JUndef" if "k \<in> {''privateKey'', ''password'', ''chatmailPassword'', ''databasePath'', ''dbPath''}" for k
    using that by (intro get_not_key) (auto simp: new_account_def split: option.splits)
  have v: "validateStoredAccount x = None"
    if "get x ''version'' = jint 1" "get x ''id'' = JStr tetiId" "get x ''address'' = JStr address"
      "get x ''chatmailAccountId'' = jint (ci_account_id identity)"
      "get x ''networkIdentity'' = JObj [(''schemaVersion'', jint 1), (''mode'', JStr ''register''), (''state'', JStr ''pending'')]"
      "\<forall>k\<in>{''privateKey'', ''password'', ''chatmailPassword'', ''databasePath'', ''dbPath''}. get x k = JUndef" for x
    using that assms by (simp add: validateStoredAccount_def throw_if_def identity_binding_check_def binding_invalid_def)
  have "validateStoredAccount ?a = None" using g u by (intro v) auto
  moreover have "validateStoredAccount (json_clone ?a) = None"
    using g u get_clone [OF r] by (intro v) (simp_all add: g u)
  ultimately show ?thesis using r by (simp add: storable_def)
qed

section \<open>Storages\<close>

locale account_keeper =
  fixes st :: "'s account_storage" and good :: "'s \<Rightarrow> bool" and stored :: "'s \<Rightarrow> json option"
  assumes load: "good s \<Longrightarrow> as_load st s = Inr (stored s)"
    and save: "good s \<Longrightarrow> storable a \<Longrightarrow> \<exists>s'. as_save st a s = Inr s' \<and> good s' \<and> stored s' = Some (json_clone a)"
    and remove: "good s \<Longrightarrow> good (as_remove st s) \<and> stored (as_remove st s) = None"
    and kept: "good s \<Longrightarrow> stored s = Some a \<Longrightarrow> storable a \<and> json_clean a"

definition good_account_memory :: "json option \<Rightarrow> bool" where
  "good_account_memory m \<longleftrightarrow> (\<forall>a. m = Some a \<longrightarrow> storable a \<and> json_clean a)"

interpretation memory_account: account_keeper account_memory_storage good_account_memory "\<lambda>m. m"
proof unfold_locales
  fix s assume "good_account_memory s"
  then show "as_load account_memory_storage s = Inr s"
    by (cases s) (auto simp: account_memory_storage_def account_memory_load_def good_account_memory_def json_clone_clean)
next
  fix s a assume "good_account_memory s" and "storable a"
  then show "\<exists>s'. as_save account_memory_storage a s = Inr s' \<and> good_account_memory s' \<and> s' = Some (json_clone a)"
    using storable_clone [of a] json_clone_is_clean
    by (simp add: account_memory_storage_def account_memory_save_def good_account_memory_def storable_def)
qed (simp_all add: good_account_memory_def account_memory_storage_def)

definition good_account_file :: "json_file \<Rightarrow> bool" where
  "good_account_file f \<longleftrightarrow> f = NoFile \<or> (\<exists>a. f = JsonFile a \<and> storable a \<and> json_clean a)"

definition file_account :: "json_file \<Rightarrow> json option" where
  "file_account f = (case f of JsonFile a \<Rightarrow> Some a | _ \<Rightarrow> None)"

lemma load_storable:
  assumes "storable a"
  shows "account_file_load (JsonFile a) = Inr (Some a)"
proof -
  have r: "is_record a" "distinct (keys_of a)" "validateStoredAccount a = None" using assms by (auto simp: storable_def)
  then have c: "isCanonicalTetiRelayChatmailAddress (get a ''address'')" "isCanonicalTetiPublicId (get a ''id'')"
    by (auto simp: validateStoredAccount_def first_err_None throw_if_def split: if_splits)
  obtain s t where s: "get a ''address'' = JStr s" "normalizeTetiRelayChatmailAddress (JStr s) = Inr s" and t: "get a ''id'' = JStr t"
    using c by (auto simp: isCanonicalTetiRelayChatmailAddress_def isCanonicalTetiPublicId_def split: json.splits sum.splits)
  have "put a ''address'' (JStr s) = a" "put a ''id'' (JStr t) = a" using put_same [OF r(1,2) s(1)] put_same [OF r(1,2) t] by simp_all
  then show ?thesis
    using r s t c(2) normalizeTetiPublicId_fixes [of t] by (simp add: account_file_load_def getTetiId_def)
qed

interpretation file_account: account_keeper account_file_storage good_account_file file_account
proof unfold_locales
  fix s assume "good_account_file s"
  then show "as_load account_file_storage s = Inr (file_account s)"
    using load_storable by (auto simp: good_account_file_def account_file_storage_def file_account_def account_file_load_def)
next
  fix s a assume "good_account_file s" and "storable a"
  then show "\<exists>s'. as_save account_file_storage a s = Inr s' \<and> good_account_file s' \<and> file_account s' = Some (json_clone a)"
    using storable_clone [of a] json_clone_is_clean
    by (simp add: account_file_storage_def account_file_save_def good_account_file_def file_account_def storable_def)
qed (auto simp: good_account_file_def account_file_storage_def file_account_def)

section \<open>Runs\<close>

datatype account_op = CreateAccount account_env account_input | RefreshAccount account_env | DeleteAccount account_env | AccountStatus

fun account_call :: "'s account_storage \<Rightarrow> account_op \<Rightarrow> 's \<Rightarrow> ('s, json) account_outcome" where
  "account_call st (CreateAccount env i) s = createTetiAccount st env i s"
| "account_call st (RefreshAccount env) s = refreshTetiEnvironment st env s"
| "account_call st (DeleteAccount env) s = (case deleteTetiAccount st env s of (s', es, r) \<Rightarrow> (s', es, rbind r (\<lambda>_. Inr JUndef)))"
| "account_call st AccountStatus s = (s, [], getTetiStatus st s)"

fun account_run :: "'s account_storage \<Rightarrow> account_op list \<Rightarrow> 's \<Rightarrow> (account_effect list \<times> json result) list" where
  "account_run st [] s = []"
| "account_run st (c # cs) s = (case account_call st c s of (s', es, r) \<Rightarrow> (es, r) # account_run st cs s')"

lemma built_account:
  assumes "build_account env i identity displayName = Inr a"
  shows "storable a"
proof -
  from assms obtain address tetiId scan where a: "a = new_account env i identity address tetiId scan displayName"
    and n: "normalizeTetiRelayChatmailAddress (JStr (ci_address identity)) = Inr address"
      "normalizeTetiPublicId (JStr (am_provisional_id env)) = Inr tetiId"
    by (auto simp: build_account_def guarded_def rbind_def split: option.splits sum.splits)
  have "relay_address_ok address"
    using n(1) by (auto simp: normalizeTetiRelayChatmailAddress_def Let_def split: if_splits)
  then show ?thesis using n(2) normalizeTetiPublicId_canonical relay_canonical_iff storable_new unfolding a by blast
qed

context account_keeper begin

text \<open>One operation on the storage and on the memory that holds the same account: the same effects and answers.\<close>

lemma same_save:
  assumes "good s" and "storable a" and "save_account st env a s = (s', r)"
  shows "good s' \<and> save_account account_memory_storage env a (stored s) = (stored s', r)"
proof -
  obtain t where t: "as_save st a s = Inr t" "good t" "stored t = Some (json_clone a)" using save [OF assms(1,2)] by blast
  have m: "as_save account_memory_storage a (stored s) = Inr (Some (json_clone a))"
    using assms(2) by (simp add: account_memory_storage_def account_memory_save_def storable_def)
  show ?thesis using assms(1,3) t m by (auto simp: save_account_def split: option.splits)
qed

lemma memory_load: "good s \<Longrightarrow> as_load account_memory_storage (stored s) = Inr (stored s)"
  using kept by (cases "stored s") (auto simp: account_memory_storage_def account_memory_load_def json_clone_clean)

lemma same_create:
  assumes "good s" and "createTetiAccount st env i s = (s', es, r)"
  shows "good s' \<and> createTetiAccount account_memory_storage env i (stored s) = (stored s', es, r)"
proof (cases "stored s")
  case (Some a)
  then show ?thesis using assms load [OF assms(1)] memory_load [OF assms(1)] by (simp add: createTetiAccount_def)
next
  case None
  note l = load [OF assms(1)] memory_load [OF assms(1)]
  show ?thesis
  proof (cases "createIdentity env i (case ai_display_name i of None \<Rightarrow> ai_name i | Some n \<Rightarrow> Some n)")
    case (Inl e)
    then show ?thesis using assms l None by (auto simp: createTetiAccount_def Let_def)
  next
    case id: (Inr identity)
    show ?thesis
    proof (cases "build_account env i identity (case ai_display_name i of None \<Rightarrow> ai_name i | Some n \<Rightarrow> Some n)")
      case (Inl e)
      have "createTetiAccount st env i s = (s, [IdentityCreated identity], Inl e)"
        "createTetiAccount account_memory_storage env i None = (None, [IdentityCreated identity], Inl e)"
        using l by (simp_all add: createTetiAccount_def None id Inl)
      then show ?thesis using assms None by simp
    next
      case (Inr a)
      obtain t q where q: "save_account st env a s = (t, q)" by force
      from same_save [OF assms(1) built_account [OF Inr] q] show ?thesis
        using assms l None id Inr q by (auto simp: createTetiAccount_def Let_def)
    qed
  qed
qed

lemma same_refresh:
  assumes "good s" and "refreshTetiEnvironment st env s = (s', es, r)"
  shows "good s' \<and> refreshTetiEnvironment account_memory_storage env (stored s) = (stored s', es, r)"
proof (cases "stored s")
  case None
  then show ?thesis using assms load [OF assms(1)] memory_load [OF assms(1)] by (auto simp: refreshTetiEnvironment_def)
next
  case (Some a)
  note l = load [OF assms(1)] memory_load [OF assms(1)]
  show ?thesis
  proof (cases "am_scan env")
    case (Inl e)
    have "refreshTetiEnvironment st env s = (s, [], Inl e)"
      "refreshTetiEnvironment account_memory_storage env (Some a) = (Some a, [], Inl e)"
      using l by (simp_all add: refreshTetiEnvironment_def Some Inl)
    then show ?thesis using assms Some by simp
  next
    case (Inr scan)
    let ?u = "refreshed_account env a scan"
    have u: "storable ?u"
      using kept [OF assms(1) Some] storable_put [of a "''publicProfile''"] by (simp add: refreshed_account_def validated_fields_def)
    obtain t where t: "as_save st ?u s = Inr t" "good t" "stored t = Some (json_clone ?u)" using save [OF assms(1) u] by blast
    have m: "as_save account_memory_storage ?u (Some a) = Inr (Some (json_clone ?u))"
      using u by (simp add: account_memory_storage_def account_memory_save_def storable_def)
    show ?thesis using assms l Some Inr t m by (auto simp: refreshTetiEnvironment_def Let_def)
  qed
qed

lemma same_call:
  assumes "good s" and "account_call st c s = (s', es, r)"
  shows "good s' \<and> account_call account_memory_storage c (stored s) = (stored s', es, r)"
proof (cases c)
  case (DeleteAccount env)
  have rm: "as_remove account_memory_storage (stored s) = None" by (simp add: account_memory_storage_def)
  show ?thesis
    using assms(2) DeleteAccount load [OF assms(1)] memory_load [OF assms(1)] remove [OF assms(1)] assms(1) rm
    by (auto simp: deleteTetiAccount_def split: option.splits)
next
  case AccountStatus
  have "getTetiStatus st s = getTetiStatus account_memory_storage (stored s)"
    using load [OF assms(1)] memory_load [OF assms(1)] by (simp add: getTetiStatus_def)
  then show ?thesis using assms AccountStatus by auto
next
  case (CreateAccount env i)
  then show ?thesis using same_create [OF assms(1), of env i] assms(2) by simp
next
  case (RefreshAccount env)
  then show ?thesis using same_refresh [OF assms(1), of env] assms(2) by simp
qed

lemma same_run: "good s \<Longrightarrow> account_run st cs s = account_run account_memory_storage cs (stored s)"
proof (induction cs arbitrary: s)
  case (Cons c cs)
  obtain s' es r where c: "account_call st c s = (s', es, r)" by (metis prod_cases3)
  from same_call [OF Cons.prems c] Cons.IH [of s'] show ?case by (simp add: c)
qed simp

lemma create_again:
  assumes "good s" and "createTetiAccount st env i s = (s', es, Inr account)"
  shows "createTetiAccount st env2 i2 s' = (s', [], Inr (json_clone account))"
proof -
  have same: "good s'" "createTetiAccount account_memory_storage env i (stored s) = (stored s', es, Inr account)"
    using same_create [OF assms] by auto
  have "stored s' = Some (json_clone account)"
  proof (cases "stored s")
    case (Some a)
    then have "s' = s" "account = a" using assms load [OF assms(1)] by (auto simp: createTetiAccount_def)
    then show ?thesis using Some kept [OF assms(1) Some] by (simp add: json_clone_clean)
  next
    case None
    have l: "as_load account_memory_storage None = Inr None" by (simp add: account_memory_storage_def account_memory_load_def)
    show ?thesis using same(2) l unfolding None
      by (auto simp: createTetiAccount_def Let_def save_account_def account_memory_storage_def account_memory_save_def guarded_def
          split: sum.splits option.splits)
  qed
  then show ?thesis using load [OF same(1)] by (simp add: createTetiAccount_def)
qed

end

text \<open>
  C37: The file storage and the memory storage of the account cannot be told apart: from an empty storage, every sequence of
  creations, refreshes, deletions and status queries has the same effects at Chatmail and the same answers, errors
  included.
\<close>

theorem account_storages_agree:
  "account_run account_file_storage cs NoFile = account_run account_memory_storage cs None"
  using file_account.same_run [of NoFile cs] by (simp add: good_account_file_def file_account_def)

text \<open>
  The local account is created once: after a creation that returned an account, a further creation, with any input and
  by any manager on the same file, creates no second Chatmail identity, changes nothing and returns the stored account.
\<close>

theorem account_created_once:
  assumes "good_account_file f" and "createTetiAccount account_file_storage env i f = (f', es, Inr account)"
  shows "createTetiAccount account_file_storage env2 i2 f' = (f', [], Inr (json_clone account))"
  using assms by (rule file_account.create_again)

section \<open>The public profile\<close>

text \<open>A sanitized value has only the fields that are written out here.\<close>

lemma small_or_public: "rejectPrivateEnvironmentFields (small_or v d) path = None"
  by (simp add: small_or_def)

lemma small_field_public: "\<forall>(k, x)\<in>set (small_field f v). k = f \<and> (\<forall>path. rejectPrivateEnvironmentFields x path = None)"
  by (auto simp: small_field_def split: option.split)

lemma object_public:
  "\<forall>(k, x)\<in>set kvs. k \<notin> set private_environment_fields \<and> (\<forall>path. rejectPrivateEnvironmentFields x path = None)
    \<Longrightarrow> rejectPrivateEnvironmentFields (JObj kvs) path = None"
  by (auto simp: first_err_None)

lemma array_public: "\<forall>x\<in>set vs. \<forall>path. rejectPrivateEnvironmentFields x path = None \<Longrightarrow> rejectPrivateEnvironmentFields (JArr vs) path = None"
  by (auto simp: first_err_None with_index_def dest: set_zip_rightD)

lemma device_public: "rejectPrivateEnvironmentFields (sanitizeDeviceMetadata arch d) path = None"
proof -
  have f: "(k, x) \<in> set (small_field n v) \<Longrightarrow> k = n \<and> (\<forall>path. rejectPrivateEnvironmentFields x path = None)" for k x n v
    using small_field_public [of n v] by auto
  have hw: "rejectPrivateEnvironmentFields (JObj (small_field ''vendor'' u @ small_field ''model'' v @ [(''architecture'', small_or w a)])) p = None"
    for u v w a p
    by (rule object_public) (auto simp: private_environment_fields_def small_or_public dest!: f)
  show ?thesis unfolding sanitizeDeviceMetadata_def
    by (intro object_public) (auto simp: private_environment_fields_def small_or_public hw simp del: rejectPrivateEnvironmentFields.simps(2)
        intro!: object_public)
qed

lemma location_public: "rejectPrivateEnvironmentFields (sanitizeLocation l) path = None"
proof -
  have f: "(k, x) \<in> set (small_field n v) \<Longrightarrow> k = n \<and> (\<forall>path. rejectPrivateEnvironmentFields x path = None)" for k x n v
    using small_field_public [of n v] by auto
  have "rejectPrivateEnvironmentFields (JObj (small_field ''country'' u @ small_field ''city'' v)) p = None" for u v p
    by (rule object_public) (auto simp: private_environment_fields_def dest!: f)
  then show ?thesis by (simp add: sanitizeLocation_def Let_def del: rejectPrivateEnvironmentFields.simps(2))
qed

text \<open>
  C36: Nothing that the scan of the host found, in whatever shape, makes the public profile carry a private field at any
  depth (host name, user name, addresses, paths, credentials and so on), as long as the time of the scan is a string.
\<close>

theorem public_profile_is_public:
  assumes "is_string (get scan ''timestamp'')"
  shows "rejectPrivateEnvironmentFields (environmentScanToPublicProfile arch release scan) path = None"
proof -
  have strings: "rejectPrivateEnvironmentFields (JArr (small_strings vs)) p = None" for vs p
    by (rule array_public) (auto simp: small_strings_def dest!: in_set_takeD)
  have time: "rejectPrivateEnvironmentFields (get scan ''timestamp'') p = None" for p
    using assms by (cases "get scan ''timestamp''") auto
  show ?thesis
    unfolding environmentScanToPublicProfile_def with_location_def
    by (rule object_public)
      (auto simp: private_environment_fields_def small_or_public device_public location_public strings time
        simp del: rejectPrivateEnvironmentFields.simps(1,2))
qed

section \<open>A sample account\<close>

definition sample_scan :: json where
  "sample_scan = JObj [(''platform'', JStr ''macOS''), (''aiTools'', JArr [JObj [(''name'', JStr ''Codex'')]]),
     (''hostname'', JStr ''secret''), (''timestamp'', JStr ''2026-01-01T00:00:00.000Z'')]"

theorem public_profile_is_public_witness:
  "rejectPrivateEnvironmentFields sample_scan ''environment'' \<noteq> None
    \<and> rejectPrivateEnvironmentFields (environmentScanToPublicProfile ''arm64'' ''24'' sample_scan) ''environment'' = None"
proof -
  have "is_string (get sample_scan ''timestamp'')" by (simp add: sample_scan_def)
  moreover have "rejectPrivateEnvironmentFields sample_scan ''environment'' \<noteq> None" by code_simp
  ultimately show ?thesis using public_profile_is_public by blast
qed

definition sample_identity :: chatmail_identity where
  "sample_identity = \<lparr>ci_account_id = 7, ci_address = ''Ada@relay.example'', ci_display_name = None, ci_public_key = None, ci_fingerprint = None\<rparr>"

definition sample_account_env :: account_env where
  "sample_account_env = \<lparr>am_provisioner = Some (\<lambda>_ _. Inr sample_identity), am_adapter = (\<lambda>_ _ _ _. Inr sample_identity), am_delete = (\<lambda>_. None),
     am_scan = Inr sample_scan, am_arch = ''arm64'', am_release = ''24'', am_platform = ''darwin'', am_suffix = None,
     am_provisional_id = ''teti_abc123def'', am_stage = (\<lambda>_. None), am_now = ''2026-01-01T00:00:00.000Z''\<rparr>"

definition sample_account_input :: account_input where
  "sample_account_input = \<lparr>ai_name = Some ''Ada'', ai_display_name = None, ai_address = None, ai_password = None, ai_qr = None, ai_profile = []\<rparr>"

lemma sample_created: "case createTetiAccount account_file_storage sample_account_env sample_account_input NoFile of
    (f, es, r) \<Rightarrow> es = [IdentityCreated sample_identity] \<and> (case r of Inl e \<Rightarrow> False | Inr a \<Rightarrow> get a ''address'' = JStr ''ada@relay.example'')"
  by code_simp

theorem account_created_once_witness:
  "\<exists>f account. createTetiAccount account_file_storage sample_account_env sample_account_input NoFile = (f, [IdentityCreated sample_identity], Inr account)
    \<and> createTetiAccount account_file_storage (sample_account_env\<lparr>am_provisioner := None\<rparr>) (sample_account_input\<lparr>ai_name := None\<rparr>) f
        = (f, [], Inr (json_clone account))"
proof -
  have good: "good_account_file NoFile" by (simp add: good_account_file_def)
  obtain f account where c: "createTetiAccount account_file_storage sample_account_env sample_account_input NoFile
      = (f, [IdentityCreated sample_identity], Inr account)"
    using sample_created by (auto split: prod.splits sum.splits)
  show ?thesis using c account_created_once [OF good c] by blast
qed

end
