(* ===== verification/Task_Texts.thy ===== *)
theory Task_Texts
  imports Task_Commands Child_Input
begin

text \<open>
  The texts and the small reports of the task service (\<open>lifecycle-sidecar/runtime/tasks/service.ts\<close>): the
  instruction of a stage, cut at the size a Task allows by a binary search (\<open>truncateUtf8\<close>), the text that
  aggregates the results of a delegation plan, the name of the execution of a stage, the status that the
  peer sees, the progress of a running stage, and the authority of an execution. The texts of memory are
  cut by a loop instead (\<open>boundMemoryShadowQueryText\<close> and \<open>boundStructuredTaskMemoryContent\<close> of \<open>Child_Input\<close>).
\<close>

section \<open>Cutting a text\<close>

text \<open>\<open>Array.from\<close> gives one character for each code unit, as none of the model is a surrogate.\<close>

function cut_search :: "string \<Rightarrow> int \<Rightarrow> nat \<Rightarrow> nat \<Rightarrow> nat" where
  "cut_search s limit low high =
     (if low < high
      then let middle = (low + high + 1) div 2 in
        if utf8_size (take middle s) \<le> limit then cut_search s limit middle high else cut_search s limit low (middle - 1)
      else low)"
  by pat_completeness auto
termination
  by (relation "measure (\<lambda>(_, _, low, high). high - low)") auto

definition truncateUtf8 :: "string \<Rightarrow> int \<Rightarrow> string" where
  "truncateUtf8 value maximumBytes =
     (if utf8_size value \<le> maximumBytes then value else take (cut_search value maximumBytes 0 (length value)) value)"

section \<open>Instructions\<close>

abbreviation blank_line :: string where "blank_line \<equiv> [newline, newline]"

definition prior_result :: "json \<times> nat \<Rightarrow> string" where
  "prior_result indexed = (case indexed of (artifact, index) \<Rightarrow>
     ''Intermediate result of stage '' @ string_of_int (int index + 1) @ '':'' @ [newline] @ js_string (taskArtifactText artifact))"

definition prior_results :: "json \<Rightarrow> string" where
  "prior_results r = (let artifacts = items (get r ''artifacts'') in
     join_with blank_line (map prior_result (zip artifacts [0..<length artifacts])))"

definition request_text :: "json \<Rightarrow> string" where
  "request_text r = js_string (taskInputText (get (get r ''request'') ''input''))"

text \<open>The parts of the instruction of a later stage, in the order of the code.\<close>

definition instruction_parts :: "json \<Rightarrow> string \<Rightarrow> string list" where
  "instruction_parts r instruction = filter (\<lambda>s. s \<noteq> [])
     [''Original goal of the long-horizon collaboration:'' @ [newline] @ request_text r,
      if prior_results r = [] then [] else ''Intermediate results kept:'' @ [newline] @ prior_results r,
      ''Additional instruction of this stage:'' @ [newline] @ instruction,
      ''Complete only the current stage; Teti Host decides at the stage boundary whether to continue.'']"

definition boundedStageInstruction :: "json \<Rightarrow> string \<Rightarrow> nat \<Rightarrow> string" where
  "boundedStageInstruction r instruction stageIndex =
     (if stageIndex = 1 then truncateUtf8 instruction max_input_text_bytes
      else truncateUtf8 (join_with blank_line (instruction_parts r instruction)) max_input_text_bytes)"

definition delegationInstruction :: "json \<Rightarrow> json \<Rightarrow> string" where
  "delegationInstruction r step =
     (if get step ''stepIndex'' = jint 1 then request_text r
      else join_lines
        [''Execute step '' @ js_string (get step ''stepIndex'') @ '' of the deterministic delegation plan.'',
         ''Capability of this step: '' @ js_string (get step ''capabilityId'') @ ''.'',
         ''Use the artifacts of the earlier steps as bounded context, but contact no remote Teti and do not delegate again.'',
         ''Return only the result of the current step; Teti Host makes the final summary.''])"

definition step_result :: "json \<times> nat \<Rightarrow> string" where
  "step_result indexed = (case indexed of (artifact, index) \<Rightarrow>
     ''Result of step '' @ string_of_int (int index + 1) @ '':'' @ [newline] @ js_string (taskArtifactText artifact))"

definition aggregateDelegationText :: "json list \<Rightarrow> int \<Rightarrow> string" where
  "aggregateDelegationText artifacts maximumBytes = truncateUtf8 (join_with blank_line
     ((''Teti Host completed '' @ string_of_int (int (length artifacts)) @ '' child Agent steps in the frozen order.'')
      # map step_result (zip artifacts [0..<length artifacts]))) maximumBytes"

text \<open>The \<open>Map\<close> keeps the first image of an identifier, in the order of insertion.\<close>

fun first_images :: "json list \<Rightarrow> json list \<Rightarrow> json list" where
  "first_images seen [] = rev seen"
| "first_images seen (im # ims) =
     first_images (if get im ''attachmentId'' \<in> (\<lambda>x. get x ''attachmentId'') ` set seen then seen else im # seen) ims"

definition uniqueDelegationImages :: "json list \<Rightarrow> json list" where
  "uniqueDelegationImages artifacts = first_images [] (concat (map taskArtifactImages artifacts))"

definition longHorizonExecutionTaskId :: "(string \<Rightarrow> string) \<Rightarrow> string \<Rightarrow> nat \<Rightarrow> string" where
  "longHorizonExecutionTaskId hex taskId stageIndex = ''lh_'' @ take 24 (hex taskId) @ ''_'' @ string_of_int (int stageIndex)"

definition taskImageFileName :: "json \<Rightarrow> string" where
  "taskImageFileName part =
     js_string (get part ''attachmentId'') @ (if get part ''mimeType'' = JStr ''image/png'' then ''.png'' else ''.jpg'')"

section \<open>Reports\<close>

definition peerLongHorizonStatus :: "json \<Rightarrow> json" where
  "peerLongHorizonStatus session =
     (let final = find_first (\<lambda>a. get a ''role'' = JStr ''final'') (items (get session ''artifacts'')); progress = get session ''progress'' in
      JObj ([(''schemaVersion'', jint 1),
        (''phase'', if get session ''phase'' = JStr ''pending_approval'' then JStr ''failed'' else get session ''phase''),
        (''currentStageIndex'', get session ''currentStageIndex''), (''workspaceRevision'', get session ''workspaceRevision''),
        (''completedUnits'', get progress ''completedUnits''), (''totalUnits'', get progress ''totalUnits''),
        (''progressMessage'', get progress ''message''), (''continuationExpiresAt'', get session ''continuationExpiresAt'')]
       @ (if truthy (get session ''inputRequest'') then [(''inputRequestId'', get (get session ''inputRequest'') ''requestId'')] else [])
       @ (case final of None \<Rightarrow> [] | Some a \<Rightarrow> if_truthy ''finalArtifactId'' (get a ''artifactId''))))"

text \<open>The stage of a session with a given execution, changed in place.\<close>

definition runs_as :: "json \<Rightarrow> json \<Rightarrow> bool" where
  "runs_as executionTaskId stage \<longleftrightarrow> get stage ''executionTaskId'' = executionTaskId"

definition stage_of :: "json \<Rightarrow> json \<Rightarrow> json option" where
  "stage_of session executionTaskId = find_first (runs_as executionTaskId) (items (get session ''stages''))"

definition update_stage :: "json \<Rightarrow> (json \<Rightarrow> json) \<Rightarrow> json \<Rightarrow> json" where
  "update_stage executionTaskId f session =
     put session ''stages'' (JArr (update_first (runs_as executionTaskId) f (items (get session ''stages''))))"

definition progress_news :: "json \<Rightarrow> json \<Rightarrow> bool" where
  "progress_news previous next \<longleftrightarrow>
     list_ex (\<lambda>k. get previous k \<noteq> get next k) [''state'', ''completedUnits'', ''totalUnits'', ''message'']"

text \<open>\<open>None\<close> when nothing changed; an error when the audit is full, after the record was changed in memory.\<close>

definition updateLongHorizonProgress :: "string \<Rightarrow> int \<Rightarrow> json \<Rightarrow> json \<Rightarrow> json option result" where
  "updateLongHorizonProgress eventId now r handle =
     (let session = get r ''longHorizon''; i = get handle ''taskId''; next = put (get handle ''progress'') ''updatedAt'' (iso now) in
      case (if truthy session then stage_of session i else None) of
        None \<Rightarrow> Inr None
      | Some stage \<Rightarrow>
          if get stage ''state'' \<noteq> JStr ''working'' \<or> \<not> progress_news (get stage ''progress'') (get handle ''progress'') then Inr None
          else rbind (appendLongHorizonAudit eventId
              (put (update_stage i (\<lambda>stage. spread stage [(''progress'', next), (''updatedAt'', iso now)]) session) ''progress'' next)
              [(''action'', JStr ''progress_updated''), (''actor'', JStr ''child_agent''), (''stageIndex'', get stage ''stageIndex''),
               (''childAgentId'', get stage ''childAgentId''), (''workspaceRevision'', get stage ''workspaceRevision'')] (iso now))
            (\<lambda>session'. Inr (Some (put (bump_status (put r ''longHorizon'' session')) ''updatedAt'' (iso now)))))"

section \<open>Authorities\<close>

definition grant_options :: "json \<Rightarrow> jsnum \<Rightarrow> string option \<Rightarrow> issue_options" where
  "grant_options grant epoch deadline =
     \<lparr>io_fresh = [], io_now = 0, io_authority_id = Some (str_of (get grant ''grantId'')),
      io_issued_at = Some (str_of (get grant ''issuedAt'')), io_expires_at = Some (str_of (get grant ''expiresAt'')),
      io_deadline_at = deadline, io_ttl_ms = None, io_workspace_id = Some (str_of (get grant ''workspaceId'')),
      io_workspace_revision = (case get grant ''workspaceRevision'' of JNum n \<Rightarrow> Some n | _ \<Rightarrow> None),
      io_workspace_access = Some (get grant ''workspaceAccess''), io_epoch = Some epoch\<rparr>"

text \<open>
  \<open>createExecutionAuthority\<close>; the identifier and the instants of the grant are given. Without a deadline
  \<open>issueExecutionAuthority\<close> counts one from its own clock, which is the argument \<open>now\<close>.
\<close>

definition createExecutionAuthority ::
  "(string \<Rightarrow> string) \<Rightarrow> int \<Rightarrow> json \<Rightarrow> adapter_request \<Rightarrow> json \<Rightarrow> jsnum \<Rightarrow> string option \<Rightarrow> execution_authority result" where
  "createExecutionAuthority hex now grant request target epoch deadline =
     (if JStr (ar_adapter_id request) \<noteq> get target ''connectorId'' \<or> JStr (ar_agent_id request) \<noteq> get target ''childAgentId''
         \<or> JStr (ar_capability_id request) \<noteq> get target ''capabilityId''
      then Inl (runtime_error ''TASK_EXECUTION_TARGET_INVALID'' ''Execution target changed after approval.'')
      else Inr (issueExecutionAuthority hex request ((grant_options grant epoch deadline)\<lparr>io_now := now\<rparr>)))"

end
