(* ===== verification/Task_Stages.thy ===== *)
theory Task_Stages
  imports Task_Texts
begin

text \<open>
  How the task service starts an execution (\<open>lifecycle-sidecar/runtime/tasks/service.ts\<close>): the approval of a
  task, the approval of a delegation plan and its steps, the stages of a long-horizon collaboration and
  their continuation, and the restart from a checkpoint. \<open>startLongHorizonStage\<close> changes the loaded records
  in place and may then throw; a caller that catches the error goes on with the changed records. Its
  answer \<open>stage_result\<close> therefore carries the records in memory: \<open>Refused\<close> when nothing was saved,
  \<open>LeaseOver\<close> when the expired record was saved before the error, \<open>Started\<close> with what the executor gets.
\<close>

section \<open>The world of an execution\<close>

text \<open>
  Besides what an approval reads: \<open>listTargets\<close> and \<open>resolveDelegationTarget\<close> of the executor where it has
  them, the path of an image of a task, the memory a stage may use (\<open>None\<close> without a memory store; the inner
  \<open>None\<close> when the store fails), and the hexadecimal SHA-256 digest.
\<close>

record stage_env =
  sg_ap :: approval_env
  sg_list :: "(json \<Rightarrow> json \<Rightarrow> string list \<Rightarrow> json list) option"
  sg_delegate :: "(json \<Rightarrow> json option) option"
  sg_path :: "json \<Rightarrow> json \<Rightarrow> string"
  sg_memory :: "(json \<Rightarrow> (bool \<times> structured_record list) option) option"
  sg_hex :: "string \<Rightarrow> string"

text \<open>What the executor is asked to run; the authority is an error when \<open>createExecutionAuthority\<close> throws.\<close>

record launch =
  ln_request :: adapter_request
  ln_grant :: json
  ln_authority :: "execution_authority result"
  ln_epoch :: json

datatype stage_result = Refused task_store error | LeaseOver task_store error | Started task_store launch

definition callable_targets :: "stage_env \<Rightarrow> json \<Rightarrow> string list \<Rightarrow> json list" where
  "callable_targets env r modes =
     (let offer = get (get r ''request'') ''offerId''; capability = get (get r ''request'') ''capabilityId'' in
      if \<not> ap_executor (sg_ap env) then []
      else case sg_list env of
        Some targets \<Rightarrow> targets offer capability modes
      | None \<Rightarrow> (case ap_target (sg_ap env) offer capability modes of None \<Rightarrow> [] | Some target \<Rightarrow> [target]))"

definition target_ids :: "json \<Rightarrow> json" where
  "target_ids target = JObj [(''childAgentId'', get target ''childAgentId''), (''connectorId'', get target ''connectorId'')]"

definition same_target :: "json \<Rightarrow> json \<Rightarrow> bool" where
  "same_target a b \<longleftrightarrow> get a ''childAgentId'' = get b ''childAgentId'' \<and> get a ''connectorId'' = get b ''connectorId''"

definition refreshed_targets :: "stage_env \<Rightarrow> json \<Rightarrow> json" where
  "refreshed_targets env r = JArr (map target_ids (callable_targets env r (input_modes r)))"

definition targets_stale :: "stage_env \<Rightarrow> json \<Rightarrow> bool" where
  "targets_stale env r \<longleftrightarrow> truthy (get r ''longHorizon'') \<and> incoming r \<and> \<not> isTerminalTaskState (get r ''state'')
     \<and> stringify (refreshed_targets env r) \<noteq> stringify (get (get r ''longHorizon'') ''availableChildAgents'')"

definition refresh_record :: "stage_env \<Rightarrow> int \<Rightarrow> json \<Rightarrow> json" where
  "refresh_record env now r =
     (if targets_stale env r
      then put r ''longHorizon'' (spread (get r ''longHorizon'') [(''availableChildAgents'', refreshed_targets env r), (''updatedAt'', iso now)])
      else r)"

definition refreshLongHorizonTargets :: "stage_env \<Rightarrow> int \<Rightarrow> task_store \<Rightarrow> task_store \<times> bool" where
  "refreshLongHorizonTargets env now s =
     (s\<lparr>ts_records := map (refresh_record env now) (ts_records s)\<rparr>, list_ex (targets_stale env) (ts_records s))"

definition image_input_of :: "stage_env \<Rightarrow> json \<Rightarrow> json \<Rightarrow> image_input" where
  "image_input_of env taskId part = \<lparr>im_attachment_id = str_of (get part ''attachmentId''), im_mime_type = str_of (get part ''mimeType''),
     im_path = sg_path env taskId part\<rparr>"

definition resolveInputImages :: "stage_env \<Rightarrow> json \<Rightarrow> image_input list result" where
  "resolveInputImages env r =
     (if images_available (ap_attachments (sg_ap env)) r
      then Inr (map (image_input_of env (get (get r ''request'') ''taskId'')) (taskInputImages (get (get r ''request'') ''input'')))
      else Inl (images_pending ''Task images are unavailable.''))"

definition task_execution :: "json \<Rightarrow> string \<Rightarrow> string \<Rightarrow> image_input list \<Rightarrow> int \<Rightarrow> adapter_request" where
  "task_execution target taskId instruction images now =
     \<lparr>ar_schema_version = 2, ar_task_id = taskId, ar_adapter_id = str_of (get target ''connectorId''),
      ar_agent_id = str_of (get target ''childAgentId''), ar_capability_id = str_of (get target ''capabilityId''),
      ar_input_kind = (if images = [] then ''text'' else ''parts''), ar_input_text = instruction,
      ar_input_images = Some images, ar_created_at = to_iso now\<rparr>"

definition execution_json :: "adapter_request \<Rightarrow> json" where
  "execution_json e = JObj [(''taskId'', JStr (ar_task_id e)), (''capabilityId'', JStr (ar_capability_id e)),
     (''input'', JObj [(''kind'', JStr (ar_input_kind e)), (''text'', JStr (ar_input_text e)),
        (''images'', JArr (map image_json (request_images e)))])]"

definition epoch_num :: "json \<Rightarrow> jsnum" where
  "epoch_num epoch = (case epoch of JNum n \<Rightarrow> n | _ \<Rightarrow> NInt 1)"

definition launch_of :: "stage_env \<Rightarrow> int \<Rightarrow> json \<Rightarrow> json \<Rightarrow> adapter_request \<Rightarrow> json \<Rightarrow> string option \<Rightarrow> launch" where
  "launch_of env now target grant execution epoch deadline =
     \<lparr>ln_request = execution, ln_grant = grant,
      ln_authority = createExecutionAuthority (sg_hex env) now grant execution target (epoch_num epoch) deadline,
      ln_epoch = epoch\<rparr>"

section \<open>The stages of a collaboration\<close>

text \<open>A step of the plan is named by its position in the list of steps.\<close>

definition plan_step :: "json \<Rightarrow> nat \<Rightarrow> json" where
  "plan_step r k = items (get (get r ''delegationPlan'') ''steps'') ! k"

definition put_step :: "nat \<Rightarrow> (string \<times> json) list \<Rightarrow> json \<Rightarrow> json" where
  "put_step k changes plan = put plan ''steps'' (JArr ((items (get plan ''steps''))[k := spread (items (get plan ''steps'') ! k) changes]))"

definition delegation_target_matches :: "json \<Rightarrow> json \<Rightarrow> nat \<Rightarrow> json \<Rightarrow> bool" where
  "delegation_target_matches r step stageIndex target \<longleftrightarrow> truthy (get r ''delegationPlan'')
     \<and> get step ''stepIndex'' = jint (int stageIndex) \<and> same_target step target
     \<and> get step ''capabilityId'' = get target ''capabilityId''"

text \<open>The memory a stage uses: nothing for a step of a plan or when the store fails.\<close>

definition stage_memory :: "stage_env \<Rightarrow> nat option \<Rightarrow> json \<Rightarrow> bool \<times> structured_record list" where
  "stage_memory env step query = (if step \<noteq> None then (False, [])
     else case sg_memory env of None \<Rightarrow> (False, []) | Some create \<Rightarrow> given_or (create query) (False, []))"

definition memory_query :: "json \<Rightarrow> string \<Rightarrow> json \<Rightarrow> json \<Rightarrow> string \<Rightarrow> json \<Rightarrow> json" where
  "memory_query r executionTaskId epoch target instruction generatedAt = JObj
     [(''schemaVersion'', jint 1), (''executionId'', JStr (executionTaskId @ '':epoch:'' @ js_string epoch)),
      (''taskId'', get (get r ''request'') ''taskId''), (''peerTetiId'', get r ''peerTetiId''),
      (''workspaceId'', get (get r ''workspaceBinding'') ''workspaceId''), (''childAgentId'', get target ''childAgentId''),
      (''queryText'', JStr (boundMemoryShadowQueryText instruction)), (''generatedAt'', generatedAt)]"

text \<open>The step of the plan starts; the append fails when the audit of the plan is full.\<close>

definition begin_step :: "nat \<Rightarrow> string \<Rightarrow> json \<Rightarrow> json \<Rightarrow> json" where
  "begin_step k executionTaskId timestamp plan =
     spread (put_step k [(''state'', JStr ''working''), (''executionTaskId'', JStr executionTaskId), (''startedAt'', timestamp)] plan)
       [(''phase'', JStr ''working''), (''currentStepIndex'', get (items (get plan ''steps'') ! k) ''stepIndex''), (''updatedAt'', timestamp)]"

definition snapshot_mutation :: "json \<Rightarrow> json \<Rightarrow> json" where
  "snapshot_mutation target binding = JStr
     (if get target ''workspacePolicy'' = JStr ''snapshot''
         \<and> \<not> starts_with ''workspace:none.'' (js_string (get binding ''workspaceId''))
         \<and> list_ex (one_of [''write'', ''create_artifact'']) (items (get binding ''access''))
      then ''snapshot_commit'' else ''none'')"

definition running_progress :: "nat \<Rightarrow> json \<Rightarrow> json" where
  "running_progress stageIndex timestamp = task_progress ''running'' (jint (int stageIndex - 1)) (jint maximum_stages)
     (''Stage '' @ string_of_int (int stageIndex) @ '' is running'') timestamp"

definition stage_entry :: "(string \<Rightarrow> json) \<Rightarrow> nat \<Rightarrow> string \<Rightarrow> json \<Rightarrow> json \<Rightarrow> json \<Rightarrow> string \<Rightarrow> json \<Rightarrow> json" where
  "stage_entry digest stageIndex executionTaskId target binding inputId instruction timestamp = JObj
     [(''stageId'', JStr (''stage:'' @ string_of_int (int stageIndex))), (''stageIndex'', jint (int stageIndex)),
      (''executionTaskId'', JStr executionTaskId), (''childAgentId'', get target ''childAgentId''),
      (''connectorId'', get target ''connectorId''), (''state'', JStr ''working''),
      (''workspaceRevision'', get binding ''workspaceRevision''), (''workspaceMutation'', snapshot_mutation target binding),
      (''inputId'', inputId), (''instructionDigest'', digest instruction), (''progress'', running_progress stageIndex timestamp),
      (''artifactIds'', JArr []), (''checkpointAvailable'', JBool False), (''startedAt'', timestamp), (''updatedAt'', timestamp)]"

definition begin_stage :: "nat \<Rightarrow> json \<Rightarrow> json \<Rightarrow> json \<Rightarrow> json \<Rightarrow> json" where
  "begin_stage stageIndex entry binding timestamp session =
     spread session [(''currentStageIndex'', jint (int stageIndex)), (''workspaceRevision'', get binding ''workspaceRevision''),
       (''phase'', JStr ''working''), (''pauseRequested'', JBool False), (''pendingInput'', JNull), (''inputRequest'', JNull),
       (''progress'', running_progress stageIndex timestamp), (''stages'', JArr (items (get session ''stages'') @ [entry]))]"

text \<open>Events are appended until the audit is full: the session so far, and the error.\<close>

fun append_events :: "(nat \<Rightarrow> string) \<Rightarrow> nat \<Rightarrow> json \<Rightarrow> json \<Rightarrow> (string \<times> json) list list \<Rightarrow> json \<times> error option" where
  "append_events uuid n timestamp session [] = (session, None)"
| "append_events uuid n timestamp session (e # es) =
     (case appendLongHorizonAudit (uuid n) session e timestamp of
        Inl err \<Rightarrow> (session, Some err)
      | Inr session' \<Rightarrow> append_events uuid (Suc n) timestamp session' es)"

definition stage_event :: "string \<Rightarrow> string \<Rightarrow> nat \<Rightarrow> json \<Rightarrow> json \<Rightarrow> (string \<times> json) list" where
  "stage_event action actor stageIndex target binding =
     [(''action'', JStr action), (''actor'', JStr actor), (''stageIndex'', jint (int stageIndex)),
      (''childAgentId'', get target ''childAgentId''), (''workspaceRevision'', get binding ''workspaceRevision'')]"

definition last_child :: "json list \<Rightarrow> json" where
  "last_child stages = (if stages = [] then JUndef else get (last stages) ''childAgentId'')"

definition stage_events :: "nat \<Rightarrow> json list \<Rightarrow> json \<Rightarrow> json \<Rightarrow> (string \<times> json) list list" where
  "stage_events stageIndex previous target binding =
     (if stageIndex = 1 \<or> last_child previous \<noteq> get target ''childAgentId''
      then [stage_event ''child_selected'' ''local_user'' stageIndex target binding] else [])
     @ (if 1 < stageIndex then [stage_event ''resumed'' ''local_user'' stageIndex target binding] else [])
     @ [stage_event ''stage_started'' ''host'' stageIndex target binding]"

definition stage_running :: "nat \<Rightarrow> json \<Rightarrow> json \<Rightarrow> json" where
  "stage_running stageIndex timestamp r =
     markTaskAttention (del (put (bump_status (spread r [(''state'', JStr ''working''), (''approval'', JStr ''consumed'')]))
         ''updatedAt'' timestamp) [''safeErrorCode''])
       ((change (if 1 < stageIndex then ''resumed'' else ''stage_started''))\<lparr>ac_stage := jint (int stageIndex)\<rparr>)"

text \<open>The request of the user, the target with its images, and the step of a plan when there is one.\<close>

record stage_request =
  sq_target :: json
  sq_images :: "image_input list"
  sq_instruction :: string
  sq_input_id :: json
  sq_step :: "nat option"

definition stage_deadline :: "int \<Rightarrow> json \<Rightarrow> json option \<Rightarrow> json" where
  "stage_deadline now session step = (case step of
       None \<Rightarrow> get session ''continuationExpiresAt''
     | Some step \<Rightarrow> iso (min (time_of (get session ''continuationExpiresAt'')) (now + int_of (get (get step ''budget'') ''timeoutMs''))))"

definition stage_access :: "json \<Rightarrow> json option \<Rightarrow> json" where
  "stage_access binding step = (case step of None \<Rightarrow> get binding ''access'' | Some step \<Rightarrow> or_else (get step ''workspaceAccess'') (get binding ''access''))"

definition stage_launch :: "stage_env \<Rightarrow> string \<Rightarrow> int \<Rightarrow> json \<Rightarrow> json \<Rightarrow> adapter_request \<Rightarrow> json \<Rightarrow> json option \<Rightarrow> launch" where
  "stage_launch env grantId now r target execution epoch step =
     (let binding = get r ''workspaceBinding'' in
      launch_of env now target
        (createExecutionGrant (ap_digest (sg_ap env)) grantId now (get r ''request'') target binding (Some (execution_json execution)) (stage_access binding step))
        execution epoch (Some (str_of (stage_deadline now (get r ''longHorizon'') step))))"

text \<open>The part after the checks: the records in memory, with the error that stops it.\<close>

definition begin_plan :: "string \<Rightarrow> string \<Rightarrow> json \<Rightarrow> nat option \<Rightarrow> json \<Rightarrow> json \<times> error option" where
  "begin_plan eventId executionTaskId timestamp step r = (case step of
       None \<Rightarrow> (r, None)
     | Some k \<Rightarrow> (let plan = begin_step k executionTaskId timestamp (get r ''delegationPlan'') in
         case appendDelegationAudit eventId plan
             [(''action'', JStr ''step_started''), (''actor'', JStr ''host''), (''stepId'', get (plan_step r k) ''stepId'')] timestamp of
           Inl e \<Rightarrow> (put r ''delegationPlan'' plan, Some e)
         | Inr plan' \<Rightarrow> (put r ''delegationPlan'' plan', None)))"

definition run_stage :: "stage_env \<Rightarrow> (nat \<Rightarrow> string) \<Rightarrow> int \<Rightarrow> nat \<Rightarrow> stage_request \<Rightarrow> string \<Rightarrow> json \<Rightarrow> task_store \<Rightarrow> stage_result" where
  "run_stage env uuid now i q instruction epoch s =
     (let r = ts_records s ! i; session = get r ''longHorizon''; binding = get r ''workspaceBinding''; target = sq_target q;
          stageIndex = length (items (get session ''stages'')) + 1;
          executionTaskId = longHorizonExecutionTaskId (sg_hex env) (js_string (get (get r ''request'') ''taskId'')) stageIndex;
          (has_manifest, memory) = stage_memory env (sq_step q) (memory_query r executionTaskId epoch target instruction (iso now));
          execution = task_execution target executionTaskId
            (if has_manifest then formatStructuredMemoryContextInput True memory instruction else instruction) (sq_images q) now
      in case begin_plan (uuid 0) executionTaskId (iso now) (sq_step q) r of
           (r1, Some e) \<Rightarrow> Refused (set_record i r1 s) e
         | (r1, None) \<Rightarrow>
             (case append_events uuid 1 (iso now)
                 (begin_stage stageIndex (stage_entry (ap_digest (sg_ap env)) stageIndex executionTaskId target binding (sq_input_id q)
                    (sq_instruction q) (iso now)) binding (iso now) session)
                 (stage_events stageIndex (items (get session ''stages'')) target binding) of
                (session', Some e) \<Rightarrow> Refused (set_record i (put r1 ''longHorizon'' session') s) e
              | (session', None) \<Rightarrow>
                  (let r2 = stage_running stageIndex (iso now) (put r1 ''longHorizon'' session') in
                   Started (set_record i r2 s)
                     (stage_launch env (uuid 4) now r2 target execution epoch (map_option (plan_step r2) (sq_step q))))))"

definition stage_unavailable :: error where
  "stage_unavailable = runtime_error ''TASK_STAGE_UNAVAILABLE'' ''Long-horizon stage execution is unavailable.''"

definition stage_target_known :: "json \<Rightarrow> stage_request \<Rightarrow> bool" where
  "stage_target_known r q \<longleftrightarrow>
     (case sq_step q of None \<Rightarrow> False | Some k \<Rightarrow>
        delegation_target_matches r (plan_step r k) (length (items (get (get r ''longHorizon'') ''stages'')) + 1) (sq_target q))
     \<or> list_ex (same_target (sq_target q)) (items (get (get r ''longHorizon'') ''availableChildAgents''))"

definition startLongHorizonStage :: "stage_env \<Rightarrow> (nat \<Rightarrow> string) \<Rightarrow> int \<Rightarrow> nat \<Rightarrow> stage_request \<Rightarrow> task_store \<Rightarrow> stage_result" where
  "startLongHorizonStage env uuid now i q s =
     (let r = ts_records s ! i; session = get r ''longHorizon''; binding = get r ''workspaceBinding'' in
      if \<not> truthy session \<or> \<not> truthy binding \<or> \<not> ap_executor (sg_ap env) \<or> ap_prepare (sg_ap env) = None then Refused s stage_unavailable
      else if due_by (get session ''continuationExpiresAt'') now
      then (case expireRecord uuid r (iso now) of
          Inl e \<Rightarrow> Refused s e
        | Inr r' \<Rightarrow> LeaseOver (set_record i r' s)
            (runtime_error ''TASK_EXPIRED'' ''The collaboration continuation lease has expired.''))
      else if maximum_stages \<le> len (items (get session ''stages''))
      then Refused s (runtime_error ''TASK_STAGE_LIMIT'' ''The collaboration reached its bounded stage limit.'')
      else (let s1 = fst (refreshLongHorizonTargets env now s); r1 = ts_records s1 ! i;
                stageIndex = length (items (get session ''stages'')) + 1;
                instruction = boundedStageInstruction r1 (sq_instruction q) stageIndex in
        if \<not> stage_target_known r1 q
        then Refused s1 (runtime_error ''TASK_CHILD_UNAVAILABLE'' ''The selected Child Agent is unavailable.'')
        else case prepared (sg_ap env) (task_prepare_input
            (JStr (longHorizonExecutionTaskId (sg_hex env) (js_string (get (get r1 ''request'') ''taskId'')) stageIndex))
            binding (sq_target q) False) of
          Inl e \<Rightarrow> Refused s1 e
        | Inr handle \<Rightarrow> run_stage env uuid now i q instruction (get handle ''executionEpoch'') s1))"

definition stage_outcome :: "nat \<Rightarrow> stage_result \<Rightarrow> (json \<times> launch) outcome" where
  "stage_outcome i a = (case a of
       Refused s e \<Rightarrow> fails e
     | LeaseOver s e \<Rightarrow> saves_fails s e
     | Started s l \<Rightarrow> (case ln_authority l of Inl e \<Rightarrow> saves_fails s e | Inr authority \<Rightarrow> saves s (ts_records s ! i, l)))"

end
