(* ===== verification/Task_Approval.thy ===== *)
theory Task_Approval
  imports Task_Stages
begin

text \<open>
  The operations of the task service that start an execution (\<open>lifecycle-sidecar/runtime/tasks/service.ts\<close>):
  \<open>approve\<close>, \<open>approveDelegation\<close> with the steps of the plan, \<open>continueLongHorizon\<close> and \<open>resume\<close>, each with the
  \<open>launch\<close> the executor gets.
\<close>

section \<open>Approval\<close>

definition single_launch :: "stage_env \<Rightarrow> int \<Rightarrow> json \<Rightarrow> json \<Rightarrow> json \<Rightarrow> image_input list \<Rightarrow> json \<Rightarrow> launch" where
  "single_launch env now r target grant images handle =
     launch_of env now target grant
       (task_execution target (js_string (get (get r ''request'') ''taskId'')) (request_text r) images now)
       (or_else (get handle ''executionEpoch'') (jint 1)) None"

definition approve_single_stage :: "stage_env \<Rightarrow> string \<Rightarrow> int \<Rightarrow> nat \<Rightarrow> json \<Rightarrow> json \<Rightarrow> json \<Rightarrow> image_input list \<Rightarrow> task_store
    \<Rightarrow> (json \<times> launch) outcome" where
  "approve_single_stage env grantId now i r target binding images s =
     after (prepared (sg_ap env) (task_prepare_input (get (get r ''request'') ''taskId'') binding target False)) (\<lambda>handle.
     after (approve_single (sg_ap env) grantId now r target binding) (\<lambda>(r', grant).
       stage_outcome i (Started (set_record i r' s) (single_launch env now r' target grant images handle))))"

definition first_stage :: "json \<Rightarrow> image_input list \<Rightarrow> json \<Rightarrow> stage_request" where
  "first_stage target images r =
     \<lparr>sq_target = target, sq_images = images, sq_instruction = request_text r, sq_input_id = JNull, sq_step = None\<rparr>"

definition approve :: "stage_env \<Rightarrow> (nat \<Rightarrow> string) \<Rightarrow> int \<Rightarrow> string option \<Rightarrow> string \<Rightarrow> task_store \<Rightarrow> (json \<times> launch) outcome" where
  "approve env uuid now account taskId s =
     after (requireMutableIncomingTask uuid (ts_records s) taskId now) (\<lambda>(i, r).
     after (approval_target (sg_ap env) now r) (\<lambda>target.
     after (resolveInputImages env r) (\<lambda>images.
     with_account account (\<lambda>me.
     after (resolveWorkspaceBinding (ap_workspace (sg_ap env)) now (get r ''request'') me) (\<lambda>binding.
       if truthy (get r ''longHorizon'')
       then stage_outcome i (startLongHorizonStage env uuid now i (first_stage target images r)
              (set_record i (bound_record (sg_ap env) now r binding) s))
       else approve_single_stage env (uuid 0) now i r target binding images s)))))"

section \<open>Delegation\<close>

definition delegation_mode_required :: error where
  "delegation_mode_required = runtime_error ''TASK_DELEGATION_MODE_REQUIRED'' ''Deterministic delegation requires a long-horizon Task.''"

definition delegation_mode :: "json \<Rightarrow> bool" where
  "delegation_mode r \<longleftrightarrow> long_horizon_task r \<and> truthy (get r ''longHorizon'')"

text \<open>\<open>listed\<close> is \<open>listDelegationTargets\<close> of the executor, when it has one.\<close>

definition listDelegationTargets :: "(nat \<Rightarrow> string) \<Rightarrow> int \<Rightarrow> json list option \<Rightarrow> string \<Rightarrow> task_store \<Rightarrow> json list outcome" where
  "listDelegationTargets uuid now listed taskId s =
     after (requireMutableIncomingTask uuid (ts_records s) taskId now) (\<lambda>(i, r).
       if \<not> delegation_mode r then fails delegation_mode_required
       else case listed of
         None \<Rightarrow> fails (runtime_error ''TASK_DELEGATION_UNAVAILABLE'' ''Delegation target discovery is unavailable.'')
       | Some targets \<Rightarrow> returns (filter (\<lambda>t. JStr ''text'' \<in> set (items (get t ''inputModes''))
           \<and> (JStr ''text'' \<in> set (items (get t ''outputModes'')) \<or> JStr ''image'' \<in> set (items (get t ''outputModes'')))) targets))"

definition delegation_checks :: "stage_env \<Rightarrow> int \<Rightarrow> json \<Rightarrow> json \<Rightarrow> error option list" where
  "delegation_checks env now r selections =
     [ap_authorize (sg_ap env) (get r ''peerTetiId''),
      throw_if (\<not> delegation_mode r) delegation_mode_required,
      throw_if (truthy (get r ''delegationPlan''))
        (runtime_error ''TASK_DELEGATION_EXISTS'' ''This Task already has a frozen Delegation Plan.''),
      throw_if (\<not> is_array selections \<or> length (items selections) < 1 \<or> maximum_child_steps < length (items selections))
        (runtime_error ''TASK_DELEGATION_STEP_LIMIT'' ''Select one to four Child Agent steps.''),
      throw_if (\<not> ap_executor (sg_ap env) \<or> sg_delegate env = None \<or> ap_prepare (sg_ap env) = None)
        (runtime_error ''TASK_DELEGATION_UNAVAILABLE'' ''Delegation execution is unavailable.''),
      throw_if (\<not> snd (areInputAttachmentsReady (ap_attachments (sg_ap env)) now r))
        (images_pending ''Task images have not finished downloading.'')]"

definition resolved_delegation :: "stage_env \<Rightarrow> json \<Rightarrow> json option" where
  "resolved_delegation env selection =
     (case sg_delegate env of Some resolve \<Rightarrow> if ap_executor (sg_ap env) then resolve selection else None | None \<Rightarrow> None)"

fun delegation_targets :: "stage_env \<Rightarrow> json list \<Rightarrow> json list result" where
  "delegation_targets env [] = Inr []"
| "delegation_targets env (selection # selections) =
     (let invalid = runtime_error ''TASK_DELEGATION_TARGET_INVALID''
        ''A selected Child Agent target is unavailable or does not accept text.'' in
      case resolved_delegation env selection of
        None \<Rightarrow> Inl invalid
      | Some target \<Rightarrow>
          if JStr ''text'' \<notin> set (items (get target ''inputModes'')) then Inl invalid
          else rbind (delegation_targets env selections) (\<lambda>targets. Inr (target # targets)))"

definition policy_of_target :: "json \<Rightarrow> workspace_policy" where
  "policy_of_target target = (if get target ''workspacePolicy'' = JStr ''snapshot'' then SnapshotPolicy
     else if get target ''workspacePolicy'' = JStr ''bounded_context'' then BoundedContext else NoWorkspace)"

definition delegation_target_of :: "json \<Rightarrow> delegation_target" where
  "delegation_target_of target =
     \<lparr>dt_child_agent_id = str_of (get target ''childAgentId''), dt_connector_id = str_of (get target ''connectorId''),
      dt_capability_id = str_of (get target ''capabilityId''), dt_resource_binding_id = str_of (get target ''resourceBindingId''),
      dt_workspace_policy = policy_of_target target, dt_timeout_ms = int_of (get target ''timeoutMs''),
      dt_max_output_bytes = int_of (get target ''maxOutputBytes'')\<rparr>"

definition access_of :: "json \<Rightarrow> workspace_access list" where
  "access_of v = concat (map (\<lambda>a. if a = JStr ''read'' then [Read] else if a = JStr ''write'' then [Write]
     else if a = JStr ''create_artifact'' then [CreateArtifact] else []) (items v))"

definition delegation_plan_input :: "json \<Rightarrow> json \<Rightarrow> json list \<Rightarrow> plan_input" where
  "delegation_plan_input r binding targets =
     \<lparr>pl_task_id = js_string (get (get r ''request'') ''taskId''), pl_workspace_revision = int_of (get binding ''workspaceRevision''),
      pl_workspace_access = access_of (get binding ''access''), pl_targets = map delegation_target_of targets\<rparr>"

text \<open>The plan with the event of its approval.\<close>

definition approved_plan :: "(nat \<Rightarrow> string) \<Rightarrow> int \<Rightarrow> json \<Rightarrow> json \<Rightarrow> json list \<Rightarrow> json result" where
  "approved_plan uuid now r binding targets =
     rbind (createDeterministicDelegationPlan (delegation_plan_input r binding targets) now (uuid 0) (uuid 1)) (\<lambda>plan.
     rbind (appendDelegationAudit (uuid 2) plan
        [(''action'', JStr ''plan_approved''), (''actor'', JStr ''local_user''), (''stepId'', JNull)] (iso now)) (\<lambda>plan'.
     guarded (validateDelegationPlanState plan') (Inr plan')))"

definition target_changed :: error where
  "target_changed = runtime_error ''TASK_DELEGATION_TARGET_CHANGED''
     ''A frozen Delegation target or its authority changed before execution.''"

definition step_selection :: "json \<Rightarrow> json" where
  "step_selection step = JObj [(''childAgentId'', get step ''childAgentId''), (''connectorId'', get step ''connectorId''),
     (''capabilityId'', get step ''capabilityId'')]"

definition frozen_target_holds :: "json \<Rightarrow> json \<Rightarrow> json \<Rightarrow> bool" where
  "frozen_target_holds step binding target \<longleftrightarrow>
     get target ''resourceBindingId'' = get step ''resourceBindingId''
     \<and> int_of (get (get step ''budget'') ''timeoutMs'') \<le> int_of (get target ''timeoutMs'')
     \<and> int_of (get (get step ''budget'') ''maxOutputBytes'') \<le> int_of (get target ''maxOutputBytes'')
     \<and> isWorkspaceAccessSubset (map str_of (items (get step ''workspaceAccess''))) (map str_of (items (get binding ''access'')))"

definition step_request :: "json \<Rightarrow> json \<Rightarrow> image_input list \<Rightarrow> json \<Rightarrow> nat \<Rightarrow> stage_request" where
  "step_request r target images step k =
     \<lparr>sq_target = target, sq_images = images, sq_instruction = delegationInstruction r step, sq_input_id = JNull, sq_step = Some k\<rparr>"

definition startDelegationStep :: "stage_env \<Rightarrow> (nat \<Rightarrow> string) \<Rightarrow> int \<Rightarrow> nat \<Rightarrow> nat \<Rightarrow> task_store \<Rightarrow> stage_result" where
  "startDelegationStep env uuid now i k s =
     (let r = ts_records s ! i; plan = get r ''delegationPlan''; binding = get r ''workspaceBinding''; step = plan_step r k in
      case resolved_delegation env (step_selection step) of
        None \<Rightarrow> Refused s target_changed
      | Some target \<Rightarrow>
          if \<not> truthy plan \<or> \<not> truthy binding \<or> \<not> frozen_target_holds step binding target then Refused s target_changed
          else (case (if JStr ''image'' \<in> set (items (get target ''inputModes'')) then resolveInputImages env r else Inr []) of
              Inl e \<Rightarrow> Refused s e
            | Inr images \<Rightarrow>
                (let r1 = put r ''delegationPlan'' (put_step k [(''workspaceRevision'', get binding ''workspaceRevision'')] plan) in
                 startLongHorizonStage env uuid now i (step_request r1 target images (plan_step r1 k) k) (set_record i r1 s))))"

definition delegation_invalid :: error where
  "delegation_invalid = runtime_error ''TASK_DELEGATION_INVALID'' ''Delegation Plan has no executable Child step.''"

definition approveDelegation ::
  "stage_env \<Rightarrow> (nat \<Rightarrow> string) \<Rightarrow> int \<Rightarrow> string option \<Rightarrow> string \<Rightarrow> json \<Rightarrow> task_store \<Rightarrow> (json \<times> launch) outcome" where
  "approveDelegation env uuid now account taskId selections s =
     after (requireMutableIncomingTask uuid (ts_records s) taskId now) (\<lambda>(i, r).
     check (first_err (delegation_checks env now r selections))
     (after (delegation_targets env (items selections)) (\<lambda>targets.
      with_account account (\<lambda>me.
      after (resolveWorkspaceBinding (ap_workspace (sg_ap env)) now (get r ''request'') me) (\<lambda>binding.
      after (approved_plan uuid now r binding targets) (\<lambda>plan.
       let r' = put (bound_record (sg_ap env) now r binding) ''delegationPlan'' plan in
       if get (plan_step r' 0) ''kind'' \<noteq> JStr ''child_execution'' then fails delegation_invalid
       else stage_outcome i (startDelegationStep env (\<lambda>n. uuid (n + 3)) now i 0 (set_record i r' s))))))))"

section \<open>Continuation and restart\<close>

definition child_unavailable :: "string \<Rightarrow> error" where
  "child_unavailable message = runtime_error ''TASK_CHILD_UNAVAILABLE'' message"

text \<open>The child Agent of the next stage: the one the user names, or the one of the last stage.\<close>

definition select_child :: "json \<Rightarrow> string option \<Rightarrow> json result" where
  "select_child session childAgentId =
     (let candidates = items (get session ''availableChildAgents''); stages = items (get session ''stages'');
          named = (case childAgentId of None \<Rightarrow> False | Some c \<Rightarrow> c \<noteq> []);
          selected = (case childAgentId of
              Some (c # cs) \<Rightarrow> find_first (\<lambda>t. get t ''childAgentId'' = JStr (c # cs)) candidates
            | _ \<Rightarrow> if stages = [] then None else find_first (same_target (last stages)) candidates)
      in case selected of
        Some child \<Rightarrow> Inr child
      | None \<Rightarrow> if \<not> named \<and> stages \<noteq> []
          then Inl (runtime_error ''TASK_CHILD_SELECTION_REQUIRED''
            ''The previous Child Agent is unavailable; explicitly select another Child Agent.'')
          else Inl (child_unavailable ''No Child Agent is available.''))"

definition workspace_unchanged :: "stage_env \<Rightarrow> json \<Rightarrow> error option" where
  "workspace_unchanged env r = (let binding = get r ''workspaceBinding''; session = get r ''longHorizon'' in
     if \<not> truthy binding then Some (runtime_error ''TASK_WORKSPACE_UNAVAILABLE'' ''Task Workspace is unavailable.'')
     else case ap_workspace (sg_ap env) of
       None \<Rightarrow> None
     | Some store \<Rightarrow>
         if starts_with ''workspace:none.'' (js_string (get binding ''workspaceId'')) then None
         else throw_if (case ws_get store (get binding ''workspaceId'') of None \<Rightarrow> True | Some current \<Rightarrow>
               get current ''revision'' \<noteq> get binding ''workspaceRevision'' \<or> get current ''revision'' \<noteq> get session ''workspaceRevision'')
           (runtime_error ''TASK_WORKSPACE_REVISION_CONFLICT'' ''Workspace revision changed before continuation.''))"

definition next_stage :: "json \<Rightarrow> image_input list \<Rightarrow> json \<Rightarrow> stage_request" where
  "next_stage target images session =
     \<lparr>sq_target = target, sq_images = images, sq_instruction = js_string (get (get session ''pendingInput'') ''instruction''),
      sq_input_id = get (get session ''pendingInput'') ''inputId'', sq_step = None\<rparr>"

definition continueLongHorizon ::
  "stage_env \<Rightarrow> (nat \<Rightarrow> string) \<Rightarrow> int \<Rightarrow> string \<Rightarrow> string option \<Rightarrow> task_store \<Rightarrow> (json \<times> launch) outcome" where
  "continueLongHorizon env uuid now taskId childAgentId s =
     after (requireIncomingLongHorizon uuid (ts_records s) taskId now) (\<lambda>(i, r).
     check (ap_authorize (sg_ap env) (get r ''peerTetiId''))
     (if \<not> truthy (get (get r ''longHorizon'') ''pendingInput'') \<or> \<not> at_stage_boundary (get r ''longHorizon'')
      then fails (runtime_error ''TASK_INPUT_REQUIRED'' ''A requester instruction is required before the next stage.'')
      else (let s1 = fst (refreshLongHorizonTargets env now s); r1 = ts_records s1 ! i; session = get r1 ''longHorizon'' in
        after (select_child session childAgentId) (\<lambda>selected.
        case find_first (same_target selected) (callable_targets env r1 [''text'']) of
          None \<Rightarrow> fails (child_unavailable ''The selected Child Agent is no longer ready.'')
        | Some target \<Rightarrow>
            check (workspace_unchanged env r1)
            (after (resolveInputImages env r1) (\<lambda>images.
             stage_outcome i (startLongHorizonStage env uuid now i (next_stage target images session) s1)))))))"

definition no_resume :: "string \<Rightarrow> error" where
  "no_resume message = runtime_error ''TASK_RESUME_UNAVAILABLE'' message"

text \<open>\<open>handleOf\<close> is \<open>getExecutionHandle\<close> of the executor, when it has one; a missing handle is \<open>null\<close>.\<close>

definition resume_target :: "stage_env \<Rightarrow> (json \<Rightarrow> json) option \<Rightarrow> json \<Rightarrow> string \<Rightarrow> json result" where
  "resume_target env handleOf r taskId =
     (case handleOf of
        None \<Rightarrow> Inl (no_resume ''Durable execution is unavailable.'')
      | Some handle \<Rightarrow> (let previous = handle (JStr taskId) in
          if \<not> ap_executor (sg_ap env) \<or> ap_prepare (sg_ap env) = None then Inl (no_resume ''Durable execution is unavailable.'')
          else if \<not> truthy previous \<or> get previous ''resumeCapability'' \<noteq> JStr ''checkpoint_restart''
          then Inl (no_resume ''No explicit checkpoint is available.'')
          else case resolved_target (sg_ap env) r of
            None \<Rightarrow> Inl (no_resume ''The original Child Agent is unavailable.'')
          | Some target \<Rightarrow>
              if get target ''connectorId'' \<noteq> get previous ''connectorId'' \<or> get target ''childAgentId'' \<noteq> get previous ''childAgentId''
              then Inl (no_resume ''The original Child Agent is unavailable.'')
              else Inr target))"

definition resume_record :: "int \<Rightarrow> json \<Rightarrow> json" where
  "resume_record now r = markTaskAttention (start_working r now) (change ''resumed'')"

definition resume_launch :: "stage_env \<Rightarrow> string \<Rightarrow> int \<Rightarrow> json \<Rightarrow> string \<Rightarrow> json \<Rightarrow> image_input list \<Rightarrow> json \<Rightarrow> launch" where
  "resume_launch env grantId now r taskId target images handle =
     (let binding = get r ''workspaceBinding'' in
      launch_of env now target
        (createExecutionGrant (ap_digest (sg_ap env)) grantId now (get r ''request'') target binding None (get binding ''access''))
        (task_execution target taskId (request_text r) images now) (get handle ''executionEpoch'') None)"

definition resume ::
  "stage_env \<Rightarrow> (json \<Rightarrow> json) option \<Rightarrow> string \<Rightarrow> int \<Rightarrow> string \<Rightarrow> task_store \<Rightarrow> (json \<times> launch) outcome" where
  "resume env handleOf grantId now taskId s =
     (if \<not> id_pattern 127 taskId then fails (runtime_error ''TASK_INPUT_INVALID'' ''Task ID is invalid.'')
      else case find_index (incoming_task taskId) (ts_records s) of
        None \<Rightarrow> fails (no_resume ''Task cannot be resumed.'')
      | Some i \<Rightarrow> (let r = ts_records s ! i in
          if get r ''state'' \<noteq> JStr ''input_required'' \<or> \<not> truthy (get r ''workspaceBinding'')
          then fails (no_resume ''Task cannot be resumed.'')
          else check (ap_authorize (sg_ap env) (get r ''peerTetiId''))
            (after (resume_target env handleOf r taskId) (\<lambda>target.
             after (resolveInputImages env r) (\<lambda>images.
             after (prepared (sg_ap env)
                (task_prepare_input (JStr taskId) (get r ''workspaceBinding'') target True)) (\<lambda>handle.
             let l = resume_launch env grantId now r taskId target images handle in
             after (ln_authority l) (\<lambda>authority. saves (set_record i (resume_record now r) s) (resume_record now r, l))))))))"

end
