(* ===== verification/Task_Endings.thy ===== *)
theory Task_Endings
  imports Task_Approval
begin

text \<open>
  How an execution ends in the task service (\<open>lifecycle-sidecar/runtime/tasks/service.ts\<close>):
  \<open>finishSingleStageExecution\<close>, \<open>finishLongHorizonStage\<close> with the steps of a delegation plan,
  \<open>completeDelegation\<close>, \<open>finishExecution\<close> and the reconciliation of interrupted executions. \<open>result\<close> is the
  snapshot of the kernel and \<open>handle\<close> the durable handle, both \<open>null\<close> when there is none. A function answers
  with an error when the code throws; what it changed in memory before that is lost, as nothing saves it.
\<close>

section \<open>Results\<close>

definition mapped :: "('a \<Rightarrow> 'b) \<Rightarrow> 'a result \<Rightarrow> 'b result" where
  "mapped f m = rbind m (\<lambda>x. Inr (f x))"

definition result_images :: "json \<Rightarrow> json list" where
  "result_images result = (let artifact = get result ''artifact'' in
     if get artifact ''kind'' = JStr ''parts'' then items (get artifact ''images'') else [])"

definition has_result :: "json \<Rightarrow> bool" where
  "has_result result \<longleftrightarrow> get result ''state'' = JStr ''completed'' \<and> truthy (get result ''artifact'')"

definition text_part :: "json \<Rightarrow> json" where
  "text_part t = JObj [(''kind'', JStr ''text''), (''text'', t)]"

definition parts_artifact :: "json \<Rightarrow> string \<Rightarrow> json list \<Rightarrow> json \<Rightarrow> json" where
  "parts_artifact r artifactId parts createdAt = JObj
     [(''schemaVersion'', jint 2), (''taskId'', get (get r ''request'') ''taskId''), (''artifactId'', JStr artifactId),
      (''parts'', JArr parts), (''createdAt'', createdAt)]"

definition text_artifact :: "json \<Rightarrow> string \<Rightarrow> json \<Rightarrow> json \<Rightarrow> json" where
  "text_artifact r artifactId t createdAt = JObj
     [(''schemaVersion'', jint 1), (''taskId'', get (get r ''request'') ''taskId''), (''artifactId'', JStr artifactId),
      (''kind'', JStr ''text''), (''text'', t), (''createdAt'', createdAt)]"

definition single_artifact :: "json \<Rightarrow> string \<Rightarrow> json \<Rightarrow> json \<Rightarrow> json" where
  "single_artifact r artifactId result createdAt = (let t = get (get result ''artifact'') ''text'' in
     if get r ''protocolVersion'' = jint 1 then text_artifact r artifactId t createdAt
     else parts_artifact r artifactId (text_part t # result_images result) createdAt)"

definition with_artifact :: "json \<Rightarrow> json \<Rightarrow> json" where
  "with_artifact r artifact = put r ''artifacts'' (JArr (items (get r ''artifacts'') @ [artifact]))"

section \<open>A task of one stage\<close>

definition checkpoint_left :: "json \<Rightarrow> json \<Rightarrow> bool" where
  "checkpoint_left handle executionEpoch \<longleftrightarrow> truthy handle \<and> get handle ''executionEpoch'' = executionEpoch
     \<and> get (get handle ''progress'') ''state'' = JStr ''failed'' \<and> get handle ''resumeCapability'' = JStr ''checkpoint_restart''"

definition failed_as :: "string \<Rightarrow> json \<Rightarrow> json" where
  "failed_as code r = spread r [(''state'', JStr ''failed''), (''safeErrorCode'', JStr code)]"

definition with_single_artifact :: "json \<Rightarrow> json \<Rightarrow> json" where
  "with_single_artifact r artifact =
     del (spread (initializeAttachmentDiagnostics (with_artifact r artifact) ''artifact'' (taskArtifactImages artifact))
        [(''artifactPending'', JBool True), (''artifactAttachmentsReady'', JBool True), (''state'', JStr ''completed'')])
       [''safeErrorCode'']"

definition without_result :: "json \<Rightarrow> json \<Rightarrow> json \<Rightarrow> json \<Rightarrow> json" where
  "without_result r result handle executionEpoch =
     (if get result ''safeErrorCode'' = JStr ''ADAPTER_AUTH_REQUIRED''
      then spread r [(''state'', JStr ''auth_required''), (''approval'', JStr ''pending''), (''safeErrorCode'', JStr ''ADAPTER_AUTH_REQUIRED'')]
      else if checkpoint_left handle executionEpoch
      then spread r [(''state'', JStr ''input_required''), (''safeErrorCode'', JStr ''TASK_RESUME_AVAILABLE'')]
      else spread r [(''state'', JStr (if get result ''state'' = JStr ''canceled'' then ''canceled'' else ''failed'')),
         (''safeErrorCode'', or_else (get result ''safeErrorCode'') (JStr ''ADAPTER_INTERNAL_ERROR''))])"

text \<open>What every end does at its end.\<close>

definition report_end :: "json \<Rightarrow> json \<Rightarrow> json" where
  "report_end timestamp r = (let r' = put (bump_status r) ''updatedAt'' timestamp in markTaskAttention r' (inferTaskAttentionChange r'))"

definition finishSingleStageExecution :: "string \<Rightarrow> int \<Rightarrow> json \<Rightarrow> json \<Rightarrow> json \<Rightarrow> json \<Rightarrow> json result" where
  "finishSingleStageExecution artifactId now result handle executionEpoch r =
     (if has_result result
      then if get (get r ''request'') ''capabilityId'' = JStr ''image-editing'' \<and> result_images result = []
        then Inr (report_end (iso now) (failed_as ''TASK_IMAGE_RESULT_MISSING'' r))
        else if result_images result \<noteq> [] \<and> int_of (get r ''protocolVersion'') < 3
        then Inr (report_end (iso now) (failed_as ''TASK_IMAGE_RESULT_UNSUPPORTED'' r))
        else (let artifact = single_artifact r artifactId result (iso now) in
          guarded (validateTaskArtifact artifact) (Inr (report_end (iso now) (with_single_artifact r artifact))))
      else Inr (report_end (iso now) (without_result r result handle executionEpoch)))"

section \<open>A stage of a collaboration\<close>

text \<open>
  The records in memory while a stage ends: the record with its session, its plan and the end of the
  events that were appended. \<open>audited\<close> appends events to the session, \<open>plan_audited\<close> to the plan.
\<close>

fun audited :: "(nat \<Rightarrow> string) \<Rightarrow> nat \<Rightarrow> json \<Rightarrow> (string \<times> json) list list \<Rightarrow> json \<Rightarrow> json result" where
  "audited uuid n timestamp [] r = Inr r"
| "audited uuid n timestamp (e # es) r =
     rbind (appendLongHorizonAudit (uuid n) (get r ''longHorizon'') e timestamp)
       (\<lambda>session. audited uuid (Suc n) timestamp es (put r ''longHorizon'' session))"

fun plan_audited :: "(nat \<Rightarrow> string) \<Rightarrow> nat \<Rightarrow> json \<Rightarrow> (string \<times> json) list list \<Rightarrow> json \<Rightarrow> json result" where
  "plan_audited uuid n timestamp [] r = Inr r"
| "plan_audited uuid n timestamp (e # es) r =
     rbind (appendDelegationAudit (uuid n) (get r ''delegationPlan'') e timestamp)
       (\<lambda>plan. plan_audited uuid (Suc n) timestamp es (put r ''delegationPlan'' plan))"

definition on_session :: "(json \<Rightarrow> json) \<Rightarrow> json \<Rightarrow> json" where
  "on_session f r = put r ''longHorizon'' (f (get r ''longHorizon''))"

definition on_plan :: "(json \<Rightarrow> json) \<Rightarrow> json \<Rightarrow> json" where
  "on_plan f r = put r ''delegationPlan'' (f (get r ''delegationPlan''))"

definition on_stage :: "json \<Rightarrow> (string \<times> json) list \<Rightarrow> json \<Rightarrow> json" where
  "on_stage executionTaskId changes = on_session (update_stage executionTaskId (\<lambda>stage. spread stage changes))"

definition on_step :: "nat \<Rightarrow> (string \<times> json) list \<Rightarrow> json \<Rightarrow> json" where
  "on_step k changes = on_plan (put_step k changes)"

definition input_request :: "string \<Rightarrow> string \<Rightarrow> json \<Rightarrow> json" where
  "input_request requestId prompt createdAt = JObj [(''requestId'', JStr requestId), (''prompt'', JStr prompt), (''createdAt'', createdAt)]"

definition stage_number :: "int \<Rightarrow> json \<Rightarrow> json" where
  "stage_number d stage = jint (int_of (get stage ''stageIndex'') + d)"

text \<open>The step of the plan that the execution runs, by its position.\<close>

definition step_of :: "json \<Rightarrow> json \<Rightarrow> nat option" where
  "step_of r executionTaskId = (if \<not> truthy (get r ''delegationPlan'') then None
     else find_index (\<lambda>step. get step ''kind'' = JStr ''child_execution'' \<and> get step ''executionTaskId'' = executionTaskId)
       (items (get (get r ''delegationPlan'') ''steps'')))"

definition output_exceeded :: "json \<Rightarrow> nat option \<Rightarrow> json \<Rightarrow> bool" where
  "output_exceeded r step result \<longleftrightarrow> (case step of None \<Rightarrow> False | Some k \<Rightarrow> truthy (get result ''artifact'')
     \<and> int_of (get (get (plan_step r k) ''budget'') ''maxOutputBytes'') < utf8_size (js_string (get (get result ''artifact'') ''text'')))"

definition image_unsupported :: "json \<Rightarrow> json \<Rightarrow> bool" where
  "image_unsupported r result \<longleftrightarrow> \<not> truthy (get r ''delegationPlan'') \<and> result_images result \<noteq> []"

text \<open>The memory of a completed stage, when the task is hosted here and its text is not blank.\<close>

definition structuredStageMemoryInput :: "json \<Rightarrow> json \<Rightarrow> json \<Rightarrow> json \<Rightarrow> json option" where
  "structuredStageMemoryInput r stage artifact executionEpoch =
     (let content = boundStructuredTaskMemoryContent (js_string (taskArtifactText artifact)) in
      if \<not> incoming r \<or> \<not> long_horizon_task r \<or> content = [] then None
      else Some (JObj
        [(''schemaVersion'', jint 1), (''taskId'', get (get r ''request'') ''taskId''), (''taskCreatedAt'', get r ''createdAt''),
         (''peerTetiId'', get r ''peerTetiId''), (''workspaceId'', or_else (get (get r ''workspaceBinding'') ''workspaceId'') JNull),
         (''stageId'', get stage ''stageId''), (''stageIndex'', get stage ''stageIndex''),
         (''executionTaskId'', get stage ''executionTaskId''), (''executionEpoch'', executionEpoch),
         (''childAgentId'', get stage ''childAgentId''), (''connectorId'', get stage ''connectorId''),
         (''artifactId'', get artifact ''artifactId''), (''workspaceRevision'', get stage ''workspaceRevision''),
         (''content'', JStr content), (''createdAt'', get artifact ''createdAt'')]))"

text \<open>What the end of a stage leaves: the store it saved, the next step it started, and the memory it keeps.\<close>

record stage_end =
  se_store :: task_store
  se_launch :: "launch option"
  se_memory :: "json option"

definition ended :: "nat \<Rightarrow> task_store \<Rightarrow> json option \<Rightarrow> json \<Rightarrow> stage_end" where
  "ended i s memory r = \<lparr>se_store = set_record i r s, se_launch = None, se_memory = memory\<rparr>"

definition stage_expired :: "(nat \<Rightarrow> string) \<Rightarrow> json \<Rightarrow> json \<Rightarrow> json \<Rightarrow> json result" where
  "stage_expired uuid timestamp executionTaskId r =
     rbind (expireRecord uuid r timestamp) (\<lambda>r'.
       Inr (on_stage executionTaskId [(''state'', JStr ''canceled''), (''safeErrorCode'', JStr ''TASK_EXPIRED''),
          (''updatedAt'', timestamp), (''completedAt'', timestamp)] r'))"

text \<open>The Workspace moved while the stage ran: the result is dropped and the stage fails.\<close>

definition conflict_code :: json where "conflict_code = JStr ''TASK_WORKSPACE_REVISION_CONFLICT''"

definition conflict_session :: "(nat \<Rightarrow> string) \<Rightarrow> json \<Rightarrow> json \<Rightarrow> json \<Rightarrow> json" where
  "conflict_session uuid timestamp stage session =
     spread session [(''phase'', JStr ''input_required''), (''pauseRequested'', JBool False),
       (''inputRequest'', input_request (uuid 1)
          ''The Workspace versions conflict; check, add an instruction and choose a child Agent to continue.'' timestamp),
       (''progress'', task_progress ''failed'' (stage_number (-1) stage) (jint maximum_stages)
          ''Workspace revision conflict; the result of the stage was not published'' timestamp)]"

definition conflict_plan :: "(nat \<Rightarrow> string) \<Rightarrow> json \<Rightarrow> nat option \<Rightarrow> json \<Rightarrow> json result" where
  "conflict_plan uuid timestamp step r = (case step of None \<Rightarrow> Inr r
     | Some k \<Rightarrow> plan_audited uuid 3 timestamp
         [[(''action'', JStr ''step_failed''), (''actor'', JStr ''host''), (''stepId'', get (plan_step r k) ''stepId''),
           (''safeErrorCode'', conflict_code)]]
         (on_plan (\<lambda>plan. spread plan [(''phase'', JStr ''failed''), (''updatedAt'', timestamp)])
           (on_step k [(''state'', JStr ''failed''), (''completedAt'', timestamp), (''safeErrorCode'', conflict_code)] r)))"

definition workspace_conflict :: "(nat \<Rightarrow> string) \<Rightarrow> json \<Rightarrow> json \<Rightarrow> json \<Rightarrow> nat option \<Rightarrow> json \<Rightarrow> json result" where
  "workspace_conflict uuid timestamp executionTaskId stage step r =
     (let r1 = on_stage executionTaskId [(''artifactIds'', JArr []), (''state'', JStr ''failed''), (''safeErrorCode'', conflict_code),
            (''progress'', task_progress ''failed'' JNull JNull ''Workspace revision conflict'' timestamp),
            (''updatedAt'', timestamp), (''completedAt'', timestamp)] (put r ''artifacts'' (JArr (items (get r ''artifacts'')))) in
      rbind (audited uuid 2 timestamp
        [[(''action'', JStr ''stage_failed''), (''actor'', JStr ''host''), (''stageIndex'', get stage ''stageIndex''),
          (''childAgentId'', get stage ''childAgentId''), (''workspaceRevision'', get stage ''workspaceRevision''),
          (''safeErrorCode'', conflict_code)]]
        (on_session (conflict_session uuid timestamp stage) r1)) (\<lambda>r2.
      rbind (conflict_plan uuid timestamp step r2) (\<lambda>r3.
      Inr (markTaskAttention (put (bump_status (spread r3
            [(''state'', JStr (if truthy (get r3 ''delegationPlan'') then ''failed'' else ''input_required'')),
             (''safeErrorCode'', conflict_code)])) ''updatedAt'' timestamp)
          ((change ''stage_failed'')\<lparr>ac_stage := get stage ''stageIndex'', ac_code := conflict_code\<rparr>)))))"

section \<open>A stage that completes\<close>

text \<open>
  The Workspace of the task after the stage: \<open>None\<close> when it is not checked, \<open>Some None\<close> when its revision is
  not the expected one, else the revision.
\<close>

definition committed_revision :: "stage_env \<Rightarrow> json \<Rightarrow> json \<Rightarrow> json option option" where
  "committed_revision env r stage =
     (let binding = get r ''workspaceBinding'';
          expected = int_of (get stage ''workspaceRevision'') + (if get stage ''workspaceMutation'' = JStr ''snapshot_commit'' then 1 else 0) in
      case ap_workspace (sg_ap env) of
        None \<Rightarrow> None
      | Some store \<Rightarrow>
          if \<not> truthy binding \<or> starts_with ''workspace:none.'' (js_string (get binding ''workspaceId'')) then None
          else Some (case ws_get store (get binding ''workspaceId'') of
              None \<Rightarrow> None
            | Some workspace \<Rightarrow> if get workspace ''revision'' = jint expected then Some (get workspace ''revision'') else None))"

definition adopt_revision :: "json option \<Rightarrow> json \<Rightarrow> json" where
  "adopt_revision revision r = (case revision of None \<Rightarrow> r
     | Some v \<Rightarrow> on_session (\<lambda>session. put session ''workspaceRevision'' v)
         (put r ''workspaceBinding'' (put (get r ''workspaceBinding'') ''workspaceRevision'' v)))"

definition push :: "string \<Rightarrow> json \<Rightarrow> json \<Rightarrow> json" where
  "push k x v = put v k (JArr (items (get v k) @ [x]))"

definition stage_artifact :: "json \<Rightarrow> string \<Rightarrow> json \<Rightarrow> json \<Rightarrow> json" where
  "stage_artifact r artifactId result createdAt = parts_artifact r artifactId
     (text_part (get (get result ''artifact'') ''text'')
       # (if truthy (get r ''delegationPlan'') then result_images result else [])) createdAt"

definition completed_stage :: "json \<Rightarrow> json \<Rightarrow> json \<Rightarrow> json \<Rightarrow> json" where
  "completed_stage timestamp executionTaskId artifact r =
     on_session (update_stage executionTaskId (\<lambda>stage. spread (push ''artifactIds'' (get artifact ''artifactId'') stage)
        [(''state'', JStr ''completed''),
         (''progress'', task_progress ''completed'' (jint 1) (jint 1)
            (''Stage '' @ js_string (get stage ''stageIndex'') @ '' is complete'') timestamp),
         (''updatedAt'', timestamp), (''completedAt'', timestamp)])) (with_artifact r artifact)"

definition artifact_entry :: "json \<Rightarrow> json \<Rightarrow> string \<Rightarrow> json \<Rightarrow> json" where
  "artifact_entry artifact stageIndex role createdAt = JObj
     [(''artifactId'', get artifact ''artifactId''), (''stageIndex'', stageIndex), (''role'', JStr role), (''createdAt'', createdAt)]"

definition stage_checkpoint :: "(string \<Rightarrow> json) \<Rightarrow> string \<Rightarrow> json \<Rightarrow> json \<Rightarrow> json \<Rightarrow> json \<Rightarrow> json" where
  "stage_checkpoint digest checkpointId r stage artifactIds createdAt =
     (let revision = get (get r ''longHorizon'') ''workspaceRevision'' in JObj
        [(''checkpointId'', JStr checkpointId), (''stageIndex'', get stage ''stageIndex''), (''workspaceRevision'', revision),
         (''artifactIds'', artifactIds),
         (''digest'', digest (stringify (JObj [(''taskId'', get (get r ''request'') ''taskId''), (''stageIndex'', get stage ''stageIndex''),
            (''workspaceRevision'', revision), (''artifactIds'', artifactIds)]))),
         (''createdAt'', createdAt)])"

text \<open>The session records the artifact of the stage and a checkpoint.\<close>

definition published :: "(string \<Rightarrow> json) \<Rightarrow> string \<Rightarrow> json \<Rightarrow> json \<Rightarrow> json \<Rightarrow> json \<Rightarrow> json \<Rightarrow> json" where
  "published digest checkpointId timestamp executionTaskId stage artifact r =
     (let ids = JArr (items (get stage ''artifactIds'') @ [get artifact ''artifactId'']) in
      on_stage executionTaskId [(''checkpointAvailable'', JBool True)]
        (on_session (\<lambda>session. push ''checkpoints'' (stage_checkpoint digest checkpointId r stage ids timestamp)
            (push ''artifacts'' (artifact_entry artifact (get stage ''stageIndex'') ''intermediate'' timestamp) session)) r))"

definition publish_events :: "json \<Rightarrow> json \<Rightarrow> json \<Rightarrow> (string \<times> json) list list" where
  "publish_events stage artifact revision =
     [[(''action'', JStr ''artifact_published''), (''actor'', JStr ''child_agent''), (''stageIndex'', get stage ''stageIndex''),
       (''artifactId'', get artifact ''artifactId''), (''childAgentId'', get stage ''childAgentId'')],
      [(''action'', JStr ''checkpoint_created''), (''actor'', JStr ''host''), (''stageIndex'', get stage ''stageIndex''),
       (''artifactId'', get artifact ''artifactId''), (''workspaceRevision'', revision)]]"

definition boundary_phase :: "json \<Rightarrow> string" where
  "boundary_phase session = (if truthy (get session ''pauseRequested'') then ''paused'' else ''input_required'')"

definition await_input :: "string \<Rightarrow> string \<Rightarrow> string \<Rightarrow> json \<Rightarrow> string \<Rightarrow> json \<Rightarrow> json \<Rightarrow> json" where
  "await_input requestId prompt state completed message timestamp session =
     spread session [(''phase'', JStr (boundary_phase session)), (''pauseRequested'', JBool False),
       (''inputRequest'', input_request requestId prompt timestamp),
       (''progress'', task_progress (if boundary_phase session = ''paused'' then ''paused'' else state) completed (jint maximum_stages)
          message timestamp)]"

text \<open>The end of a stage that waits for the user: the session is at a boundary.\<close>

definition stage_boundary :: "(nat \<Rightarrow> string) \<Rightarrow> json \<Rightarrow> json \<Rightarrow> json \<Rightarrow> json \<Rightarrow> json result" where
  "stage_boundary uuid timestamp stage artifact r =
     (let session = get r ''longHorizon''; paused = boundary_phase session = ''paused'' in
      rbind (audited uuid 4 timestamp
          (publish_events stage artifact (get session ''workspaceRevision'')
            @ [[(''action'', JStr (if paused then ''paused'' else ''input_requested'')), (''actor'', JStr ''host''),
                (''stageIndex'', get stage ''stageIndex'')]])
          (on_session (await_input (uuid 7)
             ''Add an instruction for the next stage, or confirm the current result as the final one.''
             ''interrupted'' (get stage ''stageIndex'')
             (if paused then ''Paused at the stage boundary'' else ''Waiting for the user to add an instruction for the next stage'')
             timestamp) r)) (\<lambda>r'.
        Inr (del (spread r' [(''artifactPending'', JBool True), (''artifactAttachmentsReady'', JBool True),
            (''state'', JStr ''input_required'')]) [''safeErrorCode''])))"

definition end_stage :: "json \<Rightarrow> attention_change \<Rightarrow> json \<Rightarrow> json" where
  "end_stage timestamp c r = markTaskAttention
     (put (bump_status (on_session (\<lambda>session. put session ''updatedAt'' timestamp) r)) ''updatedAt'' timestamp) c"

section \<open>A step of a plan that completes\<close>

definition plan_artifact :: "json \<Rightarrow> json \<Rightarrow> json \<Rightarrow> json \<Rightarrow> string \<Rightarrow> json \<Rightarrow> json" where
  "plan_artifact artifact stepId producer revision role createdAt = JObj
     [(''artifactId'', get artifact ''artifactId''), (''stepId'', stepId), (''producer'', producer),
      (''workspaceRevision'', revision), (''role'', JStr role), (''createdAt'', createdAt)]"

definition child_producer :: "json \<Rightarrow> json" where
  "child_producer step = JObj [(''kind'', JStr ''child_agent''), (''childAgentId'', get step ''childAgentId''),
     (''connectorId'', get step ''connectorId''), (''resourceBindingId'', get step ''resourceBindingId'')]"

definition completed_step :: "nat \<Rightarrow> json \<Rightarrow> json \<Rightarrow> json \<Rightarrow> json \<Rightarrow> json" where
  "completed_step k timestamp artifact revision r =
     (let step = plan_step r k in
      on_plan (push ''artifacts'' (plan_artifact artifact (get step ''stepId'') (child_producer step) revision ''intermediate'' timestamp))
        (on_step k [(''state'', JStr ''completed''), (''completedAt'', timestamp), (''artifactIds'', JArr [get artifact ''artifactId''])] r))"

definition step_events :: "json \<Rightarrow> json \<Rightarrow> (string \<times> json) list list" where
  "step_events stepId artifact =
     [[(''action'', JStr ''artifact_recorded''), (''actor'', JStr ''child_agent''), (''stepId'', stepId),
       (''artifactId'', get artifact ''artifactId'')],
      [(''action'', JStr ''step_completed''), (''actor'', JStr ''host''), (''stepId'', stepId)]]"

definition step_published :: "(nat \<Rightarrow> string) \<Rightarrow> nat \<Rightarrow> json \<Rightarrow> json \<Rightarrow> json \<Rightarrow> json \<Rightarrow> json result" where
  "step_published uuid k timestamp stage artifact r =
     (let revision = get (get r ''longHorizon'') ''workspaceRevision''; stepId = get (plan_step r k) ''stepId'' in
      rbind (plan_audited uuid 2 timestamp (step_events stepId artifact) (completed_step k timestamp artifact revision r)) (\<lambda>r1.
      rbind (audited uuid 4 timestamp (publish_events stage artifact revision)
          (on_plan (\<lambda>plan. put plan ''updatedAt'' timestamp) r1)) (\<lambda>r2.
        Inr (markTaskAttention (on_session (\<lambda>session. put session ''updatedAt'' timestamp)
              (spread r2 [(''artifactPending'', JBool True), (''artifactAttachmentsReady'', JBool True), (''updatedAt'', timestamp)]))
            ((change ''stage_completed'')\<lparr>ac_stage := get stage ''stageIndex''\<rparr>)))))"

definition error_code :: "error \<Rightarrow> string" where
  "error_code e = (case e of TaskTransportRuntimeError code message \<Rightarrow> code | _ \<Rightarrow> ''TASK_DELEGATION_TARGET_CHANGED'')"

text \<open>The next step could not start: the plan, the session and the task fail.\<close>

definition next_step_failed :: "string \<Rightarrow> nat \<Rightarrow> string \<Rightarrow> json \<Rightarrow> json \<Rightarrow> json \<Rightarrow> json result" where
  "next_step_failed eventId k code timestamp stage r =
     (let step = plan_step r k; failure = JStr code in
      rbind (plan_audited (\<lambda>_. eventId) 0 timestamp
          [[(''action'', JStr ''step_failed''), (''actor'', JStr ''host''), (''stepId'', get step ''stepId''), (''safeErrorCode'', failure)]]
          (on_plan (\<lambda>plan. spread plan [(''phase'', JStr ''failed''), (''currentStepIndex'', get step ''stepIndex''),
                (''updatedAt'', timestamp)])
            (on_step k [(''state'', JStr ''failed''), (''completedAt'', timestamp), (''safeErrorCode'', failure)] r))) (\<lambda>r1.
      let r2 = on_session (\<lambda>session. spread session [(''phase'', JStr ''failed''), (''inputRequest'', JNull), (''pendingInput'', JNull),
            (''progress'', task_progress ''failed'' (jint (int_of (get step ''stepIndex'') - 1))
               (get (get r1 ''delegationPlan'') ''maximumChildCalls'')
               ''The next delegation target or its authority changed; the plan has stopped'' timestamp)]) r1;
          r3 = markTaskAttention (put (bump_status (failed_as code r2)) ''updatedAt'' timestamp)
            ((change ''stage_failed'')\<lparr>ac_stage := get stage ''stageIndex'', ac_code := failure\<rparr>)
      in guarded (validateDelegationPlanState (get r3 ''delegationPlan'')) (Inr r3)))"

definition host_producer :: json where
  "host_producer = JObj [(''kind'', JStr ''teti_host''), (''resourceId'', JStr host_aggregation_resource_id)]"

text \<open>The artifacts of the steps, in the order of the record, and the final artifact made of them.\<close>

definition intermediate_artifacts :: "json \<Rightarrow> json list" where
  "intermediate_artifacts r =
     (let ids = map (\<lambda>e. get e ''artifactId'')
            (filter (\<lambda>e. get e ''role'' = JStr ''intermediate'') (items (get (get r ''delegationPlan'') ''artifacts''))) in
      filter (\<lambda>a. get a ''artifactId'' \<in> set ids) (items (get r ''artifacts'')))"

definition final_artifact :: "json \<Rightarrow> string \<Rightarrow> json \<Rightarrow> json" where
  "final_artifact r artifactId createdAt = (let parts = intermediate_artifacts r in parts_artifact r artifactId
     (text_part (JStr (aggregateDelegationText parts max_artifact_text_bytes)) # take 4 (uniqueDelegationImages parts)) createdAt)"

definition aggregation_event :: "string \<Rightarrow> json \<Rightarrow> json \<Rightarrow> (string \<times> json) list" where
  "aggregation_event action stepId artifactId =
     [(''action'', JStr action), (''actor'', JStr ''host''), (''stepId'', stepId), (''artifactId'', artifactId)]"

definition start_aggregation :: "(nat \<Rightarrow> string) \<Rightarrow> json \<Rightarrow> nat \<Rightarrow> json \<Rightarrow> json result" where
  "start_aggregation uuid timestamp k r = plan_audited uuid 0 timestamp
     [[(''action'', JStr ''aggregation_started''), (''actor'', JStr ''host''), (''stepId'', get (plan_step r k) ''stepId'')]]
     (on_step k [(''state'', JStr ''working''), (''startedAt'', timestamp)]
       (on_plan (\<lambda>plan. spread plan [(''phase'', JStr ''aggregating''), (''currentStepIndex'', get (plan_step r k) ''stepIndex''),
          (''updatedAt'', timestamp)]) r))"

definition end_aggregation :: "(nat \<Rightarrow> string) \<Rightarrow> json \<Rightarrow> nat \<Rightarrow> json \<Rightarrow> json \<Rightarrow> json result" where
  "end_aggregation uuid timestamp k final r =
     (let stepId = get (plan_step r k) ''stepId''; i = get final ''artifactId'';
          r1 = initializeAttachmentDiagnostics (with_artifact r final) ''artifact'' (taskArtifactImages final) in
      plan_audited uuid 2 timestamp [aggregation_event ''artifact_recorded'' stepId i, aggregation_event ''plan_completed'' stepId i]
        (on_plan (\<lambda>plan. spread
            (push ''artifacts'' (plan_artifact final stepId host_producer (get (get r ''longHorizon'') ''workspaceRevision'') ''final'' timestamp) plan)
            [(''phase'', JStr ''completed''), (''updatedAt'', timestamp)])
          (on_step k [(''state'', JStr ''completed''), (''artifactId'', i), (''completedAt'', timestamp)] r1)))"

definition completed_session :: "json \<Rightarrow> json \<Rightarrow> json \<Rightarrow> json \<Rightarrow> json" where
  "completed_session timestamp final calls session =
     spread (push ''artifacts'' (artifact_entry final (get session ''currentStageIndex'') ''final'' timestamp) session)
       [(''phase'', JStr ''completed''), (''inputRequest'', JNull), (''pendingInput'', JNull),
        (''progress'', task_progress ''completed'' calls calls ''Teti Host completed the delegation and the summary of the artifacts'' timestamp),
        (''updatedAt'', timestamp)]"

definition completed_record :: "json \<Rightarrow> json \<Rightarrow> json" where
  "completed_record timestamp r =
     markTaskAttention (del (put (bump_status (spread r [(''state'', JStr ''completed''), (''approval'', JStr ''consumed''),
          (''artifactPending'', JBool True), (''artifactAttachmentsReady'', JBool True)])) ''updatedAt'' timestamp) [''safeErrorCode''])
       ((change ''completed'')\<lparr>ac_stage := get (get r ''longHorizon'') ''currentStageIndex''\<rparr>)"

definition completeDelegation :: "(nat \<Rightarrow> string) \<Rightarrow> json \<Rightarrow> json \<Rightarrow> json result" where
  "completeDelegation uuid timestamp r =
     (let steps = items (get (get r ''delegationPlan'') ''steps''); k = length steps - 1 in
      if \<not> truthy (get r ''delegationPlan'') \<or> \<not> truthy (get r ''longHorizon'') \<or> steps = []
          \<or> get (plan_step r k) ''kind'' \<noteq> JStr ''artifact_aggregation''
      then Inl (runtime_error ''TASK_DELEGATION_INVALID'' ''Delegation aggregation is unavailable.'')
      else rbind (start_aggregation uuid timestamp k r) (\<lambda>r1.
        let final = final_artifact r1 (uuid 1) timestamp in
        guarded (validateTaskArtifact final)
        (rbind (end_aggregation uuid timestamp k final r1) (\<lambda>r2.
         let calls = get (get r2 ''delegationPlan'') ''maximumChildCalls'' in
         rbind (audited uuid 4 timestamp
           [[(''action'', JStr ''completed''), (''actor'', JStr ''host''), (''stageIndex'', get (get r2 ''longHorizon'') ''currentStageIndex''),
             (''artifactId'', get final ''artifactId''), (''workspaceRevision'', get (get r2 ''longHorizon'') ''workspaceRevision'')]]
           (on_session (completed_session timestamp final calls) r2)) (\<lambda>r3.
         let r4 = completed_record timestamp r3 in
         guarded (validateDelegationPlanState (get r4 ''delegationPlan'')) (Inr r4))))))"

definition pending_step :: "json \<Rightarrow> nat option" where
  "pending_step r = find_index (\<lambda>step. get step ''kind'' = JStr ''child_execution'' \<and> get step ''state'' = JStr ''pending'')
     (items (get (get r ''delegationPlan'') ''steps''))"

text \<open>After a completed step: the next one starts or fails, or the plan completes.\<close>

definition next_failed :: "(nat \<Rightarrow> string) \<Rightarrow> nat \<Rightarrow> nat \<Rightarrow> error \<Rightarrow> json \<Rightarrow> json \<Rightarrow> json option \<Rightarrow> task_store \<Rightarrow> stage_end result" where
  "next_failed uuid i k e timestamp stage memory s =
     rbind (next_step_failed (uuid 20) k (error_code e) timestamp stage (ts_records s ! i)) (\<lambda>r. Inr (ended i s memory r))"

definition after_step :: "stage_env \<Rightarrow> (nat \<Rightarrow> string) \<Rightarrow> int \<Rightarrow> nat \<Rightarrow> json \<Rightarrow> json option \<Rightarrow> json \<Rightarrow> task_store \<Rightarrow> stage_end result" where
  "after_step env uuid now i stage memory r s =
     (case pending_step r of
        None \<Rightarrow> rbind (completeDelegation (\<lambda>n. uuid (n + 8)) (iso now) r) (\<lambda>r'. Inr (ended i s memory r'))
      | Some k \<Rightarrow> (case startDelegationStep env (\<lambda>n. uuid (n + 8)) now i k (set_record i r s) of
            Started s' l \<Rightarrow> (case ln_authority l of
                Inl e \<Rightarrow> next_failed uuid i k e (iso now) stage memory s'
              | Inr authority \<Rightarrow> Inr \<lparr>se_store = s', se_launch = Some l, se_memory = memory\<rparr>)
          | Refused s' e \<Rightarrow> next_failed uuid i k e (iso now) stage memory s'
          | LeaseOver s' e \<Rightarrow> next_failed uuid i k e (iso now) stage memory s'))"

definition finish_completed ::
  "stage_env \<Rightarrow> (nat \<Rightarrow> string) \<Rightarrow> int \<Rightarrow> nat \<Rightarrow> json \<Rightarrow> json \<Rightarrow> json \<Rightarrow> json \<Rightarrow> json \<Rightarrow> nat option \<Rightarrow> task_store \<Rightarrow> stage_end result" where
  "finish_completed env uuid now i result handle executionTaskId stage r step s =
     (let artifact = stage_artifact r (uuid 0) result (iso now) in
      guarded (validateTaskArtifact artifact)
      (case committed_revision env r stage of
         Some None \<Rightarrow> rbind (workspace_conflict uuid (iso now) executionTaskId stage step r) (\<lambda>r'. Inr (ended i s None r'))
       | revision \<Rightarrow>
           (let r1 = published (ap_digest (sg_ap env)) (uuid 1) (iso now) executionTaskId stage artifact
                  (adopt_revision (given_or revision None) (completed_stage (iso now) executionTaskId artifact r));
                memory = structuredStageMemoryInput r1 stage artifact (or_else (get handle ''executionEpoch'') JNull) in
            case step of
              Some k \<Rightarrow> rbind (step_published uuid k (iso now) stage artifact r1) (\<lambda>r2. after_step env uuid now i stage memory r2 s)
            | None \<Rightarrow> rbind (stage_boundary uuid (iso now) stage artifact r1) (\<lambda>r2.
                Inr (ended i s memory (end_stage (iso now) ((change ''stage_completed'')\<lparr>ac_stage := get stage ''stageIndex''\<rparr>) r2))))))"

section \<open>A stage that fails\<close>

definition was_interrupted :: "json \<Rightarrow> bool" where
  "was_interrupted handle \<longleftrightarrow> get (get handle ''progress'') ''state'' = JStr ''interrupted''"

definition failed_state :: "json \<Rightarrow> json \<Rightarrow> json" where
  "failed_state result handle = JStr (if get result ''state'' = JStr ''canceled'' then ''canceled''
     else if was_interrupted handle then ''interrupted'' else ''failed'')"

definition step_failed_state :: "json \<Rightarrow> json \<Rightarrow> json" where
  "step_failed_state result handle = JStr (if was_interrupted handle then ''interrupted''
     else if get result ''state'' = JStr ''canceled'' then ''canceled'' else ''failed'')"

definition failure_code :: "json \<Rightarrow> nat option \<Rightarrow> json \<Rightarrow> json \<Rightarrow> json" where
  "failure_code r step result handle =
     (if image_unsupported r result then JStr ''TASK_LONG_HORIZON_TEXT_ONLY''
      else if output_exceeded r step result then JStr ''TASK_DELEGATION_OUTPUT_BUDGET''
      else or_else (get result ''safeErrorCode'')
        (JStr (if was_interrupted handle then ''TASK_EXECUTION_INTERRUPTED'' else ''ADAPTER_INTERNAL_ERROR'')))"

definition failed_stage :: "json \<Rightarrow> json \<Rightarrow> json \<Rightarrow> json \<Rightarrow> json \<Rightarrow> json \<Rightarrow> json" where
  "failed_stage timestamp executionTaskId code result handle r =
     on_stage executionTaskId [(''state'', failed_state result handle), (''safeErrorCode'', code),
       (''checkpointAvailable'', JBool (get handle ''resumeCapability'' = JStr ''checkpoint_restart'')),
       (''progress'', task_progress ''failed'' JNull JNull ''The stage failed; waiting for the user to choose how to continue'' timestamp),
       (''updatedAt'', timestamp), (''completedAt'', timestamp)] r"

definition step_failed :: "(nat \<Rightarrow> string) \<Rightarrow> nat \<Rightarrow> json \<Rightarrow> json \<Rightarrow> json \<Rightarrow> json \<Rightarrow> json \<Rightarrow> json result" where
  "step_failed uuid k timestamp code result handle r =
     (let step = plan_step r k in
      rbind (plan_audited uuid 3 timestamp
          [[(''action'', JStr (if was_interrupted handle then ''restart_reconciled'' else ''step_failed'')), (''actor'', JStr ''host''),
            (''stepId'', get step ''stepId''), (''safeErrorCode'', code)]]
          (on_plan (\<lambda>plan. spread plan [(''phase'', JStr (if was_interrupted handle then ''interrupted'' else ''failed'')),
                (''updatedAt'', timestamp)])
            (on_step k [(''state'', step_failed_state result handle), (''completedAt'', timestamp), (''safeErrorCode'', code)] r))) (\<lambda>r1.
        Inr (put (on_session (\<lambda>session. spread session [(''phase'', JStr ''failed''), (''inputRequest'', JNull), (''pendingInput'', JNull),
              (''progress'', task_progress ''failed'' (jint (int_of (get step ''stepIndex'') - 1))
                 (get (get r1 ''delegationPlan'') ''maximumChildCalls'')
                 ''A delegation step failed; the plan has stopped and no other child Agent was chosen'' timestamp)]) r1)
            ''state'' (JStr ''failed''))))"

definition finish_failed :: "(nat \<Rightarrow> string) \<Rightarrow> json \<Rightarrow> json \<Rightarrow> json \<Rightarrow> json \<Rightarrow> json \<Rightarrow> nat option \<Rightarrow> json \<Rightarrow> json result" where
  "finish_failed uuid timestamp result handle executionTaskId stage step r =
     (let code = failure_code r step result handle in
      rbind (audited uuid 2 timestamp
          [[(''action'', JStr (if was_interrupted handle then ''restart_reconciled'' else ''stage_failed'')), (''actor'', JStr ''host''),
            (''stageIndex'', get stage ''stageIndex''), (''childAgentId'', get stage ''childAgentId''), (''safeErrorCode'', code)]]
          (on_session (await_input (uuid 1)
             ''This stage failed. You may add an instruction and choose the same or another child Agent to continue.''
             ''failed'' (stage_number (-1) stage) ''The stage failed, no other child Agent was chosen'' timestamp)
            (failed_stage timestamp executionTaskId code result handle r))) (\<lambda>r1.
      let r2 = spread r1 [(''state'', JStr ''input_required''), (''safeErrorCode'', code)] in
      rbind (case step of None \<Rightarrow> Inr r2 | Some k \<Rightarrow> step_failed uuid k timestamp code result handle r2) (\<lambda>r3.
        Inr (end_stage timestamp ((change (if get r3 ''state'' = JStr ''failed'' then ''failed'' else ''stage_failed''))
            \<lparr>ac_stage := get stage ''stageIndex'', ac_code := code\<rparr>) r3))))"

text \<open>\<open>None\<close> when the report is not about the current stage or the stage is over.\<close>

definition current_working_stage :: "json \<Rightarrow> json \<Rightarrow> json option" where
  "current_working_stage r executionTaskId =
     (let session = get r ''longHorizon'' in case stage_of session executionTaskId of
        None \<Rightarrow> None
      | Some stage \<Rightarrow> if get stage ''stageIndex'' = get session ''currentStageIndex'' \<and> get stage ''state'' = JStr ''working''
          then Some stage else None)"

definition finishLongHorizonStage ::
  "stage_env \<Rightarrow> (nat \<Rightarrow> string) \<Rightarrow> int \<Rightarrow> nat \<Rightarrow> json \<Rightarrow> json \<Rightarrow> json \<Rightarrow> task_store \<Rightarrow> stage_end option result" where
  "finishLongHorizonStage env uuid now i result handle executionTaskId s =
     (let r = ts_records s ! i; step = step_of r executionTaskId in
      case current_working_stage r executionTaskId of
        None \<Rightarrow> Inr None
      | Some stage \<Rightarrow> mapped Some
          (if due_by (get (get r ''longHorizon'') ''continuationExpiresAt'') now \<or> get result ''safeErrorCode'' = JStr ''ADAPTER_TASK_EXPIRED''
           then mapped (ended i s None) (stage_expired uuid (iso now) executionTaskId r)
           else if has_result result \<and> \<not> image_unsupported r result \<and> \<not> output_exceeded r step result
           then finish_completed env uuid now i result handle executionTaskId stage r step s
           else mapped (ended i s None) (finish_failed uuid (iso now) result handle executionTaskId stage step r)))"

end
