(* ===== verification/Task_Delivery.thy ===== *)
theory Task_Delivery
  imports Task_Endings
begin

text \<open>
  \<open>trySendPendingForRecord\<close> of the task service (\<open>lifecycle-sidecar/runtime/tasks/service.ts\<close>): it sends what one
  record owes its peer, the images and documents of its artifacts, its status, the pending input and the
  pending cancelation. A message that is handed to the transport is recorded at once; a message that fails is
  recorded with the time of its next attempt, or ends the sending for this record.
\<close>

section \<open>What one record owes its peer\<close>

text \<open>
  The network as the outbox sees it: the network of a peer's requests, the answer to a message of a kind
  with a payload (the safe code of the error when it fails), and the file of an artifact, when it can be made.
\<close>

record outbox =
  ob_network :: "json \<Rightarrow> network"
  ob_send :: "string \<Rightarrow> json \<Rightarrow> string option"
  ob_document :: "json \<Rightarrow> json \<Rightarrow> (json \<times> json) option"

text \<open>The record so far, whether it was saved, the messages that were handed over, and whether to go on.\<close>

record delivery =
  dv_record :: json
  dv_saved :: bool
  dv_sent :: "(string \<times> json) list"
  dv_open :: bool

definition delivering :: "json \<Rightarrow> delivery" where
  "delivering r = \<lparr>dv_record = r, dv_saved = False, dv_sent = [], dv_open = True\<rparr>"

definition go_on :: "(delivery \<Rightarrow> delivery) \<Rightarrow> delivery \<Rightarrow> delivery" where
  "go_on f d = (if dv_open d then f d else d)"

definition closed_delivery :: "delivery \<Rightarrow> delivery" where
  "closed_delivery d = d\<lparr>dv_open := False\<rparr>"

text \<open>A message is handed over and the record saved, or \<open>otherwise\<close> happens.\<close>

definition hand_over :: "outbox \<Rightarrow> string \<Rightarrow> json \<Rightarrow> (json \<Rightarrow> json) \<Rightarrow> (string \<Rightarrow> delivery \<Rightarrow> delivery) \<Rightarrow> delivery \<Rightarrow> delivery" where
  "hand_over net kind payload f otherwise d = (case ob_send net kind payload of
       None \<Rightarrow> d\<lparr>dv_record := f (dv_record d), dv_saved := True, dv_sent := dv_sent d @ [(kind, payload)]\<rparr>
     | Some code \<Rightarrow> otherwise code d)"

definition addressed :: "int \<Rightarrow> json \<Rightarrow> (string \<times> json) list \<Rightarrow> json" where
  "addressed version r rest = JObj ([(''schemaVersion'', jint version), (''taskId'', get (get r ''request'') ''taskId''),
     (''requesterTetiId'', get (get r ''request'') ''requesterTetiId''), (''targetTetiId'', get (get r ''request'') ''targetTetiId'')] @ rest)"

definition artifact_expiry :: "json \<Rightarrow> json \<Rightarrow> json" where
  "artifact_expiry r createdAt = (if truthy (get r ''longHorizon'') then get (get r ''longHorizon'') ''continuationExpiresAt''
     else iso (time_of createdAt + default_task_ttl_ms))"

definition receipts_used :: "json \<Rightarrow> bool" where
  "receipts_used r \<longleftrightarrow> 4 \<le> int_of (get r ''protocolVersion'')"

definition documents_used :: "json \<Rightarrow> bool" where
  "documents_used r \<longleftrightarrow> 7 \<le> int_of (get r ''protocolVersion'')"

definition artifact_image_payload :: "json \<Rightarrow> json \<Rightarrow> json \<Rightarrow> json" where
  "artifact_image_payload r artifact part = addressed 1 r
     ([(''purpose'', JStr ''artifact''), (''artifactId'', get artifact ''artifactId''), (''part'', part),
       (''createdAt'', get artifact ''createdAt''), (''expiresAt'', artifact_expiry r (get artifact ''createdAt''))]
      @ (if receipts_used r then [(''deliveryReceiptRequested'', JBool True)] else []))"

definition artifact_image_sent :: "int \<Rightarrow> json \<Rightarrow> json \<Rightarrow> json" where
  "artifact_image_sent now part r =
     (let i = get part ''attachmentId'';
          r1 = put r ''sentArtifactAttachmentIds'' (appendUnique (get r ''sentArtifactAttachmentIds'') i);
          r2 = (if receipts_used r then put r1 ''artifactAttachmentDeliveryAttempts''
              (recordDeliveryAttempt ''attachmentId'' (get r1 ''artifactAttachmentDeliveryAttempts'') i now) else r1)
      in markAttachmentSent r2 ''artifact'' part (iso now))"

definition send_artifact_image :: "outbox \<Rightarrow> attachment_store option \<Rightarrow> int \<Rightarrow> json \<Rightarrow> json \<Rightarrow> delivery \<Rightarrow> delivery" where
  "send_artifact_image net store now artifact part d =
     (let r = dv_record d in
      if \<not> shouldSendAttachment r (get part ''attachmentId'') ''artifact'' now then d
      else if int_of (get r ''protocolVersion'') < 3 then closed_delivery d
      else case store of
        None \<Rightarrow> closed_delivery d
      | Some store \<Rightarrow>
          if \<not> at_has store (get (get r ''request'') ''taskId'') ''artifact'' part then closed_delivery d
          else hand_over net ''attachment'' (artifact_image_payload r artifact part) (artifact_image_sent now part) (\<lambda>_. closed_delivery) d)"

text \<open>The entry of the artifact in the session tells the stage and the role of the result.\<close>

definition session_entry :: "json \<Rightarrow> json \<Rightarrow> json option" where
  "session_entry r artifact = (if \<not> truthy (get r ''longHorizon'') then None
     else find_first (\<lambda>e. get e ''artifactId'' = get artifact ''artifactId'') (items (get (get r ''longHorizon'') ''artifacts'')))"

definition staged_fields :: "json option \<Rightarrow> (string \<times> json) list" where
  "staged_fields entry = (case entry of None \<Rightarrow> []
     | Some e \<Rightarrow> [(''stageIndex'', get e ''stageIndex''), (''role'', get e ''role'')])"

definition payload_version :: "json option \<Rightarrow> int" where
  "payload_version entry = (if entry = None then 1 else 2)"

definition artifact_file_payload :: "json \<Rightarrow> json \<Rightarrow> json \<times> json \<Rightarrow> json" where
  "artifact_file_payload r artifact document =
     (let entry = session_entry r artifact in addressed (payload_version entry) r
        ([(''artifactId'', get artifact ''artifactId''), (''byteLength'', fst document), (''sha256'', snd document),
          (''createdAt'', get artifact ''createdAt''),
          (''expiresAt'', if entry = None then iso (time_of (get artifact ''createdAt'') + default_task_ttl_ms)
             else artifact_expiry r (get artifact ''createdAt'')),
          (''deliveryReceiptRequested'', JBool True)] @ staged_fields entry))"

definition artifact_payload :: "json \<Rightarrow> json \<Rightarrow> json" where
  "artifact_payload r artifact =
     (let entry = session_entry r artifact in addressed (payload_version entry) r
        ([(''artifact'', artifact), (''createdAt'', get artifact ''createdAt'')] @ staged_fields entry))"

definition artifact_file_sent :: "int \<Rightarrow> json \<Rightarrow> json \<Rightarrow> json" where
  "artifact_file_sent now artifact r =
     (let i = get artifact ''artifactId''; r1 = put r ''sentArtifactIds'' (appendUnique (get r ''sentArtifactIds'') i) in
      spread r1 [(''artifactDeliveryAttempts'', recordDeliveryAttempt ''artifactId'' (get r1 ''artifactDeliveryAttempts'') i now),
        (''artifactPending'', JBool True)])"

definition artifact_sent :: "json \<Rightarrow> json \<Rightarrow> json" where
  "artifact_sent artifact r =
     (let r1 = put r ''sentArtifactIds'' (appendUnique (get r ''sentArtifactIds'') (get artifact ''artifactId'')) in
      put r1 ''artifactPending'' (JBool (list_ex (\<lambda>a. get a ''artifactId'' \<notin> set (items (get r1 ''sentArtifactIds''))) (items (get r1 ''artifacts'')))))"

definition send_document :: "outbox \<Rightarrow> attachment_store option \<Rightarrow> int \<Rightarrow> json \<Rightarrow> delivery \<Rightarrow> delivery" where
  "send_document net store now artifact d =
     (let r = dv_record d in
      if \<not> documents_used r then hand_over net ''artifact'' (artifact_payload r artifact) (artifact_sent artifact) (\<lambda>_. closed_delivery) d
      else if store = None then closed_delivery d
      else case ob_document net (get (get r ''request'') ''taskId'') artifact of
        None \<Rightarrow> closed_delivery d
      | Some document \<Rightarrow>
          hand_over net ''artifact_file'' (artifact_file_payload r artifact document) (artifact_file_sent now artifact) (\<lambda>_. closed_delivery) d)"

definition send_artifact :: "outbox \<Rightarrow> attachment_store option \<Rightarrow> int \<Rightarrow> json \<Rightarrow> delivery \<Rightarrow> delivery" where
  "send_artifact net store now artifact d =
     go_on (send_document net store now artifact)
       (fold (\<lambda>part. go_on (send_artifact_image net store now artifact part)) (taskArtifactImages artifact) d)"

definition pending_artifacts :: "int \<Rightarrow> json \<Rightarrow> json list" where
  "pending_artifacts now r =
     (if incoming r \<and> (truthy (get r ''artifactPending'') \<or> receipts_used r)
      then filter (\<lambda>a. if documents_used r then shouldSendArtifact r (get a ''artifactId'') now
             else get a ''artifactId'' \<notin> set (items (get r ''sentArtifactIds''))) (items (get r ''artifacts''))
      else [])"

definition send_artifacts :: "outbox \<Rightarrow> attachment_store option \<Rightarrow> int \<Rightarrow> delivery \<Rightarrow> delivery" where
  "send_artifacts net store now d =
     fold (\<lambda>artifact. go_on (send_artifact net store now artifact)) (pending_artifacts now (dv_record d)) d"

section \<open>Status, input and cancelation\<close>

definition status_reference :: "json \<Rightarrow> json" where
  "status_reference r = JStr (js_string (get r ''statusRevision''))"

definition status_message :: "json \<Rightarrow> json" where
  "status_message r =
     (let session = get r ''longHorizon'' in addressed (if truthy session then 2 else 1) r
        ([(''revision'', get r ''statusRevision''), (''state'', networkTaskState (get r ''state'')), (''updatedAt'', get r ''updatedAt'')]
         @ (if truthy session then [(''longHorizon'', peerLongHorizonStatus session)] else [])
         @ if_truthy ''safeErrorCode'' (get r ''safeErrorCode'')))"

text \<open>A message with a reference: the attempt is recorded, and the failure when there is one.\<close>

definition delivery_failed :: "int \<Rightarrow> string \<Rightarrow> json \<Rightarrow> string \<Rightarrow> delivery \<Rightarrow> delivery" where
  "delivery_failed now kind ref code d =
     d\<lparr>dv_record := recordApplicationDeliveryFailure (recordApplicationDeliveryAttempt (dv_record d) kind ref now) kind ref code (iso now),
       dv_saved := True, dv_open := False\<rparr>"

definition status_due :: "int \<Rightarrow> json \<Rightarrow> bool" where
  "status_due now r \<longleftrightarrow> incoming r \<and> truthy (get r ''statusPending'') \<and> truthy (get r ''statusRevision'')
     \<and> shouldSendApplicationMessage r ''status'' (status_reference r) now"

definition send_status :: "outbox \<Rightarrow> int \<Rightarrow> delivery \<Rightarrow> delivery" where
  "send_status net now d =
     (let r = dv_record d; ref = status_reference r in
      if \<not> status_due now r then d
      else hand_over net ''status'' (status_message r) (\<lambda>r. recordApplicationDeliveryAttempt r ''status'' ref now)
        (delivery_failed now ''status'' ref) d)"

definition input_waits :: "json \<Rightarrow> bool" where
  "input_waits r \<longleftrightarrow> outgoing r \<and> truthy (get r ''inputPending'') \<and> \<not> truthy (get r ''inputAcknowledgedAt'')"

definition send_input :: "outbox \<Rightarrow> int \<Rightarrow> delivery \<Rightarrow> delivery" where
  "send_input net now d =
     (let r = dv_record d; ref = get (get r ''inputPending'') ''inputId'' in
      if \<not> input_waits r \<or> \<not> shouldSendApplicationMessage r ''input'' ref now then d
      else hand_over net ''input'' (get r ''inputPending'')
        (\<lambda>r. recordApplicationDeliveryAttempt (put r ''inputSentAt'' (iso now)) ''input'' ref now)
        (delivery_failed now ''input'' ref) d)"

definition cancel_waits :: "json \<Rightarrow> bool" where
  "cancel_waits r \<longleftrightarrow> outgoing r \<and> truthy (get r ''cancelPending'') \<and> truthy (get r ''cancelControlId'')
     \<and> \<not> truthy (get r ''cancelAcknowledgedAt'')"

definition cancel_payload :: "json \<Rightarrow> json" where
  "cancel_payload r = addressed 1 r [(''controlId'', get r ''cancelControlId''), (''requestedAt'', get r ''cancelRequestedAt'')]"

definition send_cancel :: "outbox \<Rightarrow> int \<Rightarrow> delivery \<Rightarrow> delivery" where
  "send_cancel net now d =
     (let r = dv_record d; ref = get r ''cancelControlId'' in
      if \<not> cancel_waits r \<or> \<not> truthy (get r ''cancelRequestedAt'') \<or> \<not> shouldSendApplicationMessage r ''control'' ref now then d
      else hand_over net ''cancel'' (cancel_payload r)
        (\<lambda>r. recordApplicationDeliveryAttempt (put r ''cancelSentAt'' (iso now)) ''control'' ref now)
        (delivery_failed now ''control'' ref) d)"

text \<open>Without a confirmed connection every message that waits is recorded as failed.\<close>

definition unreachable_failure :: "int \<Rightarrow> bool \<Rightarrow> string \<Rightarrow> json \<Rightarrow> json \<Rightarrow> json" where
  "unreachable_failure now b kind ref r =
     (if b then recordApplicationDeliveryFailure r kind ref ''TASK_CONNECTION_UNAVAILABLE'' (iso now) else r)"

definition unreachable :: "int \<Rightarrow> json \<Rightarrow> json" where
  "unreachable now r =
     (let r1 = unreachable_failure now (incoming r \<and> truthy (get r ''statusPending'') \<and> truthy (get r ''statusRevision''))
            ''status'' (status_reference r) r;
          r2 = unreachable_failure now (input_waits r1) ''input'' (get (get r1 ''inputPending'') ''inputId'') r1
      in unreachable_failure now (cancel_waits r2) ''control'' (get r2 ''cancelControlId'') r2)"

definition trySendPendingForRecord :: "outbox \<Rightarrow> attachment_store option \<Rightarrow> int \<Rightarrow> json \<Rightarrow> delivery" where
  "trySendPendingForRecord net store now r =
     (if \<not> n_connected (ob_network net (get r ''peerTetiId''))
      then (delivering r)\<lparr>dv_record := unreachable now r, dv_saved := unreachable now r \<noteq> r\<rparr>
      else go_on (send_cancel net now) (go_on (send_input net now) (go_on (send_status net now)
             (send_artifacts net store now (delivering r)))))"

end
