(* ===== verification/Task_Recovery.thy ===== *)
theory Task_Recovery
  imports Task_Delivery
begin

text \<open>
  \<open>finishExecution\<close>, which the executor calls when an execution ends, and what the task service does about
  executions that it finds when it starts or polls (\<open>lifecycle-sidecar/runtime/tasks/service.ts\<close>):
  \<open>reconcileInterruptedExecutions\<close>, \<open>refreshAttachmentReadiness\<close> and \<open>initializeReadModel\<close>.
\<close>

section \<open>The end of an execution\<close>

text \<open>
  What the executor knows: \<open>getExecutionHandle\<close>, when it has one, and \<open>getTask\<close>, the snapshot of a task that
  the kernel still has. Both give \<open>null\<close> for an unknown task.
\<close>

record executions =
  xs_handle :: "(json \<Rightarrow> json) option"
  xs_task :: "json \<Rightarrow> json"

definition known_handle :: "executions \<Rightarrow> json \<Rightarrow> json" where
  "known_handle x executionTaskId = (case xs_handle x of None \<Rightarrow> JUndef | Some f \<Rightarrow> f executionTaskId)"

definition finishExecution ::
  "stage_env \<Rightarrow> executions \<Rightarrow> (nat \<Rightarrow> string) \<Rightarrow> int \<Rightarrow> json \<Rightarrow> json \<Rightarrow> json \<Rightarrow> json \<Rightarrow> task_store \<Rightarrow> stage_end option outcome" where
  "finishExecution env x uuid now taskId result executionEpoch executionTaskId s =
     (case find_index (\<lambda>r. incoming r \<and> get (get r ''request'') ''taskId'' = taskId) (ts_records s) of
        None \<Rightarrow> returns None
      | Some i \<Rightarrow> (let r = ts_records s ! i; handle = known_handle x executionTaskId in
          if isTerminalTaskState (get r ''state'') then returns None
          else if truthy handle \<and> get handle ''executionEpoch'' \<noteq> executionEpoch then returns None
          else if truthy (get r ''longHorizon'')
          then after (finishLongHorizonStage env uuid now i result handle executionTaskId s)
            (\<lambda>end. case end of None \<Rightarrow> returns None | Some e \<Rightarrow> saves (se_store e) (Some e))
          else after (finishSingleStageExecution (uuid 0) now result handle executionEpoch r)
            (\<lambda>r'. saves (set_record i r' s) (Some (ended i s None r')))))"

section \<open>Reconciliation\<close>

definition upgrade_required :: "int \<Rightarrow> json \<Rightarrow> json" where
  "upgrade_required now r =
     markTaskAttentionIfChanged
       (spread r [(''state'', JStr ''rejected''), (''approval'', JStr ''rejected''), (''delivery'', JStr ''rejected''),
          (''safeErrorCode'', JStr ''TASK_PROTOCOL_UPGRADE_REQUIRED''), (''receiptPending'', JBool False),
          (''statusPending'', JBool False), (''cancelPending'', JBool False), (''artifactPending'', JBool False),
          (''updatedAt'', iso now)])
       (taskAttentionSnapshot r)"

definition protocol_unsupported :: "json \<Rightarrow> bool" where
  "protocol_unsupported r \<longleftrightarrow> get r ''protocolVersion'' \<notin> jint ` set supported_task_versions \<and> \<not> isTerminalTaskState (get r ''state'')"

definition was_resumable :: "json \<Rightarrow> bool" where
  "was_resumable handle \<longleftrightarrow> truthy handle \<and> was_interrupted handle \<and> get handle ''resumeCapability'' = JStr ''checkpoint_restart''"

definition interrupted_record :: "int \<Rightarrow> json \<Rightarrow> json \<Rightarrow> json" where
  "interrupted_record now handle r = report_end (iso now)
     (spread r [(''state'', JStr (if was_resumable handle then ''input_required'' else ''failed'')),
        (''safeErrorCode'', JStr (if was_resumable handle then ''TASK_RESUME_AVAILABLE'' else ''TASK_EXECUTION_INTERRUPTED''))])"

text \<open>
  What happened to one record: nothing, a change in memory, a change that was saved with the records as
  they are in memory, perhaps with the next step of a plan started.
\<close>

datatype recovery = Untouched | Changed task_store | Stored task_store "launch option"

text \<open>A report that is not about the current stage leaves the record, and yet counts as a change.\<close>

definition of_end :: "task_store \<Rightarrow> stage_end option \<Rightarrow> recovery" where
  "of_end s e = (case e of None \<Rightarrow> Changed s | Some e \<Rightarrow> Stored (se_store e) (se_launch e))"

definition execution_id :: "json \<Rightarrow> json" where
  "execution_id r = or_else (currentExecutionTaskId r) (get (get r ''request'') ''taskId'')"

definition still_running :: "json \<Rightarrow> bool" where
  "still_running execution \<longleftrightarrow> one_of [''submitted'', ''working''] (get execution ''state'')"

definition reconcile_record ::
  "stage_env \<Rightarrow> executions \<Rightarrow> (nat \<Rightarrow> string) \<Rightarrow> int \<Rightarrow> nat \<Rightarrow> task_store \<Rightarrow> recovery result" where
  "reconcile_record env x uuid now i s =
     (let r = ts_records s ! i; executionTaskId = execution_id r; handle = known_handle x executionTaskId;
          execution = (if ap_executor (sg_ap env) then xs_task x executionTaskId else JUndef) in
      if protocol_unsupported r then Inr (Changed (set_record i (upgrade_required now r) s))
      else if \<not> incoming r \<or> get r ''state'' \<noteq> JStr ''working'' then Inr Untouched
      else if still_running execution
      then if truthy (get r ''longHorizon'') \<and> truthy handle
        then mapped (\<lambda>u. case u of None \<Rightarrow> Untouched | Some r' \<Rightarrow> Changed (set_record i r' s)) (updateLongHorizonProgress (uuid 0) now r handle)
        else Inr Untouched
      else if truthy (get r ''longHorizon'')
      then mapped (of_end s) (finishLongHorizonStage env uuid now i (if truthy execution then execution else JNull) handle executionTaskId s)
      else if truthy execution
      then mapped (\<lambda>r'. Stored (set_record i r' s) None)
        (finishSingleStageExecution (uuid 0) now execution handle (or_else (get handle ''executionEpoch'') (jint 1)) r)
      else Inr (Changed (set_record i (interrupted_record now handle r) s)))"

text \<open>
  The state of the loop: the records in memory, what was saved last, whether anything changed, the steps that
  were started and the messages that were handed over.
\<close>

record recovery_state =
  rv_store :: task_store
  rv_saved :: "task_store option"
  rv_changed :: bool
  rv_launches :: "launch list"
  rv_sent :: "(string \<times> json) list"

definition apply_recovery :: "recovery \<Rightarrow> recovery_state \<Rightarrow> recovery_state" where
  "apply_recovery a v = (case a of
       Untouched \<Rightarrow> v
     | Changed s \<Rightarrow> v\<lparr>rv_store := s, rv_changed := True\<rparr>
     | Stored s l \<Rightarrow> v\<lparr>rv_store := s, rv_saved := Some s, rv_changed := True,
         rv_launches := rv_launches v @ (case l of None \<Rightarrow> [] | Some l \<Rightarrow> [l])\<rparr>)"

text \<open>
  Every ending that saves is followed by \<open>trySendPendingForRecord\<close> when \<open>deliverPending\<close> is set; a step that was
  started sends in \<open>startLongHorizonStage\<close>, which does not have that flag. (A step whose authority cannot be made
  has also sent its status before it failed; this first sending is not modelled.)
\<close>

definition deliver_record :: "outbox \<Rightarrow> attachment_store option \<Rightarrow> int \<Rightarrow> nat \<Rightarrow> recovery_state \<Rightarrow> recovery_state" where
  "deliver_record net store now i v =
     (let d = trySendPendingForRecord net store now (ts_records (rv_store v) ! i); s = set_record i (dv_record d) (rv_store v) in
      v\<lparr>rv_store := s, rv_saved := (if dv_saved d then Some s else rv_saved v), rv_sent := rv_sent v @ dv_sent d\<rparr>)"

definition delivers :: "bool \<Rightarrow> recovery \<Rightarrow> bool" where
  "delivers deliverPending a = (case a of Stored s l \<Rightarrow> deliverPending \<or> l \<noteq> None | _ \<Rightarrow> False)"

text \<open>The record at position \<open>i\<close> draws its identifiers from \<open>uuids i\<close>. An error leaves the loop.\<close>

fun reconcile_from ::
  "outbox \<Rightarrow> bool \<Rightarrow> stage_env \<Rightarrow> executions \<Rightarrow> (nat \<Rightarrow> nat \<Rightarrow> string) \<Rightarrow> int \<Rightarrow> nat list \<Rightarrow> recovery_state
    \<Rightarrow> recovery_state \<times> error option" where
  "reconcile_from net deliverPending env x uuids now [] v = (v, None)"
| "reconcile_from net deliverPending env x uuids now (i # is) v =
     (case reconcile_record env x (uuids i) now i (rv_store v) of
        Inl e \<Rightarrow> (v, Some e)
      | Inr a \<Rightarrow> (let v' = apply_recovery a v in reconcile_from net deliverPending env x uuids now is
          (if delivers deliverPending a then deliver_record net (ap_attachments (sg_ap env)) now i v' else v')))"

definition recovery_start :: "task_store \<Rightarrow> recovery_state" where
  "recovery_start s = \<lparr>rv_store = s, rv_saved = None, rv_changed = False, rv_launches = [], rv_sent = []\<rparr>"

definition reconcileInterruptedExecutions ::
  "outbox \<Rightarrow> bool \<Rightarrow> stage_env \<Rightarrow> executions \<Rightarrow> (nat \<Rightarrow> nat \<Rightarrow> string) \<Rightarrow> int \<Rightarrow> task_store \<Rightarrow> recovery_state \<times> error option" where
  "reconcileInterruptedExecutions net deliverPending env x uuids now s =
     reconcile_from net deliverPending env x uuids now [0..<length (ts_records s)] (recovery_start s)"

section \<open>Start\<close>

definition readiness_due :: "json \<Rightarrow> bool" where
  "readiness_due r \<longleftrightarrow> incoming r \<and> \<not> isTerminalTaskState (get r ''state'')"

definition ready_changed :: "attachment_store option \<Rightarrow> int \<Rightarrow> json \<Rightarrow> bool" where
  "ready_changed store now r \<longleftrightarrow> readiness_due r
     \<and> get (fst (areInputAttachmentsReady store now r)) ''attachmentsReady'' \<noteq> JBool (snd (areInputAttachmentsReady store now r))"

definition refresh_readiness :: "attachment_store option \<Rightarrow> int \<Rightarrow> json \<Rightarrow> json" where
  "refresh_readiness store now r =
     (if \<not> readiness_due r then r
      else if ready_changed store now r then put_ready ''attachmentsReady'' (areInputAttachmentsReady store now r)
      else fst (areInputAttachmentsReady store now r))"

definition refreshAttachmentReadiness :: "attachment_store option \<Rightarrow> int \<Rightarrow> task_store \<Rightarrow> task_store \<times> bool" where
  "refreshAttachmentReadiness store now s =
     (s\<lparr>ts_records := map (refresh_readiness store now) (ts_records s)\<rparr>, list_ex (ready_changed store now) (ts_records s))"

definition migrate_store :: "task_store \<Rightarrow> task_store" where
  "migrate_store s = s\<lparr>ts_records := migrateLegacyLongHorizonAttention (ts_records s)\<rparr>"

text \<open>
  The messages of an ending wait for the next flush (\<open>deliverPending\<close> is not set). The store is saved at the end,
  unless nothing changed.
\<close>

definition initializeReadModel ::
  "outbox \<Rightarrow> stage_env \<Rightarrow> executions \<Rightarrow> (nat \<Rightarrow> nat \<Rightarrow> string) \<Rightarrow> (nat \<Rightarrow> nat \<Rightarrow> string) \<Rightarrow> int \<Rightarrow> task_store
    \<Rightarrow> recovery_state \<times> error option" where
  "initializeReadModel net env x uuids expiry_uuids now s =
     (let s0 = migrate_store s in case reconcileInterruptedExecutions net False env x uuids now s0 of
        (v, Some e) \<Rightarrow> (v, Some e)
      | (v, None) \<Rightarrow>
          (let (s1, refreshed) = refreshLongHorizonTargets env now (rv_store v);
               (s2, ready) = refreshAttachmentReadiness (ap_attachments (sg_ap env)) now s1
           in case expireDueRecords expiry_uuids now (ts_records s2) of
             Inl e \<Rightarrow> (v, Some e)
           | Inr (rs, expired) \<Rightarrow> (let s3 = s2\<lparr>ts_records := rs\<rparr> in
               (v\<lparr>rv_store := s3, rv_saved := (if s0 \<noteq> s \<or> rv_changed v \<or> refreshed \<or> ready \<or> expired then Some s3 else rv_saved v)\<rparr>,
                None))))"

end
