(* ===== verification/Task_Outbox.thy ===== *)
theory Task_Outbox
  imports Task_Recovery
begin

text \<open>
  The outbox of the task service (\<open>lifecycle-sidecar/runtime/tasks/service.ts\<close>): \<open>flushOutbox\<close> reconciles the
  executions, expires what is due, and sends for every record its request, its receipts and what
  \<open>trySendPendingForRecord\<close> sends.
\<close>

section \<open>The whole outbox\<close>

text \<open>The receipt of the request, and the receipts of other messages, oldest first until one fails.\<close>

definition send_receipt :: "outbox \<Rightarrow> int \<Rightarrow> delivery \<Rightarrow> delivery" where
  "send_receipt net now d =
     (let r = dv_record d in
      if \<not> incoming r \<or> \<not> truthy (get r ''receiptPending'') \<or> \<not> truthy (get r ''receipt'') then d
      else if \<not> n_connected (ob_network net (get r ''peerTetiId'')) then closed_delivery d
      else hand_over net ''receipt'' (get r ''receipt'')
        (\<lambda>r. spread r [(''receiptPending'', JBool False), (''updatedAt'', iso now)]) (\<lambda>_ d. d) d)"

definition without_receipt :: "json \<Rightarrow> json \<Rightarrow> json" where
  "without_receipt receipt r = put_items r ''applicationReceiptOutbox''
     (filter (\<lambda>c. applicationReceiptKey c \<noteq> applicationReceiptKey receipt) (items (get r ''applicationReceiptOutbox'')))"

fun send_receipts :: "outbox \<Rightarrow> json list \<Rightarrow> delivery \<Rightarrow> delivery" where
  "send_receipts net [] d = d"
| "send_receipts net (receipt # receipts) d =
     (case ob_send net ''application_receipt'' receipt of
        Some code \<Rightarrow> d
      | None \<Rightarrow> send_receipts net receipts (d\<lparr>dv_record := without_receipt receipt (dv_record d), dv_saved := True,
          dv_sent := dv_sent d @ [(''application_receipt'', receipt)]\<rparr>))"

definition send_application_receipts :: "outbox \<Rightarrow> delivery \<Rightarrow> delivery" where
  "send_application_receipts net d =
     (if n_connected (ob_network net (get (dv_record d) ''peerTetiId''))
      then send_receipts net (items (get (dv_record d) ''applicationReceiptOutbox'')) d else d)"

definition send_pending :: "outbox \<Rightarrow> attachment_store option \<Rightarrow> int \<Rightarrow> delivery \<Rightarrow> delivery" where
  "send_pending net store now d = (let p = trySendPendingForRecord net store now (dv_record d) in
     d\<lparr>dv_record := dv_record p, dv_saved := dv_saved d \<or> dv_saved p, dv_sent := dv_sent d @ dv_sent p\<rparr>)"

definition flush_messages :: "outbox \<Rightarrow> attachment_store option \<Rightarrow> int \<Rightarrow> json \<Rightarrow> delivery" where
  "flush_messages net store now r =
     go_on (send_pending net store now \<circ> send_application_receipts net) (send_receipt net now (delivering r))"

text \<open>
  The request of an outgoing record and its images come first. The images are sent outside the \<open>try\<close> of the
  request: the transport's error leaves the whole flush, \<open>Inl\<close> with the record that was saved before it.
\<close>

definition request_due :: "json \<Rightarrow> bool" where
  "request_due r \<longleftrightarrow> outgoing r \<and> one_of [''queued'', ''send_failed''] (get r ''delivery'')"

definition transport_error :: error where
  "transport_error = runtime_error ''TASK_CHATMAIL_SEND_FAILED'' ''The transport refused an image.''"

definition flush_images :: "outbox \<Rightarrow> attachment_store option \<Rightarrow> int \<Rightarrow> json \<Rightarrow> json \<times> bool" where
  "flush_images net store now r =
     (let peer = ob_network net (get r ''peerTetiId'') in
      if \<not> outgoing r \<or> \<not> receipts_used r \<or> \<not> n_connected peer \<or> store = None then (r, True)
      else trySendInputAttachments peer now r)"

text \<open>
  One record. The state of the flush is the state of the reconciliation that it starts with; with it comes the
  error that leaves the flush.
\<close>

definition keep_record :: "bool \<Rightarrow> nat \<Rightarrow> json \<Rightarrow> recovery_state \<Rightarrow> recovery_state" where
  "keep_record save i r v = (let s = set_record i r (rv_store v) in
     v\<lparr>rv_store := s, rv_saved := (if save then Some s else rv_saved v)\<rparr>)"

definition flush_record ::
  "outbox \<Rightarrow> attachment_store option \<Rightarrow> (nat \<Rightarrow> string) \<Rightarrow> int \<Rightarrow> nat \<Rightarrow> recovery_state \<Rightarrow> recovery_state \<times> error option" where
  "flush_record net store uuid now i v =
     (let r = ts_records (rv_store v) ! i in
      case (if request_due r then trySendStoredRecord (ob_network net (get r ''peerTetiId'')) uuid now r else Inr r) of
        Inl e \<Rightarrow> (v, Some e)
      | Inr r1 \<Rightarrow> (let v1 = keep_record (request_due r) i r1 v; (r2, going) = flush_images net store now r1;
            v2 = keep_record (r2 \<noteq> r1) i r2 v1; d = flush_messages net store now r2 in
          if going then ((keep_record (dv_saved d) i (dv_record d) v2)\<lparr>rv_sent := rv_sent v2 @ dv_sent d\<rparr>, None)
          else (v2, Some transport_error)))"

fun flush_from ::
  "outbox \<Rightarrow> attachment_store option \<Rightarrow> (nat \<Rightarrow> nat \<Rightarrow> string) \<Rightarrow> int \<Rightarrow> nat list \<Rightarrow> recovery_state \<Rightarrow> recovery_state \<times> error option" where
  "flush_from net store uuids now [] v = (v, None)"
| "flush_from net store uuids now (i # is) v =
     (case flush_record net store (uuids i) now i v of
        (v', Some e) \<Rightarrow> (v', Some e)
      | (v', None) \<Rightarrow> flush_from net store uuids now is v')"

text \<open>
  What a flush leaves, also when it fails: the records in memory, what was saved last, the receipts and the
  messages that were handed over, the steps that were started. The request of a record and its images show in
  the record itself.
\<close>

definition flushOutbox ::
  "outbox \<Rightarrow> stage_env \<Rightarrow> executions \<Rightarrow> (nat \<Rightarrow> nat \<Rightarrow> string) \<Rightarrow> (nat \<Rightarrow> nat \<Rightarrow> string) \<Rightarrow> (nat \<Rightarrow> nat \<Rightarrow> string) \<Rightarrow> int \<Rightarrow> task_store
    \<Rightarrow> recovery_state \<times> error option" where
  "flushOutbox net env x uuids expiry_uuids request_uuids now s =
     (let store = ap_attachments (sg_ap env) in case reconcileInterruptedExecutions net True env x uuids now s of
        (v, Some e) \<Rightarrow> (v, Some e)
      | (v, None) \<Rightarrow> (case expireDueRecords expiry_uuids now (ts_records (rv_store v)) of
          Inl e \<Rightarrow> (v, Some e)
        | Inr (rs, _) \<Rightarrow> (case flush_from net store request_uuids now [0..<length rs] (v\<lparr>rv_store := (rv_store v)\<lparr>ts_records := rs\<rparr>\<rparr>) of
            (v', Some e) \<Rightarrow> (v', Some e)
          | (v', None) \<Rightarrow> (let s' = fst (refreshAttachmentReadiness store now (rv_store v')) in
              (v'\<lparr>rv_store := s', rv_saved := Some s'\<rparr>, None)))))"

end
