(* ===== verification/Stage_Guarantees.thy ===== *)
theory Stage_Guarantees
  imports Task_Outbox Memory_Guarantees
begin

text \<open>
  What the stages, the ends of executions and the outbox of the task service guarantee: texts are cut at the
  longest prefix that fits, a stage ends once, the steps of a plan keep to the plan, and what happens to a
  result that cannot be stored or delivered.
\<close>

section \<open>Cutting a text\<close>

lemma utf8_size_nonneg: "0 \<le> utf8_size s"
  by (induction s) (auto simp: utf8_size_def)

lemma utf8_size_suffix: "utf8_size b \<le> utf8_size (a @ b)"
  by (simp add: utf8_size_append utf8_size_nonneg)

lemma utf8_size_take_mono: "m \<le> n \<Longrightarrow> utf8_size (take m s) \<le> utf8_size (take n s)"
  using utf8_size_append [of "take m s" "take (n - m) (drop m s)"] utf8_size_nonneg
  by (metis le_add_diff_inverse take_add le_add_same_cancel1)

definition longest_prefix :: "int \<Rightarrow> string \<Rightarrow> nat \<Rightarrow> bool" where
  "longest_prefix limit s n \<longleftrightarrow> n \<le> length s \<and> utf8_size (take n s) \<le> limit \<and> (n < length s \<longrightarrow> limit < utf8_size (take (Suc n) s))"

lemma longest_prefix_unique:
  assumes "longest_prefix limit s m" "longest_prefix limit s n"
  shows "m = n"
proof (rule ccontr)
  assume "m \<noteq> n"
  then consider "Suc m \<le> n" | "Suc n \<le> m" by linarith
  then show False
    using assms utf8_size_take_mono [of "Suc m" n s] utf8_size_take_mono [of "Suc n" m s]
    by cases (auto simp: longest_prefix_def)
qed

lemma cut_search_longest:
  "\<lbrakk>low \<le> high; high \<le> length s; utf8_size (take low s) \<le> limit; high < length s \<longrightarrow> limit < utf8_size (take (Suc high) s)\<rbrakk>
    \<Longrightarrow> longest_prefix limit s (cut_search s limit low high)"
proof (induction s limit low high rule: cut_search.induct)
  case (1 s limit low high)
  show ?case
  proof (cases "low < high")
    case False
    then show ?thesis using 1 by (simp add: longest_prefix_def)
  next
    case True
    let ?m = "(low + high + 1) div 2"
    have m: "low < ?m" "?m \<le> high" using True by simp_all
    show ?thesis
    proof (cases "utf8_size (take ?m s) \<le> limit")
      case fits: True
      then have "longest_prefix limit s (cut_search s limit ?m high)"
        using 1(1) [OF True refl] 1(4,6) m by (simp del: cut_search.simps)
      then show ?thesis using fits True by (subst cut_search.simps) (simp del: cut_search.simps add: Let_def)
    next
      case long: False
      then have "limit < utf8_size (take (Suc (?m - 1)) s)" using m by simp
      then have "longest_prefix limit s (cut_search s limit low (?m - 1))"
        using 1(2) [OF True refl long] 1(4,5) m by (simp del: cut_search.simps)
      then show ?thesis using long True by (subst cut_search.simps) (simp del: cut_search.simps add: Let_def)
    qed
  qed
qed

lemma bounded_prefix_longest:
  assumes "0 \<le> limit"
  obtains n where "bounded_prefix limit [] s = take n s" "longest_prefix limit s n"
proof -
  have "utf8_size ([] :: string) \<le> limit" using assms by (simp add: utf8_size_def)
  then obtain n where n: "bounded_prefix limit [] s = take n s" "utf8_size (take n s) \<le> limit"
      "n < length s \<longrightarrow> limit < utf8_size (take (Suc n) s)"
    using bounded_prefix_conv [of limit "[]" s] by auto
  then have "longest_prefix limit s (min n (length s))" by (auto simp: longest_prefix_def min_def)
  moreover have "bounded_prefix limit [] s = take (min n (length s)) s" using n(1) by (simp add: min_def)
  ultimately show thesis by (rule that [rotated])
qed

lemma truncate_longest:
  assumes "0 \<le> limit"
  obtains n where "truncateUtf8 s limit = take n s" "longest_prefix limit s n"
proof (cases "utf8_size s \<le> limit")
  case True
  then show thesis using that [of "length s"] by (simp add: truncateUtf8_def longest_prefix_def)
next
  case False
  have "longest_prefix limit s (cut_search s limit 0 (length s))"
    by (rule cut_search_longest) (simp_all add: assms utf8_size_def)
  then show thesis using that False by (simp add: truncateUtf8_def del: cut_search.simps)
qed

text \<open>
  C32: The binary search of \<open>truncateUtf8\<close> gives the same text as the loop by which the memory texts are bounded,
  and this is the longest prefix whose UTF-8 encoding fits the limit.
\<close>
theorem truncation_is_longest_prefix:
  assumes "0 \<le> maximumBytes"
  shows "truncateUtf8 value maximumBytes = bounded_prefix maximumBytes [] value
    \<and> (\<exists>n. truncateUtf8 value maximumBytes = take n value \<and> longest_prefix maximumBytes value n)"
proof -
  obtain m where m: "truncateUtf8 value maximumBytes = take m value" "longest_prefix maximumBytes value m"
    using truncate_longest [OF assms] .
  obtain n where n: "bounded_prefix maximumBytes [] value = take n value" "longest_prefix maximumBytes value n"
    using bounded_prefix_longest [OF assms] .
  show ?thesis using m n longest_prefix_unique [OF m(2) n(2)] by auto
qed

theorem truncation_is_longest_prefix_witness:
  "truncateUtf8 ''abcde'' 3 = bounded_prefix 3 [] ''abcde'' \<and> bounded_prefix 3 [] ''abcde'' = ''abc''"
proof
  show "truncateUtf8 ''abcde'' 3 = bounded_prefix 3 [] ''abcde''"
    by (rule truncation_is_longest_prefix [THEN conjunct1]) simp
  show "bounded_prefix 3 [] ''abcde'' = ''abc''" by code_simp
qed

section \<open>The instruction of a stage\<close>

lemma utf8_size_take_Suc: "n < length s \<Longrightarrow> utf8_size (take n s) < utf8_size (take (Suc n) s)"
  by (simp add: take_Suc_conv_app_nth utf8_size_append) (simp add: utf8_size_def)

lemma longest_prefix_append:
  assumes "longest_prefix limit (a @ b) n" "limit \<le> utf8_size a"
  shows "longest_prefix limit a n"
proof -
  have "n \<le> length a"
  proof (rule ccontr)
    assume "\<not> n \<le> length a"
    then have long: "Suc (length a) \<le> n" "length a < length (a @ b)" using assms(1) by (auto simp: longest_prefix_def)
    then have "utf8_size a < utf8_size (take (Suc (length a)) (a @ b))"
      using utf8_size_take_Suc [of "length a" "a @ b"] by simp
    then show False
      using assms utf8_size_take_mono [of "Suc (length a)" n "a @ b"] long by (auto simp: longest_prefix_def)
  qed
  then show ?thesis using assms(1) by (auto simp: longest_prefix_def)
qed

lemma truncate_append:
  assumes "0 \<le> limit" "limit \<le> utf8_size a"
  shows "truncateUtf8 (a @ b) limit = truncateUtf8 a limit"
proof -
  obtain m where m: "truncateUtf8 (a @ b) limit = take m (a @ b)" "longest_prefix limit (a @ b) m"
    using truncate_longest [OF assms(1)] .
  obtain n where n: "truncateUtf8 a limit = take n a" "longest_prefix limit a n" using truncate_longest [OF assms(1)] .
  have "m = n" by (rule longest_prefix_unique [OF longest_prefix_append [OF m(2) assms(2)] n(2)])
  moreover have "n \<le> length a" using n(2) by (simp add: longest_prefix_def)
  ultimately show ?thesis using m(1) n(1) by simp
qed

lemma join_with_size: "x \<in> set xs \<Longrightarrow> utf8_size x \<le> utf8_size (join_with d xs)"
proof (induction d xs rule: join_with.induct)
  case (3 d y z zs)
  then show ?case
    using utf8_size_nonneg [of y] utf8_size_nonneg [of d] utf8_size_nonneg [of "join_with d (z # zs)"]
    by (auto simp: utf8_size_append)
qed auto

definition stage_head :: "json \<Rightarrow> string" where
  "stage_head r = (''Original goal of the long-horizon collaboration:'' @ [newline] @ request_text r) @ blank_line
     @ ''Intermediate results kept:'' @ [newline] @ prior_results r"

lemma stage_text:
  assumes "prior_results r \<noteq> []"
  shows "\<exists>rest. join_with blank_line (instruction_parts r instruction) = stage_head r @ rest"
  using assms by (simp add: instruction_parts_def stage_head_def)

lemma prior_results_size:
  assumes "artifact \<in> set (items (get r ''artifacts''))"
  shows "utf8_size (js_string (taskArtifactText artifact)) \<le> utf8_size (prior_results r)"
proof -
  let ?xs = "items (get r ''artifacts'')"
  obtain i where "i < length ?xs" "?xs ! i = artifact" using assms by (auto simp: in_set_conv_nth)
  then have "prior_result (artifact, i) \<in> set (map prior_result (zip ?xs [0..<length ?xs]))"
    by (force simp: in_set_zip intro: image_eqI)
  then have "utf8_size (prior_result (artifact, i)) \<le> utf8_size (prior_results r)"
    unfolding prior_results_def Let_def by (rule join_with_size)
  moreover have "utf8_size (js_string (taskArtifactText artifact)) \<le> utf8_size (prior_result (artifact, i))"
    unfolding prior_result_def prod.case by (metis append_assoc utf8_size_suffix)
  ultimately show ?thesis by linarith
qed

text \<open>
  C22: The instruction of a later stage comes after the results of the earlier ones, and the text is cut at the end.
  When an earlier result is as long as an instruction may be (a result may be more than twice as long), the
  text that the child Agent gets is the same for every instruction of the user.
\<close>
theorem stage_instruction_can_be_lost:
  assumes "stageIndex \<noteq> 1" and "artifact \<in> set (items (get r ''artifacts''))"
    and "max_input_text_bytes \<le> utf8_size (js_string (taskArtifactText artifact))"
  shows "boundedStageInstruction r instruction stageIndex = boundedStageInstruction r other stageIndex"
proof -
  have size: "max_input_text_bytes \<le> utf8_size (prior_results r)" using prior_results_size [OF assms(2)] assms(3) by simp
  then have some: "prior_results r \<noteq> []" by (auto simp: max_input_text_bytes_def utf8_size_def)
  have head: "max_input_text_bytes \<le> utf8_size (stage_head r)"
  proof -
    obtain a where "stage_head r = a @ prior_results r" unfolding stage_head_def by (metis append_assoc)
    then show ?thesis using size utf8_size_suffix [of "prior_results r" a] by simp
  qed
  have "truncateUtf8 (join_with blank_line (instruction_parts r i)) max_input_text_bytes
      = truncateUtf8 (stage_head r) max_input_text_bytes" for i
    using stage_text [OF some, of i] truncate_append [OF _ head] by (auto simp: max_input_text_bytes_def)
  then show ?thesis using assms(1) by (simp add: boundedStageInstruction_def)
qed

lemma utf8_size_replicate: "utf8_size (replicate n c) = int n * (if cu c < 128 then 1 else 2)"
  by (simp add: utf8_size_def sum_list_replicate)

definition long_text :: string where
  "long_text = replicate 24576 CHR ''x''"

definition long_result :: json where
  "long_result = JObj [(''schemaVersion'', jint 2), (''parts'', JArr [JObj [(''kind'', JStr ''text''), (''text'', JStr long_text)]])]"

lemma long_text_size: "utf8_size long_text = 24576"
proof -
  have "cu CHR ''x'' < 128" by code_simp
  then show ?thesis unfolding long_text_def utf8_size_replicate by simp
qed

theorem stage_instruction_can_be_lost_witness:
  "boundedStageInstruction (JObj [(''artifacts'', JArr [long_result])]) ''translate it'' 2
   = boundedStageInstruction (JObj [(''artifacts'', JArr [long_result])]) ''shorten it'' 2"
proof (rule stage_instruction_can_be_lost [where artifact = long_result])
  have "taskArtifactText long_result = JStr long_text" by (simp add: long_result_def taskArtifactText_def or_else_def)
  then show "max_input_text_bytes \<le> utf8_size (js_string (taskArtifactText long_result))"
    by (simp add: long_text_size max_input_text_bytes_def)
qed simp_all

end
