(* ===== verification/Stage_Ends.thy ===== *)
theory Stage_Ends
  imports Stage_Guarantees Task_Guarantees
begin

text \<open>
  A stage of a collaboration ends once: whatever the end of a stage does to the record, and whether it starts
  the next step of a plan, the stage is no longer working, so that a second report of the same execution
  changes nothing.
\<close>

section \<open>The stages of a record\<close>

definition stages_of :: "json \<Rightarrow> json list" where
  "stages_of r = items (get (get r ''longHorizon'') ''stages'')"

text \<open>A stage with the execution is there, and the first one is not working.\<close>

definition stage_over :: "json \<Rightarrow> json \<Rightarrow> bool" where
  "stage_over i r \<longleftrightarrow> (case find_first (runs_as i) (stages_of r) of None \<Rightarrow> False | Some st \<Rightarrow> get st ''state'' \<noteq> JStr ''working'')"

lemma stage_over_not_current: "stage_over i r \<Longrightarrow> current_working_stage r i = None"
  by (auto simp: stage_over_def current_working_stage_def stage_of_def stages_of_def Let_def split: option.splits)

definition keeps_stages :: "json \<Rightarrow> json \<Rightarrow> bool" where
  "keeps_stages r r' \<longleftrightarrow> (\<exists>more. stages_of r' = stages_of r @ more)"

lemma keeps_stages_refl: "stages_of r' = stages_of r \<Longrightarrow> keeps_stages r r'"
  by (simp add: keeps_stages_def)

lemma keeps_stages_trans: "keeps_stages a b \<Longrightarrow> keeps_stages b c \<Longrightarrow> keeps_stages a c"
  by (auto simp: keeps_stages_def)

lemma stage_over_keeps: "keeps_stages r r' \<Longrightarrow> stage_over i r \<Longrightarrow> stage_over i r'"
  by (auto simp: keeps_stages_def stage_over_def find_first_append split: option.splits)

text \<open>Changes of other fields, of the session beside its stages, and of the plan.\<close>

named_theorems stages "operations that leave the stages of a record"

lemma stages_of_put [stages]: "k \<noteq> ''longHorizon'' \<Longrightarrow> stages_of (put r k x) = stages_of r"
  by (simp add: stages_of_def get_put)

lemma stages_of_spread [stages]: "''longHorizon'' \<notin> fst ` set xs \<Longrightarrow> stages_of (spread r xs) = stages_of r"
  by (simp add: stages_of_def get_spread map_of_eq_None_iff split: option.split)
     (metis map_of_eq_None_iff option.distinct(1))

lemma stages_of_del [stages]: "''longHorizon'' \<notin> set ks \<Longrightarrow> stages_of (del r ks) = stages_of r"
  by (simp add: stages_of_def get_del)

lemma stages_of_bump [stages]: "stages_of (bump_status r) = stages_of r"
  by (simp add: stages_of_def get_bump_status)

lemma stages_of_mark [stages]: "stages_of (markTaskAttention r c) = stages_of r"
  by (simp add: stages_of_def frame)

lemma stages_of_on_plan [stages]: "stages_of (on_plan f r) = stages_of r"
  by (simp add: on_plan_def stages)

lemma stages_of_on_step [stages]: "stages_of (on_step k xs r) = stages_of r"
  by (simp add: on_step_def stages)

lemma stages_of_session: "stages_of (put r ''longHorizon'' session) = items (get session ''stages'')"
  by (simp add: stages_of_def get_put)

lemma stages_of_on_session [stages]:
  "(\<And>v. get (f v) ''stages'' = get v ''stages'') \<Longrightarrow> stages_of (on_session f r) = stages_of r"
  by (simp add: on_session_def stages_of_def get_put)

lemma audit_stages: "appendLongHorizonAudit i session e t = Inr s \<Longrightarrow> get s ''stages'' = get session ''stages''"
  unfolding appendLongHorizonAudit_def append_audit_Inr by (auto simp: get_spread)

lemma audited_stages [stages]: "audited uuid n t es r = Inr r' \<Longrightarrow> stages_of r' = stages_of r"
proof (induction uuid n t es r rule: audited.induct)
  case (2 uuid n t e es r)
  then obtain s where s: "appendLongHorizonAudit (uuid n) (get r ''longHorizon'') e t = Inr s"
      "audited uuid (Suc n) t es (put r ''longHorizon'' s) = Inr r'" by (auto simp: rbind_Inr_conv)
  show ?case using 2(1) [OF s(2)] audit_stages [OF s(1)] by (simp add: stages_of_def get_put)
qed simp

lemma plan_audited_stages [stages]: "plan_audited uuid n t es r = Inr r' \<Longrightarrow> stages_of r' = stages_of r"
proof (induction uuid n t es r rule: plan_audited.induct)
  case (2 uuid n t e es r)
  then show ?case by (auto simp: rbind_Inr_conv stages)
qed simp

lemma expire_session_stages: "expire_session i session t = Inr s \<Longrightarrow> get s ''stages'' = get session ''stages''"
  unfolding expire_session_def by (drule audit_stages) (simp add: get_spread)

lemma expireRecord_stages [stages]:
  assumes "expireRecord uuid r t = Inr r'"
  shows "stages_of r' = stages_of r"
proof -
  let ?session = "get r ''longHorizon''" and ?plan = "get r ''delegationPlan''"
  obtain r2 where r2: "(if truthy ?session \<and> get ?session ''phase'' \<noteq> JStr ''expired''
      then rbind (expire_session (uuid 0) ?session t) (\<lambda>s. Inr (put (expire_flags r) ''longHorizon'' s)) else Inr (expire_flags r)) = Inr r2"
    and "rbind (if truthy ?plan \<and> \<not> plan_ended ?plan
             then rbind (cancel_plan (uuid 1) ''host'' ''TASK_EXPIRED'' ?plan t) (\<lambda>p. Inr (put r2 ''delegationPlan'' p)) else Inr r2)
      (\<lambda>r3. let r4 = expire_delivery r3 t in Inr (if attention_changed r4 (taskAttentionSnapshot r)
            then markTaskAttention r4 ((change ''expired'')\<lparr>ac_code := JStr ''TASK_EXPIRED'', ac_at := t\<rparr>) else r4)) = Inr r'"
    using assms unfolding expireRecord_def Let_def rbind_Inr_conv by blast
  then obtain r3 where plan: "(if truthy ?plan \<and> \<not> plan_ended ?plan
             then rbind (cancel_plan (uuid 1) ''host'' ''TASK_EXPIRED'' ?plan t) (\<lambda>p. Inr (put r2 ''delegationPlan'' p)) else Inr r2) = Inr r3"
    and r': "r' = (if attention_changed (expire_delivery r3 t) (taskAttentionSnapshot r)
       then markTaskAttention (expire_delivery r3 t) ((change ''expired'')\<lparr>ac_code := JStr ''TASK_EXPIRED'', ac_at := t\<rparr>)
       else expire_delivery r3 t)"
    unfolding Let_def rbind_Inr_conv by blast
  have r3: "stages_of r3 = stages_of r2" using plan by (auto simp: rbind_Inr_conv stages split: if_splits)
  have r': "stages_of r' = stages_of (expire_delivery r3 t)" unfolding r' by (simp add: stages)
  have "stages_of (expire_delivery r3 t) = stages_of r3" by (simp add: stages_of_def frame)
  moreover have "stages_of r2 = stages_of r"
    using r2 by (auto simp: rbind_Inr_conv stages_of_session expire_flags_def stages stages_of_def [of r]
        dest: expire_session_stages split: if_splits)
  ultimately show ?thesis using r3 r' by simp
qed

section \<open>The end of a stage\<close>

declare audited.simps [simp del] plan_audited.simps [simp del]

lemma find_first_update_first:
  "(\<And>x. P x \<Longrightarrow> P (f x)) \<Longrightarrow> find_first P (update_first P f xs) = map_option f (find_first P xs)"
  by (induction xs) auto

lemma stages_of_update:
  "stages_of (on_session (update_stage i f) r) = update_first (runs_as i) f (stages_of r)"
  by (simp add: on_session_def update_stage_def stages_of_def get_put)

lemma stage_over_update:
  assumes "find_first (runs_as i) (stages_of r) = Some st"
    and "\<And>x. get (f x) ''executionTaskId'' = get x ''executionTaskId''" and "get (f st) ''state'' \<noteq> JStr ''working''"
  shows "stage_over i (on_session (update_stage i f) r)"
proof -
  have "find_first (runs_as i) (update_first (runs_as i) f (stages_of r)) = Some (f st)"
    using assms(1,2) by (subst find_first_update_first) (auto simp: runs_as_def)
  then show ?thesis using assms(3) by (simp add: stage_over_def stages_of_update)
qed

lemma stage_over_ignored:
  assumes "stage_over i r" and "\<And>x. get (f x) ''executionTaskId'' = get x ''executionTaskId''" "\<And>x. get (f x) ''state'' = get x ''state''"
  shows "stage_over i (on_session (update_stage i f) r)"
proof -
  obtain st where st: "find_first (runs_as i) (stages_of r) = Some st" "get st ''state'' \<noteq> JStr ''working''"
    using assms(1) by (auto simp: stage_over_def split: option.splits)
  show ?thesis by (rule stage_over_update [OF st(1) assms(2)]) (simp add: assms(3) st(2))
qed

lemma stage_over_same: "stages_of r' = stages_of r \<Longrightarrow> stage_over i r' = stage_over i r"
  by (simp add: stage_over_def)

lemma current_found: "current_working_stage r i = Some st \<Longrightarrow> find_first (runs_as i) (stages_of r) = Some st"
  by (auto simp: current_working_stage_def stage_of_def stages_of_def Let_def split: option.splits if_splits)

lemma get_await_input [simp]: "get (await_input a b c d e f session) ''stages'' = get session ''stages''"
  by (simp add: await_input_def get_spread)

lemma get_conflict_session [simp]: "get (conflict_session uuid t stage session) ''stages'' = get session ''stages''"
  by (simp add: conflict_session_def get_spread)

lemma get_push: "get (push k x v) k' = (if k' = k then JArr (items (get v k) @ [x]) else get v k')"
  by (simp add: push_def get_put)

lemma expired_over:
  assumes "stage_expired uuid t i r = Inr r'" "current_working_stage r i = Some st"
  shows "stage_over i r'"
proof -
  obtain r1 where r1: "expireRecord uuid r t = Inr r1" and r': "r' = on_stage i [(''state'', JStr ''canceled''),
      (''safeErrorCode'', JStr ''TASK_EXPIRED''), (''updatedAt'', t), (''completedAt'', t)] r1"
    using assms(1) by (auto simp: stage_expired_def rbind_Inr_conv)
  have "find_first (runs_as i) (stages_of r1) = Some st" using expireRecord_stages [OF r1] current_found [OF assms(2)] by simp
  then show ?thesis unfolding r' on_stage_def by (rule stage_over_update) (simp_all add: get_spread)
qed

lemma conflict_plan_stages [stages]: "conflict_plan uuid t step r = Inr r' \<Longrightarrow> stages_of r' = stages_of r"
  by (auto simp: conflict_plan_def stages split: option.splits dest!: plan_audited_stages)

lemma conflict_over:
  assumes "workspace_conflict uuid t i stage step r = Inr r'" "current_working_stage r i = Some st"
  shows "stage_over i r'"
proof -
  let ?r0 = "put r ''artifacts'' (JArr (items (get r ''artifacts'')))"
  let ?r1 = "on_stage i [(''artifactIds'', JArr []), (''state'', JStr ''failed''), (''safeErrorCode'', conflict_code),
      (''progress'', task_progress ''failed'' JNull JNull ''Workspace revision conflict'' t), (''updatedAt'', t), (''completedAt'', t)] ?r0"
  obtain r2 r3 where r2: "stages_of r2 = stages_of (on_session (conflict_session uuid t stage) ?r1)"
    and r3: "stages_of r3 = stages_of r2" and r': "stages_of r' = stages_of r3"
    using assms(1) unfolding workspace_conflict_def Let_def rbind_Inr_conv
    by (elim exE conjE) (auto simp: stages dest!: audited_stages conflict_plan_stages)
  have "find_first (runs_as i) (stages_of ?r0) = Some st" using current_found [OF assms(2)] by (simp add: stages)
  then have "stage_over i ?r1" unfolding on_stage_def by (rule stage_over_update) (simp_all add: get_spread)
  then show ?thesis using r2 r3 r' by (simp add: stage_over_def stages)
qed

lemma step_failed_stages [stages]: "step_failed uuid k t code result handle r = Inr r' \<Longrightarrow> stages_of r' = stages_of r"
  unfolding step_failed_def Let_def rbind_Inr_conv
  by (elim exE conjE) (auto simp: stages get_spread dest!: plan_audited_stages)

lemma failed_over:
  assumes "finish_failed uuid t result handle i stage step r = Inr r'" "current_working_stage r i = Some st"
  shows "stage_over i r'"
proof -
  let ?code = "failure_code r step result handle"
  let ?r1 = "failed_stage t i ?code result handle r"
  obtain f r2 r3 where f: "\<And>v. get (f v) ''stages'' = get v ''stages''" and r2: "stages_of r2 = stages_of (on_session f ?r1)"
    and r3: "stages_of r3 = stages_of r2" and r': "stages_of r' = stages_of r3"
    using assms(1) unfolding finish_failed_def Let_def rbind_Inr_conv
    by (elim exE conjE, intro that) (auto simp: stages get_put end_stage_def dest!: audited_stages step_failed_stages split: option.splits)
  have "stage_over i ?r1" unfolding failed_stage_def on_stage_def
    by (rule stage_over_update [OF current_found [OF assms(2)]]) (simp_all add: get_spread failed_state_def)
  then show ?thesis using r2 r3 r' f by (simp add: stage_over_def stages)
qed

section \<open>A stage that completes and the next step\<close>

lemma adopt_stages [stages]: "stages_of (adopt_revision v r) = stages_of r"
  by (auto simp: adopt_revision_def stages get_put split: option.split)

lemma completed_stage_over:
  assumes "find_first (runs_as i) (stages_of r) = Some st"
  shows "stage_over i (completed_stage t i artifact r)"
  unfolding completed_stage_def
  by (rule stage_over_update [where st = st]) (simp_all add: assms with_artifact_def stages get_spread get_push)

lemma published_over:
  assumes "stage_over i r"
  shows "stage_over i (published digest c t i stage artifact r)"
  unfolding published_def Let_def on_stage_def
  by (rule stage_over_ignored) (simp_all add: assms get_spread stage_over_def [of i "on_session f r" for f r] stages get_push
    stage_over_def [symmetric])

lemma step_published_stages [stages]:
  "step_published uuid k t stage artifact r = Inr r' \<Longrightarrow> stages_of r' = stages_of r"
  unfolding step_published_def Let_def rbind_Inr_conv
  by (elim exE conjE) (auto simp: stages get_put completed_step_def Let_def dest!: audited_stages plan_audited_stages)

lemma stage_boundary_stages [stages]: "stage_boundary uuid t stage artifact r = Inr r' \<Longrightarrow> stages_of r' = stages_of r"
  unfolding stage_boundary_def Let_def rbind_Inr_conv
  by (elim exE conjE) (auto simp: stages dest!: audited_stages)

lemma end_stage_stages [stages]: "stages_of (end_stage t c r) = stages_of r"
  by (simp add: end_stage_def stages get_put)

lemma next_step_failed_stages [stages]:
  "next_step_failed e k code t stage r = Inr r' \<Longrightarrow> stages_of r' = stages_of r"
  unfolding next_step_failed_def Let_def rbind_Inr_conv guarded_Inr_conv
  by (elim exE conjE) (auto simp: stages get_spread failed_as_def dest!: plan_audited_stages)

lemma initializeAttachmentDiagnostics_stages [stages]: "stages_of (initializeAttachmentDiagnostics r p parts) = stages_of r"
  by (simp add: initializeAttachmentDiagnostics_def Let_def stages)

lemma start_aggregation_stages [stages]: "start_aggregation uuid t k r = Inr r' \<Longrightarrow> stages_of r' = stages_of r"
  unfolding start_aggregation_def by (drule plan_audited_stages) (simp add: stages)

lemma end_aggregation_stages [stages]: "end_aggregation uuid t k final r = Inr r' \<Longrightarrow> stages_of r' = stages_of r"
  unfolding end_aggregation_def Let_def by (drule plan_audited_stages) (simp add: stages with_artifact_def)

lemma completeDelegation_stages [stages]:
  assumes "completeDelegation uuid t r = Inr r'"
  shows "stages_of r' = stages_of r"
proof -
  let ?k = "length (items (get (get r ''delegationPlan'') ''steps'')) - 1"
  obtain r1 r2 r3 final where "start_aggregation uuid t ?k r = Inr r1" "end_aggregation uuid t ?k final r1 = Inr r2"
    "stages_of r3 = stages_of (on_session (completed_session t final (get (get r2 ''delegationPlan'') ''maximumChildCalls'')) r2)"
    "r' = completed_record t r3"
    using assms unfolding completeDelegation_def Let_def
    by (auto simp: rbind_Inr_conv guarded_Inr_conv dest!: audited_stages split: if_splits)
  then show ?thesis
    by (simp add: completed_record_def stages completed_session_def get_spread get_push
        start_aggregation_stages end_aggregation_stages)
qed

text \<open>The start of a stage adds stages to the record and changes none.\<close>

lemma nth_set_record: "i < length (ts_records s) \<Longrightarrow> ts_records (set_record i r s) ! i = r"
  by (simp add: set_record_def)

lemma refresh_stages [stages]: "stages_of (refresh_record env now r) = stages_of r"
  by (simp add: refresh_record_def stages_of_def get_put get_spread)

lemma append_events_stages: "append_events uuid n t session es = (session', e) \<Longrightarrow> get session' ''stages'' = get session ''stages''"
  by (induction uuid n t session es rule: append_events.induct) (auto split: sum.splits dest: audit_stages)

lemma begin_plan_stages: "begin_plan e x t step r = (r', err) \<Longrightarrow> stages_of r' = stages_of r"
  by (auto simp: begin_plan_def Let_def stages split: option.splits sum.splits)

definition result_store :: "stage_result \<Rightarrow> task_store" where
  "result_store a = (case a of Refused s e \<Rightarrow> s | LeaseOver s e \<Rightarrow> s | Started s l \<Rightarrow> s)"

lemma run_stage_keeps:
  assumes "i < length (ts_records s)"
  shows "keeps_stages (ts_records s ! i) (ts_records (result_store (run_stage env uuid now i q instruction epoch s)) ! i)
    \<and> length (ts_records (result_store (run_stage env uuid now i q instruction epoch s))) = length (ts_records s)"
proof -
  let ?r = "ts_records s ! i"
  have session: "keeps_stages ?r (put r1 ''longHorizon'' session')"
    if "append_events uuid n t (begin_stage k entry b t (get ?r ''longHorizon'')) es = (session', e)" for r1 session' n t k entry b es e
    using append_events_stages [OF that] by (simp add: keeps_stages_def begin_stage_def get_spread stages_of_def get_put)
  have running: "keeps_stages ?r (stage_running k t r1)" if "keeps_stages ?r r1" for k t r1
    using that by (simp add: stage_running_def keeps_stages_def stages)
  show ?thesis unfolding run_stage_def Let_def
    using assms by (auto simp: result_store_def set_record_def split: prod.splits option.splits
      dest: begin_plan_stages intro: keeps_stages_refl session running)
qed

lemma startLongHorizonStage_keeps:
  assumes "i < length (ts_records s)"
  shows "keeps_stages (ts_records s ! i) (ts_records (result_store (startLongHorizonStage env uuid now i q s)) ! i)
    \<and> length (ts_records (result_store (startLongHorizonStage env uuid now i q s))) = length (ts_records s)"
proof -
  let ?s1 = "fst (refreshLongHorizonTargets env now s)"
  have s1: "length (ts_records ?s1) = length (ts_records s)" "keeps_stages (ts_records s ! i) (ts_records ?s1 ! i)"
    using assms by (auto simp: refreshLongHorizonTargets_def stages intro: keeps_stages_refl)
  have run: "keeps_stages (ts_records s ! i) (ts_records (result_store (run_stage env uuid now i q instruction epoch ?s1)) ! i)
    \<and> length (ts_records (result_store (run_stage env uuid now i q instruction epoch ?s1))) = length (ts_records s)" for instruction epoch
    using run_stage_keeps [of i ?s1 env uuid now q instruction epoch] s1 assms by (auto intro: keeps_stages_trans)
  show ?thesis unfolding startLongHorizonStage_def Let_def
    using assms s1 run by (auto simp: result_store_def set_record_def keeps_stages_refl expireRecord_stages split: sum.splits)
qed

lemma startDelegationStep_keeps:
  assumes "i < length (ts_records s)"
  shows "keeps_stages (ts_records s ! i) (ts_records (result_store (startDelegationStep env uuid now i k s)) ! i)
    \<and> length (ts_records (result_store (startDelegationStep env uuid now i k s))) = length (ts_records s)"
proof -
  define good where "good a \<longleftrightarrow> keeps_stages (ts_records s ! i) (ts_records (result_store a) ! i)
    \<and> length (ts_records (result_store a)) = length (ts_records s)" for a
  have refused: "good (Refused s e)" for e by (simp add: good_def result_store_def keeps_stages_refl)
  have start: "good (startLongHorizonStage env uuid now i q (set_record i (put (ts_records s ! i) ''delegationPlan'' p) s))" for q p
    using startLongHorizonStage_keeps [of i "set_record i (put (ts_records s ! i) ''delegationPlan'' p) s" env uuid now q] assms
    by (simp add: good_def set_record_def keeps_stages_def stages)
  have "good (startDelegationStep env uuid now i k s)"
    unfolding startDelegationStep_def Let_def by (simp add: refused start split: option.split sum.split)
  then show ?thesis by (simp add: good_def)
qed

lemma after_step_over:
  assumes "after_step env uuid now i stage memory r s = Inr e" "i < length (ts_records s)" "stage_over x r"
  shows "stage_over x (ts_records (se_store e) ! i)"
proof (cases "pending_step r")
  case None
  then obtain r' where "completeDelegation (\<lambda>n. uuid (n + 8)) (Task_Records.iso now) r = Inr r'" "e = ended i s memory r'"
    using assms(1) unfolding after_step_def None option.case rbind_Inr_conv by blast
  then show ?thesis using assms(2,3) by (simp add: ended_def nth_set_record stage_over_def completeDelegation_stages)
next
  case (Some k)
  let ?start = "startDelegationStep env (\<lambda>n. uuid (n + 8)) now i k (set_record i r s)"
  have "i < length (ts_records (set_record i r s))" using assms(2) by (simp add: set_record_def)
  from startDelegationStep_keeps [OF this]
  have over: "stage_over x (ts_records (result_store ?start) ! i)" and len: "i < length (ts_records (result_store ?start))"
    using stage_over_keeps [OF _ assms(3)] assms(2) by (auto simp: nth_set_record set_record_def)
  have failed: "stage_over x (ts_records (se_store e) ! i)" if failed: "next_failed uuid i k err (Task_Records.iso now) stage memory (result_store ?start) = Inr e" for err
  proof -
    obtain r' where "next_step_failed (uuid 20) k (error_code err) (Task_Records.iso now) stage (ts_records (result_store ?start) ! i) = Inr r'"
      "e = ended i (result_store ?start) memory r'"
      using failed unfolding next_failed_def rbind_Inr_conv by blast
    then show ?thesis using over len by (simp add: ended_def nth_set_record stage_over_def next_step_failed_stages)
  qed
  show ?thesis
    using assms(1) Some over failed
    by (cases ?start) (auto simp: after_step_def result_store_def split: sum.splits)
qed

lemma finish_completed_over:
  assumes "finish_completed env uuid now i result handle x stage r step s = Inr e" "i < length (ts_records s)"
    and "current_working_stage r x = Some st"
  shows "stage_over x (ts_records (se_store e) ! i)"
proof -
  let ?a = "stage_artifact r (uuid 0) result (Task_Records.iso now)"
  let ?r1 = "\<lambda>v. published (ap_digest (sg_ap env)) (uuid 1) (Task_Records.iso now) x stage ?a
      (adopt_revision v (completed_stage (Task_Records.iso now) x ?a r))"
  have r1: "stage_over x (?r1 v)" for v
    by (intro published_over) (simp add: stage_over_def [of x "adopt_revision v r" for v r] adopt_stages stage_over_def [symmetric]
        completed_stage_over [OF current_found [OF assms(3)]])
  consider (conflict) r' where "workspace_conflict uuid (Task_Records.iso now) x stage step r = Inr r'" "e = ended i s None r'"
    | (step) v k memory r2 where "step_published uuid k (Task_Records.iso now) stage ?a (?r1 v) = Inr r2"
        "after_step env uuid now i stage memory r2 s = Inr e"
    | (boundary) v memory c r2 where "stage_boundary uuid (Task_Records.iso now) stage ?a (?r1 v) = Inr r2"
        "e = ended i s memory (end_stage (Task_Records.iso now) c r2)"
    using assms(1) unfolding finish_completed_def Let_def guarded_Inr_conv
    by (elim conjE) (auto simp: rbind_Inr_conv given_or_def split: option.splits)
  then show ?thesis
  proof cases
    case conflict
    then show ?thesis using conflict_over [OF conflict(1) assms(3)] assms(2) by (simp add: ended_def nth_set_record)
  next
    case step
    have "stage_over x r2" using r1 [of v] step_published_stages [OF step(1)] by (simp add: stage_over_def)
    then show ?thesis by (rule after_step_over [OF step(2) assms(2)])
  next
    case boundary
    have "stage_over x r2" using r1 [of v] stage_boundary_stages [OF boundary(1)] by (simp add: stage_over_def)
    then show ?thesis using boundary(2) assms(2) by (simp add: ended_def nth_set_record stage_over_def end_stage_stages)
  qed
qed

text \<open>
  C3: A stage ends once: after \<open>finishLongHorizonStage\<close> has ended a stage, with a result, a failure, an expiry, a
  conflict of the Workspace or the start of the next step of a plan, every further report of the same execution,
  whatever it says and whenever it comes, changes nothing.
\<close>
theorem stage_ends_once:
  assumes "finishLongHorizonStage env uuid now i result handle executionTaskId s = Inr (Some e)" and "i < length (ts_records s)"
  shows "finishLongHorizonStage env' uuid' now' i result' handle' executionTaskId (se_store e) = Inr None"
proof -
  let ?r = "ts_records s ! i" and ?step = "step_of (ts_records s ! i) executionTaskId"
  obtain st where st: "current_working_stage ?r executionTaskId = Some st"
    and e: "(if due_by (get (get ?r ''longHorizon'') ''continuationExpiresAt'') now \<or> get result ''safeErrorCode'' = JStr ''ADAPTER_TASK_EXPIRED''
       then mapped (ended i s None) (stage_expired uuid (Task_Records.iso now) executionTaskId ?r)
       else if has_result result \<and> \<not> image_unsupported ?r result \<and> \<not> output_exceeded ?r ?step result
       then finish_completed env uuid now i result handle executionTaskId st ?r ?step s
       else mapped (ended i s None) (finish_failed uuid (Task_Records.iso now) result handle executionTaskId st ?step ?r)) = Inr e"
    using assms(1) by (auto simp: finishLongHorizonStage_def Let_def mapped_def rbind_Inr_conv split: option.splits)
  have "stage_over executionTaskId (ts_records (se_store e) ! i)"
    using e expired_over [OF _ st] failed_over [OF _ st] finish_completed_over [OF _ assms(2) st] assms(2)
    by (auto simp: mapped_def rbind_Inr_conv ended_def nth_set_record split: if_splits)
  then show ?thesis by (simp add: finishLongHorizonStage_def Let_def stage_over_not_current)
qed

definition sample_stage :: json where
  "sample_stage = JObj [(''stageIndex'', jint 1), (''executionTaskId'', JStr ''lh_1''), (''childAgentId'', JStr ''codex''),
     (''state'', JStr ''working''), (''workspaceRevision'', jint 1)]"

definition sample_stage_session :: json where
  "sample_stage_session = JObj [(''phase'', JStr ''working''), (''currentStageIndex'', jint 1), (''workspaceRevision'', jint 1),
     (''continuationExpiresAt'', JStr ''2030-01-01T00:00:00.000Z''), (''pauseRequested'', JBool False), (''stages'', JArr [sample_stage]),
     (''audit'', JArr [])]"

definition sample_stage_record :: json where
  "sample_stage_record = JObj [(''direction'', JStr ''incoming''), (''state'', JStr ''working''), (''protocolVersion'', jint 7),
     (''request'', JObj [(''taskId'', JStr ''t1''), (''executionMode'', JStr ''long_horizon'')]), (''longHorizon'', sample_stage_session)]"

definition sample_stage_store :: task_store where
  "sample_stage_store = \<lparr>ts_records = [sample_stage_record], ts_peers = []\<rparr>"

definition sample_env :: stage_env where
  "sample_env = \<lparr>sg_ap = \<lparr>ap_authorize = (\<lambda>_. None), ap_attachments = None, ap_executor = True, ap_target = (\<lambda>_ _ _. None),
       ap_prepare = None, ap_workspace = None, ap_digest = JStr\<rparr>,
     sg_list = None, sg_delegate = None, sg_path = (\<lambda>_ _. []), sg_memory = None, sg_hex = (\<lambda>s. s)\<rparr>"

definition sample_end :: "stage_end option result" where
  "sample_end = finishLongHorizonStage sample_env (\<lambda>n. ''id'') 1700000000000 0 (JObj [(''state'', JStr ''failed'')]) JNull (JStr ''lh_1'')
     sample_stage_store"

text \<open>A failed stage outside a plan always ends, unless the audit is full.\<close>

lemma audited_one_succeeds:
  "len (items (get (get r ''longHorizon'') ''audit'')) < maximum_lh_audit_events \<Longrightarrow> \<exists>r'. audited uuid n t [e] r = Inr r'"
  by (simp add: audited.simps appendLongHorizonAudit_def append_audit_def Let_def rbind_def not_le)

lemma finish_failed_succeeds:
  assumes "len (items (get (get r ''longHorizon'') ''audit'')) < maximum_lh_audit_events"
  shows "\<exists>r'. finish_failed uuid t result handle i stage None r = Inr r'"
proof -
  have audit: "get (get (on_session (await_input a b c d e t) (failed_stage t i code result handle r)) ''longHorizon'') ''audit''
      = get (get r ''longHorizon'') ''audit''" for a b c d e code
    by (simp add: on_session_def await_input_def failed_stage_def on_stage_def update_stage_def get_put get_spread)
  show ?thesis unfolding finish_failed_def Let_def rbind_Inr_conv option.case
    using audited_one_succeeds assms by (simp add: audit)
qed

lemma sample_stage_fields:
  "get sample_stage_record ''longHorizon'' = sample_stage_session" "get sample_stage_session ''audit'' = JArr []"
  "get sample_stage_session ''stages'' = JArr [sample_stage]" "get sample_stage_session ''currentStageIndex'' = jint 1"
  "get sample_stage ''executionTaskId'' = JStr ''lh_1''" "get sample_stage ''stageIndex'' = jint 1" "get sample_stage ''state'' = JStr ''working''"
  "get sample_stage_record ''delegationPlan'' = JUndef"
  "get sample_stage_session ''continuationExpiresAt'' = JStr ''2030-01-01T00:00:00.000Z''"
  by (simp_all add: sample_stage_record_def sample_stage_session_def sample_stage_def)

lemma sample_stage_live: "\<not> due_by (JStr ''2030-01-01T00:00:00.000Z'') 1700000000000"
  by code_simp

lemma sample_current: "current_working_stage sample_stage_record (JStr ''lh_1'') = Some sample_stage"
  by (simp add: current_working_stage_def stage_of_def Let_def sample_stage_fields runs_as_def del: One_nat_def)

lemma sample_ends: "\<exists>e. sample_end = Inr (Some e)"
proof -
  have step: "step_of sample_stage_record (JStr ''lh_1'') = None" by (simp add: step_of_def sample_stage_fields)
  obtain r' where "finish_failed (\<lambda>n. ''id'') (Task_Records.iso 1700000000000) (JObj [(''state'', JStr ''failed'')]) JNull (JStr ''lh_1'')
      sample_stage None sample_stage_record = Inr r'"
    using finish_failed_succeeds [of sample_stage_record] by (simp add: sample_stage_fields len_def maximum_lh_audit_events_def) blast
  then show ?thesis
    by (simp add: sample_end_def finishLongHorizonStage_def Let_def sample_stage_store_def sample_current step sample_stage_fields
        sample_stage_live has_result_def mapped_def)
qed

theorem stage_ends_once_witness:
  "\<exists>e. sample_end = Inr (Some e)
    \<and> finishLongHorizonStage sample_env (\<lambda>n. ''id'') 1700000000001 0 JNull JNull (JStr ''lh_1'') (se_store e) = Inr None"
proof -
  obtain e where e: "sample_end = Inr (Some e)" using sample_ends by blast
  have "finishLongHorizonStage sample_env (\<lambda>n. ''id'') 1700000000001 0 JNull JNull (JStr ''lh_1'') (se_store e) = Inr None"
    by (rule stage_ends_once [OF e [unfolded sample_end_def]]) (simp add: sample_stage_store_def)
  with e show ?thesis by blast
qed

end
