(* ===== verification/Stage_Starts.thy ===== *)
theory Stage_Starts
  imports Stage_Ends
begin

text \<open>
  Every execution that the task service starts is recorded first: whichever operation starts it, the record
  that was saved says that the task is working, and the authority of the execution is bound to the Workspace
  of the record, to the request, and to no more access than the record grants.
\<close>

section \<open>Launches\<close>

text \<open>What the authority of a launch says of the request and of the Workspace of the record.\<close>

definition accesses :: "json \<Rightarrow> string set" where
  "accesses v = set (map str_of (items v))"

definition launch_bound :: "stage_env \<Rightarrow> json \<Rightarrow> launch \<Rightarrow> bool" where
  "launch_bound env r l \<longleftrightarrow> (\<exists>a. ln_authority l = Inr a
     \<and> ea_task_id a = ar_task_id (ln_request l) \<and> ea_connector_id a = ar_adapter_id (ln_request l)
     \<and> ea_child_agent_id a = ar_agent_id (ln_request l) \<and> ea_capability_id a = ar_capability_id (ln_request l)
     \<and> ea_input_digest a = digestHostAgentTaskInput (sg_hex env) (ln_request l)
     \<and> ea_workspace_id a = str_of (get (get r ''workspaceBinding'') ''workspaceId'')
     \<and> accesses (ea_workspace_access a) \<subseteq> accesses (get (get r ''workspaceBinding'') ''access'')
     \<and> ea_single_use a \<and> ea_user_file_access a = ''none'')"

text \<open>The record of a task that runs.\<close>

definition recorded :: "json \<Rightarrow> bool" where
  "recorded r \<longleftrightarrow> get r ''state'' = JStr ''working'' \<and> get r ''statusPending'' = JBool True \<and> get r ''safeErrorCode'' = JUndef"

lemma launch_of_bound:
  fixes r :: json
  defines "binding \<equiv> get r ''workspaceBinding''"
  assumes "ln_authority (launch_of env now target (createExecutionGrant dg g now request target binding ex acc) e epoch d) = Inr a"
    and "accesses acc \<subseteq> accesses (get binding ''access'')"
  shows "launch_bound env r (launch_of env now target (createExecutionGrant dg g now request target binding ex acc) e epoch d)"
proof -
  let ?grant = "createExecutionGrant dg g now request target binding ex acc"
  have grant: "get ?grant ''workspaceId'' = get binding ''workspaceId''" "get ?grant ''workspaceAccess'' = acc"
    by (simp_all add: createExecutionGrant_def)
  have "a = issueExecutionAuthority (sg_hex env) e ((grant_options ?grant (epoch_num epoch) d)\<lparr>io_now := now\<rparr>)"
    using assms(2) by (simp add: launch_of_def createExecutionAuthority_def split: if_splits)
  then show ?thesis
    using assms(2,3) unfolding launch_bound_def binding_def [symmetric]
    by (simp add: launch_of_def issueExecutionAuthority_def grant_options_def given_or_def grant)
qed

lemma stage_outcome_saved:
  "stage_outcome i a = (Some s', Inr (r, l)) \<longleftrightarrow> a = Started s' l \<and> r = ts_records s' ! i \<and> (\<exists>x. ln_authority l = Inr x)"
  by (auto simp: stage_outcome_def fails_def saves_def saves_fails_def split: stage_result.splits sum.splits)

section \<open>Stages\<close>

lemma stage_running_fields:
  "recorded (stage_running k t r)" "get (stage_running k t r) ''workspaceBinding'' = get r ''workspaceBinding''"
  "get (stage_running k t r) ''delegationPlan'' = get r ''delegationPlan''"
  "get (stage_running k t r) ''longHorizon'' = get r ''longHorizon''"
  by (simp_all add: stage_running_def recorded_def frame assign)

lemma put_step_access:
  assumes "map_of xs ''workspaceAccess'' = None" "k < length (items (get plan ''steps''))"
  shows "get (items (get (put_step k xs plan) ''steps'') ! k) ''workspaceAccess'' = get (items (get plan ''steps'') ! k) ''workspaceAccess''
    \<and> length (items (get (put_step k xs plan) ''steps'')) = length (items (get plan ''steps''))"
  using assms by (simp add: put_step_def get_put get_spread)

text \<open>The part of the plan that the launch reads is not changed by the start of the step.\<close>

definition step_ok :: "json \<Rightarrow> nat option \<Rightarrow> bool" where
  "step_ok r step \<longleftrightarrow> (case step of None \<Rightarrow> True
     | Some k \<Rightarrow> k < length (items (get (get r ''delegationPlan'') ''steps''))
         \<and> accesses (get (plan_step r k) ''workspaceAccess'') \<subseteq> accesses (get (get r ''workspaceBinding'') ''access''))"

lemma begin_plan_ok:
  assumes "begin_plan e x t step r = (r', None)" "step_ok r step"
  shows "step_ok r' step \<and> get r' ''workspaceBinding'' = get r ''workspaceBinding''"
proof (cases step)
  case None
  then show ?thesis using assms by (simp add: begin_plan_def step_ok_def)
next
  case (Some k)
  let ?plan = "get r ''delegationPlan''"
  let ?begun = "begin_step k x t ?plan"
  obtain p where p: "appendDelegationAudit e ?begun
      [(''action'', JStr ''step_started''), (''actor'', JStr ''host''), (''stepId'', get (plan_step r k) ''stepId'')] t = Inr p"
    and r': "r' = put r ''delegationPlan'' p"
    using assms(1) Some by (auto simp: begin_plan_def Let_def split: sum.splits)
  have "get p ''steps'' = get ?begun ''steps''"
    using p unfolding appendDelegationAudit_def append_audit_Inr by (auto simp: get_spread)
  also have "\<dots> = get (put_step k [(''state'', JStr ''working''), (''executionTaskId'', JStr x), (''startedAt'', t)] ?plan) ''steps''"
    by (simp add: begin_step_def get_spread)
  finally have steps: "get p ''steps'' = \<dots>" .
  have k: "k < length (items (get ?plan ''steps''))" using assms(2) Some by (simp add: step_ok_def)
  show ?thesis
    using assms(2) Some put_step_access [OF _ k, of "[(''state'', JStr ''working''), (''executionTaskId'', JStr x), (''startedAt'', t)]"]
    by (simp add: step_ok_def r' get_put plan_step_def steps)
qed

lemma stage_access_bound:
  assumes "step_ok r step"
  shows "accesses (stage_access (get r ''workspaceBinding'') (map_option (plan_step r) step)) \<subseteq> accesses (get (get r ''workspaceBinding'') ''access'')"
  using assms by (auto simp: stage_access_def step_ok_def or_else_def split: option.splits)

lemma run_stage_started:
  assumes "run_stage env uuid now i q instruction epoch s = Started s' l" "ln_authority l = Inr a"
    and "i < length (ts_records s)" "step_ok (ts_records s ! i) (sq_step q)"
  shows "i < length (ts_records s') \<and> recorded (ts_records s' ! i) \<and> launch_bound env (ts_records s' ! i) l"
proof -
  let ?r = "ts_records s ! i"
  obtain r1 session' k t e execution where plan: "begin_plan e execution t (sq_step q) ?r = (r1, None)"
    and s': "s' = set_record i (stage_running k t (put r1 ''longHorizon'' session')) s"
    and l: "\<exists>ex. l = stage_launch env (uuid 4) now (stage_running k t (put r1 ''longHorizon'' session')) (sq_target q) ex epoch
        (map_option (plan_step (stage_running k t (put r1 ''longHorizon'' session'))) (sq_step q))"
    using assms(1) unfolding run_stage_def Let_def
    by (clarsimp split: prod.splits option.splits) (rule that; (assumption | blast))
  let ?r2 = "stage_running k t (put r1 ''longHorizon'' session')"
  have ok: "step_ok ?r2 (sq_step q)"
    using begin_plan_ok [OF plan assms(4)] by (cases "sq_step q") (auto simp: step_ok_def plan_step_def stage_running_fields get_put)
  have "launch_bound env ?r2 l"
    using l assms(2) launch_of_bound stage_access_bound [OF ok] unfolding stage_launch_def Let_def by blast
  then show ?thesis using assms(3) by (simp add: s' nth_set_record stage_running_fields) (simp add: set_record_def)
qed

lemma refresh_binding: "get (refresh_record env now r) k = (if k = ''longHorizon'' then get (refresh_record env now r) k else get r k)"
  by (simp add: refresh_record_def get_put)

lemma startLongHorizonStage_started:
  assumes "startLongHorizonStage env uuid now i q s = Started s' l" "ln_authority l = Inr a"
    and "i < length (ts_records s)" "step_ok (ts_records s ! i) (sq_step q)"
  shows "i < length (ts_records s') \<and> recorded (ts_records s' ! i) \<and> launch_bound env (ts_records s' ! i) l"
proof -
  let ?s1 = "fst (refreshLongHorizonTargets env now s)"
  obtain instruction epoch where run: "run_stage env uuid now i q instruction epoch ?s1 = Started s' l"
    using assms(1) unfolding startLongHorizonStage_def Let_def by (auto split: if_splits sum.splits)
  have "i < length (ts_records ?s1)" "ts_records ?s1 ! i = refresh_record env now (ts_records s ! i)"
    using assms(3) by (simp_all add: refreshLongHorizonTargets_def)
  moreover have "step_ok (refresh_record env now (ts_records s ! i)) (sq_step q)"
    using assms(4) refresh_binding [of env now "ts_records s ! i" "''delegationPlan''"]
      refresh_binding [of env now "ts_records s ! i" "''workspaceBinding''"]
    by (simp add: step_ok_def plan_step_def split: option.splits)
  ultimately show ?thesis using run_stage_started [OF run assms(2)] by simp
qed

lemma startDelegationStep_started:
  assumes "startDelegationStep env uuid now i k s = Started s' l" "ln_authority l = Inr a" "i < length (ts_records s)"
    and "k < length (items (get (get (ts_records s ! i) ''delegationPlan'') ''steps''))"
  shows "i < length (ts_records s') \<and> recorded (ts_records s' ! i) \<and> launch_bound env (ts_records s' ! i) l"
proof -
  let ?r = "ts_records s ! i"
  let ?plan = "get ?r ''delegationPlan''" and ?binding = "get ?r ''workspaceBinding''"
  let ?r1 = "put ?r ''delegationPlan'' (put_step k [(''workspaceRevision'', get ?binding ''workspaceRevision'')] ?plan)"
  obtain target images where target: "frozen_target_holds (plan_step ?r k) ?binding target"
    and start: "startLongHorizonStage env uuid now i (step_request ?r1 target images (plan_step ?r1 k) k) (set_record i ?r1 s) = Started s' l"
    using assms(1) unfolding startDelegationStep_def Let_def by (auto split: option.splits if_splits sum.splits)
  have "accesses (get (plan_step ?r k) ''workspaceAccess'') \<subseteq> accesses (get ?binding ''access'')"
    using target by (auto simp: frozen_target_holds_def isWorkspaceAccessSubset_def accesses_def list_all_iff)
  then have "step_ok ?r1 (Some k)"
    using assms(4) put_step_access [OF _ assms(4), of "[(''workspaceRevision'', get ?binding ''workspaceRevision'')]"]
    by (simp add: step_ok_def plan_step_def get_put)
  then show ?thesis
    using startLongHorizonStage_started [OF start assms(2)] assms(3) by (simp add: step_request_def set_record_def)
qed

section \<open>The operations that start an execution\<close>

text \<open>
  The store \<open>s'\<close> that an operation on \<open>s\<close> saved, the record in it and the execution it started: the approval of a
  task, of a plan, the continuation, the restart, and the next step of a plan after a finished one.
\<close>

inductive starts :: "stage_env \<Rightarrow> task_store \<Rightarrow> task_store \<Rightarrow> json \<Rightarrow> launch \<Rightarrow> bool" for env s where
  approve: "approve env uuid now account taskId s = (Some s', Inr (r, l)) \<Longrightarrow> starts env s s' r l"
| delegate: "approveDelegation env uuid now account taskId selections s = (Some s', Inr (r, l)) \<Longrightarrow> starts env s s' r l"
| continue: "continueLongHorizon env uuid now taskId child s = (Some s', Inr (r, l)) \<Longrightarrow> starts env s s' r l"
| resume: "resume env handleOf grantId now taskId s = (Some s', Inr (r, l)) \<Longrightarrow> starts env s s' r l"
| step: "\<lbrakk>finishLongHorizonStage env uuid now i result handle executionTaskId s = Inr (Some e); i < length (ts_records s);
     se_launch e = Some l\<rbrakk> \<Longrightarrow> starts env s (se_store e) (ts_records (se_store e) ! i) l"

definition started_well :: "stage_env \<Rightarrow> task_store \<Rightarrow> json \<Rightarrow> launch \<Rightarrow> bool" where
  "started_well env s' r l \<longleftrightarrow> r \<in> set (ts_records s') \<and> recorded r \<and> launch_bound env r l"

lemma started_wellI: "i < length (ts_records s') \<and> recorded (ts_records s' ! i) \<and> launch_bound env (ts_records s' ! i) l
    \<Longrightarrow> started_well env s' (ts_records s' ! i) l"
  by (simp add: started_well_def)

text \<open>An outcome with a value comes from the last step of the operation.\<close>

lemma after_value: "after m f = (st, Inr y) \<Longrightarrow> (\<And>x. m = Inr x \<Longrightarrow> f x = (st, Inr y) \<Longrightarrow> P) \<Longrightarrow> P"
  by (cases m) (auto simp: after_def fails_def)

lemma check_value: "check c m = (st, Inr y) \<Longrightarrow> (m = (st, Inr y) \<Longrightarrow> P) \<Longrightarrow> P"
  by (cases c) (auto simp: check_def fails_def)

lemma account_value: "with_account account f = (st, Inr y) \<Longrightarrow> (\<And>me. f me = (st, Inr y) \<Longrightarrow> P) \<Longrightarrow> P"
  by (cases account) (auto simp: with_account_def fails_def)

lemmas outcome_values = after_value check_value account_value

lemma mutable_index: "requireMutableIncomingTask uuid rs taskId now = Inr (i, r) \<Longrightarrow> i < length rs \<and> r = rs ! i"
  by (auto simp: requireMutableIncomingTask_def Let_def rbind_Inr_conv split: if_splits option.splits dest: find_index_Some)

lemma long_index: "requireIncomingLongHorizon uuid rs taskId now = Inr (i, r) \<Longrightarrow> i < length rs \<and> r = rs ! i"
  by (auto simp: requireIncomingLongHorizon_def Let_def rbind_Inr_conv split: if_splits option.splits dest: find_index_Some)

lemma start_working_fields: "recorded (start_working r now)" "get (start_working r now) ''workspaceBinding'' = get r ''workspaceBinding''"
  by (simp_all add: start_working_def recorded_def assign)

lemma set_latest_fields: "recorded (setLatestTaskChange r c) = recorded r"
    "get (setLatestTaskChange r c) ''workspaceBinding'' = get r ''workspaceBinding''"
  by (simp_all add: recorded_def frame)

lemma approve_single_started:
  assumes "approve_single_stage env g now i r target binding images s = (Some s', Inr (r', l))" "i < length (ts_records s)"
  shows "started_well env s' r' l"
proof -
  obtain handle grant r1 where one: "approve_single (sg_ap env) g now r target binding = Inr (r1, grant)"
    and out: "stage_outcome i (Started (set_record i r1 s) (single_launch env now r1 target grant images handle)) = (Some s', Inr (r', l))"
    using assms(1) unfolding approve_single_stage_def by (elim outcome_values) (auto elim!: outcome_values)
  have s': "s' = set_record i r1 s" "r' = r1" and l: "l = single_launch env now r1 target grant images handle"
    and ok: "\<exists>a. ln_authority l = Inr a"
    using out assms(2) by (auto simp: stage_outcome_saved nth_set_record)
  obtain h where r1: "r1 = setLatestTaskChange (start_working (put (bound_record (sg_ap env) now r binding) ''approval'' (JStr ''consumed'')) now)
        (change ''stage_started'')" and grant: "grant = approval_grant (sg_ap env) g now r target binding"
    using one by (auto simp: approve_single_def Let_def rbind_Inr_conv guarded_Inr_conv)
  have binding: "get r1 ''workspaceBinding'' = binding"
    by (simp add: r1 set_latest_fields start_working_fields get_put bound_record_def)
  have "launch_bound env r1 l"
    using ok launch_of_bound [of env now target "ap_digest (sg_ap env)" g "get r ''request''" r1 None "get binding ''access''"]
    unfolding l single_launch_def grant approval_grant_def binding by blast
  then show ?thesis
    using assms(2) by (simp add: started_well_def s' set_record_def set_update_memI) (simp add: r1 set_latest_fields start_working_fields)
qed

lemma stage_outcome_started:
  assumes "stage_outcome i (startLongHorizonStage env uuid now i q s) = (Some s', Inr (r, l))" "i < length (ts_records s)"
    and "sq_step q = None"
  shows "started_well env s' r l"
proof -
  obtain a where a: "startLongHorizonStage env uuid now i q s = Started s' l" "ln_authority l = Inr a" "r = ts_records s' ! i"
    using assms(1) by (auto simp: stage_outcome_saved)
  show ?thesis unfolding a(3)
    by (rule started_wellI, rule startLongHorizonStage_started [OF a(1,2) assms(2)]) (simp add: step_ok_def assms(3))
qed

lemma approve_started:
  assumes "approve env uuid now account taskId s = (Some s', Inr (r, l))"
  shows "started_well env s' r l"
proof -
  obtain i r0 target images binding where i: "i < length (ts_records s)"
    and out: "(if truthy (get r0 ''longHorizon'')
       then stage_outcome i (startLongHorizonStage env uuid now i (first_stage target images r0)
              (set_record i (bound_record (sg_ap env) now r0 binding) s))
       else approve_single_stage env (uuid 0) now i r0 target binding images s) = (Some s', Inr (r, l))"
    using assms unfolding approve_def by (auto elim!: outcome_values dest!: mutable_index)
  show ?thesis
  proof (cases "truthy (get r0 ''longHorizon'')")
    case True
    then show ?thesis using out i by (auto simp: first_stage_def set_record_def intro: stage_outcome_started)
  next
    case False
    then show ?thesis using out i by (auto intro: approve_single_started)
  qed
qed

lemma continue_started:
  assumes "continueLongHorizon env uuid now taskId child s = (Some s', Inr (r, l))"
  shows "started_well env s' r l"
proof -
  let ?s1 = "fst (refreshLongHorizonTargets env now s)"
  obtain i target images session where i: "i < length (ts_records s)"
    and out: "stage_outcome i (startLongHorizonStage env uuid now i (next_stage target images session) ?s1) = (Some s', Inr (r, l))"
    using assms unfolding continueLongHorizon_def Let_def
    by (auto simp: fails_def elim!: outcome_values dest!: long_index split: if_splits option.splits)
  show ?thesis by (rule stage_outcome_started [OF out]) (simp_all add: i next_stage_def refreshLongHorizonTargets_def)
qed

lemma resume_started:
  assumes "resume env handleOf grantId now taskId s = (Some s', Inr (r, l))"
  shows "started_well env s' r l"
proof -
  obtain i target images handle where i: "i < length (ts_records s)" and s': "s' = set_record i (resume_record now (ts_records s ! i)) s"
      "r = resume_record now (ts_records s ! i)"
    and l: "l = resume_launch env grantId now (ts_records s ! i) taskId target images handle" "\<exists>a. ln_authority l = Inr a"
    using assms unfolding resume_def Let_def
    by (auto simp: fails_def saves_def dest!: find_index_Some elim!: outcome_values split: if_splits option.splits)
  have r: "recorded r" "get r ''workspaceBinding'' = get (ts_records s ! i) ''workspaceBinding''"
    using start_working_fields [of "ts_records s ! i" now] by (simp_all add: s' resume_record_def recorded_def frame)
  have "launch_bound env r l"
    using l(2) launch_of_bound [of env now target "ap_digest (sg_ap env)" grantId "get (ts_records s ! i) ''request''" r None
        "get (get r ''workspaceBinding'') ''access''"]
    unfolding l(1) resume_launch_def Let_def r(2) by blast
  then show ?thesis using i r by (simp add: started_well_def s' set_record_def set_update_memI)
qed

lemma delegate_started:
  assumes "approveDelegation env uuid now account taskId selections s = (Some s', Inr (r, l))"
  shows "started_well env s' r l"
proof -
  obtain i r0 binding targets plan where i: "i < length (ts_records s)" and plan: "approved_plan uuid now r0 binding targets = Inr plan"
    and out: "stage_outcome i (startDelegationStep env (\<lambda>n. uuid (n + 3)) now i 0
        (set_record i (put (bound_record (sg_ap env) now r0 binding) ''delegationPlan'' plan) s)) = (Some s', Inr (r, l))"
    using assms unfolding approveDelegation_def Let_def
    by (auto simp: fails_def elim!: outcome_values dest!: mutable_index split: if_splits)
  have "validateDelegationPlanState plan = None"
    using plan by (auto simp: approved_plan_def rbind_Inr_conv guarded_Inr_conv)
  then have "2 \<le> length (items (get plan ''steps''))"
    unfolding validateDelegationPlanState_def Let_def by (simp add: valid_simps not_less)
  then have steps: "0 < length (items (get (get (ts_records (set_record i (put (bound_record (sg_ap env) now r0 binding) ''delegationPlan'' plan) s) ! i)
      ''delegationPlan'') ''steps''))"
    using i by (auto simp: nth_set_record get_put)
  obtain a where a: "startDelegationStep env (\<lambda>n. uuid (n + 3)) now i 0
        (set_record i (put (bound_record (sg_ap env) now r0 binding) ''delegationPlan'' plan) s) = Started s' l" "ln_authority l = Inr a"
      "r = ts_records s' ! i"
    using out by (auto simp: stage_outcome_saved)
  show ?thesis unfolding a(3)
    by (rule started_wellI, rule startDelegationStep_started [OF a(1,2) _ steps]) (simp add: i set_record_def)
qed

lemma next_step_started:
  assumes "finishLongHorizonStage env uuid now i result handle executionTaskId s = Inr (Some e)" "i < length (ts_records s)"
    and "se_launch e = Some l"
  shows "started_well env (se_store e) (ts_records (se_store e) ! i) l"
proof -
  obtain stage memory r where after: "after_step env uuid now i stage memory r s = Inr e"
    using assms(1,3)
    by (auto simp: finishLongHorizonStage_def Let_def mapped_def rbind_Inr_conv ended_def finish_completed_def guarded_Inr_conv
        split: option.splits if_splits)
  have quiet: "se_launch (ended i t m r') = None" for t m r' by (simp add: ended_def)
  obtain k where k: "pending_step r = Some k"
    using after assms(3) by (auto simp: after_step_def rbind_Inr_conv quiet split: option.splits)
  obtain s1 a where start: "startDelegationStep env (\<lambda>n. uuid (n + 8)) now i k (set_record i r s) = Started s1 l"
      "ln_authority l = Inr a" "e = \<lparr>se_store = s1, se_launch = Some l, se_memory = memory\<rparr>"
    using after k assms(3)
    by (auto simp: after_step_def next_failed_def rbind_Inr_conv quiet split: stage_result.splits sum.splits)
  have "k < length (items (get (get (ts_records (set_record i r s) ! i) ''delegationPlan'') ''steps''))"
    using find_index_Some [OF k [unfolded pending_step_def]] assms(2) by (simp add: nth_set_record)
  then show ?thesis
    using startDelegationStep_started [OF start(1,2)] assms(2) start(3) by (simp add: started_well_def set_record_def)
qed

text \<open>
  C2: Whatever starts an execution (the approval of a task or of a plan, the continuation of a collaboration, the
  restart from a checkpoint, or the next step of a plan), the saved record says that the task is working and
  owes its peer this status; the authority is for this request only, is bound to the Workspace of the record,
  grants no more access than the record does, and none to the files of the user.
\<close>
theorem every_execution_is_recorded:
  assumes "starts env s s' r l"
  shows "r \<in> set (ts_records s') \<and> recorded r \<and> launch_bound env r l"
proof -
  have "started_well env s' r l" using assms
    by cases (auto intro: approve_started delegate_started continue_started resume_started next_step_started)
  then show ?thesis by (simp add: started_well_def)
qed

definition resume_sample :: json where
  "resume_sample = JObj [(''direction'', JStr ''incoming''), (''state'', JStr ''input_required''), (''protocolVersion'', jint 7),
     (''request'', JObj [(''taskId'', JStr ''t1''), (''offerId'', JStr ''o1''), (''capabilityId'', JStr ''text''),
        (''input'', JObj [(''kind'', JStr ''text''), (''text'', JStr ''hello'')])]),
     (''workspaceBinding'', JObj [(''workspaceId'', JStr ''w1''), (''workspaceRevision'', jint 1), (''access'', JArr [JStr ''read''])])]"

definition resume_target_sample :: json where
  "resume_target_sample = JObj [(''connectorId'', JStr ''cli''), (''childAgentId'', JStr ''codex''), (''capabilityId'', JStr ''text''),
     (''resumeCapability'', JStr ''checkpoint_restart''), (''executionEpoch'', jint 2)]"

definition resume_env :: stage_env where
  "resume_env = sample_env\<lparr>sg_ap := (sg_ap sample_env)\<lparr>ap_target := (\<lambda>_ _ _. Some resume_target_sample),
     ap_prepare := Some (\<lambda>_. Inr resume_target_sample)\<rparr>\<rparr>"

definition resume_store :: task_store where
  "resume_store = \<lparr>ts_records = [resume_sample], ts_peers = []\<rparr>"

lemma resume_sample_target: "resume_target resume_env (Some (\<lambda>_. resume_target_sample)) resume_sample ''t1'' = Inr resume_target_sample"
  by (simp add: resume_target_def resume_env_def sample_env_def resume_target_sample_def resolved_target_def)

lemma resume_sample_images: "resolveInputImages resume_env resume_sample = Inr []"
  by (simp add: resolveInputImages_def images_available_def resume_env_def sample_env_def resume_sample_def taskInputImages_def)

lemma resume_sample_runs:
  "\<exists>l. resume resume_env (Some (\<lambda>_. resume_target_sample)) ''g1'' 1700000000000 ''t1'' resume_store
     = (Some (set_record 0 (resume_record 1700000000000 resume_sample) resume_store), Inr (resume_record 1700000000000 resume_sample, l))"
proof -
  have pattern: "id_pattern 127 ''t1'' = True" by code_simp
  have task: "find_index (incoming_task ''t1'') (ts_records resume_store) = Some 0" "ts_records resume_store ! 0 = resume_sample"
    by (simp_all add: resume_store_def resume_sample_def incoming_task_def incoming_def)
  have state: "get resume_sample ''state'' = JStr ''input_required''" "truthy (get resume_sample ''workspaceBinding'')"
    by (simp_all add: resume_sample_def)
  have env: "ap_authorize (sg_ap resume_env) x = None" "prepared (sg_ap resume_env) x = Inr resume_target_sample" for x
    by (simp_all add: resume_env_def sample_env_def prepared_def)
  have "\<exists>a. ln_authority (resume_launch resume_env ''g1'' 1700000000000 resume_sample ''t1'' resume_target_sample [] resume_target_sample) = Inr a"
    by (simp add: resume_launch_def launch_of_def createExecutionAuthority_def task_execution_def resume_target_sample_def Let_def)
  then show ?thesis
    unfolding resume_def Let_def pattern by (auto simp: task state env resume_sample_target resume_sample_images saves_def)
qed

theorem every_execution_is_recorded_witness:
  "\<exists>l. starts resume_env resume_store (set_record 0 (resume_record 1700000000000 resume_sample) resume_store)
       (resume_record 1700000000000 resume_sample) l
     \<and> launch_bound resume_env (resume_record 1700000000000 resume_sample) l"
proof -
  obtain l where "resume resume_env (Some (\<lambda>_. resume_target_sample)) ''g1'' 1700000000000 ''t1'' resume_store
     = (Some (set_record 0 (resume_record 1700000000000 resume_sample) resume_store), Inr (resume_record 1700000000000 resume_sample, l))"
    using resume_sample_runs by blast
  then have start: "starts resume_env resume_store (set_record 0 (resume_record 1700000000000 resume_sample) resume_store)
       (resume_record 1700000000000 resume_sample) l"
    by (rule starts.resume)
  from every_execution_is_recorded [OF start] start show ?thesis by blast
qed

end
