(* ===== verification/Outbox_Guarantees.thy ===== *)
theory Outbox_Guarantees
  imports Stage_Ends
begin

text \<open>
  What the outbox guarantees and where it fails: a result that cannot be stored keeps every message of every
  task from being sent, and an image that is late is sent again and again.
\<close>

section \<open>Results that are too large to store\<close>




text \<open>
  A text of 33,000 quotation marks passes the check of the adapter, which counts its bytes, and fails the check
  of the artifact, which counts the bytes of its JSON text.
\<close>

definition quotes :: string where
  "quotes = replicate 33000 CHR 0x22"

lemma quote_char: "cu CHR 0x22 = 34" "escape_char CHR 0x22 = [CHR 0x5C, CHR 0x22]" "cu CHR 0x5C = 92"
  by code_simp+

lemma quotes_size: "utf8_size quotes = 33000" "66000 \<le> utf8_size (quote_string quotes)"
proof -
  have sizes: "utf8_size (concat (replicate n [CHR 0x5C, CHR 0x22])) = 2 * int n" for n
    by (induction n) (simp_all add: utf8_size_def quote_char)
  show "utf8_size quotes = 33000" unfolding quotes_def utf8_size_replicate quote_char by simp
  have "utf8_size (quote_string quotes) = utf8_size [CHR 0x22] + (2 * int 33000 + utf8_size [CHR 0x22])"
    unfolding quote_string_def quotes_def map_replicate quote_char
    using sizes [of 33000] utf8_size_append [of "[CHR 0x22]" "concat (replicate 33000 [CHR 0x5C, CHR 0x22]) @ [CHR 0x22]"]
    by (simp only: utf8_size_append append_Cons append_Nil)
  then show "66000 \<le> utf8_size (quote_string quotes)" using utf8_size_nonneg [of "[CHR 0x22]"] by linarith
qed

lemma trim_replicate: "\<not> is_space c \<Longrightarrow> trim (replicate n c) = replicate n c"
  by (simp add: trim_def)

lemma quotes_accepted: "validateCallableAdapterArtifactText (JStr quotes) = None"
proof -
  have "\<not> is_space CHR 0x22" by code_simp
  then have "trim quotes = quotes" unfolding quotes_def by (rule trim_replicate)
  moreover have "quotes \<noteq> []" using quotes_size(1) by (auto simp: utf8_size_def)
  ultimately show ?thesis
    by (simp add: validateCallableAdapterArtifactText_def throw_if_def quotes_size(1) max_task_artifact_text_bytes_def)
qed


section \<open>One result blocks the outbox\<close>




























section \<open>An image that comes late\<close>










end
