(* ===== verification/Relationship_Service.thy ===== *)
theory Relationship_Service
  imports Public_Id
begin

text \<open>
  The relationships of the Teti Network (\<open>services/network/relationship-service.ts\<close>) with their two stores
  (\<open>relationship-command-store.ts\<close>, \<open>relationship-reconciliation-store.ts\<close>) and the check of the network's
  version (\<open>compatibility.ts\<close>). The client of the network is a record of functions over a world \<open>'w\<close>: each call
  answers or throws and changes the world. An operation maps the state of the service to its answer or error and
  the new state. \<open>serial\<close> runs the operations one after the other, so a run is a sequence of operations. The files
  hold what was saved last; the state also records what was handed to the client and what was applied.
\<close>

section \<open>Answers\<close>

text \<open>\<open>TetiNetworkClientError\<close> with its code, operation, message and whether it is retryable, and any other error.\<close>

datatype net_error = NetworkError string string string bool | OtherError error

record snapshot_page =
  sp_items :: "json list"
  sp_base :: string
  sp_next :: "string option"

record changes_page =
  cp_items :: "(string \<times> json) list"
  cp_checkpoint :: string
  cp_more :: bool

text \<open>
  The client; the first argument of the authenticated calls is the local identity. \<open>nc_send\<close> is
  \<open>requestRelationship\<close> or \<open>mutateRelationship\<close> for a pending command. \<open>nc_parse\<close> is \<open>JSON.parse\<close>, \<open>nc_key\<close> the factory of
  idempotency keys. A result of the network has the fields \<open>document\<close> and \<open>etag\<close>.
\<close>

record 'w net_client =
  nc_bootstrap :: "'w \<Rightarrow> (net_error + json) \<times> 'w"
  nc_identity :: "'w \<Rightarrow> (net_error + string) \<times> 'w"
  nc_get :: "string \<Rightarrow> string \<Rightarrow> 'w \<Rightarrow> (net_error + json) \<times> 'w"
  nc_with_peer :: "string \<Rightarrow> string \<Rightarrow> 'w \<Rightarrow> (net_error + json) \<times> 'w"
  nc_authorization :: "string \<Rightarrow> string \<Rightarrow> 'w \<Rightarrow> (net_error + json) \<times> 'w"
  nc_snapshot :: "string \<Rightarrow> string option \<Rightarrow> 'w \<Rightarrow> (net_error + snapshot_page) \<times> 'w"
  nc_changes :: "string \<Rightarrow> string \<Rightarrow> 'w \<Rightarrow> (net_error + changes_page) \<times> 'w"
  nc_send :: "string \<Rightarrow> json \<Rightarrow> 'w \<Rightarrow> (net_error + json) \<times> 'w"
  nc_apply :: "json \<Rightarrow> 'w \<Rightarrow> (net_error + unit) \<times> 'w"
  nc_key :: "string \<Rightarrow> 'w \<Rightarrow> (net_error + string) \<times> 'w"
  nc_parse :: "string \<Rightarrow> json option"

text \<open>
  \<open>nt_command\<close> and \<open>nt_checkpoint\<close> are the two files, \<open>nt_sent\<close> the commands that were handed to the client with
  their answers, \<open>nt_applied\<close> the documents whose \<open>apply\<close> returned, both oldest first.
\<close>

record 'w net_state =
  nt_world :: 'w
  nt_compatible :: bool
  nt_command :: "json option"
  nt_checkpoint :: "(string \<times> string) option"
  nt_sent :: "(string \<times> json \<times> (net_error + json)) list"
  nt_applied :: "json list"

type_synonym ('w, 'a) net = "'w net_state \<Rightarrow> (net_error + 'a) \<times> 'w net_state"

definition net_return :: "'a \<Rightarrow> ('w, 'a) net" where
  "net_return x s = (Inr x, s)"

definition net_fail :: "net_error \<Rightarrow> ('w, 'a) net" where
  "net_fail e s = (Inl e, s)"

definition net_then :: "('w, 'a) net \<Rightarrow> ('a \<Rightarrow> ('w, 'b) net) \<Rightarrow> ('w, 'b) net" where
  "net_then m f s = (case m s of (Inl e, s') \<Rightarrow> (Inl e, s') | (Inr x, s') \<Rightarrow> f x s')"

definition net_catch :: "('w, 'a) net \<Rightarrow> (net_error \<Rightarrow> ('w, 'a) net) \<Rightarrow> ('w, 'a) net" where
  "net_catch m h s = (case m s of (Inl e, s') \<Rightarrow> h e s' | (Inr x, s') \<Rightarrow> (Inr x, s'))"

definition net_call :: "('w \<Rightarrow> (net_error + 'a) \<times> 'w) \<Rightarrow> ('w, 'a) net" where
  "net_call f s = (case f (nt_world s) of (r, w) \<Rightarrow> (r, s\<lparr>nt_world := w\<rparr>))"

definition net_check :: "net_error option \<Rightarrow> ('w, unit) net" where
  "net_check c = (case c of None \<Rightarrow> net_return () | Some e \<Rightarrow> net_fail e)"

definition net_conflict :: "string \<Rightarrow> string \<Rightarrow> net_error" where
  "net_conflict operation message = NetworkError ''NETWORK_CONFLICT'' operation message False"

section \<open>Compatibility\<close>

definition required_capabilities :: "string list" where
  "required_capabilities = [''publicDirectory'', ''publicProfile'', ''identity'', ''clientAuthentication'', ''presence'',
     ''relationships'', ''relayBindings'']"

definition assertTetiNetworkCompatible :: "json \<Rightarrow> net_error option" where
  "assertTetiNetworkCompatible bootstrap =
     (let incompatible = \<lambda>message. Some (NetworkError ''PROTOCOL_UNSUPPORTED'' ''bootstrap'' message False);
          missing = filter (\<lambda>k. get (get bootstrap ''capabilities'') k \<noteq> JBool True) required_capabilities in
      if get bootstrap ''protocolVersion'' \<noteq> jint 1
      then incompatible (''Teti Network protocol '' @ js_string (get bootstrap ''protocolVersion'')
        @ '' is incompatible with required protocol 1.'')
      else if int_of (get bootstrap ''contractRevision'') < 8
      then incompatible (''Teti Network contract revision '' @ js_string (get bootstrap ''contractRevision'')
        @ '' is older than required revision 8.'')
      else if missing \<noteq> []
      then incompatible (''Teti Network is missing required capabilities: '' @ join_with '', '' missing @ ''.'')
      else None)"

section \<open>The stores\<close>

definition base64_char :: "char \<Rightarrow> bool" where
  "base64_char c \<longleftrightarrow> is_alnum c \<or> c = CHR ''_'' \<or> c = CHR ''-''"

definition isTetiId :: "json \<Rightarrow> bool" where
  "isTetiId v \<longleftrightarrow> is_string v \<and> public_id_pattern (str_of v)"

definition isRelationshipId :: "json \<Rightarrow> bool" where
  "isRelationshipId v \<longleftrightarrow> is_string v \<and> (let s = str_of v in take 4 s = ''rel_'' \<and> length s = 26
     \<and> list_all base64_char (take 21 (drop 4 s)) \<and> s ! 25 \<in> set ''AQgw'')"

definition isRelationshipOperation :: "json \<Rightarrow> bool" where
  "isRelationshipOperation v \<longleftrightarrow> v \<in> JStr ` set [''request'', ''accept'', ''reject'', ''block'', ''revoke'']"

definition key_char :: "char \<Rightarrow> bool" where
  "key_char c \<longleftrightarrow> is_alnum c \<or> c \<in> set ''._:-''"

definition idempotency_key :: "json \<Rightarrow> bool" where
  "idempotency_key v \<longleftrightarrow> is_string v \<and> 16 \<le> length (str_of v) \<and> length (str_of v) \<le> 128 \<and> list_all key_char (str_of v)"

definition relationship_etag :: "json \<Rightarrow> json" where
  "relationship_etag revision = JStr ([CHR 0x22] @ ''relationship-r'' @ js_string revision @ [CHR 0x22])"

definition pending_keys :: "string list" where
  "pending_keys = [''tetiId'', ''operation'', ''peerTetiId'', ''relationshipId'', ''expectedRevision'', ''ifMatch'', ''idempotencyKey'', ''rawBody'']"

definition pending_fields_ok :: "json \<Rightarrow> bool" where
  "pending_fields_ok p \<longleftrightarrow> is_record p \<and> list_all (\<lambda>k. k \<in> set pending_keys) (keys_of p)
     \<and> isTetiId (get p ''tetiId'') \<and> isRelationshipOperation (get p ''operation'')
     \<and> is_safe_integer (get p ''expectedRevision'') \<and> 0 \<le> int_of (get p ''expectedRevision'')
     \<and> get p ''ifMatch'' = relationship_etag (get p ''expectedRevision'') \<and> idempotency_key (get p ''idempotencyKey'')
     \<and> is_string (get p ''rawBody'') \<and> utf8_size (str_of (get p ''rawBody'')) \<le> 16384"

definition pending_target_ok :: "json \<Rightarrow> bool" where
  "pending_target_ok p \<longleftrightarrow> (if get p ''operation'' = JStr ''request''
     then isTetiId (get p ''peerTetiId'') \<and> get p ''relationshipId'' = JUndef
     else isRelationshipId (get p ''relationshipId'') \<and> get p ''peerTetiId'' = JUndef)"

definition pending_body_ok :: "(string \<Rightarrow> json option) \<Rightarrow> json \<Rightarrow> bool" where
  "pending_body_ok parse p \<longleftrightarrow> (case parse (str_of (get p ''rawBody'')) of None \<Rightarrow> False
     | Some body \<Rightarrow> is_record body \<and> get body ''schemaVersion'' = jint 1
         \<and> get body ''expectedRevision'' = get p ''expectedRevision''
         \<and> (if get p ''operation'' = JStr ''request'' then get body ''peerTetiId'' = get p ''peerTetiId''
            else ''peerTetiId'' \<notin> set (keys_of body)))"

definition command_error :: "string \<Rightarrow> net_error" where
  "command_error message = OtherError (PlainError message)"

text \<open>A record of the file with a command; the record without one is \<open>{schemaVersion: 1}\<close>.\<close>

definition validateRelationshipCommandRecord :: "(string \<Rightarrow> json option) \<Rightarrow> json \<Rightarrow> net_error option" where
  "validateRelationshipCommandRecord parse p =
     (if \<not> pending_fields_ok p then Some (command_error ''Teti Network pending Relationship command is invalid.'')
      else if \<not> pending_target_ok p then Some (command_error ''Teti Network pending Relationship target is invalid.'')
      else if \<not> pending_body_ok parse p then Some (command_error ''Teti Network pending Relationship body is invalid.'')
      else None)"

definition isCheckpoint :: "string \<Rightarrow> bool" where
  "isCheckpoint s \<longleftrightarrow> 5 \<le> length s \<and> length s \<le> 512 \<and> take 4 s = ''rcp_'' \<and> list_all base64_char (drop 4 s)"

definition validateRelationshipReconciliationRecord :: "string \<times> string \<Rightarrow> net_error option" where
  "validateRelationshipReconciliationRecord b =
     (if public_id_pattern (fst b) \<and> isCheckpoint (snd b) then None
      else Some (command_error ''Teti Network Relationship reconciliation binding is invalid.''))"

definition load_command :: "('w, json option) net" where
  "load_command s = (Inr (nt_command s), s)"

definition save_command :: "'w net_client \<Rightarrow> json \<Rightarrow> ('w, unit) net" where
  "save_command c p = net_then (net_check (validateRelationshipCommandRecord (nc_parse c) p))
     (\<lambda>_ s. (Inr (), s\<lparr>nt_command := Some p\<rparr>))"

definition clear_command :: "('w, unit) net" where
  "clear_command s = (Inr (), s\<lparr>nt_command := None\<rparr>)"

definition load_checkpoint :: "('w, (string \<times> string) option) net" where
  "load_checkpoint s = (Inr (nt_checkpoint s), s)"

definition save_checkpoint :: "string \<Rightarrow> string \<Rightarrow> ('w, unit) net" where
  "save_checkpoint tetiId checkpoint = net_then (net_check (validateRelationshipReconciliationRecord (tetiId, checkpoint)))
     (\<lambda>_ s. (Inr (), s\<lparr>nt_checkpoint := Some (tetiId, checkpoint)\<rparr>))"

definition clear_checkpoint :: "('w, unit) net" where
  "clear_checkpoint s = (Inr (), s\<lparr>nt_checkpoint := None\<rparr>)"

section \<open>Documents and pages\<close>

text \<open>\<open>expected\<close> is \<open>undefined\<close> when the caller knows no peer.\<close>

definition assertProjection :: "string \<Rightarrow> json \<Rightarrow> json \<Rightarrow> net_error option" where
  "assertProjection tetiId expected document =
     (let me = JStr tetiId; requester = get document ''requesterTetiId''; addressee = get document ''addresseeTetiId'';
          peer = get document ''peerTetiId''; direction = get document ''direction'' in
      if (requester \<noteq> me \<and> addressee \<noteq> me) \<or> requester = addressee \<or> peer = me
         \<or> (truthy expected \<and> peer \<noteq> expected)
         \<or> (direction = JStr ''outgoing'' \<and> requester \<noteq> me) \<or> (direction = JStr ''incoming'' \<and> addressee \<noteq> me)
      then Some (net_conflict ''relationship_get'' ''Network Relationship projection does not match the local identity.'')
      else None)"

definition prepare_network :: "'w net_client \<Rightarrow> ('w, string) net" where
  "prepare_network c s =
     (if nt_compatible s then net_call (nc_identity c) s
      else net_then (net_call (nc_bootstrap c)) (\<lambda>bootstrap.
        net_then (net_check (assertTetiNetworkCompatible bootstrap)) (\<lambda>_ s'.
          net_call (nc_identity c) (s'\<lparr>nt_compatible := True\<rparr>))) s)"

definition apply_document :: "'w net_client \<Rightarrow> string \<Rightarrow> json \<Rightarrow> ('w, unit) net" where
  "apply_document c me document = net_then (net_check (assertProjection me JUndef document)) (\<lambda>_.
     net_then (net_call (nc_apply c document)) (\<lambda>_ s. (Inr (), s\<lparr>nt_applied := nt_applied s @ [document]\<rparr>)))"

fun apply_documents :: "'w net_client \<Rightarrow> string \<Rightarrow> json list \<Rightarrow> ('w, unit) net" where
  "apply_documents c me [] = net_return ()"
| "apply_documents c me (document # documents) = net_then (apply_document c me document) (\<lambda>_. apply_documents c me documents)"

text \<open>
  The loops over the pages end when the process ends, at the latest after \<open>n\<close> pages: an error that no handler
  of the code sees. The empty string stands for the cursor and the checkpoint that are not known yet, which the code
  tests for truth.
\<close>

definition process_ended :: net_error where
  "process_ended = OtherError (PlainError ''The process ended.'')"

definition snapshot_conflict :: "string \<Rightarrow> net_error" where
  "snapshot_conflict message = net_conflict ''relationship_reconciliation_snapshot'' message"

definition changes_conflict :: "string \<Rightarrow> net_error" where
  "changes_conflict message = net_conflict ''relationship_reconciliation_changes'' message"

definition given_cursor :: "string option \<Rightarrow> string" where
  "given_cursor cursor = (case cursor of None \<Rightarrow> [] | Some cursor \<Rightarrow> cursor)"

fun snapshot_pages :: "nat \<Rightarrow> 'w net_client \<Rightarrow> string \<Rightarrow> string set \<Rightarrow> string \<Rightarrow> string \<Rightarrow> ('w, string) net" where
  "snapshot_pages 0 c me seen cursor base = net_fail process_ended"
| "snapshot_pages (Suc n) c me seen cursor base =
     net_then (net_call (nc_snapshot c me (if cursor = [] then None else Some cursor))) (\<lambda>page.
     if base \<noteq> [] \<and> sp_base page \<noteq> base
     then net_fail (snapshot_conflict ''Network Relationship snapshot checkpoint changed between pages.'')
     else net_then (apply_documents c me (sp_items page)) (\<lambda>_.
       let next_cursor = given_cursor (sp_next page) in
       if next_cursor = []
       then if sp_base page = [] then net_fail (snapshot_conflict ''Network Relationship snapshot omitted its base checkpoint.'')
         else net_return (sp_base page)
       else if next_cursor \<in> seen then net_fail (snapshot_conflict ''Network Relationship snapshot cursor repeated.'')
       else snapshot_pages n c me (insert next_cursor seen) next_cursor (sp_base page)))"

definition scanSnapshot :: "nat \<Rightarrow> 'w net_client \<Rightarrow> string \<Rightarrow> ('w, string) net" where
  "scanSnapshot n c me = snapshot_pages n c me {} [] []"

fun change_pages :: "nat \<Rightarrow> 'w net_client \<Rightarrow> string \<Rightarrow> string set \<Rightarrow> string \<Rightarrow> ('w, unit) net" where
  "change_pages 0 c me seen checkpoint = net_fail process_ended"
| "change_pages (Suc n) c me seen checkpoint =
     (if checkpoint \<in> seen then net_fail (changes_conflict ''Network Relationship changes checkpoint repeated.'')
      else net_then (net_call (nc_changes c me checkpoint)) (\<lambda>page.
        if cp_more page \<and> cp_items page = []
        then net_fail (changes_conflict ''Network Relationship changes reported an empty continuation page.'')
        else net_then (apply_documents c me (map snd (cp_items page))) (\<lambda>_.
          net_then (save_checkpoint me (cp_checkpoint page)) (\<lambda>_.
            if \<not> cp_more page then net_return ()
            else change_pages n c me (insert checkpoint seen) (cp_checkpoint page)))))"

definition scanChanges :: "nat \<Rightarrow> 'w net_client \<Rightarrow> string \<Rightarrow> string \<Rightarrow> ('w, unit) net" where
  "scanChanges n c me checkpoint = change_pages n c me {} checkpoint"

section \<open>Commands\<close>

text \<open>A command is handed to the client; the state records it with its answer.\<close>

definition send_command :: "'w net_client \<Rightarrow> string \<Rightarrow> json \<Rightarrow> ('w, json) net" where
  "send_command c me p s = (case nc_send c me p (nt_world s) of
     (r, w) \<Rightarrow> (r, s\<lparr>nt_world := w, nt_sent := nt_sent s @ [(me, p, r)]\<rparr>))"

text \<open>After a revision conflict the relationship is read again, whatever comes of it.\<close>

definition refresh_stale :: "'w net_client \<Rightarrow> string \<Rightarrow> json \<Rightarrow> net_error \<Rightarrow> ('w, 'a) net" where
  "refresh_stale c me p e = (case e of
       NetworkError code operation message retryable \<Rightarrow>
         if code = ''RELATIONSHIP_REVISION_CONFLICT''
         then net_then (net_catch (net_then
             (net_call (if get p ''operation'' = JStr ''request'' then nc_with_peer c me (str_of (get p ''peerTetiId''))
               else nc_get c me (str_of (get p ''relationshipId'')))) (\<lambda>_. net_return ()))
             (\<lambda>_. net_return ())) (\<lambda>_. net_fail e)
         else net_fail e
     | OtherError _ \<Rightarrow> net_fail e)"

definition final_failure :: "net_error \<Rightarrow> bool" where
  "final_failure e = (case e of NetworkError code operation message retryable \<Rightarrow> \<not> retryable | OtherError _ \<Rightarrow> False)"

definition command_failed :: "'w net_client \<Rightarrow> string \<Rightarrow> json \<Rightarrow> net_error \<Rightarrow> ('w, 'a) net" where
  "command_failed c me p e = net_then (if final_failure e then clear_command else net_return ()) (\<lambda>_. refresh_stale c me p e)"

definition latest_document :: "'w net_client \<Rightarrow> string \<Rightarrow> json \<Rightarrow> ('w, json) net" where
  "latest_document c me result =
     net_then (net_call (nc_get c me (str_of (get (get result ''document'') ''id'')))) (\<lambda>latest.
     net_then (net_check (assertProjection me (get (get result ''document'') ''peerTetiId'') (get latest ''document'')))
       (\<lambda>_. net_return latest))"

definition sendPending :: "'w net_client \<Rightarrow> string \<Rightarrow> bool \<Rightarrow> json \<Rightarrow> ('w, json) net" where
  "sendPending c me recovered p = net_catch
     (net_then (send_command c me p) (\<lambda>result.
      net_then (net_check (assertProjection me (get p ''peerTetiId'') (get result ''document''))) (\<lambda>_.
      net_then clear_command (\<lambda>_.
      net_catch (latest_document c me result) (\<lambda>e. if recovered then net_fail e else net_return result)))))
     (command_failed c me p)"

text \<open>\<open>None\<close> when there is nothing to recover.\<close>

definition recoverPending :: "'w net_client \<Rightarrow> string \<Rightarrow> ('w, json option) net" where
  "recoverPending c me = net_then load_command (\<lambda>stored. case stored of
       None \<Rightarrow> net_return None
     | Some p \<Rightarrow> if get p ''tetiId'' \<noteq> JStr me then net_then clear_command (\<lambda>_. net_return None)
         else net_then (sendPending c me True p) (\<lambda>result. net_return (Some result)))"

definition readByPeer :: "'w net_client \<Rightarrow> string \<Rightarrow> string \<Rightarrow> ('w, json option) net" where
  "readByPeer c me peer = net_catch
     (net_then (net_call (nc_with_peer c me peer)) (\<lambda>result.
      net_then (net_check (assertProjection me (JStr peer) (get result ''document''))) (\<lambda>_. net_return (Some result))))
     (\<lambda>e. case e of NetworkError code operation message retryable \<Rightarrow>
           if code = ''RELATIONSHIP_NOT_FOUND'' then net_return None else net_fail e
       | OtherError _ \<Rightarrow> net_fail e)"

text \<open>A command of the user: a request to a peer, or another command on a relationship.\<close>

definition command_revision :: "string \<Rightarrow> json option \<Rightarrow> json" where
  "command_revision operation current = (case current of
       None \<Rightarrow> jint 0
     | Some result \<Rightarrow> (let document = get result ''document'' in
         if operation = ''request'' \<and> get document ''state'' = JStr ''requested'' \<and> get document ''direction'' = JStr ''incoming''
         then jint (int_of (get document ''revision'') - 1)
         else or_else (get document ''revision'') (jint 0)))"

definition command_body :: "string \<Rightarrow> string \<Rightarrow> json \<Rightarrow> json" where
  "command_body operation target revision = JObj ([(''schemaVersion'', jint 1)]
     @ (if operation = ''request'' then [(''peerTetiId'', JStr target)] else []) @ [(''expectedRevision'', revision)])"

definition new_command :: "string \<Rightarrow> string \<Rightarrow> string \<Rightarrow> json \<Rightarrow> string \<Rightarrow> json" where
  "new_command me operation target revision key = JObj
     [(''tetiId'', JStr me), (''operation'', JStr operation),
      (if operation = ''request'' then ''peerTetiId'' else ''relationshipId'', JStr target),
      (''expectedRevision'', revision), (''ifMatch'', relationship_etag revision), (''idempotencyKey'', JStr key),
      (''rawBody'', JStr (stringify (command_body operation target revision)))]"

definition executeNew :: "'w net_client \<Rightarrow> string \<Rightarrow> string \<Rightarrow> string \<Rightarrow> json option \<Rightarrow> ('w, json) net" where
  "executeNew c me operation target current = net_then (net_call (nc_key c operation)) (\<lambda>key.
     let p = new_command me operation target (command_revision operation current) key in
     net_then (save_command c p) (\<lambda>_. sendPending c me False p))"

section \<open>Operations\<close>

definition reconcile_relationships :: "nat \<Rightarrow> 'w net_client \<Rightarrow> ('w, unit) net" where
  "reconcile_relationships n c = net_then (prepare_network c) (\<lambda>me.
     net_then (recoverPending c me) (\<lambda>_.
     net_then load_checkpoint (\<lambda>stored.
     case stored of
       Some (tetiId, checkpoint) \<Rightarrow>
         if tetiId = me then scanChanges n c me checkpoint
         else net_then clear_checkpoint (\<lambda>_. net_then (scanSnapshot n c me) (scanChanges n c me))
     | None \<Rightarrow> net_then (scanSnapshot n c me) (scanChanges n c me))))"

definition authorizePeer :: "'w net_client \<Rightarrow> string \<Rightarrow> ('w, json) net" where
  "authorizePeer c peer = net_then (prepare_network c) (\<lambda>me.
     net_then (net_call (nc_authorization c me peer)) (\<lambda>authorization.
       if get authorization ''peerTetiId'' \<noteq> JStr peer
          \<or> (get authorization ''decision'' = JStr ''allow'') \<noteq> (get authorization ''reason'' = JStr ''confirmed'')
       then net_fail (net_conflict ''relationship_authorization''
         ''Network Relationship authorization does not match the requested peer.'')
       else net_return authorization))"

definition getByPeer :: "'w net_client \<Rightarrow> string \<Rightarrow> ('w, json option) net" where
  "getByPeer c peer = net_then (prepare_network c) (\<lambda>me.
     net_then (recoverPending c me) (\<lambda>_. readByPeer c me peer))"

definition request_relationship :: "'w net_client \<Rightarrow> string \<Rightarrow> ('w, json) net" where
  "request_relationship c peer = net_then (prepare_network c) (\<lambda>me.
     net_then (recoverPending c me) (\<lambda>recovered.
     let new = net_then (readByPeer c me peer) (executeNew c me ''request'' peer) in
     case recovered of
       Some result \<Rightarrow> if get (get result ''document'') ''peerTetiId'' = JStr peer then net_return result else new
     | None \<Rightarrow> new))"

text \<open>\<open>accept\<close>, \<open>reject\<close>, \<open>block\<close> and \<open>revoke\<close>.\<close>

definition relationship_command :: "'w net_client \<Rightarrow> string \<Rightarrow> string \<Rightarrow> ('w, json) net" where
  "relationship_command c relationshipId operation = net_then (prepare_network c) (\<lambda>me.
     net_then (recoverPending c me) (\<lambda>recovered.
     let new = net_then (net_call (nc_get c me relationshipId)) (\<lambda>current.
           net_then (net_check (assertProjection me JUndef (get current ''document''))) (\<lambda>_.
             executeNew c me operation relationshipId (Some current))) in
     case recovered of
       Some result \<Rightarrow> if get (get result ''document'') ''id'' = JStr relationshipId then net_return result else new
     | None \<Rightarrow> new))"

end
