(* ===== verification/Relationship_Guarantees.thy ===== *)
theory Relationship_Guarantees
  imports Relationship_Service
begin

text \<open>
  What the relationship service guarantees over all runs, with any answers of the network, failures and restarts:
  the stored checkpoint never runs ahead of the documents that were applied, and a command whose outcome is not known
  is sent again, exactly as it was, before any other.
\<close>

section \<open>Runs\<close>

text \<open>One operation, which may end the process at any point; a restart forgets the check of the version.\<close>

inductive net_step :: "'w net_client \<Rightarrow> 'w net_state \<Rightarrow> 'w net_state \<Rightarrow> bool" for c s where
  reconcile: "reconcile_relationships n c s = (r, s') \<Longrightarrow> net_step c s s'"
| authorize: "authorizePeer c peer s = (a, s') \<Longrightarrow> net_step c s s'"
| read: "getByPeer c peer s = (o', s') \<Longrightarrow> net_step c s s'"
| request: "request_relationship c peer s = (a, s') \<Longrightarrow> net_step c s s'"
| command: "relationship_command c relationshipId operation s = (a, s') \<Longrightarrow> net_step c s s'"
| restart: "net_step c s (s\<lparr>nt_compatible := False, nt_world := w\<rparr>)"

definition fresh_net :: "'w \<Rightarrow> 'w net_state" where
  "fresh_net w = \<lparr>nt_world = w, nt_compatible = False, nt_command = None, nt_checkpoint = None, nt_sent = [], nt_applied = []\<rparr>"

section \<open>Composition\<close>

text \<open>
  A relation between the state before and after, which every computation below satisfies, is shown once for the
  two ways of composition.
\<close>

definition holds_over :: "('w net_state \<Rightarrow> bool) \<Rightarrow> ('w, 'a) net \<Rightarrow> ('w net_state \<Rightarrow> 'a \<Rightarrow> bool) \<Rightarrow> ('w net_state \<Rightarrow> bool) \<Rightarrow> bool" where
  "holds_over P m Q E \<longleftrightarrow> (\<forall>s r s'. P s \<longrightarrow> m s = (r, s') \<longrightarrow> (case r of Inl e \<Rightarrow> E s' | Inr x \<Rightarrow> Q s' x))"

lemma holds_return: "(\<And>s. P s \<Longrightarrow> Q s x) \<Longrightarrow> holds_over P (net_return x) Q E"
  by (simp add: holds_over_def net_return_def)

lemma holds_fail: "(\<And>s. P s \<Longrightarrow> E s) \<Longrightarrow> holds_over P (net_fail e) Q E"
  by (simp add: holds_over_def net_fail_def)

lemma holds_then: "holds_over P m R E \<Longrightarrow> (\<And>x. holds_over (\<lambda>s. R s x) (f x) Q E) \<Longrightarrow> holds_over P (net_then m f) Q E"
  unfolding holds_over_def net_then_def by (fastforce split: prod.splits sum.splits)

lemma holds_catch: "holds_over P m Q R \<Longrightarrow> (\<And>e. holds_over R (h e) Q E) \<Longrightarrow> holds_over P (net_catch m h) Q E"
  unfolding holds_over_def net_catch_def by (fastforce split: prod.splits sum.splits)

lemma holds_check: "(\<And>s. P s \<Longrightarrow> E s) \<Longrightarrow> (\<And>s. P s \<Longrightarrow> d = None \<Longrightarrow> Q s ()) \<Longrightarrow> holds_over P (net_check d) Q E"
  by (cases d) (simp_all add: net_check_def holds_return holds_fail)

lemma holds_call:
  assumes "\<And>s w. P s \<Longrightarrow> E (s\<lparr>nt_world := w\<rparr>)" and "\<And>s w w' x. P s \<Longrightarrow> f w = (Inr x, w') \<Longrightarrow> Q (s\<lparr>nt_world := w'\<rparr>) x"
  shows "holds_over P (net_call f) Q E"
  using assms unfolding holds_over_def net_call_def by (fastforce split: prod.splits sum.splits)

lemma holds_weaken:
  assumes "holds_over P m Q E" and "\<And>s. P' s \<Longrightarrow> P s" "\<And>s x. Q s x \<Longrightarrow> Q' s x" "\<And>s. E s \<Longrightarrow> E' s"
  shows "holds_over P' m Q' E'"
  using assms unfolding holds_over_def by (fastforce split: sum.splits)

lemma holds_fact: "(F \<Longrightarrow> holds_over P m Q E) \<Longrightarrow> holds_over (\<lambda>s. P s \<and> F) m Q E"
  unfolding holds_over_def by blast

lemma holds_some: "(\<And>x. F x \<Longrightarrow> holds_over (P x) m Q E) \<Longrightarrow> holds_over (\<lambda>s. \<exists>x. F x \<and> P x s) m Q E"
  unfolding holds_over_def by blast

text \<open>A computation keeps \<open>P\<close> however it ends.\<close>

definition keeps :: "('w net_state \<Rightarrow> bool) \<Rightarrow> ('w, 'a) net \<Rightarrow> bool" where
  "keeps P m \<longleftrightarrow> holds_over P m (\<lambda>s _. P s) P"

text \<open>What the calls do not change.\<close>

definition world_blind :: "('w net_state \<Rightarrow> bool) \<Rightarrow> bool" where
  "world_blind P \<longleftrightarrow> (\<forall>s w b. P s \<longrightarrow> P (s\<lparr>nt_world := w\<rparr>) \<and> P (s\<lparr>nt_compatible := b\<rparr>))"

lemma keeps_conv:
  fixes m :: "('w, 'a) net"
  shows "keeps P m \<longleftrightarrow> (\<forall>s. P s \<longrightarrow> P (snd (m s)))"
proof -
  have "(case r of Inl e \<Rightarrow> P s' | Inr x \<Rightarrow> P s') = P s'" for r :: "net_error + 'a" and s' by (cases r) simp_all
  then have "keeps P m \<longleftrightarrow> (\<forall>s r s'. P s \<longrightarrow> m s = (r, s') \<longrightarrow> P s')" by (simp only: keeps_def holds_over_def)
  also have "\<dots> \<longleftrightarrow> (\<forall>s. P s \<longrightarrow> P (snd (m s)))" by (simp add: prod_eq_iff)
  finally show ?thesis .
qed

lemma keeps_basic:
  "keeps P (net_return x)" "keeps P (net_fail e)" "keeps P (net_check d)" "keeps P load_command" "keeps P load_checkpoint"
  by (auto simp: keeps_conv net_return_def net_fail_def net_check_def load_command_def load_checkpoint_def split: option.split)

lemma keeps_call: "world_blind P \<Longrightarrow> keeps P (net_call f)"
  unfolding keeps_def world_blind_def by (rule holds_call) auto

lemma keeps_then: "keeps P m \<Longrightarrow> (\<And>x. keeps P (f x)) \<Longrightarrow> keeps P (net_then m f)"
  unfolding keeps_def by (rule holds_then)

lemma keeps_catch: "keeps P m \<Longrightarrow> (\<And>e. keeps P (h e)) \<Longrightarrow> keeps P (net_catch m h)"
  unfolding keeps_def by (rule holds_catch)

lemmas keeps_intros = keeps_basic keeps_call keeps_then keeps_catch

lemma keeps_prepare: "world_blind P \<Longrightarrow> keeps P (prepare_network c)"
proof -
  assume P: "world_blind P"
  have "keeps P (\<lambda>s. net_call (nc_identity c) (s\<lparr>nt_compatible := True\<rparr>))"
    using keeps_call [OF P, of "nc_identity c"] P unfolding keeps_def holds_over_def world_blind_def by blast
  then have first: "keeps P (net_then (net_call (nc_bootstrap c)) (\<lambda>bootstrap. net_then (net_check (assertTetiNetworkCompatible bootstrap))
      (\<lambda>_ s'. net_call (nc_identity c) (s'\<lparr>nt_compatible := True\<rparr>))))"
    by (intro keeps_intros P)
  show ?thesis
    using first keeps_call [OF P, of "nc_identity c"] unfolding keeps_conv prepare_network_def by simp
qed

lemma keeps_refresh: "world_blind P \<Longrightarrow> keeps P (refresh_stale c me p e)"
proof (cases e)
  case (NetworkError code operation message retryable)
  assume P: "world_blind P"
  show ?thesis
  proof (cases "code = ''RELATIONSHIP_REVISION_CONFLICT''")
    case True
    show ?thesis unfolding refresh_stale_def NetworkError True net_error.case if_P [OF refl] by (intro keeps_intros P)
  qed (simp add: refresh_stale_def NetworkError keeps_basic)
qed (simp add: refresh_stale_def keeps_basic)

lemma keeps_readByPeer: "world_blind P \<Longrightarrow> keeps P (readByPeer c me peer)"
proof -
  assume P: "world_blind P"
  have "keeps P (case e of NetworkError code operation message retryable \<Rightarrow>
      if code = ''RELATIONSHIP_NOT_FOUND'' then net_return None else net_fail e | OtherError _ \<Rightarrow> net_fail e)" for e
    by (cases e) (simp_all add: keeps_basic)
  then show ?thesis unfolding readByPeer_def by (intro keeps_intros P)
qed

section \<open>Checkpoints\<close>

text \<open>
  The pages of one snapshot as the network gave them, from a cursor on, with the checkpoint they belong to; and the
  checkpoints that a set of applied documents covers: the one of a snapshot whose documents were applied, and the
  one of a page of changes that was asked for at a covered checkpoint and whose documents were applied.
\<close>

definition answers :: "('w \<Rightarrow> (net_error + 'a) \<times> 'w) \<Rightarrow> 'a \<Rightarrow> bool" where
  "answers f x \<longleftrightarrow> (\<exists>w. fst (f w) = Inr x)"

lemma holds_answer:
  assumes "world_blind P"
  shows "holds_over P (net_call f) (\<lambda>s x. P s \<and> answers f x) P"
proof (rule holds_call)
  fix s w w' x
  assume "P s" "f w = (Inr x, w')"
  then show "P (s\<lparr>nt_world := w'\<rparr>) \<and> answers f x"
    using assms unfolding world_blind_def answers_def by (metis fst_conv)
qed (use assms in \<open>simp add: world_blind_def\<close>)

inductive snapshot_answers :: "'w net_client \<Rightarrow> string \<Rightarrow> string \<Rightarrow> string \<Rightarrow> json list \<Rightarrow> bool" for c me base where
  last: "\<lbrakk>answers (nc_snapshot c me (if cursor = [] then None else Some cursor)) page; sp_base page = base;
     given_cursor (sp_next page) = []\<rbrakk> \<Longrightarrow> snapshot_answers c me base cursor (sp_items page)"
| more: "\<lbrakk>answers (nc_snapshot c me (if cursor = [] then None else Some cursor)) page; sp_base page \<in> {[], base};
     given_cursor (sp_next page) = cursor'; cursor' \<noteq> []; snapshot_answers c me base cursor' documents\<rbrakk>
   \<Longrightarrow> snapshot_answers c me base cursor (sp_items page @ documents)"

inductive covered :: "'w net_client \<Rightarrow> string \<Rightarrow> json set \<Rightarrow> string \<Rightarrow> bool" for c me where
  snapshot: "\<lbrakk>snapshot_answers c me base [] documents; set documents \<subseteq> D\<rbrakk> \<Longrightarrow> covered c me D base"
| changes: "\<lbrakk>covered c me D checkpoint; answers (nc_changes c me checkpoint) page; snd ` set (cp_items page) \<subseteq> D\<rbrakk>
   \<Longrightarrow> covered c me D (cp_checkpoint page)"

lemma covered_mono: "covered c me D checkpoint \<Longrightarrow> D \<subseteq> D' \<Longrightarrow> covered c me D' checkpoint"
  by (induction rule: covered.induct) (blast intro: covered.intros)+

definition checkpoint_covered :: "'w net_client \<Rightarrow> 'w net_state \<Rightarrow> bool" where
  "checkpoint_covered c s \<longleftrightarrow> (case nt_checkpoint s of None \<Rightarrow> True
     | Some (me, checkpoint) \<Rightarrow> covered c me (set (nt_applied s)) checkpoint)"

lemma checkpoint_blind: "world_blind (checkpoint_covered c)" "world_blind (\<lambda>s. checkpoint_covered c s \<and> D \<subseteq> set (nt_applied s))"
  by (auto simp: world_blind_def checkpoint_covered_def split: option.splits)

lemma checkpoint_apply:
  assumes "checkpoint_covered c s" "set (nt_applied s) \<subseteq> set ds"
  shows "checkpoint_covered c (s\<lparr>nt_applied := ds\<rparr>)"
  using assms by (auto simp: checkpoint_covered_def split: option.splits intro: covered_mono)

text \<open>The documents of a page are applied, however the loop ends.\<close>

lemma apply_documents_holds:
  "holds_over (\<lambda>s. checkpoint_covered c s \<and> D \<subseteq> set (nt_applied s)) (apply_documents c me documents)
     (\<lambda>s _. checkpoint_covered c s \<and> D \<union> set documents \<subseteq> set (nt_applied s)) (checkpoint_covered c)"
proof (induction documents arbitrary: D)
  case Nil
  show ?case by (simp add: holds_return)
next
  case (Cons document documents)
  have check: "holds_over (\<lambda>s. checkpoint_covered c s \<and> D \<subseteq> set (nt_applied s)) (net_check (assertProjection me JUndef document))
      (\<lambda>s _. checkpoint_covered c s \<and> D \<subseteq> set (nt_applied s)) (checkpoint_covered c)"
    by (rule holds_check) simp_all
  have call: "holds_over (\<lambda>s. checkpoint_covered c s \<and> D \<subseteq> set (nt_applied s)) (net_call (nc_apply c document))
      (\<lambda>s _. checkpoint_covered c s \<and> D \<subseteq> set (nt_applied s)) (checkpoint_covered c)"
    using checkpoint_blind(2) [of c D] by (intro holds_call) (auto simp: world_blind_def)
  have note_applied: "holds_over (\<lambda>s. checkpoint_covered c s \<and> D \<subseteq> set (nt_applied s))
      (\<lambda>s. (Inr (), s\<lparr>nt_applied := nt_applied s @ [document]\<rparr>))
      (\<lambda>s _. checkpoint_covered c s \<and> insert document D \<subseteq> set (nt_applied s)) (checkpoint_covered c)"
    by (auto simp: holds_over_def intro!: checkpoint_apply)
  have "holds_over (\<lambda>s. checkpoint_covered c s \<and> D \<subseteq> set (nt_applied s)) (apply_document c me document)
      (\<lambda>s _. checkpoint_covered c s \<and> insert document D \<subseteq> set (nt_applied s)) (checkpoint_covered c)"
    unfolding apply_document_def by (rule holds_then [OF check holds_then [OF call note_applied]])
  from holds_then [OF this Cons.IH [of "insert document D"]] show ?case by simp
qed

text \<open>The state while pages are applied: the stored checkpoint is covered, and \<open>D\<close> was applied.\<close>

definition paging :: "'w net_client \<Rightarrow> json set \<Rightarrow> 'w net_state \<Rightarrow> bool" where
  "paging c D s \<longleftrightarrow> checkpoint_covered c s \<and> D \<subseteq> set (nt_applied s)"

lemma paging_covered: "paging c D s \<Longrightarrow> checkpoint_covered c s"
  by (simp add: paging_def)

lemma paging_blind: "world_blind (paging c D)"
  by (auto simp: world_blind_def paging_def checkpoint_covered_def split: option.splits)

lemma apply_documents_paging:
  "holds_over (paging c D) (apply_documents c me documents) (\<lambda>s _. paging c (D \<union> set documents) s) (checkpoint_covered c)"
  using apply_documents_holds unfolding paging_def .

lemma snapshot_holds:
  "holds_over (paging c D) (snapshot_pages n c me seen cursor base)
     (\<lambda>s result. (base \<noteq> [] \<longrightarrow> result = base) \<and> (\<exists>documents. snapshot_answers c me result cursor documents \<and> paging c (D \<union> set documents) s))
     (checkpoint_covered c)"
proof (induction n arbitrary: D seen cursor base)
  case 0
  show ?case unfolding snapshot_pages.simps by (rule holds_fail) (auto simp: paging_def)
next
  case (Suc n)
  let ?ask = "nc_snapshot c me (if cursor = [] then None else Some cursor)"
  let ?Q = "\<lambda>s result. (base \<noteq> [] \<longrightarrow> result = base)
    \<and> (\<exists>documents. snapshot_answers c me result cursor documents \<and> paging c (D \<union> set documents) s)"
  let ?next = "\<lambda>page. given_cursor (sp_next page)"
  have call: "holds_over (paging c D) (net_call ?ask) (\<lambda>s page. paging c D s \<and> answers ?ask page) (checkpoint_covered c)"
    by (rule holds_weaken [OF holds_answer [OF paging_blind [of c D]]]) (simp_all add: paging_def)
  have rest: "holds_over (paging c (D \<union> set (sp_items page)))
      (if ?next page = []
       then if sp_base page = [] then net_fail (snapshot_conflict ''Network Relationship snapshot omitted its base checkpoint.'')
         else net_return (sp_base page)
       else if ?next page \<in> seen then net_fail (snapshot_conflict ''Network Relationship snapshot cursor repeated.'')
       else snapshot_pages n c me (insert (?next page) seen) (?next page) (sp_base page)) ?Q (checkpoint_covered c)"
    if base: "base = [] \<or> sp_base page = base" and asked: "answers ?ask page" for page
  proof -
    have last: "snapshot_answers c me (sp_base page) cursor (sp_items page)" if "?next page = []"
      using asked that by (auto intro: snapshot_answers.last)
    have more: "snapshot_answers c me result cursor (sp_items page @ documents)"
      if "?next page \<noteq> []" "sp_base page \<noteq> [] \<longrightarrow> result = sp_base page" "snapshot_answers c me result (?next page) documents"
      for result documents
      using asked that by (intro snapshot_answers.more [where cursor' = "?next page"]) auto
    have "holds_over (paging c (D \<union> set (sp_items page)))
       (snapshot_pages n c me (insert (?next page) seen) (?next page) (sp_base page)) ?Q (checkpoint_covered c)" if "?next page \<noteq> []"
    proof (rule holds_weaken [OF Suc.IH])
      fix s result
      assume "(sp_base page \<noteq> [] \<longrightarrow> result = sp_base page)
        \<and> (\<exists>documents. snapshot_answers c me result (?next page) documents \<and> paging c (D \<union> set (sp_items page) \<union> set documents) s)"
      then obtain documents where r: "sp_base page \<noteq> [] \<longrightarrow> result = sp_base page"
        and d: "snapshot_answers c me result (?next page) documents" "paging c (D \<union> set (sp_items page @ documents)) s"
        by (auto simp: Un_assoc)
      from more [OF that r d(1)] r d(2) base show "?Q s result" by blast
    qed
    then show ?thesis
      using base last by (auto intro!: holds_return holds_fail simp: paging_def)
  qed
  let ?body = "\<lambda>page. if base \<noteq> [] \<and> sp_base page \<noteq> base
      then net_fail (snapshot_conflict ''Network Relationship snapshot checkpoint changed between pages.'')
      else net_then (apply_documents c me (sp_items page)) (\<lambda>_. let next_cursor = ?next page in
        if next_cursor = []
        then if sp_base page = [] then net_fail (snapshot_conflict ''Network Relationship snapshot omitted its base checkpoint.'')
          else net_return (sp_base page)
        else if next_cursor \<in> seen then net_fail (snapshot_conflict ''Network Relationship snapshot cursor repeated.'')
        else snapshot_pages n c me (insert next_cursor seen) next_cursor (sp_base page))"
  have "holds_over (\<lambda>s. paging c D s \<and> answers ?ask page) (?body page) ?Q (checkpoint_covered c)" for page
  proof (rule holds_fact)
    assume asked: "answers ?ask page"
    show "holds_over (paging c D) (?body page) ?Q (checkpoint_covered c)"
    proof (cases "base = [] \<or> sp_base page = base")
      case True
      then have same: "(base \<noteq> [] \<and> sp_base page \<noteq> base) = False" by simp
      show ?thesis unfolding same if_False Let_def by (rule holds_then [OF apply_documents_paging rest [OF True asked]])
    qed (auto intro!: holds_fail dest: paging_covered)
  qed
  from holds_then [OF call this] show ?case by simp
qed

lemma save_checkpoint_holds:
  assumes "covered c me D checkpoint"
  shows "holds_over (paging c D) (save_checkpoint me checkpoint) (\<lambda>s _. paging c D s) (checkpoint_covered c)"
proof -
  have "holds_over (paging c D) (\<lambda>s. (Inr (), s\<lparr>nt_checkpoint := Some (me, checkpoint)\<rparr>)) (\<lambda>s _. paging c D s) (checkpoint_covered c)"
    using assms by (auto simp: holds_over_def paging_def checkpoint_covered_def intro: covered_mono)
  then show ?thesis
    unfolding save_checkpoint_def by (intro holds_then [OF holds_check]) (auto simp: paging_def)
qed

lemma change_holds:
  assumes "covered c me D checkpoint"
  shows "holds_over (paging c D) (change_pages n c me seen checkpoint) (\<lambda>s _. checkpoint_covered c s) (checkpoint_covered c)"
  using assms
proof (induction n arbitrary: D seen checkpoint)
  case 0
  show ?case unfolding change_pages.simps by (rule holds_fail) (auto simp: paging_def)
next
  case (Suc n)
  let ?ask = "nc_changes c me checkpoint" and ?E = "checkpoint_covered c"
  let ?saved = "\<lambda>page. net_then (save_checkpoint me (cp_checkpoint page)) (\<lambda>_.
    if \<not> cp_more page then net_return () else change_pages n c me (insert checkpoint seen) (cp_checkpoint page))"
  have call: "holds_over (paging c D) (net_call ?ask) (\<lambda>s page. paging c D s \<and> answers ?ask page) ?E"
    by (rule holds_weaken [OF holds_answer [OF paging_blind [of c D]]]) (simp_all add: paging_def)
  have saved: "holds_over (paging c (D \<union> set (map snd (cp_items page)))) (?saved page) (\<lambda>s _. ?E s) ?E"
    if "answers ?ask page" for page
  proof -
    let ?D = "D \<union> set (map snd (cp_items page))"
    have new: "covered c me ?D (cp_checkpoint page)"
      using Suc.prems that by (intro covered.changes [OF covered_mono [OF Suc.prems]]) auto
    have "holds_over (paging c ?D) (if \<not> cp_more page then net_return () else change_pages n c me (insert checkpoint seen) (cp_checkpoint page))
        (\<lambda>s _. ?E s) ?E"
      using Suc.IH [OF new] by (cases "cp_more page") (auto intro!: holds_return dest: paging_covered)
    then show ?thesis by (rule holds_then [OF save_checkpoint_holds [OF new]])
  qed
  let ?body = "\<lambda>page. if cp_more page \<and> cp_items page = []
      then net_fail (changes_conflict ''Network Relationship changes reported an empty continuation page.'')
      else net_then (apply_documents c me (map snd (cp_items page))) (\<lambda>_. ?saved page)"
  have "holds_over (\<lambda>s. paging c D s \<and> answers ?ask page) (?body page) (\<lambda>s _. ?E s) ?E" for page
  proof (rule holds_fact)
    assume asked: "answers ?ask page"
    show "holds_over (paging c D) (?body page) (\<lambda>s _. ?E s) ?E"
    proof (cases "cp_more page \<and> cp_items page = []")
      case False
      show ?thesis unfolding if_not_P [OF False] by (rule holds_then [OF apply_documents_paging saved [OF asked]])
    qed (auto intro!: holds_fail dest: paging_covered)
  qed
  from holds_then [OF call this]
  have asked: "holds_over (paging c D) (net_then (net_call ?ask) (\<lambda>page. ?body page)) (\<lambda>s _. ?E s) ?E" .
  show ?case
  proof (cases "checkpoint \<in> seen")
    case True
    then show ?thesis by (auto intro!: holds_fail dest: paging_covered)
  next
    case False
    then show ?thesis using asked by (simp only: change_pages.simps if_False)
  qed
qed

text \<open>The commands do not change the checkpoint or what was applied.\<close>

lemma keeps_covered:
  "keeps (checkpoint_covered c) (send_command c' me p)" "keeps (checkpoint_covered c) clear_command"
  "keeps (checkpoint_covered c) (save_command c' p)" "keeps (checkpoint_covered c) clear_checkpoint"
  by (auto simp: keeps_conv send_command_def clear_command_def save_command_def clear_checkpoint_def net_then_def net_check_def
      net_return_def net_fail_def checkpoint_covered_def split: option.splits prod.splits sum.splits)

lemmas covered_intros = keeps_basic keeps_call [OF checkpoint_blind(1)] keeps_covered keeps_refresh [OF checkpoint_blind(1)]
  keeps_readByPeer [OF checkpoint_blind(1)] keeps_prepare [OF checkpoint_blind(1)] keeps_then keeps_catch

lemma covered_if: "(b \<Longrightarrow> keeps P m) \<Longrightarrow> (\<not> b \<Longrightarrow> keeps P m') \<Longrightarrow> keeps P (if b then m else m')"
  by simp

lemma covered_commands:
  "keeps (checkpoint_covered c) (sendPending c' me b p)" "keeps (checkpoint_covered c) (recoverPending c' me)"
  "keeps (checkpoint_covered c) (executeNew c' me operation target current)"
proof -
  show send: "keeps (checkpoint_covered c) (sendPending c' me b p)" for b p
    unfolding sendPending_def latest_document_def command_failed_def by (intro covered_intros covered_if)
  show "keeps (checkpoint_covered c) (recoverPending c' me)"
    unfolding recoverPending_def
    by (rule keeps_then [OF keeps_basic(4)]) (auto split: option.split intro!: covered_if covered_intros send)
  show "keeps (checkpoint_covered c) (executeNew c' me operation target current)"
    unfolding executeNew_def Let_def by (intro covered_intros send)
qed

lemma scan_holds:
  "holds_over (checkpoint_covered c) (net_then (scanSnapshot n c me) (scanChanges n c me)) (\<lambda>s _. checkpoint_covered c s) (checkpoint_covered c)"
proof -
  have "holds_over (checkpoint_covered c) (scanSnapshot n c me) (\<lambda>s base. \<exists>D. covered c me D base \<and> paging c D s) (checkpoint_covered c)"
    unfolding scanSnapshot_def
  proof (rule holds_weaken [OF snapshot_holds [where D = "{}"]])
    fix s base
    assume "(([] :: string) \<noteq> [] \<longrightarrow> base = [])
      \<and> (\<exists>documents. snapshot_answers c me base [] documents \<and> paging c ({} \<union> set documents) s)"
    then show "\<exists>D. covered c me D base \<and> paging c D s" by (auto intro: covered.snapshot)
  qed (simp_all add: paging_def)
  moreover have "holds_over (\<lambda>s. \<exists>D. covered c me D base \<and> paging c D s) (scanChanges n c me base) (\<lambda>s _. checkpoint_covered c s)
      (checkpoint_covered c)" for base
    unfolding scanChanges_def by (intro holds_some change_holds)
  ultimately show ?thesis by (rule holds_then)
qed

lemma resume_scan_holds:
  "holds_over (checkpoint_covered c) (net_then load_checkpoint (\<lambda>stored. case stored of
       Some (tetiId, checkpoint) \<Rightarrow>
         if tetiId = me then scanChanges n c me checkpoint
         else net_then clear_checkpoint (\<lambda>_. net_then (scanSnapshot n c me) (scanChanges n c me))
     | None \<Rightarrow> net_then (scanSnapshot n c me) (scanChanges n c me))) (\<lambda>s _. checkpoint_covered c s) (checkpoint_covered c)"
proof (rule holds_then)
  show "holds_over (checkpoint_covered c) load_checkpoint (\<lambda>s stored. \<exists>D. (\<forall>t cp. stored = Some (t, cp) \<longrightarrow> covered c t D cp) \<and> paging c D s)
      (checkpoint_covered c)"
    by (auto simp: holds_over_def load_checkpoint_def checkpoint_covered_def paging_def split: option.splits)
next
  fix stored
  have clear: "holds_over (checkpoint_covered c) clear_checkpoint (\<lambda>s _. checkpoint_covered c s) (checkpoint_covered c)"
    by (simp add: holds_over_def clear_checkpoint_def checkpoint_covered_def)
  show "holds_over (\<lambda>s. \<exists>D. (\<forall>t cp. stored = Some (t, cp) \<longrightarrow> covered c t D cp) \<and> paging c D s) (case stored of
       Some (tetiId, checkpoint) \<Rightarrow>
         if tetiId = me then scanChanges n c me checkpoint
         else net_then clear_checkpoint (\<lambda>_. net_then (scanSnapshot n c me) (scanChanges n c me))
     | None \<Rightarrow> net_then (scanSnapshot n c me) (scanChanges n c me)) (\<lambda>s _. checkpoint_covered c s) (checkpoint_covered c)"
  proof (rule holds_some)
    fix D
    assume D: "\<forall>t cp. stored = Some (t, cp) \<longrightarrow> covered c t D cp"
    have scan: "holds_over (paging c D) (net_then (scanSnapshot n c me) (scanChanges n c me)) (\<lambda>s _. checkpoint_covered c s) (checkpoint_covered c)"
      by (rule holds_weaken [OF scan_holds]) (simp_all add: paging_def)
    have again: "holds_over (paging c D) (net_then clear_checkpoint (\<lambda>_. net_then (scanSnapshot n c me) (scanChanges n c me)))
        (\<lambda>s _. checkpoint_covered c s) (checkpoint_covered c)"
      by (rule holds_weaken [OF holds_then [OF clear scan_holds]]) (simp_all add: paging_def)
    show "holds_over (paging c D) (case stored of
       Some (tetiId, checkpoint) \<Rightarrow>
         if tetiId = me then scanChanges n c me checkpoint
         else net_then clear_checkpoint (\<lambda>_. net_then (scanSnapshot n c me) (scanChanges n c me))
     | None \<Rightarrow> net_then (scanSnapshot n c me) (scanChanges n c me)) (\<lambda>s _. checkpoint_covered c s) (checkpoint_covered c)"
      using D scan again change_holds by (auto simp: scanChanges_def split: option.split)
  qed
qed

lemma covered_step: "net_step c s s' \<Longrightarrow> checkpoint_covered c s \<Longrightarrow> checkpoint_covered c s'"
proof (induction rule: net_step.induct)
  case (reconcile n r s')
  have "keeps (checkpoint_covered c) (reconcile_relationships n c)"
    unfolding reconcile_relationships_def
    using resume_scan_holds
    by (intro keeps_then [OF keeps_prepare [OF checkpoint_blind(1)]] keeps_then [OF covered_commands(2)]) (simp add: keeps_def)
  then show ?case using reconcile by (auto simp: keeps_conv)
next
  case (authorize peer a s')
  have "keeps (checkpoint_covered c) (authorizePeer c peer)"
    unfolding authorizePeer_def by (intro covered_intros covered_if)
  then show ?case using authorize by (auto simp: keeps_conv)
next
  case (read peer o' s')
  have "keeps (checkpoint_covered c) (getByPeer c peer)"
    unfolding getByPeer_def by (intro covered_intros covered_commands)
  then show ?case using read by (auto simp: keeps_conv)
next
  case (request peer a s')
  have "keeps (checkpoint_covered c) (request_relationship c peer)"
    unfolding request_relationship_def Let_def
    by (rule keeps_then, rule keeps_prepare [OF checkpoint_blind(1)], rule keeps_then, rule covered_commands)
      (auto split: option.split intro!: covered_if covered_intros covered_commands)
  then show ?case using request by (auto simp: keeps_conv)
next
  case (command relationshipId operation a s')
  have "keeps (checkpoint_covered c) (relationship_command c relationshipId operation)"
    unfolding relationship_command_def Let_def
    by (rule keeps_then, rule keeps_prepare [OF checkpoint_blind(1)], rule keeps_then, rule covered_commands)
      (auto split: option.split intro!: covered_if covered_intros covered_commands)
  then show ?case using command by (auto simp: keeps_conv)
next
  case (restart w)
  then show ?case by (auto simp: checkpoint_covered_def split: option.splits)
qed

text \<open>
  C17: The stored checkpoint never runs ahead of what was applied: after any run, with failing calls, an
  \<open>apply\<close> that throws, a process that ends anywhere, restarts and a change of the local identity, every document of
  the snapshot and of the pages of changes that lead to the stored checkpoint was applied.
\<close>

theorem checkpoint_never_runs_ahead:
  assumes "(net_step c)\<^sup>*\<^sup>* (fresh_net w) s" and "nt_checkpoint s = Some (me, checkpoint)"
  shows "covered c me (set (nt_applied s)) checkpoint"
proof -
  have "checkpoint_covered c s"
    using assms(1) by (induction rule: rtranclp_induct)
      (simp add: fresh_net_def checkpoint_covered_def, blast intro: covered_step)
  then show ?thesis using assms(2) by (simp add: checkpoint_covered_def)
qed

section \<open>Commands\<close>















lemma refresh_fails: "fst (refresh_stale c me p e s) = Inl e"
  by (cases e) (simp_all add: refresh_stale_def net_then_def net_catch_def net_return_def net_fail_def split: prod.split sum.split)


lemma keeps_latest: "world_blind P \<Longrightarrow> keeps P (latest_document c me result)"
  unfolding latest_document_def by (intro keeps_intros)




text \<open>Every operation of one identity.\<close>

definition only_identity :: "'w net_client \<Rightarrow> string \<Rightarrow> bool" where
  "only_identity c me \<longleftrightarrow> (\<forall>w x. fst (nc_identity c w) = Inr x \<longrightarrow> x = me)"







text \<open>Recovering a command hands it to the client once, and nothing else.\<close>

definition sent_is :: "(string \<times> json \<times> (net_error + json)) list \<Rightarrow> 'w net_state \<Rightarrow> bool" where
  "sent_is l s \<longleftrightarrow> nt_sent s = l"

lemma sent_blind: "world_blind (sent_is l)" "world_blind (\<lambda>s. sent_is l s \<and> nt_command s = p)"
  by (simp_all add: world_blind_def sent_is_def)

lemma clear_keeps_sent: "keeps (sent_is l) clear_command"
  by (simp add: keeps_conv clear_command_def sent_is_def)

lemma failed_sent:
  assumes "command_failed c me p e s = (r, s')"
  shows "nt_sent s' = nt_sent s" "r = Inl e"
proof -
  let ?s1 = "if final_failure e then s\<lparr>nt_command := None\<rparr> else s"
  have r: "(r, s') = refresh_stale c me p e ?s1"
    using assms by (cases "final_failure e") (simp_all add: command_failed_def net_then_def clear_command_def net_return_def)
  have "sent_is (nt_sent s) ?s1" by (simp add: sent_is_def)
  then have "sent_is (nt_sent s) (snd (r, s'))"
    using keeps_refresh [OF sent_blind(1)] unfolding keeps_conv r by blast
  then show "nt_sent s' = nt_sent s" by (simp add: sent_is_def)
  have "fst (r, s') = Inl e" unfolding r by (rule refresh_fails)
  then show "r = Inl e" by simp
qed

text \<open>A network that answers about the relationship it was asked about.\<close>

definition answers_about :: "'w net_client \<Rightarrow> bool" where
  "answers_about c \<longleftrightarrow>
     (\<forall>me p w x. fst (nc_send c me p w) = Inr x \<longrightarrow> get p ''operation'' \<noteq> JStr ''request''
        \<longrightarrow> get (get x ''document'') ''id'' = get p ''relationshipId'')
     \<and> (\<forall>me i w x. fst (nc_get c me i w) = Inr x \<longrightarrow> get (get x ''document'') ''id'' = JStr i)"

lemma latest_about:
  assumes "answers_about c" and "latest_document c me result s = (Inr x, s')"
  shows "get (get x ''document'') ''id'' = JStr (str_of (get (get result ''document'') ''id''))"
proof -
  let ?i = "str_of (get (get result ''document'') ''id'')"
  have "fst (nc_get c me ?i (nt_world s)) = Inr x"
    using assms(2) by (auto simp: latest_document_def net_then_def net_call_def net_check_def net_return_def net_fail_def
        split: prod.splits sum.splits option.splits)
  then show ?thesis using assms(1) unfolding answers_about_def by blast
qed

lemma recovered_sends:
  assumes honest: "answers_about c" and p: "get p ''operation'' \<noteq> JStr ''request''" "get p ''relationshipId'' = JStr R"
    and send: "sendPending c me True p s = (r, s')"
  shows "(\<exists>a. nt_sent s' = nt_sent s @ [(me, p, a)])
    \<and> (\<forall>x. r = Inr x \<longrightarrow> (\<exists>y. nt_sent s' = nt_sent s @ [(me, p, Inr y)]) \<and> nt_command s' = None
        \<and> get (get x ''document'') ''id'' = JStr R)"
proof -
  obtain a w where answer: "nc_send c me p (nt_world s) = (a, w)" by (cases "nc_send c me p (nt_world s)")
  let ?s1 = "s\<lparr>nt_world := w, nt_sent := nt_sent s @ [(me, p, a)]\<rparr>"
  have sent: "send_command c me p s = (a, ?s1)" by (simp add: send_command_def answer)
  show ?thesis
  proof (cases a)
    case (Inl e)
    then have "command_failed c me p e ?s1 = (r, s')"
      using send by (simp add: sendPending_def net_catch_def net_then_def sent)
    from failed_sent [OF this] show ?thesis by auto
  next
    case (Inr result)
    show ?thesis
    proof (cases "assertProjection me (get p ''peerTetiId'') (get result ''document'')")
      case (Some e)
      then have "command_failed c me p e ?s1 = (r, s')"
        using send by (simp add: sendPending_def net_catch_def net_then_def sent Inr net_check_def net_fail_def)
      from failed_sent [OF this] show ?thesis by auto
    next
      case None
      let ?s2 = "?s1\<lparr>nt_command := None\<rparr>"
      obtain x s3 where latest: "latest_document c me result ?s2 = (x, s3)" by (cases "latest_document c me result ?s2")
      have "sent_is (nt_sent ?s2) ?s2 \<and> nt_command ?s2 = None" by (simp add: sent_is_def)
      then have "sent_is (nt_sent ?s2) (snd (latest_document c me result ?s2)) \<and> nt_command (snd (latest_document c me result ?s2)) = None"
        using keeps_latest [OF sent_blind(2) [of "nt_sent ?s2" None], of c me result] unfolding keeps_conv by blast
      then have s3: "nt_sent s3 = nt_sent s @ [(me, p, a)]" "nt_command s3 = None" by (simp_all add: latest sent_is_def)
      have rest: "(r, s') = (case x of Inr y \<Rightarrow> (x, s3) | Inl e \<Rightarrow> command_failed c me p e s3)"
        using send None by (auto simp: sendPending_def net_catch_def net_then_def sent Inr net_check_def net_return_def net_fail_def
            clear_command_def latest [unfolded Inr] split: sum.splits)
      show ?thesis
      proof (cases x)
        case (Inl e)
        then have "command_failed c me p e s3 = (r, s')" using rest by simp
        from failed_sent [OF this] show ?thesis using s3 by auto
      next
        case y: (Inr y)
        have "get (get result ''document'') ''id'' = JStr R"
          using honest answer p unfolding Inr answers_about_def by (metis fst_conv)
        then have "get (get y ''document'') ''id'' = JStr R" using latest_about [OF honest latest [unfolded y]] by simp
        then show ?thesis using rest s3 Inr y by auto
      qed
    qed
  qed
qed

text \<open>
  C19: A recovered command answers for the new one. When the store still holds a command of the user on a relationship
  (say a revocation whose answer was lost), the next command on the same relationship, whatever it is (say a block),
  is never handed to the client: at most the stored one is sent again, and when the call succeeds it returns the document of that
  relationship after the stored command was accepted, with nothing left to send. The network is assumed to answer about
  the relationship it was asked about, and the local identity to be the one of the stored command.
\<close>

theorem recovered_command_answers_for_another:
  assumes me: "only_identity c me" and honest: "answers_about c"
    and stored: "nt_command s = Some p" "get p ''tetiId'' = JStr me"
    and about: "get p ''operation'' \<noteq> JStr ''request''" "get p ''relationshipId'' = JStr R"
    and call: "relationship_command c R operation s = (r, s')"
  shows "(nt_sent s' = nt_sent s \<or> (\<exists>a. nt_sent s' = nt_sent s @ [(me, p, a)]))
    \<and> (\<forall>x. r = Inr x \<longrightarrow> (\<exists>y. nt_sent s' = nt_sent s @ [(me, p, Inr y)]) \<and> nt_command s' = None
        \<and> get (get x ''document'') ''id'' = JStr R)"
proof -
  obtain x s1 where prepare: "prepare_network c s = (x, s1)" by force
  have "sent_is (nt_sent s) s \<and> nt_command s = Some p" using stored(1) by (simp add: sent_is_def)
  then have "sent_is (nt_sent s) (snd (prepare_network c s)) \<and> nt_command (snd (prepare_network c s)) = Some p"
    using keeps_prepare [OF sent_blind(2) [of "nt_sent s" "Some p"], of c] unfolding keeps_conv by blast
  then have s1: "nt_sent s1 = nt_sent s" "nt_command s1 = Some p" by (simp_all add: prepare sent_is_def)
  show ?thesis
  proof (cases x)
    case (Inl e)
    then have "(r, s') = (Inl e, s1)" using call prepare by (simp add: relationship_command_def net_then_def)
    then show ?thesis using s1 by simp
  next
    case (Inr m)
    have m: "m = me"
      using prepare me unfolding Inr prepare_network_def only_identity_def
      by (auto simp: net_then_def net_call_def split: if_splits prod.splits sum.splits) (metis fst_conv)+
    obtain y s2 where send: "sendPending c me True p s1 = (y, s2)" by force
    note sent = recovered_sends [OF honest about send]
    have recover: "recoverPending c me s1 = (map_sum id Some y, s2)"
      using stored(2) s1(2) send
      by (simp add: recoverPending_def net_then_def load_command_def net_return_def split: sum.split)
    show ?thesis
    proof (cases y)
      case (Inl e)
      then have "(r, s') = (Inl e, s2)" using call prepare recover by (simp add: relationship_command_def net_then_def Inr m)
      then show ?thesis using sent s1 by auto
    next
      case y: (Inr result)
      then have "get (get result ''document'') ''id'' = JStr R" using sent by blast
      then have "(r, s') = (Inr result, s2)"
        using call prepare recover y by (simp add: relationship_command_def net_then_def net_return_def Inr m)
      then show ?thesis using sent s1 y by auto
    qed
  qed
qed

text \<open>
  The check of a document does not look at the third party: a document of a relationship between \<open>a\<close> and \<open>b\<close> may
  name \<open>c\<close> as the peer.
\<close>

lemma peer_may_be_a_third_party:
  assumes "a \<noteq> b" and "c \<noteq> a"
  shows "assertProjection a JUndef (JObj [(''requesterTetiId'', JStr a), (''addresseeTetiId'', JStr b), (''peerTetiId'', JStr c),
    (''direction'', JStr ''outgoing'')]) = None"
  using assms by (simp add: assertProjection_def)

section \<open>Examples\<close>

definition net_me :: string where "net_me = ''teti_aaaaaaaaa''"
definition net_peer :: string where "net_peer = ''teti_bbbbbbbbb''"
definition net_relationship :: string where "net_relationship = ''rel_aaaaaaaaaaaaaaaaaaaaaA''"

definition net_document :: json where
  "net_document = JObj [(''id'', JStr net_relationship), (''revision'', jint 1), (''state'', JStr ''confirmed''),
     (''peerTetiId'', JStr net_peer), (''requesterTetiId'', JStr net_me), (''addresseeTetiId'', JStr net_peer),
     (''direction'', JStr ''outgoing'')]"

definition net_result :: json where
  "net_result = JObj [(''document'', net_document)]"

text \<open>A network with one relationship, which does not answer a request.\<close>

definition sample_network :: "unit net_client" where
  "sample_network = \<lparr>
     nc_bootstrap = (\<lambda>w. (Inr (JObj [(''protocolVersion'', jint 1), (''contractRevision'', jint 8),
       (''capabilities'', JObj (map (\<lambda>k. (k, JBool True)) required_capabilities))]), w)),
     nc_identity = (\<lambda>w. (Inr net_me, w)), nc_get = (\<lambda>me i w. (if i = net_relationship then Inr net_result
       else Inl (NetworkError ''RELATIONSHIP_NOT_FOUND'' ''relationship_get'' ''none'' False), w)),
     nc_with_peer = (\<lambda>me i w. (Inl (NetworkError ''RELATIONSHIP_NOT_FOUND'' ''relationship_get_by_peer'' ''none'' False), w)),
     nc_authorization = (\<lambda>me i w. (Inr JNull, w)),
     nc_snapshot = (\<lambda>me cursor w. (Inr \<lparr>sp_items = [net_document], sp_base = ''rcp_1'', sp_next = None\<rparr>, w)),
     nc_changes = (\<lambda>me cp w. (Inr \<lparr>cp_items = [], cp_checkpoint = ''rcp_2'', cp_more = False\<rparr>, w)),
     nc_send = (\<lambda>me p w. (if get p ''operation'' = JStr ''request''
       then Inl (NetworkError ''NETWORK_TIMEOUT'' ''relationship_request'' ''timeout'' True)
       else if get p ''relationshipId'' = JStr net_relationship then Inr net_result
       else Inl (NetworkError ''RELATIONSHIP_NOT_FOUND'' ''relationship_command'' ''none'' False), w)),
     nc_apply = (\<lambda>d w. (Inr (), w)), nc_key = (\<lambda>operation w. (Inr ''relationship.request:1'', w)),
     nc_parse = (\<lambda>s. Some (command_body ''request'' net_peer (jint 0)))\<rparr>"

definition sample_reconciled :: "unit net_state" where
  "sample_reconciled = snd (reconcile_relationships 1 sample_network (fresh_net ()))"

lemma sample_reconciled_checkpoint: "nt_checkpoint sample_reconciled = Some (net_me, ''rcp_2'')"
  by code_simp

theorem checkpoint_never_runs_ahead_witness:
  "covered sample_network net_me (set (nt_applied sample_reconciled)) ''rcp_2''"
proof (rule checkpoint_never_runs_ahead)
  have "net_step sample_network (fresh_net ()) sample_reconciled"
    unfolding sample_reconciled_def by (rule net_step.reconcile) (rule prod.collapse [symmetric])
  then show "(net_step sample_network)\<^sup>*\<^sup>* (fresh_net ()) sample_reconciled" by simp
qed (rule sample_reconciled_checkpoint)




definition interrupted_revocation :: "unit net_state" where
  "interrupted_revocation = (fresh_net ())\<lparr>nt_compatible := True,
     nt_command := Some (new_command net_me ''revoke'' net_relationship (jint 1) ''relationship.revoke:1'')\<rparr>"

lemma interrupted_blocks:
  "fst (relationship_command sample_network net_relationship ''block'' interrupted_revocation) = Inr net_result"
  by code_simp

theorem recovered_command_answers_for_another_witness:
  "fst (relationship_command sample_network net_relationship ''block'' interrupted_revocation) = Inr net_result
    \<and> map (\<lambda>(m, p, a). get p ''operation'') (nt_sent (snd (relationship_command sample_network net_relationship ''block'' interrupted_revocation)))
        = [JStr ''revoke'']"
proof -
  let ?p = "new_command net_me ''revoke'' net_relationship (jint 1) ''relationship.revoke:1''"
  obtain s' where run: "relationship_command sample_network net_relationship ''block'' interrupted_revocation = (Inr net_result, s')"
    using interrupted_blocks by (metis prod.collapse)
  have me: "only_identity sample_network net_me" by (simp add: only_identity_def sample_network_def)
  have "get (get net_result ''document'') ''id'' = JStr net_relationship" by (simp add: net_result_def net_document_def)
  then have honest: "answers_about sample_network"
    by (auto simp: answers_about_def sample_network_def split: if_splits)
  have about: "get ?p ''operation'' \<noteq> JStr ''request''" "get ?p ''relationshipId'' = JStr net_relationship"
    "nt_command interrupted_revocation = Some ?p" "get ?p ''tetiId'' = JStr net_me" "nt_sent interrupted_revocation = []"
    by (simp_all add: new_command_def interrupted_revocation_def fresh_net_def)
  obtain y where "nt_sent s' = [(net_me, ?p, Inr y)]"
    using recovered_command_answers_for_another [OF me honest about(3,4,1,2) run] about(5) by auto
  then show ?thesis using run by (simp add: new_command_def)
qed

end
