(* ===== verification/Spec2Isabelle.thy ===== *)
theory Spec2Isabelle
  imports Public_Id Workspace Execution_Registry Adapter Task_Machine First_Launch Delegation
    Connection_Guarantees Task_Guarantees Kernel_Refinement Run_Guarantees Memory_Guarantees
    Workspace_Guarantees Release_Guarantees App_Guarantees Account_Guarantees
    Stage_Starts Outbox_Guarantees Relationship_Guarantees
begin

text \<open>
  A verification library for Teti, a desktop companion that connects local agents of several users. The
  program is written in TypeScript: \<open>core/\<close> holds the contracts (validators, small state machines,
  protocols), \<open>apps/desktop/lifecycle-sidecar/\<close> the local runtime with its stores, \<open>services/\<close> the client
  of the Teti Network and \<open>apps/desktop/src/\<close> the window.

  \<^bold>\<open>Values of the language.\<close> \<open>Js_Prelude\<close> models what the source uses of JavaScript: parsed JSON
  values (\<open>json\<close>, with \<open>undefined\<close> as the value of a missing property), property access, spread,
  truthiness, \<open>JSON.stringify\<close>, sorting of strings, \<open>find\<close> and \<open>findIndex\<close>, the regular expressions
  that several files share, and thrown errors as the left values of \<open>result\<close>. Numbers are the integers
  and an uninterpreted rest (\<open>NInt\<close>, \<open>NFrac\<close>, ...). Strings are lists of characters, each standing for a
  code unit below 256. \<open>===\<close> on parsed values is structural equality, which differs from the language
  only for arrays and objects, and the code compares primitive values. \<open>Js_Date\<close> computes \<open>Date.parse\<close>
  on the ISO format, the only format a writer of the program produces, and \<open>toISOString\<close>.
  Messages that the source has in Chinese are replaced by an English gloss.

  \<^bold>\<open>Theories and the code they model.\<close>
  \<^item> \<open>Public_Id\<close>: \<open>core/identity/public-id.ts\<close>, identifiers and relay addresses.
  \<^item> \<open>Workspace\<close>: \<open>core/workspace/\<close> and \<open>core/application/local-path.ts\<close>, the contracts of shared
    workspaces; accepted paths stay inside the workspace.
  \<^item> \<open>Execution\<close>, \<open>Execution_Store\<close>, \<open>Execution_Registry\<close>: \<open>core/callability/execution.ts\<close> and
    \<open>lifecycle-sidecar/runtime/callable/execution-store.ts\<close>. The handle store is a record; every operation
    of \<open>DurableExecutionRegistry\<close> maps a state to an error or a new state with its answer, and \<open>mutate\<close>
    composes it with load and save. The locale \<open>handle_store\<close> states what the registry needs of a store
    and is interpreted on the memory and the file store. \<open>registry_step\<close> is one committed operation.
  \<^item> \<open>Adapter\<close>, \<open>Task_Machine\<close>: \<open>core/callability/adapter.ts\<close>, \<open>types.ts\<close> and \<open>task-machine.ts\<close>, the
    contract between the runtime and a local agent and the life of one task in it.
  \<^item> \<open>First_Launch\<close>: \<open>apps/desktop/src/first-launch/state-machine.ts\<close>.
  \<^item> \<open>Delegation\<close>: \<open>core/delegation/\<close>, the planner and the validator of delegation plans.
  \<^item> \<open>Connection\<close>, \<open>Connection_Store\<close>, \<open>Handshake\<close>, \<open>Connection_Guarantees\<close>: \<open>core/connection/\<close>, the
    messages, the two storages (locale \<open>connection_storage\<close>), the handshake operations with the
    messages they send, and what they guarantee of the stored records.
  \<^item> \<open>Task_Contract\<close>, \<open>Long_Horizon\<close>, \<open>Task_Transport\<close>: \<open>core/task/\<close>, the task request, the session of a
    long-horizon collaboration, and the payloads of the messages two peers exchange about a task.
  \<^item> \<open>Task_Store\<close>: \<open>lifecycle-sidecar/runtime/tasks/store.ts\<close>, the file of task records (\<open>task_store\<close>), its
    migration and the validator that decides which records load.
  \<^item> \<open>Task_Records\<close>, \<open>Task_Lifecycle\<close>, \<open>Task_Service\<close>, \<open>Task_Messages\<close>, \<open>Task_Commands\<close>:
    \<open>lifecycle-sidecar/runtime/tasks/service.ts\<close>. The first two hold the functions that change one record
    (attention marks, delivery marks, audits, expiry, cancelation, receipts, capacity), the others one
    definition per operation of \<open>TaskTransportRuntime\<close>: sending, what a peer's message does, what the
    local user asks for. An operation maps the loaded store to an \<open>outcome\<close>: the store it saved last
    (\<open>None\<close> when it saved nothing) and its result or error. An operation that fails after a save is
    thereby told from one that fails before it.
  \<^item> \<open>Task_Guarantees\<close>: what the operations of the service guarantee of the records.
  \<^item> \<open>Task_Texts\<close>, \<open>Task_Stages\<close>, \<open>Task_Approval\<close>: the part of \<open>tasks/service.ts\<close> that starts executions: the
    instruction of a stage and its cut at the size of a task (\<open>boundedStageInstruction\<close>, \<open>truncateUtf8\<close>), the
    start of a stage (\<open>startLongHorizonStage\<close>, whose answer \<open>stage_result\<close> tells what was saved before an
    error) and the operations \<open>approve\<close>, \<open>approveDelegation\<close>, \<open>continueLongHorizon\<close> and \<open>resume\<close>. What the
    executor is asked to run is the record \<open>launch\<close>.
  \<^item> \<open>Task_Endings\<close>, \<open>Task_Recovery\<close>: how an execution ends (\<open>finishSingleStageExecution\<close>,
    \<open>finishLongHorizonStage\<close>, \<open>completeDelegation\<close>), and what the service does with the executions it finds when
    it starts or polls (\<open>reconcileInterruptedExecutions\<close>, \<open>initializeReadModel\<close>). The loop over the records
    keeps the records in memory apart from what was saved last (\<open>recovery_state\<close>).
  \<^item> \<open>Task_Outbox\<close>: \<open>trySendPendingForRecord\<close> and \<open>flushOutbox\<close>, what one record owes its peer and in which
    order it is sent (\<open>delivery\<close> holds the record, the messages so far and whether to go on).
  \<^item> \<open>Stage_Guarantees\<close>, \<open>Stage_Ends\<close>, \<open>Stage_Starts\<close>, \<open>Outbox_Guarantees\<close>: the cut of a text is the longest
    prefix that fits, no execution starts without a stored record, a stage ends once, and what keeps the
    outbox from making progress.
  \<^item> \<open>Agent_Core\<close>, \<open>Agent_Guarantees\<close>: \<open>core/callability/agent-core.ts\<close>, connectors, execution specifications and
    the authority that binds one execution to its request. \<open>Json_Text\<close> shows that \<open>JSON.stringify\<close> is injective
    on the values it is used for, which makes the digest of the request depend on the whole request.
  \<^item> \<open>Host_Kernel\<close>, \<open>Kernel_Guarantees\<close>, \<open>Kernel_Properties\<close>, \<open>Kernel_Refinement\<close>:
    \<open>lifecycle-sidecar/runtime/callable/kernel.ts\<close>, class \<open>TetiHostAgentKernel\<close>. \<open>kernel_step\<close> is one call or one
    event; the kernel refines a scheduler (\<open>sched\<close>) with slots and one queue for each child Agent, through
    the locale \<open>simulation\<close>.
  \<^item> \<open>Kernel_Run\<close>, \<open>Child_Input\<close>, \<open>Run_Guarantees\<close>: one execution (\<open>run\<close>) with the awaited answers in the record
    \<open>run_world\<close>, what it feeds to a child Agent (the workspace context, the envelopes of memory) and what it
    reads from one (\<open>BoundedProcessOutput\<close>, the diagnostics of the image runner).
  \<^item> \<open>Child_Memory\<close>, \<open>Memory_Guarantees\<close>: \<open>core/memory/\<close> and \<open>lifecycle-sidecar/runtime/memory/service.ts\<close>, the
    memory of the child Agents; the locale \<open>child_memory_store\<close> is interpreted on both stores.
  \<^item> \<open>Workspace_Store\<close>, \<open>Workspace_Guarantees\<close>: \<open>lifecycle-sidecar/runtime/workspaces/store.ts\<close>, the directories
    and files of the shared workspaces on an abstract disk, with the point at which a write is interrupted.
  \<^item> \<open>Release_Policy\<close>, \<open>Release_Guarantees\<close>: \<open>core/release/policy.ts\<close>, \<open>lifecycle-sidecar/runtime/release/service.ts\<close>
    and the release gate of \<open>handler.ts\<close>; the order of versions is an instance of \<open>linorder\<close>.
  \<^item> \<open>Ai_Status\<close>, \<open>App_Protocol\<close>, \<open>App_Manager\<close>, \<open>App_Guarantees\<close>: \<open>core/ai-status/\<close>, \<open>core/protocol/\<close>,
    \<open>core/application/manager.ts\<close> and \<open>handlers.ts\<close>, the status two peers share and the envelopes that carry
    every message between them. The locale \<open>remembering_tracker\<close> is interpreted on both message trackers.
  \<^item> \<open>Account\<close>, \<open>Account_Guarantees\<close>: \<open>core/account/\<close> and the public profile of \<open>core/environment/scanner.ts\<close>; the
    locale \<open>account_keeper\<close> is interpreted on both account storages.
  \<^item> \<open>Relationship_Service\<close>, \<open>Relationship_Guarantees\<close>: \<open>services/network/relationship-service.ts\<close> with its stores.
    The client is a record of functions that answer or throw; the loops over pages run for a given number of
    pages, after which the process ends, so the theorems hold for a process that ends anywhere.

  \<^bold>\<open>What the lemmas show.\<close> Each theory ends with its properties, numbered C1, C2 and so on: invariants
  of the stores over all sequences of operations, the effect of each operation on every branch, errors
  that leave the state alone, round trips through the files, and bounds. Several state what the code
  does where it is not what it means to do; their text says so.

  \<^bold>\<open>Parameters.\<close> The file system (real path, copy, digest), messaging, the account, generated
  identifiers and the clock are arguments of the operations that use them. An operation of the task
  service reads the clock once, where the code may read it several times within the same operation, and
  draws its identifiers from a function of a counter. The intermediate saves of a send are folded into
  the last one. Every loop of the modelled code is structural recursion over a list, but
  for the binary search \<open>cut_search\<close>, whose interval shrinks, and the loops over the pages of the network, where the
  number of pages after which the process ends is an argument (nothing is claimed of a run that ends there but what
  holds of every run). An operation that starts an execution answers with
  the \<open>launch\<close>; the messages it sends at its end, after the save, are those of \<open>trySendPendingForRecord\<close>, and
  are not part of its answer.

  \<^bold>\<open>Not modelled.\<close> Input and output of the stores below the level of a whole file, timers, processes,
  HTTP, SQLite (and with it the structured memory of a task), DOM rendering, packaging scripts, and the
  parts listed as such in the manifest.
\<close>

end
